(* ===== verification/AG_Prelude.thy ===== *)
theory AG_Prelude
  imports
    Main
    "HOL-Library.AList"
    "HOL-Library.Char_ord"
    "HOL-Library.List_Lexorder"
    "HOL-Library.Product_Lexorder"
    "HOL-Library.Word"
begin

text \<open>
  Shared vocabulary of the agent-gate development: the Go types the components use
  (byte strings, \<^verbatim>\<open>time.Time\<close>, \<^verbatim>\<open>time.Duration\<close>, 64-bit integers), the functions of
  the Go standard library they call on them, and generic facts about folds, sums over
  association lists and lexicographic orders that several components rely on.

  A Go string or byte slice is a \<^typ>\<open>string\<close> whose characters are its bytes. A
  \<^verbatim>\<open>time.Time\<close> is the number of nanoseconds since Go's zero time, so \<^verbatim>\<open>IsZero\<close> is
  equality with 0. A Go \<^verbatim>\<open>int\<close> that only counts bytes or entries is an \<^typ>\<open>int\<close>; where
  the 64-bit width is observable the wrap-around is written with \<open>to_int64\<close>.
\<close>

section \<open>Types of the Go runtime\<close>

type_synonym bytes = string
type_synonym go_time = int
type_synonym go_duration = int

named_theorems ag_defs "definitions that component proofs unfold by default"

definition max_int64 :: int where
  "max_int64 = 9223372036854775807"

definition min_int64 :: int where
  "min_int64 = -9223372036854775808"

text \<open>Two's complement conversion to \<^verbatim>\<open>int64\<close>, the result of every 64-bit operation.\<close>

definition to_int64 :: "int \<Rightarrow> int" where
  "to_int64 x = (x + 9223372036854775808) mod 18446744073709551616 - 9223372036854775808"

lemma to_int64_range: "min_int64 \<le> to_int64 x \<and> to_int64 x \<le> max_int64"
proof -
  have "0 \<le> (x + 9223372036854775808) mod 18446744073709551616"
    and "(x + 9223372036854775808) mod 18446744073709551616 < 18446744073709551616"
    by (rule pos_mod_sign pos_mod_bound, simp)+
  then show ?thesis unfolding to_int64_def min_int64_def max_int64_def by linarith
qed

lemma to_int64_id:
  assumes "min_int64 \<le> x" and "x \<le> max_int64"
  shows "to_int64 x = x"
  using assms by (simp add: to_int64_def min_int64_def max_int64_def)

definition millisecond :: go_duration where
  "millisecond = 1000000"

text \<open>\<^verbatim>\<open>time.Duration(ms) * time.Millisecond\<close>: an int64 product, which wraps.\<close>

definition duration_of_ms :: "int \<Rightarrow> go_duration" where
  "duration_of_ms ms = to_int64 (ms * millisecond)"

text \<open>The largest millisecond count whose duration is representable.\<close>

definition max_duration_ms :: int where
  "max_duration_ms = 9223372036854"

lemma duration_of_ms_exact:
  assumes "0 \<le> ms" and "ms \<le> max_duration_ms"
  shows "duration_of_ms ms = ms * 1000000"
proof -
  have "ms * 1000000 \<le> 9223372036854 * 1000000"
    using assms by (simp add: max_duration_ms_def)
  then show ?thesis
    using assms by (simp add: duration_of_ms_def millisecond_def to_int64_id
        min_int64_def max_int64_def)
qed

text \<open>\<^verbatim>\<open>Time.IsZero\<close>, \<^verbatim>\<open>Time.Add\<close>, \<^verbatim>\<open>Time.Sub\<close> (which saturates) and \<^verbatim>\<open>Duration.Milliseconds\<close>
  (which truncates towards zero).\<close>

definition IsZero :: "go_time \<Rightarrow> bool" where
  "IsZero t = (t = 0)"

definition time_add :: "go_time \<Rightarrow> go_duration \<Rightarrow> go_time" where
  "time_add t d = t + d"

definition time_sub :: "go_time \<Rightarrow> go_time \<Rightarrow> go_duration" where
  "time_sub t u = max min_int64 (min max_int64 (t - u))"

definition quot_trunc :: "int \<Rightarrow> int \<Rightarrow> int" where
  "quot_trunc a b = sgn a * sgn b * (\<bar>a\<bar> div \<bar>b\<bar>)"

definition duration_milliseconds :: "go_duration \<Rightarrow> int" where
  "duration_milliseconds d = quot_trunc d 1000000"

lemma time_sub_exact:
  assumes "min_int64 \<le> t - u" and "t - u \<le> max_int64"
  shows "time_sub t u = t - u"
  using assms by (simp add: time_sub_def)

section \<open>Strings\<close>

definition HasPrefix :: "string \<Rightarrow> string \<Rightarrow> bool" where
  "HasPrefix s p = (take (length p) s = p)"

lemma HasPrefix_append [simp]: "HasPrefix (p @ s) p"
  by (simp add: HasPrefix_def)

lemma HasPrefix_iff: "HasPrefix s p \<longleftrightarrow> (\<exists>t. s = p @ t)"
  unfolding HasPrefix_def by (metis append_eq_conv_conj append_take_drop_id)

definition contains_nul :: "string \<Rightarrow> bool" where
  "contains_nul s = (CHR 0x00 \<in> set s)"

text \<open>\<^verbatim>\<open>strings.Contains\<close>.\<close>

fun Contains :: "string \<Rightarrow> string \<Rightarrow> bool" where
  "Contains [] p = (p = [])"
| "Contains (c # s) p = (HasPrefix (c # s) p \<or> Contains s p)"

lemma Contains_iff: "Contains s p \<longleftrightarrow> (\<exists>a b. s = a @ p @ b)"
proof (induction s)
  case Nil
  then show ?case by auto
next
  case (Cons c s)
  have "(\<exists>a b. c # s = a @ p @ b) \<longleftrightarrow> (\<exists>b. c # s = p @ b) \<or> (\<exists>a b. s = a @ p @ b)"
  proof
    assume "\<exists>a b. c # s = a @ p @ b"
    then obtain a b where ab: "c # s = a @ p @ b" by blast
    show "(\<exists>b. c # s = p @ b) \<or> (\<exists>a b. s = a @ p @ b)"
      using ab by (cases a) auto
  next
    assume "(\<exists>b. c # s = p @ b) \<or> (\<exists>a b. s = a @ p @ b)"
    then show "\<exists>a b. c # s = a @ p @ b"
      by (metis append_Cons append_Nil)
  qed
  then show ?case using Cons.IH by (simp add: HasPrefix_iff)
qed

text \<open>\<^verbatim>\<open>strings.Split\<close> with a one-byte separator, and \<^verbatim>\<open>strings.Join\<close>.\<close>

fun Split :: "char \<Rightarrow> string \<Rightarrow> string list" where
  "Split c [] = [[]]"
| "Split c (x # xs) =
     (if x = c then [] # Split c xs
      else (case Split c xs of [] \<Rightarrow> [[x]] | p # ps \<Rightarrow> (x # p) # ps))"

fun Join :: "string list \<Rightarrow> string \<Rightarrow> string" where
  "Join [] sep = []"
| "Join [p] sep = p"
| "Join (p # q # ps) sep = p @ sep @ Join (q # ps) sep"

lemma Split_not_Nil [simp]: "Split c s \<noteq> []"
  by (induction s) (auto split: list.splits)

lemma Join_Split: "Join (Split c s) [c] = s"
proof (induction s)
  case Nil
  then show ?case by simp
next
  case (Cons x xs)
  obtain p ps where ps: "Split c xs = p # ps"
    by (cases "Split c xs") auto
  show ?case using Cons.IH ps by (cases ps) auto
qed

lemma Split_parts_no_sep: "p \<in> set (Split c s) \<Longrightarrow> c \<notin> set p"
  by (induction s arbitrary: p) (auto split: list.splits if_splits)

text \<open>
  \<^verbatim>\<open>strings.TrimSpace\<close> removes leading and trailing runes for which \<^verbatim>\<open>unicode.IsSpace\<close>
  holds; these are their UTF-8 encodings.
\<close>

definition space_encodings :: "string list" where
  "space_encodings =
     [[CHR 0x09], [CHR 0x0A], [CHR 0x0B], [CHR 0x0C], [CHR 0x0D], [CHR 0x20],
      [CHR 0xC2, CHR 0x85], [CHR 0xC2, CHR 0xA0], [CHR 0xE1, CHR 0x9A, CHR 0x80],
      [CHR 0xE2, CHR 0x80, CHR 0x80], [CHR 0xE2, CHR 0x80, CHR 0x81],
      [CHR 0xE2, CHR 0x80, CHR 0x82], [CHR 0xE2, CHR 0x80, CHR 0x83],
      [CHR 0xE2, CHR 0x80, CHR 0x84], [CHR 0xE2, CHR 0x80, CHR 0x85],
      [CHR 0xE2, CHR 0x80, CHR 0x86], [CHR 0xE2, CHR 0x80, CHR 0x87],
      [CHR 0xE2, CHR 0x80, CHR 0x88], [CHR 0xE2, CHR 0x80, CHR 0x89],
      [CHR 0xE2, CHR 0x80, CHR 0x8A], [CHR 0xE2, CHR 0x80, CHR 0xA8],
      [CHR 0xE2, CHR 0x80, CHR 0xA9], [CHR 0xE2, CHR 0x80, CHR 0xAF],
      [CHR 0xE2, CHR 0x81, CHR 0x9F], [CHR 0xE3, CHR 0x80, CHR 0x80]]"

function trim_front :: "string list \<Rightarrow> string \<Rightarrow> string" where
  "trim_front encs s =
     (case find (\<lambda>e. e \<noteq> [] \<and> HasPrefix s e) encs of
        None \<Rightarrow> s
      | Some e \<Rightarrow> trim_front encs (drop (length e) s))"
  by pat_completeness auto
termination
  by (relation "measure (\<lambda>(encs, s). length s)")
     (auto simp: find_Some_iff HasPrefix_iff)

declare trim_front.simps [simp del]

definition TrimSpace :: "string \<Rightarrow> string" where
  "TrimSpace s =
     rev (trim_front (map rev space_encodings) (rev (trim_front space_encodings s)))"

lemma trim_front_Nil [simp]: "trim_front encs [] = []"
proof -
  have "find (\<lambda>e. e \<noteq> [] \<and> HasPrefix [] e) encs = None"
    by (auto simp: find_None_iff HasPrefix_def)
  then show ?thesis by (subst trim_front.simps) simp
qed

lemma TrimSpace_Nil [simp]: "TrimSpace [] = []"
  by (simp add: TrimSpace_def)

text \<open>
  \<^verbatim>\<open>strings.ToUpper\<close> and \<^verbatim>\<open>strings.ToLower\<close>, up to runes whose image is not ASCII: those are
  left alone, which decides the same comparisons with ASCII words.  Four runes outside ASCII have
  an ASCII image: U+0131 and U+017F in upper case, U+0130 and U+212A in lower case.
\<close>

definition upper_char :: "char \<Rightarrow> char" where
  "upper_char c = (if 97 \<le> (of_char c :: nat) \<and> (of_char c :: nat) \<le> 122
                   then char_of ((of_char c :: nat) - 32) else c)"

definition lower_char :: "char \<Rightarrow> char" where
  "lower_char c = (if 65 \<le> (of_char c :: nat) \<and> (of_char c :: nat) \<le> 90
                   then char_of ((of_char c :: nat) + 32) else c)"

function (sequential) replace_runes :: "(bytes \<times> bytes) list \<Rightarrow> bytes \<Rightarrow> bytes" where
  "replace_runes table [] = []"
| "replace_runes table (c # cs) =
     (case find (\<lambda>(from, to). from \<noteq> [] \<and> HasPrefix (c # cs) from) table of
        Some (from, to) \<Rightarrow> to @ replace_runes table (drop (length from) (c # cs))
      | None \<Rightarrow> c # replace_runes table cs)"
  by pat_completeness auto
termination
  by (relation "measure (\<lambda>(t, s). length s)") (auto simp: find_Some_iff HasPrefix_iff)

definition ToUpper :: "string \<Rightarrow> string" where
  "ToUpper s = map upper_char
     (replace_runes [([CHR 0xC4, CHR 0xB1], ''I''), ([CHR 0xC5, CHR 0xBF], ''S'')] s)"

definition ToLower :: "string \<Rightarrow> string" where
  "ToLower s = map lower_char
     (replace_runes [([CHR 0xC4, CHR 0xB0], ''i''), ([CHR 0xE2, CHR 0x84, CHR 0xAA], ''k'')] s)"

section \<open>Folds and association lists\<close>

lemma fold_preserves:
  assumes "P s" and "\<And>x s. x \<in> set xs \<Longrightarrow> P s \<Longrightarrow> P (f x s)"
  shows "P (fold f xs s)"
  using assms by (induction xs arbitrary: s) auto

lemma fold_const:
  assumes "\<And>x s. g (f x s) = g s"
  shows "g (fold f xs s) = g s"
  using assms by (induction xs arbitrary: s) auto

text \<open>The sum of a charge over an association list, and how update and delete change it.\<close>

definition alist_sum :: "('k \<times> 'v \<Rightarrow> int) \<Rightarrow> ('k \<times> 'v) list \<Rightarrow> int" where
  "alist_sum c xs = sum_list (map c xs)"

lemma alist_sum_Nil [simp]: "alist_sum c [] = 0"
  by (simp add: alist_sum_def)

lemma alist_sum_Cons [simp]: "alist_sum c (p # xs) = c p + alist_sum c xs"
  by (simp add: alist_sum_def)

lemma alist_sum_nonneg:
  "(\<And>p. p \<in> set xs \<Longrightarrow> 0 \<le> c p) \<Longrightarrow> 0 \<le> alist_sum c xs"
  unfolding alist_sum_def by (rule sum_list_nonneg) auto

lemma alist_delete_not_in:
  "k \<notin> fst ` set xs \<Longrightarrow> AList.delete k xs = xs"
  by (rule delete_id)

lemma alist_sum_delete:
  assumes "distinct (map fst xs)" and "map_of xs k = Some v"
  shows "alist_sum c (AList.delete k xs) = alist_sum c xs - c (k, v)"
  using assms
proof (induction xs)
  case (Cons p xs)
  then show ?case
    by (cases p) (auto split: if_splits)
qed simp

lemma alist_sum_update_new:
  assumes "map_of xs k = None"
  shows "alist_sum c (AList.update k v xs) = alist_sum c xs + c (k, v)"
  using assms by (induction xs) (auto split: if_splits)

lemma alist_sum_update_old:
  assumes "distinct (map fst xs)" and "map_of xs k = Some w"
  shows "alist_sum c (AList.update k v xs) = alist_sum c xs - c (k, w) + c (k, v)"
  using assms
proof (induction xs)
  case (Cons p xs)
  then show ?case by (cases p) (auto split: if_splits)
qed simp

lemma length_alist_update:
  "length (AList.update k v xs) = (if map_of xs k = None then Suc (length xs) else length xs)"
  by (induction xs) auto

lemma length_alist_delete:
  assumes "distinct (map fst xs)"
  shows "length (AList.delete k xs) = (if map_of xs k = None then length xs else length xs - 1)"
  using assms
proof (induction xs)
  case (Cons p xs)
  obtain a b where p: "p = (a, b)" by (cases p)
  have pos: "map_of xs k \<noteq> None \<Longrightarrow> length xs > 0"
    by (cases xs) auto
  have a: "map_of xs a = None"
    using Cons.prems p by (simp add: map_of_eq_None_iff)
  show ?case using Cons p pos a by (cases "map_of xs k") auto
qed simp

lemma set_alist_delete: "set (AList.delete k xs) = {p \<in> set xs. fst p \<noteq> k}"
  by (induction xs) auto

lemma set_alist_update_subset: "set (AList.update k v xs) \<subseteq> insert (k, v) (set xs)"
  by (induction xs) auto

lemma map_of_filter_snd:
  assumes "distinct (map fst xs)"
  shows "map_of (filter (\<lambda>q. P (snd q)) xs) k =
    (case map_of xs k of Some e \<Rightarrow> if P e then Some e else None | None \<Rightarrow> None)"
  using assms
proof (induction xs)
  case (Cons q xs)
  obtain a b where q: "q = (a, b)" by (cases q)
  have "map_of xs a = None" using Cons.prems q by (simp add: map_of_eq_None_iff)
  then show ?case using Cons q by auto
qed simp

lemma map_of_in_set: "map_of xs k = Some v \<Longrightarrow> (k, v) \<in> set xs"
  by (rule map_of_SomeD)

section \<open>Runes\<close>

text \<open>
  The conversion \<^verbatim>\<open>[]rune(command)\<close>: each rune as the bytes that \<^verbatim>\<open>WriteRune\<close> writes for it.  An
  ill-formed byte becomes U+FFFD.
\<close>

definition cont_in :: "bytes \<Rightarrow> nat \<Rightarrow> nat \<Rightarrow> nat \<Rightarrow> bool" where
  "cont_in s i lo hi \<longleftrightarrow>
     i < length s \<and> lo \<le> (of_char (s ! i) :: nat) \<and> (of_char (s ! i) :: nat) \<le> hi"

definition rune_width :: "bytes \<Rightarrow> nat" where
  "rune_width s =
     (case s of
        [] \<Rightarrow> 0
      | c # cs \<Rightarrow>
          let b = (of_char c :: nat) in
          if b < 0x80 then 1
          else if 0xC2 \<le> b \<and> b \<le> 0xDF then (if cont_in s 1 0x80 0xBF then 2 else 0)
          else if 0xE0 \<le> b \<and> b \<le> 0xEF then
            (if cont_in s 1 (if b = 0xE0 then 0xA0 else 0x80) (if b = 0xED then 0x9F else 0xBF)
                \<and> cont_in s 2 0x80 0xBF then 3 else 0)
          else if 0xF0 \<le> b \<and> b \<le> 0xF4 then
            (if cont_in s 1 (if b = 0xF0 then 0x90 else 0x80) (if b = 0xF4 then 0x8F else 0xBF)
                \<and> cont_in s 2 0x80 0xBF \<and> cont_in s 3 0x80 0xBF then 4 else 0)
          else 0)"

definition rune_error :: bytes where
  "rune_error = [CHR 0xEF, CHR 0xBF, CHR 0xBD]"

function (sequential) runes :: "bytes \<Rightarrow> bytes list" where
  "runes [] = []"
| "runes (c # cs) =
     (if rune_width (c # cs) = 0 then rune_error # runes cs
      else take (rune_width (c # cs)) (c # cs) # runes (drop (rune_width (c # cs)) (c # cs)))"
  by pat_completeness auto
termination by (relation "measure length") auto

section \<open>Errors as values\<close>

text \<open>
  A Go function that returns only an error returns \<^term>\<open>None\<close> for nil and \<^term>\<open>Some\<close> message
  otherwise; a chain of guarded early returns is a list of conditions with their messages, and a
  function that returns a value or an error is a sum.  Messages are kept without the rule names,
  indexes and quoted values that the code formats into them.
\<close>

type_synonym go_error = "bytes option"
type_synonym 'a go_result = "bytes + 'a"

fun first_problem :: "(bool \<times> bytes) list \<Rightarrow> go_error" where
  "first_problem [] = None"
| "first_problem ((bad, msg) # gs) = (if bad then Some msg else first_problem gs)"

fun first_error :: "go_error list \<Rightarrow> go_error" where
  "first_error [] = None"
| "first_error (None # es) = first_error es"
| "first_error (Some e # es) = Some e"

definition check_then :: "go_error \<Rightarrow> 'a go_result \<Rightarrow> 'a go_result" where
  "check_then e k = (case e of Some msg \<Rightarrow> Inl msg | None \<Rightarrow> k)"

definition bindE :: "'a go_result \<Rightarrow> ('a \<Rightarrow> 'b go_result) \<Rightarrow> 'b go_result" where
  "bindE r k = (case r of Inl e \<Rightarrow> Inl e | Inr x \<Rightarrow> k x)"

lemma if_Some_None [simp]: "(if b then Some m else x) = None \<longleftrightarrow> \<not> b \<and> x = None"
  by simp

lemma first_problem_None: "first_problem gs = None \<longleftrightarrow> (\<forall>(bad, msg) \<in> set gs. \<not> bad)"
  by (induction gs rule: first_problem.induct) auto

lemma first_error_None: "first_error es = None \<longleftrightarrow> (\<forall>e \<in> set es. e = None)"
  by (induction es rule: first_error.induct) auto

lemma if_Inl_Inr [simp]: "(if b then Inl m else x) = Inr c \<longleftrightarrow> \<not> b \<and> x = Inr c"
  by simp

lemma check_then_Inr [simp]: "check_then e k = Inr x \<longleftrightarrow> e = None \<and> k = Inr x"
  by (cases e) (auto simp: check_then_def)

lemma bindE_Inr [simp]: "bindE r k = Inr y \<longleftrightarrow> (\<exists>x. r = Inr x \<and> k x = Inr y)"
  by (cases r) (auto simp: bindE_def)

lemma bindE_Inr_left [simp]: "bindE (Inr x) k = k x"
  by (simp add: bindE_def)

lemma check_then_None [simp]: "check_then None k = k"
  by (simp add: check_then_def)

section \<open>Unix paths\<close>

text \<open>
  \<^verbatim>\<open>filepath.Clean\<close>, \<^verbatim>\<open>filepath.Join\<close> and \<^verbatim>\<open>filepath.IsAbs\<close> on Unix: empty and \<^verbatim>\<open>.\<close> elements
  are dropped, \<^verbatim>\<open>..\<close> removes the element before it, at the root it is dropped, and at the start of
  a relative path it stays.
\<close>

definition IsAbs :: "bytes \<Rightarrow> bool" where
  "IsAbs path \<longleftrightarrow> HasPrefix path ''/''"

fun clean_elems :: "bool \<Rightarrow> bytes list \<Rightarrow> bytes list \<Rightarrow> bytes list" where
  "clean_elems rooted out [] = rev out"
| "clean_elems rooted out (e # es) =
     (if e = [] \<or> e = ''.'' then clean_elems rooted out es
      else if e = ''..'' then
        (if out \<noteq> [] \<and> hd out \<noteq> ''..'' then clean_elems rooted (tl out) es
         else if rooted then clean_elems rooted out es
         else clean_elems rooted (''..'' # out) es)
      else clean_elems rooted (e # out) es)"

definition Clean :: "bytes \<Rightarrow> bytes" where
  "Clean path =
     (let elems = clean_elems (IsAbs path) [] (Split (CHR ''/'') path) in
      if IsAbs path then ''/'' @ Join elems ''/''
      else if elems = [] then ''.'' else Join elems ''/'')"

definition path_Join :: "bytes list \<Rightarrow> bytes" where
  "path_Join parts =
     (let ps = dropWhile (\<lambda>p. p = []) parts in if ps = [] then [] else Clean (Join ps ''/''))"

definition path_Dir :: "bytes \<Rightarrow> bytes" where
  "path_Dir path = Clean (rev (dropWhile (\<lambda>c. c \<noteq> CHR ''/'') (rev path)))"

end
