(* ===== verification/HotKV.thy ===== *)
theory HotKV
  imports AG_Prelude
begin

text \<open>
  The process-local TTL cache of \<^verbatim>\<open>internal/hotkv\<close>: \<^verbatim>\<open>store.go\<close>, \<^verbatim>\<open>cache_capacity.go\<close>,
  \<^verbatim>\<open>cache_observation.go\<close> and \<^verbatim>\<open>cache_read.go\<close>.

  Every exported method holds the store's mutex for its whole body, so each is one
  state-passing function from the store before to the result and the store after; the
  reading of \<^verbatim>\<open>s.now()\<close> is an argument. The Go map is an association list with distinct
  keys whose order stands for Go's unspecified iteration order. The prune goroutine is
  represented by the interval of the loop that is alive after the call, its tick being the
  operation \<open>PruneExpired\<close>.
\<close>

section \<open>Constants, options and data\<close>

definition InternalNamespacePrefix :: string where
  "InternalNamespacePrefix = ''_agent-gate-internal/''"

definition DefaultMaxEntries :: int where "DefaultMaxEntries = 4096"
definition DefaultMaxValueBytes :: int where "DefaultMaxValueBytes = 1048576"
definition DefaultMaxBytes :: int where "DefaultMaxBytes = 67108864"
definition MaxNamespaceBytes :: nat where "MaxNamespaceBytes = 128"
definition MaxKeyBytes :: nat where "MaxKeyBytes = 2048"

definition IsInternalNamespace :: "string \<Rightarrow> bool" where
  "IsInternalNamespace ns = HasPrefix ns InternalNamespacePrefix"

datatype hotkv_error =
    ErrInvalidNamespace
  | ErrInvalidKey
  | ErrInvalidSetMode
  | ErrValueTooLarge
  | ErrCapacity
  | ErrReadOverflow
  | ErrInvalidReadBudget
  | ErrObservationReceipt
  | ErrSizer string

record Options =
  MaxEntries :: int
  MaxValueBytes :: int
  MaxBytes :: int
  PruneInterval :: go_duration

type_synonym SetMode = string

definition SetModeAny :: SetMode where "SetModeAny = ''''"
definition SetModeNX :: SetMode where "SetModeNX = ''NX''"
definition SetModeXX :: SetMode where "SetModeXX = ''XX''"

record SetOptions =
  Mode :: SetMode
  TTL :: go_duration

record Entry =
  en_Namespace :: string
  en_Key :: string
  en_Value :: bytes
  en_Version :: "64 word"
  en_CreatedAt :: go_time
  en_UpdatedAt :: go_time
  en_ExpiresAt :: go_time

text \<open>\<^verbatim>\<open>ObservationOrder\<close>, ordered by generation and then by receipt.\<close>

datatype ObservationOrder = ObservationOrder (Generation: "64 word") (ReceiptID: int)

fun newerThan :: "ObservationOrder \<Rightarrow> ObservationOrder \<Rightarrow> bool" where
  "newerThan (ObservationOrder g r) (ObservationOrder g' r') =
     (if g \<noteq> g' then g' < g else r' < r)"

definition zeroOrder :: ObservationOrder where
  "zeroOrder = ObservationOrder 0 0"

instantiation ObservationOrder :: linorder
begin

definition less_ObservationOrder :: "ObservationOrder \<Rightarrow> ObservationOrder \<Rightarrow> bool" where
  "a < b \<longleftrightarrow> newerThan b a"

definition less_eq_ObservationOrder :: "ObservationOrder \<Rightarrow> ObservationOrder \<Rightarrow> bool" where
  "a \<le> b \<longleftrightarrow> \<not> newerThan a (b :: ObservationOrder)"

instance
proof
  fix a b c :: ObservationOrder
  obtain g r where a: "a = ObservationOrder g r" by (cases a)
  obtain g' r' where b: "b = ObservationOrder g' r'" by (cases b)
  obtain g'' r'' where c: "c = ObservationOrder g'' r''" by (cases c)
  show "(a < b) = (a \<le> b \<and> \<not> b \<le> a)"
    by (auto simp: a b less_ObservationOrder_def less_eq_ObservationOrder_def split: if_splits)
  show "a \<le> a"
    by (simp add: a less_eq_ObservationOrder_def)
  show "a \<le> b \<Longrightarrow> b \<le> c \<Longrightarrow> a \<le> c"
    by (auto simp: a b c less_eq_ObservationOrder_def split: if_splits)
  show "a \<le> b \<Longrightarrow> b \<le> a \<Longrightarrow> a = b"
    by (auto simp: a b less_eq_ObservationOrder_def split: if_splits)
  show "a \<le> b \<or> b \<le> a"
    by (auto simp: a b less_eq_ObservationOrder_def split: if_splits)
qed

end

lemma newerThan_less [simp]: "newerThan a b \<longleftrightarrow> b < a"
  by (simp add: less_ObservationOrder_def)

declare newerThan.simps [simp del]

text \<open>\<^verbatim>\<open>entryKey\<close>, ordered by namespace and then by key, the tie-break of eviction.\<close>

datatype entryKey = EntryKey (namespace: string) (key: string)

instantiation entryKey :: linorder
begin

definition less_entryKey :: "entryKey \<Rightarrow> entryKey \<Rightarrow> bool" where
  "a < b \<longleftrightarrow> (namespace a, key a) < (namespace b, key b)"

definition less_eq_entryKey :: "entryKey \<Rightarrow> entryKey \<Rightarrow> bool" where
  "a \<le> b \<longleftrightarrow> (namespace a, key a) \<le> (namespace b, key b)"

instance
proof
  fix a b c :: entryKey
  show "(a < b) = (a \<le> b \<and> \<not> b \<le> a)"
    by (simp only: less_entryKey_def less_eq_entryKey_def less_le_not_le)
  show "a \<le> a" by (simp only: less_eq_entryKey_def order_refl)
  show "a \<le> b \<Longrightarrow> b \<le> c \<Longrightarrow> a \<le> c"
    by (simp only: less_eq_entryKey_def)
  show "a \<le> b \<Longrightarrow> b \<le> a \<Longrightarrow> a = b"
    by (metis less_eq_entryKey_def antisym entryKey.expand prod.inject)
  show "a \<le> b \<or> b \<le> a" by (simp only: less_eq_entryKey_def linear)
qed

end

record entry =
  e_value :: bytes
  e_order :: ObservationOrder
  e_unavailable :: bool
  e_version :: "64 word"
  e_createdAt :: go_time
  e_updatedAt :: go_time
  e_expiresAt :: go_time

record Store =
  entries :: "(entryKey \<times> entry) list"
  options :: Options
  closed :: bool
  usedBytes :: int
  highestRegistered :: ObservationOrder
  discardedBefore :: ObservationOrder
  pruner :: "go_duration option"

section \<open>Construction and lifecycle\<close>

definition normalizeOptions :: "Options \<Rightarrow> Options" where
  "normalizeOptions o0 =
     (let o1 = (if MaxEntries o0 \<le> 0 then o0\<lparr>MaxEntries := DefaultMaxEntries\<rparr> else o0);
          o2 = (if MaxValueBytes o1 \<le> 0 then o1\<lparr>MaxValueBytes := DefaultMaxValueBytes\<rparr> else o1);
          o3 = (if MaxBytes o2 \<le> 0 then o2\<lparr>MaxBytes := DefaultMaxBytes\<rparr> else o2)
      in if PruneInterval o3 < 0 then o3\<lparr>PruneInterval := 0\<rparr> else o3)"

definition launchPruneLoop :: "go_duration \<Rightarrow> go_duration option" where
  "launchPruneLoop interval = Some interval"

definition New :: "Options \<Rightarrow> Store" where
  "New o0 =
     (let opts = normalizeOptions o0 in
      \<lparr>entries = [], options = opts, closed = False, usedBytes = 0,
       highestRegistered = zeroOrder, discardedBefore = zeroOrder,
       pruner = (if PruneInterval opts > 0 then launchPruneLoop (PruneInterval opts) else None)\<rparr>)"

section \<open>Removal, expiry and capacity\<close>

definition isExpired :: "entry \<Rightarrow> go_time \<Rightarrow> bool" where
  "isExpired e now = (\<not> IsZero (e_expiresAt e) \<and> \<not> now < e_expiresAt e)"

definition key_bytes :: "entryKey \<Rightarrow> int" where
  "key_bytes k = int (length (namespace k)) + int (length (key k))"

definition entry_charge :: "entryKey \<times> entry \<Rightarrow> int" where
  "entry_charge p = key_bytes (fst p) + int (length (e_value (snd p)))"

definition removeLocked :: "entryKey \<Rightarrow> Store \<Rightarrow> Store" where
  "removeLocked k s =
     (case map_of (entries s) k of
        None \<Rightarrow> s
      | Some cur \<Rightarrow>
          (let s1 = (if ReceiptID (e_order cur) > 0
                     then s\<lparr>discardedBefore := highestRegistered s\<rparr> else s);
               s2 = s1\<lparr>usedBytes := usedBytes s1 - entry_charge (k, cur)\<rparr>
           in s2\<lparr>entries := AList.delete k (entries s2)\<rparr>))"

definition entryLocked :: "entryKey \<Rightarrow> go_time \<Rightarrow> Store \<Rightarrow> entry option \<times> Store" where
  "entryLocked k now s =
     (case map_of (entries s) k of
        None \<Rightarrow> (None, s)
      | Some found \<Rightarrow>
          if isExpired found now then (None, removeLocked k s) else (Some found, s))"

text \<open>The \<^verbatim>\<open>for range\<close> loops delete the entries of the map they iterate over.\<close>

definition removeIf :: "(entry \<Rightarrow> bool) \<Rightarrow> Store \<Rightarrow> Store" where
  "removeIf p s =
     fold (\<lambda>k t. case map_of (entries t) k of
                    None \<Rightarrow> t
                  | Some cur \<Rightarrow> if p cur then removeLocked k t else t)
          (map fst (entries s)) s"

definition pruneExpiredLocked :: "go_time \<Rightarrow> Store \<Rightarrow> Store" where
  "pruneExpiredLocked now s = removeIf (\<lambda>cur. isExpired cur now) s"

definition pruneOversizedLocked :: "Store \<Rightarrow> Store" where
  "pruneOversizedLocked s =
     (let maxValueBytes = MaxValueBytes (options s) in
      if maxValueBytes \<le> 0 then s
      else removeIf (\<lambda>cur. int (length (e_value cur)) > maxValueBytes) s)"

definition eviction_rank :: "Store \<Rightarrow> entryKey \<Rightarrow> go_time \<times> entryKey" where
  "eviction_rank s k =
     (case map_of (entries s) k of None \<Rightarrow> 0 | Some cur \<Rightarrow> e_updatedAt cur, k)"

definition evictionKeysLocked :: "entryKey \<Rightarrow> Store \<Rightarrow> entryKey list" where
  "evictionKeysLocked excluded s =
     sort_key (eviction_rank s) (filter (\<lambda>k. k \<noteq> excluded) (map fst (entries s)))"

fun enforce_loop :: "entryKey list \<Rightarrow> Store \<Rightarrow> Store" where
  "enforce_loop [] s = s"
| "enforce_loop (k # ks) s =
     (if int (length (entries s)) \<le> MaxEntries (options s) \<and> usedBytes s \<le> MaxBytes (options s)
      then s else enforce_loop ks (removeLocked k s))"

definition enforceMaxEntriesLocked :: "go_time \<Rightarrow> Store \<Rightarrow> Store" where
  "enforceMaxEntriesLocked now s =
     (let s1 = pruneExpiredLocked now s; s2 = pruneOversizedLocked s1
      in enforce_loop (evictionKeysLocked (EntryKey [] []) s2) s2)"

definition fitsLocked :: "Store \<Rightarrow> entryKey \<Rightarrow> int \<Rightarrow> bool" where
  "fitsLocked s k valueBytes =
     (let remaining = MaxBytes (options s) - int (length (namespace k)) - int (length (key k))
      in remaining \<ge> 0 \<and> valueBytes \<le> remaining)"

definition room_for :: "int \<Rightarrow> int \<Rightarrow> int \<Rightarrow> Store \<Rightarrow> bool" where
  "room_for newEntries oldCharge charge s =
     (int (length (entries s)) + newEntries \<le> MaxEntries (options s) \<and>
      usedBytes s - oldCharge \<le> MaxBytes (options s) - charge)"

fun prepare_loop :: "int \<Rightarrow> int \<Rightarrow> int \<Rightarrow> entryKey list \<Rightarrow> Store \<Rightarrow> bool \<times> Store" where
  "prepare_loop newEntries oldCharge charge [] s = (False, s)"
| "prepare_loop newEntries oldCharge charge (c # cs) s =
     (let s' = removeLocked c s in
      if room_for newEntries oldCharge charge s' then (True, s')
      else prepare_loop newEntries oldCharge charge cs s')"

definition prepareWriteLocked :: "entryKey \<Rightarrow> int \<Rightarrow> go_time \<Rightarrow> Store \<Rightarrow> bool \<times> Store" where
  "prepareWriteLocked k valueBytes now s =
     (if \<not> fitsLocked s k valueBytes then (False, s)
      else
        let s1 = pruneExpiredLocked now s;
            (oldCharge, newEntries) =
              (case map_of (entries s1) k of
                 None \<Rightarrow> (0, 1)
               | Some cur \<Rightarrow> (key_bytes k + int (length (e_value cur)), 0));
            charge = key_bytes k + valueBytes
        in if room_for newEntries oldCharge charge s1 then (True, s1)
           else prepare_loop newEntries oldCharge charge (evictionKeysLocked k s1) s1)"

definition fresh_entry :: "go_time \<Rightarrow> entry" where
  "fresh_entry now =
     \<lparr>e_value = [], e_order = zeroOrder, e_unavailable = False, e_version = 0,
      e_createdAt = now, e_updatedAt = now, e_expiresAt = 0\<rparr>"

definition writeLocked ::
  "entryKey \<Rightarrow> bytes \<Rightarrow> go_time \<Rightarrow> go_duration \<Rightarrow> Store \<Rightarrow> entry \<times> Store" where
  "writeLocked k v now ttl s =
     (let (cur, s1) =
            (case map_of (entries s) k of
               None \<Rightarrow> (fresh_entry now,
                        s\<lparr>entries := AList.update k (fresh_entry now) (entries s),
                          usedBytes := usedBytes s + key_bytes k\<rparr>)
             | Some cur \<Rightarrow> (cur, s));
          s2 = s1\<lparr>usedBytes := usedBytes s1 - int (length (e_value cur))\<rparr>;
          s3 = s2\<lparr>usedBytes := usedBytes s2 + int (length v)\<rparr>;
          cur' = cur\<lparr>e_value := v, e_version := e_version cur + 1, e_updatedAt := now,
                     e_expiresAt := (if ttl > 0 then time_add now ttl else 0)\<rparr>
      in (cur', s3\<lparr>entries := AList.update k cur' (entries s3)\<rparr>))"

text \<open>An assignment through the entry pointer that a locked helper returned.\<close>

definition put_entry :: "entryKey \<Rightarrow> entry \<Rightarrow> Store \<Rightarrow> Store" where
  "put_entry k e s = s\<lparr>entries := AList.update k e (entries s)\<rparr>"

section \<open>Validation and export\<close>

definition validateNamespace :: "string \<Rightarrow> hotkv_error + string" where
  "validateNamespace ns =
     (if ns = [] \<or> length ns > MaxNamespaceBytes \<or> contains_nul ns
      then Inl ErrInvalidNamespace else Inr ns)"

definition validateKey :: "string \<Rightarrow> string \<Rightarrow> hotkv_error + entryKey" where
  "validateKey ns k =
     (case validateNamespace ns of
        Inl err \<Rightarrow> Inl err
      | Inr ns' \<Rightarrow>
          if k = [] \<or> length k > MaxKeyBytes \<or> contains_nul k
          then Inl ErrInvalidKey else Inr (EntryKey ns' k))"

definition validateValue :: "Store \<Rightarrow> bytes \<Rightarrow> hotkv_error + unit" where
  "validateValue s v =
     (let maxValueBytes =
            (if MaxValueBytes (options s) > 0 then MaxValueBytes (options s)
             else DefaultMaxValueBytes)
      in if int (length v) > maxValueBytes then Inl ErrValueTooLarge else Inr ())"

definition exportEntry :: "entryKey \<Rightarrow> entry \<Rightarrow> bool \<Rightarrow> Entry" where
  "exportEntry k cur includeValue =
     \<lparr>en_Namespace = namespace k, en_Key = key k,
      en_Value = (if includeValue then e_value cur else []),
      en_Version = e_version cur, en_CreatedAt = e_createdAt cur,
      en_UpdatedAt = e_updatedAt cur, en_ExpiresAt = e_expiresAt cur\<rparr>"

section \<open>Store operations\<close>

text \<open>\<open>Inr None\<close> is Go's \<^verbatim>\<open>(emptyEntry(), false, nil)\<close>.\<close>

type_synonym 'a kv_result = "(hotkv_error + 'a) \<times> Store"

definition Store_Get :: "string \<Rightarrow> string \<Rightarrow> go_time \<Rightarrow> Store \<Rightarrow> Entry option kv_result" where
  "Store_Get ns k now s =
     (case validateKey ns k of
        Inl err \<Rightarrow> (Inl err, s)
      | Inr storedKey \<Rightarrow>
          (case entryLocked storedKey now s of
             (None, s1) \<Rightarrow> (Inr None, s1)
           | (Some found, s1) \<Rightarrow> (Inr (Some (exportEntry storedKey found True)), s1)))"

definition Store_Set ::
  "string \<Rightarrow> string \<Rightarrow> bytes \<Rightarrow> SetOptions \<Rightarrow> go_time \<Rightarrow> Store \<Rightarrow> Entry option kv_result" where
  "Store_Set ns k v opts now s =
     (case validateKey ns k of
        Inl err \<Rightarrow> (Inl err, s)
      | Inr storedKey \<Rightarrow>
          (case validateValue s v of
             Inl err \<Rightarrow> (Inl err, s)
           | Inr _ \<Rightarrow>
               let (current, s1) = entryLocked storedKey now s;
                   exists = (current \<noteq> None)
               in if Mode opts = SetModeNX \<and> exists then (Inr None, s1)
                  else if Mode opts = SetModeXX \<and> \<not> exists then (Inr None, s1)
                  else if Mode opts \<notin> {SetModeNX, SetModeXX, SetModeAny}
                       then (Inl ErrInvalidSetMode, s1)
                  else
                    (case prepareWriteLocked storedKey (int (length v)) now s1 of
                       (False, s2) \<Rightarrow> (Inl ErrCapacity, s2)
                     | (True, s2) \<Rightarrow>
                         let s3 = (case current of
                                     Some cur \<Rightarrow> if ReceiptID (e_order cur) > 0
                                       then s2\<lparr>discardedBefore := highestRegistered s2\<rparr> else s2
                                   | None \<Rightarrow> s2);
                             (written, s4) = writeLocked storedKey v now (TTL opts) s3;
                             written' = written\<lparr>e_order := zeroOrder, e_unavailable := False\<rparr>
                         in (Inr (Some (exportEntry storedKey written' True)),
                             put_entry storedKey written' s4))))"

definition Store_Delete :: "string \<Rightarrow> string \<Rightarrow> go_time \<Rightarrow> Store \<Rightarrow> bool kv_result" where
  "Store_Delete ns k now s =
     (case validateKey ns k of
        Inl err \<Rightarrow> (Inl err, s)
      | Inr storedKey \<Rightarrow>
          (case entryLocked storedKey now s of
             (None, s1) \<Rightarrow> (Inr False, s1)
           | (Some _, s1) \<Rightarrow> (Inr True, removeLocked storedKey s1)))"

definition Store_GetDelete :: "string \<Rightarrow> string \<Rightarrow> go_time \<Rightarrow> Store \<Rightarrow> Entry option kv_result" where
  "Store_GetDelete ns k now s =
     (case validateKey ns k of
        Inl err \<Rightarrow> (Inl err, s)
      | Inr storedKey \<Rightarrow>
          (case entryLocked storedKey now s of
             (None, s1) \<Rightarrow> (Inr None, s1)
           | (Some found, s1) \<Rightarrow>
               (Inr (Some (exportEntry storedKey found True)), removeLocked storedKey s1)))"

definition Store_Expire ::
  "string \<Rightarrow> string \<Rightarrow> go_duration \<Rightarrow> go_time \<Rightarrow> Store \<Rightarrow> bool kv_result" where
  "Store_Expire ns k ttl now s =
     (case validateKey ns k of
        Inl err \<Rightarrow> (Inl err, s)
      | Inr storedKey \<Rightarrow>
          if ttl \<le> 0 then Store_Delete ns k now s
          else
            (case entryLocked storedKey now s of
               (None, s1) \<Rightarrow> (Inr False, s1)
             | (Some found, s1) \<Rightarrow>
                 (Inr True,
                  put_entry storedKey
                    (found\<lparr>e_version := e_version found + 1, e_updatedAt := now,
                           e_expiresAt := time_add now ttl\<rparr>) s1)))"

text \<open>\<open>(ttl, exists, expires)\<close> as \<^verbatim>\<open>PTTL\<close> returns them.\<close>

definition Store_PTTL ::
  "string \<Rightarrow> string \<Rightarrow> go_time \<Rightarrow> Store \<Rightarrow> (go_duration \<times> bool \<times> bool) kv_result" where
  "Store_PTTL ns k now s =
     (case validateKey ns k of
        Inl err \<Rightarrow> (Inl err, s)
      | Inr storedKey \<Rightarrow>
          (case entryLocked storedKey now s of
             (None, s1) \<Rightarrow> (Inr (0, False, False), s1)
           | (Some found, s1) \<Rightarrow>
               if IsZero (e_expiresAt found) then (Inr (0, True, False), s1)
               else let ttl = time_sub (e_expiresAt found) now in
                    if ttl \<le> 0 then (Inr (0, False, False), removeLocked storedKey s1)
                    else (Inr (ttl, True, True), s1)))"

text \<open>The nil receiver of \<^verbatim>\<open>PruneExpired\<close>, \<^verbatim>\<open>Close\<close> and \<^verbatim>\<open>Configure\<close> is \<open>None\<close>.\<close>

definition PruneExpired :: "go_time \<Rightarrow> Store option \<Rightarrow> Store option" where
  "PruneExpired now so = map_option (pruneExpiredLocked now) so"

definition Store_Close :: "Store \<Rightarrow> Store" where
  "Store_Close s =
     (if closed s then s
      else let s1 = s\<lparr>closed := True\<rparr> in
           if \<not> (PruneInterval (options s1) > 0) then s1 else s1\<lparr>pruner := None\<rparr>)"

definition Close :: "Store option \<Rightarrow> Store option" where
  "Close so = map_option Store_Close so"

definition Store_Configure :: "Options \<Rightarrow> go_time \<Rightarrow> Store \<Rightarrow> Store" where
  "Store_Configure o0 now s =
     (let opts = normalizeOptions o0 in
      if closed s then s
      else
        let s1 = s\<lparr>options := (options s)\<lparr>MaxEntries := MaxEntries opts,
                                       MaxValueBytes := MaxValueBytes opts,
                                       MaxBytes := MaxBytes opts\<rparr>\<rparr>;
            s2 = pruneOversizedLocked s1;
            s3 = (if PruneInterval (options s2) \<noteq> PruneInterval opts
                  then s2\<lparr>options := (options s2)\<lparr>PruneInterval := PruneInterval opts\<rparr>,
                          pruner := (if PruneInterval opts > 0
                                     then launchPruneLoop (PruneInterval opts) else None)\<rparr>
                  else s2)
        in enforceMaxEntriesLocked now s3)"

definition Configure :: "Options \<Rightarrow> go_time \<Rightarrow> Store option \<Rightarrow> Store option" where
  "Configure o0 now so = map_option (Store_Configure o0 now) so"

section \<open>Bounded reads\<close>

type_synonym EntrySizer = "Entry \<Rightarrow> int \<Rightarrow> string + int"

definition unlimitedReadBytes :: int where
  "unlimitedReadBytes = max_int64"

definition chargeRead ::
  "entryKey \<Rightarrow> entry \<Rightarrow> bool \<Rightarrow> int \<Rightarrow> EntrySizer option \<Rightarrow> hotkv_error + int" where
  "chargeRead k cur includeValue remaining sizer =
     (let valueBytes = (if includeValue then int (length (e_value cur)) else 0);
          charge0 = int (length (namespace k)) + int (length (key k)) + valueBytes
      in (case (case sizer of
                  None \<Rightarrow> Inr charge0
                | Some f \<Rightarrow> f (exportEntry k cur False) valueBytes) of
            Inl err \<Rightarrow> Inl (ErrSizer err)
          | Inr charge \<Rightarrow>
              if charge < 0 then Inl ErrInvalidReadBudget
              else if charge > remaining then Inl ErrReadOverflow
              else Inr charge))"

definition readBounded ::
  "string \<Rightarrow> string \<Rightarrow> bool \<Rightarrow> int \<Rightarrow> EntrySizer option \<Rightarrow> bool \<Rightarrow> go_time \<Rightarrow> Store
   \<Rightarrow> Entry option kv_result" where
  "readBounded ns k includeValue maxBytes sizer remove now s =
     (case validateKey ns k of
        Inl err \<Rightarrow> (Inl err, s)
      | Inr storedKey \<Rightarrow>
          if maxBytes < 0 then (Inl ErrInvalidReadBudget, s)
          else
            (case entryLocked storedKey now s of
               (None, s1) \<Rightarrow> (Inr None, s1)
             | (Some current, s1) \<Rightarrow>
                 (case chargeRead storedKey current includeValue maxBytes sizer of
                    Inl err \<Rightarrow> (Inl err, s1)
                  | Inr _ \<Rightarrow>
                      (Inr (Some (exportEntry storedKey current includeValue)),
                       if remove then removeLocked storedKey s1 else s1))))"

definition GetBounded ::
  "string \<Rightarrow> string \<Rightarrow> bool \<Rightarrow> int \<Rightarrow> EntrySizer option \<Rightarrow> go_time \<Rightarrow> Store
   \<Rightarrow> Entry option kv_result" where
  "GetBounded ns k includeValue maxBytes sizer now s =
     readBounded ns k includeValue maxBytes sizer False now s"

definition GetDeleteBounded ::
  "string \<Rightarrow> string \<Rightarrow> bool \<Rightarrow> int \<Rightarrow> EntrySizer option \<Rightarrow> go_time \<Rightarrow> Store
   \<Rightarrow> Entry option kv_result" where
  "GetDeleteBounded ns k includeValue maxBytes sizer now s =
     readBounded ns k includeValue maxBytes sizer True now s"

definition Store_Exists :: "string \<Rightarrow> string \<Rightarrow> go_time \<Rightarrow> Store \<Rightarrow> bool kv_result" where
  "Store_Exists ns k now s =
     (case GetBounded ns k False unlimitedReadBytes None now s of
        (Inl err, s1) \<Rightarrow> (Inl err, s1)
      | (Inr found, s1) \<Rightarrow> (Inr (found \<noteq> None), s1))"

fun charge_all ::
  "(entryKey \<times> entry) list \<Rightarrow> bool \<Rightarrow> int \<Rightarrow> EntrySizer option \<Rightarrow> hotkv_error + int" where
  "charge_all [] includeValues remaining sizer = Inr remaining"
| "charge_all ((k, cur) # ps) includeValues remaining sizer =
     (case chargeRead k cur includeValues remaining sizer of
        Inl err \<Rightarrow> Inl err
      | Inr charge \<Rightarrow> charge_all ps includeValues (remaining - charge) sizer)"

definition selected_entries :: "string \<Rightarrow> string \<Rightarrow> int \<Rightarrow> Store \<Rightarrow> (entryKey \<times> entry) list" where
  "selected_entries ns pfx limit s =
     (let ks = sort_key (\<lambda>p. key (fst p))
                 (filter (\<lambda>p. namespace (fst p) = ns \<and> HasPrefix (key (fst p)) pfx) (entries s))
      in if limit > 0 \<and> int (length ks) > limit then take (nat limit) ks else ks)"

definition ListBounded ::
  "string \<Rightarrow> string \<Rightarrow> int \<Rightarrow> bool \<Rightarrow> int \<Rightarrow> EntrySizer option \<Rightarrow> go_time \<Rightarrow> Store
   \<Rightarrow> Entry list kv_result" where
  "ListBounded ns pfx limit includeValues maxBytes sizer now s =
     (case validateNamespace ns of
        Inl err \<Rightarrow> (Inl err, s)
      | Inr _ \<Rightarrow>
          if contains_nul pfx then (Inl ErrInvalidKey, s)
          else if maxBytes < 0 then (Inl ErrInvalidReadBudget, s)
          else
            let s1 = pruneExpiredLocked now s;
                ks = selected_entries ns pfx limit s1
            in (case charge_all ks includeValues maxBytes sizer of
                  Inl err \<Rightarrow> (Inl err, s1)
                | Inr _ \<Rightarrow> (Inr (map (\<lambda>(k, cur). exportEntry k cur includeValues) ks), s1)))"

definition Store_List ::
  "string \<Rightarrow> string \<Rightarrow> int \<Rightarrow> bool \<Rightarrow> go_time \<Rightarrow> Store \<Rightarrow> Entry list kv_result" where
  "Store_List ns pfx limit includeValues now s =
     ListBounded ns pfx limit includeValues unlimitedReadBytes None now s"

section \<open>Ordered observations\<close>

definition registerObservationLocked :: "ObservationOrder \<Rightarrow> Store \<Rightarrow> Store" where
  "registerObservationLocked ord s =
     (if ReceiptID ord \<ge> 0 \<and> newerThan ord (highestRegistered s)
      then s\<lparr>highestRegistered := ord\<rparr> else s)"

definition RegisterObservation :: "ObservationOrder \<Rightarrow> Store \<Rightarrow> Store" where
  "RegisterObservation ord s = registerObservationLocked ord s"

definition Observe ::
  "string \<Rightarrow> string \<Rightarrow> ObservationOrder \<Rightarrow> string \<Rightarrow> go_time \<Rightarrow> Store \<Rightarrow> bool kv_result" where
  "Observe ns k ord v now s =
     (case validateKey ns k of
        Inl err \<Rightarrow> (Inl err, s)
      | Inr storedKey \<Rightarrow>
          if ReceiptID ord \<le> 0 then (Inl ErrObservationReceipt, s)
          else
            let s1 = registerObservationLocked ord s in
            if Generation ord < Generation (highestRegistered s1) then (Inr False, s1)
            else
              let (current, s2) = entryLocked storedKey now s1;
                  temporal = (case current of
                                Some cur \<Rightarrow> if ReceiptID (e_order cur) > 0 then Some cur else None
                              | None \<Rightarrow> None);
                  stale = (case temporal of
                             Some cur \<Rightarrow> \<not> newerThan ord (e_order cur)
                           | None \<Rightarrow> \<not> newerThan ord (discardedBefore s2))
              in if stale then (Inr False, s2)
                 else
                   let available = (int (length v) \<le> MaxValueBytes (options s2) \<and>
                                    fitsLocked s2 storedKey (int (length v)));
                       v' = (if available then v else [])
                   in (case prepareWriteLocked storedKey (int (length v')) now s2 of
                         (False, s3) \<Rightarrow>
                           let s4 = removeLocked storedKey s3
                           in (Inl ErrCapacity,
                               s4\<lparr>discardedBefore := highestRegistered s4\<rparr>)
                       | (True, s3) \<Rightarrow>
                           let (written, s4) = writeLocked storedKey v' now 0 s3
                           in (Inr True,
                               put_entry storedKey
                                 (written\<lparr>e_order := ord, e_unavailable := \<not> available\<rparr>) s4)))"

definition Observation ::
  "string \<Rightarrow> string \<Rightarrow> go_time \<Rightarrow> Store \<Rightarrow> string option kv_result" where
  "Observation ns k now s =
     (case validateKey ns k of
        Inl err \<Rightarrow> (Inl err, s)
      | Inr storedKey \<Rightarrow>
          (case entryLocked storedKey now s of
             (None, s1) \<Rightarrow> (Inr None, s1)
           | (Some cur, s1) \<Rightarrow>
               if e_unavailable cur \<or> ReceiptID (e_order cur) \<le> 0 then (Inr None, s1)
               else (Inr (Some (e_value cur)), s1)))"

end
