(* ===== verification/HotKV_Inv.thy ===== *)
theory HotKV_Inv
  imports HotKV
begin

text \<open>
  Invariants of the hot cache and their preservation by every operation.

  \<open>store_shape\<close> says what holds between any two statements of a locked section: the map
  has one entry per key, \<^verbatim>\<open>usedBytes\<close> is the exact sum of the retained bytes, keys are
  valid, options are normalised and the observation fences are ordered. \<open>store_bounds\<close>
  adds what every exported method restores before it returns: the entry, byte and value
  limits.
\<close>

section \<open>The invariants\<close>

definition options_ok :: "Options \<Rightarrow> bool" where
  "options_ok p = (MaxEntries p > 0 \<and> MaxValueBytes p > 0 \<and> MaxBytes p > 0 \<and> PruneInterval p \<ge> 0)"

definition valid_key :: "entryKey \<Rightarrow> bool" where
  "valid_key k = (validateKey (namespace k) (key k) = Inr k)"

definition fence_ok :: "Store \<Rightarrow> bool" where
  "fence_ok s = (discardedBefore s \<le> highestRegistered s \<and>
     (\<forall>(k, e) \<in> set (entries s). ReceiptID (e_order e) > 0 \<longrightarrow> e_order e \<le> highestRegistered s))"

definition pruner_ok :: "Store \<Rightarrow> bool" where
  "pruner_ok s =
     (pruner s = (if PruneInterval (options s) > 0 \<and> \<not> closed s
                  then Some (PruneInterval (options s)) else None))"

definition store_shape :: "Store \<Rightarrow> bool" where
  "store_shape s =
     (distinct (map fst (entries s)) \<and>
      usedBytes s = alist_sum entry_charge (entries s) \<and>
      (\<forall>(k, e) \<in> set (entries s). valid_key k) \<and>
      options_ok (options s) \<and> fence_ok s)"

definition store_bounds :: "Store \<Rightarrow> bool" where
  "store_bounds s =
     (int (length (entries s)) \<le> MaxEntries (options s) \<and>
      usedBytes s \<le> MaxBytes (options s) \<and>
      (\<forall>(k, e) \<in> set (entries s). int (length (e_value e)) \<le> MaxValueBytes (options s)))"

definition store_ok :: "Store \<Rightarrow> bool" where
  "store_ok s = (store_shape s \<and> store_bounds s \<and> pruner_ok s)"

lemma store_shape_distinct: "store_shape s \<Longrightarrow> distinct (map fst (entries s))"
  and store_shape_used: "store_shape s \<Longrightarrow> usedBytes s = alist_sum entry_charge (entries s)"
  and store_shape_options: "store_shape s \<Longrightarrow> options_ok (options s)"
  and store_shape_fence: "store_shape s \<Longrightarrow> fence_ok s"
  by (simp_all add: store_shape_def)

lemma store_shape_valid: "store_shape s \<Longrightarrow> (k, e) \<in> set (entries s) \<Longrightarrow> valid_key k"
  by (auto simp: store_shape_def)

lemma entry_charge_nonneg [simp]: "0 \<le> entry_charge p"
  by (simp add: entry_charge_def key_bytes_def)

lemma key_bytes_nonneg [simp]: "0 \<le> key_bytes k"
  by (simp add: key_bytes_def)

section \<open>Frame of the locked helpers\<close>

text \<open>The fields a removal leaves alone.\<close>

definition same_frame :: "Store \<Rightarrow> Store \<Rightarrow> bool" where
  "same_frame s t = (options t = options s \<and> closed t = closed s \<and>
     highestRegistered t = highestRegistered s \<and> pruner t = pruner s)"

lemma same_frame_refl [simp]: "same_frame s s"
  by (simp add: same_frame_def)

lemma same_frame_trans: "same_frame s t \<Longrightarrow> same_frame t u \<Longrightarrow> same_frame s u"
  by (simp add: same_frame_def)

lemma same_frame_simps:
  assumes "same_frame s t"
  shows "options t = options s" and "closed t = closed s"
    and "highestRegistered t = highestRegistered s" and "pruner t = pruner s"
  using assms by (simp_all add: same_frame_def)

lemma removeLocked_frame [simp]: "same_frame s (removeLocked k s)"
  by (auto simp: removeLocked_def same_frame_def Let_def split: option.splits)

lemma removeLocked_entries [simp]: "entries (removeLocked k s) = AList.delete k (entries s)"
  by (auto simp: removeLocked_def Let_def map_of_eq_None_iff alist_delete_not_in
      split: option.splits)

lemma removeLocked_discarded:
  "discardedBefore (removeLocked k s) =
     (case map_of (entries s) k of
        Some cur \<Rightarrow> if ReceiptID (e_order cur) > 0 then highestRegistered s else discardedBefore s
      | None \<Rightarrow> discardedBefore s)"
  by (auto simp: removeLocked_def Let_def split: option.splits)

lemma removeLocked_used:
  "usedBytes (removeLocked k s) =
     (case map_of (entries s) k of
        Some cur \<Rightarrow> usedBytes s - entry_charge (k, cur) | None \<Rightarrow> usedBytes s)"
  by (auto simp: removeLocked_def Let_def split: option.splits)

text \<open>
  \<open>shrinks s t\<close>: a state reachable by removing entries. It is the relation between the
  store before and after every pruning or eviction loop.
\<close>

inductive shrinks :: "Store \<Rightarrow> Store \<Rightarrow> bool" where
  shrinks_refl [intro]: "shrinks s s"
| shrinks_remove: "shrinks s t \<Longrightarrow> shrinks s (removeLocked k t)"

lemma shrinks_one: "shrinks s (removeLocked k s)"
  by (intro shrinks_remove shrinks_refl)

lemma shrinks_trans:
  assumes "shrinks t u" and "shrinks s t"
  shows "shrinks s u"
  using assms by (induction rule: shrinks.induct) (auto intro: shrinks_remove)

lemma shrinks_frame: "shrinks s t \<Longrightarrow> same_frame s t"
  by (induction rule: shrinks.induct) (auto intro: same_frame_trans)

lemma shrinks_subset: "shrinks s t \<Longrightarrow> set (entries t) \<subseteq> set (entries s)"
  by (induction rule: shrinks.induct) (auto simp: set_alist_delete)

lemma shrinks_shape:
  assumes "shrinks s t" and "store_shape s"
  shows "store_shape t"
  using assms
proof (induction rule: shrinks.induct)
  case (shrinks_remove s t k)
  then have t: "store_shape t" by simp
  have fr: "same_frame t (removeLocked k t)" by simp
  have "distinct (map fst (entries (removeLocked k t)))"
    using t by (simp add: store_shape_def distinct_delete)
  moreover have "usedBytes (removeLocked k t) = alist_sum entry_charge (entries (removeLocked k t))"
    using t by (auto simp: removeLocked_used store_shape_def alist_sum_delete
        map_of_eq_None_iff alist_delete_not_in split: option.splits)
  moreover have "fence_ok (removeLocked k t)"
    using t by (auto simp: store_shape_def fence_ok_def removeLocked_discarded
        set_alist_delete same_frame_simps[OF fr] split: option.splits)
  ultimately show ?case
    using t by (auto simp: store_shape_def set_alist_delete same_frame_simps[OF fr])
qed

lemma shrinks_length: "shrinks s t \<Longrightarrow> length (entries t) \<le> length (entries s)"
proof (induction rule: shrinks.induct)
  case (shrinks_remove s t k)
  then show ?case using length_delete_le[of k "entries t"] by simp
qed simp

lemma shrinks_used:
  assumes "shrinks s t"
  shows "usedBytes t \<le> usedBytes s"
  using assms
proof (induction rule: shrinks.induct)
  case (shrinks_remove s t k)
  then show ?case
    using entry_charge_nonneg by (auto simp: removeLocked_used split: option.splits)
       (smt (verit) entry_charge_nonneg)
qed simp

lemma shrinks_bounds: "shrinks s t \<Longrightarrow> store_bounds s \<Longrightarrow> store_bounds t"
  using shrinks_length[of s t] shrinks_used[of s t] shrinks_subset[of s t]
    same_frame_simps(1)[OF shrinks_frame, of s t]
  unfolding store_bounds_def by force

lemma shrinks_lookup:
  assumes "shrinks s t" and "map_of (entries t) k = Some e"
  shows "map_of (entries s) k = Some e"
  using assms
proof (induction rule: shrinks.induct)
  case (shrinks_remove s t j)
  then show ?case by (cases "j = k") (auto simp: delete_conv')
qed

lemma shrinks_pruner_ok: "shrinks s t \<Longrightarrow> pruner_ok s \<Longrightarrow> pruner_ok t"
  using shrinks_frame[of s t] by (simp add: pruner_ok_def same_frame_def)

lemma shrinks_ok: "shrinks s t \<Longrightarrow> store_ok s \<Longrightarrow> store_ok t"
  by (auto simp: store_ok_def intro: shrinks_shape shrinks_bounds shrinks_pruner_ok)

section \<open>Pruning and eviction loops\<close>

lemma removeIf_shrinks: "shrinks s (removeIf p s)"
  unfolding removeIf_def
  by (rule fold_preserves[where P = "shrinks s"])
     (auto intro: shrinks_remove split: option.splits)

lemma pruneExpiredLocked_shrinks: "shrinks s (pruneExpiredLocked now s)"
  by (simp add: pruneExpiredLocked_def removeIf_shrinks)

lemma pruneOversizedLocked_shrinks: "shrinks s (pruneOversizedLocked s)"
  by (auto simp: pruneOversizedLocked_def Let_def removeIf_shrinks)

lemma enforce_loop_shrinks: "shrinks s (enforce_loop ks s)"
proof (induction ks arbitrary: s)
  case (Cons k ks)
  have "shrinks s (enforce_loop ks (removeLocked k s))"
    using Cons.IH shrinks_one by (rule shrinks_trans)
  then show ?case by auto
qed auto

lemma prepare_loop_shrinks: "shrinks s (snd (prepare_loop n oc c ks s))"
proof (induction ks arbitrary: s)
  case (Cons k ks)
  have "shrinks s (snd (prepare_loop n oc c ks (removeLocked k s)))"
    using Cons.IH shrinks_one by (rule shrinks_trans)
  then show ?case by (auto simp: Let_def shrinks_one)
qed auto

lemma prepareWriteLocked_shrinks: "shrinks s (snd (prepareWriteLocked k n now s))"
proof -
  have "shrinks s (snd (prepare_loop a b c ks (pruneExpiredLocked now s)))" for a b c ks
    using prepare_loop_shrinks pruneExpiredLocked_shrinks by (rule shrinks_trans)
  then show ?thesis
    by (auto simp: prepareWriteLocked_def Let_def pruneExpiredLocked_shrinks
        split: prod.splits option.splits)
qed

lemma enforceMaxEntriesLocked_shrinks: "shrinks s (enforceMaxEntriesLocked now s)"
  unfolding enforceMaxEntriesLocked_def Let_def
  by (meson enforce_loop_shrinks pruneExpiredLocked_shrinks pruneOversizedLocked_shrinks
      shrinks_trans)

lemma entryLocked_shrinks: "shrinks s (snd (entryLocked k now s))"
  by (auto simp: entryLocked_def shrinks_one split: option.splits)

lemmas shrinks_helpers =
  removeIf_shrinks pruneExpiredLocked_shrinks pruneOversizedLocked_shrinks enforce_loop_shrinks
  prepareWriteLocked_shrinks enforceMaxEntriesLocked_shrinks entryLocked_shrinks shrinks_one

text \<open>What a conditional removal keeps, exactly.\<close>

lemma removeIf_step_entries:
  assumes "distinct (map fst (entries t))"
  shows "entries (case map_of (entries t) k of None \<Rightarrow> t
                  | Some cur \<Rightarrow> if p cur then removeLocked k t else t)
         = filter (\<lambda>q. \<not> (fst q = k \<and> p (snd q))) (entries t)"
proof (cases "map_of (entries t) k")
  case None
  then have "filter (\<lambda>q. \<not> (fst q = k \<and> p (snd q))) (entries t) = entries t"
    by (auto simp: filter_id_conv map_of_eq_None_iff)
  then show ?thesis using None by simp
next
  case (Some cur)
  have uniq: "q \<in> set (entries t) \<Longrightarrow> fst q = k \<Longrightarrow> snd q = cur" for q
    using Some assms by (metis eq_key_imp_eq_value map_of_SomeD prod.collapse)
  show ?thesis
  proof (cases "p cur")
    case True
    have "AList.delete k (entries t) = filter (\<lambda>q. \<not> (fst q = k \<and> p (snd q))) (entries t)"
      unfolding AList.delete_eq using uniq True by (intro filter_cong) auto
    then show ?thesis using Some True by simp
  next
    case False
    then have "filter (\<lambda>q. \<not> (fst q = k \<and> p (snd q))) (entries t) = entries t"
      using uniq by (auto simp: filter_id_conv)
    then show ?thesis using Some False by simp
  qed
qed

lemma removeIf_entries:
  assumes "distinct (map fst (entries s))"
  shows "entries (removeIf p s) = filter (\<lambda>q. \<not> p (snd q)) (entries s)"
proof -
  let ?f = "\<lambda>k t. case map_of (entries t) k of None \<Rightarrow> t
                  | Some cur \<Rightarrow> if p cur then removeLocked k t else t"
  have gen: "distinct (map fst (entries t)) \<Longrightarrow>
      entries (fold ?f ks t) = filter (\<lambda>q. \<not> (fst q \<in> set ks \<and> p (snd q))) (entries t)" for ks t
  proof (induction ks arbitrary: t)
    case (Cons k ks)
    have e: "entries (?f k t) = filter (\<lambda>q. \<not> (fst q = k \<and> p (snd q))) (entries t)"
      using Cons.prems by (rule removeIf_step_entries)
    have "distinct (map fst (entries (?f k t)))"
      unfolding e using Cons.prems by (rule distinct_map_filter)
    then have "entries (fold ?f ks (?f k t)) =
        filter (\<lambda>q. \<not> (fst q \<in> set ks \<and> p (snd q))) (entries (?f k t))"
      by (rule Cons.IH)
    also have "\<dots> = filter (\<lambda>q. \<not> (fst q \<in> set (k # ks) \<and> p (snd q))) (entries t)"
      unfolding e filter_filter by (intro filter_cong) auto
    finally show ?case by simp
  qed simp
  show ?thesis
    unfolding removeIf_def gen[OF assms] by (intro filter_cong) auto
qed

lemma pruneExpiredLocked_entries:
  "store_shape s \<Longrightarrow>
   entries (pruneExpiredLocked now s) = filter (\<lambda>q. \<not> isExpired (snd q) now) (entries s)"
  by (simp add: pruneExpiredLocked_def removeIf_entries store_shape_distinct)

lemma pruneExpiredLocked_lookup:
  assumes "store_shape s"
  shows "map_of (entries (pruneExpiredLocked now s)) k =
    (case map_of (entries s) k of
       Some e \<Rightarrow> if isExpired e now then None else Some e | None \<Rightarrow> None)"
  using assms map_of_filter_snd[of "entries s" "\<lambda>e. \<not> isExpired e now" k]
  by (simp add: pruneExpiredLocked_entries store_shape_distinct split: option.splits)


section \<open>Admission: room is always made for an entry that fits\<close>

lemma eviction_keys_set:
  "set (evictionKeysLocked x s) = fst ` set (entries s) - {x}"
  by (auto simp: evictionKeysLocked_def)

lemma fitsLocked_iff:
  "fitsLocked s k n \<longleftrightarrow> key_bytes k \<le> MaxBytes (options s) \<and> key_bytes k + n \<le> MaxBytes (options s)"
  by (auto simp: fitsLocked_def key_bytes_def Let_def)

lemma entries_only_key:
  assumes "fst ` set (entries s) \<subseteq> {k}" and "distinct (map fst (entries s))"
  shows "entries s = (case map_of (entries s) k of None \<Rightarrow> [] | Some e \<Rightarrow> [(k, e)])"
proof (cases "entries s")
  case (Cons p ps)
  then have "ps = []" using assms by (cases ps) auto
  then show ?thesis using Cons assms by (cases p) auto
qed simp

text \<open>The two quantities the admission test compares, for the entry stored under \<open>k\<close>.\<close>

definition old_charge :: "entryKey \<Rightarrow> Store \<Rightarrow> int" where
  "old_charge k s = (case map_of (entries s) k of None \<Rightarrow> 0 | Some cur \<Rightarrow> entry_charge (k, cur))"

definition new_entries :: "entryKey \<Rightarrow> Store \<Rightarrow> int" where
  "new_entries k s = (case map_of (entries s) k of None \<Rightarrow> 1 | Some cur \<Rightarrow> 0)"

lemma room_when_only_key:
  assumes "store_shape s" and "fst ` set (entries s) \<subseteq> {k}" and "fitsLocked s k n"
  shows "room_for (new_entries k s) (old_charge k s) (key_bytes k + n) s"
proof -
  have e: "entries s = (case map_of (entries s) k of None \<Rightarrow> [] | Some e \<Rightarrow> [(k, e)])"
    using assms(1,2) by (intro entries_only_key store_shape_distinct)
  have u: "usedBytes s = alist_sum entry_charge (entries s)"
    using assms(1) by (rule store_shape_used)
  have m: "MaxEntries (options s) > 0"
    using store_shape_options[OF assms(1)] by (simp add: options_ok_def)
  show ?thesis
  proof (cases "map_of (entries s) k")
    case None
    then have "entries s = []" using e by simp
    then show ?thesis
      using None u m assms(3) by (simp add: room_for_def new_entries_def old_charge_def fitsLocked_iff)
  next
    case (Some c)
    then have "entries s = [(k, c)]" using e by simp
    then show ?thesis
      using Some u m assms(3)
      by (simp add: room_for_def new_entries_def old_charge_def fitsLocked_iff)
  qed
qed

lemma prepare_loop_succeeds:
  assumes "store_shape s" and "fst ` set (entries s) \<subseteq> insert k (set ks)" and "k \<notin> set ks"
    and "fitsLocked s k n"
    and "\<not> room_for (new_entries k s) (old_charge k s) (key_bytes k + n) s"
    and "prepare_loop (new_entries k s) (old_charge k s) (key_bytes k + n) ks s = (b, t)"
  shows "b \<and> map_of (entries t) k = map_of (entries s) k \<and>
         room_for (new_entries k t) (old_charge k t) (key_bytes k + n) t"
  using assms
proof (induction ks arbitrary: s)
  case Nil
  then show ?case using room_when_only_key[of s k n] by simp
next
  case (Cons c cs)
  let ?s = "removeLocked c s"
  have c: "c \<noteq> k" and ncs: "k \<notin> set cs" using Cons.prems(3) by auto
  have look: "map_of (entries ?s) k = map_of (entries s) k"
    using c by simp
  have same: "new_entries k ?s = new_entries k s" "old_charge k ?s = old_charge k s"
    using look by (simp_all add: new_entries_def old_charge_def)
  have shape: "store_shape ?s"
    using shrinks_one Cons.prems(1) by (rule shrinks_shape)
  have sub: "fst ` set (entries ?s) \<subseteq> insert k (set cs)"
    using Cons.prems(2) by (auto simp: set_alist_delete)
  have fits: "fitsLocked ?s k n"
    using Cons.prems(4) by (simp add: fitsLocked_def same_frame_simps[OF removeLocked_frame])
  show ?case
  proof (cases "room_for (new_entries k s) (old_charge k s) (key_bytes k + n) ?s")
    case True
    then show ?thesis using Cons.prems(6) look same by (auto simp: Let_def)
  next
    case False
    then have "prepare_loop (new_entries k ?s) (old_charge k ?s) (key_bytes k + n) cs ?s = (b, t)"
      using Cons.prems(6) same by (simp add: Let_def)
    with Cons.IH[OF shape sub ncs fits] False show ?thesis
      using look same by simp
  qed
qed

lemma prepareWriteLocked_eq:
  "prepareWriteLocked k n now s =
     (if \<not> fitsLocked s k n then (False, s)
      else let s1 = pruneExpiredLocked now s in
           if room_for (new_entries k s1) (old_charge k s1) (key_bytes k + n) s1 then (True, s1)
           else prepare_loop (new_entries k s1) (old_charge k s1) (key_bytes k + n)
                  (evictionKeysLocked k s1) s1)"
  by (simp add: prepareWriteLocked_def Let_def new_entries_def old_charge_def entry_charge_def
      split: option.split)

lemma prepareWriteLocked_spec:
  assumes "store_shape s" and "prepareWriteLocked k n now s = (b, t)"
  shows "b = fitsLocked s k n"
    and "b \<Longrightarrow> map_of (entries t) k = map_of (entries (pruneExpiredLocked now s)) k"
    and "b \<Longrightarrow> room_for (new_entries k t) (old_charge k t) (key_bytes k + n) t"
proof -
  let ?s1 = "pruneExpiredLocked now s"
  have shape: "store_shape ?s1"
    using pruneExpiredLocked_shrinks assms(1) by (rule shrinks_shape)
  have fits: "fitsLocked ?s1 k n = fitsLocked s k n"
    by (simp add: fitsLocked_def same_frame_simps[OF shrinks_frame[OF pruneExpiredLocked_shrinks]])
  have main: "b = fitsLocked s k n \<and> (b \<longrightarrow> map_of (entries t) k = map_of (entries ?s1) k \<and>
      room_for (new_entries k t) (old_charge k t) (key_bytes k + n) t)"
  proof (cases "fitsLocked s k n")
    case True
    note fit = True
    show ?thesis
    proof (cases "room_for (new_entries k ?s1) (old_charge k ?s1) (key_bytes k + n) ?s1")
      case True
      then show ?thesis using fit assms(2) by (simp add: prepareWriteLocked_eq)
    next
      case False
      then have "prepare_loop (new_entries k ?s1) (old_charge k ?s1) (key_bytes k + n)
                  (evictionKeysLocked k ?s1) ?s1 = (b, t)"
        using fit assms(2) by (simp add: prepareWriteLocked_eq Let_def)
      then show ?thesis
        using prepare_loop_succeeds[OF shape _ _ _ False, of "evictionKeysLocked k ?s1"] fit fits
        by (auto simp: eviction_keys_set)
    qed
  qed (use assms(2) in \<open>simp add: prepareWriteLocked_eq\<close>)
  show "b = fitsLocked s k n" using main by blast
  show "b \<Longrightarrow> map_of (entries t) k = map_of (entries ?s1) k" using main by blast
  show "b \<Longrightarrow> room_for (new_entries k t) (old_charge k t) (key_bytes k + n) t" using main by blast
qed

lemma enforce_loop_within:
  assumes "store_shape s" and "fst ` set (entries s) \<subseteq> set ks"
  shows "int (length (entries (enforce_loop ks s))) \<le> MaxEntries (options s) \<and>
         usedBytes (enforce_loop ks s) \<le> MaxBytes (options s)"
  using assms
proof (induction ks arbitrary: s)
  case Nil
  then show ?case by (simp add: store_shape_def options_ok_def)
next
  case (Cons c cs)
  have shape: "store_shape (removeLocked c s)"
    using shrinks_one Cons.prems(1) by (rule shrinks_shape)
  have sub: "fst ` set (entries (removeLocked c s)) \<subseteq> set cs"
    using Cons.prems(2) by (auto simp: set_alist_delete)
  show ?case
    using Cons.IH[OF shape sub] by (simp add: same_frame_simps[OF removeLocked_frame])
qed

lemma valid_key_nonempty: "valid_key k \<Longrightarrow> k \<noteq> EntryKey [] []"
  by (auto simp: valid_key_def validateKey_def validateNamespace_def split: if_splits)

lemma enforceMaxEntriesLocked_bounds:
  assumes "store_shape s"
  shows "store_bounds (enforceMaxEntriesLocked now s)"
proof -
  let ?s1 = "pruneExpiredLocked now s"
  let ?s2 = "pruneOversizedLocked ?s1"
  let ?t = "enforceMaxEntriesLocked now s"
  have sh1: "store_shape ?s1" using pruneExpiredLocked_shrinks assms by (rule shrinks_shape)
  have sh2: "store_shape ?s2" using pruneOversizedLocked_shrinks sh1 by (rule shrinks_shape)
  have opt: "options ?t = options ?s2"
    unfolding enforceMaxEntriesLocked_def Let_def
    by (rule same_frame_simps(1)[OF shrinks_frame[OF enforce_loop_shrinks]])
  have opt2: "options ?s2 = options ?s1"
    by (rule same_frame_simps(1)[OF shrinks_frame[OF pruneOversizedLocked_shrinks]])
  have "EntryKey [] [] \<notin> fst ` set (entries ?s2)"
    using store_shape_valid[OF sh2] valid_key_nonempty by fastforce
  then have sub: "fst ` set (entries ?s2) \<subseteq> set (evictionKeysLocked (EntryKey [] []) ?s2)"
    by (simp add: eviction_keys_set)
  have small: "(k, e) \<in> set (entries ?s2) \<Longrightarrow> int (length (e_value e)) \<le> MaxValueBytes (options ?s2)"
    for k e
    using sh1 store_shape_options[OF sh1]
    by (auto simp: pruneOversizedLocked_def Let_def options_ok_def
        removeIf_entries store_shape_distinct opt2
        same_frame_simps[OF shrinks_frame[OF removeIf_shrinks]] split: if_splits)
  have "set (entries ?t) \<subseteq> set (entries ?s2)"
    unfolding enforceMaxEntriesLocked_def Let_def
    by (rule shrinks_subset[OF enforce_loop_shrinks])
  then show ?thesis
    using enforce_loop_within[OF sh2 sub] small
    unfolding store_bounds_def opt
    by (auto simp: enforceMaxEntriesLocked_def Let_def)
qed


section \<open>Writes\<close>

lemma writeLocked_entry:
  "writeLocked k v now ttl s = (w, t) \<Longrightarrow>
   e_value w = v \<and> e_updatedAt w = now \<and> map_of (entries t) k = Some w \<and>
   e_expiresAt w = (if ttl > 0 then time_add now ttl else 0) \<and>
   e_version w = (case map_of (entries s) k of None \<Rightarrow> 1 | Some c \<Rightarrow> e_version c + 1) \<and>
   e_createdAt w = (case map_of (entries s) k of None \<Rightarrow> now | Some c \<Rightarrow> e_createdAt c)"
  by (auto simp: writeLocked_def Let_def fresh_entry_def update_conv' split: option.splits)

text \<open>
  A write followed by the pointer assignments of \<^verbatim>\<open>Set\<close> and \<^verbatim>\<open>Observe\<close>, in one step: the
  entry is replaced and only its bytes are charged.
\<close>

lemma write_put_store:
  assumes "writeLocked k v now ttl s = (w, t)"
  shows "put_entry k w' t =
    s\<lparr>entries := AList.update k w' (entries s),
      usedBytes := usedBytes s - old_charge k s + key_bytes k + int (length v)\<rparr>"
  using assms
  by (auto simp: writeLocked_def put_entry_def Let_def old_charge_def entry_charge_def
      fresh_entry_def split: option.splits)

lemma length_update_new_entries:
  "int (length (AList.update k w xs)) = int (length xs) + (case map_of xs k of None \<Rightarrow> 1 | Some _ \<Rightarrow> 0)"
  by (auto simp: length_alist_update split: option.splits)

lemma sum_update_old_charge:
  assumes "store_shape s"
  shows "alist_sum entry_charge (AList.update k w (entries s)) =
         usedBytes s - old_charge k s + entry_charge (k, w)"
  using assms
  by (auto simp: old_charge_def alist_sum_update_new alist_sum_update_old store_shape_def
      split: option.splits)

lemma updated_store_shape:
  assumes "store_shape s" and "valid_key k" and "ReceiptID (e_order w) > 0 \<Longrightarrow> e_order w \<le> highestRegistered s"
    and "u = usedBytes s - old_charge k s + entry_charge (k, w)"
  shows "store_shape (s\<lparr>entries := AList.update k w (entries s), usedBytes := u\<rparr>)"
  using assms sum_update_old_charge[OF assms(1), of k w] set_alist_update_subset[of k w "entries s"]
  by (force simp: store_shape_def fence_ok_def distinct_update)

lemma updated_store_bounds:
  assumes "store_bounds s" and "room_for (new_entries k s) (old_charge k s) (entry_charge (k, w)) s"
    and "int (length (e_value w)) \<le> MaxValueBytes (options s)"
    and "u = usedBytes s - old_charge k s + entry_charge (k, w)"
  shows "store_bounds (s\<lparr>entries := AList.update k w (entries s), usedBytes := u\<rparr>)"
proof -
  have "\<forall>(j, e) \<in> set (AList.update k w (entries s)). int (length (e_value e)) \<le> MaxValueBytes (options s)"
    using assms(1,3) set_alist_update_subset[of k w "entries s"]
    unfolding store_bounds_def by blast
  then show ?thesis
    using assms(2,4)
    by (simp add: store_bounds_def room_for_def new_entries_def length_update_new_entries)
qed

lemma updated_store_ok:
  assumes "store_ok s" and "valid_key k" and "ReceiptID (e_order w) > 0 \<Longrightarrow> e_order w \<le> highestRegistered s"
    and "room_for (new_entries k s) (old_charge k s) (entry_charge (k, w)) s"
    and "int (length (e_value w)) \<le> MaxValueBytes (options s)"
    and "u = usedBytes s - old_charge k s + entry_charge (k, w)"
  shows "store_ok (s\<lparr>entries := AList.update k w (entries s), usedBytes := u\<rparr>)"
  using assms updated_store_shape updated_store_bounds
  by (simp add: store_ok_def pruner_ok_def)

lemma fence_raise_ok: "store_ok s \<Longrightarrow> store_ok (s\<lparr>discardedBefore := highestRegistered s\<rparr>)"
  by (auto simp: store_ok_def store_shape_def store_bounds_def pruner_ok_def fence_ok_def)

lemma register_ok: "store_ok s \<Longrightarrow> store_ok (registerObservationLocked ord s)"
  by (fastforce simp: store_ok_def store_shape_def store_bounds_def pruner_ok_def fence_ok_def
      registerObservationLocked_def)

section \<open>Every operation preserves the invariant\<close>

lemma validateKey_Inr: "validateKey ns k = Inr sk \<Longrightarrow> sk = EntryKey ns k \<and> valid_key sk"
  by (auto simp: valid_key_def validateKey_def validateNamespace_def split: sum.splits if_splits)

lemma normalizeOptions_ok: "options_ok (normalizeOptions p)"
  by (auto simp: normalizeOptions_def options_ok_def Let_def DefaultMaxEntries_def
      DefaultMaxValueBytes_def DefaultMaxBytes_def)

lemma New_ok: "store_ok (New p)"
  using normalizeOptions_ok[of p]
  by (auto simp: New_def store_ok_def store_shape_def store_bounds_def pruner_ok_def fence_ok_def
      options_ok_def Let_def launchPruneLoop_def)

lemma entryLocked_ok: "store_ok s \<Longrightarrow> entryLocked k now s = (c, t) \<Longrightarrow> store_ok t"
  using shrinks_ok[OF entryLocked_shrinks] by (metis snd_conv)

lemma removeLocked_ok: "store_ok s \<Longrightarrow> store_ok (removeLocked k s)"
  by (rule shrinks_ok[OF shrinks_one])

lemma prepareWriteLocked_ok: "store_ok s \<Longrightarrow> prepareWriteLocked k n now s = (b, t) \<Longrightarrow> store_ok t"
  using shrinks_ok[OF prepareWriteLocked_shrinks] by (metis snd_conv)

lemmas kv_ok_intros = entryLocked_ok removeLocked_ok prepareWriteLocked_ok fence_raise_ok register_ok

lemma Store_Get_ok: "store_ok s \<Longrightarrow> store_ok (snd (Store_Get ns k now s))"
  by (auto simp: Store_Get_def split: sum.splits prod.splits option.splits intro: kv_ok_intros)

lemma Store_Delete_ok: "store_ok s \<Longrightarrow> store_ok (snd (Store_Delete ns k now s))"
  by (auto simp: Store_Delete_def split: sum.splits prod.splits option.splits intro: kv_ok_intros)

lemma Store_GetDelete_ok: "store_ok s \<Longrightarrow> store_ok (snd (Store_GetDelete ns k now s))"
  by (auto simp: Store_GetDelete_def split: sum.splits prod.splits option.splits intro: kv_ok_intros)

lemma Store_PTTL_ok: "store_ok s \<Longrightarrow> store_ok (snd (Store_PTTL ns k now s))"
  by (auto simp: Store_PTTL_def Let_def split: sum.splits prod.splits option.splits
      intro: kv_ok_intros)

lemma readBounded_ok: "store_ok s \<Longrightarrow> store_ok (snd (readBounded ns k iv mb sz rm now s))"
  by (auto simp: readBounded_def split: sum.splits prod.splits option.splits intro: kv_ok_intros)

lemma ListBounded_ok: "store_ok s \<Longrightarrow> store_ok (snd (ListBounded ns p lim iv mb sz now s))"
  using shrinks_ok[OF pruneExpiredLocked_shrinks]
  by (auto simp: ListBounded_def Let_def split: sum.splits)

lemma Store_Exists_ok: "store_ok s \<Longrightarrow> store_ok (snd (Store_Exists ns k now s))"
  using readBounded_ok[of s ns k False unlimitedReadBytes None False now]
  by (auto simp: Store_Exists_def GetBounded_def split: prod.splits sum.splits)

lemma Observation_ok: "store_ok s \<Longrightarrow> store_ok (snd (Observation ns k now s))"
  by (auto simp: Observation_def split: sum.splits prod.splits option.splits intro: kv_ok_intros)

lemma RegisterObservation_ok: "store_ok s \<Longrightarrow> store_ok (RegisterObservation ord s)"
  by (simp add: RegisterObservation_def register_ok)

lemma Store_Close_ok: "store_ok s \<Longrightarrow> store_ok (Store_Close s)"
  by (auto simp: Store_Close_def store_ok_def store_shape_def store_bounds_def pruner_ok_def
      fence_ok_def Let_def)

lemma PruneExpired_ok: "store_ok s \<Longrightarrow> store_ok (pruneExpiredLocked now s)"
  by (rule shrinks_ok[OF pruneExpiredLocked_shrinks])

lemma entryLocked_found:
  "entryLocked k now s = (Some e, t) \<Longrightarrow> t = s \<and> map_of (entries s) k = Some e \<and> \<not> isExpired e now"
  by (auto simp: entryLocked_def split: option.splits if_splits)

lemma entryLocked_absent:
  "entryLocked k now s = (None, t) \<Longrightarrow> map_of (entries t) k = None"
  by (auto simp: entryLocked_def delete_conv' split: option.splits if_splits)

lemma put_existing_ok:
  assumes "store_ok s" and "map_of (entries s) k = Some e" and "e_value e' = e_value e"
    and "e_order e' = e_order e"
  shows "store_ok (put_entry k e' s)"
proof -
  have in_s: "(k, e) \<in> set (entries s)" using assms(2) by (rule map_of_in_set)
  have charge: "entry_charge (k, e') = old_charge k s"
    using assms(2,3) by (simp add: old_charge_def entry_charge_def)
  have "store_ok (s\<lparr>entries := AList.update k e' (entries s), usedBytes := usedBytes s\<rparr>)"
  proof (rule updated_store_ok[OF assms(1)])
    show "valid_key k" using assms(1) in_s by (auto simp: store_ok_def intro: store_shape_valid)
    show "e_order e' \<le> highestRegistered s" if "ReceiptID (e_order e') > 0"
      using assms(1,4) in_s that by (auto simp: store_ok_def store_shape_def fence_ok_def)
    show "room_for (new_entries k s) (old_charge k s) (entry_charge (k, e')) s"
      using assms(1,2) by (simp add: charge room_for_def new_entries_def store_ok_def store_bounds_def)
    show "int (length (e_value e')) \<le> MaxValueBytes (options s)"
      using assms(1,3) in_s by (auto simp: store_ok_def store_bounds_def)
    show "usedBytes s = usedBytes s - old_charge k s + entry_charge (k, e')"
      by (simp add: charge)
  qed
  then show ?thesis by (simp add: put_entry_def)
qed

lemma Store_Expire_ok: "store_ok s \<Longrightarrow> store_ok (snd (Store_Expire ns k ttl now s))"
  by (auto simp: Store_Expire_def split: sum.splits prod.splits option.splits
      intro: kv_ok_intros Store_Delete_ok put_existing_ok dest: entryLocked_found)

lemma admitted_write_ok:
  assumes "store_ok s" and "valid_key k"
    and "prepareWriteLocked k (int (length v)) now s = (True, s1)"
    and "s2 = s1 \<or> s2 = s1\<lparr>discardedBefore := highestRegistered s1\<rparr>"
    and "writeLocked k v now ttl s2 = (w, t)"
    and "int (length v) \<le> MaxValueBytes (options s)"
    and "ReceiptID ord > 0 \<Longrightarrow> ord \<le> highestRegistered s"
  shows "store_ok (put_entry k (w\<lparr>e_order := ord, e_unavailable := b\<rparr>) t)"
proof -
  let ?w = "w\<lparr>e_order := ord, e_unavailable := b\<rparr>"
  have fr: "same_frame s s1"
    using shrinks_frame[OF prepareWriteLocked_shrinks] assms(3) by (metis snd_conv)
  have shape: "store_shape s" using assms(1) by (simp add: store_ok_def)
  have room: "room_for (new_entries k s1) (old_charge k s1) (key_bytes k + int (length v)) s1"
    using prepareWriteLocked_spec(3)[OF shape assms(3)] by simp
  have ok2: "store_ok s2"
    using prepareWriteLocked_ok[OF assms(1,3)] assms(4) by (auto intro: fence_raise_ok)
  have wv: "e_value w = v" using writeLocked_entry[OF assms(5)] by simp
  have "store_ok (s2\<lparr>entries := AList.update k ?w (entries s2),
      usedBytes := usedBytes s2 - old_charge k s2 + key_bytes k + int (length v)\<rparr>)"
    using room assms(2,4,6,7)
    by (intro updated_store_ok[OF ok2])
       (auto simp: wv entry_charge_def room_for_def new_entries_def old_charge_def
         same_frame_simps[OF fr])
  then show ?thesis by (simp add: write_put_store[OF assms(5)])
qed

lemma validateValue_Inr:
  "store_ok s \<Longrightarrow> validateValue s v = Inr u \<Longrightarrow> int (length v) \<le> MaxValueBytes (options s)"
  by (auto simp: validateValue_def store_ok_def store_shape_def options_ok_def Let_def
      split: if_splits)


lemma entryLocked_options: "entryLocked k now s = (c, t) \<Longrightarrow> same_frame s t"
  using shrinks_frame[OF entryLocked_shrinks] by (metis snd_conv)

text \<open>
  \<^verbatim>\<open>Set\<close> either stops with a state that only shrank, or admits and writes the entry.
\<close>

lemma Store_Set_cases:
  assumes "Store_Set ns k v opts now s = (r, t)"
  obtains (stopped) "shrinks s t" "\<And>e. r \<noteq> Inr (Some e)"
  | (written) sk cur s1 s2 s3 w s4 where
      "validateKey ns k = Inr sk" "validateValue s v = Inr ()" "entryLocked sk now s = (cur, s1)"
      "prepareWriteLocked sk (int (length v)) now s1 = (True, s2)"
      "s3 = (case cur of Some c \<Rightarrow> if ReceiptID (e_order c) > 0
               then s2\<lparr>discardedBefore := highestRegistered s2\<rparr> else s2 | None \<Rightarrow> s2)"
      "writeLocked sk v now (TTL opts) s3 = (w, s4)"
      "t = put_entry sk (w\<lparr>e_order := zeroOrder, e_unavailable := False\<rparr>) s4"
      "r = Inr (Some (exportEntry sk (w\<lparr>e_order := zeroOrder, e_unavailable := False\<rparr>) True))"
proof (cases "validateKey ns k")
  case (Inl err)
  then show ?thesis using assms stopped by (auto simp: Store_Set_def)
next
  case (Inr sk)
  note vk = Inr
  show ?thesis
  proof (cases "validateValue s v")
    case (Inl err)
    then show ?thesis using vk assms stopped by (auto simp: Store_Set_def)
  next
    case (Inr u)
    obtain cur s1 where el: "entryLocked sk now s = (cur, s1)" by (cases "entryLocked sk now s")
    have sh1: "shrinks s s1" using entryLocked_shrinks[of s sk now] el by simp
    obtain b s2 where pw: "prepareWriteLocked sk (int (length v)) now s1 = (b, s2)"
      by (cases "prepareWriteLocked sk (int (length v)) now s1")
    have sh2: "shrinks s s2"
      using prepareWriteLocked_shrinks[of s1 sk "int (length v)" now] pw sh1
      by (auto intro: shrinks_trans)
    define s3 where "s3 = (case cur of Some c \<Rightarrow> if ReceiptID (e_order c) > 0
        then s2\<lparr>discardedBefore := highestRegistered s2\<rparr> else s2 | None \<Rightarrow> s2)"
    obtain w s4 where wl: "writeLocked sk v now (TTL opts) s3 = (w, s4)"
      by (cases "writeLocked sk v now (TTL opts) s3")
    consider (no) "shrinks s t" "\<And>e. r \<noteq> Inr (Some e)"
      | (yes) b "t = put_entry sk (w\<lparr>e_order := zeroOrder, e_unavailable := False\<rparr>) s4"
        "r = Inr (Some (exportEntry sk (w\<lparr>e_order := zeroOrder, e_unavailable := False\<rparr>) True))"
      using assms vk Inr el pw wl sh1 sh2
      by (auto simp: Store_Set_def Let_def s3_def[symmetric] split: if_splits bool.splits)
    then show ?thesis
    proof cases
      case no
      then show ?thesis by (rule stopped)
    next
      case yes
      then show ?thesis using written[OF vk _ el _ s3_def wl] Inr pw by simp
    qed
  qed
qed

lemma zeroOrder_receipt [simp]: "ReceiptID zeroOrder = 0"
  by (simp add: zeroOrder_def)

lemma Store_Set_ok:
  assumes "store_ok s"
  shows "store_ok (snd (Store_Set ns k v opts now s))"
proof -
  obtain r t where rt: "Store_Set ns k v opts now s = (r, t)" by fastforce
  then have "store_ok t"
  proof (cases rule: Store_Set_cases)
    case stopped
    then show ?thesis using assms by (blast intro: shrinks_ok)
  next
    case (written sk cur s1 s2 s3 w s4)
    have ok1: "store_ok s1" using assms written(3) by (rule entryLocked_ok)
    have val: "int (length v) \<le> MaxValueBytes (options s1)"
      using validateValue_Inr[OF assms written(2)] entryLocked_options[OF written(3)]
      by (simp add: same_frame_def)
    have vk: "valid_key sk" using validateKey_Inr[OF written(1)] by blast
    have s3: "s3 = s2 \<or> s3 = s2\<lparr>discardedBefore := highestRegistered s2\<rparr>"
      using written(5) by (auto split: option.splits)
    show ?thesis
      unfolding written(7)
      by (rule admitted_write_ok[OF ok1 vk written(4) s3 written(6) val]) simp
  qed
  then show ?thesis using rt by simp
qed

text \<open>
  \<^verbatim>\<open>Observe\<close> either rejects (the state may shrink and the registered order may rise), or
  fails to admit even the marker (and raises the fence), or writes value or marker.
\<close>

definition is_temporal :: "entry option \<Rightarrow> bool" where
  "is_temporal c = (case c of Some e \<Rightarrow> ReceiptID (e_order e) > 0 | None \<Rightarrow> False)"

lemma Observe_cases:
  assumes "Observe ns k ord v now s = (r, t)"
  obtains (invalid) "t = s" "\<And>b. r \<noteq> Inr b"
  | (rejected) "ReceiptID ord > 0" "shrinks (registerObservationLocked ord s) t" "r = Inr False"
  | (lost) sk s2 s3 n where "ReceiptID ord > 0" "validateKey ns k = Inr sk"
      "shrinks (registerObservationLocked ord s) s2"
      "prepareWriteLocked sk n now s2 = (False, s3)"
      "t = (removeLocked sk s3)\<lparr>discardedBefore := highestRegistered (removeLocked sk s3)\<rparr>"
      "r = Inl ErrCapacity"
  | (written) sk cur s2 s3 v' av w s4 where "ReceiptID ord > 0" "validateKey ns k = Inr sk"
      "Generation (highestRegistered (registerObservationLocked ord s)) \<le> Generation ord"
      "entryLocked sk now (registerObservationLocked ord s) = (cur, s2)"
      "is_temporal cur \<Longrightarrow> e_order (the cur) < ord"
      "\<not> is_temporal cur \<Longrightarrow> discardedBefore s2 < ord"
      "av = (int (length v) \<le> MaxValueBytes (options s2) \<and> fitsLocked s2 sk (int (length v)))"
      "v' = (if av then v else [])"
      "prepareWriteLocked sk (int (length v')) now s2 = (True, s3)"
      "writeLocked sk v' now 0 s3 = (w, s4)"
      "t = put_entry sk (w\<lparr>e_order := ord, e_unavailable := \<not> av\<rparr>) s4" "r = Inr True"
proof (cases "validateKey ns k")
  case (Inl err)
  then show ?thesis using assms invalid by (auto simp: Observe_def)
next
  case (Inr sk)
  note vk = Inr
  let ?s1 = "registerObservationLocked ord s"
  obtain cur s2 where el: "entryLocked sk now ?s1 = (cur, s2)" by fastforce
  have sh2: "shrinks ?s1 s2" using entryLocked_shrinks[of ?s1 sk now] el by simp
  define av where "av = (int (length v) \<le> MaxValueBytes (options s2) \<and> fitsLocked s2 sk (int (length v)))"
  define v' where "v' = (if av then v else [])"
  obtain b s3 where pw: "prepareWriteLocked sk (int (length v')) now s2 = (b, s3)" by fastforce
  obtain w s4 where wl: "writeLocked sk v' now 0 s3 = (w, s4)" by fastforce
  define stale where "stale = (case cur of
      Some c \<Rightarrow> if ReceiptID (e_order c) > 0 then ord \<le> e_order c else ord \<le> discardedBefore s2
    | None \<Rightarrow> ord \<le> discardedBefore s2)"
  have eq: "ReceiptID ord > 0 \<Longrightarrow> Observe ns k ord v now s =
     (if Generation ord < Generation (highestRegistered ?s1) then (Inr False, ?s1)
      else if stale then (Inr False, s2)
      else if b then (Inr True, put_entry sk (w\<lparr>e_order := ord, e_unavailable := \<not> av\<rparr>) s4)
      else (Inl ErrCapacity,
            (removeLocked sk s3)\<lparr>discardedBefore := highestRegistered (removeLocked sk s3)\<rparr>))"
    using vk el pw[unfolded v'_def av_def] wl[unfolded v'_def av_def]
    by (auto simp: Observe_def Let_def stale_def v'_def av_def not_less
        split: option.splits if_splits)
  consider "ReceiptID ord \<le> 0"
    | "ReceiptID ord > 0" "Generation ord < Generation (highestRegistered ?s1)"
    | "ReceiptID ord > 0" "\<not> Generation ord < Generation (highestRegistered ?s1)" stale
    | "ReceiptID ord > 0" "\<not> Generation ord < Generation (highestRegistered ?s1)" "\<not> stale" "\<not> b"
    | "ReceiptID ord > 0" "\<not> Generation ord < Generation (highestRegistered ?s1)" "\<not> stale" b
    by fastforce
  then show ?thesis
  proof cases
    case 1
    then show ?thesis using assms vk invalid by (auto simp: Observe_def)
  next
    case 2
    then show ?thesis using assms eq rejected by (auto intro: shrinks_refl)
  next
    case 3
    then show ?thesis using assms eq rejected sh2 by auto
  next
    case 4
    then have "prepareWriteLocked sk (int (length v')) now s2 = (False, s3)" using pw by simp
    with 4 show ?thesis using assms eq lost[OF _ vk sh2] by auto
  next
    case 5
    have "is_temporal cur \<Longrightarrow> e_order (the cur) < ord" "\<not> is_temporal cur \<Longrightarrow> discardedBefore s2 < ord"
      using 5(3) by (auto simp: stale_def is_temporal_def split: option.splits if_splits)
    then show ?thesis
      using 5 assms eq written[OF _ vk _ el _ _ av_def v'_def _ wl] pw by auto
  qed
qed


lemma register_highest:
  "ReceiptID ord > 0 \<Longrightarrow> ord \<le> highestRegistered (registerObservationLocked ord s)"
  by (auto simp: registerObservationLocked_def)

lemma Observe_ok:
  assumes "store_ok s"
  shows "store_ok (snd (Observe ns k ord v now s))"
proof -
  have ok1: "store_ok (registerObservationLocked ord s)" using assms by (rule register_ok)
  obtain r t where rt: "Observe ns k ord v now s = (r, t)" by fastforce
  then have "store_ok t"
  proof (cases rule: Observe_cases)
    case invalid
    then show ?thesis using assms by simp
  next
    case rejected
    then show ?thesis using ok1 by (blast intro: shrinks_ok)
  next
    case (lost sk s2 s3 n)
    have "store_ok s3"
      using ok1 lost(3,4) by (blast intro: shrinks_ok prepareWriteLocked_ok)
    then show ?thesis unfolding lost(5) by (intro fence_raise_ok removeLocked_ok)
  next
    case (written sk cur s2 s3 v' av w s4)
    have ok2: "store_ok s2" using ok1 written(4) by (rule entryLocked_ok)
    have fr: "same_frame (registerObservationLocked ord s) s2"
      using written(4) by (rule entryLocked_options)
    have vk: "valid_key sk" using validateKey_Inr[OF written(2)] by blast
    have val: "int (length v') \<le> MaxValueBytes (options s2)"
      using ok2 written(7,8) by (simp add: store_ok_def store_shape_def options_ok_def)
    have ord: "ord \<le> highestRegistered s2"
      using register_highest[OF written(1), of s] by (simp add: same_frame_simps[OF fr])
    show ?thesis
      unfolding written(11)
      by (rule admitted_write_ok[OF ok2 vk written(9) disjI1[OF refl] written(10) val ord])
  qed
  then show ?thesis using rt by simp
qed

lemma Store_Configure_ok:
  assumes "store_ok s"
  shows "store_ok (Store_Configure p now s)"
proof (cases "closed s")
  case True
  then show ?thesis using assms by (simp add: Store_Configure_def Let_def)
next
  case False
  let ?o = "normalizeOptions p"
  define s1 where "s1 = s\<lparr>options := (options s)\<lparr>MaxEntries := MaxEntries ?o,
      MaxValueBytes := MaxValueBytes ?o, MaxBytes := MaxBytes ?o\<rparr>\<rparr>"
  define s2 where "s2 = pruneOversizedLocked s1"
  define s3 where "s3 = (if PruneInterval (options s2) \<noteq> PruneInterval ?o
      then s2\<lparr>options := (options s2)\<lparr>PruneInterval := PruneInterval ?o\<rparr>,
              pruner := (if PruneInterval ?o > 0 then launchPruneLoop (PruneInterval ?o) else None)\<rparr>
      else s2)"
  have conf: "Store_Configure p now s = enforceMaxEntriesLocked now s3"
    using False by (simp add: Store_Configure_def Let_def s1_def s2_def s3_def)
  have o: "options_ok ?o" by (rule normalizeOptions_ok)
  have sh1: "store_shape s1 \<and> pruner_ok s1 \<and> \<not> closed s1"
    using assms o False
    by (auto simp: s1_def store_ok_def store_shape_def pruner_ok_def fence_ok_def options_ok_def)
  have "shrinks s1 s2" by (simp add: s2_def pruneOversizedLocked_shrinks)
  then have sh2: "store_shape s2" "pruner_ok s2" "\<not> closed s2"
    using sh1 shrinks_frame by (auto simp: same_frame_def intro: shrinks_shape shrinks_pruner_ok)
  have sh3: "store_shape s3" "pruner_ok s3"
    using sh2 o
    by (auto simp: s3_def store_shape_def fence_ok_def options_ok_def pruner_ok_def launchPruneLoop_def)
  have "store_shape (enforceMaxEntriesLocked now s3)" "pruner_ok (enforceMaxEntriesLocked now s3)"
    using sh3 enforceMaxEntriesLocked_shrinks by (blast intro: shrinks_shape shrinks_pruner_ok)+
  then show ?thesis
    using enforceMaxEntriesLocked_bounds[OF sh3(1)] by (simp add: conf store_ok_def)
qed

section \<open>The store as a transition system\<close>

text \<open>
  One step is one exported call under the mutex, at whatever time the clock then reads;
  a tick of the prune goroutine is \<open>st_Prune\<close>. Calls from several goroutines interleave
  in the order they take the mutex, which the relation leaves open.
\<close>

inductive kv_step :: "Store \<Rightarrow> Store \<Rightarrow> bool" where
  st_Get: "kv_step s (snd (Store_Get ns k now s))"
| st_Set: "kv_step s (snd (Store_Set ns k v opts now s))"
| st_Delete: "kv_step s (snd (Store_Delete ns k now s))"
| st_GetDelete: "kv_step s (snd (Store_GetDelete ns k now s))"
| st_Expire: "kv_step s (snd (Store_Expire ns k ttl now s))"
| st_PTTL: "kv_step s (snd (Store_PTTL ns k now s))"
| st_Exists: "kv_step s (snd (Store_Exists ns k now s))"
| st_Read: "kv_step s (snd (readBounded ns k iv mb sz rm now s))"
| st_List: "kv_step s (snd (ListBounded ns pfx lim iv mb sz now s))"
| st_Register: "kv_step s (RegisterObservation ord s)"
| st_Observe: "kv_step s (snd (Observe ns k ord v now s))"
| st_Observation: "kv_step s (snd (Observation ns k now s))"
| st_Prune: "kv_step s (pruneExpiredLocked now s)"
| st_Configure: "kv_step s (Store_Configure p now s)"
| st_Close: "kv_step s (Store_Close s)"

inductive kv_steps :: "Store \<Rightarrow> Store \<Rightarrow> bool" where
  kv_none [intro]: "kv_steps s s"
| kv_more: "kv_steps s t \<Longrightarrow> kv_step t u \<Longrightarrow> kv_steps s u"

inductive kv_reachable :: "Store \<Rightarrow> bool" where
  kv_start: "kv_reachable (New p)"
| kv_next: "kv_reachable s \<Longrightarrow> kv_step s t \<Longrightarrow> kv_reachable t"

lemma kv_step_ok: "kv_step s t \<Longrightarrow> store_ok s \<Longrightarrow> store_ok t"
  by (induction rule: kv_step.induct)
     (simp_all add: Store_Get_ok Store_Set_ok Store_Delete_ok Store_GetDelete_ok Store_Expire_ok
       Store_PTTL_ok Store_Exists_ok readBounded_ok ListBounded_ok RegisterObservation_ok Observe_ok
       Observation_ok PruneExpired_ok Store_Configure_ok Store_Close_ok)

lemma kv_steps_ok: "kv_steps s t \<Longrightarrow> store_ok s \<Longrightarrow> store_ok t"
  by (induction rule: kv_steps.induct) (auto intro: kv_step_ok)

lemma kv_steps_trans: "kv_steps t u \<Longrightarrow> kv_steps s t \<Longrightarrow> kv_steps s u"
  by (induction rule: kv_steps.induct) (auto intro: kv_more)

lemma kv_steps_one: "kv_step s t \<Longrightarrow> kv_steps s t"
  by (rule kv_more[OF kv_none])

lemma kv_reachable_ok: "kv_reachable s \<Longrightarrow> store_ok s"
  by (induction rule: kv_reachable.induct) (auto intro: kv_step_ok New_ok)

end
