(* ===== verification/HotKV_Spec.thy ===== *)
theory HotKV_Spec
  imports HotKV_Inv
begin

text \<open>
  What the hot cache promises its callers. The first part is the ordering contract of
  observations, stated as the locale \<open>fenced_log\<close> and interpreted on the store. The second
  part is the read and write behaviour of the operations, stated over the view \<open>peek\<close> of
  the live entries and collected in the locale \<open>ttl_cache\<close>.
\<close>

section \<open>Ordering contract\<close>

locale fenced_log =
  fixes ok :: "'s \<Rightarrow> bool"
    and step :: "'s \<Rightarrow> 's \<Rightarrow> bool"
    and fence :: "'s \<Rightarrow> 'k \<Rightarrow> 'o::linorder \<Rightarrow> bool"
    and accepts :: "'s \<Rightarrow> 'k \<Rightarrow> 'o \<Rightarrow> 's \<Rightarrow> bool"
  assumes step_ok: "ok s \<Longrightarrow> step s t \<Longrightarrow> ok t"
    and step_fence: "ok s \<Longrightarrow> step s t \<Longrightarrow> fence s k w \<Longrightarrow> fence t k w"
    and accepts_step: "accepts s k w t \<Longrightarrow> step s t"
    and accepts_fence: "ok s \<Longrightarrow> accepts s k w t \<Longrightarrow> fence t k w"
    and accepts_newer: "ok s \<Longrightarrow> fence s k w \<Longrightarrow> accepts s k w' t \<Longrightarrow> w < w'"
begin

lemma run_ok: "step\<^sup>*\<^sup>* s t \<Longrightarrow> ok s \<Longrightarrow> ok t"
  by (induction rule: rtranclp_induct) (auto intro: step_ok)

lemma run_fence: "step\<^sup>*\<^sup>* s t \<Longrightarrow> ok s \<Longrightarrow> fence s k w \<Longrightarrow> fence t k w"
  by (induction rule: rtranclp_induct) (auto intro: step_fence run_ok)

lemma accepted_increase:
  assumes "ok s" and "accepts s k w t" and "step\<^sup>*\<^sup>* t u" and "accepts u k w' v"
  shows "w < w'"
proof -
  have ok_t: "ok t" using assms(1,2) by (blast intro: step_ok accepts_step)
  have "fence u k w"
    using run_fence[OF assms(3) ok_t accepts_fence[OF assms(1,2)]] .
  then show ?thesis
    using accepts_newer[OF run_ok[OF assms(3) ok_t] _ assms(4)] by blast
qed

end

text \<open>
  \<open>fenced s k w\<close>: no observation of \<open>k\<close> up to \<open>w\<close> can be published any more, because the
  retained entry is at least as new or, without a temporal entry, the removal fence is.
\<close>

definition fenced :: "Store \<Rightarrow> entryKey \<Rightarrow> ObservationOrder \<Rightarrow> bool" where
  "fenced s k w =
     (if is_temporal (map_of (entries s) k)
      then w \<le> e_order (the (map_of (entries s) k)) else w \<le> discardedBefore s)"

lemma fenced_below_highest:
  assumes "store_shape s" and "fenced s k w"
  shows "w \<le> highestRegistered s"
proof (cases "map_of (entries s) k")
  case None
  then show ?thesis using assms
    by (auto simp: fenced_def is_temporal_def store_shape_def fence_ok_def)
next
  case (Some e)
  then have "(k, e) \<in> set (entries s)" by (rule map_of_in_set)
  then show ?thesis using assms Some
    by (auto simp: fenced_def is_temporal_def store_shape_def fence_ok_def split: if_splits)
qed

lemma discarded_mono_remove:
  "store_shape s \<Longrightarrow> discardedBefore s \<le> discardedBefore (removeLocked k s)"
  by (auto simp: removeLocked_discarded store_shape_def fence_ok_def split: option.splits)

lemma fenced_remove:
  assumes "store_shape s" and "fenced s k w"
  shows "fenced (removeLocked j s) k w"
proof (cases "j = k")
  case True
  then show ?thesis
    using assms fenced_below_highest[OF assms]
    by (auto simp: fenced_def is_temporal_def delete_conv' removeLocked_discarded
        split: option.splits if_splits)
next
  case False
  then have "map_of (entries (removeLocked j s)) k = map_of (entries s) k" by simp
  then show ?thesis
    using assms(2) discarded_mono_remove[OF assms(1), of j] unfolding fenced_def by auto
qed

lemma fenced_shrinks: "shrinks s t \<Longrightarrow> store_shape s \<Longrightarrow> fenced s k w \<Longrightarrow> fenced t k w"
  by (induction rule: shrinks.induct) (auto intro: fenced_remove shrinks_shape)

lemma fenced_raise:
  "store_shape s \<Longrightarrow> fenced s k w \<Longrightarrow> fenced (s\<lparr>discardedBefore := highestRegistered s\<rparr>) k w"
  using fenced_below_highest[of s k w] by (auto simp: fenced_def)

lemma fenced_register: "fenced s k w \<Longrightarrow> fenced (registerObservationLocked ord s) k w"
  by (auto simp: fenced_def registerObservationLocked_def)

lemma fenced_frame:
  assumes "fenced s k w" and "entries t = entries s" and "discardedBefore t = discardedBefore s"
  shows "fenced t k w"
  using assms by (simp add: fenced_def)

lemma fenced_put_other:
  "fenced s k w \<Longrightarrow> j \<noteq> k \<Longrightarrow> fenced (s\<lparr>entries := AList.update j e (entries s), usedBytes := u\<rparr>) k w"
  by (simp add: fenced_def update_conv')

lemma fenced_put_same:
  assumes "fenced s k w" and "map_of (entries s) k = Some e" and "e_order e' = e_order e"
  shows "fenced (put_entry k e' s) k w"
  using assms by (auto simp: fenced_def put_entry_def update_conv' is_temporal_def split: if_splits)

lemma fenced_put_entry:
  assumes "fenced s k w" and "map_of (entries s) j = Some e" and "e_order e' = e_order e"
  shows "fenced (put_entry j e' s) k w"
  using assms fenced_put_same[of s k w e e'] fenced_put_other[where u = "usedBytes s" and e = e' and j = j and s = s]
  by (cases "j = k") (auto simp: put_entry_def)

lemma store_ok_shape: "store_ok s \<Longrightarrow> store_shape s"
  by (simp add: store_ok_def)

lemma entryLocked_fenced:
  "entryLocked j now s = (c, t) \<Longrightarrow> store_shape s \<Longrightarrow> fenced s k w \<Longrightarrow> fenced t k w"
  using fenced_shrinks[OF entryLocked_shrinks] by (metis snd_conv)

lemma prepareWriteLocked_fenced:
  "prepareWriteLocked j n now s = (b, t) \<Longrightarrow> store_shape s \<Longrightarrow> fenced s k w \<Longrightarrow> fenced t k w"
  using fenced_shrinks[OF prepareWriteLocked_shrinks] by (metis snd_conv)

lemma prepareWriteLocked_shape:
  "prepareWriteLocked j n now s = (b, t) \<Longrightarrow> store_shape s \<Longrightarrow> store_shape t"
  using shrinks_shape[OF prepareWriteLocked_shrinks] by (metis snd_conv)

text \<open>An entry that survived the expiry check also survives the pruning of the write.\<close>

lemma prepared_lookup:
  assumes "store_shape s" and "entryLocked k now s = (cur, s1)"
    and "prepareWriteLocked k n now s1 = (True, s2)"
  shows "map_of (entries s2) k = cur"
proof -
  have sh1: "store_shape s1"
    using shrinks_shape[OF entryLocked_shrinks assms(1)] assms(2) by (metis snd_conv)
  have "map_of (entries s2) k = map_of (entries (pruneExpiredLocked now s1)) k"
    using prepareWriteLocked_spec(2)[OF sh1 assms(3)] by simp
  then show ?thesis
    using assms(2) entryLocked_found[of k now s] entryLocked_absent[of k now s]
    by (cases cur) (auto simp: pruneExpiredLocked_lookup[OF sh1])
qed

lemma Store_Set_fenced:
  assumes "store_ok s" and "fenced s k w"
  shows "fenced (snd (Store_Set ns j v opts now s)) k w"
proof -
  have sh: "store_shape s" using assms(1) by (rule store_ok_shape)
  obtain r t where rt: "Store_Set ns j v opts now s = (r, t)" by fastforce
  then have "fenced t k w"
  proof (cases rule: Store_Set_cases)
    case stopped
    then show ?thesis using assms sh by (blast intro: fenced_shrinks)
  next
    case (written sk cur s1 s2 s3 wr s4)
    have f1: "fenced s1 k w" using written(3) sh assms(2) by (rule entryLocked_fenced)
    have sh1: "store_shape s1" using entryLocked_ok[OF assms(1) written(3)] by (rule store_ok_shape)
    have f2: "fenced s2 k w" using written(4) sh1 f1 by (rule prepareWriteLocked_fenced)
    have sh2: "store_shape s2" using written(4) sh1 by (rule prepareWriteLocked_shape)
    have cur: "map_of (entries s2) sk = cur" using sh written(3,4) by (rule prepared_lookup)
    have s3: "entries s3 = entries s2" using written(5) by (auto split: option.splits)
    have f3: "fenced s3 k w"
      using written(5) f2 fenced_raise[OF sh2 f2] by (auto split: option.splits)
    have below: "w \<le> highestRegistered s2" using sh2 f2 by (rule fenced_below_highest)
    have disc: "w \<le> discardedBefore s3" if "sk = k"
      using written(5) f2 below that cur
      by (auto simp: fenced_def is_temporal_def split: option.splits if_splits)
    show ?thesis
      unfolding written(7) write_put_store[OF written(6)]
      using f3 disc
      by (cases "sk = k") (auto simp: fenced_def update_conv' is_temporal_def)
  qed
  then show ?thesis using rt by simp
qed

lemma Observe_fenced:
  assumes "store_ok s" and "fenced s k w"
  shows "fenced (snd (Observe ns j ord v now s)) k w"
proof -
  let ?s1 = "registerObservationLocked ord s"
  have ok1: "store_ok ?s1" using assms(1) by (rule register_ok)
  have sh1: "store_shape ?s1" using ok1 by (rule store_ok_shape)
  have f1: "fenced ?s1 k w" using assms(2) by (rule fenced_register)
  obtain r t where rt: "Observe ns j ord v now s = (r, t)" by fastforce
  then have "fenced t k w"
  proof (cases rule: Observe_cases)
    case invalid
    then show ?thesis using assms by simp
  next
    case rejected
    then show ?thesis using fenced_shrinks sh1 f1 by blast
  next
    case (lost sk s2 s3 n)
    have "store_shape s2" "fenced s2 k w"
      using lost(3) sh1 f1 by (blast intro: shrinks_shape fenced_shrinks)+
    then have "store_shape s3" "fenced s3 k w"
      using lost(4) by (blast intro: prepareWriteLocked_shape prepareWriteLocked_fenced)+
    then have "store_shape (removeLocked sk s3)" "fenced (removeLocked sk s3) k w"
      by (auto intro: shrinks_shape[OF shrinks_one] fenced_remove)
    then show ?thesis unfolding lost(5) by (rule fenced_raise)
  next
    case (written sk cur s2 s3 v' av wr s4)
    have f2: "fenced s2 k w" using written(4) sh1 f1 by (rule entryLocked_fenced)
    have sh2: "store_shape s2" using entryLocked_ok[OF ok1 written(4)] by (rule store_ok_shape)
    have f3: "fenced s3 k w" using written(9) sh2 f2 by (rule prepareWriteLocked_fenced)
    have cur: "map_of (entries s2) sk = cur"
      using entryLocked_found[of sk now ?s1] entryLocked_absent[of sk now ?s1] written(4)
      by (cases cur) auto
    have ord: "w < ord" if "sk = k"
      using written(5,6) f2 cur that by (auto simp: fenced_def split: if_splits)
    show ?thesis
      unfolding written(11) write_put_store[OF written(10)]
      using f3 ord written(1)
      by (cases "sk = k") (auto simp: fenced_def update_conv' is_temporal_def)
  qed
  then show ?thesis using rt by simp
qed

lemma Store_Configure_fenced:
  assumes "store_ok s" and "fenced s k w"
  shows "fenced (Store_Configure p now s) k w"
proof (cases "closed s")
  case True
  then show ?thesis using assms by (simp add: Store_Configure_def Let_def)
next
  case False
  let ?o = "normalizeOptions p"
  define s1 where "s1 = s\<lparr>options := (options s)\<lparr>MaxEntries := MaxEntries ?o,
      MaxValueBytes := MaxValueBytes ?o, MaxBytes := MaxBytes ?o\<rparr>\<rparr>"
  define s2 where "s2 = pruneOversizedLocked s1"
  define s3 where "s3 = (if PruneInterval (options s2) \<noteq> PruneInterval ?o
      then s2\<lparr>options := (options s2)\<lparr>PruneInterval := PruneInterval ?o\<rparr>,
              pruner := (if PruneInterval ?o > 0 then launchPruneLoop (PruneInterval ?o) else None)\<rparr>
      else s2)"
  have conf: "Store_Configure p now s = enforceMaxEntriesLocked now s3"
    using False by (simp add: Store_Configure_def Let_def s1_def s2_def s3_def)
  have sh1: "store_shape s1"
    using assms(1) normalizeOptions_ok[of p]
    by (auto simp: s1_def store_ok_def store_shape_def fence_ok_def options_ok_def)
  have f1: "fenced s1 k w" using assms(2) by (rule fenced_frame) (simp_all add: s1_def)
  have s12: "shrinks s1 s2" by (simp add: s2_def pruneOversizedLocked_shrinks)
  have f2: "fenced s2 k w" using s12 sh1 f1 by (rule fenced_shrinks)
  have sh2: "store_shape s2" using s12 sh1 by (rule shrinks_shape)
  have f3: "fenced s3 k w" using f2 by (rule fenced_frame) (simp_all add: s3_def)
  have sh3: "store_shape s3"
    using sh2 normalizeOptions_ok[of p]
    by (auto simp: s3_def store_shape_def fence_ok_def options_ok_def)
  show ?thesis
    unfolding conf using enforceMaxEntriesLocked_shrinks sh3 f3 by (rule fenced_shrinks)
qed

text \<open>Calls that only read or remove: the store after them is a shrunk store.\<close>

lemma reading_shrinks:
  "shrinks s (snd (Store_Get ns k now s))"
  "shrinks s (snd (Store_Delete ns k now s))"
  "shrinks s (snd (Store_GetDelete ns k now s))"
  "shrinks s (snd (Store_PTTL ns k now s))"
  "shrinks s (snd (readBounded ns k iv mb sz rm now s))"
  "shrinks s (snd (Observation ns k now s))"
proof -
  have el: "entryLocked a now s = (c, t) \<Longrightarrow> shrinks s t" for a c t
    using entryLocked_shrinks[of s a now] by simp
  have el2: "entryLocked a now s = (c, t) \<Longrightarrow> shrinks s (removeLocked b t)" for a b c t
    using el by (blast intro: shrinks_remove)
  show "shrinks s (snd (Store_Get ns k now s))"
    by (auto simp: Store_Get_def split: sum.splits prod.splits option.splits intro: el)
  show "shrinks s (snd (Store_Delete ns k now s))"
    by (auto simp: Store_Delete_def split: sum.splits prod.splits option.splits intro: el el2)
  show "shrinks s (snd (Store_GetDelete ns k now s))"
    by (auto simp: Store_GetDelete_def split: sum.splits prod.splits option.splits intro: el el2)
  show "shrinks s (snd (Store_PTTL ns k now s))"
    by (auto simp: Store_PTTL_def Let_def split: sum.splits prod.splits option.splits intro: el el2)
  show "shrinks s (snd (readBounded ns k iv mb sz rm now s))"
    by (auto simp: readBounded_def split: sum.splits prod.splits option.splits intro: el el2)
  show "shrinks s (snd (Observation ns k now s))"
    by (auto simp: Observation_def split: sum.splits prod.splits option.splits intro: el)
qed

lemma Store_Exists_shrinks: "shrinks s (snd (Store_Exists ns k now s))"
  using reading_shrinks(5)[of s ns k False unlimitedReadBytes None False now]
  by (auto simp: Store_Exists_def GetBounded_def split: prod.splits sum.splits)

lemma ListBounded_shrinks: "shrinks s (snd (ListBounded ns pfx lim iv mb sz now s))"
  by (auto simp: ListBounded_def Let_def pruneExpiredLocked_shrinks split: sum.splits)

lemma Store_Expire_fenced:
  assumes "store_ok s" and "fenced s k w"
  shows "fenced (snd (Store_Expire ns j ttl now s)) k w"
proof -
  have sh: "store_shape s" using assms(1) by (rule store_ok_shape)
  have "fenced (snd (Store_Delete ns j now s)) k w"
    using reading_shrinks(2) sh assms(2) by (rule fenced_shrinks)
  moreover have "entryLocked a now s = (None, t) \<Longrightarrow> fenced t k w" for a t
    using sh assms(2) by (blast intro: entryLocked_fenced)
  moreover have "entryLocked a now s = (Some e, t) \<Longrightarrow> e_order e' = e_order e \<Longrightarrow>
      fenced (put_entry a e' t) k w" for a t e e'
    using entryLocked_found[of a now s e t] assms(2) fenced_put_entry by auto
  ultimately show ?thesis
    using assms(2) by (auto simp: Store_Expire_def split: sum.splits prod.splits option.splits)
qed

lemma kv_step_fenced: "kv_step s t \<Longrightarrow> store_ok s \<Longrightarrow> fenced s k w \<Longrightarrow> fenced t k w"
proof (induction rule: kv_step.induct)
  case (st_Close s)
  then show ?case by (auto simp: Store_Close_def fenced_def Let_def)
qed (auto simp: RegisterObservation_def
       intro: fenced_shrinks[OF reading_shrinks(1)] fenced_shrinks[OF reading_shrinks(2)]
        fenced_shrinks[OF reading_shrinks(3)] fenced_shrinks[OF reading_shrinks(4)]
        fenced_shrinks[OF reading_shrinks(5)] fenced_shrinks[OF reading_shrinks(6)]
        fenced_shrinks[OF Store_Exists_shrinks] fenced_shrinks[OF ListBounded_shrinks]
        fenced_shrinks[OF pruneExpiredLocked_shrinks] Store_Set_fenced Observe_fenced
        Store_Expire_fenced Store_Configure_fenced fenced_register store_ok_shape)

definition observe_accepts :: "Store \<Rightarrow> entryKey \<Rightarrow> ObservationOrder \<Rightarrow> Store \<Rightarrow> bool" where
  "observe_accepts s k w t \<longleftrightarrow>
     (\<exists>v now. Observe (namespace k) (key k) w v now s = (Inr True, t))"

lemma Observe_True_cases:
  assumes "Observe ns j ord v now s = (Inr True, t)"
  obtains cur s2 s3 v' av w s4 where "ReceiptID ord > 0" "validateKey ns j = Inr (EntryKey ns j)"
      "entryLocked (EntryKey ns j) now (registerObservationLocked ord s) = (cur, s2)"
      "is_temporal cur \<Longrightarrow> e_order (the cur) < ord"
      "\<not> is_temporal cur \<Longrightarrow> discardedBefore s2 < ord"
      "av = (int (length v) \<le> MaxValueBytes (options s2) \<and> fitsLocked s2 (EntryKey ns j) (int (length v)))"
      "v' = (if av then v else [])"
      "prepareWriteLocked (EntryKey ns j) (int (length v')) now s2 = (True, s3)"
      "writeLocked (EntryKey ns j) v' now 0 s3 = (w, s4)"
      "t = put_entry (EntryKey ns j) (w\<lparr>e_order := ord, e_unavailable := \<not> av\<rparr>) s4"
  using assms
proof (cases rule: Observe_cases)
  case (written sk cur s2 s3 v' av w s4)
  have sk: "sk = EntryKey ns j" using validateKey_Inr[OF written(2)] by blast
  show ?thesis
    using that[OF written(1) written(2)[unfolded sk] written(4)[unfolded sk] written(5,6)
        written(7)[unfolded sk] written(8) written(9)[unfolded sk] written(10)[unfolded sk]
        written(11)[unfolded sk]] .
next
  case invalid
  then show ?thesis by blast
qed simp_all

lemma observe_accepts_fenced: "observe_accepts s k w t \<Longrightarrow> fenced t k w"
  unfolding observe_accepts_def
  by (elim exE, erule Observe_True_cases)
     (auto simp: write_put_store fenced_def update_conv' is_temporal_def)

lemma observe_accepts_newer:
  assumes "store_ok s" and "fenced s k w" and "observe_accepts s k w' t"
  shows "w < w'"
proof -
  let ?s1 = "registerObservationLocked w' s"
  obtain v now where "Observe (namespace k) (key k) w' v now s = (Inr True, t)"
    using assms(3) by (auto simp: observe_accepts_def)
  then obtain cur s2 where el: "entryLocked k now ?s1 = (cur, s2)"
    and lt: "is_temporal cur \<Longrightarrow> e_order (the cur) < w'" "\<not> is_temporal cur \<Longrightarrow> discardedBefore s2 < w'"
    by (elim Observe_True_cases) auto
  have f2: "fenced s2 k w"
    using el store_ok_shape[OF register_ok[OF assms(1)]] fenced_register[OF assms(2)]
    by (rule entryLocked_fenced)
  have "map_of (entries s2) k = cur"
    using el entryLocked_found[of k now ?s1] entryLocked_absent[of k now ?s1]
    by (cases cur) auto
  then show ?thesis using f2 lt by (auto simp: fenced_def split: if_splits)
qed

interpretation obs: fenced_log store_ok kv_step fenced observe_accepts
proof unfold_locales
  show "store_ok s \<Longrightarrow> kv_step s t \<Longrightarrow> store_ok t" for s t by (rule kv_step_ok)
  show "store_ok s \<Longrightarrow> kv_step s t \<Longrightarrow> fenced s k w \<Longrightarrow> fenced t k w" for s t k w
    by (rule kv_step_fenced)
  show "observe_accepts s k w t \<Longrightarrow> kv_step s t" for s k w t
    unfolding observe_accepts_def by (metis snd_conv st_Observe)
  show "store_ok s \<Longrightarrow> observe_accepts s k w t \<Longrightarrow> fenced t k w" for s k w t
    by (rule observe_accepts_fenced)
  show "store_ok s \<Longrightarrow> fenced s k w \<Longrightarrow> observe_accepts s k w' t \<Longrightarrow> w < w'" for s k w w' t
    by (rule observe_accepts_newer)
qed


section \<open>Read and write contract\<close>

text \<open>The entry a reader sees under a key: present and not expired.\<close>

definition peek :: "Store \<Rightarrow> go_time \<Rightarrow> entryKey \<Rightarrow> entry option" where
  "peek s now k =
     (case map_of (entries s) k of
        Some e \<Rightarrow> if isExpired e now then None else Some e | None \<Rightarrow> None)"

lemma entryLocked_peek: "fst (entryLocked k now s) = peek s now k"
  by (auto simp: entryLocked_def peek_def split: option.splits)

lemma entryLocked_keeps_peek:
  "entryLocked k now s = (c, t) \<Longrightarrow> peek t now j = peek s now j"
  by (auto simp: entryLocked_def peek_def delete_conv' split: option.splits if_splits)

lemma shrinks_peek: "shrinks s t \<Longrightarrow> peek t now k = None \<or> peek t now k = peek s now k"
  using shrinks_lookup[of s t k] by (auto simp: peek_def split: option.splits)

lemma Store_Get_peek:
  assumes "validateKey ns k = Inr sk"
  shows "fst (Store_Get ns k now s) = Inr (map_option (\<lambda>e. exportEntry sk e True) (peek s now sk))"
proof -
  obtain c t where el: "entryLocked sk now s = (c, t)" by fastforce
  have "c = peek s now sk" using entryLocked_peek[of sk now s] el by simp
  then show ?thesis using assms el by (cases "peek s now sk") (simp_all add: Store_Get_def)
qed

lemma Store_Get_keeps_peek: "peek (snd (Store_Get ns k now s)) now j = peek s now j"
  using entryLocked_keeps_peek
  by (auto simp: Store_Get_def split: sum.splits prod.splits option.splits)

lemma Observation_peek:
  assumes "validateKey ns k = Inr sk"
  shows "fst (Observation ns k now s) =
    Inr (case peek s now sk of
           Some e \<Rightarrow> if e_unavailable e \<or> ReceiptID (e_order e) \<le> 0 then None else Some (e_value e)
         | None \<Rightarrow> None)"
proof -
  obtain c t where el: "entryLocked sk now s = (c, t)" by fastforce
  have "c = peek s now sk" using entryLocked_peek[of sk now s] el by simp
  then show ?thesis using assms el by (cases "peek s now sk") (simp_all add: Observation_def)
qed

text \<open>A write whose TTL is zero or in the future is visible at the moment it happens.\<close>

lemma not_expired_after_write:
  "ttl \<le> 0 \<or> time_add now ttl \<noteq> 0 \<Longrightarrow>
   e_expiresAt w = (if ttl > 0 then time_add now ttl else 0) \<Longrightarrow> \<not> isExpired w now"
  by (auto simp: isExpired_def IsZero_def time_add_def)

lemma written_peek:
  assumes "writeLocked k v now ttl s = (w, t)"
  shows "peek (put_entry k (w\<lparr>e_order := ord, e_unavailable := b\<rparr>) t) now k =
         Some (w\<lparr>e_order := ord, e_unavailable := b\<rparr>)"
  using writeLocked_entry[OF assms]
  by (auto simp: peek_def put_entry_def update_conv' isExpired_def IsZero_def time_add_def)

lemma written_peek_other:
  assumes "writeLocked k v now ttl s = (w, t)" and "j \<noteq> k"
  shows "peek (put_entry k w' t) now' j = peek s now' j"
  using assms(2) by (simp add: write_put_store[OF assms(1)] peek_def update_conv')

lemma Store_Set_success:
  assumes "store_ok s" and "validateKey ns k = Inr sk" and "validateValue s v = Inr ()"
    and "Mode opts = SetModeAny" and "fitsLocked s sk (int (length v))"
  shows "\<exists>e. fst (Store_Set ns k v opts now s) = Inr (Some e)"
proof -
  obtain cur s1 where el: "entryLocked sk now s = (cur, s1)" by fastforce
  have ok1: "store_ok s1" using assms(1) el by (rule entryLocked_ok)
  have fits: "fitsLocked s1 sk (int (length v))"
    using assms(5) by (simp add: fitsLocked_def same_frame_simps[OF entryLocked_options[OF el]])
  obtain b s2 where pw: "prepareWriteLocked sk (int (length v)) now s1 = (b, s2)" by fastforce
  have b using prepareWriteLocked_spec(1)[OF store_ok_shape[OF ok1] pw] fits by simp
  then show ?thesis
    using assms el pw
    by (auto simp: Store_Set_def Let_def SetModeAny_def SetModeNX_def SetModeXX_def
        split: prod.splits)
qed

lemma Store_Set_value:
  assumes "Store_Set ns k v opts now s = (Inr (Some e), t)"
  shows "validateKey ns k = Inr (EntryKey ns k) \<and>
    (\<exists>w. peek t now (EntryKey ns k) = Some w \<and> e = exportEntry (EntryKey ns k) w True \<and>
             e_value w = v \<and> ReceiptID (e_order w) = 0)"
  using assms
proof (cases rule: Store_Set_cases)
  case stopped
  then show ?thesis by blast
next
  case (written sk cur s1 s2 s3 w s4)
  have sk: "sk = EntryKey ns k" using validateKey_Inr[OF written(1)] by blast
  have v: "e_value w = v" using writeLocked_entry[OF written(6)] by simp
  have p: "peek t now sk = Some (w\<lparr>e_order := zeroOrder, e_unavailable := False\<rparr>)"
    unfolding written(7) using written(6) by (rule written_peek)
  show ?thesis using written(1,8) v p by (simp add: sk)
qed

lemma Store_Set_other:
  assumes "Store_Set ns k v opts now s = (r, t)" and "j \<noteq> EntryKey ns k"
  shows "peek t now j = None \<or> peek t now j = peek s now j"
  using assms(1)
proof (cases rule: Store_Set_cases)
  case stopped
  then show ?thesis by (blast dest: shrinks_peek)
next
  case (written sk cur s1 s2 s3 w s4)
  have sk: "sk = EntryKey ns k" using validateKey_Inr[OF written(1)] by blast
  have "shrinks s1 s2" using prepareWriteLocked_shrinks[of s1 sk "int (length v)" now] written(4) by simp
  moreover have "shrinks s s1" using entryLocked_shrinks[of s sk now] written(3) by simp
  ultimately have "shrinks s s2" by (rule shrinks_trans)
  then have "peek s2 now j = None \<or> peek s2 now j = peek s now j" by (rule shrinks_peek)
  moreover have "peek s3 now j = peek s2 now j"
    using written(5) by (auto simp: peek_def split: option.splits)
  moreover have "peek t now j = peek s3 now j"
    unfolding written(7) using written(6) assms(2) sk by (auto intro: written_peek_other)
  ultimately show ?thesis by simp
qed

text \<open>
  The interface a caller of \<^verbatim>\<open>Get\<close> and \<^verbatim>\<open>Set\<close> relies on: a stored value is read back,
  nothing is invented under another key, and reading changes no visible entry.
\<close>

locale ttl_cache =
  fixes ok :: "'s \<Rightarrow> bool"
    and get :: "'k \<Rightarrow> 't \<Rightarrow> 's \<Rightarrow> 'v option \<times> 's"
    and set :: "'k \<Rightarrow> 'v \<Rightarrow> 'd \<Rightarrow> 't \<Rightarrow> 's \<Rightarrow> bool \<times> 's"
    and view :: "'s \<Rightarrow> 't \<Rightarrow> 'k \<Rightarrow> 'v option"
  assumes get_ok: "ok s \<Longrightarrow> ok (snd (get k now s))"
    and set_ok: "ok s \<Longrightarrow> ok (snd (set k v ttl now s))"
    and get_view: "fst (get k now s) = view s now k"
    and get_keeps: "view (snd (get k now s)) now j = view s now j"
    and set_hit: "ok s \<Longrightarrow> set k v ttl now s = (True, t) \<Longrightarrow> view t now k = Some v"
    and set_other: "ok s \<Longrightarrow> set k v ttl now s = (b, t) \<Longrightarrow> j \<noteq> k \<Longrightarrow>
                    view t now j = None \<or> view t now j = view s now j"
begin

lemma hit_after_set:
  assumes "ok s" and "set k v ttl now s = (True, t)"
  shows "fst (get k now t) = Some v"
  using set_hit[OF assms] by (simp add: get_view)

lemma other_after_set:
  assumes "ok s" and "set k v ttl now s = (b, t)" and "j \<noteq> k" and "fst (get j now t) = Some x"
  shows "fst (get j now s) = Some x"
  using set_other[OF assms(1-3)] assms(4) by (auto simp: get_view)

end

definition cache_get :: "entryKey \<Rightarrow> go_time \<Rightarrow> Store \<Rightarrow> bytes option \<times> Store" where
  "cache_get k now s =
     (case Store_Get (namespace k) (key k) now s of
        (Inr (Some e), t) \<Rightarrow> (Some (en_Value e), t)
      | (_, t) \<Rightarrow> (None, t))"

definition cache_set :: "entryKey \<Rightarrow> bytes \<Rightarrow> go_duration \<Rightarrow> go_time \<Rightarrow> Store \<Rightarrow> bool \<times> Store" where
  "cache_set k v ttl now s =
     (case Store_Set (namespace k) (key k) v \<lparr>Mode = SetModeAny, TTL = ttl\<rparr> now s of
        (Inr (Some e), t) \<Rightarrow> (True, t)
      | (_, t) \<Rightarrow> (False, t))"

definition cache_view :: "Store \<Rightarrow> go_time \<Rightarrow> entryKey \<Rightarrow> bytes option" where
  "cache_view s now k = (if valid_key k then map_option e_value (peek s now k) else None)"

lemma validateKey_valid: "valid_key k \<Longrightarrow> validateKey (namespace k) (key k) = Inr k"
  by (simp add: valid_key_def)

lemma validateKey_invalid: "\<not> valid_key k \<Longrightarrow> \<exists>err. validateKey (namespace k) (key k) = Inl err"
  by (cases "validateKey (namespace k) (key k)") (auto dest: validateKey_Inr)

lemma cache_get_view: "fst (cache_get k now s) = cache_view s now k"
proof (cases "valid_key k")
  case True
  then show ?thesis
    using Store_Get_peek[OF validateKey_valid[OF True], of now s]
    by (cases "peek s now k")
       (auto simp: cache_get_def cache_view_def exportEntry_def split: prod.splits)
next
  case False
  then obtain err where "validateKey (namespace k) (key k) = Inl err"
    using validateKey_invalid by blast
  then show ?thesis using False by (simp add: cache_get_def cache_view_def Store_Get_def)
qed

lemma snd_cache_get: "snd (cache_get k now s) = snd (Store_Get (namespace k) (key k) now s)"
  by (auto simp: cache_get_def split: prod.splits sum.splits option.splits)

lemma cache_set_store:
  "snd (cache_set k v ttl now s) =
   snd (Store_Set (namespace k) (key k) v \<lparr>Mode = SetModeAny, TTL = ttl\<rparr> now s)"
  by (auto simp: cache_set_def split: prod.splits sum.splits option.splits)

lemma cache_set_True:
  assumes "cache_set k v ttl now s = (True, t)"
  obtains e where "Store_Set (namespace k) (key k) v \<lparr>Mode = SetModeAny, TTL = ttl\<rparr> now s = (Inr (Some e), t)"
  using assms by (auto simp: cache_set_def split: prod.splits sum.splits option.splits)

interpretation ttl: ttl_cache store_ok cache_get cache_set cache_view
proof unfold_locales
  fix s t :: Store and k j :: entryKey and v :: bytes and ttl :: go_duration and now :: go_time and b
  show "store_ok s \<Longrightarrow> store_ok (snd (cache_get k now s))"
    by (simp add: snd_cache_get Store_Get_ok)
  show "store_ok s \<Longrightarrow> store_ok (snd (cache_set k v ttl now s))"
    by (simp add: cache_set_store Store_Set_ok)
  show "fst (cache_get k now s) = cache_view s now k" by (rule cache_get_view)
  show "cache_view (snd (cache_get k now s)) now j = cache_view s now j"
    by (simp add: snd_cache_get cache_view_def Store_Get_keeps_peek)
  show "cache_view t now k = Some v" if "cache_set k v ttl now s = (True, t)"
  proof -
    obtain e where "Store_Set (namespace k) (key k) v \<lparr>Mode = SetModeAny, TTL = ttl\<rparr> now s = (Inr (Some e), t)"
      using \<open>cache_set k v ttl now s = (True, t)\<close> by (rule cache_set_True)
    from Store_Set_value[OF this] show ?thesis
      by (auto simp: cache_view_def valid_key_def)
  qed
  show "cache_view t now j = None \<or> cache_view t now j = cache_view s now j"
    if "cache_set k v ttl now s = (b, t)" "j \<noteq> k"
    using Store_Set_other[of "namespace k" "key k" v "\<lparr>Mode = SetModeAny, TTL = ttl\<rparr>" now s _ t j]
      cache_set_store[of k v ttl now s] that
    by (auto simp: cache_view_def) (metis prod.collapse snd_conv)
qed

end
