(* ===== verification/HotKV_Props.thy ===== *)
theory HotKV_Props
  imports HotKV_Spec
begin

text \<open>
  The properties of the hot cache: capacity, read-after-write, least-recently-updated
  eviction that does not depend on map iteration order, complete and bounded listings, and
  the ordering of published observations across any interleaving of calls.
\<close>

section \<open>Eviction order\<close>

lemma prepare_loop_prefix:
  assumes "prepare_loop n oc c ks s = (b, t)"
  shows "\<exists>pre suf. ks = pre @ suf \<and> set (entries t) = {p \<in> set (entries s). fst p \<notin> set pre}"
  using assms
proof (induction ks arbitrary: s)
  case Nil
  then show ?case by auto
next
  case (Cons k ks)
  show ?case
  proof (cases "room_for n oc c (removeLocked k s)")
    case True
    then have "t = removeLocked k s" using Cons.prems by (simp add: Let_def)
    then have "set (entries t) = {p \<in> set (entries s). fst p \<notin> set [k]}"
      by (auto simp: set_alist_delete)
    then show ?thesis by (metis append_Cons append_Nil)
  next
    case False
    then have "prepare_loop n oc c ks (removeLocked k s) = (b, t)"
      using Cons.prems by (simp add: Let_def)
    then obtain pre suf where "ks = pre @ suf"
      "set (entries t) = {p \<in> set (entries (removeLocked k s)). fst p \<notin> set pre}"
      using Cons.IH by blast
    then have "k # ks = (k # pre) @ suf"
      "set (entries t) = {p \<in> set (entries s). fst p \<notin> set (k # pre)}"
      by (auto simp: set_alist_delete)
    then show ?thesis by blast
  qed
qed

lemma eviction_keys_sorted: "sorted (map (eviction_rank s) (evictionKeysLocked x s))"
  by (simp add: evictionKeysLocked_def)

lemma eviction_rank_lookup:
  "map_of (entries s) k = Some e \<Longrightarrow> eviction_rank s k = (e_updatedAt e, k)"
  by (simp add: eviction_rank_def)

lemma prepareWriteLocked_prefix:
  assumes "store_shape s" and "prepareWriteLocked k n now s = (True, t)"
  obtains pre suf where "evictionKeysLocked k (pruneExpiredLocked now s) = pre @ suf"
    "set (entries t) = {p \<in> set (entries (pruneExpiredLocked now s)). fst p \<notin> set pre}"
proof -
  let ?s1 = "pruneExpiredLocked now s"
  let ?n = "new_entries k ?s1" and ?oc = "old_charge k ?s1" and ?c = "key_bytes k + n"
  have fits: "fitsLocked s k n" using prepareWriteLocked_spec(1)[OF assms] by simp
  show ?thesis
  proof (cases "room_for ?n ?oc ?c ?s1")
    case True
    then have "t = ?s1" using assms(2) fits by (simp add: prepareWriteLocked_eq Let_def)
    then show ?thesis using that[of "[]" "evictionKeysLocked k ?s1"] by simp
  next
    case False
    then have "prepare_loop ?n ?oc ?c (evictionKeysLocked k ?s1) ?s1 = (True, t)"
      using assms(2) fits by (simp add: prepareWriteLocked_eq Let_def)
    from prepare_loop_prefix[OF this] show ?thesis using that by blast
  qed
qed

lemma evicted_before_survivor:
  assumes "store_shape s" and "prepareWriteLocked k n now s = (True, t)"
    and "peek s now i = Some ei" and "map_of (entries t) i = None" and "i \<noteq> k"
    and "map_of (entries t) j = Some ej" and "j \<noteq> k"
  shows "(e_updatedAt ei, i) < (e_updatedAt ej, j)"
proof -
  let ?s1 = "pruneExpiredLocked now s"
  have sh1: "store_shape ?s1" using pruneExpiredLocked_shrinks assms(1) by (rule shrinks_shape)
  obtain pre suf where ks: "evictionKeysLocked k ?s1 = pre @ suf"
    and t: "set (entries t) = {p \<in> set (entries ?s1). fst p \<notin> set pre}"
    using prepareWriteLocked_prefix[OF assms(1,2)] .
  have i1: "map_of (entries ?s1) i = Some ei"
    using assms(3) by (simp add: pruneExpiredLocked_lookup[OF assms(1)] peek_def)
  have j_in: "(j, ej) \<in> set (entries t)" using assms(6) by (rule map_of_in_set)
  have j1: "map_of (entries ?s1) j = Some ej"
    using j_in t map_of_is_SomeI[OF store_shape_distinct[OF sh1]] by auto
  have "(i, ei) \<notin> set (entries t)" using assms(4) by (force simp: map_of_eq_None_iff)
  then have i_pre: "i \<in> set pre" using t map_of_in_set[OF i1] by auto
  have "j \<in> set (evictionKeysLocked k ?s1)"
    using assms(7) map_of_in_set[OF j1] by (force simp: eviction_keys_set)
  then have j_suf: "j \<in> set suf" using ks j_in t by auto
  have "eviction_rank ?s1 i \<le> eviction_rank ?s1 j"
    using eviction_keys_sorted[of ?s1 k] i_pre j_suf by (auto simp: ks sorted_append)
  moreover have "i \<noteq> j" using assms(4,6) by auto
  ultimately show ?thesis
    by (auto simp: eviction_rank_lookup[OF i1] eviction_rank_lookup[OF j1] less_le)
qed

section \<open>Listing\<close>

lemma charge_all_bound:
  assumes "charge_all ps iv budget None = Inr rest"
  shows "(\<Sum>p\<leftarrow>ps. key_bytes (fst p) + (if iv then int (length (e_value (snd p))) else 0)) + rest = budget \<and>
    (0 \<le> budget \<longrightarrow> 0 \<le> rest)"
  using assms
proof (induction ps arbitrary: budget)
  case (Cons p ps)
  obtain k cur where p: "p = (k, cur)" by (cases p)
  obtain ch where ch: "chargeRead k cur iv budget None = Inr ch"
    and rest: "charge_all ps iv (budget - ch) None = Inr rest"
    using Cons.prems by (auto simp: p split: sum.splits)
  have "ch = key_bytes k + (if iv then int (length (e_value cur)) else 0)" and "ch \<le> budget"
    using ch by (auto simp: chargeRead_def Let_def key_bytes_def split: if_splits)
  then show ?case using Cons.IH[OF rest] by (cases iv) (simp_all add: p)
qed simp

lemma sort_key_take_strict:
  assumes "distinct (map f xs)"
  shows "sorted_wrt (<) (map f (sort_key f xs))"
proof -
  have "distinct (map f (sort_key f xs))"
    using assms by (simp add: distinct_map)
  then show ?thesis by (simp add: strict_sorted_iff)
qed

lemma selected_distinct:
  assumes "store_shape s"
  shows "distinct (map (\<lambda>p. key (fst p))
    (filter (\<lambda>p. namespace (fst p) = ns \<and> HasPrefix (key (fst p)) pfx) (entries s)))"
proof -
  have d: "distinct (map fst (entries s))" using assms by (rule store_shape_distinct)
  have "inj_on (\<lambda>p. key (fst p)) {p \<in> set (entries s). namespace (fst p) = ns}"
  proof (rule inj_onI)
    fix p q
    assume "p \<in> {p \<in> set (entries s). namespace (fst p) = ns}"
      and "q \<in> {p \<in> set (entries s). namespace (fst p) = ns}" and "key (fst p) = key (fst q)"
    then have "fst p = fst q" "p \<in> set (entries s)" "q \<in> set (entries s)"
      by (auto intro: entryKey.expand)
    then show "p = q" using d by (auto simp: distinct_map inj_on_def)
  qed
  then have "inj_on (\<lambda>p. key (fst p))
      {p \<in> set (entries s). namespace (fst p) = ns \<and> HasPrefix (key (fst p)) pfx}"
    by (rule inj_on_subset) auto
  then show ?thesis using d by (simp add: distinct_map)
qed

lemma selected_sorted:
  assumes "store_shape s"
  shows "sorted_wrt (<) (map (\<lambda>p. key (fst p)) (selected_entries ns pfx limit s))"
  using sort_key_take_strict[OF selected_distinct[OF assms, of ns pfx]]
  by (auto simp: selected_entries_def Let_def take_map[symmetric] sorted_wrt_take)

lemma selected_sound:
  "p \<in> set (selected_entries ns pfx limit s) \<Longrightarrow>
   p \<in> set (entries s) \<and> namespace (fst p) = ns \<and> HasPrefix (key (fst p)) pfx"
  by (auto simp: selected_entries_def Let_def split: if_splits dest: in_set_takeD)

lemma selected_complete:
  "limit \<le> 0 \<Longrightarrow> (EntryKey ns k, e) \<in> set (entries s) \<Longrightarrow> HasPrefix k pfx \<Longrightarrow>
   (EntryKey ns k, e) \<in> set (selected_entries ns pfx limit s)"
  by (simp add: selected_entries_def Let_def)

lemma pruned_entry_peek:
  assumes "store_shape s"
  shows "(k, e) \<in> set (entries (pruneExpiredLocked now s)) \<longleftrightarrow> peek s now k = Some e"
proof -
  have "store_shape (pruneExpiredLocked now s)"
    using pruneExpiredLocked_shrinks assms by (rule shrinks_shape)
  then have "(k, e) \<in> set (entries (pruneExpiredLocked now s)) \<longleftrightarrow>
      map_of (entries (pruneExpiredLocked now s)) k = Some e"
    using map_of_is_SomeI[OF store_shape_distinct] map_of_in_set by metis
  then show ?thesis
    using pruneExpiredLocked_lookup[OF assms, of now k] by (simp add: peek_def split: option.splits)
qed

lemma ListBounded_Inr:
  assumes "ListBounded ns pfx limit iv budget sz now s = (Inr es, t)"
  shows "es = map (\<lambda>(k, cur). exportEntry k cur iv)
           (selected_entries ns pfx limit (pruneExpiredLocked now s))"
    and "\<exists>rest. charge_all (selected_entries ns pfx limit (pruneExpiredLocked now s)) iv budget sz = Inr rest"
    and "0 \<le> budget"
  using assms by (auto simp: ListBounded_def Let_def split: sum.splits if_splits)

section \<open>Claims\<close>

text \<open>C23: in every state reachable by any interleaving of calls on a new store, the entry
  count and the retained bytes stay within the configured limits, the byte counter is the
  exact sum of the retained bytes, and no retained value exceeds the value limit.\<close>

theorem kv_reachable_bounds:
  assumes "kv_reachable s"
  shows "int (length (entries s)) \<le> MaxEntries (options s) \<and>
    usedBytes s = (\<Sum>p\<leftarrow>entries s. key_bytes (fst p) + int (length (e_value (snd p)))) \<and>
    usedBytes s \<le> MaxBytes (options s) \<and>
    (\<forall>k e. map_of (entries s) k = Some e \<longrightarrow> int (length (e_value e)) \<le> MaxValueBytes (options s))"
  using kv_reachable_ok[OF assms]
  by (force simp: store_ok_def store_bounds_def store_shape_def alist_sum_def
      entry_charge_def[abs_def] dest: map_of_in_set)

text \<open>A small configured store, used by the witnesses.\<close>

definition small_options :: Options where
  "small_options = \<lparr>MaxEntries = 2, MaxValueBytes = 3, MaxBytes = 10, PruneInterval = 0\<rparr>"

definition any_mode :: SetOptions where
  "any_mode = \<lparr>Mode = SetModeAny, TTL = 0\<rparr>"

definition small_store :: Store where
  "small_store =
     snd (Store_Set ''ns'' ''b'' ''12'' any_mode 2
       (snd (Store_Set ''ns'' ''a'' ''12'' any_mode 1 (New small_options))))"

lemma small_store_reachable: "kv_reachable small_store"
  unfolding small_store_def by (intro kv_next[OF _ st_Set] kv_start)

theorem kv_reachable_bounds_witness:
  "kv_reachable small_store \<and> map fst (entries small_store) = [EntryKey ''ns'' ''a'', EntryKey ''ns'' ''b''] \<and>
   usedBytes small_store \<le> MaxBytes (options small_store)"
proof (intro conjI)
  show "kv_reachable small_store" by (rule small_store_reachable)
  show "map fst (entries small_store) = [EntryKey ''ns'' ''a'', EntryKey ''ns'' ''b'']"
    by code_simp
  show "usedBytes small_store \<le> MaxBytes (options small_store)"
    using kv_reachable_bounds[OF small_store_reachable] by simp
qed

text \<open>C24: an unconditional \<^verbatim>\<open>Set\<close> of a valid key and an admissible value succeeds exactly
  when key and value fit the byte capacity, whatever the cache holds; otherwise it reports
  \<^verbatim>\<open>ErrCapacity\<close>. The fall-through of the eviction loop is therefore never reached.\<close>

theorem set_succeeds_iff_fits:
  assumes "kv_reachable s" and "validateKey ns k = Inr sk"
    and "int (length v) \<le> MaxValueBytes (options s)" and "Mode opts = SetModeAny"
  shows "if int (length ns) + int (length k) + int (length v) \<le> MaxBytes (options s)
         then \<exists>e. fst (Store_Set ns k v opts now s) = Inr (Some e)
         else fst (Store_Set ns k v opts now s) = Inl ErrCapacity"
proof -
  have ok: "store_ok s" using assms(1) by (rule kv_reachable_ok)
  have sk: "sk = EntryKey ns k" using validateKey_Inr[OF assms(2)] by blast
  have val: "validateValue s v = Inr ()"
    using ok assms(3) by (simp add: validateValue_def store_ok_def store_shape_def options_ok_def)
  have fits: "fitsLocked s sk (int (length v)) \<longleftrightarrow>
      int (length ns) + int (length k) + int (length v) \<le> MaxBytes (options s)"
    by (auto simp: fitsLocked_def sk Let_def)
  obtain cur s1 where el: "entryLocked sk now s = (cur, s1)" by fastforce
  have "fst (Store_Set ns k v opts now s) = Inl ErrCapacity" if "\<not> fitsLocked s sk (int (length v))"
  proof -
    have "\<not> fitsLocked s1 sk (int (length v))"
      using that by (simp add: fitsLocked_def same_frame_simps[OF entryLocked_options[OF el]])
    then show ?thesis
      using assms(2,4) val el
      by (simp add: Store_Set_def prepareWriteLocked_def SetModeAny_def SetModeNX_def SetModeXX_def)
  qed
  then show ?thesis
    using Store_Set_success[OF ok assms(2) val assms(4)] fits by auto
qed

theorem set_succeeds_iff_fits_witness:
  "fst (Store_Set ''ns'' ''c'' ''123'' any_mode 3 small_store) \<noteq> Inl ErrCapacity"
proof -
  have v: "validateKey ''ns'' ''c'' = Inr (EntryKey ''ns'' ''c'')" by code_simp
  have l: "int (length ''123'') \<le> MaxValueBytes (options small_store)" by code_simp
  have f: "int (length ''ns'') + int (length ''c'') + int (length ''123'') \<le> MaxBytes (options small_store)"
    by code_simp
  show ?thesis
    using set_succeeds_iff_fits[OF small_store_reachable v l, of any_mode 3] f
    by (auto simp: any_mode_def)
qed

text \<open>a successful \<^verbatim>\<open>Set\<close> is immediately visible: \<^verbatim>\<open>Get\<close> at that instant returns the
  entry with exactly the stored bytes. Under every other key a later \<^verbatim>\<open>Get\<close> returns what it
  returned before or, if the entry was evicted, nothing.\<close>

theorem get_after_set:
  assumes "kv_reachable s" and "Store_Set ns k v opts now s = (Inr (Some e), t)"
  shows "fst (Store_Get ns k now t) = Inr (Some e) \<and> en_Value e = v \<and>
    (\<forall>ns' k'. (ns', k') \<noteq> (ns, k) \<longrightarrow>
       fst (Store_Get ns' k' now t) \<in> {fst (Store_Get ns' k' now s), Inr None})"
proof -
  have val: "validateKey ns k = Inr (EntryKey ns k)"
    and ex: "\<exists>w. peek t now (EntryKey ns k) = Some w \<and> e = exportEntry (EntryKey ns k) w True \<and>
             e_value w = v"
    using Store_Set_value[OF assms(2)] by auto
  have "fst (Store_Get ns' k' now t) \<in> {fst (Store_Get ns' k' now s), Inr None}"
    if ne: "(ns', k') \<noteq> (ns, k)" for ns' k'
  proof (cases "validateKey ns' k'")
    case (Inl err)
    then show ?thesis by (simp add: Store_Get_def)
  next
    case (Inr sk)
    then have "sk \<noteq> EntryKey ns k" using validateKey_Inr[OF Inr] ne by auto
    then show ?thesis
      using Store_Set_other[OF assms(2)] Store_Get_peek[OF Inr] by fastforce
  qed
  then show ?thesis
    using ex Store_Get_peek[OF val, of now t] by (auto simp: exportEntry_def)
qed

theorem get_after_set_witness:
  "\<exists>e. Store_Set ''ns'' ''c'' ''123'' any_mode 3 small_store =
         (Inr (Some e), snd (Store_Set ''ns'' ''c'' ''123'' any_mode 3 small_store)) \<and>
       en_Value e = ''123''"
proof -
  let ?r = "Store_Set ''ns'' ''c'' ''123'' any_mode 3 small_store"
  have "isl (fst ?r) = False \<and> projr (fst ?r) \<noteq> None" by code_simp
  then obtain e where "fst ?r = Inr (Some e)" by (cases "fst ?r") auto
  then have "?r = (Inr (Some e), snd ?r)" by (metis prod.collapse)
  with get_after_set[OF small_store_reachable this] show ?thesis by blast
qed

text \<open>eviction is least-recently-updated first, ties broken by namespace and key: an
  unexpired entry that a write evicts was updated before every entry that survives.\<close>

theorem eviction_is_lru:
  assumes "kv_reachable s" and "prepareWriteLocked k n now s = (True, t)"
    and "map_of (entries s) i = Some ei" and "\<not> isExpired ei now" and "map_of (entries t) i = None"
    and "i \<noteq> k" and "map_of (entries t) j = Some ej" and "j \<noteq> k"
  shows "e_updatedAt ei < e_updatedAt ej \<or>
    (e_updatedAt ei = e_updatedAt ej \<and>
     (namespace i < namespace j \<or> (namespace i = namespace j \<and> key i < key j)))"
proof -
  have "peek s now i = Some ei" using assms(3,4) by (simp add: peek_def)
  from evicted_before_survivor[OF store_ok_shape[OF kv_reachable_ok[OF assms(1)]] assms(2) this
      assms(5-8)]
  show ?thesis by (auto simp: less_entryKey_def)
qed

theorem eviction_is_lru_witness:
  "e_updatedAt (the (map_of (entries small_store) (EntryKey ''ns'' ''a''))) \<le>
   e_updatedAt (the (map_of (entries small_store) (EntryKey ''ns'' ''b'')))"
proof -
  let ?k = "EntryKey ''ns'' ''c''" and ?i = "EntryKey ''ns'' ''a''" and ?j = "EntryKey ''ns'' ''b''"
  let ?p = "prepareWriteLocked ?k 2 3 small_store"
  have p: "?p = (True, snd ?p)" by (rule prod_eqI) (code_simp, simp)
  have i: "map_of (entries small_store) ?i = Some (the (map_of (entries small_store) ?i))"
    and j: "map_of (entries (snd ?p)) ?j = Some (the (map_of (entries small_store) ?j))"
    by code_simp+
  have ne: "\<not> isExpired (the (map_of (entries small_store) ?i)) 3" by code_simp
  have gone: "map_of (entries (snd ?p)) ?i = None" by code_simp
  show ?thesis
    using eviction_is_lru[OF small_store_reachable p i ne gone _ j] by auto
qed

text \<open>the eviction order does not depend on Go's map iteration order: two stores with
  the same entries, enumerated differently, evict the same keys in the same order.\<close>

theorem eviction_order_deterministic:
  assumes "distinct (map fst (entries s))" and "distinct (map fst (entries t))"
    and "map_of (entries s) = map_of (entries t)"
  shows "evictionKeysLocked x s = evictionKeysLocked x t"
proof -
  have keys: "set (map fst (entries s)) = set (map fst (entries t))"
    using assms(3) by (metis dom_map_of_conv_image_fst list.set_map)
  have rank: "eviction_rank s = eviction_rank t"
    by (rule ext) (simp add: eviction_rank_def assms(3))
  let ?a = "filter (\<lambda>k. k \<noteq> x) (map fst (entries s))"
  let ?b = "filter (\<lambda>k. k \<noteq> x) (map fst (entries t))"
  let ?A = "sort_key (eviction_rank t) ?a" and ?B = "sort_key (eviction_rank t) ?b"
  have inj: "inj_on (eviction_rank t) K" for K
    by (rule inj_onI) (simp add: eviction_rank_def)
  have unrank: "map snd (map (eviction_rank t) ks) = ks" for ks
    by (simp add: eviction_rank_def comp_def)
  have "map (eviction_rank t) ?A = map (eviction_rank t) ?B"
  proof (rule sorted_distinct_set_unique)
    show "distinct (map (eviction_rank t) ?A)" "distinct (map (eviction_rank t) ?B)"
      using assms(1,2) inj by (simp_all add: distinct_map)
    have "set ?A = set ?B" using keys by auto
    then show "set (map (eviction_rank t) ?A) = set (map (eviction_rank t) ?B)" by simp
  qed simp_all
  then have "?A = ?B" using unrank by metis
  then show ?thesis by (simp add: evictionKeysLocked_def rank)
qed

theorem eviction_order_deterministic_witness:
  "evictionKeysLocked (EntryKey ''ns'' ''b'') small_store =
   evictionKeysLocked (EntryKey ''ns'' ''b'') (small_store\<lparr>entries := rev (entries small_store)\<rparr>)"
proof (rule eviction_order_deterministic)
  show d: "distinct (map fst (entries small_store))" by code_simp
  show "distinct (map fst (entries (small_store\<lparr>entries := rev (entries small_store)\<rparr>)))" by code_simp
  show "map_of (entries small_store) = map_of (entries (small_store\<lparr>entries := rev (entries small_store)\<rparr>))"
    using d by (simp add: map_of_inject_set rev_map[symmetric])
qed

text \<open>a successful listing is strictly sorted by key, contains only live entries of the
  namespace whose key has the prefix, omits none of them when no limit is given, respects a
  positive limit, and its total charge is within the caller's byte budget.\<close>

theorem list_bounded_correct:
  assumes "kv_reachable s" and "ListBounded ns pfx limit iv budget None now s = (Inr es, t)"
  shows "sorted_wrt (<) (map en_Key es) \<and>
    (\<forall>e \<in> set es. \<exists>k cur. peek s now (EntryKey ns k) = Some cur \<and> HasPrefix k pfx \<and>
       e = exportEntry (EntryKey ns k) cur iv) \<and>
    (limit \<le> 0 \<longrightarrow> (\<forall>k cur. peek s now (EntryKey ns k) = Some cur \<and> HasPrefix k pfx \<longrightarrow>
       exportEntry (EntryKey ns k) cur iv \<in> set es)) \<and>
    (limit > 0 \<longrightarrow> int (length es) \<le> limit) \<and>
    (\<Sum>e\<leftarrow>es. int (length (en_Namespace e)) + int (length (en_Key e)) + int (length (en_Value e))) \<le> budget"
proof -
  let ?s1 = "pruneExpiredLocked now s"
  let ?sel = "selected_entries ns pfx limit ?s1"
  have sh: "store_shape s" using kv_reachable_ok[OF assms(1)] by (rule store_ok_shape)
  have sh1: "store_shape ?s1" using pruneExpiredLocked_shrinks sh by (rule shrinks_shape)
  have es: "es = map (\<lambda>(k, cur). exportEntry k cur iv) ?sel"
    and bud: "\<exists>rest. charge_all ?sel iv budget None = Inr rest" "0 \<le> budget"
    using ListBounded_Inr[OF assms(2)] by blast+
  have keys: "map en_Key es = map (\<lambda>p. key (fst p)) ?sel"
    by (simp add: es exportEntry_def case_prod_beta)
  have sums: "(\<Sum>e\<leftarrow>es. int (length (en_Namespace e)) + int (length (en_Key e)) + int (length (en_Value e)))
      = (\<Sum>p\<leftarrow>?sel. key_bytes (fst p) + (if iv then int (length (e_value (snd p))) else 0))"
    by (cases iv) (simp_all add: es exportEntry_def case_prod_beta key_bytes_def comp_def)
  obtain rest where "charge_all ?sel iv budget None = Inr rest" using bud(1) by blast
  from charge_all_bound[OF this] have le: "(\<Sum>e\<leftarrow>es. int (length (en_Namespace e)) +
      int (length (en_Key e)) + int (length (en_Value e))) \<le> budget"
    using bud(2) sums by linarith
  have sound: "\<exists>k cur. peek s now (EntryKey ns k) = Some cur \<and> HasPrefix k pfx \<and>
       e = exportEntry (EntryKey ns k) cur iv" if e_in: "e \<in> set es" for e
  proof -
    obtain k cur where kc: "(k, cur) \<in> set ?sel" "e = exportEntry k cur iv"
      using e_in by (auto simp: es)
    then have "(k, cur) \<in> set (entries ?s1)" "namespace k = ns" "HasPrefix (key k) pfx"
      using selected_sound[OF kc(1)] by auto
    then show ?thesis
      using kc(2) pruned_entry_peek[OF sh] by (metis entryKey.collapse)
  qed
  have complete: "exportEntry (EntryKey ns k) cur iv \<in> set es"
    if "limit \<le> 0" "peek s now (EntryKey ns k) = Some cur" "HasPrefix k pfx" for k cur
    using selected_complete[OF that(1) _ that(3), of ns cur ?s1] that(2) pruned_entry_peek[OF sh]
    by (force simp: es)
  have lim: "limit > 0 \<longrightarrow> int (length es) \<le> limit"
    by (auto simp: es selected_entries_def Let_def)
  show ?thesis
    using selected_sorted[OF sh1, of ns pfx limit] keys sound complete lim le by auto
qed

theorem list_bounded_correct_witness:
  "\<exists>es t. ListBounded ''ns'' [] 0 True 10 None 3 small_store = (Inr es, t) \<and>
     length es = 2 \<and> sorted_wrt (<) (map en_Key es)"
proof -
  let ?r = "ListBounded ''ns'' [] 0 True 10 None 3 small_store"
  have "\<not> isl (fst ?r) \<and> length (projr (fst ?r)) = 2" by code_simp
  then obtain es where es: "fst ?r = Inr es" "length es = 2" by (cases "fst ?r") auto
  then have r: "?r = (Inr es, snd ?r)" by (metis prod.collapse)
  show ?thesis using r es(2) list_bounded_correct[OF small_store_reachable r] by blast
qed

text \<open>C22: published observations of one key are strictly newer every time, whatever other
  calls (eviction, expiry, deletion, overwriting, reconfiguration) happen in between: an
  observation that was superseded or fenced by a removal is never published again.\<close>

theorem observations_strictly_increase:
  assumes "kv_reachable s" and "Observe ns k w v now s = (Inr True, t)"
    and "kv_step\<^sup>*\<^sup>* t u" and "Observe ns k w' v' now' u = (Inr True, z)"
  shows "newerThan w' w"
proof -
  have "observe_accepts s (EntryKey ns k) w t" "observe_accepts u (EntryKey ns k) w' z"
    using assms(2,4) by (auto simp: observe_accepts_def)
  then show ?thesis
    using obs.accepted_increase[OF kv_reachable_ok[OF assms(1)] _ assms(3)] by simp
qed

theorem observations_strictly_increase_witness:
  "newerThan (ObservationOrder 1 4) (ObservationOrder 1 1)"
proof -
  let ?s = "New small_options"
  let ?t = "snd (Observe ''n'' ''a'' (ObservationOrder 1 1) ''v'' 1 ?s)"
  let ?u = "snd (Store_Delete ''n'' ''a'' 2 ?t)"
  let ?z = "snd (Observe ''n'' ''a'' (ObservationOrder 1 4) ''w'' 3 ?u)"
  have a: "Observe ''n'' ''a'' (ObservationOrder 1 1) ''v'' 1 ?s = (Inr True, ?t)"
    by (rule prod_eqI) (code_simp, simp)
  have b: "Observe ''n'' ''a'' (ObservationOrder 1 4) ''w'' 3 ?u = (Inr True, ?z)"
    by (rule prod_eqI) (code_simp, simp)
  have "kv_step\<^sup>*\<^sup>* ?t ?u" by (rule r_into_rtranclp) (rule st_Delete)
  from observations_strictly_increase[OF kv_start a this b] show ?thesis .
qed

lemma Observe_readback:
  assumes "Observe ns k w v now s = (Inr True, t)"
  shows "fst (Observation ns k now t) =
    Inr (if int (length v) \<le> MaxValueBytes (options s) \<and>
            int (length ns) + int (length k) + int (length v) \<le> MaxBytes (options s)
         then Some v else None)"
  using assms
proof (cases rule: Observe_True_cases)
  case (1 cur s2 s3 v' av wr s4)
  let ?k = "EntryKey ns k"
  have opt: "options s2 = options s"
    using same_frame_simps(1)[OF entryLocked_options[OF 1(3)]]
    by (simp add: registerObservationLocked_def)
  have av: "av \<longleftrightarrow> int (length v) \<le> MaxValueBytes (options s) \<and>
      int (length ns) + int (length k) + int (length v) \<le> MaxBytes (options s)"
    by (auto simp: 1(6) fitsLocked_def opt Let_def)
  have val: "e_value wr = v'" using writeLocked_entry[OF 1(9)] by simp
  have "peek t now ?k = Some (wr\<lparr>e_order := w, e_unavailable := \<not> av\<rparr>)"
    unfolding 1(10) using 1(9) by (rule written_peek)
  then show ?thesis
    using Observation_peek[OF 1(2), of now t] 1(1,7) av val by auto
qed

lemma Observe_keeps_other:
  assumes "Observe ns k w v now s = (Inr True, t)" and "j \<noteq> EntryKey ns k"
  shows "peek t now j = None \<or> peek t now j = peek s now j"
  using assms(1)
proof (cases rule: Observe_True_cases)
  case (1 cur s2 s3 v' av wr s4)
  have "shrinks (registerObservationLocked w s) s2" using entryLocked_shrinks 1(3) by (metis snd_conv)
  moreover have "shrinks s2 s3" using prepareWriteLocked_shrinks 1(8) by (metis snd_conv)
  ultimately have "shrinks (registerObservationLocked w s) s3" using shrinks_trans by blast
  then have "peek s3 now j = None \<or> peek s3 now j = peek (registerObservationLocked w s) now j"
    by (rule shrinks_peek)
  moreover have "peek (registerObservationLocked w s) now j = peek s now j"
    by (simp add: peek_def registerObservationLocked_def)
  moreover have "peek t now j = peek s3 now j"
    using assms(2) 1(9,10) by (auto simp: peek_def writeLocked_def put_entry_def Let_def update_conv' split: option.splits)
  ultimately show ?thesis by simp
qed

text \<open>an observation that is admitted but too large for the value or byte limit leaves
  an unavailable marker: the key then yields no value, although an older value may have been
  there, and a value that fits is returned verbatim.\<close>

theorem observe_then_observation:
  assumes "kv_reachable s" and "Observe ns k w v now s = (Inr True, t)"
  shows "fst (Observation ns k now t) =
    Inr (if int (length v) \<le> MaxValueBytes (options s) \<and>
            int (length ns) + int (length k) + int (length v) \<le> MaxBytes (options s)
         then Some v else None)"
  using Observe_readback [OF assms(2)] .

theorem observe_then_observation_witness:
  "fst (Observation ''n'' ''a'' 1 (snd (Observe ''n'' ''a'' (ObservationOrder 1 1) ''xxxx'' 1 (New small_options))))
   = Inr None"
proof -
  let ?o = "Observe ''n'' ''a'' (ObservationOrder 1 1) ''xxxx'' 1 (New small_options)"
  have a: "?o = (Inr True, snd ?o)" by (rule prod_eqI) (code_simp, simp)
  have "\<not> int (length ''xxxx'') \<le> MaxValueBytes (options (New small_options))" by code_simp
  then show ?thesis using observe_then_observation[OF kv_start a] by simp
qed

lemma failed_set_keeps:
  assumes shape: "store_shape s" and "Store_Set ns k v opts now s = (Inl err, t)"
  shows "peek t now j = peek s now j"
proof -
  show ?thesis
  proof (cases "\<exists>sk. validateKey ns k = Inr sk \<and> validateValue s v = Inr ()")
    case False
    then have "t = s" using assms(2) by (auto simp: Store_Set_def split: sum.splits)
    then show ?thesis by simp
  next
    case True
    then obtain sk where vk: "validateKey ns k = Inr sk" and vv: "validateValue s v = Inr ()" by blast
    obtain cur s1 where el: "entryLocked sk now s = (cur, s1)" by fastforce
    have sh1: "store_shape s1"
      using shrinks_shape[OF entryLocked_shrinks shape] el by (metis snd_conv)
    obtain b s2 where pw: "prepareWriteLocked sk (int (length v)) now s1 = (b, s2)" by fastforce
    have nofit: "\<not> b \<Longrightarrow> s2 = s1"
      using prepareWriteLocked_spec(1)[OF sh1 pw] pw by (simp add: prepareWriteLocked_def)
    have "t = s1 \<or> (\<not> b \<and> t = s2)"
      using assms(2) vk vv el pw
      by (auto simp: Store_Set_def Let_def split: if_splits bool.splits prod.splits)
    then have "t = s1" using nofit by blast
    then show ?thesis using entryLocked_keeps_peek[OF el] by simp
  qed
qed

text \<open>a write that fails leaves every live entry as it was, for every key; in
  particular an oversized replacement keeps the previous value readable.\<close>

theorem failed_set_keeps_entries:
  assumes "kv_reachable s" and "Store_Set ns k v opts now s = (Inl err, t)"
  shows "peek t now j = peek s now j"
  using failed_set_keeps [OF store_ok_shape [OF kv_reachable_ok [OF assms(1)]] assms(2)] .

theorem failed_set_keeps_entries_witness:
  "map_option e_value (peek (snd (Store_Set ''ns'' ''a'' ''12345678'' any_mode 3 small_store)) 3
     (EntryKey ''ns'' ''a'')) = Some ''12''"
proof -
  let ?r = "Store_Set ''ns'' ''a'' ''12345678'' any_mode 3 small_store"
  have "?r = (Inl ErrValueTooLarge, snd ?r)" by (rule prod_eqI) (code_simp, simp)
  then have "peek (snd ?r) 3 (EntryKey ''ns'' ''a'') = peek small_store 3 (EntryKey ''ns'' ''a'')"
    by (rule failed_set_keeps_entries[OF small_store_reachable])
  moreover have "map_option e_value (peek small_store 3 (EntryKey ''ns'' ''a'')) = Some ''12''"
    by code_simp
  ultimately show ?thesis by simp
qed

end
