(* ===== verification/DaemonKV.thy ===== *)
theory DaemonKV
  imports HotKV_Spec
begin

text \<open>
  The hot KV RPC handlers of \<^verbatim>\<open>internal/daemon/kv.go\<close>: the translation between wire
  messages and store calls, the namespace guard and the mapping of store errors to gRPC
  codes. Each handler is one function of the request fields, the two clock readings (the
  store's and \<^verbatim>\<open>auditNow\<close>) and the store. The protobuf size functions the list handler
  charges with are the argument \<open>wire\<close>.
\<close>

section \<open>Status errors and messages\<close>

datatype code = InvalidArgument | PermissionDenied | ResourceExhausted | Internal

datatype status = Status code string

record KVEntry =
  kv_Namespace :: string
  kv_Key :: string
  kv_Value :: bytes
  kv_Version :: "64 word"
  kv_CreatedUnixNano :: int
  kv_UpdatedUnixNano :: int
  kv_ExpiresUnixNano :: int
  kv_PttlMs :: int

text \<open>The \<^verbatim>\<open>proto.Size\<close>, \<^verbatim>\<open>protowire.SizeTag\<close> and \<^verbatim>\<open>protowire.SizeBytes\<close> functions.\<close>

record wire_sizes =
  proto_Size :: "KVEntry \<Rightarrow> int"
  SizeTag :: "int \<Rightarrow> int"
  SizeBytes :: "int \<Rightarrow> int"

definition RPCMaxMessageBytes :: int where
  "RPCMaxMessageBytes = 4 * 1024 * 1024"

fun hotkv_error_text :: "hotkv_error \<Rightarrow> string" where
  "hotkv_error_text ErrInvalidNamespace = ''invalid namespace''"
| "hotkv_error_text ErrInvalidKey = ''invalid key''"
| "hotkv_error_text ErrInvalidSetMode = ''invalid set mode''"
| "hotkv_error_text ErrValueTooLarge = ''value exceeds max size''"
| "hotkv_error_text ErrCapacity = ''entry exceeds cache byte capacity''"
| "hotkv_error_text ErrReadOverflow = ''cache result exceeds read byte budget''"
| "hotkv_error_text ErrInvalidReadBudget =
     ''cache read budget and entry charges must be non-negative''"
| "hotkv_error_text ErrObservationReceipt = ''observation receipt must be positive''"
| "hotkv_error_text (ErrSizer e) = e"

definition kvStatusError :: "hotkv_error \<Rightarrow> status" where
  "kvStatusError err =
     (if err \<in> {ErrInvalidNamespace, ErrInvalidKey}
      then Status InvalidArgument (hotkv_error_text err)
      else if err \<in> {ErrValueTooLarge, ErrCapacity, ErrReadOverflow}
      then Status ResourceExhausted (hotkv_error_text err)
      else Status Internal (hotkv_error_text err))"

definition validatePublicKVNamespace :: "string \<Rightarrow> status option" where
  "validatePublicKVNamespace ns =
     (if \<not> IsInternalNamespace ns then None
      else Some (Status PermissionDenied
        ''internal namespace is not available through public KV RPCs''))"

definition parseKVSetMode :: "string \<Rightarrow> status + SetMode" where
  "parseKVSetMode mode =
     (let m = ToUpper (TrimSpace mode) in
      if m = [] then Inr SetModeAny
      else if m = SetModeNX then Inr SetModeNX
      else if m = SetModeXX then Inr SetModeXX
      else Inl (Status InvalidArgument (''unknown set mode '' @ mode)))"

text \<open>Nanoseconds from Go's zero time to the Unix epoch; \<^verbatim>\<open>UnixNano\<close> is an int64.\<close>

definition unix_epoch :: go_time where
  "unix_epoch = 62135596800000000000"

definition UnixNano :: "go_time \<Rightarrow> int" where
  "UnixNano t = to_int64 (t - unix_epoch)"

definition unixNanoOrZero :: "go_time \<Rightarrow> int" where
  "unixNanoOrZero t = (if IsZero t then 0 else UnixNano t)"

definition daemonKVEntry :: "go_time \<Rightarrow> Entry \<Rightarrow> KVEntry" where
  "daemonKVEntry auditNow e =
     (let (expiresUnixNano, pttlMs) =
            (if \<not> IsZero (en_ExpiresAt e)
             then (UnixNano (en_ExpiresAt e),
                   let ttl = time_sub (en_ExpiresAt e) auditNow in
                   if ttl < 0 then 0 else duration_milliseconds ttl)
             else (0, -1))
      in \<lparr>kv_Namespace = en_Namespace e, kv_Key = en_Key e, kv_Value = en_Value e,
          kv_Version = en_Version e, kv_CreatedUnixNano = unixNanoOrZero (en_CreatedAt e),
          kv_UpdatedUnixNano = unixNanoOrZero (en_UpdatedAt e),
          kv_ExpiresUnixNano = expiresUnixNano, kv_PttlMs = pttlMs\<rparr>)"

definition kvEntryWireSize :: "wire_sizes \<Rightarrow> KVEntry \<Rightarrow> int \<Rightarrow> int" where
  "kvEntryWireSize wire metadata valueBytes =
     (let sz = proto_Size wire metadata +
               (if valueBytes > 0 then SizeTag wire 3 + SizeBytes wire valueBytes else 0)
      in SizeTag wire 1 + SizeBytes wire sz)"

section \<open>Handlers\<close>

type_synonym 'a rpc_result = "(status + 'a) \<times> Store"

text \<open>\<open>None\<close> is the response \<^verbatim>\<open>Found: false\<close> or \<^verbatim>\<open>Stored: false\<close> without an entry.\<close>

definition KVGet :: "string \<Rightarrow> string \<Rightarrow> go_time \<Rightarrow> go_time \<Rightarrow> Store \<Rightarrow> KVEntry option rpc_result" where
  "KVGet ns k now auditNow s =
     (case validatePublicKVNamespace ns of
        Some err \<Rightarrow> (Inl err, s)
      | None \<Rightarrow>
          (case Store_Get ns k now s of
             (Inl err, s1) \<Rightarrow> (Inl (kvStatusError err), s1)
           | (Inr None, s1) \<Rightarrow> (Inr None, s1)
           | (Inr (Some e), s1) \<Rightarrow> (Inr (Some (daemonKVEntry auditNow e)), s1)))"

definition KVSet ::
  "string \<Rightarrow> string \<Rightarrow> bytes \<Rightarrow> string \<Rightarrow> int \<Rightarrow> go_time \<Rightarrow> go_time \<Rightarrow> Store
   \<Rightarrow> KVEntry option rpc_result" where
  "KVSet ns k v mode ttlMs now auditNow s =
     (case validatePublicKVNamespace ns of
        Some err \<Rightarrow> (Inl err, s)
      | None \<Rightarrow>
          (case parseKVSetMode mode of
             Inl err \<Rightarrow> (Inl err, s)
           | Inr m \<Rightarrow>
               if ttlMs < 0 then (Inl (Status InvalidArgument ''ttl_ms must be non-negative''), s)
               else
                 (case Store_Set ns k v \<lparr>Mode = m, TTL = duration_of_ms ttlMs\<rparr> now s of
                    (Inl err, s1) \<Rightarrow> (Inl (kvStatusError err), s1)
                  | (Inr None, s1) \<Rightarrow> (Inr None, s1)
                  | (Inr (Some e), s1) \<Rightarrow> (Inr (Some (daemonKVEntry auditNow e)), s1))))"

definition KVDelete :: "string \<Rightarrow> string \<Rightarrow> go_time \<Rightarrow> Store \<Rightarrow> bool rpc_result" where
  "KVDelete ns k now s =
     (case validatePublicKVNamespace ns of
        Some err \<Rightarrow> (Inl err, s)
      | None \<Rightarrow>
          (case Store_Delete ns k now s of
             (Inl err, s1) \<Rightarrow> (Inl (kvStatusError err), s1)
           | (Inr deleted, s1) \<Rightarrow> (Inr deleted, s1)))"

definition KVExists :: "string \<Rightarrow> string \<Rightarrow> go_time \<Rightarrow> Store \<Rightarrow> bool rpc_result" where
  "KVExists ns k now s =
     (case validatePublicKVNamespace ns of
        Some err \<Rightarrow> (Inl err, s)
      | None \<Rightarrow>
          (case Store_Exists ns k now s of
             (Inl err, s1) \<Rightarrow> (Inl (kvStatusError err), s1)
           | (Inr found, s1) \<Rightarrow> (Inr found, s1)))"

definition hotKVTTL :: "string \<Rightarrow> string \<Rightarrow> bool \<Rightarrow> go_time \<Rightarrow> Store \<Rightarrow> int rpc_result" where
  "hotKVTTL ns k precise now s =
     (case Store_PTTL ns k now s of
        (Inl err, s1) \<Rightarrow> (Inl (kvStatusError err), s1)
      | (Inr (ttl, found, expiring), s1) \<Rightarrow>
          if \<not> found then (Inr (-2), s1)
          else if \<not> expiring then (Inr (-1), s1)
          else if precise then (Inr (duration_milliseconds ttl), s1)
          else (Inr (quot_trunc (duration_milliseconds ttl) 1000), s1))"

definition KVTTL :: "string \<Rightarrow> string \<Rightarrow> go_time \<Rightarrow> Store \<Rightarrow> int rpc_result" where
  "KVTTL ns k now s =
     (case validatePublicKVNamespace ns of
        Some err \<Rightarrow> (Inl err, s)
      | None \<Rightarrow> hotKVTTL ns k False now s)"

definition KVPTTL :: "string \<Rightarrow> string \<Rightarrow> go_time \<Rightarrow> Store \<Rightarrow> int rpc_result" where
  "KVPTTL ns k now s =
     (case validatePublicKVNamespace ns of
        Some err \<Rightarrow> (Inl err, s)
      | None \<Rightarrow> hotKVTTL ns k True now s)"

definition KVExpire :: "string \<Rightarrow> string \<Rightarrow> int \<Rightarrow> go_time \<Rightarrow> Store \<Rightarrow> bool rpc_result" where
  "KVExpire ns k ttlMs now s =
     (case validatePublicKVNamespace ns of
        Some err \<Rightarrow> (Inl err, s)
      | None \<Rightarrow>
          if ttlMs < 0 then (Inl (Status InvalidArgument ''ttl_ms must be non-negative''), s)
          else
            (case Store_Expire ns k (duration_of_ms ttlMs) now s of
               (Inl err, s1) \<Rightarrow> (Inl (kvStatusError err), s1)
             | (Inr updated, s1) \<Rightarrow> (Inr updated, s1)))"

definition KVGetDelete ::
  "string \<Rightarrow> string \<Rightarrow> go_time \<Rightarrow> go_time \<Rightarrow> Store \<Rightarrow> KVEntry option rpc_result" where
  "KVGetDelete ns k now auditNow s =
     (case validatePublicKVNamespace ns of
        Some err \<Rightarrow> (Inl err, s)
      | None \<Rightarrow>
          (case Store_GetDelete ns k now s of
             (Inl err, s1) \<Rightarrow> (Inl (kvStatusError err), s1)
           | (Inr None, s1) \<Rightarrow> (Inr None, s1)
           | (Inr (Some e), s1) \<Rightarrow> (Inr (Some (daemonKVEntry auditNow e)), s1)))"

text \<open>
  The list handler charges each entry through a callback that also collects the response
  message of the metadata; the values are filled in once the whole result was admitted.
\<close>

definition kv_list_sizer :: "wire_sizes \<Rightarrow> go_time \<Rightarrow> EntrySizer" where
  "kv_list_sizer wire auditNow metadata valueBytes =
     Inr (kvEntryWireSize wire (daemonKVEntry auditNow metadata) valueBytes)"

definition KVList ::
  "wire_sizes \<Rightarrow> string \<Rightarrow> string \<Rightarrow> int \<Rightarrow> bool \<Rightarrow> go_time \<Rightarrow> go_time \<Rightarrow> Store
   \<Rightarrow> KVEntry list rpc_result" where
  "KVList wire ns pfx limit includeValues now auditNow s =
     (case validatePublicKVNamespace ns of
        Some err \<Rightarrow> (Inl err, s)
      | None \<Rightarrow>
          if limit < 0 then (Inl (Status InvalidArgument ''limit must be non-negative''), s)
          else
            (case ListBounded ns pfx limit includeValues RPCMaxMessageBytes
                    (Some (kv_list_sizer wire auditNow)) now s of
               (Inl err, s1) \<Rightarrow> (Inl (kvStatusError err), s1)
             | (Inr es, s1) \<Rightarrow>
                 (Inr (map (\<lambda>e. (daemonKVEntry auditNow (e\<lparr>en_Value := []\<rparr>))\<lparr>kv_Value := en_Value e\<rparr>) es),
                  s1)))"

section \<open>Lemmas\<close>

lemma validate_internal:
  "IsInternalNamespace ns \<Longrightarrow> \<exists>m. validatePublicKVNamespace ns = Some (Status PermissionDenied m)"
  by (simp add: validatePublicKVNamespace_def)

lemma validate_public: "\<not> IsInternalNamespace ns \<Longrightarrow> validatePublicKVNamespace ns = None"
  by (simp add: validatePublicKVNamespace_def)

text \<open>One RPC is one store call, so the transition system of the store covers the handlers.\<close>

inductive kv_rpc :: "Store \<Rightarrow> Store \<Rightarrow> bool" where
  "kv_rpc s (snd (KVGet ns k now a s))"
| "kv_rpc s (snd (KVSet ns k v mode ttl now a s))"
| "kv_rpc s (snd (KVDelete ns k now s))"
| "kv_rpc s (snd (KVExists ns k now s))"
| "kv_rpc s (snd (KVTTL ns k now s))"
| "kv_rpc s (snd (KVPTTL ns k now s))"
| "kv_rpc s (snd (KVExpire ns k ttl now s))"
| "kv_rpc s (snd (KVGetDelete ns k now a s))"
| "kv_rpc s (snd (KVList w ns pfx lim iv now a s))"

lemma kv_step_get: "Store_Get ns k now s = (r, t) \<Longrightarrow> kv_step s t"
  and kv_step_set: "Store_Set ns k v opts now s = (r', t) \<Longrightarrow> kv_step s t"
  and kv_step_delete: "Store_Delete ns k now s = (b, t) \<Longrightarrow> kv_step s t"
  and kv_step_exists: "Store_Exists ns k now s = (b, t) \<Longrightarrow> kv_step s t"
  and kv_step_pttl: "Store_PTTL ns k now s = (p, t) \<Longrightarrow> kv_step s t"
  and kv_step_expire: "Store_Expire ns k ttl now s = (b, t) \<Longrightarrow> kv_step s t"
  and kv_step_getdel: "Store_GetDelete ns k now s = (r, t) \<Longrightarrow> kv_step s t"
  and kv_step_list: "ListBounded ns pfx lim iv mb sz now s = (l, t) \<Longrightarrow> kv_step s t"
  by (metis kv_step.intros snd_conv)+

lemmas kv_step_calls = kv_step_get kv_step_set kv_step_delete kv_step_exists kv_step_pttl
  kv_step_expire kv_step_getdel kv_step_list

lemma kv_rpc_step: "kv_rpc s t \<Longrightarrow> s = t \<or> kv_step s t"
  by (erule kv_rpc.cases)
     (auto simp: KVGet_def KVSet_def KVDelete_def KVExists_def KVTTL_def KVPTTL_def KVExpire_def
       KVGetDelete_def KVList_def hotKVTTL_def
       split: option.splits sum.splits prod.splits intro: kv_step_calls)

lemma duration_positive: "0 < ms \<Longrightarrow> ms \<le> max_duration_ms \<Longrightarrow> 0 < duration_of_ms ms"
  by (simp add: duration_of_ms_exact)

lemma charge_all_sizer_bound:
  assumes "charge_all ps iv budget (Some f) = Inr rest"
    and "\<And>e n. f e n = Inr (g e n)" and "0 \<le> budget"
  shows "(\<Sum>p\<leftarrow>ps. g (exportEntry (fst p) (snd p) False)
            (if iv then int (length (e_value (snd p))) else 0)) \<le> budget"
proof -
  have "0 \<le> rest \<and> (\<Sum>p\<leftarrow>ps. g (exportEntry (fst p) (snd p) False)
            (if iv then int (length (e_value (snd p))) else 0)) + rest = budget"
    using assms(1,3)
  proof (induction ps arbitrary: budget)
    case (Cons p ps)
    obtain k cur where p: "p = (k, cur)" by (cases p)
    obtain ch where ch: "chargeRead k cur iv budget (Some f) = Inr ch"
      and rest: "charge_all ps iv (budget - ch) (Some f) = Inr rest"
      using Cons.prems(1) by (auto simp: p split: sum.splits)
    have "ch = g (exportEntry k cur False) (if iv then int (length (e_value cur)) else 0)"
      and "ch \<le> budget"
      using ch assms(2) by (auto simp: chargeRead_def Let_def split: if_splits)
    then show ?case using Cons.IH[OF rest] by (cases iv) (simp_all add: p)
  qed simp
  then show ?thesis by linarith
qed

section \<open>Claims\<close>

text \<open>A small new store, used by the witnesses.\<close>

definition kv_demo :: Store where
  "kv_demo = New \<lparr>MaxEntries = 1, MaxValueBytes = 8, MaxBytes = 8, PruneInterval = 0\<rparr>"

text \<open>C25: the reserved namespaces are out of reach of every public KV RPC: the call is
  refused with \<^verbatim>\<open>PermissionDenied\<close> and the store is not even touched.\<close>

theorem internal_namespace_refused:
  assumes "IsInternalNamespace ns"
  shows "\<exists>m. KVGet ns k now a s = (Inl (Status PermissionDenied m), s) \<and>
    KVSet ns k v mode ttl now a s = (Inl (Status PermissionDenied m), s) \<and>
    KVDelete ns k now s = (Inl (Status PermissionDenied m), s) \<and>
    KVExists ns k now s = (Inl (Status PermissionDenied m), s) \<and>
    KVTTL ns k now s = (Inl (Status PermissionDenied m), s) \<and>
    KVPTTL ns k now s = (Inl (Status PermissionDenied m), s) \<and>
    KVExpire ns k ttl now s = (Inl (Status PermissionDenied m), s) \<and>
    KVGetDelete ns k now a s = (Inl (Status PermissionDenied m), s) \<and>
    KVList w ns pfx lim iv now a s = (Inl (Status PermissionDenied m), s)"
  using validate_internal[OF assms]
  by (auto simp: KVGet_def KVSet_def KVDelete_def KVExists_def KVTTL_def KVPTTL_def KVExpire_def
      KVGetDelete_def KVList_def)

theorem internal_namespace_refused_witness:
  "\<exists>m. KVDelete ''_agent-gate-internal/exec-temporal'' ''k'' 5 (kv_demo) =
     (Inl (Status PermissionDenied m), kv_demo)"
proof -
  have "IsInternalNamespace ''_agent-gate-internal/exec-temporal''" by code_simp
  from internal_namespace_refused[OF this, where s = "kv_demo" and now = 5 and k = "''k''"]
  show ?thesis by blast
qed

text \<open>the RPC handlers preserve the invariant of the store, so no sequence of public
  requests can make the byte accounting or the limits drift.\<close>

theorem kv_rpc_preserves_invariant:
  assumes "kv_rpc\<^sup>*\<^sup>* s t" and "store_ok s"
  shows "store_ok t"
  using assms by (induction rule: rtranclp_induct) (auto dest: kv_rpc_step intro: kv_step_ok)

theorem kv_rpc_preserves_invariant_witness:
  "store_ok (snd (KVSet ''ns'' ''k'' ''v'' [] 1000 7 7
     kv_demo))"
  by (rule kv_rpc_preserves_invariant, rule r_into_rtranclp, rule kv_rpc.intros(2))
     (simp add: kv_demo_def New_ok)

text \<open>for every TTL whose duration is representable, \<^verbatim>\<open>KVExpire\<close> on a live key keeps
  the entry, bumps its version and makes it expire exactly that many milliseconds later.\<close>

theorem kv_expire_sets_deadline:
  assumes "\<not> IsInternalNamespace ns" and "validateKey ns k = Inr sk"
    and "peek s now sk = Some e" and "0 < ms" and "ms \<le> max_duration_ms"
  shows "fst (KVExpire ns k ms now s) = Inr True \<and>
    map_of (entries (snd (KVExpire ns k ms now s))) sk =
      Some (e\<lparr>e_version := e_version e + 1, e_updatedAt := now, e_expiresAt := now + ms * 1000000\<rparr>)"
proof -
  have el: "entryLocked sk now s = (Some e, s)"
    using assms(3) by (auto simp: peek_def entryLocked_def split: option.splits if_splits)
  show ?thesis
    using assms(1,2,4,5) el duration_positive[OF assms(4,5)]
    by (simp add: KVExpire_def validate_public Store_Expire_def put_entry_def update_conv'
        time_add_def duration_of_ms_exact)
qed

theorem kv_expire_sets_deadline_witness:
  "fst (KVExpire ''ns'' ''k'' 250 7 (snd (KVSet ''ns'' ''k'' ''v'' [] 0 7 7
     kv_demo))) = Inr True"
proof -
  let ?s = "snd (KVSet ''ns'' ''k'' ''v'' [] 0 7 7
     kv_demo)"
  have a: "\<not> IsInternalNamespace ''ns''" by code_simp
  have b: "validateKey ''ns'' ''k'' = Inr (EntryKey ''ns'' ''k'')" by code_simp
  have "peek ?s 7 (EntryKey ''ns'' ''k'') \<noteq> None" by code_simp
  then obtain e where c: "peek ?s 7 (EntryKey ''ns'' ''k'') = Some e" by auto
  from kv_expire_sets_deadline[OF a b c, of 250] show ?thesis by (simp add: max_duration_ms_def)
qed

text \<open>C26: a TTL that does not fit a 64-bit nanosecond count is accepted by the range check
  and then wraps around: the largest request below the wrap keeps the entry, the next one
  yields a negative duration and \<^verbatim>\<open>KVExpire\<close> deletes the live entry and still reports an
  update.\<close>

theorem kv_expire_overflow_deletes:
  assumes "\<not> IsInternalNamespace ns" and "validateKey ns k = Inr sk" and "peek s now sk = Some e"
  shows "fst (KVExpire ns k (max_duration_ms + 1) now s) = Inr True \<and>
    peek (snd (KVExpire ns k (max_duration_ms + 1) now s)) now sk = None"
proof -
  have el: "entryLocked sk now s = (Some e, s)"
    using assms(3) by (auto simp: peek_def entryLocked_def split: option.splits if_splits)
  have neg: "duration_of_ms (max_duration_ms + 1) \<le> 0"
    by (simp add: duration_of_ms_def max_duration_ms_def millisecond_def to_int64_def)
  have pos: "\<not> max_duration_ms + 1 < 0" by (simp add: max_duration_ms_def)
  show ?thesis
    using assms(1,2) el neg pos
    by (simp add: KVExpire_def validate_public Store_Expire_def Store_Delete_def peek_def delete_conv')
qed

theorem kv_expire_overflow_deletes_witness:
  "peek (snd (KVExpire ''ns'' ''k'' 9223372036855 7 (snd (KVSet ''ns'' ''k'' ''v'' [] 0 7 7
     kv_demo)))) 7
     (EntryKey ''ns'' ''k'') = None"
proof -
  let ?s = "snd (KVSet ''ns'' ''k'' ''v'' [] 0 7 7
     kv_demo)"
  have a: "\<not> IsInternalNamespace ''ns''" by code_simp
  have b: "validateKey ''ns'' ''k'' = Inr (EntryKey ''ns'' ''k'')" by code_simp
  have "peek ?s 7 (EntryKey ''ns'' ''k'') \<noteq> None" by code_simp
  then obtain e where c: "peek ?s 7 (EntryKey ''ns'' ''k'') = Some e" by auto
  from kv_expire_overflow_deletes[OF a b c] show ?thesis by (simp add: max_duration_ms_def)
qed

text \<open>a listing returned over the wire fits the gRPC message ceiling: the sum of the
  wire sizes of its entries, values included, is within \<^verbatim>\<open>RPCMaxMessageBytes\<close>.\<close>

theorem kv_list_fits_message:
  assumes "KVList wire ns pfx lim iv now a s = (Inr es, t)"
  shows "(\<Sum>e\<leftarrow>es. kvEntryWireSize wire (e\<lparr>kv_Value := []\<rparr>) (int (length (kv_Value e))))
         \<le> RPCMaxMessageBytes"
proof -
  let ?g = "\<lambda>e n. kvEntryWireSize wire (daemonKVEntry a e) n"
  let ?sel = "selected_entries ns pfx lim (pruneExpiredLocked now s)"
  have pub: "validatePublicKVNamespace ns = None"
    using assms by (auto simp: KVList_def split: option.splits)
  obtain es0 where lb: "ListBounded ns pfx lim iv RPCMaxMessageBytes (Some (kv_list_sizer wire a)) now s = (Inr es0, t)"
    and es: "es = map (\<lambda>e. (daemonKVEntry a (e\<lparr>en_Value := []\<rparr>))\<lparr>kv_Value := en_Value e\<rparr>) es0"
    using assms pub by (auto simp: KVList_def split: if_splits prod.splits sum.splits)
  obtain rest where ca: "charge_all ?sel iv RPCMaxMessageBytes (Some (kv_list_sizer wire a)) = Inr rest"
    and es0: "es0 = map (\<lambda>(k, cur). exportEntry k cur iv) ?sel"
    using lb by (auto simp: ListBounded_def Let_def split: sum.splits if_splits)
  have entry: "(daemonKVEntry a e)\<lparr>kv_Value := []\<rparr> = daemonKVEntry a e" if "en_Value e = []" for e
    using that by (simp add: daemonKVEntry_def Let_def split: prod.split)
  have val: "kv_Value (daemonKVEntry a e) = en_Value e" for e
    by (simp add: daemonKVEntry_def Let_def split: prod.split)
  have "(\<Sum>e\<leftarrow>es. kvEntryWireSize wire (e\<lparr>kv_Value := []\<rparr>) (int (length (kv_Value e)))) =
      (\<Sum>p\<leftarrow>?sel. ?g (exportEntry (fst p) (snd p) False)
         (if iv then int (length (e_value (snd p))) else 0))"
    by (cases iv) (simp_all add: es es0 entry val comp_def case_prod_beta exportEntry_def)
  also have "\<dots> \<le> RPCMaxMessageBytes"
    using ca by (rule charge_all_sizer_bound) (simp_all add: kv_list_sizer_def RPCMaxMessageBytes_def)
  finally show ?thesis .
qed

theorem kv_list_fits_message_witness:
  "\<exists>es t. KVList \<lparr>proto_Size = (\<lambda>e. int (length (kv_Key e))), SizeTag = (\<lambda>_. 1), SizeBytes = (\<lambda>n. n + 1)\<rparr>
     ''ns'' [] 0 True 7 7 (snd (KVSet ''ns'' ''k'' ''v'' [] 0 7 7
       kv_demo)) = (Inr es, t) \<and>
     (\<Sum>e\<leftarrow>es. kvEntryWireSize
        \<lparr>proto_Size = (\<lambda>e. int (length (kv_Key e))), SizeTag = (\<lambda>_. 1), SizeBytes = (\<lambda>n. n + 1)\<rparr>
        (e\<lparr>kv_Value := []\<rparr>) (int (length (kv_Value e)))) \<le> RPCMaxMessageBytes"
proof -
  let ?w = "\<lparr>proto_Size = (\<lambda>e. int (length (kv_Key e))), SizeTag = (\<lambda>_. 1), SizeBytes = (\<lambda>n. n + 1)\<rparr>"
  let ?r = "KVList ?w ''ns'' [] 0 True 7 7 (snd (KVSet ''ns'' ''k'' ''v'' [] 0 7 7
       kv_demo))"
  have "\<not> isl (fst ?r)" by code_simp
  then obtain es where "fst ?r = Inr es" by (cases "fst ?r") auto
  then have r: "?r = (Inr es, snd ?r)" by (metis prod.collapse)
  show ?thesis using r kv_list_fits_message[OF r] by blast
qed

end
