(* ===== verification/ShellLex.thy ===== *)
theory ShellLex
  imports AG_Prelude
begin

text \<open>
  The byte-level shell lexers of the rule engine: comment stripping and extraction, the scan for
  unsafe output redirections, chain splitting and here-document bodies
  (\<^verbatim>\<open>internal/rules/fields.go\<close>, \<^verbatim>\<open>internal/rules/engine_command.go\<close>,
  \<^verbatim>\<open>internal/rules/concerns/shellparse/chain.go\<close>) and the quote-aware expansion of environment
  variables (\<^verbatim>\<open>shellparse/environment.go\<close>).  A scanner that walks an index over a string is a
  recursion on the part of the string from that index on; positions that the code returns are
  relative to the start of that part.  A \<^verbatim>\<open>quote byte\<close> that is 0 outside quotes is an option.
\<close>

abbreviation backslash :: char where "backslash \<equiv> CHR 0x5C"
abbreviation squote :: char where "squote \<equiv> CHR 0x27"
abbreviation dquote :: char where "dquote \<equiv> CHR 0x22"
abbreviation newline :: char where "newline \<equiv> CHR 0x0A"

definition isASCIIDigit :: "char \<Rightarrow> bool" where
  "isASCIIDigit r \<longleftrightarrow> CHR ''0'' \<le> r \<and> r \<le> CHR ''9''"

definition isASCIISpace :: "char \<Rightarrow> bool" where
  "isASCIISpace r \<longleftrightarrow>
     r \<in> {CHR '' '', CHR 0x09, newline, CHR 0x0D, CHR 0x0C, CHR 0x0B}"

section \<open>Comments\<close>

text \<open>The byte before the candidate, or \<^term>\<open>None\<close> at the start of the command.\<close>

definition isShellCommentStart :: "char option \<Rightarrow> bool" where
  "isShellCommentStart previous =
     (case previous of
        None \<Rightarrow> True
      | Some p \<Rightarrow> p = CHR '';'' \<or> p = CHR ''&'' \<or> p = CHR ''|'' \<or> p = CHR ''('' \<or> isASCIISpace p)"

definition appendShellComment :: "bytes list \<Rightarrow> bytes \<Rightarrow> bytes list" where
  "appendShellComment comments comment =
     (let c = TrimSpace comment in if c \<noteq> [] then comments @ [c] else comments)"

text \<open>The scanner state shared by the two comment loops.\<close>

record lex_state =
  inSingleQuote :: bool
  inDoubleQuote :: bool
  lexEscaped :: bool

definition lex_start :: lex_state where
  "lex_start = \<lparr>inSingleQuote = False, inDoubleQuote = False, lexEscaped = False\<rparr>"

text \<open>
  The transition that both loops take outside a comment; \<^term>\<open>None\<close> when the byte opens a
  comment.
\<close>

definition lex_step :: "lex_state \<Rightarrow> char option \<Rightarrow> char \<Rightarrow> lex_state option" where
  "lex_step st previous ch =
     (if lexEscaped st then Some (st\<lparr>lexEscaped := False\<rparr>)
      else if ch = backslash \<and> \<not> inSingleQuote st then Some (st\<lparr>lexEscaped := True\<rparr>)
      else if ch = squote \<and> \<not> inDoubleQuote st
        then Some (st\<lparr>inSingleQuote := \<not> inSingleQuote st\<rparr>)
      else if ch = dquote \<and> \<not> inSingleQuote st
        then Some (st\<lparr>inDoubleQuote := \<not> inDoubleQuote st\<rparr>)
      else if ch = CHR ''#'' \<and> \<not> inSingleQuote st \<and> \<not> inDoubleQuote st
              \<and> isShellCommentStart previous then None
      else Some st)"

fun extract_loop ::
  "bytes list \<Rightarrow> lex_state \<Rightarrow> bytes option \<Rightarrow> char option \<Rightarrow> bytes \<Rightarrow> bytes list" where
  "extract_loop comments st (Some comment) previous [] = appendShellComment comments comment"
| "extract_loop comments st None previous [] = comments"
| "extract_loop comments st (Some comment) previous (ch # rest) =
     (if ch = newline
      then extract_loop (appendShellComment comments comment) st None (Some ch) rest
      else extract_loop comments st (Some (comment @ [ch])) (Some ch) rest)"
| "extract_loop comments st None previous (ch # rest) =
     (case lex_step st previous ch of
        None \<Rightarrow> extract_loop comments st (Some []) (Some ch) rest
      | Some st' \<Rightarrow> extract_loop comments st' None (Some ch) rest)"

definition extractShellComments :: "bytes \<Rightarrow> bytes" where
  "extractShellComments command = Join (extract_loop [] lex_start None None command) [newline]"

fun strip_loop :: "lex_state \<Rightarrow> bool \<Rightarrow> char option \<Rightarrow> bytes \<Rightarrow> bytes" where
  "strip_loop st in_comment previous [] = []"
| "strip_loop st True previous (ch # rest) =
     (if ch = newline then newline # strip_loop st False (Some ch) rest
      else strip_loop st True (Some ch) rest)"
| "strip_loop st False previous (ch # rest) =
     (case lex_step st previous ch of
        None \<Rightarrow> strip_loop st True (Some ch) rest
      | Some st' \<Rightarrow> ch # strip_loop st' False (Some ch) rest)"

definition stripShellComments :: "bytes \<Rightarrow> bytes" where
  "stripShellComments command = strip_loop lex_start False None command"

section \<open>Redirections\<close>

record RedirectionPolicy =
  IgnorePaths :: "bytes list"
  IgnoreFDs :: "bytes list"

fun hasUnquotedHereDoc_loop :: "char option \<Rightarrow> bool \<Rightarrow> bytes \<Rightarrow> bool" where
  "hasUnquotedHereDoc_loop quote escaped (ch # nxt # rest) =
     (if escaped then hasUnquotedHereDoc_loop quote False (nxt # rest)
      else if ch = backslash \<and> quote \<noteq> Some squote
        then hasUnquotedHereDoc_loop quote True (nxt # rest)
      else if quote \<noteq> None
        then hasUnquotedHereDoc_loop (if quote = Some ch then None else quote) False (nxt # rest)
      else if ch = squote \<or> ch = dquote
        then hasUnquotedHereDoc_loop (Some ch) False (nxt # rest)
      else if ch = CHR ''<'' \<and> nxt = CHR ''<'' then True
      else hasUnquotedHereDoc_loop quote False (nxt # rest))"
| "hasUnquotedHereDoc_loop quote escaped rest = False"

definition hasUnquotedHereDoc :: "bytes \<Rightarrow> bool" where
  "hasUnquotedHereDoc segment = hasUnquotedHereDoc_loop None False segment"

text \<open>The word, and the number of bytes read.\<close>

fun read_word_loop :: "char option \<Rightarrow> bool \<Rightarrow> bytes \<Rightarrow> bytes \<times> nat" where
  "read_word_loop quote escaped [] = ([], 0)"
| "read_word_loop quote escaped (ch # rest) =
     (if escaped
      then (let (w, n) = read_word_loop quote False rest in (ch # w, Suc n))
      else if ch = backslash \<and> quote \<noteq> Some squote
        then (let (w, n) = read_word_loop quote True rest in (w, Suc n))
      else if quote \<noteq> None then
        (if quote = Some ch
         then (let (w, n) = read_word_loop None False rest in (w, Suc n))
         else (let (w, n) = read_word_loop quote False rest in (ch # w, Suc n)))
      else if ch = squote \<or> ch = dquote
        then (let (w, n) = read_word_loop (Some ch) False rest in (w, Suc n))
      else if isASCIISpace ch \<or> ch = CHR '';'' \<or> ch = CHR ''&'' \<or> ch = CHR ''|'' then ([], 0)
      else (let (w, n) = read_word_loop quote False rest in (ch # w, Suc n)))"

definition readShellWord :: "bytes \<Rightarrow> nat \<Rightarrow> bytes \<times> nat" where
  "readShellWord segment start =
     (let index = start + length (takeWhile isASCIISpace (drop start segment)) in
      if length segment \<le> index then ([], index)
      else let (w, n) = read_word_loop None False (drop index segment) in (w, index + n))"

text \<open>
  The parse functions get the part of the segment from \<^verbatim>\<open>start\<close> on and return the triple
  (snippet, end, ok) of the code.
\<close>

definition slice :: "bytes \<Rightarrow> nat \<Rightarrow> nat \<Rightarrow> bytes" where
  "slice s i j = take (j - i) (drop i s)"

definition parseRedirectionTarget ::
  "bytes \<Rightarrow> nat \<Rightarrow> RedirectionPolicy \<Rightarrow> bytes \<times> nat \<times> bool" where
  "parseRedirectionTarget segment e policy =
     (let (target, targetEnd) = readShellWord segment e in
      if target = [] then (TrimSpace (slice segment 0 e), e, True)
      else if target \<in> set (IgnorePaths policy) then ([], targetEnd, False)
      else (TrimSpace (slice segment 0 targetEnd), targetEnd, True))"

definition parseDuplicationRedirection ::
  "bytes \<Rightarrow> nat \<Rightarrow> RedirectionPolicy \<Rightarrow> bytes \<times> nat \<times> bool" where
  "parseDuplicationRedirection segment index policy =
     (let targetStart = index + 2;
          e = targetStart + length (takeWhile isASCIIDigit (drop targetStart segment)) in
      if targetStart = e then ([], 0, False)
      else if slice segment targetStart e \<in> set (IgnoreFDs policy) then ([], e, False)
      else (TrimSpace (slice segment 0 e), e, True))"

definition byte_at :: "bytes \<Rightarrow> nat \<Rightarrow> char \<Rightarrow> bool" where
  "byte_at s i c \<longleftrightarrow> i < length s \<and> s ! i = c"

definition parseGtOutputRedirection ::
  "bytes \<Rightarrow> nat \<Rightarrow> RedirectionPolicy \<Rightarrow> bytes \<times> nat \<times> bool" where
  "parseGtOutputRedirection segment index policy =
     (if byte_at segment (index + 1) (CHR ''&'')
      then parseDuplicationRedirection segment index policy
      else let e = index + 1;
               e = (if byte_at segment e (CHR ''>'') \<or> byte_at segment e (CHR ''|'')
                    then e + 1 else e) in
           parseRedirectionTarget segment e policy)"

definition parseAmpOutputRedirection ::
  "bytes \<Rightarrow> nat \<Rightarrow> RedirectionPolicy \<Rightarrow> bytes \<times> nat \<times> bool" where
  "parseAmpOutputRedirection segment index policy =
     (if \<not> byte_at segment (index + 1) (CHR ''>'') then ([], 0, False)
      else let e = index + 2;
               e = (if byte_at segment e (CHR ''>'') then e + 1 else e) in
           parseRedirectionTarget segment e policy)"

definition parseUnsafeOutputRedirection ::
  "bytes \<Rightarrow> RedirectionPolicy \<Rightarrow> bytes \<times> nat \<times> bool" where
  "parseUnsafeOutputRedirection segment policy =
     (let index = length (takeWhile isASCIIDigit segment) in
      if 0 < index \<and> \<not> byte_at segment index (CHR ''>'') then ([], 0, False)
      else if byte_at segment index (CHR ''&'')
        then parseAmpOutputRedirection segment index policy
      else if byte_at segment index (CHR ''>'')
        then parseGtOutputRedirection segment index policy
      else ([], 0, False))"

definition pipeAndErrorToken :: bytes where
  "pipeAndErrorToken = ''|&''"

lemma parseRedirectionTarget_progress:
  "parseRedirectionTarget s e p = (snip, n, ok) \<Longrightarrow> e \<le> n"
  by (auto simp: parseRedirectionTarget_def readShellWord_def Let_def split: if_splits prod.splits)

lemma parseDuplicationRedirection_progress:
  "parseDuplicationRedirection s i p = (snip, n, True) \<Longrightarrow> i < n"
  by (auto simp: parseDuplicationRedirection_def Let_def split: if_splits)

lemma parseUnsafeOutputRedirection_progress:
  assumes "parseUnsafeOutputRedirection s p = (snip, n, True)"
  shows "0 < n"
  using assms
  by (auto simp: parseUnsafeOutputRedirection_def parseAmpOutputRedirection_def
        parseGtOutputRedirection_def Let_def split: if_splits
        dest!: parseRedirectionTarget_progress parseDuplicationRedirection_progress)

function (sequential) redirection_loop ::
  "RedirectionPolicy \<Rightarrow> char option \<Rightarrow> bool \<Rightarrow> bytes \<Rightarrow> bytes list" where
  "redirection_loop policy quote escaped [] = []"
| "redirection_loop policy quote escaped (ch # rest) =
     (if escaped then redirection_loop policy quote False rest
      else if ch = backslash \<and> quote \<noteq> Some squote then redirection_loop policy quote True rest
      else if quote \<noteq> None
        then redirection_loop policy (if quote = Some ch then None else quote) False rest
      else if ch = squote \<or> ch = dquote then redirection_loop policy (Some ch) False rest
      else if ch = CHR ''|'' \<and> byte_at rest 0 (CHR ''&'')
        then pipeAndErrorToken # redirection_loop policy quote False (drop 1 rest)
      else (case parseUnsafeOutputRedirection (ch # rest) policy of
              (snippet, e, True) \<Rightarrow> snippet # redirection_loop policy quote False (drop e (ch # rest))
            | (snippet, e, False) \<Rightarrow> redirection_loop policy quote False rest))"
  by pat_completeness auto
termination
  by (relation "measure (\<lambda>(p, q, e, s). length s)")
     (auto dest!: sym [THEN parseUnsafeOutputRedirection_progress] parseUnsafeOutputRedirection_progress)

definition extractUnsafeSegmentRedirections :: "bytes \<Rightarrow> RedirectionPolicy \<Rightarrow> bytes list" where
  "extractUnsafeSegmentRedirections segment policy = redirection_loop policy None False segment"

text \<open>
  \<^verbatim>\<open>cmdChainRe.Split(s, -1)\<close> for the pattern of alternatives \<^verbatim>\<open>&&\<close>, \<^verbatim>\<open>||\<close>, \<^verbatim>\<open>;\<close> and
  newline: cut at the leftmost match, again and again; the last part may be empty.
\<close>

definition chain_operator :: "bytes \<Rightarrow> nat" where
  "chain_operator s =
     (if HasPrefix s ''&&'' \<or> HasPrefix s ''||'' then 2
      else if HasPrefix s '';'' \<or> HasPrefix s [newline] then 1 else 0)"

function (sequential) cmdChain_split :: "bytes \<Rightarrow> bytes list" where
  "cmdChain_split [] = [[]]"
| "cmdChain_split (ch # rest) =
     (if chain_operator (ch # rest) > 0
      then [] # cmdChain_split (drop (chain_operator (ch # rest)) (ch # rest))
      else case cmdChain_split rest of [] \<Rightarrow> [[ch]] | p # ps \<Rightarrow> (ch # p) # ps)"
  by pat_completeness auto
termination by (relation "measure length") (auto simp: chain_operator_def split: if_splits)

text \<open>
  \<^verbatim>\<open>DefaultRedirectionPolicy\<close> reads an embedded TOML file; its result, nil when that file does
  not decode, is the first argument.
\<close>

definition extractUnsafeShellRedirectionsWithPolicy ::
  "RedirectionPolicy option \<Rightarrow> bytes \<Rightarrow> RedirectionPolicy option \<Rightarrow> bytes list" where
  "extractUnsafeShellRedirectionsWithPolicy defaults command policy =
     (case (case policy of None \<Rightarrow> defaults | Some p \<Rightarrow> Some p) of
        None \<Rightarrow> []
      | Some p \<Rightarrow>
          if hasUnquotedHereDoc command then []
          else concat (map (\<lambda>segment. let s = TrimSpace segment in
                              if s = [] then [] else extractUnsafeSegmentRedirections s p)
                        (cmdChain_split (stripShellComments command))))"

end
