(* ===== verification/ShellExpand.thy ===== *)
theory ShellExpand
  imports ShellLex
begin

text \<open>
  Expansion of environment variables inside double quotes
  (\<^verbatim>\<open>internal/rules/concerns/shellparse/environment.go\<close>), splitting of command chains
  (\<^verbatim>\<open>shellparse/chain.go\<close>) and removal of here-document bodies
  (\<^verbatim>\<open>internal/rules/engine_command.go\<close>).
\<close>

section \<open>Environment variables\<close>

definition betweenLiteralAssignmentChars :: "char \<Rightarrow> char \<Rightarrow> char \<Rightarrow> bool" where
  "betweenLiteralAssignmentChars c lo hi \<longleftrightarrow> lo \<le> c \<and> c \<le> hi"

definition literalAssignmentNameStart :: "char \<Rightarrow> bool" where
  "literalAssignmentNameStart c \<longleftrightarrow>
     c = CHR ''_'' \<or> betweenLiteralAssignmentChars c (CHR ''A'') (CHR ''Z'')
     \<or> betweenLiteralAssignmentChars c (CHR ''a'') (CHR ''z'')"

definition literalAssignmentNamePart :: "char \<Rightarrow> bool" where
  "literalAssignmentNamePart c \<longleftrightarrow>
     literalAssignmentNameStart c \<or> betweenLiteralAssignmentChars c (CHR ''0'') (CHR ''9'')"

definition escapeDoubleQuotedEnvironment :: "bytes \<Rightarrow> bytes" where
  "escapeDoubleQuotedEnvironment v =
     concat (map (\<lambda>c. if c \<in> {backslash, dquote, CHR ''$'', CHR 0x60} then [backslash, c] else [c]) v)"

text \<open>
  The argument starts at the dollar sign; the result is the name and the number of bytes of the
  reference.
\<close>

definition environmentReference :: "bytes \<Rightarrow> (bytes \<times> nat) option" where
  "environmentReference s =
     (if length s \<le> 1 then None
      else if s ! 1 = CHR ''{'' then
        (let name = takeWhile literalAssignmentNamePart (drop 2 s);
             nameEnd = 2 + length name in
         if name = [] \<or> \<not> byte_at s nameEnd (CHR ''}'') then None
         else Some (name, nameEnd + 1))
      else if \<not> literalAssignmentNameStart (s ! 1) then None
      else let name = s ! 1 # takeWhile literalAssignmentNamePart (drop 2 s) in
           Some (name, 1 + length name))"

definition writeEnvironmentReference ::
  "(bytes \<Rightarrow> bytes) \<Rightarrow> char option \<Rightarrow> bytes \<Rightarrow> (bytes \<times> nat) option" where
  "writeEnvironmentReference getenv quote s =
     (if quote \<noteq> Some dquote then None
      else case environmentReference s of
             None \<Rightarrow> None
           | Some (name, n) \<Rightarrow>
               (let v = getenv name in
                if v = [] then Some (take n s, n)
                else Some (escapeDoubleQuotedEnvironment v, n)))"

definition transitionEnvironmentQuote :: "char option \<Rightarrow> char \<Rightarrow> char option" where
  "transitionEnvironmentQuote current candidate =
     (case current of
        None \<Rightarrow> Some candidate
      | Some q \<Rightarrow> if q = candidate then None else current)"

definition writeEscapedEnvironmentCharacter :: "bytes \<Rightarrow> bytes \<times> bytes" where
  "writeEscapedEnvironmentCharacter s = (take 2 s, drop 2 s)"

lemma environmentReference_progress:
  "environmentReference s = Some (name, n) \<Longrightarrow> 0 < n"
  by (auto simp: environmentReference_def Let_def split: if_splits)

lemma writeEnvironmentReference_progress:
  "writeEnvironmentReference g q s = Some (out, n) \<Longrightarrow> 0 < n"
  by (auto simp: writeEnvironmentReference_def Let_def dest: environmentReference_progress
           split: if_splits option.splits)

definition next_quote :: "char option \<Rightarrow> char \<Rightarrow> char option" where
  "next_quote quote character =
     (if character = squote then transitionEnvironmentQuote quote character
      else if character = dquote \<and> quote \<noteq> Some squote
        then transitionEnvironmentQuote quote character
      else quote)"

function (sequential) expand_loop :: "(bytes \<Rightarrow> bytes) \<Rightarrow> char option \<Rightarrow> bytes \<Rightarrow> bytes" where
  "expand_loop getenv quote [] = []"
| "expand_loop getenv quote (ch # rest) =
     (if ch = backslash \<and> quote \<noteq> Some squote
      then fst (writeEscapedEnvironmentCharacter (ch # rest))
           @ expand_loop getenv quote (snd (writeEscapedEnvironmentCharacter (ch # rest)))
      else case (if ch = CHR ''$'' \<and> quote \<noteq> Some squote
                 then writeEnvironmentReference getenv quote (ch # rest) else None) of
             Some (out, n) \<Rightarrow> out @ expand_loop getenv quote (drop n (ch # rest))
           | None \<Rightarrow> ch # expand_loop getenv (next_quote quote ch) rest)"
  by pat_completeness auto
termination
  by (relation "measure (\<lambda>(g, q, s). length s)")
     (auto simp: writeEscapedEnvironmentCharacter_def
           dest!: writeEnvironmentReference_progress split: if_splits)

text \<open>A nil \<^verbatim>\<open>getenv\<close> is \<^term>\<open>None\<close>.\<close>

definition ExpandEnvironmentVariables :: "bytes \<Rightarrow> (bytes \<Rightarrow> bytes) option \<Rightarrow> bytes" where
  "ExpandEnvironmentVariables command getenv =
     (case getenv of
        None \<Rightarrow> command
      | Some g \<Rightarrow> if command = [] then command else expand_loop g None command)"

function (sequential) referenced_loop :: "char option \<Rightarrow> bytes \<Rightarrow> bytes list" where
  "referenced_loop quote [] = []"
| "referenced_loop quote (ch # rest) =
     (if ch = backslash \<and> quote \<noteq> Some squote then referenced_loop quote (drop 1 rest)
      else if ch = squote \<or> (ch = dquote \<and> quote \<noteq> Some squote)
        then referenced_loop (transitionEnvironmentQuote quote ch) rest
      else case (if ch = CHR ''$'' \<and> quote = Some dquote
                 then environmentReference (ch # rest) else None) of
             Some (name, n) \<Rightarrow> name # referenced_loop quote (drop n (ch # rest))
           | None \<Rightarrow> referenced_loop quote rest)"
  by pat_completeness auto
termination
  by (relation "measure (\<lambda>(q, s). length s)")
     (auto dest!: environmentReference_progress split: if_splits)

definition ReferencedEnvironmentVariables :: "bytes \<Rightarrow> bytes list" where
  "ReferencedEnvironmentVariables command = sort (remdups (referenced_loop None command))"

section \<open>Command chains\<close>

definition isLogicalSeparator :: "bytes \<Rightarrow> bytes \<Rightarrow> bool" where
  "isLogicalSeparator character nxt \<longleftrightarrow>
     character = ''&'' \<and> nxt = ''&'' \<or> character = ''|'' \<and> nxt = ''|''"

definition flush_segment :: "bytes \<Rightarrow> bytes list" where
  "flush_segment current = (let s = TrimSpace current in if s \<noteq> [] then [s] else [])"

fun split_chain_loop :: "bytes \<Rightarrow> bytes option \<Rightarrow> bool \<Rightarrow> bytes list \<Rightarrow> bytes list" where
  "split_chain_loop current quote escaped [] = flush_segment current"
| "split_chain_loop current quote escaped (r # rs) =
     (if escaped then split_chain_loop (current @ r) quote False rs
      else if r = [backslash] \<and> quote \<noteq> Some [squote]
        then split_chain_loop (current @ r) quote True rs
      else if quote \<noteq> None
        then split_chain_loop (current @ r) (if quote = Some r then None else quote) False rs
      else if r = [squote] \<or> r = [dquote] then split_chain_loop (current @ r) (Some r) False rs
      else if rs \<noteq> [] \<and> isLogicalSeparator r (hd rs)
        then flush_segment current @ split_chain_loop [] quote False (tl rs)
      else if r = '';'' \<or> r = [newline]
        then flush_segment current @ split_chain_loop [] quote False rs
      else split_chain_loop (current @ r) quote False rs)"

definition SplitCommandChain :: "bytes \<Rightarrow> bytes list" where
  "SplitCommandChain command = split_chain_loop [] None False (runes command)"

section \<open>Here-documents\<close>

fun shell_fields_loop :: "bytes \<Rightarrow> bytes option \<Rightarrow> bool \<Rightarrow> bytes list \<Rightarrow> bytes list" where
  "shell_fields_loop b quote escaped [] = (if b = [] then [] else [b])"
| "shell_fields_loop b quote escaped (r # rs) =
     (if escaped then shell_fields_loop (b @ r) quote False rs
      else if r = [backslash] \<and> quote \<noteq> Some [squote] then shell_fields_loop b quote True rs
      else if quote \<noteq> None then
        (if quote = Some r then shell_fields_loop b None False rs
         else shell_fields_loop (b @ r) quote False rs)
      else if r = [squote] \<or> r = [dquote] then shell_fields_loop b (Some r) False rs
      else if r \<in> set space_encodings
        then (if b = [] then [] else [b]) @ shell_fields_loop [] quote False rs
      else shell_fields_loop (b @ r) quote False rs)"

definition shellFields :: "bytes \<Rightarrow> bytes list" where
  "shellFields s = shell_fields_loop [] None False (runes s)"

record heredocDelimiter =
  hd_value :: bytes
  hd_stripTabs :: bool

definition heredoc_matches :: "heredocDelimiter \<Rightarrow> bytes \<Rightarrow> bool" where
  "heredoc_matches delimiter line \<longleftrightarrow>
     (if hd_stripTabs delimiter then dropWhile (\<lambda>c. c = CHR 0x09) line else line)
     = hd_value delimiter"

fun heredoc_fields :: "bytes list \<Rightarrow> heredocDelimiter list" where
  "heredoc_fields [] = []"
| "heredoc_fields (field # words) =
     (if field = ''<<'' \<or> field = ''<<-'' then
        (case words of
           [] \<Rightarrow> []
         | nxt # words' \<Rightarrow>
             \<lparr>hd_value = nxt, hd_stripTabs = (field = ''<<-'')\<rparr> # heredoc_fields words')
      else if HasPrefix field ''<<-'' \<and> length field > 3
        then \<lparr>hd_value = drop 3 field, hd_stripTabs = True\<rparr> # heredoc_fields words
      else if HasPrefix field ''<<'' \<and> length field > 2
        then \<lparr>hd_value = drop 2 field, hd_stripTabs = False\<rparr> # heredoc_fields words
      else heredoc_fields words)"

definition heredocDeclarations :: "bytes \<Rightarrow> heredocDelimiter list" where
  "heredocDeclarations line = heredoc_fields (shellFields line)"

fun strip_bodies :: "heredocDelimiter list \<Rightarrow> bytes list \<Rightarrow> bytes list" where
  "strip_bodies pending [] = []"
| "strip_bodies (p # pending) (line # lines) =
     strip_bodies (if heredoc_matches p line then pending else p # pending) lines"
| "strip_bodies [] (line # lines) = line # strip_bodies (heredocDeclarations line) lines"

definition stripHeredocBodies :: "bytes \<Rightarrow> bytes" where
  "stripHeredocBodies command = Join (strip_bodies [] (Split newline command)) [newline]"

end
