(* ===== verification/ShellProps.thy ===== *)
theory ShellProps
  imports ShellExpand "HOL-Library.Sublist"
begin

text \<open>
  What the shell lexers guarantee: comment stripping leaves no comment behind and is stable,
  expansion of variables keeps the quoting of the command and delivers the exact value of the
  variable, the redirection scan always advances, and here-document removal only drops lines.
\<close>

section \<open>Comments\<close>

lemma lex_step_None: "lex_step st previous ch = None \<Longrightarrow> st = lex_start"
  by (cases st) (auto simp: lex_step_def lex_start_def split: if_splits)

lemma lex_step_newline: "lex_step lex_start previous newline = Some lex_start"
  by (simp add: lex_step_def lex_start_def)

lemma strip_loop_stable:
  "(b \<longrightarrow> st = lex_start) \<Longrightarrow>
   strip_loop st False (if b then q else p) (strip_loop st b p s) = strip_loop st b p s"
proof (induction st b p s arbitrary: q rule: strip_loop.induct)
  case (2 st previous ch rest)
  then show ?case using lex_step_newline by (auto split: if_splits)
next
  case (3 st previous ch rest)
  show ?case
  proof (cases "lex_step st previous ch")
    case None
    with 3 lex_step_None show ?thesis by fastforce
  next
    case (Some st')
    with 3(2) show ?thesis by simp
  qed
qed simp

lemma extract_after_strip:
  "(b \<longrightarrow> st = lex_start) \<Longrightarrow>
   extract_loop cs st None (if b then q else p) (strip_loop st b p s) = cs"
proof (induction st b p s arbitrary: q rule: strip_loop.induct)
  case (2 st previous ch rest)
  then show ?case using lex_step_newline by (auto split: if_splits)
next
  case (3 st previous ch rest)
  show ?case
  proof (cases "lex_step st previous ch")
    case None
    with 3 lex_step_None show ?thesis by fastforce
  next
    case (Some st')
    with 3(2) show ?thesis by simp
  qed
qed simp

lemma strip_loop_subseq: "subseq (strip_loop st b p s) s"
  by (induction st b p s rule: strip_loop.induct) (auto split: option.splits)

lemma lex_step_newline_kept: "lex_step st p newline \<noteq> None"
  by (auto simp: lex_step_def)

lemma strip_loop_newlines:
  "filter (\<lambda>c. c = newline) (strip_loop st b p s) = filter (\<lambda>c. c = newline) s"
  by (induction st b p s rule: strip_loop.induct)
     (auto split: option.splits simp: lex_step_newline_kept)

text \<open>Comment stripping is complete and conservative: stripping a second time changes
  nothing, no comment can be extracted from the result, the result is the command with bytes
  left out, and the lines of the command are all still there (no newline is lost, so later
  line-based scans see the same line structure).\<close>

theorem strip_comments_complete:
  "stripShellComments (stripShellComments c) = stripShellComments c
   \<and> extractShellComments (stripShellComments c) = []
   \<and> subseq (stripShellComments c) c
   \<and> filter (\<lambda>b. b = newline) (stripShellComments c) = filter (\<lambda>b. b = newline) c"
  using strip_loop_stable [of False lex_start _ None c]
    extract_after_strip [of False lex_start "[]" _ None c]
    strip_loop_subseq strip_loop_newlines
  by (simp add: stripShellComments_def extractShellComments_def)

section \<open>Expansion\<close>

text \<open>Only the variables that the first pass reports influence the expansion.\<close>

lemma expand_loop_cong:
  "(\<forall>name\<in>set (referenced_loop quote s). g name = h name) \<Longrightarrow>
   expand_loop g quote s = expand_loop h quote s"
proof (induction g quote s rule: expand_loop.induct)
  case (2 g quote ch rest)
  consider (esc) "ch = backslash" "quote \<noteq> Some squote"
    | (ref) name n where "\<not> (ch = backslash \<and> quote \<noteq> Some squote)" "ch = CHR ''$''"
        "quote = Some dquote" "environmentReference (ch # rest) = Some (name, n)"
    | (plain) "\<not> (ch = backslash \<and> quote \<noteq> Some squote)"
        "ch = CHR ''$'' \<Longrightarrow> quote = Some dquote \<Longrightarrow> environmentReference (ch # rest) = None"
    by (cases "environmentReference (ch # rest)") auto
  then show ?case
  proof cases
    case esc
    with 2 show ?thesis by (simp add: writeEscapedEnvironmentCharacter_def)
  next
    case ref
    have w: "writeEnvironmentReference g quote (ch # rest) = writeEnvironmentReference h quote (ch # rest)"
      using 2(4) ref by (simp add: writeEnvironmentReference_def)
    obtain out where w': "writeEnvironmentReference g quote (ch # rest) = Some (out, n)"
      using ref by (cases "g name = []") (auto simp: writeEnvironmentReference_def Let_def)
    have "expand_loop g quote (drop n (ch # rest)) = expand_loop h quote (drop n (ch # rest))"
      by (rule 2(3)[OF _ _ refl]) (use 2(4) ref w' in auto)
    then show ?thesis using ref w w' by simp
  next
    case plain
    have w: "(if ch = CHR ''$'' \<and> quote \<noteq> Some squote
              then writeEnvironmentReference f quote (ch # rest) else None) = None" for f
      using plain by (auto simp: writeEnvironmentReference_def)
    have "expand_loop g (next_quote quote ch) rest = expand_loop h (next_quote quote ch) rest"
      by (rule 2(2)[OF _ w])
         (use 2(4) plain in \<open>auto simp: next_quote_def transitionEnvironmentQuote_def split: if_splits option.splits\<close>)
    then show ?thesis using plain(1) w by (simp only: expand_loop.simps if_False option.case)
  qed
qed simp

text \<open>The list of referenced variables is complete for the expansion: two environments that
  agree on \<^verbatim>\<open>ReferencedEnvironmentVariables\<close> of a command expand it to the same text.\<close>

theorem expansion_depends_on_referenced:
  assumes "\<forall>name\<in>set (ReferencedEnvironmentVariables c). g name = h name"
  shows "ExpandEnvironmentVariables c (Some g) = ExpandEnvironmentVariables c (Some h)"
  using assms expand_loop_cong [of None c g h]
  by (simp add: ExpandEnvironmentVariables_def ReferencedEnvironmentVariables_def)

theorem expansion_depends_on_referenced_witness:
  "ReferencedEnvironmentVariables (''cat '' @ [dquote] @ ''$A'' @ [dquote] @ '' $B'') = [''A'']
   \<and> ExpandEnvironmentVariables (''cat '' @ [dquote] @ ''$A'' @ [dquote] @ '' $B'') (Some (\<lambda>n. ''x''))
     = ExpandEnvironmentVariables (''cat '' @ [dquote] @ ''$A'' @ [dquote] @ '' $B'')
         (Some (\<lambda>n. if n = ''A'' then ''x'' else ''y''))"
proof -
  have r: "ReferencedEnvironmentVariables (''cat '' @ [dquote] @ ''$A'' @ [dquote] @ '' $B'') = [''A'']"
    by code_simp
  show ?thesis
    using r expansion_depends_on_referenced
      [of "''cat '' @ [dquote] @ ''$A'' @ [dquote] @ '' $B''" "\<lambda>n. ''x''"
          "\<lambda>n. if n = ''A'' then ''x'' else ''y''"]
    by simp
qed

text \<open>The quote state at the end of a text, as the expander tracks it.\<close>

function (sequential) quote_after :: "char option \<Rightarrow> bytes \<Rightarrow> char option" where
  "quote_after q [] = q"
| "quote_after q (ch # rest) =
     (if ch = backslash \<and> q \<noteq> Some squote then quote_after q (drop 1 rest)
      else quote_after (next_quote q ch) rest)"
  by pat_completeness auto
termination by (relation "measure (\<lambda>(q, s). length s)") auto

definition inert :: "char \<Rightarrow> bool" where
  "inert c \<longleftrightarrow> c \<noteq> backslash \<and> c \<noteq> squote \<and> c \<noteq> dquote"

lemma quote_after_inert: "list_all inert xs \<Longrightarrow> quote_after q (xs @ t) = quote_after q t"
  by (induction xs) (auto simp: inert_def next_quote_def)

lemma name_part_inert: "literalAssignmentNamePart c \<Longrightarrow> inert c"
  by (auto simp: literalAssignmentNamePart_def literalAssignmentNameStart_def inert_def
        betweenLiteralAssignmentChars_def less_eq_char_def)

lemma name_start_part: "literalAssignmentNameStart c \<Longrightarrow> literalAssignmentNamePart c"
  by (simp add: literalAssignmentNamePart_def)

lemma list_all_takeWhile_inert:
  "list_all inert (takeWhile literalAssignmentNamePart xs)"
  by (auto simp: list_all_iff dest!: set_takeWhileD name_part_inert)

lemma environmentReference_inert:
  assumes "environmentReference (CHR ''$'' # rest) = Some (name, n)"
  shows "list_all inert (take n (CHR ''$'' # rest))"
proof (cases rest)
  case Nil
  with assms show ?thesis by (simp add: environmentReference_def)
next
  case (Cons c cs)
  let ?w = "takeWhile literalAssignmentNamePart cs"
  note w = list_all_takeWhile_inert [of cs] takeWhile_eq_take [of literalAssignmentNamePart cs]
  show ?thesis
  proof (cases "c = CHR ''{''")
    case True
    with assms Cons have n: "n = 3 + length ?w" and b: "length ?w < length cs" "cs ! length ?w = CHR ''}''"
      by (auto simp: environmentReference_def byte_at_def Let_def split: if_splits)
    have "take n (CHR ''$'' # rest) = CHR ''$'' # CHR ''{'' # ?w @ [CHR ''}'']"
      using n b Cons True w(2) by (simp add: take_Suc_conv_app_nth numeral_3_eq_3)
    then show ?thesis using w(1) by (simp add: inert_def)
  next
    case False
    with assms Cons have n: "n = 2 + length ?w" and c: "literalAssignmentNameStart c"
      by (auto simp: environmentReference_def Let_def split: if_splits)
    have "take n (CHR ''$'' # rest) = CHR ''$'' # c # ?w"
      using n Cons w(2) by simp
    then show ?thesis using w(1) c name_part_inert name_start_part by (simp add: inert_def)
  qed
qed

lemma quote_after_escape:
  "quote_after (Some dquote) (escapeDoubleQuotedEnvironment v @ t) = quote_after (Some dquote) t"
  by (induction v)
     (auto simp: escapeDoubleQuotedEnvironment_def next_quote_def transitionEnvironmentQuote_def)

lemma quote_after_expand: "quote_after q (expand_loop g q s) = quote_after q s"
proof (induction g q s rule: expand_loop.induct)
  case (2 g quote ch rest)
  show ?case
  proof (cases "ch = backslash \<and> quote \<noteq> Some squote")
    case True
    with 2(1) show ?thesis by (cases rest) (auto simp: writeEscapedEnvironmentCharacter_def)
  next
    case esc: False
    let ?w = "if ch = CHR ''$'' \<and> quote \<noteq> Some squote
              then writeEnvironmentReference g quote (ch # rest) else None"
    show ?thesis
    proof (cases ?w)
      case None
      show ?thesis using 2(2)[OF esc None] None esc by (simp only: expand_loop.simps quote_after.simps if_False option.case)
    next
      case (Some r)
      obtain out n where r: "r = (out, n)" by (cases r)
      with Some obtain name where ref: "ch = CHR ''$''" "quote = Some dquote"
          "environmentReference (CHR ''$'' # rest) = Some (name, n)"
          "out = take n (ch # rest) \<or> out = escapeDoubleQuotedEnvironment (g name)"
        by (auto simp: writeEnvironmentReference_def Let_def split: if_splits option.splits)
      have inert: "list_all inert (take n (ch # rest))"
        using environmentReference_inert ref by simp
      have "quote_after quote (out @ t) = quote_after quote t" for t
        using ref(2,4) inert quote_after_inert quote_after_escape by auto
      then have "quote_after quote (expand_loop g quote (ch # rest))
                 = quote_after quote (drop n (ch # rest))"
        using Some r esc 2(3)[OF esc Some r[symmetric]] by (simp only: expand_loop.simps if_False option.case prod.case)
      also have "\<dots> = quote_after quote (take n (ch # rest) @ drop n (ch # rest))"
        by (rule quote_after_inert [OF inert, symmetric])
      finally show ?thesis by (simp only: append_take_drop_id)
    qed
  qed
qed simp

text \<open>C31. Expansion cannot break out of the quotes: whatever the values of the variables are, the
  expanded command ends in the same quote state as the command itself.\<close>

theorem expansion_keeps_quoting:
  "quote_after None (ExpandEnvironmentVariables c (Some g)) = quote_after None c"
  using quote_after_expand [of None g c] by (simp add: ExpandEnvironmentVariables_def)

section \<open>Words\<close>

lemma read_word_escape:
  "read_word_loop (Some dquote) False (escapeDoubleQuotedEnvironment v @ t)
   = (v @ fst (read_word_loop (Some dquote) False t),
      length (escapeDoubleQuotedEnvironment v) + snd (read_word_loop (Some dquote) False t))"
  by (induction v) (auto simp: escapeDoubleQuotedEnvironment_def Let_def split: prod.splits)

definition valid_name :: "bytes \<Rightarrow> bool" where
  "valid_name name \<longleftrightarrow> name \<noteq> [] \<and> literalAssignmentNameStart (hd name)
                      \<and> list_all literalAssignmentNamePart name"

lemma environmentReference_name:
  assumes "valid_name name" "\<not> literalAssignmentNamePart c"
  shows "environmentReference (CHR ''$'' # name @ c # t) = Some (name, Suc (length name))"
proof -
  obtain x xs where name: "name = x # xs" using assms by (cases name) (auto simp: valid_name_def)
  have "x \<noteq> CHR ''{''" using assms name
    by (auto simp: valid_name_def literalAssignmentNameStart_def betweenLiteralAssignmentChars_def less_eq_char_def)
  moreover have "takeWhile literalAssignmentNamePart (xs @ c # t) = xs"
    using assms name by (subst takeWhile_append2) (auto simp: valid_name_def list_all_iff)
  ultimately show ?thesis using assms name
    by (simp add: environmentReference_def valid_name_def)
qed

lemma dquote_not_part: "\<not> literalAssignmentNamePart dquote"
  by code_simp

lemma expand_reference:
  assumes "valid_name name" "g name \<noteq> []"
  shows "ExpandEnvironmentVariables (dquote # CHR ''$'' # name @ [dquote]) (Some g)
         = dquote # escapeDoubleQuotedEnvironment (g name) @ [dquote]"
proof -
  have "environmentReference (CHR ''$'' # name @ [dquote]) = Some (name, Suc (length name))"
    using environmentReference_name [OF assms(1) dquote_not_part, of "[]"] .
  then show ?thesis using assms(2)
    by (simp add: ExpandEnvironmentVariables_def writeEnvironmentReference_def Let_def
          next_quote_def transitionEnvironmentQuote_def)
qed

text \<open>C30. Expansion and word reading are inverse to each other: a redirection target written as a
  double-quoted reference to a set variable is expanded so that \<^verbatim>\<open>readShellWord\<close> reads back the
  exact value of the variable, whatever bytes the value has (quotes, dollar signs, backslashes,
  spaces), and consumes the whole word.\<close>

theorem expanded_word_is_value:
  assumes "valid_name name" "g name \<noteq> []"
  shows "readShellWord (ExpandEnvironmentVariables (dquote # CHR ''$'' # name @ [dquote]) (Some g)) 0
         = (g name, length (escapeDoubleQuotedEnvironment (g name)) + 2)"
  unfolding expand_reference [of name g, OF assms]
  by (simp add: readShellWord_def Let_def isASCIISpace_def read_word_escape)

theorem expanded_word_is_value_witness:
  "readShellWord (ExpandEnvironmentVariables (dquote # CHR ''$'' # ''OUT'' @ [dquote])
      (Some (\<lambda>n. ''a'' @ [dquote] @ '' ;$b''))) 0
   = (''a'' @ [dquote] @ '' ;$b'', 10)"
proof -
  have "valid_name ''OUT''" by code_simp
  moreover have "length (escapeDoubleQuotedEnvironment (''a'' @ [dquote] @ '' ;$b'')) + 2 = 10"
    by code_simp
  ultimately show ?thesis
    using expanded_word_is_value [of "''OUT''" "\<lambda>n. ''a'' @ [dquote] @ '' ;$b''"] by simp
qed

section \<open>Here-documents\<close>

lemma strip_bodies_subseq: "subseq (strip_bodies pending lines) lines"
  by (induction pending lines rule: strip_bodies.induct) auto

lemma strip_bodies_pending:
  assumes "list_all (\<lambda>l. \<not> heredoc_matches p l) body" "heredoc_matches p close"
  shows "strip_bodies (p # ps) (body @ close # rest) = strip_bodies ps rest"
  using assms by (induction body) auto

section \<open>Redirections\<close>

lemma redirection_loop_quoted:
  "q \<in> {squote, dquote} \<Longrightarrow> list_all (\<lambda>c. c \<noteq> q \<and> c \<noteq> backslash) s \<Longrightarrow>
   redirection_loop policy (Some q) False (s @ q # t) = redirection_loop policy None False t"
  by (induction s) auto

lemma Split_plain: "c \<notin> set l \<Longrightarrow> Split c l = [l]"
  by (induction l) auto

lemma Split_step: "c \<notin> set l \<Longrightarrow> Split c (l @ c # t) = l # Split c t"
  by (induction l) auto

lemma Split_Join:
  "lines \<noteq> [] \<Longrightarrow> \<forall>l\<in>set lines. c \<notin> set l \<Longrightarrow> Split c (Join lines [c]) = lines"
  by (induction lines "[c]" rule: Join.induct) (auto simp: Split_plain Split_step)

text \<open>Here-document bodies are removed exactly: when a line declares one here-document, the
  body lines (none of which is the delimiter) and the closing line disappear, and the rest of
  the command is processed as a command of its own.\<close>

theorem heredoc_body_removed:
  assumes "heredocDeclarations line = [p]" "list_all (\<lambda>l. \<not> heredoc_matches p l) body"
    "heredoc_matches p close" "rest \<noteq> []"
    "\<forall>l\<in>set (line # body @ close # rest). newline \<notin> set l"
  shows "stripHeredocBodies (Join (line # body @ close # rest) [newline])
         = Join [line, stripHeredocBodies (Join rest [newline])] [newline]"
proof -
  have rest: "strip_bodies [] rest \<noteq> []" using assms(4) by (cases rest) auto
  have "Split newline (Join (line # body @ close # rest) [newline]) = line # body @ close # rest"
    using assms(5) by (intro Split_Join) auto
  moreover have "Split newline (Join rest [newline]) = rest"
    using assms(4,5) by (intro Split_Join) auto
  moreover have "Join (line # xs) [newline] = Join [line, Join xs [newline]] [newline]"
    if "xs \<noteq> []" for xs using that by (cases xs) auto
  ultimately show ?thesis
    using assms(1) strip_bodies_pending [OF assms(2,3), of "[]" rest] rest
    by (simp add: stripHeredocBodies_def)
qed

theorem heredoc_body_removed_witness:
  "stripHeredocBodies (Join [''cat <<EOF'', ''rm -rf x'', ''EOF'', ''ls''] [newline])
   = Join [''cat <<EOF'', ''ls''] [newline]"
proof -
  let ?p = "\<lparr>hd_value = ''EOF'', hd_stripTabs = False\<rparr>"
  have p: "heredocDeclarations ''cat <<EOF'' = [?p]"
    "list_all (\<lambda>l. \<not> heredoc_matches ?p l) [''rm -rf x'']" "heredoc_matches ?p ''EOF''"
    by (code_simp, code_simp, code_simp)
  have r: "stripHeredocBodies (Join [''ls''] [newline]) = ''ls''" by code_simp
  show ?thesis using heredoc_body_removed [OF p, of "[''ls'']"] r by simp
qed

definition target_byte :: "char \<Rightarrow> bool" where
  "target_byte c \<longleftrightarrow> c \<notin> {backslash, squote, dquote, CHR '';'', CHR ''&'', CHR ''|'', CHR ''>''}
                     \<and> \<not> isASCIISpace c"

lemma read_word_plain: "list_all target_byte w \<Longrightarrow> read_word_loop None False w = (w, length w)"
  by (induction w) (auto simp: target_byte_def)

lemma parse_target_plain:
  assumes "list_all target_byte t" "t \<noteq> []" "t \<notin> set (IgnorePaths policy)"
  shows "parseUnsafeOutputRedirection (CHR ''>'' # t) policy
         = (TrimSpace (CHR ''>'' # t), Suc (length t), True)"
proof -
  obtain c cs where t: "t = c # cs" using assms(2) by (cases t) auto
  have "\<not> isASCIISpace c" "c \<noteq> CHR ''&''" "c \<noteq> CHR ''>''" "c \<noteq> CHR ''|''"
    using assms(1) t by (auto simp: target_byte_def)
  moreover have "\<not> isASCIIDigit (CHR ''>'')" by code_simp
  ultimately show ?thesis using assms t read_word_plain [OF assms(1)]
    by (simp add: parseUnsafeOutputRedirection_def parseGtOutputRedirection_def byte_at_def
          parseRedirectionTarget_def readShellWord_def slice_def Let_def)
qed

definition quiet_byte :: "char \<Rightarrow> bool" where
  "quiet_byte c \<longleftrightarrow> c \<notin> {backslash, squote, dquote, CHR ''&'', CHR ''|'', CHR ''>''}
                    \<and> \<not> isASCIIDigit c"

lemma parse_quiet: "quiet_byte c \<Longrightarrow> parseUnsafeOutputRedirection (c # t) policy = ([], 0, False)"
  by (auto simp: quiet_byte_def parseUnsafeOutputRedirection_def byte_at_def)

lemma redirection_loop_quiet:
  "list_all quiet_byte pre \<Longrightarrow>
   redirection_loop policy None False (pre @ t) = redirection_loop policy None False t"
proof (induction pre)
  case (Cons c cs)
  have c: "c \<noteq> backslash" "c \<noteq> squote" "c \<noteq> dquote" "c \<noteq> CHR ''|''"
    using Cons.prems by (auto simp: quiet_byte_def)
  have "redirection_loop policy None False (c # cs @ t) = redirection_loop policy None False (cs @ t)"
    using Cons.prems by (subst redirection_loop.simps(2)) (simp add: c parse_quiet del: redirection_loop.simps)
  then show ?case using Cons by (simp del: redirection_loop.simps)
qed simp

text \<open>An output redirection is never overlooked: after any unquoted text without operator
  characters, a redirection to a target that the policy does not ignore is reported with its
  target, and text inside quotes between them is skipped.\<close>

theorem redirection_reported:
  assumes "list_all quiet_byte pre" "list_all quiet_byte mid" "q \<in> {squote, dquote}"
    "list_all (\<lambda>c. c \<noteq> q \<and> c \<noteq> backslash) quoted"
    "list_all target_byte t" "t \<noteq> []" "t \<notin> set (IgnorePaths policy)"
  shows "extractUnsafeSegmentRedirections (pre @ q # quoted @ q # mid @ CHR ''>'' # t) policy
         = [TrimSpace (CHR ''>'' # t)]"
proof -
  have "redirection_loop policy None False (CHR ''>'' # t) = [TrimSpace (CHR ''>'' # t)]"
    using parse_target_plain [OF assms(5,6,7)] by simp
  then have "redirection_loop policy None False (q # quoted @ q # mid @ CHR ''>'' # t)
             = [TrimSpace (CHR ''>'' # t)]"
    using redirection_loop_quoted [OF assms(3,4)] redirection_loop_quiet [OF assms(2)] assms(3)
    by auto
  then show ?thesis using redirection_loop_quiet [OF assms(1)]
    by (simp add: extractUnsafeSegmentRedirections_def)
qed

theorem redirection_reported_witness:
  "extractUnsafeSegmentRedirections (''echo '' @ squote # ''a > b'' @ squote # '' '' @ CHR ''>'' # ''out'')
     \<lparr>IgnorePaths = [''/dev/stdout''], IgnoreFDs = [''1'']\<rparr> = [''>out'']"
proof -
  have h: "list_all quiet_byte ''echo ''" "list_all quiet_byte '' ''" "squote \<in> {squote, dquote}"
    "list_all (\<lambda>c. c \<noteq> squote \<and> c \<noteq> backslash) ''a > b''" "list_all target_byte ''out''"
    "''out'' \<noteq> []"
    "''out'' \<notin> set (IgnorePaths \<lparr>IgnorePaths = [''/dev/stdout''], IgnoreFDs = [''1'']\<rparr>)"
    by (code_simp, code_simp, simp, code_simp, code_simp, simp, simp)
  have "TrimSpace (CHR ''>'' # ''out'') = ''>out''" by code_simp
  with redirection_reported [OF h] show ?thesis by simp
qed

end
