(* ===== verification/AuditPolicy.thy ===== *)
theory AuditPolicy
  imports AG_Prelude
begin

text \<open>
  The audit storage policy: parsing of sizes and profiles (\<^verbatim>\<open>internal/config/audit_storage.go\<close>)
  and the rotation windows it leads to (\<^verbatim>\<open>internal/auditstorage/catalog.go\<close>, \<^verbatim>\<open>segments.go\<close>).
  Times are nanoseconds since Go's zero time; \<^verbatim>\<open>Time.Unix\<close> is the floor to seconds since 1970.
\<close>

section \<open>Rotation windows\<close>

record RotationPolicy =
  rp_Interval :: go_duration
  rp_Retained :: int
  rp_MaxBytes :: int

definition second :: go_duration where
  "second = 1000000000"

text \<open>Go's truncated remainder.\<close>

definition rem_trunc :: "int \<Rightarrow> int \<Rightarrow> int" where
  "rem_trunc a b = a - quot_trunc a b * b"

text \<open>Seconds from Go's zero time to the Unix epoch, and the two conversions.\<close>

definition unix_epoch :: int where
  "unix_epoch = 62135596800"

definition time_Unix :: "go_time \<Rightarrow> int" where
  "time_Unix t = t div 1000000000 - unix_epoch"

definition unix_time :: "int \<Rightarrow> go_time" where
  "unix_time secs = (secs + unix_epoch) * 1000000000"

definition RotationPolicy_Validate :: "RotationPolicy \<Rightarrow> go_error" where
  "RotationPolicy_Validate policy = first_problem
     [(rp_Interval policy \<le> 0 \<or> rem_trunc (rp_Interval policy) second \<noteq> 0,
         ''bucket interval must be positive whole seconds''),
      (rp_Retained policy < 0, ''retention buckets must be positive or zero''),
      (rp_MaxBytes policy < 0 \<or> rp_MaxBytes policy > 0 \<and> rp_MaxBytes policy < 4194304,
         ''maximum storage size must be zero or at least 4 MiB''),
      (rp_Retained policy = 0 \<and> rp_MaxBytes policy = 0, ''enable an age or size retention limit''),
      (rp_Retained policy > quot_trunc max_int64 (rp_Interval policy),
         ''retained bucket interval overflows duration'')]"

definition bucketStart :: "go_time \<Rightarrow> go_duration \<Rightarrow> go_time" where
  "bucketStart now interval =
     (let seconds = quot_trunc interval second;
          val = time_Unix now;
          remainder = rem_trunc val seconds;
          remainder = (if remainder < 0 then remainder + seconds else remainder) in
      unix_time (val - remainder))"

text \<open>The window of a bucket is given by its start; the product of durations wraps.\<close>

definition retained :: "go_time \<Rightarrow> RotationPolicy \<Rightarrow> go_time \<Rightarrow> bool" where
  "retained bucket_start policy now =
     (let current = bucketStart now (rp_Interval policy);
          aligned = (rem_trunc (time_Unix bucket_start) (quot_trunc (rp_Interval policy) second) = 0) in
      if rp_Retained policy = 0 then aligned \<and> \<not> current < bucket_start
      else let oldest = time_add current
                 (to_int64 (to_int64 (- (rp_Retained policy - 1)) * rp_Interval policy)) in
           aligned \<and> \<not> bucket_start < oldest \<and> \<not> current < bucket_start)"

definition RotationPolicy_Retains :: "RotationPolicy \<Rightarrow> go_time \<Rightarrow> go_time \<Rightarrow> bool" where
  "RotationPolicy_Retains policy bucket_start now = retained bucket_start policy now"

definition maximumSegmentBytes :: int where "maximumSegmentBytes = 64 * 1024 * 1024"
definition minimumSegmentBytes :: int where "minimumSegmentBytes = 1024 * 1024"

definition SegmentBytes :: "RotationPolicy \<Rightarrow> int" where
  "SegmentBytes policy =
     (if rp_MaxBytes policy = 0 then 0
      else max minimumSegmentBytes (min maximumSegmentBytes (quot_trunc (rp_MaxBytes policy) 16)))"

section \<open>Sizes\<close>

definition is_digit :: "char \<Rightarrow> bool" where
  "is_digit c \<longleftrightarrow> CHR ''0'' \<le> c \<and> c \<le> CHR ''9''"

definition digits_value :: "bytes \<Rightarrow> int" where
  "digits_value ds = foldl (\<lambda>n d. 10 * n + (of_char d - 48)) 0 ds"

definition unitBytes :: "(bytes \<times> int) list" where
  "unitBytes =
     [(''B'', 1), (''KB'', 1000), (''MB'', 1000000), (''GB'', 1000000000),
      (''TB'', 1000000000000), (''PB'', 1000000000000000), (''EB'', 1000000000000000000),
      (''KIB'', 1024), (''MIB'', 1048576), (''GIB'', 1073741824), (''TIB'', 1099511627776),
      (''PIB'', 1125899906842624), (''EIB'', 1152921504606846976)]"

text \<open>
  The regular expression of \<^verbatim>\<open>auditStorageSizePattern\<close> matched by hand: digits, optionally a dot and
  more digits, and one of the units; the result is the digits before and after the dot and the
  unit.
\<close>

definition auditStorageSizePattern :: "bytes \<Rightarrow> (bytes \<times> bytes \<times> bytes) option" where
  "auditStorageSizePattern v =
     (let whole = takeWhile is_digit v;
          rest = dropWhile is_digit v;
          frac = (case rest of c # cs \<Rightarrow> if c = CHR ''.'' then takeWhile is_digit cs else [] | [] \<Rightarrow> []);
          unit = (if frac = [] then rest else drop (Suc (length frac)) rest) in
      if whole = [] \<or> unit \<notin> set (map fst unitBytes) then None
      else Some (whole, frac, unit))"

definition parseAuditStorageSize :: "bytes \<Rightarrow> int go_result" where
  "parseAuditStorageSize val =
     (case auditStorageSizePattern (ToUpper val) of
        None \<Rightarrow> Inl ''expected a nonnegative size with a byte unit''
      | Some (whole, frac, unit) \<Rightarrow>
          (let num = digits_value (whole @ frac) * the (map_of unitBytes unit);
               den = 10 ^ length frac in
           if num mod den \<noteq> 0 then Inl ''size must resolve to a whole number of bytes''
           else if num div den > max_int64 then Inl ''size exceeds the maximum byte count''
           else Inr (num div den)))"

section \<open>The resolved policy\<close>

record AuditStorageDetail =
  sd_WireInput :: "bool option"
  sd_NormalizedInput :: "bool option"
  sd_ProviderEvidence :: "bool option"
  sd_EnvironmentEvidence :: "bool option"
  sd_EvaluationContent :: "bool option"

record AuditStorage =
  st_Profile :: bytes
  st_BucketInterval :: "bytes option"
  st_RetentionBuckets :: "int option"
  st_MaxSize :: "bytes option"
  st_Detail :: AuditStorageDetail

record AuditStorageDetailPolicy =
  dp_WireInput :: bool
  dp_NormalizedInput :: bool
  dp_ProviderEvidence :: bool
  dp_EnvironmentEvidence :: bool
  dp_EvaluationContent :: bool

record AuditStoragePolicy =
  sp_Profile :: bytes
  sp_BucketInterval :: go_duration
  sp_RetentionBuckets :: int
  sp_MaxBytes :: int
  sp_Detail :: AuditStorageDetailPolicy

definition Rotation :: "AuditStoragePolicy \<Rightarrow> RotationPolicy" where
  "Rotation policy = \<lparr>rp_Interval = sp_BucketInterval policy, rp_Retained = sp_RetentionBuckets policy,
                      rp_MaxBytes = sp_MaxBytes policy\<rparr>"

definition or_default :: "'a \<Rightarrow> 'a option \<Rightarrow> 'a" where
  "or_default d x = (case x of None \<Rightarrow> d | Some v \<Rightarrow> v)"

definition applyAuditStorageDetailOverrides ::
  "AuditStorageDetailPolicy \<Rightarrow> AuditStorageDetail \<Rightarrow> AuditStorageDetailPolicy" where
  "applyAuditStorageDetailOverrides p raw =
     \<lparr>dp_WireInput = or_default (dp_WireInput p) (sd_WireInput raw),
      dp_NormalizedInput = or_default (dp_NormalizedInput p) (sd_NormalizedInput raw),
      dp_ProviderEvidence = or_default (dp_ProviderEvidence p) (sd_ProviderEvidence raw),
      dp_EnvironmentEvidence = or_default (dp_EnvironmentEvidence p) (sd_EnvironmentEvidence raw),
      dp_EvaluationContent = or_default (dp_EvaluationContent p) (sd_EvaluationContent raw)\<rparr>"

definition AuditStorageProfileFull :: bytes where "AuditStorageProfileFull = ''full''"
definition AuditStorageProfileMinimal :: bytes where "AuditStorageProfileMinimal = ''minimal''"
definition defaultAuditBucketInterval :: go_duration where
  "defaultAuditBucketInterval = 24 * 3600 * 1000000000"
definition defaultAuditRetentionBuckets :: int where "defaultAuditRetentionBuckets = 7"
definition defaultAuditMaxBytes :: int where "defaultAuditMaxBytes = 5000000000"

text \<open>The first argument is \<^verbatim>\<open>time.ParseDuration\<close>.\<close>

definition resolveAuditStorage ::
  "(bytes \<Rightarrow> go_duration go_result) \<Rightarrow> AuditStorage \<Rightarrow> AuditStoragePolicy go_result" where
  "resolveAuditStorage parse_duration raw =
     (let profile = (if st_Profile raw = [] then AuditStorageProfileFull else st_Profile raw);
          full = (profile = AuditStorageProfileFull);
          detail = \<lparr>dp_WireInput = full, dp_NormalizedInput = full, dp_ProviderEvidence = full,
                    dp_EnvironmentEvidence = full, dp_EvaluationContent = full\<rparr> in
      if profile \<noteq> AuditStorageProfileFull \<and> profile \<noteq> AuditStorageProfileMinimal
      then Inl ''audit.storage.profile: unknown profile''
      else bindE (case st_BucketInterval raw of
                    None \<Rightarrow> Inr defaultAuditBucketInterval
                  | Some text \<Rightarrow> parse_duration text) (\<lambda>interval.
           bindE (case st_MaxSize raw of
                    None \<Rightarrow> Inr defaultAuditMaxBytes
                  | Some text \<Rightarrow> parseAuditStorageSize text) (\<lambda>maxBytes.
           let policy = \<lparr>sp_Profile = profile, sp_BucketInterval = interval,
                         sp_RetentionBuckets = or_default defaultAuditRetentionBuckets (st_RetentionBuckets raw),
                         sp_MaxBytes = maxBytes, sp_Detail = detail\<rparr> in
           check_then (RotationPolicy_Validate (Rotation policy))
             (Inr (policy\<lparr>sp_Detail := applyAuditStorageDetailOverrides detail (st_Detail raw)\<rparr>)))))"

section \<open>What a validated policy retains\<close>

lemma quot_trunc_pos: "0 \<le> a \<Longrightarrow> 0 < b \<Longrightarrow> quot_trunc a b = a div b"
  by (cases "a = 0") (auto simp: quot_trunc_def)

lemma quot_trunc_neg: "a < 0 \<Longrightarrow> 0 < b \<Longrightarrow> quot_trunc a b = - ((- a) div b)"
  by (simp add: quot_trunc_def)

lemma rem_trunc_pos: "0 \<le> a \<Longrightarrow> 0 < b \<Longrightarrow> rem_trunc a b = a mod b"
  by (simp add: rem_trunc_def quot_trunc_pos minus_div_mult_eq_mod)

lemma rem_trunc_neg: "a < 0 \<Longrightarrow> 0 < b \<Longrightarrow> rem_trunc a b = - ((- a) mod b)"
  using div_mult_mod_eq [of "- a" b] by (simp only: rem_trunc_def quot_trunc_neg)

lemma rem_trunc_mod:
  assumes "0 < b"
  shows "(if rem_trunc a b < 0 then rem_trunc a b + b else rem_trunc a b) = a mod b"
proof (cases "0 \<le> a")
  case True
  then have "rem_trunc a b = a mod b" using assms by (rule rem_trunc_pos)
  then show ?thesis using pos_mod_sign [OF assms, of a] by (simp add: linorder_not_less [symmetric])
next
  case False
  define m where "m = (- a) mod b"
  have m: "0 \<le> m" using assms by (simp add: m_def)
  have "a mod b = (if m = 0 then 0 else b - m)"
    using zmod_zminus1_eq_if [of "- a" b] by (simp add: m_def)
  moreover have "rem_trunc a b = - m" using rem_trunc_neg [of a b] False assms by (simp add: m_def)
  ultimately show ?thesis using m by simp
qed

lemma rem_trunc_zero:
  assumes b: "0 < b"
  shows "rem_trunc a b = 0 \<longleftrightarrow> b dvd a"
proof (cases "0 \<le> a")
  case True
  then show ?thesis using b by (simp add: rem_trunc_pos dvd_eq_mod_eq_0)
next
  case False
  then show ?thesis
    using b rem_trunc_neg [of a b] dvd_minus_iff [of b a] by (simp add: dvd_eq_mod_eq_0)
qed

lemma unix_time_eq [simp]: "unix_time x = unix_time y \<longleftrightarrow> x = y"
  by (simp add: unix_time_def)

lemma unix_time_le [simp]: "unix_time x \<le> unix_time y \<longleftrightarrow> x \<le> y"
  by (simp add: unix_time_def)

lemma time_Unix_unix_time [simp]: "time_Unix (unix_time x) = x"
  by (simp add: time_Unix_def unix_time_def)

lemma bucketStart_floor:
  assumes "0 < s"
  shows "bucketStart now (s * second) = unix_time (time_Unix now - time_Unix now mod s)"
proof -
  have "quot_trunc (s * second) second = s"
    using assms by (simp add: quot_trunc_pos second_def)
  then show ?thesis using rem_trunc_mod [OF assms] by (simp add: bucketStart_def Let_def)
qed

lemma validated_interval:
  assumes "RotationPolicy_Validate policy = None"
  obtains s where "0 < s" "rp_Interval policy = s * second"
proof -
  have p: "0 < rp_Interval policy" "rem_trunc (rp_Interval policy) second = 0"
    using assms by (auto simp: RotationPolicy_Validate_def first_problem_None)
  then have "second dvd rp_Interval policy"
    using rem_trunc_zero [of second] by (simp add: second_def)
  then obtain s where "rp_Interval policy = s * second" by (metis dvdE mult.commute)
  moreover from this have "0 < s" using p by (simp add: second_def zero_less_mult_iff)
  ultimately show ?thesis using that by blast
qed

lemma validated_span:
  assumes "RotationPolicy_Validate policy = None"
  shows "0 \<le> rp_Retained policy" "rp_Retained policy * rp_Interval policy \<le> max_int64"
    "rp_Retained policy \<le> max_int64"
proof -
  have p: "0 < rp_Interval policy" "0 \<le> rp_Retained policy"
      "rp_Retained policy \<le> max_int64 div rp_Interval policy"
    using assms by (auto simp: RotationPolicy_Validate_def first_problem_None quot_trunc_pos max_int64_def)
  show "0 \<le> rp_Retained policy" by (rule p)
  have "rp_Retained policy * rp_Interval policy \<le> (max_int64 div rp_Interval policy) * rp_Interval policy"
    using p by (intro mult_right_mono) auto
  also have "\<dots> \<le> max_int64"
    using p by (metis div_mult_mod_eq le_add_same_cancel1 pos_mod_sign)
  finally show "rp_Retained policy * rp_Interval policy \<le> max_int64" .
  moreover have "rp_Retained policy * 1 \<le> rp_Retained policy * rp_Interval policy"
    using p by (intro mult_left_mono) auto
  ultimately show "rp_Retained policy \<le> max_int64" by simp
qed

lemma retained_window:
  assumes "RotationPolicy_Validate policy = None" "0 < rp_Retained policy"
  shows "retained b policy now \<longleftrightarrow>
         rem_trunc (time_Unix b) (quot_trunc (rp_Interval policy) second) = 0
         \<and> bucketStart now (rp_Interval policy) - (rp_Retained policy - 1) * rp_Interval policy \<le> b
         \<and> b \<le> bucketStart now (rp_Interval policy)"
proof -
  note sp = validated_span [OF assms(1)]
  have I: "0 < rp_Interval policy"
    using assms(1) by (auto simp: RotationPolicy_Validate_def first_problem_None)
  have n1: "to_int64 (- (rp_Retained policy - 1)) = - (rp_Retained policy - 1)"
    using sp assms(2) by (intro to_int64_id) (auto simp: min_int64_def max_int64_def)
  have "(rp_Retained policy - 1) * rp_Interval policy \<le> max_int64"
    using sp(2) I by (simp add: left_diff_distrib)
  moreover have "0 \<le> (rp_Retained policy - 1) * rp_Interval policy"
    using assms(2) I by simp
  ultimately have n2: "to_int64 (- (rp_Retained policy - 1) * rp_Interval policy)
                       = - (rp_Retained policy - 1) * rp_Interval policy"
    by (intro to_int64_id) (auto simp: min_int64_def max_int64_def minus_mult_left [symmetric]
         simp del: minus_diff_eq)
  show ?thesis using assms(2) unfolding retained_def Let_def n1 n2
    by (auto simp: time_add_def algebra_simps)
qed

text \<open>C29. Under a validated rotation policy with age retention, exactly the current window and the
  \<^verbatim>\<open>Retained - 1\<close> windows before it are retained: no window inside the retention span is ever
  pruned and none outside survives, and the span computation does not overflow.\<close>

theorem retained_exactly_last_windows:
  assumes "RotationPolicy_Validate policy = None" "0 < rp_Retained policy"
  shows "RotationPolicy_Retains policy (unix_time x) now \<longleftrightarrow>
         (\<exists>k. 0 \<le> k \<and> k < rp_Retained policy
              \<and> unix_time x = bucketStart now (rp_Interval policy) - k * rp_Interval policy)"
proof -
  obtain s where s: "0 < s" "rp_Interval policy = s * second"
    using validated_interval [OF assms(1)] by blast
  define c where "c = time_Unix now - time_Unix now mod s"
  have c: "s dvd c" by (simp add: c_def mod_eq_dvd_iff [symmetric])
  have bs: "bucketStart now (rp_Interval policy) = unix_time c"
    using bucketStart_floor [OF s(1)] s(2) by (simp add: c_def)
  have al: "rem_trunc x (quot_trunc (rp_Interval policy) second) = 0 \<longleftrightarrow> s dvd x"
    using s rem_trunc_zero by (simp add: quot_trunc_pos second_def)
  have scale: "unix_time c - k * rp_Interval policy = unix_time (c - k * s)" for k
    using s(2) by (simp add: unix_time_def second_def algebra_simps)
  have shift: "unix_time x = unix_time c - k * rp_Interval policy \<longleftrightarrow> x = c - k * s" for k
    unfolding scale by simp
  have lo: "unix_time c - (rp_Retained policy - 1) * rp_Interval policy \<le> unix_time x
            \<longleftrightarrow> c - (rp_Retained policy - 1) * s \<le> x"
    and hi: "unix_time x \<le> unix_time c \<longleftrightarrow> x \<le> c"
    unfolding scale by simp_all
  have "RotationPolicy_Retains policy (unix_time x) now
        \<longleftrightarrow> s dvd x \<and> c - (rp_Retained policy - 1) * s \<le> x \<and> x \<le> c"
    using retained_window [OF assms, of "unix_time x" now] al bs lo hi
    by (simp add: RotationPolicy_Retains_def)
  also have "\<dots> \<longleftrightarrow> (\<exists>k. 0 \<le> k \<and> k < rp_Retained policy \<and> x = c - k * s)"
  proof
    assume h: "s dvd x \<and> c - (rp_Retained policy - 1) * s \<le> x \<and> x \<le> c"
    then obtain k where k: "c - x = k * s" using c by (metis dvd_diff dvdE mult.commute)
    have "0 \<le> k" using h k s(1) by (metis diff_ge_0_iff_ge zero_le_mult_iff linorder_not_less)
    moreover have "k * s \<le> (rp_Retained policy - 1) * s" using h k by simp
    then have "k \<le> rp_Retained policy - 1" using s(1) by simp
    ultimately show "\<exists>k. 0 \<le> k \<and> k < rp_Retained policy \<and> x = c - k * s"
      using k by (intro exI [of _ k]) auto
  next
    assume "\<exists>k. 0 \<le> k \<and> k < rp_Retained policy \<and> x = c - k * s"
    then obtain k where k: "0 \<le> k" "k \<le> rp_Retained policy - 1" "x = c - k * s" by auto
    have "k * s \<le> (rp_Retained policy - 1) * s" using k s(1) by simp
    then show "s dvd x \<and> c - (rp_Retained policy - 1) * s \<le> x \<and> x \<le> c"
      using k c s(1) by (auto intro: dvd_diff)
  qed
  finally show ?thesis using shift bs by simp
qed

theorem retained_exactly_last_windows_witness:
  "RotationPolicy_Retains \<lparr>rp_Interval = 86400000000000, rp_Retained = 7, rp_MaxBytes = 0\<rparr>
     (unix_time 172800) (unix_time 700000)
   \<longleftrightarrow> (\<exists>k. 0 \<le> k \<and> k < (7::int)
           \<and> unix_time 172800 = bucketStart (unix_time 700000) 86400000000000 - k * 86400000000000)"
proof -
  have v: "RotationPolicy_Validate \<lparr>rp_Interval = 86400000000000, rp_Retained = 7, rp_MaxBytes = 0\<rparr> = None"
    by code_simp
  show ?thesis
    using retained_exactly_last_windows [OF v, of 172800 "unix_time 700000"] by simp
qed

end
