(* ===== verification/Selectors.thy ===== *)
theory Selectors
  imports AG_Prelude
begin

text \<open>
  The closed enumeration of payload fields that rules may name
  (\<^verbatim>\<open>internal/config/selector.go\<close>): \<^verbatim>\<open>FieldSelector\<close> is an integer enumeration counted by
  \<^verbatim>\<open>iota\<close>, \<^verbatim>\<open>fieldSelectorByPath\<close> the table from the dotted paths of the configuration file to
  the enumeration.
\<close>

type_synonym FieldSelector = nat

definition FieldSelectorInvalid :: FieldSelector where "FieldSelectorInvalid = 0"
definition FieldHookEventName :: FieldSelector where "FieldHookEventName = 1"
definition FieldSessionID :: FieldSelector where "FieldSessionID = 2"
definition FieldConversationID :: FieldSelector where "FieldConversationID = 3"
definition FieldGenerationID :: FieldSelector where "FieldGenerationID = 4"
definition FieldModel :: FieldSelector where "FieldModel = 5"
definition FieldCursorVersion :: FieldSelector where "FieldCursorVersion = 6"
definition FieldLoopCount :: FieldSelector where "FieldLoopCount = 7"
definition FieldUserEmail :: FieldSelector where "FieldUserEmail = 8"
definition FieldTranscriptPath :: FieldSelector where "FieldTranscriptPath = 9"
definition FieldCWD :: FieldSelector where "FieldCWD = 10"
definition FieldBaseCWD :: FieldSelector where "FieldBaseCWD = 11"
definition FieldEffectiveCWD :: FieldSelector where "FieldEffectiveCWD = 12"
definition FieldCmdSegments :: FieldSelector where "FieldCmdSegments = 13"
definition FieldCmdComments :: FieldSelector where "FieldCmdComments = 14"
definition FieldCmdDoubleHyphenProse :: FieldSelector where "FieldCmdDoubleHyphenProse = 15"
definition FieldCmdRedirections :: FieldSelector where "FieldCmdRedirections = 16"
definition FieldCmdReadTargets :: FieldSelector where "FieldCmdReadTargets = 17"
definition FieldCredentialReadTargets :: FieldSelector where "FieldCredentialReadTargets = 18"
definition FieldCmdWriteTargets :: FieldSelector where "FieldCmdWriteTargets = 19"
definition FieldPatchWriteTargets :: FieldSelector where "FieldPatchWriteTargets = 20"
definition FieldExecTargets :: FieldSelector where "FieldExecTargets = 21"
definition FieldPermissionMode :: FieldSelector where "FieldPermissionMode = 22"
definition FieldAgentID :: FieldSelector where "FieldAgentID = 23"
definition FieldAgentType :: FieldSelector where "FieldAgentType = 24"
definition FieldTurnID :: FieldSelector where "FieldTurnID = 25"
definition FieldToolName :: FieldSelector where "FieldToolName = 26"
definition FieldToolUseID :: FieldSelector where "FieldToolUseID = 27"
definition FieldToolInputCommand :: FieldSelector where "FieldToolInputCommand = 28"
definition FieldToolInputFilePath :: FieldSelector where "FieldToolInputFilePath = 29"
definition FieldToolInputContent :: FieldSelector where "FieldToolInputContent = 30"
definition FieldToolInputOldString :: FieldSelector where "FieldToolInputOldString = 31"
definition FieldToolInputNewString :: FieldSelector where "FieldToolInputNewString = 32"
definition FieldToolInputDescription :: FieldSelector where "FieldToolInputDescription = 33"
definition FieldToolInputPrompt :: FieldSelector where "FieldToolInputPrompt = 34"
definition FieldToolInputPattern :: FieldSelector where "FieldToolInputPattern = 35"
definition FieldToolInputPath :: FieldSelector where "FieldToolInputPath = 36"
definition FieldToolInputURL :: FieldSelector where "FieldToolInputURL = 37"
definition FieldToolInputQuery :: FieldSelector where "FieldToolInputQuery = 38"
definition FieldToolInputWorkdir :: FieldSelector where "FieldToolInputWorkdir = 39"
definition FieldToolInputWorkingDirectory :: FieldSelector where "FieldToolInputWorkingDirectory = 40"
definition FieldToolInputCWD :: FieldSelector where "FieldToolInputCWD = 41"
definition FieldToolInputDirectory :: FieldSelector where "FieldToolInputDirectory = 42"
definition FieldFilePath :: FieldSelector where "FieldFilePath = 43"
definition FieldPath :: FieldSelector where "FieldPath = 44"
definition FieldCommand :: FieldSelector where "FieldCommand = 45"
definition FieldOutput :: FieldSelector where "FieldOutput = 46"
definition FieldToolOutput :: FieldSelector where "FieldToolOutput = 47"
definition FieldToolResponse :: FieldSelector where "FieldToolResponse = 48"
definition FieldPrompt :: FieldSelector where "FieldPrompt = 49"
definition FieldText :: FieldSelector where "FieldText = 50"
definition FieldAssistantMessage :: FieldSelector where "FieldAssistantMessage = 51"
definition FieldLastAssistantMessage :: FieldSelector where "FieldLastAssistantMessage = 52"
definition FieldStatus :: FieldSelector where "FieldStatus = 53"
definition FieldReason :: FieldSelector where "FieldReason = 54"
definition FieldError :: FieldSelector where "FieldError = 55"
definition FieldErrorType :: FieldSelector where "FieldErrorType = 56"
definition FieldErrorMessage :: FieldSelector where "FieldErrorMessage = 57"
definition FieldFailureType :: FieldSelector where "FieldFailureType = 58"
definition FieldSource :: FieldSelector where "FieldSource = 59"
definition FieldNotificationType :: FieldSelector where "FieldNotificationType = 60"
definition FieldMessage :: FieldSelector where "FieldMessage = 61"
definition FieldTitle :: FieldSelector where "FieldTitle = 62"
definition FieldTrigger :: FieldSelector where "FieldTrigger = 63"
definition FieldCustomInstructions :: FieldSelector where "FieldCustomInstructions = 64"
definition FieldCompactSummary :: FieldSelector where "FieldCompactSummary = 65"
definition FieldMemoryType :: FieldSelector where "FieldMemoryType = 66"
definition FieldLoadReason :: FieldSelector where "FieldLoadReason = 67"
definition FieldTriggerFilePath :: FieldSelector where "FieldTriggerFilePath = 68"
definition FieldParentFilePath :: FieldSelector where "FieldParentFilePath = 69"
definition FieldOldCWD :: FieldSelector where "FieldOldCWD = 70"
definition FieldNewCWD :: FieldSelector where "FieldNewCWD = 71"
definition FieldEvent :: FieldSelector where "FieldEvent = 72"
definition FieldName :: FieldSelector where "FieldName = 73"
definition FieldWorktreePath :: FieldSelector where "FieldWorktreePath = 74"
definition FieldMCPServerName :: FieldSelector where "FieldMCPServerName = 75"
definition FieldURL :: FieldSelector where "FieldURL = 76"
definition FieldTimestamp :: FieldSelector where "FieldTimestamp = 77"
definition FieldSessionTitle :: FieldSelector where "FieldSessionTitle = 78"
definition FieldIsInterrupt :: FieldSelector where "FieldIsInterrupt = 79"
definition FieldErrorDetails :: FieldSelector where "FieldErrorDetails = 80"
definition FieldMode :: FieldSelector where "FieldMode = 81"
definition FieldAction :: FieldSelector where "FieldAction = 82"
definition FieldElicitationID :: FieldSelector where "FieldElicitationID = 83"
definition FieldTaskID :: FieldSelector where "FieldTaskID = 84"
definition FieldTaskSubject :: FieldSelector where "FieldTaskSubject = 85"
definition FieldTaskDescription :: FieldSelector where "FieldTaskDescription = 86"
definition FieldTeammateName :: FieldSelector where "FieldTeammateName = 87"
definition FieldTeamName :: FieldSelector where "FieldTeamName = 88"
definition FieldStopHookActive :: FieldSelector where "FieldStopHookActive = 89"
definition FieldAgentTranscriptPath :: FieldSelector where "FieldAgentTranscriptPath = 90"
definition FieldOriginalRequestName :: FieldSelector where "FieldOriginalRequestName = 91"
definition FieldMCPContext :: FieldSelector where "FieldMCPContext = 92"
definition FieldPromptResponse :: FieldSelector where "FieldPromptResponse = 93"
definition FieldLLMRequest :: FieldSelector where "FieldLLMRequest = 94"
definition FieldLLMResponse :: FieldSelector where "FieldLLMResponse = 95"
definition FieldDetails :: FieldSelector where "FieldDetails = 96"
definition FieldEditsOldString :: FieldSelector where "FieldEditsOldString = 97"
definition FieldEditsNewString :: FieldSelector where "FieldEditsNewString = 98"
definition FieldEditsOldLine :: FieldSelector where "FieldEditsOldLine = 99"
definition FieldEditsNewLine :: FieldSelector where "FieldEditsNewLine = 100"
definition FieldAttachmentsFilePath :: FieldSelector where "FieldAttachmentsFilePath = 101"
definition FieldAttachmentsType :: FieldSelector where "FieldAttachmentsType = 102"
definition FieldLastUserMessage :: FieldSelector where "FieldLastUserMessage = 103"
definition FieldLastResponseOutput :: FieldSelector where "FieldLastResponseOutput = 104"
definition FieldResponseOutput :: FieldSelector where "FieldResponseOutput = 105"

lemmas selector_defs =
  FieldSelectorInvalid_def FieldHookEventName_def FieldSessionID_def FieldConversationID_def
  FieldGenerationID_def FieldModel_def FieldCursorVersion_def FieldLoopCount_def
  FieldUserEmail_def FieldTranscriptPath_def FieldCWD_def FieldBaseCWD_def
  FieldEffectiveCWD_def FieldCmdSegments_def FieldCmdComments_def FieldCmdDoubleHyphenProse_def
  FieldCmdRedirections_def FieldCmdReadTargets_def FieldCredentialReadTargets_def
  FieldCmdWriteTargets_def FieldPatchWriteTargets_def FieldExecTargets_def
  FieldPermissionMode_def FieldAgentID_def FieldAgentType_def FieldTurnID_def FieldToolName_def
  FieldToolUseID_def FieldToolInputCommand_def FieldToolInputFilePath_def
  FieldToolInputContent_def FieldToolInputOldString_def FieldToolInputNewString_def
  FieldToolInputDescription_def FieldToolInputPrompt_def FieldToolInputPattern_def
  FieldToolInputPath_def FieldToolInputURL_def FieldToolInputQuery_def
  FieldToolInputWorkdir_def FieldToolInputWorkingDirectory_def FieldToolInputCWD_def
  FieldToolInputDirectory_def FieldFilePath_def FieldPath_def FieldCommand_def FieldOutput_def
  FieldToolOutput_def FieldToolResponse_def FieldPrompt_def FieldText_def
  FieldAssistantMessage_def FieldLastAssistantMessage_def FieldStatus_def FieldReason_def
  FieldError_def FieldErrorType_def FieldErrorMessage_def FieldFailureType_def FieldSource_def
  FieldNotificationType_def FieldMessage_def FieldTitle_def FieldTrigger_def
  FieldCustomInstructions_def FieldCompactSummary_def FieldMemoryType_def FieldLoadReason_def
  FieldTriggerFilePath_def FieldParentFilePath_def FieldOldCWD_def FieldNewCWD_def
  FieldEvent_def FieldName_def FieldWorktreePath_def FieldMCPServerName_def FieldURL_def
  FieldTimestamp_def FieldSessionTitle_def FieldIsInterrupt_def FieldErrorDetails_def
  FieldMode_def FieldAction_def FieldElicitationID_def FieldTaskID_def FieldTaskSubject_def
  FieldTaskDescription_def FieldTeammateName_def FieldTeamName_def FieldStopHookActive_def
  FieldAgentTranscriptPath_def FieldOriginalRequestName_def FieldMCPContext_def
  FieldPromptResponse_def FieldLLMRequest_def FieldLLMResponse_def FieldDetails_def
  FieldEditsOldString_def FieldEditsNewString_def FieldEditsOldLine_def FieldEditsNewLine_def
  FieldAttachmentsFilePath_def FieldAttachmentsType_def FieldLastUserMessage_def
  FieldLastResponseOutput_def FieldResponseOutput_def

record FieldSelectorSpec =
  spec_Path :: bytes
  spec_Selector :: FieldSelector

definition fieldSelectorByPath :: "(bytes \<times> FieldSelector) list" where
  "fieldSelectorByPath =
    [(''hook_event_name'', FieldHookEventName),
     (''session_id'', FieldSessionID),
     (''conversation_id'', FieldConversationID),
     (''generation_id'', FieldGenerationID),
     (''model'', FieldModel),
     (''cursor_version'', FieldCursorVersion),
     (''loop_count'', FieldLoopCount),
     (''user_email'', FieldUserEmail),
     (''transcript_path'', FieldTranscriptPath),
     (''cwd'', FieldCWD),
     (''base_cwd'', FieldBaseCWD),
     (''effective_cwd'', FieldEffectiveCWD),
     (''cmd_segments'', FieldCmdSegments),
     (''cmd_comments'', FieldCmdComments),
     (''cmd_double_hyphen_prose'', FieldCmdDoubleHyphenProse),
     (''cmd_redirections'', FieldCmdRedirections),
     (''cmd_read_targets'', FieldCmdReadTargets),
     (''credential_read_targets'', FieldCredentialReadTargets),
     (''cmd_write_targets'', FieldCmdWriteTargets),
     (''patch_write_targets'', FieldPatchWriteTargets),
     (''exec_targets'', FieldExecTargets),
     (''permission_mode'', FieldPermissionMode),
     (''agent_id'', FieldAgentID),
     (''agent_type'', FieldAgentType),
     (''turn_id'', FieldTurnID),
     (''tool_name'', FieldToolName),
     (''tool_use_id'', FieldToolUseID),
     (''tool_input.command'', FieldToolInputCommand),
     (''tool_input.file_path'', FieldToolInputFilePath),
     (''tool_input.content'', FieldToolInputContent),
     (''tool_input.old_string'', FieldToolInputOldString),
     (''tool_input.new_string'', FieldToolInputNewString),
     (''tool_input.description'', FieldToolInputDescription),
     (''tool_input.prompt'', FieldToolInputPrompt),
     (''tool_input.pattern'', FieldToolInputPattern),
     (''tool_input.path'', FieldToolInputPath),
     (''tool_input.url'', FieldToolInputURL),
     (''tool_input.query'', FieldToolInputQuery),
     (''tool_input.workdir'', FieldToolInputWorkdir),
     (''tool_input.working_directory'', FieldToolInputWorkingDirectory),
     (''tool_input.cwd'', FieldToolInputCWD),
     (''tool_input.directory'', FieldToolInputDirectory),
     (''file_path'', FieldFilePath),
     (''path'', FieldPath),
     (''command'', FieldCommand),
     (''output'', FieldOutput),
     (''tool_output'', FieldToolOutput),
     (''tool_response'', FieldToolResponse),
     (''prompt'', FieldPrompt),
     (''text'', FieldText),
     (''assistant_message'', FieldAssistantMessage),
     (''last_assistant_message'', FieldLastAssistantMessage),
     (''status'', FieldStatus),
     (''reason'', FieldReason),
     (''error'', FieldError),
     (''error_type'', FieldErrorType),
     (''error_message'', FieldErrorMessage),
     (''failure_type'', FieldFailureType),
     (''source'', FieldSource),
     (''notification_type'', FieldNotificationType),
     (''message'', FieldMessage),
     (''title'', FieldTitle),
     (''trigger'', FieldTrigger),
     (''custom_instructions'', FieldCustomInstructions),
     (''compact_summary'', FieldCompactSummary),
     (''memory_type'', FieldMemoryType),
     (''load_reason'', FieldLoadReason),
     (''trigger_file_path'', FieldTriggerFilePath),
     (''parent_file_path'', FieldParentFilePath),
     (''old_cwd'', FieldOldCWD),
     (''new_cwd'', FieldNewCWD),
     (''event'', FieldEvent),
     (''name'', FieldName),
     (''worktree_path'', FieldWorktreePath),
     (''mcp_server_name'', FieldMCPServerName),
     (''url'', FieldURL),
     (''timestamp'', FieldTimestamp),
     (''session_title'', FieldSessionTitle),
     (''is_interrupt'', FieldIsInterrupt),
     (''error_details'', FieldErrorDetails),
     (''mode'', FieldMode),
     (''action'', FieldAction),
     (''elicitation_id'', FieldElicitationID),
     (''task_id'', FieldTaskID),
     (''task_subject'', FieldTaskSubject),
     (''task_description'', FieldTaskDescription),
     (''teammate_name'', FieldTeammateName),
     (''team_name'', FieldTeamName),
     (''stop_hook_active'', FieldStopHookActive),
     (''agent_transcript_path'', FieldAgentTranscriptPath),
     (''original_request_name'', FieldOriginalRequestName),
     (''mcp_context'', FieldMCPContext),
     (''prompt_response'', FieldPromptResponse),
     (''llm_request'', FieldLLMRequest),
     (''llm_response'', FieldLLMResponse),
     (''details'', FieldDetails),
     (''edits[*].old_string'', FieldEditsOldString),
     (''edits[*].new_string'', FieldEditsNewString),
     (''edits[*].old_line'', FieldEditsOldLine),
     (''edits[*].new_line'', FieldEditsNewLine),
     (''attachments[*].file_path'', FieldAttachmentsFilePath),
     (''attachments[*].type'', FieldAttachmentsType),
     (''last_user_message'', FieldLastUserMessage),
     (''last_response_output'', FieldLastResponseOutput),
     (''response_output'', FieldResponseOutput)]"

definition CompileFieldSelector :: "bytes \<Rightarrow> FieldSelector" where
  "CompileFieldSelector path =
     (case map_of fieldSelectorByPath path of
        Some selector \<Rightarrow> selector
      | None \<Rightarrow> FieldSelectorInvalid)"

definition IsTemporalExecSelector :: "FieldSelector \<Rightarrow> bool" where
  "IsTemporalExecSelector selector \<longleftrightarrow>
     selector = FieldLastUserMessage \<or> selector = FieldLastResponseOutput
     \<or> selector = FieldResponseOutput"

definition CompileFieldSelectorSpecs :: "bytes list \<Rightarrow> FieldSelectorSpec list" where
  "CompileFieldSelectorSpecs paths =
     map (\<lambda>path. \<lparr>spec_Path = path, spec_Selector = CompileFieldSelector path\<rparr>) paths"

end
