(* ===== verification/Regex.thy ===== *)
theory Regex
  imports AG_Prelude
begin

text \<open>
  The wrapper around the PCRE2 engine (\<^verbatim>\<open>internal/regex/regex.go\<close>).  The engine itself is
  foreign code: a compiled handle is the function that \<^verbatim>\<open>HandleMatch\<close> and
  \<^verbatim>\<open>HandleGroupBounds\<close> expose, from a subject and a start offset to the bounds of the capture
  groups of the first match (\<^term>\<open>None\<close>: no match, or a match limit was hit; an unset group is
  \<^term>\<open>None\<close> too).  Nothing is assumed about it: the wrapper checks the bounds it gets.
\<close>

type_synonym match_groups = "nat \<Rightarrow> (nat \<times> nat) option"

record Regexp =
  re_exec :: "bytes \<Rightarrow> nat \<Rightarrow> match_groups option"
  re_captureCount :: nat

text \<open>A nil receiver is \<^term>\<open>None\<close>.\<close>

definition MatchString :: "Regexp option \<Rightarrow> bytes \<Rightarrow> bool" where
  "MatchString r s = (case r of None \<Rightarrow> False | Some h \<Rightarrow> re_exec h s 0 \<noteq> None)"

definition CaptureCount :: "Regexp option \<Rightarrow> nat" where
  "CaptureCount r = (case r of None \<Rightarrow> 0 | Some h \<Rightarrow> re_captureCount h)"

definition nextMatchOffset :: "bytes \<Rightarrow> nat \<Rightarrow> nat \<Rightarrow> nat option" where
  "nextMatchOffset s start e =
     (if start \<noteq> e then Some e
      else if e = length s then None
      else Some (e + (if rune_width (drop e s) = 0 then 1 else rune_width (drop e s))))"

definition match_bounds :: "bytes \<Rightarrow> nat \<Rightarrow> match_groups \<Rightarrow> (nat \<times> nat) option" where
  "match_bounds s offset groups =
     (case groups 0 of
        None \<Rightarrow> None
      | Some (matchStart, matchEnd) \<Rightarrow>
          if matchStart < offset \<or> matchEnd < matchStart \<or> length s < matchEnd then None
          else Some (matchStart, matchEnd))"

definition group_span :: "bytes \<Rightarrow> nat \<Rightarrow> match_groups \<Rightarrow> nat \<Rightarrow> (nat \<times> nat) option" where
  "group_span s matchStart groups g =
     (case groups g of
        None \<Rightarrow> None
      | Some (start, e) \<Rightarrow>
          if matchStart \<le> start \<and> start \<le> e \<and> e \<le> length s then Some (start, e) else None)"

lemma match_bounds_le: "match_bounds s off g = Some (a, b) \<Longrightarrow> off \<le> a \<and> a \<le> b \<and> b \<le> length s"
  by (auto simp: match_bounds_def split: option.splits if_splits)

lemma nextMatchOffset_less: "nextMatchOffset s a b = Some o' \<Longrightarrow> a \<le> b \<Longrightarrow> a < o'"
  by (auto simp: nextMatchOffset_def split: if_splits)

text \<open>
  The loop of \<^verbatim>\<open>ForEachStringGroupIndex\<close>: the callback works on a state and tells whether to go
  on.  The limit \<^verbatim>\<open>n\<close> is negative for no limit.
\<close>

function for_each_loop ::
  "Regexp \<Rightarrow> bytes \<Rightarrow> int \<Rightarrow> nat \<Rightarrow> ('st \<Rightarrow> nat \<Rightarrow> nat \<Rightarrow> 'st \<times> bool) \<Rightarrow> nat \<Rightarrow> int \<Rightarrow> 'st \<Rightarrow> 'st" where
  "for_each_loop h s n g yield offset matchCount st =
     (if length s < offset \<or> \<not> (n < 0 \<or> matchCount < n) then st
      else case re_exec h s offset of
        None \<Rightarrow> st
      | Some groups \<Rightarrow>
          (case match_bounds s offset groups of
             None \<Rightarrow> st
           | Some (matchStart, matchEnd) \<Rightarrow>
               let (st', count', go) =
                     (case group_span s matchStart groups g of
                        None \<Rightarrow> (st, matchCount, True)
                      | Some (start, e) \<Rightarrow>
                          (let (st1, go1) = yield st start e in (st1, matchCount + 1, go1))) in
               if \<not> go then st'
               else case nextMatchOffset s matchStart matchEnd of
                      None \<Rightarrow> st'
                    | Some offset' \<Rightarrow> for_each_loop h s n g yield offset' count' st'))"
  by pat_completeness auto
termination
proof (relation "measure (\<lambda>(h, s, n, g, y, off, mc, st). Suc (length s) - off)", goal_cases)
  case 1
  then show ?case by simp
next
  case (2 h s n g yield offset matchCount st groups b matchStart matchEnd r st' r2 count' go offset')
  then show ?case
    using match_bounds_le [of s offset groups matchStart matchEnd]
      nextMatchOffset_less [of s matchStart matchEnd offset'] by auto
qed

declare for_each_loop.simps [simp del]

definition ForEachStringGroupIndex ::
  "Regexp option \<Rightarrow> bytes \<Rightarrow> int \<Rightarrow> nat \<Rightarrow> ('st \<Rightarrow> nat \<Rightarrow> nat \<Rightarrow> 'st \<times> bool) \<Rightarrow> 'st \<Rightarrow> 'st" where
  "ForEachStringGroupIndex r s n g yield st =
     (case r of
        None \<Rightarrow> st
      | Some h \<Rightarrow> if n = 0 then st else for_each_loop h s n g yield 0 0 st)"

definition FindAllStringGroupIndex :: "Regexp option \<Rightarrow> bytes \<Rightarrow> int \<Rightarrow> nat \<Rightarrow> (nat \<times> nat) list" where
  "FindAllStringGroupIndex r s n g =
     (if n = 0 \<or> r = None then []
      else ForEachStringGroupIndex r s n g (\<lambda>out start e. (out @ [(start, e)], True)) [])"

definition FindAllStringIndex :: "Regexp option \<Rightarrow> bytes \<Rightarrow> int \<Rightarrow> (nat \<times> nat) list" where
  "FindAllStringIndex r s n = FindAllStringGroupIndex r s n 0"

section \<open>What the iteration guarantees\<close>

text \<open>Any property of the state that the callback keeps for spans inside the subject is kept.\<close>

lemma for_each_invariant:
  assumes "P st" "\<And>st a b. P st \<Longrightarrow> a \<le> b \<Longrightarrow> b \<le> length s \<Longrightarrow> P (fst (yield st a b))"
  shows "P (for_each_loop h s n g yield offset matchCount st)"
  using assms
proof (induction h s n g yield offset matchCount st rule: for_each_loop.induct)
  case (1 h s n g yield offset matchCount st)
  show ?case
  proof (cases "length s < offset \<or> \<not> (n < 0 \<or> matchCount < n)")
    case True
    then show ?thesis using 1(2) by (simp add: for_each_loop.simps)
  next
    case False
    show ?thesis
    proof (cases "re_exec h s offset")
      case None
      then show ?thesis using 1(2) False by (simp add: for_each_loop.simps)
    next
      case (Some groups)
      show ?thesis
      proof (cases "match_bounds s offset groups")
        case None
        then show ?thesis using 1(2) False Some by (simp add: for_each_loop.simps)
      next
        case mb: (Some ms)
        obtain a b where ab: "ms = (a, b)" by (cases ms)
        define r where "r = (case group_span s a groups g of None \<Rightarrow> (st, matchCount, True)
            | Some (start, e) \<Rightarrow> (let (st1, go1) = yield st start e in (st1, matchCount + 1, go1)))"
        obtain st' c' go where r: "r = (st', c', go)" by (cases r)
        have P': "P st'"
          using r 1(2) 1(3)
          by (auto simp: r_def group_span_def Let_def split: option.splits prod.splits if_splits)
             (metis fst_conv)+
        have eq: "for_each_loop h s n g yield offset matchCount st
                  = (if \<not> go then st' else case nextMatchOffset s a b of None \<Rightarrow> st'
                       | Some o' \<Rightarrow> for_each_loop h s n g yield o' c' st')"
          using False Some mb ab r
          by (subst for_each_loop.simps) (simp add: r_def)
        show ?thesis
        proof (cases "\<not> go \<or> nextMatchOffset s a b = None")
          case True
          then show ?thesis using P' unfolding eq by auto
        next
          case go: False
          then obtain o' where o': "nextMatchOffset s a b = Some o'" and "go" by auto
          have "P (for_each_loop h s n g yield o' c' st')"
            using 1(1)[OF False Some mb ab[symmetric] r_def r[symmetric] refl _ o' P' 1(3)] \<open>go\<close>
            by simp
          then show ?thesis using eq o' \<open>go\<close> by simp
        qed
      qed
    qed
  qed
qed

section \<open>The iteration as a walk over a list of spans\<close>

text \<open>
  The spans of one capture group over the non-overlapping matches of a subject, without limit,
  and the walk of a callback over such a list until it says stop.
\<close>

function spans_from :: "Regexp \<Rightarrow> bytes \<Rightarrow> nat \<Rightarrow> nat \<Rightarrow> (nat \<times> nat) list" where
  "spans_from h s g offset =
     (if length s < offset then []
      else case re_exec h s offset of
        None \<Rightarrow> []
      | Some groups \<Rightarrow>
          (case match_bounds s offset groups of
             None \<Rightarrow> []
           | Some (matchStart, matchEnd) \<Rightarrow>
               (case group_span s matchStart groups g of None \<Rightarrow> [] | Some sp \<Rightarrow> [sp])
               @ (case nextMatchOffset s matchStart matchEnd of
                    None \<Rightarrow> []
                  | Some offset' \<Rightarrow> spans_from h s g offset')))"
  by pat_completeness auto
termination
proof (relation "measure (\<lambda>(h, s, g, off). Suc (length s) - off)", goal_cases)
  case 1
  then show ?case by simp
next
  case (2 h s g offset groups b matchStart matchEnd offset')
  then show ?case
    using match_bounds_le [of s offset groups matchStart matchEnd]
      nextMatchOffset_less [of s matchStart matchEnd offset'] by auto
qed

declare spans_from.simps [simp del]

fun walk :: "('st \<Rightarrow> nat \<Rightarrow> nat \<Rightarrow> 'st \<times> bool) \<Rightarrow> (nat \<times> nat) list \<Rightarrow> 'st \<Rightarrow> 'st" where
  "walk yield [] st = st"
| "walk yield ((a, b) # xs) st =
     (let (st', go) = yield st a b in if go then walk yield xs st' else st')"

lemma for_each_loop_walk:
  "0 \<le> matchCount \<Longrightarrow>
   for_each_loop h s n g yield offset matchCount st
   = walk yield (if n < 0 then spans_from h s g offset
                 else take (nat (n - matchCount)) (spans_from h s g offset)) st"
proof (induction h s n g yield offset matchCount st rule: for_each_loop.induct)
  case (1 h s n g yield offset matchCount st)
  show ?case
  proof (cases "length s < offset \<or> \<not> (n < 0 \<or> matchCount < n)")
    case True
    then show ?thesis by (auto simp: for_each_loop.simps spans_from.simps)
  next
    case False
    show ?thesis
    proof (cases "re_exec h s offset")
      case None
      then show ?thesis using False by (simp add: for_each_loop.simps spans_from.simps)
    next
      case (Some groups)
      show ?thesis
      proof (cases "match_bounds s offset groups")
        case None
        then show ?thesis using False Some by (simp add: for_each_loop.simps spans_from.simps)
      next
        case mb: (Some ms)
        obtain a b where ab: "ms = (a, b)" by (cases ms)
        define r where "r = (case group_span s a groups g of None \<Rightarrow> (st, matchCount, True)
            | Some (start, e) \<Rightarrow> (let (st1, go1) = yield st start e in (st1, matchCount + 1, go1)))"
        obtain st' c' go where r: "r = (st', c', go)" by (cases r)
        let ?rest = "case nextMatchOffset s a b of None \<Rightarrow> [] | Some o' \<Rightarrow> spans_from h s g o'"
        have eq: "for_each_loop h s n g yield offset matchCount st
                  = (if \<not> go then st' else case nextMatchOffset s a b of None \<Rightarrow> st'
                       | Some o' \<Rightarrow> for_each_loop h s n g yield o' c' st')"
          using False Some mb ab r by (subst for_each_loop.simps) (simp add: r_def)
        have c': "0 \<le> c'" using 1(2) r
          by (auto simp: r_def Let_def split: option.splits prod.splits)
        have next_eq: "(case nextMatchOffset s a b of None \<Rightarrow> st'
                   | Some o' \<Rightarrow> for_each_loop h s n g yield o' c' st')
              = walk yield (if n < 0 then ?rest else take (nat (n - c')) ?rest) st'" if go
          using 1(1)[OF False Some mb ab[symmetric] r_def r[symmetric] refl _ _ c'] that
          by (auto split: option.splits)
        have sp: "spans_from h s g offset
              = (case group_span s a groups g of None \<Rightarrow> [] | Some sp \<Rightarrow> [sp]) @ ?rest"
          using False Some mb ab by (subst spans_from.simps) simp
        show ?thesis
        proof (cases "group_span s a groups g")
          case None
          then show ?thesis using eq sp next_eq r by (auto simp: r_def)
        next
          case gs: (Some q)
          obtain x y where q: "q = (x, y)" by (cases q)
          have st': "yield st x y = (st', go)" "c' = matchCount + 1"
            using gs q r by (auto simp: r_def Let_def split: prod.splits)
          have tk: "take (nat (n - matchCount)) ((x, y) # ?rest) = (x, y) # take (nat (n - c')) ?rest"
            if "\<not> n < 0"
          proof -
            have "nat (n - matchCount) = Suc (nat (n - c'))" using False that st' by auto
            then show ?thesis by simp
          qed
          show ?thesis
            using eq sp next_eq gs q st'(1) tk by (cases go) (auto simp: Let_def)
        qed
      qed
    qed
  qed
qed

definition spans :: "Regexp option \<Rightarrow> bytes \<Rightarrow> nat \<Rightarrow> (nat \<times> nat) list" where
  "spans r s g = (case r of None \<Rightarrow> [] | Some h \<Rightarrow> spans_from h s g 0)"

lemma ForEach_walk:
  "ForEachStringGroupIndex r s n g yield st
   = walk yield (if n < 0 then spans r s g else take (nat n) (spans r s g)) st"
  by (auto simp: ForEachStringGroupIndex_def spans_def for_each_loop_walk split: option.splits)

lemma walk_collect: "walk (\<lambda>out a b. (out @ [(a, b)], True)) xs out = out @ xs"
  by (induction xs arbitrary: out) auto

lemma spans_no_match: "re_exec h s offset = None \<Longrightarrow> spans_from h s g offset = []"
  by (simp add: spans_from.simps)

lemma spans_bad_match:
  "re_exec h s offset = Some groups \<Longrightarrow> match_bounds s offset groups = None \<Longrightarrow>
   spans_from h s g offset = []"
  by (simp add: spans_from.simps)

lemma spans_bounds: "(a, b) \<in> set (spans_from h s g offset) \<Longrightarrow> offset \<le> a \<and> a \<le> b \<and> b \<le> length s"
proof (induction h s g offset rule: spans_from.induct)
  case (1 h s g offset)
  have le: "\<not> length s < offset" using 1(2) by (auto simp: spans_from.simps)
  obtain groups where ex: "re_exec h s offset = Some groups"
    using 1(2) by (cases "re_exec h s offset") (auto simp: spans_no_match)
  obtain x y where mb: "match_bounds s offset groups = Some (x, y)"
    using 1(2) ex by (cases "match_bounds s offset groups") (auto simp: spans_bad_match)
  note xy = match_bounds_le [OF mb]
  consider (here) "group_span s x groups g = Some (a, b)"
    | (later) o' where "nextMatchOffset s x y = Some o'" "(a, b) \<in> set (spans_from h s g o')"
    using 1(2) le ex mb
    by (subst (asm) spans_from.simps)
       (cases "group_span s x groups g"; cases "nextMatchOffset s x y"; auto)
  then show ?case
  proof cases
    case here
    then show ?thesis using xy by (auto simp: group_span_def split: option.splits if_splits)
  next
    case later
    then show ?thesis
      using 1(1)[OF le ex mb refl later] nextMatchOffset_less [OF later(1)] xy by auto
  qed
qed

lemma spans_le: "(a, b) \<in> set (spans r s g) \<Longrightarrow> a \<le> b \<and> b \<le> length s"
  using spans_bounds by (auto simp: spans_def split: option.splits)

end
