(* ===== verification/RuleTypes.thy ===== *)
theory RuleTypes
  imports Selectors ShellLex Regex Complex_Main
begin

text \<open>
  The data of a rule file as the configuration package holds it
  (\<^verbatim>\<open>internal/config/config.go\<close>, \<^verbatim>\<open>argument_specs.go\<close>, \<^verbatim>\<open>write_specs.go\<close>,
  \<^verbatim>\<open>enumeration_specs.go\<close>, \<^verbatim>\<open>selector_policy.go\<close>, \<^verbatim>\<open>inference_matrix.go\<close>,
  \<^verbatim>\<open>toml_scalar.go\<close>): one record per struct, its fields in source order with the struct's
  initials in front.  A pointer is an option, a map an association list (a nil map is
  \<^term>\<open>None\<close>), a \<^verbatim>\<open>float64\<close> a rational number or one of the special values.
\<close>

datatype go_float = FNaN | FPosInf | FNegInf | FNum rat

fun flt_less :: "go_float \<Rightarrow> go_float \<Rightarrow> bool" where
  "flt_less FNaN y = False"
| "flt_less x FNaN = False"
| "flt_less FPosInf y = False"
| "flt_less x FNegInf = False"
| "flt_less FNegInf y = True"
| "flt_less x FPosInf = True"
| "flt_less (FNum a) (FNum b) = (a < b)"

datatype TOMLScalarValue =
    TOMLScalarUnset
  | TOMLScalarBool bool
  | TOMLScalarString bytes
  | TOMLScalarInt int
  | TOMLScalarFloat go_float

definition IsSet :: "TOMLScalarValue \<Rightarrow> bool" where
  "IsSet v \<longleftrightarrow> v \<noteq> TOMLScalarUnset"

record ArgumentOptionSpec =
  ao_Names :: "bytes list"
  ao_Value :: bytes
  ao_Forms :: "bytes list"
  ao_CWD :: bool
  ao_AttachedValuePattern :: bytes

record ArgumentOptionPredicate =
  ap_Option :: bytes
  ap_Values :: "bytes list"

record ArgumentSpec =
  as_Subcommands :: "bytes list"
  as_Options :: "ArgumentOptionSpec list"
  as_ShortClusters :: bool
  as_EndOfOptions :: bool
  as_StopAtFirstPositional :: bool
  as_SkipPositionals :: int
  as_ProgramOptions :: "bytes list"
  as_RequireOptions :: "bytes list"
  as_RequireOptionValues :: "ArgumentOptionPredicate list"
  as_ExcludeOptionValues :: "ArgumentOptionPredicate list"
  as_IgnoreOperandPrefixes :: "bytes list"
  as_OperandStopTokens :: "bytes list"
  as_OperandsBeforeOptions :: bool
  as_UnknownOptions :: bytes

record ShellReadSpec =
  rs_Arguments :: "ArgumentSpec option"
  rs_Name :: bytes
  rs_Argv0 :: "bytes list"
  rs_PathArgStart :: int
  rs_PathArgStartIfFlags :: "bytes list"
  rs_PathArgStartIfFlagsValue :: int
  rs_SkipPositionals :: int
  rs_SkipFlagsWithValues :: "bytes list"
  rs_SkipFlagValuesAsPositionals :: "bytes list"
  rs_NestedCommand :: bool
  rs_NestedCommandFlag :: bytes
  rs_NestedRemote :: bool
  rs_RemoteSources :: bool
  rs_RefPathOperands :: bool

record ShellWriteSpec =
  ws_Argv0 :: "bytes list"
  ws_TargetMode :: bytes
  ws_SkipFlagsWithValues :: "bytes list"
  ws_EndOfOptions :: bool
  ws_CwdFlags :: "bytes list"
  ws_Arguments :: "ArgumentSpec option"
  ws_Unresolved :: bytes
  ws_TargetOptions :: "bytes list"

record EnumerationConsumerSpec =
  ec_Argv0 :: "bytes list"
  ec_Arguments :: ArgumentSpec

record EnumerationSpec =
  es_Argv0 :: "bytes list"
  es_Arguments :: ArgumentSpec
  es_TargetMode :: bytes
  es_DefaultCWD :: bool
  es_RequireContentConsumer :: bool
  es_ConsumerFlags :: "bytes list"
  es_ConsumerWrappers :: "EnumerationConsumerSpec list"

record ProseCommandSpec =
  pc_Argv0 :: "bytes list"
  pc_ValueOptions :: "bytes list"
  pc_Operands :: bool
  pc_RequireOutputPath :: bool
  pc_Arguments :: "ArgumentSpec option"

record ProsePolicy =
  pp_PathPatterns :: "bytes list"
  pp_Commands :: "ProseCommandSpec list"
  pp_Heredocs :: bool

record FieldPairSpec =
  fp_OldPath :: bytes
  fp_NewPath :: bytes
  fp_OldField :: FieldSelector
  fp_NewField :: FieldSelector

record Condition =
  c_Kind :: bytes
  c_FieldPaths :: "bytes list"
  c_Pattern :: bytes
  c_NotPattern :: bytes
  c_DiagnosticGroup :: int
  c_Argv0 :: bytes
  c_Subcommands :: "bytes list"
  c_StripEnv :: bool
  c_StripArgs :: "bytes list"
  c_CwdFlags :: "bytes list"
  c_RootMarkers :: "bytes list"
  c_RequireAny :: "bytes list"
  c_RequireAll :: "bytes list"
  c_ForbidAny :: "bytes list"
  c_FieldPair :: bytes
  c_Globs :: "bytes list"
  c_PathPattern :: bytes
  c_MaxBytes :: int
  c_RemotePolicy :: bytes
  c_ReadSpecs :: "ShellReadSpec list"
  c_WriteSpecs :: "ShellWriteSpec list"
  c_ProsePolicy :: "ProsePolicy option"
  c_RedirectionPolicy :: "RedirectionPolicy option"
  c_EnumerationSpecs :: "EnumerationSpec list"
  c_RecursiveGlobs :: bool
  c_MatchUnresolved :: "bool option"
  c_Command :: "bytes list"
  c_TimeoutMs :: int
  c_RetryCount :: int
  c_CacheKey :: bytes
  c_CacheTTLMs :: int
  c_BlockOn :: bytes
  c_OnError :: bytes
  c_SearchTools :: "bytes list"
  c_ForEach :: bytes
  c_MatchMode :: bytes
  c_StdoutJSONField :: bytes
  c_StdoutJSONEquals :: bytes
  c_Endpoint :: bytes
  c_LayerName :: bytes
  c_Prompt :: bytes
  c_PromptFile :: bytes
  c_InputField :: bytes
  c_OutputSchema :: bytes
  c_OutputSchemaFile :: bytes
  c_Model :: bytes
  c_ReasoningEffort :: bytes
  c_MaxCompletionTokens :: "int option"
  c_Temperature :: "go_float option"
  c_ResponseJSONField :: bytes
  c_ResponseJSONEquals :: bytes
  c_ContextSource :: bytes
  c_ContextEndpoint :: bytes
  c_ContextWorkspaceField :: bytes
  c_ContextSessionField :: bytes
  c_ContextTurnBudget :: int
  c_ContextMaxCharsPerTurn :: int
  c_ContextOnError :: bytes
  c_compiled :: "Regexp option"
  c_compiledNot :: "Regexp option"
  c_compiledPath :: "Regexp option"
  c_selectors :: "FieldSelectorSpec list"
  c_fieldPairs :: "FieldPairSpec list"
  c_cacheKeySelector :: FieldSelectorSpec
  c_forEachSelector :: FieldSelectorSpec
  c_stdoutJSONValue :: TOMLScalarValue
  c_inputSelector :: FieldSelectorSpec
  c_contextWorkspaceSelector :: FieldSelectorSpec
  c_contextSessionSelector :: FieldSelectorSpec
  c_responseJSONValue :: TOMLScalarValue

record InferencePoint =
  ip_Endpoint :: bytes
  ip_Model :: bytes
  ip_ReasoningEffort :: bytes
  ip_ConfidenceSource :: bytes
  ip_ConfidenceField :: bytes
  ip_ConfidenceThreshold :: go_float
  ip_TimeoutMs :: int
  ip_ContextEndpoint :: bytes
  ip_ContextWorkspaceField :: bytes
  ip_ContextSessionField :: bytes
  ip_ContextTurnBudget :: int
  ip_ContextMaxCharsPerTurn :: int
  ip_ContextOnError :: bytes

record RuleEval =
  ev_Kind :: bytes
  ev_Role :: bytes
  ev_Use :: bytes
  ev_Fanout :: bytes
  ev_Combine :: bytes
  ev_OnError :: bytes

record Rule =
  r_Name :: bytes
  r_Description :: bytes
  r_Events :: "bytes list"
  r_ClaudeEvents :: "bytes list"
  r_CursorEvents :: "bytes list"
  r_CodexEvents :: "bytes list"
  r_CopilotEvents :: "bytes list"
  r_GeminiEvents :: "bytes list"
  r_DisableProviders :: "bytes list"
  r_AllEvents :: bool
  r_Conditions :: "Condition list"
  r_Eval :: "RuleEval list"
  r_Intent :: bytes
  r_JudgeContext :: "bytes list"
  r_EvalInference :: "(bytes \<times> InferencePoint) list option"
  r_FieldPaths :: "bytes list"
  r_Pattern :: bytes
  r_NotPattern :: bytes
  r_Action :: bytes
  r_Output :: bytes
  r_OutputFile :: bytes
  r_ViolationMessage :: bytes
  r_DiagnosticGroup :: int
  r_DiagnosticFormat :: bytes
  r_RedactDiagnostics :: bool
  r_AuditOnly :: bool
  r_DisableIfEnv :: "bytes list"
  r_compiled :: "Regexp option"
  r_compiledNot :: "Regexp option"
  r_selectors :: "FieldSelectorSpec list"
  r_output :: bytes

text \<open>The zero values of the two big structs.\<close>

definition zero_Condition :: Condition where
  "zero_Condition = \<lparr>c_Kind = [], c_FieldPaths = [], c_Pattern = [], c_NotPattern = [], c_DiagnosticGroup = 0, 
     c_Argv0 = [], c_Subcommands = [], c_StripEnv = False, c_StripArgs = [], c_CwdFlags = [], 
     c_RootMarkers = [], c_RequireAny = [], c_RequireAll = [], c_ForbidAny = [], 
     c_FieldPair = [], c_Globs = [], c_PathPattern = [], c_MaxBytes = 0, c_RemotePolicy = [], 
     c_ReadSpecs = [], c_WriteSpecs = [], c_ProsePolicy = None, c_RedirectionPolicy = None, 
     c_EnumerationSpecs = [], c_RecursiveGlobs = False, c_MatchUnresolved = None, 
     c_Command = [], c_TimeoutMs = 0, c_RetryCount = 0, c_CacheKey = [], c_CacheTTLMs = 0, 
     c_BlockOn = [], c_OnError = [], c_SearchTools = [], c_ForEach = [], c_MatchMode = [], 
     c_StdoutJSONField = [], c_StdoutJSONEquals = [], c_Endpoint = [], c_LayerName = [], 
     c_Prompt = [], c_PromptFile = [], c_InputField = [], c_OutputSchema = [], 
     c_OutputSchemaFile = [], c_Model = [], c_ReasoningEffort = [], 
     c_MaxCompletionTokens = None, c_Temperature = None, c_ResponseJSONField = [], 
     c_ResponseJSONEquals = [], c_ContextSource = [], c_ContextEndpoint = [], 
     c_ContextWorkspaceField = [], c_ContextSessionField = [], c_ContextTurnBudget = 0, 
     c_ContextMaxCharsPerTurn = 0, c_ContextOnError = [], c_compiled = None, 
     c_compiledNot = None, c_compiledPath = None, c_selectors = [], c_fieldPairs = [], 
     c_cacheKeySelector = \<lparr>spec_Path = [], spec_Selector = FieldSelectorInvalid\<rparr>, 
     c_forEachSelector = \<lparr>spec_Path = [], spec_Selector = FieldSelectorInvalid\<rparr>, 
     c_stdoutJSONValue = TOMLScalarUnset, 
     c_inputSelector = \<lparr>spec_Path = [], spec_Selector = FieldSelectorInvalid\<rparr>, 
     c_contextWorkspaceSelector = \<lparr>spec_Path = [], spec_Selector = FieldSelectorInvalid\<rparr>, 
     c_contextSessionSelector = \<lparr>spec_Path = [], spec_Selector = FieldSelectorInvalid\<rparr>, 
     c_responseJSONValue = TOMLScalarUnset\<rparr>"

definition zero_Rule :: Rule where
  "zero_Rule = \<lparr>r_Name = [], r_Description = [], r_Events = [], r_ClaudeEvents = [], r_CursorEvents = [], 
     r_CodexEvents = [], r_CopilotEvents = [], r_GeminiEvents = [], r_DisableProviders = [], 
     r_AllEvents = False, r_Conditions = [], r_Eval = [], r_Intent = [], r_JudgeContext = [], 
     r_EvalInference = None, r_FieldPaths = [], r_Pattern = [], r_NotPattern = [], 
     r_Action = [], r_Output = [], r_OutputFile = [], r_ViolationMessage = [], 
     r_DiagnosticGroup = 0, r_DiagnosticFormat = [], r_RedactDiagnostics = False, 
     r_AuditOnly = False, r_DisableIfEnv = [], r_compiled = None, r_compiledNot = None, 
     r_selectors = [], r_output = []\<rparr>"

end
