(* ===== verification/PerfConfig.thy ===== *)
theory PerfConfig
  imports AuditPolicy RuleTypes HotKV
begin

text \<open>
  The settings of the configuration file with their defaults and validation
  (\<^verbatim>\<open>internal/config/timeouts.go\<close>, \<^verbatim>\<open>limits.go\<close>, \<^verbatim>\<open>hook_performance.go\<close>, \<^verbatim>\<open>judge.go\<close>,
  \<^verbatim>\<open>update.go\<close>, \<^verbatim>\<open>degraded.go\<close> and the \<^verbatim>\<open>Config\<close> struct).  A method on a nil \<^verbatim>\<open>*Config\<close> gets
  \<^term>\<open>None\<close>.  Durations are products of 64-bit integers, which wrap.
\<close>

section \<open>The configuration\<close>

record TimeoutPerformance =
  tp_HookEvaluateMS :: int
  tp_ExecDefaultMS :: int
  tp_ExecMaxMS :: int
  tp_ExecBackgroundMS :: int
  tp_ExecMaxRetryCount :: int
  tp_InferDefaultMS :: int
  tp_InferMaxMS :: int

record LimitPerformance =
  lp_RegexMatchLimit :: int
  lp_RegexDepthLimit :: int
  lp_AuditQueueLimit :: int
  lp_AuditDedupCacheSize :: int
  lp_HookInferencePhaseMaxMs :: int

record IntervalPerformance =
  iv_AuditDedupTTLMs :: int
  iv_AuditDropLogIntervalMs :: int
  iv_OverloadLogIntervalMs :: int
  iv_DeferredClaimLeaseMs :: int
  iv_DeferredClaimRenewMs :: int

record HookCachePerformance =
  hc_MaxEntries :: int
  hc_MaxValueBytes :: int
  hc_MaxBytes :: int
  hc_PruneIntervalMS :: int

record HookPerformance =
  hp_HotConcurrency :: int
  hp_HotQueueWaitMS :: int
  hp_InferencePhaseTimeoutMS :: int
  hp_DeferredQueueLimit :: int
  hp_DeferredWorkers :: int
  hp_Cache :: HookCachePerformance

record Performance =
  pf_Hook :: HookPerformance
  pf_Timeouts :: TimeoutPerformance
  pf_Limits :: LimitPerformance
  pf_Intervals :: IntervalPerformance

record ModelPrice =
  mp_InputPerMillion :: go_float
  mp_CachedInputPerMillion :: go_float
  mp_OutputPerMillion :: go_float

record Judge =
  jd_TranscriptEndpoint :: bytes
  jd_TranscriptMaxTokens :: int
  jd_TranscriptTokenModel :: bytes
  jd_TranscriptTimeoutMS :: int
  jd_TranscriptOnError :: bytes
  jd_Pricing :: "(bytes \<times> ModelPrice) list"

record Update =
  up_Enabled :: "bool option"
  up_Mode :: bytes
  up_Interval :: bytes
  up_Repo :: bytes
  up_AllowPrerelease :: "bool option"

record Audit =
  au_Enabled :: "bool option"
  au_Level :: bytes
  au_SQLitePath :: bytes
  au_Storage :: AuditStorage

record LoadFailure =
  lf_Scope :: bytes
  lf_Kind :: bytes
  lf_Reason :: bytes

record Config =
  cfg_LogLevel :: bytes
  cfg_Audit :: Audit
  cfg_Performance :: Performance
  cfg_Update :: Update
  cfg_BlockFooter :: bytes
  cfg_Judge :: Judge
  cfg_Inference :: "(bytes \<times> InferencePoint) list"
  cfg_Rules :: "Rule list"
  cfg_sourceIdentity :: bytes
  cfg_auditStoragePolicy :: "AuditStoragePolicy option"
  cfg_loadFailures :: "LoadFailure list"

section \<open>Timeouts\<close>

definition DefaultHookEvaluateMs :: int where "DefaultHookEvaluateMs = 12000"
definition DefaultExecTimeoutMs :: int where "DefaultExecTimeoutMs = 1500"
definition DefaultMaxExecTimeoutMs :: int where "DefaultMaxExecTimeoutMs = 4000"
definition DefaultExecBackgroundMs :: int where "DefaultExecBackgroundMs = 30000"
definition DefaultMaxExecRetryCount :: int where "DefaultMaxExecRetryCount = 5"
definition DefaultInferTimeoutMs :: int where "DefaultInferTimeoutMs = 1500"
definition DefaultMaxInferTimeoutMs :: int where "DefaultMaxInferTimeoutMs = 8000"
definition DefaultExecCacheKey :: bytes where "DefaultExecCacheKey = ''effective_cwd''"

definition positiveOr :: "int \<Rightarrow> int \<Rightarrow> int" where
  "positiveOr v fallback = (if v > 0 then v else fallback)"

definition zeroTimeoutPerformance :: TimeoutPerformance where
  "zeroTimeoutPerformance = \<lparr>tp_HookEvaluateMS = 0, tp_ExecDefaultMS = 0, tp_ExecMaxMS = 0,
     tp_ExecBackgroundMS = 0, tp_ExecMaxRetryCount = 0, tp_InferDefaultMS = 0, tp_InferMaxMS = 0\<rparr>"

definition timeouts :: "Config option \<Rightarrow> TimeoutPerformance" where
  "timeouts c = (case c of None \<Rightarrow> zeroTimeoutPerformance | Some cfg \<Rightarrow> pf_Timeouts (cfg_Performance cfg))"

definition ExecDefaultTimeoutMs :: "Config option \<Rightarrow> int" where
  "ExecDefaultTimeoutMs c = positiveOr (tp_ExecDefaultMS (timeouts c)) DefaultExecTimeoutMs"

definition ExecMaxTimeoutMs :: "Config option \<Rightarrow> int" where
  "ExecMaxTimeoutMs c = positiveOr (tp_ExecMaxMS (timeouts c)) DefaultMaxExecTimeoutMs"

definition ExecBackgroundTimeout :: "Config option \<Rightarrow> go_duration" where
  "ExecBackgroundTimeout c =
     duration_of_ms (positiveOr (tp_ExecBackgroundMS (timeouts c)) DefaultExecBackgroundMs)"

definition ExecMaxRetryCount :: "Config option \<Rightarrow> int" where
  "ExecMaxRetryCount c = positiveOr (tp_ExecMaxRetryCount (timeouts c)) DefaultMaxExecRetryCount"

definition InferDefaultTimeoutMs :: "Config option \<Rightarrow> int" where
  "InferDefaultTimeoutMs c = positiveOr (tp_InferDefaultMS (timeouts c)) DefaultInferTimeoutMs"

definition InferMaxTimeoutMs :: "Config option \<Rightarrow> int" where
  "InferMaxTimeoutMs c = positiveOr (tp_InferMaxMS (timeouts c)) DefaultMaxInferTimeoutMs"

text \<open>
  The hook client reads the same file on its own; the argument is the decoded table, or
  \<^term>\<open>None\<close> when the file cannot be read or decoded.
\<close>

definition HookEvaluateTimeoutFromFile :: "TimeoutPerformance option \<Rightarrow> go_duration" where
  "HookEvaluateTimeoutFromFile probe =
     duration_of_ms (case probe of
        None \<Rightarrow> DefaultHookEvaluateMs
      | Some t \<Rightarrow> positiveOr (tp_HookEvaluateMS t) DefaultHookEvaluateMs)"

definition validateTimeouts :: "TimeoutPerformance \<Rightarrow> go_error" where
  "validateTimeouts t =
     (let hookEvaluate = positiveOr (tp_HookEvaluateMS t) DefaultHookEvaluateMs;
          execMax = positiveOr (tp_ExecMaxMS t) DefaultMaxExecTimeoutMs;
          inferMax = positiveOr (tp_InferMaxMS t) DefaultMaxInferTimeoutMs;
          execDefault = positiveOr (tp_ExecDefaultMS t) DefaultExecTimeoutMs;
          inferDefault = positiveOr (tp_InferDefaultMS t) DefaultInferTimeoutMs in
      first_problem
        [(tp_HookEvaluateMS t < 0, ''hook_evaluate_ms must be non-negative''),
         (tp_ExecDefaultMS t < 0, ''exec_default_ms must be non-negative''),
         (tp_ExecMaxMS t < 0, ''exec_max_ms must be non-negative''),
         (tp_ExecBackgroundMS t < 0, ''exec_background_ms must be non-negative''),
         (tp_ExecMaxRetryCount t < 0, ''exec_max_retry_count must be non-negative''),
         (tp_InferDefaultMS t < 0, ''infer_default_ms must be non-negative''),
         (tp_InferMaxMS t < 0, ''infer_max_ms must be non-negative''),
         (execMax \<ge> hookEvaluate, ''exec_max_ms must stay under hook_evaluate_ms''),
         (inferMax \<ge> hookEvaluate, ''infer_max_ms must stay under hook_evaluate_ms''),
         (execDefault > execMax, ''exec_default_ms exceeds exec_max_ms''),
         (inferDefault > inferMax, ''infer_default_ms exceeds infer_max_ms'')])"

section \<open>Limits and intervals\<close>

definition DefaultRegexMatchLimit :: int where "DefaultRegexMatchLimit = 100000"
definition DefaultRegexDepthLimit :: int where "DefaultRegexDepthLimit = 4096"
definition DefaultAuditQueueLimit :: int where "DefaultAuditQueueLimit = 8192"
definition DefaultAuditDedupCacheSize :: int where "DefaultAuditDedupCacheSize = 4096"
definition DefaultHookInferencePhaseMaxMs :: int where "DefaultHookInferencePhaseMaxMs = 9000"
definition DefaultAuditDedupTTLMs :: int where "DefaultAuditDedupTTLMs = 30000"
definition DefaultAuditDropLogIntervalMs :: int where "DefaultAuditDropLogIntervalMs = 5000"
definition DefaultOverloadLogIntervalMs :: int where "DefaultOverloadLogIntervalMs = 5000"
definition DefaultDeferredClaimLeaseMs :: int where "DefaultDeferredClaimLeaseMs = 30000"
definition DefaultDeferredClaimRenewMs :: int where "DefaultDeferredClaimRenewMs = 10000"

definition zeroLimitPerformance :: LimitPerformance where
  "zeroLimitPerformance = \<lparr>lp_RegexMatchLimit = 0, lp_RegexDepthLimit = 0, lp_AuditQueueLimit = 0,
     lp_AuditDedupCacheSize = 0, lp_HookInferencePhaseMaxMs = 0\<rparr>"

definition zeroIntervalPerformance :: IntervalPerformance where
  "zeroIntervalPerformance = \<lparr>iv_AuditDedupTTLMs = 0, iv_AuditDropLogIntervalMs = 0,
     iv_OverloadLogIntervalMs = 0, iv_DeferredClaimLeaseMs = 0, iv_DeferredClaimRenewMs = 0\<rparr>"

definition limits :: "Config option \<Rightarrow> LimitPerformance" where
  "limits c = (case c of None \<Rightarrow> zeroLimitPerformance | Some cfg \<Rightarrow> pf_Limits (cfg_Performance cfg))"

definition intervals :: "Config option \<Rightarrow> IntervalPerformance" where
  "intervals c =
     (case c of None \<Rightarrow> zeroIntervalPerformance | Some cfg \<Rightarrow> pf_Intervals (cfg_Performance cfg))"

definition RegexMatchLimit :: "Config option \<Rightarrow> int" where
  "RegexMatchLimit c = positiveOr (lp_RegexMatchLimit (limits c)) DefaultRegexMatchLimit"

definition RegexDepthLimit :: "Config option \<Rightarrow> int" where
  "RegexDepthLimit c = positiveOr (lp_RegexDepthLimit (limits c)) DefaultRegexDepthLimit"

definition AuditQueueLimit :: "Config option \<Rightarrow> int" where
  "AuditQueueLimit c = positiveOr (lp_AuditQueueLimit (limits c)) DefaultAuditQueueLimit"

definition AuditDedupCacheSize :: "Config option \<Rightarrow> int" where
  "AuditDedupCacheSize c = positiveOr (lp_AuditDedupCacheSize (limits c)) DefaultAuditDedupCacheSize"

definition HookInferencePhaseMaxMs :: "Config option \<Rightarrow> int" where
  "HookInferencePhaseMaxMs c = positiveOr (lp_HookInferencePhaseMaxMs (limits c)) DefaultHookInferencePhaseMaxMs"

definition millisecondsOr :: "int \<Rightarrow> int \<Rightarrow> go_duration" where
  "millisecondsOr v fallback = duration_of_ms (positiveOr v fallback)"

definition AuditDedupTTL :: "Config option \<Rightarrow> go_duration" where
  "AuditDedupTTL c = millisecondsOr (iv_AuditDedupTTLMs (intervals c)) DefaultAuditDedupTTLMs"

definition AuditDropLogInterval :: "Config option \<Rightarrow> go_duration" where
  "AuditDropLogInterval c = millisecondsOr (iv_AuditDropLogIntervalMs (intervals c)) DefaultAuditDropLogIntervalMs"

definition OverloadLogInterval :: "Config option \<Rightarrow> go_duration" where
  "OverloadLogInterval c = millisecondsOr (iv_OverloadLogIntervalMs (intervals c)) DefaultOverloadLogIntervalMs"

definition DeferredClaimLease :: "Config option \<Rightarrow> go_duration" where
  "DeferredClaimLease c = millisecondsOr (iv_DeferredClaimLeaseMs (intervals c)) DefaultDeferredClaimLeaseMs"

definition DeferredClaimRenewInterval :: "Config option \<Rightarrow> go_duration" where
  "DeferredClaimRenewInterval c = millisecondsOr (iv_DeferredClaimRenewMs (intervals c)) DefaultDeferredClaimRenewMs"

definition max_uint32 :: int where "max_uint32 = 4294967295"

definition validateLimits :: "LimitPerformance \<Rightarrow> IntervalPerformance \<Rightarrow> go_error" where
  "validateLimits l v =
     (let claimLease = positiveOr (iv_DeferredClaimLeaseMs v) DefaultDeferredClaimLeaseMs;
          claimRenew = positiveOr (iv_DeferredClaimRenewMs v) DefaultDeferredClaimRenewMs in
      first_problem
        [(lp_RegexMatchLimit l < 0, ''limits.regex_match_limit must be non-negative''),
         (lp_RegexDepthLimit l < 0, ''limits.regex_depth_limit must be non-negative''),
         (lp_AuditQueueLimit l < 0, ''limits.audit_queue_limit must be non-negative''),
         (lp_AuditDedupCacheSize l < 0, ''limits.audit_dedup_cache_size must be non-negative''),
         (lp_HookInferencePhaseMaxMs l < 0, ''limits.hook_inference_phase_max_ms must be non-negative''),
         (iv_AuditDedupTTLMs v < 0, ''intervals.audit_dedup_ttl_ms must be non-negative''),
         (iv_AuditDropLogIntervalMs v < 0, ''intervals.audit_drop_log_interval_ms must be non-negative''),
         (iv_OverloadLogIntervalMs v < 0, ''intervals.overload_log_interval_ms must be non-negative''),
         (iv_DeferredClaimLeaseMs v < 0, ''intervals.deferred_claim_lease_ms must be non-negative''),
         (iv_DeferredClaimRenewMs v < 0, ''intervals.deferred_claim_renew_ms must be non-negative''),
         (lp_RegexMatchLimit l > max_uint32, ''limits.regex_match_limit exceeds the largest value PCRE2 accepts''),
         (lp_RegexDepthLimit l > max_uint32, ''limits.regex_depth_limit exceeds the largest value PCRE2 accepts''),
         (claimRenew \<ge> claimLease, ''deferred_claim_renew_ms must stay under deferred_claim_lease_ms'')])"

section \<open>The hook pipeline\<close>

definition defaultHookMinimumHotConcurrency :: int where "defaultHookMinimumHotConcurrency = 4"
definition defaultHookHotConcurrencyFactor :: int where "defaultHookHotConcurrencyFactor = 4"
definition defaultHookDeferredQueueLimit :: int where "defaultHookDeferredQueueLimit = 8192"
definition defaultHookDeferredWorkers :: int where "defaultHookDeferredWorkers = 1"
definition defaultHookHotQueueWait :: go_duration where "defaultHookHotQueueWait = 25 * millisecond"
definition defaultHookInferencePhaseTimeout :: go_duration where
  "defaultHookInferencePhaseTimeout = 4000 * millisecond"
definition DefaultPruneInterval :: go_duration where "DefaultPruneInterval = 30000 * millisecond"

definition hook_of :: "Config option \<Rightarrow> (HookPerformance \<Rightarrow> int) \<Rightarrow> int" where
  "hook_of c f = (case c of None \<Rightarrow> 0 | Some cfg \<Rightarrow> f (pf_Hook (cfg_Performance cfg)))"

text \<open>The first argument is \<^verbatim>\<open>runtime.GOMAXPROCS(0)\<close>.\<close>

definition HookHotConcurrency :: "int \<Rightarrow> Config option \<Rightarrow> int" where
  "HookHotConcurrency gomaxprocs c =
     (if hook_of c hp_HotConcurrency > 0 then hook_of c hp_HotConcurrency
      else let limit = gomaxprocs * defaultHookHotConcurrencyFactor in
           if limit < defaultHookMinimumHotConcurrency then defaultHookMinimumHotConcurrency
           else limit)"

definition HookHotQueueWait :: "Config option \<Rightarrow> go_duration" where
  "HookHotQueueWait c =
     (if hook_of c hp_HotQueueWaitMS > 0 then duration_of_ms (hook_of c hp_HotQueueWaitMS)
      else defaultHookHotQueueWait)"

definition HookInferencePhaseTimeout :: "Config option \<Rightarrow> go_duration" where
  "HookInferencePhaseTimeout c =
     (if hook_of c hp_InferencePhaseTimeoutMS > 0
      then duration_of_ms (min (hook_of c hp_InferencePhaseTimeoutMS) (HookInferencePhaseMaxMs c))
      else defaultHookInferencePhaseTimeout)"

definition HookDeferredQueueLimit :: "Config option \<Rightarrow> int" where
  "HookDeferredQueueLimit c = positiveOr (hook_of c hp_DeferredQueueLimit) defaultHookDeferredQueueLimit"

definition HookDeferredWorkers :: "Config option \<Rightarrow> int" where
  "HookDeferredWorkers c = positiveOr (hook_of c hp_DeferredWorkers) defaultHookDeferredWorkers"

definition HookCacheMaxEntries :: "Config option \<Rightarrow> int" where
  "HookCacheMaxEntries c = positiveOr (hook_of c (hc_MaxEntries \<circ> hp_Cache)) DefaultMaxEntries"

definition HookCacheMaxValueBytes :: "Config option \<Rightarrow> int" where
  "HookCacheMaxValueBytes c = positiveOr (hook_of c (hc_MaxValueBytes \<circ> hp_Cache)) DefaultMaxValueBytes"

definition HookCacheMaxBytes :: "Config option \<Rightarrow> int" where
  "HookCacheMaxBytes c = positiveOr (hook_of c (hc_MaxBytes \<circ> hp_Cache)) DefaultMaxBytes"

definition HookCachePruneInterval :: "Config option \<Rightarrow> go_duration" where
  "HookCachePruneInterval c =
     (if hook_of c (hc_PruneIntervalMS \<circ> hp_Cache) > 0
      then duration_of_ms (hook_of c (hc_PruneIntervalMS \<circ> hp_Cache)) else DefaultPruneInterval)"

definition validateHookPerformance :: "HookPerformance \<Rightarrow> LimitPerformance \<Rightarrow> go_error" where
  "validateHookPerformance p l = first_problem
     [(hp_InferencePhaseTimeoutMS p < 0, ''inference_phase_timeout_ms must be non-negative''),
      (hp_InferencePhaseTimeoutMS p
         > positiveOr (lp_HookInferencePhaseMaxMs l) DefaultHookInferencePhaseMaxMs,
       ''inference_phase_timeout_ms must not exceed hook_inference_phase_max_ms'')]"

section \<open>Judge and update\<close>

definition OnErrorOpen :: bytes where "OnErrorOpen = ''open''"
definition OnErrorClosed :: bytes where "OnErrorClosed = ''closed''"

definition validContextOnError :: "bytes \<Rightarrow> bool" where
  "validContextOnError onError \<longleftrightarrow> onError = [] \<or> onError = OnErrorOpen \<or> onError = OnErrorClosed"

definition defaultJudgeTranscriptMaxTokens :: int where "defaultJudgeTranscriptMaxTokens = 2000"
definition defaultJudgeTranscriptTimeout :: go_duration where
  "defaultJudgeTranscriptTimeout = 1500 * millisecond"

definition JudgeTranscriptMaxTokens :: "Config option \<Rightarrow> int" where
  "JudgeTranscriptMaxTokens c =
     (case c of None \<Rightarrow> defaultJudgeTranscriptMaxTokens
      | Some cfg \<Rightarrow> positiveOr (jd_TranscriptMaxTokens (cfg_Judge cfg)) defaultJudgeTranscriptMaxTokens)"

definition JudgeTranscriptTimeout :: "Config option \<Rightarrow> go_duration" where
  "JudgeTranscriptTimeout c =
     (case c of None \<Rightarrow> defaultJudgeTranscriptTimeout
      | Some cfg \<Rightarrow> if jd_TranscriptTimeoutMS (cfg_Judge cfg) > 0
                    then duration_of_ms (jd_TranscriptTimeoutMS (cfg_Judge cfg))
                    else defaultJudgeTranscriptTimeout)"

text \<open>The price table, with the configured entries copied over the two built-in ones.\<close>

definition JudgePricing :: "Config option \<Rightarrow> (bytes \<times> ModelPrice) list" where
  "JudgePricing c =
     (let pricing =
        [(''gpt-5.4-mini'', \<lparr>mp_InputPerMillion = FNum (15 / 100),
            mp_CachedInputPerMillion = FNum (15 / 1000), mp_OutputPerMillion = FNum (60 / 100)\<rparr>),
         (''agentgate/agent-gate-judge-v4'', \<lparr>mp_InputPerMillion = FNum 0,
            mp_CachedInputPerMillion = FNum 0, mp_OutputPerMillion = FNum 0\<rparr>)] in
      case c of None \<Rightarrow> pricing
      | Some cfg \<Rightarrow> fold (\<lambda>(m, p) t. AList.update m p t) (jd_Pricing (cfg_Judge cfg)) pricing)"

definition validateJudge :: "Judge \<Rightarrow> go_error" where
  "validateJudge j = first_problem
     ([(jd_TranscriptMaxTokens j < 0, ''judge.transcript_max_tokens must be non-negative''),
       (jd_TranscriptTimeoutMS j < 0, ''judge.transcript_timeout_ms must be non-negative''),
       (\<not> validContextOnError (jd_TranscriptOnError j), ''judge.transcript_on_error is unknown'')]
      @ map (\<lambda>(model, price).
               (flt_less (mp_InputPerMillion price) (FNum 0)
                \<or> flt_less (mp_CachedInputPerMillion price) (FNum 0)
                \<or> flt_less (mp_OutputPerMillion price) (FNum 0),
                ''judge.pricing prices must be non-negative'')) (jd_Pricing j))"

definition UpdateModeApply :: bytes where "UpdateModeApply = ''apply''"
definition UpdateModeCheck :: bytes where "UpdateModeCheck = ''check''"
definition DefaultUpdateRepo :: bytes where "DefaultUpdateRepo = ''agoodkind/agent-gate''"
definition defaultUpdateInterval :: go_duration where "defaultUpdateInterval = 24 * 3600 * 1000000000"

definition normalizeUpdate :: "(bytes \<Rightarrow> go_duration go_result) \<Rightarrow> Update \<Rightarrow> go_error" where
  "normalizeUpdate parse_duration u =
     (if up_Mode u \<noteq> [] \<and> up_Mode u \<noteq> UpdateModeApply \<and> up_Mode u \<noteq> UpdateModeCheck
      then Some ''update.mode: unknown mode''
      else if up_Interval u \<noteq> [] then
        (case parse_duration (up_Interval u) of
           Inl e \<Rightarrow> Some e
         | Inr interval \<Rightarrow> if interval \<le> 0 then Some ''update.interval must be positive'' else None)
      else None)"

definition UpdateEnabled :: "Config option \<Rightarrow> bool" where
  "UpdateEnabled c = (case c of None \<Rightarrow> True | Some cfg \<Rightarrow> or_default True (up_Enabled (cfg_Update cfg)))"

definition UpdateMode :: "Config option \<Rightarrow> bytes" where
  "UpdateMode c =
     (case c of None \<Rightarrow> UpdateModeApply
      | Some cfg \<Rightarrow> if up_Mode (cfg_Update cfg) \<noteq> [] then up_Mode (cfg_Update cfg) else UpdateModeApply)"

definition UpdateRepo :: "Config option \<Rightarrow> bytes" where
  "UpdateRepo c =
     (case c of None \<Rightarrow> DefaultUpdateRepo
      | Some cfg \<Rightarrow> if up_Repo (cfg_Update cfg) \<noteq> [] then up_Repo (cfg_Update cfg) else DefaultUpdateRepo)"

definition UpdateInterval :: "(bytes \<Rightarrow> go_duration go_result) \<Rightarrow> Config option \<Rightarrow> go_duration" where
  "UpdateInterval parse_duration c =
     (case c of None \<Rightarrow> defaultUpdateInterval
      | Some cfg \<Rightarrow>
          if up_Interval (cfg_Update cfg) \<noteq> [] then
            (case parse_duration (up_Interval (cfg_Update cfg)) of
               Inr interval \<Rightarrow> if interval > 0 then interval else defaultUpdateInterval
             | Inl e \<Rightarrow> defaultUpdateInterval)
          else defaultUpdateInterval)"

section \<open>Load failures\<close>

definition LoadFailureRule :: bytes where "LoadFailureRule = ''rule''"
definition LoadFailureSection :: bytes where "LoadFailureSection = ''section''"
definition LoadFailureDocument :: bytes where "LoadFailureDocument = ''document''"

definition Failures :: "Config option \<Rightarrow> LoadFailure list" where
  "Failures c = (case c of None \<Rightarrow> [] | Some cfg \<Rightarrow> cfg_loadFailures cfg)"

definition Degraded :: "Config option \<Rightarrow> bool" where
  "Degraded c \<longleftrightarrow> length (Failures c) > 0"

definition Unusable :: "Config option \<Rightarrow> bool" where
  "Unusable c =
     (case c of None \<Rightarrow> False
      | Some cfg \<Rightarrow> list_ex (\<lambda>f. lf_Kind f = LoadFailureDocument) (cfg_loadFailures cfg))"

definition zeroHookPerformance :: HookPerformance where
  "zeroHookPerformance = \<lparr>hp_HotConcurrency = 0, hp_HotQueueWaitMS = 0, hp_InferencePhaseTimeoutMS = 0,
     hp_DeferredQueueLimit = 0, hp_DeferredWorkers = 0,
     hp_Cache = \<lparr>hc_MaxEntries = 0, hc_MaxValueBytes = 0, hc_MaxBytes = 0, hc_PruneIntervalMS = 0\<rparr>\<rparr>"

definition zeroJudge :: Judge where
  "zeroJudge = \<lparr>jd_TranscriptEndpoint = [], jd_TranscriptMaxTokens = 0, jd_TranscriptTokenModel = [],
     jd_TranscriptTimeoutMS = 0, jd_TranscriptOnError = [], jd_Pricing = []\<rparr>"

definition zeroUpdate :: Update where
  "zeroUpdate = \<lparr>up_Enabled = None, up_Mode = [], up_Interval = [], up_Repo = [],
                 up_AllowPrerelease = None\<rparr>"

definition zeroAuditStorage :: AuditStorage where
  "zeroAuditStorage = \<lparr>st_Profile = [], st_BucketInterval = None, st_RetentionBuckets = None,
     st_MaxSize = None, st_Detail = \<lparr>sd_WireInput = None, sd_NormalizedInput = None,
       sd_ProviderEvidence = None, sd_EnvironmentEvidence = None, sd_EvaluationContent = None\<rparr>\<rparr>"

definition zeroConfig :: Config where
  "zeroConfig = \<lparr>cfg_LogLevel = [],
     cfg_Audit = \<lparr>au_Enabled = None, au_Level = [], au_SQLitePath = [], au_Storage = zeroAuditStorage\<rparr>,
     cfg_Performance = \<lparr>pf_Hook = zeroHookPerformance, pf_Timeouts = zeroTimeoutPerformance,
        pf_Limits = zeroLimitPerformance, pf_Intervals = zeroIntervalPerformance\<rparr>,
     cfg_Update = zeroUpdate, cfg_BlockFooter = [], cfg_Judge = zeroJudge, cfg_Inference = [],
     cfg_Rules = [], cfg_sourceIdentity = [], cfg_auditStoragePolicy = None, cfg_loadFailures = []\<rparr>"

end
