(* ===== verification/RuleConfig.thy ===== *)
theory RuleConfig
  imports PerfConfig
begin

text \<open>
  Compilation of a rule: every validator and normaliser of \<^verbatim>\<open>internal/config\<close> that
  \<^verbatim>\<open>compileRule\<close> runs (\<^verbatim>\<open>config.go\<close>, \<^verbatim>\<open>rule_response.go\<close>, \<^verbatim>\<open>inference_matrix.go\<close>,
  \<^verbatim>\<open>exec_selector.go\<close>, \<^verbatim>\<open>infer.go\<close>, \<^verbatim>\<open>argument_specs.go\<close>, \<^verbatim>\<open>write_specs.go\<close>,
  \<^verbatim>\<open>enumeration_specs.go\<close>, \<^verbatim>\<open>selector_policy.go\<close>, \<^verbatim>\<open>read_argument_specs.go\<close>,
  \<^verbatim>\<open>judge_context.go\<close>, \<^verbatim>\<open>disable_providers.go\<close>).  The code mutates the rule in place; the model
  returns the changed rule or condition.  Log output is left out.
\<close>

section \<open>What compilation reads from outside\<close>

datatype json_token = JBool bool | JString bytes | JNumber "int option" "go_float option" | JDelim

text \<open>
  The PCRE2 compiler, Go's own \<^verbatim>\<open>regexp.Compile\<close> and \<^verbatim>\<open>filepath.Match\<close> (do they accept the
  pattern), the file system, and the JSON library: validity of a text and the first token of a
  valid text (a number with its value as \<^verbatim>\<open>int64\<close> and as \<^verbatim>\<open>float64\<close>, when it has one).
\<close>

record load_env =
  le_regex_Compile :: "bytes \<Rightarrow> Regexp go_result"
  le_regexp_ok :: "bytes \<Rightarrow> bool"
  le_glob_ok :: "bytes \<Rightarrow> bool"
  le_ReadFile :: "bytes \<Rightarrow> bytes go_result"
  le_json_Valid :: "bytes \<Rightarrow> bool"
  le_json_Token :: "bytes \<Rightarrow> json_token"
  le_ParseDuration :: "bytes \<Rightarrow> go_duration go_result"

section \<open>Argument descriptions\<close>

definition nonEmptyFlagEntries :: "bytes list \<Rightarrow> bool" where
  "nonEmptyFlagEntries vs \<longleftrightarrow> list_all (\<lambda>v. TrimSpace v \<noteq> []) vs"

definition flagEntries :: "bytes list \<Rightarrow> bool" where
  "flagEntries vs \<longleftrightarrow> list_all (\<lambda>v. HasPrefix v ''-'') vs"

definition ContainsAny :: "bytes \<Rightarrow> bytes \<Rightarrow> bool" where
  "ContainsAny s chars \<longleftrightarrow> list_ex (\<lambda>c. c \<in> set chars) s"

text \<open>The names of one option in order; the second component collects the names seen so far.\<close>

fun option_names :: "bytes list \<Rightarrow> bytes list \<Rightarrow> bytes list go_result" where
  "option_names known [] = Inr known"
| "option_names known (name # names) =
     (if \<not> HasPrefix name ''-'' \<or> name = ''-'' \<or> name = ''--''
         \<or> ContainsAny name (''= '' @ [CHR 0x09, CHR 0x0D, CHR 0x0A])
      then Inl ''invalid option name''
      else if name \<in> set known then Inl ''duplicate option''
      else option_names (known @ [name]) names)"

definition validateArgumentOption ::
  "load_env \<Rightarrow> ArgumentOptionSpec \<Rightarrow> bytes list \<Rightarrow> bytes list go_result" where
  "validateArgumentOption env opt known =
     (if ao_Names opt = [] then Inl ''names are required''
      else bindE (option_names known (ao_Names opt)) (\<lambda>known'.
        check_then (first_problem
          ([(ao_Value opt \<notin> {''none'', ''required'', ''optional''}, ''value must be none, required, or optional''),
            (ao_Value opt = ''none'' \<and> (ao_Forms opt \<noteq> [] \<or> ao_CWD opt),
               ''a valueless option cannot declare forms or cwd''),
            (ao_Value opt \<noteq> ''none'' \<and> ao_Forms opt = [], ''value forms are required'')]
           @ map (\<lambda>form. (form \<notin> {''separate'', ''attached'', ''equals''}, ''unknown value form'')) (ao_Forms opt)
           @ (if ao_AttachedValuePattern opt \<noteq> []
              then [(''attached'' \<notin> set (ao_Forms opt) \<or> \<not> HasPrefix (ao_AttachedValuePattern opt) ''^'',
                       ''attached_value_pattern requires attached values and a start anchor''),
                    (\<not> le_regexp_ok env (ao_AttachedValuePattern opt), ''attached_value_pattern'')]
              else [])))
          (Inr known')))"

fun validate_options :: "load_env \<Rightarrow> ArgumentOptionSpec list \<Rightarrow> bytes list \<Rightarrow> bytes list go_result" where
  "validate_options env [] known = Inr known"
| "validate_options env (opt # opts) known =
     bindE (validateArgumentOption env opt known) (validate_options env opts)"

text \<open>
  \<^verbatim>\<open>known[name]\<close>: the option that declares a name (names are unique once the options validate).
\<close>

definition declaring_option :: "ArgumentOptionSpec list \<Rightarrow> bytes \<Rightarrow> ArgumentOptionSpec option" where
  "declaring_option opts name = find (\<lambda>opt. name \<in> set (ao_Names opt)) opts"

definition validateArgumentReferences :: "ArgumentSpec \<Rightarrow> go_error" where
  "validateArgumentReferences spec =
     (let known = declaring_option (as_Options spec) in
      first_problem
        (map (\<lambda>name. (known name = None, ''option reference is undeclared''))
             (as_ProgramOptions spec @ as_RequireOptions spec)
         @ map (\<lambda>name. (map_option ao_Value (known name) = Some ''none'',
                        ''program option must accept a value'')) (as_ProgramOptions spec)
         @ map (\<lambda>p. (known (ap_Option p) = None \<or> ap_Values p = [],
                     ''option predicate requires a declared option and values''))
             (as_RequireOptionValues spec @ as_ExcludeOptionValues spec)))"

definition ValidateArgumentSpec :: "load_env \<Rightarrow> ArgumentSpec option \<Rightarrow> go_error" where
  "ValidateArgumentSpec env spec =
     (case spec of
        None \<Rightarrow> None
      | Some a \<Rightarrow>
          first_error
            [first_problem
               [(as_SkipPositionals a < 0, ''skip_positionals must be non-negative''),
                (as_UnknownOptions a \<noteq> [] \<and> as_UnknownOptions a \<noteq> ''unresolved''
                   \<and> as_UnknownOptions a \<noteq> ''skip'', ''unknown_options must be unresolved or skip'')],
             (case validate_options env (as_Options a) [] of Inl e \<Rightarrow> Some e | Inr known \<Rightarrow> None),
             validateArgumentReferences a,
             first_problem
               (map (\<lambda>v. (TrimSpace v = [], ''argument entries must be non-empty''))
                  (as_Subcommands a @ as_IgnoreOperandPrefixes a @ as_OperandStopTokens a))])"

section \<open>Read, write and enumeration descriptions\<close>

definition validateReadArgumentMode :: "ShellReadSpec \<Rightarrow> go_error" where
  "validateReadArgumentMode spec =
     (if rs_Arguments spec = None then None
      else first_problem
        [(rs_NestedCommand spec \<or> rs_NestedRemote spec \<or> rs_RemoteSources spec
            \<or> rs_NestedCommandFlag spec \<noteq> [],
          ''arguments cannot combine with nested-command or remote-source settings''),
         (rs_PathArgStart spec \<noteq> 0 \<or> rs_PathArgStartIfFlagsValue spec \<noteq> 0
            \<or> rs_PathArgStartIfFlags spec \<noteq> [],
          ''arguments cannot combine with legacy path_arg_start settings''),
         (rs_SkipPositionals spec \<noteq> 0 \<or> rs_SkipFlagsWithValues spec \<noteq> []
            \<or> rs_SkipFlagValuesAsPositionals spec \<noteq> [],
          ''arguments cannot combine with legacy positional or option-value settings'')])"

definition validateReadSpecs :: "load_env \<Rightarrow> ShellReadSpec list \<Rightarrow> go_error" where
  "validateReadSpecs env specs = first_error (concat (map (\<lambda>spec.
     [validateReadArgumentMode spec,
      ValidateArgumentSpec env (rs_Arguments spec),
      first_problem
        [(rs_Argv0 spec = [], ''argv0 is required''),
         (rs_PathArgStart spec < 0, ''path_arg_start must be non-negative''),
         (rs_PathArgStartIfFlagsValue spec < 0, ''path_arg_start_if_flags_value must be non-negative''),
         (rs_SkipPositionals spec < 0, ''skip_positionals must be non-negative'')]]) specs))"

definition legacy_flag :: "bool \<Rightarrow> bytes \<Rightarrow> ArgumentOptionSpec" where
  "legacy_flag cwd flag =
     \<lparr>ao_Names = [flag], ao_Value = ''required'', ao_Forms = [''separate'', ''equals''], ao_CWD = cwd,
      ao_AttachedValuePattern = []\<rparr>"

definition zero_ArgumentSpec :: ArgumentSpec where
  "zero_ArgumentSpec = \<lparr>as_Subcommands = [], as_Options = [], as_ShortClusters = False,
     as_EndOfOptions = False, as_StopAtFirstPositional = False, as_SkipPositionals = 0,
     as_ProgramOptions = [], as_RequireOptions = [], as_RequireOptionValues = [],
     as_ExcludeOptionValues = [], as_IgnoreOperandPrefixes = [], as_OperandStopTokens = [],
     as_OperandsBeforeOptions = False, as_UnknownOptions = []\<rparr>"

definition ArgumentDescription :: "ShellWriteSpec \<Rightarrow> ArgumentSpec" where
  "ArgumentDescription spec =
     (let arguments = (case ws_Arguments spec of
            None \<Rightarrow> zero_ArgumentSpec\<lparr>as_EndOfOptions := ws_EndOfOptions spec, as_UnknownOptions := ''skip''\<rparr>
          | Some a \<Rightarrow> a\<lparr>as_EndOfOptions := as_EndOfOptions a \<or> ws_EndOfOptions spec\<rparr>) in
      arguments\<lparr>as_Options := as_Options arguments
                  @ map (legacy_flag False) (ws_SkipFlagsWithValues spec)
                  @ map (legacy_flag True) (ws_CwdFlags spec)\<rparr>)"

definition validateWriteTargetOptions :: "bytes list \<Rightarrow> ArgumentOptionSpec list \<Rightarrow> go_error" where
  "validateWriteTargetOptions names opts = first_problem (map (\<lambda>name.
     (\<not> list_ex (\<lambda>opt. name \<in> set (ao_Names opt) \<and> ao_Value opt \<noteq> ''none'') opts,
      ''target option must accept a declared value'')) names)"

definition WriteTargetAllOperands :: bytes where "WriteTargetAllOperands = ''all_operands''"
definition WriteTargetLastOperand :: bytes where "WriteTargetLastOperand = ''last_operand''"

text \<open>The argv0 entries are trimmed in place before they are checked.\<close>

definition validateShellWriteSpec :: "load_env \<Rightarrow> ShellWriteSpec \<Rightarrow> ShellWriteSpec go_result" where
  "validateShellWriteSpec env spec =
     (let spec' = spec\<lparr>ws_Argv0 := map TrimSpace (ws_Argv0 spec)\<rparr>;
          arguments = ArgumentDescription spec' in
      check_then (first_error
        [first_problem
           [(ws_Argv0 spec = [], ''argv0 is required''),
            (list_ex (\<lambda>v. v = []) (ws_Argv0 spec'), ''argv0 entries must be non-empty''),
            (ws_TargetMode spec \<noteq> WriteTargetAllOperands \<and> ws_TargetMode spec \<noteq> WriteTargetLastOperand,
               ''unknown target_mode''),
            (\<not> nonEmptyFlagEntries (ws_SkipFlagsWithValues spec) \<or> \<not> nonEmptyFlagEntries (ws_CwdFlags spec),
               ''flag entries must be non-empty''),
            (\<not> flagEntries (ws_SkipFlagsWithValues spec), ''skip_flags_with_values entries must start with -''),
            (\<not> flagEntries (ws_CwdFlags spec), ''cwd_flags entries must start with -''),
            (list_ex (\<lambda>f. f \<in> set (ws_CwdFlags spec)) (ws_SkipFlagsWithValues spec),
               ''flag must not appear in both skip_flags_with_values and cwd_flags''),
            (ws_Unresolved spec \<noteq> [] \<and> ws_Unresolved spec \<noteq> ''match'' \<and> ws_Unresolved spec \<noteq> ''ignore'',
               ''unresolved must be match or ignore'')],
         ValidateArgumentSpec env (Some arguments),
         validateWriteTargetOptions (ws_TargetOptions spec) (as_Options arguments)])
        (Inr spec'))"

definition enumerationExecutablesValid :: "bytes list \<Rightarrow> bool" where
  "enumerationExecutablesValid names \<longleftrightarrow> names \<noteq> [] \<and> list_all (\<lambda>n. TrimSpace n \<noteq> []) names"

definition ValidateEnumerationSpecs :: "load_env \<Rightarrow> EnumerationSpec list \<Rightarrow> go_error" where
  "ValidateEnumerationSpecs env specs = first_error (concat (map (\<lambda>spec.
     [first_problem
        [(\<not> enumerationExecutablesValid (es_Argv0 spec), ''argv0 requires non-empty executable names''),
         (es_TargetMode spec \<noteq> ''all_operands'' \<and> es_TargetMode spec \<noteq> ''cwd'', ''unknown target_mode'')],
      ValidateArgumentSpec env (Some (es_Arguments spec)),
      first_problem (map (\<lambda>flag. (\<not> HasPrefix flag ''-'', ''consumer_flags entries must start with -''))
         (es_ConsumerFlags spec))]
     @ concat (map (\<lambda>w.
         [first_problem [(\<not> enumerationExecutablesValid (ec_Argv0 w), ''argv0 requires non-empty executable names'')],
          ValidateArgumentSpec env (Some (ec_Arguments w))]) (es_ConsumerWrappers spec))) specs))"

section \<open>Selector policies\<close>

definition validateRedirectionPolicy :: "RedirectionPolicy \<Rightarrow> go_error" where
  "validateRedirectionPolicy policy = first_problem
     (map (\<lambda>path. (TrimSpace path = [], ''ignore_paths entries must be non-empty'')) (IgnorePaths policy)
      @ map (\<lambda>fd. (fd = [] \<or> list_ex (\<lambda>c. \<not> isASCIIDigit c) fd,
                   ''ignore_fds entries must contain decimal digits'')) (IgnoreFDs policy))"

definition proseOptionHasValue :: "ArgumentSpec \<Rightarrow> bytes \<Rightarrow> bool" where
  "proseOptionHasValue arguments name =
     (case declaring_option (as_Options arguments) name of
        None \<Rightarrow> False
      | Some opt \<Rightarrow> ao_Value opt \<noteq> ''none'')"

definition validateProsePolicy :: "load_env \<Rightarrow> ProsePolicy \<Rightarrow> go_error" where
  "validateProsePolicy env policy = first_error
     (map (\<lambda>pat. first_problem
         [(TrimSpace pat = [], ''path_patterns entries must be non-empty''),
          (\<not> le_glob_ok env pat, ''invalid path pattern'')]) (pp_PathPatterns policy)
      @ concat (map (\<lambda>cmd.
         [first_problem
            [(pc_Argv0 cmd = [] \<or> \<not> nonEmptyFlagEntries (pc_Argv0 cmd), ''argv0 entries must be non-empty''),
             (\<not> pc_Operands cmd \<and> pc_ValueOptions cmd = [], ''operands or value_options is required''),
             (\<not> flagEntries (pc_ValueOptions cmd) \<or> \<not> nonEmptyFlagEntries (pc_ValueOptions cmd),
                ''value_options entries must be non-empty options''),
             (pc_Arguments cmd = None, ''arguments is required'')],
          ValidateArgumentSpec env (pc_Arguments cmd),
          first_problem (map (\<lambda>name. (\<not> proseOptionHasValue (the (pc_Arguments cmd)) name,
                                     ''value option requires a declared value-taking option''))
             (pc_ValueOptions cmd))]) (pp_Commands policy)))"

text \<open>The embedded default policies are validated first; that result is the first argument.\<close>

definition ValidateSelectorPolicies ::
  "go_error \<Rightarrow> load_env \<Rightarrow> ProsePolicy option \<Rightarrow> RedirectionPolicy option \<Rightarrow> go_error" where
  "ValidateSelectorPolicies defaults env prose redirects = first_error
     [defaults,
      (case prose of None \<Rightarrow> None | Some p \<Rightarrow> validateProsePolicy env p),
      (case redirects of None \<Rightarrow> None | Some r \<Rightarrow> validateRedirectionPolicy r)]"

end
