(* ===== verification/RuleCompile.thy ===== *)
theory RuleCompile
  imports RuleConfig
begin

text \<open>
  \<^verbatim>\<open>compileCondition\<close> and \<^verbatim>\<open>compileRule\<close> of \<^verbatim>\<open>internal/config/config.go\<close> with the exec, infer
  and evaluator-matrix parts they call.
\<close>

section \<open>Names\<close>

definition ConditionKindCommand :: bytes where "ConditionKindCommand = ''command''"
definition ConditionKindDiff :: bytes where "ConditionKindDiff = ''diff''"
definition ConditionKindExec :: bytes where "ConditionKindExec = ''exec''"
definition ConditionKindProject :: bytes where "ConditionKindProject = ''project''"
definition ConditionKindRegex :: bytes where "ConditionKindRegex = ''regex''"
definition ConditionKindShellRead :: bytes where "ConditionKindShellRead = ''shell_read_secret''"
definition ConditionKindShellWrite :: bytes where "ConditionKindShellWrite = ''shell_write''"
definition ConditionKindGitDefaultBranch :: bytes where
  "ConditionKindGitDefaultBranch = ''git_default_branch''"
definition ConditionKindGitPrimaryCheckout :: bytes where
  "ConditionKindGitPrimaryCheckout = ''git_primary_checkout''"
definition ConditionKindGitRefMove :: bytes where "ConditionKindGitRefMove = ''git_ref_move''"
definition ConditionKindInfer :: bytes where "ConditionKindInfer = ''infer''"

definition known_kinds :: "bytes list" where
  "known_kinds =
     [ConditionKindRegex, ConditionKindCommand, ConditionKindProject, ConditionKindDiff,
      ConditionKindShellRead, ConditionKindShellWrite, ConditionKindExec,
      ConditionKindGitDefaultBranch, ConditionKindGitPrimaryCheckout, ConditionKindGitRefMove,
      ConditionKindInfer]"

lemmas kind_defs = ConditionKindCommand_def ConditionKindDiff_def ConditionKindExec_def
  ConditionKindProject_def ConditionKindRegex_def ConditionKindShellRead_def
  ConditionKindShellWrite_def ConditionKindGitDefaultBranch_def
  ConditionKindGitPrimaryCheckout_def ConditionKindGitRefMove_def ConditionKindInfer_def

definition BlockOnNonzero :: bytes where "BlockOnNonzero = ''nonzero''"
definition BlockOnZero :: bytes where "BlockOnZero = ''zero''"
definition BlockOnMatch :: bytes where "BlockOnMatch = ''match''"
definition ExecMatchAny :: bytes where "ExecMatchAny = ''any''"
definition ExecMatchAll :: bytes where "ExecMatchAll = ''all''"

definition ActionBlock :: bytes where "ActionBlock = ''block''"
definition ActionAudit :: bytes where "ActionAudit = ''audit''"
definition ActionInject :: bytes where "ActionInject = ''inject''"
definition ActionMutate :: bytes where "ActionMutate = ''mutate''"

definition DiagnosticFormatDetailed :: bytes where "DiagnosticFormatDetailed = ''detailed''"
definition DiagnosticFormatMessageOnly :: bytes where "DiagnosticFormatMessageOnly = ''message_only''"

section \<open>Field pairs, diagnostic groups, scalars\<close>

definition ParseFieldPair :: "bytes \<Rightarrow> FieldPairSpec go_result" where
  "ParseFieldPair spec =
     (let trimmed = TrimSpace spec in
      if trimmed = []
      then Inr \<lparr>fp_OldPath = [], fp_NewPath = [], fp_OldField = FieldSelectorInvalid,
                fp_NewField = FieldSelectorInvalid\<rparr>
      else case Split (CHR '','') trimmed of
             [a, b] \<Rightarrow>
               (let oldPath = TrimSpace a; newPath = TrimSpace b in
                Inr \<lparr>fp_OldPath = oldPath, fp_NewPath = newPath,
                     fp_OldField = CompileFieldSelector oldPath,
                     fp_NewField = CompileFieldSelector newPath\<rparr>)
           | _ \<Rightarrow> Inl ''field_pair: expected exactly two comma-separated paths'')"

definition validateDiagnosticGroup :: "int \<Rightarrow> Regexp option \<Rightarrow> go_error" where
  "validateDiagnosticGroup grp re =
     (if grp < 0 then Some ''diagnostic_group must be non-negative''
      else if grp = 0 then None
      else if re = None then Some ''diagnostic_group requires a pattern''
      else if grp > int (CaptureCount re) then Some ''diagnostic_group exceeds capture count''
      else None)"

definition decodeTOMLScalar :: "load_env \<Rightarrow> bytes \<Rightarrow> TOMLScalarValue go_result" where
  "decodeTOMLScalar env encoded =
     (let trimmed = TrimSpace encoded in
      if trimmed = [] then Inl ''expected a value, got an empty string''
      else if \<not> le_json_Valid env trimmed then Inr (TOMLScalarString encoded)
      else case le_json_Token env trimmed of
             JBool b \<Rightarrow> Inr (TOMLScalarBool b)
           | JString s \<Rightarrow> Inr (TOMLScalarString s)
           | JNumber (Some i) f \<Rightarrow> Inr (TOMLScalarInt i)
           | JNumber None (Some f) \<Rightarrow> Inr (TOMLScalarFloat f)
           | JNumber None None \<Rightarrow> Inl ''expected a JSON number''
           | JDelim \<Rightarrow> Inl ''expected bool, string, integer, or float'')"

definition validateStdoutJSONFieldPath :: "bytes \<Rightarrow> go_error" where
  "validateStdoutJSONFieldPath path =
     (if path = [] then Some ''must not be empty''
      else if [] \<in> set (Split (CHR ''.'') path) then Some ''must not contain empty path segments''
      else None)"

section \<open>Exec conditions\<close>

definition containsTemporalExecSelector :: "FieldSelectorSpec list \<Rightarrow> bool" where
  "containsTemporalExecSelector selectors \<longleftrightarrow>
     list_ex (\<lambda>s. IsTemporalExecSelector (spec_Selector s)) selectors"

definition selector_spec :: "bytes \<Rightarrow> FieldSelectorSpec" where
  "selector_spec path = \<lparr>spec_Path = path, spec_Selector = CompileFieldSelector path\<rparr>"

definition compileExecCacheKey :: "Condition \<Rightarrow> Condition go_result" where
  "compileExecCacheKey c =
     (let spec = selector_spec (c_CacheKey c) in
      check_then (first_problem
        [(spec_Selector spec = FieldSelectorInvalid, ''cache_key is not a valid field selector''),
         (IsTemporalExecSelector (spec_Selector spec),
            ''temporal selector is available only in exec field_paths''),
         (spec_Selector spec = FieldCmdReadTargets \<and> c_SearchTools c = [] \<and> c_ReadSpecs c = [],
            ''cache_key requires search_tools or read_specs'')])
        (Inr (c\<lparr>c_cacheKeySelector := spec\<rparr>)))"

definition compileExecForEach :: "Condition \<Rightarrow> Condition go_result" where
  "compileExecForEach c =
     (let commandUsesItem = Contains (Join (c_Command c) [CHR 0x00]) ''{{item}}'';
          spec = selector_spec (c_ForEach c);
          mode = (if c_MatchMode c = [] then ExecMatchAny else c_MatchMode c) in
      if commandUsesItem \<and> TrimSpace (c_ForEach c) = []
      then Inl ''command uses {{item}} but for_each is unset''
      else if TrimSpace (c_ForEach c) = []
      then (if c_MatchMode c \<noteq> [] then Inl ''match_mode requires for_each'' else Inr c)
      else check_then (first_problem
        [(spec_Selector spec = FieldSelectorInvalid, ''for_each is not a valid field selector''),
         (IsTemporalExecSelector (spec_Selector spec),
            ''temporal selector is available only in exec field_paths''),
         (\<not> commandUsesItem, ''for_each requires command to contain {{item}}''),
         (mode \<noteq> ExecMatchAny \<and> mode \<noteq> ExecMatchAll, ''match_mode must be any or all''),
         (spec_Selector spec = FieldCmdReadTargets \<and> c_SearchTools c = [] \<and> c_ReadSpecs c = [],
            ''for_each requires search_tools or read_specs'')])
        (Inr (c\<lparr>c_forEachSelector := spec, c_MatchMode := mode\<rparr>)))"

definition compileExecStdoutJSON :: "load_env \<Rightarrow> Condition \<Rightarrow> Condition go_result" where
  "compileExecStdoutJSON env c =
     (let field = TrimSpace (c_StdoutJSONField c);
          c' = c\<lparr>c_StdoutJSONField := field\<rparr> in
      if field = [] \<and> c_StdoutJSONEquals c = [] then Inr (c'\<lparr>c_stdoutJSONValue := TOMLScalarUnset\<rparr>)
      else if field = [] \<or> c_StdoutJSONEquals c = []
      then Inl ''stdout_json_field and stdout_json_equals must be set together''
      else check_then (validateStdoutJSONFieldPath field)
        (bindE (decodeTOMLScalar env (c_StdoutJSONEquals c)) (\<lambda>v. Inr (c'\<lparr>c_stdoutJSONValue := v\<rparr>))))"

definition normalizeExecBlockOn :: "Condition \<Rightarrow> Condition go_result" where
  "normalizeExecBlockOn c =
     (let b = (if c_BlockOn c = [] then BlockOnNonzero else c_BlockOn c);
          b = (if c_StdoutJSONField c \<noteq> [] \<and> b = BlockOnNonzero then BlockOnMatch else b) in
      check_then (first_problem
        [(b \<noteq> BlockOnNonzero \<and> b \<noteq> BlockOnZero \<and> b \<noteq> BlockOnMatch,
            ''block_on must be nonzero, zero, or match''),
         (c_StdoutJSONField c \<noteq> [] \<and> b \<noteq> BlockOnMatch, ''stdout_json_field requires block_on = match''),
         (c_StdoutJSONField c = [] \<and> b = BlockOnMatch,
            ''block_on match requires stdout_json_field and stdout_json_equals'')])
        (Inr (c\<lparr>c_BlockOn := b\<rparr>)))"

definition compileExecConfig :: "load_env \<Rightarrow> Config option \<Rightarrow> Condition \<Rightarrow> Condition go_result" where
  "compileExecConfig env cfg c =
     (if c_Kind c \<noteq> ConditionKindExec then Inr c
      else let timeout = (if c_TimeoutMs c = 0 then ExecDefaultTimeoutMs cfg else c_TimeoutMs c);
               onError = (if c_OnError c = [] then OnErrorOpen else c_OnError c);
               cacheKey = (if TrimSpace (c_CacheKey c) = [] then DefaultExecCacheKey else c_CacheKey c) in
      check_then (first_error
        [first_problem
           [(c_Command c = [] \<or> TrimSpace (hd (c_Command c)) = [], ''exec requires a non-empty command''),
            (timeout < 0, ''timeout_ms must be non-negative''),
            (timeout > ExecMaxTimeoutMs cfg, ''timeout_ms exceeds performance.timeouts.exec_max_ms''),
            (c_RetryCount c < 0 \<or> c_RetryCount c > ExecMaxRetryCount cfg,
               ''retry_count must be between 0 and the maximum''),
            (c_CacheTTLMs c < 0, ''cache_ttl_ms must be non-negative''),
            (onError \<noteq> OnErrorOpen \<and> onError \<noteq> OnErrorClosed, ''on_error must be open or closed'')],
         validateReadSpecs env (c_ReadSpecs c),
         first_problem (map (\<lambda>tool. (TrimSpace tool = [], ''search_tools entries must be non-empty''))
            (c_SearchTools c))])
       (bindE (compileExecCacheKey (c\<lparr>c_TimeoutMs := timeout, c_OnError := onError, c_CacheKey := cacheKey\<rparr>))
         (\<lambda>c. bindE (compileExecForEach c)
         (\<lambda>c. bindE (compileExecStdoutJSON env c) normalizeExecBlockOn))))"

section \<open>Infer conditions\<close>

definition MaxContextTurnBudget :: int where "MaxContextTurnBudget = 32"
definition DefaultContextTurnBudget :: int where "DefaultContextTurnBudget = 4"
definition DefaultContextMaxCharsPerTurn :: int where "DefaultContextMaxCharsPerTurn = 280"
definition MaxContextMaxCharsPerTurn :: int where "MaxContextMaxCharsPerTurn = 8000"

definition compileRequiredSelector :: "bytes \<Rightarrow> FieldSelectorSpec go_result" where
  "compileRequiredSelector path =
     (if path = [] \<or> CompileFieldSelector path = FieldSelectorInvalid
      then Inl ''not a valid field selector'' else Inr (selector_spec path))"

definition compileDeclaration :: "load_env \<Rightarrow> bytes \<Rightarrow> bytes \<Rightarrow> bytes \<Rightarrow> bytes go_result" where
  "compileDeclaration env configDirectory inlineText file =
     (let hasInline = (inlineText \<noteq> []); hasFile = (TrimSpace file \<noteq> []) in
      if hasInline = hasFile then Inl ''exactly one of the inline text and the file must be set''
      else if hasInline then Inr inlineText
      else le_ReadFile env (if IsAbs file then file else path_Join [configDirectory, file]))"

definition reasoning_efforts :: "bytes list" where
  "reasoning_efforts = [[], ''none'', ''minimal'', ''low'', ''medium'', ''high'', ''xhigh'']"

definition compileInferGenerationOptions :: "Condition \<Rightarrow> Condition go_result" where
  "compileInferGenerationOptions c =
     (let effort = TrimSpace (c_ReasoningEffort c) in
      check_then (first_problem
        [(effort \<notin> set reasoning_efforts,
            ''reasoning_effort must be none, minimal, low, medium, high, or xhigh''),
         (case c_MaxCompletionTokens c of None \<Rightarrow> False | Some n \<Rightarrow> n \<le> 0,
            ''max_completion_tokens must be greater than zero''),
         (case c_Temperature c of None \<Rightarrow> False
          | Some t \<Rightarrow> t = FNaN \<or> t = FPosInf \<or> t = FNegInf \<or> flt_less t (FNum 0) \<or> flt_less (FNum 2) t,
            ''temperature must be between zero and two'')])
        (Inr (c\<lparr>c_ReasoningEffort := effort\<rparr>)))"

definition compileInferContextConfig :: "Condition \<Rightarrow> Condition go_result" where
  "compileInferContextConfig c =
     (let source = TrimSpace (c_ContextSource c);
          endpoint = TrimSpace (c_ContextEndpoint c);
          c1 = c\<lparr>c_ContextSource := source\<rparr>;
          budget = (if c_ContextTurnBudget c = 0 then DefaultContextTurnBudget else c_ContextTurnBudget c);
          chars = (if c_ContextMaxCharsPerTurn c = 0 then DefaultContextMaxCharsPerTurn
                   else c_ContextMaxCharsPerTurn c) in
      if source = [] then Inr c1
      else if source \<noteq> ''clyde_recent_turns'' then Inl ''unknown context_source''
      else if endpoint = [] then Inl ''context_endpoint is required''
      else bindE (compileRequiredSelector (TrimSpace (c_ContextWorkspaceField c))) (\<lambda>workspace.
           bindE (compileRequiredSelector (TrimSpace (c_ContextSessionField c))) (\<lambda>session.
           check_then (first_problem
             [(budget < 1 \<or> budget > MaxContextTurnBudget, ''context_turn_budget out of range''),
              (chars < 1 \<or> chars > MaxContextMaxCharsPerTurn, ''context_max_chars_per_turn out of range''),
              (c_ContextOnError c \<noteq> ''empty'' \<and> c_ContextOnError c \<noteq> ''error'',
                 ''context_on_error must be empty or error'')])
             (Inr (c1\<lparr>c_ContextEndpoint := endpoint, c_contextWorkspaceSelector := workspace,
                      c_contextSessionSelector := session, c_ContextTurnBudget := budget,
                      c_ContextMaxCharsPerTurn := chars\<rparr>)))))"

definition infer_limits :: "Config option \<Rightarrow> Condition \<Rightarrow> Condition go_result" where
  "infer_limits cfg c =
     (let timeout = (if c_TimeoutMs c = 0 then InferDefaultTimeoutMs cfg else c_TimeoutMs c);
          blockOn = (if c_BlockOn c = [] then BlockOnMatch else c_BlockOn c);
          onError = (if c_OnError c = [] then OnErrorOpen else c_OnError c);
          field = TrimSpace (c_ResponseJSONField c) in
      check_then (first_error
        [first_problem
           [(timeout < 0 \<or> timeout > InferMaxTimeoutMs cfg,
               ''timeout_ms exceeds performance.timeouts.infer_max_ms''),
            (c_CacheTTLMs c < 0, ''cache_ttl_ms must be non-negative''),
            (blockOn \<noteq> BlockOnMatch \<and> blockOn \<noteq> ''nonmatch'', ''block_on must be match or nonmatch''),
            (onError \<noteq> OnErrorOpen \<and> onError \<noteq> OnErrorClosed, ''on_error must be open or closed'')],
         validateStdoutJSONFieldPath field,
         first_problem [(c_ResponseJSONEquals c = [], ''response_json_equals is required'')]])
        (Inr (c\<lparr>c_TimeoutMs := timeout, c_BlockOn := blockOn, c_OnError := onError,
                c_ResponseJSONField := field\<rparr>)))"

definition compileInferConfig ::
  "load_env \<Rightarrow> bytes \<Rightarrow> Config option \<Rightarrow> Condition \<Rightarrow> Condition go_result" where
  "compileInferConfig env configDirectory cfg c =
     (if c_Kind c \<noteq> ConditionKindInfer then Inr c
      else let endpoint = TrimSpace (c_Endpoint c); layer = TrimSpace (c_LayerName c) in
      if endpoint = [] then Inl ''infer requires endpoint''
      else if layer = [] then Inl ''infer requires layer_name''
      else bindE (compileDeclaration env configDirectory (c_Prompt c) (c_PromptFile c)) (\<lambda>prompt.
           bindE (compileDeclaration env configDirectory (c_OutputSchema c) (c_OutputSchemaFile c)) (\<lambda>schema.
           if \<not> le_json_Valid env schema then Inl ''output_schema must be valid JSON''
           else bindE (compileInferGenerationOptions (c\<lparr>c_Endpoint := endpoint, c_LayerName := layer,
                         c_Prompt := prompt, c_OutputSchema := schema\<rparr>)) (\<lambda>c.
           let inputField = TrimSpace (c_InputField c) in
           bindE (compileRequiredSelector inputField) (\<lambda>input.
           let cacheKey = (if c_CacheKey c = [] then inputField else c_CacheKey c) in
           bindE (compileRequiredSelector (TrimSpace cacheKey)) (\<lambda>key.
           bindE (infer_limits cfg (c\<lparr>c_InputField := inputField, c_inputSelector := input,
                                      c_CacheKey := cacheKey, c_cacheKeySelector := key\<rparr>)) (\<lambda>c.
           bindE (decodeTOMLScalar env (c_ResponseJSONEquals c)) (\<lambda>v.
           compileInferContextConfig (c\<lparr>c_responseJSONValue := v\<rparr>)))))))))"

section \<open>Evaluator lists\<close>

definition EvalKindDeterministic :: bytes where "EvalKindDeterministic = ''deterministic''"
definition EvalKindInfer :: bytes where "EvalKindInfer = ''infer''"
definition RoleEnforce :: bytes where "RoleEnforce = ''enforce''"
definition RoleVerify :: bytes where "RoleVerify = ''verify''"
definition RoleFallback :: bytes where "RoleFallback = ''fallback''"
definition FanoutBatch :: bytes where "FanoutBatch = ''batch''"
definition FanoutIndividual :: bytes where "FanoutIndividual = ''individual''"
definition CombineAnd :: bytes where "CombineAnd = ''and''"
definition CombineUnion :: bytes where "CombineUnion = ''union''"
definition ConfidenceOutputField :: bytes where "ConfidenceOutputField = ''output_field''"
definition ConfidenceLogprob :: bytes where "ConfidenceLogprob = ''logprob''"

definition validConfidenceSource :: "bytes \<Rightarrow> bool" where
  "validConfidenceSource source \<longleftrightarrow>
     source = [] \<or> source = ConfidenceOutputField \<or> source = ConfidenceLogprob"

definition inferencePointProblem :: "InferencePoint \<Rightarrow> go_error" where
  "inferencePointProblem p = first_problem
     [(ip_Endpoint p = [], ''endpoint is required''),
      (ip_Model p = [], ''model is required''),
      (\<not> validConfidenceSource (ip_ConfidenceSource p), ''confidence_source is unknown''),
      (ip_ConfidenceSource p = ConfidenceOutputField \<and> ip_ConfidenceField p = [],
         ''confidence_field is required when confidence_source is output_field''),
      (flt_less (ip_ConfidenceThreshold p) (FNum 0) \<or> flt_less (FNum 1) (ip_ConfidenceThreshold p),
         ''confidence_threshold must be within [0, 1]''),
      (ip_ContextTurnBudget p < 0, ''context_turn_budget must be non-negative''),
      (ip_ContextMaxCharsPerTurn p < 0, ''context_max_chars_per_turn must be non-negative''),
      (\<not> validContextOnError (ip_ContextOnError p), ''context_on_error is unknown''),
      (ip_ContextEndpoint p = [] \<and> ip_ContextWorkspaceField p \<noteq> [],
         ''context_workspace_field is set without context_endpoint''),
      (ip_ContextEndpoint p = [] \<and> ip_ContextSessionField p \<noteq> [],
         ''context_session_field is set without context_endpoint''),
      (ip_ContextEndpoint p = [] \<and> ip_ContextTurnBudget p > 0,
         ''context_turn_budget is set without context_endpoint''),
      (ip_ContextEndpoint p = [] \<and> ip_ContextMaxCharsPerTurn p > 0,
         ''context_max_chars_per_turn is set without context_endpoint''),
      (ip_ContextEndpoint p = [] \<and> ip_ContextOnError p \<noteq> [],
         ''context_on_error is set without context_endpoint'')]"

definition validateInferencePoints :: "(bytes \<times> InferencePoint) list \<Rightarrow> go_error" where
  "validateInferencePoints points = first_error (map (\<lambda>(name, p). inferencePointProblem p) points)"

definition evalEntryShapeProblem :: "RuleEval \<Rightarrow> go_error" where
  "evalEntryShapeProblem e = first_problem
     [(ev_Kind e \<noteq> EvalKindDeterministic \<and> ev_Kind e \<noteq> EvalKindInfer, ''kind is unknown''),
      (ev_Role e \<noteq> RoleEnforce \<and> ev_Role e \<noteq> RoleVerify \<and> ev_Role e \<noteq> RoleFallback, ''role is unknown''),
      (ev_Fanout e \<noteq> [] \<and> ev_Fanout e \<noteq> FanoutBatch \<and> ev_Fanout e \<noteq> FanoutIndividual,
         ''fanout is unknown''),
      (ev_Combine e \<noteq> [] \<and> ev_Combine e \<noteq> CombineAnd \<and> ev_Combine e \<noteq> CombineUnion,
         ''combine is unknown''),
      (ev_OnError e \<noteq> [] \<and> ev_OnError e \<noteq> OnErrorOpen \<and> ev_OnError e \<noteq> OnErrorClosed,
         ''on_error is unknown'')]"

definition inferEntryReferenceProblem :: "RuleEval \<Rightarrow> (bytes \<times> InferencePoint) list \<Rightarrow> go_error" where
  "inferEntryReferenceProblem e points = first_problem
     [(ev_Use e = [], ''infer evaluator requires use''),
      (map_of points (ev_Use e) = None, ''use is not a declared inference point'')]"

definition evalEntryProblem :: "RuleEval \<Rightarrow> (bytes \<times> InferencePoint) list \<Rightarrow> go_error" where
  "evalEntryProblem e points = first_error
     [evalEntryShapeProblem e,
      (if ev_Kind e = EvalKindDeterministic
       then first_problem [(ev_Use e \<noteq> [] \<or> ev_Fanout e \<noteq> [] \<or> ev_OnError e \<noteq> [],
              ''deterministic evaluator does not accept use, fanout, or on_error'')]
       else inferEntryReferenceProblem e points)]"

definition validateRuleEval :: "RuleEval list \<Rightarrow> (bytes \<times> InferencePoint) list \<Rightarrow> go_error" where
  "validateRuleEval evals points = first_error (map (\<lambda>e. evalEntryProblem e points) evals)"

definition validateRuleEvalConditions :: "RuleEval list \<Rightarrow> nat \<Rightarrow> go_error" where
  "validateRuleEvalConditions evals conditionCount =
     (if conditionCount > 0 then None
      else first_problem (map (\<lambda>e. (ev_Kind e = EvalKindDeterministic,
             ''a deterministic evaluator requires the rule to declare conditions'')) evals))"

text \<open>A missing point reads as the zero value of the map's element type.\<close>

definition zero_InferencePoint :: InferencePoint where
  "zero_InferencePoint = \<lparr>ip_Endpoint = [], ip_Model = [], ip_ReasoningEffort = [],
     ip_ConfidenceSource = [], ip_ConfidenceField = [], ip_ConfidenceThreshold = FNum 0,
     ip_TimeoutMs = 0, ip_ContextEndpoint = [], ip_ContextWorkspaceField = [],
     ip_ContextSessionField = [], ip_ContextTurnBudget = 0, ip_ContextMaxCharsPerTurn = 0,
     ip_ContextOnError = []\<rparr>"

definition infer_evals :: "RuleEval list \<Rightarrow> RuleEval list" where
  "infer_evals evals = filter (\<lambda>e. ev_Kind e = EvalKindInfer) evals"

definition compileRuleEvalInference :: "Rule \<Rightarrow> (bytes \<times> InferencePoint) list \<Rightarrow> Rule go_result" where
  "compileRuleEvalInference rule points =
     (let infer = infer_evals (r_Eval rule);
          resolved = fold (\<lambda>e t. AList.update (ev_Use e)
                        (case map_of points (ev_Use e) of Some p \<Rightarrow> p | None \<Rightarrow> zero_InferencePoint) t)
                       infer [] in
      if infer \<noteq> [] \<and> r_Intent rule = [] then Inl ''an infer evaluator requires intent''
      else Inr (rule\<lparr>r_EvalInference := (if resolved \<noteq> [] then Some resolved else None)\<rparr>))"

section \<open>Conditions and rules\<close>

definition compile_optional :: "load_env \<Rightarrow> bytes \<Rightarrow> Regexp option \<Rightarrow> Regexp option go_result" where
  "compile_optional env pattern old =
     (if pattern = [] then Inr old else bindE (le_regex_Compile env pattern) (\<lambda>re. Inr (Some re)))"

definition validateShellReadSpecConfig :: "load_env \<Rightarrow> Condition \<Rightarrow> go_error" where
  "validateShellReadSpecConfig env c =
     (if c_Kind c \<noteq> ConditionKindShellRead then None
      else first_error
        [first_problem
           [(c_compiled c = None, ''shell_read_secret requires pattern''),
            (c_compiledPath c = None, ''shell_read_secret requires path_pattern''),
            (c_MaxBytes c < 0, ''max_bytes must be non-negative''),
            (c_ReadSpecs c = [], ''shell_read_secret requires at least one read_specs entry'')],
         validateReadSpecs env (c_ReadSpecs c)])"

definition conditionConsumesCmdWriteTargets :: "Condition \<Rightarrow> bool" where
  "conditionConsumesCmdWriteTargets c =
     (if c_Kind c = ConditionKindShellWrite then True
      else if c_Kind c \<in> {ConditionKindCommand, ConditionKindDiff, ConditionKindProject,
                          ConditionKindShellRead, ConditionKindGitRefMove} then False
      else list_ex (\<lambda>s. spec_Selector s = FieldCmdWriteTargets) (c_selectors c)
           \<or> spec_Selector (c_cacheKeySelector c) = FieldCmdWriteTargets
           \<or> spec_Selector (c_forEachSelector c) = FieldCmdWriteTargets
           \<or> spec_Selector (c_inputSelector c) = FieldCmdWriteTargets)"

fun map_result :: "('a \<Rightarrow> 'b go_result) \<Rightarrow> 'a list \<Rightarrow> 'b list go_result" where
  "map_result f [] = Inr []"
| "map_result f (x # xs) = bindE (f x) (\<lambda>y. bindE (map_result f xs) (\<lambda>ys. Inr (y # ys)))"

definition validateShellWriteSpecConfig :: "load_env \<Rightarrow> Condition \<Rightarrow> Condition go_result" where
  "validateShellWriteSpecConfig env c =
     (if c_WriteSpecs c = [] then Inr c
      else if \<not> conditionConsumesCmdWriteTargets c then Inl ''write_specs require cmd_write_targets''
      else bindE (map_result (validateShellWriteSpec env) (c_WriteSpecs c))
             (\<lambda>specs. Inr (c\<lparr>c_WriteSpecs := specs\<rparr>)))"

definition compileCondition ::
  "go_error \<Rightarrow> load_env \<Rightarrow> bytes \<Rightarrow> Config option \<Rightarrow> Condition \<Rightarrow> Condition go_result" where
  "compileCondition policy_defaults env configDirectory cfg c0 =
     (let c = c0\<lparr>c_selectors := CompileFieldSelectorSpecs (c_FieldPaths c0),
                 c_Kind := (if c_Kind c0 = [] then ConditionKindRegex else c_Kind c0)\<rparr> in
      if c_Kind c \<notin> set known_kinds then Inl ''unknown kind''
      else bindE (compile_optional env (c_Pattern c) (c_compiled c)) (\<lambda>re.
           check_then (validateDiagnosticGroup (c_DiagnosticGroup c) re)
          (bindE (compile_optional env (c_NotPattern c) (c_compiledNot c)) (\<lambda>notRe.
           bindE (compile_optional env (c_PathPattern c) (c_compiledPath c)) (\<lambda>pathRe.
           bindE (if c_FieldPair c = [] then Inr (c_fieldPairs c)
                  else bindE (ParseFieldPair (c_FieldPair c)) (\<lambda>pair. Inr [pair])) (\<lambda>pairs.
           let c = c\<lparr>c_compiled := re, c_compiledNot := notRe, c_compiledPath := pathRe,
                     c_fieldPairs := pairs\<rparr> in
           check_then (validateShellReadSpecConfig env c)
          (bindE (compileExecConfig env cfg c) (\<lambda>c.
           bindE (compileInferConfig env configDirectory cfg c) (\<lambda>c.
           bindE (validateShellWriteSpecConfig env c) (\<lambda>c.
           check_then (first_error
             [ValidateSelectorPolicies policy_defaults env (c_ProsePolicy c) (c_RedirectionPolicy c),
              ValidateEnumerationSpecs env (c_EnumerationSpecs c),
              first_problem [(c_Kind c = ConditionKindGitRefMove \<and> c_FieldPaths c \<noteq> [],
                ''git_ref_move does not accept field_paths'')]])
             (Inr c)))))))))))"

definition IsResponseAction :: "Rule \<Rightarrow> bool" where
  "IsResponseAction r \<longleftrightarrow> r_Action r = ActionInject \<or> r_Action r = ActionMutate"

definition OutputText :: "Rule \<Rightarrow> bytes" where
  "OutputText r = (if r_output r = [] then r_Output r else r_output r)"

definition normalizeRuleAction :: "Rule \<Rightarrow> Rule go_result" where
  "normalizeRuleAction r =
     (let action = (if r_Action r = [] then ActionBlock else r_Action r); r' = r\<lparr>r_Action := action\<rparr> in
      if action = ActionBlock then Inr (r'\<lparr>r_AuditOnly := False\<rparr>)
      else if action = ActionAudit then Inr (r'\<lparr>r_AuditOnly := True\<rparr>)
      else if action = ActionInject \<or> action = ActionMutate then Inr (r'\<lparr>r_AuditOnly := False\<rparr>)
      else Inl ''unknown action'')"

definition ruleHasExecCondition :: "Rule \<Rightarrow> bool" where
  "ruleHasExecCondition r \<longleftrightarrow> list_ex (\<lambda>c. c_Kind c = ConditionKindExec) (r_Conditions r)"

definition resolveRuleOutput :: "load_env \<Rightarrow> bytes \<Rightarrow> Rule \<Rightarrow> Rule go_result" where
  "resolveRuleOutput env configDirectory r =
     (if \<not> IsResponseAction r
      then (if r_Output r \<noteq> [] \<or> r_OutputFile r \<noteq> []
            then Inl ''output and output_file require action inject or mutate'' else Inr r)
      else if r_Output r \<noteq> [] \<and> r_OutputFile r \<noteq> []
      then Inl ''output and output_file are mutually exclusive''
      else if r_OutputFile r \<noteq> [] \<and> IsAbs (r_OutputFile r)
      then Inl ''output_file must be relative to the config file''
      else bindE (if r_OutputFile r \<noteq> []
                  then le_ReadFile env (path_Join [configDirectory, r_OutputFile r])
                  else Inr (r_Output r)) (\<lambda>out.
           if TrimSpace out \<noteq> [] \<or> ruleHasExecCondition r then Inr (r\<lparr>r_output := out\<rparr>)
           else Inl ''inject and mutate rules require output, output_file, or an exec condition''))"

definition normalizeRuleDiagnosticFormat :: "Rule \<Rightarrow> Rule go_result" where
  "normalizeRuleDiagnosticFormat r =
     (let format = (if r_DiagnosticFormat r = [] then DiagnosticFormatDetailed else r_DiagnosticFormat r) in
      if format = DiagnosticFormatDetailed \<or> format = DiagnosticFormatMessageOnly
      then Inr (r\<lparr>r_DiagnosticFormat := format\<rparr>) else Inl ''unknown diagnostic_format'')"

definition JudgeContextCheckoutStatus :: bytes where
  "JudgeContextCheckoutStatus = ''checkout_status''"

definition validateRuleJudgeContext :: "bytes list \<Rightarrow> go_error" where
  "validateRuleJudgeContext keys = first_problem (map (\<lambda>key.
     (TrimSpace key \<noteq> JudgeContextCheckoutStatus
      \<and> CompileFieldSelector (TrimSpace key) = FieldSelectorInvalid,
      ''judge_context: not a known field path'')) keys)"

definition validDisableProviders :: "bytes list" where
  "validDisableProviders = [''claude'', ''cursor'', ''codex'', ''copilot'', ''gemini'']"

definition validateDisableProviders :: "bytes list \<Rightarrow> go_error" where
  "validateDisableProviders providers = first_problem (map (\<lambda>p.
     (p \<notin> set validDisableProviders, ''unknown disable_providers entry'')) providers)"

definition ProviderDisabled :: "Rule \<Rightarrow> bytes \<Rightarrow> bool" where
  "ProviderDisabled r system \<longleftrightarrow> system \<in> set (r_DisableProviders r)"

text \<open>A response rule's exec conditions block on exit code zero unless they say otherwise.\<close>

definition response_block_on :: "Rule \<Rightarrow> Condition \<Rightarrow> Condition" where
  "response_block_on r c =
     (if IsResponseAction r \<and> c_Kind c = ConditionKindExec \<and> c_BlockOn c = []
      then c\<lparr>c_BlockOn := BlockOnZero\<rparr> else c)"

definition compileSimpleRule :: "load_env \<Rightarrow> Rule \<Rightarrow> Rule go_result" where
  "compileSimpleRule env r =
     (let r' = r\<lparr>r_selectors := CompileFieldSelectorSpecs (r_FieldPaths r)\<rparr> in
      if IsResponseAction r \<and> r_Pattern r = [] \<and> r_NotPattern r = [] then
        (if r_DiagnosticGroup r \<noteq> 0 then Inl ''diagnostic_group requires a pattern'' else Inr r')
      else bindE (le_regex_Compile env (r_Pattern r)) (\<lambda>re.
           bindE (compile_optional env (r_NotPattern r) (r_compiledNot r)) (\<lambda>notRe.
           check_then (validateDiagnosticGroup (r_DiagnosticGroup r) (Some re))
             (Inr (r'\<lparr>r_compiled := Some re, r_compiledNot := notRe\<rparr>)))))"

definition compileRule ::
  "go_error \<Rightarrow> load_env \<Rightarrow> bytes \<Rightarrow> Config option \<Rightarrow> (bytes \<times> InferencePoint) list \<Rightarrow> Rule \<Rightarrow> Rule go_result" where
  "compileRule policy_defaults env configDirectory cfg inference r =
     bindE (normalizeRuleAction r) (\<lambda>r.
     bindE (resolveRuleOutput env configDirectory r) (\<lambda>r.
     bindE (normalizeRuleDiagnosticFormat r) (\<lambda>r.
     check_then (first_error
       [validateRuleEval (r_Eval r) inference,
        validateRuleEvalConditions (r_Eval r) (length (r_Conditions r))])
    (bindE (compileRuleEvalInference r inference) (\<lambda>r.
     check_then (first_error
       [validateRuleJudgeContext (r_JudgeContext r), validateDisableProviders (r_DisableProviders r)])
    (if r_Conditions r \<noteq> []
     then bindE (map_result (\<lambda>c. compileCondition policy_defaults env configDirectory cfg
                                   (response_block_on r c)) (r_Conditions r))
            (\<lambda>cs. Inr (r\<lparr>r_Conditions := cs\<rparr>))
     else compileSimpleRule env r))))))"

section \<open>What compilation guarantees of a condition\<close>

lemma positiveOr_pos: "0 < fallback \<Longrightarrow> 0 < positiveOr v fallback"
  by (simp add: positiveOr_def)

lemma exec_tail_keeps:
  "compileExecCacheKey c = Inr c' \<Longrightarrow>
     c_TimeoutMs c' = c_TimeoutMs c \<and> c_Kind c' = c_Kind c \<and> c_RetryCount c' = c_RetryCount c
     \<and> c_OnError c' = c_OnError c"
  "compileExecForEach c = Inr c' \<Longrightarrow>
     c_TimeoutMs c' = c_TimeoutMs c \<and> c_Kind c' = c_Kind c \<and> c_RetryCount c' = c_RetryCount c
     \<and> c_OnError c' = c_OnError c"
  "compileExecStdoutJSON env c = Inr c' \<Longrightarrow>
     c_TimeoutMs c' = c_TimeoutMs c \<and> c_Kind c' = c_Kind c \<and> c_RetryCount c' = c_RetryCount c
     \<and> c_OnError c' = c_OnError c"
  "normalizeExecBlockOn c = Inr c' \<Longrightarrow>
     c_TimeoutMs c' = c_TimeoutMs c \<and> c_Kind c' = c_Kind c \<and> c_RetryCount c' = c_RetryCount c
     \<and> c_OnError c' = c_OnError c"
  by (auto simp: compileExecCacheKey_def compileExecForEach_def compileExecStdoutJSON_def
        normalizeExecBlockOn_def Let_def split: if_splits)

lemma compileExecConfig_kind: "compileExecConfig env cfg c = Inr c' \<Longrightarrow> c_Kind c' = c_Kind c"
  by (auto simp: compileExecConfig_def Let_def split: if_splits dest!: exec_tail_keeps)

lemma compileExecConfig_bounds:
  assumes "compileExecConfig env cfg c = Inr c'" "c_Kind c = ConditionKindExec"
  shows "0 < c_TimeoutMs c' \<and> c_TimeoutMs c' \<le> ExecMaxTimeoutMs cfg
         \<and> 0 \<le> c_RetryCount c' \<and> c_RetryCount c' \<le> ExecMaxRetryCount cfg
         \<and> (c_OnError c' = OnErrorOpen \<or> c_OnError c' = OnErrorClosed)"
proof -
  define t where "t = (if c_TimeoutMs c = 0 then ExecDefaultTimeoutMs cfg else c_TimeoutMs c)"
  have "0 < ExecDefaultTimeoutMs cfg"
    by (simp add: ExecDefaultTimeoutMs_def positiveOr_pos DefaultExecTimeoutMs_def)
  then have "t \<noteq> 0" by (simp add: t_def)
  then show ?thesis
    using assms unfolding compileExecConfig_def
    by (auto simp: Let_def t_def [symmetric] first_error_None first_problem_None dest!: exec_tail_keeps
             split: if_splits)
qed

lemma infer_parts_keep:
  "compileInferGenerationOptions c = Inr c' \<Longrightarrow> c_TimeoutMs c' = c_TimeoutMs c \<and> c_Kind c' = c_Kind c"
  "compileInferContextConfig c = Inr c' \<Longrightarrow> c_TimeoutMs c' = c_TimeoutMs c \<and> c_Kind c' = c_Kind c"
  by (auto simp: compileInferGenerationOptions_def compileInferContextConfig_def Let_def split: if_splits)

lemma infer_limits_bounds:
  assumes "infer_limits cfg c = Inr c'"
  shows "c_Kind c' = c_Kind c \<and> 0 < c_TimeoutMs c' \<and> c_TimeoutMs c' \<le> InferMaxTimeoutMs cfg"
proof -
  have "0 < InferDefaultTimeoutMs cfg"
    by (simp add: InferDefaultTimeoutMs_def positiveOr_pos DefaultInferTimeoutMs_def)
  then show ?thesis
    using assms by (auto simp: infer_limits_def Let_def first_error_None first_problem_None split: if_splits)
qed

lemma compileInferConfig_bounds:
  assumes "compileInferConfig env dir cfg c = Inr c'"
  shows "c_Kind c' = c_Kind c
         \<and> (c_Kind c \<noteq> ConditionKindInfer \<longrightarrow> c' = c)
         \<and> (c_Kind c = ConditionKindInfer \<longrightarrow> 0 < c_TimeoutMs c' \<and> c_TimeoutMs c' \<le> InferMaxTimeoutMs cfg)"
  using assms
  by (auto simp: compileInferConfig_def Let_def split: if_splits
           dest!: infer_parts_keep infer_limits_bounds)

lemma write_specs_keep:
  "validateShellWriteSpecConfig env c = Inr c' \<Longrightarrow>
   c_TimeoutMs c' = c_TimeoutMs c \<and> c_Kind c' = c_Kind c \<and> c_RetryCount c' = c_RetryCount c"
  by (auto simp: validateShellWriteSpecConfig_def split: if_splits)

lemma compileCondition_bounds:
  assumes "compileCondition pd env dir cfg c0 = Inr c'"
  shows "c_Kind c' \<in> set known_kinds"
    and "c_Kind c' = ConditionKindExec \<Longrightarrow>
           0 < c_TimeoutMs c' \<and> c_TimeoutMs c' \<le> ExecMaxTimeoutMs cfg
           \<and> 0 \<le> c_RetryCount c' \<and> c_RetryCount c' \<le> ExecMaxRetryCount cfg"
    and "c_Kind c' = ConditionKindInfer \<Longrightarrow>
           0 < c_TimeoutMs c' \<and> c_TimeoutMs c' \<le> InferMaxTimeoutMs cfg"
proof -
  let ?c = "c0\<lparr>c_selectors := CompileFieldSelectorSpecs (c_FieldPaths c0),
               c_Kind := (if c_Kind c0 = [] then ConditionKindRegex else c_Kind c0)\<rparr>"
  obtain re notRe pathRe pairs c2 c3 where kind: "c_Kind ?c \<in> set known_kinds"
      and c: "compileExecConfig env cfg (?c\<lparr>c_compiled := re, c_compiledNot := notRe,
                c_compiledPath := pathRe, c_fieldPairs := pairs\<rparr>) = Inr c2"
      "compileInferConfig env dir cfg c2 = Inr c3" "validateShellWriteSpecConfig env c3 = Inr c'"
    using assms unfolding compileCondition_def Let_def
    by (simp only: if_Inl_Inr bindE_Inr check_then_Inr not_not sum.inject) blast
  note k = compileExecConfig_kind [OF c(1)] compileInferConfig_bounds [OF c(2)] write_specs_keep [OF c(3)]
  have ei: "ConditionKindExec \<noteq> ConditionKindInfer" by (simp add: kind_defs)
  show "c_Kind c' \<in> set known_kinds" using kind k by simp
  show "c_Kind c' = ConditionKindExec \<Longrightarrow>
           0 < c_TimeoutMs c' \<and> c_TimeoutMs c' \<le> ExecMaxTimeoutMs cfg
           \<and> 0 \<le> c_RetryCount c' \<and> c_RetryCount c' \<le> ExecMaxRetryCount cfg"
    using compileExecConfig_bounds [OF c(1)] k ei by auto
  show "c_Kind c' = ConditionKindInfer \<Longrightarrow>
           0 < c_TimeoutMs c' \<and> c_TimeoutMs c' \<le> InferMaxTimeoutMs cfg"
    using k by auto
qed

lemma map_result_set:
  "map_result f xs = Inr ys \<Longrightarrow> y \<in> set ys \<Longrightarrow> \<exists>x\<in>set xs. f x = Inr y"
  by (induction xs arbitrary: ys) auto

lemma compileSimpleRule_conditions:
  "compileSimpleRule env r = Inr r' \<Longrightarrow> r_Conditions r' = r_Conditions r"
  by (auto simp: compileSimpleRule_def Let_def split: if_splits)

lemma compileRule_condition:
  assumes "compileRule pd env dir cfg inference r = Inr r'" "c' \<in> set (r_Conditions r')"
  shows "\<exists>c. compileCondition pd env dir cfg c = Inr c'"
  using assms unfolding compileRule_def
  by (auto split: if_splits dest!: map_result_set compileSimpleRule_conditions)

end
