(* ===== verification/ConfigLoad.thy ===== *)
theory ConfigLoad
  imports RuleCompile
begin

text \<open>
  Loading of a configuration file (\<^verbatim>\<open>internal/config/load.go\<close>, \<^verbatim>\<open>degraded.go\<close>): the strict load
  of install-time validation and the degraded load of the daemon, which drops what cannot be used
  and records it.
\<close>

section \<open>The loader\<close>

text \<open>
  What the loader gets from outside: the TOML decoder, the hash of the source, the two embedded
  tables that are validated on every load, and the rest of the environment once the regular
  expression bounds are installed by \<^verbatim>\<open>regex.SetLimits\<close>.
\<close>

record source_env =
  se_Unmarshal :: "bytes \<Rightarrow> Config go_result"
  se_hashIdentity :: "bytes \<Rightarrow> bytes"
  se_CommonWriteSpecs :: go_error
  se_PolicyDefaults :: go_error
  se_ParseDuration :: "bytes \<Rightarrow> go_duration go_result"
  se_limited :: "int \<Rightarrow> int \<Rightarrow> load_env"

definition recordOrFail ::
  "bool \<Rightarrow> bytes \<Rightarrow> bytes \<Rightarrow> go_error \<Rightarrow> (Config \<Rightarrow> Config) \<Rightarrow> Config \<Rightarrow> Config go_result" where
  "recordOrFail strict kind scope err fallback cfg =
     (case err of
        None \<Rightarrow> Inr cfg
      | Some reason \<Rightarrow>
          if strict then Inl reason
          else Inr (fallback (cfg\<lparr>cfg_loadFailures := cfg_loadFailures cfg
                 @ [\<lparr>lf_Scope = scope, lf_Kind = kind, lf_Reason = reason\<rparr>]\<rparr>)))"

definition set_performance :: "(Performance \<Rightarrow> Performance) \<Rightarrow> Config \<Rightarrow> Config" where
  "set_performance f cfg = cfg\<lparr>cfg_Performance := f (cfg_Performance cfg)\<rparr>"

definition validateSections :: "source_env \<Rightarrow> bool \<Rightarrow> Config \<Rightarrow> Config go_result" where
  "validateSections se strict cfg =
     (if hc_MaxBytes (hp_Cache (pf_Hook (cfg_Performance cfg))) < 0
      then Inl ''performance.hook.cache.max_bytes must be non-negative''
      else bindE (resolveAuditStorage (se_ParseDuration se) (au_Storage (cfg_Audit cfg))) (\<lambda>policy.
           bindE (recordOrFail strict LoadFailureSection ''performance.hook''
                    (validateHookPerformance (pf_Hook (cfg_Performance cfg)) (pf_Limits (cfg_Performance cfg)))
                    (set_performance (pf_Hook_update (\<lambda>_. zeroHookPerformance)))
                    (cfg\<lparr>cfg_auditStoragePolicy := Some policy\<rparr>)) (\<lambda>cfg.
           bindE (recordOrFail strict LoadFailureSection ''performance.timeouts''
                    (validateTimeouts (pf_Timeouts (cfg_Performance cfg)))
                    (set_performance (pf_Timeouts_update (\<lambda>_. zeroTimeoutPerformance))) cfg) (\<lambda>cfg.
           bindE (recordOrFail strict LoadFailureSection ''performance.limits''
                    (validateLimits (pf_Limits (cfg_Performance cfg)) (pf_Intervals (cfg_Performance cfg)))
                    (set_performance (pf_Intervals_update (\<lambda>_. zeroIntervalPerformance)
                                      \<circ> pf_Limits_update (\<lambda>_. zeroLimitPerformance))) cfg) (\<lambda>cfg.
           bindE (recordOrFail strict LoadFailureSection ''inference''
                    (validateInferencePoints (cfg_Inference cfg)) (cfg_Inference_update (\<lambda>_. [])) cfg) (\<lambda>cfg.
           recordOrFail strict LoadFailureSection ''judge''
             (validateJudge (cfg_Judge cfg)) (cfg_Judge_update (\<lambda>_. zeroJudge)) cfg))))))"

definition decodeOrDegrade :: "source_env \<Rightarrow> bool \<Rightarrow> bytes \<Rightarrow> bytes \<Rightarrow> Config go_result" where
  "decodeOrDegrade se strict path source =
     (case se_Unmarshal se source of
        Inr cfg \<Rightarrow> Inr (cfg\<lparr>cfg_sourceIdentity := se_hashIdentity se source, cfg_loadFailures := []\<rparr>)
      | Inl reason \<Rightarrow>
          if strict then Inl reason
          else Inr (zeroConfig\<lparr>cfg_sourceIdentity := se_hashIdentity se source,
                 cfg_loadFailures := [\<lparr>lf_Scope = path, lf_Kind = LoadFailureDocument,
                                       lf_Reason = reason\<rparr>]\<rparr>))"

text \<open>One round of the loop over the rules: the config, the kept rules, the first rule error.\<close>

definition compile_step ::
  "bool \<Rightarrow> (Rule \<Rightarrow> Rule go_result) \<Rightarrow> Rule \<Rightarrow> Config \<times> Rule list \<times> go_error
   \<Rightarrow> (Config \<times> Rule list \<times> go_error) go_result" where
  "compile_step strict compile rule st =
     (let (cfg, kept, firstRuleErr) = st in
      case compile rule of
        Inr rule' \<Rightarrow> Inr (cfg, kept @ [rule'], firstRuleErr)
      | Inl e \<Rightarrow>
          bindE (recordOrFail strict LoadFailureRule (r_Name rule) (Some e) id cfg) (\<lambda>cfg'.
            Inr (cfg', kept, case firstRuleErr of None \<Rightarrow> Some e | Some first \<Rightarrow> Some first)))"

fun compile_rules ::
  "bool \<Rightarrow> (Rule \<Rightarrow> Rule go_result) \<Rightarrow> Rule list \<Rightarrow> Config \<times> Rule list \<times> go_error
   \<Rightarrow> (Config \<times> Rule list \<times> go_error) go_result" where
  "compile_rules strict compile [] st = Inr st"
| "compile_rules strict compile (rule # rules) st =
     bindE (compile_step strict compile rule st) (compile_rules strict compile rules)"

definition rule_compiler :: "source_env \<Rightarrow> bytes \<Rightarrow> Config \<Rightarrow> Rule \<Rightarrow> Rule go_result" where
  "rule_compiler se path cfg =
     compileRule (se_PolicyDefaults se)
       (se_limited se (RegexMatchLimit (Some cfg)) (RegexDepthLimit (Some cfg)))
       (path_Dir path) (Some cfg) (cfg_Inference cfg)"

definition loadSource :: "source_env \<Rightarrow> bytes \<Rightarrow> bytes \<Rightarrow> bool \<Rightarrow> Config go_result" where
  "loadSource se path source strict =
     check_then (first_error [se_CommonWriteSpecs se, se_PolicyDefaults se])
    (bindE (decodeOrDegrade se strict path source) (\<lambda>cfg.
     if Unusable (Some cfg) then Inr cfg
     else bindE (validateSections se strict cfg) (\<lambda>cfg.
          bindE (compile_rules strict (rule_compiler se path cfg) (cfg_Rules cfg) (cfg, [], None)) (\<lambda>r.
          let (cfg', kept, firstRuleErr) = r in
          if \<not> strict \<and> cfg_Rules cfg \<noteq> [] \<and> kept = []
          then Inl ''config declared rules and none compiled; keeping the previous config''
          else recordOrFail strict LoadFailureSection ''update''
                 (normalizeUpdate (se_ParseDuration se) (cfg_Update cfg'))
                 (cfg_Update_update (\<lambda>_. zeroUpdate)) (cfg'\<lparr>cfg_Rules := kept\<rparr>)))))"

section \<open>Facts about the parts\<close>

lemma recordOrFail_strict [simp]:
  "recordOrFail True kind scope err fb cfg = Inr c \<longleftrightarrow> err = None \<and> c = cfg"
  by (auto simp: recordOrFail_def split: option.splits)

lemma recordOrFail_None [simp]: "recordOrFail strict kind scope None fb cfg = Inr cfg"
  by (simp add: recordOrFail_def)

text \<open>A settings block: the failures grow by one entry exactly when the block is invalid.\<close>

lemma recordOrFail_degraded:
  assumes "\<And>c. cfg_loadFailures (fb c) = cfg_loadFailures c"
    "recordOrFail False kind scope err fb cfg = Inr c"
  shows "cfg_loadFailures c = cfg_loadFailures cfg
           @ (case err of None \<Rightarrow> [] | Some r \<Rightarrow> [\<lparr>lf_Scope = scope, lf_Kind = kind, lf_Reason = r\<rparr>])"
    "err = None \<Longrightarrow> c = cfg"
  using assms by (auto simp: recordOrFail_def split: option.splits)

lemma set_performance_failures [simp]: "cfg_loadFailures (set_performance f c) = cfg_loadFailures c"
  by (simp add: set_performance_def)

lemma recordOrFail_clean:
  assumes "\<And>c. cfg_loadFailures (fb c) = cfg_loadFailures c"
    "recordOrFail False kind scope err fb cfg = Inr c" "cfg_loadFailures c = []"
  shows "err = None \<and> c = cfg \<and> cfg_loadFailures cfg = []"
  using recordOrFail_degraded [OF assms(1,2)] assms(3) by (auto split: option.splits)

lemma validateSections_strict:
  assumes "validateSections se True cfg = Inr c"
  shows "validateSections se False cfg = Inr c" "cfg_loadFailures c = cfg_loadFailures cfg"
  using assms by (auto simp: validateSections_def split: if_splits)

lemma validateSections_steps:
  assumes "validateSections se strict cfg = Inr c"
  obtains policy c1 c2 c3 c4 where
    "\<not> hc_MaxBytes (hp_Cache (pf_Hook (cfg_Performance cfg))) < 0"
    "resolveAuditStorage (se_ParseDuration se) (au_Storage (cfg_Audit cfg)) = Inr policy"
    "recordOrFail strict LoadFailureSection ''performance.hook''
       (validateHookPerformance (pf_Hook (cfg_Performance cfg)) (pf_Limits (cfg_Performance cfg)))
       (set_performance (pf_Hook_update (\<lambda>_. zeroHookPerformance)))
       (cfg\<lparr>cfg_auditStoragePolicy := Some policy\<rparr>) = Inr c1"
    "recordOrFail strict LoadFailureSection ''performance.timeouts''
       (validateTimeouts (pf_Timeouts (cfg_Performance c1)))
       (set_performance (pf_Timeouts_update (\<lambda>_. zeroTimeoutPerformance))) c1 = Inr c2"
    "recordOrFail strict LoadFailureSection ''performance.limits''
       (validateLimits (pf_Limits (cfg_Performance c2)) (pf_Intervals (cfg_Performance c2)))
       (set_performance (pf_Intervals_update (\<lambda>_. zeroIntervalPerformance)
                         \<circ> pf_Limits_update (\<lambda>_. zeroLimitPerformance))) c2 = Inr c3"
    "recordOrFail strict LoadFailureSection ''inference''
       (validateInferencePoints (cfg_Inference c3)) (cfg_Inference_update (\<lambda>_. [])) c3 = Inr c4"
    "recordOrFail strict LoadFailureSection ''judge''
       (validateJudge (cfg_Judge c4)) (cfg_Judge_update (\<lambda>_. zeroJudge)) c4 = Inr c"
  using assms unfolding validateSections_def by (simp only: if_Inl_Inr bindE_Inr) blast

lemma validateSections_clean:
  assumes "validateSections se False cfg = Inr c" "cfg_loadFailures c = []"
  shows "validateSections se True cfg = Inr c"
  using assms(1)
proof (cases rule: validateSections_steps)
  case st: (1 policy c1 c2 c3 c4)
  note k5 = recordOrFail_clean [OF _ st(7) assms(2), simplified]
  note k4 = recordOrFail_clean [OF _ st(6), simplified, OF k5 [THEN conjunct2, THEN conjunct2]]
  note k3 = recordOrFail_clean [OF set_performance_failures st(5) k4 [THEN conjunct2, THEN conjunct2]]
  note k2 = recordOrFail_clean [OF set_performance_failures st(4) k3 [THEN conjunct2, THEN conjunct2]]
  note k1 = recordOrFail_clean [OF set_performance_failures st(3) k2 [THEN conjunct2, THEN conjunct2]]
  show ?thesis using st(1,2) k1 k2 k3 k4 k5 by (simp add: validateSections_def)
qed

lemma recordOrFail_preserves:
  assumes "recordOrFail strict kind scope err fb cfg = Inr c" "P cfg"
    "\<And>c. P c \<Longrightarrow> P (fb c)"
    "\<And>c r. P c \<Longrightarrow> P (c\<lparr>cfg_loadFailures := cfg_loadFailures c
                      @ [\<lparr>lf_Scope = scope, lf_Kind = kind, lf_Reason = r\<rparr>]\<rparr>)"
  shows "P c"
  using assms by (auto simp: recordOrFail_def split: option.splits if_splits)

lemma validateSections_preserves:
  assumes "validateSections se strict cfg = Inr v" "P cfg"
    "\<And>c p. P c \<Longrightarrow> P (c\<lparr>cfg_auditStoragePolicy := p\<rparr>)"
    "\<And>c f. P c \<Longrightarrow> P (set_performance f c)"
    "\<And>c x. P c \<Longrightarrow> P (c\<lparr>cfg_Inference := x\<rparr>)" "\<And>c x. P c \<Longrightarrow> P (c\<lparr>cfg_Judge := x\<rparr>)"
    "\<And>c scope r. P c \<Longrightarrow> P (c\<lparr>cfg_loadFailures := cfg_loadFailures c
           @ [\<lparr>lf_Scope = scope, lf_Kind = LoadFailureSection, lf_Reason = r\<rparr>]\<rparr>)"
  shows "P v"
  using assms(1)
proof (cases rule: validateSections_steps)
  case st: (1 policy c1 c2 c3 c4)
  have "P c1" by (rule recordOrFail_preserves [OF st(3)]) (use assms in auto)
  then have "P c2" by (rule recordOrFail_preserves [OF st(4)]) (use assms in auto)
  then have "P c3" by (rule recordOrFail_preserves [OF st(5)]) (use assms in auto)
  then have "P c4" by (rule recordOrFail_preserves [OF st(6)]) (use assms in auto)
  then show "P v" by (rule recordOrFail_preserves [OF st(7)]) (use assms in auto)
qed

section \<open>The loop over the rules\<close>

definition compiled_rules :: "(Rule \<Rightarrow> Rule go_result) \<Rightarrow> Rule list \<Rightarrow> Rule list" where
  "compiled_rules compile rules =
     concat (map (\<lambda>r. case compile r of Inr r' \<Rightarrow> [r'] | Inl e \<Rightarrow> []) rules)"

definition rule_failures :: "(Rule \<Rightarrow> Rule go_result) \<Rightarrow> Rule list \<Rightarrow> LoadFailure list" where
  "rule_failures compile rules =
     concat (map (\<lambda>r. case compile r of
                Inl e \<Rightarrow> [\<lparr>lf_Scope = r_Name r, lf_Kind = LoadFailureRule, lf_Reason = e\<rparr>]
              | Inr r' \<Rightarrow> []) rules)"

lemma compile_rules_degraded:
  "\<exists>f'. compile_rules False compile rules (cfg, kept, f)
        = Inr (cfg\<lparr>cfg_loadFailures := cfg_loadFailures cfg @ rule_failures compile rules\<rparr>,
               kept @ compiled_rules compile rules, f')"
proof (induction rules arbitrary: cfg kept f)
  case Nil
  then show ?case by (simp add: rule_failures_def compiled_rules_def)
next
  case (Cons r rs)
  show ?case
  proof (cases "compile r")
    case (Inl e)
    then show ?thesis
      using Cons [of "cfg\<lparr>cfg_loadFailures := cfg_loadFailures cfg
                @ [\<lparr>lf_Scope = r_Name r, lf_Kind = LoadFailureRule, lf_Reason = e\<rparr>]\<rparr>" kept]
      by (simp add: compile_step_def recordOrFail_def rule_failures_def compiled_rules_def)
  next
    case (Inr r')
    then show ?thesis
      using Cons [of cfg "kept @ [r']" f]
      by (simp add: compile_step_def rule_failures_def compiled_rules_def)
  qed
qed

lemma compile_rules_strict:
  "compile_rules True compile rules (cfg, kept, f) = Inr st \<longleftrightarrow>
   rule_failures compile rules = [] \<and> st = (cfg, kept @ compiled_rules compile rules, f)"
proof (induction rules arbitrary: kept)
  case Nil
  then show ?case by (auto simp: rule_failures_def compiled_rules_def)
next
  case (Cons r rs)
  show ?case
  proof (cases "compile r")
    case (Inl e)
    then show ?thesis by (simp add: compile_step_def rule_failures_def bindE_def recordOrFail_def)
  next
    case (Inr r')
    then show ?thesis
      using Cons [of "kept @ [r']"] by (simp add: compile_step_def rule_failures_def compiled_rules_def)
  qed
qed

lemma no_rule_failures_nonempty:
  "rule_failures compile rules = [] \<Longrightarrow> rules \<noteq> [] \<Longrightarrow> compiled_rules compile rules \<noteq> []"
  by (cases rules) (auto simp: rule_failures_def compiled_rules_def split: sum.splits)

section \<open>The two loads\<close>

lemma decode_usable:
  assumes "decodeOrDegrade se strict path source = Inr cfg"
  shows "\<not> Unusable (Some cfg) \<longleftrightarrow> (\<exists>d. se_Unmarshal se source = Inr d)"
  using assms
  by (auto simp: decodeOrDegrade_def Unusable_def split: sum.splits if_splits)

lemma decode_failures:
  assumes "decodeOrDegrade se strict path source = Inr cfg" "\<not> Unusable (Some cfg)"
  shows "cfg_loadFailures cfg = []" "decodeOrDegrade se strict' path source = Inr cfg"
  using assms
  by (auto simp: decodeOrDegrade_def Unusable_def split: sum.splits if_splits)

text \<open>What a load of a decodable file goes through.\<close>

lemma loadSource_steps:
  assumes "decodeOrDegrade se strict path source = Inr d" "\<not> Unusable (Some d)"
  shows "loadSource se path source strict = Inr c \<longleftrightarrow>
     se_CommonWriteSpecs se = None \<and> se_PolicyDefaults se = None \<and>
     (\<exists>v cfg' kept f. validateSections se strict d = Inr v
        \<and> compile_rules strict (rule_compiler se path v) (cfg_Rules v) (v, [], None) = Inr (cfg', kept, f)
        \<and> \<not> (\<not> strict \<and> cfg_Rules v \<noteq> [] \<and> kept = [])
        \<and> recordOrFail strict LoadFailureSection ''update''
            (normalizeUpdate (se_ParseDuration se) (cfg_Update cfg'))
            (cfg_Update_update (\<lambda>_. zeroUpdate)) (cfg'\<lparr>cfg_Rules := kept\<rparr>) = Inr c)"
proof -
  have "loadSource se path source strict = Inr c \<longleftrightarrow>
     se_CommonWriteSpecs se = None \<and> se_PolicyDefaults se = None \<and>
     (\<exists>v r. validateSections se strict d = Inr v
        \<and> compile_rules strict (rule_compiler se path v) (cfg_Rules v) (v, [], None) = Inr r
        \<and> (case r of (cfg', kept, f) \<Rightarrow>
            if \<not> strict \<and> cfg_Rules v \<noteq> [] \<and> kept = []
            then Inl ''config declared rules and none compiled; keeping the previous config''
            else recordOrFail strict LoadFailureSection ''update''
              (normalizeUpdate (se_ParseDuration se) (cfg_Update cfg'))
              (cfg_Update_update (\<lambda>_. zeroUpdate)) (cfg'\<lparr>cfg_Rules := kept\<rparr>)) = Inr c)"
    using assms by (simp add: loadSource_def first_error_None Let_def)
  then show ?thesis by (simp only: split_paired_Ex prod.case if_Inl_Inr)
qed

text \<open>The strict load of install-time validation accepts a file exactly when the daemon's
  degraded load accepts it without dropping or defaulting anything, and then both give the same
  configuration.\<close>

theorem strict_iff_nothing_dropped:
  "loadSource se path source True = Inr c \<longleftrightarrow>
   loadSource se path source False = Inr c \<and> \<not> Degraded (Some c)"
proof (cases "se_Unmarshal se source")
  case (Inl reason)
  have "loadSource se path source True \<noteq> Inr c"
    using Inl by (simp add: loadSource_def decodeOrDegrade_def)
  moreover have "loadSource se path source False = Inr c \<Longrightarrow> Degraded (Some c)"
    using Inl by (auto simp: loadSource_def decodeOrDegrade_def Unusable_def Degraded_def Failures_def)
  ultimately show ?thesis by blast
next
  case (Inr d0)
  define d where "d = d0\<lparr>cfg_sourceIdentity := se_hashIdentity se source, cfg_loadFailures := []\<rparr>"
  have d: "decodeOrDegrade se strict path source = Inr d" for strict
    using Inr by (simp add: decodeOrDegrade_def d_def)
  have u: "\<not> Unusable (Some d)" by (simp add: d_def Unusable_def)
  have fl: "cfg_loadFailures d = []" by (simp add: d_def)
  note steps = loadSource_steps [OF d u]
  show ?thesis
  proof
    assume "loadSource se path source True = Inr c"
    then obtain v where v: "se_CommonWriteSpecs se = None" "se_PolicyDefaults se = None"
        "validateSections se True d = Inr v"
        "rule_failures (rule_compiler se path v) (cfg_Rules v) = []"
        "normalizeUpdate (se_ParseDuration se) (cfg_Update v) = None"
        "c = v\<lparr>cfg_Rules := compiled_rules (rule_compiler se path v) (cfg_Rules v)\<rparr>"
      unfolding steps by (auto simp: compile_rules_strict)
    note vs = validateSections_strict [OF v(3)]
    obtain f' where "compile_rules False (rule_compiler se path v) (cfg_Rules v) (v, [], None)
        = Inr (v, compiled_rules (rule_compiler se path v) (cfg_Rules v), f')"
      using compile_rules_degraded [of "rule_compiler se path v" "cfg_Rules v" v "[]" None] v(4) by auto
    then have "loadSource se path source False = Inr c"
      unfolding steps using v vs(1) no_rule_failures_nonempty [OF v(4)] by auto
    moreover have "cfg_loadFailures c = []" using v(6) vs(2) fl by simp
    ultimately show "loadSource se path source False = Inr c \<and> \<not> Degraded (Some c)"
      by (simp add: Degraded_def Failures_def)
  next
    assume h: "loadSource se path source False = Inr c \<and> \<not> Degraded (Some c)"
    then have cl: "cfg_loadFailures c = []" by (simp add: Degraded_def Failures_def)
    let ?kept = "\<lambda>v. compiled_rules (rule_compiler se path v) (cfg_Rules v)"
    let ?loop = "\<lambda>v. v\<lparr>cfg_loadFailures := cfg_loadFailures v @ rule_failures (rule_compiler se path v) (cfg_Rules v)\<rparr>"
    from h obtain v cfg' kept f where v: "se_CommonWriteSpecs se = None" "se_PolicyDefaults se = None"
        "validateSections se False d = Inr v"
        "compile_rules False (rule_compiler se path v) (cfg_Rules v) (v, [], None) = Inr (cfg', kept, f)"
        "recordOrFail False LoadFailureSection ''update''
           (normalizeUpdate (se_ParseDuration se) (cfg_Update cfg'))
           (cfg_Update_update (\<lambda>_. zeroUpdate)) (cfg'\<lparr>cfg_Rules := kept\<rparr>) = Inr c"
      unfolding steps by blast
    have ck: "cfg' = ?loop v" "kept = ?kept v"
      using v(4) compile_rules_degraded [of "rule_compiler se path v" "cfg_Rules v" v "[]" None] by auto
    have up: "normalizeUpdate (se_ParseDuration se) (cfg_Update cfg') = None \<and> c = cfg'\<lparr>cfg_Rules := kept\<rparr>
              \<and> cfg_loadFailures (cfg'\<lparr>cfg_Rules := kept\<rparr>) = []"
      by (rule recordOrFail_clean [OF _ v(5) cl]) simp
    then have fails: "cfg_loadFailures v = []" "rule_failures (rule_compiler se path v) (cfg_Rules v) = []"
      using ck by auto
    have "validateSections se True d = Inr v" using validateSections_clean [OF v(3) fails(1)] .
    then show "loadSource se path source True = Inr c"
      unfolding steps using v(1,2) up ck fails by (auto simp: compile_rules_strict)
  qed
qed

section \<open>What survives a degraded load\<close>

lemma degraded_load_obtain:
  assumes "loadSource se path source False = Inr c" "se_Unmarshal se source = Inr d"
  obtains v where
    "validateSections se False (d\<lparr>cfg_sourceIdentity := se_hashIdentity se source, cfg_loadFailures := []\<rparr>)
       = Inr v"
    "cfg_Rules c = compiled_rules (rule_compiler se path v) (cfg_Rules v)"
    "cfg_Rules v \<noteq> [] \<longrightarrow> cfg_Rules c \<noteq> []"
    "cfg_Performance c = cfg_Performance v" "cfg_Inference c = cfg_Inference v"
    "\<exists>up. cfg_loadFailures c = cfg_loadFailures v
       @ rule_failures (rule_compiler se path v) (cfg_Rules v) @ up
       \<and> (\<forall>f\<in>set up. lf_Kind f = LoadFailureSection)"
proof -
  let ?d = "d\<lparr>cfg_sourceIdentity := se_hashIdentity se source, cfg_loadFailures := []\<rparr>"
  have d: "decodeOrDegrade se False path source = Inr ?d" and u: "\<not> Unusable (Some ?d)"
    using assms(2) by (auto simp: decodeOrDegrade_def Unusable_def)
  obtain v cfg' kept f where v: "validateSections se False ?d = Inr v"
      "compile_rules False (rule_compiler se path v) (cfg_Rules v) (v, [], None) = Inr (cfg', kept, f)"
      "\<not> (cfg_Rules v \<noteq> [] \<and> kept = [])"
      "recordOrFail False LoadFailureSection ''update''
         (normalizeUpdate (se_ParseDuration se) (cfg_Update cfg'))
         (cfg_Update_update (\<lambda>_. zeroUpdate)) (cfg'\<lparr>cfg_Rules := kept\<rparr>) = Inr c"
    using assms(1) unfolding loadSource_steps [OF d u] by blast
  have ck: "cfg' = v\<lparr>cfg_loadFailures := cfg_loadFailures v @ rule_failures (rule_compiler se path v) (cfg_Rules v)\<rparr>"
      "kept = compiled_rules (rule_compiler se path v) (cfg_Rules v)"
    using v(2) compile_rules_degraded [of "rule_compiler se path v" "cfg_Rules v" v "[]" None] by auto
  show ?thesis
    by (rule that [OF v(1)])
       (use v(3,4) ck in \<open>auto simp: recordOrFail_def split: option.splits\<close>)
qed

lemma validateSections_Rules:
  "validateSections se strict cfg = Inr v \<Longrightarrow> cfg_Rules v = cfg_Rules cfg"
  by (rule validateSections_preserves [where P = "\<lambda>c. cfg_Rules c = cfg_Rules cfg"])
     (auto simp: set_performance_def)

lemma validateSections_kinds:
  assumes "validateSections se strict cfg = Inr v" "cfg_loadFailures cfg = []"
  shows "\<forall>f\<in>set (cfg_loadFailures v). lf_Kind f = LoadFailureSection"
  by (rule validateSections_preserves [OF assms(1),
        where P = "\<lambda>c. \<forall>f\<in>set (cfg_loadFailures c). lf_Kind f = LoadFailureSection"])
     (auto simp: assms(2))

lemma rule_failures_kinds: "f \<in> set (rule_failures compile rules) \<Longrightarrow> lf_Kind f = LoadFailureRule"
  by (auto simp: rule_failures_def split: sum.splits)

text \<open>C28. A degraded load of a decodable file costs exactly the rules that do not compile: the
  rules of the loaded configuration are the compiled forms of all other declared rules, in their
  order; every dropped rule is recorded with its name and reason, in order, and nothing else is
  recorded as a rule failure; and a file that declares rules never yields a configuration
  without any.\<close>

theorem degraded_load_keeps_valid_rules:
  assumes "loadSource se path source False = Inr c" "se_Unmarshal se source = Inr d"
  shows "\<exists>v. validateSections se False
            (d\<lparr>cfg_sourceIdentity := se_hashIdentity se source, cfg_loadFailures := []\<rparr>) = Inr v
       \<and> cfg_Rules c = compiled_rules (rule_compiler se path v) (cfg_Rules d)
       \<and> filter (\<lambda>f. lf_Kind f = LoadFailureRule) (Failures (Some c))
           = rule_failures (rule_compiler se path v) (cfg_Rules d)
       \<and> (cfg_Rules d \<noteq> [] \<longrightarrow> cfg_Rules c \<noteq> [])"
  using assms
proof (rule degraded_load_obtain)
  fix v
  assume v: "validateSections se False (d\<lparr>cfg_sourceIdentity := se_hashIdentity se source,
                cfg_loadFailures := []\<rparr>) = Inr v"
    and rules: "cfg_Rules c = compiled_rules (rule_compiler se path v) (cfg_Rules v)"
      "cfg_Rules v \<noteq> [] \<longrightarrow> cfg_Rules c \<noteq> []"
    and "\<exists>up. cfg_loadFailures c = cfg_loadFailures v
       @ rule_failures (rule_compiler se path v) (cfg_Rules v) @ up
       \<and> (\<forall>f\<in>set up. lf_Kind f = LoadFailureSection)"
  then obtain up where up: "cfg_loadFailures c = cfg_loadFailures v
       @ rule_failures (rule_compiler se path v) (cfg_Rules v) @ up"
      "\<forall>f\<in>set up. lf_Kind f = LoadFailureSection" by blast
  have ne: "LoadFailureSection \<noteq> LoadFailureRule"
    by (simp add: LoadFailureSection_def LoadFailureRule_def)
  have R: "cfg_Rules v = cfg_Rules d" using validateSections_Rules [OF v] by simp
  have "\<forall>f\<in>set (cfg_loadFailures v). lf_Kind f = LoadFailureSection"
    using validateSections_kinds [OF v] by simp
  then have "filter (\<lambda>f. lf_Kind f = LoadFailureRule) (cfg_loadFailures c)
             = rule_failures (rule_compiler se path v) (cfg_Rules v)"
    using up ne by (auto simp: filter_empty_conv filter_id_conv dest: rule_failures_kinds)
  then show ?thesis using v rules R by (auto simp: Failures_def)
qed

section \<open>Deadlines\<close>

lemma zero_timeouts_valid: "validateTimeouts zeroTimeoutPerformance = None"
  by code_simp

lemma validateSections_timeouts:
  assumes "validateSections se strict cfg = Inr v"
  shows "validateTimeouts (pf_Timeouts (cfg_Performance v)) = None"
  using assms
proof (cases rule: validateSections_steps)
  case st: (1 policy c1 c2 c3 c4)
  let ?P = "\<lambda>c. validateTimeouts (pf_Timeouts (cfg_Performance c)) = None"
  have "?P c2"
    using st(4) zero_timeouts_valid
    by (auto simp: recordOrFail_def set_performance_def split: option.splits if_splits)
  then have "?P c3"
    by (rule recordOrFail_preserves [OF st(5), where P = ?P]) (auto simp: set_performance_def)
  then have "?P c4" by (rule recordOrFail_preserves [OF st(6), where P = ?P]) auto
  then show "?P v" by (rule recordOrFail_preserves [OF st(7), where P = ?P]) auto
qed

text \<open>The table of deadlines is kept as the file has it, or it is reset and that is recorded.\<close>

definition timeouts_refused :: "Config \<Rightarrow> bool" where
  "timeouts_refused c \<longleftrightarrow>
     (\<exists>f \<in> set (cfg_loadFailures c). lf_Kind f = LoadFailureSection \<and> lf_Scope f = ''performance.timeouts'')"

lemma timeouts_kept_or_recorded:
  fixes cfg :: Config
  defines "T \<equiv> pf_Timeouts (cfg_Performance cfg)"
  assumes "validateSections se strict cfg = Inr v"
  shows "validateTimeouts T = None \<and> pf_Timeouts (cfg_Performance v) = T
         \<or> validateTimeouts T \<noteq> None \<and> pf_Timeouts (cfg_Performance v) = zeroTimeoutPerformance \<and> timeouts_refused v"
  using assms(2)
proof (cases rule: validateSections_steps)
  case st: (1 policy c1 c2 c3 c4)
  let ?P = "\<lambda>c. pf_Timeouts (cfg_Performance c) = pf_Timeouts (cfg_Performance c2)
      \<and> (timeouts_refused c2 \<longrightarrow> timeouts_refused c)"
  have c1: "pf_Timeouts (cfg_Performance c1) = T"
    using st(3) by (auto simp: T_def recordOrFail_def set_performance_def split: option.splits if_splits)
  then have c2: "validateTimeouts T = None \<and> pf_Timeouts (cfg_Performance c2) = T
      \<or> validateTimeouts T \<noteq> None \<and> pf_Timeouts (cfg_Performance c2) = zeroTimeoutPerformance \<and> timeouts_refused c2"
    using st(4)
    by (auto simp: recordOrFail_def set_performance_def timeouts_refused_def split: option.splits if_splits)
  have "?P c3" by (rule recordOrFail_preserves [OF st(5), where P = ?P]) (auto simp: set_performance_def timeouts_refused_def)
  then have "?P c4" by (rule recordOrFail_preserves [OF st(6), where P = ?P]) (auto simp: timeouts_refused_def)
  then have "?P v" by (rule recordOrFail_preserves [OF st(7), where P = ?P]) (auto simp: timeouts_refused_def)
  then show ?thesis using c2 by auto
qed

text \<open>The deadline that the hook client reads from the same file.\<close>

lemma hook_deadline:
  assumes "tp_HookEvaluateMS T \<le> max_duration_ms"
  shows "HookEvaluateTimeoutFromFile (Some T) = positiveOr (tp_HookEvaluateMS T) DefaultHookEvaluateMs * 1000000"
proof -
  have "duration_of_ms 12000 = 12000000000"
    using duration_of_ms_exact [of 12000] by (simp add: max_duration_ms_def)
  then show ?thesis using assms
    by (simp add: HookEvaluateTimeoutFromFile_def positiveOr_def DefaultHookEvaluateMs_def duration_of_ms_exact)
qed

lemma validated_ceilings:
  assumes "validateTimeouts (timeouts c) = None"
  shows "ExecMaxTimeoutMs c < positiveOr (tp_HookEvaluateMS (timeouts c)) DefaultHookEvaluateMs"
    "InferMaxTimeoutMs c < positiveOr (tp_HookEvaluateMS (timeouts c)) DefaultHookEvaluateMs"
  using assms
  by (simp_all add: validateTimeouts_def first_problem_None Let_def ExecMaxTimeoutMs_def InferMaxTimeoutMs_def)

lemma compiled_rules_member:
  "r \<in> set (compiled_rules compile rules) \<Longrightarrow> \<exists>r0\<in>set rules. compile r0 = Inr r"
  by (auto simp: compiled_rules_def split: sum.splits)

lemma timeouts_of: "cfg_Performance c = cfg_Performance v \<Longrightarrow> timeouts (Some c) = timeouts (Some v)"
  by (simp add: timeouts_def)

text \<open>What the daemon's load does with the deadlines of a file that can be decoded.\<close>

lemma loaded_timeouts:
  assumes "loadSource se path source False = Inr c" "se_Unmarshal se source = Inr d"
  shows "validateTimeouts (pf_Timeouts (cfg_Performance d)) = None
           \<and> timeouts (Some c) = pf_Timeouts (cfg_Performance d)
         \<or> validateTimeouts (pf_Timeouts (cfg_Performance d)) \<noteq> None
           \<and> timeouts (Some c) = zeroTimeoutPerformance \<and> timeouts_refused c"
proof (rule degraded_load_obtain [OF assms])
  fix v
  assume v: "validateSections se False (d\<lparr>cfg_sourceIdentity := se_hashIdentity se source,
               cfg_loadFailures := []\<rparr>) = Inr v"
    and perf: "cfg_Performance c = cfg_Performance v"
    and fail: "\<exists>up. cfg_loadFailures c = cfg_loadFailures v
       @ rule_failures (rule_compiler se path v) (cfg_Rules v) @ up \<and> (\<forall>f\<in>set up. lf_Kind f = LoadFailureSection)"
  have "timeouts_refused v \<Longrightarrow> timeouts_refused c" using fail by (auto simp: timeouts_refused_def)
  then show ?thesis
    using timeouts_kept_or_recorded [OF v] by (auto simp: timeouts_def perf)
qed

lemma loaded_condition_bounds:
  assumes "loadSource se path source False = Inr c" "se_Unmarshal se source = Inr d" "r \<in> set (cfg_Rules c)"
    "cond \<in> set (r_Conditions r)"
  shows "c_Kind cond = ConditionKindExec \<Longrightarrow>
           0 < c_TimeoutMs cond \<and> c_TimeoutMs cond \<le> ExecMaxTimeoutMs (Some c)
           \<and> 0 \<le> c_RetryCount cond \<and> c_RetryCount cond \<le> ExecMaxRetryCount (Some c)"
    "c_Kind cond = ConditionKindInfer \<Longrightarrow> 0 < c_TimeoutMs cond \<and> c_TimeoutMs cond \<le> InferMaxTimeoutMs (Some c)"
proof -
  obtain v where rules: "cfg_Rules c = compiled_rules (rule_compiler se path v) (cfg_Rules v)"
    and perf: "cfg_Performance c = cfg_Performance v"
    using degraded_load_obtain [OF assms(1,2)] by metis
  obtain r0 where "rule_compiler se path v r0 = Inr r"
    using compiled_rules_member assms(3) rules by metis
  then obtain c0 where c0: "compileCondition (se_PolicyDefaults se)
       (se_limited se (RegexMatchLimit (Some v)) (RegexDepthLimit (Some v)))
       (path_Dir path) (Some v) c0 = Inr cond"
    using compileRule_condition assms(4) by (metis rule_compiler_def)
  have t: "timeouts (Some c) = timeouts (Some v)" by (rule timeouts_of [OF perf])
  have eq: "ExecMaxTimeoutMs (Some c) = ExecMaxTimeoutMs (Some v)"
      "InferMaxTimeoutMs (Some c) = InferMaxTimeoutMs (Some v)"
      "ExecMaxRetryCount (Some c) = ExecMaxRetryCount (Some v)"
    by (simp_all add: ExecMaxTimeoutMs_def InferMaxTimeoutMs_def ExecMaxRetryCount_def t)
  show "c_Kind cond = ConditionKindExec \<Longrightarrow>
           0 < c_TimeoutMs cond \<and> c_TimeoutMs cond \<le> ExecMaxTimeoutMs (Some c)
           \<and> 0 \<le> c_RetryCount cond \<and> c_RetryCount cond \<le> ExecMaxRetryCount (Some c)"
    and "c_Kind cond = ConditionKindInfer \<Longrightarrow> 0 < c_TimeoutMs cond \<and> c_TimeoutMs cond \<le> InferMaxTimeoutMs (Some c)"
    using compileCondition_bounds(2,3) [OF c0] by (auto simp: eq)
qed

text \<open>C27. Validators and judges of a loaded configuration give up before the hook does.  The hook client
  reads its deadline from the file itself, \<^verbatim>\<open>HookEvaluateTimeoutFromFile\<close> on the
  decoded table of deadlines.  In every configuration that the daemon's load makes of a decodable
  file and in which it did not have to record that table as refused, each exec and each infer
  condition of each rule has a positive timeout that is strictly shorter than that deadline, as
  durations of 64 bits, and retries are bounded by the configured ceiling.  The premise on
  \<^verbatim>\<open>hook_evaluate_ms\<close> is that its duration is representable (292 years).\<close>

theorem loaded_conditions_below_deadline:
  assumes "loadSource se path source False = Inr c" and "se_Unmarshal se source = Inr d"
    and "\<not> (\<exists>f \<in> set (Failures (Some c)). lf_Kind f = LoadFailureSection \<and> lf_Scope f = ''performance.timeouts'')"
    and "tp_HookEvaluateMS (pf_Timeouts (cfg_Performance d)) \<le> max_duration_ms"
    and "r \<in> set (cfg_Rules c)" and "cond \<in> set (r_Conditions r)"
    and "c_Kind cond = ConditionKindExec \<or> c_Kind cond = ConditionKindInfer"
  shows "0 < duration_of_ms (c_TimeoutMs cond)
         \<and> duration_of_ms (c_TimeoutMs cond) < HookEvaluateTimeoutFromFile (Some (pf_Timeouts (cfg_Performance d)))
         \<and> (c_Kind cond = ConditionKindExec \<longrightarrow>
              0 \<le> c_RetryCount cond \<and> c_RetryCount cond \<le> ExecMaxRetryCount (Some c))"
proof -
  let ?T = "pf_Timeouts (cfg_Performance d)" and ?hook = "positiveOr (tp_HookEvaluateMS (pf_Timeouts (cfg_Performance d))) DefaultHookEvaluateMs"
  have kept: "validateTimeouts ?T = None" "timeouts (Some c) = ?T"
    using loaded_timeouts [OF assms(1,2)] assms(3) by (auto simp: timeouts_refused_def Failures_def)
  note bounds = loaded_condition_bounds [OF assms(1,2,5,6)]
  have "0 < c_TimeoutMs cond \<and> c_TimeoutMs cond < ?hook"
    using assms(7) bounds validated_ceilings [of "Some c"] kept by force
  moreover have "?hook \<le> max_duration_ms"
    using assms(4) by (simp add: positiveOr_def DefaultHookEvaluateMs_def max_duration_ms_def)
  ultimately show ?thesis
    using bounds(1) by (auto simp: hook_deadline [OF assms(4)] duration_of_ms_exact)
qed

text \<open>Where the table is refused, the ceilings and the hook's deadline come apart: the load falls back to
  its defaults (4 s for validators, 8 s for judges), records the refusal and goes on, but the hook
  still takes its deadline from the refused table.  So a file that asks for a hook deadline of at
  most four seconds and whose table is refused (for instance because it sets no ceilings, and the
  default ones are longer) lets validators and judges run as long as the hook waits, or longer.\<close>

theorem refused_timeouts_outlive_hook:
  assumes "loadSource se path source False = Inr c" and "se_Unmarshal se source = Inr d"
    and "validateTimeouts (pf_Timeouts (cfg_Performance d)) \<noteq> None"
    and "0 < tp_HookEvaluateMS (pf_Timeouts (cfg_Performance d))"
    and "tp_HookEvaluateMS (pf_Timeouts (cfg_Performance d)) \<le> 4000"
  shows "HookEvaluateTimeoutFromFile (Some (pf_Timeouts (cfg_Performance d))) \<le> duration_of_ms (ExecMaxTimeoutMs (Some c))
         \<and> HookEvaluateTimeoutFromFile (Some (pf_Timeouts (cfg_Performance d))) < duration_of_ms (InferMaxTimeoutMs (Some c))
         \<and> (\<exists>f \<in> set (Failures (Some c)). lf_Kind f = LoadFailureSection \<and> lf_Scope f = ''performance.timeouts'')"
proof -
  have "timeouts (Some c) = zeroTimeoutPerformance" "timeouts_refused c"
    using loaded_timeouts [OF assms(1,2)] assms(3) by auto
  moreover have "ExecMaxTimeoutMs (Some c) = 4000" "InferMaxTimeoutMs (Some c) = 8000"
    using calculation(1)
    by (simp_all add: ExecMaxTimeoutMs_def InferMaxTimeoutMs_def zeroTimeoutPerformance_def positiveOr_def
        DefaultMaxExecTimeoutMs_def DefaultMaxInferTimeoutMs_def)
  ultimately show ?thesis
    using assms(4,5) hook_deadline [of "pf_Timeouts (cfg_Performance d)"]
    by (simp add: max_duration_ms_def duration_of_ms_exact timeouts_refused_def Failures_def positiveOr_def)
qed

section \<open>A small configuration\<close>

text \<open>Two rules, one with an exec condition and one with an unknown action.\<close>

definition demo_load_env :: load_env where
  "demo_load_env =
     \<lparr>le_regex_Compile = (\<lambda>p. Inr \<lparr>re_exec = (\<lambda>s off. None), re_captureCount = 0\<rparr>),
      le_regexp_ok = (\<lambda>p. True), le_glob_ok = (\<lambda>p. True), le_ReadFile = (\<lambda>p. Inl ''missing''),
      le_json_Valid = (\<lambda>s. False), le_json_Token = (\<lambda>s. JDelim), le_ParseDuration = (\<lambda>s. Inl ''bad'')\<rparr>"

definition demo_config :: Config where
  "demo_config = zeroConfig\<lparr>cfg_Rules :=
     [zero_Rule\<lparr>r_Name := ''guard'', r_Conditions :=
        [zero_Condition\<lparr>c_Kind := ''exec'', c_Command := [''validate''], c_CacheKey := ''cwd''\<rparr>]\<rparr>,
      zero_Rule\<lparr>r_Name := ''bad'', r_Action := ''explode''\<rparr>]\<rparr>"

definition demo_source_env :: source_env where
  "demo_source_env =
     \<lparr>se_Unmarshal = (\<lambda>s. Inr demo_config), se_hashIdentity = (\<lambda>s. ''id''), se_CommonWriteSpecs = None,
      se_PolicyDefaults = None, se_ParseDuration = (\<lambda>s. Inl ''bad''), se_limited = (\<lambda>m d. demo_load_env)\<rparr>"

definition demo_loaded :: "Config go_result" where
  "demo_loaded = loadSource demo_source_env ''/etc/gate.toml'' [] False"

lemma demo_loaded_ok:
  "(case demo_loaded of
      Inl e \<Rightarrow> False
    | Inr c \<Rightarrow> map r_Name (cfg_Rules c) = [''guard''] \<and> map lf_Scope (Failures (Some c)) = [''bad'']
              \<and> map c_TimeoutMs (r_Conditions (hd (cfg_Rules c))) = [1500]
              \<and> map c_Kind (r_Conditions (hd (cfg_Rules c))) = [''exec''])"
  by code_simp

theorem degraded_load_keeps_valid_rules_witness:
  "\<exists>c v. demo_loaded = Inr c
     \<and> cfg_Rules c = compiled_rules (rule_compiler demo_source_env ''/etc/gate.toml'' v) (cfg_Rules demo_config)
     \<and> cfg_Rules c \<noteq> [] \<and> map lf_Scope (Failures (Some c)) = [''bad'']"
proof -
  obtain c where c: "demo_loaded = Inr c" "map lf_Scope (Failures (Some c)) = [''bad'']"
    using demo_loaded_ok by (simp split: sum.splits del: map_eq_Cons_conv)
  have u: "se_Unmarshal demo_source_env [] = Inr demo_config" by (simp add: demo_source_env_def)
  have ne: "cfg_Rules demo_config \<noteq> []" by (simp add: demo_config_def)
  obtain v where "cfg_Rules c = compiled_rules (rule_compiler demo_source_env ''/etc/gate.toml'' v)
                    (cfg_Rules demo_config)" "cfg_Rules c \<noteq> []"
    using degraded_load_keeps_valid_rules [OF c(1) [unfolded demo_loaded_def] u] ne by metis
  then show ?thesis using c by (intro exI [of _ c] exI [of _ v]) (simp only: simp_thms)
qed

theorem loaded_conditions_below_deadline_witness:
  "\<exists>c r cond. demo_loaded = Inr c \<and> r \<in> set (cfg_Rules c) \<and> cond \<in> set (r_Conditions r)
     \<and> c_Kind cond = ConditionKindExec
     \<and> duration_of_ms (c_TimeoutMs cond) < HookEvaluateTimeoutFromFile (Some (pf_Timeouts (cfg_Performance demo_config)))"
proof -
  obtain c where c: "demo_loaded = Inr c" and n: "map r_Name (cfg_Rules c) = [''guard'']"
      "map c_Kind (r_Conditions (hd (cfg_Rules c))) = [''exec'']" "map lf_Scope (Failures (Some c)) = [''bad'']"
    using demo_loaded_ok by (simp split: sum.splits del: map_eq_Cons_conv)
  obtain r where r: "cfg_Rules c = [r]" using n(1) by auto
  obtain cond where cond: "r_Conditions r = [cond]" "c_Kind cond = ''exec''" using n(2) r by auto
  have "c_Kind cond = ConditionKindExec" using cond by (simp add: ConditionKindExec_def)
  moreover have "se_Unmarshal demo_source_env [] = Inr demo_config" by (simp add: demo_source_env_def)
  moreover have "\<not> (\<exists>f \<in> set (Failures (Some c)). lf_Kind f = LoadFailureSection \<and> lf_Scope f = ''performance.timeouts'')"
    using n(3) by auto
  moreover have "tp_HookEvaluateMS (pf_Timeouts (cfg_Performance demo_config)) \<le> max_duration_ms" by code_simp
  ultimately show ?thesis
    using loaded_conditions_below_deadline [OF c [unfolded demo_loaded_def], of demo_config r cond] c r cond
    by (intro exI [of _ c] exI [of _ r] exI [of _ cond]) auto
qed

text \<open>A file that asks for a hook deadline of one second and nothing else.\<close>

definition demo_hasty_env :: source_env where
  "demo_hasty_env = demo_source_env\<lparr>se_Unmarshal := (\<lambda>s. Inr (set_performance
     (pf_Timeouts_update (\<lambda>t. t\<lparr>tp_HookEvaluateMS := 1000\<rparr>)) demo_config))\<rparr>"

theorem refused_timeouts_outlive_hook_witness:
  "\<exists>c. loadSource demo_hasty_env ''/etc/gate.toml'' [] False = Inr c
     \<and> HookEvaluateTimeoutFromFile (Some (zeroTimeoutPerformance\<lparr>tp_HookEvaluateMS := 1000\<rparr>))
         \<le> duration_of_ms (ExecMaxTimeoutMs (Some c))"
proof -
  let ?d = "set_performance (pf_Timeouts_update (\<lambda>t. t\<lparr>tp_HookEvaluateMS := 1000\<rparr>)) demo_config"
  have T: "pf_Timeouts (cfg_Performance ?d) = zeroTimeoutPerformance\<lparr>tp_HookEvaluateMS := 1000\<rparr>" by code_simp
  have "\<not> isl (loadSource demo_hasty_env ''/etc/gate.toml'' [] False)" by code_simp
  then obtain c where c: "loadSource demo_hasty_env ''/etc/gate.toml'' [] False = Inr c"
    by (cases "loadSource demo_hasty_env ''/etc/gate.toml'' [] False") simp_all
  have "se_Unmarshal demo_hasty_env [] = Inr ?d" by (simp add: demo_hasty_env_def)
  moreover have "validateTimeouts (pf_Timeouts (cfg_Performance ?d)) \<noteq> None" unfolding T by code_simp
  ultimately show ?thesis
    using refused_timeouts_outlive_hook [OF c] c unfolding T by (auto simp: T)
qed

end
