(* ===== verification/FieldSet.thy ===== *)
theory FieldSet
  imports RuleTypes ShellExpand
begin

text \<open>
  The values that rule selectors can inspect (\<^verbatim>\<open>internal/rules/fields.go\<close>,
  \<^verbatim>\<open>fields_value.go\<close>, \<^verbatim>\<open>fields_condition.go\<close>, \<^verbatim>\<open>fields_patch_targets.go\<close>,
  \<^verbatim>\<open>fields_write_targets.go\<close>, \<^verbatim>\<open>fields_read_targets.go\<close>): the payload struct, the table of
  accessors and the values derived from the command.  The structural shell parser
  (\<^verbatim>\<open>gksyntax/shelldecomp\<close>) and the extractors built directly on it are parameters, collected
  in \<open>shell_env\<close>.
\<close>

section \<open>The payload\<close>

record FieldSet =
  f_HookEventName :: bytes
  f_SessionID :: bytes
  f_ConversationID :: bytes
  f_GenerationID :: bytes
  f_Model :: bytes
  f_CursorVersion :: bytes
  f_LoopCount :: "int option"
  f_UserEmail :: bytes
  f_TranscriptPath :: bytes
  f_CWD :: bytes
  f_EffectiveCWD :: bytes
  f_PermissionMode :: bytes
  f_AgentID :: bytes
  f_AgentType :: bytes
  f_TurnID :: bytes
  f_ToolName :: bytes
  f_ToolUseID :: bytes
  f_ToolInputCommand :: bytes
  f_ToolInputFilePath :: bytes
  f_ToolInputContent :: bytes
  f_ToolInputOldString :: bytes
  f_ToolInputNewString :: bytes
  f_ToolInputDescription :: bytes
  f_ToolInputPrompt :: bytes
  f_ToolInputPattern :: bytes
  f_ToolInputPath :: bytes
  f_ToolInputURL :: bytes
  f_ToolInputQuery :: bytes
  f_ToolInputWorkdir :: bytes
  f_ToolInputWorkingDir :: bytes
  f_ToolInputCWD :: bytes
  f_ToolInputDirectory :: bytes
  f_FilePath :: bytes
  f_Path :: bytes
  f_Command :: bytes
  f_Output :: bytes
  f_ToolOutput :: bytes
  f_ToolResponse :: bytes
  f_Prompt :: bytes
  f_Text :: bytes
  f_AssistantMessage :: bytes
  f_LastAssistantMessage :: bytes
  f_Status :: bytes
  f_Reason :: bytes
  f_Error :: bytes
  f_ErrorType :: bytes
  f_ErrorMessage :: bytes
  f_FailureType :: bytes
  f_Source :: bytes
  f_NotificationType :: bytes
  f_Message :: bytes
  f_Title :: bytes
  f_Trigger :: bytes
  f_CustomInstructions :: bytes
  f_CompactSummary :: bytes
  f_MemoryType :: bytes
  f_LoadReason :: bytes
  f_TriggerFilePath :: bytes
  f_ParentFilePath :: bytes
  f_OldCWD :: bytes
  f_NewCWD :: bytes
  f_Event :: bytes
  f_Name :: bytes
  f_WorktreePath :: bytes
  f_MCPServerName :: bytes
  f_URL :: bytes
  f_Timestamp :: bytes
  f_SessionTitle :: bytes
  f_IsInterrupt :: bytes
  f_ErrorDetails :: bytes
  f_Mode :: bytes
  f_Action :: bytes
  f_ElicitationID :: bytes
  f_TaskID :: bytes
  f_TaskSubject :: bytes
  f_TaskDescription :: bytes
  f_TeammateName :: bytes
  f_TeamName :: bytes
  f_StopHookActive :: bytes
  f_AgentTranscriptPath :: bytes
  f_OriginalRequestName :: bytes
  f_MCPContext :: bytes
  f_PromptResponse :: bytes
  f_LLMRequest :: bytes
  f_LLMResponse :: bytes
  f_Details :: bytes
  f_EditsOldString :: "bytes list"
  f_EditsNewString :: "bytes list"
  f_EditsOldLine :: "bytes list"
  f_EditsNewLine :: "bytes list"
  f_AttachmentsFilePath :: "bytes list"
  f_AttachmentsType :: "bytes list"
  f_protectedSource :: "(bytes \<Rightarrow> bool) option"

text \<open>The zero value.\<close>

definition zero_FieldSet :: FieldSet where
  "zero_FieldSet = \<lparr>
     f_HookEventName = [], f_SessionID = [], f_ConversationID = [], f_GenerationID = [],
     f_Model = [], f_CursorVersion = [], f_LoopCount = None, f_UserEmail = [],
     f_TranscriptPath = [], f_CWD = [], f_EffectiveCWD = [], f_PermissionMode = [],
     f_AgentID = [], f_AgentType = [], f_TurnID = [], f_ToolName = [], f_ToolUseID = [],
     f_ToolInputCommand = [], f_ToolInputFilePath = [], f_ToolInputContent = [],
     f_ToolInputOldString = [], f_ToolInputNewString = [], f_ToolInputDescription = [],
     f_ToolInputPrompt = [], f_ToolInputPattern = [], f_ToolInputPath = [], f_ToolInputURL = [],
     f_ToolInputQuery = [], f_ToolInputWorkdir = [], f_ToolInputWorkingDir = [],
     f_ToolInputCWD = [], f_ToolInputDirectory = [], f_FilePath = [], f_Path = [],
     f_Command = [], f_Output = [], f_ToolOutput = [], f_ToolResponse = [], f_Prompt = [],
     f_Text = [], f_AssistantMessage = [], f_LastAssistantMessage = [], f_Status = [],
     f_Reason = [], f_Error = [], f_ErrorType = [], f_ErrorMessage = [], f_FailureType = [],
     f_Source = [], f_NotificationType = [], f_Message = [], f_Title = [], f_Trigger = [],
     f_CustomInstructions = [], f_CompactSummary = [], f_MemoryType = [], f_LoadReason = [],
     f_TriggerFilePath = [], f_ParentFilePath = [], f_OldCWD = [], f_NewCWD = [], f_Event = [],
     f_Name = [], f_WorktreePath = [], f_MCPServerName = [], f_URL = [], f_Timestamp = [],
     f_SessionTitle = [], f_IsInterrupt = [], f_ErrorDetails = [], f_Mode = [], f_Action = [],
     f_ElicitationID = [], f_TaskID = [], f_TaskSubject = [], f_TaskDescription = [],
     f_TeammateName = [], f_TeamName = [], f_StopHookActive = [], f_AgentTranscriptPath = [],
     f_OriginalRequestName = [], f_MCPContext = [], f_PromptResponse = [], f_LLMRequest = [],
     f_LLMResponse = [], f_Details = [], f_EditsOldString = [], f_EditsNewString = [],
     f_EditsOldLine = [], f_EditsNewLine = [], f_AttachmentsFilePath = [],
     f_AttachmentsType = [], f_protectedSource = None\<rparr>"

record ReadTarget =
  rt_Path :: bytes
  rt_Remote :: bool
  rt_Spec :: bytes
  rt_Raw :: bytes

record WriteTarget =
  wt_Path :: bytes
  wt_Tool :: bytes
  wt_Reason :: bytes
  wt_Raw :: bytes

definition ReasonOK :: bytes where "ReasonOK = ''ok''"

text \<open>
  \<^verbatim>\<open>os.UserHomeDir\<close> (\<^term>\<open>None\<close> for an error), the cd-chain evaluation of \<^verbatim>\<open>shelldecomp\<close>
  and its marker for an unresolvable directory, the extractors of read and write targets, prose and
  credential reads, and the embedded default redirection policy.
\<close>

record shell_env =
  sa_UserHomeDir :: "bytes option"
  sa_EffectiveCwdAt :: "bytes \<Rightarrow> bytes \<Rightarrow> bytes \<Rightarrow> bytes"
  sa_Unresolvable :: bytes
  sa_ExtractCodeSearchTargets ::
    "bytes \<Rightarrow> bytes \<Rightarrow> bytes list \<Rightarrow> EnumerationSpec list \<Rightarrow> bool \<Rightarrow> ReadTarget list"
  sa_ExtractReadTargets :: "bytes \<Rightarrow> bytes \<Rightarrow> ShellReadSpec list \<Rightarrow> ReadTarget list"
  sa_ExtractWriteTargets :: "bytes \<Rightarrow> bytes \<Rightarrow> ShellWriteSpec list \<Rightarrow> WriteTarget list"
  sa_DoubleHyphenProse :: "bytes \<Rightarrow> bytes \<Rightarrow> ProsePolicy option \<Rightarrow> bytes list"
  sa_CredentialReadTargets :: "FieldSet \<Rightarrow> bytes"
  sa_DefaultRedirectionPolicy :: "RedirectionPolicy option"

section \<open>Derived values\<close>

definition CommandValue :: "FieldSet \<Rightarrow> bytes" where
  "CommandValue f = (if f_ToolInputCommand f \<noteq> [] then f_ToolInputCommand f else f_Command f)"

fun first_nonempty :: "bytes list \<Rightarrow> bytes" where
  "first_nonempty [] = []"
| "first_nonempty (v # vs) = (if v \<noteq> [] then v else first_nonempty vs)"

definition FilePathValue :: "FieldSet \<Rightarrow> bytes" where
  "FilePathValue f = first_nonempty [f_FilePath f, f_Path f, f_ToolInputFilePath f, f_ToolInputPath f]"

definition BaseCWD :: "FieldSet \<Rightarrow> bytes" where
  "BaseCWD f = first_nonempty [f_EffectiveCWD f, f_ToolInputWorkdir f, f_ToolInputWorkingDir f,
                               f_ToolInputCWD f, f_ToolInputDirectory f, f_CWD f]"

definition shellToolNames :: "bytes list" where
  "shellToolNames = [''bash'', ''shell'', ''sh'', ''zsh'']"

definition isShellToolName :: "bytes \<Rightarrow> bool" where
  "isShellToolName toolName \<longleftrightarrow> ToLower (TrimSpace toolName) \<in> set shellToolNames"

definition hasShellCommandContext :: "FieldSet \<Rightarrow> bool" where
  "hasShellCommandContext f \<longleftrightarrow>
     CommandValue f \<noteq> [] \<and> (f_ToolName f = [] \<or> isShellToolName (f_ToolName f))"

definition CmdSegments :: "FieldSet \<Rightarrow> bytes" where
  "CmdSegments f =
     (if \<not> hasShellCommandContext f then []
      else let command = stripShellComments (stripHeredocBodies (CommandValue f)) in
           Join (map (replace_runes [([CHR 0x0D, CHR 0x0A], '' ''), ([CHR 0x0A], '' ''), ([CHR 0x0D], '' '')])
                   (SplitCommandChain command)) [newline])"

definition CmdComments :: "FieldSet \<Rightarrow> bytes" where
  "CmdComments f = (if \<not> hasShellCommandContext f then [] else extractShellComments (CommandValue f))"

definition CmdDoubleHyphenProseWithPolicy :: "shell_env \<Rightarrow> FieldSet \<Rightarrow> ProsePolicy option \<Rightarrow> bytes" where
  "CmdDoubleHyphenProseWithPolicy env f policy =
     (if \<not> hasShellCommandContext f then []
      else Join (sa_DoubleHyphenProse env (CommandValue f) (BaseCWD f) policy) [newline])"

definition CmdDoubleHyphenProse :: "shell_env \<Rightarrow> FieldSet \<Rightarrow> bytes" where
  "CmdDoubleHyphenProse env f = CmdDoubleHyphenProseWithPolicy env f None"

definition CmdRedirectionsWithPolicy :: "shell_env \<Rightarrow> FieldSet \<Rightarrow> RedirectionPolicy option \<Rightarrow> bytes" where
  "CmdRedirectionsWithPolicy env f policy =
     (if \<not> hasShellCommandContext f then []
      else Join (extractUnsafeShellRedirectionsWithPolicy (sa_DefaultRedirectionPolicy env)
                   (CommandValue f) policy) [newline])"

definition CmdRedirections :: "shell_env \<Rightarrow> FieldSet \<Rightarrow> bytes" where
  "CmdRedirections env f = CmdRedirectionsWithPolicy env f None"

definition effectiveCwdAfterChain :: "shell_env \<Rightarrow> bytes \<Rightarrow> bytes \<Rightarrow> bytes \<Rightarrow> bytes" where
  "effectiveCwdAfterChain env startCwd homeDir command =
     (let cwd = sa_EffectiveCwdAt env command startCwd homeDir in if cwd = [] then startCwd else cwd)"

definition effectiveCWD :: "shell_env \<Rightarrow> FieldSet \<Rightarrow> bytes" where
  "effectiveCWD env f =
     (let cwd = BaseCWD f; command = CommandValue f in
      if cwd = [] then []
      else if command = [] then cwd
      else let home = (case sa_UserHomeDir env of None \<Rightarrow> cwd | Some h \<Rightarrow> h) in
           effectiveCwdAfterChain env cwd home command)"

section \<open>Read, write and patch targets\<close>

fun collect_new :: "bytes list \<Rightarrow> bytes list \<Rightarrow> bytes list" where
  "collect_new seen [] = seen"
| "collect_new seen (p # ps) = collect_new (if p \<in> set seen then seen else seen @ [p]) ps"

definition local_paths :: "ReadTarget list \<Rightarrow> bytes list" where
  "local_paths ts = map rt_Path (filter (\<lambda>t. \<not> rt_Remote t \<and> rt_Path t \<noteq> []) ts)"

definition CmdReadTargetsWithPolicy ::
  "shell_env \<Rightarrow> FieldSet \<Rightarrow> bytes list \<Rightarrow> ShellReadSpec list \<Rightarrow> EnumerationSpec list \<Rightarrow> bool \<Rightarrow> bytes" where
  "CmdReadTargetsWithPolicy env f searchTools readSpecs enumerationSpecs recursiveGlobs =
     (if searchTools = [] \<and> readSpecs = [] \<and> enumerationSpecs = [] \<and> \<not> recursiveGlobs then []
      else if \<not> hasShellCommandContext f then []
      else let command = CommandValue f; cwd = BaseCWD f;
               paths = (if searchTools \<noteq> [] \<or> enumerationSpecs \<noteq> [] \<or> recursiveGlobs
                        then collect_new [] (local_paths (sa_ExtractCodeSearchTargets env command cwd
                               searchTools enumerationSpecs recursiveGlobs)) else []);
               paths = (if readSpecs \<noteq> []
                        then collect_new paths (local_paths (sa_ExtractReadTargets env command cwd readSpecs))
                        else paths) in
           Join paths [newline])"

definition CmdReadTargets :: "shell_env \<Rightarrow> FieldSet \<Rightarrow> bytes list \<Rightarrow> ShellReadSpec list \<Rightarrow> bytes" where
  "CmdReadTargets env f searchTools readSpecs =
     CmdReadTargetsWithPolicy env f searchTools readSpecs [] False"

definition ExecTargetsWithPolicy ::
  "shell_env \<Rightarrow> FieldSet \<Rightarrow> bytes list \<Rightarrow> ShellReadSpec list \<Rightarrow> EnumerationSpec list \<Rightarrow> bool \<Rightarrow> bytes" where
  "ExecTargetsWithPolicy env f searchTools readSpecs enumerationSpecs recursiveGlobs =
     (let targets = CmdReadTargetsWithPolicy env f searchTools readSpecs enumerationSpecs recursiveGlobs;
          cwd = effectiveCWD env f in
      if targets \<noteq> [] then targets
      else if FilePathValue f \<noteq> [] then FilePathValue f
      else if cwd \<noteq> [] \<and> cwd \<noteq> sa_Unresolvable env then cwd
      else BaseCWD f)"

definition ExecTargets :: "shell_env \<Rightarrow> FieldSet \<Rightarrow> bytes list \<Rightarrow> ShellReadSpec list \<Rightarrow> bytes" where
  "ExecTargets env f searchTools readSpecs = ExecTargetsWithPolicy env f searchTools readSpecs [] False"

definition CmdWriteTargetsWithSpecs :: "shell_env \<Rightarrow> FieldSet \<Rightarrow> ShellWriteSpec list \<Rightarrow> bytes" where
  "CmdWriteTargetsWithSpecs env f specs =
     (if \<not> hasShellCommandContext f then []
      else Join (map wt_Path (filter (\<lambda>t. \<not> (wt_Reason t \<noteq> ReasonOK \<or> wt_Path t = []))
                   (sa_ExtractWriteTargets env (CommandValue f) (BaseCWD f) specs))) [newline])"

definition CmdWriteTargets :: "shell_env \<Rightarrow> FieldSet \<Rightarrow> bytes" where
  "CmdWriteTargets env f = CmdWriteTargetsWithSpecs env f []"

definition patchFileDirectives :: "bytes list" where
  "patchFileDirectives = [''*** Update File:'', ''*** Add File:'', ''*** Delete File:'', ''*** Move to:'']"

text \<open>The path that one line names through one directive, resolved against the directory.\<close>

definition directive_target :: "bytes \<Rightarrow> bytes \<Rightarrow> bytes \<Rightarrow> bytes option" where
  "directive_target base line directive =
     (let trimmed = TrimSpace line in
      if \<not> HasPrefix trimmed directive then None
      else let target = TrimSpace (drop (length directive) trimmed) in
           if target = [] then None
           else if \<not> IsAbs target
           then (if base = [] then None else Some (path_Join [base, target]))
           else Some (Clean target))"

definition line_targets :: "bytes \<Rightarrow> bytes \<Rightarrow> bytes list" where
  "line_targets base line = List.map_filter (directive_target base line) patchFileDirectives"

definition patch_paths :: "bytes \<Rightarrow> bytes \<Rightarrow> bytes list" where
  "patch_paths base body = collect_new [] (concat (map (line_targets base) (Split newline body)))"

definition PatchWriteTargets :: "FieldSet \<Rightarrow> bytes" where
  "PatchWriteTargets f =
     (let body = (if f_ToolInputCommand f = [] then f_ToolInputContent f else f_ToolInputCommand f) in
      if \<not> Contains body ''*** Begin Patch'' then []
      else Join (patch_paths (BaseCWD f) body) [newline])"

section \<open>Selectors\<close>

definition fieldStringAccessors :: "shell_env \<Rightarrow> (FieldSelector \<times> (FieldSet \<Rightarrow> bytes)) list" where
  "fieldStringAccessors env =
    [(FieldHookEventName, f_HookEventName),
     (FieldSessionID, f_SessionID),
     (FieldConversationID, f_ConversationID),
     (FieldGenerationID, f_GenerationID),
     (FieldModel, f_Model),
     (FieldCursorVersion, f_CursorVersion),
     (FieldUserEmail, f_UserEmail),
     (FieldTranscriptPath, f_TranscriptPath),
     (FieldCWD, f_CWD),
     (FieldBaseCWD, BaseCWD),
     (FieldEffectiveCWD, effectiveCWD env),
     (FieldCmdSegments, CmdSegments),
     (FieldCmdComments, CmdComments),
     (FieldCmdDoubleHyphenProse, CmdDoubleHyphenProse env),
     (FieldCmdRedirections, CmdRedirections env),
     (FieldCmdReadTargets, \<lambda>f. CmdReadTargets env f [] []),
     (FieldCredentialReadTargets, sa_CredentialReadTargets env),
     (FieldCmdWriteTargets, CmdWriteTargets env),
     (FieldPatchWriteTargets, PatchWriteTargets),
     (FieldExecTargets, \<lambda>f. ExecTargets env f [] []),
     (FieldPermissionMode, f_PermissionMode),
     (FieldAgentID, f_AgentID),
     (FieldAgentType, f_AgentType),
     (FieldTurnID, f_TurnID),
     (FieldToolName, f_ToolName),
     (FieldToolUseID, f_ToolUseID),
     (FieldToolInputCommand, f_ToolInputCommand),
     (FieldToolInputFilePath, f_ToolInputFilePath),
     (FieldToolInputContent, f_ToolInputContent),
     (FieldToolInputOldString, f_ToolInputOldString),
     (FieldToolInputNewString, f_ToolInputNewString),
     (FieldToolInputDescription, f_ToolInputDescription),
     (FieldToolInputPrompt, f_ToolInputPrompt),
     (FieldToolInputPattern, f_ToolInputPattern),
     (FieldToolInputPath, f_ToolInputPath),
     (FieldToolInputURL, f_ToolInputURL),
     (FieldToolInputQuery, f_ToolInputQuery),
     (FieldToolInputWorkdir, f_ToolInputWorkdir),
     (FieldToolInputWorkingDirectory, f_ToolInputWorkingDir),
     (FieldToolInputCWD, f_ToolInputCWD),
     (FieldToolInputDirectory, f_ToolInputDirectory),
     (FieldFilePath, f_FilePath),
     (FieldPath, f_Path),
     (FieldCommand, f_Command),
     (FieldOutput, f_Output),
     (FieldToolOutput, f_ToolOutput),
     (FieldToolResponse, f_ToolResponse),
     (FieldPrompt, f_Prompt),
     (FieldText, f_Text),
     (FieldAssistantMessage, f_AssistantMessage),
     (FieldLastAssistantMessage, f_LastAssistantMessage),
     (FieldStatus, f_Status),
     (FieldReason, f_Reason),
     (FieldError, f_Error),
     (FieldErrorType, f_ErrorType),
     (FieldErrorMessage, f_ErrorMessage),
     (FieldFailureType, f_FailureType),
     (FieldSource, f_Source),
     (FieldNotificationType, f_NotificationType),
     (FieldMessage, f_Message),
     (FieldTitle, f_Title),
     (FieldTrigger, f_Trigger),
     (FieldCustomInstructions, f_CustomInstructions),
     (FieldCompactSummary, f_CompactSummary),
     (FieldMemoryType, f_MemoryType),
     (FieldLoadReason, f_LoadReason),
     (FieldTriggerFilePath, f_TriggerFilePath),
     (FieldParentFilePath, f_ParentFilePath),
     (FieldOldCWD, f_OldCWD),
     (FieldNewCWD, f_NewCWD),
     (FieldEvent, f_Event),
     (FieldName, f_Name),
     (FieldWorktreePath, f_WorktreePath),
     (FieldMCPServerName, f_MCPServerName),
     (FieldURL, f_URL),
     (FieldTimestamp, f_Timestamp),
     (FieldSessionTitle, f_SessionTitle),
     (FieldIsInterrupt, f_IsInterrupt),
     (FieldErrorDetails, f_ErrorDetails),
     (FieldMode, f_Mode),
     (FieldAction, f_Action),
     (FieldElicitationID, f_ElicitationID),
     (FieldTaskID, f_TaskID),
     (FieldTaskSubject, f_TaskSubject),
     (FieldTaskDescription, f_TaskDescription),
     (FieldTeammateName, f_TeammateName),
     (FieldTeamName, f_TeamName),
     (FieldStopHookActive, f_StopHookActive),
     (FieldAgentTranscriptPath, f_AgentTranscriptPath),
     (FieldOriginalRequestName, f_OriginalRequestName),
     (FieldMCPContext, f_MCPContext),
     (FieldPromptResponse, f_PromptResponse),
     (FieldLLMRequest, f_LLMRequest),
     (FieldLLMResponse, f_LLMResponse),
     (FieldDetails, f_Details),
     (FieldEditsOldString, \<lambda>f. Join (f_EditsOldString f) [newline]),
     (FieldEditsNewString, \<lambda>f. Join (f_EditsNewString f) [newline]),
     (FieldEditsOldLine, \<lambda>f. Join (f_EditsOldLine f) [newline]),
     (FieldEditsNewLine, \<lambda>f. Join (f_EditsNewLine f) [newline]),
     (FieldAttachmentsFilePath, \<lambda>f. Join (f_AttachmentsFilePath f) [newline]),
     (FieldAttachmentsType, \<lambda>f. Join (f_AttachmentsType f) [newline])]"

text \<open>\<^verbatim>\<open>strconv.Itoa\<close>.\<close>

fun nat_digits :: "nat \<Rightarrow> bytes" where
  "nat_digits n = (if n < 10 then [char_of (48 + n)] else nat_digits (n div 10) @ [char_of (48 + n mod 10)])"

declare nat_digits.simps [simp del]

definition Itoa :: "int \<Rightarrow> bytes" where
  "Itoa i = (if i < 0 then ''-'' @ nat_digits (nat (- i)) else nat_digits (nat i))"

definition FieldSet_Value :: "shell_env \<Rightarrow> FieldSet \<Rightarrow> FieldSelector \<Rightarrow> bytes \<times> bool" where
  "FieldSet_Value env f selector =
     (if selector = FieldLoopCount then
        (case f_LoopCount f of None \<Rightarrow> ([], False) | Some n \<Rightarrow> (Itoa n, True))
      else case map_of (fieldStringAccessors env) selector of
             Some accessor \<Rightarrow> (let v = accessor f in (v, v \<noteq> []))
           | None \<Rightarrow> ([], False))"

definition FieldSet_String :: "shell_env \<Rightarrow> FieldSet \<Rightarrow> FieldSelector \<Rightarrow> bytes" where
  "FieldSet_String env f selector = fst (FieldSet_Value env f selector)"

fun FirstString :: "shell_env \<Rightarrow> FieldSet \<Rightarrow> FieldSelectorSpec list \<Rightarrow> bytes \<times> bytes" where
  "FirstString env f [] = ([], [])"
| "FirstString env f (s # ss) =
     (let v = FieldSet_String env f (spec_Selector s) in
      if v \<noteq> [] then (spec_Path s, v) else FirstString env f ss)"

definition StringForCondition :: "shell_env \<Rightarrow> FieldSet \<Rightarrow> FieldSelector \<Rightarrow> Condition option \<Rightarrow> bytes" where
  "StringForCondition env f selector condition =
     (case condition of
        None \<Rightarrow> FieldSet_String env f selector
      | Some c \<Rightarrow>
          if selector = FieldCmdReadTargets
          then CmdReadTargetsWithPolicy env f (c_SearchTools c) (c_ReadSpecs c) (c_EnumerationSpecs c) (c_RecursiveGlobs c)
          else if selector = FieldExecTargets
          then ExecTargetsWithPolicy env f (c_SearchTools c) (c_ReadSpecs c) (c_EnumerationSpecs c) (c_RecursiveGlobs c)
          else if selector = FieldCmdDoubleHyphenProse
          then CmdDoubleHyphenProseWithPolicy env f (c_ProsePolicy c)
          else if selector = FieldCmdRedirections
          then CmdRedirectionsWithPolicy env f (c_RedirectionPolicy c)
          else if selector = FieldCmdWriteTargets then CmdWriteTargetsWithSpecs env f (c_WriteSpecs c)
          else FieldSet_String env f selector)"

fun FirstStringForCondition ::
  "shell_env \<Rightarrow> FieldSet \<Rightarrow> FieldSelectorSpec list \<Rightarrow> Condition option \<Rightarrow> bytes \<times> bytes" where
  "FirstStringForCondition env f [] condition = ([], [])"
| "FirstStringForCondition env f (s # ss) condition =
     (let v = StringForCondition env f (spec_Selector s) condition in
      if v \<noteq> [] then (spec_Path s, v) else FirstStringForCondition env f ss condition)"

end
