(* ===== verification/FieldProps.thy ===== *)
theory FieldProps
  imports FieldSet ShellProps
begin

text \<open>
  Facts about selectors and derived fields: the selector tables fit together, and the write
  targets of a patch are complete, clean and without duplicates.
\<close>

section \<open>The selector tables\<close>

lemma selector_paths_distinct: "distinct (map fst fieldSelectorByPath)"
  by code_simp

lemma selector_values: "map snd fieldSelectorByPath = [1..<FieldResponseOutput + 1]"
  by code_simp

lemma accessor_keys:
  "map fst (fieldStringAccessors env)
   = filter (\<lambda>s. s \<noteq> FieldLoopCount \<and> \<not> IsTemporalExecSelector s) [1..<FieldResponseOutput + 1]"
proof -
  have "map fst (fieldStringAccessors env) = filter (\<lambda>s. s \<noteq> 7 \<and> s < 103) [1..<106]"
    by (simp add: fieldStringAccessors_def selector_defs upt_rec)
  then show ?thesis by (auto simp: selector_defs IsTemporalExecSelector_def intro!: filter_cong)
qed

lemma compile_selector_iff:
  assumes "s \<noteq> FieldSelectorInvalid"
  shows "CompileFieldSelector path = s \<longleftrightarrow> (path, s) \<in> set fieldSelectorByPath"
  using assms selector_paths_distinct
  by (auto simp: CompileFieldSelector_def split: option.splits
        dest: map_of_SomeD intro: map_of_is_SomeI) (metis map_of_is_SomeI option.distinct(1) option.inject)+

lemma selector_table_range: "s \<in> snd ` set fieldSelectorByPath \<longleftrightarrow> 1 \<le> s \<and> s \<le> FieldResponseOutput"
proof -
  have "snd ` set fieldSelectorByPath = set [1..<FieldResponseOutput + 1]"
    by (metis selector_values set_map)
  then show ?thesis by auto
qed

lemma selector_values_distinct: "distinct (map snd fieldSelectorByPath)"
  by (simp only: selector_values distinct_upt)

lemma distinct_snd_unique:
  "distinct (map snd xs) \<Longrightarrow> (a, s) \<in> set xs \<Longrightarrow> (b, s) \<in> set xs \<Longrightarrow> a = b"
  by (induction xs) (auto simp: rev_image_eqI)

text \<open>The selector tables are closed under each other: every selector constant except the invalid
  one is named by exactly one configuration path (no two paths share one, no constant is
  unreachable), no other number is named at all, and the accessor table covers exactly the selectors
  that are read from the payload, leaving out the loop count and the three temporal selectors.\<close>

theorem selector_tables_complete:
  "((\<exists>!path. CompileFieldSelector path = s) \<longleftrightarrow> 1 \<le> s \<and> s \<le> FieldResponseOutput)
   \<and> (map_of (fieldStringAccessors env) s \<noteq> None \<longleftrightarrow>
        1 \<le> s \<and> s \<le> FieldResponseOutput \<and> s \<noteq> FieldLoopCount \<and> \<not> IsTemporalExecSelector s)"
proof (rule conjI)
  have inv: "CompileFieldSelector ''?'' = FieldSelectorInvalid"
      "CompileFieldSelector ''??'' = FieldSelectorInvalid" by code_simp+
  show "(\<exists>!path. CompileFieldSelector path = s) \<longleftrightarrow> 1 \<le> s \<and> s \<le> FieldResponseOutput"
  proof (cases "s = FieldSelectorInvalid")
    case True
    have "''?'' \<noteq> (''??'' :: bytes)" by simp
    then have "\<not> (\<exists>!path. CompileFieldSelector path = s)" using inv True by metis
    then show ?thesis using True by (simp add: FieldSelectorInvalid_def)
  next
    case False
    have "(\<exists>!path. (path, s) \<in> set fieldSelectorByPath) \<longleftrightarrow> s \<in> snd ` set fieldSelectorByPath"
    proof
      assume "s \<in> snd ` set fieldSelectorByPath"
      then obtain p where "(p, s) \<in> set fieldSelectorByPath" by auto
      then show "\<exists>!path. (path, s) \<in> set fieldSelectorByPath"
        using distinct_snd_unique [OF selector_values_distinct] by (intro ex1I [of _ p]) auto
    next
      assume "\<exists>!path. (path, s) \<in> set fieldSelectorByPath"
      then obtain p where "(p, s) \<in> set fieldSelectorByPath" by (elim ex1E)
      then show "s \<in> snd ` set fieldSelectorByPath" by (rule rev_image_eqI) simp
    qed
    then show ?thesis unfolding compile_selector_iff [OF False] selector_table_range .
  qed
  show "map_of (fieldStringAccessors env) s \<noteq> None \<longleftrightarrow>
        1 \<le> s \<and> s \<le> FieldResponseOutput \<and> s \<noteq> FieldLoopCount \<and> \<not> IsTemporalExecSelector s"
  proof -
    have "fst ` set (fieldStringAccessors env)
          = set (filter (\<lambda>s. s \<noteq> FieldLoopCount \<and> \<not> IsTemporalExecSelector s) [1..<FieldResponseOutput + 1])"
      by (metis accessor_keys set_map)
    then show ?thesis by (auto simp: map_of_eq_None_iff)
  qed
qed

section \<open>Clean paths\<close>

definition proper_elem :: "bytes \<Rightarrow> bool" where
  "proper_elem e \<longleftrightarrow> e \<noteq> [] \<and> e \<noteq> ''.'' \<and> e \<noteq> ''..'' \<and> CHR ''/'' \<notin> set e"

lemma clean_elems_rooted:
  "list_all proper_elem out \<Longrightarrow> \<forall>e\<in>set es. CHR ''/'' \<notin> set e \<Longrightarrow>
   list_all proper_elem (clean_elems True out es)"
proof (induction es arbitrary: out)
  case (Cons e es)
  have tl: "list_all proper_elem (tl out)" using Cons.prems(1) by (cases out) auto
  have hd: "out \<noteq> [] \<Longrightarrow> hd out \<noteq> ''..''" using Cons.prems(1) by (cases out) (auto simp: proper_elem_def)
  have e: "e \<noteq> [] \<Longrightarrow> e \<noteq> ''.'' \<Longrightarrow> e \<noteq> ''..'' \<Longrightarrow> proper_elem e"
    using Cons.prems(2) by (simp add: proper_elem_def)
  have es: "\<forall>e\<in>set es. CHR ''/'' \<notin> set e" using Cons.prems(2) by simp
  show ?case using Cons.IH [OF _ es] Cons.prems(1) tl hd e by simp
qed (simp add: list_all_iff)

lemma Split_Clean_abs:
  assumes "IsAbs path"
  shows "\<exists>es. list_all proper_elem es \<and> Clean path = ''/'' @ Join es ''/''
              \<and> Split (CHR ''/'') (Clean path) = [] # (if es = [] then [[]] else es)"
proof -
  let ?es = "clean_elems True [] (Split (CHR ''/'') path)"
  have p: "list_all proper_elem ?es"
    using Split_parts_no_sep by (intro clean_elems_rooted) auto
  have c: "Clean path = CHR ''/'' # Join ?es ''/''" using assms by (simp add: Clean_def)
  have "Split (CHR ''/'') (Join ?es ''/'') = ?es" if "?es \<noteq> []"
    using that p by (intro Split_Join) (auto simp: list_all_iff proper_elem_def)
  then show ?thesis using p c by (intro exI [of _ ?es]) auto
qed

lemma Clean_abs_no_dotdot:
  assumes "IsAbs path"
  shows "IsAbs (Clean path) \<and> ''..'' \<notin> set (Split (CHR ''/'') (Clean path))"
proof -
  obtain es where es: "list_all proper_elem es" "Clean path = ''/'' @ Join es ''/''"
      "Split (CHR ''/'') (Clean path) = [] # (if es = [] then [[]] else es)"
    using Split_Clean_abs [OF assms] by blast
  have "IsAbs (Clean path)" unfolding es(2) by (simp add: IsAbs_def HasPrefix_def)
  moreover have "''..'' \<notin> set es" using es(1) by (auto simp: list_all_iff proper_elem_def)
  ultimately show ?thesis unfolding es(3) by simp
qed

lemma path_Join_abs: "IsAbs base \<Longrightarrow> path_Join [base, t] = Clean (base @ ''/'' @ t)"
  by (cases base) (auto simp: path_Join_def IsAbs_def HasPrefix_def)

lemma IsAbs_append: "IsAbs base \<Longrightarrow> IsAbs (base @ t)"
  by (cases base) (auto simp: IsAbs_def HasPrefix_def)

section \<open>Patch targets\<close>

lemma collect_new_props:
  "distinct seen \<Longrightarrow> distinct (collect_new seen ps) \<and> set (collect_new seen ps) = set seen \<union> set ps"
  by (induction ps arbitrary: seen) auto

lemma set_map_filter: "set (List.map_filter f xs) = {y. \<exists>x\<in>set xs. f x = Some y}"
  by (induction xs) (auto simp: map_filter_simps split: option.splits)

lemma directive_target_clean:
  assumes "directive_target base line d = Some t" "IsAbs base"
  shows "IsAbs t \<and> ''..'' \<notin> set (Split (CHR ''/'') t)"
  using assms Clean_abs_no_dotdot path_Join_abs IsAbs_append
  by (auto simp: directive_target_def Let_def split: if_splits)

text \<open>The write targets of a patch body are exact: a path is reported if and only if some line of
  the body names it with one of the file directives (so no target of an update, add, delete or move
  escapes a path rule), none is reported twice, and with an absolute working directory every
  reported path is absolute and free of dot-dot elements, so that a prefix rule cannot be evaded
  by writing outside through a detour.\<close>

theorem patch_targets_exact:
  assumes "IsAbs base"
  shows "(t \<in> set (patch_paths base body) \<longleftrightarrow>
            (\<exists>line\<in>set (Split newline body). \<exists>d\<in>set patchFileDirectives.
               directive_target base line d = Some t))
       \<and> distinct (patch_paths base body)
       \<and> (t \<in> set (patch_paths base body) \<longrightarrow> IsAbs t \<and> ''..'' \<notin> set (Split (CHR ''/'') t))"
proof -
  have mem: "t \<in> set (patch_paths base body) \<longleftrightarrow>
            (\<exists>line\<in>set (Split newline body). \<exists>d\<in>set patchFileDirectives.
               directive_target base line d = Some t)"
    by (auto simp: patch_paths_def collect_new_props line_targets_def set_map_filter)
  moreover have "distinct (patch_paths base body)"
    by (simp add: patch_paths_def collect_new_props)
  ultimately show ?thesis using directive_target_clean [OF _ assms] by blast
qed

theorem patch_targets_exact_witness:
  "''/etc/passwd'' \<in> set (patch_paths ''/repo'' ''*** Add File: ../etc/passwd'')
   \<and> ''..'' \<notin> set (Split (CHR ''/'') ''/etc/passwd'')"
proof -
  have b: "IsAbs ''/repo''" by code_simp
  have m: "''/etc/passwd'' \<in> set (patch_paths ''/repo'' ''*** Add File: ../etc/passwd'')" by code_simp
  show ?thesis
    using patch_targets_exact [OF b, of "''/etc/passwd''" "''*** Add File: ../etc/passwd''"] m by blast
qed

end
