(* ===== verification/EvalMatrix.thy ===== *)
theory EvalMatrix
  imports RuleCompile
begin

text \<open>
  The evaluator matrix of a rule (\<^verbatim>\<open>internal/rules/eval_matrix.go\<close>): roles, the combine
  operator, fallback on errors, and the concurrent infer calls.  The reply of an inference point
  (\<^verbatim>\<open>evaluatePoint\<close> in \<^verbatim>\<open>inference_point.go\<close>, a gRPC call) is a parameter; of a
  \<^verbatim>\<open>pointVerdict\<close> the model keeps the two flags that decide, not the trace fields.
\<close>

datatype evalVerdict = verdictAllow | verdictBlock

record evalOutcome =
  eo_verdict :: evalVerdict
  eo_errored :: bool

record pointVerdict =
  pv_block :: bool
  pv_errored :: bool

section \<open>Folding the outcomes\<close>

definition indicesForRole :: "RuleEval list \<Rightarrow> bytes \<Rightarrow> nat list" where
  "indicesForRole evals role = filter (\<lambda>i. ev_Role (evals ! i) = role) [0..<length evals]"

definition allErrored :: "nat list \<Rightarrow> evalOutcome list \<Rightarrow> bool" where
  "allErrored indices outcomes \<longleftrightarrow> list_all (\<lambda>i. eo_errored (outcomes ! i)) indices"

definition matrixBlocks :: "bytes \<Rightarrow> nat \<Rightarrow> nat \<Rightarrow> bool" where
  "matrixBlocks combine enforcingCount blockingCount =
     (if enforcingCount = 0 then False
      else if combine = CombineAnd then blockingCount = enforcingCount
      else blockingCount > 0)"

definition combineBlocks :: "bytes \<Rightarrow> nat list \<Rightarrow> evalOutcome list \<Rightarrow> bool" where
  "combineBlocks combine indices outcomes =
     matrixBlocks combine (length indices)
       (length (filter (\<lambda>i. eo_verdict (outcomes ! i) = verdictBlock) indices))"

definition matrixCombineOperator :: "RuleEval list \<Rightarrow> bytes" where
  "matrixCombineOperator evals =
     (case find (\<lambda>e. ev_Combine e \<noteq> []) evals of Some e \<Rightarrow> ev_Combine e | None \<Rightarrow> CombineUnion)"

definition foldMatrixOutcomes :: "RuleEval list \<Rightarrow> evalOutcome list \<Rightarrow> bool" where
  "foldMatrixOutcomes evals outcomes =
     (let combine = matrixCombineOperator evals;
          enforce = indicesForRole evals RoleEnforce;
          fallback = indicesForRole evals RoleFallback in
      if enforce = [] then False
      else if allErrored enforce outcomes \<and> fallback \<noteq> []
      then combineBlocks combine fallback outcomes
      else combineBlocks combine enforce outcomes)"

definition runEvalMatrix :: "RuleEval list \<Rightarrow> (nat \<Rightarrow> RuleEval \<Rightarrow> evalOutcome) \<Rightarrow> bool" where
  "runEvalMatrix evals resolve =
     foldMatrixOutcomes evals (map (\<lambda>i. resolve i (evals ! i)) [0..<length evals])"

section \<open>Infer entries\<close>

definition applyPointVerdict :: "RuleEval \<Rightarrow> pointVerdict \<Rightarrow> evalVerdict" where
  "applyPointVerdict e result =
     (if pv_errored result then (if ev_OnError e = OnErrorOpen then verdictAllow else verdictBlock)
      else if pv_block result then verdictBlock else verdictAllow)"

text \<open>
  \<open>batch\<close> is the verdict of the per-event batch call for a point and a rule, when there is one;
  \<open>reply\<close> the answer of an individual call with the intent and the command; \<^term>\<open>None\<close> stands
  for a panic during the call.
\<close>

record infer_world =
  iw_batch :: "InferencePoint \<Rightarrow> bytes \<Rightarrow> pointVerdict option"
  iw_reply :: "nat \<Rightarrow> InferencePoint \<Rightarrow> bytes \<Rightarrow> bytes \<Rightarrow> pointVerdict option"

definition evalInference_lookup :: "Rule \<Rightarrow> bytes \<Rightarrow> InferencePoint option" where
  "evalInference_lookup rule u =
     (case r_EvalInference rule of None \<Rightarrow> None | Some points \<Rightarrow> map_of points u)"

definition verdict_outcome :: "RuleEval \<Rightarrow> pointVerdict \<Rightarrow> evalOutcome" where
  "verdict_outcome e v = \<lparr>eo_verdict = applyPointVerdict e v, eo_errored = pv_errored v\<rparr>"

definition resolveInferSingle ::
  "infer_world \<Rightarrow> Rule \<Rightarrow> bytes \<Rightarrow> nat \<Rightarrow> RuleEval \<Rightarrow> evalOutcome option" where
  "resolveInferSingle w rule command index e =
     (case evalInference_lookup rule (ev_Use e) of
        None \<Rightarrow> Some \<lparr>eo_verdict = verdictBlock, eo_errored = True\<rparr>
      | Some point \<Rightarrow>
          (case (if ev_Fanout e = FanoutBatch then iw_batch w point (r_Name rule) else None) of
             Some verdict \<Rightarrow> Some (verdict_outcome e verdict)
           | None \<Rightarrow> map_option (verdict_outcome e) (iw_reply w index point (r_Intent rule) command)))"

text \<open>What the goroutine of one entry stores, also when the call panics.\<close>

definition infer_entry :: "infer_world \<Rightarrow> Rule \<Rightarrow> bytes \<Rightarrow> nat \<Rightarrow> evalOutcome" where
  "infer_entry w rule command index =
     (let e = r_Eval rule ! index in
      case resolveInferSingle w rule command index e of
        Some outcome \<Rightarrow> outcome
      | None \<Rightarrow> \<lparr>eo_verdict = (if ev_OnError e = OnErrorOpen then verdictAllow else verdictBlock),
                 eo_errored = True\<rparr>)"

definition infer_indices :: "Rule \<Rightarrow> nat list" where
  "infer_indices rule =
     filter (\<lambda>i. ev_Kind (r_Eval rule ! i) = EvalKindInfer) [0..<length (r_Eval rule)]"

text \<open>
  The goroutines write under a mutex in the order in which they finish; \<open>order\<close> is that order,
  some arrangement of the infer entries.
\<close>

definition runInferConcurrently ::
  "infer_world \<Rightarrow> Rule \<Rightarrow> bytes \<Rightarrow> nat list \<Rightarrow> (nat \<rightharpoonup> evalOutcome)" where
  "runInferConcurrently w rule command order =
     fold (\<lambda>i m. m(i \<mapsto> infer_entry w rule command i)) order Map.empty"

text \<open>The decision of \<^verbatim>\<open>evalMatrixCondition.Execute\<close>; a missing map entry is the zero outcome.\<close>

definition matrix_resolve ::
  "bool \<Rightarrow> (nat \<rightharpoonup> evalOutcome) \<Rightarrow> nat \<Rightarrow> RuleEval \<Rightarrow> evalOutcome" where
  "matrix_resolve conditionsMatch inferOutcomes index e =
     (if \<not> conditionsMatch then \<lparr>eo_verdict = verdictAllow, eo_errored = False\<rparr>
      else if ev_Kind e = EvalKindInfer
      then (case inferOutcomes index of
              Some o' \<Rightarrow> o' | None \<Rightarrow> \<lparr>eo_verdict = verdictAllow, eo_errored = False\<rparr>)
      else \<lparr>eo_verdict = verdictBlock, eo_errored = False\<rparr>)"

definition matrix_decision :: "infer_world \<Rightarrow> Rule \<Rightarrow> bytes \<Rightarrow> nat list \<Rightarrow> bool \<Rightarrow> bool" where
  "matrix_decision w rule command order conditionsMatch =
     runEvalMatrix (r_Eval rule)
       (matrix_resolve conditionsMatch
          (if conditionsMatch then runInferConcurrently w rule command order else Map.empty))"

section \<open>What the fold decides\<close>

lemma filter_length_all: "length (filter P xs) = length xs \<longleftrightarrow> (\<forall>x\<in>set xs. P x)"
proof
  assume len: "length (filter P xs) = length xs"
  show "\<forall>x\<in>set xs. P x"
  proof (rule ccontr)
    assume "\<not> (\<forall>x\<in>set xs. P x)"
    then have "length (filter P xs) < length xs" using length_filter_less [of _ xs P] by blast
    then show False using len by simp
  qed
qed simp

lemma combineBlocks_iff:
  "combineBlocks combine indices outcomes \<longleftrightarrow>
     indices \<noteq> [] \<and>
     (if combine = CombineAnd then \<forall>i\<in>set indices. eo_verdict (outcomes ! i) = verdictBlock
      else \<exists>i\<in>set indices. eo_verdict (outcomes ! i) = verdictBlock)"
  by (auto simp: combineBlocks_def matrixBlocks_def filter_length_all filter_empty_conv)

definition role_at :: "RuleEval list \<Rightarrow> bytes \<Rightarrow> nat \<Rightarrow> bool" where
  "role_at evals role i \<longleftrightarrow> i < length evals \<and> ev_Role (evals ! i) = role"

lemma indicesForRole_set: "set (indicesForRole evals role) = {i. role_at evals role i}"
  by (auto simp: indicesForRole_def role_at_def)

lemma indicesForRole_Nil: "indicesForRole evals role = [] \<longleftrightarrow> (\<forall>i. \<not> role_at evals role i)"
  by (auto simp: indicesForRole_def role_at_def filter_empty_conv)

text \<open>The entries that decide a rule, as the comments of the code describe them.\<close>

definition deciding :: "RuleEval list \<Rightarrow> evalOutcome list \<Rightarrow> nat set" where
  "deciding evals outcomes =
     (if (\<exists>i. role_at evals RoleEnforce i) \<and> (\<exists>i. role_at evals RoleFallback i)
         \<and> (\<forall>i. role_at evals RoleEnforce i \<longrightarrow> eo_errored (outcomes ! i))
      then {i. role_at evals RoleFallback i}
      else {i. role_at evals RoleEnforce i})"

lemma fold_decides:
  "foldMatrixOutcomes evals outcomes \<longleftrightarrow>
     (\<exists>i. role_at evals RoleEnforce i) \<and>
     (if matrixCombineOperator evals = CombineAnd
      then \<forall>i\<in>deciding evals outcomes. eo_verdict (outcomes ! i) = verdictBlock
      else \<exists>i\<in>deciding evals outcomes. eo_verdict (outcomes ! i) = verdictBlock)"
  by (auto simp: foldMatrixOutcomes_def Let_def combineBlocks_iff indicesForRole_Nil
        indicesForRole_set deciding_def allErrored_def list_all_iff)

text \<open>The matrix decides as specified: the enforcing entries decide, unless every one of them
  errored and a fallback entry exists, in which case the fallback entries decide; with the operator
  \<open>and\<close> all of the deciding entries must block, otherwise one suffices; without an enforcing entry
  the rule never blocks.\<close>

theorem matrix_decision_correct:
  "foldMatrixOutcomes evals outcomes \<longleftrightarrow>
     (\<exists>i. role_at evals RoleEnforce i) \<and>
     (if matrixCombineOperator evals = CombineAnd
      then deciding evals outcomes \<subseteq> {i. eo_verdict (outcomes ! i) = verdictBlock}
      else deciding evals outcomes \<inter> {i. eo_verdict (outcomes ! i) = verdictBlock} \<noteq> {})"
  unfolding fold_decides by auto

text \<open>A verify entry never decides: whatever its outcome is replaced by, the decision is the
  same.\<close>

theorem verify_never_decides:
  assumes "ev_Role (evals ! i) \<noteq> RoleEnforce" "ev_Role (evals ! i) \<noteq> RoleFallback"
  shows "foldMatrixOutcomes evals (outcomes[i := o']) = foldMatrixOutcomes evals outcomes"
proof -
  have same: "outcomes[i := o'] ! j = outcomes ! j"
    if "role_at evals RoleEnforce j \<or> role_at evals RoleFallback j" for j
  proof -
    have "i \<noteq> j" using that assms by (auto simp: role_at_def)
    then show ?thesis by simp
  qed
  have c: "combineBlocks c (indicesForRole evals role) (outcomes[i := o'])
           = combineBlocks c (indicesForRole evals role) outcomes"
    if "role = RoleEnforce \<or> role = RoleFallback" for c role
    using that same by (auto simp: combineBlocks_iff indicesForRole_set)
  have e: "allErrored (indicesForRole evals RoleEnforce) (outcomes[i := o'])
           = allErrored (indicesForRole evals RoleEnforce) outcomes"
    using same by (auto simp: allErrored_def list_all_iff indicesForRole_set)
  show ?thesis by (simp add: foldMatrixOutcomes_def Let_def c e)
qed

definition eval_entry :: "bytes \<Rightarrow> bytes \<Rightarrow> bytes \<Rightarrow> RuleEval" where
  "eval_entry kind role onError =
     \<lparr>ev_Kind = kind, ev_Role = role, ev_Use = ''judge'', ev_Fanout = [], ev_Combine = [], ev_OnError = onError\<rparr>"

theorem verify_never_decides_witness:
  "foldMatrixOutcomes [eval_entry EvalKindInfer RoleVerify [], eval_entry EvalKindDeterministic RoleEnforce []]
     ([\<lparr>eo_verdict = verdictAllow, eo_errored = False\<rparr>, \<lparr>eo_verdict = verdictBlock, eo_errored = False\<rparr>]
        [0 := \<lparr>eo_verdict = verdictBlock, eo_errored = True\<rparr>])
   = foldMatrixOutcomes [eval_entry EvalKindInfer RoleVerify [], eval_entry EvalKindDeterministic RoleEnforce []]
     [\<lparr>eo_verdict = verdictAllow, eo_errored = False\<rparr>, \<lparr>eo_verdict = verdictBlock, eo_errored = False\<rparr>]"
  by (rule verify_never_decides)
     (simp_all add: eval_entry_def RoleVerify_def RoleEnforce_def RoleFallback_def)

section \<open>Concurrent inference\<close>

lemma runInferConcurrently_fold:
  "fold (\<lambda>i m. m(i \<mapsto> g i)) order m j = (if j \<in> set order then Some (g j) else m j)"
  by (induction order arbitrary: m) auto

lemma runInferConcurrently_lookup:
  "runInferConcurrently w rule command order j
   = (if j \<in> set order then Some (infer_entry w rule command j) else None)"
  by (simp add: runInferConcurrently_def runInferConcurrently_fold)

text \<open>What each entry contributes once the scope matched.\<close>

definition settled :: "infer_world \<Rightarrow> Rule \<Rightarrow> bytes \<Rightarrow> nat \<Rightarrow> evalOutcome" where
  "settled w rule command i =
     (if ev_Kind (r_Eval rule ! i) = EvalKindInfer then infer_entry w rule command i
      else \<lparr>eo_verdict = verdictBlock, eo_errored = False\<rparr>)"

lemma matrix_decision_settled:
  assumes "set order = set (infer_indices rule)"
  shows "matrix_decision w rule command order True
         = foldMatrixOutcomes (r_Eval rule) (map (settled w rule command) [0..<length (r_Eval rule)])"
proof -
  have "matrix_resolve True (runInferConcurrently w rule command order) i (r_Eval rule ! i)
        = settled w rule command i" if "i < length (r_Eval rule)" for i
    using that assms
    by (simp add: matrix_resolve_def settled_def runInferConcurrently_lookup infer_indices_def)
  then have "map (\<lambda>i. matrix_resolve True (runInferConcurrently w rule command order) i (r_Eval rule ! i))
                [0..<length (r_Eval rule)] = map (settled w rule command) [0..<length (r_Eval rule)]"
    by simp
  then show ?thesis by (simp only: matrix_decision_def runEvalMatrix_def if_True)
qed

lemma matrix_out_of_scope: "\<not> matrix_decision w rule command order False"
proof -
  have "\<not> combineBlocks c (indicesForRole (r_Eval rule) role)
           (map (\<lambda>i. matrix_resolve False Map.empty i (r_Eval rule ! i)) [0..<length (r_Eval rule)])"
    for c role
    by (cases "indicesForRole (r_Eval rule) role = []")
       (auto simp: combineBlocks_iff matrix_resolve_def indicesForRole_set indicesForRole_Nil role_at_def)
  then show ?thesis
    by (simp add: matrix_decision_def runEvalMatrix_def foldMatrixOutcomes_def Let_def)
qed

text \<open>C38. The decision does not depend on the order in which the concurrent inference calls finish,
  and a rule out of scope never blocks.\<close>

theorem inference_order_irrelevant:
  assumes "set order = set (infer_indices rule)" "set order' = set (infer_indices rule)"
  shows "matrix_decision w rule command order inScope = matrix_decision w rule command order' inScope
         \<and> \<not> matrix_decision w rule command order False"
  using assms by (cases inScope) (simp_all add: matrix_decision_settled matrix_out_of_scope)

text \<open>Two infer entries whose calls can finish in either order.\<close>

definition two_judges :: Rule where
  "two_judges = zero_Rule\<lparr>r_Name := ''secrets'', r_Intent := ''no secrets'',
     r_Eval := [eval_entry EvalKindInfer RoleEnforce [], eval_entry EvalKindInfer RoleVerify [],
                eval_entry EvalKindDeterministic RoleFallback []],
     r_EvalInference := Some [(''judge'', zero_InferencePoint)]\<rparr>"

definition failing_world :: infer_world where
  "failing_world = \<lparr>iw_batch = (\<lambda>p n. None),
     iw_reply = (\<lambda>i p t c. if i = 0 then None else Some \<lparr>pv_block = False, pv_errored = True\<rparr>)\<rparr>"

theorem inference_order_irrelevant_witness:
  "matrix_decision failing_world two_judges ''ls'' [0, 1] True
   = matrix_decision failing_world two_judges ''ls'' [1, 0] True
   \<and> \<not> matrix_decision failing_world two_judges ''ls'' [0, 1] False"
  by (rule inference_order_irrelevant; code_simp)

text \<open>
  During an outage every reply is an error or a panic, and every batch verdict, if any, is an
  errored one.
\<close>

definition outage :: "infer_world \<Rightarrow> bool" where
  "outage w \<longleftrightarrow>
     (\<forall>p n v. iw_batch w p n = Some v \<longrightarrow> pv_errored v) \<and>
     (\<forall>i p t c v. iw_reply w i p t c = Some v \<longrightarrow> pv_errored v)"

lemma outage_infer_entry:
  assumes "outage w"
  shows "eo_errored (infer_entry w rule command i)
         \<and> (ev_OnError (r_Eval rule ! i) \<noteq> OnErrorOpen
              \<longrightarrow> eo_verdict (infer_entry w rule command i) = verdictBlock)"
proof -
  let ?e = "r_Eval rule ! i"
  have single: "eo_errored o' \<and> (ev_OnError ?e \<noteq> OnErrorOpen \<longrightarrow> eo_verdict o' = verdictBlock)"
    if "resolveInferSingle w rule command i ?e = Some o'" for o'
    using that assms
    by (auto simp: resolveInferSingle_def outage_def verdict_outcome_def applyPointVerdict_def
          split: option.splits if_splits)
  show ?thesis
    using single by (auto simp: infer_entry_def Let_def split: option.splits)
qed

lemma role_lt: "role_at evals role i \<Longrightarrow> i < length evals"
  by (simp add: role_at_def)

definition guarded :: "RuleEval list \<Rightarrow> bool" where
  "guarded evals \<longleftrightarrow>
     (\<forall>i. role_at evals RoleEnforce i \<longrightarrow> ev_OnError (evals ! i) \<noteq> OnErrorOpen)
     \<or> ((\<forall>i. role_at evals RoleEnforce i \<longrightarrow> ev_Kind (evals ! i) = EvalKindInfer)
        \<and> (\<exists>i. role_at evals RoleFallback i))"

lemma settled_nth:
  "role_at (r_Eval rule) role i \<Longrightarrow>
   map (settled w rule command) [0..<length (r_Eval rule)] ! i = settled w rule command i"
  using role_lt by simp

lemma matrix_outage_blocks:
  assumes order: "set order = set (infer_indices rule)"
    and e: "role_at (r_Eval rule) RoleEnforce e"
    and fb: "\<And>i. role_at (r_Eval rule) RoleFallback i \<Longrightarrow> ev_Kind (r_Eval rule ! i) \<noteq> EvalKindInfer"
    and out: "outage w" and gd: "guarded (r_Eval rule)"
  shows "matrix_decision w rule command order True"
proof -
  let ?o = "map (settled w rule command) [0..<length (r_Eval rule)]"
  note nth = settled_nth [of rule _ _ w command]
  note inf = outage_infer_entry [OF out, of rule command]
  have fbb: "eo_verdict (?o ! i) = verdictBlock" if "role_at (r_Eval rule) RoleFallback i" for i
    using nth [OF that] fb [OF that] by (simp add: settled_def)
  have all: "\<forall>i\<in>deciding (r_Eval rule) ?o. eo_verdict (?o ! i) = verdictBlock"
  proof (cases "\<forall>i. role_at (r_Eval rule) RoleEnforce i \<longrightarrow> ev_OnError (r_Eval rule ! i) \<noteq> OnErrorOpen")
    case True
    have "eo_verdict (?o ! i) = verdictBlock" if "role_at (r_Eval rule) RoleEnforce i" for i
      using nth [OF that] True that inf [of i] by (simp add: settled_def)
    then show ?thesis using fbb by (simp add: deciding_def)
  next
    case False
    then have kinds: "\<forall>i. role_at (r_Eval rule) RoleEnforce i \<longrightarrow> ev_Kind (r_Eval rule ! i) = EvalKindInfer"
      and ex: "\<exists>i. role_at (r_Eval rule) RoleFallback i"
      using gd by (auto simp: guarded_def)
    have "eo_errored (?o ! i)" if "role_at (r_Eval rule) RoleEnforce i" for i
      using nth [OF that] kinds that inf [of i] by (simp add: settled_def)
    then have "deciding (r_Eval rule) ?o = {i. role_at (r_Eval rule) RoleFallback i}"
      using ex e unfolding deciding_def by (subst if_P) blast+
    then show ?thesis using fbb by simp
  qed
  have ne: "deciding (r_Eval rule) ?o \<noteq> {}" using e by (auto simp: deciding_def)
  have "foldMatrixOutcomes (r_Eval rule) ?o"
    unfolding fold_decides using all ne e by auto
  then show ?thesis by (simp only: matrix_decision_settled [OF order])
qed

lemma matrix_backstop:
  assumes order: "set order = set (infer_indices rule)"
    and e: "role_at (r_Eval rule) RoleEnforce e"
    and k: "ev_Kind (r_Eval rule ! e) \<noteq> EvalKindInfer"
    and u: "matrixCombineOperator (r_Eval rule) \<noteq> CombineAnd"
  shows "matrix_decision w rule command order True"
proof -
  let ?o = "map (settled w rule command) [0..<length (r_Eval rule)]"
  have oe: "?o ! e = \<lparr>eo_verdict = verdictBlock, eo_errored = False\<rparr>"
    using settled_nth [OF e, of w command] k by (simp add: settled_def)
  have "\<not> (\<forall>i. role_at (r_Eval rule) RoleEnforce i \<longrightarrow> eo_errored (?o ! i))"
    using e oe by (metis evalOutcome.select_convs(2))
  then have "e \<in> deciding (r_Eval rule) ?o" using e by (auto simp: deciding_def)
  then have "foldMatrixOutcomes (r_Eval rule) ?o"
    unfolding fold_decides using oe e u by (metis evalOutcome.select_convs(1))
  then show ?thesis by (simp only: matrix_decision_settled [OF order])
qed

text \<open>C37. When the matrix of a rule in scope has an enforcing entry, two things make it block.  During an
  outage, in which every reply and every batch verdict is an error, it blocks under every combine operator and whatever
  the order of the failures, if no fallback entry is itself an inference entry and either no
  enforcing entry opts into failing open, or all enforcing entries are inference entries and some
  (deterministic) fallback stands in for them.  And under every operator but \<^verbatim>\<open>and\<close> (with
  which one allowing entry lets the event pass) one deterministic enforcing entry blocks whatever
  inference answers, in time or not.\<close>

theorem matrix_fails_closed:
  assumes "set order = set (infer_indices rule)" and "role_at (r_Eval rule) RoleEnforce e"
  shows "(outage w \<and> guarded (r_Eval rule)
            \<and> (\<forall>i. role_at (r_Eval rule) RoleFallback i \<longrightarrow> ev_Kind (r_Eval rule ! i) \<noteq> EvalKindInfer)
          \<or> ev_Kind (r_Eval rule ! e) \<noteq> EvalKindInfer \<and> matrixCombineOperator (r_Eval rule) \<noteq> CombineAnd)
         \<longrightarrow> matrix_decision w rule command order True"
  using matrix_outage_blocks [OF assms] matrix_backstop [OF assms] by blast

theorem matrix_fails_closed_witness:
  "outage failing_world \<and> guarded (r_Eval two_judges)
   \<and> matrix_decision failing_world two_judges ''ls'' [1, 0] True"
proof -
  have "ev_OnError (r_Eval two_judges ! i) \<noteq> OnErrorOpen" if "i < length (r_Eval two_judges)" for i
    using that by (simp add: two_judges_def zero_Rule_def eval_entry_def OnErrorOpen_def nth_Cons'
        split: if_splits)
  then have guard: "guarded (r_Eval two_judges)" by (auto simp: guarded_def role_at_def)
  have out: "outage failing_world" by (auto simp: outage_def failing_world_def split: if_splits)
  have fb: "role_at (r_Eval two_judges) RoleFallback i \<Longrightarrow> ev_Kind (r_Eval two_judges ! i) \<noteq> EvalKindInfer" for i
    by (auto simp: role_at_def two_judges_def zero_Rule_def eval_entry_def RoleFallback_def RoleVerify_def
          RoleEnforce_def EvalKindInfer_def EvalKindDeterministic_def nth_Cons' split: if_splits)
  have "set [1, 0] = set (infer_indices two_judges)" by code_simp
  moreover have "role_at (r_Eval two_judges) RoleEnforce 0"
    by (simp add: role_at_def two_judges_def eval_entry_def zero_Rule_def)
  ultimately show ?thesis using matrix_fails_closed [of "[1, 0]" two_judges 0 failing_world "''ls''"] out guard fb by blast
qed

end
