(* ===== verification/LiteralAssign.thy ===== *)
theory LiteralAssign
  imports ShellExpand
begin

text \<open>
  Substitution of literal shell assignments
  (\<^verbatim>\<open>internal/rules/concerns/shellparse/literal_assignments.go\<close>).  Where the code keeps an index
  into the command, the definitions keep the rest of the command from that index on; the index is
  the length of the command minus the length of the rest.  The three maps that one command fills
  are association lists in the order of first insertion.
\<close>

record literalAssignment =
  la_value :: bytes
  la_availableAt :: nat
  la_safe :: bool

type_synonym history = "(bytes \<times> literalAssignment list) list"

section \<open>Scanning\<close>

fun quotes_balanced_loop :: "char option \<Rightarrow> bool \<Rightarrow> bytes \<Rightarrow> bool" where
  "quotes_balanced_loop quote escaped [] = (quote = None)"
| "quotes_balanced_loop quote escaped (c # s) =
     (if quote = Some squote then quotes_balanced_loop (if c = squote then None else quote) escaped s
      else if escaped then quotes_balanced_loop quote False s
      else if c = backslash then quotes_balanced_loop quote True s
      else if quote = None \<and> (c = squote \<or> c = dquote) then quotes_balanced_loop (Some c) escaped s
      else if quote = Some c then quotes_balanced_loop None escaped s
      else quotes_balanced_loop quote escaped s)"

definition literalAssignmentQuotesBalanced :: "bytes \<Rightarrow> bool" where
  "literalAssignmentQuotesBalanced command = quotes_balanced_loop None False command"

definition skipLiteralAssignmentSpace :: "bytes \<Rightarrow> bytes" where
  "skipLiteralAssignmentSpace s = dropWhile (\<lambda>c. c = CHR '' '' \<or> c = CHR 0x09) s"

definition doubled_operator :: "bytes \<Rightarrow> bool" where
  "doubled_operator s \<longleftrightarrow>
     1 < length s \<and> (s ! 0 = CHR ''&'' \<or> s ! 0 = CHR ''|'') \<and> s ! 1 = s ! 0"

definition literalAssignmentWordBoundary :: "bytes \<Rightarrow> bool" where
  "literalAssignmentWordBoundary s \<longleftrightarrow>
     hd s \<in> {CHR '' '', CHR 0x09, CHR 0x0A, CHR '';''} \<or> doubled_operator s"

definition literalAssignmentCommandEndsAt :: "bytes \<Rightarrow> bool" where
  "literalAssignmentCommandEndsAt s \<longleftrightarrow>
     s = [] \<or> hd s = CHR '';'' \<or> hd s = CHR 0x0A \<or> doubled_operator s"

definition readLiteralAssignmentName :: "bytes \<Rightarrow> (bytes \<times> bytes) option" where
  "readLiteralAssignmentName s =
     (if s = [] \<or> \<not> literalAssignmentNameStart (hd s) then None
      else let name = hd s # takeWhile literalAssignmentNamePart (tl s);
               rest = drop (length name) s in
           if rest = [] \<or> hd rest \<noteq> CHR ''='' then None else Some (name, tl rest))"

fun unquoted_value :: "bytes \<Rightarrow> bytes \<times> bytes" where
  "unquoted_value [] = ([], [])"
| "unquoted_value (c # s) =
     (if literalAssignmentWordBoundary (c # s) then ([], c # s)
      else let (v, rest) = unquoted_value s in (c # v, rest))"

definition readLiteralAssignmentValue :: "bytes \<Rightarrow> (bytes \<times> bytes) option" where
  "readLiteralAssignmentValue s =
     (if s = [] then Some ([], [])
      else if hd s = squote \<or> hd s = dquote then
        (let inner = takeWhile (\<lambda>c. c \<noteq> hd s) (tl s); after = dropWhile (\<lambda>c. c \<noteq> hd s) (tl s) in
         if after = [] then None
         else if tl after \<noteq> [] \<and> \<not> literalAssignmentWordBoundary (tl after) then None
         else Some (hd s # inner @ [hd s], tl after))
      else Some (unquoted_value s))"

definition stripOuterQuotes :: "bytes \<Rightarrow> bytes" where
  "stripOuterQuotes v =
     (if 2 \<le> length v \<and> (hd v = squote \<and> List.last v = squote \<or> hd v = dquote \<and> List.last v = dquote)
      then butlast (tl v) else v)"

definition unsafe_characters :: "char set" where
  "unsafe_characters =
     {CHR ''$'', CHR 0x60, CHR '')'', CHR '' '', CHR 0x09, CHR 0x0A, CHR ''*'', CHR ''?'', CHR ''['',
      CHR ''{'', backslash, CHR ''}'', squote, dquote}"

definition literalAssignmentValueIsSafe :: "bytes \<Rightarrow> bool" where
  "literalAssignmentValueIsSafe v \<longleftrightarrow> list_all (\<lambda>c. c \<notin> unsafe_characters) (stripOuterQuotes v)"

definition skipLiteralAssignmentQuote :: "bytes \<Rightarrow> bytes option" where
  "skipLiteralAssignmentQuote s =
     (let after = dropWhile (\<lambda>c. c \<noteq> hd s) (tl s) in if after = [] then None else Some (tl after))"

lemma skipLiteralAssignmentQuote_length: "skipLiteralAssignmentQuote (c # s) = Some r \<Longrightarrow> length r < length (c # s)"
  using length_dropWhile_le [of "\<lambda>x. x \<noteq> c" s]
  by (auto simp: skipLiteralAssignmentQuote_def Let_def split: if_splits)

text \<open>The rest after the next command separator and whether the separator is conditional.\<close>

function (sequential) nextLiteralAssignmentCommandStart :: "bytes \<Rightarrow> (bytes \<times> bool) option" where
  "nextLiteralAssignmentCommandStart [] = None"
| "nextLiteralAssignmentCommandStart (c # s) =
     (if c = squote \<or> c = dquote then
        (case skipLiteralAssignmentQuote (c # s) of
           None \<Rightarrow> None
         | Some rest \<Rightarrow> nextLiteralAssignmentCommandStart rest)
      else if c = CHR '';'' \<or> c = CHR 0x0A then Some (s, False)
      else if (c = CHR ''&'' \<or> c = CHR ''|'') \<and> s \<noteq> [] \<and> hd s = c then Some (tl s, True)
      else nextLiteralAssignmentCommandStart s)"
  by pat_completeness auto
termination
  by (relation "measure length") (auto dest: skipLiteralAssignmentQuote_length)

section \<open>The assignments of one command\<close>

record command_assignments =
  ca_values :: "(bytes \<times> bytes) list"
  ca_counts :: "(bytes \<times> nat) list"
  ca_unsafe :: "bytes list"

definition no_assignments :: command_assignments where
  "no_assignments = \<lparr>ca_values = [], ca_counts = [], ca_unsafe = []\<rparr>"

definition readLiteralAssignment :: "bytes \<Rightarrow> command_assignments \<Rightarrow> (bytes \<times> command_assignments) option" where
  "readLiteralAssignment s st =
     (case readLiteralAssignmentName s of
        None \<Rightarrow> None
      | Some (name, valueStart) \<Rightarrow>
          (case readLiteralAssignmentValue valueStart of
             None \<Rightarrow> None
           | Some (v, rest) \<Rightarrow>
               (let count = (case map_of (ca_counts st) name of Some n \<Rightarrow> n | None \<Rightarrow> 0);
                    st1 = st\<lparr>ca_counts := AList.update name (count + 1) (ca_counts st)\<rparr> in
                Some (rest,
                  if literalAssignmentValueIsSafe v
                  then st1\<lparr>ca_values := AList.update name (stripOuterQuotes v) (ca_values st1)\<rparr>
                  else st1\<lparr>ca_unsafe := name # ca_unsafe st1, ca_values := AList.delete name (ca_values st1)\<rparr>))))"

lemma readLiteralAssignmentName_length:
  "readLiteralAssignmentName s = Some (name, r) \<Longrightarrow> length r < length s"
  by (auto simp: readLiteralAssignmentName_def Let_def split: if_splits)

lemma unquoted_value_append: "unquoted_value s = (v, r) \<Longrightarrow> s = v @ r"
  by (induction s arbitrary: v r) (auto simp: Let_def split: if_splits prod.splits)

lemma readLiteralAssignmentValue_append: "readLiteralAssignmentValue s = Some (v, r) \<Longrightarrow> s = v @ r"
proof -
  assume a: "readLiteralAssignmentValue s = Some (v, r)"
  show ?thesis
  proof (cases s)
    case Nil
    then show ?thesis using a by (simp add: readLiteralAssignmentValue_def)
  next
    case (Cons q t)
    show ?thesis
    proof (cases "q = squote \<or> q = dquote")
      case True
      let ?d = "dropWhile (\<lambda>c. c \<noteq> q) t"
      have d: "?d \<noteq> []" and v: "v = q # takeWhile (\<lambda>c. c \<noteq> q) t @ [q]" "r = tl ?d"
        using a True Cons by (auto simp: readLiteralAssignmentValue_def Let_def split: if_splits)
      have "hd ?d = q" using hd_dropWhile [OF d] by simp
      then have "?d = q # tl ?d" using d by (metis list.collapse)
      then have "t = takeWhile (\<lambda>c. c \<noteq> q) t @ q # tl ?d"
        using takeWhile_dropWhile_id [of "\<lambda>c. c \<noteq> q" t] by metis
      then show ?thesis using v Cons by simp
    next
      case False
      then have "unquoted_value s = (v, r)"
        using a Cons by (simp add: readLiteralAssignmentValue_def del: unquoted_value.simps)
      then show ?thesis by (rule unquoted_value_append)
    qed
  qed
qed

lemma readLiteralAssignment_length:
  "readLiteralAssignment s st = Some (r, st') \<Longrightarrow> length r < length s"
  by (auto simp: readLiteralAssignment_def Let_def split: option.splits
        dest!: readLiteralAssignmentName_length readLiteralAssignmentValue_append)

lemma skipLiteralAssignmentSpace_length: "length (skipLiteralAssignmentSpace s) \<le> length s"
  by (simp add: skipLiteralAssignmentSpace_def length_dropWhile_le)

function read_assignments :: "bytes \<Rightarrow> command_assignments \<Rightarrow> bytes \<times> command_assignments" where
  "read_assignments s st =
     (let s1 = skipLiteralAssignmentSpace s in
      case readLiteralAssignment s1 st of
        None \<Rightarrow> (s1, st)
      | Some (rest, st') \<Rightarrow> read_assignments rest st')"
  by pat_completeness auto
termination
proof (relation "measure (\<lambda>(s, st). length s)", goal_cases)
  case 1
  then show ?case by simp
next
  case (2 s st s1 p r st')
  then show ?case
    using readLiteralAssignment_length [of s1 st r st'] skipLiteralAssignmentSpace_length [of s] by auto
qed

declare read_assignments.simps [simp del]

lemma read_assignments_length: "length (fst (read_assignments s st)) \<le> length s"
proof (induction s st rule: read_assignments.induct)
  case (1 s st)
  show ?case
  proof (cases "readLiteralAssignment (skipLiteralAssignmentSpace s) st")
    case None
    then show ?thesis
      using skipLiteralAssignmentSpace_length [of s] by (subst read_assignments.simps) (simp add: Let_def)
  next
    case (Some p)
    obtain r st' where p: "p = (r, st')" by (cases p)
    have "length (fst (read_assignments r st')) \<le> length r" using 1 Some p by blast
    moreover have "length r < length (skipLiteralAssignmentSpace s)"
      using readLiteralAssignment_length Some p by blast
    ultimately show ?thesis
      using skipLiteralAssignmentSpace_length [of s] Some p
      by (subst read_assignments.simps) (simp add: Let_def)
  qed
qed

section \<open>The history of a command line\<close>

definition history_at :: "history \<Rightarrow> bytes \<Rightarrow> literalAssignment list" where
  "history_at h name = (case map_of h name of Some as \<Rightarrow> as | None \<Rightarrow> [])"

definition record_assignment ::
  "bool \<Rightarrow> nat \<Rightarrow> command_assignments \<Rightarrow> bytes \<Rightarrow> history \<Rightarrow> history" where
  "record_assignment conditional availableAt st name h =
     (let found = map_of (ca_values st) name;
          v = (case found of Some v \<Rightarrow> v | None \<Rightarrow> []);
          safe = (found \<noteq> None \<and> name \<notin> set (ca_unsafe st) \<and> \<not> conditional) in
      AList.update name
        (history_at h name @ [\<lparr>la_value = v, la_availableAt = availableAt, la_safe = safe\<rparr>]) h)"

lemma nextLiteralAssignmentCommandStart_length:
  "nextLiteralAssignmentCommandStart s = Some (r, b) \<Longrightarrow> length r < length s"
proof (induction s rule: nextLiteralAssignmentCommandStart.induct)
  case (2 c s)
  show ?case
  proof (cases "c = squote \<or> c = dquote")
    case True
    then obtain rest where "skipLiteralAssignmentQuote (c # s) = Some rest"
        "nextLiteralAssignmentCommandStart rest = Some (r, b)"
      using 2 by (auto split: option.splits)
    then show ?thesis using 2(1) True skipLiteralAssignmentQuote_length by force
  next
    case False
    then show ?thesis
      using 2(2) 2(3) by (cases s) (auto split: if_splits)
  qed
qed simp

function history_loop :: "nat \<Rightarrow> bool \<Rightarrow> bytes \<Rightarrow> history \<Rightarrow> history" where
  "history_loop len conditional s h =
     (if s = [] then h
      else let (s1, st) = read_assignments s no_assignments;
               nxt = nextLiteralAssignmentCommandStart s1;
               availableAt = (case nxt of Some (rest, c) \<Rightarrow> len - length rest | None \<Rightarrow> len);
               h' = (if literalAssignmentCommandEndsAt (skipLiteralAssignmentSpace s1)
                     then fold (record_assignment conditional availableAt st) (map fst (ca_counts st)) h
                     else h) in
           case nxt of None \<Rightarrow> h' | Some (rest, nextConditional) \<Rightarrow> history_loop len nextConditional rest h')"
  by pat_completeness auto
termination
proof (relation "measure (\<lambda>(t, c, s, h). length s)", goal_cases)
  case 1
  then show ?case by simp
next
  case (2 len conditional s h p s1 st nxt a h' q r b)
  have "length s1 \<le> length s" using read_assignments_length [of s no_assignments] 2 by (metis fst_conv)
  then show ?case using nextLiteralAssignmentCommandStart_length [of s1 r b] 2 by simp
qed

declare history_loop.simps [simp del]

definition literalAssignmentHistory :: "bytes \<Rightarrow> history" where
  "literalAssignmentHistory command = history_loop (length command) False command []"

section \<open>Substitution\<close>

text \<open>\<^verbatim>\<open>literalAssignmentRefPattern\<close> at the start of a text: the name and the length of the match.\<close>

definition ref_match :: "bytes \<Rightarrow> (bytes \<times> nat) option" where
  "ref_match s =
     (if length s < 2 \<or> s ! 0 \<noteq> CHR ''$'' then None
      else if s ! 1 = CHR ''{'' then
        (let name = takeWhile literalAssignmentNamePart (drop 2 s) in
         if name = [] \<or> \<not> literalAssignmentNameStart (hd name) \<or> \<not> byte_at s (2 + length name) (CHR ''}'')
         then None else Some (name, 3 + length name))
      else let name = takeWhile literalAssignmentNamePart (drop 1 s) in
           if name = [] \<or> \<not> literalAssignmentNameStart (hd name) then None
           else Some (name, 1 + length name))"

definition literalAssignmentAt :: "literalAssignment list \<Rightarrow> nat \<Rightarrow> literalAssignment option" where
  "literalAssignmentAt hist referenceAt = find (\<lambda>a. la_availableAt a \<le> referenceAt) (rev hist)"

definition escapedLiteralAssignmentRef :: "bytes \<Rightarrow> bool" where
  "escapedLiteralAssignmentRef passed = odd (length (takeWhile (\<lambda>c. c = backslash) (rev passed)))"

lemma ref_match_length: "ref_match s = Some (name, n) \<Longrightarrow> 0 < n"
  by (auto simp: ref_match_def Let_def split: if_splits)

text \<open>The argument \<open>passed\<close> is the part of the segment already passed.\<close>

function substitute_loop :: "history \<Rightarrow> nat \<Rightarrow> bytes \<Rightarrow> bytes \<Rightarrow> bytes" where
  "substitute_loop values segmentStart passed s =
     (if s = [] then []
      else case ref_match s of
        None \<Rightarrow> hd s # substitute_loop values segmentStart (passed @ [hd s]) (tl s)
      | Some (name, n) \<Rightarrow>
          (let found = literalAssignmentAt (history_at values name) (segmentStart + length passed);
               out = (case found of
                        None \<Rightarrow> take n s
                      | Some a \<Rightarrow> if \<not> la_safe a \<or> escapedLiteralAssignmentRef passed then take n s
                                 else la_value a) in
           out @ substitute_loop values segmentStart (passed @ take n s) (drop n s)))"
  by pat_completeness auto
termination
  by (relation "measure (\<lambda>(v, p, b, s). length s)") (auto dest!: ref_match_length)

declare substitute_loop.simps [simp del]

definition substituteLiteralAssignmentRefs :: "bytes \<Rightarrow> nat \<Rightarrow> history \<Rightarrow> bytes" where
  "substituteLiteralAssignmentRefs segment segmentStart values = substitute_loop values segmentStart [] segment"

text \<open>\<open>seg\<close> is the segment read so far, from \<open>pos\<close> on.\<close>

fun literal_loop :: "history \<Rightarrow> bytes \<Rightarrow> nat \<Rightarrow> char option \<Rightarrow> bool \<Rightarrow> bytes \<Rightarrow> bytes" where
  "literal_loop values seg pos quote escaped [] = substituteLiteralAssignmentRefs seg pos values"
| "literal_loop values seg pos quote escaped (c # s) =
     (if quote = Some squote then
        (if c = squote then (seg @ [c]) @ literal_loop values [] (pos + length seg + 1) None escaped s
         else literal_loop values (seg @ [c]) pos quote escaped s)
      else if escaped then literal_loop values (seg @ [c]) pos quote False s
      else if c = backslash then literal_loop values (seg @ [c]) pos quote True s
      else if quote = None \<and> c = squote
      then substituteLiteralAssignmentRefs seg pos values
           @ literal_loop values [c] (pos + length seg) (Some squote) escaped s
      else if quote = Some dquote \<and> c = dquote then literal_loop values (seg @ [c]) pos None escaped s
      else if quote = None \<and> c = dquote then literal_loop values (seg @ [c]) pos (Some dquote) escaped s
      else literal_loop values (seg @ [c]) pos quote escaped s)"

definition ExpandLiteralAssignments :: "bytes \<Rightarrow> bytes" where
  "ExpandLiteralAssignments command =
     (if \<not> literalAssignmentQuotesBalanced command then command
      else let values = literalAssignmentHistory command in
           if values = [] then command else literal_loop values [] 0 None False command)"

section \<open>What is recorded as safe\<close>

definition entry_ok :: "nat \<Rightarrow> literalAssignment \<Rightarrow> bool" where
  "entry_ok len a \<longleftrightarrow>
     la_availableAt a \<le> len \<and> (la_safe a \<longrightarrow> (\<forall>c\<in>set (la_value a). c \<notin> unsafe_characters))"

definition history_ok :: "nat \<Rightarrow> history \<Rightarrow> bool" where
  "history_ok len h \<longleftrightarrow> (\<forall>name. \<forall>a \<in> set (history_at h name). entry_ok len a)"

definition values_ok :: "command_assignments \<Rightarrow> bool" where
  "values_ok st \<longleftrightarrow> (\<forall>name v. map_of (ca_values st) name = Some v \<longrightarrow> (\<forall>c\<in>set v. c \<notin> unsafe_characters))"

lemma readLiteralAssignment_values_ok:
  "readLiteralAssignment s st = Some (r, st') \<Longrightarrow> values_ok st \<Longrightarrow> values_ok st'"
  by (auto simp: readLiteralAssignment_def values_ok_def Let_def literalAssignmentValueIsSafe_def
        list_all_iff update_conv' delete_conv' split: option.splits if_splits)

lemma read_assignments_values_ok: "values_ok st \<Longrightarrow> values_ok (snd (read_assignments s st))"
proof (induction s st rule: read_assignments.induct)
  case (1 s st)
  show ?case
  proof (cases "readLiteralAssignment (skipLiteralAssignmentSpace s) st")
    case None
    then show ?thesis using 1(2) by (subst read_assignments.simps) (simp add: Let_def)
  next
    case (Some p)
    obtain r st' where p: "p = (r, st')" by (cases p)
    then have "values_ok st'" using readLiteralAssignment_values_ok Some 1(2) by blast
    then have "values_ok (snd (read_assignments r st'))" using 1(1) Some p by blast
    then show ?thesis using Some p by (subst read_assignments.simps) (simp add: Let_def)
  qed
qed

lemma history_at_update:
  "history_at (AList.update name as h) n = (if n = name then as else history_at h n)"
  by (simp add: history_at_def update_conv')

lemma record_assignment_ok:
  assumes "history_ok len h" "values_ok st" "availableAt \<le> len"
  shows "history_ok len (record_assignment conditional availableAt st name h)"
  using assms
  by (auto simp: history_ok_def record_assignment_def Let_def history_at_update entry_ok_def values_ok_def
        split: if_splits option.splits)

lemma record_all_ok:
  "history_ok len h \<Longrightarrow> values_ok st \<Longrightarrow> availableAt \<le> len \<Longrightarrow>
   history_ok len (fold (record_assignment conditional availableAt st) names h)"
  by (induction names arbitrary: h) (simp_all add: record_assignment_ok)

lemma history_loop_ok: "history_ok len h \<Longrightarrow> history_ok len (history_loop len conditional s h)"
proof (induction len conditional s h rule: history_loop.induct)
  case (1 len conditional s h)
  show ?case
  proof (cases "s = []")
    case True
    then show ?thesis using 1(2) by (simp add: history_loop.simps)
  next
    case False
    obtain s1 st where rd: "read_assignments s no_assignments = (s1, st)" by fastforce
    have "values_ok no_assignments" by (simp add: values_ok_def no_assignments_def)
    then have vals: "values_ok st" using read_assignments_values_ok [of no_assignments s] rd by simp
    define av where "av = (case nextLiteralAssignmentCommandStart s1 of
        Some (rest, c) \<Rightarrow> len - length rest | None \<Rightarrow> len)"
    have av: "av \<le> len" by (auto simp: av_def split: option.splits)
    define h' where "h' = (if literalAssignmentCommandEndsAt (skipLiteralAssignmentSpace s1)
        then fold (record_assignment conditional av st) (map fst (ca_counts st)) h else h)"
    have h': "history_ok len h'" using record_all_ok [OF 1(2) vals av] 1(2) by (simp add: h'_def)
    have eq: "history_loop len conditional s h = (case nextLiteralAssignmentCommandStart s1 of
        None \<Rightarrow> h' | Some (rest, c) \<Rightarrow> history_loop len c rest h')"
      using False rd unfolding h'_def av_def by (subst history_loop.simps) (simp add: Let_def)
    show ?thesis
    proof (cases "nextLiteralAssignmentCommandStart s1")
      case None
      then show ?thesis using eq h' by simp
    next
      case (Some q)
      obtain rest c where q: "q = (rest, c)" by (cases q)
      have "history_ok len (history_loop len c rest h')"
        using 1(1) [OF False rd [symmetric] refl refl av_def h'_def Some q [symmetric] h'] .
      then show ?thesis using eq Some q by simp
    qed
  qed
qed

lemma literalAssignmentHistory_ok: "history_ok (length command) (literalAssignmentHistory command)"
  unfolding literalAssignmentHistory_def
  by (rule history_loop_ok) (simp add: history_ok_def history_at_def)

section \<open>Quote states\<close>

definition quote_step :: "char \<Rightarrow> char option \<times> bool \<Rightarrow> char option \<times> bool" where
  "quote_step c st =
     (let (quote, escaped) = st in
      if quote = Some squote then (if c = squote then None else quote, escaped)
      else if escaped then (quote, False)
      else if c = backslash then (quote, True)
      else if quote = None \<and> (c = squote \<or> c = dquote) then (Some c, escaped)
      else if quote = Some c then (None, escaped)
      else (quote, escaped))"

definition quote_run :: "bytes \<Rightarrow> char option \<times> bool \<Rightarrow> char option \<times> bool" where
  "quote_run s st = fold quote_step s st"

lemma quote_run_simps [simp]:
  "quote_run [] st = st"
  "quote_run (c # s) st = quote_run s (quote_step c st)"
  "quote_run (a @ b) st = quote_run b (quote_run a st)"
  by (simp_all add: quote_run_def)

lemma balanced_quote_run: "quotes_balanced_loop q e s \<longleftrightarrow> fst (quote_run s (q, e)) = None"
  by (induction q e s rule: quotes_balanced_loop.induct) (auto simp: quote_step_def)

definition quote_ok :: "char option \<times> bool \<Rightarrow> bool" where
  "quote_ok st \<longleftrightarrow> fst st \<in> {None, Some squote, Some dquote}"

lemma quote_step_ok: "quote_ok st \<Longrightarrow> quote_ok (quote_step c st)"
  by (cases st) (auto simp: quote_ok_def quote_step_def)

lemma quote_run_ok: "quote_ok st \<Longrightarrow> quote_ok (quote_run s st)"
  by (induction s arbitrary: st) (simp_all add: quote_step_ok)

text \<open>Text without quotes and backslashes keeps a state that is not escaped.\<close>

lemma quote_run_plain:
  assumes "squote \<notin> set s" "dquote \<notin> set s" "backslash \<notin> set s" "snd st = False" "quote_ok st"
  shows "quote_run s st = st"
  using assms
proof (induction s)
  case (Cons c s)
  have "quote_step c st = st"
    using Cons.prems by (cases st) (auto simp: quote_step_def quote_ok_def)
  then show ?case using Cons by simp
qed simp

text \<open>A text that never is inside single quotes; there, escaping is a matter of parity.\<close>

definition outside_single :: "bytes \<Rightarrow> bool" where
  "outside_single t \<longleftrightarrow> (\<forall>k. fst (quote_run (take k t) (None, False)) \<noteq> Some squote)"

lemma outside_single_snoc:
  "outside_single (t @ [c]) \<longleftrightarrow>
     outside_single t \<and> fst (quote_run (t @ [c]) (None, False)) \<noteq> Some squote"
proof
  assume a: "outside_single (t @ [c])"
  have "fst (quote_run (take k t) (None, False)) \<noteq> Some squote" for k
  proof (cases "k \<le> length t")
    case True
    then show ?thesis using a spec [of _ k] unfolding outside_single_def by (metis append_Nil2 diff_is_0_eq take_0 take_append)
  next
    case False
    then show ?thesis using a unfolding outside_single_def
      by (metis append_eq_conv_conj nle_le take_all)
  qed
  then show "outside_single t \<and> fst (quote_run (t @ [c]) (None, False)) \<noteq> Some squote"
    using a unfolding outside_single_def by (metis order_refl take_all)
next
  assume a: "outside_single t \<and> fst (quote_run (t @ [c]) (None, False)) \<noteq> Some squote"
  show "outside_single (t @ [c])"
    unfolding outside_single_def
  proof
    fix k
    show "fst (quote_run (take k (t @ [c])) (None, False)) \<noteq> Some squote"
      using a by (cases "k \<le> length t") (auto simp: outside_single_def)
  qed
qed

lemma outside_single_prefix: "outside_single (a @ b) \<Longrightarrow> outside_single a"
proof (induction b rule: rev_induct)
  case (snoc c b)
  then have "outside_single ((a @ b) @ [c])" by simp
  then have "outside_single (a @ b)" by (simp only: outside_single_snoc)
  then show ?case by (rule snoc.IH)
qed simp

lemma escaped_parity:
  "outside_single t \<Longrightarrow> snd (quote_run t (None, False)) = escapedLiteralAssignmentRef t"
proof (induction t rule: rev_induct)
  case Nil
  then show ?case by (simp add: escapedLiteralAssignmentRef_def)
next
  case (snoc c t)
  have t: "outside_single t" using snoc.prems outside_single_prefix by blast
  then have nq: "fst (quote_run t (None, False)) \<noteq> Some squote"
    unfolding outside_single_def by (metis order_refl take_all)
  show ?case
    using snoc.IH [OF t] nq
    by (cases "quote_run t (None, False)") (auto simp: quote_step_def escapedLiteralAssignmentRef_def)
qed

section \<open>Substitution keeps the quoting\<close>

lemma name_chars: "c \<in> set (takeWhile literalAssignmentNamePart s) \<Longrightarrow> c \<notin> {squote, dquote, backslash}"
  by (drule set_takeWhileD)
     (auto simp: literalAssignmentNamePart_def literalAssignmentNameStart_def
        betweenLiteralAssignmentChars_def less_eq_char_def)

lemma ref_match_plain:
  assumes "ref_match s = Some (name, n)"
  shows "set (take n s) \<inter> {squote, dquote, backslash} = {}"
proof -
  have two: "2 \<le> length s" "s ! 0 = CHR ''$''" using assms by (auto simp: ref_match_def split: if_splits)
  then obtain b t where s: "s = CHR ''$'' # b # t" by (cases s; cases "tl s") auto
  show ?thesis
  proof (cases "b = CHR ''{''")
    case True
    let ?nm = "takeWhile literalAssignmentNamePart t"
    have n: "n = 3 + length ?nm" and close: "byte_at s (2 + length ?nm) (CHR ''}'')"
      using assms s True by (auto simp: ref_match_def Let_def split: if_splits)
    have "take (length ?nm) t = ?nm" by (metis takeWhile_eq_take)
    then have "take (length ?nm + 1) t = ?nm @ take 1 (drop (length ?nm) t)" by (simp only: take_add)
    then have "take n s = CHR ''$'' # b # ?nm @ take 1 (drop (length ?nm) t)"
      using s n by (simp add: numeral_3_eq_3)
    moreover have "take 1 (drop (length ?nm) t) = [CHR ''}'']"
      using close s by (auto simp: byte_at_def take_Suc hd_drop_conv_nth split: if_splits)
    ultimately show ?thesis
      using name_chars True by auto
  next
    case False
    let ?nm = "takeWhile literalAssignmentNamePart (b # t)"
    have n: "n = 1 + length ?nm" using assms s False by (auto simp: ref_match_def Let_def split: if_splits)
    have "take (length ?nm) (b # t) = ?nm" by (metis takeWhile_eq_take)
    then have "take n s = CHR ''$'' # ?nm" using s n by simp
    then show ?thesis using name_chars [of _ "b # t"] by auto
  qed
qed

lemma safe_value_plain: "\<forall>c\<in>set v. c \<notin> unsafe_characters \<Longrightarrow> set v \<inter> {squote, dquote, backslash} = {}"
  by (auto simp: unsafe_characters_def)

lemma quote_run_plain':
  "set s \<inter> {squote, dquote, backslash} = {} \<Longrightarrow> snd st = False \<Longrightarrow> quote_ok st \<Longrightarrow> quote_run s st = st"
  by (rule quote_run_plain) auto

lemma literalAssignmentAt_in: "literalAssignmentAt hist p = Some a \<Longrightarrow> a \<in> set hist"
  unfolding literalAssignmentAt_def find_Some_iff by (metis nth_mem set_rev)

lemma history_ok_safe:
  assumes "history_ok len h" "a \<in> set (history_at h name)" "la_safe a"
  shows "\<forall>c\<in>set (la_value a). c \<notin> unsafe_characters"
proof -
  have "entry_ok len a" using assms(1,2) by (simp add: history_ok_def)
  then show ?thesis using assms(3) by (simp add: entry_ok_def)
qed

lemma substitute_loop_quote_run:
  assumes "history_ok len vals" "outside_single (passed @ s)"
  shows "quote_run (substitute_loop vals segmentStart passed s) (quote_run passed (None, False))
         = quote_run (passed @ s) (None, False)"
  using assms
proof (induction vals segmentStart passed s rule: substitute_loop.induct)
  case (1 vals segmentStart passed s)
  let ?st = "quote_run passed (None, False)"
  have ok: "quote_ok ?st" by (rule quote_run_ok) (simp add: quote_ok_def)
  have par: "snd ?st = escapedLiteralAssignmentRef passed"
    using escaped_parity outside_single_prefix 1(4) by blast
  show ?case
  proof (cases "s = []")
    case True
    then show ?thesis by (simp add: substitute_loop.simps)
  next
    case ne: False
    show ?thesis
    proof (cases "ref_match s")
      case None
      have "(passed @ [hd s]) @ tl s = passed @ s" using ne by simp
      then show ?thesis
        using 1(1) [OF ne None 1(3)] 1(4) ne None
        by (subst substitute_loop.simps) (cases s; simp)
    next
      case (Some p)
      obtain name n where p: "p = (name, n)" by (cases p)
      let ?found = "literalAssignmentAt (history_at vals name) (segmentStart + length passed)"
      let ?out = "case ?found of None \<Rightarrow> take n s
          | Some a \<Rightarrow> if \<not> la_safe a \<or> escapedLiteralAssignmentRef passed then take n s else la_value a"
      have split: "(passed @ take n s) @ drop n s = passed @ s" by simp
      have plain: "set (take n s) \<inter> {squote, dquote, backslash} = {}"
        using ref_match_plain Some p by blast
      have out: "quote_run ?out ?st = quote_run (take n s) ?st"
      proof (cases "?out = take n s")
        case False
        then obtain a where a: "?found = Some a" "la_safe a" "\<not> escapedLiteralAssignmentRef passed"
            "?out = la_value a"
          by (auto split: option.splits if_splits)
        have "a \<in> set (history_at vals name)" using literalAssignmentAt_in [OF a(1)] .
        then have "set (la_value a) \<inter> {squote, dquote, backslash} = {}"
          using history_ok_safe [OF 1(3) _ a(2)] safe_value_plain by blast
        then show ?thesis using quote_run_plain' plain ok par a by simp
      qed simp
      have "quote_run (substitute_loop vals segmentStart (passed @ take n s) (drop n s))
              (quote_run (passed @ take n s) (None, False)) = quote_run (passed @ s) (None, False)"
        using 1(2) [OF ne Some p [symmetric] refl refl 1(3)] 1(4) split by simp
      then show ?thesis
        using ne Some p out by (subst substitute_loop.simps) (simp add: Let_def)
    qed
  qed
qed

lemma substitute_quote_run:
  "history_ok len vals \<Longrightarrow> outside_single seg \<Longrightarrow>
   quote_run (substituteLiteralAssignmentRefs seg pos vals) (None, False) = quote_run seg (None, False)"
  using substitute_loop_quote_run [of len vals "[]" seg pos]
  by (simp add: substituteLiteralAssignmentRefs_def)

text \<open>What the main loop knows about the segment it has read.\<close>

definition segment_ok :: "bytes \<Rightarrow> char option \<Rightarrow> bool \<Rightarrow> bool" where
  "segment_ok seg quote escaped \<longleftrightarrow>
     quote_run seg (None, False) = (quote, escaped) \<and> quote_ok (quote, escaped) \<and>
     (if quote = Some squote then \<not> escaped else outside_single seg)"

lemma segment_snoc:
  assumes "segment_ok seg quote escaped" "quote \<noteq> Some squote" "quote_step c (quote, escaped) = (q', e')"
    "q' \<noteq> Some squote"
  shows "segment_ok (seg @ [c]) q' e'"
  using assms quote_step_ok [of "(quote, escaped)" c]
  by (simp add: segment_ok_def outside_single_snoc)

lemma literal_loop_step:
  assumes "segment_ok seg quote escaped" "quote \<noteq> Some squote" "quote_step c (quote, escaped) \<noteq> (Some squote, escaped)"
  shows "literal_loop vals seg pos quote escaped (c # s)
         = literal_loop vals (seg @ [c]) pos (fst (quote_step c (quote, escaped))) (snd (quote_step c (quote, escaped))) s
         \<and> segment_ok (seg @ [c]) (fst (quote_step c (quote, escaped))) (snd (quote_step c (quote, escaped)))"
proof
  have q: "quote = None \<or> quote = Some dquote" using assms by (auto simp: segment_ok_def quote_ok_def)
  show "literal_loop vals seg pos quote escaped (c # s)
      = literal_loop vals (seg @ [c]) pos (fst (quote_step c (quote, escaped))) (snd (quote_step c (quote, escaped))) s"
  proof (cases "quote = None \<and> c = squote \<and> \<not> escaped")
    case True
    then show ?thesis using assms(3) by (simp add: quote_step_def)
  next
    case False
    then show ?thesis using q by (auto simp: quote_step_def)
  qed
  have "fst (quote_step c (quote, escaped)) \<noteq> Some squote"
    using q assms(3) by (auto simp: quote_step_def split: if_splits)
  then show "segment_ok (seg @ [c]) (fst (quote_step c (quote, escaped))) (snd (quote_step c (quote, escaped)))"
    using segment_snoc [OF assms(1,2)] by simp
qed

lemma literal_loop_quote_run:
  assumes "history_ok len vals" "segment_ok seg quote escaped" "fst (quote_run (seg @ s) (None, False)) = None"
  shows "quote_run (literal_loop vals seg pos quote escaped s) (None, False)
         = quote_run (seg @ s) (None, False)"
  using assms(2,3)
proof (induction s arbitrary: seg pos quote escaped)
  case Nil
  then have "quote \<noteq> Some squote" by (auto simp: segment_ok_def)
  then show ?case using Nil substitute_quote_run [OF assms(1)] by (simp add: segment_ok_def)
next
  case (Cons c s)
  show ?case
  proof (cases "quote = Some squote")
    case True
    then have esc: "\<not> escaped" and run: "quote_run seg (None, False) = (Some squote, False)"
      using Cons.prems by (auto simp: segment_ok_def)
    show ?thesis
    proof (cases "c = squote")
      case closing: True
      have "segment_ok [] None escaped" using esc by (simp add: segment_ok_def quote_ok_def outside_single_def)
      then have "quote_run (literal_loop vals [] (pos + length seg + 1) None escaped s) (None, False)
            = quote_run s (None, False)"
        using Cons.IH Cons.prems(2) closing run by (simp add: quote_step_def)
      then show ?thesis using True closing run by (simp add: quote_step_def)
    next
      case False
      have "segment_ok (seg @ [c]) quote escaped"
        using True esc run False by (simp add: segment_ok_def quote_step_def quote_ok_def)
      then show ?thesis using Cons.IH Cons.prems(2) True False by simp
    qed
  next
    case nsq: False
    show ?thesis
    proof (cases "quote_step c (quote, escaped) = (Some squote, escaped)")
      case True
      have sq: "quote = None" "\<not> escaped" "c = squote"
        using True nsq by (auto simp: quote_step_def split: if_splits)
      have run: "quote_run seg (None, False) = (None, False)" and os: "outside_single seg"
        using Cons.prems sq by (auto simp: segment_ok_def)
      have "segment_ok [c] (Some squote) escaped"
        using sq by (simp add: segment_ok_def quote_step_def quote_ok_def)
      then have "quote_run (literal_loop vals [c] (pos + length seg) (Some squote) escaped s) (None, False)
            = quote_run (c # s) (None, False)"
        using Cons.IH Cons.prems(2) run by simp
      then show ?thesis
        using sq run substitute_quote_run [OF assms(1) os, of pos] by simp
    next
      case False
      note step = literal_loop_step [OF Cons.prems(1) nsq False, of vals pos s]
      show ?thesis using Cons.IH step Cons.prems(2) by simp
    qed
  qed
qed

text \<open>Substituting literal assignments never changes the quoting of a command: the quote state
  after the expanded command is the one after the original command, because only values without
  quotes and backslashes are substituted, and only at references that are not escaped.\<close>

theorem literal_expansion_keeps_quoting:
  "quote_run (ExpandLiteralAssignments command) (None, False) = quote_run command (None, False)"
proof (cases "literalAssignmentQuotesBalanced command")
  case True
  then have "fst (quote_run command (None, False)) = None"
    by (simp add: literalAssignmentQuotesBalanced_def balanced_quote_run)
  moreover have "segment_ok [] None False" by (simp add: segment_ok_def quote_ok_def outside_single_def)
  ultimately show ?thesis
    using literal_loop_quote_run [OF literalAssignmentHistory_ok [of command], of "[]" None False command 0] True
    by (simp add: ExpandLiteralAssignments_def Let_def)
qed (simp add: ExpandLiteralAssignments_def)

text \<open>The value of a literal assignment that starts with a number sign counts as safe: in
  \<^verbatim>\<open>X=#; cat $X .env\<close> the reference is replaced and the rest of the command, here the file that is
  read, becomes a comment, although the shell never parses an expanded value as a comment.\<close>

lemma literal_value_becomes_comment:
  "ExpandLiteralAssignments ''X=#; cat $X .env'' = ''X=#; cat # .env''
   \<and> extractShellComments ''X=#; cat $X .env'' = []
   \<and> extractShellComments (ExpandLiteralAssignments ''X=#; cat $X .env'') = ''.env''
   \<and> stripShellComments (ExpandLiteralAssignments ''X=#; cat $X .env'') = ''X=#; cat ''"
  by code_simp

end
