(* ===== verification/CommandCond.thy ===== *)
theory CommandCond
  imports FieldSet LiteralAssign
begin

text \<open>
  Command and project conditions (\<^verbatim>\<open>internal/rules/engine_command.go\<close>).  The structural parser
  \<^verbatim>\<open>shelldecomp\<close> is a parameter that gives the parsed commands of a command line, as are
  \<^verbatim>\<open>os.UserHomeDir\<close>, \<^verbatim>\<open>os.Stat\<close> and the compiler of regular expressions.
\<close>

datatype WordKind = WordKindFlag | WordKindOther

record Word =
  wd_Kind :: WordKind
  wd_Value :: bytes
  wd_Resolvable :: bool

record Command =
  cmd_Argv0 :: bytes
  cmd_Args :: "Word list"
  cmd_Cwd :: bytes

record command_env =
  ce_UserHomeDir :: "bytes option"
  ce_Commands :: "bytes \<Rightarrow> bytes \<Rightarrow> bytes \<Rightarrow> Command list"
  ce_Compile :: "bytes \<Rightarrow> Regexp go_result"
  ce_pathExists :: "bytes \<Rightarrow> bool"

text \<open>\<^verbatim>\<open>filepath.Base\<close>.\<close>

definition path_Base :: "bytes \<Rightarrow> bytes" where
  "path_Base path =
     (if path = [] then ''.''
      else let trimmed = rev (dropWhile (\<lambda>c. c = CHR ''/'') (rev path));
               b = rev (takeWhile (\<lambda>c. c \<noteq> CHR ''/'') (rev trimmed)) in
           if b = [] then ''/'' else b)"

section \<open>Interpreting the words of a command\<close>

definition gitGlobalValueFlags :: "bytes list" where
  "gitGlobalValueFlags =
     [''-c'', ''-C'', ''--exec-path'', ''--git-dir'', ''--work-tree'', ''--namespace'',
      ''--super-prefix'', ''--config-env'', ''--attr-source'']"

fun subcommand_loop :: "bool \<Rightarrow> nat \<Rightarrow> Word list \<Rightarrow> (bytes \<times> nat) option" where
  "subcommand_loop isGit i [] = None"
| "subcommand_loop isGit i [w] = (if wd_Kind w = WordKindFlag then None else Some (wd_Value w, i))"
| "subcommand_loop isGit i (w # v # ws) =
     (if wd_Kind w = WordKindFlag then
        (if isGit \<and> wd_Value w \<in> set gitGlobalValueFlags then subcommand_loop isGit (i + 2) ws
         else subcommand_loop isGit (i + 1) (v # ws))
      else Some (wd_Value w, i))"

definition commandSubcommand :: "bytes \<Rightarrow> Word list \<Rightarrow> (bytes \<times> nat) option" where
  "commandSubcommand argv0 ws = subcommand_loop (argv0 = ''git'') 0 ws"

definition wrapper_option :: "Word \<Rightarrow> bool" where
  "wrapper_option w \<longleftrightarrow> wd_Kind w = WordKindFlag \<or> wd_Value w = ''--''"

function stripCommandWrappers :: "bytes \<Rightarrow> Word list \<Rightarrow> bytes list \<Rightarrow> bytes \<times> Word list" where
  "stripCommandWrappers argv0 ws stripArgs =
     (if argv0 \<in> set stripArgs \<and> ws \<noteq> [] then
        (case dropWhile wrapper_option ws of
           [] \<Rightarrow> (argv0, ws)
         | w # rest \<Rightarrow> stripCommandWrappers (path_Base (wd_Value w)) rest stripArgs)
      else (argv0, ws))"
  by pat_completeness auto
termination
proof (relation "measure (\<lambda>(a, ws, s). length ws)", goal_cases)
  case 1
  then show ?case by simp
next
  case (2 argv0 ws stripArgs w rest)
  then show ?case using length_dropWhile_le [of wrapper_option ws] by simp
qed

declare stripCommandWrappers.simps [simp del]

fun splitCwdFlag :: "bytes \<Rightarrow> bytes list \<Rightarrow> bytes option" where
  "splitCwdFlag field [] = None"
| "splitCwdFlag field (flag # flags) =
     (if field = flag then Some []
      else if HasPrefix field (flag @ ''='') then Some (drop (length flag + 1) field)
      else splitCwdFlag field flags)"

definition resolvePath :: "bytes option \<Rightarrow> bytes \<Rightarrow> bytes \<Rightarrow> bytes" where
  "resolvePath home cwd path =
     (if path = ''~'' then (case home of None \<Rightarrow> cwd | Some h \<Rightarrow> h)
      else if HasPrefix path ''~/'' then
        (case home of None \<Rightarrow> cwd | Some h \<Rightarrow> path_Join [h, drop 2 path])
      else if IsAbs path then path
      else path_Join [cwd, path])"

text \<open>\<^term>\<open>None\<close> when a redirecting flag or its value cannot be resolved.\<close>

fun cwd_flag_loop ::
  "bytes option \<Rightarrow> bytes list \<Rightarrow> bytes \<Rightarrow> Word list \<Rightarrow> Word list \<Rightarrow> (bytes \<times> Word list) option" where
  "cwd_flag_loop home flags cwd out [] = Some (cwd, out)"
| "cwd_flag_loop home flags cwd out [w] =
     (case (if wd_Kind w = WordKindFlag then splitCwdFlag (wd_Value w) flags else None) of
        None \<Rightarrow> Some (cwd, out @ [w])
      | Some v \<Rightarrow>
          if \<not> wd_Resolvable w then None
          else Some (if v \<noteq> [] then resolvePath home cwd v else cwd, out))"
| "cwd_flag_loop home flags cwd out (w # next # ws) =
     (case (if wd_Kind w = WordKindFlag then splitCwdFlag (wd_Value w) flags else None) of
        None \<Rightarrow> cwd_flag_loop home flags cwd (out @ [w]) (next # ws)
      | Some v \<Rightarrow>
          if \<not> wd_Resolvable w then None
          else if v = [] then
            (if \<not> wd_Resolvable next then None
             else cwd_flag_loop home flags
                    (if wd_Value next \<noteq> [] then resolvePath home cwd (wd_Value next) else cwd) out ws)
          else cwd_flag_loop home flags (resolvePath home cwd v) out (next # ws))"

definition applyCwdFlagWords ::
  "bytes option \<Rightarrow> bytes \<Rightarrow> Word list \<Rightarrow> bytes list \<Rightarrow> (bytes \<times> Word list) option" where
  "applyCwdFlagWords home cwd ws flags =
     (if flags = [] then Some (cwd, ws) else cwd_flag_loop home flags cwd [] ws)"

definition wordsTail :: "Word list \<Rightarrow> bytes" where
  "wordsTail ws = Join (map wd_Value ws) '' ''"

definition conditionTextMatch :: "command_env \<Rightarrow> bytes \<Rightarrow> Condition \<Rightarrow> bool" where
  "conditionTextMatch env v c =
     ((case c_compiled c of
         Some re \<Rightarrow> MatchString (Some re) v
       | None \<Rightarrow> c_Pattern c = [] \<or>
                 (case ce_Compile env (c_Pattern c) of Inl e \<Rightarrow> False | Inr re \<Rightarrow> MatchString (Some re) v))
      \<and> (case c_compiledNot c of
           Some re \<Rightarrow> \<not> MatchString (Some re) v
         | None \<Rightarrow> c_NotPattern c = [] \<or>
                   (case ce_Compile env (c_NotPattern c) of
                      Inl e \<Rightarrow> False | Inr re \<Rightarrow> \<not> MatchString (Some re) v)))"

text \<open>The body of the loop for one parsed command.\<close>

definition command_cwd :: "command_env \<Rightarrow> bytes \<Rightarrow> Condition \<Rightarrow> Command \<Rightarrow> bytes option" where
  "command_cwd env base c parsed =
     (let (argv0, ws) = stripCommandWrappers (path_Base (cmd_Argv0 parsed)) (cmd_Args parsed) (c_StripArgs c) in
      if c_Argv0 c \<noteq> [] \<and> argv0 \<noteq> c_Argv0 c then None
      else case applyCwdFlagWords (ce_UserHomeDir env)
                  (if cmd_Cwd parsed = [] then base else cmd_Cwd parsed) ws (c_CwdFlags c) of
             None \<Rightarrow> None
           | Some (cwd, ws') \<Rightarrow>
               if c_Subcommands c = [] then (if conditionTextMatch env (wordsTail ws') c then Some cwd else None)
               else case commandSubcommand argv0 ws' of
                      None \<Rightarrow> None
                    | Some (sub, idx) \<Rightarrow>
                        if sub \<noteq> [] \<and> sub \<in> set (c_Subcommands c)
                           \<and> conditionTextMatch env (wordsTail (drop idx ws')) c
                        then Some cwd else None)"

definition commandConditionCwds :: "command_env \<Rightarrow> FieldSet \<Rightarrow> Condition \<Rightarrow> bytes list option" where
  "commandConditionCwds env f c =
     (let command = CommandValue f; base = BaseCWD f in
      if command = [] \<or> base = [] then None
      else let home = (case ce_UserHomeDir env of None \<Rightarrow> base | Some h \<Rightarrow> h);
               matches = List.map_filter (command_cwd env base c)
                           (ce_Commands env (ExpandLiteralAssignments command) base home) in
           if matches = [] then None else Some matches)"

section \<open>Project conditions\<close>

definition anyPathExists :: "(bytes \<Rightarrow> bool) \<Rightarrow> bytes \<Rightarrow> bytes list \<Rightarrow> bool" where
  "anyPathExists pathExists rootDir paths \<longleftrightarrow> list_ex (\<lambda>p. pathExists (path_Join [rootDir, p])) paths"

definition allPathsExist :: "(bytes \<Rightarrow> bool) \<Rightarrow> bytes \<Rightarrow> bytes list \<Rightarrow> bool" where
  "allPathsExist pathExists rootDir paths \<longleftrightarrow> list_all (\<lambda>p. pathExists (path_Join [rootDir, p])) paths"

text \<open>The climbing loop; a loop that does not end would be \<^term>\<open>None\<close>, a failed search is
  \<^term>\<open>Some None\<close>.\<close>

partial_function (option) climb :: "(bytes \<Rightarrow> bool) \<Rightarrow> bytes \<Rightarrow> bytes option option" where
  [code]: "climb marked dir =
     (if marked dir then Some (Some dir)
      else let parent = path_Dir dir in
           if parent = dir then Some None else climb marked parent)"

definition findProjectRoot :: "(bytes \<Rightarrow> bool) \<Rightarrow> bytes \<Rightarrow> bytes list \<Rightarrow> bytes option option" where
  "findProjectRoot pathExists start markers =
     climb (\<lambda>dir. anyPathExists pathExists dir markers) (Clean start)"

definition projectConditionMatchCwd :: "(bytes \<Rightarrow> bool) \<Rightarrow> bytes \<Rightarrow> Condition \<Rightarrow> bool option" where
  "projectConditionMatchCwd pathExists cwd c =
     (case (if c_RootMarkers c \<noteq> [] then findProjectRoot pathExists cwd (c_RootMarkers c)
            else Some (Some cwd)) of
        None \<Rightarrow> None
      | Some None \<Rightarrow> Some False
      | Some (Some rootDir) \<Rightarrow>
          Some (\<not> (c_RequireAny c \<noteq> [] \<and> \<not> anyPathExists pathExists rootDir (c_RequireAny c))
                \<and> \<not> (c_RequireAll c \<noteq> [] \<and> \<not> allPathsExist pathExists rootDir (c_RequireAll c))
                \<and> \<not> (c_ForbidAny c \<noteq> [] \<and> anyPathExists pathExists rootDir (c_ForbidAny c))))"

fun any_project :: "(bytes \<Rightarrow> bool) \<Rightarrow> bytes list \<Rightarrow> Condition \<Rightarrow> bool option" where
  "any_project pathExists [] c = Some False"
| "any_project pathExists (cwd # cwds) c =
     (case projectConditionMatchCwd pathExists cwd c of
        None \<Rightarrow> None
      | Some True \<Rightarrow> Some True
      | Some False \<Rightarrow> any_project pathExists cwds c)"

definition projectConditionMatch ::
  "shell_env \<Rightarrow> (bytes \<Rightarrow> bool) \<Rightarrow> FieldSet \<Rightarrow> Condition \<Rightarrow> bytes list \<Rightarrow> bool option" where
  "projectConditionMatch senv pathExists f c commandCwds =
     (let cwd = FieldSet_String senv f FieldEffectiveCWD;
          cwds = (if commandCwds \<noteq> [] then commandCwds else if cwd \<noteq> [] then [cwd] else []) in
      if cwds = [] then Some False else any_project pathExists cwds c)"

section \<open>Climbing ends\<close>

definition weight :: "bytes list \<Rightarrow> nat" where
  "weight es = sum_list (map (\<lambda>e. length e + 1) es)"

lemma weight_simps [simp]:
  "weight [] = 0" "weight (e # es) = length e + 1 + weight es" "weight (rev es) = weight es"
  "weight (as @ bs) = weight as + weight bs"
  by (simp_all add: weight_def rev_map [symmetric])

lemma weight_Split: "weight (Split c s) = length s + 1"
  by (induction s) (auto split: list.splits simp: Let_def)

lemma Join_length: "es \<noteq> [] \<Longrightarrow> length (Join es [c]) + 1 = weight es"
  by (induction es "[c]" rule: Join.induct) auto

lemma clean_elems_weight: "weight (clean_elems rooted out es) \<le> weight out + weight es"
proof (induction rooted out es rule: clean_elems.induct)
  case (2 rooted out e es)
  show ?case using 2 by (cases out) auto
qed simp

lemma clean_elems_parts:
  assumes "\<forall>e \<in> set out \<union> set es. CHR ''/'' \<notin> set e" "[] \<notin> set out"
  shows "(\<forall>e \<in> set (clean_elems rooted out es). CHR ''/'' \<notin> set e) \<and> [] \<notin> set (clean_elems rooted out es)"
  using assms
proof (induction rooted out es rule: clean_elems.induct)
  case (2 rooted out e es)
  let ?P = "\<lambda>xs. (\<forall>e \<in> set xs. CHR ''/'' \<notin> set e) \<and> [] \<notin> set xs"
  have tl: "\<forall>e \<in> set (tl out) \<union> set es. CHR ''/'' \<notin> set e" "[] \<notin> set (tl out)"
    and es: "\<forall>e \<in> set out \<union> set es. CHR ''/'' \<notin> set e"
    and dots: "\<forall>e \<in> set (''..'' # out) \<union> set es. CHR ''/'' \<notin> set e"
    and cons: "\<forall>x \<in> set (e # out) \<union> set es. CHR ''/'' \<notin> set x"
    using 2(6,7) by (cases out; auto)+
  consider "e = [] \<or> e = ''.''" | "e \<noteq> []" "e \<noteq> ''.''" "e = ''..''" | "e \<noteq> []" "e \<noteq> ''.''" "e \<noteq> ''..''"
    by blast
  then show ?case
  proof cases
    case 1
    then show ?thesis using 2(1) [OF 1 es 2(7)] by auto
  next
    case d: 2
    then have nd: "\<not> (e = [] \<or> e = ''.'')" by simp
    show ?thesis
    proof (cases "out \<noteq> [] \<and> hd out \<noteq> ''..''")
      case True
      then show ?thesis using 2(2) [OF nd d(3) True tl] d by simp
    next
      case False
      then show ?thesis
        using 2(3) [OF nd d(3) False _ es 2(7)] 2(4) [OF nd d(3) False _ dots] 2(7) d by (cases rooted) auto
    qed
  next
    case d: 3
    then have nd: "\<not> (e = [] \<or> e = ''.'')" by simp
    show ?thesis using 2(5) [OF nd d(3) cons] 2(7) d by simp
  qed
qed simp

lemma Clean_Nil: "Clean [] = ''.''"
  by (simp add: Clean_def IsAbs_def HasPrefix_def)

lemma Clean_length: "length (Clean p) \<le> max 1 (length p)"
proof -
  let ?es = "clean_elems (IsAbs p) [] (Split (CHR ''/'') p)"
  have w: "weight ?es \<le> length p + 1"
    using clean_elems_weight [of "IsAbs p" "[]" "Split (CHR ''/'') p"] by (simp add: weight_Split)
  show ?thesis
  proof (cases "IsAbs p")
    case False
    then show ?thesis using w Join_length [of ?es "CHR ''/''"] by (auto simp: Clean_def Let_def)
  next
    case True
    then obtain t where p: "p = CHR ''/'' # t" by (cases p) (auto simp: IsAbs_def HasPrefix_def)
    have "weight (clean_elems True [] (Split (CHR ''/'') t)) \<le> length t + 1"
      using clean_elems_weight [of True "[]" "Split (CHR ''/'') t"] by (simp add: weight_Split)
    then show ?thesis
      using True p Join_length [of "clean_elems True [] (Split (CHR ''/'') t)" "CHR ''/''"]
      by (cases "clean_elems True [] (Split (CHR ''/'') t) = []") (auto simp: Clean_def Let_def)
  qed
qed

lemma last_Join:
  "es \<noteq> [] \<Longrightarrow> [] \<notin> set es \<Longrightarrow> Join es [c] \<noteq> [] \<and> List.last (Join es [c]) = List.last (List.last es)"
  by (induction es "[c]" rule: Join.induct) auto

lemma Clean_nonempty: "Clean p \<noteq> []"
proof -
  let ?es = "clean_elems (IsAbs p) [] (Split (CHR ''/'') p)"
  have "[] \<notin> set ?es"
    using clean_elems_parts [of "[]" "Split (CHR ''/'') p" "IsAbs p"] Split_parts_no_sep by auto
  then show ?thesis using last_Join [of ?es "CHR ''/''"] by (auto simp: Clean_def Let_def)
qed

text \<open>A cleaned path ends in a slash only when it is the root.\<close>

lemma Clean_trailing_slash:
  assumes "List.last (Clean p) = CHR ''/''"
  shows "Clean p = ''/''"
proof -
  let ?es = "clean_elems (IsAbs p) [] (Split (CHR ''/'') p)"
  have parts: "\<forall>e \<in> set ?es. CHR ''/'' \<notin> set e" "[] \<notin> set ?es"
    using clean_elems_parts [of "[]" "Split (CHR ''/'') p" "IsAbs p"] Split_parts_no_sep by auto
  have "?es = []"
  proof (rule ccontr)
    assume ne: "?es \<noteq> []"
    have "List.last ?es \<in> set ?es" using ne by simp
    then have "List.last (List.last ?es) \<noteq> CHR ''/''" using parts by (metis last_in_set)
    moreover have "List.last (Clean p) = List.last (List.last ?es)"
      using last_Join [OF ne parts(2), of "CHR ''/''"] ne by (auto simp: Clean_def Let_def)
    ultimately show False using assms by simp
  qed
  then show ?thesis using assms by (auto simp: Clean_def Let_def split: if_splits)
qed

definition climb_measure :: "bytes \<Rightarrow> nat" where
  "climb_measure dir = (if dir = ''.'' then 0 else length dir)"

lemma path_Dir_decreases:
  assumes "dir = Clean p" "path_Dir dir \<noteq> dir"
  shows "climb_measure (path_Dir dir) < climb_measure dir"
proof -
  let ?q = "rev (dropWhile (\<lambda>c. c \<noteq> CHR ''/'') (rev dir))"
  have ne: "dir \<noteq> []" using assms Clean_nonempty by simp
  have dot: "dir \<noteq> ''.''" using assms(2) by (auto simp: path_Dir_def Clean_def IsAbs_def HasPrefix_def)
  show ?thesis
  proof (cases "?q = []")
    case True
    then have "path_Dir dir = ''.''" by (simp only: path_Dir_def Clean_Nil)
    then show ?thesis using ne dot by (simp add: climb_measure_def)
  next
    case False
    have "List.last dir \<noteq> CHR ''/''"
    proof
      assume "List.last dir = CHR ''/''"
      then have "dir = ''/''" using Clean_trailing_slash assms(1) by simp
      then show False using assms(2) by (simp add: path_Dir_def Clean_def IsAbs_def HasPrefix_def)
    qed
    then have "length ?q < length dir"
      using ne length_dropWhile_le [of "\<lambda>c. c \<noteq> CHR ''/''" "rev (butlast dir)"]
      by (cases dir rule: rev_cases) (auto simp: le_imp_less_Suc)
    moreover have "length (path_Dir dir) \<le> max 1 (length ?q)" unfolding path_Dir_def by (rule Clean_length)
    moreover have "1 \<le> length ?q" using False by (cases ?q) auto
    ultimately show ?thesis using dot ne by (simp add: climb_measure_def)
  qed
qed

lemma path_Dir_Clean: "\<exists>q. path_Dir dir = Clean q"
  by (auto simp: path_Dir_def)

text \<open>The result of the climb: the first marked directory on the way to the root, if any.\<close>

lemma climb_result:
  "dir = Clean p \<Longrightarrow>
   \<exists>r. climb marked dir = Some r \<and>
     (case r of
        Some d \<Rightarrow> (\<exists>k. d = (path_Dir ^^ k) dir \<and> marked d \<and> (\<forall>j<k. \<not> marked ((path_Dir ^^ j) dir)))
      | None \<Rightarrow> (\<forall>k. \<not> marked ((path_Dir ^^ k) dir)))"
proof (induction "climb_measure dir" arbitrary: dir p rule: less_induct)
  case less
  show ?case
  proof (cases "marked dir")
    case True
    then have "climb marked dir = Some (Some dir)" by (simp add: climb.simps)
    then show ?thesis using True by (auto intro!: exI [of _ "0::nat"])
  next
    case nm: False
    show ?thesis
    proof (cases "path_Dir dir = dir")
      case True
      have "(path_Dir ^^ k) dir = dir" for k using True by (induction k) auto
      moreover have "climb marked dir = Some None" using nm True by (subst climb.simps) simp
      ultimately show ?thesis using nm by auto
    next
      case False
      obtain q where q: "path_Dir dir = Clean q" using path_Dir_Clean by blast
      have step: "climb marked dir = climb marked (path_Dir dir)"
        using nm False by (subst climb.simps) (simp add: Let_def)
      obtain r where r: "climb marked (path_Dir dir) = Some r"
        "case r of Some d \<Rightarrow> (\<exists>k. d = (path_Dir ^^ k) (path_Dir dir) \<and> marked d
             \<and> (\<forall>j<k. \<not> marked ((path_Dir ^^ j) (path_Dir dir))))
         | None \<Rightarrow> (\<forall>k. \<not> marked ((path_Dir ^^ k) (path_Dir dir)))"
        using less(1) [OF path_Dir_decreases [OF less(2) False] q] by blast
      have sh: "(path_Dir ^^ k) (path_Dir dir) = (path_Dir ^^ Suc k) dir" for k
        by (simp add: funpow_swap1)
      show ?thesis
      proof (cases r)
        case None
        have all: "\<forall>k. \<not> marked ((path_Dir ^^ Suc k) dir)" using r(2) unfolding None option.case sh .
        have "\<not> marked ((path_Dir ^^ k) dir)" for k
          using all nm by (cases k) (simp, metis)
        then show ?thesis using step r None by auto
      next
        case (Some d)
        then obtain k where k: "d = (path_Dir ^^ Suc k) dir" "marked d"
            "\<forall>j<k. \<not> marked ((path_Dir ^^ Suc j) dir)"
          using r(2) unfolding Some option.case sh by blast
        have "\<forall>j<Suc k. \<not> marked ((path_Dir ^^ j) dir)"
        proof (intro allI impI)
          fix j assume "j < Suc k"
          then show "\<not> marked ((path_Dir ^^ j) dir)" using nm k(3) by (cases j) auto
        qed
        then have "\<exists>k. d = (path_Dir ^^ k) dir \<and> marked d \<and> (\<forall>j<k. \<not> marked ((path_Dir ^^ j) dir))"
          using k(1,2) by blast
        then show ?thesis using step r(1) Some by simp
      qed
    qed
  qed
qed

text \<open>The search for a project root ends for every start directory and every file system, and it
  finds the nearest directory at or above the start that holds a marker, or reports that there is
  none.\<close>

theorem project_root_nearest:
  "\<exists>r. findProjectRoot pathExists start markers = Some r \<and>
     (case r of
        Some d \<Rightarrow> (\<exists>k. d = (path_Dir ^^ k) (Clean start) \<and> anyPathExists pathExists d markers
                    \<and> {j. j < k \<and> anyPathExists pathExists ((path_Dir ^^ j) (Clean start)) markers} = {})
      | None \<Rightarrow> {k. anyPathExists pathExists ((path_Dir ^^ k) (Clean start)) markers} = {})"
proof -
  obtain r where r: "findProjectRoot pathExists start markers = Some r"
    "case r of
       Some d \<Rightarrow> (\<exists>k. d = (path_Dir ^^ k) (Clean start) \<and> anyPathExists pathExists d markers
                   \<and> (\<forall>j<k. \<not> anyPathExists pathExists ((path_Dir ^^ j) (Clean start)) markers))
     | None \<Rightarrow> (\<forall>k. \<not> anyPathExists pathExists ((path_Dir ^^ k) (Clean start)) markers)"
    using climb_result [OF refl, of "\<lambda>dir. anyPathExists pathExists dir markers" start]
    unfolding findProjectRoot_def by blast
  then show ?thesis by (intro exI [of _ r]) (auto split: option.splits)
qed

lemma projectConditionMatchCwd_total: "projectConditionMatchCwd pathExists cwd c \<noteq> None"
  using climb_result [OF refl, of "\<lambda>dir. anyPathExists pathExists dir (c_RootMarkers c)" cwd]
  by (auto simp: projectConditionMatchCwd_def findProjectRoot_def split: option.splits)

lemma any_project_total: "any_project pathExists cwds c \<noteq> None"
  using projectConditionMatchCwd_total
  by (induction cwds) (auto split: option.splits bool.splits)

lemma projectConditionMatch_total: "projectConditionMatch senv pathExists f c cwds \<noteq> None"
  by (simp add: projectConditionMatch_def Let_def any_project_total)

section \<open>Wrappers and global options do not hide a subcommand\<close>

text \<open>
  The words that may stand before a git subcommand: a flag alone, or a global option that takes a
  value together with the word after it.
\<close>

datatype lead = Lead_flag Word | Lead_value Word Word

fun lead_words :: "lead \<Rightarrow> Word list" where
  "lead_words (Lead_flag w) = [w]"
| "lead_words (Lead_value w v) = [w, v]"

fun lead_ok :: "lead \<Rightarrow> bool" where
  "lead_ok (Lead_flag w) \<longleftrightarrow> wd_Kind w = WordKindFlag \<and> wd_Value w \<notin> set gitGlobalValueFlags"
| "lead_ok (Lead_value w v) \<longleftrightarrow> wd_Kind w = WordKindFlag \<and> wd_Value w \<in> set gitGlobalValueFlags"

lemma subcommand_loop_leads:
  assumes "list_all lead_ok ls" "wd_Kind w \<noteq> WordKindFlag"
  shows "subcommand_loop True i (concat (map lead_words ls) @ w # ws)
         = Some (wd_Value w, i + length (concat (map lead_words ls)))"
  using assms(1)
proof (induction ls arbitrary: i)
  case Nil
  then show ?case using assms(2) by (cases ws) auto
next
  case (Cons l ls)
  show ?case
  proof (cases l)
    case (Lead_flag x)
    obtain y ys where y: "concat (map lead_words ls) @ w # ws = y # ys"
      by (cases "concat (map lead_words ls) @ w # ws") auto
    have "subcommand_loop True i (x # y # ys) = subcommand_loop True (i + 1) (y # ys)"
      using Cons.prems Lead_flag by simp
    then show ?thesis using Cons.IH [of "i + 1"] Cons.prems Lead_flag y by simp
  next
    case (Lead_value x v)
    then show ?thesis using Cons.IH [of "i + 2"] Cons.prems by simp
  qed
qed

text \<open>A chain of wrappers, each with its own options, in front of a command.\<close>

fun wrapped :: "(Word list \<times> Word) list \<Rightarrow> Word list \<Rightarrow> Word list" where
  "wrapped [] ws = ws"
| "wrapped ((opts, w) # rest) ws = opts @ w # wrapped rest ws"

fun final_argv0 :: "bytes \<Rightarrow> (Word list \<times> Word) list \<Rightarrow> bytes" where
  "final_argv0 argv0 [] = argv0"
| "final_argv0 argv0 ((opts, w) # rest) = final_argv0 (path_Base (wd_Value w)) rest"

fun wrappers_ok :: "bytes list \<Rightarrow> bytes \<Rightarrow> (Word list \<times> Word) list \<Rightarrow> bool" where
  "wrappers_ok strip argv0 [] \<longleftrightarrow> argv0 \<notin> set strip"
| "wrappers_ok strip argv0 ((opts, w) # rest) \<longleftrightarrow>
     argv0 \<in> set strip \<and> list_all wrapper_option opts \<and> \<not> wrapper_option w
     \<and> wrappers_ok strip (path_Base (wd_Value w)) rest"

lemma stripCommandWrappers_wrapped:
  "wrappers_ok strip argv0 chain \<Longrightarrow>
   stripCommandWrappers argv0 (wrapped chain ws) strip = (final_argv0 argv0 chain, ws)"
proof (induction chain arbitrary: argv0)
  case Nil
  then show ?case by (subst stripCommandWrappers.simps) simp
next
  case (Cons p rest)
  obtain opts w where p: "p = (opts, w)" by (cases p)
  have dw: "dropWhile wrapper_option (opts @ w # wrapped rest ws) = w # wrapped rest ws"
    using Cons.prems p by (simp add: dropWhile_append2 list_all_iff)
  have "stripCommandWrappers argv0 (wrapped (p # rest) ws) strip
        = stripCommandWrappers (path_Base (wd_Value w)) (wrapped rest ws) strip"
    using Cons.prems p dw by (subst stripCommandWrappers.simps) simp
  then show ?case using Cons p by simp
qed

text \<open>A command condition for git subcommands is not evaded by wrappers or global options:
  a command whose words are a chain of configured wrappers with their options, then git, then any
  global options with their values, then a listed subcommand, contributes its directory, and the
  pattern sees the text from the subcommand on.\<close>

theorem wrapped_subcommand_matches:
  assumes "wrappers_ok (c_StripArgs c) (path_Base (cmd_Argv0 parsed)) chain"
    and "final_argv0 (path_Base (cmd_Argv0 parsed)) chain = ''git''"
    and "cmd_Args parsed = wrapped chain (concat (map lead_words ls) @ sub # rest)"
    and "list_all lead_ok ls" "wd_Kind sub \<noteq> WordKindFlag" "wd_Value sub \<noteq> []"
    and "wd_Value sub \<in> set (c_Subcommands c)" "c_Argv0 c = ''git''" "c_CwdFlags c = []"
    and "conditionTextMatch env (wordsTail (sub # rest)) c"
  shows "command_cwd env base c parsed = Some (if cmd_Cwd parsed = [] then base else cmd_Cwd parsed)"
proof -
  have strip: "stripCommandWrappers (path_Base (cmd_Argv0 parsed)) (cmd_Args parsed) (c_StripArgs c)
      = (''git'', concat (map lead_words ls) @ sub # rest)"
    unfolding assms(3) using stripCommandWrappers_wrapped [OF assms(1)] assms(2) by simp
  have "commandSubcommand ''git'' (concat (map lead_words ls) @ sub # rest)
      = Some (wd_Value sub, length (concat (map lead_words ls)))"
    using subcommand_loop_leads [OF assms(4,5), of 0 rest] by (simp add: commandSubcommand_def)
  moreover have "drop (length (concat (map lead_words ls))) (concat (map lead_words ls) @ sub # rest) = sub # rest"
    by simp
  moreover have "c_Subcommands c \<noteq> []" using assms(7) by auto
  ultimately show ?thesis
    using strip assms(6-10) by (simp add: command_cwd_def applyCwdFlagWords_def)
qed

definition lit_word :: "bytes \<Rightarrow> Word" where
  "lit_word v = \<lparr>wd_Kind = WordKindOther, wd_Value = v, wd_Resolvable = True\<rparr>"

definition flag_word :: "bytes \<Rightarrow> Word" where
  "flag_word v = \<lparr>wd_Kind = WordKindFlag, wd_Value = v, wd_Resolvable = True\<rparr>"

definition commit_condition :: Condition where
  "commit_condition = zero_Condition\<lparr>c_Argv0 := ''git'', c_Subcommands := [''commit''], c_StripArgs := [''time'']\<rparr>"

definition timed_commit :: Command where
  "timed_commit = \<lparr>cmd_Argv0 = ''/usr/bin/time'',
     cmd_Args = [flag_word ''-p'', lit_word ''git'', flag_word ''-c'', lit_word ''a=b'', lit_word ''commit''],
     cmd_Cwd = ''/repo''\<rparr>"

definition no_command_env :: command_env where
  "no_command_env = \<lparr>ce_UserHomeDir = None, ce_Commands = (\<lambda>c b h. []), ce_Compile = (\<lambda>p. Inl p),
     ce_pathExists = (\<lambda>p. False)\<rparr>"

theorem wrapped_subcommand_matches_witness:
  "command_cwd no_command_env ''/tmp'' commit_condition timed_commit
   = Some (if cmd_Cwd timed_commit = [] then ''/tmp'' else cmd_Cwd timed_commit)"
  by (rule wrapped_subcommand_matches
        [where chain = "[([flag_word ''-p''], lit_word ''git'')]"
           and ls = "[Lead_value (flag_word ''-c'') (lit_word ''a=b'')]"
           and sub = "lit_word ''commit''" and rest = "[]"])
     (code_simp)+

end
