(* ===== verification/Concerns.thy ===== *)
theory Concerns
  imports FieldSet
begin

text \<open>
  The two matching concerns that work on field text: \<^verbatim>\<open>internal/rules/concerns/regex\<close> and
  \<^verbatim>\<open>internal/rules/concerns/diff\<close>, over the regular-expression wrapper of theory Regex.  The
  \<^verbatim>\<open>FieldAccessor\<close> interface is a record of its two methods; a matcher is a compiled pattern or
  nil.  The limit \<^verbatim>\<open>MaxCollectedMatchesPerEvaluation\<close> is in \<^verbatim>\<open>concerns/limit\<close>.
\<close>

definition MaxCollectedMatchesPerEvaluation :: int where
  "MaxCollectedMatchesPerEvaluation = 50"

record FieldAccessor =
  fa_String :: "FieldSelector \<Rightarrow> bytes"
  fa_FilePathValue :: bytes

record MatchResult =
  mr_FieldPath :: bytes
  mr_FilePath :: bytes
  mr_Value :: bytes
  mr_Start :: nat
  mr_End :: nat

section \<open>Regex matches\<close>

definition maxUint32 :: int where "maxUint32 = 4294967295"

definition match_group :: "int \<Rightarrow> nat" where
  "match_group diagnosticGroup =
     (if diagnosticGroup > 0 \<and> diagnosticGroup \<le> maxUint32 then nat diagnosticGroup else 0)"

text \<open>The callback of one selector: append, count down, go on while something is left.\<close>

definition append_match ::
  "bytes \<Rightarrow> bytes \<Rightarrow> bytes \<Rightarrow> MatchResult list \<times> int \<Rightarrow> nat \<Rightarrow> nat \<Rightarrow> (MatchResult list \<times> int) \<times> bool" where
  "append_match path filePath val st start e =
     (let (matches, remaining) = st;
          m = \<lparr>mr_FieldPath = path, mr_FilePath = filePath, mr_Value = val, mr_Start = start, mr_End = e\<rparr> in
      ((matches @ [m], remaining - 1), remaining - 1 > 0))"

fun selector_loop ::
  "FieldAccessor \<Rightarrow> Regexp option \<Rightarrow> nat \<Rightarrow> FieldSelectorSpec list \<Rightarrow> MatchResult list \<times> int \<Rightarrow> MatchResult list" where
  "selector_loop fa re g [] st = fst st"
| "selector_loop fa re g (selector # selectors) st =
     (if snd st = 0 then fst st
      else let val = fa_String fa (spec_Selector selector) in
           if val = [] then selector_loop fa re g selectors st
           else selector_loop fa re g selectors
                  (ForEachStringGroupIndex re val (snd st) g
                     (append_match (spec_Path selector) (fa_FilePathValue fa) val) st))"

definition EvalFieldMatches ::
  "FieldAccessor \<Rightarrow> FieldSelectorSpec list \<Rightarrow> Regexp option \<Rightarrow> int \<Rightarrow> int \<Rightarrow> MatchResult list" where
  "EvalFieldMatches fa selectors re diagnosticGroup limit =
     (if limit \<le> 0 then []
      else selector_loop fa re (match_group diagnosticGroup) selectors ([], limit))"

fun first_selected :: "FieldAccessor \<Rightarrow> FieldSelectorSpec list \<Rightarrow> bytes" where
  "first_selected fa [] = []"
| "first_selected fa (s # ss) =
     (let v = fa_String fa (spec_Selector s) in if v \<noteq> [] then v else first_selected fa ss)"

definition ConditionMatch :: "FieldAccessor \<Rightarrow> Condition \<Rightarrow> bool" where
  "ConditionMatch fa c =
     (let val = first_selected fa (c_selectors c) in
      if c_compiled c \<noteq> None \<and> \<not> MatchString (c_compiled c) val then False
      else if c_compiledNot c \<noteq> None \<and> MatchString (c_compiledNot c) val then False
      else True)"

section \<open>Diff matches\<close>

definition span_text :: "bytes \<Rightarrow> nat \<times> nat \<Rightarrow> bytes" where
  "span_text s sp = take (snd sp - fst sp) (drop (fst sp) s)"

definition collectIndexes :: "Regexp option \<Rightarrow> bytes \<Rightarrow> nat \<Rightarrow> int \<Rightarrow> (nat \<times> nat) list" where
  "collectIndexes re text g limit =
     (if text = [] \<or> limit = 0 then []
      else ForEachStringGroupIndex re text limit g (\<lambda>ixs start e. (ixs @ [(start, e)], True)) [])"

text \<open>The callback keeps the found texts and the texts still looked for.\<close>

definition old_match :: "bytes \<Rightarrow> bytes list \<times> bytes list \<Rightarrow> nat \<Rightarrow> nat \<Rightarrow> (bytes list \<times> bytes list) \<times> bool" where
  "old_match text st start e =
     (let (out, pending) = st; matched = span_text text (start, e) in
      if matched \<notin> set pending then (st, True)
      else let pending' = removeAll matched pending in ((out @ [matched], pending'), pending' \<noteq> []))"

definition findMatchingOldStrings ::
  "Regexp option \<Rightarrow> bytes \<Rightarrow> (nat \<times> nat) list \<Rightarrow> bytes \<Rightarrow> nat \<Rightarrow> bytes list" where
  "findMatchingOldStrings re text newIndexes newText g =
     (if text = [] then []
      else let pending = remdups (map (span_text newText) newIndexes) in
           if pending = [] then []
           else fst (ForEachStringGroupIndex re text (-1) g (old_match text) ([], pending)))"

definition NewOnly :: "(nat \<times> nat) list \<Rightarrow> bytes list \<Rightarrow> bytes \<Rightarrow> (nat \<times> nat) list" where
  "NewOnly newIndexes oldStrings newText =
     (if newIndexes = [] then []
      else if oldStrings = [] then newIndexes
      else filter (\<lambda>ix. span_text newText ix \<notin> set oldStrings) newIndexes)"

definition EvalDiffMatches ::
  "FieldAccessor \<Rightarrow> FieldPairSpec \<Rightarrow> Regexp option \<Rightarrow> nat \<Rightarrow> int \<Rightarrow> MatchResult list" where
  "EvalDiffMatches fa pair re g limit =
     (if re = None \<or> limit \<le> 0 then []
      else if fp_NewField pair = FieldSelectorInvalid then []
      else let newText = fa_String fa (fp_NewField pair) in
           if newText = [] then []
           else let oldText = fa_String fa (fp_OldField pair);
                    newIndexes = collectIndexes re newText g limit in
                if newIndexes = [] then []
                else map (\<lambda>ix. \<lparr>mr_FieldPath = fp_NewPath pair, mr_FilePath = fa_FilePathValue fa,
                                mr_Value = newText, mr_Start = fst ix, mr_End = snd ix\<rparr>)
                       (NewOnly newIndexes (findMatchingOldStrings re oldText newIndexes newText g) newText))"

section \<open>What the loops compute\<close>

lemma walk_append_match:
  assumes "0 < r"
  shows "walk (append_match p fp v) xs (ms, r)
         = (ms @ map (\<lambda>(a, b). \<lparr>mr_FieldPath = p, mr_FilePath = fp, mr_Value = v, mr_Start = a, mr_End = b\<rparr>)
                   (take (nat r) xs), r - int (length (take (nat r) xs)))"
  using assms
proof (induction xs arbitrary: ms r)
  case (Cons x xs)
  obtain a b where x: "x = (a, b)" by (cases x)
  have "nat r = Suc (nat (r - 1))" using Cons.prems by simp
  then show ?case
    using Cons x by (cases "r - 1 > 0") (auto simp: append_match_def Let_def)
qed simp

text \<open>All matches of one selected field, without limit.\<close>

definition field_matches :: "FieldAccessor \<Rightarrow> Regexp option \<Rightarrow> nat \<Rightarrow> FieldSelectorSpec \<Rightarrow> MatchResult list" where
  "field_matches fa re g selector =
     (let val = fa_String fa (spec_Selector selector) in
      if val = [] then []
      else map (\<lambda>(a, b). \<lparr>mr_FieldPath = spec_Path selector, mr_FilePath = fa_FilePathValue fa,
                          mr_Value = val, mr_Start = a, mr_End = b\<rparr>) (spans re val g))"

lemma selector_step:
  assumes "0 < r" "val \<noteq> []" "val = fa_String fa (spec_Selector selector)"
  shows "ForEachStringGroupIndex re val r g (append_match (spec_Path selector) (fa_FilePathValue fa) val) (ms, r)
         = (ms @ take (nat r) (field_matches fa re g selector),
            r - int (length (take (nat r) (field_matches fa re g selector))))"
  using assms
  by (simp add: ForEach_walk walk_append_match field_matches_def Let_def take_map)

lemma selector_loop_take:
  "0 \<le> r \<Longrightarrow> selector_loop fa re g selectors (ms, r)
             = ms @ take (nat r) (concat (map (field_matches fa re g) selectors))"
proof (induction selectors arbitrary: ms r)
  case (Cons s ss)
  let ?v = "fa_String fa (spec_Selector s)" and ?fm = "field_matches fa re g s"
  show ?case
  proof (cases "r = 0 \<or> ?v = []")
    case True
    then show ?thesis using Cons by (auto simp: field_matches_def)
  next
    case False
    then have r: "0 < r" and v: "?v \<noteq> []" using Cons.prems by auto
    have nn: "0 \<le> r - int (length (take (nat r) ?fm))" using r by simp
    have "nat (r - int (length (take (nat r) ?fm))) = nat r - length ?fm" using r by simp
    then show ?thesis
      using r v Cons.IH [OF nn]
      by (simp add: Let_def selector_step [OF r v refl])
  qed
qed simp

lemma EvalFieldMatches_take:
  "EvalFieldMatches fa selectors re dg limit
   = take (nat limit) (concat (map (field_matches fa re (match_group dg)) selectors))"
  by (simp add: EvalFieldMatches_def selector_loop_take)

lemma collectIndexes_take:
  "0 < limit \<Longrightarrow> text \<noteq> [] \<Longrightarrow> collectIndexes re text g limit = take (nat limit) (spans re text g)"
  by (simp add: collectIndexes_def ForEach_walk walk_collect)

lemma walk_old_match:
  "set (fst (walk (old_match text) xs (out, pending)))
   = set out \<union> (set pending \<inter> span_text text ` set xs)"
proof (induction xs arbitrary: out pending)
  case (Cons x xs)
  obtain a b where x: "x = (a, b)" by (cases x)
  let ?m = "span_text text (a, b)"
  show ?case
  proof (cases "?m \<in> set pending")
    case False
    then have "walk (old_match text) (x # xs) (out, pending) = walk (old_match text) xs (out, pending)"
      by (simp add: x old_match_def)
    then show ?thesis using Cons.IH [of out pending] False x by auto
  next
    case True
    let ?p = "removeAll ?m pending"
    have step: "walk (old_match text) (x # xs) (out, pending)
          = (if ?p \<noteq> [] then walk (old_match text) xs (out @ [?m], ?p) else (out @ [?m], ?p))"
      using True by (simp add: x old_match_def Let_def)
    have p: "set ?p = set pending - {?m}" by simp
    show ?thesis
    proof (cases "?p = []")
      case nil: True
      then have "set pending = {?m}" using p True by auto
      then show ?thesis unfolding step using nil x by auto
    next
      case False
      then have "set (fst (walk (old_match text) (x # xs) (out, pending)))
            = set (out @ [?m]) \<union> (set ?p \<inter> span_text text ` set xs)"
        unfolding step using Cons.IH [of "out @ [?m]" ?p] by simp
      then show ?thesis unfolding p using True x by auto
    qed
  qed
qed simp

lemma findMatchingOldStrings_set:
  assumes "text \<noteq> []"
  shows "set (findMatchingOldStrings re text ixs newText g)
         = span_text newText ` set ixs \<inter> span_text text ` set (spans re text g)"
  using assms
  by (auto simp: findMatchingOldStrings_def Let_def ForEach_walk walk_old_match)

text \<open>The texts that the pattern captures in a field; an empty field captures nothing.\<close>

definition captured :: "Regexp option \<Rightarrow> bytes \<Rightarrow> nat \<Rightarrow> bytes set" where
  "captured re text g = (if text = [] then {} else span_text text ` set (spans re text g))"

lemma diff_indexes:
  "NewOnly ixs (findMatchingOldStrings re oldText ixs newText g) newText
   = filter (\<lambda>ix. span_text newText ix \<notin> captured re oldText g) ixs"
proof (cases "oldText = []")
  case True
  then show ?thesis by (simp add: NewOnly_def findMatchingOldStrings_def captured_def)
next
  case False
  have "span_text newText ix \<in> set (findMatchingOldStrings re oldText ixs newText g)
        \<longleftrightarrow> span_text newText ix \<in> captured re oldText g" if "ix \<in> set ixs" for ix
    using that False by (auto simp: findMatchingOldStrings_set captured_def)
  then have "filter (\<lambda>ix. span_text newText ix \<notin> set (findMatchingOldStrings re oldText ixs newText g)) ixs
        = filter (\<lambda>ix. span_text newText ix \<notin> captured re oldText g) ixs"
    by (simp cong: filter_cong)
  then show ?thesis by (auto simp: NewOnly_def)
qed

lemma EvalDiffMatches_filter:
  assumes "re \<noteq> None" "0 < limit" "fp_NewField pair \<noteq> FieldSelectorInvalid"
    "fa_String fa (fp_NewField pair) = newText" "newText \<noteq> []"
  shows "EvalDiffMatches fa pair re g limit
         = map (\<lambda>ix. \<lparr>mr_FieldPath = fp_NewPath pair, mr_FilePath = fa_FilePathValue fa,
                      mr_Value = newText, mr_Start = fst ix, mr_End = snd ix\<rparr>)
             (filter (\<lambda>ix. span_text newText ix \<notin> captured re (fa_String fa (fp_OldField pair)) g)
                (take (nat limit) (spans re newText g)))"
  using assms
  by (auto simp: EvalDiffMatches_def Let_def diff_indexes collectIndexes_take)

end
