(* ===== verification/ShellConcerns.thy ===== *)
theory ShellConcerns
  imports CommandCond Concerns
begin

text \<open>
  The conditions on the files that a shell command writes or reads:
  \<^verbatim>\<open>EvalShellWriteMatchesWithSpecs\<close>
  (\<^verbatim>\<open>internal/rules/concerns/shellwrite/concern.go\<close>) and
  \<^verbatim>\<open>EvalShellReadSecretMatches\<close>
  (\<^verbatim>\<open>internal/rules/concerns/shellread/concern.go\<close>).  The targets come from the
  decomposition of the command, which is a parameter (\<open>sa_ExtractWriteTargets\<close> and
  \<open>sa_ExtractReadTargets\<close> of \<open>shell_env\<close>); \<^verbatim>\<open>filepath.Match\<close> and what the
  file system says about a path are parameters too.
\<close>

definition ReasonUnparsedCommandShape :: bytes where
  "ReasonUnparsedCommandShape = ''unparsed-command-shape''"

definition minLen :: "bytes \<Rightarrow> nat \<Rightarrow> nat" where
  "minLen s want = (if length s < want then length s else want)"

text \<open>The command of a condition: its selector, else the plain command field.\<close>

definition shell_command :: "shell_env \<Rightarrow> FieldSet \<Rightarrow> FieldSelector \<Rightarrow> bytes" where
  "shell_command senv f selector0 =
     (let selector = (if selector0 = FieldSelectorInvalid then FieldToolInputCommand else selector0);
          command = FieldSet_String senv f selector in
      if command = [] then FieldSet_String senv f FieldCommand else command)"

definition command_match :: "FieldSet \<Rightarrow> bytes \<Rightarrow> MatchResult" where
  "command_match f command =
     \<lparr>mr_FieldPath = ''tool_input.command'', mr_FilePath = FilePathValue f, mr_Value = command,
      mr_Start = 0, mr_End = minLen command 1\<rparr>"

section \<open>Writes\<close>

text \<open>\<open>glob pattern name\<close> is \<^verbatim>\<open>filepath.Match\<close>, with \<^term>\<open>None\<close> for a malformed pattern.\<close>

definition pathMatchesAnyGlob :: "(bytes \<Rightarrow> bytes \<Rightarrow> bool option) \<Rightarrow> bytes \<Rightarrow> bytes list \<Rightarrow> bool" where
  "pathMatchesAnyGlob glob path globs \<longleftrightarrow>
     list_ex (\<lambda>g. glob g path = Some True \<or> glob g (path_Base path) = Some True) globs"

definition write_matches :: "(bytes \<Rightarrow> bytes \<Rightarrow> bool option) \<Rightarrow> bytes list \<Rightarrow> bool \<Rightarrow> WriteTarget \<Rightarrow> bool" where
  "write_matches glob globs matchUnresolved target =
     (if wt_Reason target = ReasonUnparsedCommandShape then matchUnresolved
      else pathMatchesAnyGlob glob (wt_Path target) globs)"

definition EvalShellWriteMatchesWithSpecs ::
  "shell_env \<Rightarrow> (bytes \<Rightarrow> bytes \<Rightarrow> bool option) \<Rightarrow> FieldSet \<Rightarrow> FieldSelector \<Rightarrow> bytes list \<Rightarrow>
   ShellWriteSpec list \<Rightarrow> bool \<Rightarrow> MatchResult list" where
  "EvalShellWriteMatchesWithSpecs senv glob f selector globs specs matchUnresolved =
     (let command = shell_command senv f selector in
      if command = [] then []
      else map (\<lambda>target. command_match f command)
             (filter (write_matches glob globs matchUnresolved)
               (sa_ExtractWriteTargets senv command (BaseCWD f) specs)))"

section \<open>Reads\<close>

text \<open>
  What the file system says about a path: whether it can be opened, what \<^verbatim>\<open>Stat\<close> says
  of the open file and of the path (a regular file or not, and its size), and its content, if it can
  be read.
\<close>

record file_probe =
  fp_Open :: "bytes \<Rightarrow> bool"
  fp_FileStat :: "bytes \<Rightarrow> (bool \<times> int) option"
  fp_Stat :: "bytes \<Rightarrow> (bool \<times> int) option"
  fp_ReadAll :: "bytes \<Rightarrow> bytes option"

definition defaultMaxBytes :: int where "defaultMaxBytes = 1048576"
definition remotePolicyAllow :: bytes where "remotePolicyAllow = ''allow''"
definition remotePolicyBlockAll :: bytes where "remotePolicyBlockAll = ''block_all''"
definition remotePolicyBlockRisky :: bytes where "remotePolicyBlockRisky = ''block_risky''"

text \<open>A pattern that is not set is a nil pointer inside an interface: it matches nothing.\<close>

definition matchesPathPattern :: "bytes \<Rightarrow> Regexp option \<Rightarrow> bool" where
  "matchesPathPattern path pathPattern \<longleftrightarrow>
     MatchString pathPattern path \<or> MatchString pathPattern (path_Base path)"

definition remoteMatchReason :: "bytes \<Rightarrow> Regexp option \<Rightarrow> bytes \<Rightarrow> bytes" where
  "remoteMatchReason path pathPattern remotePolicy =
     (if remotePolicy = remotePolicyAllow then []
      else if remotePolicy = remotePolicyBlockAll then ''remote_path''
      else if matchesPathPattern path pathPattern then ''remote_risky_path'' else [])"

text \<open>At most one byte more than the limit is read.\<close>

definition localFileContainsSecret :: "file_probe \<Rightarrow> bytes \<Rightarrow> Regexp option \<Rightarrow> int \<Rightarrow> bool" where
  "localFileContainsSecret probe path contentPattern maxBytes =
     (if \<not> fp_Open probe path then False
      else case fp_FileStat probe path of
        None \<Rightarrow> False
      | Some (regular, info_size) \<Rightarrow>
          if \<not> regular then False
          else if info_size > maxBytes then False
          else case fp_ReadAll probe path of
            None \<Rightarrow> False
          | Some everything \<Rightarrow>
              let content = take (nat (maxBytes + 1)) everything in
              if int (length content) > maxBytes then False else MatchString contentPattern content)"

definition localProbeMiss :: "file_probe \<Rightarrow> bytes \<Rightarrow> int \<Rightarrow> bool" where
  "localProbeMiss probe path maxBytes =
     (case fp_Stat probe path of
        None \<Rightarrow> True
      | Some (regular, info_size) \<Rightarrow> \<not> regular \<or> info_size > maxBytes)"

definition targetMatchReason ::
  "file_probe \<Rightarrow> ReadTarget \<Rightarrow> Regexp option \<Rightarrow> Regexp option \<Rightarrow> int \<Rightarrow> bytes \<Rightarrow> bytes" where
  "targetMatchReason probe target contentPattern pathPattern maxBytes remotePolicy =
     (if rt_Remote target then remoteMatchReason (rt_Path target) pathPattern remotePolicy
      else if localFileContainsSecret probe (rt_Path target) contentPattern maxBytes then ''content_match''
      else if localProbeMiss probe (rt_Path target) maxBytes \<and> matchesPathPattern (rt_Path target) pathPattern
      then ''risky_path_unprobed''
      else [])"

definition EvalShellReadSecretMatches ::
  "shell_env \<Rightarrow> file_probe \<Rightarrow> FieldSet \<Rightarrow> FieldSelector \<Rightarrow> Regexp option \<Rightarrow> Regexp option \<Rightarrow> int \<Rightarrow> bytes \<Rightarrow>
   ShellReadSpec list \<Rightarrow> MatchResult list" where
  "EvalShellReadSecretMatches senv probe f selector contentPattern pathPattern maxBytes0 remotePolicy0 specs =
     (let command = shell_command senv f selector;
          maxBytes = (if maxBytes0 \<le> 0 then defaultMaxBytes else maxBytes0);
          remotePolicy = (if remotePolicy0 = [] then remotePolicyBlockRisky else remotePolicy0) in
      if command = [] then []
      else map (\<lambda>target. command_match f command)
             (filter (\<lambda>target. targetMatchReason probe target contentPattern pathPattern maxBytes remotePolicy \<noteq> [])
               (sa_ExtractReadTargets senv command (BaseCWD f) specs)))"

section \<open>What they report\<close>

text \<open>Every match points at the start of a command that is not empty.\<close>

lemma write_match_place:
  "m \<in> set (EvalShellWriteMatchesWithSpecs senv glob f selector globs specs u) \<Longrightarrow>
   mr_Start m = 0 \<and> mr_End m = 1 \<and> mr_Value m \<noteq> []"
  by (auto simp: EvalShellWriteMatchesWithSpecs_def Let_def command_match_def minLen_def Suc_le_eq split: if_splits)

lemma read_match_place:
  "m \<in> set (EvalShellReadSecretMatches senv probe f selector re path n remote specs) \<Longrightarrow>
   mr_Start m = 0 \<and> mr_End m = 1 \<and> mr_Value m \<noteq> []"
  by (auto simp: EvalShellReadSecretMatches_def Let_def command_match_def minLen_def Suc_le_eq split: if_splits)

text \<open>A local file is judged by its content when that can be read in full, else by its path; the limit
  itself still counts as readable.\<close>

lemma local_target_judged:
  assumes "\<not> rt_Remote t" "fp_Open probe (rt_Path t)" "fp_ReadAll probe (rt_Path t) = Some content"
    and "fp_FileStat probe (rt_Path t) = Some (True, int (length content))"
    and "fp_Stat probe (rt_Path t) = Some (True, int (length content))" and "0 < maxBytes"
  shows "targetMatchReason probe t re path maxBytes remote \<noteq> [] \<longleftrightarrow>
           (if int (length content) \<le> maxBytes then MatchString re content
            else matchesPathPattern (rt_Path t) path)"
  using assms by (auto simp: targetMatchReason_def localFileContainsSecret_def localProbeMiss_def Let_def)

end
