(* ===== verification/ExecConcern.thy ===== *)
theory ExecConcern
  imports Concerns RuleCompile
begin

text \<open>
  External validators: the interpretation of a run (\<^verbatim>\<open>internal/rules/concerns/exec/concern.go\<close>),
  retries (\<^verbatim>\<open>internal/rules/exec_retry.go\<close>), the commands of one condition
  (\<^verbatim>\<open>expandExecCommands\<close> and \<^verbatim>\<open>runExpandedCommands\<close> of \<^verbatim>\<open>exec_gate.go\<close>) and the memo of one
  event (\<^verbatim>\<open>exec_memo.go\<close>).  Forking a process is a parameter on a world state; so is
  \<^verbatim>\<open>encoding/json\<close>: the members of an object, a boolean, a string, and a number as an integer or a
  float when it has these forms.
\<close>

section \<open>Verdicts\<close>

record Verdict =
  vd_Block :: bool
  vd_Message :: bytes
  vd_Output :: bytes
  vd_Errored :: bool
  vd_PartialError :: bool

record PathView =
  pv_Raw :: bytes
  pv_Canonical :: bytes
  pv_IsCanonical :: bool

record FieldValue =
  fv_Field :: bytes
  fv_Value :: bytes
  fv_Available :: "bool option"

record Input =
  in_Event :: bytes
  in_System :: bytes
  in_ToolName :: bytes
  in_Rule :: bytes
  in_Command :: bytes
  in_EffectiveCWD :: PathView
  in_FilePath :: PathView
  in_CacheKey :: PathView
  in_ReadTargets :: "PathView list"
  in_Matched :: "FieldValue list"

definition zero_verdict :: Verdict where
  "zero_verdict = \<lparr>vd_Block = False, vd_Message = [], vd_Output = [], vd_Errored = False, vd_PartialError = False\<rparr>"

definition errored_verdict :: "Condition \<Rightarrow> Verdict" where
  "errored_verdict c =
     \<lparr>vd_Block = (c_OnError c = OnErrorClosed), vd_Message = [], vd_Output = [], vd_Errored = True,
      vd_PartialError = False\<rparr>"

section \<open>The request\<close>

definition sanitizeEnv :: "bytes list \<Rightarrow> bytes list" where
  "sanitizeEnv env = map (filter (\<lambda>c. c \<noteq> CHR 0x00)) env"

definition target_line :: "PathView \<Rightarrow> bytes" where
  "target_line t = (if pv_Canonical t = [] then pv_Raw t else pv_Canonical t)"

definition readTargetsEnv :: "PathView list \<Rightarrow> bytes" where
  "readTargetsEnv targets = Join (filter (\<lambda>p. p \<noteq> []) (map target_line targets)) [newline]"

definition request_env :: "Input \<Rightarrow> bytes list" where
  "request_env i = sanitizeEnv
     [''AGENT_GATE_EVENT='' @ in_Event i,
      ''AGENT_GATE_SYSTEM='' @ in_System i,
      ''AGENT_GATE_TOOL='' @ in_ToolName i,
      ''AGENT_GATE_RULE='' @ in_Rule i,
      ''AGENT_GATE_COMMAND='' @ in_Command i,
      ''AGENT_GATE_CWD='' @ pv_Canonical (in_EffectiveCWD i),
      ''AGENT_GATE_FILE_PATH='' @ pv_Canonical (in_FilePath i),
      ''AGENT_GATE_CACHE_KEY='' @ pv_Canonical (in_CacheKey i),
      ''AGENT_GATE_READ_TARGETS='' @ readTargetsEnv (in_ReadTargets i)]"

text \<open>\<^verbatim>\<open>json.Marshal\<close> is the argument \<open>marshal\<close>.\<close>

definition BuildRequest :: "(Input \<Rightarrow> bytes go_result) \<Rightarrow> Input \<Rightarrow> (bytes \<times> bytes list) go_result" where
  "BuildRequest marshal i = bindE (marshal i) (\<lambda>stdin. Inr (stdin, request_env i))"

section \<open>Interpreting a run\<close>

record json_env =
  js_object :: "bytes \<Rightarrow> (bytes \<times> bytes) list option"
  js_bool :: "bytes \<Rightarrow> bool option"
  js_string :: "bytes \<Rightarrow> bytes option"
  js_number :: "bytes \<Rightarrow> (int option \<times> go_float option) option"
  js_int_float :: "int \<Rightarrow> go_float"

fun flt_eq :: "go_float \<Rightarrow> go_float \<Rightarrow> bool" where
  "flt_eq FNaN y = False"
| "flt_eq x FNaN = False"
| "flt_eq x y = (x = y)"

fun json_path :: "json_env \<Rightarrow> bytes list \<Rightarrow> bytes \<Rightarrow> bytes go_result" where
  "json_path env [] current = Inr current"
| "json_path env (part # parts) current =
     (case js_object env current of
        None \<Rightarrow> Inl ''invalid JSON stdout''
      | Some members \<Rightarrow>
          (case map_of members part of
             None \<Rightarrow> Inl ''missing JSON field''
           | Some v \<Rightarrow> json_path env parts v))"

definition extractJSONField :: "json_env \<Rightarrow> bytes \<Rightarrow> bytes \<Rightarrow> bytes go_result" where
  "extractJSONField env document path = json_path env (Split (CHR ''.'') path) document"

definition decodeJSONNumber :: "json_env \<Rightarrow> bytes \<Rightarrow> (int option \<times> go_float option) go_result" where
  "decodeJSONNumber env actual =
     (case js_number env actual of None \<Rightarrow> Inl ''invalid numeric JSON field'' | Some n \<Rightarrow> Inr n)"

definition jsonIntEquals :: "json_env \<Rightarrow> int \<Rightarrow> int option \<times> go_float option \<Rightarrow> bool" where
  "jsonIntEquals env expected actual =
     (case fst actual of
        Some parsed \<Rightarrow> parsed = expected
      | None \<Rightarrow> (case snd actual of Some f \<Rightarrow> flt_eq f (js_int_float env expected) | None \<Rightarrow> False))"

definition jsonFloatEquals :: "json_env \<Rightarrow> go_float \<Rightarrow> int option \<times> go_float option \<Rightarrow> bool" where
  "jsonFloatEquals env expected actual =
     (case snd actual of
        Some f \<Rightarrow> flt_eq f expected
      | None \<Rightarrow> (case fst actual of Some i \<Rightarrow> flt_eq (js_int_float env i) expected | None \<Rightarrow> False))"

fun jsonScalarMatches :: "json_env \<Rightarrow> TOMLScalarValue \<Rightarrow> bytes \<Rightarrow> bool go_result" where
  "jsonScalarMatches env TOMLScalarUnset actual = Inl ''stdout_json_equals is unset''"
| "jsonScalarMatches env (TOMLScalarBool b) actual =
     (case js_bool env actual of None \<Rightarrow> Inl ''invalid boolean JSON field'' | Some got \<Rightarrow> Inr (got = b))"
| "jsonScalarMatches env (TOMLScalarString s) actual =
     (case js_string env actual of None \<Rightarrow> Inl ''invalid string JSON field'' | Some got \<Rightarrow> Inr (got = s))"
| "jsonScalarMatches env (TOMLScalarInt i) actual =
     bindE (decodeJSONNumber env actual) (\<lambda>got. Inr (jsonIntEquals env i got))"
| "jsonScalarMatches env (TOMLScalarFloat f) actual =
     bindE (decodeJSONNumber env actual) (\<lambda>got. Inr (jsonFloatEquals env f got))"

definition decodeStdoutJSONMatch :: "json_env \<Rightarrow> Condition \<Rightarrow> bytes \<Rightarrow> bool go_result" where
  "decodeStdoutJSONMatch env c stdout =
     bindE (extractJSONField env stdout (c_StdoutJSONField c))
           (\<lambda>field. jsonScalarMatches env (c_stdoutJSONValue c) field)"

definition exitBlocks :: "bytes \<Rightarrow> int \<Rightarrow> bool" where
  "exitBlocks policy exitCode = (if policy = BlockOnZero then exitCode = 0 else exitCode \<noteq> 0)"

definition line_break :: "char \<Rightarrow> bool" where
  "line_break c \<longleftrightarrow> c = CHR 0x0D \<or> c = CHR 0x0A"

definition firstLine :: "bytes \<Rightarrow> bytes" where
  "firstLine s = TrimSpace (takeWhile (\<lambda>c. \<not> line_break c) (dropWhile line_break s))"

text \<open>A run is an exit code with its output, or an error.\<close>

type_synonym run_outcome = "(int \<times> bytes) go_result"

definition Interpret :: "json_env \<Rightarrow> Condition \<Rightarrow> run_outcome \<Rightarrow> Verdict" where
  "Interpret env c run =
     (case run of
        Inl e \<Rightarrow> errored_verdict c
      | Inr (exitCode, stdout) \<Rightarrow>
          if c_BlockOn c = BlockOnMatch then
            (if exitCode \<noteq> 0 then errored_verdict c
             else case decodeStdoutJSONMatch env c stdout of
                    Inl e \<Rightarrow> errored_verdict c
                  | Inr matched \<Rightarrow> zero_verdict\<lparr>vd_Block := matched, vd_Output := stdout\<rparr>)
          else let block = exitBlocks (c_BlockOn c) exitCode in
               zero_verdict\<lparr>vd_Block := block, vd_Message := (if block then firstLine stdout else []),
                            vd_Output := stdout\<rparr>)"

section \<open>Running the commands of a condition\<close>

record 'w run_env =
  rn_Run :: "bytes list \<Rightarrow> bytes \<Rightarrow> bytes list \<Rightarrow> 'w \<Rightarrow> run_outcome \<times> 'w"
  rn_ctxErr :: "'w \<Rightarrow> bool"
  rn_json :: json_env

fun retry_loop ::
  "'w run_env \<Rightarrow> Condition \<Rightarrow> bytes list \<Rightarrow> bytes \<Rightarrow> bytes list \<Rightarrow> nat \<Rightarrow> Verdict \<Rightarrow> 'w \<Rightarrow> Verdict \<times> 'w" where
  "retry_loop env c command stdin envv 0 verdict w = (verdict, w)"
| "retry_loop env c command stdin envv (Suc n) verdict w =
     (let (run, w1) = rn_Run env command stdin envv w; v = Interpret (rn_json env) c run in
      if \<not> vd_Errored v then (v, w1)
      else if rn_ctxErr env w1 then (v, w1)
      else retry_loop env c command stdin envv n v w1)"

definition runExpandedCommandWithRetry ::
  "'w run_env \<Rightarrow> Condition \<Rightarrow> bytes list \<Rightarrow> bytes \<Rightarrow> bytes list \<Rightarrow> 'w \<Rightarrow> Verdict \<times> 'w" where
  "runExpandedCommandWithRetry env c command stdin envv w =
     retry_loop env c command stdin envv (nat (c_RetryCount c + 1)) zero_verdict w"

text \<open>
  The loop over the expanded commands, for a way \<open>run\<close> to run one; \<open>msg\<close> is the first block
  message and \<open>err\<close> the first errored verdict, if any.
\<close>

fun expanded_loop ::
  "(bytes list \<Rightarrow> 'w \<Rightarrow> Verdict \<times> 'w) \<Rightarrow> bool \<Rightarrow> bool \<Rightarrow> bytes \<Rightarrow> Verdict option \<Rightarrow> bytes list list \<Rightarrow> 'w \<Rightarrow> Verdict \<times> 'w" where
  "expanded_loop run forEach matchAll msg err [] w =
     (if matchAll then (zero_verdict\<lparr>vd_Block := True, vd_Message := msg\<rparr>, w)
      else case err of Some v \<Rightarrow> (v, w) | None \<Rightarrow> (zero_verdict, w))"
| "expanded_loop run forEach matchAll msg err (command # commands) w =
     (let (verdict, w1) = run command w in
      if \<not> forEach then (verdict, w1)
      else if vd_Errored verdict then
        (if matchAll then (verdict, w1)
         else expanded_loop run forEach matchAll msg (if err = None then Some verdict else err) commands w1)
      else let msg1 = (if vd_Block verdict \<and> msg = [] then vd_Message verdict else msg) in
           if \<not> matchAll \<and> vd_Block verdict then (verdict\<lparr>vd_PartialError := err \<noteq> None\<rparr>, w1)
           else if matchAll \<and> \<not> vd_Block verdict then (zero_verdict, w1)
           else expanded_loop run forEach matchAll msg1 err commands w1)"

definition runExpandedCommands ::
  "'w run_env \<Rightarrow> Condition \<Rightarrow> bytes list list \<Rightarrow> bytes \<Rightarrow> bytes list \<Rightarrow> 'w \<Rightarrow> Verdict \<times> 'w" where
  "runExpandedCommands env c commands stdin envv w =
     (if commands = [] then (zero_verdict, w)
      else let forEach = (spec_Selector (c_forEachSelector c) \<noteq> FieldSelectorInvalid);
               matchAll = (forEach \<and> c_MatchMode c = ExecMatchAll) in
           expanded_loop (\<lambda>command. runExpandedCommandWithRetry env c command stdin envv)
             forEach matchAll [] None commands w)"

text \<open>\<^verbatim>\<open>strings.ReplaceAll\<close> for a non-empty pattern.\<close>

function ReplaceAll :: "bytes \<Rightarrow> bytes \<Rightarrow> bytes \<Rightarrow> bytes" where
  "ReplaceAll s old new =
     (if old = [] \<or> s = [] then s
      else if HasPrefix s old then new @ ReplaceAll (drop (length old) s) old new
      else hd s # ReplaceAll (tl s) old new)"
  by pat_completeness auto
termination
  by (relation "measure (\<lambda>(s, old, new). length s)") auto

declare ReplaceAll.simps [simp del]

definition expand_commands :: "Condition \<Rightarrow> bytes list \<Rightarrow> bytes list list" where
  "expand_commands c items = map (\<lambda>item. map (\<lambda>arg. ReplaceAll arg ''{{item}}'' item) (c_Command c)) items"

section \<open>The memo of one event\<close>

text \<open>A condition is identified by the index of its rule and its own index.\<close>

type_synonym cond_id = "nat \<times> nat"

record execEventMemo =
  me_system :: bytes
  me_eventName :: bytes
  me_verdicts :: "cond_id \<rightharpoonup> Verdict"
  me_overrides :: "bytes \<rightharpoonup> bytes"
  me_outputs :: "bytes \<rightharpoonup> bytes"
  me_errors :: "bytes \<Rightarrow> bool"
  me_partial :: "bytes \<Rightarrow> bool"

definition newExecEventMemo :: "bytes \<Rightarrow> bytes \<Rightarrow> execEventMemo" where
  "newExecEventMemo system eventName =
     \<lparr>me_system = system, me_eventName = eventName, me_verdicts = Map.empty, me_overrides = Map.empty,
      me_outputs = Map.empty, me_errors = (\<lambda>_. False), me_partial = (\<lambda>_. False)\<rparr>"

definition memo_record :: "execEventMemo \<Rightarrow> cond_id \<Rightarrow> bytes \<Rightarrow> Verdict \<Rightarrow> execEventMemo" where
  "memo_record m c ruleName v =
     (let m1 = m\<lparr>me_verdicts := (me_verdicts m)(c \<mapsto> v)\<rparr>;
          m2 = (if vd_Block v \<and> vd_Message v \<noteq> []
                then m1\<lparr>me_overrides := (me_overrides m1)(ruleName \<mapsto> vd_Message v)\<rparr> else m1);
          m3 = (if vd_Block v then m2\<lparr>me_outputs := (me_outputs m2)(ruleName \<mapsto> vd_Output v)\<rparr> else m2);
          m4 = (if vd_Errored v then m3\<lparr>me_errors := (me_errors m3)(ruleName := True)\<rparr> else m3) in
      if vd_PartialError v then m4\<lparr>me_partial := (me_partial m4)(ruleName := True)\<rparr> else m4)"

section \<open>What an expansion decides\<close>

text \<open>The verdicts of the commands when each is run in turn.\<close>

fun run_all :: "(bytes list \<Rightarrow> 'w \<Rightarrow> Verdict \<times> 'w) \<Rightarrow> bytes list list \<Rightarrow> 'w \<Rightarrow> Verdict list" where
  "run_all run [] w = []"
| "run_all run (command # commands) w = (let (v, w1) = run command w in v # run_all run commands w1)"

definition clean_block :: "Verdict \<Rightarrow> bool" where
  "clean_block v \<longleftrightarrow> vd_Block v \<and> \<not> vd_Errored v"

lemma expanded_any:
  "vd_Block (fst (expanded_loop run True False msg err commands w)) \<longleftrightarrow>
     (\<exists>v \<in> set (run_all run commands w). clean_block v)
     \<or> (case err of
          Some e \<Rightarrow> vd_Block e
        | None \<Rightarrow> (case find vd_Errored (run_all run commands w) of Some e \<Rightarrow> vd_Block e | None \<Rightarrow> False))"
proof (induction run "True" "False" msg err commands w rule: expanded_loop.induct)
  case (1 run msg err w)
  then show ?case by (auto simp: zero_verdict_def split: option.splits)
next
  case (2 run msg err command commands w)
  obtain v w1 where rv: "run command w = (v, w1)" by (cases "run command w")
  show ?case
  proof (cases "vd_Errored v")
    case True
    have step: "expanded_loop run True False msg err (command # commands) w
        = expanded_loop run True False msg (if err = None then Some v else err) commands w1"
      using rv True by simp
    have "\<not> clean_block v" using True by (simp add: clean_block_def)
    then show ?thesis
      using 2(1) [OF rv [symmetric] refl _ True] True rv
      unfolding step by (cases err) auto
  next
    case ne: False
    show ?thesis
    proof (cases "vd_Block v")
      case True
      then show ?thesis using rv ne by (auto simp: Let_def clean_block_def)
    next
      case False
      then have step: "expanded_loop run True False msg err (command # commands) w
          = expanded_loop run True False msg err commands w1"
        using rv ne by (simp add: Let_def)
      have "\<not> clean_block v" using False by (simp add: clean_block_def)
      then show ?thesis
        using 2(2) [OF rv [symmetric] refl _ ne refl] ne False rv
        unfolding step by (simp split: option.splits)
    qed
  qed
qed

lemma expanded_all:
  "vd_Block (fst (expanded_loop run True True msg err commands w)) \<longleftrightarrow>
     (case find (\<lambda>v. \<not> clean_block v) (run_all run commands w) of
        None \<Rightarrow> True
      | Some v \<Rightarrow> vd_Errored v \<and> vd_Block v)"
proof (induction run "True" "True" msg err commands w rule: expanded_loop.induct)
  case (1 run msg err w)
  then show ?case by simp
next
  case (2 run msg err command commands w)
  obtain v w1 where rv: "run command w = (v, w1)" by (cases "run command w")
  show ?case
  proof (cases "clean_block v")
    case False
    then show ?thesis
      using rv by (cases "vd_Errored v") (auto simp: clean_block_def zero_verdict_def Let_def)
  next
    case True
    then have b: "vd_Block v" "\<not> vd_Errored v" by (auto simp: clean_block_def)
    have step: "expanded_loop run True True msg err (command # commands) w
        = expanded_loop run True True (if vd_Block v \<and> msg = [] then vd_Message v else msg) err commands w1"
      using rv b by (simp add: Let_def)
    show ?thesis
      using 2(2) [OF rv [symmetric] refl _ b(2) refl] b True rv unfolding step by simp
  qed
qed

lemma Interpret_errored: "vd_Errored (Interpret env c run) \<Longrightarrow> Interpret env c run = errored_verdict c"
  by (auto simp: Interpret_def zero_verdict_def Let_def split: sum.splits if_splits)

lemma retry_errored:
  "vd_Errored (fst (retry_loop env c command stdin envv n v w)) \<Longrightarrow>
   fst (retry_loop env c command stdin envv n v w) = v
   \<or> fst (retry_loop env c command stdin envv n v w) = errored_verdict c"
proof (induction n arbitrary: v w)
  case (Suc n)
  obtain run w1 where r: "rn_Run env command stdin envv w = (run, w1)" by fastforce
  let ?v = "Interpret (rn_json env) c run"
  show ?case
  proof (cases "\<not> vd_Errored ?v \<or> rn_ctxErr env w1")
    case True
    then show ?thesis using Suc.prems r Interpret_errored [of "rn_json env" c run] by (auto simp: Let_def)
  next
    case False
    then have "retry_loop env c command stdin envv (Suc n) v w = retry_loop env c command stdin envv n ?v w1"
      using r by (simp add: Let_def)
    then show ?thesis using Suc Interpret_errored [of "rn_json env" c run] False by auto
  qed
qed simp

definition retried :: "'w run_env \<Rightarrow> Condition \<Rightarrow> bytes \<Rightarrow> bytes list \<Rightarrow> bytes list \<Rightarrow> 'w \<Rightarrow> Verdict \<times> 'w" where
  "retried env c stdin envv command w = runExpandedCommandWithRetry env c command stdin envv w"

lemma retried_errored:
  "vd_Errored (fst (retried env c stdin envv command w)) \<Longrightarrow>
   vd_Block (fst (retried env c stdin envv command w)) \<longleftrightarrow> c_OnError c = OnErrorClosed"
  using retry_errored [of env c command stdin envv "nat (c_RetryCount c + 1)" zero_verdict w]
  unfolding retried_def runExpandedCommandWithRetry_def by (auto simp: zero_verdict_def errored_verdict_def)

lemma run_all_errored:
  "v \<in> set (run_all (retried env c stdin envv) commands w) \<Longrightarrow> vd_Errored v \<Longrightarrow>
   vd_Block v \<longleftrightarrow> c_OnError c = OnErrorClosed"
proof (induction commands arbitrary: w)
  case (Cons command commands)
  obtain u w1 where r: "retried env c stdin envv command w = (u, w1)" by fastforce
  then have "v = u \<or> v \<in> set (run_all (retried env c stdin envv) commands w1)"
    using Cons.prems by simp
  then show ?case
    using Cons retried_errored [of env c stdin envv command w] r by auto
qed simp

lemma find_exists: "(\<exists>x. find P xs = Some x) \<longleftrightarrow> (\<exists>x \<in> set xs. P x)"
  by (induction xs) auto

text \<open>
  The decision that the comments of the code describe: with \<open>any\<close>, a target that cannot be
  classified never hides one that blocks, and decides only if none blocks; with \<open>all\<close>, the
  targets up to the first that does not block decide.
\<close>

definition any_blocks :: "Condition \<Rightarrow> Verdict list \<Rightarrow> bool" where
  "any_blocks c vs \<longleftrightarrow>
     list_ex clean_block vs \<or> (list_ex vd_Errored vs \<and> c_OnError c = OnErrorClosed)"

definition all_block :: "Condition \<Rightarrow> Verdict list \<Rightarrow> bool" where
  "all_block c vs \<longleftrightarrow>
     (case dropWhile clean_block vs of
        [] \<Rightarrow> True
      | v # rest \<Rightarrow> vd_Errored v \<and> c_OnError c = OnErrorClosed)"

lemma find_dropWhile: "find (\<lambda>x. \<not> P x) xs = (case dropWhile P xs of [] \<Rightarrow> None | x # ys \<Rightarrow> Some x)"
  by (induction xs) auto

lemma expanded_decision:
  assumes "commands \<noteq> []" "spec_Selector (c_forEachSelector c) \<noteq> FieldSelectorInvalid"
  shows "vd_Block (fst (runExpandedCommands env c commands stdin envv w)) \<longleftrightarrow>
           (if c_MatchMode c = ExecMatchAll
            then all_block c (run_all (retried env c stdin envv) commands w)
            else any_blocks c (run_all (retried env c stdin envv) commands w))"
proof -
  let ?vs = "run_all (retried env c stdin envv) commands w"
  note err = run_all_errored [of _ env c stdin envv commands w]
  have run: "(\<lambda>command. runExpandedCommandWithRetry env c command stdin envv) = retried env c stdin envv"
    by (intro ext) (simp add: retried_def)
  show ?thesis
  proof (cases "c_MatchMode c = ExecMatchAll")
    case True
    then have "vd_Block (fst (runExpandedCommands env c commands stdin envv w))
        = (case dropWhile clean_block ?vs of [] \<Rightarrow> True | v # rest \<Rightarrow> vd_Errored v \<and> vd_Block v)"
      using assms
      by (cases "dropWhile clean_block ?vs")
         (simp_all add: runExpandedCommands_def run expanded_all find_dropWhile del: dropWhile_eq_Nil_conv)
    also have "\<dots> = all_block c ?vs"
    proof (cases "dropWhile clean_block ?vs")
      case Nil
      then show ?thesis by (simp add: all_block_def del: dropWhile_eq_Nil_conv)
    next
      case (Cons v rest)
      then have "v \<in> set ?vs" using set_dropWhileD [of v clean_block ?vs] by simp
      then show ?thesis using err [of v] Cons by (auto simp: all_block_def)
    qed
    finally show ?thesis using True by simp
  next
    case False
    have e: "(case find vd_Errored ?vs of Some e \<Rightarrow> vd_Block e | None \<Rightarrow> False)
          \<longleftrightarrow> list_ex vd_Errored ?vs \<and> c_OnError c = OnErrorClosed"
    proof (cases "find vd_Errored ?vs")
      case None
      moreover have "\<not> list_ex vd_Errored ?vs" using None by (auto simp: find_None_iff list_ex_iff)
      ultimately show ?thesis by simp
    next
      case (Some v)
      then have "v \<in> set ?vs" "vd_Errored v" by (auto simp: find_Some_iff)
      then show ?thesis using Some err [of v] by (auto simp: list_ex_iff)
    qed
    have "vd_Block (fst (runExpandedCommands env c commands stdin envv w)) = any_blocks c ?vs"
      using False assms e
      by (simp add: runExpandedCommands_def run expanded_any any_blocks_def list_ex_iff)
    then show ?thesis using False by simp
  qed
qed

text \<open>
  What the retries are meant to be: the attempts are the first \<^verbatim>\<open>RetryCount\<close> + 1 runs of
  the command, and the verdict is that of the first one that is not an error or that finds the
  evaluation's context ended, else that of the last one.
\<close>

fun attempt_verdicts ::
  "'w run_env \<Rightarrow> Condition \<Rightarrow> bytes list \<Rightarrow> bytes \<Rightarrow> bytes list \<Rightarrow> nat \<Rightarrow> 'w \<Rightarrow> (Verdict \<times> 'w) list" where
  "attempt_verdicts env c command stdin envv 0 w = []"
| "attempt_verdicts env c command stdin envv (Suc n) w =
     (let (run, w1) = rn_Run env command stdin envv w in
      (Interpret (rn_json env) c run, w1) # attempt_verdicts env c command stdin envv n w1)"

definition retry_spec :: "'w run_env \<Rightarrow> Condition \<Rightarrow> bytes \<Rightarrow> bytes list \<Rightarrow> bytes list \<Rightarrow> 'w \<Rightarrow> Verdict \<times> 'w" where
  "retry_spec env c stdin envv command w =
     (let runs = attempt_verdicts env c command stdin envv (Suc (nat (c_RetryCount c))) w in
      case find (\<lambda>(v, w1). \<not> vd_Errored v \<or> rn_ctxErr env w1) runs of
        Some r \<Rightarrow> r
      | None \<Rightarrow> last runs)"

lemma retry_loop_attempts:
  "retry_loop env c command stdin envv n v w =
     (case find (\<lambda>(v, w1). \<not> vd_Errored v \<or> rn_ctxErr env w1) (attempt_verdicts env c command stdin envv n w) of
        Some r \<Rightarrow> r
      | None \<Rightarrow> last ((v, w) # attempt_verdicts env c command stdin envv n w))"
proof (induction n arbitrary: v w)
  case (Suc n)
  obtain run w1 where r: "rn_Run env command stdin envv w = (run, w1)" by fastforce
  then show ?case using Suc.IH [of "Interpret (rn_json env) c run" w1] by (auto simp: Let_def split: option.splits)
qed simp

lemma retried_spec: "0 \<le> c_RetryCount c \<Longrightarrow> retried env c stdin envv = retry_spec env c stdin envv"
proof (intro ext)
  fix command w
  assume "0 \<le> c_RetryCount c"
  then have n: "nat (c_RetryCount c + 1) = Suc (nat (c_RetryCount c))" by simp
  obtain run w1 where r: "rn_Run env command stdin envv w = (run, w1)" by fastforce
  then have "attempt_verdicts env c command stdin envv (Suc (nat (c_RetryCount c))) w \<noteq> []" by simp
  then show "retried env c stdin envv command w = retry_spec env c stdin envv command w"
    unfolding retried_def runExpandedCommandWithRetry_def retry_spec_def n retry_loop_attempts Let_def
    by (simp only: last.simps if_False)
qed

text \<open>C39. An expanded validator condition blocks exactly as specified.  The verdict of a target is that of
  the first of at most \<^verbatim>\<open>RetryCount\<close> + 1 runs of its command that ends without an error, or
  in whose course the evaluation's context ended, else that of the last of them.  With match mode
  \<open>any\<close> the condition blocks when some target's clean verdict blocks, or no clean verdict blocks,
  some target errored and the condition fails closed; with match mode \<open>all\<close> when every target's
  clean verdict blocks, or the first target that does not block cleanly errored and the condition
  fails closed.  The retry count of a loaded configuration is never negative.\<close>

theorem expansion_decision:
  assumes "commands \<noteq> []" "spec_Selector (c_forEachSelector c) \<noteq> FieldSelectorInvalid" "0 \<le> c_RetryCount c"
  shows "vd_Block (fst (runExpandedCommands env c commands stdin envv w)) \<longleftrightarrow>
           (if c_MatchMode c = ExecMatchAll
            then all_block c (run_all (retry_spec env c stdin envv) commands w)
            else any_blocks c (run_all (retry_spec env c stdin envv) commands w))"
  using expanded_decision [OF assms(1,2)] unfolding retried_spec [OF assms(3)] .

text \<open>A validator whose first target is unknown and whose second target blocks.\<close>

definition probe_env :: "nat run_env" where
  "probe_env = \<lparr>rn_Run = (\<lambda>command stdin envv n.
       (if command = [''check'', ''/a''] then Inl ''timeout'' else Inr (1, ''secret file''), n + 1)),
     rn_ctxErr = (\<lambda>n. False),
     rn_json = \<lparr>js_object = (\<lambda>_. None), js_bool = (\<lambda>_. None), js_string = (\<lambda>_. None),
                js_number = (\<lambda>_. None), js_int_float = (\<lambda>_. FNaN)\<rparr>\<rparr>"

definition probe_condition :: Condition where
  "probe_condition = zero_Condition\<lparr>c_Command := [''check'', ''{{item}}''], c_BlockOn := BlockOnNonzero,
     c_OnError := OnErrorOpen, c_MatchMode := ExecMatchAny, c_RetryCount := 1,
     c_forEachSelector := \<lparr>spec_Path = ''cmd_read_targets'', spec_Selector = FieldCmdReadTargets\<rparr>\<rparr>"

theorem expansion_decision_witness:
  "vd_Block (fst (runExpandedCommands probe_env probe_condition
      (expand_commands probe_condition [''/a'', ''/b'']) [] [] 0))
   \<and> any_blocks probe_condition (run_all (retry_spec probe_env probe_condition [] [])
        (expand_commands probe_condition [''/a'', ''/b'']) 0)"
proof -
  have "vd_Block (fst (runExpandedCommands probe_env probe_condition
      (expand_commands probe_condition [''/a'', ''/b'']) [] [] 0)) \<longleftrightarrow>
        (if c_MatchMode probe_condition = ExecMatchAll
         then all_block probe_condition (run_all (retry_spec probe_env probe_condition [] [])
                (expand_commands probe_condition [''/a'', ''/b'']) 0)
         else any_blocks probe_condition (run_all (retry_spec probe_env probe_condition [] [])
                (expand_commands probe_condition [''/a'', ''/b'']) 0))"
    by (rule expansion_decision; code_simp)
  moreover have "c_MatchMode probe_condition \<noteq> ExecMatchAll" by code_simp
  moreover have "any_blocks probe_condition (run_all (retry_spec probe_env probe_condition [] [])
        (expand_commands probe_condition [''/a'', ''/b'']) 0)" by code_simp
  ultimately show ?thesis by simp
qed

end
