(* ===== verification/ExecGate.thy ===== *)
theory ExecGate
  imports ExecConcern FieldSet HotKV_Spec
begin

text \<open>
  The runtime of exec validators across events (\<^verbatim>\<open>internal/rules/exec_gate.go\<close>): canonical paths
  (\<^verbatim>\<open>internal/rules/canonpath\<close>), cache keys, the verdict cache in the hot store, the observations of
  earlier prompts and responses (\<^verbatim>\<open>exec_temporal.go\<close>, \<^verbatim>\<open>exec_temporal_lookup.go\<close>), the input of a
  validator and one run of it with its synchronous budget.

  The state is the memo of canonical paths and the hot store.  The world \<open>'w\<close> is what a forked
  process can change; the clock, symbolic links, JSON, SHA-256 and the formatting verbs \<^verbatim>\<open>%q\<close> and
  \<^verbatim>\<open>%g\<close> are the fields of \<open>exec_env\<close>.
\<close>

section \<open>Environment and state\<close>

record cachedExecVerdict =
  cv_Block :: bool
  cv_Message :: bytes
  cv_Output :: bytes

record 'w exec_env =
  xe_shell :: shell_env
  xe_now :: "'w \<Rightarrow> go_time"
  xe_EvalSymlinks :: "'w \<Rightarrow> bytes \<Rightarrow> bytes option"
  xe_sha256 :: "bytes \<Rightarrow> bytes"
  xe_quote :: "bytes \<Rightarrow> bytes"
  xe_formatFloat :: "go_float \<Rightarrow> bytes"
  xe_marshalInput :: "Input \<Rightarrow> bytes go_result"
  xe_marshalVerdict :: "cachedExecVerdict \<Rightarrow> bytes go_result"
  xe_unmarshalVerdict :: "bytes \<Rightarrow> cachedExecVerdict go_result"
  xe_responseTarget :: "bytes \<Rightarrow> bytes"
  xe_run :: "'w run_env"

text \<open>\<^verbatim>\<open>canonpath.Result\<close> and the memo entries of \<^verbatim>\<open>canonpath.Cache\<close>.\<close>

record canon_Result =
  cr_Raw :: bytes
  cr_Canonical :: bytes
  cr_IsCanonical :: bool

record cacheEntry =
  ce_result :: canon_Result
  ce_expireAt :: go_time

type_synonym canon_Cache = "bytes \<rightharpoonup> cacheEntry"

record ExecRuntime =
  rt_canon :: canon_Cache
  rt_cache :: Store
  rt_backgroundTimeoutValue :: go_duration

definition canonCacheTTL :: go_duration where "canonCacheTTL = 5000000000"

definition NewExecRuntimeWithCache :: "Store option \<Rightarrow> ExecRuntime" where
  "NewExecRuntimeWithCache cache =
     \<lparr>rt_canon = Map.empty,
      rt_cache = (case cache of
                    Some s \<Rightarrow> s
                  | None \<Rightarrow> New \<lparr>MaxEntries = DefaultMaxEntries, MaxValueBytes = DefaultMaxValueBytes,
                                 MaxBytes = DefaultMaxBytes, PruneInterval = 0\<rparr>),
      rt_backgroundTimeoutValue = 0\<rparr>"

definition NewExecRuntime :: ExecRuntime where
  "NewExecRuntime = NewExecRuntimeWithCache None"

definition SetBackgroundTimeout :: "go_duration \<Rightarrow> ExecRuntime \<Rightarrow> ExecRuntime" where
  "SetBackgroundTimeout timeout r =
     (if timeout \<le> 0 then r else r\<lparr>rt_backgroundTimeoutValue := timeout\<rparr>)"

definition backgroundTimeout :: "ExecRuntime \<Rightarrow> go_duration" where
  "backgroundTimeout r =
     (if rt_backgroundTimeoutValue r \<le> 0 then duration_of_ms DefaultExecBackgroundMs
      else rt_backgroundTimeoutValue r)"

section \<open>Canonical paths\<close>

definition canon_Resolve :: "(bytes \<Rightarrow> bytes option) \<Rightarrow> bytes \<Rightarrow> bytes \<Rightarrow> canon_Result" where
  "canon_Resolve evalSymlinks cwd path =
     (if path = [] then \<lparr>cr_Raw = [], cr_Canonical = [], cr_IsCanonical = False\<rparr>
      else let abs = Clean (if \<not> IsAbs path then path_Join [cwd, path] else path) in
           case evalSymlinks abs of
             None \<Rightarrow> \<lparr>cr_Raw = abs, cr_Canonical = abs, cr_IsCanonical = False\<rparr>
           | Some resolved \<Rightarrow> \<lparr>cr_Raw = abs, cr_Canonical = resolved, cr_IsCanonical = True\<rparr>)"

definition Cache_Resolve ::
  "go_duration \<Rightarrow> (bytes \<Rightarrow> bytes option) \<Rightarrow> go_time \<Rightarrow> bytes \<Rightarrow> bytes \<Rightarrow> canon_Cache \<Rightarrow> canon_Result \<times> canon_Cache" where
  "Cache_Resolve ttl evalSymlinks now cwd path m =
     (if ttl \<le> 0 then (canon_Resolve evalSymlinks cwd path, m)
      else let k = cwd @ [CHR 0x00] @ path;
               fresh = (let result = canon_Resolve evalSymlinks cwd path in
                        (result, m(k \<mapsto> \<lparr>ce_result = result, ce_expireAt = time_add now ttl\<rparr>))) in
           case m k of
             Some entry \<Rightarrow> if now < ce_expireAt entry then (ce_result entry, m) else fresh
           | None \<Rightarrow> fresh)"

definition looksLikePath :: "bytes \<Rightarrow> bool" where
  "looksLikePath v \<longleftrightarrow> IsAbs v \<or> HasPrefix v ''./'' \<or> HasPrefix v ''../'' \<or> Contains v ''/''"

text \<open>A step of the runtime: it reads the world and updates the runtime.\<close>

definition canonicalizePathField ::
  "'w exec_env \<Rightarrow> 'w \<Rightarrow> bytes \<Rightarrow> bytes \<Rightarrow> ExecRuntime \<Rightarrow> PathView \<times> ExecRuntime" where
  "canonicalizePathField env w cwd v r =
     (if v = [] then (\<lparr>pv_Raw = [], pv_Canonical = [], pv_IsCanonical = False\<rparr>, r)
      else if \<not> looksLikePath v then (\<lparr>pv_Raw = v, pv_Canonical = v, pv_IsCanonical = False\<rparr>, r)
      else let (result, m) = Cache_Resolve canonCacheTTL (xe_EvalSymlinks env w) (xe_now env w) cwd v (rt_canon r) in
           (\<lparr>pv_Raw = cr_Raw result, pv_Canonical = cr_Canonical result, pv_IsCanonical = cr_IsCanonical result\<rparr>,
            r\<lparr>rt_canon := m\<rparr>))"

fun canonicalize_all ::
  "'w exec_env \<Rightarrow> 'w \<Rightarrow> bytes \<Rightarrow> bytes list \<Rightarrow> ExecRuntime \<Rightarrow> PathView list \<times> ExecRuntime" where
  "canonicalize_all env w cwd [] r = ([], r)"
| "canonicalize_all env w cwd (p # ps) r =
     (let (view, r1) = canonicalizePathField env w cwd p r; (views, r2) = canonicalize_all env w cwd ps r1 in
      (view # views, r2))"

definition canonicalizeCacheKeyField ::
  "'w exec_env \<Rightarrow> 'w \<Rightarrow> bytes \<Rightarrow> bytes \<Rightarrow> ExecRuntime \<Rightarrow> PathView \<times> ExecRuntime" where
  "canonicalizeCacheKeyField env w cwd v r =
     (if \<not> Contains v [newline] then canonicalizePathField env w cwd v r
      else let (views, r1) = canonicalize_all env w cwd (filter (\<lambda>p. p \<noteq> []) (Split newline v)) r in
           (\<lparr>pv_Raw = v, pv_Canonical = Join (map pv_Canonical views) [newline],
             pv_IsCanonical = list_all pv_IsCanonical views\<rparr>, r1))"

section \<open>The values of a condition\<close>

definition execSelectorValue :: "shell_env \<Rightarrow> FieldSet \<Rightarrow> FieldSelector \<Rightarrow> Condition \<Rightarrow> bytes" where
  "execSelectorValue env f selector c =
     (if selector = FieldCmdReadTargets
      then CmdReadTargetsWithPolicy env f (c_SearchTools c) (c_ReadSpecs c) (c_EnumerationSpecs c) (c_RecursiveGlobs c)
      else if selector = FieldExecTargets
      then ExecTargetsWithPolicy env f (c_SearchTools c) (c_ReadSpecs c) (c_EnumerationSpecs c) (c_RecursiveGlobs c)
      else StringForCondition env f selector (Some c))"

definition execCacheKeyValue :: "shell_env \<Rightarrow> FieldSet \<Rightarrow> Condition \<Rightarrow> bytes" where
  "execCacheKeyValue env f c = execSelectorValue env f (spec_Selector (c_cacheKeySelector c)) c"

definition item_value :: "PathView \<Rightarrow> bytes" where
  "item_value view = (if pv_Canonical view = [] then pv_Raw view else pv_Canonical view)"

definition forEachItems ::
  "'w exec_env \<Rightarrow> 'w \<Rightarrow> FieldSet \<Rightarrow> Condition \<Rightarrow> ExecRuntime \<Rightarrow> bytes list \<times> ExecRuntime" where
  "forEachItems env w f c r =
     (let raw = execSelectorValue (xe_shell env) f (spec_Selector (c_forEachSelector c)) c in
      if raw = [] then ([], r)
      else let (views, r1) = canonicalize_all env w (BaseCWD f) (filter (\<lambda>p. p \<noteq> []) (Split newline raw)) r in
           (collect_new [] (filter (\<lambda>v. v \<noteq> []) (map item_value views)), r1))"

definition expandExecCommands ::
  "'w exec_env \<Rightarrow> 'w \<Rightarrow> FieldSet \<Rightarrow> Condition \<Rightarrow> ExecRuntime \<Rightarrow> bytes list list \<times> ExecRuntime" where
  "expandExecCommands env w f c r =
     (if spec_Selector (c_forEachSelector c) = FieldSelectorInvalid then ([c_Command c], r)
      else let (items, r1) = forEachItems env w f c r in (expand_commands c items, r1))"

section \<open>Observations of earlier events\<close>

definition hex_digits :: "bytes" where "hex_digits = ''0123456789abcdef''"

text \<open>\<^verbatim>\<open>hex.EncodeToString\<close> and the big-endian 64-bit length of a part.\<close>

definition hex_encode :: "bytes \<Rightarrow> bytes" where
  "hex_encode bs = concat (map (\<lambda>c. [hex_digits ! (of_char c div 16), hex_digits ! (of_char c mod 16)]) bs)"

fun be_bytes :: "nat \<Rightarrow> nat \<Rightarrow> bytes" where
  "be_bytes 0 n = []"
| "be_bytes (Suc k) n = be_bytes k (n div 256) @ [char_of n]"

definition be_uint64 :: "nat \<Rightarrow> bytes" where
  "be_uint64 n = be_bytes 8 n"

definition length_prefixed :: "bytes list \<Rightarrow> bytes" where
  "length_prefixed parts = concat (map (\<lambda>part. be_uint64 (length part) @ part) parts)"

definition temporalKey :: "(bytes \<Rightarrow> bytes) \<Rightarrow> bytes list \<Rightarrow> bytes" where
  "temporalKey sha256 parts = hex_encode (sha256 (length_prefixed parts))"

definition execTemporalNamespace :: bytes where
  "execTemporalNamespace = InternalNamespacePrefix @ ''exec-temporal''"

definition temporalConversationIdentity :: "(bytes \<Rightarrow> bytes) \<Rightarrow> bytes \<Rightarrow> FieldSet \<Rightarrow> bytes" where
  "temporalConversationIdentity sha256 system f =
     (let conversationID = (if f_ConversationID f = [] then f_SessionID f else f_ConversationID f) in
      if system = [] \<or> conversationID = [] then [] else temporalKey sha256 [system, conversationID])"

definition temporal_store :: "bytes \<Rightarrow> ObservationOrder \<Rightarrow> bytes \<Rightarrow> go_time \<Rightarrow> Store \<Rightarrow> bool \<times> Store" where
  "temporal_store k ord v now s =
     (if k = [] \<or> ReceiptID ord \<le> 0 then (False, s)
      else case Observe execTemporalNamespace k ord v now s of
             (Inr stored, s1) \<Rightarrow> (stored, s1)
           | (Inl err, s1) \<Rightarrow> (False, s1))"

definition temporal_load :: "bytes \<Rightarrow> go_time \<Rightarrow> Store \<Rightarrow> (bytes \<times> bool) \<times> Store" where
  "temporal_load k now s =
     (if k = [] then (([], False), s)
      else case Observation execTemporalNamespace k now s of
             (Inr (Some v), s1) \<Rightarrow> ((v, True), s1)
           | (_, s1) \<Rightarrow> (([], False), s1))"

definition on_cache :: "(Store \<Rightarrow> 'a \<times> Store) \<Rightarrow> ExecRuntime \<Rightarrow> 'a \<times> ExecRuntime" where
  "on_cache g r = (let (a, s) = g (rt_cache r) in (a, r\<lparr>rt_cache := s\<rparr>))"

definition ObserveUserPromptOrdered ::
  "'w exec_env \<Rightarrow> 'w \<Rightarrow> bytes \<Rightarrow> FieldSet \<Rightarrow> ObservationOrder \<Rightarrow> bytes \<Rightarrow> ExecRuntime \<Rightarrow> bool \<times> ExecRuntime" where
  "ObserveUserPromptOrdered env w system f ord v r =
     (if v = [] then (False, r)
      else let identity = temporalConversationIdentity (xe_sha256 env) system f in
           if identity = [] then (False, r)
           else on_cache (temporal_store (temporalKey (xe_sha256 env) [''prompt'', identity]) ord v (xe_now env w)) r)"

definition ObserveUserPrompt ::
  "'w exec_env \<Rightarrow> 'w \<Rightarrow> bytes \<Rightarrow> FieldSet \<Rightarrow> int \<Rightarrow> bytes \<Rightarrow> ExecRuntime \<Rightarrow> bool \<times> ExecRuntime" where
  "ObserveUserPrompt env w system f receiptID v r =
     ObserveUserPromptOrdered env w system f (ObservationOrder 0 receiptID) v r"

definition ObserveResponseOutputOrdered ::
  "'w exec_env \<Rightarrow> 'w \<Rightarrow> bytes \<Rightarrow> FieldSet \<Rightarrow> bytes \<Rightarrow> bytes \<Rightarrow> ObservationOrder \<Rightarrow> bytes \<Rightarrow> ExecRuntime \<Rightarrow> bool \<times> ExecRuntime" where
  "ObserveResponseOutputOrdered env w system f eventName target ord v r =
     (if v = [] then (False, r)
      else let identity = temporalConversationIdentity (xe_sha256 env) system f in
           if identity = [] \<or> eventName = [] \<or> target = [] then (False, r)
           else on_cache (temporal_store (temporalKey (xe_sha256 env) [''response'', identity, eventName, target])
                  ord v (xe_now env w)) r)"

definition ObserveResponseOutput ::
  "'w exec_env \<Rightarrow> 'w \<Rightarrow> bytes \<Rightarrow> FieldSet \<Rightarrow> bytes \<Rightarrow> bytes \<Rightarrow> int \<Rightarrow> bytes \<Rightarrow> ExecRuntime \<Rightarrow> bool \<times> ExecRuntime" where
  "ObserveResponseOutput env w system f eventName target receiptID v r =
     ObserveResponseOutputOrdered env w system f eventName target (ObservationOrder 0 receiptID) v r"

definition lastUserMessage ::
  "'w exec_env \<Rightarrow> 'w \<Rightarrow> bytes \<Rightarrow> FieldSet \<Rightarrow> ExecRuntime \<Rightarrow> (bytes \<times> bool) \<times> ExecRuntime" where
  "lastUserMessage env w system f r =
     (let identity = temporalConversationIdentity (xe_sha256 env) system f in
      if identity = [] then (([], False), r)
      else on_cache (temporal_load (temporalKey (xe_sha256 env) [''prompt'', identity]) (xe_now env w)) r)"

definition lastResponseOutput ::
  "'w exec_env \<Rightarrow> 'w \<Rightarrow> bytes \<Rightarrow> FieldSet \<Rightarrow> bytes \<Rightarrow> bytes \<Rightarrow> ExecRuntime \<Rightarrow> (bytes \<times> bool) \<times> ExecRuntime" where
  "lastResponseOutput env w system f eventName target r =
     (let identity = temporalConversationIdentity (xe_sha256 env) system f in
      if identity = [] \<or> eventName = [] \<or> target = [] then (([], False), r)
      else on_cache (temporal_load (temporalKey (xe_sha256 env) [''response'', identity, eventName, target])
             (xe_now env w)) r)"

section \<open>Cache keys and the verdict cache\<close>

definition execValidatorCacheNamespace :: bytes where
  "execValidatorCacheNamespace = ''exec-validator''"

definition execConditionUsesTemporalSelector :: "Condition \<Rightarrow> bool" where
  "execConditionUsesTemporalSelector c = list_ex (\<lambda>s. IsTemporalExecSelector (spec_Selector s)) (c_selectors c)"

definition execValidatorCacheNamespaceForCondition :: "Condition \<Rightarrow> bytes" where
  "execValidatorCacheNamespaceForCondition c =
     (if execConditionUsesTemporalSelector c then InternalNamespacePrefix @ execValidatorCacheNamespace
      else execValidatorCacheNamespace)"

record execTemporalCacheScope =
  ts_system :: bytes
  ts_conversationID :: bytes
  ts_eventName :: bytes
  ts_responseTarget :: bytes

definition temporalExecCacheScope ::
  "'w exec_env \<Rightarrow> FieldSet \<Rightarrow> Rule \<Rightarrow> Condition \<Rightarrow> execEventMemo option \<Rightarrow> execTemporalCacheScope" where
  "temporalExecCacheScope env f rule c memo =
     (if \<not> execConditionUsesTemporalSelector c
      then \<lparr>ts_system = [], ts_conversationID = [], ts_eventName = [], ts_responseTarget = []\<rparr>
      else \<lparr>ts_system = (case memo of Some m \<Rightarrow> me_system m | None \<Rightarrow> []),
            ts_conversationID = (if f_ConversationID f = [] then f_SessionID f else f_ConversationID f),
            ts_eventName = (case memo of Some m \<Rightarrow> me_eventName m | None \<Rightarrow> []),
            ts_responseTarget = (if IsResponseAction rule then xe_responseTarget env (r_Action rule) else [])\<rparr>)"

definition execConditionCacheEnabled :: "Rule \<Rightarrow> Condition \<Rightarrow> execTemporalCacheScope \<Rightarrow> bool" where
  "execConditionCacheEnabled rule c scope =
     (if c_CacheTTLMs c \<le> 0 then False
      else if \<not> execConditionUsesTemporalSelector c then True
      else if ts_system scope = [] \<or> ts_conversationID scope = [] \<or> ts_eventName scope = [] then False
      else \<not> (IsResponseAction rule \<and> ts_responseTarget scope = []))"

definition sanitizeTemporalExecVerdict :: "Rule \<Rightarrow> Condition \<Rightarrow> Verdict \<Rightarrow> Verdict" where
  "sanitizeTemporalExecVerdict rule c v =
     (if IsResponseAction rule \<or> \<not> execConditionUsesTemporalSelector c then v
      else v\<lparr>vd_Message := [], vd_Output := []\<rparr>)"

fun TOMLScalar_Kind :: "TOMLScalarValue \<Rightarrow> bytes" where
  "TOMLScalar_Kind TOMLScalarUnset = []"
| "TOMLScalar_Kind (TOMLScalarBool b) = ''bool''"
| "TOMLScalar_Kind (TOMLScalarString s) = ''string''"
| "TOMLScalar_Kind (TOMLScalarInt i) = ''int''"
| "TOMLScalar_Kind (TOMLScalarFloat x) = ''float''"

fun CanonicalString :: "(bytes \<Rightarrow> bytes) \<Rightarrow> (go_float \<Rightarrow> bytes) \<Rightarrow> TOMLScalarValue \<Rightarrow> bytes" where
  "CanonicalString quote formatFloat TOMLScalarUnset = []"
| "CanonicalString quote formatFloat (TOMLScalarBool b) = (if b then ''true'' else ''false'')"
| "CanonicalString quote formatFloat (TOMLScalarString s) = quote s"
| "CanonicalString quote formatFloat (TOMLScalarInt i) = Itoa i"
| "CanonicalString quote formatFloat (TOMLScalarFloat x) = formatFloat x"

definition unit_separator :: bytes where "unit_separator = [CHR 0x1F]"

definition FormatBool :: "bool \<Rightarrow> bytes" where
  "FormatBool b = (if b then ''true'' else ''false'')"

definition write_spec_parts :: "ShellWriteSpec \<Rightarrow> bytes list" where
  "write_spec_parts spec =
     [Join (ws_Argv0 spec) unit_separator, ws_TargetMode spec, Join (ws_SkipFlagsWithValues spec) unit_separator,
      FormatBool (ws_EndOfOptions spec), Join (ws_CwdFlags spec) unit_separator]"

definition cache_key_parts ::
  "'w exec_env \<Rightarrow> Rule \<Rightarrow> nat \<Rightarrow> Condition \<Rightarrow> PathView \<Rightarrow> execTemporalCacheScope \<Rightarrow> bytes list" where
  "cache_key_parts env rule conditionIndex c keyView scope =
     [r_Name rule, r_Action rule, OutputText rule, Itoa (int conditionIndex), c_Kind c,
      Join (c_Command c) unit_separator, c_CacheKey c, c_ForEach c, c_MatchMode c]
     @ map spec_Path (c_selectors c)
     @ [c_BlockOn c, c_OnError c, c_StdoutJSONField c, TOMLScalar_Kind (c_stdoutJSONValue c),
        CanonicalString (xe_quote env) (xe_formatFloat env) (c_stdoutJSONValue c), Itoa (c_CacheTTLMs c), Itoa (c_TimeoutMs c),
        Itoa (c_RetryCount c), Join (c_SearchTools c) unit_separator]
     @ concat (map write_spec_parts (c_WriteSpecs c))
     @ (if execConditionUsesTemporalSelector c
        then [ts_system scope, ts_conversationID scope, ts_eventName scope, ts_responseTarget scope] else [])
     @ [pv_Canonical keyView]"

definition nul_terminated :: "bytes list \<Rightarrow> bytes" where
  "nul_terminated parts = concat (map (\<lambda>part. part @ [CHR 0x00]) parts)"

definition stableExecCacheEntryKey ::
  "'w exec_env \<Rightarrow> Rule \<Rightarrow> nat \<Rightarrow> Condition \<Rightarrow> PathView \<Rightarrow> execTemporalCacheScope \<Rightarrow> bytes" where
  "stableExecCacheEntryKey env rule conditionIndex c keyView scope =
     ''sha256:'' @ hex_encode (xe_sha256 env (nul_terminated (cache_key_parts env rule conditionIndex c keyView scope)))"

text \<open>A hit never claims an error.\<close>

definition verdict_of_cached :: "cachedExecVerdict \<Rightarrow> Verdict" where
  "verdict_of_cached cached =
     \<lparr>vd_Block = cv_Block cached, vd_Message = cv_Message cached, vd_Output = cv_Output cached,
      vd_Errored = False, vd_PartialError = False\<rparr>"

definition cached_of_verdict :: "Verdict \<Rightarrow> cachedExecVerdict" where
  "cached_of_verdict v = \<lparr>cv_Block = vd_Block v, cv_Message = vd_Message v, cv_Output = vd_Output v\<rparr>"

definition cacheLookup :: "'w exec_env \<Rightarrow> bytes \<Rightarrow> bytes \<Rightarrow> go_time \<Rightarrow> Store \<Rightarrow> Verdict option \<times> Store" where
  "cacheLookup env ns k now s =
     (case Store_Get ns k now s of
        (Inr (Some entry), s1) \<Rightarrow>
          (case xe_unmarshalVerdict env (en_Value entry) of
             Inr cached \<Rightarrow> (Some (verdict_of_cached cached), s1)
           | Inl err \<Rightarrow> (None, snd (Store_Delete ns k now s1)))
      | (_, s1) \<Rightarrow> (None, s1))"

definition cacheStore :: "'w exec_env \<Rightarrow> bytes \<Rightarrow> bytes \<Rightarrow> int \<Rightarrow> Verdict \<Rightarrow> go_time \<Rightarrow> Store \<Rightarrow> Store" where
  "cacheStore env ns k ttlMs v now s =
     (case xe_marshalVerdict env (cached_of_verdict v) of
        Inl err \<Rightarrow> s
      | Inr encoded \<Rightarrow>
          snd (Store_Set ns k encoded \<lparr>Mode = SetModeAny, TTL = duration_of_ms ttlMs\<rparr> now s))"

section \<open>The input of a validator\<close>

definition isExecAvailabilitySelector :: "FieldSelector \<Rightarrow> bool" where
  "isExecAvailabilitySelector selector \<longleftrightarrow> selector = FieldLoopCount \<or> IsTemporalExecSelector selector"

definition execAvailabilitySelectorValue ::
  "'w exec_env \<Rightarrow> 'w \<Rightarrow> bytes \<Rightarrow> bytes \<Rightarrow> FieldSet \<Rightarrow> Rule \<Rightarrow> FieldSelector \<Rightarrow> ExecRuntime \<Rightarrow> (bytes \<times> bool) \<times> ExecRuntime" where
  "execAvailabilitySelectorValue env w system eventName f rule selector r =
     (if selector = FieldLoopCount then (FieldSet_Value (xe_shell env) f selector, r)
      else if selector = FieldLastUserMessage then lastUserMessage env w system f r
      else if selector = FieldLastResponseOutput
      then lastResponseOutput env w system f eventName (xe_responseTarget env (r_Action rule)) r
      else if selector = FieldResponseOutput then ((OutputText rule, OutputText rule \<noteq> []), r)
      else (([], False), r))"

fun matched_values ::
  "'w exec_env \<Rightarrow> 'w \<Rightarrow> bytes \<Rightarrow> bytes \<Rightarrow> FieldSet \<Rightarrow> Rule \<Rightarrow> Condition \<Rightarrow> FieldSelectorSpec list \<Rightarrow> ExecRuntime \<Rightarrow>
   FieldValue list \<times> ExecRuntime" where
  "matched_values env w system eventName f rule c [] r = ([], r)"
| "matched_values env w system eventName f rule c (sel # sels) r =
     (if isExecAvailabilitySelector (spec_Selector sel) then
        (let ((v, available), r1) =
               execAvailabilitySelectorValue env w system eventName f rule (spec_Selector sel) r;
             (rest, r2) = matched_values env w system eventName f rule c sels r1 in
         (\<lparr>fv_Field = spec_Path sel, fv_Value = v, fv_Available = Some available\<rparr> # rest, r2))
      else let v = StringForCondition (xe_shell env) f (spec_Selector sel) (Some c);
               (rest, r2) = matched_values env w system eventName f rule c sels r in
           (if v = [] then rest else \<lparr>fv_Field = spec_Path sel, fv_Value = v, fv_Available = None\<rparr> # rest, r2))"

text \<open>\<^verbatim>\<open>shellread.ExtractCodeSearchTargets\<close> returns nothing for an empty command or without tools.\<close>

definition readTargetViews ::
  "'w exec_env \<Rightarrow> 'w \<Rightarrow> bytes \<Rightarrow> bytes \<Rightarrow> bytes list \<Rightarrow> ExecRuntime \<Rightarrow> PathView list \<times> ExecRuntime" where
  "readTargetViews env w cwd command searchTools r =
     (let targets = (if command = [] \<or> searchTools = [] then []
                     else sa_ExtractCodeSearchTargets (xe_shell env) command cwd searchTools [] False) in
      canonicalize_all env w cwd (local_paths targets) r)"

definition buildInput ::
  "'w exec_env \<Rightarrow> 'w \<Rightarrow> FieldSet \<Rightarrow> Rule \<Rightarrow> Condition \<Rightarrow> PathView \<Rightarrow> execEventMemo option \<Rightarrow> ExecRuntime \<Rightarrow>
   Input \<times> ExecRuntime" where
  "buildInput env w f rule c keyView memo r =
     (let cwd = BaseCWD f;
          system = (case memo of Some m \<Rightarrow> me_system m | None \<Rightarrow> []);
          eventName = (case memo of Some m \<Rightarrow> me_eventName m | None \<Rightarrow> []);
          command = (if FieldSet_String (xe_shell env) f FieldToolInputCommand = []
                     then FieldSet_String (xe_shell env) f FieldCommand
                     else FieldSet_String (xe_shell env) f FieldToolInputCommand);
          (matched, r1) = matched_values env w system eventName f rule c (c_selectors c) r;
          effectiveCwd = FieldSet_String (xe_shell env) f FieldEffectiveCWD;
          effectiveCwd = (if effectiveCwd = sa_Unresolvable (xe_shell env) then [] else effectiveCwd);
          (cwdView, r2) = canonicalizePathField env w cwd effectiveCwd r1;
          (fileView, r3) = canonicalizePathField env w cwd (FilePathValue f) r2;
          (readViews, r4) = readTargetViews env w cwd command (c_SearchTools c) r3 in
      (\<lparr>in_Event = eventName, in_System = system,
        in_ToolName = FieldSet_String (xe_shell env) f FieldToolName, in_Rule = r_Name rule,
        in_Command = command, in_EffectiveCWD = cwdView, in_FilePath = fileView, in_CacheKey = keyView,
        in_ReadTargets = readViews, in_Matched = matched\<rparr>, r4))"

section \<open>One run of a validator\<close>

text \<open>
  \<^verbatim>\<open>background\<close> is the verdict that the detached run delivers later.  The run takes the time that
  passes on the clock of the world; the timer of the synchronous budget fires if the run is not
  over by then.
\<close>

record validatorRunResult =
  vr_verdict :: Verdict
  vr_background :: "Verdict option"

definition runValidator ::
  "'w exec_env \<Rightarrow> FieldSet \<Rightarrow> Rule \<Rightarrow> Condition \<Rightarrow> PathView \<Rightarrow> execEventMemo option \<Rightarrow> ExecRuntime \<Rightarrow> 'w \<Rightarrow>
   validatorRunResult \<times> ExecRuntime \<times> 'w" where
  "runValidator env f rule c keyView memo r w =
     (let (i, r1) = buildInput env w f rule c keyView memo r in
      case BuildRequest (xe_marshalInput env) i of
        Inl err \<Rightarrow> (\<lparr>vr_verdict = errored_verdict c, vr_background = None\<rparr>, r1, w)
      | Inr (stdin, envv) \<Rightarrow>
          (let (commands, r2) = expandExecCommands env w f c r1 in
           if commands = [] then (\<lparr>vr_verdict = zero_verdict, vr_background = None\<rparr>, r2, w)
           else let (v, w1) = runExpandedCommands (xe_run env) c commands stdin envv w;
                    syncBudget = duration_of_ms (c_TimeoutMs c) in
                if syncBudget \<le> 0 \<or> xe_now env w1 - xe_now env w \<le> syncBudget
                then (\<lparr>vr_verdict = v, vr_background = None\<rparr>, r2, w1)
                else (\<lparr>vr_verdict = errored_verdict c, vr_background = Some v\<rparr>, r2, w1)))"

end
