(* ===== verification/ExecFlight.thy ===== *)
theory ExecFlight
  imports ExecGate DaemonKV
begin

text \<open>
  Concurrent evaluations of cached exec conditions: \<^verbatim>\<open>execConditionGateMatch\<close>,
  \<^verbatim>\<open>runValidatorSingleflight\<close> and \<^verbatim>\<open>finishValidatorFlight\<close> of \<^verbatim>\<open>exec_gate.go\<close> as a step relation.

  A participant \<open>i\<close> evaluates the request \<open>qs ! i\<close>.  Its evaluation is one program counter, and the
  goroutine that owns the flight it started, which may outlive the evaluation, is a second one.
  One step is one critical section of the store or of the runtime's mutex, one channel operation
  or the end of a validator run; the steps of different participants interleave freely.  What a
  validator answers and when its budget ends is chosen by the step.
\<close>

section \<open>State\<close>

record exec_request =
  rq_rule :: Rule
  rq_cond :: Condition
  rq_namespace :: bytes
  rq_key :: bytes

text \<open>The request that \<^verbatim>\<open>execConditionGateMatch\<close> computes before it consults the cache.\<close>

definition exec_request_of ::
  "'w exec_env \<Rightarrow> 'w \<Rightarrow> FieldSet \<Rightarrow> Rule \<Rightarrow> nat \<Rightarrow> Condition \<Rightarrow> execEventMemo option \<Rightarrow> ExecRuntime \<Rightarrow>
   (exec_request \<times> bool) \<times> ExecRuntime" where
  "exec_request_of env w f rule j c memo r =
     (let (keyView, r1) = canonicalizeCacheKeyField env w (BaseCWD f) (execCacheKeyValue (xe_shell env) f c) r;
          scope = temporalExecCacheScope env f rule c memo in
      ((\<lparr>rq_rule = rule, rq_cond = c, rq_namespace = execValidatorCacheNamespaceForCondition c,
         rq_key = stableExecCacheEntryKey env rule j c keyView scope\<rparr>,
        execConditionCacheEnabled rule c scope), r1))"

datatype evaluation =
    Lookup
  | Enter
  | Wait nat
  | Lead
  | Finishing Verdict
  | Returned Verdict

datatype flight_owner =
    NoFlight
  | Run
  | Settle Verdict
  | Close Verdict
  | Remove
  | Finished

record flight_state =
  fs_store :: Store
  fs_inflight :: "bytes \<rightharpoonup> nat"
  fs_done :: "nat \<Rightarrow> Verdict option"
  fs_eval :: "nat \<Rightarrow> evaluation"
  fs_owner :: "nat \<Rightarrow> flight_owner"
  fs_clean :: "(bytes \<times> Verdict) set"
  fs_panicked :: "nat set"
  fs_foreign :: "(entryKey \<times> bytes) set"

text \<open>
  \<open>fs_done j\<close> is the verdict of flight \<open>j\<close> once its channel is closed; \<open>fs_clean\<close> records the clean
  verdicts that the runs for a key gave, \<open>fs_panicked\<close> the participants whose own code panicked, and
  \<open>fs_foreign\<close> the entries that other users of the store wrote into the validator namespaces.
\<close>

definition flights_init :: "Store \<Rightarrow> flight_state" where
  "flights_init s =
     \<lparr>fs_store = s, fs_inflight = Map.empty, fs_done = (\<lambda>_. None), fs_eval = (\<lambda>_. Lookup),
      fs_owner = (\<lambda>_. NoFlight), fs_clean = {}, fs_panicked = {}, fs_foreign = {}\<rparr>"

definition set_eval :: "nat \<Rightarrow> evaluation \<Rightarrow> flight_state \<Rightarrow> flight_state" where
  "set_eval i e s = s\<lparr>fs_eval := (fs_eval s)(i := e)\<rparr>"

definition set_owner :: "nat \<Rightarrow> flight_owner \<Rightarrow> flight_state \<Rightarrow> flight_state" where
  "set_owner i e s = s\<lparr>fs_owner := (fs_owner s)(i := e)\<rparr>"

definition sanitized :: "exec_request \<Rightarrow> Verdict \<Rightarrow> Verdict" where
  "sanitized q v = sanitizeTemporalExecVerdict (rq_rule q) (rq_cond q) v"

definition note_clean :: "exec_request \<Rightarrow> Verdict \<Rightarrow> flight_state \<Rightarrow> flight_state" where
  "note_clean q v s = (if vd_Errored v then s else s\<lparr>fs_clean := insert (rq_key q, v) (fs_clean s)\<rparr>)"

section \<open>Steps\<close>

text \<open>
  \<open>lead_panics\<close>: the deferred function gives the flight the error verdict, but the result of
  \<^verbatim>\<open>runValidatorSingleflight\<close> is unnamed, so the caller receives the zero verdict.
\<close>

inductive flight_step :: "'w exec_env \<Rightarrow> exec_request list \<Rightarrow> flight_state \<Rightarrow> flight_state \<Rightarrow> bool"
  for env qs where
  lookup_hit: "i < length qs \<Longrightarrow> fs_eval s i = Lookup \<Longrightarrow>
     cacheLookup env (rq_namespace (qs ! i)) (rq_key (qs ! i)) now (fs_store s) = (Some v, t) \<Longrightarrow>
     flight_step env qs s (set_eval i (Returned (sanitized (qs ! i) v)) (s\<lparr>fs_store := t\<rparr>))"
| lookup_miss: "i < length qs \<Longrightarrow> fs_eval s i = Lookup \<Longrightarrow>
     cacheLookup env (rq_namespace (qs ! i)) (rq_key (qs ! i)) now (fs_store s) = (None, t) \<Longrightarrow>
     flight_step env qs s (set_eval i Enter (s\<lparr>fs_store := t\<rparr>))"
| enter_join: "i < length qs \<Longrightarrow> fs_eval s i = Enter \<Longrightarrow> fs_inflight s (rq_key (qs ! i)) = Some j \<Longrightarrow>
     flight_step env qs s (set_eval i (Wait j) s)"
| enter_lead: "i < length qs \<Longrightarrow> fs_eval s i = Enter \<Longrightarrow> fs_inflight s (rq_key (qs ! i)) = None \<Longrightarrow>
     flight_step env qs s
       (set_owner i Run (set_eval i Lead (s\<lparr>fs_inflight := (fs_inflight s)(rq_key (qs ! i) \<mapsto> i)\<rparr>)))"
| lead_returns: "i < length qs \<Longrightarrow> fs_eval s i = Lead \<Longrightarrow> fs_owner s i = Run \<Longrightarrow> w = sanitized (qs ! i) v \<Longrightarrow>
     flight_step env qs s (set_owner i (Settle w) (set_eval i (Finishing w) (note_clean (qs ! i) w s)))"
| lead_times_out: "i < length qs \<Longrightarrow> fs_eval s i = Lead \<Longrightarrow> fs_owner s i = Run \<Longrightarrow>
     flight_step env qs s
       (set_eval i (Returned (sanitized (qs ! i) (errored_verdict (rq_cond (qs ! i))))) s)"
| lead_panics: "i < length qs \<Longrightarrow> fs_eval s i = Lead \<Longrightarrow> fs_owner s i = Run \<Longrightarrow>
     flight_step env qs s
       (set_owner i (Settle (errored_verdict (rq_cond (qs ! i))))
          (set_eval i (Finishing zero_verdict) (s\<lparr>fs_panicked := insert i (fs_panicked s)\<rparr>)))"
| background_ends: "i < length qs \<Longrightarrow> fs_eval s i = Returned u \<Longrightarrow> fs_owner s i = Run \<Longrightarrow>
     w = sanitized (qs ! i) v \<Longrightarrow>
     flight_step env qs s (set_owner i (Settle w) (note_clean (qs ! i) w s))"
| settle: "i < length qs \<Longrightarrow> fs_owner s i = Settle v \<Longrightarrow>
     t = (if vd_Errored v then fs_store s
          else cacheStore env (rq_namespace (qs ! i)) (rq_key (qs ! i)) (c_CacheTTLMs (rq_cond (qs ! i))) v now
                 (fs_store s)) \<Longrightarrow>
     flight_step env qs s (set_owner i (Close v) (s\<lparr>fs_store := t\<rparr>))"
| close: "i < length qs \<Longrightarrow> fs_owner s i = Close v \<Longrightarrow>
     flight_step env qs s (set_owner i Remove (s\<lparr>fs_done := (fs_done s)(i := Some v)\<rparr>))"
| remove: "i < length qs \<Longrightarrow> fs_owner s i = Remove \<Longrightarrow>
     flight_step env qs s (set_owner i Finished (s\<lparr>fs_inflight := (fs_inflight s)(rq_key (qs ! i) := None)\<rparr>))"
| finish: "i < length qs \<Longrightarrow> fs_eval s i = Finishing u \<Longrightarrow> fs_owner s i = Finished \<Longrightarrow>
     flight_step env qs s (set_eval i (Returned u) s)"
| wait_done: "i < length qs \<Longrightarrow> fs_eval s i = Wait j \<Longrightarrow> fs_done s j = Some v \<Longrightarrow>
     flight_step env qs s (set_eval i (Returned v) s)"

text \<open>A follower may also give up because its context ended.\<close>

inductive cancel_step :: "exec_request list \<Rightarrow> flight_state \<Rightarrow> flight_state \<Rightarrow> bool" for qs where
  wait_cancelled: "i < length qs \<Longrightarrow> fs_eval s i = Wait j \<Longrightarrow>
     cancel_step qs s (set_eval i (Returned (errored_verdict (rq_cond (qs ! i)))) s)"

text \<open>
  Other users of the store may drop any entry of the two validator namespaces at any time, and may
  write any entry into the one that is not reserved: \<^verbatim>\<open>KVSet\<close> refuses internal
  namespaces only.  What they write is recorded.
\<close>

definition exec_namespaces :: "bytes set" where
  "exec_namespaces = {execValidatorCacheNamespace, InternalNamespacePrefix @ execValidatorCacheNamespace}"

definition exec_entries :: "Store \<Rightarrow> (entryKey \<times> bytes) set" where
  "exec_entries s = {(k, e_value e) | k e. (k, e) \<in> set (entries s) \<and> namespace k \<in> exec_namespaces}"

definition public_entries :: "(entryKey \<times> bytes) set \<Rightarrow> bool" where
  "public_entries F \<longleftrightarrow> (\<forall>(k, b) \<in> F. \<not> IsInternalNamespace (namespace k))"

inductive foreign_step :: "flight_state \<Rightarrow> flight_state \<Rightarrow> bool" where
  foreign: "exec_entries t \<subseteq> exec_entries (fs_store s) \<union> F \<Longrightarrow> public_entries F \<Longrightarrow>
     foreign_step s (s\<lparr>fs_store := t, fs_foreign := fs_foreign s \<union> F\<rparr>)"

text \<open>\<open>runs env qs n s t\<close>: a run from \<open>s\<close> to \<open>t\<close> in which the participants take \<open>n\<close> steps.\<close>

inductive runs :: "'w exec_env \<Rightarrow> exec_request list \<Rightarrow> nat \<Rightarrow> flight_state \<Rightarrow> flight_state \<Rightarrow> bool" for env qs where
  runs_refl: "runs env qs 0 s s"
| runs_flight: "runs env qs n s t \<Longrightarrow> flight_step env qs t u \<Longrightarrow> runs env qs (Suc n) s u"
| runs_cancel: "runs env qs n s t \<Longrightarrow> cancel_step qs t u \<Longrightarrow> runs env qs (Suc n) s u"
| runs_foreign: "runs env qs n s t \<Longrightarrow> foreign_step t u \<Longrightarrow> runs env qs n s u"

section \<open>Progress and termination\<close>

fun eval_rank :: "evaluation \<Rightarrow> nat" where
  "eval_rank Lookup = 4"
| "eval_rank Enter = 3"
| "eval_rank (Wait j) = 1"
| "eval_rank Lead = 2"
| "eval_rank (Finishing v) = 1"
| "eval_rank (Returned v) = 0"

fun owner_rank :: "flight_owner \<Rightarrow> nat" where
  "owner_rank NoFlight = 5"
| "owner_rank Run = 4"
| "owner_rank (Settle v) = 3"
| "owner_rank (Close v) = 2"
| "owner_rank Remove = 1"
| "owner_rank Finished = 0"

definition work_left :: "exec_request list \<Rightarrow> flight_state \<Rightarrow> nat" where
  "work_left qs s = (\<Sum>i<length qs. eval_rank (fs_eval s i) + owner_rank (fs_owner s i))"

lemmas flight_updates = set_eval_def set_owner_def note_clean_def

text \<open>The states of the evaluation and of the flight of one participant go together.\<close>

fun paired :: "evaluation \<Rightarrow> flight_owner \<Rightarrow> bool" where
  "paired Lookup p = (p = NoFlight)"
| "paired Enter p = (p = NoFlight)"
| "paired (Wait j) p = (p = NoFlight)"
| "paired Lead p = (p = Run)"
| "paired (Finishing v) p = (\<exists>w. p \<in> {Settle w, Close w, Remove, Finished})"
| "paired (Returned v) p = True"

definition owns :: "flight_owner \<Rightarrow> bool" where
  "owns p \<longleftrightarrow> p \<noteq> NoFlight \<and> p \<noteq> Finished"

text \<open>
  A flight is registered under its key exactly as long as its owner is at work, and whoever waits
  for a flight waits for one that is closed or has an owner at work.
\<close>

definition flights_ok :: "exec_request list \<Rightarrow> flight_state \<Rightarrow> bool" where
  "flights_ok qs s \<longleftrightarrow>
     (\<forall>i < length qs. paired (fs_eval s i) (fs_owner s i))
     \<and> (\<forall>k j. fs_inflight s k = Some j \<longleftrightarrow> j < length qs \<and> owns (fs_owner s j) \<and> rq_key (qs ! j) = k)
     \<and> (\<forall>j < length qs. fs_done s j \<noteq> None \<longleftrightarrow> fs_owner s j = Remove \<or> fs_owner s j = Finished)
     \<and> (\<forall>i < length qs. \<forall>j. fs_eval s i = Wait j \<longrightarrow> j < length qs \<and> fs_owner s j \<noteq> NoFlight
          \<and> rq_key (qs ! j) = rq_key (qs ! i))"

lemma cacheLookup_total: "\<exists>v t. cacheLookup env ns k now s = (v, t)"
  by (cases "cacheLookup env ns k now s") blast

lemma sum_decreases:
  fixes f g :: "nat \<Rightarrow> nat"
  assumes "i < n" "g i < f i" "\<And>j. j < n \<Longrightarrow> j \<noteq> i \<Longrightarrow> g j = f j"
  shows "(\<Sum>j<n. g j) < (\<Sum>j<n. f j)"
  using assms by (intro sum_strict_mono_ex1) (auto, metis order_less_imp_le order_refl)

lemma flights_paired: "flights_ok qs s \<Longrightarrow> i < length qs \<Longrightarrow> paired (fs_eval s i) (fs_owner s i)"
  by (simp add: flights_ok_def)

lemma flights_registered:
  "flights_ok qs s \<Longrightarrow>
   fs_inflight s k = Some j \<longleftrightarrow> j < length qs \<and> owns (fs_owner s j) \<and> rq_key (qs ! j) = k"
  unfolding flights_ok_def by blast

lemma flights_closed:
  "flights_ok qs s \<Longrightarrow> j < length qs \<Longrightarrow>
   fs_done s j \<noteq> None \<longleftrightarrow> fs_owner s j = Remove \<or> fs_owner s j = Finished"
  unfolding flights_ok_def by blast

lemma flights_waits:
  "flights_ok qs s \<Longrightarrow> i < length qs \<Longrightarrow> fs_eval s i = Wait j \<Longrightarrow>
   j < length qs \<and> fs_owner s j \<noteq> NoFlight \<and> rq_key (qs ! j) = rq_key (qs ! i)"
  unfolding flights_ok_def by blast

lemma flights_joinable:
  "flights_ok qs s \<Longrightarrow> fs_inflight s (rq_key (qs ! i)) = Some j \<Longrightarrow>
   j < length qs \<and> fs_owner s j \<noteq> NoFlight \<and> rq_key (qs ! j) = rq_key (qs ! i)"
  by (simp add: flights_registered owns_def)

lemma paired_settle: "paired e (Settle v) \<Longrightarrow> paired e (Close v)"
  by (cases e) auto

lemma paired_close: "paired e (Close v) \<Longrightarrow> paired e Remove"
  by (cases e) auto

lemma paired_remove: "paired e Remove \<Longrightarrow> paired e Finished"
  by (cases e) auto

lemma flight_step_works:
  assumes "flight_step env qs s t" "flights_ok qs s"
  obtains i where "i < length qs"
    "eval_rank (fs_eval t i) + owner_rank (fs_owner t i) < eval_rank (fs_eval s i) + owner_rank (fs_owner s i)"
    "\<And>j. j \<noteq> i \<Longrightarrow> fs_eval t j = fs_eval s j \<and> fs_owner t j = fs_owner s j"
  using assms(1)
proof cases
  case (enter_lead i)
  then have "fs_owner s i = NoFlight" using flights_paired [OF assms(2), of i] by simp
  then show ?thesis using enter_lead by (intro that [of i]) (simp_all add: flight_updates)
qed (rule that, assumption, simp_all add: flight_updates)+

lemma flight_step_work: "flight_step env qs s t \<Longrightarrow> flights_ok qs s \<Longrightarrow> work_left qs t < work_left qs s"
  by (erule flight_step_works) (auto simp: work_left_def intro!: sum_decreases)

lemma cancel_step_work: "cancel_step qs s t \<Longrightarrow> work_left qs t < work_left qs s"
  by (erule cancel_step.cases) (auto simp: work_left_def flight_updates intro!: sum_decreases)

lemma work_left_init: "work_left qs (flights_init s) = 9 * length qs"
  by (simp add: work_left_def flights_init_def)

lemma flights_ok_init: "flights_ok qs (flights_init s)"
  by (auto simp: flights_ok_def flights_init_def owns_def)


lemma flights_ok_frame [simp]:
  "flights_ok qs (s\<lparr>fs_store := t\<rparr>) = flights_ok qs s"
  "flights_ok qs (s\<lparr>fs_panicked := p\<rparr>) = flights_ok qs s"
  "flights_ok qs (s\<lparr>fs_foreign := F\<rparr>) = flights_ok qs s"
  "flights_ok qs (note_clean q v s) = flights_ok qs s"
  by (simp_all add: flights_ok_def note_clean_def)

lemma set_commute [simp]:
  "fs_eval (note_clean q v s) = fs_eval s" "fs_owner (note_clean q v s) = fs_owner s"
  by (simp_all add: note_clean_def)

text \<open>A move of one participant that neither registers, closes nor removes its flight.\<close>

lemma flights_ok_move:
  assumes ok: "flights_ok qs s" and "i < length qs" and "paired e p"
    and "p = fs_owner s i \<or> (owns p \<and> owns (fs_owner s i) \<and> p \<noteq> Remove \<and> fs_owner s i \<noteq> Remove)"
    and "\<And>j. e = Wait j \<Longrightarrow> j < length qs \<and> fs_owner s j \<noteq> NoFlight \<and> rq_key (qs ! j) = rq_key (qs ! i)"
  shows "flights_ok qs (set_owner i p (set_eval i e s))"
proof -
  have own: "owns p = owns (fs_owner s i)" "p = NoFlight \<longleftrightarrow> fs_owner s i = NoFlight"
    "p = Remove \<or> p = Finished \<longleftrightarrow> fs_owner s i = Remove \<or> fs_owner s i = Finished"
    using assms(4) by (auto simp: owns_def)
  let ?t = "set_owner i p (set_eval i e s)"
  have "\<forall>j < length qs. paired (fs_eval ?t j) (fs_owner ?t j)"
    using ok assms(3) by (simp add: flights_ok_def flight_updates)
  moreover have "\<forall>k j. fs_inflight ?t k = Some j \<longleftrightarrow> j < length qs \<and> owns (fs_owner ?t j) \<and> rq_key (qs ! j) = k"
    using ok own(1) by (simp add: flights_ok_def flight_updates)
  moreover have "\<forall>j < length qs. fs_done ?t j \<noteq> None \<longleftrightarrow> fs_owner ?t j = Remove \<or> fs_owner ?t j = Finished"
    using ok own(3) by (simp add: flights_ok_def flight_updates)
  moreover have "\<forall>k < length qs. \<forall>j. fs_eval ?t k = Wait j \<longrightarrow> j < length qs \<and> fs_owner ?t j \<noteq> NoFlight
      \<and> rq_key (qs ! j) = rq_key (qs ! k)"
    using ok own(2) assms(5) by (simp add: flights_ok_def flight_updates)
  ultimately show ?thesis unfolding flights_ok_def by blast
qed

lemma flights_ok_eval:
  assumes "flights_ok qs s" "i < length qs" "paired e (fs_owner s i)"
    and "\<And>j. e = Wait j \<Longrightarrow> j < length qs \<and> fs_owner s j \<noteq> NoFlight \<and> rq_key (qs ! j) = rq_key (qs ! i)"
  shows "flights_ok qs (set_eval i e s)"
  using flights_ok_move [OF assms(1,2,3) disjI1 [OF refl] assms(4)]
  by (simp add: set_owner_def set_eval_def)

lemma flights_ok_owner:
  assumes "flights_ok qs s" "i < length qs" "paired (fs_eval s i) p"
    "owns p" "owns (fs_owner s i)" "p \<noteq> Remove" "fs_owner s i \<noteq> Remove"
  shows "flights_ok qs (set_owner i p s)"
proof -
  have "\<And>j. fs_eval s i = Wait j \<Longrightarrow> j < length qs \<and> fs_owner s j \<noteq> NoFlight \<and> rq_key (qs ! j) = rq_key (qs ! i)"
    using assms(1,2) by (simp add: flights_ok_def)
  then show ?thesis
    using flights_ok_move [OF assms(1,2,3)] assms(4-7) by (simp add: set_owner_def set_eval_def)
qed

lemma flights_ok_lead:
  assumes ok: "flights_ok qs s" and i: "i < length qs" "fs_eval s i = Enter" "fs_inflight s (rq_key (qs ! i)) = None"
  shows "flights_ok qs (set_owner i Run (set_eval i Lead (s\<lparr>fs_inflight := (fs_inflight s)(rq_key (qs ! i) \<mapsto> i)\<rparr>)))"
    (is "flights_ok qs ?t")
proof -
  have none: "fs_owner s i = NoFlight" using flights_paired [OF ok i(1)] i(2) by simp
  have other: "owns (fs_owner s j) \<Longrightarrow> j < length qs \<Longrightarrow> rq_key (qs ! j) \<noteq> rq_key (qs ! i)" for j
    using flights_registered [OF ok, of "rq_key (qs ! j)" j] i(3) by auto
  have "\<forall>j < length qs. paired (fs_eval ?t j) (fs_owner ?t j)"
    using ok by (simp add: flights_ok_def flight_updates)
  moreover have "fs_inflight ?t k = Some j \<longleftrightarrow> j < length qs \<and> owns (fs_owner ?t j) \<and> rq_key (qs ! j) = k" for k j
    using flights_registered [OF ok, of k j] i none other [of j] by (auto simp: flight_updates owns_def)
  moreover have "\<forall>j < length qs. fs_done ?t j \<noteq> None \<longleftrightarrow> fs_owner ?t j = Remove \<or> fs_owner ?t j = Finished"
    using ok none by (simp add: flights_ok_def flight_updates)
  moreover have "\<forall>k < length qs. \<forall>j. fs_eval ?t k = Wait j \<longrightarrow> j < length qs \<and> fs_owner ?t j \<noteq> NoFlight
      \<and> rq_key (qs ! j) = rq_key (qs ! k)"
    using ok by (simp add: flights_ok_def flight_updates)
  ultimately show ?thesis unfolding flights_ok_def by blast
qed

lemma flights_ok_close:
  assumes ok: "flights_ok qs s" and i: "i < length qs" "fs_owner s i = Close v"
  shows "flights_ok qs (set_owner i Remove (s\<lparr>fs_done := (fs_done s)(i := Some v)\<rparr>))" (is "flights_ok qs ?t")
proof -
  have "paired (fs_eval s i) Remove" using flights_paired [OF ok i(1)] i(2) paired_close by metis
  then have "\<forall>j < length qs. paired (fs_eval ?t j) (fs_owner ?t j)"
    using ok by (simp add: flights_ok_def flight_updates)
  moreover have "\<forall>k j. fs_inflight ?t k = Some j \<longleftrightarrow> j < length qs \<and> owns (fs_owner ?t j) \<and> rq_key (qs ! j) = k"
    using ok i by (simp add: flights_ok_def flight_updates owns_def)
  moreover have "\<forall>j < length qs. fs_done ?t j \<noteq> None \<longleftrightarrow> fs_owner ?t j = Remove \<or> fs_owner ?t j = Finished"
    using ok by (simp add: flights_ok_def flight_updates)
  moreover have "\<forall>k < length qs. \<forall>j. fs_eval ?t k = Wait j \<longrightarrow> j < length qs \<and> fs_owner ?t j \<noteq> NoFlight
      \<and> rq_key (qs ! j) = rq_key (qs ! k)"
    using ok by (simp add: flights_ok_def flight_updates)
  ultimately show ?thesis unfolding flights_ok_def by blast
qed

lemma flights_ok_remove:
  assumes ok: "flights_ok qs s" and i: "i < length qs" "fs_owner s i = Remove"
  shows "flights_ok qs (set_owner i Finished (s\<lparr>fs_inflight := (fs_inflight s)(rq_key (qs ! i) := None)\<rparr>))"
    (is "flights_ok qs ?t")
proof -
  have p: "paired (fs_eval s i) Finished" using flights_paired [OF ok i(1)] i(2) paired_remove by metis
  have here: "fs_inflight s (rq_key (qs ! i)) = Some i" using flights_registered [OF ok] i by (simp add: owns_def)
  have other: "owns (fs_owner s j) \<Longrightarrow> j < length qs \<Longrightarrow> j \<noteq> i \<Longrightarrow> rq_key (qs ! j) \<noteq> rq_key (qs ! i)" for j
    using flights_registered [OF ok, of "rq_key (qs ! j)" j] here by auto
  have "\<forall>j < length qs. paired (fs_eval ?t j) (fs_owner ?t j)"
    using ok p by (simp add: flights_ok_def flight_updates)
  moreover have "fs_inflight ?t k = Some j \<longleftrightarrow> j < length qs \<and> owns (fs_owner ?t j) \<and> rq_key (qs ! j) = k" for k j
    using flights_registered [OF ok, of k j] i other [of j] here by (auto simp: flight_updates owns_def)
  moreover have "\<forall>j < length qs. fs_done ?t j \<noteq> None \<longleftrightarrow> fs_owner ?t j = Remove \<or> fs_owner ?t j = Finished"
    using ok i by (simp add: flights_ok_def flight_updates)
  moreover have "\<forall>k < length qs. \<forall>j. fs_eval ?t k = Wait j \<longrightarrow> j < length qs \<and> fs_owner ?t j \<noteq> NoFlight
      \<and> rq_key (qs ! j) = rq_key (qs ! k)"
    using ok by (simp add: flights_ok_def flight_updates)
  ultimately show ?thesis unfolding flights_ok_def by blast
qed

lemma flight_step_ok:
  assumes "flight_step env qs s t" and ok: "flights_ok qs s"
  shows "flights_ok qs t"
  using assms(1)
proof cases
  case (lookup_hit i now v u)
  then show ?thesis using ok by (auto intro!: flights_ok_eval)
next
  case (lookup_miss i now u)
  then show ?thesis using ok flights_paired [OF ok, of i] by (auto intro!: flights_ok_eval)
next
  case (enter_join i j)
  then show ?thesis using ok flights_paired [OF ok, of i] flights_joinable [OF ok]
    by (auto intro!: flights_ok_eval)
next
  case (enter_lead i)
  then show ?thesis using flights_ok_lead [OF ok] by simp
next
  case (lead_returns i w v)
  then show ?thesis using ok by (auto intro!: flights_ok_move simp: owns_def)
next
  case (lead_times_out i)
  then show ?thesis using ok by (auto intro!: flights_ok_eval)
next
  case (lead_panics i)
  then show ?thesis using ok by (auto intro!: flights_ok_move simp: owns_def)
next
  case (background_ends i u w v)
  then show ?thesis using ok by (auto intro!: flights_ok_owner simp: owns_def)
next
  case (settle i v u now)
  then have "paired (fs_eval s i) (Close v)" using flights_paired [OF ok] paired_settle by metis
  then show ?thesis using settle ok by (auto intro!: flights_ok_owner simp: owns_def)
next
  case (close i v)
  then show ?thesis using flights_ok_close [OF ok] by simp
next
  case (remove i)
  then show ?thesis using flights_ok_remove [OF ok] by simp
next
  case (finish i u)
  then show ?thesis using ok by (auto intro!: flights_ok_eval)
next
  case (wait_done i j v)
  then show ?thesis using ok by (auto intro!: flights_ok_eval)
qed

lemma cancel_step_ok: "cancel_step qs s t \<Longrightarrow> flights_ok qs s \<Longrightarrow> flights_ok qs t"
  by (erule cancel_step.cases) (auto intro!: flights_ok_eval)

lemma foreign_step_frame: "foreign_step s t \<Longrightarrow> flights_ok qs t = flights_ok qs s \<and> work_left qs t = work_left qs s"
  by (erule foreign_step.cases) (simp add: work_left_def)

lemma runs_ok: "runs env qs n s t \<Longrightarrow> flights_ok qs s \<Longrightarrow> flights_ok qs t"
  by (induction rule: runs.induct) (auto intro: flight_step_ok cancel_step_ok simp: foreign_step_frame)

lemma runs_work: "runs env qs n s t \<Longrightarrow> flights_ok qs s \<Longrightarrow> n + work_left qs t \<le> work_left qs s"
proof (induction rule: runs.induct)
  case (runs_flight n s t u)
  then have "work_left qs u < work_left qs t" using runs_ok flight_step_work by blast
  then show ?case using runs_flight by simp
next
  case (runs_cancel n s t u)
  then have "work_left qs u < work_left qs t" using cancel_step_work by blast
  then show ?case using runs_cancel by simp
next
  case (runs_foreign n s t u)
  then show ?case by (simp add: foreign_step_frame [OF runs_foreign.hyps(2)])
qed simp

text \<open>An owner at work can always move, and so can everyone who is not waiting.\<close>

lemma owner_moves:
  assumes "flights_ok qs s" "i < length qs" "owns (fs_owner s i)"
  shows "\<exists>t. flight_step env qs s t"
proof (cases "fs_owner s i")
  case Run
  then have "(\<exists>u. fs_eval s i = Returned u) \<or> fs_eval s i = Lead"
    using flights_paired [OF assms(1,2)] by (cases "fs_eval s i") auto
  then show ?thesis using assms(2) Run by (blast intro: lead_times_out background_ends)
next
  case (Settle v)
  then show ?thesis using assms(2) settle by blast
next
  case (Close v)
  then show ?thesis using assms(2) close by blast
next
  case Remove
  then show ?thesis using assms(2) remove by blast
qed (use assms(3) in \<open>simp_all add: owns_def\<close>)

lemma evaluation_moves:
  assumes ok: "flights_ok qs s" and i: "i < length qs" and "\<nexists>v. fs_eval s i = Returned v"
  shows "\<exists>t. flight_step env qs s t"
proof (cases "fs_eval s i")
  case Lookup
  obtain v u where "cacheLookup env (rq_namespace (qs ! i)) (rq_key (qs ! i)) 0 (fs_store s) = (v, u)"
    using cacheLookup_total by blast
  then show ?thesis using lookup_hit [OF i Lookup] lookup_miss [OF i Lookup] by (cases v) blast+
next
  case Enter
  then show ?thesis using enter_join [OF i Enter] enter_lead [OF i Enter]
    by (cases "fs_inflight s (rq_key (qs ! i))") blast+
next
  case (Wait j)
  then have j: "j < length qs" "fs_owner s j \<noteq> NoFlight" using flights_waits [OF ok i] by auto
  then show ?thesis
    using owner_moves [OF ok j(1)] flights_closed [OF ok j(1)] wait_done [OF i Wait]
    by (cases "owns (fs_owner s j)") (auto simp: owns_def)
next
  case Lead
  then have "owns (fs_owner s i)" using flights_paired [OF ok i] by (simp add: owns_def)
  then show ?thesis using owner_moves [OF ok i] by blast
next
  case (Finishing v)
  then show ?thesis
    using finish [OF i Finishing] owner_moves [OF ok i] flights_paired [OF ok i]
    by (cases "fs_owner s i = Finished") (auto simp: owns_def)
qed (use assms(3) in blast)

lemma stuck_is_done:
  assumes ok: "flights_ok qs s" and stuck: "\<nexists>t. flight_step env qs s t"
  shows "(\<forall>i < length qs. \<exists>v. fs_eval s i = Returned v) \<and> fs_inflight s = Map.empty"
proof
  show "\<forall>i < length qs. \<exists>v. fs_eval s i = Returned v" using evaluation_moves [OF ok] stuck by blast
  show "fs_inflight s = Map.empty"
  proof
    fix k
    show "fs_inflight s k = None"
    proof (cases "fs_inflight s k")
      case (Some j)
      then show ?thesis using flights_registered [OF ok] owner_moves [OF ok] stuck by blast
    qed
  qed
qed

end
