(* ===== verification/ExecProps.thy ===== *)
theory ExecProps
  imports ExecFlight HotKV_Props
begin

text \<open>
  Where the verdicts of concurrent evaluations come from, what a panic of the leading evaluation
  does, and how the keys of observations and cached verdicts separate conversations.
\<close>

section \<open>Provenance of cached verdicts\<close>

lemma exec_entries_shrinks: "shrinks s t \<Longrightarrow> exec_entries t \<subseteq> exec_entries s"
  using shrinks_subset by (fastforce simp: exec_entries_def)

lemma alist_update_twice [simp]: "AList.update k v (AList.update k u xs) = AList.update k v xs"
  by (induction xs) auto

lemma Store_Set_entries:
  assumes "(j, e) \<in> set (entries (snd (Store_Set ns k v opts now s)))"
  shows "(j, e) \<in> set (entries s) \<or> (j = EntryKey ns k \<and> e_value e = v)"
proof -
  obtain r t where rt: "Store_Set ns k v opts now s = (r, t)" by fastforce
  then show ?thesis
  proof (cases rule: Store_Set_cases)
    case stopped
    then show ?thesis using assms rt shrinks_subset by auto
  next
    case (written sk cur s1 s2 s3 w s4)
    have sk: "sk = EntryKey ns k" using written(1) validateKey_Inr by blast
    have "shrinks s s1" using entryLocked_shrinks [of s sk now] written(3) by simp
    moreover have "shrinks s1 s2" using prepareWriteLocked_shrinks [of s1 sk "int (length v)" now] written(4) by simp
    ultimately have "set (entries s2) \<subseteq> set (entries s)" using shrinks_subset by blast
    moreover have "entries s3 = entries s2" unfolding written(5) by (auto split: option.splits)
    ultimately have s3: "set (entries s3) \<subseteq> set (entries s)" by simp
    have "e_value w = v" "entries s4 = AList.update sk w (entries s3)"
      using written(6) by (auto simp: writeLocked_def Let_def split: option.splits)
    then have put: "entries t = AList.update sk (w\<lparr>e_order := zeroOrder, e_unavailable := False\<rparr>) (entries s3)"
      using written(7) by (simp add: put_entry_def)
    have "(j, e) = (sk, w\<lparr>e_order := zeroOrder, e_unavailable := False\<rparr>) \<or> (j, e) \<in> set (entries s3)"
      using assms rt put set_alist_update_subset [of sk _ "entries s3"] by auto
    then show ?thesis using s3 sk \<open>e_value w = v\<close> by auto
  qed
qed

lemma cacheStore_entries:
  "exec_entries (cacheStore env ns k ttlMs v now s) \<subseteq>
   exec_entries s \<union> {(EntryKey ns k, u) | u. xe_marshalVerdict env (cached_of_verdict v) = Inr u}"
  using Store_Set_entries by (fastforce simp: exec_entries_def cacheStore_def split: sum.splits)

lemma cacheLookup_entries:
  assumes "cacheLookup env ns k now s = (r, t)"
  shows "exec_entries t \<subseteq> exec_entries s"
proof -
  obtain g u where g: "Store_Get ns k now s = (g, u)" by fastforce
  have "shrinks s u" using reading_shrinks(1) [of s ns k now] g by simp
  moreover have "shrinks u (snd (Store_Delete ns k now u))" by (rule reading_shrinks)
  ultimately have "shrinks s t"
    using assms g shrinks_trans by (fastforce simp: cacheLookup_def split: sum.splits option.splits)
  then show ?thesis by (rule exec_entries_shrinks)
qed

lemma cacheLookup_hit:
  assumes "cacheLookup env ns k now s = (Some v, t)" "ns \<in> exec_namespaces"
  obtains b cached where "(EntryKey ns k, b) \<in> exec_entries s" "xe_unmarshalVerdict env b = Inr cached"
    "v = verdict_of_cached cached"
proof -
  obtain entry u cached where g: "Store_Get ns k now s = (Inr (Some entry), u)"
    "xe_unmarshalVerdict env (en_Value entry) = Inr cached" "v = verdict_of_cached cached"
    using assms(1) by (auto simp: cacheLookup_def split: sum.splits option.splits prod.splits)
  then obtain e where "map_of (entries s) (EntryKey ns k) = Some e" "en_Value entry = e_value e"
    by (auto simp: Store_Get_def entryLocked_def exportEntry_def dest!: validateKey_Inr
        split: sum.splits option.splits prod.splits if_splits)
  then have "(EntryKey ns k, en_Value entry) \<in> exec_entries s"
    using assms(2) map_of_SomeD by (fastforce simp: exec_entries_def)
  then show thesis using g(2,3) that by blast
qed

definition supported :: "(bytes \<times> Verdict) set \<Rightarrow> bytes \<Rightarrow> Verdict \<Rightarrow> bool" where
  "supported C k v \<longleftrightarrow> vd_Errored v \<or> (k, v) \<in> C"

text \<open>
  A verdict is accounted for when it is an error, when a clean run for the same key blocked exactly
  so, or when it was read from an entry that another user of the store wrote under that key.
\<close>

definition planted :: "'w exec_env \<Rightarrow> (entryKey \<times> bytes) set \<Rightarrow> exec_request \<Rightarrow> Verdict \<Rightarrow> bool" where
  "planted env F q v \<longleftrightarrow>
     (\<exists>b cached. (EntryKey (rq_namespace q) (rq_key q), b) \<in> F \<and> xe_unmarshalVerdict env b = Inr cached
        \<and> cv_Block cached = vd_Block v)"

definition decided_by :: "'w exec_env \<Rightarrow> (bytes \<times> Verdict) set \<Rightarrow> (entryKey \<times> bytes) set \<Rightarrow> exec_request \<Rightarrow> Verdict \<Rightarrow> bool" where
  "decided_by env C F q v \<longleftrightarrow>
     vd_Errored v \<or> (\<exists>u. (rq_key q, u) \<in> C \<and> vd_Block u = vd_Block v) \<or> planted env F q v"

lemma supported_decided: "supported C (rq_key q) v \<Longrightarrow> decided_by env C F q v"
  by (auto simp: supported_def decided_by_def)

definition store_sound ::
  "'w exec_env \<Rightarrow> Store \<Rightarrow> (bytes \<times> Verdict) set \<Rightarrow> (entryKey \<times> bytes) set \<Rightarrow> bool" where
  "store_sound env st C F \<longleftrightarrow>
     (\<forall>(k, b) \<in> exec_entries st.
        (k, b) \<in> F \<or> (\<exists>u. (key k, u) \<in> C \<and> xe_marshalVerdict env (cached_of_verdict u) = Inr b))"

text \<open>What the encoding of a cached verdict has to keep: the decision, not the bytes of its texts.\<close>

definition keeps_decision :: "'w exec_env \<Rightarrow> bool" where
  "keeps_decision env \<longleftrightarrow>
     (\<forall>cached b. xe_marshalVerdict env cached = Inr b \<longrightarrow>
        (\<exists>back. xe_unmarshalVerdict env b = Inr back \<and> cv_Block back = cv_Block cached))"

definition owner_sound :: "(bytes \<times> Verdict) set \<Rightarrow> bytes \<Rightarrow> flight_owner \<Rightarrow> bool" where
  "owner_sound C k p = (case p of Settle v \<Rightarrow> supported C k v | Close v \<Rightarrow> supported C k v | _ \<Rightarrow> True)"

definition eval_sound ::
  "'w exec_env \<Rightarrow> (bytes \<times> Verdict) set \<Rightarrow> (entryKey \<times> bytes) set \<Rightarrow> exec_request \<Rightarrow> evaluation \<Rightarrow> bool" where
  "eval_sound env C F q e =
     (case e of Finishing v \<Rightarrow> decided_by env C F q v | Returned v \<Rightarrow> decided_by env C F q v | _ \<Rightarrow> True)"

definition verdicts_sound :: "'w exec_env \<Rightarrow> exec_request list \<Rightarrow> flight_state \<Rightarrow> bool" where
  "verdicts_sound env qs s \<longleftrightarrow>
     (\<forall>(k, v) \<in> fs_clean s. \<not> vd_Errored v)
     \<and> (\<forall>i < length qs. owner_sound (fs_clean s) (rq_key (qs ! i)) (fs_owner s i))
     \<and> (\<forall>i < length qs. \<forall>v. fs_done s i = Some v \<longrightarrow> supported (fs_clean s) (rq_key (qs ! i)) v)
     \<and> (\<forall>i < length qs. i \<notin> fs_panicked s \<longrightarrow>
          eval_sound env (fs_clean s) (fs_foreign s) (qs ! i) (fs_eval s i))"

lemma sound_mono:
  assumes "C \<subseteq> D"
  shows "supported C k v \<Longrightarrow> supported D k v" "owner_sound C k p \<Longrightarrow> owner_sound D k p"
    "store_sound env st C F \<Longrightarrow> store_sound env st D F"
  using assms by (auto simp: supported_def owner_sound_def store_sound_def split: flight_owner.splits) blast+

lemma eval_sound_mono:
  "C \<subseteq> D \<Longrightarrow> F \<subseteq> G \<Longrightarrow> eval_sound env C F q e \<Longrightarrow> eval_sound env D G q e"
  unfolding eval_sound_def decided_by_def planted_def by (cases e; simp; blast)

lemma sanitized_errored [simp]: "vd_Errored (sanitized q v) = vd_Errored v"
  and sanitized_block [simp]: "vd_Block (sanitized q v) = vd_Block v"
  by (simp_all add: sanitized_def sanitizeTemporalExecVerdict_def)

lemma errored_verdict_errored [simp]: "vd_Errored (errored_verdict c)"
  by (simp add: errored_verdict_def)

lemma store_sound_subset: "store_sound env s C F \<Longrightarrow> exec_entries t \<subseteq> exec_entries s \<Longrightarrow> store_sound env t C F"
  unfolding store_sound_def by blast

lemma note_clean_supports: "supported (fs_clean (note_clean q v s)) (rq_key q) v"
  by (simp add: supported_def note_clean_def)

lemma note_clean_subset: "fs_clean s \<subseteq> fs_clean (note_clean q v s)"
  by (auto simp: note_clean_def)

lemma flight_step_clean: "flight_step env qs s t \<Longrightarrow> fs_clean s \<subseteq> fs_clean t"
  by (erule flight_step.cases) (auto simp: flight_updates)

lemma flight_step_foreign [simp]: "flight_step env qs s t \<Longrightarrow> fs_foreign t = fs_foreign s"
  by (erule flight_step.cases) (auto simp: flight_updates)

lemma flight_step_store:
  assumes "flight_step env qs s t" "verdicts_sound env qs s" "store_sound env (fs_store s) (fs_clean s) (fs_foreign s)"
  shows "store_sound env (fs_store t) (fs_clean t) (fs_foreign t)"
  using assms(1)
proof cases
  case (settle i v u now)
  then have sup: "supported (fs_clean s) (rq_key (qs ! i)) v"
    using assms(2) by (auto simp: verdicts_sound_def owner_sound_def split: flight_owner.splits)
  show ?thesis
  proof (cases "vd_Errored v")
    case False
    then have "(rq_key (qs ! i), v) \<in> fs_clean s" using sup by (simp add: supported_def)
    then have "store_sound env u (fs_clean s) (fs_foreign s)"
      using assms(3) settle(4) False cacheStore_entries [of env "rq_namespace (qs ! i)" "rq_key (qs ! i)"
        "c_CacheTTLMs (rq_cond (qs ! i))" v now "fs_store s"]
      unfolding store_sound_def by fastforce
    then show ?thesis using settle(1) by (simp add: set_owner_def)
  qed (use settle assms(3) in \<open>simp add: set_owner_def\<close>)
next
  case (lead_returns i w v)
  then show ?thesis using assms(3) sound_mono(3) [OF flight_step_clean [OF assms(1)]]
    by (simp add: set_owner_def set_eval_def note_clean_def split: if_splits)
next
  case (background_ends i u w v)
  then show ?thesis using assms(3) sound_mono(3) [OF flight_step_clean [OF assms(1)]]
    by (simp add: set_owner_def set_eval_def note_clean_def split: if_splits)
qed (use assms(3) in \<open>auto simp: set_owner_def set_eval_def dest!: cacheLookup_entries intro: store_sound_subset\<close>)

lemma verdicts_sound_update:
  assumes "verdicts_sound env qs s" and sub: "fs_clean s \<subseteq> fs_clean t" and "\<forall>(k, v) \<in> fs_clean t. \<not> vd_Errored v"
    and "fs_panicked s \<subseteq> fs_panicked t" and foreign: "fs_foreign s \<subseteq> fs_foreign t"
    and own: "\<And>j. j < length qs \<Longrightarrow> fs_owner t j = fs_owner s j
               \<or> owner_sound (fs_clean t) (rq_key (qs ! j)) (fs_owner t j)"
    and clo: "\<And>j v. j < length qs \<Longrightarrow> fs_done t j = Some v \<Longrightarrow> fs_done s j = Some v
               \<or> supported (fs_clean t) (rq_key (qs ! j)) v"
    and ev: "\<And>j. j < length qs \<Longrightarrow> j \<notin> fs_panicked t \<Longrightarrow> fs_eval t j = fs_eval s j
               \<or> eval_sound env (fs_clean t) (fs_foreign t) (qs ! j) (fs_eval t j)"
  shows "verdicts_sound env qs t"
  unfolding verdicts_sound_def
proof (intro conjI allI impI)
  note mono = sound_mono [OF sub]
  fix i assume i: "i < length qs"
  show "owner_sound (fs_clean t) (rq_key (qs ! i)) (fs_owner t i)"
    using own [OF i] assms(1) i mono(2) by (metis verdicts_sound_def)
  show "supported (fs_clean t) (rq_key (qs ! i)) v" if "fs_done t i = Some v" for v
    using clo [OF i that] assms(1) i mono(1) by (metis verdicts_sound_def)
  show "eval_sound env (fs_clean t) (fs_foreign t) (qs ! i) (fs_eval t i)" if "i \<notin> fs_panicked t"
    using ev [OF i that] assms(1,4) i eval_sound_mono [OF sub foreign] that by (metis verdicts_sound_def in_mono)
qed (use assms(3) in auto)

lemma flight_step_clean_ok:
  "flight_step env qs s t \<Longrightarrow> verdicts_sound env qs s \<Longrightarrow> \<forall>(k, v) \<in> fs_clean t. \<not> vd_Errored v"
  by (erule flight_step.cases) (auto simp: flight_updates verdicts_sound_def)

lemma flight_step_panicked: "flight_step env qs s t \<Longrightarrow> fs_panicked s \<subseteq> fs_panicked t"
  by (erule flight_step.cases) (auto simp: flight_updates)

lemma hit_decided:
  assumes "cacheLookup env (rq_namespace q) (rq_key q) now st = (Some v, t)" "store_sound env st C F"
    and "rq_namespace q \<in> exec_namespaces" and "keeps_decision env"
  shows "decided_by env C F q (sanitized q v)"
proof -
  obtain b cached where b: "(EntryKey (rq_namespace q) (rq_key q), b) \<in> exec_entries st"
    "xe_unmarshalVerdict env b = Inr cached" "v = verdict_of_cached cached"
    using assms(1,3) by (rule cacheLookup_hit)
  then consider "(EntryKey (rq_namespace q) (rq_key q), b) \<in> F"
    | u where "(rq_key q, u) \<in> C" "xe_marshalVerdict env (cached_of_verdict u) = Inr b"
    using assms(2) by (force simp: store_sound_def)
  then show ?thesis
  proof cases
    case 1
    then have "planted env F q (sanitized q v)" using b by (auto simp: planted_def verdict_of_cached_def)
    then show ?thesis by (simp add: decided_by_def)
  next
    case 2
    then have "cv_Block cached = vd_Block u"
      using assms(4) b(2) by (fastforce simp: keeps_decision_def cached_of_verdict_def)
    then show ?thesis using 2(1) b(3) by (auto simp: decided_by_def verdict_of_cached_def)
  qed
qed

lemma flight_step_sound:
  assumes "flight_step env qs s t" and sound: "verdicts_sound env qs s" "store_sound env (fs_store s) (fs_clean s) (fs_foreign s)"
    and "flights_ok qs s" "\<forall>q \<in> set qs. rq_namespace q \<in> exec_namespaces"
    and codec: "keeps_decision env"
  shows "verdicts_sound env qs t"
proof (rule verdicts_sound_update [OF sound(1)])
  show "fs_clean s \<subseteq> fs_clean t" using assms(1) by (rule flight_step_clean)
  show "\<forall>(k, v) \<in> fs_clean t. \<not> vd_Errored v" using assms(1) sound(1) by (rule flight_step_clean_ok)
  show "fs_panicked s \<subseteq> fs_panicked t" using assms(1) by (rule flight_step_panicked)
  show "fs_foreign s \<subseteq> fs_foreign t" using assms(1) by simp
  show "fs_owner t j = fs_owner s j \<or> owner_sound (fs_clean t) (rq_key (qs ! j)) (fs_owner t j)"
    if "j < length qs" for j
    using assms(1) sound(1) that
    by cases (auto simp: flight_updates owner_sound_def supported_def verdicts_sound_def split: flight_owner.splits)
  show "fs_done s j = Some v \<or> supported (fs_clean t) (rq_key (qs ! j)) v"
    if "j < length qs" "fs_done t j = Some v" for j v
    using assms(1) sound(1) that
    by cases (auto simp: flight_updates owner_sound_def supported_def verdicts_sound_def split: flight_owner.splits if_splits)
  show "fs_eval t j = fs_eval s j \<or> eval_sound env (fs_clean t) (fs_foreign t) (qs ! j) (fs_eval t j)"
    if j: "j < length qs" "j \<notin> fs_panicked t" for j
    using assms(1)
  proof cases
    case (lookup_hit i now v u)
    then have "decided_by env (fs_clean s) (fs_foreign s) (qs ! i) (sanitized (qs ! i) v)"
      using hit_decided [OF _ sound(2) _ codec] assms(5) by simp
    then show ?thesis using lookup_hit by (simp add: set_eval_def eval_sound_def)
  next
    case (wait_done i k v)
    then have "k < length qs" "rq_key (qs ! k) = rq_key (qs ! i)" using flights_waits [OF assms(4)] by blast+
    then have "decided_by env (fs_clean s) (fs_foreign s) (qs ! i) v"
      using wait_done(4) sound(1) supported_decided by (metis verdicts_sound_def)
    then show ?thesis using wait_done by (simp add: set_eval_def eval_sound_def)
  next
    case (finish i u)
    then have "i \<notin> fs_panicked s \<Longrightarrow> decided_by env (fs_clean s) (fs_foreign s) (qs ! i) u"
      using sound(1) by (auto simp: verdicts_sound_def eval_sound_def split: evaluation.splits)
    then show ?thesis using finish j by (auto simp: set_eval_def eval_sound_def)
  next
    case (lead_returns i w v)
    then show ?thesis by (auto simp: flight_updates eval_sound_def decided_by_def)
  qed (use j in \<open>auto simp: flight_updates eval_sound_def decided_by_def\<close>)
qed

lemma cancel_step_sound: "cancel_step qs s t \<Longrightarrow> verdicts_sound env qs s \<Longrightarrow> verdicts_sound env qs t"
  by (erule cancel_step.cases)
     (rule verdicts_sound_update, auto simp: set_eval_def eval_sound_def decided_by_def verdicts_sound_def)

lemma foreign_step_sound:
  assumes "foreign_step s t" "verdicts_sound env qs s" "store_sound env (fs_store s) (fs_clean s) (fs_foreign s)"
    and "public_entries (fs_foreign s)"
  shows "verdicts_sound env qs t" "store_sound env (fs_store t) (fs_clean t) (fs_foreign t)"
    "public_entries (fs_foreign t)"
proof -
  obtain u F where t: "t = s\<lparr>fs_store := u, fs_foreign := fs_foreign s \<union> F\<rparr>" "public_entries F"
    "exec_entries u \<subseteq> exec_entries (fs_store s) \<union> F"
    using assms(1) by (blast elim: foreign_step.cases)
  show "verdicts_sound env qs t"
    by (rule verdicts_sound_update [OF assms(2)]) (use assms(2) t in \<open>auto simp: verdicts_sound_def\<close>)
  show "store_sound env (fs_store t) (fs_clean t) (fs_foreign t)"
    using assms(3) t by (fastforce simp: store_sound_def)
  show "public_entries (fs_foreign t)" using assms(4) t by (auto simp: public_entries_def)
qed

lemma runs_sound:
  assumes "runs env qs n s t" "verdicts_sound env qs s" "store_sound env (fs_store s) (fs_clean s) (fs_foreign s)"
    "public_entries (fs_foreign s)" "flights_ok qs s"
    and ns: "\<forall>q \<in> set qs. rq_namespace q \<in> exec_namespaces"
    and codec: "keeps_decision env"
  shows "verdicts_sound env qs t \<and> store_sound env (fs_store t) (fs_clean t) (fs_foreign t)
         \<and> public_entries (fs_foreign t)"
  using assms(1-5)
proof (induction rule: runs.induct)
  case (runs_flight n s t u)
  moreover have "flights_ok qs t" using runs_flight runs_ok by blast
  moreover have "fs_foreign u = fs_foreign t" using runs_flight.hyps(2) by simp
  ultimately show ?case using flight_step_sound [OF _ _ _ _ ns codec] flight_step_store by metis
next
  case (runs_cancel n s t u)
  moreover have "fs_store u = fs_store t" "fs_clean u = fs_clean t" "fs_foreign u = fs_foreign t"
    using runs_cancel.hyps(2) by (auto elim!: cancel_step.cases simp: set_eval_def)
  ultimately show ?case using cancel_step_sound by metis
next
  case (runs_foreign n s t u)
  then show ?case using foreign_step_sound [OF runs_foreign.hyps(2)] by blast
qed simp

text \<open>C15. Where the verdicts of cached validators come from, when no verdict is cached at the start.
  Evaluations, detached runs, cancellations and other users of the store interleave freely, and
  the other users may drop any cached verdict and may write any entry into a namespace that is not
  reserved, as the public \<^verbatim>\<open>KVSet\<close> lets them.  Then in every reachable state
  every cached value either was written by such a user, under a public namespace, or encodes a
  verdict that a run for the same cache key gave without error: an error is never cached.  And an
  evaluation whose own code did not panic returns an error verdict, or blocks exactly as some
  error-free run for its key did, or blocks exactly as an entry says that another user wrote under
  its own key; the last is impossible where the condition's namespace is the reserved one.  Of the
  encoding of a cached verdict only this is used: what can be encoded can be decoded, to the same
  decision (the message may change, as it does where it is not valid UTF-8).\<close>

theorem shared_verdicts_sound:
  assumes "runs env qs n (flights_init st) s" and "exec_entries st = {}"
    and "\<forall>q \<in> set qs. rq_namespace q \<in> exec_namespaces"
    and "\<And>cached b. xe_marshalVerdict env cached = Inr b \<Longrightarrow>
           \<exists>back. xe_unmarshalVerdict env b = Inr back \<and> cv_Block back = cv_Block cached"
    and "i < length qs" and "fs_eval s i = Returned v" and "i \<notin> fs_panicked s"
  shows "(\<forall>(k, b) \<in> exec_entries (fs_store s).
            (k, b) \<in> fs_foreign s \<and> \<not> IsInternalNamespace (namespace k)
            \<or> (\<exists>u. (key k, u) \<in> fs_clean s \<and> \<not> vd_Errored u \<and> xe_marshalVerdict env (cached_of_verdict u) = Inr b))
         \<and> (vd_Errored v
            \<or> (\<exists>u. (rq_key (qs ! i), u) \<in> fs_clean s \<and> \<not> vd_Errored u \<and> vd_Block u = vd_Block v)
            \<or> \<not> IsInternalNamespace (rq_namespace (qs ! i))
              \<and> (\<exists>b cached. (EntryKey (rq_namespace (qs ! i)) (rq_key (qs ! i)), b) \<in> fs_foreign s
                   \<and> xe_unmarshalVerdict env b = Inr cached \<and> cv_Block cached = vd_Block v))"
proof -
  have "verdicts_sound env qs (flights_init st)"
    by (simp add: verdicts_sound_def flights_init_def owner_sound_def eval_sound_def)
  moreover have "store_sound env (fs_store (flights_init st)) (fs_clean (flights_init st)) (fs_foreign (flights_init st))"
    using assms(2) by (simp add: store_sound_def flights_init_def)
  moreover have "keeps_decision env" using assms(4) by (simp add: keeps_decision_def)
  moreover have "public_entries (fs_foreign (flights_init st))" by (simp add: public_entries_def flights_init_def)
  ultimately have sound: "verdicts_sound env qs s" and store: "store_sound env (fs_store s) (fs_clean s) (fs_foreign s)"
    and public: "\<And>k b. (k, b) \<in> fs_foreign s \<Longrightarrow> \<not> IsInternalNamespace (namespace k)"
    using runs_sound [OF assms(1) _ _ _ flights_ok_init assms(3)] by (auto simp: public_entries_def)
  then have clean: "\<And>k u. (k, u) \<in> fs_clean s \<Longrightarrow> \<not> vd_Errored u"
    and "eval_sound env (fs_clean s) (fs_foreign s) (qs ! i) (fs_eval s i)"
    using assms(5,7) by (auto simp: verdicts_sound_def)
  then have "decided_by env (fs_clean s) (fs_foreign s) (qs ! i) v" using assms(6) by (simp add: eval_sound_def)
  then show ?thesis using store clean public unfolding store_sound_def decided_by_def planted_def by fastforce
qed

section \<open>Completion\<close>

text \<open>C16. Evaluations of cached validators never wait for each other forever: from a runtime without
  flights every interleaving takes at most nine steps per evaluation, whatever the validators
  answer, time out or crash, contexts end and other users do to the store; and when no step is
  left, every evaluation has returned a verdict and no flight is registered.\<close>

theorem singleflight_completes:
  assumes "runs env qs n (flights_init st) s"
  shows "n \<le> 9 * length qs
         \<and> ((\<nexists>t. flight_step env qs s t) \<longrightarrow>
              (\<forall>i < length qs. \<exists>v. fs_eval s i = Returned v) \<and> fs_inflight s = Map.empty)"
  using runs_work [OF assms flights_ok_init] stuck_is_done [OF runs_ok [OF assms flights_ok_init], of env]
  by (simp add: work_left_init)

section \<open>A panic of the leading evaluation\<close>

text \<open>Two evaluations of one request: the first leads, the second joins, the first one's code panics.\<close>

lemma panic_run:
  assumes "cacheLookup env (rq_namespace q) (rq_key q) now st = (None, st)"
  obtains s where "runs env [q, q] 10 (flights_init st) s" "fs_eval s 0 = Returned zero_verdict"
    "fs_eval s 1 = Returned (errored_verdict (rq_cond q))" "fs_store s = st" "fs_panicked s = {0}"
proof -
  let ?k = "rq_key q" and ?err = "errored_verdict (rq_cond q)"
  define s0 where "s0 = flights_init st"
  define s1 where "s1 = set_eval 0 Enter s0"
  define s2 where "s2 = set_eval 1 Enter s1"
  define s3 where "s3 = set_owner 0 Run (set_eval 0 Lead (s2\<lparr>fs_inflight := (fs_inflight s2)(?k \<mapsto> 0)\<rparr>))"
  define s4 where "s4 = set_eval 1 (Wait 0) s3"
  define s5 where "s5 = set_owner 0 (Settle ?err) (set_eval 0 (Finishing zero_verdict)
                          (s4\<lparr>fs_panicked := insert 0 (fs_panicked s4)\<rparr>))"
  define s6 where "s6 = set_owner 0 (Close ?err) s5"
  define s7 where "s7 = set_owner 0 Remove (s6\<lparr>fs_done := (fs_done s6)(0 := Some ?err)\<rparr>)"
  define s8 where "s8 = set_owner 0 Finished (s7\<lparr>fs_inflight := (fs_inflight s7)(?k := None)\<rparr>)"
  define s9 where "s9 = set_eval 1 (Returned ?err) s8"
  define s10 where "s10 = set_eval 0 (Returned zero_verdict) s9"
  note defs = s0_def s1_def s2_def s3_def s4_def s5_def s6_def s7_def s8_def s9_def s10_def
    set_eval_def set_owner_def flights_init_def
  have "flight_step env [q, q] s0 (set_eval 0 Enter (s0\<lparr>fs_store := st\<rparr>))"
    by (rule lookup_miss) (use assms in \<open>simp_all add: defs\<close>)
  then have t1: "flight_step env [q, q] s0 s1" by (simp add: defs)
  have "flight_step env [q, q] s1 (set_eval 1 Enter (s1\<lparr>fs_store := st\<rparr>))"
    by (rule lookup_miss) (use assms in \<open>simp_all add: defs\<close>)
  then have t2: "flight_step env [q, q] s1 s2" by (simp add: defs)
  have t3: "flight_step env [q, q] s2 s3"
    using enter_lead [of 0 "[q, q]" s2 env] unfolding s3_def by (simp add: defs)
  have t4: "flight_step env [q, q] s3 s4"
    unfolding s4_def by (rule enter_join) (simp_all add: defs)
  have t5: "flight_step env [q, q] s4 s5"
    using lead_panics [of 0 "[q, q]" s4 env] unfolding s5_def by (simp add: defs)
  have "flight_step env [q, q] s5 (set_owner 0 (Close ?err) (s5\<lparr>fs_store := fs_store s5\<rparr>))"
    by (rule settle) (simp_all add: defs)
  then have t6: "flight_step env [q, q] s5 s6" by (simp add: s6_def)
  have t7: "flight_step env [q, q] s6 s7"
    unfolding s7_def by (rule close) (simp_all add: defs)
  have t8: "flight_step env [q, q] s7 s8"
    using remove [of 0 "[q, q]" s7 env] unfolding s8_def by (simp add: defs)
  have t9: "flight_step env [q, q] s8 s9"
    unfolding s9_def by (rule wait_done [of _ _ _ 0]) (simp_all add: defs)
  have t10: "flight_step env [q, q] s9 s10"
    unfolding s10_def by (rule finish) (simp_all add: defs)
  note runs_refl [of env "[q, q]" s0]
  from runs_flight [OF this t1] runs_flight [OF _ t2] have "runs env [q, q] (Suc (Suc 0)) s0 s2" by blast
  from runs_flight [OF runs_flight [OF this t3] t4] have "runs env [q, q] (Suc (Suc (Suc (Suc 0)))) s0 s4" .
  from runs_flight [OF runs_flight [OF runs_flight [OF this t5] t6] t7]
  have "runs env [q, q] (Suc (Suc (Suc (Suc (Suc (Suc (Suc 0))))))) s0 s7" .
  from runs_flight [OF runs_flight [OF runs_flight [OF this t8] t9] t10]
  have "runs env [q, q] 10 (flights_init st) s10" by (simp add: s0_def eval_nat_numeral)
  then show thesis by (rule that) (simp_all add: defs)
qed

text \<open>C17. A validator condition that fails closed can allow: when the code of the evaluation that leads a
  flight panics (for instance while the input is built), the deferred function hands the error
  verdict to the evaluations that wait, which block, but the leading evaluation itself returns the
  zero verdict, which neither blocks nor counts as an error.\<close>

theorem panicking_leader_fails_open:
  assumes "cacheLookup env (rq_namespace q) (rq_key q) now st = (None, st)" "c_OnError (rq_cond q) = OnErrorClosed"
  shows "\<exists>s lead follow. runs env [q, q] 10 (flights_init st) s
           \<and> fs_eval s 0 = Returned lead \<and> \<not> vd_Block lead \<and> \<not> vd_Errored lead
           \<and> fs_eval s 1 = Returned follow \<and> vd_Block follow \<and> vd_Errored follow"
proof -
  obtain s where s: "runs env [q, q] 10 (flights_init st) s" "fs_eval s 0 = Returned zero_verdict"
    "fs_eval s 1 = Returned (errored_verdict (rq_cond q))"
    using panic_run [OF assms(1)] by blast
  have "\<not> vd_Block zero_verdict \<and> \<not> vd_Errored zero_verdict" by (simp add: zero_verdict_def)
  moreover have "vd_Block (errored_verdict (rq_cond q)) \<and> vd_Errored (errored_verdict (rq_cond q))"
    using assms(2) by (simp add: errored_verdict_def)
  ultimately show ?thesis using s by blast
qed

section \<open>A verdict written by another user of the store\<close>






section \<open>A concrete environment\<close>

text \<open>A verdict codec: the block flag, the message with a mark before each byte, an end mark, the output.\<close>

fun marked :: "bytes \<Rightarrow> bytes" where
  "marked [] = [CHR 0x00]"
| "marked (c # cs) = CHR 0x01 # c # marked cs"

fun unmarked :: "bytes \<Rightarrow> (bytes \<times> bytes) option" where
  "unmarked (m # cs) =
     (if m = CHR 0x00 then Some ([], cs)
      else (case cs of [] \<Rightarrow> None
            | c # ds \<Rightarrow> map_option (\<lambda>(message, output). (c # message, output)) (unmarked ds)))"
| "unmarked [] = None"

lemma unmarked_marked [simp]: "unmarked (marked message @ output) = Some (message, output)"
  by (induction message) auto

definition demo_encode :: "cachedExecVerdict \<Rightarrow> bytes go_result" where
  "demo_encode cached = Inr ((if cv_Block cached then CHR 0x01 else CHR 0x00) # marked (cv_Message cached) @ cv_Output cached)"

definition demo_decode :: "bytes \<Rightarrow> cachedExecVerdict go_result" where
  "demo_decode b =
     (case b of
        [] \<Rightarrow> Inl ''empty''
      | flag # rest \<Rightarrow>
          (case unmarked rest of
             None \<Rightarrow> Inl ''truncated''
           | Some (message, output) \<Rightarrow>
               Inr \<lparr>cv_Block = (flag = CHR 0x01), cv_Message = message, cv_Output = output\<rparr>))"

lemma demo_codec: "demo_encode cached = Inr b \<Longrightarrow> demo_decode b = Inr cached"
  by (cases cached) (auto simp: demo_encode_def demo_decode_def split: if_splits)

definition demo_shell_env :: shell_env where
  "demo_shell_env = \<lparr>sa_UserHomeDir = None, sa_EffectiveCwdAt = (\<lambda>c d h. d), sa_Unresolvable = [CHR 0x00],
     sa_ExtractCodeSearchTargets = (\<lambda>a b c d e. []), sa_ExtractReadTargets = (\<lambda>a b c. []),
     sa_ExtractWriteTargets = (\<lambda>a b c. []), sa_DoubleHyphenProse = (\<lambda>a b c. []),
     sa_CredentialReadTargets = (\<lambda>_. []), sa_DefaultRedirectionPolicy = None\<rparr>"

definition demo_json_env :: json_env where
  "demo_json_env = \<lparr>js_object = (\<lambda>_. None), js_bool = (\<lambda>_. None), js_string = (\<lambda>_. None),
     js_number = (\<lambda>_. None), js_int_float = (\<lambda>_. FNaN)\<rparr>"

definition demo_exec_env :: "unit exec_env" where
  "demo_exec_env = \<lparr>xe_shell = demo_shell_env, xe_now = (\<lambda>_. 0), xe_EvalSymlinks = (\<lambda>_ p. Some p),
     xe_sha256 = (\<lambda>b. take 32 (b @ replicate 32 (CHR 0x00))), xe_quote = (\<lambda>b. b), xe_formatFloat = (\<lambda>_. []),
     xe_marshalInput = (\<lambda>_. Inr []), xe_marshalVerdict = demo_encode, xe_unmarshalVerdict = demo_decode,
     xe_responseTarget = (\<lambda>_. []),
     xe_run = \<lparr>rn_Run = (\<lambda>c i e w. (Inr (0, []), w)), rn_ctxErr = (\<lambda>_. False), rn_json = demo_json_env\<rparr>\<rparr>"

definition demo_request :: exec_request where
  "demo_request =
     \<lparr>rq_rule = zero_Rule,
      rq_cond = zero_Condition\<lparr>c_Kind := ConditionKindExec, c_Command := [''check''], c_CacheTTLMs := 1000,
                                c_OnError := OnErrorClosed\<rparr>,
      rq_namespace = execValidatorCacheNamespace, rq_key = ''k''\<rparr>"

definition demo_store :: Store where
  "demo_store = rt_cache NewExecRuntime"

lemma demo_miss:
  "cacheLookup demo_exec_env (rq_namespace demo_request) (rq_key demo_request) 1 demo_store = (None, demo_store)"
  by code_simp

lemma demo_closed: "c_OnError (rq_cond demo_request) = OnErrorClosed"
  by (simp add: demo_request_def)

theorem panicking_leader_fails_open_witness:
  "\<exists>s lead follow. runs demo_exec_env [demo_request, demo_request] 10 (flights_init demo_store) s
     \<and> fs_eval s 0 = Returned lead \<and> \<not> vd_Block lead \<and> \<not> vd_Errored lead
     \<and> fs_eval s 1 = Returned follow \<and> vd_Block follow \<and> vd_Errored follow"
  by (rule panicking_leader_fails_open [OF demo_miss demo_closed])

theorem shared_verdicts_sound_witness:
  "\<exists>s v. runs demo_exec_env [demo_request, demo_request] 10 (flights_init demo_store) s
     \<and> fs_eval s 1 = Returned v
     \<and> (vd_Errored v \<or> (\<exists>u. (rq_key demo_request, u) \<in> fs_clean s \<and> vd_Block u = vd_Block v))"
proof -
  obtain s where s: "runs demo_exec_env [demo_request, demo_request] 10 (flights_init demo_store) s"
    "fs_eval s 1 = Returned (errored_verdict (rq_cond demo_request))" "fs_panicked s = {0}"
    using panic_run [OF demo_miss] by blast
  have "exec_entries demo_store = {}"
    by (simp add: exec_entries_def demo_store_def NewExecRuntime_def NewExecRuntimeWithCache_def New_def Let_def)
  moreover have "\<forall>q \<in> set [demo_request, demo_request]. rq_namespace q \<in> exec_namespaces"
    by (simp add: demo_request_def exec_namespaces_def)
  moreover have "xe_marshalVerdict demo_exec_env cached = Inr b \<Longrightarrow>
      \<exists>back. xe_unmarshalVerdict demo_exec_env b = Inr back \<and> cv_Block back = cv_Block cached"
    for cached b using demo_codec by (simp add: demo_exec_env_def)
  ultimately show ?thesis using shared_verdicts_sound [OF s(1) _ _ _ _ s(2)] s by auto
qed


theorem singleflight_completes_witness:
  "\<exists>s. runs demo_exec_env [demo_request, demo_request] 10 (flights_init demo_store) s \<and> 10 \<le> 9 * length [demo_request, demo_request]"
proof -
  obtain s where s: "runs demo_exec_env [demo_request, demo_request] 10 (flights_init demo_store) s"
    using panic_run [OF demo_miss] by blast
  then show ?thesis using singleflight_completes [OF s] by blast
qed

section \<open>Observations of different conversations\<close>

lemma be_bytes_inj: "m < 256 ^ k \<Longrightarrow> n < 256 ^ k \<Longrightarrow> be_bytes k m = be_bytes k n \<Longrightarrow> m = n"
proof (induction k arbitrary: m n)
  case (Suc k)
  have "(char_of m :: char) = char_of n" using Suc.prems(3) by simp
  then have "m mod 256 = n mod 256" by (metis of_char_of)
  moreover have "m div 256 = n div 256"
    using Suc.prems by (intro Suc.IH) (simp_all add: less_mult_imp_div_less mult.commute)
  ultimately show ?case by (metis div_mult_mod_eq)
qed simp

lemma be_uint64_inj: "m < 2 ^ 64 \<Longrightarrow> n < 2 ^ 64 \<Longrightarrow> be_uint64 m = be_uint64 n \<Longrightarrow> m = n"
  unfolding be_uint64_def by (rule be_bytes_inj [of _ 8]) simp_all

lemma length_be_uint64 [simp]: "length (be_uint64 n) = 8"
proof -
  have "length (be_bytes k n) = k" for k by (induction k arbitrary: n) auto
  then show ?thesis by (simp add: be_uint64_def)
qed

text \<open>The parts of a key can be read back from what is hashed.\<close>

lemma length_prefixed_inj:
  assumes "\<forall>p \<in> set ps. length p < 2 ^ 64" "\<forall>p \<in> set qs. length p < 2 ^ 64"
    and "length_prefixed ps = length_prefixed qs"
  shows "ps = qs"
  using assms
proof (induction ps arbitrary: qs)
  case Nil
  then show ?case by (cases qs) (auto simp: length_prefixed_def dest: arg_cong [where f = length])
next
  case (Cons p ps)
  then obtain q rest where qs: "qs = q # rest"
    by (cases qs) (auto simp: length_prefixed_def dest: arg_cong [where f = length])
  have eq: "be_uint64 (length p) @ p @ length_prefixed ps = be_uint64 (length q) @ q @ length_prefixed rest"
    using Cons.prems(3) qs by (simp add: length_prefixed_def)
  then have "be_uint64 (length p) = be_uint64 (length q)" "p @ length_prefixed ps = q @ length_prefixed rest"
    by simp_all
  moreover have "length p = length q"
    using be_uint64_inj calculation(1) Cons.prems(1,2) qs by simp
  ultimately show ?case using Cons qs by simp
qed

lemma hex_digit_inj: "i < 16 \<Longrightarrow> j < 16 \<Longrightarrow> hex_digits ! i = hex_digits ! j \<Longrightarrow> i = j"
proof -
  have "distinct hex_digits" "length hex_digits = 16" by (simp_all add: hex_digits_def)
  then show "i < 16 \<Longrightarrow> j < 16 \<Longrightarrow> hex_digits ! i = hex_digits ! j \<Longrightarrow> i = j"
    by (simp add: nth_eq_iff_index_eq)
qed

lemma hex_encode_inj: "hex_encode a = hex_encode b \<Longrightarrow> a = b"
proof (induction a arbitrary: b)
  case Nil
  then show ?case by (cases b) (auto simp: hex_encode_def)
next
  case (Cons c cs)
  then obtain d ds where b: "b = d # ds" by (cases b) (auto simp: hex_encode_def)
  have bound: "(of_char x :: nat) < 256" for x by simp
  then have "of_char c div 16 = (of_char d div 16 :: nat)" "of_char c mod 16 = (of_char d mod 16 :: nat)"
    using Cons.prems b by (auto simp: hex_encode_def less_mult_imp_div_less intro: hex_digit_inj)
  then have "(of_char c :: nat) = of_char d" by (metis div_mult_mod_eq)
  then have "c = d" by (simp only: of_char_eq_iff)
  then show ?case using Cons b by (simp add: hex_encode_def)
qed

lemma length_hex_encode [simp]: "length (hex_encode b) = 2 * length b"
  by (induction b) (simp_all add: hex_encode_def)

definition conversation_of :: "FieldSet \<Rightarrow> bytes" where
  "conversation_of f = (if f_ConversationID f = [] then f_SessionID f else f_ConversationID f)"

text \<open>What is hashed for the prompt of a conversation.\<close>

definition prompt_preimages :: "'w exec_env \<Rightarrow> bytes \<Rightarrow> FieldSet \<Rightarrow> bytes set" where
  "prompt_preimages env system f =
     {length_prefixed [system, conversation_of f],
      length_prefixed [''prompt'', temporalKey (xe_sha256 env) [system, conversation_of f]]}"

lemma temporalKey_inj:
  assumes "inj_on sha256 {length_prefixed ps, length_prefixed qs}" "temporalKey sha256 ps = temporalKey sha256 qs"
    and "\<forall>p \<in> set ps. length p < 2 ^ 64" "\<forall>p \<in> set qs. length p < 2 ^ 64"
  shows "ps = qs"
  using assms hex_encode_inj length_prefixed_inj unfolding temporalKey_def inj_on_def by blast

definition prompt_key :: "'w exec_env \<Rightarrow> bytes \<Rightarrow> FieldSet \<Rightarrow> bytes" where
  "prompt_key env system f =
     temporalKey (xe_sha256 env) [''prompt'', temporalKey (xe_sha256 env) [system, conversation_of f]]"

lemma prompt_key_inj:
  assumes "inj_on (xe_sha256 env) (prompt_preimages env system f \<union> prompt_preimages env system' f')"
    and "\<And>b. length (xe_sha256 env b) = 32" and "prompt_key env system f = prompt_key env system' f'"
    and "length system < 2 ^ 64" "length system' < 2 ^ 64"
    and "length (conversation_of f) < 2 ^ 64" "length (conversation_of f') < 2 ^ 64"
  shows "system = system' \<and> conversation_of f = conversation_of f'"
proof -
  let ?id = "temporalKey (xe_sha256 env) [system, conversation_of f]"
  let ?id' = "temporalKey (xe_sha256 env) [system', conversation_of f']"
  have len: "length ?id < 2 ^ 64" "length ?id' < 2 ^ 64" using assms(2) by (simp_all add: temporalKey_def)
  have inj: "inj_on (xe_sha256 env) {length_prefixed [''prompt'', ?id], length_prefixed [''prompt'', ?id']}"
    "inj_on (xe_sha256 env) {length_prefixed [system, conversation_of f], length_prefixed [system', conversation_of f']}"
    by (rule inj_on_subset [OF assms(1)], simp add: prompt_preimages_def)+
  have "[''prompt'', ?id] = [''prompt'', ?id']"
    using assms(3) len by (intro temporalKey_inj [OF inj(1)]) (simp_all add: prompt_key_def)
  then have "[system, conversation_of f] = [system', conversation_of f']"
    using assms(4-7) by (intro temporalKey_inj [OF inj(2)]) simp_all
  then show ?thesis by simp
qed

lemma lastUserMessage_eq:
  assumes "\<And>b. length (xe_sha256 env b) = 32"
  shows "fst (lastUserMessage env w system f r) =
    (if system = [] \<or> conversation_of f = [] then ([], False)
     else case fst (Observation execTemporalNamespace (prompt_key env system f) (xe_now env w) (rt_cache r)) of
            Inr (Some v) \<Rightarrow> (v, True) | _ \<Rightarrow> ([], False))"
proof -
  have "temporalKey (xe_sha256 env) ps \<noteq> []" for ps
    using assms [of "length_prefixed ps"] length_hex_encode
    by (metis temporalKey_def list.size(3) mult_eq_0_iff zero_neq_numeral)
  then show ?thesis
    by (auto simp: lastUserMessage_def temporalConversationIdentity_def conversation_of_def prompt_key_def Let_def
        on_cache_def temporal_load_def split: prod.splits sum.splits option.splits)
qed

lemma ObserveUserPromptOrdered_True:
  assumes "ObserveUserPromptOrdered env w system f ord v r = (True, r')"
  shows "system \<noteq> [] \<and> conversation_of f \<noteq> []
         \<and> Observe execTemporalNamespace (prompt_key env system f) ord v (xe_now env w) (rt_cache r) = (Inr True, rt_cache r')"
  using assms
  by (auto simp: ObserveUserPromptOrdered_def temporalConversationIdentity_def conversation_of_def prompt_key_def Let_def
      on_cache_def temporal_store_def split: prod.splits sum.splits if_splits)

text \<open>C18. A recorded prompt is what validators of the same conversation read, verbatim when it fits the
  limits of the cache, and it never becomes the prompt of another system or conversation: their
  recorded prompt stays or is no longer available.  SHA-256 gives 32 bytes and does not collide on
  the four inputs that are hashed.\<close>

theorem prompts_stay_in_their_conversation:
  assumes "ObserveUserPromptOrdered env w system f ord v r = (True, r')"
    and "\<And>b. length (xe_sha256 env b) = 32"
    and "int (length v) \<le> MaxValueBytes (options (rt_cache r))"
    and "98 + int (length v) \<le> MaxBytes (options (rt_cache r))"
    and "inj_on (xe_sha256 env) (prompt_preimages env system f \<union> prompt_preimages env system' f')"
    and "(system, conversation_of f) \<noteq> (system', conversation_of f')"
    and "length system < 2 ^ 64" "length system' < 2 ^ 64"
    and "length (conversation_of f) < 2 ^ 64" "length (conversation_of f') < 2 ^ 64"
  shows "fst (lastUserMessage env w system f r') = (v, True)
         \<and> fst (lastUserMessage env w system' f' r') \<in> {fst (lastUserMessage env w system' f' r), ([], False)}"
proof -
  note obs = ObserveUserPromptOrdered_True [OF assms(1)]
  let ?ns = execTemporalNamespace and ?s = "rt_cache r" and ?t = "rt_cache r'" and ?now = "xe_now env w"
  have len: "length (prompt_key env x g) = 64" for x g using assms(2) by (simp add: prompt_key_def temporalKey_def)
  have ns: "length ?ns = 34" by (simp add: execTemporalNamespace_def InternalNamespacePrefix_def)
  have "fst (Observation ?ns (prompt_key env system f) ?now ?t) = Inr (Some v)"
    using Observe_readback [of ?ns _ ord v ?now ?s ?t] obs assms(3,4) len ns by simp
  then have own: "fst (lastUserMessage env w system f r') = (v, True)"
    using obs by (simp add: lastUserMessage_eq [OF assms(2)])
  have "prompt_key env system f \<noteq> prompt_key env system' f'"
    using prompt_key_inj [OF assms(5,2) _ assms(7-10)] assms(6) by blast
  then have "peek ?t ?now (EntryKey ?ns (prompt_key env system' f')) \<in>
      {None, peek ?s ?now (EntryKey ?ns (prompt_key env system' f'))}"
    using Observe_keeps_other [of ?ns "prompt_key env system f" ord v ?now ?s ?t] obs by auto
  then have "fst (Observation ?ns (prompt_key env system' f') ?now ?t) \<in>
      {fst (Observation ?ns (prompt_key env system' f') ?now ?s), Inr None}"
  proof (cases "validateKey ?ns (prompt_key env system' f')")
    case (Inr sk)
    then have "sk = EntryKey ?ns (prompt_key env system' f')" using validateKey_Inr by blast
    then show ?thesis
      using \<open>peek ?t ?now _ \<in> _\<close> Observation_peek [OF Inr] by auto
  qed (simp add: Observation_def)
  then show ?thesis using own by (auto simp: lastUserMessage_eq [OF assms(2)])
qed

definition demo_prompt_env :: "unit exec_env" where
  "demo_prompt_env = demo_exec_env\<lparr>xe_sha256 :=
     (\<lambda>b. replicate 31 (CHR 0x00) @ [last b])\<rparr>"

lemma demo_key:
  assumes "p \<noteq> []"
  shows "temporalKey (xe_sha256 demo_prompt_env) [x, p]
    = replicate 62 (CHR ''0'') @ [hex_digits ! (of_char (last p) div 16), hex_digits ! (of_char (last p) mod 16)]"
proof -
  have zeros: "hex_encode (replicate n (CHR 0x00)) = replicate (2 * n) (CHR ''0'')" for n
    by (induction n) (simp_all add: hex_encode_def hex_digits_def)
  have "hex_encode (a @ b) = hex_encode a @ hex_encode b" for a b by (simp add: hex_encode_def)
  then show ?thesis
    using assms zeros [of 31]
    by (simp add: temporalKey_def demo_prompt_env_def length_prefixed_def) (simp add: hex_encode_def)
qed

lemma demo_prompt_keys:
  "prompt_key demo_prompt_env ''claude'' (zero_FieldSet\<lparr>f_SessionID := ''a''\<rparr>) = replicate 62 (CHR ''0'') @ ''31''"
  "prompt_key demo_prompt_env ''claude'' (zero_FieldSet\<lparr>f_SessionID := ''b''\<rparr>) = replicate 62 (CHR ''0'') @ ''32''"
  by (simp_all add: prompt_key_def demo_key conversation_of_def zero_FieldSet_def hex_digits_def)

lemma demo_observe:
  "fst (Observe execTemporalNamespace (replicate 62 (CHR ''0'') @ ''31'') (ObservationOrder 1 1) ''hello'' 0
          (rt_cache NewExecRuntime)) = Inr True"
  by code_simp

theorem prompts_stay_in_their_conversation_witness:
  "fst (lastUserMessage demo_prompt_env () ''claude'' (zero_FieldSet\<lparr>f_SessionID := ''a''\<rparr>)
       (snd (ObserveUserPromptOrdered demo_prompt_env () ''claude'' (zero_FieldSet\<lparr>f_SessionID := ''a''\<rparr>)
               (ObservationOrder 1 1) ''hello'' NewExecRuntime))) = (''hello'', True)"
proof -
  let ?f = "zero_FieldSet\<lparr>f_SessionID := ''a''\<rparr>" and ?g = "zero_FieldSet\<lparr>f_SessionID := ''b''\<rparr>"
  let ?o = "ObserveUserPromptOrdered demo_prompt_env () ''claude'' ?f (ObservationOrder 1 1) ''hello'' NewExecRuntime"
  let ?sha = "xe_sha256 demo_prompt_env"
  have conv: "conversation_of ?f = ''a''" "conversation_of ?g = ''b''"
    by (simp_all add: conversation_of_def zero_FieldSet_def)
  have none: "f_ConversationID zero_FieldSet = []" by (simp add: zero_FieldSet_def)
  have now: "xe_now demo_prompt_env () = 0" by (simp add: demo_prompt_env_def demo_exec_env_def)
  have "?o = on_cache (temporal_store (prompt_key demo_prompt_env ''claude'' ?f) (ObservationOrder 1 1) ''hello'' 0) NewExecRuntime"
    by (simp add: ObserveUserPromptOrdered_def temporalConversationIdentity_def demo_key prompt_key_def conv now
        none Let_def)
  then have "fst ?o = True"
    using demo_observe unfolding demo_prompt_keys
    by (auto simp: on_cache_def temporal_store_def split: prod.splits sum.splits)
  then have ok: "?o = (True, snd ?o)" by (metis prod.collapse)
  have len: "length (?sha b) = 32" for b by (simp add: demo_prompt_env_def)
  have opts: "MaxValueBytes (options (rt_cache NewExecRuntime)) = 1048576"
    "MaxBytes (options (rt_cache NewExecRuntime)) = 67108864" by code_simp+
  have sha: "?sha (length_prefixed [x, p]) = replicate 31 (CHR 0x00) @ [last p]" if "p \<noteq> []" for x p
    using that by (simp add: demo_prompt_env_def length_prefixed_def)
  have pre: "prompt_preimages demo_prompt_env ''claude'' ?f \<union> prompt_preimages demo_prompt_env ''claude'' ?g
    = set [length_prefixed [''claude'', ''a''], length_prefixed [''prompt'', replicate 62 (CHR ''0'') @ ''61''],
           length_prefixed [''claude'', ''b''], length_prefixed [''prompt'', replicate 62 (CHR ''0'') @ ''62'']]"
    by (simp add: prompt_preimages_def conv demo_key hex_digits_def insert_commute)
  have inj: "inj_on ?sha (prompt_preimages demo_prompt_env ''claude'' ?f \<union> prompt_preimages demo_prompt_env ''claude'' ?g)"
    unfolding pre by (auto simp: sha)
  show ?thesis
    using prompts_stay_in_their_conversation [OF ok len _ _ inj] by (simp add: opts conv)
qed

end
