(* ===== verification/Engine.thy ===== *)
theory Engine
  imports ShellConcerns EvalMatrix ExecConcern
begin

text \<open>
  The rule engine (\<^verbatim>\<open>internal/rules/engine.go\<close>, \<^verbatim>\<open>response_effect.go\<close>,
  \<^verbatim>\<open>pipeline/orchestrator.go\<close>): which rules apply, the evaluation units built from them, the gate
  of a rule, the match budget, the aggregation into violations and the response effects.

  A rule pointer is the index of the rule in the slice, a condition pointer the pair of rule and
  condition index.  What a condition may consult outside the process (validators, inference, git,
  the cancellation of the context) is a parameter that works on a world state; the conditions on
  shell reads and writes are those of theory ShellConcerns.  The trace of skipped inference layers is left out.
\<close>

record Violation =
  vi_RuleName :: bytes
  vi_Message :: bytes
  vi_AuditOnly :: bool
  vi_Redact :: bool
  vi_DiagnosticFormat :: bytes
  vi_FieldPath :: bytes
  vi_FilePath :: bytes
  vi_Value :: bytes
  vi_Start :: nat
  vi_End :: nat

record ResponseEffect =
  re_RuleName :: bytes
  re_Action :: bytes
  re_Output :: bytes
  re_Disposition :: bytes

text \<open>The rules that are judged together in one call per inference point.\<close>

record batchParticipant =
  bp_ruleName :: bytes
  bp_intent :: bytes
  bp_description :: bytes
  bp_judgeContext :: "bytes list"

type_synonym batchGroups = "(InferencePoint \<times> batchParticipant list) list"

record 'w gate_env =
  ge_shell :: shell_env
  ge_command :: command_env
  ge_ctxErr :: "'w \<Rightarrow> bool"
  ge_git :: "FieldSet \<Rightarrow> Condition \<Rightarrow> bytes list \<Rightarrow> 'w \<Rightarrow> bool \<times> 'w"
  ge_validate :: "FieldSet \<Rightarrow> Rule \<Rightarrow> nat \<Rightarrow> Condition \<Rightarrow> 'w \<Rightarrow> Verdict \<times> 'w"
  ge_infer :: "FieldSet \<Rightarrow> Rule \<Rightarrow> nat \<Rightarrow> Condition \<Rightarrow> 'w \<Rightarrow> bool \<times> 'w"
  ge_inferWorld :: "'w \<Rightarrow> infer_world"
  ge_inferDone :: "Rule \<Rightarrow> 'w \<Rightarrow> 'w"
  ge_batch :: "FieldSet \<Rightarrow> batchGroups \<Rightarrow> 'w \<Rightarrow> 'w"
  ge_globMatch :: "bytes \<Rightarrow> bytes \<Rightarrow> bool option"
  ge_probe :: file_probe

record 'w engine_state =
  es_world :: 'w
  es_memo :: execEventMemo
  es_budgets :: "nat \<Rightarrow> int"

section \<open>Which rules apply\<close>

definition ruleSystemClaude :: bytes where "ruleSystemClaude = ''claude''"
definition ruleSystemCodex :: bytes where "ruleSystemCodex = ''codex''"
definition ruleSystemCopilot :: bytes where "ruleSystemCopilot = ''copilot''"
definition ruleSystemCursor :: bytes where "ruleSystemCursor = ''cursor''"
definition ruleSystemGemini :: bytes where "ruleSystemGemini = ''gemini''"

definition systemSpecificEvents :: "Rule \<Rightarrow> bytes \<Rightarrow> bytes list" where
  "systemSpecificEvents rule system =
     (if system = ruleSystemClaude then r_ClaudeEvents rule
      else if system = ruleSystemCursor then r_CursorEvents rule
      else if system = ruleSystemCodex then r_CodexEvents rule
      else if system = ruleSystemCopilot then r_CopilotEvents rule
      else if system = ruleSystemGemini then r_GeminiEvents rule
      else [])"

definition appliesToEvent :: "Rule \<Rightarrow> bytes \<Rightarrow> bytes \<Rightarrow> bool" where
  "appliesToEvent rule system eventName =
     (if ProviderDisabled rule system then False
      else if r_AllEvents rule then True
      else eventName \<in> set (r_Events rule) \<or> eventName \<in> set (systemSpecificEvents rule system))"

definition CheckedRuleNames :: "bytes \<Rightarrow> bytes \<Rightarrow> Rule list \<Rightarrow> bytes list" where
  "CheckedRuleNames system eventName rules =
     map r_Name (filter (\<lambda>r. appliesToEvent r system eventName) rules)"

text \<open>A nil \<^verbatim>\<open>getenv\<close> is \<^term>\<open>None\<close>.\<close>

definition envGuardFires :: "(bytes \<Rightarrow> bytes) option \<Rightarrow> bytes list \<Rightarrow> bool" where
  "envGuardFires getenv keys =
     (case getenv of None \<Rightarrow> False | Some g \<Rightarrow> list_ex (\<lambda>k. g k \<noteq> []) keys)"

definition conditionKind :: "Condition \<Rightarrow> bytes" where
  "conditionKind c = (if c_Kind c = [] then ConditionKindRegex else c_Kind c)"

definition isMatchingConditionKind :: "Condition \<Rightarrow> bool" where
  "isMatchingConditionKind c \<longleftrightarrow>
     conditionKind c \<in> {ConditionKindRegex, ConditionKindDiff, ConditionKindShellRead, ConditionKindShellWrite}"

section \<open>Evaluation units\<close>

datatype unit_condition = ruleRegexCondition nat int | evalMatrixCondition nat

definition condition_units :: "nat \<Rightarrow> Condition list \<Rightarrow> unit_condition list" where
  "condition_units i conditions =
     map (\<lambda>j. ruleRegexCondition i (int j))
       (filter (\<lambda>j. isMatchingConditionKind (conditions ! j)
                    \<and> \<not> (conditionKind (conditions ! j) = ConditionKindRegex \<and> c_compiled (conditions ! j) = None))
          [0..<length conditions])"

definition rule_units :: "bytes \<Rightarrow> bytes \<Rightarrow> (bytes \<Rightarrow> bytes) option \<Rightarrow> nat \<Rightarrow> Rule \<Rightarrow> unit_condition list" where
  "rule_units system eventName getenv i rule =
     (if \<not> appliesToEvent rule system eventName then []
      else if envGuardFires getenv (r_DisableIfEnv rule) then []
      else if r_Eval rule \<noteq> [] then [evalMatrixCondition i]
      else if r_Conditions rule = [] then
        (if IsResponseAction rule \<and> r_Pattern rule = [] \<and> r_NotPattern rule = []
         then [ruleRegexCondition i (-3)] else [ruleRegexCondition i (-1)])
      else let us = condition_units i (r_Conditions rule) in
           if us = [] then [ruleRegexCondition i (-2)] else us)"

definition buildRuleRegexConditions ::
  "Rule list \<Rightarrow> bytes \<Rightarrow> bytes \<Rightarrow> (bytes \<Rightarrow> bytes) option \<Rightarrow> unit_condition list" where
  "buildRuleRegexConditions rules system eventName getenv =
     concat (map (\<lambda>i. rule_units system eventName getenv i (rules ! i)) [0..<length rules])"

section \<open>The match budget\<close>

definition maxInt32 :: int where "maxInt32 = 2147483647"

definition newRuleMatchBudget :: "int \<Rightarrow> int" where
  "newRuleMatchBudget limit = (if limit \<le> 0 then 0 else if limit > maxInt32 then maxInt32 else limit)"

definition Remaining :: "int \<Rightarrow> int" where
  "Remaining b = (if b < 0 then 0 else b)"

definition Consume :: "int \<Rightarrow> int \<Rightarrow> int" where
  "Consume b count =
     (if count \<le> 0 then b
      else if b \<le> 0 then b
      else if count > maxInt32 then 0
      else max (b - count) 0)"

definition consume_budget :: "nat \<Rightarrow> int \<Rightarrow> 'w engine_state \<Rightarrow> 'w engine_state" where
  "consume_budget i count st = st\<lparr>es_budgets := (es_budgets st)(i := Consume (es_budgets st i) count)\<rparr>"

section \<open>Violations\<close>

definition match_violation :: "Rule \<Rightarrow> MatchResult \<Rightarrow> Violation" where
  "match_violation rule m =
     \<lparr>vi_RuleName = r_Name rule, vi_Message = r_ViolationMessage rule, vi_AuditOnly = r_AuditOnly rule,
      vi_Redact = r_RedactDiagnostics rule, vi_DiagnosticFormat = r_DiagnosticFormat rule,
      vi_FieldPath = mr_FieldPath m, vi_FilePath = mr_FilePath m, vi_Value = mr_Value m,
      vi_Start = mr_Start m, vi_End = mr_End m\<rparr>"

definition matchesToViolations :: "MatchResult list \<Rightarrow> Rule \<Rightarrow> Violation list" where
  "matchesToViolations matches rule = map (match_violation rule) matches"

fun first_condition_value :: "shell_env \<Rightarrow> FieldSet \<Rightarrow> Condition list \<Rightarrow> (bytes \<times> bytes) option" where
  "first_condition_value senv f [] = None"
| "first_condition_value senv f (c # cs) =
     (let (path, extracted) = FirstStringForCondition senv f (c_selectors c) (Some c) in
      if extracted \<noteq> [] then Some (path, extracted) else first_condition_value senv f cs)"

definition conditionFallbackViolation :: "shell_env \<Rightarrow> FieldSet \<Rightarrow> Rule \<Rightarrow> Violation" where
  "conditionFallbackViolation senv f rule =
     (let (fieldPath, val) = (case first_condition_value senv f (r_Conditions rule) of
                                Some pv \<Rightarrow> pv | None \<Rightarrow> (''payload'', r_Name rule)) in
      match_violation rule \<lparr>mr_FieldPath = fieldPath, mr_FilePath = FilePathValue f, mr_Value = val,
                            mr_Start = 0, mr_End = min (length val) 1\<rparr>)"

definition plain_accessor :: "shell_env \<Rightarrow> FieldSet \<Rightarrow> FieldAccessor" where
  "plain_accessor senv f = \<lparr>fa_String = FieldSet_String senv f, fa_FilePathValue = FilePathValue f\<rparr>"

definition conditionFieldAccessor :: "shell_env \<Rightarrow> FieldSet \<Rightarrow> Condition \<Rightarrow> FieldAccessor" where
  "conditionFieldAccessor senv f c =
     \<lparr>fa_String = (\<lambda>s. StringForCondition senv f s (Some c)), fa_FilePathValue = FilePathValue f\<rparr>"

definition simpleRuleNotPatternMatches :: "shell_env \<Rightarrow> FieldSet \<Rightarrow> Rule \<Rightarrow> bool" where
  "simpleRuleNotPatternMatches senv f rule =
     (case r_compiledNot rule of
        None \<Rightarrow> False
      | Some re \<Rightarrow> list_ex (\<lambda>s. let v = FieldSet_String senv f (spec_Selector s) in
                              v \<noteq> [] \<and> MatchString (Some re) v) (r_selectors rule))"

definition evalSimpleRule :: "shell_env \<Rightarrow> FieldSet \<Rightarrow> Rule \<Rightarrow> int \<Rightarrow> Violation list" where
  "evalSimpleRule senv f rule limit =
     (if simpleRuleNotPatternMatches senv f rule then []
      else matchesToViolations
             (EvalFieldMatches (plain_accessor senv f) (r_selectors rule) (r_compiled rule)
                (r_DiagnosticGroup rule) limit) rule)"

definition safeDiagnosticGroup :: "int \<Rightarrow> nat option" where
  "safeDiagnosticGroup g = (if g < 0 \<or> g > 1073741824 then None else Some (nat g))"

definition default_pair :: FieldPairSpec where
  "default_pair = \<lparr>fp_OldPath = ''tool_input.old_string'', fp_NewPath = ''tool_input.new_string'',
     fp_OldField = FieldToolInputOldString, fp_NewField = FieldToolInputNewString\<rparr>"

definition batch_pair :: FieldPairSpec where
  "batch_pair = \<lparr>fp_OldPath = ''edits[*].old_string'', fp_NewPath = ''edits[*].new_string'',
     fp_OldField = FieldEditsOldString, fp_NewField = FieldEditsNewString\<rparr>"

fun diff_loop ::
  "FieldAccessor \<Rightarrow> Regexp option \<Rightarrow> nat \<Rightarrow> int \<Rightarrow> FieldPairSpec list \<Rightarrow> MatchResult list \<Rightarrow> MatchResult list" where
  "diff_loop fa re g limit [] matches = matches"
| "diff_loop fa re g limit (pair # pairs) matches =
     (if limit - int (length matches) = 0 then matches
      else let m1 = matches @ EvalDiffMatches fa pair re g (limit - int (length matches)) in
           if m1 = [] \<and> fp_NewField pair = FieldToolInputNewString
           then diff_loop fa re g limit pairs (m1 @ EvalDiffMatches fa batch_pair re g (limit - int (length m1)))
           else diff_loop fa re g limit pairs m1)"

definition evalDiffCondition :: "shell_env \<Rightarrow> FieldSet \<Rightarrow> Condition \<Rightarrow> Rule \<Rightarrow> int \<Rightarrow> Violation list" where
  "evalDiffCondition senv f c rule limit =
     (if limit \<le> 0 then []
      else let pairs = (if c_fieldPairs c = [] then [default_pair] else c_fieldPairs c) in
           if c_compiled c = None then []
           else case safeDiagnosticGroup (c_DiagnosticGroup c) of
                  None \<Rightarrow> []
                | Some g \<Rightarrow> matchesToViolations
                              (diff_loop (plain_accessor senv f) (c_compiled c) g limit pairs []) rule)"

fun command_selector :: "FieldSelectorSpec list \<Rightarrow> FieldSelector" where
  "command_selector [] = FieldToolInputCommand"
| "command_selector (s # ss) =
     (if spec_Selector s \<noteq> FieldSelectorInvalid then spec_Selector s else command_selector ss)"

definition shell_writes :: "'w gate_env \<Rightarrow> FieldSet \<Rightarrow> Condition \<Rightarrow> MatchResult list" where
  "shell_writes env f c =
     EvalShellWriteMatchesWithSpecs (ge_shell env) (ge_globMatch env) f (command_selector (c_selectors c)) (c_Globs c)
       (c_WriteSpecs c)
       (c_MatchUnresolved c = None \<or> c_MatchUnresolved c = Some True)"

definition evalShellWriteCondition :: "'w gate_env \<Rightarrow> FieldSet \<Rightarrow> Condition \<Rightarrow> Rule \<Rightarrow> Violation list" where
  "evalShellWriteCondition env f c rule = matchesToViolations (shell_writes env f c) rule"

definition evalShellReadCondition :: "'w gate_env \<Rightarrow> FieldSet \<Rightarrow> Condition \<Rightarrow> Rule \<Rightarrow> int \<Rightarrow> Violation list" where
  "evalShellReadCondition env f c rule limit =
     (if limit \<le> 0 then []
      else matchesToViolations
             (take (nat limit)
                (EvalShellReadSecretMatches (ge_shell env) (ge_probe env) f (command_selector (c_selectors c))
                   (c_compiled c) (c_compiledPath c) (c_MaxBytes c) (c_RemotePolicy c) (c_ReadSpecs c))) rule)"

section \<open>The gate of a rule\<close>

text \<open>The rule that the code passes when only the number of matches counts.\<close>

definition blank_rule :: Rule where
  "blank_rule = zero_Rule\<lparr>r_Action := ActionBlock, r_DiagnosticFormat := DiagnosticFormatDetailed\<rparr>"

definition diffConditionGateMatch :: "shell_env \<Rightarrow> FieldSet \<Rightarrow> Condition \<Rightarrow> bool" where
  "diffConditionGateMatch senv f c =
     (if safeDiagnosticGroup (c_DiagnosticGroup c) = None then False
      else length (evalDiffCondition senv f c blank_rule 1) > 0)"

definition shellWriteConditionGateMatch :: "'w gate_env \<Rightarrow> FieldSet \<Rightarrow> Condition \<Rightarrow> bool" where
  "shellWriteConditionGateMatch env f c = (length (shell_writes env f c) > 0)"

definition shellReadConditionGateMatch :: "'w gate_env \<Rightarrow> FieldSet \<Rightarrow> Condition \<Rightarrow> bool" where
  "shellReadConditionGateMatch env f c = (length (evalShellReadCondition env f c blank_rule 1) > 0)"

text \<open>The validator of a condition runs at most once per event.\<close>

definition execConditionGateMatch ::
  "'w gate_env \<Rightarrow> FieldSet \<Rightarrow> nat \<Rightarrow> Rule \<Rightarrow> nat \<Rightarrow> Condition \<Rightarrow> 'w engine_state \<Rightarrow> bool \<times> 'w engine_state" where
  "execConditionGateMatch env f i rule j c st =
     (case me_verdicts (es_memo st) (i, j) of
        Some v \<Rightarrow> (vd_Block v, st)
      | None \<Rightarrow>
          (let (v, w) = ge_validate env f rule j c (es_world st) in
           (vd_Block v, st\<lparr>es_world := w, es_memo := memo_record (es_memo st) (i, j) (r_Name rule) v\<rparr>)))"

definition on_world :: "('w \<Rightarrow> bool \<times> 'w) \<Rightarrow> 'w engine_state \<Rightarrow> bool \<times> 'w engine_state" where
  "on_world g st = (let (b, w) = g (es_world st) in (b, st\<lparr>es_world := w\<rparr>))"

definition conditionGateMatches ::
  "'w gate_env \<Rightarrow> FieldSet \<Rightarrow> nat \<Rightarrow> Rule \<Rightarrow> nat \<Rightarrow> Condition \<Rightarrow> bytes list \<Rightarrow> 'w engine_state \<Rightarrow>
   bool \<times> 'w engine_state" where
  "conditionGateMatches env f i rule j c cwds st =
     (let k = conditionKind c in
      if k = ConditionKindRegex then (ConditionMatch (conditionFieldAccessor (ge_shell env) f c) c, st)
      else if k = ConditionKindCommand then (True, st)
      else if k = ConditionKindProject
      then (projectConditionMatch (ge_shell env) (ce_pathExists (ge_command env)) f c cwds = Some True, st)
      else if k = ConditionKindDiff then (diffConditionGateMatch (ge_shell env) f c, st)
      else if k = ConditionKindShellWrite then (shellWriteConditionGateMatch env f c, st)
      else if k = ConditionKindShellRead then (shellReadConditionGateMatch env f c, st)
      else if k \<in> {ConditionKindGitDefaultBranch, ConditionKindGitPrimaryCheckout, ConditionKindGitRefMove}
      then on_world (ge_git env f c cwds) st
      else if k = ConditionKindExec then execConditionGateMatch env f i rule j c st
      else if k = ConditionKindInfer then on_world (ge_infer env f rule j c) st
      else (False, st))"

fun collectCommandConditionContext ::
  "command_env \<Rightarrow> FieldSet \<Rightarrow> Condition list \<Rightarrow> bytes list \<Rightarrow> bytes list option" where
  "collectCommandConditionContext cenv f [] cwds = Some cwds"
| "collectCommandConditionContext cenv f (c # cs) cwds =
     (if conditionKind c \<noteq> ConditionKindCommand then collectCommandConditionContext cenv f cs cwds
      else case commandConditionCwds cenv f c of
             None \<Rightarrow> None
           | Some found \<Rightarrow> collectCommandConditionContext cenv f cs (cwds @ found))"

fun gate_loop ::
  "'w gate_env \<Rightarrow> FieldSet \<Rightarrow> nat \<Rightarrow> Rule \<Rightarrow> bytes list \<Rightarrow> nat \<Rightarrow> Condition list \<Rightarrow> 'w engine_state \<Rightarrow>
   bool \<times> 'w engine_state" where
  "gate_loop env f i rule cwds j [] st = (True, st)"
| "gate_loop env f i rule cwds j (c # cs) st =
     (if ge_ctxErr env (es_world st) then (False, st)
      else let (ok, st1) = conditionGateMatches env f i rule j c cwds st in
           if \<not> ok then (False, st1) else gate_loop env f i rule cwds (j + 1) cs st1)"

definition allConditionsMatch ::
  "'w gate_env \<Rightarrow> FieldSet \<Rightarrow> nat \<Rightarrow> Rule \<Rightarrow> Condition list \<Rightarrow> 'w engine_state \<Rightarrow> bool \<times> 'w engine_state" where
  "allConditionsMatch env f i rule conditions st =
     (case collectCommandConditionContext (ge_command env) f conditions [] of
        None \<Rightarrow> (False, st)
      | Some cwds \<Rightarrow> gate_loop env f i rule cwds 0 conditions st)"

section \<open>Groups for batch inference\<close>

text \<open>
  Equality of Go structs: a NaN threshold differs from itself, so such a point never finds its group
  again.  The groups are a map and its order of insertion; participants are told apart by rule name.
\<close>

definition point_eq :: "InferencePoint \<Rightarrow> InferencePoint \<Rightarrow> bool" where
  "point_eq p q \<longleftrightarrow> p = q \<and> ip_ConfidenceThreshold p \<noteq> FNaN"

definition batch_participant :: "Rule \<Rightarrow> batchParticipant" where
  "batch_participant rule =
     \<lparr>bp_ruleName = r_Name rule, bp_intent = r_Intent rule, bp_description = r_Description rule,
      bp_judgeContext = r_JudgeContext rule\<rparr>"

fun join_group :: "InferencePoint \<Rightarrow> batchParticipant \<Rightarrow> batchGroups \<Rightarrow> batchGroups" where
  "join_group point part [] = [(point, [part])]"
| "join_group point part ((q, ps) # gs) =
     (if point_eq point q
      then (q, if bp_ruleName part \<in> bp_ruleName ` set ps then ps else ps @ [part]) # gs
      else (q, ps) # join_group point part gs)"

fun join_evals :: "Rule \<Rightarrow> RuleEval list \<Rightarrow> batchGroups \<Rightarrow> batchGroups" where
  "join_evals rule [] gs = gs"
| "join_evals rule (e # es) gs =
     (if ev_Kind e \<noteq> EvalKindInfer \<or> ev_Fanout e \<noteq> FanoutBatch then join_evals rule es gs
      else case evalInference_lookup rule (ev_Use e) of
        None \<Rightarrow> join_evals rule es gs
      | Some point \<Rightarrow> join_evals rule es (join_group point (batch_participant rule) gs))"

fun collectBatchGroups ::
  "'w gate_env \<Rightarrow> FieldSet \<Rightarrow> bytes \<Rightarrow> bytes \<Rightarrow> (bytes \<Rightarrow> bytes) option \<Rightarrow> nat \<Rightarrow> Rule list \<Rightarrow>
   batchGroups \<Rightarrow> 'w engine_state \<Rightarrow> batchGroups \<times> 'w engine_state" where
  "collectBatchGroups env f system eventName getenv i [] gs st = (gs, st)"
| "collectBatchGroups env f system eventName getenv i (rule # rules) gs st =
     (if \<not> appliesToEvent rule system eventName \<or> envGuardFires getenv (r_DisableIfEnv rule)
      then collectBatchGroups env f system eventName getenv (i + 1) rules gs st
      else let (ok, st1) = allConditionsMatch env f i rule (r_Conditions rule) st in
           collectBatchGroups env f system eventName getenv (i + 1) rules
             (if ok then join_evals rule (r_Eval rule) gs else gs) st1)"

text \<open>The calls themselves are the parameter \<open>ge_batch\<close>; without a group there is none.\<close>

definition runBatchInference ::
  "'w gate_env \<Rightarrow> FieldSet \<Rightarrow> Rule list \<Rightarrow> bytes \<Rightarrow> bytes \<Rightarrow> (bytes \<Rightarrow> bytes) option \<Rightarrow>
   'w engine_state \<Rightarrow> 'w engine_state" where
  "runBatchInference env f rules system eventName getenv st =
     (let (groups, st1) = collectBatchGroups env f system eventName getenv 0 rules [] st in
      if groups = [] then st1 else st1\<lparr>es_world := ge_batch env f groups (es_world st1)\<rparr>)"

section \<open>Executing a unit\<close>

record ruleOutcome =
  ro_violations :: "Violation list"
  ro_rule :: "nat option"
  ro_isConditionBased :: bool
  ro_gateMatched :: bool

definition matchedRuleOutcome :: "nat \<Rightarrow> Violation list \<Rightarrow> ruleOutcome" where
  "matchedRuleOutcome i violations =
     \<lparr>ro_violations = violations, ro_rule = Some i, ro_isConditionBased = True, ro_gateMatched = True\<rparr>"

definition unmatchedRuleOutcome :: "nat \<Rightarrow> ruleOutcome" where
  "unmatchedRuleOutcome i =
     \<lparr>ro_violations = [], ro_rule = Some i, ro_isConditionBased = True, ro_gateMatched = False\<rparr>"

text \<open>The matches of one matching condition within a limit, and what is taken off the budget.\<close>

definition condition_matches ::
  "'w gate_env \<Rightarrow> FieldSet \<Rightarrow> Condition \<Rightarrow> Rule \<Rightarrow> int \<Rightarrow> Violation list \<times> nat" where
  "condition_matches env f c rule limit =
     (let k = conditionKind c in
      if k = ConditionKindRegex then
        (let vs = matchesToViolations
                    (EvalFieldMatches (conditionFieldAccessor (ge_shell env) f c) (c_selectors c)
                       (c_compiled c) (c_DiagnosticGroup c) limit) rule in (vs, length vs))
      else if k = ConditionKindDiff then
        (let vs = evalDiffCondition (ge_shell env) f c rule limit in (vs, length vs))
      else if k = ConditionKindShellWrite then (evalShellWriteCondition env f c rule, 0)
      else if k = ConditionKindShellRead then
        (let vs = evalShellReadCondition env f c rule limit in (vs, length vs))
      else ([], 0))"

definition execute_condition ::
  "'w gate_env \<Rightarrow> FieldSet \<Rightarrow> nat \<Rightarrow> Rule \<Rightarrow> nat \<Rightarrow> 'w engine_state \<Rightarrow> ruleOutcome \<times> 'w engine_state" where
  "execute_condition env f i rule j st =
     (let (ok, st1) = allConditionsMatch env f i rule (r_Conditions rule) st in
      if \<not> ok then (unmatchedRuleOutcome i, st1)
      else let matchLimit = Remaining (es_budgets st1 i) in
           if matchLimit = 0 then (matchedRuleOutcome i [], st1)
           else let (vs, used) = condition_matches env f (r_Conditions rule ! j) rule matchLimit in
                (matchedRuleOutcome i vs, consume_budget i (int used) st1))"

definition simpleOutcome ::
  "'w gate_env \<Rightarrow> FieldSet \<Rightarrow> nat \<Rightarrow> Rule \<Rightarrow> int \<Rightarrow> 'w engine_state \<Rightarrow> (ruleOutcome \<times> 'w engine_state) option" where
  "simpleOutcome env f i rule condIdx st =
     (if condIdx = -1 then
        Some (\<lparr>ro_violations = evalSimpleRule (ge_shell env) f rule (Remaining (es_budgets st i)),
               ro_rule = None, ro_isConditionBased = False, ro_gateMatched = False\<rparr>, st)
      else if condIdx = -3 then
        Some (\<lparr>ro_violations = [conditionFallbackViolation (ge_shell env) f rule],
               ro_rule = Some i, ro_isConditionBased = False, ro_gateMatched = True\<rparr>, st)
      else if condIdx = -2 then
        (let (ok, st1) = allConditionsMatch env f i rule (r_Conditions rule) st in
         Some (if \<not> ok then unmatchedRuleOutcome i
               else matchedRuleOutcome i [conditionFallbackViolation (ge_shell env) f rule], st1))
      else None)"

definition execute_matrix ::
  "'w gate_env \<Rightarrow> FieldSet \<Rightarrow> nat \<Rightarrow> Rule \<Rightarrow> 'w engine_state \<Rightarrow> ruleOutcome \<times> 'w engine_state" where
  "execute_matrix env f i rule st =
     (let (ok, st1) = allConditionsMatch env f i rule (r_Conditions rule) st;
          block = matrix_decision (ge_inferWorld env (es_world st1)) rule (CommandValue f) (infer_indices rule) ok;
          st2 = (if ok then st1\<lparr>es_world := ge_inferDone env rule (es_world st1)\<rparr> else st1) in
      (if \<not> block then unmatchedRuleOutcome i
       else matchedRuleOutcome i [conditionFallbackViolation (ge_shell env) f rule], st2))"

fun Execute ::
  "'w gate_env \<Rightarrow> FieldSet \<Rightarrow> Rule list \<Rightarrow> unit_condition \<Rightarrow> 'w engine_state \<Rightarrow> ruleOutcome \<times> 'w engine_state" where
  "Execute env f rules (evalMatrixCondition i) st = execute_matrix env f i (rules ! i) st"
| "Execute env f rules (ruleRegexCondition i condIdx) st =
     (case simpleOutcome env f i (rules ! i) condIdx st of
        Some r \<Rightarrow> r
      | None \<Rightarrow> execute_condition env f i (rules ! i) (nat condIdx) st)"

text \<open>\<^verbatim>\<open>Orchestrator.Run\<close>: one result per condition, in order; names and timings are left out.\<close>

fun orchestrator_Run ::
  "'w gate_env \<Rightarrow> FieldSet \<Rightarrow> Rule list \<Rightarrow> unit_condition list \<Rightarrow> 'w engine_state \<Rightarrow> ruleOutcome list \<times> 'w engine_state" where
  "orchestrator_Run env f rules [] st = ([], st)"
| "orchestrator_Run env f rules (u # us) st =
     (let (r, st1) = Execute env f rules u st; (rs, st2) = orchestrator_Run env f rules us st1 in (r # rs, st2))"

section \<open>Aggregation\<close>

text \<open>Per rule, in the order of first appearance: the gate and the number of matches.\<close>

type_synonym rule_states = "(nat \<times> bool \<times> nat) list"

definition note_outcome :: "ruleOutcome \<Rightarrow> rule_states \<Rightarrow> rule_states" where
  "note_outcome out rs =
     (case ro_rule out of
        None \<Rightarrow> rs
      | Some i \<Rightarrow>
          if \<not> ro_isConditionBased out then rs
          else let (gate, n) = (case map_of rs i of Some gn \<Rightarrow> gn | None \<Rightarrow> (False, 0)) in
               AList.update i
                 (if ro_gateMatched out then (True, n + length (ro_violations out)) else (gate, n)) rs)"

definition applyExecMessageOverrides :: "execEventMemo \<Rightarrow> Violation list \<Rightarrow> Violation list" where
  "applyExecMessageOverrides memo violations =
     map (\<lambda>v. case me_overrides memo (vi_RuleName v) of
                Some msg \<Rightarrow> if msg \<noteq> [] then v\<lparr>vi_Message := msg\<rparr> else v
              | None \<Rightarrow> v) violations"

definition fallbacks :: "shell_env \<Rightarrow> FieldSet \<Rightarrow> Rule list \<Rightarrow> rule_states \<Rightarrow> Violation list" where
  "fallbacks senv f rules rs =
     map (\<lambda>(i, g, n). conditionFallbackViolation senv f (rules ! i)) (filter (\<lambda>(i, gate, n). gate \<and> n = 0) rs)"

definition aggregateResults ::
  "shell_env \<Rightarrow> FieldSet \<Rightarrow> Rule list \<Rightarrow> ruleOutcome list \<Rightarrow> execEventMemo \<Rightarrow> Violation list" where
  "aggregateResults senv f rules results memo =
     applyExecMessageOverrides memo
       (concat (map ro_violations results) @ fallbacks senv f rules (fold note_outcome results []))"

section \<open>Response effects\<close>

definition ResponseEffectApplied :: bytes where "ResponseEffectApplied = ''applied''"
definition ResponseEffectEmptyNoOp :: bytes where "ResponseEffectEmptyNoOp = ''empty_noop''"
definition ResponseEffectErroredNoOp :: bytes where "ResponseEffectErroredNoOp = ''errored_noop''"

definition response_effect :: "execEventMemo \<Rightarrow> Rule \<Rightarrow> ResponseEffect" where
  "response_effect memo rule =
     (let errored = me_errors memo (r_Name rule);
          output = (if errored then []
                    else case me_outputs memo (r_Name rule) of Some dynamic \<Rightarrow> dynamic | None \<Rightarrow> OutputText rule);
          disposition = (if errored then ResponseEffectErroredNoOp
                         else if output = [] then ResponseEffectEmptyNoOp else ResponseEffectApplied) in
      \<lparr>re_RuleName = r_Name rule, re_Action = r_Action rule, re_Output = output, re_Disposition = disposition\<rparr>)"

definition responseEffectsFromMatches ::
  "Violation list \<Rightarrow> Rule list \<Rightarrow> execEventMemo \<Rightarrow> Violation list \<times> ResponseEffect list" where
  "responseEffectsFromMatches violations rules memo =
     (filter (\<lambda>v. \<not> list_ex (\<lambda>r. r_Name r = vi_RuleName v \<and> IsResponseAction r) rules) violations,
      map (response_effect memo)
        (filter (\<lambda>r. r_Name r \<in> vi_RuleName ` set violations \<and> IsResponseAction r) rules))"

section \<open>The evaluation of an event\<close>

record evaluationResult =
  er_violations :: "Violation list"
  er_effects :: "ResponseEffect list"
  er_partialRules :: "bytes \<Rightarrow> bool"

definition initial_state :: "bytes \<Rightarrow> bytes \<Rightarrow> 'w \<Rightarrow> 'w engine_state" where
  "initial_state system eventName w =
     \<lparr>es_world = w, es_memo = newExecEventMemo system eventName,
      es_budgets = (\<lambda>i. newRuleMatchBudget MaxCollectedMatchesPerEvaluation)\<rparr>"

definition evaluateAll ::
  "'w gate_env \<Rightarrow> bytes \<Rightarrow> bytes \<Rightarrow> FieldSet \<Rightarrow> Rule list \<Rightarrow> (bytes \<Rightarrow> bytes) option \<Rightarrow> 'w \<Rightarrow>
   evaluationResult \<times> 'w" where
  "evaluateAll env system eventName f rules getenv w =
     (let conditions = buildRuleRegexConditions rules system eventName getenv in
      if conditions = [] then (\<lparr>er_violations = [], er_effects = [], er_partialRules = (\<lambda>_. False)\<rparr>, w)
      else let st0 = runBatchInference env f rules system eventName getenv (initial_state system eventName w);
               (results, st) = orchestrator_Run env f rules conditions st0;
               violations = aggregateResults (ge_shell env) f rules results (es_memo st);
               (filtered, effects) = responseEffectsFromMatches violations rules (es_memo st) in
           (\<lparr>er_violations = filtered, er_effects = effects, er_partialRules = me_partial (es_memo st)\<rparr>,
            es_world st))"

end
