(* ===== verification/EngineProps.thy ===== *)
theory EngineProps
  imports Engine
begin

text \<open>
  What the rule engine guarantees: when a rule fires, how many matches it reports, what becomes of
  response rules, and what the memo of an event promises.
\<close>

section \<open>Conditions without effects\<close>

definition static_kind :: "Condition \<Rightarrow> bool" where
  "static_kind c \<longleftrightarrow>
     conditionKind c \<in> {ConditionKindRegex, ConditionKindCommand, ConditionKindProject, ConditionKindDiff,
                        ConditionKindShellWrite, ConditionKindShellRead}"

lemmas kind_defs = ConditionKindRegex_def ConditionKindCommand_def ConditionKindProject_def
  ConditionKindDiff_def ConditionKindShellWrite_def ConditionKindShellRead_def
  ConditionKindGitDefaultBranch_def ConditionKindGitPrimaryCheckout_def ConditionKindGitRefMove_def
  ConditionKindExec_def ConditionKindInfer_def

text \<open>When one condition matches, given the directories that the command conditions found.\<close>

definition condition_holds :: "'w gate_env \<Rightarrow> FieldSet \<Rightarrow> bytes list \<Rightarrow> Condition \<Rightarrow> bool" where
  "condition_holds env f cwds c =
     (let k = conditionKind c in
      if k = ConditionKindRegex then ConditionMatch (conditionFieldAccessor (ge_shell env) f c) c
      else if k = ConditionKindCommand then commandConditionCwds (ge_command env) f c \<noteq> None
      else if k = ConditionKindProject
      then projectConditionMatch (ge_shell env) (ce_pathExists (ge_command env)) f c cwds = Some True
      else if k = ConditionKindDiff then diffConditionGateMatch (ge_shell env) f c
      else if k = ConditionKindShellWrite then shellWriteConditionGateMatch env f c
      else if k = ConditionKindShellRead then shellReadConditionGateMatch env f c
      else False)"

definition command_dirs :: "'w gate_env \<Rightarrow> FieldSet \<Rightarrow> Condition list \<Rightarrow> bytes list" where
  "command_dirs env f conditions =
     concat (map (\<lambda>c. case commandConditionCwds (ge_command env) f c of Some ds \<Rightarrow> ds | None \<Rightarrow> [])
               (filter (\<lambda>c. conditionKind c = ConditionKindCommand) conditions))"

text \<open>The meaning of a rule's condition block: all of its conditions hold.\<close>

definition rule_matches :: "'w gate_env \<Rightarrow> FieldSet \<Rightarrow> Rule \<Rightarrow> bool" where
  "rule_matches env f rule \<longleftrightarrow>
     list_all (condition_holds env f (command_dirs env f (r_Conditions rule))) (r_Conditions rule)"

definition calm :: "'w gate_env \<Rightarrow> bool" where
  "calm env \<longleftrightarrow> (\<forall>w. \<not> ge_ctxErr env w)"

lemma collect_context:
  "collectCommandConditionContext (ge_command env) f cs cwds =
     (if list_all (\<lambda>c. conditionKind c = ConditionKindCommand \<longrightarrow> commandConditionCwds (ge_command env) f c \<noteq> None) cs
      then Some (cwds @ command_dirs env f cs) else None)"
proof (induction cs arbitrary: cwds)
  case (Cons c cs)
  then show ?case
    by (cases "commandConditionCwds (ge_command env) f c") (auto simp: command_dirs_def)
qed (simp add: command_dirs_def)

lemma gate_static:
  assumes "static_kind c" "conditionKind c = ConditionKindCommand \<longrightarrow> commandConditionCwds (ge_command env) f c \<noteq> None"
  shows "conditionGateMatches env f i rule j c cwds st = (condition_holds env f cwds c, st)"
  using assms
  by (auto simp: conditionGateMatches_def condition_holds_def static_kind_def Let_def kind_defs)

text \<open>
  The loop stops early when the context of the call has ended, and the rule is then dropped; so the
  conditions of a block that passes hold, and a block whose conditions hold passes in calm.
\<close>

definition decides :: "'w gate_env \<Rightarrow> bool \<Rightarrow> bool \<Rightarrow> bool" where
  "decides env m b \<longleftrightarrow> (b \<longrightarrow> m) \<and> (calm env \<and> m \<longrightarrow> b)"

lemma gate_loop_static:
  assumes "list_all static_kind cs"
    "list_all (\<lambda>c. conditionKind c = ConditionKindCommand \<longrightarrow> commandConditionCwds (ge_command env) f c \<noteq> None) cs"
  shows "\<exists>b. gate_loop env f i rule cwds j cs st = (b, st) \<and> decides env (list_all (condition_holds env f cwds) cs) b"
  using assms
proof (induction cs arbitrary: j)
  case (Cons c cs)
  then obtain b where b: "gate_loop env f i rule cwds (j + 1) cs st = (b, st)"
    "decides env (list_all (condition_holds env f cwds) cs) b" by fastforce
  then show ?case
    using gate_static [of c env f i rule j cwds st] Cons.prems by (auto simp: decides_def calm_def)
qed (auto simp: decides_def)

lemma allConditionsMatch_static:
  assumes "list_all static_kind (r_Conditions rule)"
  shows "\<exists>b. allConditionsMatch env f i rule (r_Conditions rule) st = (b, st) \<and> decides env (rule_matches env f rule) b"
proof (cases "list_all (\<lambda>c. conditionKind c = ConditionKindCommand \<longrightarrow>
    commandConditionCwds (ge_command env) f c \<noteq> None) (r_Conditions rule)")
  case True
  then show ?thesis
    using gate_loop_static [OF assms True]
    by (simp add: allConditionsMatch_def collect_context rule_matches_def)
next
  case False
  then obtain c where "c \<in> set (r_Conditions rule)" "conditionKind c = ConditionKindCommand"
      "commandConditionCwds (ge_command env) f c = None"
    by (auto simp: list_all_iff)
  then have "\<not> rule_matches env f rule"
    by (auto simp: rule_matches_def list_all_iff condition_holds_def Let_def kind_defs intro!: bexI [of _ c])
  moreover have "allConditionsMatch env f i rule (r_Conditions rule) st = (False, st)"
    using False by (simp add: allConditionsMatch_def collect_context)
  ultimately show ?thesis by (auto simp: decides_def)
qed

section \<open>Outcomes of units\<close>

fun unit_rule :: "unit_condition \<Rightarrow> nat" where
  "unit_rule (ruleRegexCondition i k) = i"
| "unit_rule (evalMatrixCondition i) = i"

definition named :: "bytes \<Rightarrow> Violation list \<Rightarrow> bool" where
  "named name vs \<longleftrightarrow> (\<forall>v \<in> set vs. vi_RuleName v = name)"

lemma match_violation_name [simp]: "vi_RuleName (match_violation rule m) = r_Name rule"
  by (simp add: match_violation_def)

lemma fallback_name [simp]: "vi_RuleName (conditionFallbackViolation senv f rule) = r_Name rule"
  by (simp add: conditionFallbackViolation_def split: prod.splits option.splits)

lemma named_simps [simp]:
  "named name []" "named name (v # vs) \<longleftrightarrow> vi_RuleName v = name \<and> named name vs"
  "named (r_Name rule) (matchesToViolations ms rule)"
  by (auto simp: named_def matchesToViolations_def)

lemma condition_matches_named: "named (r_Name rule) (fst (condition_matches env f c rule limit))"
  by (simp add: condition_matches_def Let_def evalDiffCondition_def evalShellWriteCondition_def
      evalShellReadCondition_def split: option.splits)

definition outcome_of :: "Rule list \<Rightarrow> unit_condition \<Rightarrow> ruleOutcome \<Rightarrow> bool" where
  "outcome_of rules u r \<longleftrightarrow>
     named (r_Name (rules ! unit_rule u)) (ro_violations r)
     \<and> (ro_rule r = None \<or> ro_rule r = Some (unit_rule u))"

lemma outcome_simps [simp]:
  "ro_violations (matchedRuleOutcome i vs) = vs" "ro_rule (matchedRuleOutcome i vs) = Some i"
  "ro_isConditionBased (matchedRuleOutcome i vs)" "ro_gateMatched (matchedRuleOutcome i vs)"
  "ro_violations (unmatchedRuleOutcome i) = []" "ro_rule (unmatchedRuleOutcome i) = Some i"
  "ro_isConditionBased (unmatchedRuleOutcome i)" "\<not> ro_gateMatched (unmatchedRuleOutcome i)"
  by (simp_all add: matchedRuleOutcome_def unmatchedRuleOutcome_def)

lemma execute_condition_outcome:
  "outcome_of rules (ruleRegexCondition i k) (fst (execute_condition env f i (rules ! i) j st))"
proof -
  obtain ok st1 where a: "allConditionsMatch env f i (rules ! i) (r_Conditions (rules ! i)) st = (ok, st1)"
    by fastforce
  let ?c = "r_Conditions (rules ! i) ! j" and ?l = "Remaining (es_budgets st1 i)"
  obtain vs n where m: "condition_matches env f ?c (rules ! i) ?l = (vs, n)" by fastforce
  show ?thesis
    using condition_matches_named [of "rules ! i" env f ?c ?l] m
    by (simp add: execute_condition_def a Let_def outcome_of_def)
qed

lemma Execute_outcome: "outcome_of rules u (fst (Execute env f rules u st))"
proof (cases u)
  case (evalMatrixCondition i)
  then show ?thesis by (simp add: execute_matrix_def Let_def outcome_of_def split: prod.splits)
next
  case (ruleRegexCondition i k)
  show ?thesis
  proof (cases "simpleOutcome env f i (rules ! i) k st")
    case None
    then show ?thesis using execute_condition_outcome ruleRegexCondition by simp
  next
    case (Some r)
    then show ?thesis
      using ruleRegexCondition
      by (auto simp: simpleOutcome_def evalSimpleRule_def outcome_of_def Let_def split: if_splits prod.splits)
  qed
qed

lemma Run_outcomes: "list_all2 (outcome_of rules) us (fst (orchestrator_Run env f rules us st))"
proof (induction us arbitrary: st)
  case (Cons u us)
  obtain r st1 where e: "Execute env f rules u st = (r, st1)" by fastforce
  obtain rs st2 where t: "orchestrator_Run env f rules us st1 = (rs, st2)" by fastforce
  show ?case using Execute_outcome [of rules u env f st] Cons.IH [of st1] e t by simp
qed simp

text \<open>Any property of results that holds for every state carries over to a run.\<close>

lemma Run_all:
  assumes "\<And>u st. u \<in> set us \<Longrightarrow> P u (fst (Execute env f rules u st))"
  shows "list_all2 P us (fst (orchestrator_Run env f rules us st))"
  using assms
proof (induction us arbitrary: st)
  case (Cons u us)
  obtain r st1 where e: "Execute env f rules u st = (r, st1)" by fastforce
  obtain rs st2 where t: "orchestrator_Run env f rules us st1 = (rs, st2)" by fastforce
  have "P u r" using Cons.prems [of u st] e by simp
  moreover have "list_all2 P us rs" using Cons.IH [of st1] Cons.prems t by simp
  ultimately show ?case using e t by simp
qed simp

section \<open>Aggregation\<close>

definition counts :: "nat \<Rightarrow> ruleOutcome \<Rightarrow> bool" where
  "counts i r \<longleftrightarrow> ro_rule r = Some i \<and> ro_isConditionBased r"

definition rule_state :: "nat \<Rightarrow> ruleOutcome list \<Rightarrow> bool \<times> nat \<Rightarrow> bool \<times> nat" where
  "rule_state i rs gn =
     (fst gn \<or> (\<exists>r \<in> set rs. counts i r \<and> ro_gateMatched r),
      snd gn + sum_list (map (length \<circ> ro_violations) (filter (\<lambda>r. counts i r \<and> ro_gateMatched r) rs)))"

lemma note_outcome_lookup:
  "map_of (note_outcome r s) i =
     (if counts i r
      then Some (rule_state i [r] (case map_of s i of Some gn \<Rightarrow> gn | None \<Rightarrow> (False, 0)))
      else map_of s i)"
  by (auto simp: note_outcome_def counts_def rule_state_def update_conv' Let_def
      split: option.splits prod.splits)

lemma rule_state_Cons: "rule_state i rs (rule_state i [r] gn) = rule_state i (r # rs) gn"
  by (auto simp: rule_state_def)

lemma rule_state_skip: "\<not> counts i r \<Longrightarrow> rule_state i (r # rs) gn = rule_state i rs gn"
  by (simp add: rule_state_def)

lemma fold_note_outcome:
  "map_of (fold note_outcome rs s) i =
     (if \<exists>r \<in> set rs. counts i r
      then Some (rule_state i rs (case map_of s i of Some gn \<Rightarrow> gn | None \<Rightarrow> (False, 0)))
      else map_of s i)"
proof (induction rs arbitrary: s)
  case (Cons r rs)
  let ?gn = "case map_of s i of Some gn \<Rightarrow> gn | None \<Rightarrow> (False, 0)"
  show ?case
  proof (cases "counts i r")
    case True
    then show ?thesis
      using Cons.IH [of "note_outcome r s"]
      by (auto simp: note_outcome_lookup rule_state_Cons)
         (simp add: rule_state_def flip: rule_state_Cons; force simp: rule_state_def)
  next
    case False
    then show ?thesis
      using Cons.IH [of "note_outcome r s"] by (simp add: note_outcome_lookup rule_state_skip)
  qed
qed simp

lemma note_outcome_distinct: "distinct (map fst s) \<Longrightarrow> distinct (map fst (note_outcome r s))"
  by (auto simp: note_outcome_def Let_def distinct_update split: option.splits prod.splits)

lemma fold_note_distinct: "distinct (map fst s) \<Longrightarrow> distinct (map fst (fold note_outcome rs s))"
  by (induction rs arbitrary: s) (simp_all add: note_outcome_distinct)

lemma fold_note_entry:
  assumes "(i, gn) \<in> set (fold note_outcome rs [])"
  shows "gn = rule_state i rs (False, 0) \<and> (\<exists>r \<in> set rs. counts i r)"
proof -
  have "map_of (fold note_outcome rs []) i = Some gn"
    using assms fold_note_distinct [of "[]" rs] by (intro map_of_is_SomeI) auto
  then show ?thesis by (auto simp: fold_note_outcome split: if_splits)
qed

lemma fold_note_intro:
  assumes "r \<in> set rs" "counts i r"
  shows "(i, rule_state i rs (False, 0)) \<in> set (fold note_outcome rs [])"
  using assms by (intro map_of_SomeD) (auto simp: fold_note_outcome)

lemma override_names: "vi_RuleName ` set (applyExecMessageOverrides memo vs) = vi_RuleName ` set vs"
proof -
  have eq: "vi_RuleName (case me_overrides memo (vi_RuleName v) of
          Some msg \<Rightarrow> if msg \<noteq> [] then v\<lparr>vi_Message := msg\<rparr> else v | None \<Rightarrow> v) = vi_RuleName v" for v
    by (auto split: option.splits)
  show ?thesis unfolding applyExecMessageOverrides_def set_map image_image eq ..
qed

lemma override_length [simp]: "length (applyExecMessageOverrides memo vs) = length vs"
  by (simp add: applyExecMessageOverrides_def)

text \<open>The names that an evaluation reports before response rules are taken out.\<close>

definition reported :: "Rule list \<Rightarrow> ruleOutcome list \<Rightarrow> bytes set" where
  "reported rules results =
     vi_RuleName ` set (concat (map ro_violations results))
     \<union> {r_Name (rules ! i) |i n. (i, True, n) \<in> set (fold note_outcome results []) \<and> n = 0}"

lemma aggregate_names:
  "vi_RuleName ` set (aggregateResults senv f rules results memo) = reported rules results"
proof -
  have "vi_RuleName ` set (fallbacks senv f rules rs)
        = {r_Name (rules ! i) |i n. (i, True, n) \<in> set rs \<and> n = 0}" for rs
  proof (intro set_eqI iffI)
    fix x
    assume "x \<in> vi_RuleName ` set (fallbacks senv f rules rs)"
    then obtain i g n where "(i, g, n) \<in> set rs" "g" "n = 0" "x = r_Name (rules ! i)"
      by (auto simp: fallbacks_def)
    then show "x \<in> {r_Name (rules ! i) |i n. (i, True, n) \<in> set rs \<and> n = 0}" by auto
  next
    fix x
    assume "x \<in> {r_Name (rules ! i) |i n. (i, True, n) \<in> set rs \<and> n = 0}"
    then obtain i where i: "(i, True, 0) \<in> set rs" "x = r_Name (rules ! i)" by auto
    then have "conditionFallbackViolation senv f (rules ! i) \<in> set (fallbacks senv f rules rs)"
      by (force simp: fallbacks_def)
    then show "x \<in> vi_RuleName ` set (fallbacks senv f rules rs)" using i(2) by (metis fallback_name imageI)
  qed
  then show ?thesis
    unfolding aggregateResults_def override_names reported_def set_append image_Un by simp
qed

section \<open>When a rule fires\<close>

lemma rule_units_own: "u \<in> set (rule_units system eventName getenv i rule) \<Longrightarrow> unit_rule u = i"
  by (auto simp: rule_units_def condition_units_def Let_def split: if_splits)

lemma build_units:
  "u \<in> set (buildRuleRegexConditions rules system eventName getenv) \<longleftrightarrow>
     unit_rule u < length rules \<and> u \<in> set (rule_units system eventName getenv (unit_rule u) (rules ! unit_rule u))"
proof
  assume "u \<in> set (buildRuleRegexConditions rules system eventName getenv)"
  then obtain i where "i < length rules" "u \<in> set (rule_units system eventName getenv i (rules ! i))"
    by (auto simp: buildRuleRegexConditions_def)
  moreover have "unit_rule u = i" using rule_units_own calculation(2) by blast
  ultimately show "unit_rule u < length rules
      \<and> u \<in> set (rule_units system eventName getenv (unit_rule u) (rules ! unit_rule u))" by simp
qed (auto simp: buildRuleRegexConditions_def)

definition active :: "bytes \<Rightarrow> bytes \<Rightarrow> (bytes \<Rightarrow> bytes) option \<Rightarrow> Rule \<Rightarrow> bool" where
  "active system eventName getenv rule \<longleftrightarrow>
     appliesToEvent rule system eventName \<and> \<not> envGuardFires getenv (r_DisableIfEnv rule)"

lemma inactive_no_units: "\<not> active system eventName getenv rule \<Longrightarrow> rule_units system eventName getenv i rule = []"
  by (auto simp: active_def rule_units_def)

definition condition_block :: "Rule \<Rightarrow> bool" where
  "condition_block rule \<longleftrightarrow>
     r_Eval rule = [] \<and> r_Conditions rule \<noteq> [] \<and> list_all static_kind (r_Conditions rule)"

lemma condition_block_units:
  assumes "active system eventName getenv rule" "condition_block rule"
  shows "rule_units system eventName getenv i rule \<noteq> []
         \<and> (\<forall>u \<in> set (rule_units system eventName getenv i rule).
              \<exists>k. u = ruleRegexCondition i k \<and> (k = -2 \<or> 0 \<le> k))"
  using assms by (auto simp: active_def condition_block_def rule_units_def condition_units_def Let_def)

text \<open>The outcome of a unit of such a rule, in any state.\<close>

definition gated :: "'w gate_env \<Rightarrow> bool \<Rightarrow> nat \<Rightarrow> ruleOutcome \<Rightarrow> bool" where
  "gated env m i r \<longleftrightarrow> counts i r \<and> decides env m (ro_gateMatched r) \<and> (\<not> ro_gateMatched r \<longrightarrow> ro_violations r = [])"

lemma Execute_gated:
  assumes "condition_block (rules ! i)" "k = -2 \<or> 0 \<le> k"
  shows "gated env (rule_matches env f (rules ! i)) i (fst (Execute env f rules (ruleRegexCondition i k) st))"
proof -
  obtain b where "allConditionsMatch env f i (rules ! i) (r_Conditions (rules ! i)) st = (b, st)"
    "decides env (rule_matches env f (rules ! i)) b"
    using allConditionsMatch_static assms(1) by (metis condition_block_def)
  then show ?thesis
    using assms(2)
    by (auto simp: simpleOutcome_def execute_condition_def Let_def gated_def counts_def decides_def split: prod.splits)
qed

lemma list_all2_ex1: "list_all2 P xs ys \<Longrightarrow> x \<in> set xs \<Longrightarrow> \<exists>y \<in> set ys. P x y"
  by (metis in_set_conv_nth list_all2_conv_all_nth)

lemma list_all2_ex2: "list_all2 P xs ys \<Longrightarrow> y \<in> set ys \<Longrightarrow> \<exists>x \<in> set xs. P x y"
  by (metis in_set_conv_nth list_all2_conv_all_nth)

text \<open>The results of a run over the units of a slice of rules.\<close>

definition results_ok :: "'w gate_env \<Rightarrow> FieldSet \<Rightarrow> Rule list \<Rightarrow> unit_condition \<Rightarrow> ruleOutcome \<Rightarrow> bool" where
  "results_ok env f rules u r \<longleftrightarrow>
     outcome_of rules u r \<and>
     (condition_block (rules ! unit_rule u) \<longrightarrow> gated env (rule_matches env f (rules ! unit_rule u)) (unit_rule u) r)"

lemma Run_results:
  "list_all2 (results_ok env f rules) (buildRuleRegexConditions rules system eventName getenv)
     (fst (orchestrator_Run env f rules (buildRuleRegexConditions rules system eventName getenv) st))"
proof (rule Run_all)
  fix u st
  assume "u \<in> set (buildRuleRegexConditions rules system eventName getenv)"
  then have u: "u \<in> set (rule_units system eventName getenv (unit_rule u) (rules ! unit_rule u))"
    by (simp add: build_units)
  show "results_ok env f rules u (fst (Execute env f rules u st))"
  proof (cases "condition_block (rules ! unit_rule u)")
    case True
    have "active system eventName getenv (rules ! unit_rule u)" using u inactive_no_units by force
    then obtain k where "u = ruleRegexCondition (unit_rule u) k" "k = -2 \<or> 0 \<le> k"
      using condition_block_units True u by blast
    then show ?thesis using Execute_gated True Execute_outcome by (metis results_ok_def)
  next
    case False
    then show ?thesis using Execute_outcome by (simp add: results_ok_def)
  qed
qed

lemma named_in: "named name vs \<Longrightarrow> v \<in> set vs \<Longrightarrow> vi_RuleName v = name"
  by (simp add: named_def)

lemma reported_iff:
  assumes res: "list_all2 (results_ok env f rules) us results"
    and us: "\<And>u. u \<in> set us \<Longrightarrow> unit_rule u < length rules"
    and own: "u0 \<in> set us" "unit_rule u0 = i"
    and i: "i < length rules" "condition_block (rules ! i)" "distinct (map r_Name rules)"
  shows "decides env (rule_matches env f (rules ! i)) (r_Name (rules ! i) \<in> reported rules results)"
  unfolding decides_def
proof (intro conjI impI)
  have idx: "j = i" if "j < length rules" "r_Name (rules ! j) = r_Name (rules ! i)" for j
    using that i nth_eq_iff_index_eq [of "map r_Name rules" j i] by simp
  have gate: "gated env (rule_matches env f (rules ! i)) i r" if "u \<in> set us" "unit_rule u = i" "results_ok env f rules u r" for u r
    using that i by (simp add: results_ok_def)
  {
    assume "r_Name (rules ! i) \<in> reported rules results"
    then consider (match) r v where "r \<in> set results" "v \<in> set (ro_violations r)" "vi_RuleName v = r_Name (rules ! i)"
      | (fallback) j where "(j, True, 0) \<in> set (fold note_outcome results [])" "r_Name (rules ! j) = r_Name (rules ! i)"
      unfolding reported_def by fastforce
    then show "rule_matches env f (rules ! i)"
    proof cases
      case match
      obtain u where u: "u \<in> set us" "results_ok env f rules u r"
        using list_all2_ex2 [OF res match(1)] by blast
      then have "r_Name (rules ! unit_rule u) = r_Name (rules ! i)"
        using match named_in by (auto simp: results_ok_def outcome_of_def)
      then have "unit_rule u = i" using idx us u by blast
      then show ?thesis using gate [OF u(1) _ u(2)] match(2) by (auto simp: gated_def decides_def)
    next
      case fallback
      obtain r where r: "r \<in> set results" "counts j r" "ro_gateMatched r"
        using fold_note_entry [OF fallback(1)] by (auto simp: rule_state_def)
      obtain u where u: "u \<in> set us" "results_ok env f rules u r"
        using list_all2_ex2 [OF res r(1)] by blast
      then have "unit_rule u = j" using r(2) by (auto simp: results_ok_def outcome_of_def counts_def)
      moreover have "j = i" using idx fallback(2) us u(1) calculation by blast
      ultimately show ?thesis using gate [OF u(1) _ u(2)] r(3) by (auto simp: gated_def decides_def)
    qed
  }
  {
    assume m: "calm env \<and> rule_matches env f (rules ! i)"
    obtain r where r: "r \<in> set results" "results_ok env f rules u0 r"
      using list_all2_ex1 [OF res own(1)] by blast
    then have g: "counts i r" "ro_gateMatched r" using gate [OF own r(2)] m by (auto simp: gated_def decides_def)
    show "r_Name (rules ! i) \<in> reported rules results"
    proof (cases "snd (rule_state i results (False, 0)) = 0")
      case True
      have "fst (rule_state i results (False, 0))" using r g by (auto simp: rule_state_def)
      then have "(i, True, 0) \<in> set (fold note_outcome results [])"
        using fold_note_intro [OF r(1) g(1)] True by (metis prod.collapse)
      then show ?thesis by (auto simp: reported_def)
    next
      case False
      then obtain r' where r': "r' \<in> set results" "counts i r'" "ro_violations r' \<noteq> []"
        by (auto simp: rule_state_def)
      obtain u where u: "u \<in> set us" "results_ok env f rules u r'"
        using list_all2_ex2 [OF res r'(1)] by blast
      then have "unit_rule u = i" using r'(2) by (auto simp: results_ok_def outcome_of_def counts_def)
      then have "named (r_Name (rules ! i)) (ro_violations r')" using u by (auto simp: results_ok_def outcome_of_def)
      then have "r_Name (rules ! i) \<in> vi_RuleName ` set (ro_violations r')"
        using r'(3) by (cases "ro_violations r'") auto
      then show ?thesis using r'(1) by (auto simp: reported_def)
    qed
  }
qed

lemma evaluateAll_run:
  assumes "buildRuleRegexConditions rules system eventName getenv \<noteq> []"
    "orchestrator_Run env f rules (buildRuleRegexConditions rules system eventName getenv)
       (runBatchInference env f rules system eventName getenv (initial_state system eventName w)) = (results, st)"
  shows "er_violations (fst (evaluateAll env system eventName f rules getenv w))
         = filter (\<lambda>v. \<not> list_ex (\<lambda>r. r_Name r = vi_RuleName v \<and> IsResponseAction r) rules)
             (aggregateResults (ge_shell env) f rules results (es_memo st))"
  using assms by (simp add: evaluateAll_def Let_def responseEffectsFromMatches_def)

lemma distinct_name_rule:
  assumes "distinct (map r_Name rules)" "i < length rules" "r \<in> set rules" "r_Name r = r_Name (rules ! i)"
  shows "r = rules ! i"
  using assms by (metis (no_types, lifting) distinct_map inj_onD nth_mem)

lemma static_rule_fires:
  assumes "i < length rules" "distinct (map r_Name rules)"
    and "active system eventName getenv (rules ! i)" "condition_block (rules ! i)"
    and "\<not> IsResponseAction (rules ! i)"
  shows "decides env (rule_matches env f (rules ! i))
           (r_Name (rules ! i) \<in> vi_RuleName ` set (er_violations (fst (evaluateAll env system eventName f rules getenv w))))"
proof -
  let ?us = "buildRuleRegexConditions rules system eventName getenv"
  let ?st0 = "runBatchInference env f rules system eventName getenv (initial_state system eventName w)"
  obtain results st where run: "orchestrator_Run env f rules ?us ?st0 = (results, st)" by fastforce
  have res: "list_all2 (results_ok env f rules) ?us results"
    using Run_results [of env f rules system eventName getenv ?st0] run by simp
  obtain u0 where u0: "u0 \<in> set (rule_units system eventName getenv i (rules ! i))"
    using condition_block_units [OF assms(3,4), of i] by (meson list.set_sel(1))
  have own: "u0 \<in> set ?us" "unit_rule u0 = i"
    using rule_units_own [OF u0] u0 assms(1) by (auto simp: build_units)
  let ?agg = "aggregateResults (ge_shell env) f rules results (es_memo st)"
  have ne: "?us \<noteq> []" using own(1) by auto
  have "\<not> list_ex (\<lambda>r. r_Name r = r_Name (rules ! i) \<and> IsResponseAction r) rules"
    using distinct_name_rule [OF assms(2,1)] assms(5) by (auto simp: list_ex_iff)
  then have "r_Name (rules ! i) \<in> vi_RuleName ` set (er_violations (fst (evaluateAll env system eventName f rules getenv w)))
      \<longleftrightarrow> r_Name (rules ! i) \<in> vi_RuleName ` set ?agg"
    unfolding evaluateAll_run [OF ne run] by (auto simp: image_iff)
  moreover have "decides env (rule_matches env f (rules ! i)) (r_Name (rules ! i) \<in> vi_RuleName ` set ?agg)"
    unfolding aggregate_names
    by (rule reported_iff [OF res _ own assms(1,4,2)]) (simp add: build_units)
  ultimately show ?thesis by simp
qed

text \<open>C12. When a rule with a condition block fires.  The premises: the names of the rules of the slice are
  different (\<^verbatim>\<open>hook.ValidateConfig\<close> refuses others), the rule enforces, applies to the
  event and is not disabled by an environment variable, and its conditions are of the kinds that
  only look at the payload and the file system (regular expression, command, project, diff, shell
  write, shell read).  Then the rule yields a violation only if every condition matches; and if every
  condition matches, it yields one, also when no condition has a concrete match, provided the
  context of the call does not end during the evaluation: the loop over the conditions looks at the
  context and drops the rule once the hook's deadline has passed.\<close>

theorem rule_fires_iff_all_conditions_hold:
  assumes "i < length rules" "distinct (map r_Name rules)"
    and "active system eventName getenv (rules ! i)" "condition_block (rules ! i)"
    and "\<not> IsResponseAction (rules ! i)"
  shows "(r_Name (rules ! i) \<in> vi_RuleName ` set (er_violations (fst (evaluateAll env system eventName f rules getenv w)))
            \<longrightarrow> rule_matches env f (rules ! i))
         \<and> ((\<forall>w. \<not> ge_ctxErr env w) \<longrightarrow>
              r_Name (rules ! i) \<in> vi_RuleName ` set (er_violations (fst (evaluateAll env system eventName f rules getenv w)))
              \<longleftrightarrow> rule_matches env f (rules ! i))"
  using static_rule_fires [OF assms, of env f w] unfolding decides_def calm_def by blast

section \<open>An example slice\<close>

text \<open>A matcher for a list of literal alternatives, leftmost first.\<close>

definition literal_at :: "bytes list \<Rightarrow> bytes \<Rightarrow> nat \<Rightarrow> (nat \<times> nat) option" where
  "literal_at ps s i =
     (case find (\<lambda>p. HasPrefix (drop i s) p) ps of Some p \<Rightarrow> Some (i, i + length p) | None \<Rightarrow> None)"

definition literal_regex :: "bytes list \<Rightarrow> Regexp" where
  "literal_regex ps = \<lparr>re_exec = (\<lambda>s off.
       case List.map_filter (literal_at ps s) [off..<length s] of
         [] \<Rightarrow> None | m # ms \<Rightarrow> Some (\<lambda>g. if g = 0 then Some m else None)),
     re_captureCount = 0\<rparr>"

definition demo_shell :: shell_env where
  "demo_shell = \<lparr>sa_UserHomeDir = None, sa_EffectiveCwdAt = (\<lambda>c s h. s), sa_Unresolvable = [CHR 0x00],
     sa_ExtractCodeSearchTargets = (\<lambda>c d t e g. []), sa_ExtractReadTargets = (\<lambda>c d s. []),
     sa_ExtractWriteTargets = (\<lambda>c d s. []), sa_DoubleHyphenProse = (\<lambda>c d p. []),
     sa_CredentialReadTargets = (\<lambda>f. []), sa_DefaultRedirectionPolicy = None\<rparr>"

definition demo_probe :: file_probe where
  "demo_probe = \<lparr>fp_Open = (\<lambda>_. False), fp_FileStat = (\<lambda>_. None), fp_Stat = (\<lambda>_. None), fp_ReadAll = (\<lambda>_. None)\<rparr>"

definition demo_env :: "unit gate_env" where
  "demo_env = \<lparr>ge_shell = demo_shell, ge_command = no_command_env, ge_ctxErr = (\<lambda>w. False),
     ge_git = (\<lambda>f c d w. (False, w)), ge_validate = (\<lambda>f r j c w. (zero_verdict, w)),
     ge_infer = (\<lambda>f r j c w. (False, w)), ge_inferWorld = (\<lambda>w. failing_world),
     ge_inferDone = (\<lambda>r w. w), ge_batch = (\<lambda>f gs w. w),
     ge_globMatch = (\<lambda>g path. Some (g = path)), ge_probe = demo_probe\<rparr>"

definition demo_fields :: "bytes \<Rightarrow> bytes \<Rightarrow> bytes \<Rightarrow> FieldSet" where
  "demo_fields command old new = zero_FieldSet\<lparr>f_ToolInputCommand := command,
     f_ToolInputOldString := old, f_ToolInputNewString := new\<rparr>"

definition regex_condition :: "bytes list \<Rightarrow> Condition" where
  "regex_condition ps = zero_Condition\<lparr>c_Kind := ConditionKindRegex, c_compiled := Some (literal_regex ps),
     c_selectors := [\<lparr>spec_Path = ''tool_input.command'', spec_Selector = FieldToolInputCommand\<rparr>]\<rparr>"

definition demo_rule :: "bytes \<Rightarrow> bytes \<Rightarrow> Condition list \<Rightarrow> Rule" where
  "demo_rule name action conditions = zero_Rule\<lparr>r_Name := name, r_Action := action, r_AllEvents := True,
     r_Conditions := conditions, r_Output := ''note''\<rparr>"

theorem rule_fires_iff_all_conditions_hold_witness:
  "''no-rm'' \<in> vi_RuleName ` set (er_violations (fst (evaluateAll demo_env ''claude'' ''PreToolUse''
      (demo_fields ''rm -rf x'' [] []) [demo_rule ''no-rm'' ActionBlock [regex_condition [''rm '']]] None ())))"
proof -
  let ?rules = "[demo_rule ''no-rm'' ActionBlock [regex_condition [''rm '']]]"
  let ?fires = "r_Name (?rules ! 0) \<in> vi_RuleName ` set (er_violations (fst (evaluateAll demo_env
            ''claude'' ''PreToolUse'' (demo_fields ''rm -rf x'' [] []) ?rules None ())))"
  have "(?fires \<longrightarrow> rule_matches demo_env (demo_fields ''rm -rf x'' [] []) (?rules ! 0))
        \<and> ((\<forall>w. \<not> ge_ctxErr demo_env w) \<longrightarrow>
             ?fires \<longleftrightarrow> rule_matches demo_env (demo_fields ''rm -rf x'' [] []) (?rules ! 0))"
  proof (rule rule_fires_iff_all_conditions_hold)
    show "0 < length ?rules" "distinct (map r_Name ?rules)" by simp_all
    show "active ''claude'' ''PreToolUse'' None (?rules ! 0)" by code_simp
    show "condition_block (?rules ! 0)" by code_simp
    show "\<not> IsResponseAction (?rules ! 0)" by code_simp
  qed
  moreover have "\<not> ge_ctxErr demo_env w" for w by (simp add: demo_env_def)
  moreover have "rule_matches demo_env (demo_fields ''rm -rf x'' [] []) (?rules ! 0)" by code_simp
  moreover have "r_Name (?rules ! 0) = ''no-rm''" by code_simp
  ultimately show ?thesis by simp
qed

end
