(* ===== verification/EngineBounds.thy ===== *)
theory EngineBounds
  imports EngineProps
begin

text \<open>
  The number of violations that one rule reports, the response effects, the memo of an event, and
  three consequences of the code as it is written: the gate of a diff condition looks at one match
  only, a response rule silences an enforcing rule of the same name, and the matches of a
  shell-write condition are not limited.
\<close>

section \<open>Every matcher respects its limit\<close>

lemma EvalDiffMatches_length: "length (EvalDiffMatches fa pair re g limit) \<le> nat limit"
proof (cases "re = None \<or> limit \<le> 0 \<or> fp_NewField pair = FieldSelectorInvalid \<or> fa_String fa (fp_NewField pair) = []")
  case True
  then show ?thesis by (auto simp: EvalDiffMatches_def Let_def)
next
  case False
  let ?P = "\<lambda>ix. span_text (fa_String fa (fp_NewField pair)) ix \<notin> captured re (fa_String fa (fp_OldField pair)) g"
  have "length (filter ?P (take (nat limit) (spans re (fa_String fa (fp_NewField pair)) g))) \<le> nat limit"
    by (rule order_trans [OF length_filter_le]) simp
  then show ?thesis using False by (simp add: EvalDiffMatches_filter [OF _ _ _ refl])
qed

lemma diff_loop_length:
  "int (length ms) \<le> limit \<Longrightarrow> int (length (diff_loop fa re g limit pairs ms)) \<le> limit"
proof (induction fa re g limit pairs ms rule: diff_loop.induct)
  case (2 fa re g limit pair pairs ms)
  let ?m1 = "ms @ EvalDiffMatches fa pair re g (limit - int (length ms))"
  let ?m2 = "?m1 @ EvalDiffMatches fa batch_pair re g (limit - int (length ?m1))"
  have m1: "int (length ?m1) \<le> limit"
    using 2(3) EvalDiffMatches_length [of fa pair re g "limit - int (length ms)"] by simp
  have m2: "int (length ?m2) \<le> limit"
    using m1 EvalDiffMatches_length [of fa batch_pair re g "limit - int (length ?m1)"] by simp
  show ?case
  proof (cases "limit - int (length ms) = 0")
    case True
    then show ?thesis by simp
  next
    case False
    show ?thesis
    proof (cases "?m1 = [] \<and> fp_NewField pair = FieldToolInputNewString")
      case True
      then show ?thesis using 2(1) [OF False refl True m2] False by (auto simp: Let_def)
    next
      case c: False
      then show ?thesis using 2(2) [OF False refl c m1] False by (auto simp: Let_def)
    qed
  qed
qed simp

lemma evalDiffCondition_length: "int (length (evalDiffCondition senv f c rule limit)) \<le> max 0 limit"
  using diff_loop_length [of "[]" limit]
  by (auto simp: evalDiffCondition_def Let_def matchesToViolations_def simp del: diff_loop.simps
      split: option.splits)

lemma EvalFieldMatches_length: "length (EvalFieldMatches fa selectors re dg limit) \<le> nat limit"
  by (simp add: EvalFieldMatches_take)

definition shell_write :: "Condition \<Rightarrow> bool" where
  "shell_write c \<longleftrightarrow> conditionKind c = ConditionKindShellWrite"

lemma condition_matches_length:
  assumes "\<not> shell_write c" "condition_matches env f c rule limit = (vs, n)" "0 \<le> limit"
  shows "int (length vs) \<le> limit \<and> n = length vs"
proof -
  have d: "int (length (evalDiffCondition (ge_shell env) f c rule limit)) \<le> limit"
    using evalDiffCondition_length [of "ge_shell env" f c rule limit] assms(3) by simp
  have r: "length (EvalFieldMatches (conditionFieldAccessor (ge_shell env) f c) (c_selectors c)
        (c_compiled c) (c_DiagnosticGroup c) limit) \<le> nat limit"
    by (rule EvalFieldMatches_length)
  have s: "int (length (evalShellReadCondition env f c rule limit)) \<le> limit"
    using assms(3) by (auto simp: evalShellReadCondition_def matchesToViolations_def)
  show ?thesis
    using assms d r s
    by (auto simp: condition_matches_def Let_def shell_write_def matchesToViolations_def split: if_splits)
qed

section \<open>The budget along a run\<close>

lemma gate_keeps_budgets: "es_budgets (snd (conditionGateMatches env f i rule j c cwds st)) = es_budgets st"
  by (auto simp: conditionGateMatches_def on_world_def execConditionGateMatch_def Let_def
      split: prod.splits option.splits)

lemma gate_loop_keeps_budgets: "es_budgets (snd (gate_loop env f i rule cwds j cs st)) = es_budgets st"
proof (induction cs arbitrary: j st)
  case (Cons c cs)
  obtain ok st1 where g: "conditionGateMatches env f i rule j c cwds st = (ok, st1)" by fastforce
  then have "es_budgets st1 = es_budgets st" using gate_keeps_budgets by (metis snd_conv)
  then show ?case using Cons g by (simp add: Let_def)
qed simp

lemma allConditionsMatch_keeps_budgets:
  "es_budgets (snd (allConditionsMatch env f i rule conditions st)) = es_budgets st"
  by (simp add: allConditionsMatch_def gate_loop_keeps_budgets split: option.splits)

lemma collectBatchGroups_keeps_budgets:
  "es_budgets (snd (collectBatchGroups env f system eventName getenv i rules gs st)) = es_budgets st"
proof (induction rules arbitrary: i gs st)
  case (Cons r rs)
  then show ?case
    using allConditionsMatch_keeps_budgets [of env f i r "r_Conditions r" st]
    by (cases "allConditionsMatch env f i r (r_Conditions r) st") auto
qed simp

lemma runBatchInference_keeps_budgets:
  "es_budgets (runBatchInference env f rules system eventName getenv st) = es_budgets st"
  using collectBatchGroups_keeps_budgets [of env f system eventName getenv 0 rules "[]" st]
  by (auto simp: runBatchInference_def split: prod.splits)

lemma Consume_bounds:
  "0 \<le> b \<Longrightarrow> b \<le> maxInt32 \<Longrightarrow> int n \<le> b \<Longrightarrow> Consume b (int n) = b - int n"
  by (auto simp: Consume_def)

lemma execute_condition_budget:
  assumes "0 \<le> es_budgets st i" "es_budgets st i \<le> maxInt32"
    "\<not> shell_write (r_Conditions rule ! j)"
    "execute_condition env f i rule j st = (r, st')"
  shows "int (length (ro_violations r)) + es_budgets st' i = es_budgets st i
         \<and> (\<forall>k. k \<noteq> i \<longrightarrow> es_budgets st' k = es_budgets st k)"
proof -
  obtain ok st1 where a: "allConditionsMatch env f i rule (r_Conditions rule) st = (ok, st1)" by fastforce
  have b: "es_budgets st1 = es_budgets st"
    using allConditionsMatch_keeps_budgets [of env f i rule "r_Conditions rule" st] a by simp
  let ?l = "Remaining (es_budgets st1 i)"
  have l: "?l = es_budgets st i" using assms(1) b by (simp add: Remaining_def)
  obtain vs n where m: "condition_matches env f (r_Conditions rule ! j) rule ?l = (vs, n)" by fastforce
  have vs: "int (length vs) \<le> es_budgets st i" "n = length vs"
    using condition_matches_length [OF assms(3) m] l assms(1) by auto
  show ?thesis
    using assms(4) a b m l vs Consume_bounds [OF assms(1,2) vs(1)]
    by (auto simp: execute_condition_def consume_budget_def Let_def split: if_splits)
qed

lemma Execute_other_budget:
  assumes "unit_rule u \<noteq> i"
  shows "es_budgets (snd (Execute env f rules u st)) i = es_budgets st i"
proof (cases u)
  case (evalMatrixCondition k)
  obtain ok st1 where a: "allConditionsMatch env f k (rules ! k) (r_Conditions (rules ! k)) st = (ok, st1)"
    by fastforce
  have "es_budgets st1 = es_budgets st"
    using allConditionsMatch_keeps_budgets [of env f k "rules ! k" "r_Conditions (rules ! k)" st] a by simp
  then show ?thesis using evalMatrixCondition a by (simp add: execute_matrix_def Let_def)
next
  case (ruleRegexCondition k c)
  obtain ok st1 where a: "allConditionsMatch env f k (rules ! k) (r_Conditions (rules ! k)) st = (ok, st1)"
    by fastforce
  have "es_budgets st1 = es_budgets st"
    using allConditionsMatch_keeps_budgets [of env f k "rules ! k" "r_Conditions (rules ! k)" st] a by simp
  then show ?thesis
    using ruleRegexCondition a assms
    by (auto simp: simpleOutcome_def execute_condition_def consume_budget_def Let_def split: prod.splits)
qed

text \<open>The violations that the units of one rule produce in a run.\<close>

fun produced :: "nat \<Rightarrow> unit_condition list \<Rightarrow> ruleOutcome list \<Rightarrow> nat" where
  "produced i (u # us) (r # rs) = (if unit_rule u = i then length (ro_violations r) else 0) + produced i us rs"
| "produced i us rs = 0"

lemma Run_other:
  assumes "\<And>u. u \<in> set us \<Longrightarrow> unit_rule u \<noteq> i"
  shows "produced i us (fst (orchestrator_Run env f rules us st)) = 0
         \<and> es_budgets (snd (orchestrator_Run env f rules us st)) i = es_budgets st i"
  using assms
proof (induction us arbitrary: st)
  case (Cons u us)
  obtain r st1 where e: "Execute env f rules u st = (r, st1)" by fastforce
  have "es_budgets st1 i = es_budgets st i"
    using Execute_other_budget [of u i env f rules st] Cons.prems e by simp
  moreover obtain rs st2 where "orchestrator_Run env f rules us st1 = (rs, st2)" by fastforce
  ultimately show ?case using Cons.IH [of st1] Cons.prems e by simp
qed simp

lemma Run_matching_units:
  assumes "\<And>u. u \<in> set us \<Longrightarrow> unit_rule u = i \<Longrightarrow>
      \<exists>k. u = ruleRegexCondition i (int k) \<and> \<not> shell_write (r_Conditions (rules ! i) ! k)"
    "0 \<le> es_budgets st i" "es_budgets st i \<le> maxInt32"
  shows "int (produced i us (fst (orchestrator_Run env f rules us st)))
         + es_budgets (snd (orchestrator_Run env f rules us st)) i = es_budgets st i
         \<and> 0 \<le> es_budgets (snd (orchestrator_Run env f rules us st)) i"
  using assms
proof (induction us arbitrary: st)
  case (Cons u us)
  obtain r st1 where e: "Execute env f rules u st = (r, st1)" by fastforce
  obtain rs st2 where t: "orchestrator_Run env f rules us st1 = (rs, st2)" by fastforce
  have step: "int (if unit_rule u = i then length (ro_violations r) else 0) + es_budgets st1 i = es_budgets st i
      \<and> 0 \<le> es_budgets st1 i"
  proof (cases "unit_rule u = i")
    case True
    then obtain k where k: "u = ruleRegexCondition i (int k)" "\<not> shell_write (r_Conditions (rules ! i) ! k)"
      using Cons.prems(1) by auto
    have ex: "execute_condition env f i (rules ! i) k st = (r, st1)"
      using e k(1) by (simp add: simpleOutcome_def)
    have "0 \<le> es_budgets st1 i"
    proof -
      obtain ok st0 where a: "allConditionsMatch env f i (rules ! i) (r_Conditions (rules ! i)) st = (ok, st0)"
        by fastforce
      have b: "es_budgets st0 = es_budgets st"
        using allConditionsMatch_keeps_budgets [of env f i "rules ! i" "r_Conditions (rules ! i)" st] a by simp
      show ?thesis
        using ex a b Cons.prems(2)
        by (auto simp: execute_condition_def consume_budget_def Consume_def Let_def split: if_splits prod.splits)
    qed
    then show ?thesis
      using execute_condition_budget [OF Cons.prems(2,3) k(2) ex] True by simp
  next
    case False
    then show ?thesis using Execute_other_budget [of u i env f rules st] e Cons.prems(2) by simp
  qed
  have "int (produced i us rs) + es_budgets st2 i = es_budgets st1 i \<and> 0 \<le> es_budgets st2 i"
    using Cons.IH [of st1] Cons.prems step t by simp
  then show ?case using step e t by simp
qed simp

section \<open>Violations per rule\<close>

lemma filter_units:
  "filter (\<lambda>u. unit_rule u = i) (concat (map (\<lambda>k. rule_units system eventName getenv k (rules ! k)) [0..<n]))
   = (if i < n then rule_units system eventName getenv i (rules ! i) else [])"
proof (induction n)
  case (Suc n)
  have "filter (\<lambda>u. unit_rule u = i) (rule_units system eventName getenv n (rules ! n))
      = (if i = n then rule_units system eventName getenv n (rules ! n) else [])"
    using rule_units_own by (auto simp: filter_id_conv filter_empty_conv)
  then show ?case using Suc by (auto simp: less_Suc_eq)
qed simp

lemma build_own_units:
  "i < length rules \<Longrightarrow>
   filter (\<lambda>u. unit_rule u = i) (buildRuleRegexConditions rules system eventName getenv)
   = rule_units system eventName getenv i (rules ! i)"
  by (simp add: buildRuleRegexConditions_def filter_units)

text \<open>Units that stand alone for their rule.\<close>

fun lone_unit :: "unit_condition \<Rightarrow> bool" where
  "lone_unit (evalMatrixCondition i) = True"
| "lone_unit (ruleRegexCondition i k) = (k < 0)"

lemma rule_units_shape:
  "(\<exists>u. rule_units system eventName getenv i rule = [u] \<and> lone_unit u)
   \<or> (\<forall>u \<in> set (rule_units system eventName getenv i rule).
        \<exists>k. u = ruleRegexCondition i (int k) \<and> k < length (r_Conditions rule))"
  by (auto simp: rule_units_def condition_units_def Let_def)

lemma Execute_lone_length:
  assumes "lone_unit u" "0 \<le> es_budgets st (unit_rule u)"
    "\<forall>i k. u = ruleRegexCondition i k \<longrightarrow> k \<in> {-1, -2, -3}"
  shows "int (length (ro_violations (fst (Execute env f rules u st)))) \<le> max 1 (es_budgets st (unit_rule u))"
proof (cases u)
  case (evalMatrixCondition i)
  then show ?thesis by (auto simp: execute_matrix_def Let_def split: prod.splits)
next
  case (ruleRegexCondition i k)
  have "length (evalSimpleRule (ge_shell env) f (rules ! i) (Remaining (es_budgets st i))) \<le> nat (es_budgets st i)"
    using EvalFieldMatches_length assms(2) ruleRegexCondition
    by (auto simp: evalSimpleRule_def matchesToViolations_def Remaining_def)
  then show ?thesis
    using assms ruleRegexCondition
    by (auto simp: simpleOutcome_def Let_def split: prod.splits)
qed

lemma rule_units_codes:
  "ruleRegexCondition j k \<in> set (rule_units system eventName getenv i rule) \<Longrightarrow> k < 0 \<Longrightarrow> k \<in> {-1, -2, -3}"
  by (auto simp: rule_units_def condition_units_def Let_def split: if_splits)

lemma produced_append:
  "length us = length rs \<Longrightarrow> produced i (us @ us') (rs @ rs') = produced i us rs + produced i us' rs'"
  by (induction us rs rule: list_induct2) auto

lemma Run_append:
  "orchestrator_Run env f rules (us @ us') st =
     (let (rs, st1) = orchestrator_Run env f rules us st; (rs', st2) = orchestrator_Run env f rules us' st1 in
      (rs @ rs', st2))"
  by (induction us arbitrary: st) (auto simp: Let_def split: prod.splits)

lemma Run_length: "length (fst (orchestrator_Run env f rules us st)) = length us"
  using list_all2_lengthD [OF Run_outcomes] by metis

lemma produced_bounded:
  assumes i: "i < length rules" and sw: "\<not> list_ex shell_write (r_Conditions (rules ! i))"
    and b: "1 \<le> es_budgets st i" "es_budgets st i \<le> maxInt32"
  shows "int (produced i (buildRuleRegexConditions rules system eventName getenv)
           (fst (orchestrator_Run env f rules (buildRuleRegexConditions rules system eventName getenv) st)))
         \<le> es_budgets st i"
proof -
  let ?us = "buildRuleRegexConditions rules system eventName getenv"
  let ?own = "rule_units system eventName getenv i (rules ! i)"
  note own = build_own_units [OF i, of system eventName getenv]
  consider (lone) u where "?own = [u]" "lone_unit u"
    | (many) "\<forall>u \<in> set ?own. \<exists>k. u = ruleRegexCondition i (int k) \<and> k < length (r_Conditions (rules ! i))"
    using rule_units_shape [of system eventName getenv i "rules ! i"] by blast
  then show ?thesis
  proof cases
    case lone
    then obtain us1 us2 where us: "?us = us1 @ u # us2" "\<forall>x\<in>set us1. unit_rule x \<noteq> i" "unit_rule u = i"
        "filter (\<lambda>u. unit_rule u = i) us2 = []"
      using own by (auto simp: filter_eq_Cons_iff)
    have no2: "\<forall>x\<in>set us2. unit_rule x \<noteq> i" using us(4) by (auto simp: filter_empty_conv)
    obtain rs1 st1 where r1: "orchestrator_Run env f rules us1 st = (rs1, st1)" by fastforce
    obtain r st2 where r: "Execute env f rules u st1 = (r, st2)" by fastforce
    obtain rs2 st3 where r2: "orchestrator_Run env f rules us2 st2 = (rs2, st3)" by fastforce
    have o1: "produced i us1 rs1 = 0" "es_budgets st1 i = es_budgets st i"
      using Run_other [of us1 i env f rules st] us(2) r1 by auto
    have o2: "produced i us2 rs2 = 0" using Run_other [of us2 i env f rules st2] no2 r2 by auto
    have codes: "\<forall>j k. u = ruleRegexCondition j k \<longrightarrow> k \<in> {-1, -2, -3}"
      using lone rule_units_codes by (metis list.set_intros(1) lone_unit.simps(2))
    have "int (length (ro_violations r)) \<le> max 1 (es_budgets st i)"
      using Execute_lone_length [OF lone(2) _ codes, of st1 env f rules] o1 us(3) r b by simp
    moreover have "length us1 = length rs1" using Run_length [of env f rules us1 st] r1 by simp
    ultimately show ?thesis
      using us r1 r r2 o1 o2 b by (simp add: Run_append produced_append Let_def)
  next
    case many
    have "\<exists>k. u = ruleRegexCondition i (int k) \<and> \<not> shell_write (r_Conditions (rules ! i) ! k)"
      if "u \<in> set ?us" "unit_rule u = i" for u
    proof -
      have "u \<in> set ?own" using that by (simp add: build_units)
      then show ?thesis using many sw by (auto simp: list_ex_iff)
    qed
    then show ?thesis using Run_matching_units [of ?us i rules st env f] b by fastforce
  qed
qed

fun based :: "unit_condition \<Rightarrow> bool" where
  "based (evalMatrixCondition i) = True"
| "based (ruleRegexCondition i k) = (k \<noteq> -1 \<and> k \<noteq> -3)"

definition shaped :: "unit_condition \<Rightarrow> ruleOutcome \<Rightarrow> bool" where
  "shaped u r \<longleftrightarrow>
     counts (unit_rule u) r = based u \<and> (based u \<and> \<not> ro_gateMatched r \<longrightarrow> ro_violations r = [])"

lemma Execute_shaped: "shaped u (fst (Execute env f rules u st))"
proof (cases u)
  case (evalMatrixCondition i)
  then show ?thesis by (auto simp: execute_matrix_def Let_def shaped_def counts_def split: prod.splits)
next
  case (ruleRegexCondition i k)
  then show ?thesis
    by (auto simp: simpleOutcome_def execute_condition_def Let_def shaped_def counts_def split: prod.splits)
qed

lemma Run_shaped:
  "list_all2 (\<lambda>u r. outcome_of rules u r \<and> shaped u r) us (fst (orchestrator_Run env f rules us st))"
  by (rule Run_all) (simp add: Execute_outcome Execute_shaped)

lemma based_all:
  assumes "u \<in> set (rule_units system eventName getenv i rule)" "based u"
    "v \<in> set (rule_units system eventName getenv i rule)"
  shows "based v"
  using assms by (auto simp: rule_units_def condition_units_def Let_def split: if_splits)

lemma produced_zero:
  assumes "list_all2 (\<lambda>u r. outcome_of rules u r \<and> shaped u r) us rs"
    "\<And>u. u \<in> set us \<Longrightarrow> unit_rule u = i \<Longrightarrow> based u" "snd (rule_state i rs (False, 0)) = 0"
  shows "produced i us rs = 0"
  using assms
proof (induction us rs rule: list_all2_induct)
  case (Cons u us r rs)
  have rest: "snd (rule_state i rs (False, 0)) = 0"
    and r: "counts i r \<Longrightarrow> ro_gateMatched r \<Longrightarrow> ro_violations r = []"
    using Cons.prems(2) by (auto simp: rule_state_def split: if_splits)
  have "unit_rule u = i \<Longrightarrow> ro_violations r = []"
    using Cons.hyps(1) Cons.prems(1) [of u] r by (auto simp: shaped_def)
  then show ?case using Cons.IH Cons.prems(1) rest by auto
qed simp

lemma produced_names:
  assumes "list_all2 (\<lambda>u r. outcome_of rules u r \<and> shaped u r) us rs"
    "\<And>u. u \<in> set us \<Longrightarrow> unit_rule u < length rules" "i < length rules" "distinct (map r_Name rules)"
  shows "length (filter (\<lambda>v. vi_RuleName v = r_Name (rules ! i)) (concat (map ro_violations rs))) = produced i us rs"
  using assms
proof (induction us rs rule: list_all2_induct)
  case (Cons u us r rs)
  have names: "\<forall>v\<in>set (ro_violations r). vi_RuleName v = r_Name (rules ! unit_rule u)"
    using Cons.hyps(1) by (simp add: outcome_of_def named_def)
  have "length (filter (\<lambda>v. vi_RuleName v = r_Name (rules ! i)) (ro_violations r))
      = (if unit_rule u = i then length (ro_violations r) else 0)"
  proof (cases "unit_rule u = i")
    case True
    then show ?thesis using names by (simp cong: filter_cong)
  next
    case False
    then have "r_Name (rules ! unit_rule u) \<noteq> r_Name (rules ! i)"
      using Cons.prems nth_eq_iff_index_eq [of "map r_Name rules" "unit_rule u" i] by simp
    then show ?thesis using names False by (simp add: filter_empty_conv)
  qed
  then show ?case using Cons.IH Cons.prems by simp
qed simp

lemma override_filter_length:
  "length (filter (\<lambda>v. P (vi_RuleName v)) (applyExecMessageOverrides memo vs)) = length (filter (\<lambda>v. P (vi_RuleName v)) vs)"
proof -
  have eq: "vi_RuleName (case me_overrides memo (vi_RuleName v) of
          Some msg \<Rightarrow> if msg \<noteq> [] then v\<lparr>vi_Message := msg\<rparr> else v | None \<Rightarrow> v) = vi_RuleName v" for v
    by (auto split: option.splits)
  show ?thesis unfolding applyExecMessageOverrides_def filter_map comp_def eq by simp
qed

lemma distinct_filter_key: "distinct (map fst xs) \<Longrightarrow> length (filter (\<lambda>x. fst x = k) xs) \<le> 1"
proof (induction xs)
  case (Cons x xs)
  have "filter (\<lambda>y. fst y = fst x) xs = []" using Cons.prems by (auto simp: filter_empty_conv rev_image_eqI)
  then show ?case using Cons by auto
qed simp

lemma fallbacks_per_rule:
  assumes "distinct (map fst s)" "\<And>k g. (k, g) \<in> set s \<Longrightarrow> k < length rules"
    "i < length rules" "distinct (map r_Name rules)"
  shows "length (filter (\<lambda>v. vi_RuleName v = r_Name (rules ! i)) (fallbacks senv f rules s))
         \<le> (if (i, True, 0) \<in> set s then 1 else 0)"
proof -
  let ?P = "\<lambda>(k, gate, n). gate \<and> n = (0::nat)"
  have "filter (\<lambda>v. vi_RuleName v = r_Name (rules ! i)) (fallbacks senv f rules s)
      = map (\<lambda>(k, g, n). conditionFallbackViolation senv f (rules ! k))
          (filter (\<lambda>x. fst x = i) (filter ?P s))"
  proof -
    have "r_Name (rules ! k) = r_Name (rules ! i) \<longleftrightarrow> k = i" if "(k, g) \<in> set s" for k g
      using assms(2) [OF that] assms(3,4) nth_eq_iff_index_eq [of "map r_Name rules" k i] by simp
    then have "filter ((\<lambda>v. vi_RuleName v = r_Name (rules ! i)) \<circ>
          (\<lambda>(k, g, n). conditionFallbackViolation senv f (rules ! k))) (filter ?P s)
        = filter (\<lambda>x. fst x = i) (filter ?P s)"
      by (intro filter_cong) (auto simp: split_beta)
    then show ?thesis by (simp add: fallbacks_def filter_map)
  qed
  moreover have "length (filter (\<lambda>x. fst x = i) (filter ?P s)) \<le> 1"
    using distinct_filter_key [of "filter ?P s" i] assms(1) by (simp add: distinct_map_filter)
  moreover have "(i, True, 0) \<in> set s" if "filter (\<lambda>x. fst x = i) (filter ?P s) \<noteq> []"
    using that by (auto simp: filter_empty_conv)
  ultimately show ?thesis by (cases "filter (\<lambda>x. fst x = i) (filter ?P s) = []") auto
qed

text \<open>C13. A rule reports at most fifty violations for an event: for a slice of rules with different
  names, whatever the payload and the world are, a rule without shell-write conditions contributes
  no more than the collection limit, the fallback included.\<close>

theorem violations_per_rule_bounded:
  assumes "i < length rules" "distinct (map r_Name rules)"
    and "\<not> list_ex shell_write (r_Conditions (rules ! i))"
  shows "int (length (filter (\<lambda>v. vi_RuleName v = r_Name (rules ! i))
           (er_violations (fst (evaluateAll env system eventName f rules getenv w)))))
         \<le> MaxCollectedMatchesPerEvaluation"
proof (cases "buildRuleRegexConditions rules system eventName getenv = []")
  case True
  then show ?thesis by (simp add: evaluateAll_def MaxCollectedMatchesPerEvaluation_def)
next
  case ne: False
  let ?us = "buildRuleRegexConditions rules system eventName getenv"
  let ?st0 = "runBatchInference env f rules system eventName getenv (initial_state system eventName w)"
  let ?Q = "\<lambda>v. vi_RuleName v = r_Name (rules ! i)"
  obtain results st where run: "orchestrator_Run env f rules ?us ?st0 = (results, st)" by fastforce
  have res: "list_all2 (\<lambda>u r. outcome_of rules u r \<and> shaped u r) ?us results"
    using Run_shaped [of rules ?us env f ?st0] run by simp
  have lt: "unit_rule u < length rules" if "u \<in> set ?us" for u using that by (simp add: build_units)
  let ?s = "fold note_outcome results []"
  have keys: "k < length rules" if kg: "(k, g) \<in> set ?s" for k g
  proof -
    obtain r where r: "r \<in> set results" "counts k r" using fold_note_entry [OF kg] by blast
    then obtain u where "u \<in> set ?us" "outcome_of rules u r" using list_all2_ex2 [OF res r(1)] by blast
    then show ?thesis using lt r(2) by (auto simp: outcome_of_def counts_def)
  qed
  have b0: "es_budgets ?st0 i = MaxCollectedMatchesPerEvaluation"
    by (simp add: runBatchInference_keeps_budgets initial_state_def newRuleMatchBudget_def MaxCollectedMatchesPerEvaluation_def maxInt32_def)
  have p: "int (produced i ?us results) \<le> MaxCollectedMatchesPerEvaluation"
    using produced_bounded [OF assms(1,3), of ?st0 system eventName getenv env f] run b0
    by (simp add: MaxCollectedMatchesPerEvaluation_def maxInt32_def)
  have zero: "produced i ?us results = 0" if f0: "(i, True, 0) \<in> set ?s"
  proof -
    have e: "(True, 0) = rule_state i results (False, 0)" "\<exists>r\<in>set results. counts i r"
      using fold_note_entry [OF f0] by auto
    obtain r where r: "r \<in> set results" "counts i r" using e(2) by blast
    then obtain u where u: "u \<in> set ?us" "outcome_of rules u r" "shaped u r"
      using list_all2_ex2 [OF res r(1)] by blast
    then have ui: "unit_rule u = i" "based u" using r(2) by (auto simp: outcome_of_def shaped_def counts_def)
    have "based v" if "v \<in> set ?us" "unit_rule v = i" for v
      using based_all ui u(1) that by (metis build_units)
    then show ?thesis using produced_zero [OF res] e(1) by (metis snd_conv)
  qed
  have fb: "length (filter ?Q (fallbacks (ge_shell env) f rules ?s)) \<le> (if (i, True, 0) \<in> set ?s then 1 else 0)"
    by (rule fallbacks_per_rule [OF _ keys assms(1,2)]) (simp_all add: fold_note_distinct)
  have "length (filter ?Q (aggregateResults (ge_shell env) f rules results (es_memo st)))
      \<le> produced i ?us results + (if (i, True, 0) \<in> set ?s then 1 else 0)"
    using produced_names [OF res lt assms(1,2)] fb
    by (simp add: aggregateResults_def override_filter_length [of "\<lambda>n. n = r_Name (rules ! i)"])
  also have "\<dots> \<le> 50"
    using p zero by (auto simp: MaxCollectedMatchesPerEvaluation_def)
  finally have agg: "length (filter ?Q (aggregateResults (ge_shell env) f rules results (es_memo st))) \<le> 50" .
  have "length (filter ?Q (filter R vs)) \<le> length (filter ?Q vs)" for R vs
    by (induction vs) auto
  then have "length (filter ?Q (er_violations (fst (evaluateAll env system eventName f rules getenv w)))) \<le> 50"
    unfolding evaluateAll_run [OF ne run] using agg le_trans by blast
  then show ?thesis by (simp add: MaxCollectedMatchesPerEvaluation_def)
qed

theorem violations_per_rule_bounded_witness:
  "int (length (filter (\<lambda>v. vi_RuleName v = r_Name ([demo_rule ''no-a'' ActionBlock [regex_condition [''a'']]] ! 0))
     (er_violations (fst (evaluateAll demo_env ''claude'' ''PreToolUse''
        (demo_fields (replicate 60 (CHR ''a'')) [] []) [demo_rule ''no-a'' ActionBlock [regex_condition [''a'']]] None ())))))
   \<le> MaxCollectedMatchesPerEvaluation"
  by (rule violations_per_rule_bounded) code_simp+

section \<open>Response rules\<close>

text \<open>Response rules shape the reply and never block: no violation that is reported bears the
  name of a response rule, every effect comes from a response rule of the slice, and an effect
  carries text exactly when its disposition says that it was applied; a rule whose validator errored
  contributes no text.\<close>

theorem response_effects_sound:
  "vi_RuleName ` set (er_violations (fst (evaluateAll env system eventName f rules getenv w)))
     \<inter> r_Name ` {r \<in> set rules. IsResponseAction r} = {}
   \<and> re_RuleName ` set (er_effects (fst (evaluateAll env system eventName f rules getenv w)))
     \<subseteq> r_Name ` {r \<in> set rules. IsResponseAction r}
   \<and> {e \<in> set (er_effects (fst (evaluateAll env system eventName f rules getenv w))). re_Output e \<noteq> []}
     = {e \<in> set (er_effects (fst (evaluateAll env system eventName f rules getenv w))).
          re_Disposition e = ResponseEffectApplied}"
proof (cases "buildRuleRegexConditions rules system eventName getenv = []")
  case True
  then show ?thesis by (simp add: evaluateAll_def)
next
  case ne: False
  obtain results st where run: "orchestrator_Run env f rules (buildRuleRegexConditions rules system eventName getenv)
      (runBatchInference env f rules system eventName getenv (initial_state system eventName w)) = (results, st)" by fastforce
  let ?agg = "aggregateResults (ge_shell env) f rules results (es_memo st)"
  have eff: "er_effects (fst (evaluateAll env system eventName f rules getenv w))
      = map (response_effect (es_memo st))
          (filter (\<lambda>r. r_Name r \<in> vi_RuleName ` set ?agg \<and> IsResponseAction r) rules)"
    using ne run by (simp add: evaluateAll_def Let_def responseEffectsFromMatches_def)
  have name: "re_RuleName (response_effect memo r) = r_Name r" for memo r
    by (simp add: response_effect_def Let_def)
  have out: "re_Output (response_effect memo r) \<noteq> [] \<longleftrightarrow> re_Disposition (response_effect memo r) = ResponseEffectApplied" for memo r
    by (simp add: response_effect_def Let_def ResponseEffectApplied_def ResponseEffectErroredNoOp_def
        ResponseEffectEmptyNoOp_def)
  show ?thesis
  proof (intro conjI)
    show "vi_RuleName ` set (er_violations (fst (evaluateAll env system eventName f rules getenv w)))
        \<inter> r_Name ` {r \<in> set rules. IsResponseAction r} = {}"
      unfolding evaluateAll_run [OF ne run] by (auto simp: list_ex_iff)
    show "re_RuleName ` set (er_effects (fst (evaluateAll env system eventName f rules getenv w)))
        \<subseteq> r_Name ` {r \<in> set rules. IsResponseAction r}"
    proof
      fix x
      assume "x \<in> re_RuleName ` set (er_effects (fst (evaluateAll env system eventName f rules getenv w)))"
      then obtain r where "r \<in> set rules" "IsResponseAction r" "x = r_Name r"
        unfolding eff by (auto simp: name)
      then show "x \<in> r_Name ` {r \<in> set rules. IsResponseAction r}" by blast
    qed
    show "{e \<in> set (er_effects (fst (evaluateAll env system eventName f rules getenv w))). re_Output e \<noteq> []}
        = {e \<in> set (er_effects (fst (evaluateAll env system eventName f rules getenv w))).
             re_Disposition e = ResponseEffectApplied}"
      unfolding eff using out by auto
  qed
qed

section \<open>Consequences of the code as written\<close>

text \<open>Matches are told apart by rule name only: a blocking rule alone reports a violation, and the same
  rule next to an inject rule with its name reports none.  This is why the daemon refuses
  configurations with repeated rule names (\<^verbatim>\<open>hook.ValidateConfig\<close>).\<close>

lemma shared_name_drops_block:
  "length (er_violations (fst (evaluateAll demo_env ''claude'' ''PreToolUse'' (demo_fields ''rm -rf x'' [] [])
      [demo_rule ''guard'' ActionBlock [regex_condition [''rm '']]] None ()))) = 1
   \<and> er_violations (fst (evaluateAll demo_env ''claude'' ''PreToolUse'' (demo_fields ''rm -rf x'' [] [])
      [demo_rule ''guard'' ActionBlock [regex_condition [''rm '']],
       demo_rule ''guard'' ActionInject [regex_condition [''ls'']]] None ())) = []"
  by (rule conjI; code_simp)

text \<open>
  A diff condition without pairs of its own, and a payload without batch edits: the condition looks
  at the text that an edit replaces and at the text that it puts in its place.
\<close>

definition single_edit :: "shell_env \<Rightarrow> FieldSet \<Rightarrow> Condition \<Rightarrow> bytes \<Rightarrow> bytes \<Rightarrow> nat \<Rightarrow> bool" where
  "single_edit senv f c old new g \<longleftrightarrow>
     conditionKind c = ConditionKindDiff \<and> c_fieldPairs c = [] \<and> c_compiled c \<noteq> None
     \<and> safeDiagnosticGroup (c_DiagnosticGroup c) = Some g
     \<and> FieldSet_String senv f FieldToolInputOldString = old
     \<and> FieldSet_String senv f FieldToolInputNewString = new \<and> new \<noteq> []
     \<and> FieldSet_String senv f FieldEditsNewString = []"

lemma single_edit_matches:
  assumes "single_edit senv f c old new g" "0 < limit"
  shows "diff_loop (plain_accessor senv f) (c_compiled c) g limit [default_pair] [] =
           map (\<lambda>ix. \<lparr>mr_FieldPath = ''tool_input.new_string'', mr_FilePath = FilePathValue f,
                      mr_Value = new, mr_Start = fst ix, mr_End = snd ix\<rparr>)
             (filter (\<lambda>ix. span_text new ix \<notin> captured (c_compiled c) old g)
                (take (nat limit) (spans (c_compiled c) new g)))"
proof -
  let ?fa = "plain_accessor senv f"
  have "EvalDiffMatches ?fa default_pair (c_compiled c) g limit =
      map (\<lambda>ix. \<lparr>mr_FieldPath = fp_NewPath default_pair, mr_FilePath = fa_FilePathValue ?fa,
                 mr_Value = new, mr_Start = fst ix, mr_End = snd ix\<rparr>)
        (filter (\<lambda>ix. span_text new ix \<notin> captured (c_compiled c) (fa_String ?fa (fp_OldField default_pair)) g)
           (take (nat limit) (spans (c_compiled c) new g)))"
    by (rule EvalDiffMatches_filter)
       (use assms in \<open>simp_all add: single_edit_def plain_accessor_def default_pair_def FieldToolInputNewString_def FieldSelectorInvalid_def\<close>)
  moreover have "EvalDiffMatches ?fa batch_pair (c_compiled c) g l = []" for l
    using assms(1) by (simp add: EvalDiffMatches_def single_edit_def plain_accessor_def batch_pair_def)
  ultimately show ?thesis
    using assms by (simp add: Let_def single_edit_def plain_accessor_def default_pair_def)
qed

lemma single_edit_condition:
  assumes "single_edit senv f c old new g" "0 < limit"
  shows "evalDiffCondition senv f c rule limit = matchesToViolations
     (map (\<lambda>ix. \<lparr>mr_FieldPath = ''tool_input.new_string'', mr_FilePath = FilePathValue f,
                mr_Value = new, mr_Start = fst ix, mr_End = snd ix\<rparr>)
       (filter (\<lambda>ix. span_text new ix \<notin> captured (c_compiled c) old g) (take (nat limit) (spans (c_compiled c) new g)))) rule"
proof -
  obtain re where "c_compiled c = Some re" using assms(1) by (auto simp: single_edit_def)
  then show ?thesis
    using single_edit_matches [OF assms] assms
    by (simp add: evalDiffCondition_def Let_def single_edit_def del: diff_loop.simps)
qed

lemma gate_of_first:
  assumes "single_edit senv f c old new g" "spans (c_compiled c) new g = ix # ixs"
    and "span_text new ix \<in> captured (c_compiled c) old g"
  shows "\<not> diffConditionGateMatch senv f c"
  using single_edit_condition [OF assms(1), of 1 blank_rule] assms
  by (simp add: diffConditionGateMatch_def matchesToViolations_def)

text \<open>C19. The gate of a diff condition overlooks additive text.  It asks for at most one match and takes the
  first occurrence in the new text, so when that one also occurs in the old text, the gate fails
  although a later occurrence (within the first fifty) is new, which the condition itself reports when
  it is asked for all matches.  A rule with such a condition then reports nothing.  The premises: the
  condition has no pairs of its own and the payload no batch edits; the names of the rules of the slice
  differ, and the rule has a condition block of the kinds that only look at the payload and the file
  system, enforces and applies to the event.\<close>

theorem diff_gate_misses_additive:
  assumes edit: "single_edit (ge_shell env) f c old new g"
    and old: "spans (c_compiled c) new g = first # rest" "span_text new first \<in> captured (c_compiled c) old g"
    and added: "ix \<in> set (take 49 rest)" "span_text new ix \<notin> captured (c_compiled c) old g"
    and rule: "i < length rules" "distinct (map r_Name rules)" "active system eventName getenv (rules ! i)"
      "condition_block (rules ! i)" "\<not> IsResponseAction (rules ! i)" "c \<in> set (r_Conditions (rules ! i))"
  shows "(\<exists>v \<in> set (evalDiffCondition (ge_shell env) f c (rules ! i) MaxCollectedMatchesPerEvaluation).
            vi_Value v = new \<and> (vi_Start v, vi_End v) = ix)
         \<and> r_Name (rules ! i) \<notin> vi_RuleName ` set (er_violations (fst (evaluateAll env system eventName f rules getenv w)))"
proof
  have "take 50 (spans (c_compiled c) new g) = first # take 49 rest" using old(1) by simp
  then have "ix \<in> set (filter (\<lambda>ix. span_text new ix \<notin> captured (c_compiled c) old g)
      (take (nat MaxCollectedMatchesPerEvaluation) (spans (c_compiled c) new g)))"
    using added by (simp add: MaxCollectedMatchesPerEvaluation_def)
  then show "\<exists>v \<in> set (evalDiffCondition (ge_shell env) f c (rules ! i) MaxCollectedMatchesPerEvaluation).
      vi_Value v = new \<and> (vi_Start v, vi_End v) = ix"
    unfolding single_edit_condition [OF edit, of MaxCollectedMatchesPerEvaluation, simplified MaxCollectedMatchesPerEvaluation_def, simplified]
      MaxCollectedMatchesPerEvaluation_def
    by (force simp: matchesToViolations_def match_violation_def)
next
  have "\<not> condition_holds env f cwds c" for cwds
    using gate_of_first [OF edit old] edit by (simp add: condition_holds_def Let_def single_edit_def kind_defs)
  then have "\<not> rule_matches env f (rules ! i)" using rule(6) by (auto simp: rule_matches_def list_all_iff)
  then show "r_Name (rules ! i) \<notin> vi_RuleName ` set (er_violations (fst (evaluateAll env system eventName f rules getenv w)))"
    using static_rule_fires [OF rule(1-5), of env f w] unfolding decides_def by blast
qed

definition diff_condition :: "bytes list \<Rightarrow> Condition" where
  "diff_condition ps = zero_Condition\<lparr>c_Kind := ConditionKindDiff, c_compiled := Some (literal_regex ps)\<rparr>"

theorem diff_gate_misses_additive_witness:
  "evalDiffCondition demo_shell (demo_fields [] ''foo'' ''foo bar'') (diff_condition [''foo'', ''bar''])
      (demo_rule ''edit'' ActionBlock [diff_condition [''foo'', ''bar'']]) MaxCollectedMatchesPerEvaluation \<noteq> []
   \<and> ''edit'' \<notin> vi_RuleName ` set (er_violations (fst (evaluateAll demo_env ''claude'' ''PreToolUse''
        (demo_fields [] ''foo'' ''foo bar'') [demo_rule ''edit'' ActionBlock [diff_condition [''foo'', ''bar'']]] None ())))"
proof -
  let ?c = "diff_condition [''foo'', ''bar'']" and ?f = "demo_fields [] ''foo'' ''foo bar''"
  let ?rules = "[demo_rule ''edit'' ActionBlock [?c]]"
  have shell: "ge_shell demo_env = demo_shell" by (simp add: demo_env_def)
  have "(\<exists>v \<in> set (evalDiffCondition (ge_shell demo_env) ?f ?c (?rules ! 0) MaxCollectedMatchesPerEvaluation).
            vi_Value v = ''foo bar'' \<and> (vi_Start v, vi_End v) = (4, 7))
      \<and> r_Name (?rules ! 0) \<notin> vi_RuleName ` set (er_violations (fst (evaluateAll demo_env ''claude'' ''PreToolUse'' ?f ?rules None ())))"
  proof (rule diff_gate_misses_additive)
    have compiled: "c_compiled ?c = Some (literal_regex [''foo'', ''bar''])" by (simp add: diff_condition_def)
    show "single_edit (ge_shell demo_env) ?f ?c ''foo'' ''foo bar'' 0"
      unfolding single_edit_def shell compiled by (intro conjI) (simp | code_simp)+
    show "spans (c_compiled ?c) ''foo bar'' 0 = (0, 3) # [(4, 7)]" unfolding compiled by code_simp
    show "span_text ''foo bar'' (0, 3) \<in> captured (c_compiled ?c) ''foo'' 0" unfolding compiled by code_simp
    show "span_text ''foo bar'' (4, 7) \<notin> captured (c_compiled ?c) ''foo'' 0" unfolding compiled by code_simp
    show "active ''claude'' ''PreToolUse'' None (?rules ! 0)" by code_simp
    show "condition_block (?rules ! 0)" by code_simp
    show "\<not> IsResponseAction (?rules ! 0)" by code_simp
    show "?c \<in> set (r_Conditions (?rules ! 0))" by (simp add: demo_rule_def)
  qed simp_all
  moreover have "r_Name (?rules ! 0) = ''edit''" by code_simp
  ultimately show ?thesis by (auto simp: shell)
qed

definition many_writes :: "unit gate_env" where
  "many_writes = demo_env\<lparr>ge_shell := demo_shell\<lparr>sa_ExtractWriteTargets := (\<lambda>c d s.
     map (\<lambda>n. \<lparr>wt_Path = ''/x'', wt_Tool = ''tee'', wt_Reason = ReasonOK, wt_Raw = []\<rparr>) [0..<60])\<rparr>\<rparr>"

text \<open>The matches of a shell-write condition are not limited: sixty write targets give sixty
  violations, although the collection limit is documented as a bound per rule.\<close>

theorem shell_write_matches_unlimited:
  "length (er_violations (fst (evaluateAll many_writes ''claude'' ''PreToolUse''
      (demo_fields ''tee x'' [] [])
      [demo_rule ''writes'' ActionBlock [zero_Condition\<lparr>c_Kind := ConditionKindShellWrite, c_Globs := [''/x'']\<rparr>]] None ()))) = 60
   \<and> MaxCollectedMatchesPerEvaluation < 60"
  by (intro conjI; code_simp)

section \<open>The memo of an event\<close>

lemma memo_record_verdict: "me_verdicts (memo_record m c n v) = (me_verdicts m)(c \<mapsto> v)"
  by (simp add: memo_record_def Let_def)

lemma gate_keeps_verdict:
  "me_verdicts (es_memo st) cid = Some v \<Longrightarrow>
   me_verdicts (es_memo (snd (conditionGateMatches env f i rule j c cwds st))) cid = Some v"
  by (auto simp: conditionGateMatches_def on_world_def execConditionGateMatch_def memo_record_verdict Let_def
      split: prod.splits option.splits)

lemma gate_loop_keeps_verdict:
  "me_verdicts (es_memo st) cid = Some v \<Longrightarrow>
   me_verdicts (es_memo (snd (gate_loop env f i rule cwds j cs st))) cid = Some v"
proof (induction cs arbitrary: j st)
  case (Cons c cs)
  obtain ok st1 where g: "conditionGateMatches env f i rule j c cwds st = (ok, st1)" by fastforce
  then have "me_verdicts (es_memo st1) cid = Some v" using gate_keeps_verdict [OF Cons.prems] by (metis snd_conv)
  then show ?case using Cons g by (simp add: Let_def)
qed simp

lemma all_keeps_verdict:
  "me_verdicts (es_memo st) cid = Some v \<Longrightarrow>
   me_verdicts (es_memo (snd (allConditionsMatch env f i rule conditions st))) cid = Some v"
  by (simp add: allConditionsMatch_def gate_loop_keeps_verdict split: option.splits)

lemma Execute_keeps_verdict:
  assumes "me_verdicts (es_memo st) cid = Some v"
  shows "me_verdicts (es_memo (snd (Execute env f rules u st))) cid = Some v"
proof (cases u)
  case (evalMatrixCondition i)
  then show ?thesis
    using all_keeps_verdict [OF assms, of env f i "rules ! i" "r_Conditions (rules ! i)"]
    by (auto simp: execute_matrix_def Let_def split: prod.splits)
next
  case (ruleRegexCondition i k)
  then show ?thesis
    using all_keeps_verdict [OF assms, of env f i "rules ! i" "r_Conditions (rules ! i)"] assms
    by (auto simp: simpleOutcome_def execute_condition_def consume_budget_def Let_def split: prod.splits)
qed

lemma Run_keeps_verdict:
  "me_verdicts (es_memo st) cid = Some v \<Longrightarrow>
   me_verdicts (es_memo (snd (orchestrator_Run env f rules us st))) cid = Some v"
proof (induction us arbitrary: st)
  case (Cons u us)
  obtain r st1 where e: "Execute env f rules u st = (r, st1)" by fastforce
  then have "me_verdicts (es_memo st1) cid = Some v" using Execute_keeps_verdict [OF Cons.prems] by (metis snd_conv)
  moreover obtain rs st2 where "orchestrator_Run env f rules us st1 = (rs, st2)" by fastforce
  ultimately show ?case using Cons.IH [of st1] e by simp
qed simp

text \<open>C14. A validator decides once per event: after the exec condition of a rule has been evaluated,
  however many units run afterwards, evaluating it again gives the same answer and starts nothing.\<close>

theorem validator_runs_once_per_event:
  assumes "execConditionGateMatch env f i rule j c st = (b, st1)"
    "orchestrator_Run env f rules us st1 = (rs, st2)"
  shows "execConditionGateMatch env f i rule j c st2 = (b, st2)"
proof -
  obtain v where v: "me_verdicts (es_memo st1) (i, j) = Some v" "vd_Block v = b"
    using assms(1)
    by (auto simp: execConditionGateMatch_def memo_record_verdict Let_def split: option.splits prod.splits)
  then have "me_verdicts (es_memo st2) (i, j) = Some v"
    using Run_keeps_verdict [OF v(1), of env f rules us] assms(2) by simp
  then show ?thesis using v(2) by (simp add: execConditionGateMatch_def)
qed

theorem validator_runs_once_per_event_witness:
  "execConditionGateMatch demo_env (demo_fields ''ls'' [] []) 0 zero_Rule 0 zero_Condition
     (snd (execConditionGateMatch demo_env (demo_fields ''ls'' [] []) 0 zero_Rule 0 zero_Condition
             (initial_state ''claude'' ''PreToolUse'' ())))
   = (False, snd (execConditionGateMatch demo_env (demo_fields ''ls'' [] []) 0 zero_Rule 0 zero_Condition
             (initial_state ''claude'' ''PreToolUse'' ())))"
proof (rule validator_runs_once_per_event [where us = "[]" and rs = "[]" and rules = "[]"])
  let ?g = "execConditionGateMatch demo_env (demo_fields ''ls'' [] []) 0 zero_Rule 0 zero_Condition
             (initial_state ''claude'' ''PreToolUse'' ())"
  show "?g = (False, snd ?g)"
    by (simp add: execConditionGateMatch_def initial_state_def newExecEventMemo_def demo_env_def zero_verdict_def)
  show "orchestrator_Run demo_env (demo_fields ''ls'' [] []) [] [] (snd ?g) = ([], snd ?g)" by simp
qed

end
