(* ===== verification/GitState.thy ===== *)
theory GitState
  imports CommandCond
begin

text \<open>
  Repository state (\<^verbatim>\<open>internal/gitbranch\<close>): the worktrees of a repository and their branches, read
  from the file system and from the reference storer of \<^verbatim>\<open>go-git\<close>.  The record \<open>git_fs\<close> holds what
  the package reads: \<^verbatim>\<open>os.Stat\<close> (whether an existing path is a directory), \<^verbatim>\<open>os.ReadFile\<close>,
  \<^verbatim>\<open>os.ReadDir\<close>, \<^verbatim>\<open>filepath.EvalSymlinks\<close>, the working directory and the storer.
\<close>

section \<open>The file system and the storer\<close>

datatype 'a io = IoOk 'a | IoNotExist | IoError

datatype git_reference = SymbolicReference bytes | HashReference

record git_storer =
  gs_Reference :: "bytes \<Rightarrow> git_reference option"
  gs_IterReferences :: "bytes list option"

record git_fs =
  gf_Stat :: "bytes \<Rightarrow> bool io"
  gf_ReadFile :: "bytes \<Rightarrow> bytes io"
  gf_ReadDir :: "bytes \<Rightarrow> (bytes \<times> bool) list io"
  gf_EvalSymlinks :: "bytes \<Rightarrow> bytes option"
  gf_Getwd :: "bytes option"
  gf_storer :: "bytes \<Rightarrow> bytes option \<Rightarrow> git_storer"

record Worktree =
  wk_Path :: bytes
  wk_Branch :: bytes
  wk_IsPrimary :: bool

record State =
  st_PrimaryCheckout :: bytes
  st_DefaultBranch :: bytes
  st_CurrentWorktree :: bytes
  st_CurrentBranch :: bytes
  st_LocalBranches :: "bytes list"
  st_Worktrees :: "Worktree list"

definition exists_io :: "'a io \<Rightarrow> bool" where
  "exists_io r = (case r of IoOk a \<Rightarrow> True | _ \<Rightarrow> False)"

text \<open>\<^verbatim>\<open>strings.CutPrefix\<close>.\<close>

definition CutPrefix :: "bytes \<Rightarrow> bytes \<Rightarrow> bytes option" where
  "CutPrefix s p = (if HasPrefix s p then Some (drop (length p) s) else None)"

lemma CutPrefix_append [simp]: "CutPrefix (p @ s) p = Some s"
  by (simp add: CutPrefix_def)

section \<open>Walking up a path\<close>

text \<open>The directories at and above a path, up to one that \<open>found\<close> accepts or the last one.\<close>

definition unclean :: "bytes \<Rightarrow> nat" where
  "unclean dir = (if dir \<in> range Clean then 0 else 1)"

lemma climb_terminates:
  "path_Dir dir \<noteq> dir \<Longrightarrow>
   unclean (path_Dir dir) < unclean dir
   \<or> unclean (path_Dir dir) = unclean dir \<and> climb_measure (path_Dir dir) < climb_measure dir"
  using path_Dir_decreases [of dir] path_Dir_Clean [of dir] by (auto simp: unclean_def)

function climb_to :: "(bytes \<Rightarrow> bool) \<Rightarrow> bytes \<Rightarrow> bytes" where
  "climb_to found dir = (if found dir \<or> path_Dir dir = dir then dir else climb_to found (path_Dir dir))"
  by pat_completeness auto
termination
  by (relation "measures [\<lambda>(found, dir). unclean dir, \<lambda>(found, dir). climb_measure dir]")
     (auto dest!: climb_terminates)

declare climb_to.simps [simp del]

function state_path_loop :: "(bytes \<Rightarrow> bytes option) \<Rightarrow> bytes \<Rightarrow> bytes \<Rightarrow> bytes list \<Rightarrow> bytes" where
  "state_path_loop evalSymlinks cleaned current remaining =
     (case evalSymlinks current of
        Some resolved \<Rightarrow> path_Join (resolved # remaining)
      | None \<Rightarrow>
          let parent = path_Dir current in
          if parent = current then Clean cleaned
          else state_path_loop evalSymlinks cleaned parent (path_Base current # remaining))"
  by pat_completeness auto
termination
  by (relation "measures [\<lambda>(e, c, dir, r). unclean dir, \<lambda>(e, c, dir, r). climb_measure dir]")
     (auto dest!: climb_terminates)

declare state_path_loop.simps [simp del]

text \<open>\<^verbatim>\<open>filepath.Abs\<close>.\<close>

definition path_Abs :: "git_fs \<Rightarrow> bytes \<Rightarrow> bytes option" where
  "path_Abs fs path =
     (if IsAbs path then Some (Clean path)
      else map_option (\<lambda>wd. path_Join [wd, path]) (gf_Getwd fs))"

definition cleanStatePath :: "git_fs \<Rightarrow> bytes \<Rightarrow> bytes" where
  "cleanStatePath fs path =
     (if path = [] then []
      else case path_Abs fs path of
             None \<Rightarrow> Clean path
           | Some cleaned \<Rightarrow> state_path_loop (gf_EvalSymlinks fs) cleaned cleaned [])"

definition nearestExistingDir :: "git_fs \<Rightarrow> bytes \<Rightarrow> bytes" where
  "nearestExistingDir fs path =
     (if path = [] then []
      else let current = climb_to (\<lambda>d. exists_io (gf_Stat fs d)) path in
           case gf_Stat fs current of
             IoOk isDir \<Rightarrow> if isDir then current else path_Dir current
           | _ \<Rightarrow> [])"

section \<open>Reading the state\<close>

definition openStorer :: "git_fs \<Rightarrow> bytes \<Rightarrow> bytes \<Rightarrow> git_storer" where
  "openStorer fs gitDir commonDir =
     (if commonDir \<noteq> [] \<and> cleanStatePath fs commonDir \<noteq> cleanStatePath fs gitDir
      then gf_storer fs gitDir (Some commonDir) else gf_storer fs gitDir None)"

definition branch_prefix :: bytes where "branch_prefix = ''refs/heads/''"

text \<open>\<^verbatim>\<open>ReferenceName.IsBranch\<close> and \<^verbatim>\<open>Short\<close> of a branch name.\<close>

definition headBranch :: "git_storer \<Rightarrow> bytes" where
  "headBranch storer =
     (case gs_Reference storer ''HEAD'' of
        Some (SymbolicReference target) \<Rightarrow>
          (case CutPrefix target branch_prefix of Some name \<Rightarrow> name | None \<Rightarrow> [])
      | _ \<Rightarrow> [])"

definition defaultBranchNames :: "bytes list" where
  "defaultBranchNames = [''main'', ''master'', ''trunk'']"

definition originHeadRef :: bytes where
  "originHeadRef = ''refs/remotes/origin/HEAD''"

definition origin_head :: "git_storer \<Rightarrow> bytes" where
  "origin_head storer =
     (case gs_Reference storer originHeadRef of
        Some (SymbolicReference target) \<Rightarrow>
          (case CutPrefix target ''refs/remotes/origin/'' of Some name \<Rightarrow> name | None \<Rightarrow> [])
      | _ \<Rightarrow> [])"

definition resolveDefaultBranch :: "git_storer \<Rightarrow> bytes" where
  "resolveDefaultBranch storer =
     (if origin_head storer \<noteq> [] then origin_head storer
      else case find (\<lambda>name. gs_Reference storer (branch_prefix @ name) \<noteq> None) defaultBranchNames of
             Some name \<Rightarrow> name
           | None \<Rightarrow> [])"

definition readGitDirFile :: "git_fs \<Rightarrow> bytes \<Rightarrow> bytes go_result" where
  "readGitDirFile fs path =
     (case gf_ReadFile fs path of
        IoOk content \<Rightarrow>
          (case CutPrefix (TrimSpace content) ''gitdir:'' of
             None \<Rightarrow> Inl ''invalid gitdir file''
           | Some v \<Rightarrow>
               let value = TrimSpace v in
               Inr (Clean (if \<not> IsAbs value then path_Join [path_Dir path, value] else value)))
      | _ \<Rightarrow> Inl ''read gitdir file'')"

definition findWorktreeRoot :: "git_fs \<Rightarrow> bytes \<Rightarrow> (bytes \<times> bytes) go_result" where
  "findWorktreeRoot fs start =
     (let current = climb_to (\<lambda>d. exists_io (gf_Stat fs (path_Join [d, ''.git'']))) (Clean start);
          dotGit = path_Join [current, ''.git''] in
      case gf_Stat fs dotGit of
        IoOk isDir \<Rightarrow>
          if isDir then Inr (cleanStatePath fs current, dotGit)
          else bindE (readGitDirFile fs dotGit) (\<lambda>gitDir. Inr (cleanStatePath fs current, gitDir))
      | _ \<Rightarrow> Inl ''repository metadata not found'')"

definition resolveCommonDir :: "git_fs \<Rightarrow> bytes \<Rightarrow> bytes go_result" where
  "resolveCommonDir fs gitDir =
     (case gf_ReadFile fs (path_Join [gitDir, ''commondir'']) of
        IoNotExist \<Rightarrow> Inr (Clean gitDir)
      | IoError \<Rightarrow> Inl ''read commondir''
      | IoOk content \<Rightarrow>
          let commonDir = TrimSpace content in
          Inr (Clean (if \<not> IsAbs commonDir then path_Join [gitDir, commonDir] else commonDir)))"

text \<open>\<^verbatim>\<open>bufio.Scanner\<close> reports an error for a line that does not fit its buffer.\<close>

definition MaxScanTokenSize :: nat where "MaxScanTokenSize = 65536"

definition git_firstLine :: "git_fs \<Rightarrow> bytes \<Rightarrow> bytes go_result" where
  "git_firstLine fs path =
     (case gf_ReadFile fs path of
        IoOk content \<Rightarrow>
          let line = takeWhile (\<lambda>c. c \<noteq> newline) content in
          if content = [] then Inl ''metadata file is empty''
          else if length line \<ge> MaxScanTokenSize then Inl ''token too long''
          else Inr (TrimSpace line)
      | _ \<Rightarrow> Inl ''open'')"

definition readWorktreeBranch :: "git_fs \<Rightarrow> bytes \<Rightarrow> bytes go_result" where
  "readWorktreeBranch fs adminDir =
     bindE (git_firstLine fs (path_Join [adminDir, ''HEAD''])) (\<lambda>head.
       Inr (case CutPrefix head ''ref: refs/heads/'' of Some branch \<Rightarrow> branch | None \<Rightarrow> []))"

text \<open>The worktrees of the entries; an unreadable or vanished one is skipped.\<close>

fun linked_worktrees :: "git_fs \<Rightarrow> bytes \<Rightarrow> (bytes \<times> bool) list \<Rightarrow> Worktree list go_result" where
  "linked_worktrees fs commonDir [] = Inr []"
| "linked_worktrees fs commonDir ((name, isDir) # es) =
     (if \<not> isDir then linked_worktrees fs commonDir es
      else let adminDir = path_Join [commonDir, ''worktrees'', name] in
           case git_firstLine fs (path_Join [adminDir, ''gitdir'']) of
             Inl err \<Rightarrow> linked_worktrees fs commonDir es
           | Inr p \<Rightarrow>
               let linkedPath = path_Dir (if \<not> IsAbs p then path_Join [adminDir, p] else p) in
               (case gf_Stat fs linkedPath of
                  IoNotExist \<Rightarrow> linked_worktrees fs commonDir es
                | IoError \<Rightarrow> Inl ''stat linked worktree''
                | IoOk d \<Rightarrow>
                    (case readWorktreeBranch fs adminDir of
                       Inl err \<Rightarrow> linked_worktrees fs commonDir es
                     | Inr branch \<Rightarrow>
                         bindE (linked_worktrees fs commonDir es) (\<lambda>rest.
                           Inr (\<lparr>wk_Path = cleanStatePath fs linkedPath, wk_Branch = branch,
                                 wk_IsPrimary = False\<rparr> # rest)))))"

definition readWorktrees :: "git_fs \<Rightarrow> bytes \<Rightarrow> bytes \<Rightarrow> Worktree list go_result" where
  "readWorktrees fs primaryCheckout commonDir =
     (let primary = \<lparr>wk_Path = cleanStatePath fs primaryCheckout,
                     wk_Branch = headBranch (openStorer fs commonDir commonDir), wk_IsPrimary = True\<rparr> in
      case gf_ReadDir fs (path_Join [commonDir, ''worktrees'']) of
        IoNotExist \<Rightarrow> Inr [primary]
      | IoError \<Rightarrow> Inl ''read worktrees''
      | IoOk es \<Rightarrow> bindE (linked_worktrees fs commonDir es) (\<lambda>linked. Inr (primary # linked)))"

definition readLocalBranches :: "git_storer \<Rightarrow> bytes list go_result" where
  "readLocalBranches storer =
     (case gs_IterReferences storer of
        None \<Rightarrow> Inl ''read local branches''
      | Some names \<Rightarrow> Inr (sort (remdups (List.map_filter (\<lambda>name. CutPrefix name branch_prefix) names))))"

definition ReadState :: "git_fs \<Rightarrow> bytes \<Rightarrow> State go_result" where
  "ReadState fs path =
     (let start = nearestExistingDir fs path in
      if start = [] then Inl ''no existing ancestor''
      else bindE (findWorktreeRoot fs start) (\<lambda>(currentWorktree, gitDir).
           bindE (resolveCommonDir fs gitDir) (\<lambda>commonDir.
           let primaryCheckout = cleanStatePath fs (path_Dir commonDir) in
           bindE (readWorktrees fs primaryCheckout commonDir) (\<lambda>worktrees.
           let storer = openStorer fs gitDir commonDir in
           bindE (readLocalBranches storer) (\<lambda>localBranches.
           Inr \<lparr>st_PrimaryCheckout = primaryCheckout, st_DefaultBranch = resolveDefaultBranch storer,
                st_CurrentWorktree = currentWorktree, st_CurrentBranch = headBranch storer,
                st_LocalBranches = localBranches, st_Worktrees = worktrees\<rparr>)))))"

section \<open>Questions about the state\<close>

definition inside :: "git_fs \<Rightarrow> bytes \<Rightarrow> Worktree \<Rightarrow> bool" where
  "inside fs candidate w \<longleftrightarrow>
     (let rootDir = cleanStatePath fs (wk_Path w) in
      rootDir \<noteq> [] \<and> (candidate = rootDir \<or> HasPrefix candidate (rootDir @ ''/'')))"

fun best_worktree :: "git_fs \<Rightarrow> bytes \<Rightarrow> Worktree option \<Rightarrow> Worktree list \<Rightarrow> Worktree option" where
  "best_worktree fs candidate best [] = best"
| "best_worktree fs candidate best (w # ws) =
     (if inside fs candidate w
         \<and> (case best of None \<Rightarrow> True | Some b \<Rightarrow> length (wk_Path b) < length (wk_Path w))
      then best_worktree fs candidate (Some w) ws
      else best_worktree fs candidate best ws)"

definition WorktreeForPath :: "git_fs \<Rightarrow> State \<Rightarrow> bytes \<Rightarrow> Worktree option" where
  "WorktreeForPath fs state path = best_worktree fs (cleanStatePath fs path) None (st_Worktrees state)"

definition IsPrimaryCheckout :: "git_fs \<Rightarrow> State \<Rightarrow> bytes \<Rightarrow> bool" where
  "IsPrimaryCheckout fs state path =
     (case WorktreeForPath fs state path of Some w \<Rightarrow> wk_IsPrimary w | None \<Rightarrow> False)"

definition IsDefaultBranchWorktree :: "git_fs \<Rightarrow> State \<Rightarrow> bytes \<Rightarrow> bool" where
  "IsDefaultBranchWorktree fs state path =
     (case WorktreeForPath fs state path of
        Some w \<Rightarrow> st_DefaultBranch state \<noteq> [] \<and> wk_Branch w = st_DefaultBranch state
      | None \<Rightarrow> False)"

definition BranchCheckedOutElsewhere :: "git_fs \<Rightarrow> State \<Rightarrow> bytes \<Rightarrow> bytes \<Rightarrow> bool" where
  "BranchCheckedOutElsewhere fs state currentPath branch =
     (let current = (case WorktreeForPath fs state currentPath of Some w \<Rightarrow> wk_Path w | None \<Rightarrow> []) in
      list_ex (\<lambda>w. wk_Branch w = branch \<and> cleanStatePath fs (wk_Path w) \<noteq> cleanStatePath fs current)
        (st_Worktrees state))"

end
