(* ===== verification/GitConditions.thy ===== *)
theory GitConditions
  imports GitState Engine
begin

text \<open>
  Conditions on git repositories (\<^verbatim>\<open>internal/rules/engine_gitbranch.go\<close>,
  \<^verbatim>\<open>engine_gitbranch_reset.go\<close>, \<^verbatim>\<open>engine_git_global_options.go\<close>): which repositories an event acts on,
  and which local branches a git command moves.  A loop over indices that may skip the next word
  is a recursion on the remaining words; a parser that gives up returns \<^term>\<open>None\<close>.  The reader of
  repository states is an argument, \<^term>\<open>ReadState\<close> in production.
\<close>

section \<open>Constants\<close>

definition gitAllBranchesTarget :: bytes where "gitAllBranchesTarget = CHR 0x00 # ''all-local-branches''"
definition gitCurrentBranchTarget :: bytes where "gitCurrentBranchTarget = CHR 0x00 # ''current-branch''"
definition gitMirrorBranchesTarget :: bytes where "gitMirrorBranchesTarget = CHR 0x00 # ''mirror-local-branches''"

datatype pushBooleanEffect =
    pushEffectNone | pushEffectAllBranches | pushEffectDelete | pushEffectDryRun | pushEffectMirror | pushEffectTags

datatype branchMoveMode = branchMoveNone | branchMoveForce | branchMoveDelete | branchMoveRename | branchMoveCopy

record pushBooleanOption =
  pb_longName :: bytes
  pb_shortName :: char
  pb_negatable :: bool
  pb_effect :: pushBooleanEffect

record pushValueOption =
  pvo_longName :: bytes
  pvo_shortName :: char
  pvo_allowBare :: bool
  pvo_allowSeparate :: bool
  pvo_allowInline :: bool
  pvo_negatable :: bool
  pvo_allowedValues :: "bytes list"

definition bool_option :: "bytes \<Rightarrow> char \<Rightarrow> bool \<Rightarrow> pushBooleanEffect \<Rightarrow> pushBooleanOption" where
  "bool_option name short negatable effect =
     \<lparr>pb_longName = name, pb_shortName = short, pb_negatable = negatable, pb_effect = effect\<rparr>"

definition pushBooleanOptions :: "pushBooleanOption list" where
  "pushBooleanOptions =
     [bool_option ''all'' (CHR 0x00) True pushEffectAllBranches,
      bool_option ''atomic'' (CHR 0x00) True pushEffectNone,
      bool_option ''branches'' (CHR 0x00) True pushEffectAllBranches,
      bool_option ''delete'' (CHR ''d'') True pushEffectDelete,
      bool_option ''dry-run'' (CHR ''n'') True pushEffectDryRun,
      bool_option ''follow-tags'' (CHR 0x00) True pushEffectNone,
      bool_option ''force'' (CHR ''f'') True pushEffectNone,
      bool_option ''force-if-includes'' (CHR 0x00) True pushEffectNone,
      bool_option ''ipv4'' (CHR ''4'') False pushEffectNone,
      bool_option ''ipv6'' (CHR ''6'') False pushEffectNone,
      bool_option ''mirror'' (CHR 0x00) True pushEffectMirror,
      bool_option ''porcelain'' (CHR 0x00) True pushEffectNone,
      bool_option ''progress'' (CHR 0x00) True pushEffectNone,
      bool_option ''prune'' (CHR 0x00) True pushEffectNone,
      bool_option ''quiet'' (CHR ''q'') True pushEffectNone,
      bool_option ''set-upstream'' (CHR ''u'') True pushEffectNone,
      bool_option ''tags'' (CHR 0x00) True pushEffectTags,
      bool_option ''thin'' (CHR 0x00) True pushEffectNone,
      bool_option ''verbose'' (CHR ''v'') True pushEffectNone,
      bool_option ''verify'' (CHR 0x00) True pushEffectNone]"

definition value_option ::
  "bytes \<Rightarrow> char \<Rightarrow> bool \<Rightarrow> bool \<Rightarrow> bool \<Rightarrow> bool \<Rightarrow> bytes list \<Rightarrow> pushValueOption" where
  "value_option name short bare separate inline negatable allowed =
     \<lparr>pvo_longName = name, pvo_shortName = short, pvo_allowBare = bare, pvo_allowSeparate = separate,
      pvo_allowInline = inline, pvo_negatable = negatable, pvo_allowedValues = allowed\<rparr>"

definition pushValueOptions :: "pushValueOption list" where
  "pushValueOptions =
     [value_option ''exec'' (CHR 0x00) False True True False [],
      value_option ''force-with-lease'' (CHR 0x00) True False True True [],
      value_option ''push-option'' (CHR ''o'') False True True False [],
      value_option ''receive-pack'' (CHR 0x00) False True True False [],
      value_option ''recurse-submodules'' (CHR 0x00) False True True True [''check'', ''on-demand'', ''no''],
      value_option ''signed'' (CHR 0x00) True False True True [''yes'', ''no'', ''if-asked'']]"

section \<open>Options before the subcommand\<close>

definition gitContinuingGlobalOptions :: "bytes list" where
  "gitContinuingGlobalOptions =
     [''-p'', ''--paginate'', ''-P'', ''--no-pager'', ''--no-replace-objects'', ''--no-lazy-fetch'',
      ''--no-optional-locks'', ''--no-advice'', ''--bare'', ''--literal-pathspecs'', ''--glob-pathspecs'',
      ''--noglob-pathspecs'', ''--icase-pathspecs'']"

definition gitTerminalGlobalOptions :: "bytes list" where
  "gitTerminalGlobalOptions =
     [''-v'', ''--version'', ''-h'', ''--help'', ''--html-path'', ''--man-path'', ''--info-path'', ''--exec-path'']"

definition gitRequiredValueGlobalOptions :: "bytes list" where
  "gitRequiredValueGlobalOptions = [''--namespace'', ''--super-prefix'', ''--config-env'', ''--attr-source'']"

text \<open>
  What the word at the head of the remaining words is: not an option, an option that ends the
  parse, or an option that uses the given number of further words.
\<close>

datatype consumed = NotOption | Invalid | Skip nat

definition separate_value :: "Word list \<Rightarrow> bool" where
  "separate_value rest \<longleftrightarrow> (case rest of [] \<Rightarrow> False | v # _ \<Rightarrow> wd_Resolvable v \<and> wd_Value v \<noteq> [])"

definition consumeSeparateGitGlobalValue :: "Word list \<Rightarrow> consumed" where
  "consumeSeparateGitGlobalValue rest = (if separate_value rest then Skip 1 else Invalid)"

fun required_value_option :: "bytes \<Rightarrow> Word list \<Rightarrow> bytes list \<Rightarrow> consumed" where
  "required_value_option v rest [] = (if HasPrefix v ''-'' then Invalid else NotOption)"
| "required_value_option v rest (name # names) =
     (if v = name then consumeSeparateGitGlobalValue rest
      else case CutPrefix v (name @ ''='') of
             Some inlineValue \<Rightarrow> if inlineValue \<noteq> [] then Skip 0 else Invalid
           | None \<Rightarrow> required_value_option v rest names)"

definition consumeGitGlobalOption :: "bytes \<Rightarrow> Word list \<Rightarrow> consumed" where
  "consumeGitGlobalOption v rest =
     (if v \<in> set gitContinuingGlobalOptions then Skip 0
      else if v \<in> set gitTerminalGlobalOptions then Invalid
      else case CutPrefix v ''--exec-path='' of
             Some inlineValue \<Rightarrow> if inlineValue \<noteq> [] then Skip 0 else Invalid
           | None \<Rightarrow>
               if v = ''-c'' then consumeSeparateGitGlobalValue rest
               else required_value_option v rest gitRequiredValueGlobalOptions)"

text \<open>\<^verbatim>\<open>Some None\<close> is a repository flag without a usable value; the number is the further words used.\<close>

fun repository_flag :: "bytes \<Rightarrow> Word list \<Rightarrow> bytes list \<Rightarrow> (bytes \<times> bytes \<times> nat) option option" where
  "repository_flag v rest [] = None"
| "repository_flag v rest (name # names) =
     (if v = name then
        (if separate_value rest then Some (Some (name, wd_Value (hd rest), 1)) else Some None)
      else case CutPrefix v (name @ ''='') of
             Some inlineValue \<Rightarrow> if inlineValue \<noteq> [] then Some (Some (name, inlineValue, 0)) else Some None
           | None \<Rightarrow> repository_flag v rest names)"

definition gitRepositoryFlag :: "bytes \<Rightarrow> Word list \<Rightarrow> (bytes \<times> bytes \<times> nat) option option" where
  "gitRepositoryFlag v rest = repository_flag v rest [''--git-dir'', ''--work-tree'']"

definition gitDirectoryStatePath :: "bytes \<Rightarrow> bytes" where
  "gitDirectoryStatePath path = (if path_Base path = ''.git'' then path_Dir path else path)"

record invocation =
  iv_subcommand :: bytes
  iv_args :: "Word list"
  iv_currentPath :: bytes
  iv_statePath :: bytes

function invocation_loop ::
  "bytes option \<Rightarrow> bytes \<Rightarrow> bytes \<Rightarrow> bytes \<Rightarrow> bool \<Rightarrow> Word list \<Rightarrow> invocation option" where
  "invocation_loop home cwd currentPath statePath explicitState [] = None"
| "invocation_loop home cwd currentPath statePath explicitState (word # rest) =
     (if \<not> wd_Resolvable word then None
      else if wd_Value word = ''-C'' then
        (if \<not> separate_value rest then None
         else let cwd' = resolvePath home cwd (wd_Value (hd rest)) in
              invocation_loop home cwd' cwd' (if explicitState then statePath else cwd') explicitState (tl rest))
      else case gitRepositoryFlag (wd_Value word) rest of
             Some None \<Rightarrow> None
           | Some (Some (name, v, n)) \<Rightarrow>
               if name = ''--git-dir''
               then invocation_loop home cwd currentPath (gitDirectoryStatePath (resolvePath home cwd v)) True (drop n rest)
               else invocation_loop home cwd currentPath statePath explicitState (drop n rest)
           | None \<Rightarrow>
               (case consumeGitGlobalOption (wd_Value word) rest of
                  Invalid \<Rightarrow> None
                | Skip n \<Rightarrow> invocation_loop home cwd currentPath statePath explicitState (drop n rest)
                | NotOption \<Rightarrow>
                    Some \<lparr>iv_subcommand = wd_Value word, iv_args = rest, iv_currentPath = currentPath,
                          iv_statePath = statePath\<rparr>))"
  by pat_completeness auto
termination
  by (relation "measure (\<lambda>(h, c, p, s, e, ws). length ws)") auto

definition gitInvocation :: "bytes option \<Rightarrow> Word list \<Rightarrow> bytes \<Rightarrow> invocation option" where
  "gitInvocation home ws cwd = invocation_loop home cwd cwd cwd False ws"

section \<open>Branches that a command moves\<close>

definition localBranchTarget :: "bytes \<Rightarrow> bytes list" where
  "localBranchTarget ref0 =
     (let ref = (if HasPrefix ref0 ''+'' then drop 1 ref0 else ref0) in
      case CutPrefix ref ''refs/heads/'' of
        Some (b # bs) \<Rightarrow> [b # bs]
      | _ \<Rightarrow>
          (case CutPrefix ref ''heads/'' of
             Some (b # bs) \<Rightarrow> [b # bs]
           | _ \<Rightarrow> if ref = [] \<or> HasPrefix ref ''refs/'' \<or> contains_nul ref then [] else [ref]))"

definition setBranchMoveMode :: "branchMoveMode \<Rightarrow> branchMoveMode \<Rightarrow> branchMoveMode option" where
  "setBranchMoveMode current nextMode =
     (if nextMode = branchMoveNone then Some current
      else if current \<noteq> branchMoveNone \<and> current \<noteq> nextMode then None
      else Some nextMode)"

definition applyBranchLongMove :: "bytes \<Rightarrow> branchMoveMode \<times> bool \<Rightarrow> (branchMoveMode \<times> bool) option" where
  "applyBranchLongMove v st =
     (let (mode, force) = st in
      if v = ''--force'' then Some (mode, True)
      else if v = ''--delete'' then map_option (\<lambda>m. (m, force)) (setBranchMoveMode mode branchMoveDelete)
      else if v = ''--move'' then map_option (\<lambda>m. (m, force)) (setBranchMoveMode mode branchMoveRename)
      else if v = ''--copy'' then map_option (\<lambda>m. (m, force)) (setBranchMoveMode mode branchMoveCopy)
      else None)"

definition branchShortMove :: "bytes \<Rightarrow> (branchMoveMode \<times> bool) option" where
  "branchShortMove v =
     (if v = ''-f'' \<or> v = ''-F'' then Some (branchMoveNone, True)
      else if v = ''-d'' then Some (branchMoveDelete, False)
      else if v = ''-D'' \<or> v = ''-df'' \<or> v = ''-fd'' then Some (branchMoveDelete, True)
      else if v = ''-m'' then Some (branchMoveRename, False)
      else if v = ''-M'' then Some (branchMoveRename, True)
      else if v = ''-fm'' \<or> v = ''-mf'' \<or> v = ''-fM'' \<or> v = ''-Mf'' then Some (branchMoveRename, True)
      else if v = ''-c'' then Some (branchMoveCopy, False)
      else if v = ''-C'' then Some (branchMoveCopy, True)
      else if v = ''-fc'' \<or> v = ''-cf'' \<or> v = ''-fC'' \<or> v = ''-Cf'' then Some (branchMoveCopy, True)
      else None)"

fun branch_args_loop ::
  "branchMoveMode \<Rightarrow> bool \<Rightarrow> bytes list \<Rightarrow> bool \<Rightarrow> Word list \<Rightarrow> (branchMoveMode \<times> bool \<times> bytes list) option" where
  "branch_args_loop mode force positionals endOptions [] = Some (mode, force, positionals)"
| "branch_args_loop mode force positionals endOptions (argument # args) =
     (let v = wd_Value argument in
      if \<not> wd_Resolvable argument then None
      else if \<not> endOptions \<and> v = ''--'' then branch_args_loop mode force positionals True args
      else if \<not> endOptions \<and> HasPrefix v ''--'' then
        (case applyBranchLongMove v (mode, force) of
           None \<Rightarrow> None
         | Some (mode', force') \<Rightarrow> branch_args_loop mode' force' positionals endOptions args)
      else if \<not> endOptions \<and> HasPrefix v ''-'' \<and> v \<noteq> ''-'' then
        (case branchShortMove v of
           None \<Rightarrow> None
         | Some (shortMode, shortForce) \<Rightarrow>
             (case setBranchMoveMode mode shortMode of
                None \<Rightarrow> None
              | Some mode' \<Rightarrow> branch_args_loop mode' (force \<or> shortForce) positionals endOptions args))
      else branch_args_loop mode force (positionals @ [v]) endOptions args)"

definition parseBranchMoveArgs :: "Word list \<Rightarrow> (branchMoveMode \<times> bool \<times> bytes list) option" where
  "parseBranchMoveArgs args = branch_args_loop branchMoveNone False [] False args"

fun branchTargetsForMode :: "branchMoveMode \<Rightarrow> bytes list \<Rightarrow> bytes list" where
  "branchTargetsForMode branchMoveForce positionals =
     (if length positionals < 1 \<or> length positionals > 2 then [] else localBranchTarget (hd positionals))"
| "branchTargetsForMode branchMoveDelete positionals = concat (map localBranchTarget positionals)"
| "branchTargetsForMode branchMoveRename positionals =
     (if length positionals = 1 then [gitCurrentBranchTarget]
      else if length positionals \<noteq> 2 then []
      else localBranchTarget (hd positionals))"
| "branchTargetsForMode branchMoveCopy positionals = []"
| "branchTargetsForMode branchMoveNone positionals = []"

definition branchMoveTargets :: "Word list \<Rightarrow> bytes list" where
  "branchMoveTargets args =
     (case parseBranchMoveArgs args of
        None \<Rightarrow> []
      | Some (mode, force, positionals) \<Rightarrow>
          branchTargetsForMode (if mode = branchMoveNone \<and> force then branchMoveForce else mode) positionals)"

fun update_ref_loop :: "bool \<Rightarrow> bytes list \<Rightarrow> Word list \<Rightarrow> (bool \<times> bytes list) option" where
  "update_ref_loop deleteRef positionals [] = Some (deleteRef, positionals)"
| "update_ref_loop deleteRef positionals [argument] =
     (let v = wd_Value argument in
      if \<not> wd_Resolvable argument then None
      else if v = ''-m'' then None
      else if v = ''--stdin'' then None
      else if v = ''-d'' then Some (True, positionals)
      else if v = ''--no-deref'' \<or> v = ''--create-reflog'' then Some (deleteRef, positionals)
      else if HasPrefix v ''-'' then None
      else Some (deleteRef, positionals @ [v]))"
| "update_ref_loop deleteRef positionals (argument # follower # args) =
     (let v = wd_Value argument in
      if \<not> wd_Resolvable argument then None
      else if v = ''-m'' then
        (if \<not> wd_Resolvable follower then None else update_ref_loop deleteRef positionals args)
      else if v = ''--stdin'' then None
      else if v = ''-d'' then update_ref_loop True positionals (follower # args)
      else if v = ''--no-deref'' \<or> v = ''--create-reflog'' then update_ref_loop deleteRef positionals (follower # args)
      else if HasPrefix v ''-'' then None
      else update_ref_loop deleteRef (positionals @ [v]) (follower # args))"

definition updateRefTargets :: "Word list \<Rightarrow> bytes list" where
  "updateRefTargets args =
     (case update_ref_loop False [] args of
        None \<Rightarrow> []
      | Some (deleteRef, positionals) \<Rightarrow>
          if (if deleteRef then length positionals < 1 \<or> length positionals > 2
              else length positionals < 2 \<or> length positionals > 3)
          then [] else localBranchTarget (hd positionals))"

definition normalizeResetBranchArgs :: "Word list \<Rightarrow> bytes \<Rightarrow> Word list" where
  "normalizeResetBranchArgs args flag =
     (if flag \<noteq> ''C'' then args
      else map (\<lambda>a. if wd_Value a = ''--force-create'' then a\<lparr>wd_Value := ''-C''\<rparr>
                    else case CutPrefix (wd_Value a) ''--force-create='' of
                           Some target \<Rightarrow> a\<lparr>wd_Value := ''-C'' @ target\<rparr>
                         | None \<Rightarrow> a) args)"

definition resetBranchOption :: "bytes \<Rightarrow> bytes \<Rightarrow> bool \<times> bool \<times> bool" where
  "resetBranchOption v flag =
     (if v = ''--discard-changes'' then (flag = ''C'', True, False)
      else if v = ''-f'' \<or> v = ''--force'' then (True, True, False)
      else if v = ''-m'' \<or> v = ''--merge'' then (True, False, True)
      else (v \<in> set [''-q'', ''--guess'', ''--ignore-other-worktrees'', ''--no-guess'', ''--no-progress'',
                     ''--no-recurse-submodules'', ''--no-track'', ''--progress'', ''--quiet'',
                     ''--recurse-submodules'', ''--track''], False, False))"

definition applyResetBranchOption :: "bytes \<Rightarrow> bytes \<Rightarrow> bool \<times> bool \<Rightarrow> (bool \<times> bool) option" where
  "applyResetBranchOption v flag modes =
     (let (valid, forceOption, mergeOption) = resetBranchOption v flag;
          forceMode = (fst modes \<or> forceOption); mergeMode = (snd modes \<or> mergeOption) in
      if \<not> valid then None
      else if forceMode \<and> mergeMode then None
      else Some (forceMode, mergeMode))"

text \<open>
  \<open>isTarget\<close>: the word at the head is the separate value of the reset flag.  Such a word is still
  checked for being resolvable and for \<^verbatim>\<open>--\<close>.
\<close>

fun reset_loop ::
  "bytes \<Rightarrow> bool \<Rightarrow> bytes list option \<Rightarrow> bool \<times> bool \<Rightarrow> nat \<Rightarrow> Word list \<Rightarrow> bytes list option option" where
  "reset_loop flag isTarget target modes startPoints [] = Some target"
| "reset_loop flag isTarget target modes startPoints (argument # args) =
     (let v = wd_Value argument in
      if \<not> wd_Resolvable argument then None
      else if v = ''--'' then None
      else if isTarget then reset_loop flag False target modes startPoints args
      else if v = ''-'' @ flag then
        (case args of
           [] \<Rightarrow> None
         | follower # _ \<Rightarrow>
             if target \<noteq> None \<or> \<not> wd_Resolvable follower then None
             else reset_loop flag True (Some (localBranchTarget (wd_Value follower))) modes startPoints args)
      else case CutPrefix v (''-'' @ flag) of
             Some (b # bs) \<Rightarrow>
               if target \<noteq> None then None
               else reset_loop flag False (Some (localBranchTarget (b # bs))) modes startPoints args
           | _ \<Rightarrow>
               if HasPrefix v ''-'' then
                 (case applyResetBranchOption v flag modes of
                    None \<Rightarrow> None
                  | Some modes' \<Rightarrow> reset_loop flag False target modes' startPoints args)
               else if startPoints + 1 > 1 then None
               else reset_loop flag False target modes (startPoints + 1) args)"

definition resetBranchTarget :: "Word list \<Rightarrow> bytes \<Rightarrow> bytes list" where
  "resetBranchTarget args flag =
     (case reset_loop flag False None (False, False) 0 (normalizeResetBranchArgs args flag) of
        Some (Some target) \<Rightarrow> target
      | _ \<Rightarrow> [])"

section \<open>Pushes to a local repository\<close>

record localPushParseState =
  lp_repository :: bytes
  lp_positionals :: "bytes list"
  lp_allBranches :: bool
  lp_deleteRefs :: bool
  lp_dryRun :: bool
  lp_endOptions :: bool
  lp_mirrorBranches :: bool
  lp_tags :: bool

definition zero_push_state :: localPushParseState where
  "zero_push_state = \<lparr>lp_repository = [], lp_positionals = [], lp_allBranches = False, lp_deleteRefs = False,
     lp_dryRun = False, lp_endOptions = False, lp_mirrorBranches = False, lp_tags = False\<rparr>"

fun applyPushBooleanEffect :: "pushBooleanEffect \<Rightarrow> bool \<Rightarrow> localPushParseState \<Rightarrow> localPushParseState" where
  "applyPushBooleanEffect pushEffectAllBranches enabled st = st\<lparr>lp_allBranches := enabled\<rparr>"
| "applyPushBooleanEffect pushEffectDelete enabled st = st\<lparr>lp_deleteRefs := enabled\<rparr>"
| "applyPushBooleanEffect pushEffectDryRun enabled st = st\<lparr>lp_dryRun := enabled\<rparr>"
| "applyPushBooleanEffect pushEffectMirror enabled st = st\<lparr>lp_mirrorBranches := enabled\<rparr>"
| "applyPushBooleanEffect pushEffectTags enabled st = st\<lparr>lp_tags := enabled\<rparr>"
| "applyPushBooleanEffect pushEffectNone enabled st = st"

definition pushBooleanByShort :: "char \<Rightarrow> pushBooleanOption option" where
  "pushBooleanByShort shortName = find (\<lambda>opt. pb_shortName opt = shortName) pushBooleanOptions"

fun short_push_options :: "bytes \<Rightarrow> localPushParseState \<Rightarrow> localPushParseState option" where
  "short_push_options [] st = Some st"
| "short_push_options (c # cs) st =
     (case pushBooleanByShort c of
        None \<Rightarrow> None
      | Some opt \<Rightarrow> short_push_options cs (applyPushBooleanEffect (pb_effect opt) True st))"

definition consumePushBooleanOption :: "bytes \<Rightarrow> localPushParseState \<Rightarrow> localPushParseState option" where
  "consumePushBooleanOption v st =
     (case CutPrefix v ''--'' of
        Some name0 \<Rightarrow>
          (let negated = HasPrefix name0 ''no-'';
               name = (if negated then drop 3 name0 else name0) in
           case find (\<lambda>opt. pb_longName opt = name \<and> \<not> (negated \<and> \<not> pb_negatable opt)) pushBooleanOptions of
             Some opt \<Rightarrow> Some (applyPushBooleanEffect (pb_effect opt) (\<not> negated) st)
           | None \<Rightarrow>
               if list_ex (\<lambda>opt. pvo_longName opt = name \<and> negated \<and> pvo_negatable opt) pushValueOptions
               then Some st else None)
      | None \<Rightarrow>
          if length v < 2 \<or> hd v \<noteq> CHR ''-'' then None else short_push_options (tl v) st)"

definition optionValueAllowed :: "pushValueOption \<Rightarrow> bytes \<Rightarrow> bool" where
  "optionValueAllowed opt v \<longleftrightarrow>
     v \<noteq> [] \<and> (pvo_allowedValues opt = [] \<or> v \<in> set (pvo_allowedValues opt))"

text \<open>\<^verbatim>\<open>strings.Cut\<close> at the first occurrence of a byte.\<close>

definition cut_at :: "char \<Rightarrow> bytes \<Rightarrow> bytes \<times> bytes \<times> bool" where
  "cut_at c s =
     (case dropWhile (\<lambda>x. x \<noteq> c) s of
        [] \<Rightarrow> (s, [], False)
      | _ # after \<Rightarrow> (takeWhile (\<lambda>x. x \<noteq> c) s, after, True))"

definition consumeLongPushValueOption :: "bytes \<Rightarrow> Word list \<Rightarrow> consumed" where
  "consumeLongPushValueOption v rest =
     (let (name, inlineValue, inline) = cut_at (CHR ''='') (if HasPrefix v ''--'' then drop 2 v else v) in
      case find (\<lambda>opt. pvo_longName opt = name) pushValueOptions of
        None \<Rightarrow> NotOption
      | Some opt \<Rightarrow>
          if inline then (if pvo_allowInline opt \<and> optionValueAllowed opt inlineValue then Skip 0 else Invalid)
          else if pvo_allowSeparate opt \<and> rest \<noteq> [] \<and> wd_Resolvable (hd rest)
                  \<and> optionValueAllowed opt (wd_Value (hd rest)) then Skip 1
          else if pvo_allowBare opt then Skip 0 else Invalid)"

definition consumePushValueOption :: "bytes \<Rightarrow> Word list \<Rightarrow> consumed" where
  "consumePushValueOption v rest =
     (if HasPrefix v ''--'' then consumeLongPushValueOption v rest
      else if length v < 2 \<or> hd v \<noteq> CHR ''-'' then NotOption
      else case find (\<lambda>opt. \<not> (pvo_shortName opt = CHR 0x00 \<or> v ! 1 \<noteq> pvo_shortName opt)) pushValueOptions of
             None \<Rightarrow> NotOption
           | Some opt \<Rightarrow>
               if length v > 2 then (if optionValueAllowed opt (drop 2 v) then Skip 0 else Invalid)
               else if rest = [] \<or> \<not> wd_Resolvable (hd rest) then Invalid
               else if optionValueAllowed opt (wd_Value (hd rest)) then Skip 1 else Invalid)"

text \<open>The state after one argument and the number of further words it used.\<close>

definition consumeLocalPushArgument ::
  "bytes \<Rightarrow> Word list \<Rightarrow> localPushParseState \<Rightarrow> (localPushParseState \<times> nat) option" where
  "consumeLocalPushArgument v rest st =
     (if lp_endOptions st then Some (st\<lparr>lp_positionals := lp_positionals st @ [v]\<rparr>, 0)
      else if v = ''--'' then Some (st\<lparr>lp_endOptions := True\<rparr>, 0)
      else case consumePushValueOption v rest of
             Skip n \<Rightarrow> Some (st, n)
           | Invalid \<Rightarrow> None
           | NotOption \<Rightarrow>
               if v = ''--repo'' then
                 (if lp_repository st \<noteq> [] \<or> rest = [] \<or> \<not> wd_Resolvable (hd rest) then None
                  else Some (st\<lparr>lp_repository := wd_Value (hd rest)\<rparr>, 1))
               else case CutPrefix v ''--repo='' of
                      Some inlineRepository \<Rightarrow>
                        if lp_repository st \<noteq> [] \<or> inlineRepository = [] then None
                        else Some (st\<lparr>lp_repository := inlineRepository\<rparr>, 0)
                    | None \<Rightarrow>
                        if HasPrefix v ''-'' \<and> v \<noteq> ''-''
                        then map_option (\<lambda>st'. (st', 0)) (consumePushBooleanOption v st)
                        else Some (st\<lparr>lp_positionals := lp_positionals st @ [v]\<rparr>, 0))"

function push_args_loop :: "localPushParseState \<Rightarrow> Word list \<Rightarrow> localPushParseState option" where
  "push_args_loop st [] = Some st"
| "push_args_loop st (argument # rest) =
     (if \<not> wd_Resolvable argument then None
      else case consumeLocalPushArgument (wd_Value argument) rest st of
             None \<Rightarrow> None
           | Some (st', n) \<Rightarrow> push_args_loop st' (drop n rest))"
  by pat_completeness auto
termination
  by (relation "measure (\<lambda>(st, ws). length ws)") auto

text \<open>Repository, refspecs, delete and dry run.\<close>

definition finishLocalPushArgs :: "localPushParseState \<Rightarrow> (bytes \<times> bytes list \<times> bool \<times> bool) option" where
  "finishLocalPushArgs st =
     (if lp_repository st = [] \<and> lp_positionals st = [] then None
      else let repository = (if lp_repository st = [] then hd (lp_positionals st) else lp_repository st);
               refspecs = (if lp_repository st = [] then tl (lp_positionals st) else lp_positionals st);
               bulkMode = (lp_allBranches st \<or> lp_mirrorBranches st) in
           if lp_allBranches st \<and> lp_mirrorBranches st \<or> bulkMode \<and> lp_deleteRefs st
              \<or> lp_tags st \<and> lp_deleteRefs st \<or> bulkMode \<and> lp_tags st \<or> bulkMode \<and> refspecs \<noteq> []
           then None
           else if refspecs \<noteq> [] then Some (repository, refspecs, lp_deleteRefs st, lp_dryRun st)
           else if lp_mirrorBranches st
           then Some (repository, [gitMirrorBranchesTarget], lp_deleteRefs st, lp_dryRun st)
           else if lp_allBranches st
           then Some (repository, [gitAllBranchesTarget], lp_deleteRefs st, lp_dryRun st)
           else if lp_tags st then Some (repository, [], lp_deleteRefs st, lp_dryRun st)
           else None)"

definition parseLocalPushArgs :: "Word list \<Rightarrow> (bytes \<times> bytes list \<times> bool \<times> bool) option" where
  "parseLocalPushArgs args = Option.bind (push_args_loop zero_push_state args) finishLocalPushArgs"

definition refspec_branches :: "bool \<Rightarrow> bytes \<Rightarrow> bytes list" where
  "refspec_branches deleteRefs refspec =
     (if refspec = gitAllBranchesTarget then [gitAllBranchesTarget]
      else if refspec = gitMirrorBranchesTarget then [gitMirrorBranchesTarget]
      else if deleteRefs then localBranchTarget refspec
      else let cleaned = (if HasPrefix refspec ''+'' then drop 1 refspec else refspec);
               (_, destination, found) = cut_at (CHR '':'') cleaned in
           if \<not> found then (if cleaned = ''HEAD'' then [gitCurrentBranchTarget] else localBranchTarget cleaned)
           else localBranchTarget destination)"

definition pushRefspecBranches :: "bytes list \<Rightarrow> bool \<Rightarrow> bytes list" where
  "pushRefspecBranches refspecs deleteRefs = concat (map (refspec_branches deleteRefs) refspecs)"

definition localPushRepository :: "bytes \<Rightarrow> bytes \<Rightarrow> bytes" where
  "localPushRepository remote cwd =
     (if remote = ''.'' then cwd
      else if HasPrefix remote ''file://'' then
        (let path = drop 7 remote in if IsAbs path then Clean path else [])
      else if IsAbs remote then Clean remote
      else if HasPrefix remote ''./'' \<or> HasPrefix remote ''../'' then Clean (path_Join [cwd, remote])
      else [])"

definition localPushTargets :: "Word list \<Rightarrow> bytes \<Rightarrow> bytes list \<times> bytes" where
  "localPushTargets args cwd =
     (case parseLocalPushArgs args of
        None \<Rightarrow> ([], [])
      | Some (repository, refspecs, deleteRefs, dryRun) \<Rightarrow>
          if dryRun then ([], [])
          else let statePath = localPushRepository repository cwd in
               if statePath = [] then ([], []) else (pushRefspecBranches refspecs deleteRefs, statePath))"

definition movedLocalBranches :: "bytes \<Rightarrow> Word list \<Rightarrow> bytes \<Rightarrow> bytes \<Rightarrow> bytes list \<times> bytes" where
  "movedLocalBranches subcommand args currentPath statePath =
     (if subcommand = ''branch'' then (branchMoveTargets args, statePath)
      else if subcommand = ''update-ref'' then (updateRefTargets args, statePath)
      else if subcommand = ''checkout'' then (resetBranchTarget args ''B'', statePath)
      else if subcommand = ''switch'' then (resetBranchTarget args ''C'', statePath)
      else if subcommand = ''push'' then localPushTargets args currentPath
      else ([], []))"

section \<open>Conditions\<close>

type_synonym gitStateReader = "bytes \<Rightarrow> State go_result"

definition sourceBranchCheckedOutElsewhere ::
  "git_fs \<Rightarrow> State \<Rightarrow> bytes \<Rightarrow> bytes \<Rightarrow> gitStateReader \<Rightarrow> bool" where
  "sourceBranchCheckedOutElsewhere fs destinationState currentPath sourceStatePath readState =
     (case readState sourceStatePath of
        Inl err \<Rightarrow> False
      | Inr sourceState \<Rightarrow>
          list_ex (\<lambda>branch. branch \<noteq> [] \<and> BranchCheckedOutElsewhere fs destinationState currentPath branch)
            (st_LocalBranches sourceState))"

definition anyBranchCheckedOutElsewhere :: "git_fs \<Rightarrow> State \<Rightarrow> bytes \<Rightarrow> bool" where
  "anyBranchCheckedOutElsewhere fs state currentPath =
     list_ex (\<lambda>w. wk_Branch w \<noteq> [] \<and> BranchCheckedOutElsewhere fs state currentPath (wk_Branch w))
       (st_Worktrees state)"

definition moved_elsewhere :: "git_fs \<Rightarrow> State \<Rightarrow> bytes \<Rightarrow> bytes \<Rightarrow> gitStateReader \<Rightarrow> bytes \<Rightarrow> bool" where
  "moved_elsewhere fs state currentPath sourceStatePath readState branch =
     (if branch = gitAllBranchesTarget
      then sourceBranchCheckedOutElsewhere fs state currentPath sourceStatePath readState
      else if branch = gitMirrorBranchesTarget then anyBranchCheckedOutElsewhere fs state currentPath
      else if branch = gitCurrentBranchTarget then
        (case readState sourceStatePath of
           Inl err \<Rightarrow> False
         | Inr sourceState \<Rightarrow>
             st_CurrentBranch sourceState \<noteq> []
             \<and> BranchCheckedOutElsewhere fs state currentPath (st_CurrentBranch sourceState))
      else BranchCheckedOutElsewhere fs state currentPath branch)"

definition movedBranchCheckedOutElsewhere ::
  "git_fs \<Rightarrow> State \<Rightarrow> bytes \<Rightarrow> bytes \<Rightarrow> bytes list \<Rightarrow> gitStateReader \<Rightarrow> bool" where
  "movedBranchCheckedOutElsewhere fs state currentPath sourceStatePath branches readState =
     list_ex (moved_elsewhere fs state currentPath sourceStatePath readState) branches"

definition ref_move_wrappers :: "bytes list" where
  "ref_move_wrappers = [''command'', ''doas'', ''exec'', ''time'']"

text \<open>The body of the loop for one parsed command.\<close>

definition command_moves_ref :: "git_fs \<Rightarrow> bytes option \<Rightarrow> bytes \<Rightarrow> gitStateReader \<Rightarrow> Command \<Rightarrow> bool" where
  "command_moves_ref fs home base readState parsed =
     (let (argv0, ws) = stripCommandWrappers (path_Base (cmd_Argv0 parsed)) (cmd_Args parsed) ref_move_wrappers in
      if argv0 \<noteq> ''git'' then False
      else case gitInvocation home ws (if cmd_Cwd parsed = [] then base else cmd_Cwd parsed) of
             None \<Rightarrow> False
           | Some iv \<Rightarrow>
               let (branches, moveStatePath) =
                     movedLocalBranches (iv_subcommand iv) (iv_args iv) (iv_currentPath iv) (iv_statePath iv) in
               if branches = [] \<or> moveStatePath = [] then False
               else case readState moveStatePath of
                      Inl err \<Rightarrow> False
                    | Inr state \<Rightarrow>
                        movedBranchCheckedOutElsewhere fs state (iv_currentPath iv) (iv_statePath iv) branches readState)"

text \<open>An opaque decomposition has no commands here, as in \<^term>\<open>commandConditionCwds\<close>.\<close>

definition gitRefMoveConditionMatch :: "git_fs \<Rightarrow> command_env \<Rightarrow> FieldSet \<Rightarrow> gitStateReader \<Rightarrow> bool" where
  "gitRefMoveConditionMatch fs env f readState =
     (let commandText = CommandValue f; base = BaseCWD f in
      if commandText = [] \<or> base = [] then False
      else let home = (case ce_UserHomeDir env of None \<Rightarrow> base | Some h \<Rightarrow> h) in
           list_ex (command_moves_ref fs (ce_UserHomeDir env) base readState)
             (ce_Commands env (ExpandLiteralAssignments commandText) base home))"

fun dedupe_loop :: "bytes list \<Rightarrow> bytes list \<Rightarrow> bytes list" where
  "dedupe_loop out [] = out"
| "dedupe_loop out (v # vs) =
     (if v = [] \<or> contains_nul v \<or> \<not> IsAbs v \<or> v \<in> set out then dedupe_loop out vs
      else dedupe_loop (out @ [v]) vs)"

definition dedupeUsable :: "bytes list \<Rightarrow> bytes list" where
  "dedupeUsable vs = dedupe_loop [] vs"

definition selector_lines :: "bytes \<Rightarrow> bytes \<Rightarrow> bytes list" where
  "selector_lines base v =
     (if v = [] then []
      else List.map_filter (\<lambda>line.
             if line = [] \<or> contains_nul line then None
             else if \<not> IsAbs line then (if base = [] then None else Some (path_Join [base, line]))
             else Some line) (Split newline v))"

definition gitBranchTargets :: "shell_env \<Rightarrow> FieldSet \<Rightarrow> Condition \<Rightarrow> bytes list \<Rightarrow> bytes list" where
  "gitBranchTargets env f c commandCwds =
     dedupeUsable (commandCwds @ concat (map (\<lambda>spec.
       selector_lines (BaseCWD f) (StringForCondition env f (spec_Selector spec) (Some c))) (c_selectors c)))"

definition gitDefaultBranchConditionMatch ::
  "git_fs \<Rightarrow> shell_env \<Rightarrow> FieldSet \<Rightarrow> Condition \<Rightarrow> bytes list \<Rightarrow> gitStateReader \<Rightarrow> bool" where
  "gitDefaultBranchConditionMatch fs env f c commandCwds readState =
     list_ex (\<lambda>target. case readState target of
                         Inl err \<Rightarrow> False
                       | Inr state \<Rightarrow> IsDefaultBranchWorktree fs state target)
       (gitBranchTargets env f c commandCwds)"

definition gitPrimaryCheckoutConditionMatch ::
  "git_fs \<Rightarrow> shell_env \<Rightarrow> FieldSet \<Rightarrow> Condition \<Rightarrow> bytes list \<Rightarrow> gitStateReader \<Rightarrow> bool" where
  "gitPrimaryCheckoutConditionMatch fs env f c commandCwds readState =
     list_ex (\<lambda>target. case readState target of
                         Inl err \<Rightarrow> False
                       | Inr state \<Rightarrow> IsPrimaryCheckout fs state target)
       (gitBranchTargets env f c commandCwds)"

definition gitConditionMatch ::
  "git_fs \<Rightarrow> shell_env \<Rightarrow> command_env \<Rightarrow> FieldSet \<Rightarrow> Condition \<Rightarrow> bytes list \<Rightarrow> gitStateReader \<Rightarrow> bool" where
  "gitConditionMatch fs env cenv f c commandCwds readState =
     (if c_Kind c = ConditionKindGitDefaultBranch
      then gitDefaultBranchConditionMatch fs env f c commandCwds readState
      else if c_Kind c = ConditionKindGitPrimaryCheckout
      then gitPrimaryCheckoutConditionMatch fs env f c commandCwds readState
      else if c_Kind c = ConditionKindGitRefMove then gitRefMoveConditionMatch fs cenv f readState
      else False)"

end
