(* ===== verification/GitProps.thy ===== *)
theory GitProps
  imports GitConditions
begin

text \<open>
  What the git conditions detect: the worktree of a path, branch moves behind any global options
  and in any order of arguments, and that words whose value is unknown never cause a match.
\<close>

section \<open>The worktree of a path\<close>

lemma best_worktree_spec:
  assumes "case best of Some b \<Rightarrow> inside fs candidate b | None \<Rightarrow> True"
  shows "case best_worktree fs candidate best ws of
           None \<Rightarrow> best = None \<and> (\<forall>w \<in> set ws. \<not> inside fs candidate w)
         | Some b \<Rightarrow> inside fs candidate b \<and> (b \<in> set ws \<or> best = Some b)
             \<and> (\<forall>w \<in> set ws. inside fs candidate w \<longrightarrow> length (wk_Path w) \<le> length (wk_Path b))
             \<and> (case best of Some c \<Rightarrow> length (wk_Path c) \<le> length (wk_Path b) | None \<Rightarrow> True)"
  using assms
proof (induction ws arbitrary: best)
  case (Cons w ws)
  show ?case
  proof (cases "inside fs candidate w \<and> (case best of None \<Rightarrow> True | Some b \<Rightarrow> length (wk_Path b) < length (wk_Path w))")
    case True
    then show ?thesis using Cons.IH [of "Some w"] by (auto split: option.splits)
  next
    case False
    then have "best_worktree fs candidate best (w # ws) = best_worktree fs candidate best ws" by (cases best) auto
    moreover have "inside fs candidate w \<Longrightarrow> \<exists>b. best = Some b \<and> length (wk_Path w) \<le> length (wk_Path b)"
      using False by (auto split: option.splits)
    ultimately show ?thesis using Cons.IH [OF Cons.prems] by (cases best) (auto split: option.splits)
  qed
qed (auto split: option.splits)

section \<open>Global options\<close>

text \<open>
  A global option before the subcommand: a change of directory, the directory of the repository (its
  value after an equals sign or in a word of its own), a flag, or a flag with a value (likewise).
\<close>

datatype global_option =
    Global_cwd bytes
  | Global_git_dir bool bytes
  | Global_flag bytes
  | Global_value bytes bytes
  | Global_inline bytes bytes

definition plain_word :: "bytes \<Rightarrow> Word" where
  "plain_word v = \<lparr>wd_Kind = (if HasPrefix v ''-'' then WordKindFlag else WordKindOther), wd_Value = v, wd_Resolvable = True\<rparr>"

fun global_words :: "global_option \<Rightarrow> Word list" where
  "global_words (Global_cwd dir) = [plain_word ''-C'', plain_word dir]"
| "global_words (Global_git_dir inline v) =
     (if inline then [plain_word (''--git-dir='' @ v)] else [plain_word ''--git-dir'', plain_word v])"
| "global_words (Global_flag v) = [plain_word v]"
| "global_words (Global_value name v) = [plain_word name, plain_word v]"
| "global_words (Global_inline name v) = [plain_word (name @ ''='' @ v)]"

fun global_ok :: "global_option \<Rightarrow> bool" where
  "global_ok (Global_cwd dir) = (dir \<noteq> [])"
| "global_ok (Global_git_dir inline v) = (v \<noteq> [])"
| "global_ok (Global_flag v) = (v \<in> set gitContinuingGlobalOptions)"
| "global_ok (Global_value name v) = (v \<noteq> [] \<and> name \<in> set (''-c'' # ''--work-tree'' # gitRequiredValueGlobalOptions))"
| "global_ok (Global_inline name v) =
     (v \<noteq> [] \<and> name \<in> set (''--exec-path'' # ''--work-tree'' # gitRequiredValueGlobalOptions))"

text \<open>The directory that the command runs in, and the one whose repository it works on: the last
  \<^verbatim>\<open>--git-dir\<close>, read against the directory at its place, else the directory of the command.\<close>

fun global_cwd :: "bytes option \<Rightarrow> bytes \<Rightarrow> global_option list \<Rightarrow> bytes" where
  "global_cwd home cwd [] = cwd"
| "global_cwd home cwd (Global_cwd dir # gs) = global_cwd home (resolvePath home cwd dir) gs"
| "global_cwd home cwd (g # gs) = global_cwd home cwd gs"

fun global_git_dir :: "bytes option \<Rightarrow> bytes \<Rightarrow> global_option list \<Rightarrow> bytes option" where
  "global_git_dir home cwd [] = None"
| "global_git_dir home cwd (g # gs) =
     (case global_git_dir home (global_cwd home cwd [g]) gs of
        Some d \<Rightarrow> Some d
      | None \<Rightarrow>
          (case g of
             Global_git_dir inline v \<Rightarrow> Some (gitDirectoryStatePath (resolvePath home cwd v))
           | _ \<Rightarrow> None))"

definition global_repository :: "bytes option \<Rightarrow> bytes \<Rightarrow> global_option list \<Rightarrow> bytes" where
  "global_repository home cwd gs =
     (case global_git_dir home cwd gs of Some d \<Rightarrow> d | None \<Rightarrow> global_cwd home cwd gs)"

lemma plain_word_simps [simp]:
  "wd_Value (plain_word v) = v" "wd_Resolvable (plain_word v)"
  by (simp_all add: plain_word_def)

lemma separate_value_plain [simp]: "separate_value (plain_word v # rest) \<longleftrightarrow> v \<noteq> []"
  by (simp add: separate_value_def)

lemma flag_step:
  assumes "v \<in> set gitContinuingGlobalOptions"
  shows "gitRepositoryFlag v rest = None \<and> consumeGitGlobalOption v rest = Skip 0 \<and> v \<noteq> ''-C''"
  using assms
  by (auto simp: gitContinuingGlobalOptions_def gitRepositoryFlag_def consumeGitGlobalOption_def CutPrefix_def HasPrefix_def)

lemma value_step:
  assumes "name \<in> set (''-c'' # gitRequiredValueGlobalOptions)" "v \<noteq> []"
  shows "gitRepositoryFlag name (plain_word v # rest) = None
         \<and> consumeGitGlobalOption name (plain_word v # rest) = Skip 1 \<and> name \<noteq> ''-C''"
  using assms
  by (auto simp: gitRequiredValueGlobalOptions_def gitRepositoryFlag_def consumeGitGlobalOption_def CutPrefix_def
      HasPrefix_def gitContinuingGlobalOptions_def gitTerminalGlobalOptions_def consumeSeparateGitGlobalValue_def)

lemma work_tree_step:
  "v \<noteq> [] \<Longrightarrow> gitRepositoryFlag ''--work-tree'' (plain_word v # rest) = Some (Some (''--work-tree'', v, 1))"
  by (simp add: gitRepositoryFlag_def CutPrefix_def HasPrefix_def)

lemma inline_flag:
  "gitRepositoryFlag (''--exec-path='' @ v) rest = None" "gitRepositoryFlag (''--namespace='' @ v) rest = None"
  "gitRepositoryFlag (''--super-prefix='' @ v) rest = None" "gitRepositoryFlag (''--config-env='' @ v) rest = None"
  "gitRepositoryFlag (''--attr-source='' @ v) rest = None"
  by (simp_all add: gitRepositoryFlag_def CutPrefix_def HasPrefix_def)

lemma inline_value:
  assumes "v \<noteq> []"
  shows "consumeGitGlobalOption (''--exec-path='' @ v) rest = Skip 0"
    "consumeGitGlobalOption (''--namespace='' @ v) rest = Skip 0"
    "consumeGitGlobalOption (''--super-prefix='' @ v) rest = Skip 0"
    "consumeGitGlobalOption (''--config-env='' @ v) rest = Skip 0"
    "consumeGitGlobalOption (''--attr-source='' @ v) rest = Skip 0"
  using assms
  by (simp_all add: consumeGitGlobalOption_def gitTerminalGlobalOptions_def gitContinuingGlobalOptions_def
      gitRequiredValueGlobalOptions_def CutPrefix_def HasPrefix_def)

lemma inline_step:
  assumes "name \<in> set (''--exec-path'' # gitRequiredValueGlobalOptions)" "v \<noteq> []"
  shows "gitRepositoryFlag (name @ ''='' @ v) rest = None
         \<and> consumeGitGlobalOption (name @ ''='' @ v) rest = Skip 0 \<and> name @ ''='' @ v \<noteq> ''-C''"
proof -
  have "name = ''--exec-path'' \<or> name = ''--namespace'' \<or> name = ''--super-prefix'' \<or> name = ''--config-env''
      \<or> name = ''--attr-source''"
    using assms(1) unfolding gitRequiredValueGlobalOptions_def by (simp only: list.set insert_iff empty_iff simp_thms)
  then show ?thesis
    by (elim disjE) (use inline_flag [of v rest] inline_value [OF assms(2), of rest] in simp_all)
qed

lemma work_tree_inline_step:
  "v \<noteq> [] \<Longrightarrow> gitRepositoryFlag (''--work-tree='' @ v) rest = Some (Some (''--work-tree'', v, 0))"
  by (simp add: gitRepositoryFlag_def CutPrefix_def HasPrefix_def)

lemma git_dir_step:
  "v \<noteq> [] \<Longrightarrow> gitRepositoryFlag ''--git-dir'' (plain_word v # rest) = Some (Some (''--git-dir'', v, 1))"
  "v \<noteq> [] \<Longrightarrow> gitRepositoryFlag (''--git-dir='' @ v) rest = Some (Some (''--git-dir'', v, 0))"
  by (simp_all add: gitRepositoryFlag_def CutPrefix_def HasPrefix_def)

lemma subcommand_step:
  assumes "\<not> HasPrefix v ''-''"
  shows "gitRepositoryFlag v rest = None \<and> consumeGitGlobalOption v rest = NotOption \<and> v \<noteq> ''-C''"
proof -
  have "CutPrefix v (CHR ''-'' # p) = None" for p
    using assms by (cases v) (auto simp: CutPrefix_def HasPrefix_def)
  moreover have "v \<noteq> CHR ''-'' # p" for p using assms by (auto simp: HasPrefix_def)
  ultimately show ?thesis
    using assms by (auto simp: gitRepositoryFlag_def consumeGitGlobalOption_def gitRequiredValueGlobalOptions_def
        gitContinuingGlobalOptions_def gitTerminalGlobalOptions_def)
qed

lemma invocation_loop_globals:
  assumes "list_all global_ok gs" "wd_Resolvable sub" "\<not> HasPrefix (wd_Value sub) ''-''"
    and "\<not> explicit \<Longrightarrow> state = cwd"
  shows "invocation_loop home cwd cwd state explicit (concat (map global_words gs) @ sub # args)
         = Some \<lparr>iv_subcommand = wd_Value sub, iv_args = args, iv_currentPath = global_cwd home cwd gs,
                 iv_statePath = (case global_git_dir home cwd gs of Some d \<Rightarrow> d
                                 | None \<Rightarrow> if explicit then state else global_cwd home cwd gs)\<rparr>"
  using assms(1,4)
proof (induction gs arbitrary: cwd state explicit)
  case Nil
  then show ?case using assms(2) subcommand_step [OF assms(3)] by simp
next
  case (Cons g gs)
  show ?case
  proof (cases g)
    case (Global_cwd dir)
    then show ?thesis
      using Cons.prems Cons.IH [of explicit "if explicit then state else resolvePath home cwd dir" "resolvePath home cwd dir"]
      by (simp add: Let_def split: option.splits)
  next
    case (Global_git_dir inline v)
    let ?state = "gitDirectoryStatePath (resolvePath home cwd v)"
    have "invocation_loop home cwd cwd state explicit (concat (map global_words (g # gs)) @ sub # args)
        = invocation_loop home cwd cwd ?state True (concat (map global_words gs) @ sub # args)"
      using Cons.prems(1) git_dir_step Global_git_dir by (cases inline) simp_all
    then show ?thesis
      using Cons.prems(1) Cons.IH [of True ?state cwd] Global_git_dir by (simp split: option.splits)
  next
    case (Global_flag v)
    then show ?thesis using Cons flag_step by (simp split: option.splits)
  next
    case (Global_value name v)
    then consider "name = ''--work-tree''" | "name \<in> set (''-c'' # gitRequiredValueGlobalOptions)"
      using Cons.prems by auto
    then show ?thesis
    proof cases
      case 1
      then show ?thesis using Cons Global_value work_tree_step by (simp split: option.splits)
    next
      case 2
      have "v \<noteq> []" using Cons.prems Global_value by simp
      then show ?thesis using Cons Global_value value_step [OF 2, of v] by (simp split: option.splits)
    qed
  next
    case (Global_inline name v)
    then consider "name = ''--work-tree''" | "name \<in> set (''--exec-path'' # gitRequiredValueGlobalOptions)"
      using Cons.prems by auto
    then show ?thesis
    proof cases
      case 1
      then show ?thesis using Cons Global_inline work_tree_inline_step by (simp split: option.splits)
    next
      case 2
      have "v \<noteq> []" using Cons.prems Global_inline by simp
      then show ?thesis using Cons Global_inline inline_step [OF 2, of v] by (simp split: option.splits)
    qed
  qed
qed

lemma invocation_behind_globals:
  assumes "list_all global_ok gs" "wd_Resolvable sub" "\<not> HasPrefix (wd_Value sub) ''-''"
  shows "invocation_loop home cwd cwd cwd False (concat (map global_words gs) @ sub # args)
         = Some \<lparr>iv_subcommand = wd_Value sub, iv_args = args, iv_currentPath = global_cwd home cwd gs,
                 iv_statePath = global_repository home cwd gs\<rparr>"
  using invocation_loop_globals [OF assms, of False cwd cwd home args] by (simp add: global_repository_def)

section \<open>Branch moves\<close>

definition is_option :: "bytes \<Rightarrow> bool" where
  "is_option v \<longleftrightarrow> HasPrefix v ''-'' \<and> v \<noteq> ''-''"

text \<open>The move mode and force of an option of \<^verbatim>\<open>git branch\<close>.\<close>

definition option_effect :: "bytes \<Rightarrow> (branchMoveMode \<times> bool) option" where
  "option_effect v =
     (if HasPrefix v ''--'' then
        map_of [(''--force'', (branchMoveNone, True)), (''--delete'', (branchMoveDelete, False)),
                (''--move'', (branchMoveRename, False)), (''--copy'', (branchMoveCopy, False))] v
      else branchShortMove v)"

definition effect_fits :: "branchMoveMode \<Rightarrow> bytes \<Rightarrow> bool" where
  "effect_fits mode v =
     (case option_effect v of Some (m, fo) \<Rightarrow> m = branchMoveNone \<or> m = mode | None \<Rightarrow> False)"

definition option_forces :: "bytes \<Rightarrow> bool" where
  "option_forces v = (case option_effect v of Some (m, fo) \<Rightarrow> fo | None \<Rightarrow> False)"

definition names_mode :: "bytes \<Rightarrow> bool" where
  "names_mode v = (case option_effect v of Some (m, fo) \<Rightarrow> m \<noteq> branchMoveNone | None \<Rightarrow> False)"

lemma long_effect:
  "HasPrefix v ''--'' \<Longrightarrow>
   applyBranchLongMove v (mode, force) =
     (case option_effect v of
        None \<Rightarrow> None
      | Some (m, fo) \<Rightarrow> map_option (\<lambda>m'. (m', force \<or> fo)) (setBranchMoveMode mode m))"
  by (auto simp: applyBranchLongMove_def option_effect_def setBranchMoveMode_def)

text \<open>Options and positional arguments may come in any order.\<close>

lemma branch_args_any_order:
  assumes "\<forall>w \<in> set args. wd_Resolvable w \<and> wd_Value w \<noteq> ''--''"
    and "\<forall>w \<in> set args. is_option (wd_Value w) \<longrightarrow> effect_fits mode (wd_Value w)"
    and "start \<in> {branchMoveNone, mode}"
  shows "branch_args_loop start force ps False args
    = Some (if \<exists>w \<in> set args. is_option (wd_Value w) \<and> names_mode (wd_Value w) then mode else start,
            force \<or> (\<exists>w \<in> set args. is_option (wd_Value w) \<and> option_forces (wd_Value w)),
            ps @ filter (\<lambda>v. \<not> is_option v) (map wd_Value args))"
  using assms
proof (induction args arbitrary: start force ps)
  case (Cons w args)
  let ?v = "wd_Value w"
  show ?case
  proof (cases "is_option ?v")
    case True
    then obtain m fo where eff: "option_effect ?v = Some (m, fo)" and m: "m \<in> {branchMoveNone, mode}"
      using Cons.prems(2) by (auto simp: effect_fits_def split: option.splits)
    define start' where "start' = (if m = branchMoveNone then start else mode)"
    have set: "setBranchMoveMode start m = Some start'"
      using m Cons.prems(3) by (auto simp: setBranchMoveMode_def start'_def)
    have opt: "HasPrefix ?v ''-'' \<and> ?v \<noteq> ''-''" using True by (simp add: is_option_def)
    have step: "branch_args_loop start force ps False (w # args) = branch_args_loop start' (force \<or> fo) ps False args"
    proof (cases "HasPrefix ?v ''--''")
      case True
      then show ?thesis using Cons.prems(1) long_effect [OF True, of start force] eff set by (simp add: Let_def)
    next
      case False
      then have "branchShortMove ?v = Some (m, fo)" using eff by (simp add: option_effect_def)
      then show ?thesis using Cons.prems(1) False opt set by (simp add: Let_def)
    qed
    have "start' \<in> {branchMoveNone, mode}" using m Cons.prems(3) by (auto simp: start'_def)
    then show ?thesis
      using Cons.IH [of start' "force \<or> fo" ps] Cons.prems(1,2) True eff m step
      by (auto simp: start'_def option_forces_def names_mode_def)
  next
    case False
    then have "\<not> HasPrefix ?v ''--''" "\<not> (HasPrefix ?v ''-'' \<and> ?v \<noteq> ''-'')"
      by (cases ?v; auto simp: is_option_def HasPrefix_def)+
    then have "branch_args_loop start force ps False (w # args) = branch_args_loop start force (ps @ [?v]) False args"
      using Cons.prems(1) by (simp only: branch_args_loop.simps Let_def if_False if_True simp_thms list.set insert_iff)
    then show ?thesis using Cons.IH [of start force "ps @ [?v]"] Cons.prems False by simp
  qed
qed simp


text \<open>
  The branches that \<^verbatim>\<open>git branch\<close> moves for a mode and its positional arguments, in a
  repository whose state is known: a forced update moves its first argument, a deletion all its
  arguments, a renaming its first of two arguments or, with one, the current branch; a copy moves
  nothing, and a call with another number of arguments is not one that git runs.
\<close>

definition moved_by :: "State \<Rightarrow> branchMoveMode \<Rightarrow> bytes list \<Rightarrow> bytes set" where
  "moved_by state mode ps =
     (case mode of
        branchMoveForce \<Rightarrow> if length ps \<in> {1, 2} then set (localBranchTarget (hd ps)) else {}
      | branchMoveDelete \<Rightarrow> \<Union> (set ` localBranchTarget ` set ps)
      | branchMoveRename \<Rightarrow>
          if length ps = 1 then {st_CurrentBranch state} - {[]}
          else if length ps = 2 then set (localBranchTarget (hd ps)) else {}
      | _ \<Rightarrow> {})"

lemma target_cases:
  "x \<in> set (case CutPrefix r p of
             Some (b # bs) \<Rightarrow> [b # bs]
           | _ \<Rightarrow> (case CutPrefix r q of Some (b # bs) \<Rightarrow> [b # bs] | _ \<Rightarrow> if c then [] else [r])) \<Longrightarrow>
   x = r \<or> (\<exists>p. CutPrefix r p = Some x)"
  by (auto split: option.splits list.splits if_splits)

lemma localBranchTarget_no_nul:
  assumes "\<not> contains_nul ref" "b \<in> set (localBranchTarget ref)"
  shows "\<not> contains_nul b"
proof -
  have cut: "CutPrefix r p = Some v \<Longrightarrow> v = drop (length p) r" for r p v
    by (simp add: CutPrefix_def split: if_splits)
  define r where "r = (if HasPrefix ref ''+'' then drop 1 ref else ref)"
  have r1: "r = ref \<or> r = drop 1 ref" by (simp add: r_def)
  have r2: "b = r \<or> (\<exists>p. CutPrefix r p = Some b)"
    using target_cases [OF assms(2) [unfolded localBranchTarget_def Let_def]] unfolding r_def .
  have "set b \<subseteq> set r" using r2 by (auto dest!: cut dest: in_set_dropD)
  also have "set r \<subseteq> set ref" using r1 by (auto dest: in_set_dropD)
  finally show ?thesis using assms(1) by (auto simp: contains_nul_def)
qed

lemma special_targets:
  "contains_nul gitAllBranchesTarget" "contains_nul gitMirrorBranchesTarget" "contains_nul gitCurrentBranchTarget"
  by (simp_all add: contains_nul_def gitAllBranchesTarget_def gitMirrorBranchesTarget_def gitCurrentBranchTarget_def)

lemma moved_elsewhere_plain:
  assumes "\<not> contains_nul b"
  shows "moved_elsewhere fs state currentPath sourcePath readState b = BranchCheckedOutElsewhere fs state currentPath b"
proof -
  have "b \<noteq> gitAllBranchesTarget" "b \<noteq> gitMirrorBranchesTarget" "b \<noteq> gitCurrentBranchTarget"
    using assms special_targets by blast+
  then show ?thesis by (simp add: moved_elsewhere_def)
qed

definition positionals_of :: "Word list \<Rightarrow> bytes list" where
  "positionals_of args = filter (\<lambda>v. \<not> is_option v) (map wd_Value args)"

definition branch_arguments :: "branchMoveMode \<Rightarrow> Word list \<Rightarrow> bool" where
  "branch_arguments mode args \<longleftrightarrow>
     mode \<noteq> branchMoveNone
     \<and> list_all (\<lambda>w. wd_Resolvable w \<and> wd_Value w \<noteq> ''--'' \<and> \<not> contains_nul (wd_Value w)) args
     \<and> list_all (\<lambda>v. effect_fits mode v) (filter is_option (map wd_Value args))
     \<and> (if mode = branchMoveForce then list_ex option_forces (filter is_option (map wd_Value args))
        else list_ex names_mode (filter is_option (map wd_Value args)))"

lemma if_mem: "a \<in> S \<Longrightarrow> b \<in> S \<Longrightarrow> (if c then a else b) \<in> S"
  by simp

lemma option_effect_range: "option_effect v \<noteq> Some (branchMoveForce, fo)"
proof -
  have "branchShortMove v \<in> {None} \<union> Some ` {(m, b). m \<noteq> branchMoveForce}"
    unfolding branchShortMove_def by (intro if_mem) simp_all
  moreover have "map_of [(''--force'', (branchMoveNone, True)), (''--delete'', (branchMoveDelete, False)),
      (''--move'', (branchMoveRename, False)), (''--copy'', (branchMoveCopy, False))] v
      \<in> {None} \<union> Some ` {(m, b). m \<noteq> branchMoveForce}"
    unfolding map_of.simps fun_upd_def prod.sel by (intro if_mem) simp_all
  ultimately have "option_effect v \<in> {None} \<union> Some ` {(m, b). m \<noteq> branchMoveForce}"
    unfolding option_effect_def by (intro if_mem)
  then show ?thesis by auto
qed

lemma force_names_nothing: "effect_fits branchMoveForce v \<Longrightarrow> \<not> names_mode v"
  using option_effect_range [of v] by (auto simp: effect_fits_def names_mode_def split: option.splits)

lemma branchMoveTargets_spec:
  assumes "branch_arguments mode args"
  shows "branchMoveTargets args = branchTargetsForMode mode (positionals_of args)"
proof -
  let ?opts = "filter is_option (map wd_Value args)"
  have ex: "(\<exists>w \<in> set args. is_option (wd_Value w) \<and> P (wd_Value w)) = list_ex P ?opts" for P
    by (auto simp: list_ex_iff)
  have "parseBranchMoveArgs args =
      Some (if list_ex names_mode ?opts then mode else branchMoveNone, list_ex option_forces ?opts, positionals_of args)"
    using assms branch_args_any_order [of args mode branchMoveNone False "[]"]
    unfolding parseBranchMoveArgs_def positionals_of_def ex
    by (auto simp: branch_arguments_def list_all_iff)
  moreover have "mode = branchMoveForce \<Longrightarrow> \<not> list_ex names_mode ?opts"
    using assms force_names_nothing by (auto simp: branch_arguments_def list_all_iff list_ex_iff)
  moreover have "mode \<noteq> branchMoveNone"
    and "if mode = branchMoveForce then list_ex option_forces ?opts else list_ex names_mode ?opts"
    using assms unfolding branch_arguments_def by blast+
  ultimately show ?thesis
    by (cases "mode = branchMoveForce") (simp_all add: branchMoveTargets_def)
qed

lemma moved_targets:
  assumes "branch_arguments mode args" and "readState sourcePath = Inr state"
  shows "(\<exists>b \<in> set (branchMoveTargets args). moved_elsewhere fs state currentPath sourcePath readState b)
         \<longleftrightarrow> (\<exists>b \<in> moved_by state mode (positionals_of args). BranchCheckedOutElsewhere fs state currentPath b)"
proof -
  let ?ps = "positionals_of args"
  have plain: "moved_elsewhere fs state currentPath sourcePath readState b = BranchCheckedOutElsewhere fs state currentPath b"
    if "p \<in> set ?ps" "b \<in> set (localBranchTarget p)" for p b
  proof -
    have "\<not> contains_nul p"
      using assms(1) that(1) by (auto simp: branch_arguments_def positionals_of_def list_all_iff)
    then show ?thesis using moved_elsewhere_plain localBranchTarget_no_nul that(2) by blast
  qed
  have current: "moved_elsewhere fs state currentPath sourcePath readState gitCurrentBranchTarget
      \<longleftrightarrow> st_CurrentBranch state \<noteq> [] \<and> BranchCheckedOutElsewhere fs state currentPath (st_CurrentBranch state)"
    using assms(2)
    by (simp add: moved_elsewhere_def gitCurrentBranchTarget_def gitAllBranchesTarget_def gitMirrorBranchesTarget_def)
  have hd: "length ?ps \<in> {1, 2} \<Longrightarrow> hd ?ps \<in> set ?ps" by (cases ?ps) auto
  show ?thesis unfolding branchMoveTargets_spec [OF assms(1)]
  proof (cases mode)
    case branchMoveDelete
    then show "(\<exists>b \<in> set (branchTargetsForMode mode ?ps). moved_elsewhere fs state currentPath sourcePath readState b)
        \<longleftrightarrow> (\<exists>b \<in> moved_by state mode ?ps. BranchCheckedOutElsewhere fs state currentPath b)"
      using plain by (auto simp: moved_by_def)
  next
    case branchMoveRename
    then show "(\<exists>b \<in> set (branchTargetsForMode mode ?ps). moved_elsewhere fs state currentPath sourcePath readState b)
        \<longleftrightarrow> (\<exists>b \<in> moved_by state mode ?ps. BranchCheckedOutElsewhere fs state currentPath b)"
      using plain [OF hd] current by (auto simp: moved_by_def)
  next
    case branchMoveForce
    then show "(\<exists>b \<in> set (branchTargetsForMode mode ?ps). moved_elsewhere fs state currentPath sourcePath readState b)
        \<longleftrightarrow> (\<exists>b \<in> moved_by state mode ?ps. BranchCheckedOutElsewhere fs state currentPath b)"
    proof (cases "length ?ps \<in> {1, 2}")
      case True
      then show ?thesis using branchMoveForce plain [OF hd] by (auto simp: moved_by_def)
    next
      case False
      then have "length ?ps \<noteq> 1 \<and> length ?ps \<noteq> 2" by simp
      then have "length ?ps < 1 \<or> length ?ps > 2" by linarith
      then have "branchTargetsForMode mode ?ps = []" using branchMoveForce by simp
      then show ?thesis using branchMoveForce False by (simp add: moved_by_def)
    qed
  qed (simp_all add: moved_by_def)
qed

text \<open>C32. A git branch command is judged by what it moves, behind the wrappers that run the rest of the
  command, with its own options and names in any order, and with global options before the
  subcommand in any number and order: changes of directory, \<^verbatim>\<open>--git-dir\<close>,
  \<^verbatim>\<open>--work-tree\<close>, \<^verbatim>\<open>-c\<close> and the other options that git
  continues after, with their values inline or in the next word.  The condition holds exactly when
  the state of the selected repository can be read and one of the branches that the command moves is
  checked out in another worktree of it: the first name of a forced update, every name of a deletion,
  the old name of a renaming (the current branch if only the new name is given); a copy moves no
  branch, so it never matches, and neither does a call with a wrong number of names.  The premises
  say that the words are known, that options which select a mode agree on one, and that
  \<^verbatim>\<open>--\<close> and NUL bytes do not occur.\<close>

theorem branch_move_detected:
  assumes "stripCommandWrappers (path_Base (cmd_Argv0 parsed)) (cmd_Args parsed) ref_move_wrappers
             = (''git'', concat (map global_words gs) @ plain_word ''branch'' # args)"
    and "list_all global_ok gs" and "branch_arguments mode args"
    and "cwd = (if cmd_Cwd parsed = [] then base else cmd_Cwd parsed)"
  shows "command_moves_ref fs home base readState parsed \<longleftrightarrow>
           global_repository home cwd gs \<noteq> []
           \<and> (\<exists>state. readState (global_repository home cwd gs) = Inr state
                \<and> (\<exists>b \<in> moved_by state mode (positionals_of args).
                     BranchCheckedOutElsewhere fs state (global_cwd home cwd gs) b))"
proof -
  let ?state = "global_repository home cwd gs" and ?dir = "global_cwd home cwd gs"
  have iv: "gitInvocation home (concat (map global_words gs) @ plain_word ''branch'' # args) cwd
      = Some \<lparr>iv_subcommand = ''branch'', iv_args = args, iv_currentPath = ?dir, iv_statePath = ?state\<rparr>"
    using invocation_behind_globals [OF assms(2), of "plain_word ''branch''" home cwd args]
    by (simp add: gitInvocation_def HasPrefix_def)
  have "command_moves_ref fs home base readState parsed \<longleftrightarrow>
      branchMoveTargets args \<noteq> [] \<and> ?state \<noteq> []
      \<and> (\<exists>state. readState ?state = Inr state
           \<and> (\<exists>b \<in> set (branchMoveTargets args). moved_elsewhere fs state ?dir ?state readState b))"
    using assms(1,4) iv
    by (auto simp: command_moves_ref_def movedLocalBranches_def movedBranchCheckedOutElsewhere_def list_ex_iff Let_def
        split: sum.splits)
  then show ?thesis using moved_targets [OF assms(3), of readState ?state _ fs ?dir] by fastforce
qed

section \<open>Words with an unknown value\<close>

definition unknown :: "Word list \<Rightarrow> bool" where
  "unknown ws \<longleftrightarrow> (\<exists>w \<in> set ws. \<not> wd_Resolvable w)"

lemma unknown_simps [simp]: "\<not> unknown []" "unknown (w # ws) \<longleftrightarrow> \<not> wd_Resolvable w \<or> unknown ws"
  by (simp_all add: unknown_def)

text \<open>A word that an option uses as its value has a known value.\<close>

lemma used_word_known:
  assumes "n = 0 \<or> (n = 1 \<and> rest \<noteq> [] \<and> wd_Resolvable (hd rest))" "unknown rest"
  shows "unknown (drop n rest)"
  using assms by (cases rest) auto

lemma separate_value_known: "separate_value rest \<Longrightarrow> rest \<noteq> [] \<and> wd_Resolvable (hd rest)"
  by (cases rest) (auto simp: separate_value_def)

lemma branch_unknown: "unknown args \<Longrightarrow> branch_args_loop mode force ps endOptions args = None"
proof (induction args arbitrary: mode force ps endOptions)
  case (Cons w args)
  show ?case
  proof (cases "wd_Resolvable w")
    case True
    then have "unknown args" using Cons.prems by simp
    note IH = Cons.IH [OF this]
    show ?thesis unfolding branch_args_loop.simps Let_def IH
      by (simp split: option.split prod.split)
  qed simp
qed simp

lemma update_ref_unknown: "unknown args \<Longrightarrow> update_ref_loop deleteRef ps args = None"
proof (induction deleteRef ps args rule: update_ref_loop.induct)
  case (3 deleteRef ps argument follower args)
  then show ?case by (auto simp: Let_def)
qed simp_all

lemma reset_unknown: "unknown args \<Longrightarrow> reset_loop flag isTarget target modes n args = None"
proof (induction args arbitrary: isTarget target modes n)
  case (Cons w args)
  show ?case
  proof (cases "wd_Resolvable w")
    case True
    then have "unknown args" using Cons.prems by simp
    note IH = Cons.IH [OF this]
    show ?thesis unfolding reset_loop.simps Let_def IH
      by (simp split: option.split prod.split list.split)
  qed simp
qed simp

lemma normalize_unknown: "unknown args \<Longrightarrow> unknown (normalizeResetBranchArgs args flag)"
  by (induction args) (auto simp: normalizeResetBranchArgs_def split: option.splits)

lemma push_value_skip:
  "consumePushValueOption v rest = Skip n \<Longrightarrow> n = 0 \<or> (n = 1 \<and> rest \<noteq> [] \<and> wd_Resolvable (hd rest))"
  unfolding consumePushValueOption_def consumeLongPushValueOption_def
  by (simp split: if_splits option.splits prod.splits)

lemma push_argument_skip:
  "consumeLocalPushArgument v rest st = Some (st', n) \<Longrightarrow> n = 0 \<or> (n = 1 \<and> rest \<noteq> [] \<and> wd_Resolvable (hd rest))"
  unfolding consumeLocalPushArgument_def using push_value_skip [of v rest n]
  by (simp split: if_splits option.splits consumed.splits)

lemma push_unknown: "unknown args \<Longrightarrow> push_args_loop st args = None"
proof (induction st args rule: push_args_loop.induct)
  case (2 st argument rest)
  show ?case
  proof (cases "wd_Resolvable argument")
    case True
    then have "unknown rest" using 2(2) by simp
    then show ?thesis
      using 2(1) True used_word_known [OF push_argument_skip, of "wd_Value argument" rest st]
      by (auto split: option.split prod.split)
  qed simp
qed simp

lemma moved_unknown:
  assumes "unknown args"
  shows "fst (movedLocalBranches sub args currentPath statePath) = []"
  using branch_unknown [OF assms] update_ref_unknown [OF assms] reset_unknown [OF normalize_unknown [OF assms]]
    push_unknown [OF assms]
  by (simp add: movedLocalBranches_def branchMoveTargets_def parseBranchMoveArgs_def updateRefTargets_def
      resetBranchTarget_def localPushTargets_def parseLocalPushArgs_def)

lemma global_skip:
  "consumeGitGlobalOption v rest = Skip n \<Longrightarrow> n = 0 \<or> (n = 1 \<and> rest \<noteq> [] \<and> wd_Resolvable (hd rest))"
proof -
  have sep: "consumeSeparateGitGlobalValue rest = Skip n \<Longrightarrow> n = 1 \<and> rest \<noteq> [] \<and> wd_Resolvable (hd rest)"
    using separate_value_known by (auto simp: consumeSeparateGitGlobalValue_def split: if_splits)
  have "required_value_option v rest names = Skip n \<Longrightarrow> n = 0 \<or> (n = 1 \<and> rest \<noteq> [] \<and> wd_Resolvable (hd rest))" for names
    using sep by (induction names) (auto split: if_splits option.splits)
  then show "consumeGitGlobalOption v rest = Skip n \<Longrightarrow> n = 0 \<or> (n = 1 \<and> rest \<noteq> [] \<and> wd_Resolvable (hd rest))"
    using sep unfolding consumeGitGlobalOption_def by (simp split: if_splits option.splits)
qed

lemma repository_skip:
  "gitRepositoryFlag v rest = Some (Some (name, x, n)) \<Longrightarrow> n = 0 \<or> (n = 1 \<and> rest \<noteq> [] \<and> wd_Resolvable (hd rest))"
proof -
  have "repository_flag v rest names = Some (Some (name, x, n)) \<Longrightarrow>
      n = 0 \<or> (n = 1 \<and> rest \<noteq> [] \<and> wd_Resolvable (hd rest))" for names
    using separate_value_known by (induction names) (auto split: if_splits option.splits)
  then show "gitRepositoryFlag v rest = Some (Some (name, x, n)) \<Longrightarrow>
      n = 0 \<or> (n = 1 \<and> rest \<noteq> [] \<and> wd_Resolvable (hd rest))"
    unfolding gitRepositoryFlag_def .
qed

lemma invocation_unknown:
  "unknown ws \<Longrightarrow> invocation_loop home cwd p s e ws = Some iv \<Longrightarrow> unknown (iv_args iv)"
proof (induction home cwd p s e ws rule: invocation_loop.induct)
  case (2 home cwd p s e word rest)
  have known: "wd_Resolvable word" "unknown rest" using 2(5,6) by (auto split: if_splits)
  show ?case
  proof (cases "wd_Value word = ''-C''")
    case True
    then have sep: "separate_value rest" using 2(6) known(1) by (auto split: if_splits)
    then have "unknown (tl rest)"
      using used_word_known [of 1 rest] separate_value_known [OF sep] known(2) by (simp add: drop_Suc)
    then show ?thesis using 2(1) [of "resolvePath home cwd (wd_Value (hd rest))"] 2(6) known(1) True sep by (simp add: Let_def)
  next
    case False
    show ?thesis
    proof (cases "gitRepositoryFlag (wd_Value word) rest")
      case None
      show ?thesis
      proof (cases "consumeGitGlobalOption (wd_Value word) rest")
        case (Skip n)
        then have "unknown (drop n rest)" using used_word_known [OF global_skip [OF Skip]] known(2) by simp
        then show ?thesis using 2(2) [OF _ False None Skip] 2(6) known(1) False None Skip by simp
      qed (use 2(6) known False None in auto)
    next
      case (Some r)
      show ?thesis
      proof (cases r)
        case (Some q)
        obtain name x n where q: "q = (name, x, n)" by (cases q)
        then have rf: "gitRepositoryFlag (wd_Value word) rest = Some (Some (name, x, n))"
          using \<open>gitRepositoryFlag _ _ = Some r\<close> Some by simp
        then have "unknown (drop n rest)" using used_word_known [OF repository_skip [OF rf]] known(2) by simp
        then show ?thesis
          using 2(3,4) 2(6) known(1) False rf by (cases "name = ''--git-dir''") auto
      qed (use 2(6) known False Some in auto)
    qed
  qed
qed simp

text \<open>C33. A git command with a word whose value is not known statically never counts as moving a branch,
  wherever the word stands and whatever the repositories hold.\<close>

theorem unknown_words_never_match:
  assumes "stripCommandWrappers (path_Base (cmd_Argv0 parsed)) (cmd_Args parsed) ref_move_wrappers = (argv0, ws)"
    and "w \<in> set ws" and "\<not> wd_Resolvable w"
  shows "\<not> command_moves_ref fs home base readState parsed"
proof -
  have u: "unknown ws" using assms(2,3) by (auto simp: unknown_def)
  show ?thesis
  proof (cases "gitInvocation home ws (if cmd_Cwd parsed = [] then base else cmd_Cwd parsed)")
    case (Some iv)
    then have "unknown (iv_args iv)" using invocation_unknown [OF u] by (auto simp: gitInvocation_def)
    then have "fst (movedLocalBranches (iv_subcommand iv) (iv_args iv) (iv_currentPath iv) (iv_statePath iv)) = []"
      by (rule moved_unknown)
    then show ?thesis using assms(1) Some by (auto simp: command_moves_ref_def Let_def split: prod.splits)
  qed (use assms(1) in \<open>simp add: command_moves_ref_def\<close>)
qed

section \<open>Examples\<close>

definition demo_git_fs :: git_fs where
  "demo_git_fs = \<lparr>gf_Stat = (\<lambda>_. IoNotExist), gf_ReadFile = (\<lambda>_. IoNotExist), gf_ReadDir = (\<lambda>_. IoNotExist),
     gf_EvalSymlinks = Some, gf_Getwd = None,
     gf_storer = (\<lambda>_ _. \<lparr>gs_Reference = (\<lambda>_. None), gs_IterReferences = None\<rparr>)\<rparr>"

definition demo_state :: State where
  "demo_state = \<lparr>st_PrimaryCheckout = ''/repo'', st_DefaultBranch = ''main'', st_CurrentWorktree = ''/wt'',
     st_CurrentBranch = ''topic'', st_LocalBranches = [''main'', ''topic''],
     st_Worktrees = [\<lparr>wk_Path = ''/repo'', wk_Branch = ''main'', wk_IsPrimary = True\<rparr>,
                     \<lparr>wk_Path = ''/wt'', wk_Branch = ''topic'', wk_IsPrimary = False\<rparr>]\<rparr>"

text \<open>\<^verbatim>\<open>time git --no-pager --git-dir=/wt/.git -C /wt branch main -f\<close>.\<close>

definition demo_move :: Command where
  "demo_move = \<lparr>cmd_Argv0 = ''time'',
     cmd_Args = map plain_word [''git'', ''--no-pager'', ''--git-dir=/wt/.git'', ''-C'', ''/wt'', ''branch'', ''main'', ''-f''],
     cmd_Cwd = []\<rparr>"

theorem branch_move_detected_witness:
  "command_moves_ref demo_git_fs None ''/work'' (\<lambda>_. Inr demo_state) demo_move"
proof -
  let ?gs = "[Global_flag ''--no-pager'', Global_git_dir True ''/wt/.git'', Global_cwd ''/wt'']"
    and ?args = "map plain_word [''main'', ''-f'']"
  have strip: "stripCommandWrappers (path_Base (cmd_Argv0 demo_move)) (cmd_Args demo_move) ref_move_wrappers
      = (''git'', concat (map global_words ?gs) @ plain_word ''branch'' # ?args)" by code_simp
  have ok: "list_all global_ok ?gs" by code_simp
  have args: "branch_arguments branchMoveForce ?args" by code_simp
  have cwd: "''/work'' = (if cmd_Cwd demo_move = [] then ''/work'' else cmd_Cwd demo_move)" by code_simp
  have "global_repository None ''/work'' ?gs = ''/wt''" "global_cwd None ''/work'' ?gs = ''/wt''" by code_simp+
  moreover have "''main'' \<in> moved_by demo_state branchMoveForce (positionals_of ?args)" by code_simp
  moreover have "BranchCheckedOutElsewhere demo_git_fs demo_state ''/wt'' ''main''" by code_simp
  ultimately show ?thesis
    using branch_move_detected [OF strip ok args cwd, of demo_git_fs None "\<lambda>_. Inr demo_state"] by auto
qed

theorem unknown_words_never_match_witness:
  "\<not> command_moves_ref demo_git_fs None ''/work'' (\<lambda>_. Inr demo_state)
     \<lparr>cmd_Argv0 = ''git'', cmd_Args = [plain_word ''branch'', plain_word ''-f'', (plain_word ''main'')\<lparr>wd_Resolvable := False\<rparr>],
      cmd_Cwd = []\<rparr>"
proof (rule unknown_words_never_match)
  show "stripCommandWrappers (path_Base (cmd_Argv0
      \<lparr>cmd_Argv0 = ''git'', cmd_Args = [plain_word ''branch'', plain_word ''-f'', (plain_word ''main'')\<lparr>wd_Resolvable := False\<rparr>],
      cmd_Cwd = []\<rparr>)) (cmd_Args
      \<lparr>cmd_Argv0 = ''git'', cmd_Args = [plain_word ''branch'', plain_word ''-f'', (plain_word ''main'')\<lparr>wd_Resolvable := False\<rparr>],
      cmd_Cwd = []\<rparr>) ref_move_wrappers
    = (''git'', [plain_word ''branch'', plain_word ''-f'', (plain_word ''main'')\<lparr>wd_Resolvable := False\<rparr>])"
    by code_simp
next
  show "(plain_word ''main'')\<lparr>wd_Resolvable := False\<rparr>
    \<in> set [plain_word ''branch'', plain_word ''-f'', (plain_word ''main'')\<lparr>wd_Resolvable := False\<rparr>]" by simp
qed simp

end
