(* ===== verification/HotKV_Refine.thy ===== *)
theory HotKV_Refine
  imports HotKV_Props
begin

text \<open>
  The hot cache refines a forgetful map.  The abstract cache is a partial map from keys to values
  that may lose entries when time passes or something is stored, and nothing else; the simulation
  relation reads it off the live entries of the store, \<^term>\<open>cache_view\<close>.
\<close>

section \<open>The abstract cache\<close>

datatype cache_call =
    Get_call entryKey
  | Set_call entryKey bytes SetMode go_duration
  | Delete_call entryKey
  | GetDelete_call entryKey
  | Exists_call entryKey
  | Expire_call entryKey go_duration

datatype cache_reply = R_error | R_value "bytes option" | R_bool bool

type_synonym cache_map = "entryKey \<rightharpoonup> bytes"

definition admits :: "cache_map \<Rightarrow> entryKey \<Rightarrow> SetMode \<Rightarrow> bool" where
  "admits m k mode \<longleftrightarrow>
     (if mode = SetModeNX then m k = None else if mode = SetModeXX then m k \<noteq> None else mode = SetModeAny)"

inductive cache_spec :: "cache_map \<Rightarrow> cache_call \<Rightarrow> cache_reply \<Rightarrow> cache_map \<Rightarrow> bool" where
  spec_error: "cache_spec m c R_error m"
| spec_get: "cache_spec m (Get_call k) (R_value (m k)) m"
| spec_stored: "admits m k mode \<Longrightarrow> m' k = Some v \<Longrightarrow> m' \<subseteq>\<^sub>m m(k \<mapsto> v) \<Longrightarrow>
     cache_spec m (Set_call k v mode ttl) (R_bool True) m'"
| spec_skipped: "mode \<in> {SetModeNX, SetModeXX} \<Longrightarrow> \<not> admits m k mode \<Longrightarrow>
     cache_spec m (Set_call k v mode ttl) (R_bool False) m"
| spec_delete: "cache_spec m (Delete_call k) (R_bool (m k \<noteq> None)) (m(k := None))"
| spec_get_delete: "cache_spec m (GetDelete_call k) (R_value (m k)) (m(k := None))"
| spec_exists: "cache_spec m (Exists_call k) (R_bool (m k \<noteq> None)) m"
| spec_expire: "cache_spec m (Expire_call k ttl) (R_bool (m k \<noteq> None)) (if ttl \<le> 0 then m(k := None) else m)"

text \<open>Between two calls time passes, which may remove entries.\<close>

inductive cache_runs :: "cache_map \<Rightarrow> (cache_call \<times> cache_reply) list \<Rightarrow> bool" where
  runs_Nil: "cache_runs m []"
| runs_Cons: "m1 \<subseteq>\<^sub>m m \<Longrightarrow> cache_spec m1 c r m2 \<Longrightarrow> cache_runs m2 trace \<Longrightarrow> cache_runs m ((c, r) # trace)"

section \<open>The store as an implementation\<close>

fun value_reply :: "(hotkv_error + Entry option) \<Rightarrow> cache_reply" where
  "value_reply (Inl err) = R_error"
| "value_reply (Inr e) = R_value (map_option en_Value e)"

fun bool_reply :: "(hotkv_error + bool) \<Rightarrow> cache_reply" where
  "bool_reply (Inl err) = R_error"
| "bool_reply (Inr b) = R_bool b"

fun store_call :: "cache_call \<Rightarrow> go_time \<Rightarrow> Store \<Rightarrow> cache_reply \<times> Store" where
  "store_call (Get_call k) now s = apfst value_reply (Store_Get (namespace k) (key k) now s)"
| "store_call (Set_call k v mode ttl) now s =
     apfst (\<lambda>r. case r of Inl err \<Rightarrow> R_error | Inr e \<Rightarrow> R_bool (e \<noteq> None))
       (Store_Set (namespace k) (key k) v \<lparr>Mode = mode, TTL = ttl\<rparr> now s)"
| "store_call (Delete_call k) now s = apfst bool_reply (Store_Delete (namespace k) (key k) now s)"
| "store_call (GetDelete_call k) now s = apfst value_reply (Store_GetDelete (namespace k) (key k) now s)"
| "store_call (Exists_call k) now s = apfst bool_reply (Store_Exists (namespace k) (key k) now s)"
| "store_call (Expire_call k ttl) now s = apfst bool_reply (Store_Expire (namespace k) (key k) ttl now s)"

fun store_replies :: "(go_time \<times> cache_call) list \<Rightarrow> Store \<Rightarrow> (cache_call \<times> cache_reply) list" where
  "store_replies [] s = []"
| "store_replies ((now, c) # calls) s =
     (let (r, t) = store_call c now s in (c, r) # store_replies calls t)"

section \<open>Simulation\<close>

lemma view_elapse:
  assumes "now \<le> now'"
  shows "cache_view s now' \<subseteq>\<^sub>m cache_view s now"
  using assms
  by (auto simp: map_le_def cache_view_def peek_def isExpired_def split: option.splits if_splits)

lemma cache_view_valid: "valid_key k \<Longrightarrow> cache_view s now k = map_option e_value (peek s now k)"
  by (simp add: cache_view_def)

lemma cache_view_cong: "(\<And>j. peek t now j = peek s now j) \<Longrightarrow> cache_view t now = cache_view s now"
  by (auto simp: cache_view_def fun_eq_iff)

lemma cache_view_remove: "cache_view (removeLocked k s) now = (cache_view s now)(k := None)"
  by (auto simp: cache_view_def peek_def delete_conv' fun_eq_iff)

lemma entryLocked_view: "entryLocked k now s = (c, t) \<Longrightarrow> cache_view t now = cache_view s now"
  using entryLocked_keeps_peek cache_view_cong by blast

lemma entryLocked_reads:
  "valid_key k \<Longrightarrow> entryLocked k now s = (c, t) \<Longrightarrow> cache_view s now k = map_option e_value c"
  using entryLocked_peek [of k now s] by (simp add: cache_view_valid)

lemma call_key_cases:
  obtains (bad) err where "validateKey (namespace k) (key k) = Inl err"
  | (good) "validateKey (namespace k) (key k) = Inr k" "valid_key k"
  using validateKey_valid [of k] validateKey_invalid [of k] by (cases "valid_key k") auto

lemma get_simulates:
  "Store_Get (namespace k) (key k) now s = (r, t) \<Longrightarrow>
   cache_spec (cache_view s now) (Get_call k) (value_reply r) (cache_view t now)"
proof (cases k rule: call_key_cases)
  case good
  assume call: "Store_Get (namespace k) (key k) now s = (r, t)"
  obtain c s1 where el: "entryLocked k now s = (c, s1)" by fastforce
  have "t = s1 \<and> value_reply r = R_value (cache_view s now k)"
    using call el good entryLocked_reads [OF good(2) el] by (cases c) (auto simp: Store_Get_def exportEntry_def)
  then show ?thesis using entryLocked_view [OF el] spec_get by metis
qed (auto simp: Store_Get_def intro: spec_error)

lemma delete_simulates:
  "Store_Delete (namespace k) (key k) now s = (r, t) \<Longrightarrow>
   (\<exists>err. r = Inl err) \<and> t = s
   \<or> r = Inr (cache_view s now k \<noteq> None) \<and> cache_view t now = (cache_view s now)(k := None)"
proof (cases k rule: call_key_cases)
  case good
  assume call: "Store_Delete (namespace k) (key k) now s = (r, t)"
  obtain c s1 where el: "entryLocked k now s = (c, s1)" by fastforce
  show ?thesis
  proof (cases c)
    case None
    then have "cache_view s now k = None" using entryLocked_reads [OF good(2) el] by simp
    moreover have "r = Inr False" "t = s1" using call el good None by (auto simp: Store_Delete_def)
    ultimately show ?thesis using entryLocked_view [OF el] by (simp add: fun_upd_idem)
  next
    case (Some e)
    then have "cache_view s now k \<noteq> None" using entryLocked_reads [OF good(2) el] by simp
    moreover have "r = Inr True" "t = removeLocked k s1" using call el good Some by (auto simp: Store_Delete_def)
    ultimately show ?thesis using entryLocked_view [OF el] by (simp add: cache_view_remove)
  qed
qed (auto simp: Store_Delete_def)

lemma get_delete_simulates:
  "Store_GetDelete (namespace k) (key k) now s = (r, t) \<Longrightarrow>
   cache_spec (cache_view s now) (GetDelete_call k) (value_reply r) (cache_view t now)"
proof (cases k rule: call_key_cases)
  case good
  assume call: "Store_GetDelete (namespace k) (key k) now s = (r, t)"
  obtain c s1 where el: "entryLocked k now s = (c, s1)" by fastforce
  have view: "cache_view s1 now = cache_view s now" using entryLocked_view [OF el] .
  have "value_reply r = R_value (cache_view s now k) \<and> cache_view t now = (cache_view s now)(k := None)"
    using call el good view entryLocked_reads [OF good(2) el]
    by (cases c) (auto simp: Store_GetDelete_def exportEntry_def cache_view_remove fun_upd_idem)
  then show ?thesis using spec_get_delete by metis
qed (auto simp: Store_GetDelete_def intro: spec_error)

lemma expire_simulates:
  "Store_Expire (namespace k) (key k) ttl now s = (r, t) \<Longrightarrow>
   cache_spec (cache_view s now) (Expire_call k ttl) (bool_reply r) (cache_view t now)"
proof (cases k rule: call_key_cases)
  case good
  assume call: "Store_Expire (namespace k) (key k) ttl now s = (r, t)"
  show ?thesis
  proof (cases "ttl \<le> 0")
    case True
    then have "Store_Delete (namespace k) (key k) now s = (r, t)" using call good by (simp add: Store_Expire_def)
    then show ?thesis
      using delete_simulates [of k now s r t] spec_error spec_expire [of "cache_view s now" k ttl] True by auto
  next
    case False
    obtain c s1 where el: "entryLocked k now s = (c, s1)" by fastforce
    have view: "cache_view s1 now = cache_view s now" using entryLocked_view [OF el] .
    have "bool_reply r = R_bool (cache_view s now k \<noteq> None) \<and> cache_view t now = cache_view s now"
    proof (cases c)
      case None
      then show ?thesis using call el good view False entryLocked_reads [OF good(2) el]
        by (auto simp: Store_Expire_def)
    next
      case (Some e)
      have p: "peek s1 now k = Some e"
        using entryLocked_peek [of k now s] entryLocked_keeps_peek [OF el, of k] el Some by simp
      have t: "t = put_entry k (e\<lparr>e_version := e_version e + 1, e_updatedAt := now,
                                  e_expiresAt := time_add now ttl\<rparr>) s1" and r: "r = Inr True"
        using call el good False Some by (auto simp: Store_Expire_def)
      have "cache_view t now = cache_view s1 now"
        using p False good(2) unfolding t
        by (auto simp: fun_eq_iff cache_view_def peek_def put_entry_def update_conv' isExpired_def IsZero_def
            time_add_def split: option.splits if_splits)
      then show ?thesis using r view Some entryLocked_reads [OF good(2) el] by simp
    qed
    then show ?thesis using spec_expire [of "cache_view s now" k ttl] False by auto
  qed
qed (auto simp: Store_Expire_def intro: spec_error)

lemma exists_simulates:
  "Store_Exists (namespace k) (key k) now s = (r, t) \<Longrightarrow>
   cache_spec (cache_view s now) (Exists_call k) (bool_reply r) (cache_view t now)"
proof (cases k rule: call_key_cases)
  case good
  assume call: "Store_Exists (namespace k) (key k) now s = (r, t)"
  obtain c s1 where el: "entryLocked k now s = (c, s1)" by fastforce
  have "(\<exists>err. r = Inl err) \<or> r = Inr (c \<noteq> None)" and t: "t = s1"
    using call el good
    by (cases c; auto simp: Store_Exists_def GetBounded_def readBounded_def unlimitedReadBytes_def max_int64_def
        split: sum.splits)+
  then show ?thesis
    using entryLocked_view [OF el] entryLocked_reads [OF good(2) el] spec_error spec_exists [of "cache_view s now" k]
    by auto
qed (auto simp: Store_Exists_def GetBounded_def readBounded_def intro: spec_error)

lemma set_skips:
  assumes "Store_Set (namespace k) (key k) v \<lparr>Mode = mode, TTL = ttl\<rparr> now s = (Inr None, t)"
  shows "mode \<in> {SetModeNX, SetModeXX} \<and> \<not> admits (cache_view s now) k mode \<and> cache_view t now = cache_view s now"
proof (cases k rule: call_key_cases)
  case good
  obtain c s1 where el: "entryLocked k now s = (c, s1)" by fastforce
  have "(mode = SetModeNX \<and> c \<noteq> None \<or> mode = SetModeXX \<and> c = None) \<and> t = s1"
    using assms el good
    by (auto simp: Store_Set_def Let_def split: sum.splits prod.splits if_splits bool.splits)
  then show ?thesis
    using entryLocked_view [OF el] entryLocked_reads [OF good(2) el]
    by (auto simp: admits_def SetModeNX_def SetModeXX_def)
qed (use assms in \<open>auto simp: Store_Set_def\<close>)

lemma set_stores:
  assumes "Store_Set (namespace k) (key k) v \<lparr>Mode = mode, TTL = ttl\<rparr> now s = (Inr (Some e), t)"
  shows "admits (cache_view s now) k mode \<and> cache_view t now k = Some v
         \<and> cache_view t now \<subseteq>\<^sub>m (cache_view s now)(k \<mapsto> v)"
proof (cases k rule: call_key_cases)
  case good
  obtain c s1 where el: "entryLocked k now s = (c, s1)" by fastforce
  have "admits (cache_view s now) k mode"
    using assms el good entryLocked_reads [OF good(2) el]
    by (auto simp: Store_Set_def Let_def admits_def split: sum.splits prod.splits if_splits bool.splits)
  moreover have now: "cache_view t now k = Some v"
    using Store_Set_value [OF assms] good(2) by (auto simp: cache_view_valid)
  moreover have "cache_view t now j = None \<or> cache_view t now j = cache_view s now j" if "j \<noteq> k" for j
    using Store_Set_other [OF assms, of j] that by (auto simp: cache_view_def)
  ultimately show ?thesis by (auto simp: map_le_def dom_def) (metis option.distinct(1))
qed (use assms in \<open>auto simp: Store_Set_def\<close>)

lemma set_simulates:
  assumes "store_shape s" "Store_Set (namespace k) (key k) v \<lparr>Mode = mode, TTL = ttl\<rparr> now s = (r, t)"
  shows "cache_spec (cache_view s now) (Set_call k v mode ttl)
           (case r of Inl err \<Rightarrow> R_error | Inr e \<Rightarrow> R_bool (e \<noteq> None)) (cache_view t now)"
proof (cases r)
  case (Inl err)
  then have "cache_view t now = cache_view s now"
    using failed_set_keeps [OF assms(1)] assms(2) by (intro cache_view_cong) blast
  then show ?thesis using Inl spec_error by simp
next
  case (Inr e)
  show ?thesis
  proof (cases e)
    case None
    then show ?thesis using set_skips assms(2) Inr spec_skipped by auto
  next
    case (Some x)
    then show ?thesis using set_stores assms(2) Inr spec_stored by auto
  qed
qed

lemma store_call_simulates:
  assumes "store_ok s" "store_call c now s = (r, t)"
  shows "cache_spec (cache_view s now) c r (cache_view t now) \<and> store_ok t"
proof (cases c)
  case (Get_call k)
  then show ?thesis using assms get_simulates [of k now s] Store_Get_ok [OF assms(1), of "namespace k" "key k" now]
    by (cases "Store_Get (namespace k) (key k) now s") auto
next
  case (Set_call k v mode ttl)
  let ?o = "\<lparr>Mode = mode, TTL = ttl\<rparr>"
  show ?thesis
    using assms Set_call set_simulates [OF store_ok_shape [OF assms(1)], of k v mode ttl now]
      Store_Set_ok [OF assms(1), of "namespace k" "key k" v ?o now]
    by (cases "Store_Set (namespace k) (key k) v ?o now s") (auto simp del: not_None_eq)
next
  case (Delete_call k)
  obtain q u where d: "Store_Delete (namespace k) (key k) now s = (q, u)" by fastforce
  then show ?thesis
    using assms Delete_call delete_simulates [OF d] Store_Delete_ok [OF assms(1), of "namespace k" "key k" now]
      spec_error spec_delete [of "cache_view s now" k]
    by auto
next
  case (GetDelete_call k)
  then show ?thesis
    using assms get_delete_simulates [of k now s] Store_GetDelete_ok [OF assms(1), of "namespace k" "key k" now]
    by (cases "Store_GetDelete (namespace k) (key k) now s") auto
next
  case (Exists_call k)
  then show ?thesis
    using assms exists_simulates [of k now s] Store_Exists_ok [OF assms(1), of "namespace k" "key k" now]
    by (cases "Store_Exists (namespace k) (key k) now s") auto
next
  case (Expire_call k ttl)
  then show ?thesis
    using assms expire_simulates [of k ttl now s] Store_Expire_ok [OF assms(1), of "namespace k" "key k" ttl now]
    by (cases "Store_Expire (namespace k) (key k) ttl now s") auto
qed

text \<open>C34. The store refines a forgetful map: whatever the sequence of calls and whenever they are made, the
  replies are replies of a map from keys to values that changes only as the calls say, except that
  entries may be lost when time passes or when another entry is stored.  A value is never invented,
  altered or read under another key, a failed call changes nothing, and a condition of NX or XX is
  decided on the live entry.\<close>

theorem store_refines_forgetful_map:
  assumes "kv_reachable s" and "sorted (now # map fst calls)"
  shows "cache_runs (cache_view s now) (store_replies calls s)"
proof -
  have "store_ok s" using assms(1) by (rule kv_reachable_ok)
  then show ?thesis using assms(2)
  proof (induction calls arbitrary: now s)
    case (Cons nc calls)
    obtain now' c where nc: "nc = (now', c)" by (cases nc)
    obtain r t where call: "store_call c now' s = (r, t)" by fastforce
    have sim: "cache_spec (cache_view s now') c r (cache_view t now')" "store_ok t"
      using store_call_simulates [OF Cons.prems(1) call] by blast+
    have "cache_runs (cache_view t now') (store_replies calls t)"
      using Cons.IH [OF sim(2), of now'] Cons.prems(2) nc by simp
    then show ?case
      using runs_Cons [OF view_elapse [of now now'] sim(1)] Cons.prems(2) nc call by simp
  qed (simp add: runs_Nil)
qed

definition demo_calls :: "(go_time \<times> cache_call) list" where
  "demo_calls =
     [(1, Set_call (EntryKey ''n'' ''a'') ''v'' SetModeNX 5), (3, Set_call (EntryKey ''n'' ''a'') ''w'' SetModeNX 5),
      (4, Get_call (EntryKey ''n'' ''a'')), (9, Get_call (EntryKey ''n'' ''a''))]"

theorem store_refines_forgetful_map_witness:
  "cache_runs (cache_view (New small_options) 0)
     [(Set_call (EntryKey ''n'' ''a'') ''v'' SetModeNX 5, R_bool True),
      (Set_call (EntryKey ''n'' ''a'') ''w'' SetModeNX 5, R_bool False),
      (Get_call (EntryKey ''n'' ''a''), R_value (Some ''v'')), (Get_call (EntryKey ''n'' ''a''), R_value None)]"
proof -
  have "sorted (0 # map fst demo_calls)" by (simp add: demo_calls_def)
  moreover have "store_replies demo_calls (New small_options) =
     [(Set_call (EntryKey ''n'' ''a'') ''v'' SetModeNX 5, R_bool True),
      (Set_call (EntryKey ''n'' ''a'') ''w'' SetModeNX 5, R_bool False),
      (Get_call (EntryKey ''n'' ''a''), R_value (Some ''v'')), (Get_call (EntryKey ''n'' ''a''), R_value None)]"
    by code_simp
  ultimately show ?thesis using store_refines_forgetful_map [OF kv_start] by metis
qed

end
