(* ===== verification/Json.thy ===== *)
theory Json
  imports AG_Prelude
begin

text \<open>
  The part of \<^verbatim>\<open>encoding/json\<close> the program relies on: the scanner as the state machine of the
  standard library (\<^verbatim>\<open>json.Valid\<close>), the members of an object and the elements of an array as raw
  texts (\<^verbatim>\<open>json.RawMessage\<close>), strings with their escapes, and the encoding of strings.

  The scanner reads one byte at a time with a stack of open objects and arrays, so it needs no fuel.
  Splitting is only applied to valid texts.
\<close>

section \<open>The scanner\<close>

datatype parse_frame = ParseObjectKey | ParseObjectValue | ParseArrayValue

datatype scan_state =
    ScanBeginValue | ScanBeginValueOrEmpty | ScanBeginString | ScanBeginStringOrEmpty
  | ScanEndValue | ScanEndTop | ScanString | ScanEscape | ScanUnicode nat
  | ScanNeg | ScanDigits | ScanZero | ScanDot | ScanFraction | ScanExp | ScanExpSign | ScanExpDigits
  | ScanLiteral bytes

definition json_space :: "char \<Rightarrow> bool" where
  "json_space c \<longleftrightarrow> c \<in> {CHR '' '', CHR 0x09, CHR 0x0D, CHR 0x0A}"

definition json_digit :: "char \<Rightarrow> bool" where
  "json_digit c \<longleftrightarrow> c \<in> set ''0123456789''"

definition hex_value :: "char \<Rightarrow> nat option" where
  "hex_value c = map_of (zip ''0123456789abcdefABCDEF'' [0,1,2,3,4,5,6,7,8,9,10,11,12,13,14,15,10,11,12,13,14,15]) c"

definition maxNestingDepth :: nat where "maxNestingDepth = 10000"

type_synonym scanner = "scan_state \<times> parse_frame list"

definition scan_push :: "parse_frame \<Rightarrow> scan_state \<Rightarrow> parse_frame list \<Rightarrow> scanner option" where
  "scan_push frame st stack =
     (if maxNestingDepth \<le> length stack then None else Some (st, frame # stack))"

definition scan_pop :: "parse_frame list \<Rightarrow> scanner option" where
  "scan_pop stack = (if stack = [] then Some (ScanEndTop, []) else Some (ScanEndValue, stack))"

fun scan_end_value :: "char \<Rightarrow> parse_frame list \<Rightarrow> scanner option" where
  "scan_end_value c [] = (if json_space c then Some (ScanEndTop, []) else None)"
| "scan_end_value c (frame # stack) =
     (if json_space c then Some (ScanEndValue, frame # stack)
      else case frame of
        ParseObjectKey \<Rightarrow> if c = CHR '':'' then Some (ScanBeginValue, ParseObjectValue # stack) else None
      | ParseObjectValue \<Rightarrow>
          if c = CHR '','' then Some (ScanBeginString, ParseObjectKey # stack)
          else if c = CHR ''}'' then scan_pop stack else None
      | ParseArrayValue \<Rightarrow>
          if c = CHR '','' then Some (ScanBeginValue, ParseArrayValue # stack)
          else if c = CHR '']'' then scan_pop stack else None)"

definition scan_begin_value :: "char \<Rightarrow> parse_frame list \<Rightarrow> scanner option" where
  "scan_begin_value c stack =
     (if json_space c then Some (ScanBeginValue, stack)
      else if c = CHR ''{'' then scan_push ParseObjectKey ScanBeginStringOrEmpty stack
      else if c = CHR ''['' then scan_push ParseArrayValue ScanBeginValueOrEmpty stack
      else if c = CHR 0x22 then Some (ScanString, stack)
      else if c = CHR ''-'' then Some (ScanNeg, stack)
      else if c = CHR ''0'' then Some (ScanZero, stack)
      else if c = CHR ''t'' then Some (ScanLiteral ''rue'', stack)
      else if c = CHR ''f'' then Some (ScanLiteral ''alse'', stack)
      else if c = CHR ''n'' then Some (ScanLiteral ''ull'', stack)
      else if json_digit c then Some (ScanDigits, stack)
      else None)"

definition scan_begin_string :: "char \<Rightarrow> parse_frame list \<Rightarrow> scanner option" where
  "scan_begin_string c stack =
     (if json_space c then Some (ScanBeginString, stack)
      else if c = CHR 0x22 then Some (ScanString, stack) else None)"

definition scan_zero :: "char \<Rightarrow> parse_frame list \<Rightarrow> scanner option" where
  "scan_zero c stack =
     (if c = CHR ''.'' then Some (ScanDot, stack)
      else if c \<in> {CHR ''e'', CHR ''E''} then Some (ScanExp, stack)
      else scan_end_value c stack)"

definition scan_exp_sign :: "char \<Rightarrow> parse_frame list \<Rightarrow> scanner option" where
  "scan_exp_sign c stack = (if json_digit c then Some (ScanExpDigits, stack) else None)"

fun scan_step :: "char \<Rightarrow> scanner \<Rightarrow> scanner option" where
  "scan_step c (ScanBeginValue, stack) = scan_begin_value c stack"
| "scan_step c (ScanBeginValueOrEmpty, stack) =
     (if json_space c then Some (ScanBeginValueOrEmpty, stack)
      else if c = CHR '']'' then scan_end_value c stack
      else scan_begin_value c stack)"
| "scan_step c (ScanBeginString, stack) = scan_begin_string c stack"
| "scan_step c (ScanBeginStringOrEmpty, stack) =
     (if json_space c then Some (ScanBeginStringOrEmpty, stack)
      else if c = CHR ''}'' then scan_end_value c (ParseObjectValue # tl stack)
      else scan_begin_string c stack)"
| "scan_step c (ScanEndValue, stack) = scan_end_value c stack"
| "scan_step c (ScanEndTop, stack) = (if json_space c then Some (ScanEndTop, stack) else None)"
| "scan_step c (ScanString, stack) =
     (if c = CHR 0x22 then Some (ScanEndValue, stack)
      else if c = CHR 0x5C then Some (ScanEscape, stack)
      else if (of_char c :: nat) < 0x20 then None
      else Some (ScanString, stack))"
| "scan_step c (ScanEscape, stack) =
     (if c \<in> set ''bfnrt'' \<union> {CHR 0x5C, CHR ''/'', CHR 0x22} then Some (ScanString, stack)
      else if c = CHR ''u'' then Some (ScanUnicode 3, stack)
      else None)"
| "scan_step c (ScanUnicode n, stack) =
     (if hex_value c = None then None
      else Some (case n of 0 \<Rightarrow> ScanString | Suc m \<Rightarrow> ScanUnicode m, stack))"
| "scan_step c (ScanNeg, stack) =
     (if c = CHR ''0'' then Some (ScanZero, stack)
      else if json_digit c then Some (ScanDigits, stack) else None)"
| "scan_step c (ScanDigits, stack) = (if json_digit c then Some (ScanDigits, stack) else scan_zero c stack)"
| "scan_step c (ScanZero, stack) = scan_zero c stack"
| "scan_step c (ScanDot, stack) = (if json_digit c then Some (ScanFraction, stack) else None)"
| "scan_step c (ScanFraction, stack) =
     (if json_digit c then Some (ScanFraction, stack)
      else if c \<in> {CHR ''e'', CHR ''E''} then Some (ScanExp, stack)
      else scan_end_value c stack)"
| "scan_step c (ScanExp, stack) =
     (if c \<in> {CHR ''+'', CHR ''-''} then Some (ScanExpSign, stack) else scan_exp_sign c stack)"
| "scan_step c (ScanExpSign, stack) = scan_exp_sign c stack"
| "scan_step c (ScanExpDigits, stack) =
     (if json_digit c then Some (ScanExpDigits, stack) else scan_end_value c stack)"
| "scan_step c (ScanLiteral rest, stack) =
     (case rest of
        [] \<Rightarrow> None
      | x # xs \<Rightarrow> if c = x then Some (if xs = [] then ScanEndValue else ScanLiteral xs, stack) else None)"

fun scan_run :: "bytes \<Rightarrow> scanner \<Rightarrow> scanner option" where
  "scan_run [] s = Some s"
| "scan_run (c # cs) s = (case scan_step c s of None \<Rightarrow> None | Some s1 \<Rightarrow> scan_run cs s1)"

definition scan_eof :: "scanner \<Rightarrow> bool" where
  "scan_eof s \<longleftrightarrow> fst s = ScanEndTop \<or> (case scan_step (CHR '' '') s of Some s1 \<Rightarrow> fst s1 = ScanEndTop | None \<Rightarrow> False)"

definition json_Valid :: "bytes \<Rightarrow> bool" where
  "json_Valid text = (case scan_run text (ScanBeginValue, []) of None \<Rightarrow> False | Some s \<Rightarrow> scan_eof s)"

section \<open>Members and elements as raw texts\<close>

definition json_trim :: "bytes \<Rightarrow> bytes" where
  "json_trim s = rev (dropWhile json_space (rev (dropWhile json_space s)))"

text \<open>
  \<open>split_top sep depth quoted escaped acc s\<close> cuts the inside of a valid object or array at the
  separators that stand outside nested values and strings.
\<close>

fun split_top :: "char \<Rightarrow> nat \<Rightarrow> bool \<Rightarrow> bool \<Rightarrow> bytes \<Rightarrow> bytes \<Rightarrow> bytes list" where
  "split_top sep depth quoted escaped acc [] = [acc]"
| "split_top sep depth quoted escaped acc (c # cs) =
     (if escaped then split_top sep depth True False (acc @ [c]) cs
      else if quoted then split_top sep depth (c \<noteq> CHR 0x22) (c = CHR 0x5C) (acc @ [c]) cs
      else if c = CHR 0x22 then split_top sep depth True False (acc @ [c]) cs
      else if c = sep \<and> depth = 0 then acc # split_top sep 0 False False [] cs
      else if c \<in> {CHR ''{'', CHR ''[''} then split_top sep (Suc depth) False False (acc @ [c]) cs
      else if c \<in> {CHR ''}'', CHR '']''} then split_top sep (depth - 1) False False (acc @ [c]) cs
      else split_top sep depth False False (acc @ [c]) cs)"

definition json_inside :: "bytes \<Rightarrow> bytes" where
  "json_inside s = butlast (tl (json_trim s))"

definition json_parts :: "bytes \<Rightarrow> bytes list" where
  "json_parts inner = (if json_trim inner = [] then [] else map json_trim (split_top (CHR '','') 0 False False [] inner))"

definition json_null :: "bytes \<Rightarrow> bool" where "json_null s \<longleftrightarrow> json_trim s = ''null''"

text \<open>The kind of a valid text is decided by its first byte.\<close>

definition starts_with :: "char \<Rightarrow> bytes \<Rightarrow> bool" where
  "starts_with c s \<longleftrightarrow> take 1 (json_trim s) = [c]"

definition json_elements :: "bytes \<Rightarrow> bytes list option" where
  "json_elements s = (if json_Valid s \<and> starts_with (CHR ''['') s then Some (json_parts (json_inside s)) else None)"

section \<open>Strings\<close>

text \<open>The UTF-8 encoding of a code point; a surrogate becomes U+FFFD.\<close>

definition utf8_encode :: "nat \<Rightarrow> bytes" where
  "utf8_encode n =
     (if n < 0x80 then [char_of n]
      else if n < 0x800 then [char_of (0xC0 + n div 64), char_of (0x80 + n mod 64)]
      else if 0xD800 \<le> n \<and> n < 0xE000 \<or> 0x110000 \<le> n then rune_error
      else if n < 0x10000 then [char_of (0xE0 + n div 4096), char_of (0x80 + n div 64 mod 64), char_of (0x80 + n mod 64)]
      else [char_of (0xF0 + n div 262144), char_of (0x80 + n div 4096 mod 64),
            char_of (0x80 + n div 64 mod 64), char_of (0x80 + n mod 64)])"

definition hex4 :: "bytes \<Rightarrow> nat option" where
  "hex4 s =
     (case map hex_value (take 4 s) of
        [Some a, Some b, Some c, Some d] \<Rightarrow> Some (((a * 16 + b) * 16 + c) * 16 + d)
      | _ \<Rightarrow> None)"

text \<open>\<^verbatim>\<open>getu4\<close>: the code unit of an escape that starts at the text.\<close>

definition getu4 :: "bytes \<Rightarrow> nat option" where
  "getu4 s = (if take 2 s = [CHR 0x5C, CHR ''u''] then hex4 (drop 2 s) else None)"

definition escape_byte :: "char \<Rightarrow> char" where
  "escape_byte c =
     (if c = CHR ''b'' then CHR 0x08 else if c = CHR ''f'' then CHR 0x0C else if c = CHR ''n'' then CHR 0x0A
      else if c = CHR ''r'' then CHR 0x0D else if c = CHR ''t'' then CHR 0x09 else c)"

function unquote_body :: "bytes \<Rightarrow> bytes" where
  "unquote_body s =
     (case s of
        [] \<Rightarrow> []
      | c # cs \<Rightarrow>
          if c = CHR 0x5C then
            (case getu4 s of
               Some hi \<Rightarrow>
                 (case getu4 (drop 6 s) of
                    Some lo \<Rightarrow>
                      if 0xD800 \<le> hi \<and> hi < 0xDC00 \<and> 0xDC00 \<le> lo \<and> lo < 0xE000
                      then utf8_encode ((hi - 0xD800) * 1024 + (lo - 0xDC00) + 0x10000) @ unquote_body (drop 12 s)
                      else utf8_encode hi @ unquote_body (drop 6 s)
                  | None \<Rightarrow> utf8_encode hi @ unquote_body (drop 6 s))
             | None \<Rightarrow> (case cs of [] \<Rightarrow> [] | e # rest \<Rightarrow> escape_byte e # unquote_body rest))
          else if rune_width s = 0 then rune_error @ unquote_body cs
          else take (rune_width s) s @ unquote_body (drop (rune_width s) s))"
  by pat_completeness auto
termination by (relation "measure length") auto

declare unquote_body.simps [simp del]

text \<open>The value of a string literal.\<close>

definition json_string :: "bytes \<Rightarrow> bytes option" where
  "json_string s =
     (if json_Valid s \<and> starts_with (CHR 0x22) s then Some (unquote_body (json_inside s)) else None)"

definition json_bool :: "bytes \<Rightarrow> bool option" where
  "json_bool s = (if json_trim s = ''true'' then Some True else if json_trim s = ''false'' then Some False else None)"

definition json_member :: "bytes \<Rightarrow> bytes \<times> bytes" where
  "json_member part =
     (case split_top (CHR '':'') 0 False False [] part of
        name # vs \<Rightarrow> (unquote_body (json_inside name), json_trim (Join vs '':''))
      | [] \<Rightarrow> ([], []))"

definition json_members :: "bytes \<Rightarrow> (bytes \<times> bytes) list option" where
  "json_members s =
     (if json_Valid s \<and> starts_with (CHR ''{'') s then Some (map json_member (json_parts (json_inside s))) else None)"

text \<open>
  Decoding of an object into a map keeps the last value of a repeated name, and null leaves the map
  empty.
\<close>

definition json_object :: "bytes \<Rightarrow> (bytes \<times> bytes) list option" where
  "json_object s = (if json_null s then Some [] else map_option rev (json_members s))"

section \<open>Encoding of strings\<close>

definition hex_digit :: "nat \<Rightarrow> char" where
  "hex_digit n = ''0123456789abcdef'' ! n"

definition unicode_escape :: "nat \<Rightarrow> bytes" where
  "unicode_escape n =
     [CHR 0x5C, CHR ''u'', hex_digit (n div 4096 mod 16), hex_digit (n div 256 mod 16), hex_digit (n div 16 mod 16),
      hex_digit (n mod 16)]"

text \<open>One rune as \<^verbatim>\<open>json.Marshal\<close> writes it: HTML characters, control characters and the line
  separators U+2028 and U+2029 are escaped.\<close>

definition encode_rune :: "bytes \<Rightarrow> bytes" where
  "encode_rune r =
     (case r of
        [c] \<Rightarrow>
          if c \<in> {CHR 0x22, CHR 0x5C} then [CHR 0x5C, c]
          else if c = CHR 0x08 then [CHR 0x5C, CHR ''b'']
          else if c = CHR 0x0C then [CHR 0x5C, CHR ''f'']
          else if c = CHR 0x0A then [CHR 0x5C, CHR ''n'']
          else if c = CHR 0x0D then [CHR 0x5C, CHR ''r'']
          else if c = CHR 0x09 then [CHR 0x5C, CHR ''t'']
          else if (of_char c :: nat) < 0x20 \<or> c \<in> {CHR ''<'', CHR ''>'', CHR ''&''} then unicode_escape (of_char c)
          else [c]
      | _ \<Rightarrow>
          if r = [CHR 0xE2, CHR 0x80, CHR 0xA8] then unicode_escape 0x2028
          else if r = [CHR 0xE2, CHR 0x80, CHR 0xA9] then unicode_escape 0x2029
          else r)"

text \<open>\<^verbatim>\<open>json.Marshal\<close> of a string; an ill-formed byte is written as the escape of U+FFFD.\<close>

function (sequential) encode_body :: "bytes \<Rightarrow> bytes" where
  "encode_body [] = []"
| "encode_body (c # cs) =
     (if rune_width (c # cs) = 0 then unicode_escape 0xFFFD @ encode_body cs
      else encode_rune (take (rune_width (c # cs)) (c # cs)) @ encode_body (drop (rune_width (c # cs)) (c # cs)))"
  by pat_completeness auto
termination by (relation "measure length") auto

definition json_quote :: "bytes \<Rightarrow> bytes" where
  "json_quote s = CHR 0x22 # encode_body s @ [CHR 0x22]"

text \<open>An object with the given names and encoded values.\<close>

definition json_encode_object :: "(bytes \<times> bytes) list \<Rightarrow> bytes" where
  "json_encode_object ms =
     ''{'' @ Join (map (\<lambda>(name, v). json_quote name @ '':'' @ v) ms) '','' @ ''}''"

section \<open>Facts\<close>

lemma scan_run_append:
  "scan_run (s @ t) st = (case scan_run s st of None \<Rightarrow> None | Some st1 \<Rightarrow> scan_run t st1)"
  by (induction s arbitrary: st) (auto split: option.splits)

section \<open>Decoding into Go values\<close>

text \<open>
  A struct field takes the values of all members whose name equals its name up to case, in order; a
  null leaves the field as it is.  A value of another type makes the whole decoding an error.
\<close>

definition json_fold :: "bytes \<Rightarrow> bytes" where
  "json_fold s = map lower_char (replace_runes [([CHR 0xC5, CHR 0xBF], ''s''), ([CHR 0xE2, CHR 0x84, CHR 0xAA], ''k'')] s)"

definition json_values :: "bytes \<Rightarrow> (bytes \<times> bytes) list \<Rightarrow> bytes list" where
  "json_values name ms = map snd (filter (\<lambda>m. json_fold (fst m) = json_fold name) ms)"

fun json_decode :: "(bytes \<Rightarrow> 'a option) \<Rightarrow> 'a \<Rightarrow> bytes list \<Rightarrow> 'a option" where
  "json_decode dec old [] = Some old"
| "json_decode dec old (v # vs) =
     (if json_null v then json_decode dec old vs
      else case dec v of None \<Rightarrow> None | Some new \<Rightarrow> json_decode dec new vs)"

text \<open>An integer of 64 bits, written without fraction and exponent.\<close>

definition digits_value :: "bytes \<Rightarrow> int" where
  "digits_value ds = foldl (\<lambda>n c. 10 * n + (int (of_char c) - 48)) 0 ds"

definition json_int :: "bytes \<Rightarrow> int option" where
  "json_int text =
     (let s = json_trim text; neg = HasPrefix s ''-''; ds = (if neg then tl s else s);
          n = (if neg then - digits_value ds else digits_value ds) in
      if ds \<noteq> [] \<and> list_all json_digit ds \<and> min_int64 \<le> n \<and> n \<le> max_int64 then Some n else None)"

text \<open>
  A slice of strings is filled in place, so a null element keeps the string that an earlier member
  of the same name left at that index.
\<close>

definition json_strings :: "bytes list \<Rightarrow> bytes \<Rightarrow> bytes list option" where
  "json_strings old v =
     (case json_elements v of
        None \<Rightarrow> None
      | Some es \<Rightarrow>
          those (map (\<lambda>(i, e). if json_null e then Some (if i < length old then old ! i else []) else json_string e)
                   (enumerate 0 es)))"

text \<open>\<^verbatim>\<open>json.Marshal\<close> of a raw text: without white space between tokens and with HTML characters and
  line separators escaped; an invalid text is an error.\<close>

function (sequential) compact_loop :: "bool \<Rightarrow> bool \<Rightarrow> bytes \<Rightarrow> bytes" where
  "compact_loop quoted escaped [] = []"
| "compact_loop quoted escaped (c # cs) =
     (if c \<in> {CHR ''<'', CHR ''>'', CHR ''&''} then unicode_escape (of_char c) @ compact_loop quoted False cs
      else if take 3 (c # cs) = [CHR 0xE2, CHR 0x80, CHR 0xA8]
      then unicode_escape 0x2028 @ compact_loop quoted False (drop 2 cs)
      else if take 3 (c # cs) = [CHR 0xE2, CHR 0x80, CHR 0xA9]
      then unicode_escape 0x2029 @ compact_loop quoted False (drop 2 cs)
      else if escaped then c # compact_loop quoted False cs
      else if quoted then c # compact_loop (c \<noteq> CHR 0x22) (c = CHR 0x5C) cs
      else if json_space c then compact_loop False False cs
      else c # compact_loop (c = CHR 0x22) False cs)"
  by pat_completeness auto
termination by (relation "measure (\<lambda>(q, e, s). length s)") auto

definition json_compact :: "bytes \<Rightarrow> bytes option" where
  "json_compact s = (if json_Valid s then Some (compact_loop False False s) else None)"

lemma json_decode_append:
  "json_decode dec old (vs @ ws) = (case json_decode dec old vs of None \<Rightarrow> None | Some x \<Rightarrow> json_decode dec x ws)"
  by (induction vs arbitrary: old) (auto split: option.splits)

end
