(* ===== verification/InferGate.thy ===== *)
theory InferGate
  imports ExecGate EvalMatrix Json
begin

text \<open>
  Inference conditions (\<^verbatim>\<open>internal/rules/infer_gate.go\<close>, \<^verbatim>\<open>infer_context.go\<close>,
  \<^verbatim>\<open>upstream_metadata.go\<close>, \<^verbatim>\<open>inference_point.go\<close>): the cached and coalesced calls of a model
  service, the decision drawn from a reply, and the single point of an evaluator matrix.

  The state is the record \<open>InferRuntime\<close>; the services are functions on a world \<open>'w\<close> in \<open>infer_env\<close>,
  where a client is known by its endpoint.  The invocation metadata of a reply is a protobuf message
  of type \<open>'m\<close>, whose JSON form is a parameter.  Logging and the recorded trace layers are left out.
\<close>

section \<open>Replies and results\<close>

datatype grpc_code = code_Canceled | code_DeadlineExceeded | code_InvalidArgument | code_FailedPrecondition
  | code_Unavailable | code_Other

text \<open>What \<^verbatim>\<open>errors.Is\<close> and \<^verbatim>\<open>status.Code\<close> say of an error.\<close>

record grpc_error =
  ge_isCanceled :: bool
  ge_isDeadline :: bool
  ge_code :: grpc_code

definition grpcErrorClass :: "grpc_error \<Rightarrow> bytes" where
  "grpcErrorClass err =
     (let code = (if ge_isDeadline err then code_DeadlineExceeded
                  else if ge_isCanceled err then code_Canceled else ge_code err) in
      case code of
        code_Canceled \<Rightarrow> ''canceled''
      | code_DeadlineExceeded \<Rightarrow> ''deadline_exceeded''
      | code_InvalidArgument \<Rightarrow> ''invalid_argument''
      | code_FailedPrecondition \<Rightarrow> ''failed_precondition''
      | code_Unavailable \<Rightarrow> ''unavailable''
      | code_Other \<Rightarrow> ''rpc_error'')"

definition UpstreamMetadataPresent :: bytes where "UpstreamMetadataPresent = ''present''"
definition UpstreamMetadataAbsent :: bytes where "UpstreamMetadataAbsent = ''absent''"
definition UpstreamMetadataOmittedMalformed :: bytes where "UpstreamMetadataOmittedMalformed = ''omitted_malformed''"
definition UpstreamMetadataOmittedOversize :: bytes where "UpstreamMetadataOmittedOversize = ''omitted_oversize''"

record UpstreamMetadata =
  um_Source :: bytes
  um_Trust :: bytes
  um_Status :: bytes
  um_Raw :: bytes

definition emptyUpstreamMetadata :: UpstreamMetadata where
  "emptyUpstreamMetadata =
     \<lparr>um_Source = ''inference_reply'', um_Trust = ''untrusted'', um_Status = UpstreamMetadataAbsent, um_Raw = []\<rparr>"

definition MaxUpstreamMetadataJSONBytes :: nat where "MaxUpstreamMetadataJSONBytes = 4096"
definition maxUpstreamMetadataStringBytes :: nat where "maxUpstreamMetadataStringBytes = 512"

record inferResult =
  ir_matched :: bool
  ir_errored :: bool
  ir_errorClass :: bytes
  ir_cacheHit :: bool
  ir_cacheStatus :: bytes
  ir_cacheEntryVersion :: "int option"
  ir_cacheExpiresAt :: "go_time option"
  ir_outputJSON :: bytes
  ir_upstreamMetadata :: UpstreamMetadata
  ir_reportedPromptHash :: bytes
  ir_reportedSchemaHash :: bytes
  ir_reportedHashesUnavailable :: bool
  ir_contextJSON :: bytes
  ir_contextStartedAt :: go_time
  ir_contextCompletedAt :: go_time
  ir_contextErrorClass :: bytes

record cachedInferResult =
  ci_SchemaVersion :: int
  ci_Matched :: bool
  ci_OutputJSON :: bytes
  ci_UpstreamMetadata :: UpstreamMetadata

record 'm infer_reply =
  rp_complete :: bool
  rp_OutputJson :: bytes
  rp_Metadata :: "'m option"

record generation_options =
  go_ReasoningEffort :: bytes
  go_MaxCompletionTokens :: "int option"
  go_Temperature :: "go_float option"

record infer_request =
  rq_Prompt :: bytes
  rq_Input :: bytes
  rq_OutputSchema :: bytes
  rq_Context :: bytes
  rq_Model :: bytes
  rq_GenerationOptions :: "generation_options option"

record context_turn =
  tn_Role :: bytes
  tn_Text :: bytes
  tn_Ts :: bytes

record contextParams =
  cp_endpoint :: bytes
  cp_workspace :: bytes
  cp_session :: bytes
  cp_turnBudget :: int
  cp_maxCharsPerTurn :: int

record judgeTranscriptSettings =
  jt_endpoint :: bytes
  jt_maxTokens :: int
  jt_tokenModel :: bytes
  jt_timeout :: go_duration
  jt_onError :: bytes

record ('w, 'm) infer_env =
  ie_shell :: shell_env
  ie_now :: "'w \<Rightarrow> go_time"
  ie_sha256 :: "bytes \<Rightarrow> bytes"
  ie_quote :: "bytes \<Rightarrow> bytes"
  ie_formatFloat :: "go_float \<Rightarrow> bytes"
  ie_parseFloat :: "bytes \<Rightarrow> go_float option"
  ie_intFloat :: "int \<Rightarrow> go_float"
  ie_NewClient :: "bytes \<Rightarrow> bool"
  ie_Infer :: "bytes \<Rightarrow> infer_request \<Rightarrow> go_duration \<Rightarrow> 'w \<Rightarrow> (grpc_error + 'm infer_reply option) \<times> 'w"
  ie_GetRecentTurns :: "bytes \<Rightarrow> contextParams \<Rightarrow> 'w \<Rightarrow> context_turn option list option \<times> 'w"
  ie_StreamTranscript :: "bytes \<Rightarrow> bytes \<Rightarrow> bytes \<Rightarrow> bytes \<Rightarrow> go_duration \<Rightarrow> 'w \<Rightarrow> (bytes list \<times> bool) option \<times> 'w"
  ie_promptSha :: "'m \<Rightarrow> bytes"
  ie_schemaSha :: "'m \<Rightarrow> bytes"
  ie_stringFields :: "'m \<Rightarrow> bytes list"
  ie_protoMarshal :: "'m \<Rightarrow> bytes option"
  ie_protoUnmarshal :: "bytes \<Rightarrow> 'm option"

text \<open>
  The runtime: the hot store and the endpoints to which a channel is open.  Channels to the context
  service and to the transcript service of one endpoint are shared.
\<close>

record InferRuntime =
  rn_cache :: Store
  rn_ownsCache :: bool
  rn_inferenceClients :: "bytes set"
  rn_contextClients :: "bytes set"
  rn_clydeServiceClients :: "bytes set"
  rn_contextConnections :: "bytes set"
  rn_judgeTranscript :: judgeTranscriptSettings

definition NewInferRuntimeWithCache :: "Store option \<Rightarrow> InferRuntime" where
  "NewInferRuntimeWithCache cache =
     \<lparr>rn_cache = (case cache of
                    Some s \<Rightarrow> s
                  | None \<Rightarrow> New \<lparr>MaxEntries = 0, MaxValueBytes = 0, MaxBytes = 0, PruneInterval = 0\<rparr>),
      rn_ownsCache = (cache = None), rn_inferenceClients = {}, rn_contextClients = {},
      rn_clydeServiceClients = {}, rn_contextConnections = {},
      rn_judgeTranscript = \<lparr>jt_endpoint = [], jt_maxTokens = 0, jt_tokenModel = [], jt_timeout = 0, jt_onError = []\<rparr>\<rparr>"

definition SetJudgeTranscript :: "bytes \<Rightarrow> int \<Rightarrow> bytes \<Rightarrow> go_duration \<Rightarrow> bytes \<Rightarrow> InferRuntime \<Rightarrow> InferRuntime" where
  "SetJudgeTranscript endpoint maxTokens tokenModel timeout onError rt =
     rt\<lparr>rn_judgeTranscript := \<lparr>jt_endpoint = endpoint, jt_maxTokens = maxTokens, jt_tokenModel = tokenModel,
                              jt_timeout = timeout, jt_onError = onError\<rparr>\<rparr>"

text \<open>Closing releases every channel and closes a private cache.\<close>

definition InferRuntime_Close :: "InferRuntime \<Rightarrow> InferRuntime" where
  "InferRuntime_Close rt =
     rt\<lparr>rn_inferenceClients := {}, rn_contextClients := {}, rn_clydeServiceClients := {},
        rn_contextConnections := {},
        rn_cache := (if rn_ownsCache rt then Store_Close (rn_cache rt) else rn_cache rt)\<rparr>"

section \<open>Clients\<close>

definition grpcEndpoint :: "bytes \<Rightarrow> bytes" where
  "grpcEndpoint endpoint =
     (if HasPrefix (TrimSpace endpoint) ''/'' then ''unix://'' @ TrimSpace endpoint else TrimSpace endpoint)"

definition inferenceClient :: "('w, 'm) infer_env \<Rightarrow> bytes \<Rightarrow> InferRuntime \<Rightarrow> bytes option \<times> InferRuntime" where
  "inferenceClient env endpoint rt =
     (let e = TrimSpace endpoint in
      if e \<in> rn_inferenceClients rt then (Some e, rt)
      else if \<not> ie_NewClient env (grpcEndpoint e) then (None, rt)
      else (Some e, rt\<lparr>rn_inferenceClients := insert e (rn_inferenceClients rt)\<rparr>))"

definition contextClient :: "('w, 'm) infer_env \<Rightarrow> bytes \<Rightarrow> InferRuntime \<Rightarrow> bytes option \<times> InferRuntime" where
  "contextClient env endpoint rt =
     (let e = TrimSpace endpoint in
      if e \<in> rn_contextClients rt then (Some e, rt)
      else if \<not> ie_NewClient env (grpcEndpoint e) then (None, rt)
      else (Some e, rt\<lparr>rn_contextConnections := insert e (rn_contextConnections rt),
                       rn_contextClients := insert e (rn_contextClients rt)\<rparr>))"

definition transcriptClient :: "('w, 'm) infer_env \<Rightarrow> bytes \<Rightarrow> InferRuntime \<Rightarrow> bytes option \<times> InferRuntime" where
  "transcriptClient env endpoint rt =
     (let e = TrimSpace endpoint in
      if e \<in> rn_clydeServiceClients rt then (Some e, rt)
      else if e \<notin> rn_contextConnections rt \<and> \<not> ie_NewClient env (grpcEndpoint e) then (None, rt)
      else (Some e, rt\<lparr>rn_contextConnections := insert e (rn_contextConnections rt),
                       rn_clydeServiceClients := insert e (rn_clydeServiceClients rt)\<rparr>))"

section \<open>Upstream metadata\<close>

definition utf8_valid :: "bytes \<Rightarrow> bool" where
  "utf8_valid s \<longleftrightarrow> concat (runes s) = s"

text \<open>\<^verbatim>\<open>unicode.IsControl\<close> of a rune: C0, DEL and C1.\<close>

definition IsControl :: "bytes \<Rightarrow> bool" where
  "IsControl r \<longleftrightarrow>
     (case r of
        [c] \<Rightarrow> (of_char c :: nat) < 0x20 \<or> c = CHR 0x7F
      | [a, b] \<Rightarrow> a = CHR 0xC2 \<and> (of_char b :: nat) < 0xA0
      | _ \<Rightarrow> False)"

definition validateInvocationMetadataStrings :: "('w, 'm) infer_env \<Rightarrow> 'm \<Rightarrow> bool" where
  "validateInvocationMetadataStrings env m \<longleftrightarrow>
     list_all (\<lambda>v. length v \<le> maxUpstreamMetadataStringBytes \<and> utf8_valid v \<and> \<not> list_ex IsControl (runes v))
       (ie_stringFields env m)"

definition UnmarshalPresentUpstreamMetadata :: "('w, 'm) infer_env \<Rightarrow> UpstreamMetadata \<Rightarrow> UpstreamMetadata option" where
  "UnmarshalPresentUpstreamMetadata env md =
     (if um_Raw md = [] \<or> MaxUpstreamMetadataJSONBytes < length (um_Raw md) then None
      else case ie_protoUnmarshal env (um_Raw md) of
        None \<Rightarrow> None
      | Some parsed \<Rightarrow>
          if \<not> validateInvocationMetadataStrings env parsed then None
          else case ie_protoMarshal env parsed of
            None \<Rightarrow> None
          | Some encoded \<Rightarrow>
              if \<not> json_Valid encoded \<or> MaxUpstreamMetadataJSONBytes < length encoded then None
              else Some (md\<lparr>um_Raw := encoded\<rparr>))"

definition UnmarshalUpstreamMetadata :: "('w, 'm) infer_env \<Rightarrow> UpstreamMetadata \<Rightarrow> UpstreamMetadata option" where
  "UnmarshalUpstreamMetadata env md =
     (if um_Source md \<noteq> ''inference_reply'' \<or> um_Trust md \<noteq> ''untrusted'' then None
      else if um_Status md = UpstreamMetadataPresent then UnmarshalPresentUpstreamMetadata env md
      else if um_Status md \<in> {UpstreamMetadataAbsent, UpstreamMetadataOmittedMalformed, UpstreamMetadataOmittedOversize}
      then (if um_Raw md = [] then Some md else None)
      else None)"

definition boundedUpstreamMetadata :: "('w, 'm) infer_env \<Rightarrow> 'm option \<Rightarrow> UpstreamMetadata" where
  "boundedUpstreamMetadata env md =
     (case md of
        None \<Rightarrow> emptyUpstreamMetadata
      | Some m \<Rightarrow>
          (case ie_protoMarshal env m of
             None \<Rightarrow> emptyUpstreamMetadata\<lparr>um_Status := UpstreamMetadataOmittedMalformed\<rparr>
           | Some encoded \<Rightarrow>
               if \<not> json_Valid encoded then emptyUpstreamMetadata\<lparr>um_Status := UpstreamMetadataOmittedMalformed\<rparr>
               else if MaxUpstreamMetadataJSONBytes < length encoded
               then emptyUpstreamMetadata\<lparr>um_Status := UpstreamMetadataOmittedOversize\<rparr>
               else emptyUpstreamMetadata\<lparr>um_Status := UpstreamMetadataPresent, um_Raw := encoded\<rparr>))"

section \<open>Results of a call\<close>

definition traceJSONHash :: "(bytes \<Rightarrow> bytes) \<Rightarrow> bytes \<Rightarrow> bytes" where
  "traceJSONHash sha256 v = ''sha256:'' @ hex_encode (sha256 v)"

definition emptyInferResult :: inferResult where
  "emptyInferResult =
     \<lparr>ir_matched = False, ir_errored = False, ir_errorClass = [], ir_cacheHit = False, ir_cacheStatus = [],
      ir_cacheEntryVersion = None, ir_cacheExpiresAt = None, ir_outputJSON = ''{}'',
      ir_upstreamMetadata = emptyUpstreamMetadata, ir_reportedPromptHash = [], ir_reportedSchemaHash = [],
      ir_reportedHashesUnavailable = False, ir_contextJSON = [], ir_contextStartedAt = 0,
      ir_contextCompletedAt = 0, ir_contextErrorClass = []\<rparr>"

definition inferError :: "bytes \<Rightarrow> inferResult" where
  "inferError errorClass = emptyInferResult\<lparr>ir_errored := True, ir_errorClass := errorClass\<rparr>"

definition applyInvocationMetadata :: "('w, 'm) infer_env \<Rightarrow> inferResult \<Rightarrow> 'm option \<Rightarrow> inferResult" where
  "applyInvocationMetadata env result md =
     (let r = result\<lparr>ir_upstreamMetadata := boundedUpstreamMetadata env md\<rparr> in
      case md of
        None \<Rightarrow> r
      | Some m \<Rightarrow> r\<lparr>ir_reportedPromptHash := ie_promptSha env m, ir_reportedSchemaHash := ie_schemaSha env m\<rparr>)"

definition safeInferenceErrorOutput :: "('w, 'm) infer_env \<Rightarrow> bytes \<Rightarrow> bytes \<Rightarrow> bytes" where
  "safeInferenceErrorOutput env errorClass outputJSON =
     (if errorClass \<noteq> ''invalid_response'' \<and> json_Valid outputJSON then outputJSON
      else json_encode_object [(''error'', json_encode_object
             [(''code'', json_quote errorClass), (''byte_length'', Itoa (int (length outputJSON))),
              (''sha256'', json_quote (traceJSONHash (ie_sha256 env) outputJSON))])])"

definition inferErrorWithMetadata :: "('w, 'm) infer_env \<Rightarrow> bytes \<Rightarrow> bytes \<Rightarrow> 'm option \<Rightarrow> inferResult" where
  "inferErrorWithMetadata env errorClass outputJSON md =
     applyInvocationMetadata env
       ((inferError errorClass)\<lparr>ir_outputJSON := safeInferenceErrorOutput env errorClass outputJSON\<rparr>) md"

definition inferSuccess :: "('w, 'm) infer_env \<Rightarrow> bool \<Rightarrow> bytes \<Rightarrow> 'm option \<Rightarrow> inferResult" where
  "inferSuccess env matched outputJSON md =
     applyInvocationMetadata env (emptyInferResult\<lparr>ir_matched := matched, ir_outputJSON := outputJSON\<rparr>) md"

definition mergeInferResult :: "inferResult \<Rightarrow> inferResult \<Rightarrow> inferResult" where
  "mergeInferResult base result =
     result\<lparr>ir_contextJSON := ir_contextJSON base, ir_contextStartedAt := ir_contextStartedAt base,
            ir_contextCompletedAt := ir_contextCompletedAt base, ir_contextErrorClass := ir_contextErrorClass base,
            ir_cacheStatus := (if ir_cacheStatus result = [] then ir_cacheStatus base else ir_cacheStatus result)\<rparr>"

definition TrimPrefix :: "bytes \<Rightarrow> bytes \<Rightarrow> bytes" where
  "TrimPrefix s pre = (if HasPrefix s pre then drop (length pre) s else s)"

definition hashValueMismatch :: "bytes \<Rightarrow> bytes \<Rightarrow> bool" where
  "hashValueMismatch upstream local \<longleftrightarrow>
     upstream \<noteq> [] \<and> TrimPrefix upstream ''sha256:'' \<noteq> TrimPrefix local ''sha256:''"

definition invocationHashMismatch :: "('w, 'm) infer_env \<Rightarrow> 'm option \<Rightarrow> bytes \<Rightarrow> bytes \<Rightarrow> bool" where
  "invocationHashMismatch env md localPromptHash localSchemaHash \<longleftrightarrow>
     (case md of
        None \<Rightarrow> False
      | Some m \<Rightarrow> hashValueMismatch (ie_promptSha env m) localPromptHash
                \<or> hashValueMismatch (ie_schemaSha env m) localSchemaHash)"

section \<open>Matching the reply\<close>

text \<open>Decoding into \<^verbatim>\<open>json.Number\<close>: a number, or a string that spells one; null leaves it empty.\<close>

definition json_number_text :: "bytes \<Rightarrow> bool" where
  "json_number_text s \<longleftrightarrow>
     json_Valid s \<and> json_trim s = s \<and> (case s of c # cs \<Rightarrow> c = CHR ''-'' \<or> json_digit c | [] \<Rightarrow> False)"

definition decode_number :: "bytes \<Rightarrow> bytes option" where
  "decode_number v =
     (if json_null v then Some []
      else if json_number_text (json_trim v) then Some (json_trim v)
      else case json_string v of Some s \<Rightarrow> if json_number_text s then Some s else None | None \<Rightarrow> None)"

definition number_float :: "('w, 'm) infer_env \<Rightarrow> bytes \<Rightarrow> go_float option" where
  "number_float env s = (if s = [] then None else ie_parseFloat env s)"

fun response_field :: "bytes list \<Rightarrow> bytes \<Rightarrow> bytes go_result" where
  "response_field [] current = Inr current"
| "response_field (part # parts) current =
     (case json_object current of
        None \<Rightarrow> Inl ''invalid JSON''
      | Some ms \<Rightarrow> (case map_of ms part of None \<Rightarrow> Inl ''missing JSON field'' | Some v \<Rightarrow> response_field parts v))"

fun scalar_matches :: "('w, 'm) infer_env \<Rightarrow> TOMLScalarValue \<Rightarrow> bytes \<Rightarrow> bool go_result" where
  "scalar_matches env TOMLScalarUnset v = Inl ''unsupported scalar''"
| "scalar_matches env (TOMLScalarBool b) v =
     (case json_decode json_bool False [v] of None \<Rightarrow> Inl ''decode boolean response'' | Some got \<Rightarrow> Inr (got = b))"
| "scalar_matches env (TOMLScalarString s) v =
     (case json_decode json_string [] [v] of None \<Rightarrow> Inl ''decode string response'' | Some got \<Rightarrow> Inr (got = s))"
| "scalar_matches env (TOMLScalarInt i) v =
     (case decode_number v of
        None \<Rightarrow> Inl ''decode integer response''
      | Some n \<Rightarrow>
          (case json_int n of
             Some got \<Rightarrow> Inr (got = i)
           | None \<Rightarrow>
               (case number_float env n of
                  None \<Rightarrow> Inl ''decode integer response number''
                | Some got \<Rightarrow> Inr (flt_eq got (ie_intFloat env i)))))"
| "scalar_matches env (TOMLScalarFloat x) v =
     (case decode_number v of
        None \<Rightarrow> Inl ''decode float response''
      | Some n \<Rightarrow>
          (case number_float env n of
             Some got \<Rightarrow> Inr (flt_eq got x)
           | None \<Rightarrow>
               (case json_int n of
                  None \<Rightarrow> Inl ''decode float response integer''
                | Some got \<Rightarrow> Inr (flt_eq (ie_intFloat env got) x))))"

definition inferenceJSONMatches :: "('w, 'm) infer_env \<Rightarrow> Condition \<Rightarrow> bytes \<Rightarrow> bool go_result" where
  "inferenceJSONMatches env c document =
     bindE (response_field (Split (CHR ''.'') (c_ResponseJSONField c)) document)
           (scalar_matches env (c_responseJSONValue c))"

definition inferResultBlocks :: "Condition \<Rightarrow> inferResult \<Rightarrow> bool" where
  "inferResultBlocks c result =
     (if ir_errored result then c_OnError c = OnErrorClosed
      else if c_BlockOn c = BlockOnMatch then ir_matched result
      else \<not> ir_matched result)"

section \<open>Conversation context\<close>

definition checkedInt32 :: "int \<Rightarrow> int option" where
  "checkedInt32 v = (if v < -2147483648 \<or> 2147483647 < v then None else Some v)"

definition meaningfulContextText :: "bytes \<Rightarrow> bool" where
  "meaningfulContextText text \<longleftrightarrow>
     TrimSpace text \<noteq> [] \<and> \<not> HasPrefix (TrimSpace text) ''[Request interrupted''"

definition render_turn :: "context_turn \<Rightarrow> bytes" where
  "render_turn t = json_encode_object
     [(''role'', json_quote (tn_Role t)), (''text'', json_quote (tn_Text t)), (''ts'', json_quote (tn_Ts t))]"

definition renderContextTurns :: "context_turn option list \<Rightarrow> bytes" where
  "renderContextTurns turns =
     json_encode_object [(''turns'',
       ''['' @ Join (map render_turn (filter (\<lambda>t. meaningfulContextText (tn_Text t)) (List.map_filter id turns))) '','' @ '']'')]"

text \<open>The context and the class of an error, empty when there is none.\<close>

definition fetchContextJSON ::
  "('w, 'm) infer_env \<Rightarrow> contextParams \<Rightarrow> InferRuntime \<Rightarrow> 'w \<Rightarrow> (bytes \<times> bytes) \<times> InferRuntime \<times> 'w" where
  "fetchContextJSON env params rt w =
     (case contextClient env (cp_endpoint params) rt of
        (None, rt1) \<Rightarrow> (([], ''context_unavailable''), rt1, w)
      | (Some client, rt1) \<Rightarrow>
          if checkedInt32 (cp_turnBudget params) = None \<or> checkedInt32 (cp_maxCharsPerTurn params) = None
          then (([], ''context_invalid''), rt1, w)
          else case ie_GetRecentTurns env client params w of
                 (None, w1) \<Rightarrow> (([], ''context_unavailable''), rt1, w1)
               | (Some turns, w1) \<Rightarrow> ((renderContextTurns turns, []), rt1, w1))"

definition contextJSON ::
  "('w, 'm) infer_env \<Rightarrow> Condition \<Rightarrow> bytes \<Rightarrow> bytes \<Rightarrow> InferRuntime \<Rightarrow> 'w \<Rightarrow> (bytes \<times> bytes) \<times> InferRuntime \<times> 'w" where
  "contextJSON env c workspace session rt w =
     (if c_ContextSource c = [] then (([], []), rt, w)
      else fetchContextJSON env
             \<lparr>cp_endpoint = c_ContextEndpoint c, cp_workspace = workspace, cp_session = session,
              cp_turnBudget = c_ContextTurnBudget c, cp_maxCharsPerTurn = c_ContextMaxCharsPerTurn c\<rparr> rt w)"

definition resolvedContextIdentity :: "shell_env \<Rightarrow> FieldSet \<Rightarrow> Condition \<Rightarrow> bytes \<times> bytes" where
  "resolvedContextIdentity env f c =
     (if c_ContextSource c = [] then ([], [])
      else (StringForCondition env f (spec_Selector (c_contextWorkspaceSelector c)) (Some c),
            StringForCondition env f (spec_Selector (c_contextSessionSelector c)) (Some c)))"

section \<open>One call of the inference service\<close>

definition reasoningEffortValue :: "bytes \<Rightarrow> bytes" where
  "reasoningEffortValue effort =
     (if effort \<in> {''none'', ''minimal'', ''low'', ''medium'', ''high'', ''xhigh''} then effort else ''unspecified'')"

definition generationOptions :: "Condition \<Rightarrow> generation_options option" where
  "generationOptions c =
     (if c_ReasoningEffort c = [] \<and> c_MaxCompletionTokens c = None \<and> c_Temperature c = None then None
      else Some \<lparr>go_ReasoningEffort = reasoningEffortValue (c_ReasoningEffort c),
                 go_MaxCompletionTokens = c_MaxCompletionTokens c, go_Temperature = c_Temperature c\<rparr>)"

definition judge_reply :: "('w, 'm) infer_env \<Rightarrow> Condition \<Rightarrow> grpc_error + 'm infer_reply option \<Rightarrow> inferResult" where
  "judge_reply env c reply =
     (case reply of
        Inl err \<Rightarrow> inferError (grpcErrorClass err)
      | Inr None \<Rightarrow> inferError ''non_complete''
      | Inr (Some r) \<Rightarrow>
          if \<not> rp_complete r then inferErrorWithMetadata env ''non_complete'' (rp_OutputJson r) (rp_Metadata r)
          else case inferenceJSONMatches env c (rp_OutputJson r) of
            Inl err \<Rightarrow> inferErrorWithMetadata env ''invalid_response'' (rp_OutputJson r) (rp_Metadata r)
          | Inr matched \<Rightarrow>
              if invocationHashMismatch env (rp_Metadata r) (traceJSONHash (ie_sha256 env) (c_Prompt c))
                   (traceJSONHash (ie_sha256 env) (c_OutputSchema c))
              then inferErrorWithMetadata env ''hash_mismatch'' (rp_OutputJson r) (rp_Metadata r)
              else inferSuccess env matched (rp_OutputJson r) (rp_Metadata r))"

definition infer_call ::
  "('w, 'm) infer_env \<Rightarrow> Condition \<Rightarrow> bytes \<Rightarrow> bytes \<Rightarrow> bytes \<Rightarrow> InferRuntime \<Rightarrow> 'w \<Rightarrow> inferResult \<times> InferRuntime \<times> 'w" where
  "infer_call env c input workspace session rt w =
     (let ((context, errClass), rt1, w1) = contextJSON env c workspace session rt w;
          base = emptyInferResult\<lparr>ir_cacheStatus := ''miss'',
                   ir_contextJSON := (if context = [] then ''{}'' else context),
                   ir_contextStartedAt := ie_now env w, ir_contextCompletedAt := ie_now env w1,
                   ir_contextErrorClass := errClass\<rparr> in
      if errClass \<noteq> [] \<and> c_ContextOnError c = ''error'' then (mergeInferResult base (inferError errClass), rt1, w1)
      else case inferenceClient env (c_Endpoint c) rt1 of
        (None, rt2) \<Rightarrow> (mergeInferResult base (inferError ''invalid_endpoint''), rt2, w1)
      | (Some client, rt2) \<Rightarrow>
          let (reply, w2) = ie_Infer env client
                 \<lparr>rq_Prompt = c_Prompt c, rq_Input = input, rq_OutputSchema = c_OutputSchema c, rq_Context = context,
                  rq_Model = c_Model c, rq_GenerationOptions = generationOptions c\<rparr>
                 (duration_of_ms (c_TimeoutMs c)) w1 in
          (mergeInferResult base (judge_reply env c reply), rt2, w2))"

section \<open>The cache of results\<close>

definition inferenceCacheNamespace :: bytes where "inferenceCacheNamespace = ''infer-condition''"

definition optionalInt64Identity :: "int option \<Rightarrow> bytes" where
  "optionalInt64Identity v = (case v of None \<Rightarrow> ''unset'' | Some i \<Rightarrow> ''set:'' @ Itoa i)"

definition optionalFloat64Identity :: "(go_float \<Rightarrow> bytes) \<Rightarrow> go_float option \<Rightarrow> bytes" where
  "optionalFloat64Identity formatFloat v = (case v of None \<Rightarrow> ''unset'' | Some x \<Rightarrow> ''set:'' @ formatFloat x)"

definition inference_key_parts ::
  "('w, 'm) infer_env \<Rightarrow> Condition \<Rightarrow> bytes \<Rightarrow> bytes \<Rightarrow> bytes \<Rightarrow> bytes \<Rightarrow> bytes list" where
  "inference_key_parts env c input selectedKey workspace session =
     [c_Endpoint c, c_LayerName c, c_Prompt c, c_OutputSchema c, c_Model c, c_ReasoningEffort c,
      optionalInt64Identity (c_MaxCompletionTokens c), optionalFloat64Identity (ie_formatFloat env) (c_Temperature c),
      c_InputField c, input, c_CacheKey c, selectedKey, c_ResponseJSONField c,
      TOMLScalar_Kind (c_responseJSONValue c),
      CanonicalString (ie_quote env) (ie_formatFloat env) (c_responseJSONValue c),
      c_BlockOn c, c_OnError c, Itoa (c_TimeoutMs c), Itoa (c_CacheTTLMs c), c_ContextSource c,
      c_ContextEndpoint c, c_ContextWorkspaceField c, c_ContextSessionField c, workspace, session,
      Itoa (c_ContextTurnBudget c), Itoa (c_ContextMaxCharsPerTurn c), c_ContextOnError c]"

definition netstrings :: "bytes list \<Rightarrow> bytes" where
  "netstrings parts = concat (map (\<lambda>part. Itoa (int (length part)) @ '':'' @ part) parts)"

definition stableInferenceKey ::
  "('w, 'm) infer_env \<Rightarrow> Condition \<Rightarrow> bytes \<Rightarrow> bytes \<Rightarrow> bytes \<Rightarrow> bytes \<Rightarrow> bytes" where
  "stableInferenceKey env c input selectedKey workspace session =
     hex_encode (ie_sha256 env (netstrings (inference_key_parts env c input selectedKey workspace session)))"

text \<open>The stored form of a result and its decoding.\<close>

definition encode_raw :: "bytes \<Rightarrow> bytes option" where
  "encode_raw raw = (if raw = [] then Some ''null'' else json_compact raw)"

definition encode_metadata :: "UpstreamMetadata \<Rightarrow> bytes option" where
  "encode_metadata md =
     map_option (\<lambda>raw. json_encode_object
        ([(''source'', json_quote (um_Source md)), (''trust'', json_quote (um_Trust md)),
          (''status'', json_quote (um_Status md))] @ (if um_Raw md = [] then [] else [(''raw'', raw)])))
       (encode_raw (um_Raw md))"

definition encodeCachedInferResult :: "cachedInferResult \<Rightarrow> bytes option" where
  "encodeCachedInferResult r =
     (case (encode_raw (ci_OutputJSON r), encode_metadata (ci_UpstreamMetadata r)) of
        (Some out, Some md) \<Rightarrow>
          Some (json_encode_object [(''schema_version'', Itoa (ci_SchemaVersion r)),
            (''matched'', FormatBool (ci_Matched r)), (''output_json'', out), (''upstream_metadata'', md)])
      | _ \<Rightarrow> None)"

definition raw_value :: "bytes list \<Rightarrow> bytes" where
  "raw_value vs = (if vs = [] then [] else last vs)"

definition decode_metadata :: "UpstreamMetadata \<Rightarrow> bytes \<Rightarrow> UpstreamMetadata option" where
  "decode_metadata old v =
     (case json_members v of
        None \<Rightarrow> None
      | Some ms \<Rightarrow>
          (case (json_decode json_string (um_Source old) (json_values ''source'' ms),
                 json_decode json_string (um_Trust old) (json_values ''trust'' ms),
                 json_decode json_string (um_Status old) (json_values ''status'' ms)) of
             (Some src, Some trust, Some status) \<Rightarrow>
               Some \<lparr>um_Source = src, um_Trust = trust, um_Status = status,
                     um_Raw = (if json_values ''raw'' ms = [] then um_Raw old else raw_value (json_values ''raw'' ms))\<rparr>
           | _ \<Rightarrow> None))"

fun decode_metadata_values :: "UpstreamMetadata \<Rightarrow> bytes list \<Rightarrow> UpstreamMetadata option" where
  "decode_metadata_values old [] = Some old"
| "decode_metadata_values old (v # vs) =
     (if json_null v then decode_metadata_values old vs
      else case decode_metadata old v of None \<Rightarrow> None | Some new \<Rightarrow> decode_metadata_values new vs)"

definition emptyCachedInferResult :: cachedInferResult where
  "emptyCachedInferResult =
     \<lparr>ci_SchemaVersion = 0, ci_Matched = False, ci_OutputJSON = [],
      ci_UpstreamMetadata = \<lparr>um_Source = [], um_Trust = [], um_Status = [], um_Raw = []\<rparr>\<rparr>"

definition unmarshalCachedInferResult :: "bytes \<Rightarrow> cachedInferResult option" where
  "unmarshalCachedInferResult v =
     (if json_null v then Some emptyCachedInferResult
      else case json_members v of
        None \<Rightarrow> None
      | Some ms \<Rightarrow>
          (case (json_decode json_int 0 (json_values ''schema_version'' ms),
                 json_decode json_bool False (json_values ''matched'' ms),
                 decode_metadata_values (ci_UpstreamMetadata emptyCachedInferResult) (json_values ''upstream_metadata'' ms)) of
             (Some version, Some matched, Some md) \<Rightarrow>
               Some \<lparr>ci_SchemaVersion = version, ci_Matched = matched,
                     ci_OutputJSON = raw_value (json_values ''output_json'' ms), ci_UpstreamMetadata = md\<rparr>
           | _ \<Rightarrow> None))"

text \<open>Is the entry valid, and which metadata does it carry.\<close>

definition cachedInvocationMetadata :: "('w, 'm) infer_env \<Rightarrow> cachedInferResult \<Rightarrow> 'm option option" where
  "cachedInvocationMetadata env cached =
     (if ci_SchemaVersion cached \<noteq> 2 then None
      else case UnmarshalUpstreamMetadata env (ci_UpstreamMetadata cached) of
        None \<Rightarrow> None
      | Some md \<Rightarrow>
          if um_Status md = UpstreamMetadataPresent
          then (case ie_protoUnmarshal env (um_Raw md) of None \<Rightarrow> None | Some m \<Rightarrow> Some (Some m))
          else if um_Raw md = [] then Some None else None)"

definition decodeCachedInferResult :: "('w, 'm) infer_env \<Rightarrow> bytes \<Rightarrow> (cachedInferResult \<times> 'm option) option" where
  "decodeCachedInferResult env v =
     (case unmarshalCachedInferResult v of
        None \<Rightarrow> None
      | Some cached \<Rightarrow> map_option (Pair cached) (cachedInvocationMetadata env cached))"

definition result_of_cached :: "('w, 'm) infer_env \<Rightarrow> Entry \<Rightarrow> cachedInferResult \<Rightarrow> 'm option \<Rightarrow> inferResult" where
  "result_of_cached env entry cached md =
     emptyInferResult\<lparr>
       ir_matched := ci_Matched cached, ir_outputJSON := ci_OutputJSON cached,
       ir_upstreamMetadata := ci_UpstreamMetadata cached,
       ir_reportedPromptHash := (case md of Some m \<Rightarrow> ie_promptSha env m | None \<Rightarrow> []),
       ir_reportedSchemaHash := (case md of Some m \<Rightarrow> ie_schemaSha env m | None \<Rightarrow> []),
       ir_reportedHashesUnavailable :=
         (md = None \<and> um_Status (ci_UpstreamMetadata cached) \<in> {UpstreamMetadataOmittedMalformed, UpstreamMetadataOmittedOversize}),
       ir_cacheEntryVersion := (if int (unat (en_Version entry)) \<le> max_int64 then Some (int (unat (en_Version entry))) else None),
       ir_cacheExpiresAt := (if IsZero (en_ExpiresAt entry) then None else Some (en_ExpiresAt entry))\<rparr>"

definition infer_cacheLookup ::
  "('w, 'm) infer_env \<Rightarrow> bytes \<Rightarrow> go_time \<Rightarrow> Store \<Rightarrow> inferResult option \<times> Store" where
  "infer_cacheLookup env k now s =
     (case Store_Get inferenceCacheNamespace k now s of
        (Inr (Some entry), s1) \<Rightarrow>
          (case decodeCachedInferResult env (en_Value entry) of
             Some (cached, md) \<Rightarrow> (Some (result_of_cached env entry cached md), s1)
           | None \<Rightarrow> (None, snd (Store_Delete inferenceCacheNamespace k now s1)))
      | (_, s1) \<Rightarrow> (None, s1))"

definition cached_of_result :: "inferResult \<Rightarrow> cachedInferResult" where
  "cached_of_result r =
     \<lparr>ci_SchemaVersion = 2, ci_Matched = ir_matched r, ci_OutputJSON = ir_outputJSON r,
      ci_UpstreamMetadata = ir_upstreamMetadata r\<rparr>"

definition infer_cacheStore :: "bytes \<Rightarrow> int \<Rightarrow> inferResult \<Rightarrow> go_time \<Rightarrow> Store \<Rightarrow> Store" where
  "infer_cacheStore k ttlMilliseconds r now s =
     (case encodeCachedInferResult (cached_of_result r) of
        None \<Rightarrow> s
      | Some encoded \<Rightarrow>
          snd (Store_Set inferenceCacheNamespace k encoded
                 \<lparr>Mode = SetModeAny, TTL = duration_of_ms ttlMilliseconds\<rparr> now s))"

section \<open>The gate of an infer condition\<close>

definition mark_hit :: "inferResult \<Rightarrow> inferResult" where
  "mark_hit r = r\<lparr>ir_cacheHit := True, ir_cacheStatus := ''hit''\<rparr>"

text \<open>What the evaluation that leads a flight does.\<close>

definition lead_flight ::
  "('w, 'm) infer_env \<Rightarrow> Condition \<Rightarrow> bytes \<Rightarrow> bytes \<Rightarrow> bytes \<Rightarrow> bytes \<Rightarrow> InferRuntime \<Rightarrow> 'w \<Rightarrow>
   inferResult \<times> InferRuntime \<times> 'w" where
  "lead_flight env c cacheKey input workspace session rt w =
     (let (again, s1) = (if 0 < c_CacheTTLMs c then infer_cacheLookup env cacheKey (ie_now env w) (rn_cache rt)
                         else (None, rn_cache rt)) in
      case again of
        Some cached \<Rightarrow> (mark_hit cached, rt\<lparr>rn_cache := s1\<rparr>, w)
      | None \<Rightarrow>
          let (r, rt2, w2) = infer_call env c input workspace session (rt\<lparr>rn_cache := s1\<rparr>) w;
              rt3 = (if \<not> ir_errored r \<and> 0 < c_CacheTTLMs c
                     then rt2\<lparr>rn_cache := infer_cacheStore cacheKey (c_CacheTTLMs c) r (ie_now env w2) (rn_cache rt2)\<rparr>
                     else rt2) in
          (r\<lparr>ir_cacheStatus := (if ir_cacheStatus r = [] then ''miss'' else ir_cacheStatus r)\<rparr>, rt3, w2))"

text \<open>An evaluation that meets no other one for its key.\<close>

definition infer_resolve ::
  "('w, 'm) infer_env \<Rightarrow> Condition \<Rightarrow> bytes \<Rightarrow> bytes \<Rightarrow> bytes \<Rightarrow> bytes \<Rightarrow> InferRuntime \<Rightarrow> 'w \<Rightarrow>
   inferResult \<times> InferRuntime \<times> 'w" where
  "infer_resolve env c cacheKey input workspace session rt w =
     (case infer_cacheLookup env cacheKey (ie_now env w) (rn_cache rt) of
        (Some cached, s1) \<Rightarrow> (mark_hit cached, rt\<lparr>rn_cache := s1\<rparr>, w)
      | (None, s1) \<Rightarrow> lead_flight env c cacheKey input workspace session (rt\<lparr>rn_cache := s1\<rparr>) w)"

definition infer_evaluate ::
  "('w, 'm) infer_env \<Rightarrow> FieldSet \<Rightarrow> Condition \<Rightarrow> InferRuntime \<Rightarrow> 'w \<Rightarrow> bool \<times> InferRuntime \<times> 'w" where
  "infer_evaluate env f c rt w =
     (let input = StringForCondition (ie_shell env) f (spec_Selector (c_inputSelector c)) (Some c);
          keyValue = StringForCondition (ie_shell env) f (spec_Selector (c_cacheKeySelector c)) (Some c);
          (workspace, session) = resolvedContextIdentity (ie_shell env) f c;
          cacheKey = stableInferenceKey env c input keyValue workspace session;
          (r, rt1, w1) = infer_resolve env c cacheKey input workspace session rt w in
      (inferResultBlocks c r, rt1, w1))"

text \<open>The memo of one event, by the identity of the condition.\<close>

type_synonym inferEventMemo = "nat \<times> nat \<Rightarrow> bool option"

definition inferConditionGateMatch ::
  "('w, 'm) infer_env \<Rightarrow> FieldSet \<Rightarrow> nat \<times> nat \<Rightarrow> Condition \<Rightarrow> inferEventMemo option \<Rightarrow> InferRuntime \<Rightarrow> 'w \<Rightarrow>
   bool \<times> inferEventMemo option \<times> InferRuntime \<times> 'w" where
  "inferConditionGateMatch env f identity c memo rt w =
     (case memo of
        Some m \<Rightarrow>
          (case m identity of
             Some found \<Rightarrow> (found, memo, rt, w)
           | None \<Rightarrow>
               let (result, rt1, w1) = infer_evaluate env f c rt w in
               (result, Some (m(identity \<mapsto> result)), rt1, w1))
      | None \<Rightarrow> let (result, rt1, w1) = infer_evaluate env f c rt w in (result, None, rt1, w1))"

text \<open>Where the verified part of a trace comes from.\<close>

record VerifiedProvenance =
  vp_RequestedModel :: bytes
  vp_EndpointHash :: bytes
  vp_CacheKeyHash :: bytes
  vp_InputHash :: bytes
  vp_PromptSHA256 :: bytes
  vp_SchemaSHA256 :: bytes
  vp_ReportedPromptHashStatus :: bytes
  vp_ReportedSchemaHashStatus :: bytes

definition reportedHashStatus :: "bytes \<Rightarrow> bytes \<Rightarrow> bool \<Rightarrow> bytes" where
  "reportedHashStatus reported local unavailable =
     (if reported = [] then (if unavailable then ''unavailable'' else ''absent'')
      else if hashValueMismatch reported local then ''mismatch'' else ''match'')"

definition verifiedInferenceProvenance ::
  "('w, 'm) infer_env \<Rightarrow> Condition \<Rightarrow> bytes \<Rightarrow> bytes \<Rightarrow> inferResult \<Rightarrow> VerifiedProvenance" where
  "verifiedInferenceProvenance env c input cacheKey r =
     (let hash = traceJSONHash (ie_sha256 env); promptHash = hash (c_Prompt c); schemaHash = hash (c_OutputSchema c) in
      \<lparr>vp_RequestedModel = c_Model c, vp_EndpointHash = hash (c_Endpoint c), vp_CacheKeyHash = hash cacheKey,
       vp_InputHash = hash input, vp_PromptSHA256 = promptHash, vp_SchemaSHA256 = schemaHash,
       vp_ReportedPromptHashStatus =
         reportedHashStatus (ir_reportedPromptHash r) promptHash (ir_reportedHashesUnavailable r),
       vp_ReportedSchemaHashStatus =
         reportedHashStatus (ir_reportedSchemaHash r) schemaHash (ir_reportedHashesUnavailable r)\<rparr>)"

section \<open>Inference points of an evaluator matrix\<close>

definition defaultPointTimeout :: go_duration where "defaultPointTimeout = 4000000000"

record point_trace = pointVerdict +
  pt_inputJSON :: bytes
  pt_outputJSON :: bytes
  pt_errorCode :: bytes
  pt_model :: bytes
  pt_upstream :: UpstreamMetadata
  pt_startedAt :: go_time
  pt_completedAt :: go_time

definition decisionOutputSchema :: "bytes" where
  "decisionOutputSchema =
     json_encode_object
       [(''type'', json_quote ''object''),
        (''properties'', json_encode_object [(''decision'', json_encode_object
           [(''type'', json_quote ''string''), (''enum'', ''['' @ json_quote ''allow'' @ '','' @ json_quote ''block'' @ '']'')])]),
        (''required'', ''['' @ json_quote ''decision'' @ '']''), (''additionalProperties'', ''false'')]"

definition marshalPointInput :: "bytes \<Rightarrow> bytes \<Rightarrow> bytes \<Rightarrow> bytes" where
  "marshalPointInput prompt input model =
     json_encode_object [(''prompt'', json_quote prompt), (''input'', json_quote input), (''model'', json_quote model)]"

definition pointGenerationOptions :: "InferencePoint \<Rightarrow> generation_options option" where
  "pointGenerationOptions point =
     (if ip_ReasoningEffort point = [] then None
      else Some \<lparr>go_ReasoningEffort = reasoningEffortValue (ip_ReasoningEffort point),
                 go_MaxCompletionTokens = None, go_Temperature = None\<rparr>)"

definition parsePointDecision :: "bytes \<Rightarrow> bytes option" where
  "parsePointDecision outputJSON =
     (case (if json_null outputJSON then Some [] else json_members outputJSON) of
        None \<Rightarrow> None
      | Some ms \<Rightarrow>
          (case json_decode json_string [] (json_values ''decision'' ms) of
             None \<Rightarrow> None
           | Some d \<Rightarrow> if d = ''allow'' \<or> d = ''block'' then Some d else None))"

definition point_failure :: "('w, 'm) infer_env \<Rightarrow> InferencePoint \<Rightarrow> bytes \<Rightarrow> go_time \<Rightarrow> go_time \<Rightarrow> bytes \<Rightarrow> point_trace" where
  "point_failure env point inputJSON startedAt completedAt code =
     \<lparr>pv_block = False, pv_errored = True, pt_inputJSON = inputJSON, pt_outputJSON = ''{}'', pt_errorCode = code,
      pt_model = ip_Model point, pt_upstream = boundedUpstreamMetadata env None,
      pt_startedAt = startedAt, pt_completedAt = completedAt\<rparr>"

definition point_timeout :: "InferencePoint \<Rightarrow> go_duration" where
  "point_timeout point =
     (if duration_of_ms (ip_TimeoutMs point) \<le> 0 then defaultPointTimeout else duration_of_ms (ip_TimeoutMs point))"

definition evaluatePoint ::
  "('w, 'm) infer_env \<Rightarrow> InferencePoint \<Rightarrow> bytes \<Rightarrow> bytes \<Rightarrow> InferRuntime \<Rightarrow> 'w \<Rightarrow> point_trace \<times> InferRuntime \<times> 'w" where
  "evaluatePoint env point prompt input rt w =
     (let startedAt = ie_now env w; inputJSON = marshalPointInput prompt input (ip_Model point);
          fail = (\<lambda>w' code. point_failure env point inputJSON startedAt (ie_now env w') code) in
      case inferenceClient env (ip_Endpoint point) rt of
        (None, rt1) \<Rightarrow> (fail w ''invalid_endpoint'', rt1, w)
      | (Some client, rt1) \<Rightarrow>
          let (reply, w1) = ie_Infer env client
                 \<lparr>rq_Prompt = prompt, rq_Input = input, rq_OutputSchema = decisionOutputSchema, rq_Context = [],
                  rq_Model = ip_Model point, rq_GenerationOptions = pointGenerationOptions point\<rparr>
                 (point_timeout point) w in
          (case reply of
             Inl err \<Rightarrow> (fail w1 (grpcErrorClass err), rt1, w1)
           | Inr None \<Rightarrow> (fail w1 ''non_complete'', rt1, w1)
           | Inr (Some r) \<Rightarrow>
               if \<not> rp_complete r then (fail w1 ''non_complete'', rt1, w1)
               else case parsePointDecision (rp_OutputJson r) of
                 None \<Rightarrow> (fail w1 ''invalid_response'', rt1, w1)
               | Some decision \<Rightarrow>
                   (\<lparr>pv_block = (decision = ''block''), pv_errored = False, pt_inputJSON = inputJSON,
                     pt_outputJSON = rp_OutputJson r, pt_errorCode = [], pt_model = ip_Model point,
                     pt_upstream = boundedUpstreamMetadata env (rp_Metadata r),
                     pt_startedAt = startedAt, pt_completedAt = ie_now env w1\<rparr>, rt1, w1)))"

end
