(* ===== verification/JsonProps.thy ===== *)
theory JsonProps
  imports Json
begin

text \<open>
  Why splitting agrees with scanning: the bytes of a valid text, and of its compact form, never leave
  a string or a nesting level open, and a separator at the outermost level cannot occur in them.
\<close>

definition in_string :: "scan_state \<Rightarrow> bool" where
  "in_string st \<longleftrightarrow> st = ScanString \<or> st = ScanEscape \<or> (\<exists>n. st = ScanUnicode n)"

text \<open>What holds of the scanner in every state it reaches.\<close>

fun scanner_ok :: "scanner \<Rightarrow> bool" where
  "scanner_ok (ScanLiteral rest, stack) = (set rest \<subseteq> set ''rueals'')"
| "scanner_ok (ScanEndTop, stack) = (stack = [])"
| "scanner_ok (ScanBeginStringOrEmpty, stack) = (stack \<noteq> [])"
| "scanner_ok (st, stack) = True"

lemma json_space_simps [simp]:
  "\<not> json_space (CHR ''{'')" "\<not> json_space (CHR ''}'')" "\<not> json_space (CHR ''['')" "\<not> json_space (CHR '']'')"
  "\<not> json_space (CHR '','')" "\<not> json_space (CHR '':'')" "\<not> json_space (CHR 0x22)"
  by (simp_all add: json_space_def)

lemma json_digit_simps [simp]:
  "\<not> json_digit (CHR ''{'')" "\<not> json_digit (CHR ''}'')" "\<not> json_digit (CHR ''['')" "\<not> json_digit (CHR '']'')"
  "\<not> json_digit (CHR '','')" "\<not> json_digit (CHR '':'')" "\<not> json_digit (CHR 0x22)"
  by (simp_all add: json_digit_def)

lemma hex_value_simps [simp]: "hex_value (CHR 0x22) = None" "hex_value (CHR 0x5C) = None"
  by (simp_all add: hex_value_def)

lemmas scan_defs = scan_begin_value_def scan_begin_string_def scan_push_def scan_pop_def scan_zero_def scan_exp_sign_def

lemma pop_ok: "scan_pop stack = Some s \<Longrightarrow> scanner_ok s"
  by (auto simp: scan_pop_def split: if_splits)

lemma end_value_ok: "scan_end_value c stack = Some s \<Longrightarrow> scanner_ok s"
  by (cases stack) (auto simp: pop_ok split: parse_frame.splits if_splits)

lemma begin_value_ok: "scan_begin_value c stack = Some s \<Longrightarrow> scanner_ok s"
  by (auto simp: scan_defs split: if_splits)

lemma scan_step_ok: "scan_step c s = Some s1 \<Longrightarrow> scanner_ok s \<Longrightarrow> scanner_ok s1"
proof (induction c s rule: scan_step.induct)
  case (1 c stack) then show ?case by (simp add: begin_value_ok)
next
  case (4 c stack) then show ?case
    by (auto simp: scan_begin_string_def pop_ok split: if_splits)
next
  case (18 c rest stack) then show ?case by (auto split: list.splits if_splits)
qed (auto simp: scan_begin_string_def scan_zero_def scan_exp_sign_def begin_value_ok end_value_ok split: if_splits nat.splits)

section \<open>Cutting follows the scanner\<close>

definition plain :: "char \<Rightarrow> bool" where
  "plain c \<longleftrightarrow> c \<notin> {CHR 0x22, CHR '','', CHR ''{'', CHR ''}'', CHR ''['', CHR '']''}"

lemma plain_space: "json_space c \<Longrightarrow> plain c" by (auto simp: json_space_def plain_def)
lemma plain_digit: "json_digit c \<Longrightarrow> plain c" by (auto simp: json_digit_def plain_def)

lemma split_plain:
  "plain c \<Longrightarrow> split_top (CHR '','') d False False acc (c # text) = split_top (CHR '','') d False False (acc @ [c]) text"
  by (simp add: plain_def)

lemma split_quote:
  "split_top (CHR '','') d False False acc (CHR 0x22 # text) = split_top (CHR '','') d True False (acc @ [CHR 0x22]) text"
  by simp

lemma split_open:
  "c = CHR ''{'' \<or> c = CHR ''['' \<Longrightarrow>
   split_top (CHR '','') d False False acc (c # text) = split_top (CHR '','') (Suc d) False False (acc @ [c]) text"
  by auto

lemma split_close:
  "c = CHR ''}'' \<or> c = CHR '']'' \<Longrightarrow>
   split_top (CHR '','') d False False acc (c # text) = split_top (CHR '','') (d - 1) False False (acc @ [c]) text"
  by auto

lemma split_inner_comma:
  "0 < d \<Longrightarrow>
   split_top (CHR '','') d False False acc (CHR '','' # text) = split_top (CHR '','') d False False (acc @ [CHR '','']) text"
  by simp

lemma split_comma:
  "split_top (CHR '','') 0 False False acc (CHR '','' # text) = acc # split_top (CHR '','') 0 False False [] text"
  by simp

lemma split_string:
  "split_top sep d True False acc (c # text) = split_top sep d (c \<noteq> CHR 0x22) (c = CHR 0x5C) (acc @ [c]) text"
  by simp

lemma split_escape:
  "split_top sep d q True acc (c # text) = split_top sep d True False (acc @ [c]) text"
  by simp

lemma split_Nil: "split_top sep d q e acc [] = [acc]" by simp

declare split_top.simps [simp del]

lemmas split_steps = split_plain split_quote split_open split_close split_inner_comma split_string split_escape split_Nil

text \<open>The cut state that corresponds to a scanner state below \<open>k\<close> further levels.\<close>

definition cut :: "nat \<Rightarrow> scanner \<Rightarrow> bytes \<Rightarrow> bytes \<Rightarrow> bytes list" where
  "cut k s acc text = split_top (CHR '','') (k + length (snd s)) (in_string (fst s)) (fst s = ScanEscape) acc text"

lemma cut_out: "\<not> in_string st \<Longrightarrow> cut k (st, stack) acc text = split_top (CHR '','') (k + length stack) False False acc text"
  by (auto simp: cut_def in_string_def)

lemma cut_in: "cut k (ScanString, stack) acc text = split_top (CHR '','') (k + length stack) True False acc text"
  by (simp add: cut_def in_string_def)

lemma cut_pop:
  assumes "scan_pop stack = Some s1"
  shows "cut k s1 acc text = split_top (CHR '','') (k + length stack) False False acc text"
  using assms by (auto simp: cut_def scan_pop_def in_string_def split: if_splits)

lemma not_in_string [simp]:
  "\<not> in_string ScanBeginValue" "\<not> in_string ScanBeginValueOrEmpty" "\<not> in_string ScanBeginString"
  "\<not> in_string ScanBeginStringOrEmpty" "\<not> in_string ScanEndValue" "\<not> in_string ScanEndTop"
  "\<not> in_string ScanNeg" "\<not> in_string ScanDigits" "\<not> in_string ScanZero" "\<not> in_string ScanDot"
  "\<not> in_string ScanFraction" "\<not> in_string ScanExp" "\<not> in_string ScanExpSign" "\<not> in_string ScanExpDigits"
  "\<not> in_string (ScanLiteral xs)" "in_string ScanString" "in_string ScanEscape" "in_string (ScanUnicode n)"
  by (auto simp: in_string_def)

lemma end_value_cases:
  assumes "scan_end_value c stack = Some s1"
  obtains st1 where "json_space c" "s1 = (st1, stack)" "\<not> in_string st1"
    | rest where "c = CHR '':''" "stack = ParseObjectKey # rest" "s1 = (ScanBeginValue, ParseObjectValue # rest)"
    | frame frame1 rest st1 where "c = CHR '',''" "stack = frame # rest" "s1 = (st1, frame1 # rest)" "\<not> in_string st1"
    | frame rest where "c = CHR ''}'' \<or> c = CHR '']''" "stack = frame # rest" "scan_pop rest = Some s1"
  using assms
  by (cases stack) (auto simp: scan_pop_def split: parse_frame.splits if_splits)

lemma cut_end_value:
  assumes "scan_end_value c stack = Some s1" and "\<not> in_string st"
  shows "cut k (st, stack) acc (c # text) = cut k s1 (acc @ [c]) text"
  using assms(1)
  by (cases rule: end_value_cases)
     (simp_all add: assms(2) cut_out cut_pop split_steps plain_space plain_def [of "CHR '':''"])

text \<open>Outside strings only the depth counts.\<close>

lemma cut_push:
  "scan_push frame st1 stack = Some s1 \<Longrightarrow> \<not> in_string st1 \<Longrightarrow>
   cut k s1 acc text = split_top (CHR '','') (Suc (k + length stack)) False False acc text"
  by (auto simp: scan_push_def cut_out split: if_splits)

lemma plain_chars:
  "plain (CHR ''-'')" "plain (CHR ''0'')" "plain (CHR ''t'')" "plain (CHR ''f'')" "plain (CHR ''n'')"
  "plain (CHR ''.'')" "plain (CHR ''e'')" "plain (CHR ''E'')" "plain (CHR ''+'')" "plain (CHR '':'')"
  by (simp_all add: plain_def)

lemmas outside = cut_out cut_in split_steps plain_space plain_digit plain_chars

lemma cut_begin_value:
  assumes "scan_begin_value c stack = Some s1" and ns: "\<not> in_string st"
  shows "cut k (st, stack) acc (c # text) = cut k s1 (acc @ [c]) text"
proof -
  consider "json_space c" "s1 = (ScanBeginValue, stack)"
    | "c = CHR ''{''" "scan_push ParseObjectKey ScanBeginStringOrEmpty stack = Some s1"
    | "c = CHR ''[''" "scan_push ParseArrayValue ScanBeginValueOrEmpty stack = Some s1"
    | "c = CHR 0x22" "s1 = (ScanString, stack)"
    | st1 where "plain c" "s1 = (st1, stack)" "\<not> in_string st1"
    using assms(1) by (auto simp: scan_begin_value_def plain_digit plain_chars split: if_splits)
  then show ?thesis
    using ns by cases (simp_all add: outside cut_push)
qed

lemma cut_begin_string:
  assumes "scan_begin_string c stack = Some s1" and ns: "\<not> in_string st"
  shows "cut k (st, stack) acc (c # text) = cut k s1 (acc @ [c]) text"
  using assms by (auto simp: scan_begin_string_def outside split: if_splits)

lemma cut_zero:
  assumes "scan_zero c stack = Some s1" and ns: "\<not> in_string st"
  shows "cut k (st, stack) acc (c # text) = cut k s1 (acc @ [c]) text"
  using assms cut_end_value by (auto simp: scan_zero_def outside split: if_splits)

lemma cut_literal:
  assumes "scan_step c (ScanLiteral rest, stack) = Some s1" "set rest \<subseteq> set ''rueals''"
  shows "cut k (ScanLiteral rest, stack) acc (c # text) = cut k s1 (acc @ [c]) text"
proof -
  have "plain c" "\<exists>st1. s1 = (st1, stack) \<and> \<not> in_string st1"
    using assms by (auto simp: plain_def split: list.splits if_splits)
  then show ?thesis by (auto simp: outside)
qed

lemma cut_number:
  assumes "scan_exp_sign c stack = Some s1" and ns: "\<not> in_string st"
  shows "cut k (st, stack) acc (c # text) = cut k s1 (acc @ [c]) text"
  using assms by (auto simp: scan_exp_sign_def outside split: if_splits)

lemma cut_step:
  assumes "scan_step c (st, stack) = Some s1" "scanner_ok (st, stack)"
  shows "cut k (st, stack) acc (c # text) = cut k s1 (acc @ [c]) text"
proof (cases st)
  case ScanBeginStringOrEmpty
  show ?thesis
  proof (cases "c = CHR ''}''")
    case True
    then have "scan_pop (tl stack) = Some s1" using assms(1) ScanBeginStringOrEmpty by simp
    moreover have "stack \<noteq> []" using assms(2) ScanBeginStringOrEmpty by simp
    ultimately show ?thesis using True ScanBeginStringOrEmpty by (cases stack) (simp_all add: cut_out cut_pop split_close)
  next
    case False
    then show ?thesis using assms(1) ScanBeginStringOrEmpty cut_begin_string [of c stack s1 st k acc "text"]
      by (auto simp: outside split: if_splits)
  qed
next
  case ScanString
  then show ?thesis using assms(1) by (auto simp: cut_def split_string split: if_splits)
next
  case ScanEscape
  then show ?thesis using assms(1) by (auto simp: cut_def split_escape split: if_splits)
next
  case (ScanUnicode n)
  then have "c \<noteq> CHR 0x22" "c \<noteq> CHR 0x5C" using assms(1) by auto
  then show ?thesis using ScanUnicode assms(1) by (auto simp: cut_def split_string split: nat.splits if_splits)
next
  case (ScanLiteral rest)
  then show ?thesis using assms cut_literal by simp
next
  case ScanBeginValue
  then show ?thesis using assms(1) cut_begin_value by simp
next
  case ScanBeginValueOrEmpty
  show ?thesis
  proof (cases "json_space c")
    case True
    then show ?thesis using assms(1) ScanBeginValueOrEmpty by (auto simp: cut_out split_plain plain_space)
  next
    case False
    then show ?thesis using assms(1) ScanBeginValueOrEmpty by (auto simp: cut_begin_value cut_end_value split: if_splits)
  qed
next
  case ScanBeginString
  then show ?thesis using assms(1) cut_begin_string by simp
next
  case ScanEndValue
  then show ?thesis using assms(1) cut_end_value by simp
next
  case ScanZero
  then show ?thesis using assms(1) cut_zero by simp
next
  case ScanDigits
  show ?thesis
  proof (cases "json_digit c")
    case True
    then show ?thesis using assms(1) ScanDigits by (auto simp: cut_out split_plain plain_digit)
  next
    case False
    then show ?thesis using assms(1) ScanDigits by (auto simp: cut_zero split: if_splits)
  qed
next
  case ScanFraction
  then show ?thesis using assms(1) cut_end_value [of c stack s1 st k acc "text"]
    by (cases "json_digit c \<or> c = CHR ''e'' \<or> c = CHR ''E''")
       (auto simp: cut_out split_plain plain_digit plain_chars split: if_splits)
next
  case ScanExp
  then show ?thesis using assms(1) cut_number [of c stack s1 st k acc "text"]
    by (auto simp: cut_out split_plain plain_digit plain_chars split: if_splits)
next
  case ScanExpSign
  then show ?thesis using assms(1) cut_number by simp
next
  case ScanExpDigits
  show ?thesis
  proof (cases "json_digit c")
    case True
    then show ?thesis using assms(1) ScanExpDigits by (auto simp: cut_out split_plain plain_digit)
  next
    case False
    then show ?thesis using assms(1) ScanExpDigits by (auto simp: cut_end_value split: if_splits)
  qed
qed (use assms(1) in \<open>auto simp: outside split: if_splits\<close>)

lemma cut_run:
  assumes "scan_run s (st, stack) = Some s1" "scanner_ok (st, stack)"
  shows "cut k (st, stack) acc (s @ text) = cut k s1 (acc @ s) text \<and> scanner_ok s1"
  using assms
proof (induction s arbitrary: st stack acc)
  case (Cons c cs)
  then obtain s2 where s2: "scan_step c (st, stack) = Some s2" "scan_run cs s2 = Some s1" by (auto split: option.splits)
  then have "scanner_ok s2" using scan_step_ok Cons.prems(2) by blast
  then show ?case
    using cut_step [OF s2(1) Cons.prems(2), of k acc "cs @ text"] Cons.IH [of "fst s2" "snd s2" "acc @ [c]"] s2(2) by simp
qed (auto simp: cut_def)


section \<open>Texts that do not disturb a cut\<close>

text \<open>A text is closed if it can be skipped at any level.\<close>

definition closed_text :: "bytes \<Rightarrow> bool" where
  "closed_text s \<longleftrightarrow>
     (\<forall>k acc text. split_top (CHR '','') k False False acc (s @ text) = split_top (CHR '','') k False False (acc @ s) text)"

lemma closed_textD: "closed_text s \<Longrightarrow>
  split_top (CHR '','') k False False acc (s @ text) = split_top (CHR '','') k False False (acc @ s) text"
  by (simp add: closed_text_def)

lemma eof_outside:
  assumes "scan_eof (st, stack)" "scanner_ok (st, stack)"
  shows "stack = [] \<and> \<not> in_string st"
proof (cases "st = ScanEndTop")
  case True
  then show ?thesis using assms(2) by simp
next
  case False
  then obtain stack1 where "scan_step (CHR '' '') (st, stack) = Some (ScanEndTop, stack1)"
    using assms(1) by (auto simp: scan_eof_def split: option.splits)
  then show ?thesis
    using False
    by (cases st; cases stack)
       (auto simp: json_space_def json_digit_def hex_value_def scan_defs split: list.splits if_splits parse_frame.splits)
qed

text \<open>The compact form keeps the state of the cut.\<close>

lemma unicode_escape_in_string:
  assumes "\<forall>x \<in> set ''0123456789abcdef''. x \<noteq> CHR 0x22 \<and> x \<noteq> CHR 0x5C"
  shows "split_top sep d True False acc (unicode_escape n @ text) = split_top sep d True False (acc @ unicode_escape n) text"
proof -
  have "hex_digit (m mod 16) \<in> set ''0123456789abcdef''" for m
    unfolding hex_digit_def by (rule nth_mem) simp
  then have "hex_digit (m mod 16) \<noteq> CHR 0x22 \<and> hex_digit (m mod 16) \<noteq> CHR 0x5C" for m
    using assms by blast
  then show ?thesis by (simp add: unicode_escape_def split_string split_escape)
qed

text \<open>A byte that starts no token is an error outside strings.\<close>

definition structural :: bytes where "structural = ''{}[],:-0tfn.eE+'' @ [CHR 0x22]"

definition foreign :: "char \<Rightarrow> bool" where
  "foreign c \<longleftrightarrow> \<not> json_space c \<and> \<not> json_digit c \<and> c \<notin> set structural \<and> c \<notin> set ''rueals''"

lemma foreign_end_value: "foreign c \<Longrightarrow> scan_end_value c stack = None"
  by (cases stack) (auto simp: foreign_def structural_def split: parse_frame.splits)

lemma foreign_begin:
  assumes "foreign c"
  shows "scan_begin_value c stack = None" "scan_begin_string c stack = None" "scan_zero c stack = None" "scan_exp_sign c stack = None"
  using assms foreign_end_value [OF assms]
  by (simp_all add: foreign_def structural_def scan_begin_value_def scan_begin_string_def scan_zero_def scan_exp_sign_def)

lemma foreign_outside:
  assumes "foreign c" "\<not> in_string st" "scanner_ok (st, stack)"
  shows "scan_step c (st, stack) = None"
proof (cases st)
  case (ScanLiteral rest)
  then show ?thesis using assms by (cases rest) (auto simp: foreign_def)
qed (use assms foreign_begin [OF assms(1)] foreign_end_value [OF assms(1)] in
  \<open>simp_all add: foreign_def structural_def in_string_def\<close>)

lemma html_outside:
  assumes "\<not> in_string st" "c \<in> {CHR ''<'', CHR ''>'', CHR ''&''}" "scanner_ok (st, stack)"
  shows "scan_step c (st, stack) = None"
proof -
  have "foreign c" using assms(2) by (auto simp: foreign_def structural_def json_space_def json_digit_def)
  then show ?thesis using assms by (intro foreign_outside)
qed

lemma high_outside:
  assumes "\<not> in_string st" "scanner_ok (st, stack)"
  shows "scan_step (CHR 0xE2) (st, stack) = None"
proof -
  have "foreign (CHR 0xE2)" by (simp add: foreign_def structural_def json_space_def json_digit_def)
  then show ?thesis using assms by (intro foreign_outside)
qed

lemma space_not:
  assumes "json_space c"
  shows "c \<noteq> CHR ''.''" "c \<noteq> CHR ''e''" "c \<noteq> CHR ''E''" "c \<noteq> CHR ''+''" "c \<noteq> CHR ''-''" "\<not> json_digit c"
    "c \<noteq> CHR ''}''" "c \<noteq> CHR '']''" "c \<noteq> CHR ''0''" "c \<notin> set ''rueals''"
  using assms by (auto simp: json_space_def json_digit_def)

lemma space_end_value: "scan_end_value c stack = Some s1 \<Longrightarrow> json_space c \<Longrightarrow> snd s1 = stack \<and> \<not> in_string (fst s1)"
  by (cases stack) auto

lemma space_outside:
  assumes "\<not> in_string st" "scan_step c (st, stack) = Some s1" "json_space c" "scanner_ok (st, stack)"
  shows "snd s1 = stack \<and> \<not> in_string (fst s1)"
proof (cases st)
  case (ScanLiteral rest)
  then have "c \<in> set rest" "set rest \<subseteq> set ''rueals''" using assms(2,4) by (auto split: list.splits if_splits)
  then show ?thesis using space_not(10) [OF assms(3)] by blast
qed (use assms space_not [OF assms(3)] in \<open>auto simp: scan_begin_value_def scan_begin_string_def scan_zero_def
        scan_exp_sign_def space_end_value\<close>)

lemma end_value_outside: "scan_end_value c stack = Some s1 \<Longrightarrow> \<not> in_string (fst s1) \<and> c \<noteq> CHR 0x22"
  by (cases rule: end_value_cases, assumption) (auto simp: scan_pop_def json_space_def split: if_splits)

lemma string_opens:
  assumes "\<not> in_string st" "scan_step c (st, stack) = Some s1" "scanner_ok (st, stack)"
  shows "in_string (fst s1) \<longleftrightarrow> c = CHR 0x22"
proof (cases st)
  case (ScanLiteral rest)
  then show ?thesis using assms(2,3) by (auto split: list.splits if_splits)
next
  case ScanEndTop
  then show ?thesis using assms(2) by (auto simp: json_space_def split: if_splits)
next
  case ScanBeginStringOrEmpty
  then show ?thesis using assms(2) by (auto simp: json_space_def scan_begin_string_def scan_pop_def split: if_splits)
qed (use assms(1,2) in \<open>auto simp: scan_begin_value_def scan_begin_string_def scan_zero_def scan_exp_sign_def
       scan_push_def dest: end_value_outside split: if_splits\<close>)

lemma after_opening: "in_string (fst s1) \<Longrightarrow> scan_step c (st, stack) = Some s1 \<Longrightarrow> \<not> in_string st \<Longrightarrow>
  scanner_ok (st, stack) \<Longrightarrow> fst s1 = ScanString"
  using string_opens [of st c stack s1]
  by (cases st; cases stack)
     (auto simp: scan_begin_value_def scan_begin_string_def scan_zero_def scan_exp_sign_def scan_push_def
        dest: end_value_outside split: if_splits list.splits parse_frame.splits)

lemma in_string_step:
  assumes "in_string st" "scan_step c (st, stack) = Some (st1, stack1)"
  shows "stack1 = stack"
    and "st \<noteq> ScanEscape \<Longrightarrow> in_string st1 = (c \<noteq> CHR 0x22) \<and> (st1 = ScanEscape) = (c = CHR 0x5C)"
    and "st = ScanEscape \<Longrightarrow> in_string st1 \<and> st1 \<noteq> ScanEscape"
    and "c \<in> {CHR ''<'', CHR ''>'', CHR ''&'', CHR 0xE2} \<Longrightarrow> st = ScanString \<and> st1 = ScanString"
  using assms by (cases st; auto simp: hex_value_def split: if_splits nat.splits)+

lemma high_bytes_in_string:
  assumes "scan_run (CHR 0xE2 # CHR 0x80 # x # cs) (ScanString, stack) = Some s1" "x = CHR 0xA8 \<or> x = CHR 0xA9"
  shows "scan_run cs (ScanString, stack) = Some s1"
  using assms by auto


lemma hex_digit_plain:
  "hex_digit (m mod 16) \<noteq> CHR 0x22 \<and> hex_digit (m mod 16) \<noteq> CHR 0x5C"
proof -
  have "hex_digit (m mod 16) \<in> set ''0123456789abcdef''"
    unfolding hex_digit_def by (rule nth_mem) simp
  then show ?thesis by auto
qed

lemma cut_escape:
  "cut k (ScanString, stack) acc (unicode_escape n @ text) = cut k (ScanString, stack) (acc @ unicode_escape n) text"
  using hex_digit_plain [of n] hex_digit_plain [of "n div 16"] hex_digit_plain [of "n div 256"] hex_digit_plain [of "n div 4096"]
  by (simp add: unicode_escape_def cut_def split_string split_escape)

lemma compact_cut:
  assumes "scan_run s (st, stack) = Some s1" "scanner_ok (st, stack)" "q = in_string st" "e = (st = ScanEscape)"
  shows "cut k (st, stack) acc (compact_loop q e s @ text) = cut k s1 (acc @ compact_loop q e s) text"
  using assms
proof (induction q e s arbitrary: st stack acc rule: compact_loop.induct)
  case (2 q e c cs)
  obtain st2 stack2 where step: "scan_step c (st, stack) = Some (st2, stack2)" and rest: "scan_run cs (st2, stack2) = Some s1"
    using "2.prems"(1) by (auto split: option.splits)
  have ok: "scanner_ok (st2, stack2)" using scan_step_ok [OF step "2.prems"(2)] .
  have walk: "cut k (st, stack) acc (c # t) = cut k (st2, stack2) (acc @ [c]) t" for t
    using cut_step [OF step "2.prems"(2)] .
  show ?case
  proof (cases "c \<in> {CHR ''<'', CHR ''>'', CHR ''&''}")
    case True
    then have "in_string st" using html_outside [of st c stack] step "2.prems"(2) by (cases "in_string st") auto
    then have "st = ScanString \<and> st2 = ScanString \<and> stack2 = stack"
      using in_string_step [OF _ step] True by blast
    then show ?thesis using "2.IH"(1) [OF True rest ok] "2.prems"(3) True
      by (simp add: cut_escape del: unicode_escape_def)
  next
    case html: False
    have sep: thesis if "\<And>x. x \<in> {CHR 0xA8, CHR 0xA9} \<Longrightarrow> take 3 (c # cs) = [CHR 0xE2, CHR 0x80, x] \<Longrightarrow> thesis"
      "take 3 (c # cs) \<noteq> [CHR 0xE2, CHR 0x80, CHR 0xA8] \<Longrightarrow> take 3 (c # cs) \<noteq> [CHR 0xE2, CHR 0x80, CHR 0xA9] \<Longrightarrow> thesis"
      for thesis using that by blast
    show ?thesis
    proof (rule sep)
      fix x
      assume x: "x \<in> {CHR 0xA8, CHR 0xA9}" and three: "take 3 (c # cs) = [CHR 0xE2, CHR 0x80, x]"
      then obtain tl where cs: "c = CHR 0xE2" "cs = CHR 0x80 # x # tl"
        by (cases cs; cases "tl cs") (auto simp: take_Suc_conv_app_nth numeral_3_eq_3)
      then have "in_string st" using high_outside [of st stack] step "2.prems"(2) by (cases "in_string st") auto
      then have st: "st = ScanString" "st2 = ScanString" "stack2 = stack"
        using in_string_step [OF _ step] cs(1) by auto
      have "scan_run tl (ScanString, stack) = Some s1"
        using high_bytes_in_string [of x tl stack s1] "2.prems"(1) cs st(1) x by simp
      then show ?thesis
        using "2.IH"(2) [OF html, of ScanString stack] "2.IH"(3) [OF html, of ScanString stack] "2.prems"(2-4) st(1) cs x html
        by (auto simp: cut_escape)
    next
      assume no: "take 3 (c # cs) \<noteq> [CHR 0xE2, CHR 0x80, CHR 0xA8]" "take 3 (c # cs) \<noteq> [CHR 0xE2, CHR 0x80, CHR 0xA9]"
      note IH = "2.IH"(4-7) [OF html no]
      have head: "compact_loop q e (c # cs) =
          (if e then c # compact_loop q False cs
           else if q then c # compact_loop (c \<noteq> CHR 0x22) (c = CHR 0x5C) cs
           else if json_space c then compact_loop False False cs
           else c # compact_loop (c = CHR 0x22) False cs)"
        by (simp only: compact_loop.simps html no if_False)
      consider (escaped) "e" | (quoted) "\<not> e" "q" | (space) "\<not> e" "\<not> q" "json_space c"
        | (other) "\<not> e" "\<not> q" "\<not> json_space c" by blast
      then show ?thesis
      proof cases
        case escaped
        then have "in_string st2 \<and> st2 \<noteq> ScanEscape" "q"
          using in_string_step(3) [OF _ step] "2.prems"(3,4) by auto
        then show ?thesis using IH(1) [OF escaped rest ok] walk escaped unfolding head by simp
      next
        case quoted
        then have "in_string st2 = (c \<noteq> CHR 0x22) \<and> (st2 = ScanEscape) = (c = CHR 0x5C)"
          using in_string_step(2) [OF _ step] "2.prems"(3,4) by blast
        then show ?thesis using IH(2) [OF quoted rest ok] walk quoted unfolding head by simp
      next
        case space
        then have "stack2 = stack \<and> \<not> in_string st2"
          using space_outside [OF _ step] "2.prems"(2,3) by auto
        then show ?thesis using IH(3) [OF space rest ok] space "2.prems"(3) unfolding head
          by (auto simp: cut_out in_string_def)
      next
        case other
        then have "in_string st2 = (c = CHR 0x22)" using string_opens [OF _ step] "2.prems"(2,3) by auto
        moreover have "st2 \<noteq> ScanEscape"
          using after_opening [OF _ step] other(2) "2.prems"(2,3) by (auto simp: in_string_def)
        ultimately show ?thesis using IH(4) [OF other rest ok] walk other unfolding head by simp
      qed
    qed
  qed
qed (auto simp: cut_def)


lemma compact_closed:
  assumes "json_compact s = Some c"
  shows "closed_text c"
proof -
  have valid: "json_Valid s" and c: "c = compact_loop False False s"
    using assms by (auto simp: json_compact_def split: if_splits)
  obtain st stack where run: "scan_run s (ScanBeginValue, []) = Some (st, stack)" and eof: "scan_eof (st, stack)"
    using valid by (auto simp: json_Valid_def split: option.splits)
  have "scanner_ok (st, stack)" using cut_run [OF run] by simp
  then have out: "stack = []" "\<not> in_string st" using eof_outside [OF eof] by auto
  show ?thesis
    unfolding closed_text_def c
    using compact_cut [OF run, of False False] out by (simp add: cut_out)
qed

lemma encode_rune_in_string:
  assumes "(\<exists>x. r = [x]) \<or> (\<forall>y \<in> set r. 0x80 \<le> (of_char y :: nat))"
  shows "split_top sep d True False acc (encode_rune r @ text) = split_top sep d True False (acc @ encode_rune r) text"
proof -
  have esc: "split_top sep d True False acc (unicode_escape n @ text) = split_top sep d True False (acc @ unicode_escape n) text" for n
    using hex_digit_plain [of n] hex_digit_plain [of "n div 16"] hex_digit_plain [of "n div 256"] hex_digit_plain [of "n div 4096"]
    by (simp add: unicode_escape_def split_string split_escape)
  have high: "split_top sep d True False acc (s @ text) = split_top sep d True False (acc @ s) text"
    if "\<forall>y \<in> set s. 0x80 \<le> (of_char y :: nat)" for s
    using that
  proof (induction s arbitrary: acc)
    case (Cons y ys)
    then have "y \<noteq> CHR 0x22" "y \<noteq> CHR 0x5C" by auto
    then show ?case using Cons by (simp add: split_string)
  qed simp
  show ?thesis
  proof (cases "\<exists>x. r = [x]")
    case True
    then obtain x where r: "r = [x]" by blast
    have "(\<exists>n. encode_rune [x] = unicode_escape n) \<or> (\<exists>y. encode_rune [x] = [CHR 0x5C, y])
        \<or> (encode_rune [x] = [x] \<and> x \<noteq> CHR 0x22 \<and> x \<noteq> CHR 0x5C)"
      unfolding encode_rune_def by (simp only: list.case) auto
    then show ?thesis unfolding r using esc by (auto simp: split_string split_escape)
  next
    case False
    then have "encode_rune r = (if r = [CHR 0xE2, CHR 0x80, CHR 0xA8] then unicode_escape 0x2028
          else if r = [CHR 0xE2, CHR 0x80, CHR 0xA9] then unicode_escape 0x2029 else r)"
      by (auto simp: encode_rune_def split: list.splits)
    then show ?thesis using assms False esc high by auto
  qed
qed

definition tail_byte :: "bytes \<Rightarrow> nat \<Rightarrow> bool" where
  "tail_byte s i \<longleftrightarrow> (\<exists>lo hi. 0x80 \<le> lo \<and> cont_in s i lo hi)"

lemma tail_byteI [intro]: "cont_in s i lo hi \<Longrightarrow> 0x80 \<le> lo \<Longrightarrow> tail_byte s i"
  by (auto simp: tail_byte_def)

lemma tail_byte_high: "tail_byte s i \<Longrightarrow> 0x80 \<le> (of_char (s ! i) :: nat)"
  by (auto simp: tail_byte_def cont_in_def)

lemma width_cases:
  assumes "w = (if A then 1 else if B then (if P then 2 else 0) else if C then (if Q then 3 else 0)
      else if D then (if R then 4 else 0) else (0::nat))"
  shows "w = 0 \<or> w = 1 \<and> A \<or> w = 2 \<and> \<not> A \<and> P \<or> w = 3 \<and> \<not> A \<and> Q \<or> w = 4 \<and> \<not> A \<and> R"
  using assms by (simp split: if_splits)

lemmas rune_width_cases = width_cases [OF rune_width_def [of "c # cs" for c cs, unfolded list.case Let_def]]

lemma rune_width_tail:
  assumes "1 < rune_width (c # cs)"
  shows "0x80 \<le> (of_char c :: nat)
    \<and> (rune_width (c # cs) = 2 \<and> tail_byte (c # cs) 1
       \<or> rune_width (c # cs) = 3 \<and> tail_byte (c # cs) 1 \<and> tail_byte (c # cs) 2
       \<or> rune_width (c # cs) = 4 \<and> tail_byte (c # cs) 1 \<and> tail_byte (c # cs) 2 \<and> tail_byte (c # cs) 3)"
proof -
  have first: "tail_byte (c # cs) (Suc 0)" if "cont_in (c # cs) (Suc 0) (if x then lo else 0x80) hi" "0x80 \<le> lo" for x lo hi
    by (rule tail_byteI [of _ _ "if x then lo else 0x80" hi]) (use that in auto)
  have later: "cont_in (c # cs) i 0x80 0xBF \<Longrightarrow> tail_byte (c # cs) i" for i
    by (rule tail_byteI [of _ _ "0x80" "0xBF"]) simp_all
  show ?thesis
    using rune_width_cases [of c cs] assms
    by (elim disjE conjE) (auto simp: not_less intro: first later)
qed

lemma rune_bytes_high:
  assumes "1 < rune_width s"
  shows "\<forall>y \<in> set (take (rune_width s) s). 0x80 \<le> (of_char y :: nat)"
proof -
  obtain c cs where s: "s = c # cs" using assms by (cases s) (auto simp: rune_width_def)
  note tail = rune_width_tail [of c cs, folded s, OF assms]
  have "0x80 \<le> (of_char (s ! i) :: nat)" if "i < rune_width s" for i
  proof -
    have "i = 0 \<or> i = 1 \<or> i = 2 \<or> i = 3" using that tail by linarith
    then show ?thesis using tail that s tail_byte_high [of s i] by auto
  qed
  then show ?thesis by (auto simp: in_set_conv_nth)
qed

lemma encode_body_in_string:
  "split_top sep d True False acc (encode_body s @ text) = split_top sep d True False (acc @ encode_body s) text"
proof (induction s arbitrary: acc rule: encode_body.induct)
  case (2 c cs)
  have esc: "split_top sep d True False acc (unicode_escape n @ t) = split_top sep d True False (acc @ unicode_escape n) t" for n acc t
    using hex_digit_plain [of n] hex_digit_plain [of "n div 16"] hex_digit_plain [of "n div 256"] hex_digit_plain [of "n div 4096"]
    by (simp add: unicode_escape_def split_string split_escape)
  let ?r = "take (rune_width (c # cs)) (c # cs)"
  show ?case
  proof (cases "rune_width (c # cs) = 0")
    case True
    then show ?thesis using 2(1) esc by simp
  next
    case False
    then have "(\<exists>x. ?r = [x]) \<or> (\<forall>y \<in> set ?r. 0x80 \<le> (of_char y :: nat))"
      using rune_bytes_high [of "c # cs"] by (cases "rune_width (c # cs) = 1") auto
    then have "split_top sep d True False acc (encode_rune ?r @ encode_body (drop (rune_width (c # cs)) (c # cs)) @ text)
        = split_top sep d True False (acc @ encode_rune ?r) (encode_body (drop (rune_width (c # cs)) (c # cs)) @ text)"
      by (rule encode_rune_in_string)
    then show ?thesis using 2(2) False by simp
  qed
qed simp

lemma quote_skips:
  assumes "sep \<noteq> CHR 0x22"
  shows "split_top sep d False False acc (json_quote s @ text) = split_top sep d False False (acc @ json_quote s) text"
proof -
  have "split_top sep d False False acc (CHR 0x22 # t) = split_top sep d True False (acc @ [CHR 0x22]) t" for acc t
    using assms by (subst split_top.simps) simp
  then show ?thesis by (simp add: json_quote_def encode_body_in_string split_string)
qed

lemma quote_closed: "closed_text (json_quote s)"
  by (simp add: closed_text_def quote_skips)

lemma closed_append: "closed_text s \<Longrightarrow> closed_text t \<Longrightarrow> closed_text (s @ t)"
  by (simp add: closed_text_def)

lemma closed_plain: "list_all plain s \<Longrightarrow> closed_text s"
proof (induction s)
  case (Cons c cs)
  then show ?case by (simp add: closed_text_def split_plain)
qed (simp add: closed_text_def)

section \<open>Reading an encoded object\<close>

lemma split_join_closed:
  assumes "\<forall>s \<in> set ss. closed_text s"
  shows "split_top (CHR '','') (Suc k) False False acc (Join ss '','' @ text)
         = split_top (CHR '','') (Suc k) False False (acc @ Join ss '','') text"
  using assms
proof (induction ss arbitrary: acc)
  case (Cons s ss)
  then show ?case
    by (cases ss) (simp_all add: closed_textD split_inner_comma)
qed simp

lemma member_closed: "closed_text v \<Longrightarrow> closed_text (json_quote n @ CHR '':'' # v)"
  by (rule closed_append [OF quote_closed]) (simp add: closed_text_def split_plain plain_def)

lemma object_closed:
  assumes "\<forall>(n, v) \<in> set ms. closed_text v"
  shows "closed_text (json_encode_object ms)"
proof -
  have member: "\<forall>s \<in> set (map (\<lambda>(n, v). json_quote n @ '':'' @ v) ms). closed_text s"
    using assms by (auto intro!: member_closed)
  show ?thesis
    unfolding closed_text_def json_encode_object_def
    using split_join_closed [OF member]
    by (simp add: split_open split_close split_beta)
qed

lemma array_closed:
  assumes "\<forall>v \<in> set vs. closed_text v"
  shows "closed_text (''['' @ Join vs '','' @ '']'')"
  unfolding closed_text_def using split_join_closed [OF assms] by (simp add: split_open split_close)

text \<open>At the outermost level a join of closed texts falls apart at its separators.\<close>

lemma split_join:
  assumes "\<forall>s \<in> set ss. closed_text s" "ss \<noteq> []"
  shows "split_top (CHR '','') 0 False False [] (Join ss '','') = ss"
  using assms
proof (induction ss)
  case (Cons s ss)
  have c: "closed_text s" using Cons.prems by simp
  show ?case
  proof (cases ss)
    case Nil
    then show ?thesis using closed_textD [OF c, of 0 "[]" "[]"] by (simp add: split_Nil)
  next
    case (Cons t ts)
    then show ?thesis
      using closed_textD [OF c, of 0 "[]" "CHR '','' # Join ss '',''"] Cons.IH Cons.prems by (simp add: split_comma)
  qed
qed simp

definition rtrim :: "bytes \<Rightarrow> bytes" where
  "rtrim s = rev (dropWhile json_space (rev s))"

lemma json_trim_rtrim: "json_trim s = rtrim (dropWhile json_space s)"
  by (simp add: json_trim_def rtrim_def)

lemma rtrim_Cons: "rtrim (c # s) = (if rtrim s = [] \<and> json_space c then [] else c # rtrim s)"
proof (cases "dropWhile json_space (rev s) = []")
  case True
  then have "\<forall>x \<in> set (rev s). json_space x" by (simp add: dropWhile_eq_Nil_conv)
  then show ?thesis using True by (simp add: rtrim_def dropWhile_append)
next
  case False
  then have "\<exists>x \<in> set (rev s). \<not> json_space x" by (simp add: dropWhile_eq_Nil_conv)
  then show ?thesis using False by (auto simp: rtrim_def dropWhile_append1)
qed

lemma rtrim_ltrim: "dropWhile json_space (rtrim s) = rtrim (dropWhile json_space s)"
proof (induction s)
  case (Cons c s)
  have "rtrim (dropWhile json_space s) = []" if "rtrim s = []" using Cons.IH that by simp
  then show ?case using Cons by (auto simp: rtrim_Cons)
qed (simp add: rtrim_def)

lemma rtrim_idem: "rtrim (rtrim s) = rtrim s"
  by (simp add: rtrim_def)

lemma json_trim_of_rtrim: "json_trim (rtrim s) = json_trim s"
  by (simp add: json_trim_rtrim rtrim_ltrim rtrim_idem)

lemma rtrim_append: "\<not> json_space c \<Longrightarrow> rtrim (s @ c # t) = s @ c # rtrim t"
  by (induction s) (auto simp: rtrim_Cons)

lemma json_trim_tight: "\<not> json_space c \<Longrightarrow> json_trim (c # s) = c # rtrim s"
  by (simp add: json_trim_rtrim rtrim_Cons)

text \<open>One member.\<close>

lemma Join_split: "Join (split_top sep d q e acc s) [sep] = acc @ s"
proof (induction s arbitrary: d q e acc)
  case (Cons c cs)
  have ne: "split_top sep d q e acc s \<noteq> []" for d q e acc s
    by (induction s arbitrary: d q e acc) (simp_all add: split_top.simps)
  have join: "Join (acc # split_top sep 0 False False [] cs) [sep] = acc @ sep # cs"
    using Cons.IH [of 0 False False "[]"] ne [of 0 False False "[]" cs]
    by (cases "split_top sep 0 False False [] cs") auto
  show ?case
    by (subst split_top.simps) (simp add: Cons.IH join)
qed (simp add: split_Nil)

definition name_ok :: "bytes \<Rightarrow> bool" where
  "name_ok n \<longleftrightarrow> unquote_body (encode_body n) = n"

lemma member_read:
  assumes "name_ok n"
  shows "json_member (json_trim (json_quote n @ '':'' @ v)) = (n, json_trim v)"
proof -
  have trim: "json_trim (json_quote n @ CHR '':'' # v) = json_quote n @ CHR '':'' # rtrim v"
  proof -
    have "json_quote n @ '':'' @ v = CHR 0x22 # (encode_body n @ [CHR 0x22]) @ CHR '':'' # v"
      by (simp add: json_quote_def)
    then show ?thesis
      using json_trim_tight [of "CHR 0x22" "(encode_body n @ [CHR 0x22]) @ CHR '':'' # v"]
        rtrim_append [of "CHR '':''" "encode_body n @ [CHR 0x22]" v]
      by (simp add: json_quote_def)
  qed
  have split: "split_top (CHR '':'') 0 False False [] (json_quote n @ CHR '':'' # rtrim v)
      = json_quote n # split_top (CHR '':'') 0 False False [] (rtrim v)"
    using quote_skips [of "CHR '':''" 0 "[]" n "CHR '':'' # rtrim v"] by (simp add: split_top.simps)
  have "json_trim (json_quote n) = json_quote n"
    using json_trim_tight [of "CHR 0x22" "encode_body n @ [CHR 0x22]"] rtrim_append [of "CHR 0x22" "encode_body n" "[]"]
    by (simp add: json_quote_def rtrim_def)
  then have "json_inside (json_quote n) = encode_body n" by (simp add: json_inside_def json_quote_def)
  then show ?thesis
    using assms by (simp add: json_member_def trim split Join_split name_ok_def json_trim_of_rtrim)
qed

text \<open>What is written as an object is read back member by member.\<close>

lemma encoded_parts:
  assumes "ms \<noteq> []" "\<forall>(n, v) \<in> set ms. closed_text v \<and> name_ok n"
  shows "map json_member (json_parts (json_inside (json_encode_object ms))) = map (\<lambda>(n, v). (n, json_trim v)) ms"
    "starts_with (CHR ''{'') (json_encode_object ms)"
proof -
  let ?part = "\<lambda>(n, v). json_quote n @ '':'' @ v"
  have closed: "\<forall>s \<in> set (map ?part ms). closed_text s"
    using assms(2) by (auto intro!: member_closed)
  let ?inner = "Join (map ?part ms) '',''"
  have inner: "json_inside (json_encode_object ms) = ?inner" "starts_with (CHR ''{'') (json_encode_object ms)"
    using json_trim_tight [of "CHR ''{''" "?inner @ ''}''"] rtrim_append [of "CHR ''}''" ?inner "[]"]
    by (simp_all add: json_inside_def starts_with_def json_encode_object_def rtrim_def)
  have "json_trim ?inner \<noteq> []"
  proof -
    obtain n v rest where "ms = (n, v) # rest" using assms(1) by (cases ms) auto
    then have "?inner = CHR 0x22 # tl ?inner"
      by (cases rest) (simp_all add: json_quote_def)
    then show ?thesis using json_trim_tight [of "CHR 0x22" "tl ?inner"] by (metis json_space_simps(7) list.distinct(1))
  qed
  then have "json_parts ?inner = map json_trim (map ?part ms)"
    using split_join [OF closed] assms(1) by (simp add: json_parts_def)
  moreover have "map json_member (map json_trim (map ?part ms)) = map (\<lambda>(n, v). (n, json_trim v)) ms"
    using assms(2) member_read by (auto simp del: append.simps)
  ultimately show "map json_member (json_parts (json_inside (json_encode_object ms))) = map (\<lambda>(n, v). (n, json_trim v)) ms"
    "starts_with (CHR ''{'') (json_encode_object ms)"
    using inner by simp_all
qed

lemma members_of_encoded:
  assumes "json_Valid (json_encode_object ms)" "ms \<noteq> []" "\<forall>(n, v) \<in> set ms. closed_text v \<and> name_ok n"
  shows "json_members (json_encode_object ms) = Some (map (\<lambda>(n, v). (n, json_trim v)) ms)"
  using assms(1) encoded_parts [OF assms(2,3)] by (simp add: json_members_def)

end
