(* ===== verification/InferFlight.thy ===== *)
theory InferFlight
  imports InferGate JsonProps ExecProps
begin

text \<open>
  Concurrent evaluations of infer conditions: \<^verbatim>\<open>resolve\<close> and \<^verbatim>\<open>singleflight\<close> of
  \<^verbatim>\<open>internal/rules/infer_gate.go\<close> as a step relation over the shared store and the table of flights.
  A step is one critical section of the store or of the runtime's mutex, the reply of the service, or
  the receipt of a result.  The leader of a flight runs \<^verbatim>\<open>call\<close> on its own question, in a
  world and with connections that the step chooses, so the service may answer anything.  A waiting
  evaluation may also give up with its context.
\<close>

record infer_request_state =
  iq_cond :: Condition
  iq_input :: bytes
  iq_keyValue :: bytes
  iq_workspace :: bytes
  iq_session :: bytes
  iq_key :: bytes

text \<open>What \<^verbatim>\<open>evaluate\<close> computes before it resolves: the question and the key of its answer.\<close>

definition infer_request_of :: "('w, 'm) infer_env \<Rightarrow> FieldSet \<Rightarrow> Condition \<Rightarrow> infer_request_state" where
  "infer_request_of env f c =
     (let input = StringForCondition (ie_shell env) f (spec_Selector (c_inputSelector c)) (Some c);
          keyValue = StringForCondition (ie_shell env) f (spec_Selector (c_cacheKeySelector c)) (Some c);
          (workspace, session) = resolvedContextIdentity (ie_shell env) f c in
      \<lparr>iq_cond = c, iq_input = input, iq_keyValue = keyValue, iq_workspace = workspace, iq_session = session,
       iq_key = stableInferenceKey env c input keyValue workspace session\<rparr>)"

datatype infer_pc =
    InferLookup
  | InferEnter
  | InferWait nat
  | InferLead
  | InferCall
  | InferStore inferResult
  | InferPublish inferResult
  | InferReturned inferResult

record infer_flights =
  if_store :: Store
  if_inflight :: "bytes \<rightharpoonup> nat"
  if_done :: "nat \<Rightarrow> inferResult option"
  if_pc :: "nat \<Rightarrow> infer_pc"
  if_clean :: "(infer_request_state \<times> bool) set"
  if_foreign :: "(bytes \<times> bytes) set"

text \<open>
  \<open>if_clean\<close> records the decisions of the calls that ended without error, with the request that was
  asked, and \<open>if_foreign\<close> the entries that other users of the store wrote into the namespace of
  the cache.
\<close>

definition infer_init :: "Store \<Rightarrow> infer_flights" where
  "infer_init s = \<lparr>if_store = s, if_inflight = Map.empty, if_done = (\<lambda>_. None), if_pc = (\<lambda>_. InferLookup), if_clean = {},
     if_foreign = {}\<rparr>"

definition at_pc :: "nat \<Rightarrow> infer_pc \<Rightarrow> infer_flights \<Rightarrow> infer_flights" where
  "at_pc i p s = s\<lparr>if_pc := (if_pc s)(i := p)\<rparr>"

definition note_answer :: "infer_request_state \<Rightarrow> inferResult \<Rightarrow> infer_flights \<Rightarrow> infer_flights" where
  "note_answer q r s = (if ir_errored r then s else s\<lparr>if_clean := insert (q, ir_matched r) (if_clean s)\<rparr>)"

inductive infer_step :: "('w, 'm) infer_env \<Rightarrow> infer_request_state list \<Rightarrow> infer_flights \<Rightarrow> infer_flights \<Rightarrow> bool"
  for env qs where
  infer_hit: "i < length qs \<Longrightarrow> if_pc s i = InferLookup \<Longrightarrow>
     infer_cacheLookup env (iq_key (qs ! i)) now (if_store s) = (Some r, t) \<Longrightarrow>
     infer_step env qs s (at_pc i (InferReturned (mark_hit r)) (s\<lparr>if_store := t\<rparr>))"
| infer_miss: "i < length qs \<Longrightarrow> if_pc s i = InferLookup \<Longrightarrow>
     infer_cacheLookup env (iq_key (qs ! i)) now (if_store s) = (None, t) \<Longrightarrow>
     infer_step env qs s (at_pc i InferEnter (s\<lparr>if_store := t\<rparr>))"
| infer_join: "i < length qs \<Longrightarrow> if_pc s i = InferEnter \<Longrightarrow> if_inflight s (iq_key (qs ! i)) = Some j \<Longrightarrow>
     infer_step env qs s (at_pc i (InferWait j) s)"
| infer_lead: "i < length qs \<Longrightarrow> if_pc s i = InferEnter \<Longrightarrow> if_inflight s (iq_key (qs ! i)) = None \<Longrightarrow>
     infer_step env qs s (at_pc i InferLead (s\<lparr>if_inflight := (if_inflight s)(iq_key (qs ! i) \<mapsto> i)\<rparr>))"
| infer_recheck_hit: "i < length qs \<Longrightarrow> if_pc s i = InferLead \<Longrightarrow> 0 < c_CacheTTLMs (iq_cond (qs ! i)) \<Longrightarrow>
     infer_cacheLookup env (iq_key (qs ! i)) now (if_store s) = (Some r, t) \<Longrightarrow>
     infer_step env qs s (at_pc i (InferPublish (mark_hit r)) (s\<lparr>if_store := t\<rparr>))"
| infer_recheck_miss: "i < length qs \<Longrightarrow> if_pc s i = InferLead \<Longrightarrow> 0 < c_CacheTTLMs (iq_cond (qs ! i)) \<Longrightarrow>
     infer_cacheLookup env (iq_key (qs ! i)) now (if_store s) = (None, t) \<Longrightarrow>
     infer_step env qs s (at_pc i InferCall (s\<lparr>if_store := t\<rparr>))"
| infer_no_recheck: "i < length qs \<Longrightarrow> if_pc s i = InferLead \<Longrightarrow> c_CacheTTLMs (iq_cond (qs ! i)) \<le> 0 \<Longrightarrow>
     infer_step env qs s (at_pc i InferCall s)"
| infer_answer: "i < length qs \<Longrightarrow> if_pc s i = InferCall \<Longrightarrow>
     infer_call env (iq_cond (qs ! i)) (iq_input (qs ! i)) (iq_workspace (qs ! i)) (iq_session (qs ! i)) rt w
       = (r, rt', w') \<Longrightarrow>
     infer_step env qs s (at_pc i (InferStore r) (note_answer (qs ! i) r s))"
| infer_save: "i < length qs \<Longrightarrow> if_pc s i = InferStore r \<Longrightarrow>
     t = (if \<not> ir_errored r \<and> 0 < c_CacheTTLMs (iq_cond (qs ! i))
          then infer_cacheStore (iq_key (qs ! i)) (c_CacheTTLMs (iq_cond (qs ! i))) r now (if_store s)
          else if_store s) \<Longrightarrow>
     infer_step env qs s
       (at_pc i (InferPublish (r\<lparr>ir_cacheStatus := (if ir_cacheStatus r = [] then ''miss'' else ir_cacheStatus r)\<rparr>))
          (s\<lparr>if_store := t\<rparr>))"
| infer_publish: "i < length qs \<Longrightarrow> if_pc s i = InferPublish r \<Longrightarrow>
     infer_step env qs s
       (at_pc i (InferReturned r)
          (s\<lparr>if_inflight := (if_inflight s)(iq_key (qs ! i) := None), if_done := (if_done s)(i := Some r)\<rparr>))"
| infer_receive: "i < length qs \<Longrightarrow> if_pc s i = InferWait j \<Longrightarrow> if_done s j = Some r \<Longrightarrow>
     infer_step env qs s (at_pc i (InferReturned (r\<lparr>ir_cacheStatus := ''coalesced''\<rparr>)) s)"

inductive infer_cancel :: "infer_request_state list \<Rightarrow> infer_flights \<Rightarrow> infer_flights \<Rightarrow> bool" for qs where
  infer_gives_up: "i < length qs \<Longrightarrow> if_pc s i = InferWait j \<Longrightarrow> ge_isCanceled err \<or> ge_isDeadline err \<Longrightarrow>
     infer_cancel qs s (at_pc i (InferReturned (inferError (grpcErrorClass err))) s)"

definition infer_entries :: "Store \<Rightarrow> (bytes \<times> bytes) set" where
  "infer_entries s = {(key k, e_value e) | k e. (k, e) \<in> set (entries s) \<and> namespace k = inferenceCacheNamespace}"

text \<open>
  Other users of the store may drop any entry of the inference namespace and may write any entry
  into it: it is not reserved, so \<^verbatim>\<open>KVSet\<close> does not refuse it.
\<close>

inductive infer_foreign :: "infer_flights \<Rightarrow> infer_flights \<Rightarrow> bool" where
  "infer_entries t \<subseteq> infer_entries (if_store s) \<union> F \<Longrightarrow>
   infer_foreign s (s\<lparr>if_store := t, if_foreign := if_foreign s \<union> F\<rparr>)"

inductive infer_runs :: "('w, 'm) infer_env \<Rightarrow> infer_request_state list \<Rightarrow> nat \<Rightarrow> infer_flights \<Rightarrow> infer_flights \<Rightarrow> bool"
  for env qs where
  infer_refl: "infer_runs env qs 0 s s"
| infer_next: "infer_runs env qs n s t \<Longrightarrow> infer_step env qs t u \<Longrightarrow> infer_runs env qs (Suc n) s u"
| infer_ends: "infer_runs env qs n s t \<Longrightarrow> infer_cancel qs t u \<Longrightarrow> infer_runs env qs (Suc n) s u"
| infer_other: "infer_runs env qs n s t \<Longrightarrow> infer_foreign t u \<Longrightarrow> infer_runs env qs n s u"

section \<open>Flights\<close>

definition leads :: "infer_pc \<Rightarrow> bool" where
  "leads p \<longleftrightarrow> p = InferLead \<or> p = InferCall \<or> (\<exists>r. p = InferStore r) \<or> (\<exists>r. p = InferPublish r)"

lemma leads_simps [simp]:
  "\<not> leads InferLookup" "\<not> leads InferEnter" "\<not> leads (InferWait j)" "leads InferLead" "leads InferCall"
  "leads (InferStore r)" "leads (InferPublish r)" "\<not> leads (InferReturned r)"
  by (simp_all add: leads_def)

definition infer_ok :: "infer_request_state list \<Rightarrow> infer_flights \<Rightarrow> bool" where
  "infer_ok qs s \<longleftrightarrow>
     (\<forall>k j. if_inflight s k = Some j \<longleftrightarrow> j < length qs \<and> leads (if_pc s j) \<and> iq_key (qs ! j) = k)
     \<and> (\<forall>i < length qs. \<forall>j. if_pc s i = InferWait j \<longrightarrow>
          j < length qs \<and> iq_key (qs ! j) = iq_key (qs ! i) \<and> (leads (if_pc s j) \<or> if_done s j \<noteq> None))"

lemma infer_ok_init: "infer_ok qs (infer_init s)"
  by (simp add: infer_ok_def infer_init_def)

lemma at_pc_simps [simp]:
  "if_store (at_pc i p s) = if_store s" "if_inflight (at_pc i p s) = if_inflight s" "if_done (at_pc i p s) = if_done s"
  "if_pc (at_pc i p s) j = (if j = i then p else if_pc s j)" "if_clean (at_pc i p s) = if_clean s"
  "if_store (note_answer q r s) = if_store s" "if_inflight (note_answer q r s) = if_inflight s"
  "if_done (note_answer q r s) = if_done s" "if_pc (note_answer q r s) = if_pc s"
  "if_foreign (at_pc i p s) = if_foreign s" "if_foreign (note_answer q r s) = if_foreign s"
  by (simp_all add: at_pc_def note_answer_def)

lemma infer_registered:
  "infer_ok qs s \<Longrightarrow> if_inflight s k = Some j \<longleftrightarrow> j < length qs \<and> leads (if_pc s j) \<and> iq_key (qs ! j) = k"
  unfolding infer_ok_def by blast

lemma infer_waits:
  "infer_ok qs s \<Longrightarrow> i < length qs \<Longrightarrow> if_pc s i = InferWait j \<Longrightarrow>
   j < length qs \<and> iq_key (qs ! j) = iq_key (qs ! i) \<and> (leads (if_pc s j) \<or> if_done s j \<noteq> None)"
  unfolding infer_ok_def by blast

text \<open>A move that keeps the role of the participant.\<close>

lemma infer_ok_move:
  assumes "infer_ok qs s" "leads p = leads (if_pc s i)" "if_inflight t = if_inflight s" "if_done t = if_done s"
    "if_pc t = (if_pc s)(i := p)"
    "\<And>j. p = InferWait j \<Longrightarrow> j < length qs \<and> iq_key (qs ! j) = iq_key (qs ! i) \<and> leads (if_pc s j)"
  shows "infer_ok qs t"
  using assms unfolding infer_ok_def by (auto simp: fun_upd_apply)

lemma infer_ok_at:
  assumes "infer_ok qs s" "if_inflight t = if_inflight s" "if_done t = if_done s" "if_pc t = if_pc s"
    "leads p = leads (if_pc s i)" "\<nexists>j. p = InferWait j"
  shows "infer_ok qs (at_pc i p t)"
  by (rule infer_ok_move [OF assms(1,5)]) (use assms(2-4,6) in \<open>auto simp: at_pc_def\<close>)

lemma infer_ok_lead:
  assumes ok: "infer_ok qs s" and i: "i < length qs" "if_pc s i = InferEnter" "if_inflight s (iq_key (qs ! i)) = None"
  shows "infer_ok qs (at_pc i InferLead (s\<lparr>if_inflight := (if_inflight s)(iq_key (qs ! i) \<mapsto> i)\<rparr>))" (is "infer_ok qs ?t")
proof -
  have other: "j < length qs \<Longrightarrow> leads (if_pc s j) \<Longrightarrow> iq_key (qs ! j) \<noteq> iq_key (qs ! i)" for j
    using infer_registered [OF ok, of "iq_key (qs ! j)" j] i(3) by auto
  have "if_inflight ?t k = Some j \<longleftrightarrow> j < length qs \<and> leads (if_pc ?t j) \<and> iq_key (qs ! j) = k" for k j
    using infer_registered [OF ok, of k j] i(1,2) other [of j] by auto
  moreover have "j < length qs \<and> iq_key (qs ! j) = iq_key (qs ! k) \<and> (leads (if_pc ?t j) \<or> if_done ?t j \<noteq> None)"
    if "k < length qs" "if_pc ?t k = InferWait j" for k j
    using infer_waits [OF ok that(1), of j] that(2) i(2) by (auto split: if_splits)
  ultimately show ?thesis unfolding infer_ok_def by blast
qed

lemma infer_ok_publish:
  assumes ok: "infer_ok qs s" and i: "i < length qs" "if_pc s i = InferPublish r"
  shows "infer_ok qs (at_pc i (InferReturned r)
           (s\<lparr>if_inflight := (if_inflight s)(iq_key (qs ! i) := None), if_done := (if_done s)(i := Some r)\<rparr>))"
    (is "infer_ok qs ?t")
proof -
  have here: "if_inflight s (iq_key (qs ! i)) = Some i" using infer_registered [OF ok] i by simp
  then have other: "j < length qs \<Longrightarrow> leads (if_pc s j) \<Longrightarrow> j \<noteq> i \<Longrightarrow> iq_key (qs ! j) \<noteq> iq_key (qs ! i)" for j
    using infer_registered [OF ok, of "iq_key (qs ! j)" j] by auto
  have "if_inflight ?t k = Some j \<longleftrightarrow> j < length qs \<and> leads (if_pc ?t j) \<and> iq_key (qs ! j) = k" for k j
    using infer_registered [OF ok, of k j] other [of j] here by auto
  moreover have "j < length qs \<and> iq_key (qs ! j) = iq_key (qs ! k) \<and> (leads (if_pc ?t j) \<or> if_done ?t j \<noteq> None)"
    if "k < length qs" "if_pc ?t k = InferWait j" for k j
    using infer_waits [OF ok that(1), of j] that(2) by (auto split: if_splits)
  ultimately show ?thesis unfolding infer_ok_def by blast
qed

lemma infer_step_ok:
  assumes "infer_step env qs s t" and ok: "infer_ok qs s"
  shows "infer_ok qs t"
  using assms(1)
proof cases
  case (infer_join i j)
  then show ?thesis
    using infer_registered [OF ok, of "iq_key (qs ! i)" j]
    by (intro infer_ok_move [OF ok, of "InferWait j" i]) (auto simp: at_pc_def)
next
  case (infer_lead i)
  then show ?thesis using infer_ok_lead [OF ok] by simp
next
  case (infer_publish i r)
  then show ?thesis using infer_ok_publish [OF ok] by simp
qed (auto intro!: infer_ok_at [OF ok])

lemma infer_cancel_ok: "infer_cancel qs s t \<Longrightarrow> infer_ok qs s \<Longrightarrow> infer_ok qs t"
  by (erule infer_cancel.cases, rule infer_ok_move) (auto simp: at_pc_def)

lemma infer_foreign_ok: "infer_foreign s t \<Longrightarrow> infer_ok qs t = infer_ok qs s"
  by (erule infer_foreign.cases) (simp add: infer_ok_def)

lemma infer_runs_ok: "infer_runs env qs n s t \<Longrightarrow> infer_ok qs s \<Longrightarrow> infer_ok qs t"
  by (induction rule: infer_runs.induct) (auto intro: infer_step_ok infer_cancel_ok simp: infer_foreign_ok)

section \<open>Completion\<close>

fun infer_rank :: "infer_pc \<Rightarrow> nat" where
  "infer_rank InferLookup = 6"
| "infer_rank InferEnter = 5"
| "infer_rank InferLead = 4"
| "infer_rank InferCall = 3"
| "infer_rank (InferStore r) = 2"
| "infer_rank (InferPublish r) = 1"
| "infer_rank (InferWait j) = 1"
| "infer_rank (InferReturned r) = 0"

definition infer_work :: "infer_request_state list \<Rightarrow> infer_flights \<Rightarrow> nat" where
  "infer_work qs s = (\<Sum>i < length qs. infer_rank (if_pc s i))"

lemma infer_work_move:
  assumes "i < length qs" "infer_rank p < infer_rank (if_pc s i)" "if_pc t = (if_pc s)(i := p)"
  shows "infer_work qs t < infer_work qs s"
  unfolding infer_work_def using assms by (intro sum_strict_mono_ex1) (auto simp: fun_upd_apply)

lemma infer_work_at:
  assumes "i < length qs" "infer_rank p < infer_rank (if_pc s i)" "if_pc t = if_pc s"
  shows "infer_work qs (at_pc i p t) < infer_work qs s"
  using infer_work_move [OF assms(1,2), of "at_pc i p t"] assms(3) by (simp add: at_pc_def)

lemma infer_step_work: "infer_step env qs s t \<Longrightarrow> infer_work qs t < infer_work qs s"
  by (erule infer_step.cases) (auto intro!: infer_work_at)

lemma infer_cancel_work: "infer_cancel qs s t \<Longrightarrow> infer_work qs t < infer_work qs s"
  by (erule infer_cancel.cases) (auto intro!: infer_work_at)

lemma infer_runs_work: "infer_runs env qs n s t \<Longrightarrow> n + infer_work qs t \<le> infer_work qs s"
proof (induction rule: infer_runs.induct)
  case (infer_next n s t u)
  then show ?case using infer_step_work [OF infer_next.hyps(2)] by simp
next
  case (infer_ends n s t u)
  then show ?case using infer_cancel_work [OF infer_ends.hyps(2)] by simp
next
  case (infer_other n s t u)
  then have "infer_work qs u = infer_work qs t" by (auto elim!: infer_foreign.cases simp: infer_work_def)
  then show ?case using infer_other by simp
qed simp

lemma infer_work_init: "infer_work qs (infer_init s) = 6 * length qs"
  by (simp add: infer_work_def infer_init_def)

text \<open>Whoever has not returned can move, or waits for somebody who can.\<close>

lemma infer_moves:
  assumes ok: "infer_ok qs s" and i: "i < length qs" and "\<nexists>r. if_pc s i = InferReturned r" "\<nexists>j. if_pc s i = InferWait j"
  shows "\<exists>t. infer_step env qs s t"
proof (cases "if_pc s i")
  case InferLookup
  obtain r t where "infer_cacheLookup env (iq_key (qs ! i)) 0 (if_store s) = (r, t)" by fastforce
  then show ?thesis using infer_hit [OF i InferLookup] infer_miss [OF i InferLookup] by (cases r) blast+
next
  case InferEnter
  then show ?thesis using infer_join [OF i InferEnter] infer_lead [OF i InferEnter]
    by (cases "if_inflight s (iq_key (qs ! i))") blast+
next
  case InferLead
  obtain r t where l: "infer_cacheLookup env (iq_key (qs ! i)) 0 (if_store s) = (r, t)" by fastforce
  then show ?thesis
    using infer_recheck_hit [OF i InferLead] infer_recheck_miss [OF i InferLead] infer_no_recheck [OF i InferLead]
    by (cases r; cases "0 < c_CacheTTLMs (iq_cond (qs ! i))") (blast | force)+
next
  case InferCall
  then show ?thesis using infer_answer [OF i] by (metis prod_cases3)
next
  case (InferStore r)
  then show ?thesis using infer_save [OF i InferStore] by blast
next
  case (InferPublish r)
  then show ?thesis using infer_publish [OF i] by blast
qed (use assms(3,4) in blast)+

lemma infer_stuck:
  assumes ok: "infer_ok qs s" and stuck: "\<nexists>t. infer_step env qs s t" and i: "i < length qs"
  shows "\<exists>r. if_pc s i = InferReturned r"
proof (rule ccontr)
  assume no: "\<nexists>r. if_pc s i = InferReturned r"
  then obtain j where j: "if_pc s i = InferWait j" using infer_moves [OF ok i no, of env] stuck by blast
  then have w: "j < length qs" "leads (if_pc s j) \<or> if_done s j \<noteq> None" using infer_waits [OF ok i] by blast+
  then show False
    using infer_moves [OF ok w(1), of env] stuck infer_receive [OF i j, of _ env] by (auto simp: leads_def)
qed

text \<open>C35. Evaluations of infer conditions never wait for each other forever: whatever the service
  answers, the store keeps and contexts do, an interleaving takes at most six steps per evaluation;
  at most one evaluation at a time asks the service for a key; and when no step is left, every
  evaluation has returned and no flight is registered.\<close>

theorem infer_flights_complete:
  assumes "infer_runs env qs n (infer_init st) s"
  shows "n \<le> 6 * length qs
    \<and> (\<forall>i j. i < length qs \<and> j < length qs \<and> if_pc s i = InferCall \<and> if_pc s j = InferCall
          \<and> iq_key (qs ! i) = iq_key (qs ! j) \<longrightarrow> i = j)
    \<and> ((\<nexists>t. infer_step env qs s t) \<longrightarrow>
         (\<forall>i < length qs. \<exists>r. if_pc s i = InferReturned r) \<and> if_inflight s = Map.empty)"
proof -
  have ok: "infer_ok qs s" using infer_runs_ok [OF assms infer_ok_init] .
  have "n \<le> 6 * length qs" using infer_runs_work [OF assms] by (simp add: infer_work_init)
  moreover have "i = j" if "i < length qs" "j < length qs" "if_pc s i = InferCall" "if_pc s j = InferCall"
    "iq_key (qs ! i) = iq_key (qs ! j)" for i j
    using infer_registered [OF ok, of "iq_key (qs ! i)"] that by (metis leads_simps(5) option.inject)
  moreover have "if_inflight s k = None" if "\<nexists>t. infer_step env qs s t" for k
    using infer_registered [OF ok, of k] infer_stuck [OF ok that] by (metis leads_simps(8) not_None_eq)
  ultimately show ?thesis using infer_stuck [OF ok] by blast
qed

section \<open>What the cache gives back\<close>

lemma encode_raw_closed: "encode_raw raw = Some b \<Longrightarrow> closed_text b"
  by (auto simp: encode_raw_def compact_closed closed_plain plain_def split: if_splits)

lemma encode_metadata_closed: "encode_metadata md = Some b \<Longrightarrow> closed_text b"
  by (auto simp: encode_metadata_def quote_closed encode_raw_closed intro!: object_closed split: if_splits)

lemma field_names_ok:
  "name_ok ''schema_version''" "name_ok ''matched''" "name_ok ''output_json''" "name_ok ''upstream_metadata''"
  by (simp_all only: name_ok_def; code_simp)+

lemma json_fold_names:
  "json_fold ''schema_version'' \<noteq> json_fold ''matched''" "json_fold ''output_json'' \<noteq> json_fold ''matched''"
  "json_fold ''upstream_metadata'' \<noteq> json_fold ''matched''"
  by code_simp+

lemma matched_values:
  "json_values ''matched'' [(''schema_version'', a), (''matched'', b), (''output_json'', c), (''upstream_metadata'', d)] = [b]"
  using json_fold_names by (simp add: json_values_def)

lemma bool_closed: "closed_text (FormatBool b)"
  by (rule closed_plain) (simp add: FormatBool_def plain_def)

lemma bool_read: "json_decode json_bool False [json_trim (FormatBool b)] = Some b"
proof -
  have "json_decode json_bool False [json_trim ''true''] = Some True"
    "json_decode json_bool False [json_trim ''false''] = Some False" by code_simp+
  then show ?thesis by (cases b) (simp_all add: FormatBool_def)
qed

text \<open>The decision of a stored result survives the round trip through its JSON form.\<close>

lemma cached_decision:
  assumes "encodeCachedInferResult r = Some b" "ci_SchemaVersion r = 2" "unmarshalCachedInferResult b = Some c"
  shows "ci_Matched c = ci_Matched r"
proof -
  obtain out md where om: "encode_raw (ci_OutputJSON r) = Some out" "encode_metadata (ci_UpstreamMetadata r) = Some md"
    and b: "b = json_encode_object [(''schema_version'', Itoa 2), (''matched'', FormatBool (ci_Matched r)),
              (''output_json'', out), (''upstream_metadata'', md)]"
    using assms(1,2) by (auto simp: encodeCachedInferResult_def split: option.splits)
  have "Itoa 2 = ''2''" by code_simp
  then have version: "closed_text (Itoa 2)" by (simp add: closed_plain plain_def)
  have "\<not> json_null b"
    using json_trim_tight [of "CHR ''{''" "tl b"] b by (simp add: json_null_def json_encode_object_def)
  then obtain ms where ms: "json_members b = Some ms" using assms(3)
    by (auto simp: unmarshalCachedInferResult_def split: option.splits if_splits)
  then have "json_Valid b" by (simp add: json_members_def split: if_splits)
  then have "ms = map (\<lambda>(n, v). (n, json_trim v)) [(''schema_version'', Itoa 2), (''matched'', FormatBool (ci_Matched r)),
      (''output_json'', out), (''upstream_metadata'', md)]"
    using members_of_encoded ms b version bool_closed encode_raw_closed [OF om(1)] encode_metadata_closed [OF om(2)]
      field_names_ok by simp
  then have "json_values ''matched'' ms = [json_trim (FormatBool (ci_Matched r))]"
    using matched_values by simp
  then show ?thesis
    using assms(3) ms \<open>\<not> json_null b\<close> bool_read
    by (auto simp: unmarshalCachedInferResult_def split: option.splits simp del: json_decode.simps)
qed

section \<open>Where answers come from\<close>

lemma infer_entries_shrinks: "shrinks s t \<Longrightarrow> infer_entries t \<subseteq> infer_entries s"
  using shrinks_subset by (fastforce simp: infer_entries_def)

lemma infer_cacheLookup_entries:
  assumes "infer_cacheLookup env k now s = (r, t)"
  shows "infer_entries t \<subseteq> infer_entries s"
proof -
  obtain g u where g: "Store_Get inferenceCacheNamespace k now s = (g, u)" by fastforce
  have "shrinks s u" using reading_shrinks(1) [of s inferenceCacheNamespace k now] g by simp
  moreover have "shrinks u (snd (Store_Delete inferenceCacheNamespace k now u))" by (rule reading_shrinks)
  ultimately have "shrinks s t"
    using assms g shrinks_trans by (fastforce simp: infer_cacheLookup_def split: sum.splits option.splits)
  then show ?thesis by (rule infer_entries_shrinks)
qed

lemma infer_cacheStore_entries:
  "infer_entries (infer_cacheStore k ttl r now s) \<subseteq>
   infer_entries s \<union> {(k, b) | b. encodeCachedInferResult (cached_of_result r) = Some b}"
  using Store_Set_entries by (fastforce simp: infer_entries_def infer_cacheStore_def split: option.splits)

lemma infer_cacheLookup_hit:
  assumes "infer_cacheLookup env k now s = (Some r, t)"
  obtains b c md where "(k, b) \<in> infer_entries s" "decodeCachedInferResult env b = Some (c, md)"
    "unmarshalCachedInferResult b = Some c" "ir_matched r = ci_Matched c" "\<not> ir_errored r"
proof -
  obtain entry u c md where g: "Store_Get inferenceCacheNamespace k now s = (Inr (Some entry), u)"
    "decodeCachedInferResult env (en_Value entry) = Some (c, md)" "r = result_of_cached env entry c md"
    using assms by (auto simp: infer_cacheLookup_def split: sum.splits option.splits prod.splits)
  then obtain e where "map_of (entries s) (EntryKey inferenceCacheNamespace k) = Some e" "en_Value entry = e_value e"
    by (auto simp: Store_Get_def entryLocked_def exportEntry_def dest!: validateKey_Inr
        split: sum.splits option.splits prod.splits if_splits)
  then have "(EntryKey inferenceCacheNamespace k, e) \<in> set (entries s)" "en_Value entry = e_value e"
    using map_of_SomeD by fast+
  then have "(k, en_Value entry) \<in> infer_entries s"
    unfolding infer_entries_def by (intro CollectI exI [of _ "EntryKey inferenceCacheNamespace k"] exI [of _ e]) simp
  moreover have "unmarshalCachedInferResult (en_Value entry) = Some c"
    using g(2) by (auto simp: decodeCachedInferResult_def split: option.splits)
  moreover have "ir_matched r = ci_Matched c" "\<not> ir_errored r"
    using g(3) by (simp_all add: result_of_cached_def emptyInferResult_def)
  ultimately show thesis using that g(2) by blast
qed

text \<open>
  A result is accounted for when it is an error, when the service was asked under the same key and
  decided so, or when it was read from an entry that another user of the store wrote under the key.
\<close>

definition asked :: "(infer_request_state \<times> bool) set \<Rightarrow> bytes \<Rightarrow> bool \<Rightarrow> bool" where
  "asked C k m \<longleftrightarrow> (\<exists>q. (q, m) \<in> C \<and> iq_key q = k)"

definition given :: "('w, 'm) infer_env \<Rightarrow> (bytes \<times> bytes) set \<Rightarrow> bytes \<Rightarrow> bool \<Rightarrow> bool" where
  "given env F k m \<longleftrightarrow> (\<exists>b c md. (k, b) \<in> F \<and> decodeCachedInferResult env b = Some (c, md) \<and> ci_Matched c = m)"

definition answered ::
  "('w, 'm) infer_env \<Rightarrow> (infer_request_state \<times> bool) set \<Rightarrow> (bytes \<times> bytes) set \<Rightarrow> bytes \<Rightarrow> inferResult \<Rightarrow> bool" where
  "answered env C F k r \<longleftrightarrow> ir_errored r \<or> asked C k (ir_matched r) \<or> given env F k (ir_matched r)"

definition pc_answered ::
  "('w, 'm) infer_env \<Rightarrow> (infer_request_state \<times> bool) set \<Rightarrow> (bytes \<times> bytes) set \<Rightarrow> infer_request_state \<Rightarrow> infer_pc \<Rightarrow> bool" where
  "pc_answered env C F q p =
     (case p of InferStore r \<Rightarrow> ir_errored r \<or> (q, ir_matched r) \<in> C
      | InferPublish r \<Rightarrow> answered env C F (iq_key q) r | InferReturned r \<Rightarrow> answered env C F (iq_key q) r | _ \<Rightarrow> True)"

definition cache_answered :: "Store \<Rightarrow> (infer_request_state \<times> bool) set \<Rightarrow> (bytes \<times> bytes) set \<Rightarrow> bool" where
  "cache_answered st C F \<longleftrightarrow>
     (\<forall>(k, b) \<in> infer_entries st. (k, b) \<in> F
        \<or> (\<exists>r. asked C k (ci_Matched r) \<and> ci_SchemaVersion r = 2 \<and> encodeCachedInferResult r = Some b))"

definition infer_sound :: "('w, 'm) infer_env \<Rightarrow> infer_request_state list \<Rightarrow> infer_flights \<Rightarrow> bool" where
  "infer_sound env qs s \<longleftrightarrow>
     cache_answered (if_store s) (if_clean s) (if_foreign s)
     \<and> (\<forall>i < length qs. pc_answered env (if_clean s) (if_foreign s) (qs ! i) (if_pc s i))
     \<and> (\<forall>i < length qs. \<forall>r. if_done s i = Some r \<longrightarrow> answered env (if_clean s) (if_foreign s) (iq_key (qs ! i)) r)"

lemma asked_mono: "C \<subseteq> D \<Longrightarrow> asked C k m \<Longrightarrow> asked D k m"
  by (auto simp: asked_def)

lemma given_mono: "F \<subseteq> G \<Longrightarrow> given env F k m \<Longrightarrow> given env G k m"
  by (auto simp: given_def)

lemma answered_mono: "C \<subseteq> D \<Longrightarrow> F \<subseteq> G \<Longrightarrow> answered env C F k r \<Longrightarrow> answered env D G k r"
  unfolding answered_def using asked_mono [of C D k "ir_matched r"] given_mono [of F G env k "ir_matched r"] by blast

lemma pc_answered_mono:
  assumes "C \<subseteq> D" "F \<subseteq> G" "pc_answered env C F q p"
  shows "pc_answered env D G q p"
  using assms(3) answered_mono [OF assms(1,2)] assms(1) by (cases p) (auto simp: pc_answered_def)

lemma cache_answered_mono:
  assumes "cache_answered st C F" "infer_entries st' \<subseteq> infer_entries st \<union> G" "C \<subseteq> D" "F \<subseteq> G"
  shows "cache_answered st' D G"
  unfolding cache_answered_def
proof clarify
  fix k b
  assume b: "(k, b) \<in> infer_entries st'" "\<nexists>r. asked D k (ci_Matched r) \<and> ci_SchemaVersion r = 2 \<and> encodeCachedInferResult r = Some b"
  then have "(k, b) \<notin> infer_entries st \<or> (k, b) \<in> F"
    using assms(1) asked_mono [OF assms(3)] unfolding cache_answered_def by blast
  then show "(k, b) \<in> G" using b(1) assms(2,4) by blast
qed

lemma hit_answered:
  assumes "infer_cacheLookup env k now st = (Some r, t)" "cache_answered st C F"
  shows "answered env C F k (mark_hit r)"
proof -
  obtain b c md where b: "(k, b) \<in> infer_entries st" "decodeCachedInferResult env b = Some (c, md)"
    "unmarshalCachedInferResult b = Some c" "ir_matched r = ci_Matched c"
    using infer_cacheLookup_hit [OF assms(1)] by blast
  then consider "(k, b) \<in> F"
    | u where "asked C k (ci_Matched u)" "ci_SchemaVersion u = 2" "encodeCachedInferResult u = Some b"
    using assms(2) unfolding cache_answered_def by blast
  then show ?thesis
  proof cases
    case 1
    then have "given env F k (ir_matched r)" using b(2,4) by (auto simp: given_def)
    then show ?thesis by (simp add: answered_def mark_hit_def)
  next
    case 2
    then show ?thesis using cached_decision b(3,4) by (simp add: answered_def mark_hit_def)
  qed
qed

lemma infer_sound_at:
  assumes "infer_sound env qs s" "if_clean s \<subseteq> if_clean t" "if_foreign t = if_foreign s"
    "infer_entries (if_store t) \<subseteq> infer_entries (if_store s)" "if_pc t = if_pc s" "if_done t = if_done s"
    "i < length qs" "pc_answered env (if_clean t) (if_foreign t) (qs ! i) p"
  shows "infer_sound env qs (at_pc i p t)"
  unfolding infer_sound_def
proof (intro conjI allI impI)
  note sub = assms(2) order_refl [of "if_foreign s"]
  show "cache_answered (if_store (at_pc i p t)) (if_clean (at_pc i p t)) (if_foreign (at_pc i p t))"
    using assms(1,3,4) cache_answered_mono [OF _ _ sub, of "if_store s" "if_store t"] by (auto simp: infer_sound_def)
  show "pc_answered env (if_clean (at_pc i p t)) (if_foreign (at_pc i p t)) (qs ! k) (if_pc (at_pc i p t) k)"
    if "k < length qs" for k
  proof (cases "k = i")
    case False
    have "pc_answered env (if_clean s) (if_foreign s) (qs ! k) (if_pc s k)"
      using assms(1) that by (simp add: infer_sound_def)
    then show ?thesis using pc_answered_mono [OF sub] assms(3,5) False by simp
  qed (use assms(8) in simp)
  show "answered env (if_clean (at_pc i p t)) (if_foreign (at_pc i p t)) (iq_key (qs ! k)) r"
    if "k < length qs" "if_done (at_pc i p t) k = Some r" for k r
  proof -
    have "answered env (if_clean s) (if_foreign s) (iq_key (qs ! k)) r"
      using assms(1,6) that by (simp add: infer_sound_def)
    then show ?thesis using answered_mono [OF sub] assms(3) by simp
  qed
qed

lemma infer_step_sound:
  assumes "infer_step env qs s t" and sound: "infer_sound env qs s" and ok: "infer_ok qs s"
  shows "infer_sound env qs t"
  using assms(1)
proof cases
  case (infer_hit i now r u)
  then show ?thesis
    using hit_answered [OF infer_hit(4)] sound infer_cacheLookup_entries [OF infer_hit(4)]
    by (auto simp: infer_sound_def [of env qs s] pc_answered_def intro!: infer_sound_at [OF sound])
next
  case (infer_recheck_hit i now r u)
  then show ?thesis
    using hit_answered [OF infer_recheck_hit(5)] sound infer_cacheLookup_entries [OF infer_recheck_hit(5)]
    by (auto simp: infer_sound_def [of env qs s] pc_answered_def intro!: infer_sound_at [OF sound])
next
  case (infer_miss i now u)
  then show ?thesis using infer_cacheLookup_entries [OF infer_miss(4)]
    by (auto simp: pc_answered_def intro!: infer_sound_at [OF sound])
next
  case (infer_recheck_miss i now u)
  then show ?thesis using infer_cacheLookup_entries [OF infer_recheck_miss(5)]
    by (auto simp: pc_answered_def intro!: infer_sound_at [OF sound])
next
  case (infer_answer i rt w r rt' w')
  then show ?thesis
    by (auto simp: pc_answered_def note_answer_def intro!: infer_sound_at [OF sound])
next
  case (infer_save i r u now)
  let ?C = "if_clean s" and ?F = "if_foreign s"
  have own: "ir_errored r \<or> (qs ! i, ir_matched r) \<in> ?C"
    using sound infer_save(2,3) by (force simp: infer_sound_def pc_answered_def)
  then have ans: "answered env ?C ?F (iq_key (qs ! i)) (r\<lparr>ir_cacheStatus := x\<rparr>)" for x
    by (auto simp: answered_def asked_def)
  have "cache_answered u ?C ?F"
  proof (cases "\<not> ir_errored r \<and> 0 < c_CacheTTLMs (iq_cond (qs ! i))")
    case True
    then have u: "u = infer_cacheStore (iq_key (qs ! i)) (c_CacheTTLMs (iq_cond (qs ! i))) r now (if_store s)"
      using infer_save(4) by simp
    have "asked ?C (iq_key (qs ! i)) (ci_Matched (cached_of_result r))" "ci_SchemaVersion (cached_of_result r) = 2"
      using own True by (auto simp: asked_def cached_of_result_def)
    then show ?thesis
      using sound infer_cacheStore_entries [of "iq_key (qs ! i)" "c_CacheTTLMs (iq_cond (qs ! i))" r now "if_store s"]
      unfolding u infer_sound_def cache_answered_def by blast
  qed (use infer_save(4) sound in \<open>auto simp: infer_sound_def\<close>)
  moreover have "answered env ?C ?F (iq_key (qs ! i)) r" using own by (auto simp: answered_def asked_def)
  ultimately show ?thesis
    using sound ans infer_save(1,2) unfolding infer_sound_def infer_save(1) by (auto simp: pc_answered_def)
next
  case (infer_publish i r)
  then have "answered env (if_clean s) (if_foreign s) (iq_key (qs ! i)) r"
    using sound by (force simp: infer_sound_def pc_answered_def)
  then show ?thesis
    using sound infer_publish(2) unfolding infer_sound_def infer_publish(1) by (auto simp: pc_answered_def)
next
  case (infer_receive i j r)
  then have "j < length qs" "iq_key (qs ! j) = iq_key (qs ! i)" using infer_waits [OF ok] by blast+
  then have "answered env (if_clean s) (if_foreign s) (iq_key (qs ! i)) r"
    using sound infer_receive(4) by (metis infer_sound_def)
  then show ?thesis using infer_receive
    by (auto simp: pc_answered_def answered_def intro!: infer_sound_at [OF sound])
qed (auto simp: pc_answered_def intro!: infer_sound_at [OF sound])

lemma infer_foreign_sound: "infer_foreign s t \<Longrightarrow> infer_sound env qs s \<Longrightarrow> infer_sound env qs t"
proof (erule infer_foreign.cases)
  fix u s' F
  assume t: "s = s'" "t = s'\<lparr>if_store := u, if_foreign := if_foreign s' \<union> F\<rparr>"
    "infer_entries u \<subseteq> infer_entries (if_store s') \<union> F" and sound: "infer_sound env qs s"
  have "cache_answered u (if_clean s) (if_foreign s \<union> F)"
    by (rule cache_answered_mono) (use t sound in \<open>auto simp: infer_sound_def\<close>)
  moreover have "pc_answered env (if_clean s) (if_foreign s) q p \<Longrightarrow> pc_answered env (if_clean s) (if_foreign s \<union> F) q p"
    and "answered env (if_clean s) (if_foreign s) k r \<Longrightarrow> answered env (if_clean s) (if_foreign s \<union> F) k r" for q p k r
    by (auto intro: pc_answered_mono [rotated 2] answered_mono [rotated 2])
  ultimately show "infer_sound env qs t" using t(1,2) sound by (auto simp: infer_sound_def)
qed

lemma infer_runs_sound:
  "infer_runs env qs n s t \<Longrightarrow> infer_sound env qs s \<Longrightarrow> infer_ok qs s \<Longrightarrow> infer_sound env qs t"
proof (induction rule: infer_runs.induct)
  case (infer_next n s t u)
  then show ?case using infer_step_sound [OF infer_next.hyps(2)] infer_runs_ok by blast
next
  case (infer_ends n s t u)
  then have "infer_sound env qs t" by blast
  then show ?case
    using infer_ends.hyps(2)
    by (auto elim!: infer_cancel.cases simp: pc_answered_def answered_def inferError_def intro!: infer_sound_at)
next
  case (infer_other n s t u)
  then show ?case using infer_foreign_sound by blast
qed simp

section \<open>What was asked\<close>

text \<open>The service, asked the question of a request, gave a complete reply that decides so.\<close>

definition service_decided :: "('w, 'm) infer_env \<Rightarrow> infer_request_state \<Rightarrow> bool \<Rightarrow> bool" where
  "service_decided env q m \<longleftrightarrow>
     (\<exists>client ctx w reply w'.
        ie_Infer env client
          \<lparr>rq_Prompt = c_Prompt (iq_cond q), rq_Input = iq_input q, rq_OutputSchema = c_OutputSchema (iq_cond q),
           rq_Context = ctx, rq_Model = c_Model (iq_cond q), rq_GenerationOptions = generationOptions (iq_cond q)\<rparr>
          (duration_of_ms (c_TimeoutMs (iq_cond q))) w = (Inr (Some reply), w')
        \<and> rp_complete reply \<and> inferenceJSONMatches env (iq_cond q) (rp_OutputJson reply) = Inr m)"

lemma applied_metadata [simp]:
  "ir_errored (applyInvocationMetadata env r md) = ir_errored r"
  "ir_matched (applyInvocationMetadata env r md) = ir_matched r"
  by (simp_all add: applyInvocationMetadata_def Let_def split: option.splits prod.splits)

lemma judge_reply_clean:
  assumes "judge_reply env c reply = r" "\<not> ir_errored r"
  obtains rep where "reply = Inr (Some rep)" "rp_complete rep"
    "inferenceJSONMatches env c (rp_OutputJson rep) = Inr (ir_matched r)"
  using assms
  by (auto simp: judge_reply_def inferError_def inferErrorWithMetadata_def inferSuccess_def Let_def
      split: sum.splits option.splits if_splits)

lemma infer_call_decided:
  assumes "infer_call env (iq_cond q) (iq_input q) (iq_workspace q) (iq_session q) rt w = (r, rt', w')"
    and "\<not> ir_errored r"
  shows "service_decided env q (ir_matched r)"
proof -
  have errs: "ir_errored (mergeInferResult b x) = ir_errored x" "ir_matched (mergeInferResult b x) = ir_matched x"
    "ir_errored (inferError e)" for b x e
    by (simp_all add: mergeInferResult_def inferError_def)
  obtain client ctx w1 reply w2 where
    i: "ie_Infer env client
          \<lparr>rq_Prompt = c_Prompt (iq_cond q), rq_Input = iq_input q, rq_OutputSchema = c_OutputSchema (iq_cond q),
           rq_Context = ctx, rq_Model = c_Model (iq_cond q), rq_GenerationOptions = generationOptions (iq_cond q)\<rparr>
          (duration_of_ms (c_TimeoutMs (iq_cond q))) w1 = (reply, w2)"
    and j: "\<not> ir_errored (judge_reply env (iq_cond q) reply)"
      "ir_matched (judge_reply env (iq_cond q) reply) = ir_matched r"
    using assms by (auto simp: infer_call_def Let_def errs split: prod.splits option.splits if_splits)
  obtain rep where "reply = Inr (Some rep)" "rp_complete rep"
    "inferenceJSONMatches env (iq_cond q) (rp_OutputJson rep) = Inr (ir_matched r)"
    by (rule judge_reply_clean [OF refl j(1)]) (use j(2) in simp)
  then show ?thesis using i unfolding service_decided_def by blast
qed

definition asked_service :: "('w, 'm) infer_env \<Rightarrow> infer_request_state list \<Rightarrow> infer_flights \<Rightarrow> bool" where
  "asked_service env qs s \<longleftrightarrow> (\<forall>(q, m) \<in> if_clean s. q \<in> set qs \<and> service_decided env q m)"

lemma infer_step_asked: "infer_step env qs s t \<Longrightarrow> asked_service env qs s \<Longrightarrow> asked_service env qs t"
  by (erule infer_step.cases) (auto simp: asked_service_def note_answer_def infer_call_decided)

lemma infer_runs_asked: "infer_runs env qs n s t \<Longrightarrow> asked_service env qs s \<Longrightarrow> asked_service env qs t"
proof (induction rule: infer_runs.induct)
  case (infer_next n s t u)
  then show ?case using infer_step_asked by blast
next
  case (infer_ends n s t u)
  then have "if_clean u = if_clean t" by (auto elim!: infer_cancel.cases)
  then show ?case using infer_ends by (simp add: asked_service_def)
next
  case (infer_other n s t u)
  then have "if_clean u = if_clean t" by (auto elim!: infer_foreign.cases)
  then show ?case using infer_other by (simp add: asked_service_def)
qed simp

text \<open>The key of a request determines all the parts of its question, unless the hash collides.\<close>

definition request_parts :: "('w, 'm) infer_env \<Rightarrow> infer_request_state \<Rightarrow> bytes list" where
  "request_parts env q =
     inference_key_parts env (iq_cond q) (iq_input q) (iq_keyValue q) (iq_workspace q) (iq_session q)"

fun digits_value :: "nat \<Rightarrow> bytes \<Rightarrow> nat" where
  "digits_value n [] = n"
| "digits_value n (c # cs) = digits_value (10 * n + (of_char c - 48)) cs"

lemma digits_value_append: "digits_value n (xs @ ys) = digits_value (digits_value n xs) ys"
  by (induction xs arbitrary: n) auto

lemma digits_value_nat_digits: "digits_value 0 (nat_digits n) = n"
proof (induction n rule: nat_digits.induct)
  case (1 n)
  then show ?case by (subst nat_digits.simps) (auto simp: digits_value_append)
qed

lemma nat_digits_no_colon: "CHR '':'' \<notin> set (nat_digits n)"
proof (induction n rule: nat_digits.induct)
  case (1 n)
  have "(CHR '':'') \<noteq> (char_of (48 + m) :: char)" if "m < 10" for m :: nat
  proof
    assume "CHR '':'' = (char_of (48 + m) :: char)"
    then have "(of_char (CHR '':'') :: nat) = of_char (char_of (48 + m) :: char)" by simp
    then have "(58 :: nat) = 48 + m" using that by simp
    then show False using that by simp
  qed
  then show ?case using 1 by (subst nat_digits.simps) auto
qed

lemma netstrings_inj: "netstrings xs = netstrings ys \<Longrightarrow> xs = ys"
proof (induction xs arbitrary: ys)
  case Nil
  then show ?case by (cases ys) (auto simp: netstrings_def)
next
  case (Cons x xs)
  then obtain y rest where ys: "ys = y # rest" by (cases ys) (auto simp: netstrings_def)
  have eq: "nat_digits (length x) @ CHR '':'' # x @ netstrings xs = nat_digits (length y) @ CHR '':'' # y @ netstrings rest"
    using Cons.prems ys by (simp add: netstrings_def Itoa_def)
  have "takeWhile (\<lambda>c. c \<noteq> CHR '':'') (nat_digits n @ CHR '':'' # r) = nat_digits n" for n r
    using nat_digits_no_colon by (subst takeWhile_append2) auto
  then have digits: "nat_digits (length x) = nat_digits (length y)" using eq by metis
  then have "length x = length y" by (metis digits_value_nat_digits)
  then show ?case using Cons.IH eq digits ys by simp
qed

lemma same_key_parts:
  assumes "q = infer_request_of env f c" "q' = infer_request_of env f' c'" "iq_key q = iq_key q'"
    and "inj_on (ie_sha256 env) ((\<lambda>q. netstrings (request_parts env q)) ` Q)" "q \<in> Q" "q' \<in> Q"
  shows "request_parts env q = request_parts env q'"
proof -
  have k: "iq_key (infer_request_of env f c) = hex_encode (ie_sha256 env (netstrings (request_parts env (infer_request_of env f c))))"
    for f c
    by (simp add: infer_request_of_def stableInferenceKey_def request_parts_def Let_def split: prod.splits)
  have "ie_sha256 env (netstrings (request_parts env q)) = ie_sha256 env (netstrings (request_parts env q'))"
    using assms(1-3) k hex_encode_inj by metis
  then have "netstrings (request_parts env q) = netstrings (request_parts env q')"
    using assms(4-6) by (auto dest: inj_onD)
  then show ?thesis by (rule netstrings_inj)
qed

text \<open>C36. Answers of the inference service are shared only where they are valid, however evaluations,
  given-up waits and other users of the store interleave, where the other users may drop any
  cached answer and write any entry into the namespace of the cache, which the public
  \<^verbatim>\<open>KVSet\<close> does not refuse.  If no answer is cached at the start, an evaluation that
  returns without error decides either as the service did for a request with the same question, or
  as an entry says that another user wrote under its key.  In the first case the service was asked
  with the prompt, the input, the schema, the model and the options of that request and gave a
  complete reply whose JSON decides so, and the two requests agree in every part that the key is
  made of (endpoint, prompt, schema, model, input, key value, context, expected value, and the
  rest).  The premise on the hash: SHA-256 does not collide on the requests at hand.\<close>

theorem infer_answers_sound:
  assumes "infer_runs env qs n (infer_init st) s" and "infer_entries st = {}"
    and "qs = map (\<lambda>(f, c). infer_request_of env f c) calls"
    and "inj_on (ie_sha256 env) ((\<lambda>q. netstrings (request_parts env q)) ` set qs)"
    and "i < length qs" and "if_pc s i = InferReturned r"
  shows "ir_errored r
         \<or> (\<exists>q \<in> set qs. request_parts env q = request_parts env (qs ! i) \<and> service_decided env q (ir_matched r))
         \<or> (\<exists>b c md. (iq_key (qs ! i), b) \<in> if_foreign s \<and> decodeCachedInferResult env b = Some (c, md)
              \<and> ci_Matched c = ir_matched r)"
proof -
  have "infer_sound env qs (infer_init st)"
    using assms(2) by (simp add: infer_sound_def infer_init_def cache_answered_def pc_answered_def)
  then have "infer_sound env qs s" using infer_runs_sound [OF assms(1) _ infer_ok_init] by blast
  then have ans: "answered env (if_clean s) (if_foreign s) (iq_key (qs ! i)) r"
    using assms(5,6) by (force simp: infer_sound_def pc_answered_def)
  have "asked_service env qs (infer_init st)" by (simp add: asked_service_def infer_init_def)
  then have "asked_service env qs s" using infer_runs_asked [OF assms(1)] by blast
  then have service: "q \<in> set qs \<and> service_decided env q m" if "(q, m) \<in> if_clean s" for q m
    using that by (auto simp: asked_service_def)
  have request: "\<exists>f c. q = infer_request_of env f c" if "q \<in> set qs" for q
    using that assms(3) by auto
  have "request_parts env q = request_parts env (qs ! i)" if "q \<in> set qs" "iq_key q = iq_key (qs ! i)" for q
    using same_key_parts [OF _ _ that(2) assms(4) that(1)] request [OF that(1)] request [OF nth_mem [OF assms(5)]]
      nth_mem [OF assms(5)] by metis
  then show ?thesis
    using ans service unfolding answered_def asked_def given_def by metis
qed

section \<open>An example\<close>

definition demo_infer_env :: "(unit, unit) infer_env" where
  "demo_infer_env =
     \<lparr>ie_shell = xe_shell demo_exec_env, ie_now = (\<lambda>w. 0), ie_sha256 = id, ie_quote = id, ie_formatFloat = (\<lambda>x. []),
      ie_parseFloat = (\<lambda>s. None), ie_intFloat = (\<lambda>i. FNum (rat_of_int i)), ie_NewClient = (\<lambda>e. True),
      ie_Infer = (\<lambda>e r d w. (Inr (Some \<lparr>rp_complete = True, rp_OutputJson = json_encode_object [(''v'', ''true'')], rp_Metadata = None\<rparr>), w)),
      ie_GetRecentTurns = (\<lambda>e p w. (None, w)), ie_StreamTranscript = (\<lambda>e c n m d w. (None, w)),
      ie_promptSha = (\<lambda>m. []), ie_schemaSha = (\<lambda>m. []), ie_stringFields = (\<lambda>m. []),
      ie_protoMarshal = (\<lambda>m. None), ie_protoUnmarshal = (\<lambda>b. None)\<rparr>"


definition demo_infer_cond :: Condition where
  "demo_infer_cond = zero_Condition\<lparr>c_ResponseJSONField := ''v'', c_responseJSONValue := TOMLScalarBool True\<rparr>"

definition demo_question :: infer_request_state where
  "demo_question = infer_request_of demo_infer_env zero_FieldSet demo_infer_cond"

lemma demo_question_cond: "iq_cond demo_question = demo_infer_cond"
  by (simp add: demo_question_def infer_request_of_def Let_def split: prod.splits)

lemma demo_lookup: "infer_cacheLookup demo_infer_env k 1 demo_store = (None, demo_store)"
proof -
  have "entries demo_store = []"
    by (simp add: demo_store_def NewExecRuntime_def NewExecRuntimeWithCache_def New_def Let_def)
  then show ?thesis
    by (simp add: infer_cacheLookup_def Store_Get_def entryLocked_def split: sum.splits)
qed

definition demo_rt :: InferRuntime where
  "demo_rt = NewInferRuntimeWithCache (Some demo_store)"

text \<open>The service answers true.\<close>

definition demo_reply :: "unit infer_reply" where
  "demo_reply = \<lparr>rp_complete = True, rp_OutputJson = json_encode_object [(''v'', ''true'')], rp_Metadata = None\<rparr>"

lemma demo_replies: "ie_Infer demo_infer_env e q d w = (Inr (Some demo_reply), w)"
  by (simp add: demo_infer_env_def demo_reply_def)

lemma demo_judged:
  "judge_reply demo_infer_env demo_infer_cond (Inr (Some demo_reply)) = inferSuccess demo_infer_env True (rp_OutputJson demo_reply) None"
proof -
  have "inferenceJSONMatches demo_infer_env demo_infer_cond (json_encode_object [(''v'', ''true'')]) = Inr True"
    by code_simp
  then show ?thesis by (simp add: judge_reply_def demo_reply_def invocationHashMismatch_def)
qed

lemma demo_call:
  "\<exists>r rt w. infer_call demo_infer_env (iq_cond demo_question) (iq_input demo_question) (iq_workspace demo_question)
     (iq_session demo_question) demo_rt () = (r, rt, w) \<and> \<not> ir_errored r \<and> ir_matched r \<and> ir_cacheStatus r = ''miss''"
proof -
  obtain client rt where "inferenceClient demo_infer_env (c_Endpoint demo_infer_cond) demo_rt = (Some client, rt)"
  proof -
    have "ie_NewClient demo_infer_env e" for e by (simp add: demo_infer_env_def)
    then show thesis using that
      by (cases "TrimSpace (c_Endpoint demo_infer_cond) \<in> rn_inferenceClients demo_rt")
        (simp_all add: inferenceClient_def Let_def)
  qed
  moreover have "c_ContextSource demo_infer_cond = []" by (simp add: demo_infer_cond_def zero_Condition_def)
  ultimately show ?thesis
    by (auto simp: demo_question_cond infer_call_def contextJSON_def demo_replies demo_judged mergeInferResult_def
        inferSuccess_def applyInvocationMetadata_def emptyInferResult_def Let_def)
qed

lemma demo_infer_run:
  obtains r s where "infer_runs demo_infer_env [demo_question] 6 (infer_init demo_store) s"
    "if_pc s 0 = InferReturned r" "\<not> ir_errored r" "ir_matched r" "if_foreign s = {}"
proof -
  obtain r rt w where r: "infer_call demo_infer_env (iq_cond demo_question) (iq_input demo_question)
      (iq_workspace demo_question) (iq_session demo_question) demo_rt () = (r, rt, w)"
    "\<not> ir_errored r" "ir_matched r" "ir_cacheStatus r = ''miss''"
    using demo_call by blast
  let ?qs = "[demo_question]" and ?k = "iq_key demo_question"
  let ?s0 = "infer_init demo_store"
  let ?s1 = "at_pc 0 InferEnter (?s0\<lparr>if_store := demo_store\<rparr>)"
  let ?s2 = "at_pc 0 InferLead (?s1\<lparr>if_inflight := (if_inflight ?s1)(?k \<mapsto> 0)\<rparr>)"
  let ?s3 = "at_pc 0 InferCall ?s2"
  let ?s4 = "at_pc 0 (InferStore r) (note_answer demo_question r ?s3)"
  let ?s5 = "at_pc 0 (InferPublish r) (?s4\<lparr>if_store := demo_store\<rparr>)"
  let ?s6 = "at_pc 0 (InferReturned r) (?s5\<lparr>if_inflight := (if_inflight ?s5)(?k := None), if_done := (if_done ?s5)(0 := Some r)\<rparr>)"
  have k: "c_CacheTTLMs (iq_cond (?qs ! 0)) = 0" "0 < length ?qs"
    by (simp_all add: demo_question_cond demo_infer_cond_def zero_Condition_def)
  have status: "r\<lparr>ir_cacheStatus := ''miss''\<rparr> = r" using r(4) by (cases r) simp
  have "infer_step demo_infer_env ?qs ?s0 ?s1"
    using infer_miss [where env = demo_infer_env and now = 1 and i = 0 and s = ?s0 and qs = ?qs and t = demo_store]
      demo_lookup by (simp add: infer_init_def)
  moreover have "infer_step demo_infer_env ?qs ?s1 ?s2"
    using infer_lead [where env = demo_infer_env and i = 0 and s = ?s1 and qs = ?qs] k by (simp add: infer_init_def)
  moreover have "infer_step demo_infer_env ?qs ?s2 ?s3"
    using infer_no_recheck [where env = demo_infer_env and i = 0 and s = ?s2 and qs = ?qs] k by simp
  moreover have "infer_step demo_infer_env ?qs ?s3 ?s4"
    using infer_answer [where env = demo_infer_env and i = 0 and s = ?s3 and qs = ?qs and r = r] k r(1) by simp
  moreover have "infer_step demo_infer_env ?qs ?s4 ?s5"
    using infer_save [where env = demo_infer_env and i = 0 and s = ?s4 and qs = ?qs and r = r and t = demo_store]
      k r(4) status by (simp add: infer_init_def)
  moreover have "infer_step demo_infer_env ?qs ?s5 ?s6"
    using infer_publish [where env = demo_infer_env and i = 0 and s = ?s5 and qs = ?qs and r = r] k by simp
  ultimately have "infer_runs demo_infer_env ?qs (Suc (Suc (Suc (Suc (Suc (Suc 0)))))) ?s0 ?s6"
    by (meson infer_next infer_refl)
  then have "infer_runs demo_infer_env ?qs 6 ?s0 ?s6" by (simp only: eval_nat_numeral BitM.simps)
  then show thesis using r by (intro that [of ?s6 r]) (simp_all add: infer_init_def)
qed

theorem infer_flights_complete_witness:
  "\<exists>s. infer_runs demo_infer_env [demo_question] 6 (infer_init demo_store) s \<and> 6 \<le> 6 * length [demo_question]"
proof -
  obtain r s where s: "infer_runs demo_infer_env [demo_question] 6 (infer_init demo_store) s"
    by (rule demo_infer_run)
  then show ?thesis using infer_flights_complete [OF s] by blast
qed

theorem infer_answers_sound_witness:
  "\<exists>s r. infer_runs demo_infer_env [demo_question] 6 (infer_init demo_store) s
     \<and> if_pc s 0 = InferReturned r \<and> ir_matched r \<and> service_decided demo_infer_env demo_question True"
proof -
  obtain r s where s: "infer_runs demo_infer_env [demo_question] 6 (infer_init demo_store) s"
    "if_pc s 0 = InferReturned r" "\<not> ir_errored r" "ir_matched r" "if_foreign s = {}"
    by (rule demo_infer_run)
  have "infer_entries demo_store = {}"
    by (simp add: infer_entries_def demo_store_def NewExecRuntime_def NewExecRuntimeWithCache_def New_def Let_def)
  moreover have "inj_on (ie_sha256 demo_infer_env) X" for X by (simp add: demo_infer_env_def)
  ultimately have "ir_errored r
         \<or> (\<exists>q \<in> set [demo_question]. request_parts demo_infer_env q = request_parts demo_infer_env ([demo_question] ! 0)
              \<and> service_decided demo_infer_env q (ir_matched r))
         \<or> (\<exists>b c md. (iq_key ([demo_question] ! 0), b) \<in> if_foreign s
              \<and> decodeCachedInferResult demo_infer_env b = Some (c, md) \<and> ci_Matched c = ir_matched r)"
    using s(2) by (intro infer_answers_sound [OF s(1), where calls = "[(zero_FieldSet, demo_infer_cond)]"])
      (simp_all add: demo_question_def)
  then have "service_decided demo_infer_env demo_question True" using s(3,4,5) by simp
  then show ?thesis using s by blast
qed

end
