(* ===== verification/JudgeInput.thy ===== *)
theory JudgeInput
  imports GitConditions ExecConcern RuleCompile
begin

text \<open>
  What a judge model sees of a tool call (\<^verbatim>\<open>internal/rules/judge_input.go\<close>, \<^verbatim>\<open>command_ast.go\<close>,
  \<^verbatim>\<open>judge_context.go\<close>): the working directories, the resolved facts, the conversation, the call and
  its structure.  The parse tree comes from \<^verbatim>\<open>shelldecomp\<close> and is a parameter.
\<close>

section \<open>Text\<close>

text \<open>The runes of a string as they stand in it; an ill-formed byte is a piece of its own.\<close>

function (sequential) rune_pieces :: "bytes \<Rightarrow> bytes list" where
  "rune_pieces [] = []"
| "rune_pieces (c # cs) =
     (let n = max 1 (rune_width (c # cs)) in take n (c # cs) # rune_pieces (drop n (c # cs)))"
  by pat_completeness auto
termination by (relation "measure length") auto

text \<open>\<^verbatim>\<open>strings.Fields\<close> and \<^verbatim>\<open>strings.TrimRight\<close> for newlines.\<close>

fun fields_loop :: "bytes \<Rightarrow> bytes list \<Rightarrow> bytes list" where
  "fields_loop word [] = (if word = [] then [] else [word])"
| "fields_loop word (r # rs) =
     (if r \<in> set space_encodings then (if word = [] then [] else [word]) @ fields_loop [] rs
      else fields_loop (word @ r) rs)"

definition Fields :: "bytes \<Rightarrow> bytes list" where
  "Fields s = fields_loop [] (rune_pieces s)"

definition trim_newlines :: "bytes \<Rightarrow> bytes" where
  "trim_newlines s = rev (dropWhile (\<lambda>c. c = newline) (rev s))"

section \<open>The structure of a command\<close>

record TextWord = Word +
  wd_Text :: bytes

record ParsedCommand =
  pc_Argv0 :: bytes
  pc_Args :: "TextWord list"
  pc_Cwd :: bytes

record TargetNode =
  tg_Path :: bytes
  tg_Resolvable :: bool
  tg_Argv0 :: bytes
  tg_Raw :: bytes

text \<open>A decomposition: opaque or not, commands, read targets, write targets and embedded regions with
  their language, text and, when it was analysed, the decomposition of the text.\<close>

datatype decomposition =
  Decomposition bool "ParsedCommand list" "TargetNode list" "TargetNode list"
    "(bytes \<times> bytes \<times> decomposition option) list"

definition IsOpaque :: "decomposition \<Rightarrow> bool" where
  "IsOpaque d = (case d of Decomposition opq cs rs ws es \<Rightarrow> opq)"

definition unparseableCommandMarker :: bytes where
  "unparseableCommandMarker = ''unparseable command; judge from the verbatim text''"

definition renderMaxEmbeddedDepth :: nat where "renderMaxEmbeddedDepth = 5"
definition renderSnippetMaxChars :: nat where "renderSnippetMaxChars = 160"

definition renderWord :: "TextWord \<Rightarrow> bytes" where
  "renderWord w = (if wd_Resolvable w then wd_Value w else wd_Text w @ ''<unresolved>'')"

definition renderResolvablePath :: "bytes \<Rightarrow> bytes \<Rightarrow> bytes" where
  "renderResolvablePath unresolvable path = (if path = unresolvable then ''<unresolved>'' else path)"

definition renderCommandLine :: "bytes \<Rightarrow> bytes \<Rightarrow> ParsedCommand \<Rightarrow> bytes" where
  "renderCommandLine unresolvable topCwd c =
     Join (pc_Argv0 c # map renderWord (pc_Args c)) '' ''
     @ (if pc_Cwd c \<noteq> [] \<and> pc_Cwd c \<noteq> topCwd
        then '' [cwd: '' @ renderResolvablePath unresolvable (pc_Cwd c) @ '']'' else [])"

text \<open>A heading with one indented line per item, or nothing.\<close>

definition render_section :: "bytes \<Rightarrow> ('a \<Rightarrow> bytes) \<Rightarrow> 'a list \<Rightarrow> bytes" where
  "render_section heading render items =
     (if items = [] then []
      else heading @ [newline] @ concat (map (\<lambda>x. ''  '' @ render x @ [newline]) items))"

definition renderCommands :: "bytes \<Rightarrow> bytes \<Rightarrow> ParsedCommand list \<Rightarrow> bytes" where
  "renderCommands unresolvable topCwd cs = render_section ''cmd:'' (renderCommandLine unresolvable topCwd) cs"

definition renderTarget :: "bytes \<Rightarrow> TargetNode \<Rightarrow> bytes" where
  "renderTarget unresolvable t =
     (if \<not> tg_Resolvable t \<or> tg_Path t = unresolvable
      then ''<unresolved: '' @ tg_Raw t @ ''> ('' @ tg_Argv0 t @ '')''
      else tg_Path t @ '' ('' @ tg_Argv0 t @ '')'')"

definition renderReadTargets :: "bytes \<Rightarrow> TargetNode list \<Rightarrow> bytes" where
  "renderReadTargets unresolvable ts = render_section ''reads:'' (renderTarget unresolvable) ts"

definition renderWriteTargets :: "bytes \<Rightarrow> TargetNode list \<Rightarrow> bytes" where
  "renderWriteTargets unresolvable ts = render_section ''writes:'' (renderTarget unresolvable) ts"

definition ellipsis :: bytes where "ellipsis = [CHR 0xE2, CHR 0x80, CHR 0xA6]"

definition renderSnippet :: "bytes \<Rightarrow> bytes" where
  "renderSnippet text =
     (let collapsed = Join (Fields text) '' ''; rs = runes collapsed in
      if length rs \<le> renderSnippetMaxChars then collapsed
      else concat (take renderSnippetMaxChars rs) @ ellipsis)"

definition indentLines :: "bytes \<Rightarrow> bytes" where
  "indentLines text =
     (let trimmed = trim_newlines text in
      if trimmed = [] then []
      else Join (map (\<lambda>line. ''  '' @ line) (Split newline trimmed)) [newline] @ [newline])"

fun renderDecomposition :: "bytes \<Rightarrow> bytes \<Rightarrow> nat \<Rightarrow> decomposition \<Rightarrow> bytes" where
  "renderDecomposition unresolvable topCwd depth (Decomposition opq cs rs ws es) =
     renderCommands unresolvable topCwd cs @ renderReadTargets unresolvable rs @ renderWriteTargets unresolvable ws
     @ (if renderMaxEmbeddedDepth \<le> depth then []
        else concat (map (\<lambda>(lang, text, parsed).
               ''embedded['' @ lang @ '']: '' @ renderSnippet text @ [newline]
               @ (case parsed of
                    None \<Rightarrow> []
                  | Some d \<Rightarrow> indentLines (renderDecomposition unresolvable topCwd (depth + 1) d))) es))"

record judge_env =
  je_shell :: shell_env
  je_Parse :: "bytes \<Rightarrow> bytes \<Rightarrow> bytes \<Rightarrow> decomposition"

definition renderCommandAST :: "judge_env \<Rightarrow> bytes \<Rightarrow> bytes \<Rightarrow> bytes \<Rightarrow> bytes" where
  "renderCommandAST env command cwd home =
     (let d = je_Parse env command cwd home in
      if IsOpaque d then unparseableCommandMarker
      else trim_newlines (renderDecomposition (sa_Unresolvable (je_shell env)) cwd 0 d))"

section \<open>Resolved facts\<close>

record judgeContextFact =
  jf_Label :: bytes
  jf_Value :: bytes
  jf_FromCheckoutStatus :: bool

definition checkoutLabel :: "git_fs \<Rightarrow> gitStateReader \<Rightarrow> bytes \<Rightarrow> bytes" where
  "checkoutLabel fs read path =
     (case read path of
        Inl err \<Rightarrow> ''not in a git repository''
      | Inr state \<Rightarrow> if IsPrimaryCheckout fs state path then ''the primary checkout''
                     else ''a linked worktree, not the primary checkout'')"

definition pathIsPrimaryCheckout :: "git_fs \<Rightarrow> gitStateReader \<Rightarrow> bytes \<Rightarrow> bool" where
  "pathIsPrimaryCheckout fs read path =
     (case read path of Inl err \<Rightarrow> False | Inr state \<Rightarrow> IsPrimaryCheckout fs state path)"

definition splitNonEmptyLines :: "bytes \<Rightarrow> bytes list" where
  "splitNonEmptyLines v = filter (\<lambda>l. l \<noteq> []) (map TrimSpace (Split newline v))"

definition write_target_summary :: "bytes list \<Rightarrow> bytes list \<Rightarrow> bytes" where
  "write_target_summary writeTargets underPrimary =
     (if writeTargets = [] then ''none resolved (the command has no statically resolved write target)''
      else if underPrimary = [] then ''none'' else Join underPrimary '', '')"

definition resolveCheckoutStatus ::
  "shell_env \<Rightarrow> git_fs \<Rightarrow> gitStateReader \<Rightarrow> FieldSet \<Rightarrow> judgeContextFact list" where
  "resolveCheckoutStatus env fs read f =
     (let effective = TrimSpace (effectiveCWD env f);
          writeTargets = splitNonEmptyLines (CmdWriteTargets env f);
          underPrimary = filter (pathIsPrimaryCheckout fs read) writeTargets in
      (if effective = [] then []
       else [\<lparr>jf_Label = ''checkout_status effective_cwd'', jf_Value = checkoutLabel fs read effective,
              jf_FromCheckoutStatus = True\<rparr>])
      @ [\<lparr>jf_Label = ''write targets under the primary checkout'',
          jf_Value = write_target_summary writeTargets underPrimary, jf_FromCheckoutStatus = True\<rparr>])"

definition facts_of_key :: "shell_env \<Rightarrow> git_fs \<Rightarrow> gitStateReader \<Rightarrow> FieldSet \<Rightarrow> bytes \<Rightarrow> judgeContextFact list" where
  "facts_of_key env fs read f k =
     (if k = JudgeContextCheckoutStatus then resolveCheckoutStatus env fs read f
      else if CompileFieldSelector k = FieldSelectorInvalid then []
      else [\<lparr>jf_Label = k, jf_Value = FieldSet_String env f (CompileFieldSelector k), jf_FromCheckoutStatus = False\<rparr>])"

definition resolveJudgeContext ::
  "shell_env \<Rightarrow> git_fs \<Rightarrow> gitStateReader \<Rightarrow> FieldSet \<Rightarrow> bytes list \<Rightarrow> judgeContextFact list" where
  "resolveJudgeContext env fs read f ks =
     concat (map (facts_of_key env fs read f) (collect_new [] (filter (\<lambda>k. k \<noteq> []) (map TrimSpace ks))))"

section \<open>The panels\<close>

definition factsIncludeCheckoutStatus :: "judgeContextFact list \<Rightarrow> bool" where
  "factsIncludeCheckoutStatus facts \<longleftrightarrow> list_ex jf_FromCheckoutStatus facts"

definition renderResolvedFacts :: "judgeContextFact list \<Rightarrow> bytes" where
  "renderResolvedFacts facts =
     (if facts = [] then []
      else [newline] @ ''resolved facts:'' @ [newline]
           @ concat (map (\<lambda>fact. let v = TrimSpace (jf_Value fact); v = (if v = [] then ''(none)'' else v) in
                ''  '' @ jf_Label fact @ '': '' @ ReplaceAll v [newline] '', '' @ [newline]) facts))"

definition renderWorkingDirectories :: "shell_env \<Rightarrow> FieldSet \<Rightarrow> bytes" where
  "renderWorkingDirectories env f =
     (let chatCwd = TrimSpace (f_CWD f); effectiveCwd = TrimSpace (effectiveCWD env f) in
      (if chatCwd = [] then [] else ''chat working directory: '' @ chatCwd @ [newline])
      @ (if effectiveCwd \<noteq> [] \<and> effectiveCwd \<noteq> chatCwd then ''tool-call directory: '' @ effectiveCwd @ [newline] else []))"

definition renderConversationPanel :: "bytes \<Rightarrow> bytes" where
  "renderConversationPanel transcriptTail =
     (let tail = TrimSpace transcriptTail in
      if tail = [] then [] else [newline] @ ''recent conversation:'' @ [newline] @ tail @ [newline])"

definition renderShellCall :: "judge_env \<Rightarrow> FieldSet \<Rightarrow> bytes \<Rightarrow> bytes" where
  "renderShellCall env f command =
     [newline] @ ''tool call:'' @ [newline] @ command @ [newline]
     @ [newline] @ ''structure:'' @ [newline] @ renderCommandAST env command (BaseCWD f) [] @ [newline]"

definition judgeWriteContentSnippet :: "FieldSet \<Rightarrow> bytes" where
  "judgeWriteContentSnippet f =
     (case filter (\<lambda>c. c \<noteq> []) (map TrimSpace
             [f_ToolInputContent f, f_ToolInputNewString f, Join (f_EditsNewString f) [newline]]) of
        [] \<Rightarrow> []
      | candidate # rest \<Rightarrow> renderSnippet candidate)"

definition renderWriteCall :: "FieldSet \<Rightarrow> bytes \<Rightarrow> bytes" where
  "renderWriteCall f filePath =
     [newline] @ ''tool call:'' @ [newline] @ ''writes: '' @ filePath @ [newline]
     @ (if judgeWriteContentSnippet f = [] then []
        else ''content (truncated): '' @ judgeWriteContentSnippet f @ [newline])
     @ [newline] @ ''structure:'' @ [newline] @ ''writes: '' @ filePath @ [newline]"

definition renderToolPanel :: "judge_env \<Rightarrow> FieldSet \<Rightarrow> bytes" where
  "renderToolPanel env f =
     (let toolName = TrimSpace (f_ToolName f); command = TrimSpace (CommandValue f);
          filePath = TrimSpace (FilePathValue f) in
      (if toolName = [] then [] else [newline] @ ''tool: '' @ toolName @ [newline])
      @ (if command \<noteq> [] then renderShellCall env f command
         else if filePath \<noteq> [] then renderWriteCall f filePath else []))"

definition buildJudgeInput :: "judge_env \<Rightarrow> FieldSet \<Rightarrow> bytes \<Rightarrow> judgeContextFact list \<Rightarrow> bytes" where
  "buildJudgeInput env f transcriptTail facts =
     TrimSpace
       ((if factsIncludeCheckoutStatus facts then [] else renderWorkingDirectories (je_shell env) f)
        @ renderResolvedFacts facts @ renderConversationPanel transcriptTail @ renderToolPanel env f)"

end
