(* ===== verification/InferBatch.thy ===== *)
theory InferBatch
  imports InferGate JudgeInput Engine
begin

text \<open>
  Batch inference (\<^verbatim>\<open>internal/rules/batch_infer.go\<close>, \<^verbatim>\<open>infer_transcript.go\<close>): one call per
  inference point for all rules of an event that ask for it, the conversation fetched once, and the
  memo from which the evaluator matrix reads each rule's decision.  The groups of rules come from
  \<^term>\<open>collectBatchGroups\<close>; here they are judged.

  A panic is \<^term>\<open>None\<close>.  The goroutines of the groups write to different keys of the memo, so their
  order does not matter; \<open>order\<close> is the order in which Go happens to visit the map of groups.
\<close>

section \<open>The conversation\<close>

definition defaultJudgeTranscriptTimeout :: go_duration where "defaultJudgeTranscriptTimeout = 1500000000"

datatype judgeContextStatus = contextDisabled | contextReady | contextUnavailable

record transcriptParams =
  tp_endpoint :: bytes
  tp_conversationID :: bytes
  tp_tokenModel :: bytes
  tp_maxTokens :: int

text \<open>The chunks of the stream with a flag that says whether it ended properly; \<^term>\<open>None\<close> when it
  could not be opened.\<close>

definition fetchTranscriptTail ::
  "('w, 'm) infer_env \<Rightarrow> go_duration \<Rightarrow> transcriptParams \<Rightarrow> InferRuntime \<Rightarrow> 'w \<Rightarrow> (bytes \<times> bytes) \<times> InferRuntime \<times> 'w" where
  "fetchTranscriptTail env timeout params rt w =
     (if tp_maxTokens params \<le> 0 then (([], ''transcript_invalid''), rt, w)
      else case transcriptClient env (tp_endpoint params) rt of
        (None, rt1) \<Rightarrow> (([], ''transcript_unavailable''), rt1, w)
      | (Some client, rt1) \<Rightarrow>
          (case ie_StreamTranscript env client (tp_conversationID params) (Itoa (tp_maxTokens params))
                  (tp_tokenModel params) timeout w of
             (None, w1) \<Rightarrow> (([], ''transcript_unavailable''), rt1, w1)
           | (Some (chunks, ended), w1) \<Rightarrow>
               (if ended then (concat chunks, []) else ([], ''transcript_unavailable''), rt1, w1)))"

definition fetchJudgeTranscript ::
  "('w, 'm) infer_env \<Rightarrow> FieldSet \<Rightarrow> InferRuntime \<Rightarrow> 'w \<Rightarrow> (bytes \<times> judgeContextStatus) \<times> InferRuntime \<times> 'w" where
  "fetchJudgeTranscript env f rt w =
     (let settings = rn_judgeTranscript rt; conversationID = TrimSpace (f_ConversationID f) in
      if jt_endpoint settings = [] \<or> jt_maxTokens settings \<le> 0 then (([], contextDisabled), rt, w)
      else if conversationID = [] then (([], contextUnavailable), rt, w)
      else let timeout = (if jt_timeout settings \<le> 0 then defaultJudgeTranscriptTimeout else jt_timeout settings);
               ((tail, errClass), rt1, w1) = fetchTranscriptTail env timeout
                 \<lparr>tp_endpoint = jt_endpoint settings, tp_conversationID = conversationID,
                  tp_tokenModel = jt_tokenModel settings, tp_maxTokens = jt_maxTokens settings\<rparr> rt w in
           (if errClass \<noteq> [] then ([], contextUnavailable) else (tail, contextReady), rt1, w1))"

section \<open>Judging one group\<close>

record batchRuleDecision =
  bd_block :: bool
  bd_errored :: bool
  bd_errorCode :: bytes

record batchGroupResult =
  br_model :: bytes
  br_inputJSON :: bytes
  br_upstream :: UpstreamMetadata
  br_startedAt :: go_time
  br_completedAt :: go_time
  br_decisions :: "bytes \<rightharpoonup> batchRuleDecision"

definition blocksOnlyOutputSchema :: bytes where
  "blocksOnlyOutputSchema =
     json_encode_object
       [(''type'', json_quote ''object''),
        (''properties'', json_encode_object [(''block'', json_encode_object
           [(''type'', json_quote ''array''), (''items'', json_encode_object [(''type'', json_quote ''string'')])])]),
        (''required'', ''['' @ json_quote ''block'' @ '']''), (''additionalProperties'', ''false'')]"

definition one_line :: "bytes \<Rightarrow> bytes" where
  "one_line s = ReplaceAll s [newline] '' ''"

definition batch_instruction :: bytes where
  "batch_instruction =
     ''You are a security guard reviewing one tool call. ''
     @ ''Judge the tool call independently against each rule below. ''
     @ ''Return a JSON object {'' @ json_quote ''block'' @ '':['' @ [CHR 0x22] @ ''<rule_id>'' @ [CHR 0x22]
     @ '',...]} listing only the rule_id values you decide to block, and an empty list when nothing should be blocked. ''
     @ ''Use the exact rule_id values given.'' @ [newline, newline] @ ''Rules:'' @ [newline]"

definition render_participant :: "batchParticipant \<Rightarrow> bytes" where
  "render_participant p =
     ''- rule_id: '' @ bp_ruleName p @ [newline] @ ''  '' @ one_line (bp_intent p) @ [newline]
     @ (let description = TrimSpace (bp_description p) in
        if description = [] then [] else ''  '' @ one_line description @ [newline])"

definition buildBatchPrompt :: "batchParticipant list \<Rightarrow> bytes" where
  "buildBatchPrompt participants = batch_instruction @ concat (map render_participant participants)"

definition marshalBatchInput :: "bytes \<Rightarrow> bytes \<Rightarrow> bytes \<Rightarrow> bytes" where
  "marshalBatchInput prompt input model =
     json_encode_object [(''prompt'', json_quote prompt), (''input'', json_quote input), (''model'', json_quote model)]"

text \<open>
  The field is a pointer to a slice of strings: \<^term>\<open>None\<close> as long as no member named block has a
  list, and again after a null.
\<close>

fun decode_block_lists :: "bytes list option \<Rightarrow> bytes list \<Rightarrow> bytes list option option" where
  "decode_block_lists old [] = Some old"
| "decode_block_lists old (v # vs) =
     (if json_null v then decode_block_lists None vs
      else case json_strings (case old of Some xs \<Rightarrow> xs | None \<Rightarrow> []) v of
             None \<Rightarrow> None
           | Some xs \<Rightarrow> decode_block_lists (Some xs) vs)"

definition parseBlockList :: "bytes \<Rightarrow> bytes set option" where
  "parseBlockList outputJSON =
     (case (if json_null outputJSON then Some [] else json_members outputJSON) of
        None \<Rightarrow> None
      | Some ms \<Rightarrow>
          (case decode_block_lists None (json_values ''block'' ms) of
             Some (Some ids) \<Rightarrow> Some (set ids)
           | _ \<Rightarrow> None))"

definition batchDecisionsFromBlockList :: "batchParticipant list \<Rightarrow> bytes set \<Rightarrow> (bytes \<rightharpoonup> batchRuleDecision)" where
  "batchDecisionsFromBlockList participants blockSet =
     fold (\<lambda>p m. m(bp_ruleName p \<mapsto>
             \<lparr>bd_block = (bp_ruleName p \<in> blockSet), bd_errored = False, bd_errorCode = []\<rparr>)) participants Map.empty"

definition errored_decisions :: "batchParticipant list \<Rightarrow> bytes \<Rightarrow> (bytes \<rightharpoonup> batchRuleDecision)" where
  "errored_decisions participants code =
     fold (\<lambda>p m. m(bp_ruleName p \<mapsto> \<lparr>bd_block = False, bd_errored = True, bd_errorCode = code\<rparr>)) participants Map.empty"

definition failed_group ::
  "('w, 'm) infer_env \<Rightarrow> InferencePoint \<Rightarrow> batchParticipant list \<Rightarrow> bytes \<Rightarrow> go_time \<Rightarrow> go_time \<Rightarrow> bytes \<Rightarrow> batchGroupResult" where
  "failed_group env point participants inputJSON startedAt completedAt code =
     \<lparr>br_model = ip_Model point, br_inputJSON = inputJSON, br_upstream = boundedUpstreamMetadata env None,
      br_startedAt = startedAt, br_completedAt = completedAt, br_decisions = errored_decisions participants code\<rparr>"

definition evaluateBatchGroup ::
  "('w, 'm) infer_env \<Rightarrow> InferencePoint \<Rightarrow> batchParticipant list \<Rightarrow> bytes \<Rightarrow> InferRuntime \<Rightarrow> 'w \<Rightarrow>
   batchGroupResult \<times> InferRuntime \<times> 'w" where
  "evaluateBatchGroup env point participants judgeInput rt w =
     (let startedAt = ie_now env w; prompt = buildBatchPrompt participants;
          inputJSON = marshalBatchInput prompt judgeInput (ip_Model point);
          fail = (\<lambda>w' code. failed_group env point participants inputJSON startedAt (ie_now env w') code) in
      case inferenceClient env (ip_Endpoint point) rt of
        (None, rt1) \<Rightarrow> (fail w ''invalid_endpoint'', rt1, w)
      | (Some client, rt1) \<Rightarrow>
          let (reply, w1) = ie_Infer env client
                 \<lparr>rq_Prompt = prompt, rq_Input = judgeInput, rq_OutputSchema = blocksOnlyOutputSchema, rq_Context = [],
                  rq_Model = ip_Model point, rq_GenerationOptions = pointGenerationOptions point\<rparr>
                 (point_timeout point) w in
          (case reply of
             Inl err \<Rightarrow> (fail w1 (grpcErrorClass err), rt1, w1)
           | Inr None \<Rightarrow> (fail w1 ''non_complete'', rt1, w1)
           | Inr (Some r) \<Rightarrow>
               if \<not> rp_complete r then (fail w1 ''non_complete'', rt1, w1)
               else case parseBlockList (rp_OutputJson r) of
                 None \<Rightarrow> (fail w1 ''invalid_response'', rt1, w1)
               | Some blockSet \<Rightarrow>
                   (\<lparr>br_model = ip_Model point, br_inputJSON = inputJSON,
                     br_upstream = boundedUpstreamMetadata env (rp_Metadata r),
                     br_startedAt = startedAt, br_completedAt = ie_now env w1,
                     br_decisions = batchDecisionsFromBlockList participants blockSet\<rparr>, rt1, w1)))"

section \<open>The memo of an event\<close>

type_synonym batchInferenceMemo = "(InferencePoint \<times> batchGroupResult) list"

text \<open>Reading a map whose keys are compared as Go compares them.\<close>

fun point_lookup :: "InferencePoint \<Rightarrow> (InferencePoint \<times> 'a) list \<Rightarrow> 'a option" where
  "point_lookup p [] = None"
| "point_lookup p ((q, x) # xs) = (if point_eq p q then Some x else point_lookup p xs)"

definition batchRuleOutputJSON :: "batchRuleDecision \<Rightarrow> bytes" where
  "batchRuleOutputJSON d =
     (if bd_errored d then ''{}''
      else json_encode_object [(''decision'', json_quote (if bd_block d then ''block'' else ''allow''))])"

definition verdictFor :: "batchInferenceMemo option \<Rightarrow> InferencePoint \<Rightarrow> bytes \<Rightarrow> point_trace option" where
  "verdictFor memo point ruleName =
     (case memo of
        None \<Rightarrow> None
      | Some groups \<Rightarrow>
          (case point_lookup point groups of
             None \<Rightarrow> None
           | Some g \<Rightarrow>
               (case br_decisions g ruleName of
                  None \<Rightarrow> None
                | Some d \<Rightarrow>
                    Some \<lparr>pv_block = bd_block d, pv_errored = bd_errored d, pt_inputJSON = br_inputJSON g,
                          pt_outputJSON = batchRuleOutputJSON d, pt_errorCode = bd_errorCode d,
                          pt_model = br_model g, pt_upstream = br_upstream g,
                          pt_startedAt = br_startedAt g, pt_completedAt = br_completedAt g\<rparr>)))"

text \<open>The plan of a point is read back from the map of groups; a missing plan is a nil pointer.\<close>

fun contextUnavailableGroups ::
  "('w, 'm) infer_env \<Rightarrow> go_time \<Rightarrow> batchGroups \<Rightarrow> InferencePoint list \<Rightarrow> batchInferenceMemo option" where
  "contextUnavailableGroups env stamp groups [] = Some []"
| "contextUnavailableGroups env stamp groups (point # points) =
     (case point_lookup point groups of
        None \<Rightarrow> None
      | Some participants \<Rightarrow>
          map_option (Cons (point, failed_group env point participants [] stamp stamp ''context_unavailable''))
            (contextUnavailableGroups env stamp groups points))"

definition contextUnavailableMemo ::
  "('w, 'm) infer_env \<Rightarrow> batchGroups \<Rightarrow> 'w \<Rightarrow> batchInferenceMemo option" where
  "contextUnavailableMemo env groups w = contextUnavailableGroups env (ie_now env w) groups (map fst groups)"

text \<open>One goroutine per point; a panic, on a nil plan, is recovered and leaves the point out.\<close>

fun judge_groups ::
  "('w, 'm) infer_env \<Rightarrow> batchGroups \<Rightarrow> bytes \<Rightarrow> InferencePoint list \<Rightarrow> InferRuntime \<Rightarrow> 'w \<Rightarrow>
   batchInferenceMemo \<times> InferRuntime \<times> 'w" where
  "judge_groups env groups judgeInput [] rt w = ([], rt, w)"
| "judge_groups env groups judgeInput (point # points) rt w =
     (case point_lookup point groups of
        None \<Rightarrow> judge_groups env groups judgeInput points rt w
      | Some participants \<Rightarrow>
          (let (result, rt1, w1) = evaluateBatchGroup env point participants judgeInput rt w;
               (memo, rt2, w2) = judge_groups env groups judgeInput points rt1 w1 in
           ((point, result) # memo, rt2, w2)))"

definition unionJudgeContextKeys :: "batchGroups \<Rightarrow> bytes list" where
  "unionJudgeContextKeys groups =
     collect_new [] (filter (\<lambda>k. k \<noteq> []) (concat (map (\<lambda>(point, ps). concat (map bp_judgeContext ps)) groups)))"

text \<open>\<open>order\<close> is the arrangement of the groups in which \<^verbatim>\<open>unionJudgeContextKeys\<close> visits the map.\<close>

definition judgeBatch ::
  "('w, 'm) infer_env \<Rightarrow> judge_env \<Rightarrow> git_fs \<Rightarrow> gitStateReader \<Rightarrow> FieldSet \<Rightarrow> batchGroups \<Rightarrow> batchGroups \<Rightarrow>
   InferRuntime \<Rightarrow> 'w \<Rightarrow> batchInferenceMemo option option \<times> InferRuntime \<times> 'w" where
  "judgeBatch env jenv fs read f groups order rt w =
     (if groups = [] then (Some None, rt, w)
      else let ((judgeTail, status), rt1, w1) = fetchJudgeTranscript env f rt w in
           if status = contextUnavailable
           then (map_option Some (contextUnavailableMemo env groups w1), rt1, w1)
           else let facts = resolveJudgeContext (je_shell jenv) fs read f (unionJudgeContextKeys order);
                    (memo, rt2, w2) = judge_groups env groups (buildJudgeInput jenv f judgeTail facts)
                                        (map fst groups) rt1 w1 in
                (Some (Some memo), rt2, w2))"

text \<open>The inference world of the evaluator matrix once the batch is done.\<close>

definition batch_world ::
  "batchInferenceMemo option \<Rightarrow> (nat \<Rightarrow> InferencePoint \<Rightarrow> bytes \<Rightarrow> bytes \<Rightarrow> pointVerdict option) \<Rightarrow> infer_world" where
  "batch_world memo reply =
     \<lparr>iw_batch = (\<lambda>point ruleName. map_option pointVerdict.truncate (verdictFor memo point ruleName)),
      iw_reply = reply\<rparr>"

end
