(* ===== verification/HookResponse.thy ===== *)
theory HookResponse
  imports Json
begin

text \<open>
  The response boundary of a hook (\<^verbatim>\<open>internal/hook/response_boundary.go\<close>): what each provider can do
  at each event (\<^verbatim>\<open>capability.go\<close>, \<^verbatim>\<open>response_capability.go\<close>) and the bytes and the exit code that tell the
  provider to continue, to block, to add context or to use a changed value (\<^verbatim>\<open>claude.go\<close>, \<^verbatim>\<open>codex.go\<close>,
  \<^verbatim>\<open>cursor.go\<close>, \<^verbatim>\<open>copilot.go\<close>, \<^verbatim>\<open>gemini.go\<close>, \<^verbatim>\<open>failopen_notice.go\<close>).
\<close>

unbundle bit_operations_syntax

section \<open>Systems and capabilities\<close>

datatype System = SystemUnknown | SystemClaude | SystemCursor | SystemCodex | SystemGemini | SystemVSCode
  | SystemCopilot | SystemResponse

fun System_String :: "System \<Rightarrow> bytes" where
  "System_String SystemUnknown = ''unknown''"
| "System_String SystemClaude = ''claude''"
| "System_String SystemCursor = ''cursor''"
| "System_String SystemCodex = ''codex''"
| "System_String SystemGemini = ''gemini''"
| "System_String SystemVSCode = ''vscode''"
| "System_String SystemCopilot = ''copilot''"
| "System_String SystemResponse = ''response''"

definition SystemFromString :: "bytes \<Rightarrow> System" where
  "SystemFromString s =
     (if s = ''claude'' then SystemClaude
      else if s = ''cursor'' then SystemCursor
      else if s = ''codex'' then SystemCodex
      else if s = ''gemini'' then SystemGemini
      else if s = ''vscode'' then SystemVSCode
      else if s = ''copilot'' then SystemCopilot
      else if s = ''response'' then SystemResponse
      else SystemUnknown)"

definition ResponseEvent :: bytes where "ResponseEvent = ''Response''"

datatype Capability = CapabilityObserve | CapabilitySubstitute | CapabilityBlock

fun Capability_String :: "Capability \<Rightarrow> bytes" where
  "Capability_String CapabilityBlock = ''block''"
| "Capability_String CapabilitySubstitute = ''substitute''"
| "Capability_String CapabilityObserve = ''observe''"

definition capabilityTable :: "((System \<times> bytes) \<times> Capability) list" where
  "capabilityTable =
    [((SystemResponse, ResponseEvent), CapabilityBlock),
     ((SystemClaude, ''PreToolUse''), CapabilityBlock),
     ((SystemClaude, ''PostToolUse''), CapabilityObserve),
     ((SystemClaude, ''PostToolUseFailure''), CapabilityObserve),
     ((SystemClaude, ''PermissionRequest''), CapabilityBlock),
     ((SystemClaude, ''PermissionDenied''), CapabilityObserve),
     ((SystemClaude, ''Stop''), CapabilityObserve),
     ((SystemClaude, ''StopFailure''), CapabilityObserve),
     ((SystemClaude, ''SubagentStop''), CapabilityObserve),
     ((SystemClaude, ''UserPromptSubmit''), CapabilityBlock),
     ((SystemCopilot, ''PreToolUse''), CapabilityBlock),
     ((SystemCopilot, ''PostToolUse''), CapabilityObserve),
     ((SystemCopilot, ''Stop''), CapabilityObserve),
     ((SystemCopilot, ''UserPromptSubmit''), CapabilityBlock),
     ((SystemCopilot, ''preToolUse''), CapabilityBlock),
     ((SystemCopilot, ''postToolUse''), CapabilityObserve),
     ((SystemCopilot, ''sessionStart''), CapabilityObserve),
     ((SystemCopilot, ''subagentStart''), CapabilityObserve),
     ((SystemCopilot, ''notification''), CapabilityObserve),
     ((SystemCopilot, ''userPromptTransformed''), CapabilityObserve),
     ((SystemCodex, ''PreToolUse''), CapabilityBlock),
     ((SystemCodex, ''PostToolUse''), CapabilitySubstitute),
     ((SystemCodex, ''PermissionRequest''), CapabilityBlock),
     ((SystemCodex, ''Stop''), CapabilityObserve),
     ((SystemCodex, ''UserPromptSubmit''), CapabilityBlock),
     ((SystemCursor, ''preToolUse''), CapabilityBlock),
     ((SystemCursor, ''beforeShellExecution''), CapabilityBlock),
     ((SystemCursor, ''beforeMCPExecution''), CapabilityBlock),
     ((SystemCursor, ''beforeReadFile''), CapabilityBlock),
     ((SystemCursor, ''beforeSubmitPrompt''), CapabilityBlock),
     ((SystemCursor, ''beforeTabFileRead''), CapabilityBlock),
     ((SystemCursor, ''postToolUse''), CapabilitySubstitute),
     ((SystemCursor, ''postToolUseFailure''), CapabilityObserve),
     ((SystemCursor, ''afterShellExecution''), CapabilityObserve),
     ((SystemCursor, ''afterMCPExecution''), CapabilityObserve),
     ((SystemCursor, ''afterFileEdit''), CapabilityObserve),
     ((SystemCursor, ''afterAgentResponse''), CapabilityObserve),
     ((SystemGemini, ''BeforeTool''), CapabilityBlock),
     ((SystemGemini, ''AfterTool''), CapabilityObserve)]"

definition LookupCapability :: "System \<Rightarrow> bytes \<Rightarrow> Capability" where
  "LookupCapability system event =
     (case map_of capabilityTable (system, event) of Some c \<Rightarrow> c | None \<Rightarrow> CapabilityObserve)"

definition CanBlock :: "System \<Rightarrow> bytes \<Rightarrow> bool" where
  "CanBlock system eventName \<longleftrightarrow> LookupCapability system eventName \<noteq> CapabilityObserve"

type_synonym ResponseCapability = "8 word"

definition ResponseCapabilityNone :: ResponseCapability where "ResponseCapabilityNone = 0"
definition ResponseCapabilityInject :: ResponseCapability where "ResponseCapabilityInject = 2"
definition ResponseCapabilityPromptMutation :: ResponseCapability where "ResponseCapabilityPromptMutation = 4"
definition ResponseCapabilityToolInputMutation :: ResponseCapability where "ResponseCapabilityToolInputMutation = 8"
definition ResponseCapabilityToolOutputMutation :: ResponseCapability where "ResponseCapabilityToolOutputMutation = 16"

definition Supports :: "ResponseCapability \<Rightarrow> ResponseCapability \<Rightarrow> bool" where
  "Supports c wanted \<longleftrightarrow> c AND wanted = wanted"

definition responseCapabilityTable :: "((System \<times> bytes) \<times> ResponseCapability) list" where
  "responseCapabilityTable =
    [((SystemClaude, ''SessionStart''), ResponseCapabilityInject),
     ((SystemClaude, ''Setup''), ResponseCapabilityInject),
     ((SystemClaude, ''SubagentStart''), ResponseCapabilityInject),
     ((SystemClaude, ''UserPromptSubmit''), ResponseCapabilityInject),
     ((SystemClaude, ''UserPromptExpansion''), ResponseCapabilityInject),
     ((SystemClaude, ''PreToolUse''), ResponseCapabilityInject OR ResponseCapabilityToolInputMutation),
     ((SystemClaude, ''PostToolUse''), ResponseCapabilityInject OR ResponseCapabilityToolOutputMutation),
     ((SystemClaude, ''PostToolUseFailure''), ResponseCapabilityInject),
     ((SystemClaude, ''PostToolBatch''), ResponseCapabilityInject),
     ((SystemClaude, ''Stop''), ResponseCapabilityInject),
     ((SystemClaude, ''SubagentStop''), ResponseCapabilityInject),
     ((SystemCodex, ''SessionStart''), ResponseCapabilityInject),
     ((SystemCodex, ''SubagentStart''), ResponseCapabilityInject),
     ((SystemCodex, ''UserPromptSubmit''), ResponseCapabilityInject),
     ((SystemCodex, ''PreToolUse''), ResponseCapabilityInject OR ResponseCapabilityToolInputMutation),
     ((SystemCodex, ''PostToolUse''), ResponseCapabilityInject),
     ((SystemCursor, ''sessionStart''), ResponseCapabilityInject),
     ((SystemCursor, ''stop''), ResponseCapabilityInject),
     ((SystemCursor, ''postToolUse''), ResponseCapabilityInject OR ResponseCapabilityToolOutputMutation),
     ((SystemCopilot, ''sessionStart''), ResponseCapabilityInject),
     ((SystemCopilot, ''SessionStart''), ResponseCapabilityInject),
     ((SystemCopilot, ''subagentStart''), ResponseCapabilityInject),
     ((SystemCopilot, ''SubagentStart''), ResponseCapabilityInject),
     ((SystemCopilot, ''postToolUse''), ResponseCapabilityInject OR ResponseCapabilityToolOutputMutation),
     ((SystemCopilot, ''PostToolUse''), ResponseCapabilityInject OR ResponseCapabilityToolOutputMutation),
     ((SystemCopilot, ''postToolUseFailure''), ResponseCapabilityInject),
     ((SystemCopilot, ''PostToolUseFailure''), ResponseCapabilityInject),
     ((SystemCopilot, ''notification''), ResponseCapabilityInject),
     ((SystemCopilot, ''Notification''), ResponseCapabilityInject),
     ((SystemCopilot, ''userPromptTransformed''), ResponseCapabilityInject OR ResponseCapabilityPromptMutation),
     ((SystemCopilot, ''preToolUse''), ResponseCapabilityToolInputMutation),
     ((SystemCopilot, ''PreToolUse''), ResponseCapabilityToolInputMutation)]"

definition LookupResponseCapability :: "System \<Rightarrow> bytes \<Rightarrow> ResponseCapability" where
  "LookupResponseCapability system event =
     (case map_of responseCapabilityTable (system, event) of Some c \<Rightarrow> c | None \<Rightarrow> 0)"

definition responseMutationTarget :: "ResponseCapability \<Rightarrow> bytes \<times> bool" where
  "responseMutationTarget capability =
     (if Supports capability ResponseCapabilityPromptMutation then (''prompt'', False)
      else if Supports capability ResponseCapabilityToolInputMutation then (''tool_input'', True)
      else if Supports capability ResponseCapabilityToolOutputMutation then (''tool_output'', True)
      else ([], False))"

section \<open>Requests and responses\<close>

definition ResponseDecisionAllow :: bytes where "ResponseDecisionAllow = ''allow''"
definition ResponseDecisionBlock :: bytes where "ResponseDecisionBlock = ''block''"

record ResponseRequest =
  rq_System :: System
  rq_EventName :: bytes
  rq_Decision :: bytes
  rq_DiagnosticText :: bytes
  rq_EventID :: bytes
  rq_Footer :: bytes
  rq_FailOpenReason :: bytes
  rq_ContextText :: bytes
  rq_MutationText :: bytes
  rq_PromptText :: bytes

record Response =
  rs_Stdout :: bytes
  rs_Stderr :: bytes
  rs_ExitCode :: int

definition stdout_only :: "bytes \<Rightarrow> Response" where
  "stdout_only out = \<lparr>rs_Stdout = out, rs_Stderr = [], rs_ExitCode = 0\<rparr>"

definition newline :: bytes where "newline = [CHR 0x0A]"

definition diagnosticWithEventID :: "bytes \<Rightarrow> bytes \<Rightarrow> bytes" where
  "diagnosticWithEventID text eventID =
     (if eventID = [] then text
      else if text = [] then ''agent-gate event_id: '' @ eventID
      else text @ newline @ newline @ ''agent-gate event_id: '' @ eventID)"

definition FailOpenNoticeText :: "bytes \<Rightarrow> bytes \<Rightarrow> bytes" where
  "FailOpenNoticeText reason diagnostic =
     (if reason = [] then []
      else ''agent-gate did not evaluate this call, so no rule was enforced on it ('' @ reason @ '').'' @
        (if diagnostic = [] then [] else '' '' @ diagnostic))"

definition failOpenStderr :: "bytes \<Rightarrow> bytes \<Rightarrow> bytes" where
  "failOpenStderr reason diagnostic =
     (let notice = FailOpenNoticeText reason diagnostic in if notice = [] then [] else notice @ newline)"

text \<open>
  Members with the option \<^verbatim>\<open>omitempty\<close> are left out when their value is empty.  A string member and a
  raw member; an ill-formed raw value makes the encoding an error.
\<close>

definition text_member :: "bytes \<Rightarrow> bytes \<Rightarrow> (bytes \<times> bytes) list" where
  "text_member name v = (if v = [] then [] else [(name, json_quote v)])"

definition raw_member :: "bytes \<Rightarrow> bytes \<Rightarrow> (bytes \<times> bytes) list option" where
  "raw_member name v = (if v = [] then Some [] else map_option (\<lambda>c. [(name, c)]) (json_compact v))"

definition bool_member :: "bytes \<Rightarrow> bool option \<Rightarrow> (bytes \<times> bytes) list" where
  "bool_member name v = (case v of None \<Rightarrow> [] | Some b \<Rightarrow> [(name, if b then ''true'' else ''false'')])"

definition object_member :: "bytes \<Rightarrow> (bytes \<times> bytes) list option \<Rightarrow> (bytes \<times> bytes) list" where
  "object_member name v = (case v of None \<Rightarrow> [] | Some ms \<Rightarrow> [(name, json_encode_object ms)])"

definition validStructuredMutation :: "bytes \<Rightarrow> bytes option" where
  "validStructuredMutation v = (if json_Valid v then Some (json_trim v) else None)"

section \<open>Claude\<close>

definition ClaudeAllow :: bytes where "ClaudeAllow = ''{}'' @ newline"

definition ClaudeBlockText :: "bytes \<Rightarrow> bytes" where "ClaudeBlockText text = text @ newline"

definition ClaudeBlock :: "bytes \<Rightarrow> bytes \<Rightarrow> bytes" where
  "ClaudeBlock ruleName message = ClaudeBlockText (''agent-gate: ['' @ ruleName @ ''] '' @ message)"

record claudeHookSpecificOutput =
  ch_HookEventName :: bytes
  ch_PermissionDecision :: bytes
  ch_AdditionalContext :: bytes
  ch_UpdatedInput :: bytes
  ch_UpdatedToolOutput :: bytes

definition applyClaudeMutation :: "ResponseCapability \<Rightarrow> bytes \<Rightarrow> claudeHookSpecificOutput \<Rightarrow> claudeHookSpecificOutput" where
  "applyClaudeMutation capability mutationText out =
     (if mutationText = [] then out
      else case validStructuredMutation mutationText of
        None \<Rightarrow> out
      | Some mutation \<Rightarrow>
          (let out1 = (if Supports capability ResponseCapabilityToolInputMutation
                       then out\<lparr>ch_UpdatedInput := mutation, ch_PermissionDecision := ''allow''\<rparr> else out)
           in if Supports capability ResponseCapabilityToolOutputMutation
              then out1\<lparr>ch_UpdatedToolOutput := mutation\<rparr> else out1))"

definition claude_members :: "claudeHookSpecificOutput \<Rightarrow> (bytes \<times> bytes) list option" where
  "claude_members out =
     (case (raw_member ''updatedInput'' (ch_UpdatedInput out), raw_member ''updatedToolOutput'' (ch_UpdatedToolOutput out)) of
        (Some input, Some result) \<Rightarrow>
          Some ((''hookEventName'', json_quote (ch_HookEventName out))
            # text_member ''permissionDecision'' (ch_PermissionDecision out)
            @ text_member ''additionalContext'' (ch_AdditionalContext out) @ input @ result)
      | _ \<Rightarrow> None)"

definition claudeFailOpenStdout :: "bytes \<Rightarrow> bytes \<Rightarrow> bytes" where
  "claudeFailOpenStdout reason diagnostic =
     (let notice = FailOpenNoticeText reason diagnostic in
      if notice = [] then ClaudeAllow
      else json_encode_object [(''systemMessage'', json_quote notice)] @ newline)"

definition renderClaudeResponse :: "ResponseRequest \<Rightarrow> Response" where
  "renderClaudeResponse request =
     (if rq_Decision request = ResponseDecisionBlock
      then \<lparr>rs_Stdout = ClaudeAllow, rs_Stderr = ClaudeBlockText (rq_DiagnosticText request), rs_ExitCode = 2\<rparr>
      else if rq_FailOpenReason request \<noteq> []
      then \<lparr>rs_Stdout = claudeFailOpenStdout (rq_FailOpenReason request) (rq_DiagnosticText request),
            rs_Stderr = failOpenStderr (rq_FailOpenReason request) (rq_DiagnosticText request), rs_ExitCode = 0\<rparr>
      else if rq_ContextText request = [] \<and> rq_MutationText request = [] then stdout_only ClaudeAllow
      else
        (let capability = LookupResponseCapability SystemClaude (rq_EventName request);
             out = \<lparr>ch_HookEventName = rq_EventName request, ch_PermissionDecision = [],
                    ch_AdditionalContext =
                      (if Supports capability ResponseCapabilityInject then rq_ContextText request else []),
                    ch_UpdatedInput = [], ch_UpdatedToolOutput = []\<rparr>;
             out1 = applyClaudeMutation capability (rq_MutationText request) out in
         if ch_AdditionalContext out1 = [] \<and> ch_UpdatedInput out1 = [] \<and> ch_UpdatedToolOutput out1 = []
         then stdout_only ClaudeAllow
         else case claude_members out1 of
           None \<Rightarrow> stdout_only ClaudeAllow
         | Some ms \<Rightarrow> stdout_only (json_encode_object [(''hookSpecificOutput'', json_encode_object ms)] @ newline)))"

section \<open>Codex\<close>

record CodexHookSpecificOutput =
  cx_HookEventName :: bytes
  cx_PermissionDecision :: bytes
  cx_PermissionDecisionReason :: bytes
  cx_Decision :: "(bytes \<times> bytes) option"
  cx_AdditionalContext :: bytes
  cx_UpdatedInput :: bytes

record codexResponse =
  cx_Continue :: "bool option"
  cx_StopReason :: bytes
  cx_SystemMessage :: bytes
  cx_SuppressOutput :: "bool option"
  cx_BlockDecision :: bytes
  cx_Reason :: bytes
  cx_HookSpecificOutput :: "CodexHookSpecificOutput option"

definition CodexAllow :: bytes where "CodexAllow = ''{}'' @ newline"

definition empty_codex :: codexResponse where
  "empty_codex = \<lparr>cx_Continue = None, cx_StopReason = [], cx_SystemMessage = [], cx_SuppressOutput = None,
     cx_BlockDecision = [], cx_Reason = [], cx_HookSpecificOutput = None\<rparr>"

definition codex_output :: "bytes \<Rightarrow> CodexHookSpecificOutput" where
  "codex_output event = \<lparr>cx_HookEventName = event, cx_PermissionDecision = [], cx_PermissionDecisionReason = [],
     cx_Decision = None, cx_AdditionalContext = [], cx_UpdatedInput = []\<rparr>"

definition codex_output_members :: "CodexHookSpecificOutput \<Rightarrow> (bytes \<times> bytes) list option" where
  "codex_output_members out =
     (case raw_member ''updatedInput'' (cx_UpdatedInput out) of
        None \<Rightarrow> None
      | Some input \<Rightarrow>
          Some (text_member ''hookEventName'' (cx_HookEventName out)
            @ text_member ''permissionDecision'' (cx_PermissionDecision out)
            @ text_member ''permissionDecisionReason'' (cx_PermissionDecisionReason out)
            @ object_member ''decision''
                (map_option (\<lambda>(behavior, message). text_member ''behavior'' behavior @ text_member ''message'' message)
                  (cx_Decision out))
            @ text_member ''additionalContext'' (cx_AdditionalContext out) @ input))"

definition codex_members :: "codexResponse \<Rightarrow> (bytes \<times> bytes) list option" where
  "codex_members resp =
     (case (case cx_HookSpecificOutput resp of
              None \<Rightarrow> Some None
            | Some out \<Rightarrow> map_option Some (codex_output_members out)) of
        None \<Rightarrow> None
      | Some inner \<Rightarrow>
          Some (bool_member ''continue'' (cx_Continue resp)
            @ text_member ''stopReason'' (cx_StopReason resp)
            @ text_member ''systemMessage'' (cx_SystemMessage resp)
            @ bool_member ''suppressOutput'' (cx_SuppressOutput resp)
            @ text_member ''decision'' (cx_BlockDecision resp)
            @ text_member ''reason'' (cx_Reason resp)
            @ object_member ''hookSpecificOutput'' inner))"

definition encode_codex :: "codexResponse \<Rightarrow> bytes" where
  "encode_codex resp =
     (case codex_members resp of None \<Rightarrow> CodexAllow | Some ms \<Rightarrow> json_encode_object ms @ newline)"

definition CodexBlockText :: "bytes \<Rightarrow> bytes \<Rightarrow> bytes" where
  "CodexBlockText eventName text =
     (if eventName = ''PreToolUse'' then
        encode_codex (empty_codex\<lparr>cx_SystemMessage := text,
          cx_HookSpecificOutput := Some ((codex_output ''PreToolUse'')
            \<lparr>cx_PermissionDecision := ''deny'', cx_PermissionDecisionReason := text\<rparr>)\<rparr>)
      else if eventName = ''PermissionRequest'' then
        encode_codex (empty_codex\<lparr>cx_HookSpecificOutput :=
          Some ((codex_output ''PermissionRequest'')\<lparr>cx_Decision := Some (''deny'', text)\<rparr>)\<rparr>)
      else if eventName = ''PostToolUse'' then
        encode_codex (empty_codex\<lparr>cx_Continue := Some False, cx_StopReason := text, cx_BlockDecision := ''block'',
          cx_Reason := text\<rparr>)
      else if eventName = ''UserPromptSubmit'' then
        encode_codex (empty_codex\<lparr>cx_BlockDecision := ''block'', cx_Reason := text\<rparr>)
      else if eventName \<in> {''Stop'', ''SessionStart'', ''PreCompact'', ''PostCompact'', ''SubagentStart'', ''SubagentStop''}
      then CodexAllow
      else encode_codex (empty_codex\<lparr>cx_BlockDecision := ''block'', cx_Reason := text\<rparr>))"

definition CodexBlock :: "bytes \<Rightarrow> bytes \<Rightarrow> bytes \<Rightarrow> bytes" where
  "CodexBlock eventName ruleName message = CodexBlockText eventName (''agent-gate: ['' @ ruleName @ ''] '' @ message)"

definition codex_effects :: "ResponseRequest \<Rightarrow> CodexHookSpecificOutput" where
  "codex_effects request =
     (let capability = LookupResponseCapability SystemCodex (rq_EventName request);
          out = (codex_output (rq_EventName request))\<lparr>cx_AdditionalContext :=
            (if Supports capability ResponseCapabilityInject then rq_ContextText request else [])\<rparr> in
      if Supports capability ResponseCapabilityToolInputMutation \<and> rq_MutationText request \<noteq> [] then
        case validStructuredMutation (rq_MutationText request) of
          None \<Rightarrow> out
        | Some mutation \<Rightarrow> out\<lparr>cx_UpdatedInput := mutation, cx_PermissionDecision := ''allow''\<rparr>
      else out)"

definition renderCodexResponse :: "ResponseRequest \<Rightarrow> Response" where
  "renderCodexResponse request =
     (if rq_Decision request = ResponseDecisionBlock
      then stdout_only (CodexBlockText (rq_EventName request) (rq_DiagnosticText request))
      else if rq_ContextText request = [] \<and> rq_MutationText request = [] then stdout_only CodexAllow
      else
        (let out = codex_effects request in
         if cx_AdditionalContext out = [] \<and> cx_UpdatedInput out = [] then stdout_only CodexAllow
         else stdout_only (encode_codex (empty_codex\<lparr>cx_HookSpecificOutput := Some out\<rparr>))))"

section \<open>Cursor\<close>

record cursorResponse =
  cu_Permission :: bytes
  cu_Continue :: "bool option"
  cu_UserMessage :: bytes
  cu_AgentMessage :: bytes
  cu_FollowupMessage :: bytes
  cu_AdditionalContext :: bytes
  cu_UpdatedMCPToolOutput :: bytes

definition cursor_response :: "bytes \<Rightarrow> cursorResponse" where
  "cursor_response permission = \<lparr>cu_Permission = permission, cu_Continue = None, cu_UserMessage = [], cu_AgentMessage = [],
     cu_FollowupMessage = [], cu_AdditionalContext = [], cu_UpdatedMCPToolOutput = []\<rparr>"

definition cursor_members :: "cursorResponse \<Rightarrow> (bytes \<times> bytes) list option" where
  "cursor_members resp =
     (case raw_member ''updated_mcp_tool_output'' (cu_UpdatedMCPToolOutput resp) of
        None \<Rightarrow> None
      | Some result \<Rightarrow>
          Some (text_member ''permission'' (cu_Permission resp)
            @ bool_member ''continue'' (cu_Continue resp)
            @ text_member ''user_message'' (cu_UserMessage resp)
            @ text_member ''agent_message'' (cu_AgentMessage resp)
            @ text_member ''followup_message'' (cu_FollowupMessage resp)
            @ text_member ''additional_context'' (cu_AdditionalContext resp) @ result))"

definition CursorAllow :: bytes where
  "CursorAllow =
     (case cursor_members (cursor_response ''allow'') of
        None \<Rightarrow> json_encode_object [(''permission'', json_quote ''allow'')] @ newline
      | Some ms \<Rightarrow> json_encode_object ms @ newline)"

definition CursorBlockText :: "bytes \<Rightarrow> bytes" where
  "CursorBlockText text =
     (case cursor_members ((cursor_response ''deny'')\<lparr>cu_UserMessage := text, cu_AgentMessage := text\<rparr>) of
        None \<Rightarrow> json_encode_object [(''permission'', json_quote ''deny'')] @ newline
      | Some ms \<Rightarrow> json_encode_object ms @ newline)"

definition CursorBlock :: "bytes \<Rightarrow> bytes \<Rightarrow> bytes" where
  "CursorBlock ruleName message = CursorBlockText (''agent-gate: ['' @ ruleName @ ''] '' @ message)"

definition cursor_effects :: "ResponseRequest \<Rightarrow> cursorResponse" where
  "cursor_effects request =
     (let capability = LookupResponseCapability SystemCursor (rq_EventName request);
          resp = cursor_response ''allow'';
          resp1 =
            (if Supports capability ResponseCapabilityInject then
               if rq_EventName request = ''stop'' then resp\<lparr>cu_FollowupMessage := rq_ContextText request\<rparr>
               else resp\<lparr>cu_AdditionalContext := rq_ContextText request\<rparr>
             else resp) in
      if Supports capability ResponseCapabilityToolOutputMutation \<and> rq_MutationText request \<noteq> [] then
        case validStructuredMutation (rq_MutationText request) of
          None \<Rightarrow> resp1
        | Some mutation \<Rightarrow> resp1\<lparr>cu_UpdatedMCPToolOutput := mutation\<rparr>
      else resp1)"

definition renderCursorResponse :: "ResponseRequest \<Rightarrow> Response" where
  "renderCursorResponse request =
     (if rq_Decision request = ResponseDecisionBlock
      then stdout_only (CursorBlockText (rq_DiagnosticText request))
      else if rq_ContextText request = [] \<and> rq_MutationText request = [] then stdout_only CursorAllow
      else
        (let resp = cursor_effects request in
         if cu_FollowupMessage resp = [] \<and> cu_AdditionalContext resp = [] \<and> cu_UpdatedMCPToolOutput resp = []
         then stdout_only CursorAllow
         else case cursor_members resp of
           None \<Rightarrow> stdout_only CursorAllow
         | Some ms \<Rightarrow> stdout_only (json_encode_object ms @ newline)))"

section \<open>Copilot\<close>

record copilotResponse =
  cp_AdditionalContext :: bytes
  cp_ModifiedArgs :: bytes
  cp_ModifiedResult :: bytes
  cp_ModifiedTransformedPrompt :: bytes

definition empty_copilot :: copilotResponse where
  "empty_copilot = \<lparr>cp_AdditionalContext = [], cp_ModifiedArgs = [], cp_ModifiedResult = [], cp_ModifiedTransformedPrompt = []\<rparr>"

definition prependContext :: "bytes \<Rightarrow> bytes \<Rightarrow> bytes" where
  "prependContext contextText prompt =
     (if contextText = [] then prompt else if prompt = [] then contextText
      else contextText @ newline @ newline @ prompt)"

definition copilotPromptResponseOutput :: "ResponseCapability \<Rightarrow> bytes \<Rightarrow> bytes \<Rightarrow> bytes \<Rightarrow> bytes" where
  "copilotPromptResponseOutput capability contextText mutationText promptText =
     (if \<not> Supports capability ResponseCapabilityPromptMutation then []
      else if mutationText \<noteq> [] then prependContext contextText mutationText
      else if contextText = [] \<or> \<not> Supports capability ResponseCapabilityInject then []
      else prependContext contextText promptText)"

definition applyCopilotInjection :: "ResponseCapability \<Rightarrow> bytes \<Rightarrow> bytes \<Rightarrow> copilotResponse \<Rightarrow> copilotResponse" where
  "applyCopilotInjection capability contextText promptText response =
     (if contextText = [] \<or> \<not> Supports capability ResponseCapabilityInject then response
      else if Supports capability ResponseCapabilityPromptMutation
      then response\<lparr>cp_ModifiedTransformedPrompt := prependContext contextText promptText\<rparr>
      else response\<lparr>cp_AdditionalContext := contextText\<rparr>)"

text \<open>A pointer to a string: null makes it nil again.\<close>

fun decode_string_pointer :: "bytes option \<Rightarrow> bytes list \<Rightarrow> bytes option option" where
  "decode_string_pointer old [] = Some old"
| "decode_string_pointer old (v # vs) =
     (if json_null v then decode_string_pointer None vs
      else case json_string v of None \<Rightarrow> None | Some s \<Rightarrow> decode_string_pointer (Some s) vs)"

definition validCopilotToolOutputMutation :: "bytes \<Rightarrow> bytes option" where
  "validCopilotToolOutputMutation v =
     (case validStructuredMutation v of
        None \<Rightarrow> None
      | Some mutation \<Rightarrow>
          (case (if json_null mutation then Some [] else json_members mutation) of
             None \<Rightarrow> None
           | Some ms \<Rightarrow>
               (case (json_decode json_string [] (json_values ''resultType'' ms),
                      decode_string_pointer None (json_values ''textResultForLlm'' ms)) of
                  (Some kind, Some text) \<Rightarrow> if kind \<noteq> ''success'' \<or> text = None then None else Some mutation
                | _ \<Rightarrow> None)))"

definition applyCopilotMutation :: "ResponseCapability \<Rightarrow> bytes \<Rightarrow> bytes \<Rightarrow> copilotResponse \<Rightarrow> copilotResponse" where
  "applyCopilotMutation capability contextText mutationText response =
     (if mutationText = [] then response
      else if Supports capability ResponseCapabilityPromptMutation
      then response\<lparr>cp_ModifiedTransformedPrompt := prependContext contextText mutationText\<rparr>
      else case validStructuredMutation mutationText of
        None \<Rightarrow> response
      | Some mutation \<Rightarrow>
          if Supports capability ResponseCapabilityToolInputMutation then response\<lparr>cp_ModifiedArgs := mutation\<rparr>
          else if Supports capability ResponseCapabilityToolOutputMutation then
            (case validCopilotToolOutputMutation mutationText of
               Some toolResult \<Rightarrow> response\<lparr>cp_ModifiedResult := toolResult\<rparr>
             | None \<Rightarrow> response)
          else response)"

definition copilot_members :: "copilotResponse \<Rightarrow> (bytes \<times> bytes) list option" where
  "copilot_members resp =
     (case (raw_member ''modifiedArgs'' (cp_ModifiedArgs resp), raw_member ''modifiedResult'' (cp_ModifiedResult resp)) of
        (Some args, Some result) \<Rightarrow>
          Some (text_member ''additionalContext'' (cp_AdditionalContext resp) @ args @ result
            @ text_member ''modifiedTransformedPrompt'' (cp_ModifiedTransformedPrompt resp))
      | _ \<Rightarrow> None)"

definition renderCopilotResponse :: "ResponseRequest \<Rightarrow> Response" where
  "renderCopilotResponse request =
     (if rq_Decision request = ResponseDecisionBlock then renderClaudeResponse request
      else if rq_ContextText request = [] \<and> rq_MutationText request = [] then stdout_only ClaudeAllow
      else
        (let capability = LookupResponseCapability SystemCopilot (rq_EventName request);
             response =
               (if Supports capability ResponseCapabilityPromptMutation then
                  empty_copilot\<lparr>cp_ModifiedTransformedPrompt :=
                    copilotPromptResponseOutput capability (rq_ContextText request) (rq_MutationText request)
                      (rq_PromptText request)\<rparr>
                else applyCopilotMutation capability (rq_ContextText request) (rq_MutationText request)
                  (applyCopilotInjection capability (rq_ContextText request) (rq_PromptText request) empty_copilot)) in
         if cp_AdditionalContext response = [] \<and> cp_ModifiedArgs response = [] \<and> cp_ModifiedResult response = []
           \<and> cp_ModifiedTransformedPrompt response = []
         then stdout_only ClaudeAllow
         else case copilot_members response of
           None \<Rightarrow> stdout_only ClaudeAllow
         | Some ms \<Rightarrow> stdout_only (json_encode_object ms @ newline)))"

section \<open>Gemini and unknown providers\<close>

definition GeminiAllow :: bytes where "GeminiAllow = ''{}'' @ newline"

definition GeminiBlockText :: "bytes \<Rightarrow> bytes \<Rightarrow> bytes" where
  "GeminiBlockText eventName text =
     (if eventName \<in> {''AfterAgent'', ''AfterTool'', ''BeforeTool'', ''BeforeAgent'', ''BeforeModel'', ''AfterModel''}
      then json_encode_object (text_member ''decision'' ''deny'' @ text_member ''reason'' text) @ newline
      else json_encode_object [] @ newline)"

definition GeminiBlock :: "bytes \<Rightarrow> bytes \<Rightarrow> bytes \<Rightarrow> bytes" where
  "GeminiBlock eventName ruleName message = GeminiBlockText eventName (''agent-gate: ['' @ ruleName @ ''] '' @ message)"

definition renderGeminiResponse :: "ResponseRequest \<Rightarrow> Response" where
  "renderGeminiResponse request =
     (if rq_Decision request = ResponseDecisionBlock
      then stdout_only (GeminiBlockText (rq_EventName request) (rq_DiagnosticText request))
      else stdout_only GeminiAllow)"

definition renderUnknownResponse :: "ResponseRequest \<Rightarrow> Response" where
  "renderUnknownResponse request =
     (if rq_Decision request = ResponseDecisionBlock
      then \<lparr>rs_Stdout = [], rs_Stderr = rq_DiagnosticText request @ newline, rs_ExitCode = 2\<rparr>
      else \<lparr>rs_Stdout = [], rs_Stderr = failOpenStderr (rq_FailOpenReason request) (rq_DiagnosticText request),
            rs_ExitCode = 0\<rparr>)"

section \<open>Rendering\<close>

definition renderForSystem :: "ResponseRequest \<Rightarrow> Response" where
  "renderForSystem request =
     (case rq_System request of
        SystemCursor \<Rightarrow> renderCursorResponse request
      | SystemCodex \<Rightarrow> renderCodexResponse request
      | SystemGemini \<Rightarrow> renderGeminiResponse request
      | SystemClaude \<Rightarrow> renderClaudeResponse request
      | SystemVSCode \<Rightarrow> renderClaudeResponse request
      | SystemCopilot \<Rightarrow> renderCopilotResponse request
      | SystemResponse \<Rightarrow> renderUnknownResponse request
      | SystemUnknown \<Rightarrow> renderUnknownResponse request)"

definition block_diagnostic :: "ResponseRequest \<Rightarrow> bytes" where
  "block_diagnostic request =
     (let text = diagnosticWithEventID (rq_DiagnosticText request) (rq_EventID request) in
      if rq_Footer request \<noteq> [] then text @ newline @ rq_Footer request else text)"

definition RenderResponse :: "ResponseRequest \<Rightarrow> Response" where
  "RenderResponse request =
     (let request1 = (if rq_Decision request = ResponseDecisionBlock
                      then request\<lparr>rq_DiagnosticText := block_diagnostic request\<rparr> else request);
          rendered = renderForSystem request1 in
      if rq_FailOpenReason request1 \<noteq> [] \<and> rs_Stderr rendered = []
      then rendered\<lparr>rs_Stderr := failOpenStderr (rq_FailOpenReason request1) (rq_DiagnosticText request1)\<rparr>
      else rendered)"

definition FailOpenResponse :: "System \<Rightarrow> bytes \<Rightarrow> bytes \<Rightarrow> bytes \<Rightarrow> Response" where
  "FailOpenResponse system eventName diagnosticText reason =
     RenderResponse \<lparr>rq_System = system, rq_EventName = eventName, rq_Decision = ResponseDecisionAllow,
       rq_DiagnosticText = diagnosticText, rq_EventID = [], rq_Footer = [], rq_FailOpenReason = reason,
       rq_ContextText = [], rq_MutationText = [], rq_PromptText = []\<rparr>"

end
