(* ===== verification/JsonQuote.thy ===== *)
theory JsonQuote
  imports JsonProps
begin

text \<open>
  Encoded strings are valid values and are read back as they were written, with U+FFFD for each
  ill-formed byte; encoded objects are valid and keep their members.
\<close>

section \<open>Escapes\<close>

lemma hex_value_digit:
  assumes "n < 16"
  shows "hex_value (hex_digit n) = Some n"
proof -
  have "list_all (\<lambda>n. hex_value (hex_digit n) = Some n) [0..<16]" by code_simp
  then show ?thesis using assms by (simp add: list_all_iff)
qed

lemma scan_unicode_escape: "scan_run (unicode_escape n @ t) (ScanString, st) = scan_run t (ScanString, st)"
proof -
  have scan: "\<And>x st. x < 16 \<Longrightarrow> scan_step (hex_digit x) (ScanUnicode m, st)
    = Some (case m of 0 \<Rightarrow> ScanString | Suc k \<Rightarrow> ScanUnicode k, st)" for m
    by (simp add: hex_value_digit)
  have steps: "scan_step (CHR 0x5C) (ScanString, st) = Some (ScanEscape, st)" "scan_step (CHR ''u'') (ScanEscape, st) = Some (ScanUnicode 3, st)"
    by (simp_all add: insert_eq_iff)
  show ?thesis
    unfolding unicode_escape_def
    by (simp only: append.simps scan_run.simps steps option.case scan numeral_3_eq_3 nat.case mod_less_divisor zero_less_numeral)
qed

lemma scan_string_byte:
  assumes "c \<noteq> CHR 0x22" "c \<noteq> CHR 0x5C" "0x20 \<le> (of_char c :: nat)"
  shows "scan_run (c # t) (ScanString, st) = scan_run t (ScanString, st)"
  using assms by simp

lemma scan_high:
  assumes "\<forall>y \<in> set s. 0x80 \<le> (of_char y :: nat)"
  shows "scan_run (s @ t) (ScanString, st) = scan_run t (ScanString, st)"
  using assms
proof (induction s)
  case (Cons y s)
  then have "y \<noteq> CHR 0x22" "y \<noteq> CHR 0x5C" "0x20 \<le> (of_char y :: nat)" by auto
  then show ?case using Cons scan_string_byte [of y "s @ t" st] by simp
qed simp

definition simple_escapes :: "(char \<times> char) list" where
  "simple_escapes = [(CHR 0x22, CHR 0x22), (CHR 0x5C, CHR 0x5C), (CHR 0x08, CHR ''b''), (CHR 0x0C, CHR ''f''),
     (CHR 0x0A, CHR ''n''), (CHR 0x0D, CHR ''r''), (CHR 0x09, CHR ''t'')]"

lemma encode_byte_cases:
  obtains (escape) e where "encode_rune [c] = [CHR 0x5C, e]" "(c, e) \<in> set simple_escapes"
  | (unicode) "encode_rune [c] = unicode_escape (of_char c)" "(of_char c :: nat) < 0x80"
  | (plain) "encode_rune [c] = [c]" "c \<noteq> CHR 0x22" "c \<noteq> CHR 0x5C" "0x20 \<le> (of_char c :: nat)"
proof -
  consider "c \<in> {CHR 0x22, CHR 0x5C}" | "c = CHR 0x08" | "c = CHR 0x0C" | "c = CHR 0x0A" | "c = CHR 0x0D" | "c = CHR 0x09"
    | "c \<notin> {CHR 0x22, CHR 0x5C, CHR 0x08, CHR 0x0C, CHR 0x0A, CHR 0x0D, CHR 0x09}" by blast
  then show thesis
  proof cases
    case 7
    then have e: "encode_rune [c] =
        (if (of_char c :: nat) < 0x20 \<or> c \<in> {CHR ''<'', CHR ''>'', CHR ''&''} then unicode_escape (of_char c) else [c])"
      by (simp add: encode_rune_def)
    show thesis
    proof (cases "(of_char c :: nat) < 0x20 \<or> c \<in> {CHR ''<'', CHR ''>'', CHR ''&''}")
      case True
      then have "(of_char c :: nat) < 0x80" by auto
      then show thesis using e True unicode by (simp only: if_True)
    next
      case False
      then show thesis using e 7 plain by auto
    qed
  qed (use escape in \<open>auto simp: encode_rune_def simple_escapes_def\<close>)
qed

lemma scan_encode_rune:
  assumes "(\<exists>x. r = [x]) \<or> (\<forall>y \<in> set r. 0x80 \<le> (of_char y :: nat))"
  shows "scan_run (encode_rune r @ t) (ScanString, st) = scan_run t (ScanString, st)"
proof (cases "\<exists>x. r = [x]")
  case True
  then obtain c where r: "r = [c]" by blast
  show ?thesis unfolding r
  proof (cases c rule: encode_byte_cases)
    case (escape e)
    then show "scan_run (encode_rune [c] @ t) (ScanString, st) = scan_run t (ScanString, st)"
      by (auto simp: simple_escapes_def)
  next
    case unicode
    then show "scan_run (encode_rune [c] @ t) (ScanString, st) = scan_run t (ScanString, st)"
      using scan_unicode_escape by simp
  next
    case plain
    then show "scan_run (encode_rune [c] @ t) (ScanString, st) = scan_run t (ScanString, st)"
      using scan_string_byte by simp
  qed
next
  case False
  then have "encode_rune r = (if r = [CHR 0xE2, CHR 0x80, CHR 0xA8] then unicode_escape 0x2028
        else if r = [CHR 0xE2, CHR 0x80, CHR 0xA9] then unicode_escape 0x2029 else r)"
    by (auto simp: encode_rune_def split: list.splits)
  then show ?thesis using assms False scan_high scan_unicode_escape by auto
qed

lemma rune_bytes_shape:
  assumes "rune_width s \<noteq> 0"
  shows "(\<exists>x. take (rune_width s) s = [x]) \<or> (\<forall>y \<in> set (take (rune_width s) s). 0x80 \<le> (of_char y :: nat))"
proof (cases "rune_width s = 1")
  case True
  then obtain c cs where "s = c # cs" using assms by (cases s) (auto simp: rune_width_def)
  then show ?thesis using True by simp
next
  case False
  then show ?thesis using rune_bytes_high [of s] assms by simp
qed

lemma scan_encode_body: "scan_run (encode_body s @ t) (ScanString, st) = scan_run t (ScanString, st)"
proof (induction s rule: encode_body.induct)
  case (2 c cs)
  show ?case
  proof (cases "rune_width (c # cs) = 0")
    case True
    then show ?thesis using 2(1) scan_unicode_escape by simp
  next
    case False
    then show ?thesis using 2(2) scan_encode_rune [OF rune_bytes_shape [OF False]] by simp
  qed
qed simp

text \<open>A quoted string is one value, wherever a value or a name may stand.\<close>

lemma scan_quote:
  "scan_run (json_quote s @ t) (ScanBeginValue, st) = scan_run t (ScanEndValue, st)"
  "scan_run (json_quote s @ t) (ScanBeginString, st) = scan_run t (ScanEndValue, st)"
  "scan_run (json_quote s @ t) (ScanBeginStringOrEmpty, st) = scan_run t (ScanEndValue, st)"
  by (simp_all add: json_quote_def scan_encode_body scan_begin_value_def scan_begin_string_def json_space_def)

section \<open>Valid encodings\<close>

text \<open>A text that is one value in every context.\<close>

definition after_value :: "parse_frame list \<Rightarrow> scan_state \<Rightarrow> bool" where
  "after_value st e \<longleftrightarrow> e = ScanEndValue \<or> (e = ScanEndTop \<and> st = [])"

definition value_text :: "nat \<Rightarrow> bytes \<Rightarrow> bool" where
  "value_text d v \<longleftrightarrow> v \<noteq> [] \<and> \<not> json_space (hd v)
     \<and> (\<forall>st. length st + d \<le> maxNestingDepth \<longrightarrow>
          (\<exists>e. after_value st e \<and> (\<forall>t. scan_run (v @ t) (ScanBeginValue, st) = scan_run t (e, st))))"

lemma value_quote [simp]: "value_text d (json_quote s)"
proof -
  have "\<exists>e. after_value st e \<and> (\<forall>t. scan_run (json_quote s @ t) (ScanBeginValue, st) = scan_run t (e, st))" for st
    using scan_quote(1) [of s _ st] by (auto simp: after_value_def)
  then show ?thesis by (simp add: value_text_def) (simp add: json_quote_def json_space_def)
qed

lemma value_literal [simp]: "value_text d ''true''" "value_text d ''false''"
  by (auto simp: value_text_def scan_begin_value_def json_space_def after_value_def)

lemma value_weaken: "value_text d v \<Longrightarrow> d \<le> e \<Longrightarrow> value_text e v"
  by (auto simp: value_text_def)

lemma value_valid:
  assumes "value_text d v" "d \<le> maxNestingDepth"
  shows "json_Valid v"
proof -
  obtain e where e: "after_value [] e" "\<And>t. scan_run (v @ t) (ScanBeginValue, []) = scan_run t (e, [])"
    using assms unfolding value_text_def by (metis add_0 list.size(3))
  then show ?thesis
    using e(2) [of "[]"] by (auto simp: after_value_def json_Valid_def scan_eof_def json_space_def)
qed

lemma value_nested:
  assumes "value_text d v" "Suc (length st) + d \<le> maxNestingDepth"
  shows "scan_run (v @ t) (ScanBeginValue, f # st) = scan_run t (ScanEndValue, f # st)"
  using assms unfolding value_text_def after_value_def
  by (metis add_Suc length_Cons list.distinct(1) nat_arith.suc1)

lemma scan_members:
  assumes "\<forall>(n, v) \<in> set ms. value_text d v" "ms \<noteq> []" "Suc (length st) + d \<le> maxNestingDepth"
    "s \<in> {ScanBeginString, ScanBeginStringOrEmpty}"
  shows "scan_run (Join (map (\<lambda>(n, v). json_quote n @ '':'' @ v) ms) '','' @ ''}'' @ t) (s, ParseObjectKey # st)
    = scan_run t (if st = [] then ScanEndTop else ScanEndValue, st)"
  using assms(1,2,4)
proof (induction ms arbitrary: s)
  case (Cons m ms)
  obtain n v where m: "m = (n, v)" by fastforce
  have v: "value_text d v" using Cons.prems m by simp
  have quoted: "scan_run (json_quote n @ u) (s, ParseObjectKey # st) = scan_run u (ScanEndValue, ParseObjectKey # st)" for u
    using Cons.prems(3) scan_quote by auto
  have item: "scan_run (json_quote n @ CHR '':'' # v @ u) (s, ParseObjectKey # st) = scan_run u (ScanEndValue, ParseObjectValue # st)" for u
    unfolding quoted using value_nested [OF v assms(3)] by (simp add: json_space_def)
  show ?case
  proof (cases ms)
    case Nil
    then show ?thesis using m item [of "CHR ''}'' # t"]
      by (simp add: json_space_def scan_pop_def)
  next
    case (Cons m2 rest)
    have "scan_run (Join (map (\<lambda>(n, v). json_quote n @ '':'' @ v) ms) '','' @ ''}'' @ t) (ScanBeginString, ParseObjectKey # st)
        = scan_run t (if st = [] then ScanEndTop else ScanEndValue, st)"
      using Cons.IH [of ScanBeginString] Cons.prems Cons by simp
    then show ?thesis using m item Cons by (simp add: json_space_def)
  qed
qed simp

lemma value_object:
  assumes "\<forall>(n, v) \<in> set ms. value_text d v"
  shows "value_text (Suc d) (json_encode_object ms)"
proof -
  have "scan_run (json_encode_object ms @ t) (ScanBeginValue, st) = scan_run t (if st = [] then ScanEndTop else ScanEndValue, st)"
    if depth: "length st + Suc d \<le> maxNestingDepth" for t st
  proof (cases ms)
    case Nil
    then show ?thesis using depth
      by (simp add: json_encode_object_def scan_begin_value_def scan_push_def json_space_def scan_pop_def)
  next
    case (Cons m rest)
    then have "scan_run (json_encode_object ms @ t) (ScanBeginValue, st)
        = scan_run (Join (map (\<lambda>(n, v). json_quote n @ '':'' @ v) ms) '','' @ ''}'' @ t) (ScanBeginStringOrEmpty, ParseObjectKey # st)"
      using depth by (simp add: json_encode_object_def scan_begin_value_def scan_push_def json_space_def)
    then show ?thesis using scan_members [OF assms, of st] depth Cons by simp
  qed
  then have "\<exists>e. after_value st e \<and> (\<forall>t. scan_run (json_encode_object ms @ t) (ScanBeginValue, st) = scan_run t (e, st))"
    if "length st + Suc d \<le> maxNestingDepth" for st
    using that by (intro exI [of _ "if st = [] then ScanEndTop else ScanEndValue"]) (simp add: after_value_def)
  moreover have "json_encode_object ms \<noteq> []" "\<not> json_space (hd (json_encode_object ms))"
    by (simp_all add: json_encode_object_def json_space_def)
  ultimately show ?thesis by (simp add: value_text_def)
qed

section \<open>Reading back\<close>

lemma hex4_unicode_escape:
  assumes "n < 65536"
  shows "getu4 (unicode_escape n @ t) = Some n" "drop 6 (unicode_escape n @ t) = t"
proof -
  have "((n div 4096 mod 16 * 16 + n div 256 mod 16) * 16 + n div 16 mod 16) * 16 + n mod 16 = n"
  proof -
    have "n div 4096 = n div 256 div 16" "n div 256 = n div 16 div 16" by (simp_all add: div_mult2_eq [symmetric])
    moreover have "n div 4096 mod 16 = n div 4096" using assms by simp
    ultimately have "n div 4096 mod 16 * 16 + n div 256 mod 16 = n div 256" "n div 256 * 16 + n div 16 mod 16 = n div 16"
      by simp_all
    then show ?thesis by simp
  qed
  moreover have "n div 4096 mod 16 = n div 4096" using assms by simp
  ultimately show "getu4 (unicode_escape n @ t) = Some n" "drop 6 (unicode_escape n @ t) = t"
    using assms hex_value_digit [of "n div 4096"]
    by (simp_all add: getu4_def hex4_def unicode_escape_def hex_value_digit algebra_simps)
qed

lemma unquote_unicode:
  assumes "n < 0xD800 \<or> 0xDC00 \<le> n" "n < 65536"
  shows "unquote_body (unicode_escape n @ t) = utf8_encode n @ unquote_body t"
proof -
  obtain cs where cs: "unicode_escape n @ t = CHR 0x5C # cs" by (simp add: unicode_escape_def)
  have eqs: "getu4 (CHR 0x5C # cs) = Some n" "drop 6 (CHR 0x5C # cs) = t" "\<not> (0xD800 \<le> n \<and> n < 0xDC00)"
    using hex4_unicode_escape [OF assms(2), of t] assms(1) by (simp_all only: cs) auto
  show ?thesis unfolding cs
    by (subst unquote_body.simps) (simp only: list.case eqs option.case if_True refl simp_thms conj_assoc [symmetric] split: option.split, simp add: eqs)
qed

lemma unquote_simple:
  assumes "(c, e) \<in> set simple_escapes"
  shows "unquote_body (CHR 0x5C # e # t) = c # unquote_body t"
proof -
  have "getu4 (CHR 0x5C # e # t) = None" using assms by (auto simp: getu4_def simple_escapes_def)
  moreover have "escape_byte e = c" using assms by (auto simp: escape_byte_def simple_escapes_def)
  ultimately show ?thesis by (subst unquote_body.simps) simp
qed

lemma cont_in_append: "i < length r \<Longrightarrow> cont_in (r @ t) i lo hi = cont_in r i lo hi"
  by (simp add: cont_in_def nth_append)

lemma rune_width_le: "rune_width s \<le> length s"
proof (cases s)
  case (Cons c cs)
  have long: "cont_in (c # cs) i lo hi \<Longrightarrow> Suc i \<le> length (c # cs)" for i lo hi
    unfolding cont_in_def by (elim conjE) (rule Suc_leI)
  show ?thesis
    unfolding Cons using rune_width_cases [of c cs]
    by (elim disjE conjE) (auto dest!: long)
qed (simp add: rune_width_def)

lemma width_cong:
  assumes "(if A then 1 else if B then (if P then 2 else 0) else if C then (if Q then 3 else 0)
      else if D then (if R then 4 else 0) else (0::nat)) = w" "w \<noteq> 0"
    "w = 2 \<Longrightarrow> P' = P" "w = 3 \<Longrightarrow> Q' = Q" "w = 4 \<Longrightarrow> R' = R"
  shows "(if A then 1 else if B then (if P' then 2 else 0) else if C then (if Q' then 3 else 0)
      else if D then (if R' then 4 else 0) else (0::nat)) = w"
  using assms by (simp split: if_splits)

lemma rune_width_take:
  assumes "rune_width s = w" "w \<noteq> 0"
  shows "rune_width (take w s @ t) = w"
proof -
  obtain c cs where s: "s = c # cs" using assms by (cases s) (auto simp: rune_width_def)
  have len: "w \<le> length s" using rune_width_le [of s] assms by simp
  have cont: "cont_in (take w s @ t) i lo hi = cont_in s i lo hi" if "i < w" for i lo hi
    using len that by (simp add: cont_in_def nth_append)
  have eq: "take w s @ t = c # take (w - 1) cs @ t" using s assms(2) by (cases w) simp_all
  note old = rune_width_def [of s, unfolded s list.case Let_def, folded s, unfolded assms(1), symmetric]
    and new = rune_width_def [of "take w s @ t", unfolded eq list.case Let_def, folded eq]
  show ?thesis
    unfolding new by (rule width_cong [OF old assms(2)]) (use cont [of 1] cont [of 2] cont [of 3] in simp_all)
qed

lemma utf8_ascii: "(of_char c :: nat) < 0x80 \<Longrightarrow> utf8_encode (of_char c) = [c]"
  by (simp add: utf8_encode_def)

lemma unquote_high:
  assumes "rune_width r = length r" "1 < length r"
  shows "unquote_body (r @ t) = r @ unquote_body t"
proof -
  obtain c cs where r: "r = c # cs" using assms by (cases r) auto
  have w: "rune_width (r @ t) = length r" using rune_width_take [of r "length r" t] assms by force
  have "0x80 \<le> (of_char c :: nat)" using rune_bytes_high [of r] assms r by simp
  then have "c \<noteq> CHR 0x5C" by auto
  then show ?thesis using w assms r by (subst unquote_body.simps) simp
qed

lemma unquote_encode_rune:
  assumes "rune_width r = length r" "r \<noteq> []"
  shows "unquote_body (encode_rune r @ t) = r @ unquote_body t"
proof (cases "\<exists>x. r = [x]")
  case True
  then obtain c where r: "r = [c]" by blast
  have ascii: "(of_char c :: nat) < 0x80"
    using assms(1) unfolding r rune_width_def by (auto simp: Let_def cont_in_def split: if_splits)
  show ?thesis unfolding r
  proof (cases c rule: encode_byte_cases)
    case (escape e)
    then show "unquote_body (encode_rune [c] @ t) = [c] @ unquote_body t" using unquote_simple by simp
  next
    case unicode
    have "unquote_body (unicode_escape (of_char c) @ t) = utf8_encode (of_char c) @ unquote_body t"
      by (rule unquote_unicode) (use ascii in linarith)+
    then show "unquote_body (encode_rune [c] @ t) = [c] @ unquote_body t"
      unfolding unicode(1) utf8_ascii [OF ascii] .
  next
    case plain
    then have "rune_width (c # t) = 1" using ascii by (simp add: rune_width_def)
    then have "unquote_body (c # t) = c # unquote_body t" using plain by (subst unquote_body.simps) simp
    then show "unquote_body (encode_rune [c] @ t) = [c] @ unquote_body t" using plain by simp
  qed
next
  case False
  then have "1 < length r" using assms(2) by (cases r; cases "tl r") auto
  moreover have "encode_rune r = (if r = [CHR 0xE2, CHR 0x80, CHR 0xA8] then unicode_escape 0x2028
        else if r = [CHR 0xE2, CHR 0x80, CHR 0xA9] then unicode_escape 0x2029 else r)"
    using False by (auto simp: encode_rune_def split: list.splits)
  moreover have "utf8_encode 0x2028 = [CHR 0xE2, CHR 0x80, CHR 0xA8]" "utf8_encode 0x2029 = [CHR 0xE2, CHR 0x80, CHR 0xA9]"
    by (simp_all add: utf8_encode_def char_of_def bit_iff_odd)
  moreover have "unquote_body (unicode_escape 0x2028 @ t) = utf8_encode 0x2028 @ unquote_body t"
    "unquote_body (unicode_escape 0x2029 @ t) = utf8_encode 0x2029 @ unquote_body t"
    by (rule unquote_unicode; simp)+
  ultimately show ?thesis using unquote_high [OF assms(1)] by (simp split: if_splits)
qed

lemma unquote_encode: "unquote_body (encode_body s) = concat (runes s)"
proof (induction s rule: encode_body.induct)
  case 1
  then show ?case by (subst unquote_body.simps) simp
next
  case (2 c cs)
  let ?w = "rune_width (c # cs)"
  show ?case
  proof (cases "?w = 0")
    case True
    have "utf8_encode 0xFFFD = rune_error" by (simp add: utf8_encode_def rune_error_def char_of_def bit_iff_odd)
    then show ?thesis using 2(1) True unquote_unicode [of "0xFFFD"] by simp
  next
    case False
    have "rune_width (take ?w (c # cs)) = ?w" using rune_width_take [of "c # cs" ?w "[]"] False by simp
    moreover have "length (take ?w (c # cs)) = ?w" using rune_width_le [of "c # cs"] by simp
    ultimately show ?thesis using 2(2) False unquote_encode_rune [of "take ?w (c # cs)"] by fastforce
  qed
qed


lemma json_trim_newline: "json_trim (v @ [CHR 0x0A]) = json_trim v"
proof -
  have nl: "json_space (CHR 0x0A)" by (simp add: json_space_def)
  show ?thesis
  proof (cases "dropWhile json_space v = []")
    case True
    then have none: "dropWhile json_space (v @ [CHR 0x0A]) = []" using nl by (auto simp: dropWhile_eq_Nil_conv)
    show ?thesis unfolding json_trim_def none True ..
  next
    case False
    then have "dropWhile json_space (v @ [CHR 0x0A]) = dropWhile json_space v @ [CHR 0x0A]"
      by (auto simp: dropWhile_eq_Nil_conv dropWhile_append)
    then show ?thesis unfolding json_trim_def using nl by simp
  qed
qed

lemma value_valid_newline:
  assumes "value_text d v" "d \<le> maxNestingDepth"
  shows "json_Valid (v @ [CHR 0x0A])"
proof -
  obtain e where e: "after_value [] e" "\<And>t. scan_run (v @ t) (ScanBeginValue, []) = scan_run t (e, [])"
    using assms unfolding value_text_def by (metis add_0 list.size(3))
  then show ?thesis
    using e(2) [of "[CHR 0x0A]"] by (auto simp: after_value_def json_Valid_def scan_eof_def json_space_def)
qed

text \<open>An encoded object, written with a final newline, is decoded into the members it was written with.\<close>

lemma members_of_object:
  assumes "\<forall>(n, v) \<in> set ms. value_text d v \<and> closed_text v \<and> name_ok n" "ms \<noteq> []" "d < maxNestingDepth"
  shows "json_members (json_encode_object ms @ [CHR 0x0A]) = Some (map (\<lambda>(n, v). (n, json_trim v)) ms)"
proof -
  have "value_text (Suc d) (json_encode_object ms)" using assms(1) by (intro value_object) auto
  then have valid: "json_Valid (json_encode_object ms)" "json_Valid (json_encode_object ms @ [CHR 0x0A])"
    using assms(3) by (auto intro!: value_valid value_valid_newline)
  have "json_members (json_encode_object ms) = Some (map (\<lambda>(n, v). (n, json_trim v)) ms)"
    using assms(1,2) valid(1) by (intro members_of_encoded) auto
  then show ?thesis
    using valid by (simp add: json_members_def starts_with_def json_inside_def json_trim_newline split: if_splits)
qed

lemma json_trim_quote [simp]: "json_trim (json_quote s) = json_quote s"
proof -
  have "rtrim (encode_body s @ [CHR 0x22]) = encode_body s @ [CHR 0x22]"
    by (simp add: rtrim_append json_space_def) (simp add: rtrim_def)
  then show ?thesis using json_trim_tight [of "CHR 0x22" "encode_body s @ [CHR 0x22]"]
    by (simp add: json_quote_def json_space_def)
qed

text \<open>The text a reader sees: U+FFFD in the place of each ill-formed byte.\<close>

definition readable :: "bytes \<Rightarrow> bytes" where
  "readable s = concat (runes s)"

lemma readable_ascii: "list_all (\<lambda>c. (of_char c :: nat) < 0x80) s \<Longrightarrow> readable s = s"
proof (induction s)
  case (Cons c cs)
  then have "rune_width (c # cs) = 1" by (simp add: rune_width_def)
  then show ?case using Cons by (simp add: readable_def)
qed (simp add: readable_def)

lemma json_string_quote [simp]: "json_string (json_quote s) = Some (readable s)"
  using value_valid [OF value_quote, of 0] unfolding readable_def
  by (simp add: json_string_def starts_with_def json_inside_def unquote_encode) (simp add: json_quote_def unquote_encode)

lemma json_null_quote [simp]: "\<not> json_null (json_quote s)"
  by (simp add: json_null_def) (simp add: json_quote_def)

end
