(* ===== verification/HookReplies.thy ===== *)
theory HookReplies
  imports HookResponse JsonQuote
begin

text \<open>
  What a provider reads from the responses of \<^verbatim>\<open>internal/hook\<close>: a block at an event that can be blocked
  arrives as a refusal with the reason, an allow never refuses, and a call that was not evaluated says
  so.
\<close>

section \<open>How a provider reads a response\<close>

text \<open>
  The providers treat exit code 2 as a refusal with the reason on the error stream, and otherwise read
  an object from standard output.  The member that refuses differs between providers and events.
\<close>

definition stdout_text :: "Response \<Rightarrow> bytes \<Rightarrow> bytes option" where
  "stdout_text r name =
     (case json_members (rs_Stdout r) of
        None \<Rightarrow> None
      | Some ms \<Rightarrow> (case map_of ms name of None \<Rightarrow> None | Some v \<Rightarrow> json_string v))"

definition nested_text :: "bytes \<Rightarrow> bytes \<Rightarrow> bytes option" where
  "nested_text v name =
     (case json_members v of
        None \<Rightarrow> None
      | Some ms \<Rightarrow> (case map_of ms name of None \<Rightarrow> None | Some w \<Rightarrow> json_string w))"

definition stdout_nested :: "Response \<Rightarrow> bytes \<Rightarrow> bytes option" where
  "stdout_nested r name =
     (case json_members (rs_Stdout r) of
        None \<Rightarrow> None
      | Some ms \<Rightarrow> map_of ms name)"

text \<open>The reason with which the provider is told to refuse, if it is.\<close>

definition refusal :: "System \<Rightarrow> bytes \<Rightarrow> Response \<Rightarrow> bytes option" where
  "refusal system event r =
     (case system of
        SystemCursor \<Rightarrow>
          if stdout_text r ''permission'' = Some ''deny'' then stdout_text r ''agent_message'' else None
      | SystemGemini \<Rightarrow>
          if stdout_text r ''decision'' = Some ''deny'' then stdout_text r ''reason'' else None
      | SystemCodex \<Rightarrow>
          (case stdout_nested r ''hookSpecificOutput'' of
             Some out \<Rightarrow>
               if nested_text out ''permissionDecision'' = Some ''deny'' then nested_text out ''permissionDecisionReason''
               else (case json_members out of
                  None \<Rightarrow> None
                | Some ms \<Rightarrow>
                    (case map_of ms ''decision'' of
                       Some d \<Rightarrow> if nested_text d ''behavior'' = Some ''deny'' then nested_text d ''message'' else None
                     | None \<Rightarrow> None))
           | None \<Rightarrow> if stdout_text r ''decision'' = Some ''block'' then stdout_text r ''reason'' else None)
      | _ \<Rightarrow> if rs_ExitCode r = 2 then Some (readable (butlast (rs_Stderr r))) else None)"

section \<open>Reading encoded members\<close>

definition plain_name :: "bytes \<Rightarrow> bool" where
  "plain_name n \<longleftrightarrow> list_all (\<lambda>c. (of_char c :: nat) < 0x80) n"

lemma plain_name_ok: "plain_name n \<Longrightarrow> name_ok n"
  by (simp add: name_ok_def unquote_encode plain_name_def readable_ascii [unfolded readable_def])

text \<open>The members of a written object are read back, values that are objects with them.\<close>

definition sound_members :: "nat \<Rightarrow> (bytes \<times> bytes) list \<Rightarrow> bool" where
  "sound_members d ms \<longleftrightarrow>
     ms \<noteq> [] \<and> list_all (\<lambda>(n, v). plain_name n \<and> value_text d v \<and> closed_text v \<and> json_trim v = v) ms"

lemma read_members:
  assumes "sound_members d ms" "d < maxNestingDepth"
  shows "json_members (json_encode_object ms @ [CHR 0x0A]) = Some ms"
    "json_members (json_encode_object ms) = Some ms"
proof -
  have ok: "\<forall>(n, v) \<in> set ms. value_text d v \<and> closed_text v \<and> name_ok n" and "ms \<noteq> []"
    using assms(1) plain_name_ok by (auto simp: sound_members_def list_all_iff)
  moreover have same: "map (\<lambda>(n, v). (n, json_trim v)) ms = ms"
    using assms(1) by (auto simp: sound_members_def list_all_iff intro!: map_idI)
  moreover have "json_Valid (json_encode_object ms)"
    using ok assms(2) by (intro value_valid [OF value_object]) auto
  ultimately show "json_members (json_encode_object ms @ [CHR 0x0A]) = Some ms"
      "json_members (json_encode_object ms) = Some ms"
    using members_of_object [of ms d] members_of_encoded [of ms] assms(2) by auto
qed

lemma object_trim [simp]: "json_trim (json_encode_object ms) = json_encode_object ms"
proof -
  let ?rest = "Join (map (\<lambda>(name, v). json_quote name @ '':'' @ v) ms) '',''"
  have "json_encode_object ms = CHR ''{'' # ?rest @ [CHR ''}'']" by (simp add: json_encode_object_def)
  moreover have "json_trim (CHR ''{'' # ?rest @ [CHR ''}'']) = CHR ''{'' # rtrim (?rest @ CHR ''}'' # [])"
    by (rule json_trim_tight) (simp add: json_space_def)
  moreover have "rtrim (?rest @ CHR ''}'' # []) = ?rest @ [CHR ''}'']"
    by (subst rtrim_append) (simp_all add: json_space_def rtrim_def)
  ultimately show ?thesis by simp
qed

lemma sound_object: "sound_members d ms \<Longrightarrow> sound_members (Suc d) [(n, json_encode_object ms)] = plain_name n"
  using value_object [of ms d] object_closed [of ms]
  by (fastforce simp: sound_members_def list_all_iff)

lemma literal_true: "closed_text ''false''" "closed_text ''true''" "json_trim ''false'' = ''false''" "json_trim ''true'' = ''true''"
  by (auto simp: json_trim_def json_space_def intro!: closed_plain) (auto simp: plain_def)


text \<open>Also when a raw value is not known to be valid, the members are read back or the whole object is refused.\<close>

definition closed_members :: "(bytes \<times> bytes) list \<Rightarrow> bool" where
  "closed_members ms \<longleftrightarrow> ms \<noteq> [] \<and> list_all (\<lambda>(n, v). plain_name n \<and> closed_text v) ms"

lemma closed_read:
  assumes "closed_members ms" "t = [] \<or> t = [CHR 0x0A]"
  shows "json_members (json_encode_object ms @ t)
    \<in> {None, Some (map (\<lambda>(n, v). (n, json_trim v)) ms)}"
proof -
  have "ms \<noteq> []" "\<forall>(n, v) \<in> set ms. closed_text v \<and> name_ok n"
    using assms(1) plain_name_ok by (auto simp: closed_members_def list_all_iff)
  note parts = encoded_parts [OF this]
  have trim: "json_trim (json_encode_object ms @ t) = json_trim (json_encode_object ms)"
    using assms(2) json_trim_newline by auto
  have "json_inside (json_encode_object ms @ t) = json_inside (json_encode_object ms)"
      "starts_with (CHR ''{'') (json_encode_object ms @ t) = starts_with (CHR ''{'') (json_encode_object ms)"
    unfolding json_inside_def starts_with_def trim by simp_all
  then show ?thesis using parts by (simp add: json_members_def)
qed


section \<open>A block reaches the agent\<close>

lemma blockable_events:
  assumes "CanBlock system event"
  shows "system = SystemClaude \<or> system = SystemCopilot \<or> system = SystemResponse \<or> system = SystemCursor
    \<or> system = SystemCodex \<and> event \<in> {''PreToolUse'', ''PermissionRequest'', ''PostToolUse'', ''UserPromptSubmit''}
    \<or> system = SystemGemini \<and> event = ''BeforeTool''"
proof -
  obtain c where "((system, event), c) \<in> set (filter (\<lambda>row. snd row \<noteq> CapabilityObserve) capabilityTable)"
    using assms by (auto simp: CanBlock_def LookupCapability_def split: option.splits dest!: map_of_SomeD)
  moreover have "list_all (\<lambda>((s, e), c). s \<in> {SystemClaude, SystemCopilot, SystemResponse, SystemCursor}
      \<or> s = SystemCodex \<and> e \<in> {''PreToolUse'', ''PermissionRequest'', ''PostToolUse'', ''UserPromptSubmit''}
      \<or> s = SystemGemini \<and> e = ''BeforeTool'')
    (filter (\<lambda>row. snd row \<noteq> CapabilityObserve) capabilityTable)"
    by code_simp
  ultimately show ?thesis by (fastforce simp: list_all_iff)
qed

lemma plain_names [simp]:
  "plain_name ''permission''" "plain_name ''user_message''" "plain_name ''agent_message''" "plain_name ''decision''"
  "plain_name ''reason''" "plain_name ''systemMessage''" "plain_name ''hookSpecificOutput''" "plain_name ''hookEventName''"
  "plain_name ''permissionDecision''" "plain_name ''permissionDecisionReason''" "plain_name ''behavior''" "plain_name ''message''"
  "plain_name ''continue''" "plain_name ''stopReason''"
  by (simp_all add: plain_name_def)

lemma quote_ok [simp]: "closed_text (json_quote s)" by (rule quote_closed)

lemmas member_defs = text_member_def raw_member_def bool_member_def object_member_def

lemma ascii_runes [simp]: "readable ''deny'' = ''deny''" "readable ''block'' = ''block''"
  "readable ''allow'' = ''allow''"
  by (rule readable_ascii; simp)+

lemma cursor_block:
  assumes "text \<noteq> []" "rs_Stdout r = CursorBlockText text"
  shows "refusal SystemCursor event r = Some (readable text)"
proof -
  let ?ms = "[(''permission'', json_quote ''deny''), (''user_message'', json_quote text), (''agent_message'', json_quote text)]"
  have "rs_Stdout r = json_encode_object ?ms @ [CHR 0x0A]"
    using assms by (simp add: CursorBlockText_def cursor_members_def cursor_response_def member_defs newline_def)
  moreover have "sound_members 0 ?ms" by (simp add: sound_members_def)
  ultimately have "json_members (rs_Stdout r) = Some ?ms"
    using read_members [of 0 ?ms] by (simp add: maxNestingDepth_def)
  then show ?thesis by (simp add: refusal_def stdout_text_def)
qed

lemma gemini_block:
  assumes "text \<noteq> []" "rs_Stdout r = GeminiBlockText ''BeforeTool'' text"
  shows "refusal SystemGemini event r = Some (readable text)"
proof -
  let ?ms = "[(''decision'', json_quote ''deny''), (''reason'', json_quote text)]"
  have "rs_Stdout r = json_encode_object ?ms @ [CHR 0x0A]"
    using assms by (simp add: GeminiBlockText_def member_defs newline_def)
  moreover have "sound_members 0 ?ms" by (simp add: sound_members_def)
  ultimately have "json_members (rs_Stdout r) = Some ?ms"
    using read_members [of 0 ?ms] by (simp add: maxNestingDepth_def)
  then show ?thesis by (simp add: refusal_def stdout_text_def)
qed

lemma codex_block:
  assumes "text \<noteq> []" "rs_Stdout r = CodexBlockText event text"
    "event \<in> {''PreToolUse'', ''PermissionRequest'', ''PostToolUse'', ''UserPromptSubmit''}"
  shows "refusal SystemCodex event r = Some (readable text)"
proof -
  let ?tool = "[(''hookEventName'', json_quote ''PreToolUse''), (''permissionDecision'', json_quote ''deny''),
    (''permissionDecisionReason'', json_quote text)]"
  let ?choice = "[(''behavior'', json_quote ''deny''), (''message'', json_quote text)]"
  let ?ask = "[(''hookEventName'', json_quote ''PermissionRequest''), (''decision'', json_encode_object ?choice)]"
  have tool: "sound_members 0 ?tool" and choice: "sound_members 0 ?choice" by (simp_all add: sound_members_def)
  have ask: "sound_members 1 ?ask"
    using sound_object [OF choice, of "''decision''"] by (simp add: sound_members_def value_weaken [of 0 _ 1])
  consider "event = ''PreToolUse''" | "event = ''PermissionRequest''" | "event = ''PostToolUse''" | "event = ''UserPromptSubmit''"
    using assms(3) by auto
  then show ?thesis
  proof cases
    case 1
    let ?ms = "[(''systemMessage'', json_quote text), (''hookSpecificOutput'', json_encode_object ?tool)]"
    have "rs_Stdout r = json_encode_object ?ms @ [CHR 0x0A]"
      using assms(1,2) 1 by (simp add: CodexBlockText_def encode_codex_def codex_members_def codex_output_members_def
          codex_output_def empty_codex_def member_defs newline_def)
    moreover have "sound_members 1 ?ms"
      using sound_object [OF tool, of "''hookSpecificOutput''"] by (simp add: sound_members_def)
    ultimately have "json_members (rs_Stdout r) = Some ?ms"
      using read_members [of 1 ?ms] by (simp add: maxNestingDepth_def)
    moreover have "json_members (json_encode_object ?tool) = Some ?tool"
      using read_members(2) [OF tool] by (simp add: maxNestingDepth_def)
    ultimately show ?thesis by (simp add: refusal_def stdout_nested_def nested_text_def)
  next
    case 2
    let ?ms = "[(''hookSpecificOutput'', json_encode_object ?ask)]"
    have "rs_Stdout r = json_encode_object ?ms @ [CHR 0x0A]"
      using assms(1,2) 2 by (simp add: CodexBlockText_def encode_codex_def codex_members_def codex_output_members_def
          codex_output_def empty_codex_def member_defs newline_def)
    moreover have "sound_members 2 ?ms"
      using sound_object [OF ask, of "''hookSpecificOutput''"] by (simp add: numeral_2_eq_2)
    ultimately have "json_members (rs_Stdout r) = Some ?ms"
      using read_members [of 2 ?ms] by (simp add: maxNestingDepth_def)
    moreover have "json_members (json_encode_object ?ask) = Some ?ask" "json_members (json_encode_object ?choice) = Some ?choice"
      using read_members(2) [OF ask] read_members(2) [OF choice] by (simp_all add: maxNestingDepth_def)
    ultimately show ?thesis by (simp add: refusal_def stdout_nested_def nested_text_def)
  next
    case 3
    let ?ms = "[(''continue'', ''false''), (''stopReason'', json_quote text), (''decision'', json_quote ''block''), (''reason'', json_quote text)]"
    have "rs_Stdout r = json_encode_object ?ms @ [CHR 0x0A]"
      using assms(1,2) 3 by (simp add: CodexBlockText_def encode_codex_def codex_members_def empty_codex_def member_defs newline_def)
    moreover have "sound_members 0 ?ms" using value_literal literal_true by (simp add: sound_members_def)
    ultimately have "json_members (rs_Stdout r) = Some ?ms"
      using read_members [of 0 ?ms] by (simp add: maxNestingDepth_def)
    then show ?thesis by (simp add: refusal_def stdout_nested_def stdout_text_def)
  next
    case 4
    let ?ms = "[(''decision'', json_quote ''block''), (''reason'', json_quote text)]"
    have "rs_Stdout r = json_encode_object ?ms @ [CHR 0x0A]"
      using assms(1,2) 4 by (simp add: CodexBlockText_def encode_codex_def codex_members_def empty_codex_def member_defs newline_def)
    moreover have "sound_members 0 ?ms" by (simp add: sound_members_def)
    ultimately have "json_members (rs_Stdout r) = Some ?ms"
      using read_members [of 0 ?ms] by (simp add: maxNestingDepth_def)
    then show ?thesis by (simp add: refusal_def stdout_nested_def stdout_text_def)
  qed
qed

lemma render_block:
  assumes "rq_Decision request = ResponseDecisionBlock" "rq_FailOpenReason request = []"
  shows "RenderResponse request = renderForSystem (request\<lparr>rq_DiagnosticText := block_diagnostic request\<rparr>)"
  using assms by (simp add: RenderResponse_def Let_def)

text \<open>A block at an event that the provider can block always reaches the agent: the provider reads
  a refusal from the rendered response, and the reason it reads is the diagnostic text with the event
  id and the footer, with U+FFFD for ill-formed bytes.\<close>

theorem block_reaches_agent:
  assumes "rq_Decision request = ResponseDecisionBlock" "rq_FailOpenReason request = []"
    and "CanBlock (rq_System request) (rq_EventName request)"
    and "block_diagnostic request \<noteq> []"
  shows "refusal (rq_System request) (rq_EventName request) (RenderResponse request)
    = Some (readable (block_diagnostic request))"
  using blockable_events [OF assms(3)]
proof (elim disjE conjE)
  assume "rq_System request = SystemCursor"
  then show ?thesis
    using cursor_block [OF assms(4), of "RenderResponse request" "rq_EventName request"] assms(1)
    by (simp add: render_block [OF assms(1,2)] renderForSystem_def renderCursorResponse_def stdout_only_def)
next
  assume "rq_System request = SystemCodex"
    "rq_EventName request \<in> {''PreToolUse'', ''PermissionRequest'', ''PostToolUse'', ''UserPromptSubmit''}"
  then show ?thesis
    using codex_block [OF assms(4), of "RenderResponse request" "rq_EventName request"] assms(1)
    by (simp add: render_block [OF assms(1,2)] renderForSystem_def renderCodexResponse_def stdout_only_def)
next
  assume "rq_System request = SystemGemini" "rq_EventName request = ''BeforeTool''"
  then show ?thesis
    using gemini_block [OF assms(4), of "RenderResponse request"] assms(1)
    by (simp add: render_block [OF assms(1,2)] renderForSystem_def renderGeminiResponse_def stdout_only_def)
qed (use assms(1) in \<open>simp_all add: render_block [OF assms(1,2)] renderForSystem_def renderClaudeResponse_def
  renderCopilotResponse_def renderUnknownResponse_def ClaudeBlockText_def newline_def refusal_def\<close>)

definition demo_request :: "System \<Rightarrow> bytes \<Rightarrow> bytes \<Rightarrow> ResponseRequest" where
  "demo_request system event decision = \<lparr>rq_System = system, rq_EventName = event, rq_Decision = decision,
     rq_DiagnosticText = ''no'', rq_EventID = ''7'', rq_Footer = [], rq_FailOpenReason = [], rq_ContextText = [],
     rq_MutationText = [], rq_PromptText = []\<rparr>"

theorem block_reaches_agent_witness:
  "refusal SystemCodex ''PermissionRequest'' (RenderResponse (demo_request SystemCodex ''PermissionRequest'' ''block''))
    = Some (''no'' @ [CHR 0x0A, CHR 0x0A] @ ''agent-gate event_id: 7'')"
proof -
  let ?r = "demo_request SystemCodex ''PermissionRequest'' ''block''"
  have "refusal (rq_System ?r) (rq_EventName ?r) (RenderResponse ?r) = Some (readable (block_diagnostic ?r))"
  proof (rule block_reaches_agent)
    show "CanBlock (rq_System ?r) (rq_EventName ?r)" by code_simp
  qed (simp_all add: demo_request_def ResponseDecisionBlock_def block_diagnostic_def diagnosticWithEventID_def)
  moreover have "readable (block_diagnostic ?r) = ''no'' @ [CHR 0x0A, CHR 0x0A] @ ''agent-gate event_id: 7''"
    by (subst readable_ascii) (simp_all add: demo_request_def block_diagnostic_def diagnosticWithEventID_def newline_def)
  ultimately show ?thesis by (simp add: demo_request_def)
qed


section \<open>An allow refuses nothing\<close>

lemma raw_member_closed: "raw_member n v = Some ms \<Longrightarrow> (x, y) \<in> set ms \<Longrightarrow> x = n \<and> closed_text y"
  by (auto simp: raw_member_def compact_closed split: if_splits)

lemma text_member_closed: "(x, y) \<in> set (text_member n v) \<Longrightarrow> x = n \<and> closed_text y"
  by (auto simp: text_member_def split: if_splits)

lemma bool_member_closed: "(x, y) \<in> set (bool_member n v) \<Longrightarrow> x = n \<and> closed_text y"
  by (auto simp: bool_member_def literal_true split: option.splits if_splits)

lemma first_member:
  assumes "closed_members ((n, json_quote v) # ms)" "t = [] \<or> t = [CHR 0x0A]"
  shows "(case json_members (json_encode_object ((n, json_quote v) # ms) @ t) of
      None \<Rightarrow> None | Some ms \<Rightarrow> (case map_of ms n of None \<Rightarrow> None | Some w \<Rightarrow> json_string w)) \<in> {None, Some (readable v)}"
  using closed_read [OF assms] by auto

lemma plain_cursor [simp]:
  "plain_name ''followup_message''" "plain_name ''additional_context''" "plain_name ''updated_mcp_tool_output''"
  "plain_name ''updatedInput''" "plain_name ''additionalContext''"
  by (simp_all add: plain_name_def)

lemma cursor_permission:
  assumes "cursor_members resp = Some ms" "cu_Permission resp = ''allow''" "rs_Stdout r = json_encode_object ms @ newline"
  shows "stdout_text r ''permission'' \<in> {None, Some ''allow''}"
proof -
  obtain result where result: "raw_member ''updated_mcp_tool_output'' (cu_UpdatedMCPToolOutput resp) = Some result"
    and ms: "ms = (''permission'', json_quote ''allow'') # (bool_member ''continue'' (cu_Continue resp)
      @ text_member ''user_message'' (cu_UserMessage resp) @ text_member ''agent_message'' (cu_AgentMessage resp)
      @ text_member ''followup_message'' (cu_FollowupMessage resp)
      @ text_member ''additional_context'' (cu_AdditionalContext resp) @ result)"
    using assms(1,2) by (auto simp: cursor_members_def text_member_def split: option.splits)
  have "closed_members ms"
    unfolding ms
    by (auto simp: closed_members_def list_all_iff dest!: text_member_closed bool_member_closed raw_member_closed [OF result])
  then show ?thesis
    using first_member [of "''permission''" "''allow''" _ newline] assms(3) unfolding ms stdout_text_def newline_def by auto
qed

lemma cursor_allow_permission: "rs_Stdout r = CursorAllow \<Longrightarrow> stdout_text r ''permission'' \<in> {None, Some ''allow''}"
  by (rule cursor_permission [of "cursor_response ''allow''" "[(''permission'', json_quote ''allow'')]"])
     (simp_all add: CursorAllow_def cursor_members_def cursor_response_def member_defs)

lemma render_allow:
  assumes "rq_Decision request \<noteq> ResponseDecisionBlock"
  shows "rs_Stdout (RenderResponse request) = rs_Stdout (renderForSystem request)"
    "rs_ExitCode (RenderResponse request) = rs_ExitCode (renderForSystem request)"
  using assms by (simp_all add: RenderResponse_def Let_def)

lemma cursor_allows:
  assumes "rq_Decision request \<noteq> ResponseDecisionBlock" "rs_Stdout r = rs_Stdout (renderCursorResponse request)"
  shows "stdout_text r ''permission'' \<in> {None, Some ''allow''}"
proof -
  have "rs_Stdout r = CursorAllow \<or> (\<exists>resp ms. cursor_members resp = Some ms \<and> cu_Permission resp = ''allow''
      \<and> rs_Stdout r = json_encode_object ms @ newline)"
  proof -
    have "cu_Permission (cursor_effects request) = ''allow''"
      by (simp add: cursor_effects_def Let_def cursor_response_def split: option.split)
    moreover have "rs_Stdout r = CursorAllow \<or>
        (\<exists>ms. cursor_members (cursor_effects request) = Some ms \<and> rs_Stdout r = json_encode_object ms @ newline)"
      using assms by (simp add: renderCursorResponse_def Let_def stdout_only_def split: option.split)
    ultimately show ?thesis by blast
  qed
  then show ?thesis using cursor_permission cursor_allow_permission by blast
qed

lemma empty_object: "json_members (''{}'' @ newline) = Some []"
  by code_simp

lemma codex_inner_allows:
  assumes "codex_output_members out = Some ms" "cx_PermissionDecision out \<in> {[], ''allow''}" "cx_Decision out = None"
    "cx_AdditionalContext out \<noteq> [] \<or> cx_UpdatedInput out \<noteq> []"
  shows "nested_text (json_encode_object ms) ''permissionDecision'' \<noteq> Some ''deny''"
    "\<And>inner. json_members (json_encode_object ms) = Some inner \<Longrightarrow> map_of inner ''decision'' = None"
    "closed_text (json_encode_object ms)"
proof -
  obtain input where input: "raw_member ''updatedInput'' (cx_UpdatedInput out) = Some input"
    and ms: "ms = text_member ''hookEventName'' (cx_HookEventName out)
            @ text_member ''permissionDecision'' (cx_PermissionDecision out)
            @ text_member ''permissionDecisionReason'' (cx_PermissionDecisionReason out)
            @ text_member ''additionalContext'' (cx_AdditionalContext out) @ input"
    using assms(1,3) by (auto simp: codex_output_members_def object_member_def split: option.splits)
  note inputs = raw_member_closed [OF input]
  have "ms \<noteq> []" using assms(4) input unfolding ms by (auto simp: text_member_def raw_member_def split: if_splits)
  then have closed: "closed_members ms"
    unfolding closed_members_def ms by (auto simp: list_all_iff dest!: text_member_closed inputs)
  then show "closed_text (json_encode_object ms)" by (intro object_closed) (auto simp: closed_members_def list_all_iff)
  have read: "json_members (json_encode_object ms) \<in> {None, Some (map (\<lambda>(n, v). (n, json_trim v)) ms)}"
    using closed_read [OF closed, of "[]"] by simp
  have names: "fst ` set input \<subseteq> {''updatedInput''}" using inputs by auto
  then have "map_of (map (\<lambda>(n, v). (n, json_trim v)) ms) ''decision'' = None"
    unfolding ms by (auto simp: map_of_eq_None_iff text_member_def split: if_splits)
  then show "map_of inner ''decision'' = None" if "json_members (json_encode_object ms) = Some inner" for inner
    using read that by auto
  have none: "map_of (map (\<lambda>(n, v). (n, json_trim v)) input) ''permissionDecision'' = None"
    using names by (auto simp: map_of_eq_None_iff)
  have "map_of (map (\<lambda>(n, v). (n, json_trim v)) ms) ''permissionDecision'' \<in> {None, Some (json_quote ''allow'')}"
    unfolding ms using assms(2) none by (auto simp: text_member_def map_add_def)
  then show "nested_text (json_encode_object ms) ''permissionDecision'' \<noteq> Some ''deny''"
    unfolding nested_text_def using read by auto
qed

lemma codex_allows:
  assumes "rq_Decision request \<noteq> ResponseDecisionBlock" "rs_Stdout r = rs_Stdout (renderCodexResponse request)"
  shows "refusal SystemCodex event r = None"
proof -
  have "rs_Stdout r = CodexAllow \<or> (\<exists>out ms. codex_output_members out = Some ms \<and> cx_PermissionDecision out \<in> {[], ''allow''}
      \<and> cx_Decision out = None \<and> (cx_AdditionalContext out \<noteq> [] \<or> cx_UpdatedInput out \<noteq> [])
      \<and> rs_Stdout r = json_encode_object [(''hookSpecificOutput'', json_encode_object ms)] @ newline)"
  proof -
    let ?out = "codex_effects request"
    have "cx_PermissionDecision ?out \<in> {[], ''allow''} \<and> cx_Decision ?out = None"
      by (simp add: codex_effects_def Let_def codex_output_def split: option.split)
    moreover have "rs_Stdout r = CodexAllow \<or> (cx_AdditionalContext ?out \<noteq> [] \<or> cx_UpdatedInput ?out \<noteq> [])
        \<and> rs_Stdout r = encode_codex (empty_codex\<lparr>cx_HookSpecificOutput := Some ?out\<rparr>)"
      using assms by (simp add: renderCodexResponse_def Let_def stdout_only_def)
    moreover have "encode_codex (empty_codex\<lparr>cx_HookSpecificOutput := Some ?out\<rparr>) = CodexAllow
        \<or> (\<exists>ms. codex_output_members ?out = Some ms \<and> encode_codex (empty_codex\<lparr>cx_HookSpecificOutput := Some ?out\<rparr>)
          = json_encode_object [(''hookSpecificOutput'', json_encode_object ms)] @ newline)"
      by (simp add: encode_codex_def codex_members_def empty_codex_def member_defs split: option.split)
    ultimately show ?thesis by fastforce
  qed
  then consider (plain) "rs_Stdout r = CodexAllow"
    | (effects) out ms where "codex_output_members out = Some ms" "cx_PermissionDecision out \<in> {[], ''allow''}"
        "cx_Decision out = None" "cx_AdditionalContext out \<noteq> [] \<or> cx_UpdatedInput out \<noteq> []"
        "rs_Stdout r = json_encode_object [(''hookSpecificOutput'', json_encode_object ms)] @ newline"
    by blast
  then show ?thesis
  proof cases
    case plain
    then have "json_members (rs_Stdout r) = Some []" using empty_object by (simp add: CodexAllow_def)
    then show ?thesis by (simp add: refusal_def stdout_nested_def stdout_text_def)
  next
    case effects
    note inner = codex_inner_allows [OF effects(1-4)] and written = effects(5)
    have "closed_members [(''hookSpecificOutput'', json_encode_object ms)]" using inner(3) by (simp add: closed_members_def)
    then have "json_members (rs_Stdout r) \<in> {None, Some [(''hookSpecificOutput'', json_encode_object ms)]}"
      using closed_read [of _ "[CHR 0x0A]"] unfolding written newline_def by fastforce
    then show ?thesis using inner(1,2)
      by (auto simp: refusal_def stdout_nested_def stdout_text_def split: option.splits)
  qed
qed

lemma stdout_only_code [simp]: "rs_ExitCode (stdout_only x) = 0"
  by (simp add: stdout_only_def)

lemma claude_code: "rq_Decision request \<noteq> ResponseDecisionBlock \<Longrightarrow> rs_ExitCode (renderClaudeResponse request) = 0"
  by (simp add: renderClaudeResponse_def Let_def split: option.split)

lemma copilot_code: "rq_Decision request \<noteq> ResponseDecisionBlock \<Longrightarrow> rs_ExitCode (renderCopilotResponse request) = 0"
  by (simp add: renderCopilotResponse_def Let_def split: option.split)

lemma cursor_code: "rs_ExitCode (renderCursorResponse request) = 0"
  by (simp add: renderCursorResponse_def Let_def split: option.split)

lemma codex_code: "rs_ExitCode (renderCodexResponse request) = 0"
  by (simp add: renderCodexResponse_def Let_def)

text \<open>An allow is never read as a refusal: whatever context, mutation or fail-open reason the response
  carries, the exit code is zero and no member of the output refuses the call.\<close>

theorem allow_never_refuses:
  assumes "rq_Decision request = ResponseDecisionAllow"
  shows "rs_ExitCode (RenderResponse request) = 0
    \<and> refusal (rq_System request) (rq_EventName request) (RenderResponse request) = None"
proof -
  have allow: "rq_Decision request \<noteq> ResponseDecisionBlock"
    using assms by (simp add: ResponseDecisionAllow_def ResponseDecisionBlock_def)
  have code: "rs_ExitCode (renderForSystem request) = 0"
    using allow claude_code copilot_code cursor_code codex_code
    by (cases "rq_System request") (simp_all add: renderForSystem_def renderGeminiResponse_def renderUnknownResponse_def)
  have "refusal (rq_System request) (rq_EventName request) (RenderResponse request) = None"
  proof (cases "rq_System request")
    case SystemCursor
    then show ?thesis using cursor_allows [OF allow, of "RenderResponse request"] render_allow [OF allow]
      by (auto simp: refusal_def renderForSystem_def)
  next
    case SystemCodex
    then show ?thesis using codex_allows [OF allow, of "RenderResponse request"] render_allow [OF allow]
      by (simp add: renderForSystem_def)
  next
    case SystemGemini
    then have "rs_Stdout (RenderResponse request) = ''{}'' @ newline"
      using render_allow [OF allow] allow by (simp add: renderForSystem_def renderGeminiResponse_def stdout_only_def GeminiAllow_def)
    then show ?thesis using SystemGemini empty_object by (simp add: refusal_def stdout_text_def)
  qed (use code render_allow [OF allow] in \<open>simp_all add: refusal_def\<close>)
  then show ?thesis using code render_allow [OF allow] by simp
qed

theorem allow_never_refuses_witness:
  "rs_ExitCode (RenderResponse ((demo_request SystemCursor ''stop'' ''allow'')\<lparr>rq_ContextText := ''go on''\<rparr>)) = 0
   \<and> refusal SystemCursor ''stop'' (RenderResponse ((demo_request SystemCursor ''stop'' ''allow'')\<lparr>rq_ContextText := ''go on''\<rparr>)) = None"
  using allow_never_refuses [of "(demo_request SystemCursor ''stop'' ''allow'')\<lparr>rq_ContextText := ''go on''\<rparr>"]
  by (simp add: demo_request_def ResponseDecisionAllow_def)

text \<open>C20. A call that was let through without evaluation is let through, and says so: for every provider and
  event a fail-open response exits with code 0 and holds no refusal the agent would read, and its error stream
  is the notice, which names the consequence and the reason.\<close>

theorem fail_open_is_visible:
  assumes "reason \<noteq> []"
  shows "rs_ExitCode (FailOpenResponse system event diagnostic reason) = 0
    \<and> refusal system event (FailOpenResponse system event diagnostic reason) = None
    \<and> rs_Stderr (FailOpenResponse system event diagnostic reason) = FailOpenNoticeText reason diagnostic @ newline"
proof (intro conjI)
  let ?request = "\<lparr>rq_System = system, rq_EventName = event, rq_Decision = ResponseDecisionAllow,
    rq_DiagnosticText = diagnostic, rq_EventID = [], rq_Footer = [], rq_FailOpenReason = reason,
    rq_ContextText = [], rq_MutationText = [], rq_PromptText = []\<rparr>"
  show "rs_ExitCode (FailOpenResponse system event diagnostic reason) = 0"
    and "refusal system event (FailOpenResponse system event diagnostic reason) = None"
    using allow_never_refuses [of ?request] by (simp_all add: FailOpenResponse_def)
  show "rs_Stderr (FailOpenResponse system event diagnostic reason) = FailOpenNoticeText reason diagnostic @ newline"
    using assms
    by (cases system)
       (simp_all add: FailOpenResponse_def RenderResponse_def Let_def renderForSystem_def renderClaudeResponse_def
         renderCopilotResponse_def renderCursorResponse_def renderCodexResponse_def renderGeminiResponse_def
         renderUnknownResponse_def stdout_only_def failOpenStderr_def FailOpenNoticeText_def ResponseDecisionAllow_def
         ResponseDecisionBlock_def newline_def)
qed

theorem fail_open_is_visible_witness:
  "rs_ExitCode (FailOpenResponse SystemGemini ''BeforeTool'' [] ''rpc_failed'') = 0
   \<and> refusal SystemGemini ''BeforeTool'' (FailOpenResponse SystemGemini ''BeforeTool'' [] ''rpc_failed'') = None
   \<and> rs_Stderr (FailOpenResponse SystemGemini ''BeforeTool'' [] ''rpc_failed'')
       = FailOpenNoticeText ''rpc_failed'' [] @ newline"
  by (rule fail_open_is_visible) simp

end
