(* ===== verification/HookClassify.thy ===== *)
theory HookClassify
  imports HookResponse
begin

text \<open>
  Which provider sent a hook (\<^verbatim>\<open>internal/hook/classification.go\<close>, \<^verbatim>\<open>detect.go\<close>,
  \<^verbatim>\<open>invocation_context.go\<close>): the candidates that the route, the invocation, the payload and the
  environment name, each with a strength, and the resolution among the strongest.  The hash function
  and the Unicode tables are parameters.
\<close>

record classify_env =
  ce_sha :: "bytes \<Rightarrow> bytes"
  ce_IsUpper :: "bytes \<Rightarrow> bool"
  ce_IsLower :: "bytes \<Rightarrow> bool"
  ce_ToLower :: "bytes \<Rightarrow> bytes"

section \<open>Invocation evidence\<close>

definition SignalStatusObserved :: bytes where "SignalStatusObserved = ''observed''"
definition SignalStatusMissing :: bytes where "SignalStatusMissing = ''missing''"
definition SignalStatusUnreadable :: bytes where "SignalStatusUnreadable = ''unreadable''"

record ObservedValue =
  ov_Value :: bytes
  ov_Source :: bytes
  ov_Provenance :: bytes
  ov_Status :: bytes

record ProcessEvidence =
  pe_Name :: bytes
  pe_ExecutablePath :: bytes
  pe_Source :: bytes
  pe_Provenance :: bytes
  pe_Status :: bytes

record EnvironmentEvidence =
  ee_Name :: bytes
  ee_Value :: bytes
  ee_Category :: bytes
  ee_Source :: bytes
  ee_Provenance :: bytes
  ee_Status :: bytes

record CollectionIssue =
  ci_Source :: bytes
  ci_Status :: bytes
  ci_Detail :: bytes

record InvocationContext =
  ic_HookSubcommand :: ObservedValue
  ic_HookTags :: "ObservedValue list"
  ic_WorkingDirectory :: ObservedValue
  ic_Executable :: ProcessEvidence
  ic_ParentProcess :: ProcessEvidence
  ic_Ancestors :: "ProcessEvidence list"
  ic_Environment :: "EnvironmentEvidence list"
  ic_ManagedRegistration :: ObservedValue
  ic_CollectionIssues :: "CollectionIssue list"

section \<open>The payload surface\<close>

record DetectionPayload =
  dp_HookEventName :: bytes
  dp_CursorVersion :: bytes
  dp_ConversationID :: bytes
  dp_GenerationID :: bytes
  dp_WorkspaceRoots :: "bytes list"
  dp_UserEmail :: bytes
  dp_TranscriptPath :: bytes
  dp_PermissionMode :: bytes
  dp_AgentID :: bytes
  dp_AgentType :: bytes
  dp_CopilotSessionID :: bytes
  dp_CopilotTranscriptPath :: bytes
  dp_CopilotToolName :: bytes
  dp_CopilotToolUseID :: bytes
  dp_CopilotToolInput :: bytes

definition empty_detection :: DetectionPayload where
  "empty_detection = \<lparr>dp_HookEventName = [], dp_CursorVersion = [], dp_ConversationID = [], dp_GenerationID = [],
     dp_WorkspaceRoots = [], dp_UserEmail = [], dp_TranscriptPath = [], dp_PermissionMode = [], dp_AgentID = [],
     dp_AgentType = [], dp_CopilotSessionID = [], dp_CopilotTranscriptPath = [], dp_CopilotToolName = [],
     dp_CopilotToolUseID = [], dp_CopilotToolInput = []\<rparr>"

definition hasCursorPayload :: "DetectionPayload \<Rightarrow> bool" where
  "hasCursorPayload p \<longleftrightarrow> dp_CursorVersion p \<noteq> [] \<or> dp_ConversationID p \<noteq> [] \<or> dp_GenerationID p \<noteq> []
     \<or> dp_WorkspaceRoots p \<noteq> [] \<or> dp_UserEmail p \<noteq> []"

definition hasCopilotPayload :: "DetectionPayload \<Rightarrow> bool" where
  "hasCopilotPayload p \<longleftrightarrow> dp_CopilotSessionID p \<noteq> [] \<or> dp_CopilotTranscriptPath p \<noteq> [] \<or> dp_CopilotToolName p \<noteq> []
     \<or> dp_CopilotToolUseID p \<noteq> [] \<or> (dp_CopilotToolInput p \<noteq> [] \<and> dp_CopilotToolInput p \<noteq> ''null'')"

text \<open>\<^verbatim>\<open>utf8.DecodeRuneInString\<close>: the bytes of the first rune.\<close>

definition first_rune :: "bytes \<Rightarrow> bytes" where
  "first_rune s = (if rune_width s = 0 then rune_error else take (rune_width s) s)"

definition hasCursorEvent :: "classify_env \<Rightarrow> DetectionPayload \<Rightarrow> bool" where
  "hasCursorEvent env p \<longleftrightarrow> dp_HookEventName p \<noteq> [] \<and> ce_IsLower env (first_rune (dp_HookEventName p))"

definition hasGeminiEvent :: "DetectionPayload \<Rightarrow> bool" where
  "hasGeminiEvent p \<longleftrightarrow> dp_HookEventName p \<in> {''BeforeTool'', ''AfterTool'', ''BeforeAgent'', ''AfterAgent'',
     ''BeforeModel'', ''AfterModel'', ''BeforeToolSelection'', ''PreCompress''}"

definition hasClaudePayload :: "DetectionPayload \<Rightarrow> bool" where
  "hasClaudePayload p \<longleftrightarrow> dp_TranscriptPath p \<noteq> [] \<or> dp_PermissionMode p \<noteq> [] \<or> dp_AgentID p \<noteq> [] \<or> dp_AgentType p \<noteq> []"

fun decode_slice :: "bytes list \<Rightarrow> bytes list \<Rightarrow> bytes list option" where
  "decode_slice old [] = Some old"
| "decode_slice old (v # vs) =
     (if json_null v then decode_slice [] vs
      else case json_strings old v of None \<Rightarrow> None | Some new \<Rightarrow> decode_slice new vs)"

definition last_raw :: "bytes list \<Rightarrow> bytes" where
  "last_raw vs = (if vs = [] then [] else last vs)"

definition decode_detection :: "(bytes \<times> bytes) list \<Rightarrow> DetectionPayload option" where
  "decode_detection ms =
     (let field = (\<lambda>name. json_decode json_string [] (json_values name ms)) in
      case (those (map field [''hook_event_name'', ''cursor_version'', ''conversation_id'', ''generation_id'', ''user_email'',
              ''transcript_path'', ''permission_mode'', ''agent_id'', ''agent_type'', ''sessionId'', ''transcriptPath'',
              ''toolName'', ''toolUseId'']),
            decode_slice [] (json_values ''workspace_roots'' ms)) of
        (Some [event, version, conversation, generation, email, transcript, permission, agent, kind, session,
               copilotTranscript, tool, use], Some roots) \<Rightarrow>
          Some \<lparr>dp_HookEventName = event, dp_CursorVersion = version, dp_ConversationID = conversation,
            dp_GenerationID = generation, dp_WorkspaceRoots = roots, dp_UserEmail = email, dp_TranscriptPath = transcript,
            dp_PermissionMode = permission, dp_AgentID = agent, dp_AgentType = kind, dp_CopilotSessionID = session,
            dp_CopilotTranscriptPath = copilotTranscript, dp_CopilotToolName = tool, dp_CopilotToolUseID = use,
            dp_CopilotToolInput = last_raw (json_values ''toolInput'' ms)\<rparr>
      | _ \<Rightarrow> None)"

record PayloadFieldEvidence =
  pf_Name :: bytes
  pf_Casing :: bytes

record PayloadProviderIdentifier =
  pp_Field :: bytes
  pp_Value :: bytes

record PayloadClassificationInput =
  pi_Status :: bytes
  pi_EventName :: bytes
  pi_Fields :: "PayloadFieldEvidence list"
  pi_Shapes :: "bytes list"
  pi_ProviderIdentifiers :: "PayloadProviderIdentifier list"
  pi_Error :: bytes

definition payloadProviderIdentifierFields :: "bytes list" where
  "payloadProviderIdentifierFields =
     [''provider'', ''provider_id'', ''providerId'', ''system'', ''client'', ''client_name'', ''clientName'']"

definition classificationFieldCasing :: "classify_env \<Rightarrow> bytes \<Rightarrow> bytes" where
  "classificationFieldCasing env name =
     (if CHR ''_'' \<in> set name then ''snake_case''
      else if ce_IsUpper env (first_rune name) then ''upper_camel''
      else if list_ex (ce_IsUpper env) (runes name) then ''lower_camel''
      else if ce_ToLower env name = name then ''lowercase''
      else ''mixed'')"

definition detectedPayloadShapes :: "classify_env \<Rightarrow> DetectionPayload \<Rightarrow> bytes list" where
  "detectedPayloadShapes env payload =
     (if hasCursorPayload payload then [''cursor_fields''] else [])
     @ (if hasCopilotPayload payload then [''copilot_fields''] else [])
     @ (if hasGeminiEvent payload then [''gemini_event''] else [])
     @ (if hasClaudePayload payload then [''claude_compatible_fields''] else [])
     @ (if hasCursorEvent env payload then [''shared_lowercase_event''] else [])"

definition unreadable_payload :: "bytes \<Rightarrow> bytes \<Rightarrow> PayloadClassificationInput" where
  "unreadable_payload status err = \<lparr>pi_Status = status, pi_EventName = [], pi_Fields = [], pi_Shapes = [],
     pi_ProviderIdentifiers = [], pi_Error = err\<rparr>"

text \<open>The result is the recorded input, and the payload unless it could not be decoded.\<close>

definition unmarshalClassificationPayload ::
    "classify_env \<Rightarrow> bytes \<Rightarrow> PayloadClassificationInput \<times> DetectionPayload option" where
  "unmarshalClassificationPayload env rawBytes =
     (if rawBytes = [] then (unreadable_payload SignalStatusMissing ''empty classification input'', None)
      else if \<not> json_Valid rawBytes \<or> (\<not> json_null rawBytes \<and> json_members rawBytes = None)
      then (unreadable_payload SignalStatusUnreadable ''payload is not valid JSON'', None)
      else case json_members rawBytes of
        None \<Rightarrow> (unreadable_payload SignalStatusUnreadable ''classification input must be a JSON object'', None)
      | Some ms \<Rightarrow>
          (case decode_detection ms of
             None \<Rightarrow> (unreadable_payload SignalStatusUnreadable ''payload shape is unreadable'', None)
           | Some payload \<Rightarrow>
               (let names = sort (remdups (map fst ms)) in
                (\<lparr>pi_Status = SignalStatusObserved, pi_EventName = dp_HookEventName payload,
                   pi_Fields = map (\<lambda>name. \<lparr>pf_Name = name, pf_Casing = classificationFieldCasing env name\<rparr>) names,
                   pi_Shapes = detectedPayloadShapes env payload,
                   pi_ProviderIdentifiers =
                     List.map_filter (\<lambda>name.
                       if name \<in> set payloadProviderIdentifierFields then
                         (case json_decode json_string [] [the (map_of (rev ms) name)] of
                            None \<Rightarrow> None
                          | Some v \<Rightarrow> Some \<lparr>pp_Field = name, pp_Value = v\<rparr>)
                       else None) names,
                   pi_Error = []\<rparr>, Some payload))))"

section \<open>Candidates\<close>

datatype classificationStrength = StrengthShared | StrengthContext | StrengthRegistration | StrengthPayload
  | StrengthIdentifier | StrengthRoute

fun strength_number :: "classificationStrength \<Rightarrow> nat" where
  "strength_number StrengthShared = 1"
| "strength_number StrengthContext = 2"
| "strength_number StrengthRegistration = 3"
| "strength_number StrengthPayload = 4"
| "strength_number StrengthIdentifier = 5"
| "strength_number StrengthRoute = 6"

fun classificationStrength_String :: "classificationStrength \<Rightarrow> bytes" where
  "classificationStrength_String StrengthShared = ''shared''"
| "classificationStrength_String StrengthContext = ''context''"
| "classificationStrength_String StrengthRegistration = ''registration''"
| "classificationStrength_String StrengthPayload = ''payload''"
| "classificationStrength_String StrengthIdentifier = ''identifier''"
| "classificationStrength_String StrengthRoute = ''route''"

record classificationCandidate =
  cc_source :: bytes
  cc_provenance :: bytes
  cc_signal :: bytes
  cc_provider :: System
  cc_strength :: classificationStrength

definition candidate :: "bytes \<Rightarrow> bytes \<Rightarrow> bytes \<Rightarrow> System \<Rightarrow> classificationStrength \<Rightarrow> classificationCandidate" where
  "candidate source provenance signal provider strength = \<lparr>cc_source = source, cc_provenance = provenance,
     cc_signal = signal, cc_provider = provider, cc_strength = strength\<rparr>"

definition path_Ext :: "bytes \<Rightarrow> bytes" where
  "path_Ext path =
     (let tail = rev (takeWhile (\<lambda>c. c \<noteq> CHR ''/'') (rev path)) in
      if CHR ''.'' \<in> set tail then CHR ''.'' # rev (takeWhile (\<lambda>c. c \<noteq> CHR ''.'') (rev tail)) else [])"

definition path_Base :: "bytes \<Rightarrow> bytes" where
  "path_Base path =
     (if path = [] then ''.''
      else let trimmed = rev (dropWhile (\<lambda>c. c = CHR ''/'') (rev path));
               base = rev (takeWhile (\<lambda>c. c \<noteq> CHR ''/'') (rev trimmed))
           in if base = [] then ''/'' else base)"

definition providerFromSignal :: "bytes \<Rightarrow> System" where
  "providerFromSignal v =
     (let lowered = ToLower (TrimSpace v);
          normalized = take (length lowered - length (path_Ext lowered)) lowered in
      if normalized \<in> {''claude'', ''claude-code'', ''anthropic''} then SystemClaude
      else if normalized = ''cursor'' then SystemCursor
      else if normalized \<in> {''codex'', ''openai-codex''} then SystemCodex
      else if normalized \<in> {''gemini'', ''gemini-cli'', ''google-gemini''} then SystemGemini
      else if normalized \<in> {''vscode'', ''code''} then SystemVSCode
      else if normalized \<in> {''copilot'', ''github-copilot''} then SystemCopilot
      else if normalized = ''response'' then SystemResponse
      else SystemUnknown)"

definition providerFromProcess :: "ProcessEvidence \<Rightarrow> System" where
  "providerFromProcess process =
     (case find (\<lambda>v. providerFromSignal v \<noteq> SystemUnknown) [pe_Name process, path_Base (pe_ExecutablePath process)] of
        Some v \<Rightarrow> providerFromSignal v
      | None \<Rightarrow> SystemUnknown)"

definition route_command :: "bytes \<Rightarrow> System" where
  "route_command argument =
     (if argument = ''codex-hook'' then SystemCodex
      else if argument = ''copilot-hook'' then SystemCopilot
      else if argument = ''gemini-hook'' then SystemGemini
      else SystemUnknown)"

definition routeCandidates :: "bytes \<Rightarrow> bytes list \<Rightarrow> classificationCandidate list" where
  "routeCandidates providerHint argv =
     (if providerFromSignal providerHint \<noteq> SystemUnknown
      then [candidate ''provider_hint'' ''request'' providerHint (providerFromSignal providerHint) StrengthRoute] else [])
     @ map (\<lambda>argument. candidate ''hook_subcommand'' ''literal_argv'' argument (route_command argument) StrengthRoute)
         (filter (\<lambda>argument. route_command argument \<noteq> SystemUnknown) argv)"

definition process_candidates :: "ProcessEvidence \<Rightarrow> classificationCandidate list" where
  "process_candidates process =
     (if pe_Status process \<noteq> SignalStatusObserved \<or> providerFromProcess process = SystemUnknown then []
      else [candidate (pe_Source process) (pe_Provenance process) (pe_Name process) (providerFromProcess process) StrengthContext])"

definition invocationCandidates :: "InvocationContext \<Rightarrow> classificationCandidate list" where
  "invocationCandidates invocation =
     (let registration = ic_ManagedRegistration invocation in
      (if ov_Status registration = SignalStatusObserved \<and> providerFromSignal (ov_Value registration) \<noteq> SystemUnknown
       then [candidate (ov_Source registration) (ov_Provenance registration) (ov_Value registration)
               (providerFromSignal (ov_Value registration)) StrengthRegistration] else [])
      @ concat (map process_candidates
          (ic_Executable invocation # ic_ParentProcess invocation # ic_Ancestors invocation)))"

definition payloadCandidate :: "bytes \<Rightarrow> System \<Rightarrow> classificationStrength \<Rightarrow> classificationCandidate" where
  "payloadCandidate signal provider strength = candidate ''payload_shape'' ''raw_payload'' signal provider strength"

definition payloadCandidates ::
    "classify_env \<Rightarrow> DetectionPayload \<Rightarrow> PayloadClassificationInput \<Rightarrow> classificationCandidate list" where
  "payloadCandidates env payload input =
     List.map_filter (\<lambda>identifier.
       (let provider = providerFromSignal (pp_Value identifier) in
        if provider = SystemUnknown then None
        else Some (candidate ''payload_identifier'' (pp_Field identifier) (pp_Value identifier) provider StrengthIdentifier)))
       (pi_ProviderIdentifiers input)
     @ (if hasCursorPayload payload then [payloadCandidate ''cursor_fields'' SystemCursor StrengthPayload] else [])
     @ (if hasCopilotPayload payload then [payloadCandidate ''copilot_fields'' SystemCopilot StrengthPayload] else [])
     @ (if hasGeminiEvent payload
        then [candidate ''payload_event'' ''hook_event_name'' (dp_HookEventName payload) SystemGemini StrengthPayload] else [])
     @ (if hasClaudePayload payload then [payloadCandidate ''claude_compatible_fields'' SystemClaude StrengthShared] else [])
     @ (if hasCursorEvent env payload
        then [candidate ''payload_event'' ''hook_event_name'' (dp_HookEventName payload) SystemCursor StrengthShared,
              candidate ''payload_event'' ''hook_event_name'' (dp_HookEventName payload) SystemCopilot StrengthShared]
        else [])"

definition nonEmptySignal :: "bytes \<Rightarrow> bool" where "nonEmptySignal v \<longleftrightarrow> v \<noteq> []"

definition claudeAgentSignal :: "bytes \<Rightarrow> bool" where "claudeAgentSignal v \<longleftrightarrow> HasPrefix v ''claude-code/''"

record environmentSignal =
  es_name :: bytes
  es_provider :: System
  es_strength :: classificationStrength
  es_match :: "bytes \<Rightarrow> bool"

definition environment_signal :: "bytes \<Rightarrow> System \<Rightarrow> classificationStrength \<Rightarrow> (bytes \<Rightarrow> bool) \<Rightarrow> environmentSignal" where
  "environment_signal name provider strength f =
     \<lparr>es_name = name, es_provider = provider, es_strength = strength, es_match = f\<rparr>"

definition classificationEnvironmentSignals :: "environmentSignal list" where
  "classificationEnvironmentSignals =
    [environment_signal ''CODEX_THREAD_ID'' SystemCodex StrengthContext nonEmptySignal,
     environment_signal ''CODEX_CI'' SystemCodex StrengthContext nonEmptySignal,
     environment_signal ''COPILOT_OTEL_FILE_EXPORTER_PATH'' SystemCopilot StrengthContext nonEmptySignal,
     environment_signal ''COPILOT_OTEL_ENABLED'' SystemCopilot StrengthContext nonEmptySignal,
     environment_signal ''COPILOT_OTEL_EXPORTER_TYPE'' SystemCopilot StrengthContext nonEmptySignal,
     environment_signal ''CURSOR_VERSION'' SystemCursor StrengthContext nonEmptySignal,
     environment_signal ''CURSOR_WORKSPACE_NAME'' SystemCursor StrengthContext nonEmptySignal,
     environment_signal ''CURSOR_MODE'' SystemCursor StrengthContext nonEmptySignal,
     environment_signal ''GEMINI_CLI'' SystemGemini StrengthContext nonEmptySignal,
     environment_signal ''CLAUDE_CODE_ENTRYPOINT'' SystemClaude StrengthContext nonEmptySignal,
     environment_signal ''AI_AGENT'' SystemClaude StrengthContext claudeAgentSignal,
     environment_signal ''VSCODE_PID'' SystemVSCode StrengthShared nonEmptySignal,
     environment_signal ''VSCODE_IPC_HOOK'' SystemVSCode StrengthShared nonEmptySignal]"

definition environmentCandidates :: "EnvironmentEvidence list \<Rightarrow> classificationCandidate list" where
  "environmentCandidates environment =
     concat (map (\<lambda>evidence.
       if ee_Status evidence \<noteq> SignalStatusObserved then []
       else if ee_Name evidence \<in> {''AGENT_GATE_HOOK_PROVIDER'', ''AGENT_GATE_HOOK_REGISTRATION''} then
         (let provider = providerFromSignal (ee_Value evidence) in
          if provider = SystemUnknown then []
          else [candidate (ee_Source evidence) (ee_Provenance evidence) (ee_Name evidence) provider StrengthContext])
       else
         map (\<lambda>signal. candidate (ee_Source evidence) (ee_Provenance evidence) (es_name signal) (es_provider signal) (es_strength signal))
           (filter (\<lambda>signal. es_name signal = ee_Name evidence \<and> es_match signal (ee_Value evidence))
             classificationEnvironmentSignals)) environment)"

section \<open>Resolution\<close>

record ClassificationEvidence =
  ev_Source :: bytes
  ev_Provenance :: bytes
  ev_Signal :: bytes
  ev_Provider :: bytes
  ev_Strength :: bytes
  ev_Result :: bytes

record ClassificationInput =
  ci_ProviderHint :: bytes
  ci_Argv :: "bytes list"
  ci_Environment :: "(bytes \<times> bytes) list"
  ci_Invocation :: InvocationContext
  ci_Payload :: PayloadClassificationInput
  ci_RawPayloadBytes :: nat
  ci_RawPayloadHash :: bytes

record Classification =
  cl_Input :: ClassificationInput
  cl_ResolvedProvider :: bytes
  cl_Confidence :: bytes
  cl_Evidence :: "ClassificationEvidence list"
  cl_Conflicts :: "ClassificationEvidence list"
  cl_Result :: bytes

definition ResolvedSystem :: "Classification \<Rightarrow> System" where
  "ResolvedSystem classification = SystemFromString (cl_ResolvedProvider classification)"

definition ClassificationResultResolved :: bytes where "ClassificationResultResolved = ''resolved''"
definition ClassificationResultAmbiguous :: bytes where "ClassificationResultAmbiguous = ''ambiguous''"
definition ClassificationResultUnknown :: bytes where "ClassificationResultUnknown = ''unknown''"
definition ClassificationResultInvalid :: bytes where "ClassificationResultInvalid = ''invalid''"
definition ClassificationConfidenceNone :: bytes where "ClassificationConfidenceNone = ''none''"
definition ClassificationConfidenceLow :: bytes where "ClassificationConfidenceLow = ''low''"
definition ClassificationConfidenceMedium :: bytes where "ClassificationConfidenceMedium = ''medium''"
definition ClassificationConfidenceHigh :: bytes where "ClassificationConfidenceHigh = ''high''"

text \<open>The strongest strength seen and the providers that have it, candidate by candidate.\<close>

fun strongest_loop :: "nat \<Rightarrow> System set \<Rightarrow> classificationCandidate list \<Rightarrow> nat \<times> System set" where
  "strongest_loop maxStrength providers [] = (maxStrength, providers)"
| "strongest_loop maxStrength providers (c # cs) =
     (let n = strength_number (cc_strength c);
          maxStrength1 = (if n > maxStrength then n else maxStrength);
          providers1 = (if n > maxStrength then {} else providers) in
      strongest_loop maxStrength1 (if n = maxStrength1 then insert (cc_provider c) providers1 else providers1) cs)"

definition classificationConfidence :: "nat \<Rightarrow> System \<Rightarrow> classificationCandidate list \<Rightarrow> bytes" where
  "classificationConfidence strength resolved candidates =
     (if strength < strength_number StrengthPayload then ClassificationConfidenceLow
      else if list_ex (\<lambda>c. cc_provider c \<noteq> resolved \<and> strength_number StrengthPayload \<le> strength_number (cc_strength c)) candidates
      then ClassificationConfidenceMedium
      else ClassificationConfidenceHigh)"

definition evidenceResult :: "System \<Rightarrow> System \<Rightarrow> bytes \<Rightarrow> bytes" where
  "evidenceResult provider resolved result =
     (if result \<noteq> ClassificationResultResolved then ''candidate''
      else if provider = resolved then ''match'' else ''conflict'')"

definition evidence_of :: "System \<Rightarrow> bytes \<Rightarrow> classificationCandidate \<Rightarrow> ClassificationEvidence" where
  "evidence_of resolved result c =
     \<lparr>ev_Source = cc_source c, ev_Provenance = cc_provenance c, ev_Signal = cc_signal c,
      ev_Provider = System_String (cc_provider c), ev_Strength = classificationStrength_String (cc_strength c),
      ev_Result = evidenceResult (cc_provider c) resolved result\<rparr>"

definition all_systems :: "System list" where
  "all_systems = [SystemUnknown, SystemClaude, SystemCursor, SystemCodex, SystemGemini, SystemVSCode, SystemCopilot, SystemResponse]"

definition resolveClassification :: "ClassificationInput \<Rightarrow> classificationCandidate list \<Rightarrow> Classification" where
  "resolveClassification input candidates =
     (let (maxStrength, providers) = strongest_loop 0 {} candidates;
          chosen = filter (\<lambda>s. s \<in> providers) all_systems;
          resolved = (if length chosen = 1 then hd chosen else SystemUnknown);
          result = (if length chosen = 1 then ClassificationResultResolved
                    else if length chosen > 1 then ClassificationResultAmbiguous else ClassificationResultUnknown);
          confidence = (if length chosen = 1 then classificationConfidence maxStrength resolved candidates
                        else ClassificationConfidenceNone);
          evidence = map (evidence_of resolved result) candidates in
      \<lparr>cl_Input = input, cl_ResolvedProvider = System_String resolved, cl_Confidence = confidence, cl_Evidence = evidence,
       cl_Conflicts = filter (\<lambda>item. ev_Result item = ''conflict'') evidence, cl_Result = result\<rparr>)"

definition classificationEnvironment :: "(bytes \<Rightarrow> bytes) \<Rightarrow> (bytes \<times> bytes) list" where
  "classificationEnvironment environment =
     map (\<lambda>name. (name, environment name))
       (filter (\<lambda>name. environment name \<noteq> [])
         (sort (map es_name classificationEnvironmentSignals
           @ [''AGENT_GATE_HOOK_PROVIDER'', ''AGENT_GATE_HOOK_REGISTRATION'', ''AGENT_GATE_HOOK_EVENT''])))"

definition completeInvocationEnvironment :: "InvocationContext \<Rightarrow> (bytes \<Rightarrow> bytes) \<Rightarrow> InvocationContext" where
  "completeInvocationEnvironment invocation environment =
     (if ic_Environment invocation \<noteq> [] then invocation
      else invocation\<lparr>ic_Environment :=
        map (\<lambda>(name, v). \<lparr>ee_Name = name, ee_Value = v, ee_Category = ''provider_environment'', ee_Source = ''environment'',
          ee_Provenance = ''inherited_environment'', ee_Status = SignalStatusObserved\<rparr>)
          (classificationEnvironment environment)\<rparr>)"

definition classificationPayloadHash :: "classify_env \<Rightarrow> bytes \<Rightarrow> bytes" where
  "classificationPayloadHash env payload = ''sha256:'' @ ce_sha env payload"

definition classification_candidates ::
    "classify_env \<Rightarrow> bytes \<Rightarrow> bytes \<Rightarrow> bytes list \<Rightarrow> InvocationContext \<Rightarrow> classificationCandidate list" where
  "classification_candidates env rawBytes providerHint argv invocation =
     routeCandidates providerHint argv @ invocationCandidates invocation
     @ (case unmarshalClassificationPayload env rawBytes of
          (input, Some payload) \<Rightarrow> payloadCandidates env payload input
        | (input, None) \<Rightarrow> [])
     @ environmentCandidates (ic_Environment invocation)"

definition ClassifyWithContext ::
    "classify_env \<Rightarrow> bytes \<Rightarrow> bytes \<Rightarrow> bytes list \<Rightarrow> (bytes \<Rightarrow> bytes) \<Rightarrow> InvocationContext \<Rightarrow> Classification" where
  "ClassifyWithContext env rawBytes providerHint argv environment invocation0 =
     (let invocation = completeInvocationEnvironment invocation0 environment;
          (payloadInput, payload) = unmarshalClassificationPayload env rawBytes;
          input = \<lparr>ci_ProviderHint = providerHint, ci_Argv = argv, ci_Environment = classificationEnvironment environment,
            ci_Invocation = invocation, ci_Payload = payloadInput, ci_RawPayloadBytes = length rawBytes,
            ci_RawPayloadHash = classificationPayloadHash env rawBytes\<rparr>;
          classification = resolveClassification input (classification_candidates env rawBytes providerHint argv invocation) in
      if payload = None then
        classification\<lparr>cl_ResolvedProvider := System_String SystemUnknown, cl_Result := ClassificationResultInvalid,
          cl_Confidence := ClassificationConfidenceNone, cl_Conflicts := [],
          cl_Evidence := map (\<lambda>e. e\<lparr>ev_Result := ''candidate''\<rparr>) (cl_Evidence classification)\<rparr>
      else classification)"

definition empty_observed :: ObservedValue where
  "empty_observed = \<lparr>ov_Value = [], ov_Source = [], ov_Provenance = [], ov_Status = []\<rparr>"

definition empty_process :: ProcessEvidence where
  "empty_process = \<lparr>pe_Name = [], pe_ExecutablePath = [], pe_Source = [], pe_Provenance = [], pe_Status = []\<rparr>"

definition empty_invocation :: InvocationContext where
  "empty_invocation = \<lparr>ic_HookSubcommand = empty_observed, ic_HookTags = [], ic_WorkingDirectory = empty_observed,
     ic_Executable = empty_process, ic_ParentProcess = empty_process, ic_Ancestors = [], ic_Environment = [],
     ic_ManagedRegistration = empty_observed, ic_CollectionIssues = []\<rparr>"

definition Classify :: "classify_env \<Rightarrow> bytes \<Rightarrow> System \<Rightarrow> bytes list \<Rightarrow> (bytes \<Rightarrow> bytes) \<Rightarrow> Classification" where
  "Classify env rawBytes hint argv environment =
     ClassifyWithContext env rawBytes (System_String hint) argv environment empty_invocation"

end
