(* ===== verification/HookProps.thy ===== *)
theory HookProps
  imports HookReplies HookClassify
begin

text \<open>The provider that a hook is attributed to is the one its strongest evidence names.\<close>

section \<open>The strongest candidates\<close>

definition level :: "classificationCandidate \<Rightarrow> nat" where
  "level c = strength_number (cc_strength c)"

lemma level_pos [simp]: "0 < level c"
  by (cases "cc_strength c") (simp_all add: level_def)

lemma foldl_max_bound: "(\<forall>x \<in> set xs. x \<le> foldl max m xs) \<and> (foldl max m xs = m \<or> foldl max m xs \<in> set xs) \<and> (m :: nat) \<le> foldl max m xs"
proof (induction xs arbitrary: m)
  case (Cons x xs)
  show ?case using Cons [of "max m x"] by (auto simp: max_def split: if_splits)
qed simp

lemma strongest_loop_spec:
  "strongest_loop m P cs =
     (let top = foldl max m (map level cs) in
      (top, (if top = m then P else {}) \<union> {cc_provider c | c. c \<in> set cs \<and> level c = top}))"
proof (induction cs arbitrary: m P)
  case (Cons c cs)
  let ?m = "max m (level c)"
  have step: "strongest_loop m P (c # cs)
      = strongest_loop ?m (if level c = ?m then insert (cc_provider c) (if level c > m then {} else P) else P) cs"
    by (simp add: level_def Let_def max_def)
  have top: "?m \<le> foldl max ?m (map level cs)" using foldl_max_bound [of "map level cs" ?m] by simp
  show ?case
  proof (cases "m < level c")
    case True
    then have m: "?m = level c" by simp
    then show ?thesis using top True unfolding step Cons.IH m by (auto simp: Let_def m)
  next
    case False
    then have m: "?m = m" by simp
    then show ?thesis using top False unfolding step Cons.IH m by (auto simp: Let_def m)
  qed
qed simp

definition strongest :: "classificationCandidate list \<Rightarrow> classificationCandidate set" where
  "strongest cs = {c \<in> set cs. \<forall>d \<in> set cs. level d \<le> level c}"

lemma strongest_loop_providers: "snd (strongest_loop 0 {} cs) = cc_provider ` strongest cs"
proof -
  let ?top = "foldl max 0 (map level cs)"
  have top: "\<forall>c \<in> set cs. level c \<le> ?top" "?top = 0 \<or> (\<exists>c \<in> set cs. level c = ?top)"
    using foldl_max_bound [of "map level cs" 0] by auto
  have "strongest cs = {c \<in> set cs. level c = ?top}"
  proof (intro set_eqI iffI)
    fix c assume c: "c \<in> strongest cs"
    then have "level c \<le> ?top" using top(1) by (auto simp: strongest_def)
    then have "?top \<noteq> 0" using level_pos [of c] by linarith
    then obtain d where "d \<in> set cs" "level d = ?top" using top(2) by auto
    then show "c \<in> {c \<in> set cs. level c = ?top}" using c \<open>level c \<le> ?top\<close> by (auto simp: strongest_def)
  qed (use top(1) in \<open>auto simp: strongest_def\<close>)
  then show ?thesis by (auto simp: strongest_loop_spec Let_def)
qed

lemma all_systems_complete: "s \<in> set all_systems"
  by (cases s) (simp_all add: all_systems_def)

lemma chosen_one:
  assumes "filter (\<lambda>s. s \<in> P) all_systems = chosen"
  shows "length chosen = 1 \<longleftrightarrow> (\<exists>s. P = {s})" "\<And>s. P = {s} \<Longrightarrow> chosen = [s]"
proof -
  have distinct: "distinct all_systems" by (simp add: all_systems_def)
  have set: "set chosen = P" using assms all_systems_complete by auto
  have "distinct chosen" using assms distinct by (auto simp: distinct_filter)
  then have card: "length chosen = card P" using set distinct_card by fastforce
  show "length chosen = 1 \<longleftrightarrow> (\<exists>s. P = {s})" unfolding card by (metis One_nat_def card_1_singleton_iff)
  show "chosen = [s]" if "P = {s}" for s
    using that set \<open>distinct chosen\<close> card by (cases chosen) auto
qed

lemma resolve_spec:
  "cl_Result (resolveClassification input cs) = ClassificationResultResolved
     \<and> cl_ResolvedProvider (resolveClassification input cs) = System_String s
   \<longleftrightarrow> cc_provider ` strongest cs = {s}"
proof -
  let ?P = "cc_provider ` strongest cs"
  let ?chosen = "filter (\<lambda>s. s \<in> ?P) all_systems"
  obtain top where loop: "strongest_loop 0 {} cs = (top, ?P)"
    using strongest_loop_providers [of cs] by (cases "strongest_loop 0 {} cs") auto
  have names: "System_String a = System_String b \<longleftrightarrow> a = b" for a b by (cases a; cases b; simp)
  have results: "ClassificationResultResolved \<noteq> ClassificationResultAmbiguous" "ClassificationResultResolved \<noteq> ClassificationResultUnknown"
    by (simp_all add: ClassificationResultResolved_def ClassificationResultAmbiguous_def ClassificationResultUnknown_def)
  have "cl_Result (resolveClassification input cs) = ClassificationResultResolved \<longleftrightarrow> length ?chosen = 1"
    using results by (auto simp: resolveClassification_def loop Let_def)
  moreover have "length ?chosen = 1 \<Longrightarrow> cl_ResolvedProvider (resolveClassification input cs) = System_String (hd ?chosen)"
    by (simp add: resolveClassification_def loop Let_def)
  moreover have "?P = {x} \<Longrightarrow> ?chosen = [x]" for x using chosen_one(2) [OF refl] .
  ultimately show ?thesis using chosen_one(1) [OF refl, of ?P] names by fastforce
qed

lemma classify_readable:
  assumes "snd (unmarshalClassificationPayload env rawBytes) \<noteq> None"
  shows "\<exists>input. ClassifyWithContext env rawBytes hint argv environment invocation
    = resolveClassification input (classification_candidates env rawBytes hint argv
        (completeInvocationEnvironment invocation environment))"
  using assms unfolding ClassifyWithContext_def Let_def by (auto split: prod.splits)

lemma SystemFromString_String [simp]: "SystemFromString (System_String s) = s"
  by (cases s) (simp_all add: SystemFromString_def)

lemma resolved_string: "\<exists>s. cl_ResolvedProvider (resolveClassification i cs) = System_String s"
  by (simp add: resolveClassification_def Let_def split: prod.split) (metis System_String.simps(1))

lemma resolve_system:
  "cl_Result (resolveClassification i cs) = ClassificationResultResolved
      \<and> ResolvedSystem (resolveClassification i cs) = s
   \<longleftrightarrow> cc_provider ` strongest cs = {s}"
proof -
  obtain t where "cl_ResolvedProvider (resolveClassification i cs) = System_String t" using resolved_string by blast
  then have "ResolvedSystem (resolveClassification i cs) = s
      \<longleftrightarrow> cl_ResolvedProvider (resolveClassification i cs) = System_String s"
    unfolding ResolvedSystem_def by (metis SystemFromString_String)
  then show ?thesis using resolve_spec by simp
qed

text \<open>C21. A readable payload is attributed to a provider exactly when all candidates of the greatest
  strength name it; weaker evidence, repeated evidence and the order of the evidence do not matter.\<close>

theorem provider_is_strongest:
  assumes "snd (unmarshalClassificationPayload env rawBytes) \<noteq> None"
  shows "cl_Result (ClassifyWithContext env rawBytes providerHint argv environment invocation) = ClassificationResultResolved
      \<and> ResolvedSystem (ClassifyWithContext env rawBytes providerHint argv environment invocation) = s
    \<longleftrightarrow> cc_provider ` strongest (classification_candidates env rawBytes providerHint argv
          (completeInvocationEnvironment invocation environment)) = {s}"
proof -
  obtain input where eq: "ClassifyWithContext env rawBytes providerHint argv environment invocation
      = resolveClassification input (classification_candidates env rawBytes providerHint argv
          (completeInvocationEnvironment invocation environment))"
    using classify_readable [OF assms] by blast
  show ?thesis by (simp only: eq resolve_system)
qed

section \<open>The route decides\<close>

lemma route_level: "c \<in> set (routeCandidates hint argv) \<Longrightarrow> level c = 6"
  by (auto simp: routeCandidates_def candidate_def level_def split: if_splits)

lemma other_level:
  "c \<in> set (invocationCandidates i) \<Longrightarrow> level c < 6"
  "c \<in> set (payloadCandidates env p inp) \<Longrightarrow> level c < 6"
  "c \<in> set (environmentCandidates es) \<Longrightarrow> level c < 6"
proof -
  show "c \<in> set (invocationCandidates i) \<Longrightarrow> level c < 6"
    by (auto simp: invocationCandidates_def process_candidates_def candidate_def level_def Let_def split: if_splits)
  show "c \<in> set (payloadCandidates env p inp) \<Longrightarrow> level c < 6"
    unfolding payloadCandidates_def set_append Un_iff
    by (elim disjE) (auto simp: payloadCandidate_def candidate_def level_def Let_def map_filter_def split: if_splits)
  have signals: "\<forall>signal \<in> set classificationEnvironmentSignals. strength_number (es_strength signal) < 6"
    by (simp add: classificationEnvironmentSignals_def environment_signal_def)
  show "c \<in> set (environmentCandidates es) \<Longrightarrow> level c < 6"
    using signals unfolding environmentCandidates_def
    by (auto simp: candidate_def level_def Let_def split: if_splits)
qed

lemma strongest_route:
  assumes "routeCandidates hint argv \<noteq> []"
  shows "strongest (classification_candidates env rawBytes hint argv invocation) = set (routeCandidates hint argv)"
proof -
  let ?cs = "classification_candidates env rawBytes hint argv invocation"
  have weaker: "c \<in> set ?cs \<Longrightarrow> c \<in> set (routeCandidates hint argv) \<or> level c < 6" for c
    unfolding classification_candidates_def using other_level by (auto split: prod.splits option.splits)
  obtain r where r: "r \<in> set (routeCandidates hint argv)" using assms by (cases "routeCandidates hint argv") auto
  have sub: "set (routeCandidates hint argv) \<subseteq> set ?cs" by (simp add: classification_candidates_def)
  show ?thesis
  proof (intro set_eqI iffI)
    fix c assume c: "c \<in> strongest ?cs"
    then have "level r \<le> level c" "c \<in> set ?cs" using r sub by (auto simp: strongest_def)
    then show "c \<in> set (routeCandidates hint argv)" using weaker [of c] route_level [OF r] by auto
  next
    fix c assume c: "c \<in> set (routeCandidates hint argv)"
    have "level d \<le> level c" if "d \<in> set ?cs" for d
      using weaker [OF that] route_level [OF c] route_level [of d] by auto
    then show "c \<in> strongest ?cs" using c sub by (auto simp: strongest_def)
  qed
qed

text \<open>The route decides: when the request names a provider and no provider-specific subcommand in
  the argument vector names another one, a readable payload is attributed to that provider whatever the
  payload, the processes, the registration and the environment claim.\<close>

theorem route_decides_provider:
  assumes "snd (unmarshalClassificationPayload env rawBytes) \<noteq> None"
    and "providerFromSignal hint = s" "s \<noteq> SystemUnknown"
    and "route_command ` set argv \<subseteq> {s, SystemUnknown}"
  shows "ResolvedSystem (ClassifyWithContext env rawBytes hint argv environment invocation) = s"
proof -
  have "cc_provider ` set (routeCandidates hint argv) = {s}" "routeCandidates hint argv \<noteq> []"
    using assms(2-4) by (auto simp: routeCandidates_def candidate_def image_def)
  then show ?thesis
    using classify_readable [OF assms(1), of hint argv environment invocation] strongest_route resolve_system by metis
qed


lemma strongest_single: "strongest [c] = {c}"
  by (auto simp: strongest_def)

definition demo_classify :: classify_env where
  "demo_classify = \<lparr>ce_sha = (\<lambda>b. []), ce_IsUpper = (\<lambda>r. r \<in> {''A'', ''P''}), ce_IsLower = (\<lambda>r. r \<in> {''p'', ''s''}),
     ce_ToLower = (\<lambda>s. s)\<rparr>"

definition demo_gemini_payload :: bytes where
  "demo_gemini_payload = json_encode_object [(''hook_event_name'', json_quote ''BeforeTool'')]"

lemma demo_readable: "snd (unmarshalClassificationPayload demo_classify demo_gemini_payload) \<noteq> None"
  by code_simp

theorem provider_is_strongest_witness:
  "cl_Result (ClassifyWithContext demo_classify demo_gemini_payload [] [''agent-gate''] (\<lambda>n. []) empty_invocation)
      = ClassificationResultResolved
   \<and> ResolvedSystem (ClassifyWithContext demo_classify demo_gemini_payload [] [''agent-gate''] (\<lambda>n. []) empty_invocation) = SystemGemini"
proof -
  have "classification_candidates demo_classify demo_gemini_payload [] [''agent-gate'']
      (completeInvocationEnvironment empty_invocation (\<lambda>n. []))
      = [candidate ''payload_event'' ''hook_event_name'' ''BeforeTool'' SystemGemini StrengthPayload]"
    by code_simp
  then show ?thesis
    using provider_is_strongest [OF demo_readable, of "[]" "[''agent-gate'']" "\<lambda>n. []" empty_invocation SystemGemini]
    by (simp add: strongest_single candidate_def)
qed

theorem route_decides_provider_witness:
  "ResolvedSystem (ClassifyWithContext demo_classify demo_gemini_payload ''codex'' [''agent-gate'', ''hook''] (\<lambda>n. []) empty_invocation)
    = SystemCodex"
proof (rule route_decides_provider [OF demo_readable])
  show "providerFromSignal ''codex'' = SystemCodex" by code_simp
  show "route_command ` set [''agent-gate'', ''hook''] \<subseteq> {SystemCodex, SystemUnknown}" by (simp add: route_command_def)
qed simp

end
