(* ===== verification/HookSchema.thy ===== *)
theory HookSchema
  imports HookResponse RuleCompile
begin

text \<open>
  Validation of a compiled configuration against the hook events (\<^verbatim>\<open>internal/hook/schema.go\<close>): which
  fields an event carries, which events a rule applies to, and the conditions under which the daemon
  and the command line refuse the configuration; and the warnings about actions that a provider cannot
  apply (\<^verbatim>\<open>capability_warn.go\<close>).

  An event schema is the list of its paths.  Go iterates over the schema maps in an order that it
  leaves open; here it is the order of the table, which decides only the order of the messages.
\<close>

section \<open>Event schemas\<close>

definition virtualFields :: "bytes list" where
  "virtualFields =
     [''effective_cwd'', ''cmd_segments'', ''cmd_comments'', ''cmd_double_hyphen_prose'', ''cmd_redirections'',
     ''cmd_write_targets'', ''patch_write_targets'', ''credential_read_targets'', ''last_user_message'',
     ''last_response_output'', ''response_output'']"

definition cursorEnvelope :: "bytes list" where
  "cursorEnvelope =
     [''hook_event_name'', ''session_id'', ''conversation_id'', ''generation_id'', ''model'',
     ''cursor_version'', ''user_email'', ''transcript_path'']"

definition toolInputPaths :: "bytes list" where
  "toolInputPaths =
     [''tool_input.file_path'', ''tool_input.content'', ''tool_input.command'', ''tool_input.old_string'',
     ''tool_input.new_string'', ''tool_input.pattern'', ''tool_input.path'', ''tool_input.url'',
     ''tool_input.query'']"

definition claudeEnvelope :: "bytes list" where
  "claudeEnvelope =
     [''hook_event_name'', ''session_id'', ''transcript_path'', ''cwd'', ''permission_mode'', ''agent_id'',
     ''agent_type'']"

definition claudeToolInputPaths :: "bytes list" where
  "claudeToolInputPaths =
     [''tool_input.command'', ''tool_input.file_path'', ''tool_input.content'', ''tool_input.old_string'',
     ''tool_input.new_string'', ''tool_input.description'', ''tool_input.prompt'', ''tool_input.url'',
     ''tool_input.query'', ''tool_input.pattern'']"

definition cursor_toolUseBase :: "bytes list" where
  "cursor_toolUseBase =
     cursorEnvelope @ toolInputPaths @ [''tool_name'', ''cwd'']"

definition buildCursorSchema :: "(bytes \<times> bytes list) list" where
  "buildCursorSchema =
    [(''sessionStart'', cursorEnvelope),
     (''sessionEnd'', cursorEnvelope),
     (''preToolUse'', cursor_toolUseBase),
     (''postToolUse'', cursor_toolUseBase @ [''tool_output'']),
     (''postToolUseFailure'', cursor_toolUseBase @ [''error'']),
     (''beforeShellExecution'', cursorEnvelope @ [''command'', ''cwd'']),
     (''afterShellExecution'', cursorEnvelope @ [''command'', ''cwd'', ''output'']),
     (''beforeMCPExecution'', cursorEnvelope @ [''tool_name'', ''cwd'']),
     (''afterMCPExecution'', cursorEnvelope @ [''tool_name'', ''cwd'', ''tool_output'']),
     (''beforeReadFile'', cursorEnvelope @ [''file_path'', ''cwd'']),
     (''beforeTabFileRead'', cursorEnvelope @ [''file_path'', ''cwd'']),
     (''afterFileEdit'', cursorEnvelope @ [''file_path'', ''edits[*].old_string'', ''edits[*].new_string'']),
     (''afterTabFileEdit'', cursorEnvelope @ [''file_path'', ''edits[*].old_string'', ''edits[*].new_string'']),
     (''beforeSubmitPrompt'', cursorEnvelope @ [''prompt'', ''text'', ''cwd'']),
     (''subagentStart'', cursorEnvelope),
     (''subagentStop'', cursorEnvelope),
     (''preCompact'', cursorEnvelope),
     (''stop'', cursorEnvelope @ [''status'', ''loop_count'']),
     (''afterAgentResponse'', cursorEnvelope @ [''text'', ''assistant_message'']),
     (''afterAgentThought'', cursorEnvelope @ [''text'', ''assistant_message''])]"

definition copilot_envelope :: "bytes list" where
  "copilot_envelope =
     [''hook_event_name'', ''session_id'', ''transcript_path'', ''cwd'']"

definition copilot_toolEvent :: "bytes list" where
  "copilot_toolEvent =
     copilot_envelope @ toolInputPaths @ [''tool_name'', ''tool_use_id'']"

definition buildCopilotSchema :: "(bytes \<times> bytes list) list" where
  "buildCopilotSchema =
    [(''sessionStart'', copilot_envelope),
     (''subagentStart'', copilot_envelope),
     (''preToolUse'', copilot_toolEvent),
     (''postToolUse'', copilot_toolEvent @ [''tool_output'', ''tool_response'']),
     (''postToolUseFailure'', copilot_toolEvent @ [''error'']),
     (''notification'', copilot_envelope @ [''message'', ''text'']),
     (''userPromptTransformed'', copilot_envelope @ [''prompt'']),
     (''SessionStart'', copilot_envelope),
     (''SubagentStart'', copilot_envelope),
     (''PreToolUse'', copilot_toolEvent),
     (''PostToolUse'', copilot_toolEvent @ [''tool_output'', ''tool_response'']),
     (''PostToolUseFailure'', copilot_toolEvent @ [''error'']),
     (''Notification'', copilot_envelope @ [''message'', ''text''])]"

definition claudeToolUseBase :: "bytes list" where
  "claudeToolUseBase =
     claudeEnvelope @ claudeToolInputPaths @ [''tool_name'', ''tool_use_id'']"

definition buildClaudeSchema :: "(bytes \<times> bytes list) list" where
  "buildClaudeSchema =
    [(''SessionStart'', claudeEnvelope @ [''source'', ''model'']),
     (''SessionEnd'', claudeEnvelope @ [''reason'']),
     (''Setup'', claudeEnvelope @ [''trigger'']),
     (''PreToolUse'', claudeToolUseBase),
     (''PostToolUse'', claudeToolUseBase @ [''tool_response'']),
     (''PostToolUseFailure'', claudeToolUseBase @ [''error'', ''error_type'', ''is_interrupt'']),
     (''PermissionRequest'', claudeToolUseBase @ [''permission_suggestions'']),
     (''PermissionDenied'', claudeToolUseBase @ [''reason'']),
     (''UserPromptSubmit'', claudeEnvelope @ [''prompt'', ''session_title'']),
     (''Stop'', claudeEnvelope @ [''stop_hook_active'', ''last_assistant_message'']),
     (''StopFailure'', claudeEnvelope @ [''error'', ''error_details'', ''last_assistant_message'']),
     (''SubagentStart'', claudeEnvelope),
     (''SubagentStop'', claudeEnvelope @ [''stop_hook_active'', ''agent_transcript_path'', ''last_assistant_message'']),
     (''TaskCreated'', claudeEnvelope @ [''task_id'', ''task_subject'', ''task_description'', ''teammate_name'', ''team_name'']),
     (''TaskCompleted'', claudeEnvelope @ [''task_id'', ''task_subject'', ''task_description'', ''teammate_name'', ''team_name'']),
     (''Notification'', claudeEnvelope @ [''notification_type'', ''message'', ''title'']),
     (''PreCompact'', claudeEnvelope @ [''trigger'', ''custom_instructions'']),
     (''PostCompact'', claudeEnvelope @ [''trigger'', ''compact_summary'']),
     (''InstructionsLoaded'', claudeEnvelope @ [''file_path'', ''memory_type'', ''load_reason'', ''globs'', ''trigger_file_path'', ''parent_file_path'']),
     (''ConfigChange'', claudeEnvelope @ [''source'', ''file_path'']),
     (''CwdChanged'', claudeEnvelope @ [''old_cwd'', ''new_cwd'']),
     (''FileChanged'', claudeEnvelope @ [''file_path'', ''event'']),
     (''WorktreeCreate'', claudeEnvelope @ [''name'']),
     (''WorktreeRemove'', claudeEnvelope @ [''worktree_path'']),
     (''Elicitation'', claudeEnvelope @ [''mcp_server_name'', ''message'', ''mode'', ''url'', ''elicitation_id'']),
     (''ElicitationResult'', claudeEnvelope @ [''mcp_server_name'', ''elicitation_id'', ''mode'', ''action'']),
     (''TeammateIdle'', claudeEnvelope @ [''teammate_name'', ''team_name'']),
     (''PostToolBatch'', claudeToolUseBase @ [''tool_response'']),
     (''UserPromptExpansion'', claudeEnvelope @ [''prompt'']),
     (''MessageDisplay'', claudeEnvelope @ [''text'', ''assistant_message''])]"

definition codexEnvelope :: "bytes list" where
  "codexEnvelope =
     [''hook_event_name'', ''session_id'', ''transcript_path'', ''cwd'', ''model'']"

definition codexToolInputPaths :: "bytes list" where
  "codexToolInputPaths =
     [''tool_input.command'', ''tool_input.file_path'', ''tool_input.content'', ''tool_input.old_string'',
     ''tool_input.new_string'', ''tool_input.description'', ''tool_input.prompt'', ''tool_input.url'',
     ''tool_input.query'', ''tool_input.pattern'']"

definition codexToolBase :: "bytes list" where
  "codexToolBase =
     codexEnvelope @ codexToolInputPaths @ [''turn_id'', ''tool_name'', ''tool_use_id'']"

definition buildCodexSchema :: "(bytes \<times> bytes list) list" where
  "buildCodexSchema =
    [(''SessionStart'', codexEnvelope @ [''source'']),
     (''PreToolUse'', codexToolBase),
     (''PermissionRequest'', codexToolBase @ [''tool_input.description'']),
     (''PostToolUse'', codexToolBase @ [''tool_response'']),
     (''UserPromptSubmit'', codexEnvelope @ [''turn_id'', ''prompt'']),
     (''Stop'', codexEnvelope @ [''turn_id'', ''stop_hook_active'', ''last_assistant_message'']),
     (''PreCompact'', codexEnvelope @ [''turn_id'', ''trigger'']),
     (''PostCompact'', codexEnvelope @ [''turn_id'', ''trigger'']),
     (''SubagentStart'', codexEnvelope @ [''turn_id'', ''permission_mode'', ''agent_id'', ''agent_type'']),
     (''SubagentStop'', codexEnvelope @ [''turn_id'', ''permission_mode'', ''agent_id'', ''agent_type'', ''stop_hook_active'', ''agent_transcript_path'', ''last_assistant_message''])]"

definition geminiEnvelope :: "bytes list" where
  "geminiEnvelope =
     [''hook_event_name'', ''session_id'', ''transcript_path'', ''cwd'', ''timestamp'']"

definition geminiToolInputPaths :: "bytes list" where
  "geminiToolInputPaths =
     [''tool_input.file_path'', ''tool_input.content'', ''tool_input.command'', ''tool_input.old_string'',
     ''tool_input.new_string'', ''tool_input.pattern'', ''tool_input.path'', ''tool_input.url'',
     ''tool_input.query'', ''tool_input.description'']"

definition geminiToolBase :: "bytes list" where
  "geminiToolBase =
     geminiEnvelope @ geminiToolInputPaths @ [''tool_name'', ''mcp_context'', ''original_request_name'']"

definition buildGeminiSchema :: "(bytes \<times> bytes list) list" where
  "buildGeminiSchema =
    [(''BeforeTool'', geminiToolBase),
     (''AfterTool'', geminiToolBase @ [''tool_response'']),
     (''BeforeAgent'', geminiEnvelope @ [''prompt'']),
     (''AfterAgent'', geminiEnvelope @ [''prompt'', ''prompt_response'', ''stop_hook_active'']),
     (''BeforeModel'', geminiEnvelope @ [''llm_request'']),
     (''BeforeToolSelection'', geminiEnvelope @ [''llm_request'']),
     (''AfterModel'', geminiEnvelope @ [''llm_request'', ''llm_response'']),
     (''SessionStart'', geminiEnvelope @ [''source'']),
     (''SessionEnd'', geminiEnvelope @ [''reason'']),
     (''Notification'', geminiEnvelope @ [''notification_type'', ''message'', ''details'']),
     (''PreCompress'', geminiEnvelope @ [''trigger''])]"

definition responseSchema :: "(bytes \<times> bytes list) list" where
  "responseSchema = [(ResponseEvent, [''hook_event_name'', ''session_id'', ''assistant_message''])]"

definition system_schema :: "bytes \<Rightarrow> (bytes \<times> bytes list) list" where
  "system_schema system =
     (if system = ''cursor'' then buildCursorSchema
      else if system = ''claude'' then buildClaudeSchema
      else if system = ''codex'' then buildCodexSchema
      else if system = ''copilot'' then buildCopilotSchema
      else if system = ''gemini'' then buildGeminiSchema
      else if system = ''response'' then responseSchema
      else [])"

definition ValidPaths :: "bytes \<Rightarrow> bytes \<Rightarrow> bytes list option" where
  "ValidPaths system eventName = map_of (system_schema system) eventName"

section \<open>The events of a rule\<close>

definition appendSchemaEvents :: "bytes \<Rightarrow> (bytes \<times> bytes list) list \<Rightarrow> (bytes \<times> bytes) list" where
  "appendSchemaEvents system schema = map (\<lambda>(event, paths). (system, event)) schema"

definition allEventPairs :: "(bytes \<times> bytes) list" where
  "allEventPairs =
     appendSchemaEvents ''cursor'' buildCursorSchema @ appendSchemaEvents ''claude'' buildClaudeSchema
     @ appendSchemaEvents ''codex'' buildCodexSchema @ appendSchemaEvents ''copilot'' buildCopilotSchema
     @ appendSchemaEvents ''gemini'' buildGeminiSchema @ appendSchemaEvents ''response'' responseSchema"

definition filterDisabledProviders :: "(bytes \<times> bytes) list \<Rightarrow> Rule \<Rightarrow> (bytes \<times> bytes) list" where
  "filterDisabledProviders pairs r =
     (if r_DisableProviders r = [] then pairs else filter (\<lambda>(system, event). \<not> ProviderDisabled r system) pairs)"

definition appendProviderEventPairs :: "Rule \<Rightarrow> bytes \<Rightarrow> bytes list \<Rightarrow> (bytes \<times> bytes) list" where
  "appendProviderEventPairs r system events =
     (if ProviderDisabled r system then [] else map (\<lambda>event. (system, event)) events)"

definition applicableEventPairs :: "Rule \<Rightarrow> (bytes \<times> bytes) list" where
  "applicableEventPairs r =
     (if r_AllEvents r then filterDisabledProviders allEventPairs r
      else concat (map (\<lambda>event. map (\<lambda>system. (system, event))
             (filter (\<lambda>system. \<not> ProviderDisabled r system)
               [''claude'', ''cursor'', ''codex'', ''copilot'', ''gemini'', ''response''])) (r_Events r))
        @ appendProviderEventPairs r ''claude'' (r_ClaudeEvents r)
        @ appendProviderEventPairs r ''cursor'' (r_CursorEvents r)
        @ appendProviderEventPairs r ''codex'' (r_CodexEvents r)
        @ appendProviderEventPairs r ''copilot'' (r_CopilotEvents r)
        @ appendProviderEventPairs r ''gemini'' (r_GeminiEvents r))"

section \<open>Checks\<close>

definition isKnownConditionKind :: "bytes \<Rightarrow> bool" where
  "isKnownConditionKind kind \<longleftrightarrow> kind \<in> set [[], ConditionKindRegex, ConditionKindCommand, ConditionKindProject,
     ConditionKindDiff, ConditionKindShellRead, ConditionKindShellWrite, ConditionKindExec, ConditionKindGitDefaultBranch,
     ConditionKindGitPrimaryCheckout, ConditionKindGitRefMove, ConditionKindInfer]"

definition validateConditionKinds :: "Rule \<Rightarrow> bytes list" where
  "validateConditionKinds r =
     map (\<lambda>c. ''condition has unknown kind'') (filter (\<lambda>c. \<not> isKnownConditionKind (c_Kind c)) (r_Conditions r))"

definition isTemporalSelector :: "bytes \<Rightarrow> bool" where
  "isTemporalSelector fieldPath \<longleftrightarrow> IsTemporalExecSelector (CompileFieldSelector (TrimSpace fieldPath))"

definition appendTemporalSelectorScopeError :: "bytes \<Rightarrow> bytes list" where
  "appendTemporalSelectorScopeError fieldPath =
     (if isTemporalSelector fieldPath then [''field_path is valid only in exec condition field_paths''] else [])"

definition temporal_path_errors :: "Rule \<Rightarrow> Condition \<Rightarrow> bytes \<Rightarrow> bytes list" where
  "temporal_path_errors r c fieldPath =
     (if \<not> isTemporalSelector fieldPath then []
      else if c_Kind c \<noteq> ConditionKindExec then [''field_path is valid only for exec conditions'']
      else if (fieldPath = ''last_response_output'' \<or> fieldPath = ''response_output'') \<and> \<not> IsResponseAction r
      then [''field_path requires action inject or mutate'']
      else [])"

definition temporal_condition_errors :: "Rule \<Rightarrow> Condition \<Rightarrow> bytes list" where
  "temporal_condition_errors r c =
     concat (map (temporal_path_errors r c) (c_FieldPaths c))
     @ (if c_Kind c = ConditionKindInfer then
          concat (map appendTemporalSelectorScopeError
            [c_InputField c, c_CacheKey c, c_ContextWorkspaceField c, c_ContextSessionField c]) else [])
     @ (if c_Kind c = ConditionKindDiff then
          (case ParseFieldPair (c_FieldPair c) of
             Inl err \<Rightarrow> []
           | Inr pair \<Rightarrow> appendTemporalSelectorScopeError (fp_OldPath pair) @ appendTemporalSelectorScopeError (fp_NewPath pair))
        else [])"

definition validateTemporalSelectorScope :: "Rule \<Rightarrow> bytes list" where
  "validateTemporalSelectorScope r =
     concat (map appendTemporalSelectorScopeError (r_FieldPaths r))
     @ concat (map appendTemporalSelectorScopeError (r_JudgeContext r))
     @ concat (map (temporal_condition_errors r) (r_Conditions r))"

definition validResponseMutation :: "System \<Rightarrow> bytes \<Rightarrow> bytes \<Rightarrow> bool" where
  "validResponseMutation system target v \<longleftrightarrow>
     (if system = SystemCopilot \<and> target = ''tool_output'' then validCopilotToolOutputMutation v \<noteq> None
      else validStructuredMutation v \<noteq> None)"

definition validateResponseRuleConfig :: "Rule \<Rightarrow> bytes list" where
  "validateResponseRuleConfig r =
     (if \<not> IsResponseAction r \<or> r_Action r \<noteq> ActionMutate \<or> ruleHasExecCondition r \<or> OutputText r = [] then []
      else concat (map (\<lambda>(system, event).
        (let s = SystemFromString system;
             (target, structured) = responseMutationTarget (LookupResponseCapability s event) in
         if \<not> structured \<or> validResponseMutation s target (OutputText r) then []
         else [''mutate output is invalid''])) (applicableEventPairs r)))"

definition condition_paths :: "Condition \<Rightarrow> bytes list" where
  "condition_paths c =
     c_FieldPaths c
     @ (if c_Kind c = ConditionKindInfer then
          [c_InputField c, c_CacheKey c]
          @ (if c_ContextSource c \<noteq> [] then [c_ContextWorkspaceField c, c_ContextSessionField c] else []) else [])"

definition collectRuleFieldPaths :: "Rule \<Rightarrow> bytes list" where
  "collectRuleFieldPaths r = r_FieldPaths r @ concat (map condition_paths (r_Conditions r))"

definition fieldPathApplies :: "bytes \<Rightarrow> (bytes \<times> bytes) list \<Rightarrow> bool" where
  "fieldPathApplies fieldPath applicable =
     list_ex (\<lambda>(system, event). case ValidPaths system event of None \<Rightarrow> False | Some paths \<Rightarrow> fieldPath \<in> set paths) applicable"

definition validateFieldPathForRule :: "bytes \<Rightarrow> (bytes \<times> bytes) list \<Rightarrow> bytes list" where
  "validateFieldPathForRule fieldPath applicable =
     (if CompileFieldSelector fieldPath = FieldSelectorInvalid then [''field_path has no typed selector'']
      else if fieldPath \<in> set virtualFields \<or> fieldPathApplies fieldPath applicable then []
      else [''field_path is not valid for any applicable event''])"

definition validateRuleConfig :: "Rule \<Rightarrow> bytes list" where
  "validateRuleConfig r =
     validateConditionKinds r @ validateResponseRuleConfig r @ validateTemporalSelectorScope r
     @ concat (map (\<lambda>fieldPath. validateFieldPathForRule fieldPath (applicableEventPairs r)) (collectRuleFieldPaths r))"

fun validate_rules :: "bytes list \<Rightarrow> Rule list \<Rightarrow> bytes list" where
  "validate_rules seenRuleNames [] = []"
| "validate_rules seenRuleNames (r # rules) =
     (if r_Name r \<in> set seenRuleNames then [''duplicate rule name''] else [])
     @ validateRuleConfig r @ validate_rules (r_Name r # seenRuleNames) rules"

definition ValidateConfig :: "Rule list \<Rightarrow> bytes list" where
  "ValidateConfig rules = validate_rules [] rules"

section \<open>Capability downgrades\<close>

record CapabilityDowngrade =
  cd_Rule :: bytes
  cd_System :: System
  cd_Event :: bytes
  cd_Declared :: bytes
  cd_Effect :: bytes

text \<open>The effect that remains of an action the event cannot apply.\<close>

definition unsupportedRuleEffect :: "Rule \<Rightarrow> System \<times> bytes \<Rightarrow> bytes option" where
  "unsupportedRuleEffect rule pair =
     (let (system, event) = pair; capability = LookupResponseCapability system event in
      if r_Action rule = ActionBlock then
        (if LookupCapability system event \<in> {CapabilityBlock, CapabilitySubstitute} then None else Some ''audit'')
      else if r_Action rule = ActionInject then
        (if Supports capability ResponseCapabilityInject then None else Some ''noop'')
      else if r_Action rule = ActionMutate then
        (if fst (responseMutationTarget capability) \<noteq> [] then None else Some ''noop'')
      else None)"

definition provider_subscriptions :: "Rule \<Rightarrow> System \<Rightarrow> bytes list \<Rightarrow> (System \<times> bytes) list" where
  "provider_subscriptions rule system events =
     (if ProviderDisabled rule (System_String system) then [] else map (\<lambda>e. (system, e)) events)"

definition ruleSubscriptions :: "Rule \<Rightarrow> (System \<times> bytes) list" where
  "ruleSubscriptions rule =
     (if r_AllEvents rule then filter (\<lambda>(system, event). \<not> ProviderDisabled rule (System_String system)) (map fst capabilityTable)
      else provider_subscriptions rule SystemClaude (r_ClaudeEvents rule)
        @ provider_subscriptions rule SystemCodex (r_CodexEvents rule)
        @ provider_subscriptions rule SystemCopilot (r_CopilotEvents rule)
        @ provider_subscriptions rule SystemCursor (r_CursorEvents rule)
        @ provider_subscriptions rule SystemGemini (r_GeminiEvents rule)
        @ concat (map (\<lambda>e. map (\<lambda>system. (system, e))
            (filter (\<lambda>system. \<not> ProviderDisabled rule (System_String system) \<and> map_of capabilityTable (system, e) \<noteq> None)
              [SystemClaude, SystemCodex, SystemCopilot, SystemCursor, SystemGemini, SystemResponse])) (r_Events rule)))"

definition WarnCapabilityDowngrades :: "Rule list \<Rightarrow> CapabilityDowngrade list" where
  "WarnCapabilityDowngrades rules =
     concat (map (\<lambda>rule. List.map_filter (\<lambda>(system, event).
       map_option (\<lambda>effect. \<lparr>cd_Rule = r_Name rule, cd_System = system, cd_Event = event, cd_Declared = r_Action rule,
         cd_Effect = effect\<rparr>) (unsupportedRuleEffect rule (system, event))) (ruleSubscriptions rule)) rules)"

end
