(* ===== verification/Diagnostics.thy ===== *)
theory Diagnostics
  imports Engine Json
begin

text \<open>
  The diagnostic text of a block (\<^verbatim>\<open>internal/rules/diagnostics.go\<close>): the message-only violations, then a
  legend of the rules and the matches of each field, sorted by position.  A slice expression that would
  panic is \<^term>\<open>None\<close>.  \<^verbatim>\<open>strconv.IsPrint\<close> is a parameter for the code points above ASCII.
\<close>

section \<open>Quoted text\<close>

text \<open>The code point of a well-formed encoding.\<close>

definition rune_value :: "bytes \<Rightarrow> nat" where
  "rune_value r =
     (case map (\<lambda>c. of_char c :: nat) r of
        [a] \<Rightarrow> a
      | [a, b] \<Rightarrow> (a - 0xC0) * 64 + (b - 0x80)
      | [a, b, c] \<Rightarrow> (a - 0xE0) * 4096 + (b - 0x80) * 64 + (c - 0x80)
      | [a, b, c, d] \<Rightarrow> (a - 0xF0) * 262144 + (b - 0x80) * 4096 + (c - 0x80) * 64 + (d - 0x80)
      | _ \<Rightarrow> 0xFFFD)"

definition IsPrint :: "(nat \<Rightarrow> bool) \<Rightarrow> nat \<Rightarrow> bool" where
  "IsPrint is_print r \<longleftrightarrow> (if r < 0x80 then 0x20 \<le> r \<and> r < 0x7F else is_print r)"

fun hex_digits :: "nat \<Rightarrow> nat \<Rightarrow> bytes" where
  "hex_digits 0 n = []"
| "hex_digits (Suc k) n = hex_digits k (n div 16) @ [hex_digit (n mod 16)]"

definition appendEscapedRune :: "(nat \<Rightarrow> bool) \<Rightarrow> bytes \<Rightarrow> bytes" where
  "appendEscapedRune is_print r =
     (let n = rune_value r in
      if r = [CHR 0x22] \<or> r = [CHR 0x5C] then CHR 0x5C # r
      else if IsPrint is_print n then r
      else if n = 7 then CHR 0x5C # ''a''
      else if n = 8 then CHR 0x5C # ''b''
      else if n = 12 then CHR 0x5C # ''f''
      else if n = 10 then CHR 0x5C # ''n''
      else if n = 13 then CHR 0x5C # ''r''
      else if n = 9 then CHR 0x5C # ''t''
      else if n = 11 then CHR 0x5C # ''v''
      else if n < 0x20 \<or> n = 0x7F then CHR 0x5C # CHR ''x'' # hex_digits 2 n
      else if n < 0x10000 then CHR 0x5C # CHR ''u'' # hex_digits 4 n
      else CHR 0x5C # CHR ''U'' # hex_digits 8 n)"

function (sequential) quote_body :: "(nat \<Rightarrow> bool) \<Rightarrow> bytes \<Rightarrow> bytes" where
  "quote_body is_print [] = []"
| "quote_body is_print (c # cs) =
     (let w = rune_width (c # cs) in
      if w = 0 then CHR 0x5C # CHR ''x'' # hex_digits 2 (of_char c) @ quote_body is_print cs
      else appendEscapedRune is_print (take w (c # cs)) @ quote_body is_print (drop w (c # cs)))"
  by pat_completeness auto
termination by (relation "measure (length \<circ> snd)") auto

definition Quote :: "(nat \<Rightarrow> bool) \<Rightarrow> bytes \<Rightarrow> bytes" where
  "Quote is_print s = CHR 0x22 # quote_body is_print s @ [CHR 0x22]"

section \<open>Positions\<close>

definition newline_byte :: char where "newline_byte = CHR 0x0A"

text \<open>The loop over the runes before the offset; only newlines matter, and each is a rune of its own.\<close>

fun line_loop :: "nat \<Rightarrow> nat \<Rightarrow> nat \<Rightarrow> nat \<Rightarrow> bytes \<Rightarrow> nat \<times> nat" where
  "line_loop offset i line lineStart [] = (line, lineStart)"
| "line_loop offset i line lineStart (c # cs) =
     (if offset \<le> i then (line, lineStart)
      else if c = newline_byte then line_loop offset (i + 1) (line + 1) (i + 1) cs
      else line_loop offset (i + 1) line lineStart cs)"

definition lineForOffset :: "bytes \<Rightarrow> nat \<Rightarrow> nat \<times> nat \<times> bytes" where
  "lineForOffset v offset =
     (let (line, lineStart) = line_loop (min offset (length v)) 0 1 0 v in
      (line, lineStart, takeWhile (\<lambda>c. c \<noteq> newline_byte) (drop lineStart v)))"

definition visibleText :: "bytes \<Rightarrow> bytes" where
  "visibleText s =
     concat (map (\<lambda>c. if c = CHR 0x0D then ''<CR>'' else [c])
       (concat (map (\<lambda>c. if c = CHR 0x09 then ''<TAB>'' else [c]) s)))"

definition RuneCountInString :: "bytes \<Rightarrow> nat" where
  "RuneCountInString s = length (runes s)"

definition visibleWidth :: "bytes \<Rightarrow> nat" where
  "visibleWidth s = RuneCountInString (visibleText s)"

definition slice :: "'a list \<Rightarrow> nat \<Rightarrow> nat \<Rightarrow> 'a list option" where
  "slice xs a b = (if a \<le> b \<and> b \<le> length xs then Some (drop a (take b xs)) else None)"

definition clippedLineText :: "bytes \<Rightarrow> nat \<Rightarrow> nat \<Rightarrow> bytes option" where
  "clippedLineText line matchStart matchWidth =
     (let lineRunes = runes line in
      if length lineRunes \<le> 120 then Some line
      else let width = max matchWidth 1;
               start = matchStart - 30;
               end' = min (matchStart + width + 30) (length lineRunes) in
           map_option (\<lambda>rs. (if 0 < start then ''...'' else []) @ concat rs
             @ (if end' < length lineRunes then ''...'' else [])) (slice lineRunes start end'))"

record diagnosticOccurrence =
  do_violation :: Violation
  do_Key :: bytes
  do_Line :: nat
  do_Column :: nat
  do_LineText :: bytes
  do_Match :: bytes

definition occurrenceFor :: "Violation \<Rightarrow> diagnosticOccurrence option" where
  "occurrenceFor v =
     (let (line, lineStart, lineText) = lineForOffset (vi_Value v) (vi_Start v);
          startInLine = vi_Start v - lineStart;
          endInLine = min (max (vi_End v - lineStart) startInLine) (length lineText) in
      case slice lineText 0 startInLine of
        None \<Rightarrow> None
      | Some prefix \<Rightarrow>
          (case slice lineText startInLine endInLine of
             None \<Rightarrow> None
           | Some match \<Rightarrow>
               (case clippedLineText (visibleText lineText) (RuneCountInString prefix) (visibleWidth match) of
                  None \<Rightarrow> None
                | Some clipped \<Rightarrow>
                    Some \<lparr>do_violation = v, do_Key = [], do_Line = line, do_Column = RuneCountInString prefix + 1,
                      do_LineText = clipped, do_Match = visibleText match\<rparr>)))"

section \<open>The legend\<close>

function (sequential) legend_loop :: "nat \<Rightarrow> bytes \<Rightarrow> bytes" where
  "legend_loop 0 out = out"
| "legend_loop (Suc i) out = legend_loop (i div 26) (char_of (65 + i mod 26) # out)"
  by pat_completeness auto
termination by (relation "measure fst") auto

definition legendKey :: "nat \<Rightarrow> bytes" where
  "legendKey i = legend_loop (i + 1) []"

definition legendID :: "Violation \<Rightarrow> bytes" where
  "legendID v = vi_RuleName v @ CHR 0x00 # vi_Message v"

fun legend_keys_loop :: "Violation list \<Rightarrow> (bytes \<times> bytes) list \<Rightarrow> nat \<Rightarrow> (bytes \<times> bytes) list" where
  "legend_keys_loop [] keys next' = keys"
| "legend_keys_loop (v # vs) keys next' =
     (if map_of keys (legendID v) \<noteq> None then legend_keys_loop vs keys next'
      else legend_keys_loop vs ((legendID v, legendKey next') # keys) (next' + 1))"

definition legendKeys :: "Violation list \<Rightarrow> (bytes \<times> bytes) list" where
  "legendKeys violations = legend_keys_loop violations [] 0"

definition plural :: "nat \<Rightarrow> bytes \<Rightarrow> bytes \<Rightarrow> bytes" where
  "plural n one many = (if n = 1 then one else many)"

definition line_of :: "bytes \<Rightarrow> bytes" where
  "line_of s = s @ [newline_byte]"

text \<open>The elements with a new value of a function, in order.\<close>

fun first_by :: "('a \<Rightarrow> 'b) \<Rightarrow> 'b set \<Rightarrow> 'a list \<Rightarrow> 'a list" where
  "first_by f seen [] = []"
| "first_by f seen (x # xs) = (if f x \<in> seen then first_by f seen xs else x # first_by f (insert (f x) seen) xs)"

definition legend_entry :: "diagnosticOccurrence \<Rightarrow> bytes" where
  "legend_entry occ = line_of (''- '' @ do_Key occ @ '' = '' @ vi_RuleName (do_violation occ))
     @ line_of (''  message: '' @ vi_Message (do_violation occ))"

definition writeLegend :: "diagnosticOccurrence list \<Rightarrow> bytes" where
  "writeLegend occurrences =
     (let order = first_by (\<lambda>occ. legendID (do_violation occ)) {} occurrences in
      if order = [] then []
      else newline_byte # line_of ''Rules:'' @ concat (map legend_entry order))"

section \<open>The matches\<close>

definition writeOccurrence :: "(nat \<Rightarrow> bool) \<Rightarrow> diagnosticOccurrence \<Rightarrow> bytes" where
  "writeOccurrence is_print occ =
     line_of (''  - rule: '' @ do_Key occ)
     @ (if vi_FilePath (do_violation occ) = [] then [] else line_of (''    file: '' @ vi_FilePath (do_violation occ)))
     @ line_of (''    line: '' @ Itoa (int (do_Line occ)))
     @ line_of (''    column: '' @ Itoa (int (do_Column occ)))
     @ (if vi_Redact (do_violation occ) then
          line_of (''    match: '' @ Quote is_print ''<redacted>'')
          @ line_of (''    text: '' @ Quote is_print ''<redacted>'')
        else line_of (''    match: '' @ Quote is_print (do_Match occ))
          @ line_of (''    text: '' @ Quote is_print (do_LineText occ)))"

definition field_block :: "(nat \<Rightarrow> bool) \<Rightarrow> diagnosticOccurrence list \<Rightarrow> bytes \<Rightarrow> bytes" where
  "field_block is_print occurrences name =
     line_of (''- field: '' @ name)
     @ concat (map (writeOccurrence is_print) (sort_key (\<lambda>occ. (do_Line occ, do_Column occ))
         (filter (\<lambda>occ. vi_FieldPath (do_violation occ) = name) occurrences)))"

definition writeSourceDiagnostics :: "(nat \<Rightarrow> bool) \<Rightarrow> diagnosticOccurrence list \<Rightarrow> bytes" where
  "writeSourceDiagnostics is_print occurrences =
     (let field = (\<lambda>occ. vi_FieldPath (do_violation occ));
          fields = map field (first_by field {} occurrences) in
      if fields = [] then []
      else newline_byte # line_of ''Matches:'' @ concat (map (field_block is_print occurrences) fields))"

definition keyed_occurrence :: "(bytes \<times> bytes) list \<Rightarrow> Violation \<Rightarrow> diagnosticOccurrence option" where
  "keyed_occurrence keys v =
     map_option (\<lambda>occ. occ\<lparr>do_Key := (case map_of keys (legendID v) of None \<Rightarrow> [] | Some k \<Rightarrow> k)\<rparr>) (occurrenceFor v)"

definition writeDetailedDiagnostics :: "(nat \<Rightarrow> bool) \<Rightarrow> Violation list \<Rightarrow> bytes option" where
  "writeDetailedDiagnostics is_print violations =
     map_option (\<lambda>occurrences.
         line_of (''agent-gate blocked '' @ Itoa (int (length violations)) @ '' ''
           @ plural (length violations) ''violation'' ''violations'' @ '':'')
         @ writeLegend occurrences @ writeSourceDiagnostics is_print occurrences)
       (those (map (keyed_occurrence (legendKeys violations)) violations))"

section \<open>The whole text\<close>

definition maxDiagnosticMatches :: nat where
  "maxDiagnosticMatches = nat MaxCollectedMatchesPerEvaluation"

definition splitDiagnosticFormats :: "Violation list \<Rightarrow> Violation list \<times> Violation list" where
  "splitDiagnosticFormats violations =
     (filter (\<lambda>v. vi_DiagnosticFormat v = DiagnosticFormatMessageOnly) violations,
      filter (\<lambda>v. vi_DiagnosticFormat v \<noteq> DiagnosticFormatMessageOnly) violations)"

definition writeMessageOnlyDiagnostics :: "Violation list \<Rightarrow> bytes" where
  "writeMessageOnlyDiagnostics violations =
     Join (map vi_Message (first_by vi_Message {[]} violations)) [newline_byte]"

definition TrimRightNewlines :: "bytes \<Rightarrow> bytes" where
  "TrimRightNewlines b = rev (dropWhile (\<lambda>c. c = newline_byte) (rev b))"

definition FormatViolations :: "(nat \<Rightarrow> bool) \<Rightarrow> Violation list \<Rightarrow> bytes option" where
  "FormatViolations is_print violations =
     (let omitted = length violations - maxDiagnosticMatches;
          (messageOnly, detailed) = splitDiagnosticFormats (take maxDiagnosticMatches violations);
          messages = writeMessageOnlyDiagnostics messageOnly in
      if detailed = [] then Some (TrimRightNewlines messages)
      else map_option (\<lambda>details.
          TrimRightNewlines (messages @ (if messages \<noteq> [] then [newline_byte, newline_byte] else []) @ details
            @ (if 0 < omitted then newline_byte # newline_byte # ''... '' @ Itoa (int omitted) @ '' more ''
                @ plural omitted ''violation'' ''violations'' @ line_of '' omitted'' else [])))
        (writeDetailedDiagnostics is_print detailed))"

end
