(* ===== verification/DiagnosticsProps.thy ===== *)
theory DiagnosticsProps
  imports Diagnostics JsonQuote
begin

text \<open>
  The diagnostic text: redacted values do not influence it, the legend names every rule unambiguously,
  and nothing that was reported is left out.
\<close>

section \<open>Redaction\<close>

text \<open>What is left of a redacted violation, and the position that is printed for it.\<close>

definition blank :: "Violation \<Rightarrow> Violation" where
  "blank v = (if vi_Redact v then v\<lparr>vi_Value := [], vi_Start := 0, vi_End := 0\<rparr> else v)"

definition place :: "Violation \<Rightarrow> (nat \<times> nat) option" where
  "place v = map_option (\<lambda>occ. (do_Line occ, do_Column occ)) (occurrenceFor v)"

definition canon :: "diagnosticOccurrence \<Rightarrow> diagnosticOccurrence" where
  "canon occ =
     (if vi_Redact (do_violation occ)
      then occ\<lparr>do_violation := blank (do_violation occ), do_LineText := [], do_Match := []\<rparr> else occ)"

lemma blank_fields [simp]:
  "vi_RuleName (blank v) = vi_RuleName v" "vi_Message (blank v) = vi_Message v" "vi_Redact (blank v) = vi_Redact v"
  "vi_DiagnosticFormat (blank v) = vi_DiagnosticFormat v" "vi_FieldPath (blank v) = vi_FieldPath v"
  "vi_FilePath (blank v) = vi_FilePath v" "legendID (blank v) = legendID v"
  by (simp_all add: blank_def legendID_def)

lemma canon_fields [simp]:
  "do_Key (canon occ) = do_Key occ" "do_Line (canon occ) = do_Line occ" "do_Column (canon occ) = do_Column occ"
  "do_violation (canon occ) = blank (do_violation occ)"
  by (simp_all add: canon_def blank_def)

lemma write_canon [simp]: "writeOccurrence p (canon occ) = writeOccurrence p occ"
  by (simp add: writeOccurrence_def) (simp add: canon_def)

lemma legend_canon [simp]: "legend_entry (canon occ) = legend_entry occ"
  by (simp add: legend_entry_def)

lemma first_by_map: "first_by f s (map g xs) = map g (first_by (f \<circ> g) s xs)"
  by (induction xs arbitrary: s) auto

lemma insort_key_map: "insort_key k (g x) (map g xs) = map g (insort_key (k \<circ> g) x xs)"
  by (induction xs) auto

lemma sort_key_map: "sort_key k (map g xs) = map g (sort_key (k \<circ> g) xs)"
  by (induction xs) (simp_all add: insort_key_map comp_def)

lemma writeLegend_canon: "writeLegend (map canon xs) = writeLegend xs"
  by (simp add: writeLegend_def first_by_map comp_def)

lemma writeSource_canon: "writeSourceDiagnostics p (map canon xs) = writeSourceDiagnostics p xs"
  by (simp add: writeSourceDiagnostics_def field_block_def [abs_def] first_by_map filter_map sort_key_map comp_def)

lemma occurrence_violation: "occurrenceFor v = Some occ \<Longrightarrow> do_violation occ = v \<and> do_Key occ = []"
  by (auto simp: occurrenceFor_def Let_def split: prod.splits option.splits)

lemma canon_occurrence:
  assumes "blank v = blank w" "place v = place w"
  shows "map_option canon (keyed_occurrence keys v) = map_option canon (keyed_occurrence keys w)"
proof -
  have same: "legendID v = legendID w" "vi_Redact v = vi_Redact w"
    using blank_fields assms(1) by metis+
  show ?thesis
  proof (cases "vi_Redact v")
    case True
    have "map_option canon (keyed_occurrence keys u) = map_option (\<lambda>(l, c). \<lparr>do_violation = blank u,
        do_Key = (case map_of keys (legendID u) of None \<Rightarrow> [] | Some k \<Rightarrow> k), do_Line = l, do_Column = c,
        do_LineText = [], do_Match = []\<rparr>) (place u)" if "vi_Redact u" for u
      using that occurrence_violation [of u]
      by (cases "occurrenceFor u") (auto simp: keyed_occurrence_def place_def canon_def)
    then show ?thesis using True same assms by metis
  next
    case False
    then have "v = w" using assms(1) same by (simp add: blank_def)
    then show ?thesis by simp
  qed
qed

lemma those_map: "those (map (map_option f) xs) = map_option (map f) (those xs)"
  by (induction xs) (auto split: option.splits simp: option.map_comp comp_def)

lemma legend_keys_cong: "map legendID vs = map legendID ws \<Longrightarrow> legend_keys_loop vs ks n = legend_keys_loop ws ks n"
proof (induction vs arbitrary: ws ks n)
  case (Cons v vs)
  then obtain w ws' where "ws = w # ws'" "legendID v = legendID w" "map legendID vs = map legendID ws'" by auto
  then show ?case using Cons.IH [of ws'] by simp
qed simp

lemma public_fields:
  assumes "blank v = blank w"
  shows "vi_DiagnosticFormat v = vi_DiagnosticFormat w" "vi_Message v = vi_Message w" "legendID v = legendID w"
  using arg_cong [OF assms, of vi_DiagnosticFormat] arg_cong [OF assms, of vi_Message] arg_cong [OF assms, of legendID]
  by simp_all

lemma details_cong:
  assumes "list_all2 (\<lambda>v w. blank v = blank w \<and> place v = place w) vs ws"
  shows "writeDetailedDiagnostics p vs = writeDetailedDiagnostics p ws"
proof -
  have "map legendID vs = map legendID ws"
    using assms by induction (auto dest: public_fields(3))
  then have keys: "legendKeys vs = legendKeys ws" unfolding legendKeys_def by (rule legend_keys_cong)
  have len: "length vs = length ws" using assms by (rule list_all2_lengthD)
  have "map (map_option canon) (map (keyed_occurrence ks) vs) = map (map_option canon) (map (keyed_occurrence ks) ws)" for ks
    using assms by induction (auto intro: canon_occurrence)
  then have occs: "map_option (map canon) (those (map (keyed_occurrence ks) vs))
      = map_option (map canon) (those (map (keyed_occurrence ks) ws))" for ks
    by (metis those_map)
  have canonical: "writeDetailedDiagnostics p us = map_option (\<lambda>os. line_of (''agent-gate blocked '' @ Itoa (int (length us)) @ '' ''
        @ plural (length us) ''violation'' ''violations'' @ '':'') @ writeLegend os @ writeSourceDiagnostics p os)
      (map_option (map canon) (those (map (keyed_occurrence (legendKeys us)) us)))" for us
    by (simp add: writeDetailedDiagnostics_def option.map_comp comp_def writeLegend_canon writeSource_canon)
  show ?thesis unfolding canonical keys len occs ..
qed

lemma list_all2_filter:
  "list_all2 R xs ys \<Longrightarrow> (\<And>x y. R x y \<Longrightarrow> P x = P y) \<Longrightarrow> list_all2 R (filter P xs) (filter P ys)"
  by (induction rule: list_all2_induct) auto

text \<open>C8. Redaction is complete: two evaluations whose violations differ only in the redacted values and in
  where in the value the match lies render to the same text, if the printed line and column are equal.\<close>

theorem redacted_values_never_shown:
  assumes "list_all2 (\<lambda>v w. blank v = blank w \<and> place v = place w) vs ws"
  shows "FormatViolations p vs = FormatViolations p ws"
proof -
  let ?R = "\<lambda>v w. blank v = blank w \<and> place v = place w"
  let ?vs = "take maxDiagnosticMatches vs" and ?ws = "take maxDiagnosticMatches ws"
  have taken: "list_all2 ?R ?vs ?ws" using assms by (rule list_all2_takeI)
  have parts: "list_all2 ?R (filter (\<lambda>v. P (vi_DiagnosticFormat v)) ?vs) (filter (\<lambda>v. P (vi_DiagnosticFormat v)) ?ws)" for P
    using taken by (rule list_all2_filter) (metis public_fields(1))
  have messages: "map vi_Message xs = map vi_Message ys" if "list_all2 ?R xs ys" for xs ys
    using that by induction (auto dest: public_fields(2))
  have only: "writeMessageOnlyDiagnostics xs = writeMessageOnlyDiagnostics ys" if "list_all2 ?R xs ys" for xs ys
    unfolding writeMessageOnlyDiagnostics_def
    using messages [OF that] first_by_map [of id "{[]}" vi_Message] unfolding id_comp by metis
  have empty: "xs = [] \<longleftrightarrow> ys = []" if "list_all2 ?R xs ys" for xs ys using that by auto
  note detailed = parts [of "\<lambda>f. f \<noteq> DiagnosticFormatMessageOnly"] and messageOnly = parts [of "\<lambda>f. f = DiagnosticFormatMessageOnly"]
  show ?thesis
    unfolding FormatViolations_def splitDiagnosticFormats_def Let_def prod.case list_all2_lengthD [OF assms]
      only [OF messageOnly] details_cong [OF detailed] empty [OF detailed] ..
qed

definition demo_violation :: Violation where
  "demo_violation = \<lparr>vi_RuleName = ''no-key'', vi_Message = ''no keys'', vi_AuditOnly = False, vi_Redact = True,
     vi_DiagnosticFormat = [], vi_FieldPath = ''tool_input.content'', vi_FilePath = [], vi_Value = ''a secret'',
     vi_Start = 2, vi_End = 8\<rparr>"

section \<open>The legend\<close>

lemma legend_loop_append: "legend_loop i out = legend_loop i [] @ out"
proof (induction i arbitrary: out rule: less_induct)
  case (less i)
  show ?case
  proof (cases i)
    case (Suc j)
    have "j div 26 < i" using Suc by (simp add: le_imp_less_Suc)
    then show ?thesis using less [of "j div 26" "char_of (65 + j mod 26) # out"] less [of "j div 26" "[char_of (65 + j mod 26)]"] Suc
      by simp
  qed simp
qed

lemma legend_loop_Suc: "legend_loop (Suc i) [] = legend_loop (i div 26) [] @ [char_of (65 + i mod 26)]"
  by (subst legend_loop.simps) (rule legend_loop_append)

lemma legend_loop_inj: "legend_loop i [] = legend_loop j [] \<Longrightarrow> i = j"
proof (induction i arbitrary: j rule: less_induct)
  case (less i)
  show ?case
  proof (cases i)
    case 0
    then show ?thesis using less.prems legend_loop_Suc by (cases j) auto
  next
    case (Suc a)
    then obtain b where b: "j = Suc b" using less.prems legend_loop_Suc by (cases j) auto
    have parts: "legend_loop (a div 26) [] = legend_loop (b div 26) []"
        "char_of (65 + a mod 26) = (char_of (65 + b mod 26) :: char)"
      using less.prems Suc b by (simp_all add: legend_loop_Suc del: legend_loop.simps)
    have "a div 26 < i" using Suc by (simp add: le_imp_less_Suc)
    then have "a div 26 = b div 26" using less.IH parts(1) by blast
    moreover have "a mod 26 = b mod 26"
    proof -
      have bound: "65 + n mod 26 < (256 :: nat)" for n using mod_less_divisor [of 26 n] by linarith
      have "(65 + a mod 26) mod 256 = (65 + b mod 26) mod 256"
        using arg_cong [OF parts(2), of "of_char :: char \<Rightarrow> nat"] by (simp only: of_char_of)
      then show ?thesis by (simp only: mod_less [OF bound] add_left_cancel)
    qed
    ultimately have "a = b" by (metis div_mult_mod_eq)
    then show ?thesis using Suc b by simp
  qed
qed

lemma legendKey_inj: "legendKey i = legendKey j \<Longrightarrow> i = j"
  using legend_loop_inj by (simp add: legendKey_def del: legend_loop.simps) fastforce

lemma legend_keys_ok:
  assumes "distinct (map snd keys)" "snd ` set keys \<subseteq> legendKey ` {..<n}" "distinct (map fst keys)"
  shows "distinct (map snd (legend_keys_loop vs keys n)) \<and> distinct (map fst (legend_keys_loop vs keys n))
    \<and> fst ` set (legend_keys_loop vs keys n) = fst ` set keys \<union> legendID ` set vs"
  using assms
proof (induction vs arbitrary: keys n)
  case (Cons v vs)
  show ?case
  proof (cases "map_of keys (legendID v)")
    case None
    let ?keys = "(legendID v, legendKey n) # keys"
    have "legendID v \<notin> fst ` set keys" using None by (simp add: map_of_eq_None_iff)
    moreover have "legendKey n \<notin> legendKey ` {..<n}" using legendKey_inj by fastforce
    then have "legendKey n \<notin> snd ` set keys" using Cons.prems(2) by blast
    moreover have "snd ` set ?keys \<subseteq> legendKey ` {..<n + 1}"
    proof -
      have "legendKey ` {..<n + 1} = insert (legendKey n) (legendKey ` {..<n})" by (simp add: lessThan_Suc)
      then show ?thesis using Cons.prems(2) by auto
    qed
    ultimately have "distinct (map snd ?keys)" "distinct (map fst ?keys)" "snd ` set ?keys \<subseteq> legendKey ` {..<n + 1}"
      using Cons.prems(1,3) by simp_all
    note step = Cons.IH [OF this(1,3,2)]
    have "legend_keys_loop (v # vs) keys n = legend_keys_loop vs ?keys (n + 1)" using None by simp
    moreover have "fst ` set ?keys \<union> legendID ` set vs = fst ` set keys \<union> legendID ` set (v # vs)" by auto
    ultimately show ?thesis using step by (simp only:)
  next
    case (Some k)
    then have "legendID v \<in> fst ` set keys" by (force dest: map_of_SomeD)
    then show ?thesis using Cons.IH [of keys n] Cons.prems Some by (simp add: insert_absorb)
  qed
qed simp

text \<open>The legend is unambiguous: every violation has a label, and two violations share one exactly when
  they are of the same rule with the same message.\<close>

theorem legend_is_unambiguous:
  assumes "v \<in> set vs" "w \<in> set vs"
  shows "map_of (legendKeys vs) (legendID v) \<noteq> None
    \<and> (map_of (legendKeys vs) (legendID v) = map_of (legendKeys vs) (legendID w) \<longleftrightarrow> legendID v = legendID w)"
proof -
  have ok: "distinct (map snd (legendKeys vs))" "distinct (map fst (legendKeys vs))"
      "fst ` set (legendKeys vs) = legendID ` set vs"
    using legend_keys_ok [of "[]" 0 vs] by (simp_all add: legendKeys_def)
  have found: "\<exists>k. map_of (legendKeys vs) (legendID u) = Some k" if "u \<in> set vs" for u
    using that ok(3) map_of_eq_None_iff [of "legendKeys vs" "legendID u"] by fastforce
  have "a = b" if "map_of (legendKeys vs) a = Some k" "map_of (legendKeys vs) b = Some k" for a b k
    using that ok(1) map_of_SomeD [OF that(1)] map_of_SomeD [OF that(2)] by (fastforce simp: distinct_map inj_on_def)
  then show ?thesis using found [OF assms(1)] found [OF assms(2)] by auto
qed

section \<open>Counting runes\<close>

lemma rune_width_at_most: "rune_width s \<le> 4"
  by (cases s) (simp_all add: rune_width_def Let_def)

lemma runes_step:
  assumes "s \<noteq> []"
  shows "runes s = (if rune_width s = 0 then rune_error # runes (drop 1 s)
    else take (rune_width s) s # runes (drop (rune_width s) s))"
  using assms by (cases s) simp_all

lemma runes_le_length: "length (runes s) \<le> length s"
proof (induction s rule: runes.induct)
  case (2 c cs)
  show ?case
  proof (cases "rune_width (c # cs)")
    case (Suc w)
    then show ?thesis using "2.IH"(2) rune_width_le [of "c # cs"] by simp
  qed (use "2.IH"(1) in simp)
qed simp

text \<open>Where a prefix already determines the width, the rest does not matter.\<close>

lemma rune_width_prefix:
  assumes "rune_width x = w" "w \<noteq> 0" "take w x = take w y"
  shows "rune_width y = w"
  using rune_width_take [OF assms(1,2), of "drop w y"] assms(3) by simp

text \<open>A prefix that cuts through a rune has at most three more runes than the text.\<close>

lemma runes_take: "length (runes (take k s)) \<le> length (runes s) + 3"
proof (induction s arbitrary: k rule: runes.induct)
  case (2 c cs)
  let ?s = "c # cs" and ?w = "rune_width (c # cs)"
  show ?case
  proof (cases "k = 0 \<or> k < ?w")
    case True
    have "length (runes (take k ?s)) \<le> k" using runes_le_length [of "take k ?s"] by simp
    then show ?thesis using True rune_width_at_most [of ?s] by auto
  next
    case False
    then obtain j where k: "k = Suc j" by (cases k) auto
    show ?thesis
    proof (cases "?w = 0")
      case True
      have "rune_width (take k ?s) = 0"
      proof (rule ccontr)
        assume "rune_width (take k ?s) \<noteq> 0"
        then obtain v where v: "rune_width (take k ?s) = v" "v \<noteq> 0" "v \<le> k"
          using rune_width_le [of "take k ?s"] by auto
        have "take v (take k ?s) = take v ?s" using v(3) by (simp only: take_take min_absorb1)
        then show False using rune_width_prefix [OF v(1,2)] True v(2) by metis
      qed
      then have "runes (take k ?s) = rune_error # runes (take j cs)" using k by simp
      then show ?thesis using "2.IH"(1) [OF True, of j] True by simp
    next
      case ne: False
      have "rune_width (take k ?s) = ?w"
        by (rule rune_width_prefix [of ?s]) (use False ne in \<open>auto simp: min_absorb1\<close>)
      moreover have "take ?w (take k ?s) = take ?w ?s" using False by (simp only: take_take min_absorb1 not_less de_Morgan_disj)
      moreover have "drop ?w (take k ?s) = take (k - ?w) (drop ?w ?s)" by (simp only: drop_take)
      moreover have "take k ?s \<noteq> []" using k by simp
      ultimately have "runes (take k ?s) = take ?w ?s # runes (take (k - ?w) (drop ?w ?s))"
        using runes_step [of "take k ?s"] ne by metis
      then show ?thesis using "2.IH"(2) [OF ne, of "k - ?w"] ne by simp
    qed
  qed
qed simp

section \<open>Visible text\<close>

definition shown :: "char \<Rightarrow> bytes" where
  "shown c = (if c = CHR 0x09 then ''<TAB>'' else if c = CHR 0x0D then ''<CR>'' else [c])"

lemma visible_shown: "visibleText s = concat (map shown s)"
proof (induction s)
  case (Cons c s)
  have "visibleText (c # s) = shown c @ visibleText s" by (simp add: visibleText_def shown_def)
  then show ?case using Cons by simp
qed (simp add: visibleText_def)

lemma visible_Nil [simp]: "visibleText [] = []"
  by (simp add: visible_shown)

lemma visible_append [simp]: "visibleText (s @ t) = visibleText s @ visibleText t"
  by (simp add: visible_shown)

lemma visible_Cons: "visibleText (c # s) = shown c @ visibleText s"
  by (simp add: visible_shown)

definition high :: "char \<Rightarrow> bool" where
  "high c \<longleftrightarrow> 0x80 \<le> (of_char c :: nat)"

lemma shown_high: "high c \<Longrightarrow> shown c = [c]"
  by (auto simp: shown_def high_def)

lemma shown_low: "\<not> high c \<Longrightarrow> shown c \<noteq> [] \<and> list_all (\<lambda>d. \<not> high d) (shown c)"
  by (auto simp: shown_def high_def)

lemma visible_high: "list_all high s \<Longrightarrow> visibleText s = s"
  by (induction s) (auto simp: visible_Cons shown_high)

lemma visible_high_prefix:
  "list_all high (take k (visibleText s)) \<Longrightarrow> k \<le> length (visibleText s) \<Longrightarrow> take k (visibleText s) = take k s"
proof (induction k arbitrary: s)
  case (Suc k)
  then obtain c t where s: "s = c # t" by (cases s) auto
  have "high c"
  proof (rule ccontr)
    assume low: "\<not> high c"
    then obtain d ds where "shown c = d # ds" using shown_low by (cases "shown c") auto
    then show False using low shown_low [of c] Suc.prems(1) by (simp add: s visible_Cons)
  qed
  then show ?case using Suc by (simp add: s visible_Cons shown_high)
qed simp

lemma runes_low: "list_all (\<lambda>d. \<not> high d) s \<Longrightarrow> length (runes (s @ t)) = length s + length (runes t)"
proof (induction s)
  case (Cons c s)
  then have "rune_width (c # s @ t) = 1" by (simp add: rune_width_def high_def)
  then show ?case using Cons by simp
qed simp

lemma wide_high:
  assumes "rune_width (c # s) = w" "high c" "w \<noteq> 0"
  shows "list_all high (take w (c # s))"
proof -
  have "w \<noteq> 1" using rune_width_cases [of c s] assms by (auto simp: high_def)
  then show ?thesis using rune_bytes_high [of "c # s"] assms by (simp add: list_all_iff high_def)
qed

lemma runes_visible: "length (runes s) \<le> length (runes (visibleText s))"
proof (induction s rule: runes.induct)
  case (2 c s)
  let ?w = "rune_width (c # s)"
  show ?case
  proof (cases "high c")
    case False
    then have w: "?w = 1" by (simp add: rune_width_def high_def)
    have "1 \<le> length (shown c)" using shown_low [OF False] by (cases "shown c") auto
    then show ?thesis
      using "2.IH"(2) w runes_low [of "shown c" "visibleText s"] shown_low [OF False] by (simp add: visible_Cons)
  next
    case True
    then have eq: "visibleText (c # s) = c # visibleText s" by (simp add: visible_Cons shown_high)
    show ?thesis
    proof (cases "?w = 0")
      case none: True
      have "rune_width (c # visibleText s) = 0"
      proof (rule ccontr)
        assume "rune_width (c # visibleText s) \<noteq> 0"
        then obtain v where v: "rune_width (c # visibleText s) = v" "v \<noteq> 0" "v \<le> length (c # visibleText s)"
          using rune_width_le by metis
        have "take v (visibleText (c # s)) = take v (c # s)"
          by (rule visible_high_prefix) (use wide_high [OF v(1) True v(2)] v(3) in \<open>simp_all only: eq\<close>)
        then show False using rune_width_prefix [OF v(1,2)] none v(2) by (metis eq)
      qed
      then show ?thesis using "2.IH"(1) [OF none] none eq by simp
    next
      case ne: False
      note wide = wide_high [OF refl True ne]
      have "visibleText (c # s) = take ?w (c # s) @ visibleText (drop ?w (c # s))"
        using visible_high [OF wide] visible_append [of "take ?w (c # s)" "drop ?w (c # s)"] by simp
      moreover have "rune_width (visibleText (c # s)) = ?w"
        unfolding calculation by (rule rune_width_take) (use ne in simp_all)
      moreover have "length (take ?w (c # s)) = ?w" using rune_width_le [of "c # s"] by simp
      ultimately have "runes (visibleText (c # s)) = take ?w (c # s) # runes (visibleText (drop ?w (c # s)))"
        using runes_step [of "visibleText (c # s)"] ne
        by (metis append_eq_conv_conj append_is_Nil_conv length_0_conv take_all_iff)
      then show ?thesis using "2.IH"(2) [OF ne] ne by simp
    qed
  qed
qed simp

section \<open>Every violation is rendered\<close>

lemma line_loop_spec:
  assumes "line_loop off i line ls cs = (l, st)" "cs = drop i v" "i \<le> off" "off \<le> length v" "ls \<le> i"
    "newline_byte \<notin> set (drop ls (take i v))"
  shows "st \<le> off \<and> newline_byte \<notin> set (drop st (take off v))"
  using assms
proof (induction off i line ls cs rule: line_loop.induct)
  case (1 off i line ls)
  then have "i = off" by simp
  then show ?case using 1 by simp
next
  case (2 off i line ls c cs)
  show ?case
  proof (cases "off \<le> i")
    case True
    then have "st = ls" using "2.prems"(1) by simp
    moreover have "i = off" using True "2.prems"(3) by simp
    ultimately show ?thesis using "2.prems"(5,6) by simp
  next
    case False
    then have i: "i < length v" using 2 by simp
    have "c # cs = v ! i # drop (i + 1) v" using "2.prems"(2) Cons_nth_drop_Suc [OF i] by simp
    then have rest: "cs = drop (i + 1) v" "c = v ! i" by simp_all
    have snoc: "take (i + 1) v = take i v @ [c]" using i rest by (simp add: take_Suc_conv_app_nth)
    show ?thesis
    proof (cases "c = newline_byte")
      case True
      then show ?thesis using "2.IH"(1) "2.prems" False rest i by simp
    next
      case ne: False
      have "newline_byte \<notin> set (drop ls (take (i + 1) v))" using "2.prems"(5,6) ne i unfolding snoc by simp
      then show ?thesis using "2.IH"(2) "2.prems" False ne rest by simp
    qed
  qed
qed

lemma position_in_line:
  assumes "lineForOffset v off = (line, ls, t)" "off \<le> length v"
  shows "ls \<le> off" "off - ls \<le> length t"
proof -
  let ?P = "\<lambda>c. c \<noteq> newline_byte"
  have loop: "line_loop off 0 1 0 v = (line, ls)" and t: "t = takeWhile ?P (drop ls v)"
    using assms by (auto simp: lineForOffset_def Let_def min_absorb1 split: prod.splits)
  have spec: "ls \<le> off \<and> newline_byte \<notin> set (drop ls (take off v))"
    by (rule line_loop_spec [OF loop]) (use assms(2) in simp_all)
  have "drop ls (take off v @ drop off v) = drop ls (take off v) @ drop off v"
    using spec assms(2) by (simp add: drop_append del: append_take_drop_id)
  then have "drop ls v = drop ls (take off v) @ drop off v" by (simp only: append_take_drop_id)
  then have "t = drop ls (take off v) @ takeWhile ?P (drop off v)"
    using spec takeWhile_append2 [of "drop ls (take off v)" ?P] unfolding t by (metis (mono_tags, lifting))
  then show "ls \<le> off" "off - ls \<le> length t" using spec assms(2) by simp_all
qed

lemma clipped_total: "n \<le> length (runes t) + 3 \<Longrightarrow> clippedLineText t n w \<noteq> None"
  by (auto simp: clippedLineText_def slice_def Let_def)

lemma occurrence_total:
  assumes "vi_Start v \<le> length (vi_Value v)"
  shows "\<exists>occ. occurrenceFor v = Some occ"
proof -
  obtain line ls t where line: "lineForOffset (vi_Value v) (vi_Start v) = (line, ls, t)" by (metis prod_cases3)
  note inside = position_in_line [OF line assms]
  let ?a = "vi_Start v - ls" and ?b = "min (max (vi_End v - ls) (vi_Start v - ls)) (length t)"
  have "slice t 0 ?a = Some (take ?a t)" "slice t ?a ?b = Some (drop ?a (take ?b t))"
    using inside by (simp_all add: slice_def)
  moreover have "length (runes (take ?a t)) \<le> length (runes (visibleText t)) + 3"
    using runes_take [of ?a t] runes_visible [of t] by linarith
  then have "\<exists>c. clippedLineText (visibleText t) (RuneCountInString (take ?a t)) (visibleWidth (drop ?a (take ?b t))) = Some c"
    using clipped_total by (simp add: RuneCountInString_def)
  ultimately show ?thesis using line by (auto simp: occurrenceFor_def Let_def)
qed

lemma those_total: "(\<And>x. x \<in> set xs \<Longrightarrow> f x = Some (g x)) \<Longrightarrow> those (map f xs) = Some (map g xs)"
  by (induction xs) auto

lemma first_by_hits: "x \<in> set xs \<Longrightarrow> f x \<notin> s \<Longrightarrow> \<exists>y \<in> set (first_by f s xs). f y = f x"
  by (induction xs arbitrary: s) (auto, metis insert_iff)

lemma Contains_concat: "s \<in> set parts \<Longrightarrow> Contains (concat parts) s"
  by (fastforce simp: Contains_iff dest!: split_list)

lemma Contains_inside: "Contains t s \<Longrightarrow> Contains (a @ t @ b) s"
  by (auto simp: Contains_iff) (metis append.assoc)

lemma Contains_trans: "Contains b s \<Longrightarrow> Contains s t \<Longrightarrow> Contains b t"
  using Contains_inside by (auto simp: Contains_iff [of b s])

lemma legendID_split:
  assumes "legendID v = legendID w" "\<not> contains_nul (vi_RuleName v)" "\<not> contains_nul (vi_RuleName w)"
  shows "vi_RuleName v = vi_RuleName w \<and> vi_Message v = vi_Message w"
proof -
  have "takeWhile (\<lambda>c. c \<noteq> CHR 0x00) (legendID u) = vi_RuleName u" if "\<not> contains_nul (vi_RuleName u)" for u
    unfolding legendID_def by (subst takeWhile_append2) (use that in \<open>auto simp: contains_nul_def\<close>)
  then have "vi_RuleName v = vi_RuleName w" using assms by metis
  then show ?thesis using assms(1) by (simp add: legendID_def)
qed


lemma trim_prefix: "x \<noteq> [] \<Longrightarrow> last x \<noteq> newline_byte \<Longrightarrow> TrimRightNewlines (x @ y) = x @ TrimRightNewlines y"
proof -
  assume "x \<noteq> []" "last x \<noteq> newline_byte"
  then obtain a c where "x = a @ [c]" "c \<noteq> newline_byte" by (metis append_butlast_last_id)
  then show ?thesis by (simp add: TrimRightNewlines_def dropWhile_append) 
qed

lemma trim_contains:
  assumes "Contains b s" "s \<noteq> []" "last s \<noteq> newline_byte"
  shows "Contains (TrimRightNewlines b) s"
proof -
  obtain x y where b: "b = x @ s @ y" using assms(1) by (auto simp: Contains_iff)
  have "TrimRightNewlines ((x @ s) @ y) = (x @ s) @ TrimRightNewlines y"
    by (rule trim_prefix) (use assms in simp_all)
  then show ?thesis unfolding b by (auto simp: Contains_iff)
qed

lemma Contains_refl: "Contains s s"
  by (auto simp: Contains_iff intro: exI [of _ "[]"])

definition quoted_end :: "bytes \<Rightarrow> bool" where
  "quoted_end s \<longleftrightarrow> (\<exists>x. s = x @ [CHR 0x22, newline_byte])"

lemma quoted_endI: "quoted_end t \<Longrightarrow> quoted_end (s @ t)" "quoted_end (line_of (s @ Quote p z))"
  by (auto simp: quoted_end_def Quote_def line_of_def)

lemma occurrence_quoted: "quoted_end (writeOccurrence p occ)"
  unfolding writeOccurrence_def by (simp only: quoted_endI if_split simp_thms)

lemma occurrence_text:
  obtains x where "writeOccurrence p occ = x @ [newline_byte]" "x \<noteq> []" "last x \<noteq> newline_byte"
proof -
  obtain y where "writeOccurrence p occ = (y @ [CHR 0x22]) @ [newline_byte]"
    using occurrence_quoted by (auto simp: quoted_end_def)
  then show thesis using that [of "y @ [CHR 0x22]"] by (simp add: newline_byte_def)
qed

lemma source_contains:
  assumes "occ \<in> set occs"
  shows "\<exists>rest. writeSourceDiagnostics p occs = (newline_byte # ''Matches:'') @ rest \<and> Contains rest (writeOccurrence p occ)"
proof -
  let ?field = "\<lambda>e. vi_FieldPath (do_violation e)"
  let ?block = "field_block p occs"
  let ?fields = "map ?field (first_by ?field {} occs)"
  have here: "?field occ \<in> set ?fields" using first_by_hits [OF assms, of ?field "{}"] by (simp add: image_iff) metis
  have "Contains (concat (map (writeOccurrence p)
      (sort_key (\<lambda>e. (do_Line e, do_Column e)) (filter (\<lambda>e. ?field e = ?field occ) occs)))) (writeOccurrence p occ)"
    by (rule Contains_concat) (use assms in simp)
  then have "Contains (?block (?field occ)) (writeOccurrence p occ)"
    unfolding field_block_def using Contains_inside [of _ _ _ "[]"] by fastforce
  moreover have "Contains (concat (map ?block ?fields)) (?block (?field occ))"
    using imageI [OF here, of ?block] by (intro Contains_concat) (simp only: list.set_map)
  ultimately have "Contains (newline_byte # concat (map ?block ?fields)) (writeOccurrence p occ)"
    by (auto simp: Contains_iff) (metis append_Cons append_assoc)
  moreover have "writeSourceDiagnostics p occs = (newline_byte # ''Matches:'') @ newline_byte # concat (map ?block ?fields)"
    using here by (auto simp: writeSourceDiagnostics_def Let_def line_of_def comp_def)
  ultimately show ?thesis by blast
qed

lemma legend_contains:
  assumes "occ \<in> set occs"
    and "\<forall>e \<in> set occs. legendID (do_violation e) = legendID (do_violation occ) \<longrightarrow> legend_entry e = legend_entry occ"
  shows "Contains (writeLegend occs) (legend_entry occ)"
proof -
  let ?order = "first_by (\<lambda>e. legendID (do_violation e)) {} occs"
  obtain e' where e': "e' \<in> set ?order" "legendID (do_violation e') = legendID (do_violation occ)"
    using first_by_hits [OF assms(1), of "\<lambda>e. legendID (do_violation e)" "{}"] by auto
  have "set (first_by f s xs) \<subseteq> set xs" for f :: "diagnosticOccurrence \<Rightarrow> bytes" and s xs
    by (induction xs arbitrary: s) auto
  then have "legend_entry e' = legend_entry occ" using e' assms(2) by blast
  then have "Contains (concat (map legend_entry ?order)) (legend_entry occ)"
    using e'(1) by (intro Contains_concat) (metis image_eqI list.set_map)
  moreover have "writeLegend occs = (newline_byte # line_of ''Rules:'') @ concat (map legend_entry ?order) @ []"
    using e'(1) by (auto simp: writeLegend_def Let_def)
  ultimately show ?thesis using Contains_inside by metis
qed

lemma keyed_fields:
  assumes "keyed_occurrence keys v = Some occ"
  shows "do_violation occ = v" "place v = Some (do_Line occ, do_Column occ)"
    "do_Key occ = (case map_of keys (legendID v) of None \<Rightarrow> [] | Some k \<Rightarrow> k)"
proof -
  obtain z where z: "occurrenceFor v = Some z"
      "occ = z\<lparr>do_Key := (case map_of keys (legendID v) of None \<Rightarrow> [] | Some k \<Rightarrow> k)\<rparr>"
    using assms by (auto simp: keyed_occurrence_def)
  then show "do_violation occ = v" "place v = Some (do_Line occ, do_Column occ)"
    "do_Key occ = (case map_of keys (legendID v) of None \<Rightarrow> [] | Some k \<Rightarrow> k)"
    using occurrence_violation [OF z(1)] by (simp_all add: place_def)
qed

lemma some_inside: "\<exists>m om. Some (f (a @ b @ d @ c)) = Some (f (m @ d @ om))"
  by (rule exI [of _ "a @ b"], rule exI [of _ c]) simp

lemma FormatViolations_detailed:
  assumes "filter (\<lambda>v. vi_DiagnosticFormat v \<noteq> DiagnosticFormatMessageOnly) (take maxDiagnosticMatches vs) = ds"
    "ds \<noteq> []" "writeDetailedDiagnostics p ds = Some details"
  shows "\<exists>m om. FormatViolations p vs = Some (TrimRightNewlines (m @ details @ om))"
  unfolding FormatViolations_def splitDiagnosticFormats_def Let_def prod.case assms(1)
  using assms(2) by (simp only: assms(3) option.map if_False) (rule some_inside)

lemma format_total:
  assumes "\<forall>w \<in> set vs. vi_Start w \<le> length (vi_Value w)"
  shows "FormatViolations p vs \<noteq> None"
proof -
  let ?detailed = "filter (\<lambda>v. vi_DiagnosticFormat v \<noteq> DiagnosticFormatMessageOnly) (take maxDiagnosticMatches vs)"
  let ?keys = "legendKeys ?detailed"
  have "\<forall>w \<in> set ?detailed. \<exists>occ. keyed_occurrence ?keys w = Some occ"
    using assms occurrence_total by (fastforce simp: keyed_occurrence_def dest: in_set_takeD)
  then obtain g where "\<forall>w \<in> set ?detailed. keyed_occurrence ?keys w = Some (g w)" by metis
  then have "those (map (keyed_occurrence ?keys) ?detailed) = Some (map g ?detailed)" by (intro those_total) simp
  then have "\<exists>details. writeDetailedDiagnostics p ?detailed = Some details"
    unfolding writeDetailedDiagnostics_def by simp
  then show ?thesis
    unfolding FormatViolations_def splitDiagnosticFormats_def Let_def prod.case by (auto split: if_split)
qed

text \<open>C9. Nothing is lost: when the matches lie in their values, the text exists, and for each of the first
  fifty violations that is not message-only it has the legend entry with the rule and its message and the
  block with the label, the line and the column of the match.\<close>

theorem every_violation_is_rendered:
  assumes "\<forall>w \<in> set vs. vi_Start w \<le> length (vi_Value w) \<and> \<not> contains_nul (vi_RuleName w)"
    and "v \<in> set (take maxDiagnosticMatches vs)" "vi_DiagnosticFormat v \<noteq> DiagnosticFormatMessageOnly"
  shows "\<exists>text occ. FormatViolations p vs = Some text \<and> do_violation occ = v \<and> place v = Some (do_Line occ, do_Column occ)
    \<and> Contains text (legend_entry occ) \<and> Contains text (butlast (writeOccurrence p occ))"
proof -
  let ?vs = "take maxDiagnosticMatches vs"
  let ?detailed = "filter (\<lambda>v. vi_DiagnosticFormat v \<noteq> DiagnosticFormatMessageOnly) ?vs"
  let ?keys = "legendKeys ?detailed"
  have "\<forall>w \<in> set ?detailed. \<exists>occ. keyed_occurrence ?keys w = Some occ"
  proof
    fix w assume "w \<in> set ?detailed"
    then have "w \<in> set vs" by (auto dest: in_set_takeD)
    then show "\<exists>occ. keyed_occurrence ?keys w = Some occ"
      using assms(1) occurrence_total [of w] by (auto simp: keyed_occurrence_def)
  qed
  then obtain g where g: "\<forall>w \<in> set ?detailed. keyed_occurrence ?keys w = Some (g w)" by metis
  have v: "v \<in> set ?detailed" using assms(2,3) by simp
  have of_g: "do_violation (g w) = w" "place w = Some (do_Line (g w), do_Column (g w))"
      "do_Key (g w) = (case map_of ?keys (legendID w) of None \<Rightarrow> [] | Some k \<Rightarrow> k)" if "w \<in> set ?detailed" for w
    using keyed_fields [OF g [rule_format, OF that]] .
  let ?occs = "map g ?detailed"
  have entries: "legend_entry (g w) = legend_entry (g v)" if "w \<in> set ?detailed" "legendID w = legendID v" for w
  proof -
    have "w \<in> set vs" "v \<in> set vs" using that(1) v by (auto dest: in_set_takeD)
    then show ?thesis using legendID_split [OF that(2)] assms(1) of_g [OF that(1)] of_g [OF v] that(2)
      by (simp add: legend_entry_def)
  qed
  have legend: "Contains (writeLegend ?occs) (legend_entry (g v))"
  proof (rule legend_contains, safe)
    show "g v \<in> set ?occs" using imageI [OF v] by (simp only: list.set_map)
    fix e assume e: "e \<in> set ?occs" "legendID (do_violation e) = legendID (do_violation (g v))"
    then obtain w where w: "w \<in> set ?detailed" "e = g w" by (auto simp only: list.set_map)
    then show "legend_entry e = legend_entry (g v)" using entries of_g(1) v e(2) by metis
  qed
  obtain rest where src: "writeSourceDiagnostics p ?occs = (newline_byte # ''Matches:'') @ rest"
      and block: "Contains rest (writeOccurrence p (g v))"
    using source_contains [of "g v" ?occs p] v by auto
  have "?detailed \<noteq> []" using v by (metis empty_iff empty_set)
  moreover have "those (map (keyed_occurrence ?keys) ?detailed) = Some ?occs" using g by (intro those_total) simp
  then obtain h where "writeDetailedDiagnostics p ?detailed = Some (h @ writeLegend ?occs @ writeSourceDiagnostics p ?occs)"
    unfolding writeDetailedDiagnostics_def by simp
  ultimately obtain m om where "FormatViolations p vs
      = Some (TrimRightNewlines (m @ (h @ writeLegend ?occs @ writeSourceDiagnostics p ?occs) @ om))"
    using FormatViolations_detailed [OF refl] by metis
  then have total: "FormatViolations p vs
      = Some (TrimRightNewlines (((m @ h) @ writeLegend ?occs @ newline_byte # ''Matches:'') @ rest @ om))"
    by (simp add: src)
  let ?front = "(m @ h) @ writeLegend ?occs @ newline_byte # ''Matches:''"
  have "TrimRightNewlines (?front @ rest @ om) = ?front @ TrimRightNewlines (rest @ om)"
    by (rule trim_prefix) (simp_all add: newline_byte_def)
  then have "Contains (TrimRightNewlines (?front @ rest @ om)) (legend_entry (g v))"
    using Contains_inside [OF legend, of "m @ h"] by simp
  moreover obtain x where x: "writeOccurrence p (g v) = x @ [newline_byte]" "x \<noteq> []" "last x \<noteq> newline_byte"
    by (rule occurrence_text)
  have "Contains (writeOccurrence p (g v)) x" using Contains_inside [OF Contains_refl, of "[]" x] x(1) by simp
  then have "Contains (?front @ rest @ om) x"
    using Contains_inside [OF block, of ?front om] by (rule Contains_trans [rotated])
  then have "Contains (TrimRightNewlines (?front @ rest @ om)) x" using trim_contains x(2,3) by blast
  ultimately show ?thesis using total of_g [OF v] x(1) by (intro exI [of _ "g v"] exI) (simp only: butlast_snoc)
qed

section \<open>A match that is cut out of its line\<close>

lemma runes_ascii: "list_all (\<lambda>d. \<not> high d) s \<Longrightarrow> runes (s @ t) = map (\<lambda>c. [c]) s @ runes t"
proof (induction s)
  case (Cons c s)
  then have "rune_width (c # s @ t) = 1" by (simp add: rune_width_def high_def)
  then show ?case using Cons by simp
qed simp

lemma visible_ascii: "list_all (\<lambda>d. \<not> high d) s \<Longrightarrow> list_all (\<lambda>d. \<not> high d) (visibleText s)"
  by (induction s) (use shown_low in \<open>auto simp: visible_Cons\<close>)

lemma concat_singletons [simp]: "concat (map (\<lambda>c. [c]) s) = s"
  by (induction s) simp_all

lemma line_loop_same:
  "newline_byte \<notin> set p \<Longrightarrow> off = i + length p \<Longrightarrow> snd (line_loop off i line ls (p @ cs)) = ls"
proof (induction p arbitrary: i)
  case Nil
  then show ?case by (cases cs) simp_all
qed auto

lemma line_loop_last:
  "newline_byte \<notin> set p \<Longrightarrow> off = i + length (b @ newline_byte # p)
   \<Longrightarrow> snd (line_loop off i line ls (b @ newline_byte # p @ cs)) = i + length b + 1"
proof (induction b arbitrary: i line ls)
  case Nil
  then show ?case using line_loop_same [of p off "i + 1" "line + 1" "i + 1" cs] by simp
next
  case (Cons c b)
  then show ?case by simp
qed

text \<open>The line of a position, when the text is cut at the line's start.\<close>

lemma line_of_place:
  assumes "before = [] \<or> last before = newline_byte" "newline_byte \<notin> set indent"
  shows "\<exists>line. lineForOffset (before @ indent @ rest) (length (before @ indent))
    = (line, length before, indent @ takeWhile (\<lambda>c. c \<noteq> newline_byte) rest)"
proof -
  let ?v = "before @ indent @ rest" and ?off = "length (before @ indent)"
  have "snd (line_loop ?off 0 1 0 ?v) = length before"
  proof (cases "before = []")
    case True
    then show ?thesis using line_loop_same [of indent ?off 0 1 0 rest] assms(2) by simp
  next
    case False
    then obtain b where b: "before = b @ [newline_byte]" using assms(1) by (metis append_butlast_last_id)
    then show ?thesis using line_loop_last [of indent ?off 0 b 1 0 rest] assms(2) by simp
  qed
  moreover have "takeWhile (\<lambda>c. c \<noteq> newline_byte) (indent @ rest) = indent @ takeWhile (\<lambda>c. c \<noteq> newline_byte) rest"
    using assms(2) by (intro takeWhile_append2) auto
  ultimately show ?thesis by (cases "line_loop ?off 0 1 0 ?v") (simp add: lineForOffset_def)
qed

lemma clipped_before:
  assumes low: "list_all (\<lambda>d. \<not> high d) shown_indent" and s: "s \<noteq> []"
    and far: "n + max w 1 + 30 \<le> length shown_indent" and wide: "120 < length (runes (shown_indent @ s))"
  shows "clippedLineText (shown_indent @ s) n w =
    Some ((if 30 < n then ''...'' else []) @ drop (n - 30) (take (n + max w 1 + 30) shown_indent) @ ''...'')"
proof -
  have total: "runes (shown_indent @ s) = map (\<lambda>c. [c]) shown_indent @ runes s" by (rule runes_ascii [OF low])
  have "runes s \<noteq> []" using s by (cases s) simp_all
  then have "n + max w 1 + 30 < length (runes (shown_indent @ s))"
    using far by (simp only: total length_append length_map flip: length_greater_0_conv)
  then show ?thesis using far wide
    by (auto simp: clippedLineText_def Let_def total slice_def min_absorb1 take_map drop_map simp flip: map_append)
qed

text \<open>The printed text of a long line whose indent is spelled out past the window.\<close>

definition window :: "bytes \<Rightarrow> nat \<Rightarrow> bytes" where
  "window indent w = (if 30 < length indent then ''...'' else [])
     @ drop (length indent - 30) (take (length indent + max w 1 + 30) (visibleText indent)) @ ''...''"

lemma window_chars: "set (window indent w) \<subseteq> insert (CHR ''.'') (set (visibleText indent))"
  by (auto simp: window_def dest!: in_set_dropD in_set_takeD)

definition thirty_tabs :: bytes where "thirty_tabs = replicate 30 (CHR 0x09)"

definition tabbed_violation :: Violation where
  "tabbed_violation = demo_violation\<lparr>vi_Redact := False, vi_Value := thirty_tabs @ ''x'',
     vi_Start := 30, vi_End := 31\<rparr>"

text \<open>C11. The window around a match is computed from its position in the raw line but cut out of the line in
  which tabs and carriage returns are already spelled out.  Take any violation in a line of more than 120
  visible characters, behind an ASCII indent whose tabs and carriage returns push the match at least its own
  width and thirty columns to the right: the printed text is then a piece of the indent alone, between dots,
  and contains the match only if the match is made of nothing but characters of the indent and dots.\<close>

theorem clipped_text_misses_match:
  assumes "vi_Value v = before @ indent @ hit @ rest" "vi_Start v = length (before @ indent)"
    "vi_End v = length (before @ indent @ hit)" "hit \<noteq> []"
    and line: "before = [] \<or> last before = newline_byte" "newline_byte \<notin> set (indent @ hit)"
    and ascii: "list_all (\<lambda>c. \<not> high c) indent"
    and pushed: "length indent + visibleWidth hit + 30 \<le> length (visibleText indent)"
    and long: "120 < visibleWidth (indent @ hit @ takeWhile (\<lambda>c. c \<noteq> newline_byte) rest)"
  shows "\<exists>occ. occurrenceFor v = Some occ \<and> do_Match occ = visibleText hit
    \<and> do_LineText occ = window indent (visibleWidth hit)
    \<and> (Contains (do_LineText occ) (do_Match occ) \<longrightarrow> set (do_Match occ) \<subseteq> insert (CHR ''.'') (set (visibleText indent)))"
proof -
  let ?tail = "takeWhile (\<lambda>c. c \<noteq> newline_byte) rest" and ?n = "length before"
  have "takeWhile (\<lambda>c. c \<noteq> newline_byte) (hit @ rest) = hit @ ?tail"
    using line(2) by (intro takeWhile_append2) auto
  then obtain l where l: "lineForOffset (vi_Value v) (vi_Start v) = (l, ?n, indent @ hit @ ?tail)"
    using line_of_place [OF line(1), of indent "hit @ rest"] line(2) assms(1,2) by auto
  have "visibleText hit \<noteq> []" using \<open>hit \<noteq> []\<close> by (cases hit) (simp_all add: visible_Cons shown_def)
  moreover then have "1 \<le> visibleWidth hit"
    by (cases "visibleText hit") (simp_all add: visibleWidth_def RuneCountInString_def)
  moreover have "length (runes indent) = length indent" using runes_low [OF ascii, of "[]"] by simp
  ultimately have "clippedLineText (visibleText (indent @ hit @ ?tail)) (RuneCountInString indent) (visibleWidth hit)
    = Some (window indent (visibleWidth hit))"
    using clipped_before [OF visible_ascii [OF ascii], of "visibleText (hit @ ?tail)" "length indent" "visibleWidth hit"]
      pushed long
    by (simp add: window_def RuneCountInString_def visibleWidth_def)
  then have "\<exists>occ. occurrenceFor v = Some occ \<and> do_Match occ = visibleText hit
    \<and> do_LineText occ = window indent (visibleWidth hit)"
    using l assms(2,3) by (simp add: occurrenceFor_def Let_def slice_def)
  moreover have "Contains (window indent (visibleWidth hit)) m \<Longrightarrow> set m \<subseteq> insert (CHR ''.'') (set (visibleText indent))" for m
    using window_chars [of indent "visibleWidth hit"] by (auto simp: Contains_iff)
  ultimately show ?thesis by metis
qed

theorem clipped_text_misses_match_witness:
  "\<exists>occ. occurrenceFor tabbed_violation = Some occ \<and> \<not> Contains (do_LineText occ) (do_Match occ)"
proof -
  have tabs: "length thirty_tabs = 30" "length (visibleText thirty_tabs) = 150" "CHR ''x'' \<notin> set (visibleText thirty_tabs)"
      "newline_byte \<notin> set (thirty_tabs @ ''x'')" "list_all (\<lambda>c. \<not> high c) thirty_tabs"
    and hit: "visibleWidth ''x'' = 1" "120 < visibleWidth (thirty_tabs @ ''x'' @ [])" "CHR ''x'' \<in> set (visibleText ''x'')"
    by code_simp+
  have "\<exists>occ. occurrenceFor tabbed_violation = Some occ \<and> do_Match occ = visibleText ''x''
    \<and> do_LineText occ = window thirty_tabs (visibleWidth ''x'')
    \<and> (Contains (do_LineText occ) (do_Match occ) \<longrightarrow> set (do_Match occ) \<subseteq> insert (CHR ''.'') (set (visibleText thirty_tabs)))"
    by (rule clipped_text_misses_match [where before = "[]" and rest = "[]"])
       (use tabs hit in \<open>simp_all add: tabbed_violation_def\<close>)
  then obtain occ where "occurrenceFor tabbed_violation = Some occ" "do_Match occ = visibleText ''x''"
      "Contains (do_LineText occ) (do_Match occ) \<longrightarrow> set (do_Match occ) \<subseteq> insert (CHR ''.'') (set (visibleText thirty_tabs))"
    by blast
  moreover have "CHR ''x'' \<notin> insert (CHR ''.'') (set (visibleText thirty_tabs))" using tabs(3) by simp
  ultimately show ?thesis using hit(3) by (metis subsetD)
qed

lemma demo_place: "place demo_violation = Some (1, 3)" "place (demo_violation\<lparr>vi_Value := ''a hidden'', vi_End := 5\<rparr>) = Some (1, 3)"
  by code_simp+

theorem redacted_values_never_shown_witness:
  "FormatViolations (\<lambda>_. True) [demo_violation]
    = FormatViolations (\<lambda>_. True) [demo_violation\<lparr>vi_Value := ''a hidden'', vi_End := 5\<rparr>]"
proof (rule redacted_values_never_shown)
  have "blank demo_violation = blank (demo_violation\<lparr>vi_Value := ''a hidden'', vi_End := 5\<rparr>)"
    by (simp add: blank_def demo_violation_def)
  then show "list_all2 (\<lambda>v w. blank v = blank w \<and> place v = place w) [demo_violation]
      [demo_violation\<lparr>vi_Value := ''a hidden'', vi_End := 5\<rparr>]"
    by (simp only: list_all2_Cons list.rel_inject(1) demo_place simp_thms)
qed

theorem legend_is_unambiguous_witness:
  "map_of (legendKeys [demo_violation, tabbed_violation]) (legendID demo_violation) \<noteq> None"
  using legend_is_unambiguous [of demo_violation "[demo_violation, tabbed_violation]" tabbed_violation] by simp

theorem every_violation_is_rendered_witness:
  "\<exists>text occ. FormatViolations (\<lambda>_. True) [demo_violation] = Some text \<and> do_violation occ = demo_violation
    \<and> place demo_violation = Some (do_Line occ, do_Column occ) \<and> Contains text (legend_entry occ)
    \<and> Contains text (butlast (writeOccurrence (\<lambda>_. True) occ))"
proof (rule every_violation_is_rendered)
  show "\<forall>w \<in> set [demo_violation]. vi_Start w \<le> length (vi_Value w) \<and> \<not> contains_nul (vi_RuleName w)"
    by (simp add: demo_violation_def contains_nul_def)
  show "demo_violation \<in> set (take maxDiagnosticMatches [demo_violation])"
    by (simp add: maxDiagnosticMatches_def MaxCollectedMatchesPerEvaluation_def)
qed (simp add: demo_violation_def DiagnosticFormatMessageOnly_def)

end
