(* ===== verification/GoStruct.thy ===== *)
theory GoStruct
  imports JsonProps
begin

text \<open>
  Decoding of JSON into Go structs, the way \<^verbatim>\<open>encoding/json\<close> does it by reflection: a struct type is the list
  of its tagged fields, with embedded structs inlined, and a decoded value carries the values under the
  same names.  A value of the wrong type leaves its field unchanged and makes the decoding an error, but
  the other fields are still decoded.  The types with a decoder of their own
  (\<^verbatim>\<open>internal/hook/payload_nested.go\<close>, \<^verbatim>\<open>tool_input_shape.go\<close>) are kinds of fields.
\<close>

section \<open>Types and values\<close>

datatype field_type =
    TString | TBool | TInt | TIntPtr | TNumber | TNullable | TTextOrObject
  | TStruct "(bytes \<times> field_type) list"
  | TSlice field_type
  | TClaudeToolInput "(bytes \<times> field_type) list"
  | TCursorToolInput "(bytes \<times> field_type) list"

type_synonym struct_type = "(bytes \<times> field_type) list"

datatype go_value =
    VString bytes | VBool bool | VInt int | VNil | VNumber bytes
  | VText bytes bytes
  | VStruct "(bytes \<times> go_value) list"
  | VList "go_value list"

type_synonym decoder = "go_value \<Rightarrow> bytes \<Rightarrow> go_value \<times> bool"

primrec zero_value :: "field_type \<Rightarrow> go_value" where
  "zero_value TString = VString []"
| "zero_value TBool = VBool False"
| "zero_value TInt = VInt 0"
| "zero_value TIntPtr = VNil"
| "zero_value TNumber = VNumber []"
| "zero_value TNullable = VString []"
| "zero_value TTextOrObject = VText [] []"
| "zero_value (TStruct fields) = VStruct (map (map_prod id zero_value) fields)"
| "zero_value (TSlice t) = VList []"
| "zero_value (TClaudeToolInput fields) = VStruct (map (map_prod id zero_value) fields)"
| "zero_value (TCursorToolInput fields) = VStruct (map (map_prod id zero_value) fields)"

section \<open>Reading a value\<close>

fun get :: "go_value \<Rightarrow> bytes \<Rightarrow> go_value" where
  "get (VStruct fields) name = (case map_of fields name of None \<Rightarrow> VNil | Some v \<Rightarrow> v)"
| "get v name = VNil"

fun text_of :: "go_value \<Rightarrow> bytes" where
  "text_of (VString s) = s"
| "text_of v = []"

definition get_text :: "go_value \<Rightarrow> bytes \<Rightarrow> bytes" where
  "get_text v name = text_of (get v name)"

definition get_bool :: "go_value \<Rightarrow> bytes \<Rightarrow> bool" where
  "get_bool v name = (get v name = VBool True)"

definition get_intptr :: "go_value \<Rightarrow> bytes \<Rightarrow> int option" where
  "get_intptr v name = (case get v name of VInt n \<Rightarrow> Some n | _ \<Rightarrow> None)"

definition get_list :: "go_value \<Rightarrow> bytes \<Rightarrow> go_value list" where
  "get_list v name = (case get v name of VList vs \<Rightarrow> vs | _ \<Rightarrow> [])"

fun set_field :: "bytes \<Rightarrow> go_value \<Rightarrow> go_value \<Rightarrow> go_value" where
  "set_field name v (VStruct fields) = VStruct (map (\<lambda>(n, old). (n, if n = name then v else old)) fields)"
| "set_field name v old = old"

section \<open>Decoders\<close>

text \<open>A literal: null leaves the value as it is.\<close>

definition literal_decoder :: "(bytes \<Rightarrow> go_value option) \<Rightarrow> decoder" where
  "literal_decoder read old raw =
     (if json_null raw then (old, True) else case read raw of None \<Rightarrow> (old, False) | Some v \<Rightarrow> (v, True))"

definition number_literal :: "(bytes \<Rightarrow> bool) \<Rightarrow> bytes \<Rightarrow> bool" where
  "number_literal in_range raw \<longleftrightarrow>
     json_Valid raw \<and> (case json_trim raw of [] \<Rightarrow> False | c # _ \<Rightarrow> c = CHR ''-'' \<or> json_digit c) \<and> in_range (json_trim raw)"

text \<open>\<^verbatim>\<open>Number.UnmarshalJSON\<close> decodes a 64-bit float; the parameter says which literals are in its range.\<close>

definition Number_UnmarshalJSON :: "(bytes \<Rightarrow> bool) \<Rightarrow> decoder" where
  "Number_UnmarshalJSON in_range old raw =
     (if json_null raw \<or> number_literal in_range raw then (VNumber (json_trim raw), True) else (old, False))"

definition NullableString_UnmarshalJSON :: decoder where
  "NullableString_UnmarshalJSON old raw =
     (if TrimSpace raw = ''null'' then (VString [], True)
      else case json_string raw of None \<Rightarrow> (old, False) | Some s \<Rightarrow> (VString s, True))"

definition TextOrObject_UnmarshalJSON :: decoder where
  "TextOrObject_UnmarshalJSON old raw =
     (let (t, j) = (case old of VText t j \<Rightarrow> (t, j) | _ \<Rightarrow> ([], [])) in
      if raw = [] \<or> raw = ''null'' then (VText t j, True)
      else if hd raw = CHR 0x22 then
        (case json_string raw of None \<Rightarrow> (VText t j, False) | Some s \<Rightarrow> (VText s j, True))
      else (VText t raw, True))"

definition decode_values :: "decoder \<Rightarrow> go_value \<Rightarrow> bytes list \<Rightarrow> go_value \<times> bool" where
  "decode_values dec old raws = foldl (\<lambda>(v, ok) raw. let (v', ok') = dec v raw in (v', ok \<and> ok')) (old, True) raws"

definition struct_decoder :: "(bytes \<times> decoder) list \<Rightarrow> decoder" where
  "struct_decoder decs old raw =
     (if json_null raw then (old, True)
      else case json_members raw of
          None \<Rightarrow> (old, False)
        | Some ms \<Rightarrow>
            let results = map (\<lambda>(n, dec). (n, decode_values dec (get old n) (json_values n ms))) decs in
            (VStruct (map (\<lambda>(n, v, ok). (n, v)) results), list_all (\<lambda>(n, v, ok). ok) results))"

definition slice_decoder :: "decoder \<Rightarrow> go_value \<Rightarrow> decoder" where
  "slice_decoder dec zero old raw =
     (if json_null raw then (VList [], True)
      else case json_elements raw of
          None \<Rightarrow> (old, False)
        | Some es \<Rightarrow>
            let olds = (case old of VList vs \<Rightarrow> vs | _ \<Rightarrow> []);
                results = map (\<lambda>(i, e). dec (if i < length olds then olds ! i else zero) e) (enumerate 0 es) in
            (VList (map fst results), list_all snd results))"

text \<open>\<^verbatim>\<open>ClaudeToolInput.UnmarshalJSON\<close>: an object, or a string that contains one; other strings are empty inputs.\<close>

definition ClaudeToolInput_UnmarshalJSON :: "decoder \<Rightarrow> go_value \<Rightarrow> decoder" where
  "ClaudeToolInput_UnmarshalJSON dec zero old raw =
     (let trimmed = TrimSpace raw;
          alias = (\<lambda>t. if \<not> json_Valid t then (old, False)
                       else let (v, ok) = dec zero t in if ok then (v, True) else (old, False)) in
      if trimmed = [] \<or> trimmed = ''null'' then (old, True)
      else if hd trimmed = CHR 0x22 then
        (case json_string trimmed of
           None \<Rightarrow> (old, False)
         | Some encoded \<Rightarrow>
             let inner = TrimSpace encoded in
             if inner = [] \<or> inner = ''null'' then (old, True)
             else if hd inner \<noteq> CHR ''{'' then (old, True)
             else alias inner)
      else alias trimmed)"

definition HasSuffix :: "bytes \<Rightarrow> bytes \<Rightarrow> bool" where
  "HasSuffix s t = HasPrefix (rev s) (rev t)"

text \<open>
  \<^verbatim>\<open>CursorToolInput.UnmarshalJSON\<close>: an object keeps the fields that decode; a string is an object in text
  form or else becomes the content.
\<close>

definition CursorToolInput_UnmarshalJSON :: "decoder \<Rightarrow> go_value \<Rightarrow> decoder" where
  "CursorToolInput_UnmarshalJSON dec zero old raw =
     (let t = TrimSpace raw; (decoded, ok) = dec zero raw in
      if t = ''null'' then (zero, True)
      else if json_Valid raw \<and> ok then (decoded, True)
      else if HasPrefix t ''{'' \<and> json_Valid raw then (decoded, True)
      else case json_string raw of
          None \<Rightarrow> (old, False)
        | Some v \<Rightarrow>
            let objectText = TrimSpace v; (nested, nested_ok) = dec zero objectText in
            if HasPrefix objectText ''{'' \<and> HasSuffix objectText ''}'' \<and> json_Valid objectText \<and> nested_ok
            then (nested, True)
            else (set_field ''content'' (VString v) zero, True))"

primrec field_decoder :: "(bytes \<Rightarrow> bool) \<Rightarrow> field_type \<Rightarrow> decoder" where
  "field_decoder in_range TString = literal_decoder (\<lambda>raw. map_option VString (json_string raw))"
| "field_decoder in_range TBool = literal_decoder (\<lambda>raw. map_option VBool (json_bool raw))"
| "field_decoder in_range TInt = literal_decoder (\<lambda>raw. map_option VInt (json_int raw))"
| "field_decoder in_range TIntPtr =
     (\<lambda>old raw. if json_null raw then (VNil, True)
        else case json_int raw of None \<Rightarrow> (VInt (case old of VInt n \<Rightarrow> n | _ \<Rightarrow> 0), False) | Some n \<Rightarrow> (VInt n, True))"
| "field_decoder in_range TNumber = Number_UnmarshalJSON in_range"
| "field_decoder in_range TNullable = NullableString_UnmarshalJSON"
| "field_decoder in_range TTextOrObject = TextOrObject_UnmarshalJSON"
| "field_decoder in_range (TStruct fields) = struct_decoder (map (map_prod id (field_decoder in_range)) fields)"
| "field_decoder in_range (TSlice t) = slice_decoder (field_decoder in_range t) (zero_value t)"
| "field_decoder in_range (TClaudeToolInput fields) =
     ClaudeToolInput_UnmarshalJSON (struct_decoder (map (map_prod id (field_decoder in_range)) fields))
       (VStruct (map (map_prod id zero_value) fields))"
| "field_decoder in_range (TCursorToolInput fields) =
     CursorToolInput_UnmarshalJSON (struct_decoder (map (map_prod id (field_decoder in_range)) fields))
       (VStruct (map (map_prod id zero_value) fields))"

definition Unmarshal :: "(bytes \<Rightarrow> bool) \<Rightarrow> struct_type \<Rightarrow> bytes \<Rightarrow> go_value option" where
  "Unmarshal in_range fields raw =
     (if \<not> json_Valid raw then None
      else let (v, ok) = field_decoder in_range (TStruct fields) (zero_value (TStruct fields)) raw in
           if ok then Some v else None)"

section \<open>Searchable text\<close>

text \<open>The parts of a text are shorter than the text.\<close>

lemma trim_length: "length (json_trim s) \<le> length s"
  unfolding json_trim_def using length_dropWhile_le [of json_space s]
    length_dropWhile_le [of json_space "rev (dropWhile json_space s)"] by simp

lemma split_top_join: "length (Join (split_top sep d q e acc s) [sep]) = length acc + length s"
  by (simp add: JsonProps.Join_split)

lemma Join_part: "p \<in> set ps \<Longrightarrow> length p \<le> length (Join ps sep)"
  by (induction ps sep rule: Join.induct) auto

lemma Join_tail: "length (Join ps sep) \<le> length (Join (p # ps) sep)"
  by (cases ps) auto

lemma parts_length: "p \<in> set (json_parts s) \<Longrightarrow> length p \<le> length s"
  unfolding json_parts_def using trim_length Join_part split_top_join [of "CHR '',''" 0 False False "[]" s]
  by (auto split: if_splits) (metis append_Nil le_trans list.size(3) plus_nat.add_0)

lemma inside_length: "starts_with c s \<Longrightarrow> length (json_inside s) < length s"
  using trim_length [of s] by (cases "json_trim s") (auto simp: json_inside_def starts_with_def)

lemma member_length: "length (snd (json_member part)) \<le> length part"
proof -
  have "length (Join (split_top (CHR '':'') 0 False False [] part) '':'') = length part"
    by (simp add: split_top_join)
  then show ?thesis
    using trim_length Join_tail by (auto simp: json_member_def split: list.splits) (metis le_trans)
qed

lemma element_shorter: "json_elements t = Some es \<Longrightarrow> e \<in> set es \<Longrightarrow> length e < length t"
  using parts_length inside_length by (fastforce simp: json_elements_def split: if_splits)

lemma value_shorter:
  assumes "json_members t = Some ms" "(k, v) \<in> set ms"
  shows "length v < length t"
proof -
  obtain part where part: "part \<in> set (json_parts (json_inside t))" "(k, v) = json_member part" "starts_with (CHR ''{'') t"
    using assms by (auto simp: json_members_def split: if_splits)
  have "length v \<le> length part" using member_length [of part] part(2) by (metis snd_conv)
  then show ?thesis using parts_length [OF part(1)] inside_length [OF part(3)] by linarith
qed

text \<open>
  The entries of a decoded map: of a repeated name the last value.  Go iterates over a map in an order
  that it leaves open; the order of the names of a map is a parameter.
\<close>

type_synonym obj_order = "(bytes \<times> bytes) list \<Rightarrow> bytes \<Rightarrow> nat"

definition json_map :: "bytes \<Rightarrow> (bytes \<times> bytes) list option" where
  "json_map t = (if json_null t then Some [] else map_option (\<lambda>ms. AList.clearjunk (rev ms)) (json_members t))"

definition map_range :: "obj_order \<Rightarrow> (bytes \<times> bytes) list \<Rightarrow> (bytes \<times> bytes) list" where
  "map_range order m = sort_key (\<lambda>e. order m (fst e)) m"

definition searchableJSONString :: "bytes option \<Rightarrow> bytes" where
  "searchableJSONString raw =
     (case raw of None \<Rightarrow> [] | Some r \<Rightarrow> (case json_string r of None \<Rightarrow> [] | Some s \<Rightarrow> s))"

definition isImagePayload :: "(bytes \<times> bytes) list \<Rightarrow> bool" where
  "isImagePayload values' \<longleftrightarrow>
     searchableJSONString (map_of values' ''type'') = ''image''
     \<or> HasPrefix (searchableJSONString (map_of values' ''mimeType'')) ''image/''
     \<or> HasPrefix (searchableJSONString (map_of values' ''mime_type'')) ''image/''"

definition skipsSearchableJSONField :: "(bytes \<times> bytes) list \<Rightarrow> bytes \<Rightarrow> bool" where
  "skipsSearchableJSONField values' name \<longleftrightarrow> name = ''data'' \<and> isImagePayload values'"

definition appendSearchableScalar :: "bytes \<Rightarrow> bytes \<Rightarrow> bytes" where
  "appendSearchableScalar name v =
     (if v = [] then [] else (if name = [] then [] else name @ '': '') @ v @ [CHR 0x0A])"

lemma clearjunk_subset: "set (AList.clearjunk xs) \<subseteq> set xs"
  by (induction xs rule: AList.clearjunk.induct) (auto simp: AList.delete_eq)

lemma map_value_shorter:
  assumes "json_map t = Some m" "(k, v) \<in> set (map_range order m)"
  shows "length v < length t"
  using assms clearjunk_subset value_shorter by (fastforce simp: json_map_def map_range_def split: if_splits)

function appendSearchableJSONText :: "obj_order \<Rightarrow> bytes \<Rightarrow> bytes \<Rightarrow> bytes" where
  "appendSearchableJSONText order name raw =
     (let t = json_trim raw in
      if t = [] then []
      else if hd t = CHR ''{'' then
        (case json_map t of
           None \<Rightarrow> appendSearchableScalar name t
         | Some m \<Rightarrow> concat (map (\<lambda>(k, v). if skipsSearchableJSONField m k then [] else appendSearchableJSONText order k v)
             (map_range order m)))
      else if hd t = CHR ''['' then
        (case json_elements t of
           None \<Rightarrow> appendSearchableScalar name t
         | Some es \<Rightarrow> concat (map (\<lambda>e. appendSearchableJSONText order [] e) es))
      else if hd t = CHR 0x22 then
        (case json_string t of None \<Rightarrow> appendSearchableScalar name t | Some s \<Rightarrow> appendSearchableScalar name s)
      else if hd t = CHR ''t'' \<or> hd t = CHR ''f'' then
        (case json_bool t of
           None \<Rightarrow> appendSearchableScalar name t
         | Some b \<Rightarrow> appendSearchableScalar name (if b then ''true'' else ''false''))
      else if hd t = CHR ''n'' then []
      else appendSearchableScalar name t)"
  by pat_completeness auto
termination
proof (relation "measure (\<lambda>(order, name, raw). length raw)", goal_cases)
  case (2 order name raw t m e k v)
  then show ?case using map_value_shorter [of "json_trim raw" m k v order] trim_length [of raw] by auto
next
  case (3 order name raw t es e)
  then show ?case using element_shorter [of "json_trim raw" es e] trim_length [of raw] by auto
qed simp

declare appendSearchableJSONText.simps [simp del]

definition SearchableText :: "obj_order \<Rightarrow> go_value \<Rightarrow> bytes" where
  "SearchableText order v =
     (case v of
        VText t j \<Rightarrow>
          if t \<noteq> [] then t
          else if j = [] then []
          else if \<not> json_Valid j then j
          else rev (dropWhile (\<lambda>c. c = CHR 0x0A) (rev (appendSearchableJSONText order [] j)))
      | _ \<Rightarrow> [])"

end
