(* ===== verification/HookPayload.thy ===== *)
theory HookPayload
  imports GoStruct HookResponse FieldSet
begin

text \<open>
  The hook payloads of the providers (\<^verbatim>\<open>internal/hook/payload_*.go\<close>, \<^verbatim>\<open>response_event.go\<close>,
  \<^verbatim>\<open>copilot_normalize.go\<close>, \<^verbatim>\<open>codex_transcript.go\<close>, \<^verbatim>\<open>temporal.go\<close>): the struct of each event, how it
  is decoded, and the fields that the rules see.  The name of a struct is the name of its Go type; a
  method is the name of the type and of the method.
\<close>

section \<open>Helpers\<close>

definition NormalizedFilePath :: "go_value \<Rightarrow> bytes" where
  "NormalizedFilePath input = first_nonempty [get_text input ''file_path'', get_text input ''filePath'']"

definition NormalizedOldString :: "go_value \<Rightarrow> bytes" where
  "NormalizedOldString input = first_nonempty [get_text input ''old_string'', get_text input ''oldString'']"

definition NormalizedNewString :: "go_value \<Rightarrow> bytes" where
  "NormalizedNewString input = first_nonempty [get_text input ''new_string'', get_text input ''newString'']"

definition boolString :: "bool \<Rightarrow> bytes" where
  "boolString v = (if v then ''true'' else ''false'')"

definition cursorEditStrings :: "go_value list \<Rightarrow> bytes \<Rightarrow> bytes list" where
  "cursorEditStrings edits name = filter (\<lambda>v. v \<noteq> []) (map (\<lambda>e. get_text e name) edits)"

definition cursorAttachmentStrings :: "go_value list \<Rightarrow> bytes \<Rightarrow> bytes list" where
  "cursorAttachmentStrings attachments name = filter (\<lambda>v. v \<noteq> []) (map (\<lambda>a. get_text a name) attachments)"

definition stringsFromReplacements :: "go_value list \<Rightarrow> (go_value \<Rightarrow> bytes) \<Rightarrow> bytes list" where
  "stringsFromReplacements replacements extract = filter (\<lambda>v. v \<noteq> []) (map extract replacements)"

definition NormalizedOldStrings :: "go_value \<Rightarrow> bytes list" where
  "NormalizedOldStrings input =
     (let values' = stringsFromReplacements (get_list input ''replacements'') NormalizedOldString;
          old = get_text input ''oldString'' in
      if old \<noteq> [] then old # values' else values')"

definition NormalizedNewStrings :: "go_value \<Rightarrow> bytes list" where
  "NormalizedNewStrings input =
     (let values' = stringsFromReplacements (get_list input ''replacements'') NormalizedNewString;
          new = get_text input ''newString'' in
      if new \<noteq> [] then new # values' else values')"

section \<open>Nested structs\<close>

definition EditRange :: struct_type where
  "EditRange =
     [(''start_line'', TInt), (''start_column'', TInt), (''end_line'', TInt), (''end_column'', TInt)]"

definition Edit :: struct_type where
  "Edit =
     [(''old_string'', TString), (''new_string'', TString), (''range'', TStruct EditRange),
      (''old_line'', TString), (''new_line'', TString)]"

definition Attachment :: struct_type where
  "Attachment =
     [(''type'', TString), (''file_path'', TString)]"

definition Replacement :: struct_type where
  "Replacement =
     [(''file_path'', TString), (''filePath'', TString), (''old_string'', TString), (''oldString'', TString),
      (''new_string'', TString), (''newString'', TString)]"

definition ToolProperties :: struct_type where
  "ToolProperties =
     [(''workspace_slug'', TString), (''project_identifier'', TString), (''issue_identifier'', TString),
      (''node_id'', TString), (''node_type'', TString), (''state'', TString)]"

definition ToolFilters :: struct_type where
  "ToolFilters =
     [(''oldest'', TString), (''latest'', TString), (''limit'', TInt)]"

definition ClaudeToolInput :: struct_type where
  "ClaudeToolInput =
     [(''command'', TString), (''file_path'', TString), (''filePath'', TString), (''content'', TString),
      (''old_string'', TString), (''oldString'', TString), (''new_string'', TString), (''newString'', TString),
      (''description'', TString), (''prompt'', TString), (''url'', TString), (''query'', TString),
      (''pattern'', TString), (''workspace_slug'', TString), (''project_identifier'', TString),
      (''issue_identifier'', TString), (''node_id'', TString), (''node_type'', TString), (''state'', TString),
      (''explanation'', TString), (''goal'', TString), (''mode'', TString), (''name'', TString),
      (''path'', TString), (''file_text'', TString), (''startLine'', TInt), (''endLine'', TInt),
      (''timeout'', TInt), (''maxResults'', TInt), (''isRegexp'', TBool), (''replace_all'', TBool),
      (''waitForOutput'', TBool), (''urls'', TSlice TString), (''includePattern'', TString),
      (''workdir'', TString), (''working_directory'', TString), (''directory'', TString),
      (''properties'', TStruct ToolProperties), (''filters'', TStruct ToolFilters),
      (''replacements'', TSlice (TStruct Replacement))]"

definition CursorToolInput :: struct_type where
  "CursorToolInput =
     [(''file_path'', TString), (''content'', TString), (''command'', TString), (''cwd'', TString),
      (''timeout'', TInt), (''pattern'', TString), (''output_mode'', TString), (''glob'', TString),
      (''url'', TString), (''query'', TString), (''search_term'', TString), (''explanation'', TString),
      (''description'', TString), (''prompt'', TString), (''model'', TString), (''resume'', TString),
      (''interrupt'', TBool), (''subagent_type'', TString), (''readonly'', TBool),
      (''run_in_background'', TBool), (''file_attachments'', TSlice TString), (''workspace_slug'', TString),
      (''project_identifier'', TString), (''issue_identifier'', TString), (''node_id'', TString),
      (''node_type'', TString), (''state'', TString), (''workdir'', TString), (''working_directory'', TString),
      (''directory'', TString), (''properties'', TStruct ToolProperties), (''filters'', TStruct ToolFilters),
      (''name'', TString), (''server'', TString), (''uri'', TString), (''download_path'', TString),
      (''oldest'', TString), (''latest'', TString), (''action'', TString), (''limit'', TInt)]"

definition GeminiToolInput :: struct_type where
  "GeminiToolInput =
     [(''file_path'', TString), (''content'', TString), (''command'', TString), (''old_string'', TString),
      (''new_string'', TString), (''pattern'', TString), (''path'', TString), (''url'', TString),
      (''query'', TString), (''description'', TString), (''workdir'', TString), (''directory'', TString)]"

definition CodexToolInput :: struct_type where
  "CodexToolInput =
     [(''command'', TString), (''file_path'', TString), (''content'', TString), (''old_string'', TString),
      (''new_string'', TString), (''description'', TString), (''prompt'', TString), (''url'', TString),
      (''query'', TString), (''pattern'', TString), (''path'', TString), (''workdir'', TString),
      (''directory'', TString)]"

definition VSCodeToolInput :: struct_type where
  "VSCodeToolInput =
     [(''filePath'', TString), (''oldString'', TString), (''newString'', TString),
      (''replacements'', TSlice (TStruct Replacement)), (''command'', TString), (''content'', TString),
      (''prompt'', TString)]"

definition PermissionSuggestion :: struct_type where
  "PermissionSuggestion =
     [(''behavior'', TString), (''message'', TString)]"

definition LLMRequest :: struct_type where
  "LLMRequest =
     [(''text'', TString)]"

definition LLMResponse :: struct_type where
  "LLMResponse =
     [(''text'', TString)]"

section \<open>Claude payloads\<close>

definition ClaudeEnvelope :: struct_type where
  "ClaudeEnvelope =
     [(''hook_event_name'', TString), (''session_id'', TString), (''transcript_path'', TString),
      (''cwd'', TString), (''permission_mode'', TString), (''agent_id'', TString), (''agent_type'', TString),
      (''model'', TString), (''turn_id'', TString), (''timestamp'', TString)]"

definition ClaudeSessionStartPayload :: struct_type where
  "ClaudeSessionStartPayload = ClaudeEnvelope @
     [(''source'', TString)]"

definition ClaudeSessionEndPayload :: struct_type where
  "ClaudeSessionEndPayload = ClaudeEnvelope @
     [(''reason'', TString), (''duration_ms'', TInt)]"

definition ClaudeSetupPayload :: struct_type where
  "ClaudeSetupPayload = ClaudeEnvelope @
     [(''trigger'', TString)]"

definition ClaudePreToolUsePayload :: struct_type where
  "ClaudePreToolUsePayload = ClaudeEnvelope @
     [(''tool_name'', TString), (''tool_use_id'', TString), (''tool_input'', TClaudeToolInput ClaudeToolInput)]"

definition ClaudePostToolUsePayload :: struct_type where
  "ClaudePostToolUsePayload = ClaudeEnvelope @
     [(''tool_name'', TString), (''tool_use_id'', TString), (''tool_input'', TClaudeToolInput ClaudeToolInput),
      (''tool_response'', TTextOrObject)]"

definition ClaudePostToolUseFailurePayload :: struct_type where
  "ClaudePostToolUseFailurePayload = ClaudeEnvelope @
     [(''tool_name'', TString), (''tool_use_id'', TString), (''tool_input'', TClaudeToolInput ClaudeToolInput),
      (''error'', TString), (''error_type'', TString), (''is_interrupt'', TBool)]"

definition ClaudePermissionRequestPayload :: struct_type where
  "ClaudePermissionRequestPayload = ClaudeEnvelope @
     [(''tool_name'', TString), (''tool_use_id'', TString), (''tool_input'', TClaudeToolInput ClaudeToolInput),
      (''permission_suggestions'', TSlice (TStruct PermissionSuggestion))]"

definition ClaudePermissionDeniedPayload :: struct_type where
  "ClaudePermissionDeniedPayload = ClaudeEnvelope @
     [(''tool_name'', TString), (''tool_use_id'', TString), (''tool_input'', TClaudeToolInput ClaudeToolInput),
      (''reason'', TString)]"

definition ClaudeUserPromptSubmitPayload :: struct_type where
  "ClaudeUserPromptSubmitPayload = ClaudeEnvelope @
     [(''prompt'', TString), (''session_title'', TString)]"

definition ClaudeStopPayload :: struct_type where
  "ClaudeStopPayload = ClaudeEnvelope @
     [(''stop_hook_active'', TBool), (''last_assistant_message'', TNullable)]"

definition ClaudeStopFailurePayload :: struct_type where
  "ClaudeStopFailurePayload = ClaudeEnvelope @
     [(''error'', TString), (''error_details'', TString), (''last_assistant_message'', TString)]"

definition ClaudeSubagentStartPayload :: struct_type where
  "ClaudeSubagentStartPayload = ClaudeEnvelope"

definition ClaudeSubagentStopPayload :: struct_type where
  "ClaudeSubagentStopPayload = ClaudeEnvelope @
     [(''stop_hook_active'', TBool), (''agent_transcript_path'', TString), (''last_assistant_message'', TString)]"

definition ClaudeTaskCreatedPayload :: struct_type where
  "ClaudeTaskCreatedPayload = ClaudeEnvelope @
     [(''task_id'', TString), (''task_subject'', TString), (''task_description'', TString),
      (''teammate_name'', TString), (''team_name'', TString)]"

definition ClaudeTaskCompletedPayload :: struct_type where
  "ClaudeTaskCompletedPayload = ClaudeTaskCreatedPayload"

definition ClaudeNotificationPayload :: struct_type where
  "ClaudeNotificationPayload = ClaudeEnvelope @
     [(''notification_type'', TString), (''message'', TString), (''title'', TString)]"

definition ClaudePreCompactPayload :: struct_type where
  "ClaudePreCompactPayload = ClaudeEnvelope @
     [(''trigger'', TString), (''custom_instructions'', TString)]"

definition ClaudePostCompactPayload :: struct_type where
  "ClaudePostCompactPayload = ClaudeEnvelope @
     [(''trigger'', TString), (''compact_summary'', TString)]"

definition ClaudeInstructionsLoadedPayload :: struct_type where
  "ClaudeInstructionsLoadedPayload = ClaudeEnvelope @
     [(''file_path'', TString), (''memory_type'', TString), (''load_reason'', TString),
      (''globs'', TSlice TString), (''trigger_file_path'', TString), (''parent_file_path'', TString)]"

definition ClaudeConfigChangePayload :: struct_type where
  "ClaudeConfigChangePayload = ClaudeEnvelope @
     [(''source'', TString), (''file_path'', TString)]"

definition ClaudeCwdChangedPayload :: struct_type where
  "ClaudeCwdChangedPayload = ClaudeEnvelope @
     [(''old_cwd'', TString), (''new_cwd'', TString)]"

definition ClaudeFileChangedPayload :: struct_type where
  "ClaudeFileChangedPayload = ClaudeEnvelope @
     [(''file_path'', TString), (''event'', TString)]"

definition ClaudeWorktreeCreatePayload :: struct_type where
  "ClaudeWorktreeCreatePayload = ClaudeEnvelope @
     [(''name'', TString)]"

definition ClaudeWorktreeRemovePayload :: struct_type where
  "ClaudeWorktreeRemovePayload = ClaudeEnvelope @
     [(''worktree_path'', TString)]"

definition ClaudeElicitationPayload :: struct_type where
  "ClaudeElicitationPayload = ClaudeEnvelope @
     [(''mcp_server_name'', TString), (''message'', TString), (''mode'', TString), (''url'', TString),
      (''elicitation_id'', TString)]"

definition ClaudeElicitationResultPayload :: struct_type where
  "ClaudeElicitationResultPayload = ClaudeEnvelope @
     [(''mcp_server_name'', TString), (''elicitation_id'', TString), (''mode'', TString), (''action'', TString)]"

definition ClaudeTeammateIdlePayload :: struct_type where
  "ClaudeTeammateIdlePayload = ClaudeEnvelope @
     [(''teammate_name'', TString), (''team_name'', TString)]"

definition ClaudeBatchToolCall :: struct_type where
  "ClaudeBatchToolCall =
     [(''tool_name'', TString), (''tool_use_id'', TString), (''tool_input'', TClaudeToolInput ClaudeToolInput),
      (''tool_response'', TTextOrObject)]"

definition ClaudePostToolBatchPayload :: struct_type where
  "ClaudePostToolBatchPayload = ClaudeEnvelope @
     [(''tool_calls'', TSlice (TStruct ClaudeBatchToolCall))]"

definition ClaudeUserPromptExpansionPayload :: struct_type where
  "ClaudeUserPromptExpansionPayload = ClaudeEnvelope @
     [(''expansion_type'', TString), (''command_name'', TString), (''command_args'', TString),
      (''command_source'', TString), (''prompt'', TString)]"

definition ClaudeMessageDisplayPayload :: struct_type where
  "ClaudeMessageDisplayPayload = ClaudeEnvelope @
     [(''message_id'', TString), (''index'', TInt), (''final'', TBool), (''delta'', TString)]"

definition ClaudeEnvelope_baseFields :: "go_value \<Rightarrow> FieldSet" where
  "ClaudeEnvelope_baseFields p = zero_FieldSet
     \<lparr>f_HookEventName := get_text p ''hook_event_name'', f_SessionID := get_text p ''session_id'',
       f_ConversationID := get_text p ''session_id'', f_TranscriptPath := get_text p ''transcript_path'',
       f_CWD := get_text p ''cwd'', f_PermissionMode := get_text p ''permission_mode'',
       f_AgentID := get_text p ''agent_id'', f_AgentType := get_text p ''agent_type'',
       f_Model := get_text p ''model'', f_TurnID := get_text p ''turn_id'',
       f_Timestamp := get_text p ''timestamp''\<rparr>"

definition claudeToolFields ::
  "FieldSet \<Rightarrow> bytes \<Rightarrow> bytes \<Rightarrow> go_value \<Rightarrow> FieldSet" where
  "claudeToolFields base toolName toolUseID input =
     base
     \<lparr>f_ToolName := toolName, f_ToolUseID := toolUseID,
       f_ToolInputCommand := get_text input ''command'', f_ToolInputFilePath := NormalizedFilePath input,
       f_ToolInputContent := get_text input ''content'', f_ToolInputOldString := NormalizedOldString input,
       f_ToolInputNewString := NormalizedNewString input,
       f_ToolInputDescription := get_text input ''description'',
       f_ToolInputPrompt := get_text input ''prompt'', f_ToolInputWorkdir := get_text input ''path'',
       f_ToolInputPattern := get_text input ''pattern'', f_ToolInputPath := get_text input ''path'',
       f_ToolInputURL := get_text input ''url'', f_ToolInputQuery := get_text input ''query''\<rparr>"

definition ClaudeSessionStartPayload_Fields :: "obj_order \<Rightarrow> go_value \<Rightarrow> FieldSet" where
  "ClaudeSessionStartPayload_Fields order p = (ClaudeEnvelope_baseFields p)
     \<lparr>f_Source := get_text p ''source''\<rparr>"

definition ClaudeSessionEndPayload_Fields :: "obj_order \<Rightarrow> go_value \<Rightarrow> FieldSet" where
  "ClaudeSessionEndPayload_Fields order p = (ClaudeEnvelope_baseFields p)
     \<lparr>f_Reason := get_text p ''reason''\<rparr>"

definition ClaudeSetupPayload_Fields :: "obj_order \<Rightarrow> go_value \<Rightarrow> FieldSet" where
  "ClaudeSetupPayload_Fields order p = (ClaudeEnvelope_baseFields p)
     \<lparr>f_Trigger := get_text p ''trigger''\<rparr>"

definition ClaudePreToolUsePayload_Fields :: "obj_order \<Rightarrow> go_value \<Rightarrow> FieldSet" where
  "ClaudePreToolUsePayload_Fields order p = claudeToolFields (ClaudeEnvelope_baseFields p) (get_text p ''tool_name'') (get_text p ''tool_use_id'') (get p ''tool_input'')"

definition ClaudePostToolUsePayload_Fields :: "obj_order \<Rightarrow> go_value \<Rightarrow> FieldSet" where
  "ClaudePostToolUsePayload_Fields order p = (claudeToolFields (ClaudeEnvelope_baseFields p) (get_text p ''tool_name'') (get_text p ''tool_use_id'') (get p ''tool_input''))
     \<lparr>f_ToolResponse := SearchableText order (get p ''tool_response'')\<rparr>"

definition ClaudePostToolUseFailurePayload_Fields :: "obj_order \<Rightarrow> go_value \<Rightarrow> FieldSet" where
  "ClaudePostToolUseFailurePayload_Fields order p = (claudeToolFields (ClaudeEnvelope_baseFields p) (get_text p ''tool_name'') (get_text p ''tool_use_id'') (get p ''tool_input''))
     \<lparr>f_Error := get_text p ''error'', f_ErrorType := get_text p ''error_type'',
       f_IsInterrupt := boolString (get_bool p ''is_interrupt'')\<rparr>"

definition ClaudePermissionRequestPayload_Fields :: "obj_order \<Rightarrow> go_value \<Rightarrow> FieldSet" where
  "ClaudePermissionRequestPayload_Fields order p = claudeToolFields (ClaudeEnvelope_baseFields p) (get_text p ''tool_name'') (get_text p ''tool_use_id'') (get p ''tool_input'')"

definition ClaudePermissionDeniedPayload_Fields :: "obj_order \<Rightarrow> go_value \<Rightarrow> FieldSet" where
  "ClaudePermissionDeniedPayload_Fields order p = (claudeToolFields (ClaudeEnvelope_baseFields p) (get_text p ''tool_name'') (get_text p ''tool_use_id'') (get p ''tool_input''))
     \<lparr>f_Reason := get_text p ''reason''\<rparr>"

definition ClaudeUserPromptSubmitPayload_Fields :: "obj_order \<Rightarrow> go_value \<Rightarrow> FieldSet" where
  "ClaudeUserPromptSubmitPayload_Fields order p = (ClaudeEnvelope_baseFields p)
     \<lparr>f_Prompt := get_text p ''prompt'', f_SessionTitle := get_text p ''session_title''\<rparr>"

definition ClaudeStopPayload_Fields :: "obj_order \<Rightarrow> go_value \<Rightarrow> FieldSet" where
  "ClaudeStopPayload_Fields order p = (ClaudeEnvelope_baseFields p)
     \<lparr>f_StopHookActive := boolString (get_bool p ''stop_hook_active''),
       f_LastAssistantMessage := get_text p ''last_assistant_message''\<rparr>"

definition ClaudeStopFailurePayload_Fields :: "obj_order \<Rightarrow> go_value \<Rightarrow> FieldSet" where
  "ClaudeStopFailurePayload_Fields order p = (ClaudeEnvelope_baseFields p)
     \<lparr>f_Error := get_text p ''error'', f_ErrorDetails := get_text p ''error_details'',
       f_LastAssistantMessage := get_text p ''last_assistant_message''\<rparr>"

definition ClaudeSubagentStartPayload_Fields :: "obj_order \<Rightarrow> go_value \<Rightarrow> FieldSet" where
  "ClaudeSubagentStartPayload_Fields order p = ClaudeEnvelope_baseFields p"

definition ClaudeSubagentStopPayload_Fields :: "obj_order \<Rightarrow> go_value \<Rightarrow> FieldSet" where
  "ClaudeSubagentStopPayload_Fields order p = (ClaudeEnvelope_baseFields p)
     \<lparr>f_StopHookActive := boolString (get_bool p ''stop_hook_active''),
       f_AgentTranscriptPath := get_text p ''agent_transcript_path'',
       f_LastAssistantMessage := get_text p ''last_assistant_message''\<rparr>"

definition ClaudeTaskCreatedPayload_Fields :: "obj_order \<Rightarrow> go_value \<Rightarrow> FieldSet" where
  "ClaudeTaskCreatedPayload_Fields order p = (ClaudeEnvelope_baseFields p)
     \<lparr>f_TaskID := get_text p ''task_id'', f_TaskSubject := get_text p ''task_subject'',
       f_TaskDescription := get_text p ''task_description'', f_TeammateName := get_text p ''teammate_name'',
       f_TeamName := get_text p ''team_name''\<rparr>"

definition ClaudeTaskCompletedPayload_Fields :: "obj_order \<Rightarrow> go_value \<Rightarrow> FieldSet" where
  "ClaudeTaskCompletedPayload_Fields order p = ClaudeTaskCreatedPayload_Fields order p"

definition ClaudeNotificationPayload_Fields :: "obj_order \<Rightarrow> go_value \<Rightarrow> FieldSet" where
  "ClaudeNotificationPayload_Fields order p = (ClaudeEnvelope_baseFields p)
     \<lparr>f_NotificationType := get_text p ''notification_type'', f_Message := get_text p ''message'',
       f_Title := get_text p ''title''\<rparr>"

definition ClaudePreCompactPayload_Fields :: "obj_order \<Rightarrow> go_value \<Rightarrow> FieldSet" where
  "ClaudePreCompactPayload_Fields order p = (ClaudeEnvelope_baseFields p)
     \<lparr>f_Trigger := get_text p ''trigger'',
       f_CustomInstructions := get_text p ''custom_instructions''\<rparr>"

definition ClaudePostCompactPayload_Fields :: "obj_order \<Rightarrow> go_value \<Rightarrow> FieldSet" where
  "ClaudePostCompactPayload_Fields order p = (ClaudeEnvelope_baseFields p)
     \<lparr>f_Trigger := get_text p ''trigger'', f_CompactSummary := get_text p ''compact_summary''\<rparr>"

definition ClaudeInstructionsLoadedPayload_Fields :: "obj_order \<Rightarrow> go_value \<Rightarrow> FieldSet" where
  "ClaudeInstructionsLoadedPayload_Fields order p = (ClaudeEnvelope_baseFields p)
     \<lparr>f_FilePath := get_text p ''file_path'', f_MemoryType := get_text p ''memory_type'',
       f_LoadReason := get_text p ''load_reason'', f_TriggerFilePath := get_text p ''trigger_file_path'',
       f_ParentFilePath := get_text p ''parent_file_path''\<rparr>"

definition ClaudeConfigChangePayload_Fields :: "obj_order \<Rightarrow> go_value \<Rightarrow> FieldSet" where
  "ClaudeConfigChangePayload_Fields order p = (ClaudeEnvelope_baseFields p)
     \<lparr>f_Source := get_text p ''source'', f_FilePath := get_text p ''file_path''\<rparr>"

definition ClaudeCwdChangedPayload_Fields :: "obj_order \<Rightarrow> go_value \<Rightarrow> FieldSet" where
  "ClaudeCwdChangedPayload_Fields order p = (ClaudeEnvelope_baseFields p)
     \<lparr>f_OldCWD := get_text p ''old_cwd'', f_NewCWD := get_text p ''new_cwd''\<rparr>"

definition ClaudeFileChangedPayload_Fields :: "obj_order \<Rightarrow> go_value \<Rightarrow> FieldSet" where
  "ClaudeFileChangedPayload_Fields order p = (ClaudeEnvelope_baseFields p)
     \<lparr>f_FilePath := get_text p ''file_path'', f_Event := get_text p ''event''\<rparr>"

definition ClaudeWorktreeCreatePayload_Fields :: "obj_order \<Rightarrow> go_value \<Rightarrow> FieldSet" where
  "ClaudeWorktreeCreatePayload_Fields order p = (ClaudeEnvelope_baseFields p)
     \<lparr>f_Name := get_text p ''name''\<rparr>"

definition ClaudeWorktreeRemovePayload_Fields :: "obj_order \<Rightarrow> go_value \<Rightarrow> FieldSet" where
  "ClaudeWorktreeRemovePayload_Fields order p = (ClaudeEnvelope_baseFields p)
     \<lparr>f_WorktreePath := get_text p ''worktree_path''\<rparr>"

definition ClaudeElicitationPayload_Fields :: "obj_order \<Rightarrow> go_value \<Rightarrow> FieldSet" where
  "ClaudeElicitationPayload_Fields order p = (ClaudeEnvelope_baseFields p)
     \<lparr>f_MCPServerName := get_text p ''mcp_server_name'', f_Message := get_text p ''message'',
       f_Mode := get_text p ''mode'', f_URL := get_text p ''url'', f_ToolInputURL := get_text p ''url'',
       f_ElicitationID := get_text p ''elicitation_id''\<rparr>"

definition ClaudeElicitationResultPayload_Fields :: "obj_order \<Rightarrow> go_value \<Rightarrow> FieldSet" where
  "ClaudeElicitationResultPayload_Fields order p = (ClaudeEnvelope_baseFields p)
     \<lparr>f_MCPServerName := get_text p ''mcp_server_name'',
       f_ElicitationID := get_text p ''elicitation_id'', f_Mode := get_text p ''mode'',
       f_Action := get_text p ''action''\<rparr>"

definition ClaudeTeammateIdlePayload_Fields :: "obj_order \<Rightarrow> go_value \<Rightarrow> FieldSet" where
  "ClaudeTeammateIdlePayload_Fields order p = (ClaudeEnvelope_baseFields p)
     \<lparr>f_TeammateName := get_text p ''teammate_name'', f_TeamName := get_text p ''team_name''\<rparr>"

definition ClaudePostToolBatchPayload_Fields :: "obj_order \<Rightarrow> go_value \<Rightarrow> FieldSet" where
  "ClaudePostToolBatchPayload_Fields order p =
     (case get_list p ''tool_calls'' of
        [] \<Rightarrow> ClaudeEnvelope_baseFields p
      | first # _ \<Rightarrow>
          (claudeToolFields (ClaudeEnvelope_baseFields p) (get_text first ''tool_name'') (get_text first ''tool_use_id'')
            (get first ''tool_input''))
          \<lparr>f_ToolResponse := SearchableText order (get first ''tool_response'')\<rparr>)"

definition ClaudeUserPromptExpansionPayload_Fields :: "obj_order \<Rightarrow> go_value \<Rightarrow> FieldSet" where
  "ClaudeUserPromptExpansionPayload_Fields order p = (ClaudeEnvelope_baseFields p)
     \<lparr>f_Prompt := get_text p ''prompt''\<rparr>"

definition ClaudeMessageDisplayPayload_Fields :: "obj_order \<Rightarrow> go_value \<Rightarrow> FieldSet" where
  "ClaudeMessageDisplayPayload_Fields order p = (ClaudeEnvelope_baseFields p)
     \<lparr>f_Text := get_text p ''delta'', f_AssistantMessage := get_text p ''delta''\<rparr>"

section \<open>Cursor payloads\<close>

definition CursorEnvelope :: struct_type where
  "CursorEnvelope =
     [(''conversation_id'', TString), (''generation_id'', TString), (''model'', TString),
      (''session_id'', TString), (''hook_event_name'', TString), (''cursor_version'', TString),
      (''workspace_roots'', TSlice TString), (''user_email'', TString), (''transcript_path'', TNullable)]"

definition CursorSessionStartPayload :: struct_type where
  "CursorSessionStartPayload = CursorEnvelope"

definition CursorSessionEndPayload :: struct_type where
  "CursorSessionEndPayload = CursorEnvelope @
     [(''reason'', TString), (''final_status'', TString)]"

definition CursorPreToolUsePayload :: struct_type where
  "CursorPreToolUsePayload = CursorEnvelope @
     [(''tool_name'', TString), (''tool_use_id'', TString), (''tool_input'', TCursorToolInput CursorToolInput),
      (''cwd'', TString), (''duration'', TNumber)]"

definition CursorPostToolUsePayload :: struct_type where
  "CursorPostToolUsePayload = CursorEnvelope @
     [(''tool_name'', TString), (''tool_use_id'', TString), (''tool_input'', TCursorToolInput CursorToolInput),
      (''tool_output'', TString), (''duration'', TNumber), (''cwd'', TString)]"

definition CursorPostToolUseFailurePayload :: struct_type where
  "CursorPostToolUseFailurePayload = CursorEnvelope @
     [(''tool_name'', TString), (''tool_use_id'', TString), (''tool_input'', TCursorToolInput CursorToolInput),
      (''error_message'', TString), (''failure_type'', TString), (''is_interrupt'', TBool),
      (''duration'', TNumber), (''cwd'', TString)]"

definition CursorBeforeShellExecutionPayload :: struct_type where
  "CursorBeforeShellExecutionPayload = CursorEnvelope @
     [(''command'', TString), (''cwd'', TString), (''sandbox'', TBool)]"

definition CursorAfterShellExecutionPayload :: struct_type where
  "CursorAfterShellExecutionPayload = CursorEnvelope @
     [(''command'', TString), (''cwd'', TString), (''output'', TString), (''sandbox'', TBool),
      (''duration'', TNumber)]"

definition CursorBeforeMCPExecutionPayload :: struct_type where
  "CursorBeforeMCPExecutionPayload = CursorEnvelope @
     [(''tool_name'', TString), (''tool_input'', TCursorToolInput CursorToolInput), (''tool_use_id'', TString),
      (''cwd'', TString)]"

definition CursorAfterMCPExecutionPayload :: struct_type where
  "CursorAfterMCPExecutionPayload = CursorEnvelope @
     [(''tool_name'', TString), (''tool_input'', TCursorToolInput CursorToolInput), (''tool_use_id'', TString),
      (''tool_output'', TString), (''result_json'', TString), (''cwd'', TString)]"

definition CursorBeforeReadFilePayload :: struct_type where
  "CursorBeforeReadFilePayload = CursorEnvelope @
     [(''file_path'', TString), (''cwd'', TString)]"

definition CursorBeforeTabFileReadPayload :: struct_type where
  "CursorBeforeTabFileReadPayload = CursorEnvelope @
     [(''file_path'', TString), (''cwd'', TString)]"

definition CursorAfterFileEditPayload :: struct_type where
  "CursorAfterFileEditPayload = CursorEnvelope @
     [(''file_path'', TString), (''edits'', TSlice (TStruct Edit))]"

definition CursorAfterTabFileEditPayload :: struct_type where
  "CursorAfterTabFileEditPayload = CursorEnvelope @
     [(''file_path'', TString), (''edits'', TSlice (TStruct Edit))]"

definition CursorBeforeSubmitPromptPayload :: struct_type where
  "CursorBeforeSubmitPromptPayload = CursorEnvelope @
     [(''prompt'', TString), (''text'', TString), (''cwd'', TString),
      (''attachments'', TSlice (TStruct Attachment))]"

definition CursorSubagentStartPayload :: struct_type where
  "CursorSubagentStartPayload = CursorEnvelope @
     [(''subagent_id'', TString), (''subagent_type'', TString), (''task'', TString),
      (''parent_conversation_id'', TString), (''tool_call_id'', TString), (''is_parallel_worker'', TBool),
      (''is_background_agent'', TBool)]"

definition CursorSubagentStopPayload :: struct_type where
  "CursorSubagentStopPayload = CursorEnvelope @
     [(''subagent_id'', TString), (''subagent_type'', TString), (''task'', TString),
      (''parent_conversation_id'', TString), (''description'', TString),
      (''agent_transcript_path'', TNullable), (''message_count'', TInt), (''tool_call_count'', TInt),
      (''duration_ms'', TInt)]"

definition CursorPreCompactPayload :: struct_type where
  "CursorPreCompactPayload = CursorEnvelope @
     [(''trigger'', TString), (''context_usage_percent'', TNumber), (''context_tokens'', TInt),
      (''context_window_size'', TInt), (''messages_to_compact'', TInt), (''is_first_compaction'', TBool)]"

definition CursorStopPayload :: struct_type where
  "CursorStopPayload = CursorEnvelope @
     [(''status'', TString), (''loop_count'', TIntPtr), (''composer_mode'', TString), (''input_tokens'', TInt),
      (''output_tokens'', TInt), (''cache_read_tokens'', TInt), (''cache_write_tokens'', TInt)]"

definition CursorAfterAgentResponsePayload :: struct_type where
  "CursorAfterAgentResponsePayload = CursorEnvelope @
     [(''text'', TString), (''assistant_message'', TString), (''input_tokens'', TInt),
      (''output_tokens'', TInt), (''cache_read_tokens'', TInt), (''cache_write_tokens'', TInt)]"

definition CursorAfterAgentThoughtPayload :: struct_type where
  "CursorAfterAgentThoughtPayload = CursorEnvelope @
     [(''text'', TString), (''assistant_message'', TString)]"

definition CursorEnvelope_baseFields :: "go_value \<Rightarrow> FieldSet" where
  "CursorEnvelope_baseFields p = zero_FieldSet
     \<lparr>f_HookEventName := get_text p ''hook_event_name'', f_SessionID := get_text p ''session_id'',
       f_ConversationID := get_text p ''conversation_id'', f_GenerationID := get_text p ''generation_id'',
       f_Model := get_text p ''model'', f_CursorVersion := get_text p ''cursor_version'',
       f_UserEmail := get_text p ''user_email'', f_TranscriptPath := get_text p ''transcript_path''\<rparr>"

definition cursorToolFields ::
  "FieldSet \<Rightarrow> bytes \<Rightarrow> bytes \<Rightarrow> go_value \<Rightarrow> bytes \<Rightarrow> FieldSet" where
  "cursorToolFields base toolName toolUseID input cwd =
     base
     \<lparr>f_ToolName := toolName, f_ToolUseID := toolUseID, f_CWD := cwd,
       f_ToolInputCommand := get_text input ''command'', f_ToolInputFilePath := get_text input ''file_path'',
       f_ToolInputContent := get_text input ''content'', f_ToolInputPattern := get_text input ''pattern'',
       f_ToolInputURL := get_text input ''url'', f_ToolInputQuery := get_text input ''query'',
       f_ToolInputWorkdir := get_text input ''workdir'',
       f_ToolInputWorkingDir := get_text input ''working_directory'',
       f_ToolInputDirectory := get_text input ''directory'', f_ToolInputCWD := get_text input ''cwd''\<rparr>"

definition CursorSessionStartPayload_Fields :: "obj_order \<Rightarrow> go_value \<Rightarrow> FieldSet" where
  "CursorSessionStartPayload_Fields order p = CursorEnvelope_baseFields p"

definition CursorSessionEndPayload_Fields :: "obj_order \<Rightarrow> go_value \<Rightarrow> FieldSet" where
  "CursorSessionEndPayload_Fields order p = (CursorEnvelope_baseFields p)
     \<lparr>f_Reason := get_text p ''reason'', f_Status := get_text p ''final_status''\<rparr>"

definition CursorPreToolUsePayload_Fields :: "obj_order \<Rightarrow> go_value \<Rightarrow> FieldSet" where
  "CursorPreToolUsePayload_Fields order p = cursorToolFields (CursorEnvelope_baseFields p) (get_text p ''tool_name'') (get_text p ''tool_use_id'') (get p ''tool_input'') (get_text p ''cwd'')"

definition CursorPostToolUsePayload_Fields :: "obj_order \<Rightarrow> go_value \<Rightarrow> FieldSet" where
  "CursorPostToolUsePayload_Fields order p = (cursorToolFields (CursorEnvelope_baseFields p) (get_text p ''tool_name'') (get_text p ''tool_use_id'') (get p ''tool_input'') (get_text p ''cwd''))
     \<lparr>f_ToolOutput := get_text p ''tool_output''\<rparr>"

definition CursorPostToolUseFailurePayload_Fields :: "obj_order \<Rightarrow> go_value \<Rightarrow> FieldSet" where
  "CursorPostToolUseFailurePayload_Fields order p = (cursorToolFields (CursorEnvelope_baseFields p) (get_text p ''tool_name'') (get_text p ''tool_use_id'') (get p ''tool_input'') (get_text p ''cwd''))
     \<lparr>f_ErrorMessage := get_text p ''error_message'', f_FailureType := get_text p ''failure_type'',
       f_IsInterrupt := boolString (get_bool p ''is_interrupt'')\<rparr>"

definition CursorBeforeShellExecutionPayload_Fields :: "obj_order \<Rightarrow> go_value \<Rightarrow> FieldSet" where
  "CursorBeforeShellExecutionPayload_Fields order p = (CursorEnvelope_baseFields p)
     \<lparr>f_Command := get_text p ''command'', f_CWD := get_text p ''cwd''\<rparr>"

definition CursorAfterShellExecutionPayload_Fields :: "obj_order \<Rightarrow> go_value \<Rightarrow> FieldSet" where
  "CursorAfterShellExecutionPayload_Fields order p = (CursorEnvelope_baseFields p)
     \<lparr>f_Command := get_text p ''command'', f_CWD := get_text p ''cwd'',
       f_Output := get_text p ''output''\<rparr>"

definition CursorBeforeMCPExecutionPayload_Fields :: "obj_order \<Rightarrow> go_value \<Rightarrow> FieldSet" where
  "CursorBeforeMCPExecutionPayload_Fields order p = cursorToolFields (CursorEnvelope_baseFields p) (get_text p ''tool_name'') (get_text p ''tool_use_id'') (get p ''tool_input'') (get_text p ''cwd'')"

definition CursorAfterMCPExecutionPayload_Fields :: "obj_order \<Rightarrow> go_value \<Rightarrow> FieldSet" where
  "CursorAfterMCPExecutionPayload_Fields order p = (cursorToolFields (CursorEnvelope_baseFields p) (get_text p ''tool_name'') (get_text p ''tool_use_id'') (get p ''tool_input'') (get_text p ''cwd''))
     \<lparr>f_ToolOutput := get_text p ''tool_output''\<rparr>"

definition CursorBeforeReadFilePayload_Fields :: "obj_order \<Rightarrow> go_value \<Rightarrow> FieldSet" where
  "CursorBeforeReadFilePayload_Fields order p = (CursorEnvelope_baseFields p)
     \<lparr>f_FilePath := get_text p ''file_path'', f_CWD := get_text p ''cwd''\<rparr>"

definition CursorBeforeTabFileReadPayload_Fields :: "obj_order \<Rightarrow> go_value \<Rightarrow> FieldSet" where
  "CursorBeforeTabFileReadPayload_Fields order p = (CursorEnvelope_baseFields p)
     \<lparr>f_FilePath := get_text p ''file_path'', f_CWD := get_text p ''cwd''\<rparr>"

definition CursorAfterFileEditPayload_Fields :: "obj_order \<Rightarrow> go_value \<Rightarrow> FieldSet" where
  "CursorAfterFileEditPayload_Fields order p = (CursorEnvelope_baseFields p)
     \<lparr>f_FilePath := get_text p ''file_path'',
       f_EditsOldString := cursorEditStrings (get_list p ''edits'') ''old_string'',
       f_EditsNewString := cursorEditStrings (get_list p ''edits'') ''new_string'',
       f_EditsOldLine := cursorEditStrings (get_list p ''edits'') ''old_line'',
       f_EditsNewLine := cursorEditStrings (get_list p ''edits'') ''new_line''\<rparr>"

definition CursorAfterTabFileEditPayload_Fields :: "obj_order \<Rightarrow> go_value \<Rightarrow> FieldSet" where
  "CursorAfterTabFileEditPayload_Fields order p = CursorAfterFileEditPayload_Fields order p"

definition CursorBeforeSubmitPromptPayload_Fields :: "obj_order \<Rightarrow> go_value \<Rightarrow> FieldSet" where
  "CursorBeforeSubmitPromptPayload_Fields order p = (CursorEnvelope_baseFields p)
     \<lparr>f_Prompt := get_text p ''prompt'', f_Text := get_text p ''text'', f_CWD := get_text p ''cwd'',
       f_AttachmentsFilePath := cursorAttachmentStrings (get_list p ''attachments'') ''file_path'',
       f_AttachmentsType := cursorAttachmentStrings (get_list p ''attachments'') ''type''\<rparr>"

definition CursorSubagentStartPayload_Fields :: "obj_order \<Rightarrow> go_value \<Rightarrow> FieldSet" where
  "CursorSubagentStartPayload_Fields order p = (CursorEnvelope_baseFields p)
     \<lparr>f_TaskID := get_text p ''subagent_id'', f_TaskSubject := get_text p ''task'',
       f_AgentType := get_text p ''subagent_type''\<rparr>"

definition CursorSubagentStopPayload_Fields :: "obj_order \<Rightarrow> go_value \<Rightarrow> FieldSet" where
  "CursorSubagentStopPayload_Fields order p = (CursorEnvelope_baseFields p)
     \<lparr>f_TaskID := get_text p ''subagent_id'', f_TaskSubject := get_text p ''task'',
       f_TaskDescription := get_text p ''description'', f_AgentType := get_text p ''subagent_type'',
       f_AgentTranscriptPath := get_text p ''agent_transcript_path''\<rparr>"

definition CursorPreCompactPayload_Fields :: "obj_order \<Rightarrow> go_value \<Rightarrow> FieldSet" where
  "CursorPreCompactPayload_Fields order p = (CursorEnvelope_baseFields p)
     \<lparr>f_Trigger := get_text p ''trigger''\<rparr>"

definition CursorStopPayload_Fields :: "obj_order \<Rightarrow> go_value \<Rightarrow> FieldSet" where
  "CursorStopPayload_Fields order p = (CursorEnvelope_baseFields p)
     \<lparr>f_Status := get_text p ''status'', f_LoopCount := get_intptr p ''loop_count''\<rparr>"

definition CursorAfterAgentResponsePayload_Fields :: "obj_order \<Rightarrow> go_value \<Rightarrow> FieldSet" where
  "CursorAfterAgentResponsePayload_Fields order p = (CursorEnvelope_baseFields p)
     \<lparr>f_Text := get_text p ''text'', f_AssistantMessage := get_text p ''assistant_message''\<rparr>"

definition CursorAfterAgentThoughtPayload_Fields :: "obj_order \<Rightarrow> go_value \<Rightarrow> FieldSet" where
  "CursorAfterAgentThoughtPayload_Fields order p = (CursorEnvelope_baseFields p)
     \<lparr>f_Text := get_text p ''text'', f_AssistantMessage := get_text p ''assistant_message''\<rparr>"

section \<open>Codex payloads\<close>

definition CodexEnvelope :: struct_type where
  "CodexEnvelope =
     [(''hook_event_name'', TString), (''session_id'', TString), (''transcript_path'', TString),
      (''cwd'', TString), (''model'', TString)]"

definition CodexSessionStartPayload :: struct_type where
  "CodexSessionStartPayload = CodexEnvelope @
     [(''source'', TString)]"

definition CodexPreToolUsePayload :: struct_type where
  "CodexPreToolUsePayload = CodexEnvelope @
     [(''turn_id'', TString), (''tool_name'', TString), (''tool_use_id'', TString),
      (''tool_input'', TStruct CodexToolInput)]"

definition CodexPermissionRequestPayload :: struct_type where
  "CodexPermissionRequestPayload = CodexPreToolUsePayload"

definition CodexPostToolUsePayload :: struct_type where
  "CodexPostToolUsePayload = CodexEnvelope @
     [(''turn_id'', TString), (''tool_name'', TString), (''tool_use_id'', TString),
      (''tool_input'', TStruct CodexToolInput), (''tool_response'', TTextOrObject)]"

definition CodexUserPromptSubmitPayload :: struct_type where
  "CodexUserPromptSubmitPayload = CodexEnvelope @
     [(''turn_id'', TString), (''prompt'', TString)]"

definition CodexStopPayload :: struct_type where
  "CodexStopPayload = CodexEnvelope @
     [(''turn_id'', TString), (''stop_hook_active'', TBool), (''last_assistant_message'', TString)]"

definition CodexPreCompactPayload :: struct_type where
  "CodexPreCompactPayload = CodexEnvelope @
     [(''turn_id'', TString), (''trigger'', TString)]"

definition CodexPostCompactPayload :: struct_type where
  "CodexPostCompactPayload = CodexEnvelope @
     [(''turn_id'', TString), (''trigger'', TString)]"

definition CodexSubagentStartPayload :: struct_type where
  "CodexSubagentStartPayload = CodexEnvelope @
     [(''turn_id'', TString), (''permission_mode'', TString), (''agent_id'', TString), (''agent_type'', TString)]"

definition CodexSubagentStopPayload :: struct_type where
  "CodexSubagentStopPayload = CodexEnvelope @
     [(''turn_id'', TString), (''permission_mode'', TString), (''agent_id'', TString),
      (''agent_type'', TString), (''stop_hook_active'', TBool), (''agent_transcript_path'', TString),
      (''last_assistant_message'', TString)]"

definition CodexEnvelope_baseFields :: "go_value \<Rightarrow> FieldSet" where
  "CodexEnvelope_baseFields p = zero_FieldSet
     \<lparr>f_HookEventName := get_text p ''hook_event_name'', f_SessionID := get_text p ''session_id'',
       f_TranscriptPath := get_text p ''transcript_path'', f_CWD := get_text p ''cwd'',
       f_Model := get_text p ''model''\<rparr>"

definition codexToolFields ::
  "FieldSet \<Rightarrow> bytes \<Rightarrow> bytes \<Rightarrow> bytes \<Rightarrow> go_value \<Rightarrow> FieldSet" where
  "codexToolFields base turnID toolName toolUseID input =
     base
     \<lparr>f_TurnID := turnID, f_ToolName := toolName, f_ToolUseID := toolUseID,
       f_ToolInputCommand := get_text input ''command'', f_ToolInputFilePath := get_text input ''file_path'',
       f_ToolInputContent := get_text input ''content'', f_ToolInputOldString := get_text input ''old_string'',
       f_ToolInputNewString := get_text input ''new_string'',
       f_ToolInputDescription := get_text input ''description'',
       f_ToolInputPrompt := get_text input ''prompt'', f_ToolInputWorkdir := get_text input ''workdir'',
       f_ToolInputDirectory := get_text input ''directory'', f_ToolInputPattern := get_text input ''pattern'',
       f_ToolInputPath := get_text input ''path'', f_ToolInputURL := get_text input ''url'',
       f_ToolInputQuery := get_text input ''query''\<rparr>"

definition CodexSessionStartPayload_Fields :: "obj_order \<Rightarrow> go_value \<Rightarrow> FieldSet" where
  "CodexSessionStartPayload_Fields order p = (CodexEnvelope_baseFields p)
     \<lparr>f_Source := get_text p ''source''\<rparr>"

definition CodexPreToolUsePayload_Fields :: "obj_order \<Rightarrow> go_value \<Rightarrow> FieldSet" where
  "CodexPreToolUsePayload_Fields order p = codexToolFields (CodexEnvelope_baseFields p) (get_text p ''turn_id'') (get_text p ''tool_name'') (get_text p ''tool_use_id'') (get p ''tool_input'')"

definition CodexPermissionRequestPayload_Fields :: "obj_order \<Rightarrow> go_value \<Rightarrow> FieldSet" where
  "CodexPermissionRequestPayload_Fields order p = CodexPreToolUsePayload_Fields order p"

definition CodexPostToolUsePayload_Fields :: "obj_order \<Rightarrow> go_value \<Rightarrow> FieldSet" where
  "CodexPostToolUsePayload_Fields order p = (codexToolFields (CodexEnvelope_baseFields p) (get_text p ''turn_id'') (get_text p ''tool_name'') (get_text p ''tool_use_id'') (get p ''tool_input''))
     \<lparr>f_ToolResponse := SearchableText order (get p ''tool_response'')\<rparr>"

definition CodexUserPromptSubmitPayload_Fields :: "obj_order \<Rightarrow> go_value \<Rightarrow> FieldSet" where
  "CodexUserPromptSubmitPayload_Fields order p = (CodexEnvelope_baseFields p)
     \<lparr>f_TurnID := get_text p ''turn_id'', f_Prompt := get_text p ''prompt''\<rparr>"

definition CodexStopPayload_Fields :: "obj_order \<Rightarrow> go_value \<Rightarrow> FieldSet" where
  "CodexStopPayload_Fields order p = (CodexEnvelope_baseFields p)
     \<lparr>f_TurnID := get_text p ''turn_id'',
       f_StopHookActive := boolString (get_bool p ''stop_hook_active''),
       f_LastAssistantMessage := get_text p ''last_assistant_message''\<rparr>"

definition CodexPreCompactPayload_Fields :: "obj_order \<Rightarrow> go_value \<Rightarrow> FieldSet" where
  "CodexPreCompactPayload_Fields order p = (CodexEnvelope_baseFields p)
     \<lparr>f_TurnID := get_text p ''turn_id'', f_Trigger := get_text p ''trigger''\<rparr>"

definition CodexPostCompactPayload_Fields :: "obj_order \<Rightarrow> go_value \<Rightarrow> FieldSet" where
  "CodexPostCompactPayload_Fields order p = (CodexEnvelope_baseFields p)
     \<lparr>f_TurnID := get_text p ''turn_id'', f_Trigger := get_text p ''trigger''\<rparr>"

definition CodexSubagentStartPayload_Fields :: "obj_order \<Rightarrow> go_value \<Rightarrow> FieldSet" where
  "CodexSubagentStartPayload_Fields order p = (CodexEnvelope_baseFields p)
     \<lparr>f_TurnID := get_text p ''turn_id'', f_PermissionMode := get_text p ''permission_mode'',
       f_AgentID := get_text p ''agent_id'', f_AgentType := get_text p ''agent_type''\<rparr>"

definition CodexSubagentStopPayload_Fields :: "obj_order \<Rightarrow> go_value \<Rightarrow> FieldSet" where
  "CodexSubagentStopPayload_Fields order p = (CodexEnvelope_baseFields p)
     \<lparr>f_TurnID := get_text p ''turn_id'', f_PermissionMode := get_text p ''permission_mode'',
       f_AgentID := get_text p ''agent_id'', f_AgentType := get_text p ''agent_type'',
       f_StopHookActive := boolString (get_bool p ''stop_hook_active''),
       f_AgentTranscriptPath := get_text p ''agent_transcript_path'',
       f_LastAssistantMessage := get_text p ''last_assistant_message''\<rparr>"

section \<open>Gemini payloads\<close>

definition GeminiEnvelope :: struct_type where
  "GeminiEnvelope =
     [(''hook_event_name'', TString), (''session_id'', TString), (''transcript_path'', TString),
      (''cwd'', TString), (''timestamp'', TString)]"

definition GeminiBeforeToolPayload :: struct_type where
  "GeminiBeforeToolPayload = GeminiEnvelope @
     [(''tool_name'', TString), (''mcp_context'', TString), (''original_request_name'', TString),
      (''tool_input'', TStruct GeminiToolInput)]"

definition GeminiAfterToolPayload :: struct_type where
  "GeminiAfterToolPayload = GeminiEnvelope @
     [(''tool_name'', TString), (''mcp_context'', TString), (''original_request_name'', TString),
      (''tool_input'', TStruct GeminiToolInput), (''tool_response'', TTextOrObject)]"

definition GeminiBeforeAgentPayload :: struct_type where
  "GeminiBeforeAgentPayload = GeminiEnvelope @
     [(''prompt'', TString)]"

definition GeminiAfterAgentPayload :: struct_type where
  "GeminiAfterAgentPayload = GeminiEnvelope @
     [(''prompt'', TString), (''prompt_response'', TString), (''stop_hook_active'', TBool)]"

definition GeminiBeforeModelPayload :: struct_type where
  "GeminiBeforeModelPayload = GeminiEnvelope @
     [(''llm_request'', TStruct LLMRequest)]"

definition GeminiBeforeToolSelectionPayload :: struct_type where
  "GeminiBeforeToolSelectionPayload = GeminiBeforeModelPayload"

definition GeminiAfterModelPayload :: struct_type where
  "GeminiAfterModelPayload = GeminiEnvelope @
     [(''llm_request'', TStruct LLMRequest), (''llm_response'', TStruct LLMResponse)]"

definition GeminiSessionStartPayload :: struct_type where
  "GeminiSessionStartPayload = GeminiEnvelope @
     [(''source'', TString)]"

definition GeminiSessionEndPayload :: struct_type where
  "GeminiSessionEndPayload = GeminiEnvelope @
     [(''reason'', TString)]"

definition GeminiNotificationPayload :: struct_type where
  "GeminiNotificationPayload = GeminiEnvelope @
     [(''notification_type'', TString), (''message'', TString), (''details'', TString)]"

definition GeminiPreCompressPayload :: struct_type where
  "GeminiPreCompressPayload = GeminiEnvelope @
     [(''trigger'', TString)]"

definition GeminiEnvelope_baseFields :: "go_value \<Rightarrow> FieldSet" where
  "GeminiEnvelope_baseFields p = zero_FieldSet
     \<lparr>f_HookEventName := get_text p ''hook_event_name'', f_SessionID := get_text p ''session_id'',
       f_TranscriptPath := get_text p ''transcript_path'', f_CWD := get_text p ''cwd'',
       f_Timestamp := get_text p ''timestamp''\<rparr>"

definition geminiToolFields ::
  "FieldSet \<Rightarrow> bytes \<Rightarrow> bytes \<Rightarrow> bytes \<Rightarrow> go_value \<Rightarrow> FieldSet" where
  "geminiToolFields base toolName originalRequestName mcpContext input =
     base
     \<lparr>f_ToolName := toolName, f_OriginalRequestName := originalRequestName, f_MCPContext := mcpContext,
       f_ToolInputCommand := get_text input ''command'', f_ToolInputFilePath := get_text input ''file_path'',
       f_ToolInputContent := get_text input ''content'', f_ToolInputOldString := get_text input ''old_string'',
       f_ToolInputNewString := get_text input ''new_string'',
       f_ToolInputDescription := get_text input ''description'',
       f_ToolInputWorkdir := get_text input ''workdir'', f_ToolInputDirectory := get_text input ''directory'',
       f_ToolInputPattern := get_text input ''pattern'', f_ToolInputPath := get_text input ''path'',
       f_ToolInputURL := get_text input ''url'', f_ToolInputQuery := get_text input ''query''\<rparr>"

definition GeminiBeforeToolPayload_Fields :: "obj_order \<Rightarrow> go_value \<Rightarrow> FieldSet" where
  "GeminiBeforeToolPayload_Fields order p = geminiToolFields (GeminiEnvelope_baseFields p) (get_text p ''tool_name'') (get_text p ''original_request_name'') (get_text p ''mcp_context'') (get p ''tool_input'')"

definition GeminiAfterToolPayload_Fields :: "obj_order \<Rightarrow> go_value \<Rightarrow> FieldSet" where
  "GeminiAfterToolPayload_Fields order p = (geminiToolFields (GeminiEnvelope_baseFields p) (get_text p ''tool_name'') (get_text p ''original_request_name'') (get_text p ''mcp_context'') (get p ''tool_input''))
     \<lparr>f_ToolResponse := SearchableText order (get p ''tool_response'')\<rparr>"

definition GeminiBeforeAgentPayload_Fields :: "obj_order \<Rightarrow> go_value \<Rightarrow> FieldSet" where
  "GeminiBeforeAgentPayload_Fields order p = (GeminiEnvelope_baseFields p)
     \<lparr>f_Prompt := get_text p ''prompt''\<rparr>"

definition GeminiAfterAgentPayload_Fields :: "obj_order \<Rightarrow> go_value \<Rightarrow> FieldSet" where
  "GeminiAfterAgentPayload_Fields order p = (GeminiEnvelope_baseFields p)
     \<lparr>f_Prompt := get_text p ''prompt'', f_PromptResponse := get_text p ''prompt_response'',
       f_StopHookActive := boolString (get_bool p ''stop_hook_active'')\<rparr>"

definition GeminiBeforeModelPayload_Fields :: "obj_order \<Rightarrow> go_value \<Rightarrow> FieldSet" where
  "GeminiBeforeModelPayload_Fields order p = (GeminiEnvelope_baseFields p)
     \<lparr>f_LLMRequest := get_text (get p ''llm_request'') ''text''\<rparr>"

definition GeminiBeforeToolSelectionPayload_Fields :: "obj_order \<Rightarrow> go_value \<Rightarrow> FieldSet" where
  "GeminiBeforeToolSelectionPayload_Fields order p = GeminiBeforeModelPayload_Fields order p"

definition GeminiAfterModelPayload_Fields :: "obj_order \<Rightarrow> go_value \<Rightarrow> FieldSet" where
  "GeminiAfterModelPayload_Fields order p = (GeminiEnvelope_baseFields p)
     \<lparr>f_LLMRequest := get_text (get p ''llm_request'') ''text'',
       f_LLMResponse := get_text (get p ''llm_response'') ''text''\<rparr>"

definition GeminiSessionStartPayload_Fields :: "obj_order \<Rightarrow> go_value \<Rightarrow> FieldSet" where
  "GeminiSessionStartPayload_Fields order p = (GeminiEnvelope_baseFields p)
     \<lparr>f_Source := get_text p ''source''\<rparr>"

definition GeminiSessionEndPayload_Fields :: "obj_order \<Rightarrow> go_value \<Rightarrow> FieldSet" where
  "GeminiSessionEndPayload_Fields order p = (GeminiEnvelope_baseFields p)
     \<lparr>f_Reason := get_text p ''reason''\<rparr>"

definition GeminiNotificationPayload_Fields :: "obj_order \<Rightarrow> go_value \<Rightarrow> FieldSet" where
  "GeminiNotificationPayload_Fields order p = (GeminiEnvelope_baseFields p)
     \<lparr>f_NotificationType := get_text p ''notification_type'', f_Message := get_text p ''message'',
       f_Details := get_text p ''details''\<rparr>"

definition GeminiPreCompressPayload_Fields :: "obj_order \<Rightarrow> go_value \<Rightarrow> FieldSet" where
  "GeminiPreCompressPayload_Fields order p = (GeminiEnvelope_baseFields p)
     \<lparr>f_Trigger := get_text p ''trigger''\<rparr>"

section \<open>VS Code and Copilot payloads\<close>

definition VSCodePayload :: struct_type where
  "VSCodePayload =
     [(''hook_event_name'', TString), (''session_id'', TString), (''transcript_path'', TString),
      (''cwd'', TString), (''tool_name'', TString), (''tool_use_id'', TString),
      (''tool_input'', TStruct VSCodeToolInput), (''last_assistant_message'', TString), (''text'', TString)]"

definition CopilotPayload :: struct_type where
  "CopilotPayload = VSCodePayload @
     [(''assistant_message'', TString), (''prompt'', TString), (''transformedPrompt'', TString)]"

definition VSCodePayload_Fields :: "obj_order \<Rightarrow> go_value \<Rightarrow> FieldSet" where
  "VSCodePayload_Fields order p =
     (let input = get p ''tool_input'' in
      zero_FieldSet
        \<lparr>f_HookEventName := get_text p ''hook_event_name'', f_SessionID := get_text p ''session_id'',
         f_TranscriptPath := get_text p ''transcript_path'', f_CWD := get_text p ''cwd'',
         f_ToolName := get_text p ''tool_name'', f_ToolUseID := get_text p ''tool_use_id'',
         f_ToolInputFilePath := get_text input ''filePath'', f_ToolInputCommand := get_text input ''command'',
         f_ToolInputContent := get_text input ''content'', f_ToolInputPrompt := get_text input ''prompt'',
         f_LastAssistantMessage := get_text p ''last_assistant_message'', f_Text := get_text p ''text'',
         f_ToolInputOldString := Join (NormalizedOldStrings input) [CHR 0x0A],
         f_ToolInputNewString := Join (NormalizedNewStrings input) [CHR 0x0A],
         f_EditsOldString := NormalizedOldStrings input, f_EditsNewString := NormalizedNewStrings input\<rparr>)"

definition CopilotPayload_Fields :: "obj_order \<Rightarrow> go_value \<Rightarrow> FieldSet" where
  "CopilotPayload_Fields order p =
     (let fields0 = (VSCodePayload_Fields order p)\<lparr>f_AssistantMessage := get_text p ''assistant_message''\<rparr>;
          fields1 = (if f_LastAssistantMessage fields0 = []
                     then fields0\<lparr>f_LastAssistantMessage := get_text p ''last_assistant_message''\<rparr> else fields0) in
      if get_text p ''transformedPrompt'' \<noteq> [] then fields1\<lparr>f_Prompt := get_text p ''transformedPrompt''\<rparr>
      else if get_text p ''prompt'' \<noteq> [] then fields1\<lparr>f_Prompt := get_text p ''prompt''\<rparr>
      else fields1)"

section \<open>Unknown payloads\<close>

definition UnknownPayload :: struct_type where
  "UnknownPayload =
     [(''hook_event_name'', TString), (''session_id'', TString), (''conversation_id'', TString),
      (''cwd'', TString)]"

definition UnknownPayload_Fields :: "obj_order \<Rightarrow> go_value \<Rightarrow> FieldSet" where
  "UnknownPayload_Fields order p = zero_FieldSet
     \<lparr>f_HookEventName := get_text p ''hook_event_name'', f_SessionID := get_text p ''session_id'',
       f_ConversationID := get_text p ''conversation_id'', f_CWD := get_text p ''cwd''\<rparr>"

section \<open>Response payloads\<close>

definition ResponsePayload :: struct_type where
  "ResponsePayload =
     [(''hook_event_name'', TString), (''session_id'', TString), (''assistant_message'', TString)]"

definition ResponsePayload_Fields :: "obj_order \<Rightarrow> go_value \<Rightarrow> FieldSet" where
  "ResponsePayload_Fields order p = zero_FieldSet
     \<lparr>f_HookEventName := get_text p ''hook_event_name'', f_SessionID := get_text p ''session_id'',
       f_AssistantMessage := get_text p ''assistant_message''\<rparr>"

section \<open>Typed payloads\<close>

text \<open>A concrete event type: its Go name, its struct and its methods.\<close>

record event_type =
  et_GoType :: bytes
  et_Struct :: struct_type
  et_Fields :: "obj_order \<Rightarrow> go_value \<Rightarrow> FieldSet"
  et_SessionID :: "go_value \<Rightarrow> bytes"
  et_CWD :: "go_value \<Rightarrow> bytes"

definition standard_event :: "bytes \<Rightarrow> struct_type \<Rightarrow> (obj_order \<Rightarrow> go_value \<Rightarrow> FieldSet) \<Rightarrow> event_type" where
  "standard_event name tags f =
     \<lparr>et_GoType = name, et_Struct = tags, et_Fields = f, et_SessionID = (\<lambda>p. get_text p ''session_id''),
      et_CWD = (\<lambda>p. get_text p ''cwd'')\<rparr>"

text \<open>The methods of the Cursor envelope know no working directory.\<close>

definition cursor_event :: "bytes \<Rightarrow> struct_type \<Rightarrow> (obj_order \<Rightarrow> go_value \<Rightarrow> FieldSet) \<Rightarrow> event_type" where
  "cursor_event name tags f = (standard_event name tags f)\<lparr>et_CWD := (\<lambda>p. [])\<rparr>"

definition unknown_event :: event_type where
  "unknown_event = (standard_event ''UnknownPayload'' UnknownPayload UnknownPayload_Fields)
     \<lparr>et_SessionID := (\<lambda>p. first_nonempty [get_text p ''session_id'', get_text p ''conversation_id''])\<rparr>"

definition response_event :: event_type where
  "response_event = (standard_event ''ResponsePayload'' ResponsePayload ResponsePayload_Fields)\<lparr>et_CWD := (\<lambda>p. [])\<rparr>"

definition cursorDecoders :: "(bytes \<times> event_type) list" where
  "cursorDecoders =
     [(''sessionStart'', cursor_event ''CursorSessionStartPayload'' CursorSessionStartPayload CursorSessionStartPayload_Fields),
      (''sessionEnd'', cursor_event ''CursorSessionEndPayload'' CursorSessionEndPayload CursorSessionEndPayload_Fields),
      (''preToolUse'', cursor_event ''CursorPreToolUsePayload'' CursorPreToolUsePayload CursorPreToolUsePayload_Fields),
      (''postToolUse'', cursor_event ''CursorPostToolUsePayload'' CursorPostToolUsePayload CursorPostToolUsePayload_Fields),
      (''postToolUseFailure'', cursor_event ''CursorPostToolUseFailurePayload'' CursorPostToolUseFailurePayload CursorPostToolUseFailurePayload_Fields),
      (''beforeShellExecution'', cursor_event ''CursorBeforeShellExecutionPayload'' CursorBeforeShellExecutionPayload CursorBeforeShellExecutionPayload_Fields),
      (''afterShellExecution'', cursor_event ''CursorAfterShellExecutionPayload'' CursorAfterShellExecutionPayload CursorAfterShellExecutionPayload_Fields),
      (''beforeMCPExecution'', cursor_event ''CursorBeforeMCPExecutionPayload'' CursorBeforeMCPExecutionPayload CursorBeforeMCPExecutionPayload_Fields),
      (''afterMCPExecution'', cursor_event ''CursorAfterMCPExecutionPayload'' CursorAfterMCPExecutionPayload CursorAfterMCPExecutionPayload_Fields),
      (''beforeReadFile'', cursor_event ''CursorBeforeReadFilePayload'' CursorBeforeReadFilePayload CursorBeforeReadFilePayload_Fields),
      (''beforeTabFileRead'', cursor_event ''CursorBeforeTabFileReadPayload'' CursorBeforeTabFileReadPayload CursorBeforeTabFileReadPayload_Fields),
      (''afterFileEdit'', cursor_event ''CursorAfterFileEditPayload'' CursorAfterFileEditPayload CursorAfterFileEditPayload_Fields),
      (''afterTabFileEdit'', cursor_event ''CursorAfterTabFileEditPayload'' CursorAfterTabFileEditPayload CursorAfterTabFileEditPayload_Fields),
      (''beforeSubmitPrompt'', cursor_event ''CursorBeforeSubmitPromptPayload'' CursorBeforeSubmitPromptPayload CursorBeforeSubmitPromptPayload_Fields),
      (''subagentStart'', cursor_event ''CursorSubagentStartPayload'' CursorSubagentStartPayload CursorSubagentStartPayload_Fields),
      (''subagentStop'', cursor_event ''CursorSubagentStopPayload'' CursorSubagentStopPayload CursorSubagentStopPayload_Fields),
      (''preCompact'', cursor_event ''CursorPreCompactPayload'' CursorPreCompactPayload CursorPreCompactPayload_Fields),
      (''stop'', cursor_event ''CursorStopPayload'' CursorStopPayload CursorStopPayload_Fields),
      (''afterAgentResponse'', cursor_event ''CursorAfterAgentResponsePayload'' CursorAfterAgentResponsePayload CursorAfterAgentResponsePayload_Fields),
      (''afterAgentThought'', cursor_event ''CursorAfterAgentThoughtPayload'' CursorAfterAgentThoughtPayload CursorAfterAgentThoughtPayload_Fields)]"

definition claudeDecoders :: "(bytes \<times> event_type) list" where
  "claudeDecoders =
     [(''SessionStart'', standard_event ''ClaudeSessionStartPayload'' ClaudeSessionStartPayload ClaudeSessionStartPayload_Fields),
      (''SessionEnd'', standard_event ''ClaudeSessionEndPayload'' ClaudeSessionEndPayload ClaudeSessionEndPayload_Fields),
      (''Setup'', standard_event ''ClaudeSetupPayload'' ClaudeSetupPayload ClaudeSetupPayload_Fields),
      (''PreToolUse'', standard_event ''ClaudePreToolUsePayload'' ClaudePreToolUsePayload ClaudePreToolUsePayload_Fields),
      (''PostToolUse'', standard_event ''ClaudePostToolUsePayload'' ClaudePostToolUsePayload ClaudePostToolUsePayload_Fields),
      (''PostToolUseFailure'', standard_event ''ClaudePostToolUseFailurePayload'' ClaudePostToolUseFailurePayload ClaudePostToolUseFailurePayload_Fields),
      (''PermissionRequest'', standard_event ''ClaudePermissionRequestPayload'' ClaudePermissionRequestPayload ClaudePermissionRequestPayload_Fields),
      (''PermissionDenied'', standard_event ''ClaudePermissionDeniedPayload'' ClaudePermissionDeniedPayload ClaudePermissionDeniedPayload_Fields),
      (''UserPromptSubmit'', standard_event ''ClaudeUserPromptSubmitPayload'' ClaudeUserPromptSubmitPayload ClaudeUserPromptSubmitPayload_Fields),
      (''Stop'', standard_event ''ClaudeStopPayload'' ClaudeStopPayload ClaudeStopPayload_Fields),
      (''StopFailure'', standard_event ''ClaudeStopFailurePayload'' ClaudeStopFailurePayload ClaudeStopFailurePayload_Fields),
      (''SubagentStart'', standard_event ''ClaudeSubagentStartPayload'' ClaudeSubagentStartPayload ClaudeSubagentStartPayload_Fields),
      (''SubagentStop'', standard_event ''ClaudeSubagentStopPayload'' ClaudeSubagentStopPayload ClaudeSubagentStopPayload_Fields),
      (''TaskCreated'', standard_event ''ClaudeTaskCreatedPayload'' ClaudeTaskCreatedPayload ClaudeTaskCreatedPayload_Fields),
      (''TaskCompleted'', standard_event ''ClaudeTaskCompletedPayload'' ClaudeTaskCompletedPayload ClaudeTaskCompletedPayload_Fields),
      (''Notification'', standard_event ''ClaudeNotificationPayload'' ClaudeNotificationPayload ClaudeNotificationPayload_Fields),
      (''PreCompact'', standard_event ''ClaudePreCompactPayload'' ClaudePreCompactPayload ClaudePreCompactPayload_Fields),
      (''PostCompact'', standard_event ''ClaudePostCompactPayload'' ClaudePostCompactPayload ClaudePostCompactPayload_Fields),
      (''InstructionsLoaded'', standard_event ''ClaudeInstructionsLoadedPayload'' ClaudeInstructionsLoadedPayload ClaudeInstructionsLoadedPayload_Fields),
      (''ConfigChange'', standard_event ''ClaudeConfigChangePayload'' ClaudeConfigChangePayload ClaudeConfigChangePayload_Fields),
      (''CwdChanged'', standard_event ''ClaudeCwdChangedPayload'' ClaudeCwdChangedPayload ClaudeCwdChangedPayload_Fields),
      (''FileChanged'', standard_event ''ClaudeFileChangedPayload'' ClaudeFileChangedPayload ClaudeFileChangedPayload_Fields),
      (''WorktreeCreate'', standard_event ''ClaudeWorktreeCreatePayload'' ClaudeWorktreeCreatePayload ClaudeWorktreeCreatePayload_Fields),
      (''WorktreeRemove'', standard_event ''ClaudeWorktreeRemovePayload'' ClaudeWorktreeRemovePayload ClaudeWorktreeRemovePayload_Fields),
      (''Elicitation'', standard_event ''ClaudeElicitationPayload'' ClaudeElicitationPayload ClaudeElicitationPayload_Fields),
      (''ElicitationResult'', standard_event ''ClaudeElicitationResultPayload'' ClaudeElicitationResultPayload ClaudeElicitationResultPayload_Fields),
      (''TeammateIdle'', standard_event ''ClaudeTeammateIdlePayload'' ClaudeTeammateIdlePayload ClaudeTeammateIdlePayload_Fields),
      (''PostToolBatch'', standard_event ''ClaudePostToolBatchPayload'' ClaudePostToolBatchPayload ClaudePostToolBatchPayload_Fields),
      (''UserPromptExpansion'', standard_event ''ClaudeUserPromptExpansionPayload'' ClaudeUserPromptExpansionPayload ClaudeUserPromptExpansionPayload_Fields),
      (''MessageDisplay'', standard_event ''ClaudeMessageDisplayPayload'' ClaudeMessageDisplayPayload ClaudeMessageDisplayPayload_Fields)]"

definition codexDecoders :: "(bytes \<times> event_type) list" where
  "codexDecoders =
     [(''SessionStart'', standard_event ''CodexSessionStartPayload'' CodexSessionStartPayload CodexSessionStartPayload_Fields),
      (''PreToolUse'', standard_event ''CodexPreToolUsePayload'' CodexPreToolUsePayload CodexPreToolUsePayload_Fields),
      (''PermissionRequest'', standard_event ''CodexPermissionRequestPayload'' CodexPermissionRequestPayload CodexPermissionRequestPayload_Fields),
      (''PostToolUse'', standard_event ''CodexPostToolUsePayload'' CodexPostToolUsePayload CodexPostToolUsePayload_Fields),
      (''UserPromptSubmit'', standard_event ''CodexUserPromptSubmitPayload'' CodexUserPromptSubmitPayload CodexUserPromptSubmitPayload_Fields),
      (''Stop'', standard_event ''CodexStopPayload'' CodexStopPayload CodexStopPayload_Fields),
      (''PreCompact'', standard_event ''CodexPreCompactPayload'' CodexPreCompactPayload CodexPreCompactPayload_Fields),
      (''PostCompact'', standard_event ''CodexPostCompactPayload'' CodexPostCompactPayload CodexPostCompactPayload_Fields),
      (''SubagentStart'', standard_event ''CodexSubagentStartPayload'' CodexSubagentStartPayload CodexSubagentStartPayload_Fields),
      (''SubagentStop'', standard_event ''CodexSubagentStopPayload'' CodexSubagentStopPayload CodexSubagentStopPayload_Fields)]"

definition geminiDecoders :: "(bytes \<times> event_type) list" where
  "geminiDecoders =
     [(''BeforeTool'', standard_event ''GeminiBeforeToolPayload'' GeminiBeforeToolPayload GeminiBeforeToolPayload_Fields),
      (''AfterTool'', standard_event ''GeminiAfterToolPayload'' GeminiAfterToolPayload GeminiAfterToolPayload_Fields),
      (''BeforeAgent'', standard_event ''GeminiBeforeAgentPayload'' GeminiBeforeAgentPayload GeminiBeforeAgentPayload_Fields),
      (''AfterAgent'', standard_event ''GeminiAfterAgentPayload'' GeminiAfterAgentPayload GeminiAfterAgentPayload_Fields),
      (''BeforeModel'', standard_event ''GeminiBeforeModelPayload'' GeminiBeforeModelPayload GeminiBeforeModelPayload_Fields),
      (''BeforeToolSelection'', standard_event ''GeminiBeforeToolSelectionPayload'' GeminiBeforeToolSelectionPayload GeminiBeforeToolSelectionPayload_Fields),
      (''AfterModel'', standard_event ''GeminiAfterModelPayload'' GeminiAfterModelPayload GeminiAfterModelPayload_Fields),
      (''SessionStart'', standard_event ''GeminiSessionStartPayload'' GeminiSessionStartPayload GeminiSessionStartPayload_Fields),
      (''SessionEnd'', standard_event ''GeminiSessionEndPayload'' GeminiSessionEndPayload GeminiSessionEndPayload_Fields),
      (''Notification'', standard_event ''GeminiNotificationPayload'' GeminiNotificationPayload GeminiNotificationPayload_Fields),
      (''PreCompress'', standard_event ''GeminiPreCompressPayload'' GeminiPreCompressPayload GeminiPreCompressPayload_Fields)]"

record Payload =
  pl_System :: System
  pl_Type :: event_type
  pl_Event :: go_value

definition EventName :: "Payload \<Rightarrow> bytes" where
  "EventName p = get_text (pl_Event p) ''hook_event_name''"

definition SessionID :: "Payload \<Rightarrow> bytes" where
  "SessionID p = et_SessionID (pl_Type p) (pl_Event p)"

definition CWD :: "Payload \<Rightarrow> bytes" where
  "CWD p = et_CWD (pl_Type p) (pl_Event p)"

definition Fields :: "obj_order \<Rightarrow> Payload \<Rightarrow> FieldSet" where
  "Fields order p = et_Fields (pl_Type p) order (pl_Event p)"

text \<open>
  What decoding takes from outside: the literals in the range of a 64-bit float, the order of a map, the
  lines of a transcript, a file's content, and the working directory that the JavaScript grammar finds in
  an input of the Codex tool \<^verbatim>\<open>exec\<close> (and whether it found the command), or an error.
\<close>

record payload_env =
  pe_in_range :: "bytes \<Rightarrow> bool"
  pe_order :: obj_order
  pe_lines :: "bytes \<Rightarrow> bytes list"
  pe_readFile :: "bytes \<Rightarrow> bytes option"
  pe_execWorkdir :: "bytes \<Rightarrow> bytes \<Rightarrow> (bytes \<times> bool) option"

section \<open>Transcripts of Copilot\<close>

definition copilotData :: struct_type where
  "copilotData = [(''content'', TString), (''message'', TString), (''text'', TString), (''reasoningText'', TString)]"

definition copilotLinePayload :: struct_type where
  "copilotLinePayload = [(''type'', TString), (''role'', TString), (''content'', TString), (''message'', TString),
     (''text'', TString)]"

definition copilotLine :: struct_type where
  "copilotLine = [(''type'', TString), (''data'', TStruct copilotData), (''payload'', TStruct copilotLinePayload),
     (''role'', TString), (''content'', TString), (''message'', TString), (''text'', TString)]"

definition copilotAssistantMessageFromLine :: "payload_env \<Rightarrow> bytes \<Rightarrow> bytes" where
  "copilotAssistantMessageFromLine env line =
     (case Unmarshal (pe_in_range env) copilotLine line of
        None \<Rightarrow> []
      | Some entry \<Rightarrow>
          let data = get entry ''data''; payload = get entry ''payload'' in
          if get_text entry ''type'' = ''assistant.message'' then
            first_nonempty [get_text data ''content'', get_text data ''message'', get_text data ''text'',
              get_text data ''reasoningText'']
          else if get_text entry ''role'' = ''assistant'' then
            first_nonempty [get_text entry ''content'', get_text entry ''message'', get_text entry ''text'']
          else if get_text payload ''role'' = ''assistant'' \<or> get_text payload ''type'' = ''assistant.message''
              \<or> get_text payload ''type'' = ''message'' then
            first_nonempty [get_text payload ''content'', get_text payload ''message'', get_text payload ''text'']
          else [])"

definition lastCopilotAssistantMessage :: "payload_env \<Rightarrow> bytes \<Rightarrow> bytes" where
  "lastCopilotAssistantMessage env path =
     fold (\<lambda>line lastMessage. let message = copilotAssistantMessageFromLine env line in
             if message \<noteq> [] then message else lastMessage) (pe_lines env path) []"

definition enrichCopilotPayload :: "payload_env \<Rightarrow> go_value \<Rightarrow> go_value" where
  "enrichCopilotPayload env p =
     (if get_text p ''hook_event_name'' \<noteq> ''Stop'' then p
      else if get_text p ''assistant_message'' \<noteq> [] \<or> get_text p ''last_assistant_message'' \<noteq> [] \<or> get_text p ''text'' \<noteq> []
      then p
      else if get_text p ''transcript_path'' = [] then p
      else set_field ''last_assistant_message''
             (VString (lastCopilotAssistantMessage env (get_text p ''transcript_path''))) p)"

section \<open>Parsing\<close>

definition envelopeName :: struct_type where
  "envelopeName = [(''hook_event_name'', TString)]"

definition eventNameFromBytes :: "payload_env \<Rightarrow> bytes \<Rightarrow> bytes option" where
  "eventNameFromBytes env raw =
     map_option (\<lambda>v. get_text v ''hook_event_name'') (Unmarshal (pe_in_range env) envelopeName raw)"

definition decoded :: "payload_env \<Rightarrow> System \<Rightarrow> event_type \<Rightarrow> bytes \<Rightarrow> Payload option" where
  "decoded env system t raw =
     map_option (\<lambda>v. \<lparr>pl_System = system, pl_Type = t, pl_Event = v\<rparr>) (Unmarshal (pe_in_range env) (et_Struct t) raw)"

definition dispatched :: "(bytes \<times> event_type) list \<Rightarrow> bytes \<Rightarrow> event_type" where
  "dispatched decoders name = (case map_of decoders name of None \<Rightarrow> unknown_event | Some t \<Rightarrow> t)"

definition ParseHookPayload :: "payload_env \<Rightarrow> System \<Rightarrow> bytes \<Rightarrow> Payload option" where
  "ParseHookPayload env system raw =
     (case eventNameFromBytes env raw of
        None \<Rightarrow> None
      | Some name \<Rightarrow>
          (case system of
             SystemCursor \<Rightarrow> decoded env system (dispatched cursorDecoders name) raw
           | SystemClaude \<Rightarrow> decoded env system (dispatched claudeDecoders name) raw
           | SystemCodex \<Rightarrow> decoded env system (dispatched codexDecoders name) raw
           | SystemGemini \<Rightarrow> decoded env system (dispatched geminiDecoders name) raw
           | SystemVSCode \<Rightarrow> decoded env system (standard_event ''VSCodePayload'' VSCodePayload VSCodePayload_Fields) raw
           | SystemCopilot \<Rightarrow>
               map_option (\<lambda>p. p\<lparr>pl_Event := enrichCopilotPayload env (pl_Event p)\<rparr>)
                 (decoded env system (standard_event ''CopilotPayload'' CopilotPayload CopilotPayload_Fields) raw)
           | SystemResponse \<Rightarrow> decoded env system response_event raw
           | SystemUnknown \<Rightarrow> decoded env system unknown_event raw))"

section \<open>Prompts\<close>

definition UserPrompt :: "Payload \<Rightarrow> bytes option" where
  "UserPrompt p =
     (let t = et_GoType (pl_Type p); prompt = get_text (pl_Event p) ''prompt'' in
      if t \<in> {''ClaudeUserPromptSubmitPayload'', ''CodexUserPromptSubmitPayload'', ''CursorBeforeSubmitPromptPayload'',
           ''GeminiBeforeAgentPayload''}
        \<or> t = ''CopilotPayload'' \<and> EventName p = ''userPromptTransformed''
      then (if prompt = [] then None else Some prompt) else None)"

definition payloadPromptText :: "Payload \<Rightarrow> bytes" where
  "payloadPromptText p =
     (if et_GoType (pl_Type p) = ''CopilotPayload'' then
        (if get_text (pl_Event p) ''transformedPrompt'' \<noteq> [] then get_text (pl_Event p) ''transformedPrompt''
         else get_text (pl_Event p) ''prompt'')
      else [])"

section \<open>Copilot field names\<close>

definition map_put :: "bytes \<Rightarrow> bytes \<Rightarrow> (bytes \<times> bytes) list \<Rightarrow> (bytes \<times> bytes) list" where
  "map_put name v m = AList.update name v m"

definition copyCopilotField :: "bytes \<Rightarrow> bytes \<Rightarrow> (bytes \<times> bytes) list \<Rightarrow> (bytes \<times> bytes) list" where
  "copyCopilotField source target payload =
     (if map_of payload target \<noteq> None then payload
      else case map_of payload source of None \<Rightarrow> payload | Some v \<Rightarrow> map_put target v payload)"

definition copilotFields :: "(bytes \<times> bytes) list" where
  "copilotFields =
     [(''sessionId'', ''session_id''), (''transcriptPath'', ''transcript_path''), (''toolName'', ''tool_name''),
      (''toolUseId'', ''tool_use_id''), (''toolInput'', ''tool_input''), (''toolArgs'', ''tool_input''),
      (''toolOutput'', ''tool_output''), (''toolResponse'', ''tool_response''), (''toolResult'', ''tool_response''),
      (''assistantMessage'', ''assistant_message''), (''lastAssistantMessage'', ''last_assistant_message'')]"

text \<open>\<^verbatim>\<open>json.Marshal\<close> of a map of raw values: sorted names, compacted values.\<close>

definition marshal_map :: "(bytes \<times> bytes) list \<Rightarrow> bytes option" where
  "marshal_map m =
     (let sorted = sort_key fst m in
      map_option (\<lambda>vs. json_encode_object (zip (map fst sorted) vs))
        (those (map (\<lambda>(n, v). json_compact v) sorted)))"

text \<open>A result is an error, a text, or the panic of an assignment to an entry of a nil map.\<close>

datatype normalized = NormalizePanics | NormalizeError | Normalized bytes

definition NormalizeCopilotPayload :: "bytes \<Rightarrow> bytes \<Rightarrow> normalized" where
  "NormalizeCopilotPayload raw eventHint =
     (if eventHint = [] then Normalized raw
      else if \<not> json_Valid raw then NormalizeError
      else case json_map raw of
          None \<Rightarrow> NormalizeError
        | Some payload \<Rightarrow>
            if json_null raw then NormalizePanics
            else let named = (if map_of payload ''hook_event_name'' = None
                              then map_put ''hook_event_name'' (json_quote eventHint) payload else payload) in
                 (case marshal_map (fold (\<lambda>(source, target). copyCopilotField source target) copilotFields named) of
                    None \<Rightarrow> NormalizeError
                  | Some out \<Rightarrow> Normalized out))"

section \<open>The working directory of a Codex command\<close>

definition codexTranscriptTailBytes :: nat where "codexTranscriptTailBytes = 2 * 1024 * 1024"

definition readCodexTranscriptTail :: "payload_env \<Rightarrow> bytes \<Rightarrow> bytes" where
  "readCodexTranscriptTail env path =
     (case pe_readFile env path of
        None \<Rightarrow> []
      | Some file \<Rightarrow>
          let offset = length file - codexTranscriptTailBytes; content = drop offset file in
          if 0 < offset \<and> CHR 0x0A \<in> set content
          then tl (dropWhile (\<lambda>c. c \<noteq> CHR 0x0A) content) else content)"

definition codexMeta :: struct_type where "codexMeta = [(''turn_id'', TString)]"

definition codexLinePayload :: struct_type where
  "codexLinePayload = [(''type'', TString), (''name'', TString), (''input'', TString),
     (''internal_chat_message_metadata_passthrough'', TStruct codexMeta)]"

definition codexLine :: struct_type where
  "codexLine = [(''type'', TString), (''payload'', TStruct codexLinePayload)]"

text \<open>An error is \<^term>\<open>None\<close>; otherwise the directory and whether the line is the command's.\<close>

definition codexExecWorkdirFromLine :: "payload_env \<Rightarrow> bytes \<Rightarrow> bytes \<Rightarrow> bytes \<Rightarrow> (bytes \<times> bool) option" where
  "codexExecWorkdirFromLine env line turnID command =
     (if TrimSpace line = [] then Some ([], False)
      else case Unmarshal (pe_in_range env) codexLine line of
          None \<Rightarrow> None
        | Some entry \<Rightarrow>
            let payload = get entry ''payload'' in
            if get_text entry ''type'' \<noteq> ''response_item'' \<or> get_text payload ''type'' \<noteq> ''custom_tool_call'' then Some ([], False)
            else if get_text payload ''name'' \<noteq> ''exec''
                \<or> get_text (get payload ''internal_chat_message_metadata_passthrough'') ''turn_id'' \<noteq> turnID
            then Some ([], False)
            else pe_execWorkdir env (get_text payload ''input'') command)"

fun workdir_of_lines :: "payload_env \<Rightarrow> bytes \<Rightarrow> bytes \<Rightarrow> bytes list \<Rightarrow> bytes option" where
  "workdir_of_lines env turnID command [] = Some []"
| "workdir_of_lines env turnID command (line # lines) =
     (case codexExecWorkdirFromLine env line turnID command of
        None \<Rightarrow> None
      | Some (workdir, matched) \<Rightarrow> if matched then Some workdir else workdir_of_lines env turnID command lines)"

definition codexExecWorkdirFromTranscript :: "payload_env \<Rightarrow> bytes \<Rightarrow> bytes \<Rightarrow> bytes \<Rightarrow> bytes option" where
  "codexExecWorkdirFromTranscript env path turnID command =
     workdir_of_lines env turnID command (rev (Split (CHR 0x0A) (readCodexTranscriptTail env path)))"

definition recoverCodexExecWorkdir :: "payload_env \<Rightarrow> System \<Rightarrow> FieldSet \<Rightarrow> FieldSet" where
  "recoverCodexExecWorkdir env system fs =
     (if system \<noteq> SystemCodex \<or> f_ToolInputWorkdir fs \<noteq> [] then fs
      else if json_fold (f_ToolName fs) \<noteq> json_fold ''bash'' \<or> f_ToolInputCommand fs = [] then fs
      else if f_TranscriptPath fs = [] \<or> f_TurnID fs = [] then fs
      else case codexExecWorkdirFromTranscript env (f_TranscriptPath fs) (f_TurnID fs) (f_ToolInputCommand fs) of
          None \<Rightarrow> fs
        | Some workdir \<Rightarrow> if workdir \<noteq> [] then fs\<lparr>f_ToolInputWorkdir := workdir\<rparr> else fs)"

end
