(* ===== verification/HookEvaluate.thy ===== *)
theory HookEvaluate
  imports HookPayload HookSchema Diagnostics PerfConfig
begin

text \<open>
  The evaluation of one hook call (\<^verbatim>\<open>internal/hook/provider.go\<close>, \<^verbatim>\<open>staged_evaluation.go\<close>,
  \<^verbatim>\<open>rule_partition.go\<close>): the payload is decoded, the deterministic rules run before the rules that ask a
  model, the violations decide, the effects of the other rules are composed, and the response is rendered.
  Decision traces are left out.
\<close>

section \<open>Partitions of the rules\<close>

definition isAuditRule :: "Rule \<Rightarrow> bool" where
  "isAuditRule rule \<longleftrightarrow> r_AuditOnly rule"

definition PartitionRules :: "Config option \<Rightarrow> Rule list \<times> Rule list" where
  "PartitionRules cfg =
     (case cfg of
        None \<Rightarrow> ([], [])
      | Some c \<Rightarrow> (filter (\<lambda>r. \<not> isAuditRule r) (cfg_Rules c), filter isAuditRule (cfg_Rules c)))"

definition cloneConfigWithRules :: "Config option \<Rightarrow> Rule list \<Rightarrow> Config option" where
  "cloneConfigWithRules cfg rules =
     (case cfg of
        None \<Rightarrow> if rules = [] then None else Some (zeroConfig\<lparr>cfg_Rules := rules\<rparr>)
      | Some c \<Rightarrow> Some (c\<lparr>cfg_Rules := rules\<rparr>))"

definition SyncConfig :: "Config option \<Rightarrow> Config option" where
  "SyncConfig cfg = cloneConfigWithRules cfg (fst (PartitionRules cfg))"

definition DeferredConfig :: "Config option \<Rightarrow> Config option" where
  "DeferredConfig cfg = cloneConfigWithRules cfg (snd (PartitionRules cfg))"

definition ruleHasInference :: "Rule \<Rightarrow> bool" where
  "ruleHasInference rule \<longleftrightarrow> list_ex (\<lambda>c. c_Kind c = ConditionKindInfer) (r_Conditions rule)"

definition partitionInferenceRules :: "Rule list \<Rightarrow> Rule list \<times> Rule list" where
  "partitionInferenceRules rules = (filter (\<lambda>r. \<not> ruleHasInference r) rules, filter ruleHasInference rules)"

section \<open>Staged evaluation\<close>

definition blockingMatches :: "Violation list \<Rightarrow> Violation list" where
  "blockingMatches violations = filter (\<lambda>v. \<not> vi_AuditOnly v) violations"

definition auditOnlyMatches :: "Violation list \<Rightarrow> Violation list" where
  "auditOnlyMatches violations = filter vi_AuditOnly violations"

text \<open>
  The rule engine under the context of the call, with the response target of an action, and under the
  context that \<^verbatim>\<open>context.WithTimeout\<close> derives from it for the inference phase.
\<close>

record 'w hook_env =
  he_payload :: payload_env
  he_is_print :: "nat \<Rightarrow> bool"
  he_rules :: "(bytes \<Rightarrow> bytes) \<Rightarrow> 'w gate_env"
  he_phase :: "(bytes \<Rightarrow> bytes) \<Rightarrow> go_duration \<Rightarrow> 'w \<Rightarrow> 'w gate_env"

fun inference_loop ::
    "'w gate_env \<Rightarrow> bytes \<Rightarrow> bytes \<Rightarrow> FieldSet \<Rightarrow> (bytes \<Rightarrow> bytes) option \<Rightarrow> Rule list \<Rightarrow> 'w \<Rightarrow>
     Violation list \<times> ResponseEffect list \<times> 'w" where
  "inference_loop env system eventName f getenv [] w = ([], [], w)"
| "inference_loop env system eventName f getenv (rule # rules) w =
     (if ge_ctxErr env w then ([], [], w)
      else let (result, w1) = evaluateAll env system eventName f [rule] getenv w;
               (violations, effects, w2) = inference_loop env system eventName f getenv rules w1 in
           (er_violations result @ violations, er_effects result @ effects, w2))"

definition evaluateStagedRules ::
    "'w gate_env \<Rightarrow> (go_duration \<Rightarrow> 'w \<Rightarrow> 'w gate_env) \<Rightarrow> Config option \<Rightarrow> bytes \<Rightarrow> bytes \<Rightarrow> FieldSet \<Rightarrow> Rule list \<Rightarrow>
     (bytes \<Rightarrow> bytes) option \<Rightarrow> 'w \<Rightarrow> Violation list \<times> ResponseEffect list \<times> 'w" where
  "evaluateStagedRules env phase cfg system eventName f rules getenv w =
     (if rules = [] then
        let (detailed, w1) = evaluateAll env system eventName f rules getenv w in
        (er_violations detailed, er_effects detailed, w1)
      else
        let (deterministicRules, inferenceRules) = partitionInferenceRules rules;
            (deterministic, w1) = evaluateAll env system eventName f deterministicRules getenv w in
        if blockingMatches (er_violations deterministic) \<noteq> [] \<or> inferenceRules = []
        then (er_violations deterministic, er_effects deterministic, w1)
        else let (violations, effects, w2) =
                   inference_loop (phase (HookInferencePhaseTimeout cfg) w1) system eventName f getenv inferenceRules w1 in
             (er_violations deterministic @ violations, er_effects deterministic @ effects, w2))"

section \<open>Composing response effects\<close>

record ResponseEffectRecord =
  rr_RuleName :: bytes
  rr_EffectType :: bytes
  rr_Target :: bytes
  rr_ByteCount :: nat
  rr_Disposition :: bytes

definition record_target :: "bytes \<Rightarrow> bytes \<Rightarrow> bytes" where
  "record_target action target =
     (if action = ActionInject then ''context''
      else if action = ActionMutate then (if target = [] then ''none'' else target)
      else [])"

text \<open>One effect: the context it adds, the mutation text it sets and its record.\<close>

definition compose_effect ::
    "System \<Rightarrow> bytes \<Rightarrow> bool \<Rightarrow> ResponseEffect \<Rightarrow> bytes list \<times> bytes option \<times> ResponseEffectRecord" where
  "compose_effect system eventName suppressed effect =
     (let capability = LookupResponseCapability system eventName;
          (target, structured) = responseMutationTarget capability;
          rec = \<lparr>rr_RuleName = re_RuleName effect, rr_EffectType = re_Action effect,
            rr_Target = record_target (re_Action effect) target, rr_ByteCount = length (re_Output effect),
            rr_Disposition = re_Disposition effect\<rparr> in
      if suppressed then ([], None, rec\<lparr>rr_Disposition := ''suppressed_by_block''\<rparr>)
      else if re_Output effect = [] then ([], None, rec)
      else if re_Action effect = ActionInject then
        (if \<not> Supports capability ResponseCapabilityInject
         then ([], None, rec\<lparr>rr_Disposition := ''unsupported_noop''\<rparr>)
         else ([re_Output effect], None, rec))
      else if re_Action effect = ActionMutate then
        (if target = [] then ([], None, rec\<lparr>rr_Disposition := ''unsupported_noop''\<rparr>)
         else if \<not> structured \<or> validResponseMutation system target (re_Output effect)
         then ([], Some (re_Output effect), rec)
         else ([], None, rec\<lparr>rr_Disposition := ''invalid_noop''\<rparr>))
      else ([], None, rec))"

definition last_mutation :: "bytes option list \<Rightarrow> bytes" where
  "last_mutation ms = foldl (\<lambda>old m. case m of None \<Rightarrow> old | Some new \<Rightarrow> new) [] ms"

definition composeResponseEffects ::
    "System \<Rightarrow> bytes \<Rightarrow> ResponseEffect list \<Rightarrow> bool \<Rightarrow> bytes \<times> bytes \<times> ResponseEffectRecord list" where
  "composeResponseEffects system eventName effects suppressed =
     (let parts = map (compose_effect system eventName suppressed) effects in
      (Join (concat (map fst parts)) (HookResponse.newline @ HookResponse.newline), last_mutation (map (fst \<circ> snd) parts), map (snd \<circ> snd) parts))"

definition responseTargetForAction :: "System \<Rightarrow> bytes \<Rightarrow> bytes \<Rightarrow> bytes" where
  "responseTargetForAction system eventName action =
     (if action = ActionInject then
        (if Supports (LookupResponseCapability system eventName) (ResponseCapabilityInject OR ResponseCapabilityPromptMutation)
         then ''prompt'' else ''context'')
      else if action \<noteq> ActionMutate then []
      else fst (responseMutationTarget (LookupResponseCapability system eventName)))"

record TemporalResponseOutput =
  to_Action :: bytes
  to_Target :: bytes
  to_Output :: bytes

definition temporalResponseOutputs :: "System \<Rightarrow> bytes \<Rightarrow> bytes \<Rightarrow> bytes \<Rightarrow> bytes \<Rightarrow> TemporalResponseOutput list" where
  "temporalResponseOutputs system eventName contextText mutationText promptText =
     (let capability = LookupResponseCapability system eventName;
          promptOutput = copilotPromptResponseOutput capability contextText mutationText promptText;
          target = fst (responseMutationTarget capability) in
      if promptOutput \<noteq> [] then
        [\<lparr>to_Action = (if mutationText \<noteq> [] then ActionMutate else ActionInject), to_Target = ''prompt'',
          to_Output = promptOutput\<rparr>]
      else (if contextText \<noteq> [] \<and> Supports capability ResponseCapabilityInject
            then [\<lparr>to_Action = ActionInject, to_Target = ''context'', to_Output = contextText\<rparr>] else [])
        @ (if mutationText \<noteq> [] \<and> target \<noteq> []
           then [\<lparr>to_Action = ActionMutate, to_Target = target, to_Output = mutationText\<rparr>] else []))"

section \<open>Evaluation of a payload\<close>

record DeferredAuditEvent =
  de_Valid :: bool
  de_RawBytes :: bytes
  de_System :: System
  de_SystemString :: bytes
  de_EventName :: bytes
  de_SessionID :: bytes
  de_EventID :: bytes
  de_CWD :: bytes
  de_Fields :: FieldSet
  de_Rules :: "Rule list"
  de_BlockingViolations :: "Violation list"
  de_AuditOnlyViolations :: "Violation list"
  de_ResponseEffects :: "ResponseEffectRecord list"
  de_Decision :: bytes
  de_DiagnosticText :: bytes

definition emptyDeferredAuditEvent :: "System \<Rightarrow> DeferredAuditEvent" where
  "emptyDeferredAuditEvent system =
     \<lparr>de_Valid = False, de_RawBytes = [], de_System = system, de_SystemString = System_String system, de_EventName = [],
      de_SessionID = [], de_EventID = [], de_CWD = [], de_Fields = zero_FieldSet, de_Rules = [], de_BlockingViolations = [],
      de_AuditOnlyViolations = [], de_ResponseEffects = [], de_Decision = ResponseDecisionAllow, de_DiagnosticText = []\<rparr>"

definition newDeferredAuditEvent ::
    "bytes \<Rightarrow> Payload \<Rightarrow> FieldSet \<Rightarrow> Rule list \<Rightarrow> Violation list \<Rightarrow> Violation list \<Rightarrow> ResponseEffectRecord list \<Rightarrow>
     bytes \<Rightarrow> bytes \<Rightarrow> bytes \<Rightarrow> DeferredAuditEvent" where
  "newDeferredAuditEvent rawBytes payload f ruleSet blocking auditOnly effects decision diagnosticText eventID =
     \<lparr>de_Valid = True, de_RawBytes = rawBytes, de_System = pl_System payload,
      de_SystemString = System_String (pl_System payload), de_EventName = EventName payload,
      de_SessionID = SessionID payload, de_EventID = eventID, de_CWD = CWD payload, de_Fields = f, de_Rules = ruleSet,
      de_BlockingViolations = blocking, de_AuditOnlyViolations = auditOnly, de_ResponseEffects = effects,
      de_Decision = decision, de_DiagnosticText = diagnosticText\<rparr>"

record HotEvaluation =
  hv_Stdout :: bytes
  hv_Stderr :: bytes
  hv_ExitCode :: int
  hv_Deferred :: DeferredAuditEvent
  hv_TemporalResponseOutputs :: "TemporalResponseOutput list"

definition rulesForConfig :: "Config option \<Rightarrow> Rule list" where
  "rulesForConfig cfg = (case cfg of None \<Rightarrow> [] | Some c \<Rightarrow> cfg_Rules c)"

definition BlockFooter :: "Config option \<Rightarrow> bytes" where
  "BlockFooter cfg = (case cfg of None \<Rightarrow> [] | Some c \<Rightarrow> TrimSpace (cfg_BlockFooter c))"

text \<open>
  Violations that the event cannot enforce are recorded as audit findings.  The result is \<^term>\<open>None\<close> when the
  diagnostic text panics.
\<close>

definition hot_response ::
    "(nat \<Rightarrow> bool) \<Rightarrow> Config option \<Rightarrow> Payload \<Rightarrow> FieldSet \<Rightarrow> bytes \<Rightarrow> bytes \<Rightarrow> Violation list \<Rightarrow> ResponseEffect list \<Rightarrow>
     HotEvaluation option" where
  "hot_response is_print cfg payload f wireBytes eventID violations stagedEffects =
     (let system = pl_System payload; eventName = EventName payload; ruleSet = rulesForConfig cfg;
          canBlock = CanBlock system eventName;
          blocking0 = blockingMatches violations; auditOnly0 = auditOnlyMatches violations;
          unenforced = (blocking0 \<noteq> [] \<and> \<not> canBlock);
          auditOnly = (if unenforced then auditOnly0 @ blocking0 else auditOnly0);
          blocking = (if unenforced then [] else blocking0);
          block = (blocking \<noteq> [] \<and> canBlock);
          (contextText, mutationText, effects) = composeResponseEffects system eventName stagedEffects block;
          promptText = payloadPromptText payload;
          request = \<lparr>rq_System = system, rq_EventName = eventName, rq_Decision = ResponseDecisionAllow,
            rq_DiagnosticText = [], rq_EventID = eventID, rq_Footer = [], rq_FailOpenReason = [],
            rq_ContextText = contextText, rq_MutationText = mutationText, rq_PromptText = promptText\<rparr> in
      if block then
        map_option (\<lambda>diagnostic.
          let response = RenderResponse (request\<lparr>rq_Decision := ResponseDecisionBlock, rq_DiagnosticText := diagnostic,
                rq_Footer := BlockFooter cfg, rq_ContextText := [], rq_MutationText := []\<rparr>) in
          \<lparr>hv_Stdout = rs_Stdout response, hv_Stderr = rs_Stderr response, hv_ExitCode = rs_ExitCode response,
           hv_Deferred = newDeferredAuditEvent wireBytes payload f ruleSet blocking auditOnly effects ResponseDecisionBlock
             diagnostic eventID,
           hv_TemporalResponseOutputs = []\<rparr>) (FormatViolations is_print blocking)
      else let response = RenderResponse request in
        Some \<lparr>hv_Stdout = rs_Stdout response, hv_Stderr = rs_Stderr response, hv_ExitCode = rs_ExitCode response,
           hv_Deferred = newDeferredAuditEvent wireBytes payload f ruleSet blocking auditOnly effects ResponseDecisionAllow
             [] eventID,
           hv_TemporalResponseOutputs = temporalResponseOutputs system eventName contextText mutationText promptText\<rparr>)"

definition evaluatePayloadHot ::
    "'w hook_env \<Rightarrow> Payload \<Rightarrow> bytes \<Rightarrow> Config option \<Rightarrow> (bytes \<Rightarrow> bytes) option \<Rightarrow> bytes \<Rightarrow> 'w \<Rightarrow>
     HotEvaluation option \<times> 'w" where
  "evaluatePayloadHot env payload wireBytes cfg getenv eventID w =
     (let system = pl_System payload; eventName = EventName payload;
          f = recoverCodexExecWorkdir (he_payload env) system (Fields (pe_order (he_payload env)) payload);
          target = responseTargetForAction system eventName;
          (violations, effects, w1) = evaluateStagedRules (he_rules env target) (he_phase env target) cfg
            (System_String system) eventName f (rulesForConfig cfg) getenv w in
      (hot_response (he_is_print env) cfg payload f wireBytes eventID violations effects, w1))"

record EvaluationInput =
  vn_WireBytes :: bytes
  vn_NormalizedJSON :: bytes
  vn_System :: System
  vn_Result :: bytes

definition EvaluateClassifiedHotWithEventID ::
    "'w hook_env \<Rightarrow> EvaluationInput \<Rightarrow> Config option \<Rightarrow> (bytes \<Rightarrow> bytes) option \<Rightarrow> bytes \<Rightarrow> bytes \<Rightarrow> 'w \<Rightarrow>
     HotEvaluation option \<times> 'w" where
  "EvaluateClassifiedHotWithEventID env input cfg getenv eventID parseError w =
     (let system = vn_System input in
      case ParseHookPayload (he_payload env) system (vn_NormalizedJSON input) of
        None \<Rightarrow>
          (Some \<lparr>hv_Stdout = [],
             hv_Stderr = (if vn_Result input = ''invalid'' then ''agent-gate: parse stdin JSON: ''
               else ''agent-gate: parse typed hook JSON: '') @ parseError @ HookResponse.newline,
             hv_ExitCode = 2, hv_Deferred = emptyDeferredAuditEvent system, hv_TemporalResponseOutputs = []\<rparr>, w)
      | Some payload \<Rightarrow> evaluatePayloadHot env payload (vn_WireBytes input) cfg getenv eventID w)"

section \<open>Audit entries\<close>

datatype audit_value = AuditText bytes | AuditTexts "bytes list" | AuditNumber nat

record audit_entry =
  ae_System :: bytes
  ae_SessionID :: bytes
  ae_Event :: bytes
  ae_Message :: bytes
  ae_Attrs :: "(bytes \<times> audit_value) list"

fun matchRuleNames :: "Violation list \<Rightarrow> bytes list" where
  "matchRuleNames [] = []"
| "matchRuleNames (v # vs) = vi_RuleName v # filter (\<lambda>n. n \<noteq> vi_RuleName v) (matchRuleNames vs)"

definition snippetMaxLen :: nat where "snippetMaxLen = 200"

definition truncate :: "bytes \<Rightarrow> bytes" where
  "truncate s = (if length s \<le> snippetMaxLen then s else take (snippetMaxLen - 3) s @ ''...'')"

definition logAttrs :: "FieldSet \<Rightarrow> (bytes \<times> audit_value) list" where
  "logAttrs f =
     [(''tool_name'', AuditText (f_ToolName f)), (''tool_use_id'', AuditText (f_ToolUseID f)), (''source'', AuditText (f_Source f)),
      (''file_path'', AuditText (FilePathValue f)), (''model'', AuditText (f_Model f)),
      (''permission_mode'', AuditText (f_PermissionMode f)), (''agent_id'', AuditText (f_AgentID f)),
      (''agent_type'', AuditText (f_AgentType f)), (''ti_command'', AuditText (f_ToolInputCommand f)),
      (''ti_file_path'', AuditText (f_ToolInputFilePath f)), (''ti_description'', AuditText (truncate (f_ToolInputDescription f))),
      (''ti_content_snippet'', AuditText (truncate (f_ToolInputContent f))),
      (''ti_old_string_snippet'', AuditText (truncate (f_ToolInputOldString f))),
      (''ti_new_string_snippet'', AuditText (truncate (f_ToolInputNewString f))), (''ti_pattern'', AuditText (f_ToolInputPattern f)),
      (''ti_url'', AuditText (f_ToolInputURL f)), (''ti_query'', AuditText (f_ToolInputQuery f)),
      (''prompt_snippet'', AuditText (truncate (f_Prompt f))), (''message_snippet'', AuditText (truncate (f_Message f))),
      (''reason'', AuditText (truncate (f_Reason f))),
      (''last_assistant_message_snippet'', AuditText (truncate (f_LastAssistantMessage f)))]"

definition audit_entry_of :: "DeferredAuditEvent \<Rightarrow> bytes \<Rightarrow> (bytes \<times> audit_value) list \<Rightarrow> audit_entry" where
  "audit_entry_of event message attrs =
     \<lparr>ae_System = de_SystemString event, ae_SessionID = de_SessionID event, ae_Event = de_EventName event,
      ae_Message = message, ae_Attrs = attrs\<rparr>"

definition auditReceivedFields :: "shell_env \<Rightarrow> DeferredAuditEvent \<Rightarrow> audit_entry list" where
  "auditReceivedFields shell event =
     [audit_entry_of event ''hook.received''
       ([(''system'', AuditText (de_SystemString event)), (''event'', AuditText (de_EventName event)),
         (''session_id'', AuditText (de_SessionID event)), (''cwd'', AuditText (de_CWD event)),
         (''effective_cwd'', AuditText (FieldSet_String shell (de_Fields event) FieldEffectiveCWD))] @ logAttrs (de_Fields event))]"

definition decisionAuditAttrs :: "shell_env \<Rightarrow> DeferredAuditEvent \<Rightarrow> (bytes \<times> audit_value) list" where
  "decisionAuditAttrs shell event =
     [(''system'', AuditText (de_SystemString event)), (''event'', AuditText (de_EventName event)),
      (''session_id'', AuditText (de_SessionID event)), (''tool_use_id'', AuditText (f_ToolUseID (de_Fields event))),
      (''tool_name'', AuditText (f_ToolName (de_Fields event))), (''cwd'', AuditText (de_CWD event)),
      (''effective_cwd'', AuditText (FieldSet_String shell (de_Fields event) FieldEffectiveCWD)),
      (''rules_checked'', AuditTexts (CheckedRuleNames (de_SystemString event) (de_EventName event) (de_Rules event))),
      (''ti_command'', AuditText (f_ToolInputCommand (de_Fields event))),
      (''ti_file_path'', AuditText (f_ToolInputFilePath (de_Fields event)))]"

text \<open>The text of the findings is \<^term>\<open>None\<close> when it panics.\<close>

definition writeAuditFindings :: "(nat \<Rightarrow> bool) \<Rightarrow> shell_env \<Rightarrow> DeferredAuditEvent \<Rightarrow> audit_entry list option" where
  "writeAuditFindings is_print shell event =
     (if de_AuditOnlyViolations event = [] then Some []
      else map_option (\<lambda>text. [audit_entry_of event ''hook.audit_violation''
          (decisionAuditAttrs shell event
           @ [(''decision'', AuditText ''audit_only''), (''blocking_rules'', AuditTexts (matchRuleNames (de_AuditOnlyViolations event))),
              (''violation_message'', AuditText text)])]) (FormatViolations is_print (de_AuditOnlyViolations event)))"

definition writeResponseEffectAudit :: "DeferredAuditEvent \<Rightarrow> audit_entry list" where
  "writeResponseEffectAudit event =
     map (\<lambda>effect. audit_entry_of event ''hook.response_effect''
       [(''system'', AuditText (de_SystemString event)), (''event'', AuditText (de_EventName event)),
        (''session_id'', AuditText (de_SessionID event)), (''rule'', AuditText (rr_RuleName effect)),
        (''effect_type'', AuditText (rr_EffectType effect)), (''target'', AuditText (rr_Target effect)),
        (''byte_count'', AuditNumber (rr_ByteCount effect)), (''disposition'', AuditText (rr_Disposition effect))])
      (de_ResponseEffects event)"

definition writeDecisionAudit :: "(nat \<Rightarrow> bool) \<Rightarrow> shell_env \<Rightarrow> DeferredAuditEvent \<Rightarrow> audit_entry list option" where
  "writeDecisionAudit is_print shell event =
     (if de_Decision event = ResponseDecisionBlock then
        Some (audit_entry_of event ''hook.blocked''
            (decisionAuditAttrs shell event
             @ [(''decision'', AuditText ''block''), (''blocking_rules'', AuditTexts (matchRuleNames (de_BlockingViolations event))),
                (''violation_message'', AuditText (de_DiagnosticText event))])
          # writeResponseEffectAudit event)
      else map_option (\<lambda>findings. findings @ writeResponseEffectAudit event
          @ [audit_entry_of event ''hook.allowed''
              (decisionAuditAttrs shell event
               @ [(''decision'', AuditText ''allow''), (''blocking_rule'', AuditText []), (''violation_message'', AuditText [])])])
        (writeAuditFindings is_print shell event))"

definition WriteDeferredAudit :: "(nat \<Rightarrow> bool) \<Rightarrow> shell_env \<Rightarrow> DeferredAuditEvent \<Rightarrow> audit_entry list option" where
  "WriteDeferredAudit is_print shell event =
     (if \<not> de_Valid event then Some []
      else map_option (\<lambda>entries.
          (if de_Decision event = ResponseDecisionBlock then auditReceivedFields shell event else []) @ entries)
        (writeDecisionAudit is_print shell event))"

definition WriteDeferredFindings :: "(nat \<Rightarrow> bool) \<Rightarrow> shell_env \<Rightarrow> DeferredAuditEvent \<Rightarrow> audit_entry list option" where
  "WriteDeferredFindings is_print shell event =
     (if \<not> de_Valid event then Some [] else writeAuditFindings is_print shell event)"

end
