(* ===== verification/HookEvalProps.thy ===== *)
theory HookEvalProps
  imports HookEvaluate HookReplies DiagnosticsProps EngineBounds "HOL-Library.Multiset"
begin

text \<open>
  The evaluation of a call from the payload to the answer: where violations come from, when the agent
  is refused, what a matching rule achieves, and what the audit log says about it.
\<close>

section \<open>Where violations come from\<close>

definition made_by :: "Rule \<Rightarrow> Violation \<Rightarrow> bool" where
  "made_by rule v \<longleftrightarrow> vi_RuleName v = r_Name rule \<and> vi_AuditOnly v = r_AuditOnly rule \<and> vi_Redact v = r_RedactDiagnostics rule"

lemma match_made_by [simp]: "made_by rule (match_violation rule m)"
  by (simp add: made_by_def match_violation_def)

lemma fallback_made_by [simp]: "made_by rule (conditionFallbackViolation senv f rule)"
  by (simp add: conditionFallbackViolation_def split: prod.splits option.splits)

lemma matches_made_by [simp]: "v \<in> set (matchesToViolations ms rule) \<Longrightarrow> made_by rule v"
  by (auto simp: matchesToViolations_def)

lemma condition_matches_made_by: "v \<in> set (fst (condition_matches env f c rule limit)) \<Longrightarrow> made_by rule v"
  by (auto simp: condition_matches_def Let_def evalDiffCondition_def evalShellWriteCondition_def
      evalShellReadCondition_def split: option.splits if_splits)

lemma simple_made_by: "v \<in> set (evalSimpleRule senv f rule limit) \<Longrightarrow> made_by rule v"
  by (auto simp: evalSimpleRule_def split: if_splits)

lemma message_made_by: "made_by rule v \<Longrightarrow> made_by rule (v\<lparr>vi_Message := msg\<rparr>)"
  by (simp add: made_by_def)

text \<open>
  The contract of the producers of violations: what holds of every violation that a condition, a simple
  rule and a fallback make for a rule, and does not depend on the message, holds of every violation
  that the engine reports.
\<close>

definition outcome_by :: "(Rule \<Rightarrow> Violation \<Rightarrow> bool) \<Rightarrow> Rule list \<Rightarrow> unit_condition \<Rightarrow> ruleOutcome \<Rightarrow> bool" where
  "outcome_by Q rules u r \<longleftrightarrow> (\<forall>v \<in> set (ro_violations r). Q (rules ! unit_rule u) v)
     \<and> (ro_rule r = None \<or> ro_rule r = Some (unit_rule u))"

locale violation_law =
  fixes env :: "'w gate_env" and Q :: "Rule \<Rightarrow> Violation \<Rightarrow> bool"
  assumes condition_law: "v \<in> set (fst (condition_matches env f c rule limit)) \<Longrightarrow> Q rule v"
    and simple_law: "v \<in> set (evalSimpleRule (ge_shell env) f rule limit) \<Longrightarrow> Q rule v"
    and fallback_law: "Q rule (conditionFallbackViolation (ge_shell env) f rule)"
    and message_law: "Q rule v \<Longrightarrow> Q rule (v\<lparr>vi_Message := msg\<rparr>)"
    and name_law: "Q rule v \<Longrightarrow> vi_RuleName v = r_Name rule"

context violation_law
begin

lemma execute_condition_by: "outcome_by Q rules (ruleRegexCondition i k) (fst (execute_condition env f i (rules ! i) j st))"
proof -
  obtain ok st1 where a: "allConditionsMatch env f i (rules ! i) (r_Conditions (rules ! i)) st = (ok, st1)"
    by fastforce
  let ?c = "r_Conditions (rules ! i) ! j" and ?l = "Remaining (es_budgets st1 i)"
  obtain vs n where m: "condition_matches env f ?c (rules ! i) ?l = (vs, n)" by fastforce
  show ?thesis
    using condition_law [of _ f ?c "rules ! i" ?l] m
    by (simp add: execute_condition_def a Let_def outcome_by_def)
qed

lemma Execute_by: "outcome_by Q rules u (fst (Execute env f rules u st))"
proof (cases u)
  case (evalMatrixCondition i)
  then show ?thesis using fallback_law by (simp add: execute_matrix_def Let_def outcome_by_def split: prod.splits)
next
  case (ruleRegexCondition i k)
  show ?thesis
  proof (cases "simpleOutcome env f i (rules ! i) k st")
    case None
    then show ?thesis using execute_condition_by ruleRegexCondition by simp
  next
    case (Some r)
    then show ?thesis
      using ruleRegexCondition simple_law fallback_law
      by (auto simp: simpleOutcome_def outcome_by_def Let_def split: if_splits prod.splits)
  qed
qed

lemma override_by: "v \<in> set (applyExecMessageOverrides memo vs) \<Longrightarrow> \<exists>u \<in> set vs. \<exists>msg. v = u \<or> v = u\<lparr>vi_Message := msg\<rparr>"
proof -
  assume "v \<in> set (applyExecMessageOverrides memo vs)"
  then obtain u where u: "u \<in> set vs" "v = (case me_overrides memo (vi_RuleName u) of
      Some msg \<Rightarrow> if msg \<noteq> [] then u\<lparr>vi_Message := msg\<rparr> else u | None \<Rightarrow> u)"
    by (auto simp: applyExecMessageOverrides_def)
  then have "\<exists>msg. v = u \<or> v = u\<lparr>vi_Message := msg\<rparr>" by (auto split: option.splits)
  then show ?thesis using u(1) by blast
qed

lemma evaluation_from:
  assumes "v \<in> set (er_violations (fst (evaluateAll env system eventName f rules getenv w)))"
  shows "\<exists>rule \<in> set rules. Q rule v \<and> active system eventName getenv rule \<and> \<not> IsResponseAction rule"
proof (cases "buildRuleRegexConditions rules system eventName getenv = []")
  case True
  then show ?thesis using assms by (simp add: evaluateAll_def)
next
  case ne: False
  let ?us = "buildRuleRegexConditions rules system eventName getenv"
  obtain results st where run: "orchestrator_Run env f rules ?us
      (runBatchInference env f rules system eventName getenv (initial_state system eventName w)) = (results, st)" by fastforce
  have v: "v \<in> set (aggregateResults (ge_shell env) f rules results (es_memo st))"
      "\<not> list_ex (\<lambda>r. r_Name r = vi_RuleName v \<and> IsResponseAction r) rules"
    using assms ne run by (auto simp: evaluateAll_def Let_def responseEffectsFromMatches_def)
  have all: "list_all2 (outcome_by Q rules) ?us results"
    using Run_all [of ?us "outcome_by Q rules" env f rules] Execute_by run by (metis fst_conv)
  have unit: "unit_rule u < length rules \<and> active system eventName getenv (rules ! unit_rule u)" if "u \<in> set ?us" for u
    using that inactive_no_units by (fastforce simp: build_units)
  obtain u msg where u: "u \<in> set (concat (map ro_violations results) @ fallbacks (ge_shell env) f rules (fold note_outcome results []))"
      "v = u \<or> v = u\<lparr>vi_Message := msg\<rparr>"
    using override_by v(1) unfolding aggregateResults_def by blast
  have "\<exists>x \<in> set ?us. Q (rules ! unit_rule x) u"
  proof (cases "u \<in> set (concat (map ro_violations results))")
    case True
    then show ?thesis using list_all2_ex2 [OF all] by (fastforce simp: outcome_by_def)
  next
    case False
    then obtain i g n where i: "(i, g, n) \<in> set (fold note_outcome results [])" "u = conditionFallbackViolation (ge_shell env) f (rules ! i)"
      using u(1) by (auto simp: fallbacks_def)
    obtain r where "r \<in> set results" "ro_rule r = Some i" using fold_note_entry [OF i(1)] by (auto simp: counts_def)
    then obtain x where "x \<in> set ?us" "unit_rule x = i" using list_all2_ex2 [OF all] by (fastforce simp: outcome_by_def)
    then show ?thesis using i(2) fallback_law by blast
  qed
  then obtain x where "x \<in> set ?us" "Q (rules ! unit_rule x) v" using u(2) message_law by blast
  then show ?thesis using unit [of x] v(2) name_law
    by (auto simp: list_ex_iff intro!: bexI [of _ "rules ! unit_rule x"])
qed

end

interpretation origin: violation_law env made_by for env
  by (unfold_locales; (erule condition_matches_made_by | erule simple_made_by | rule fallback_made_by
      | erule message_made_by | simp add: made_by_def))

lemma inference_loop_from:
  assumes "violation_law env Q" "v \<in> set (fst (inference_loop env system eventName f getenv rules w))"
  shows "\<exists>rule \<in> set rules. Q rule v \<and> active system eventName getenv rule \<and> \<not> IsResponseAction rule"
  using assms(2)
proof (induction rules arbitrary: w)
  case (Cons rule rules)
  obtain r w1 where r: "evaluateAll env system eventName f [rule] getenv w = (r, w1)" by fastforce
  obtain vs es w2 where rest: "inference_loop env system eventName f getenv rules w1 = (vs, es, w2)" by (metis prod_cases3)
  have "v \<in> set (er_violations r) \<or> v \<in> set vs"
    using Cons.prems by (simp add: r rest split: if_splits)
  then show ?case
    using violation_law.evaluation_from [OF assms(1), of v system eventName f "[rule]" getenv w] Cons.IH [of w1] r rest by auto
qed simp

lemma staged_from:
  assumes "violation_law env Q" "\<And>d w. violation_law (phase d w) Q"
    and "v \<in> set (fst (evaluateStagedRules env phase cfg system eventName f rules getenv w))"
  shows "\<exists>rule \<in> set rules. Q rule v \<and> active system eventName getenv rule \<and> \<not> IsResponseAction rule"
proof -
  let ?det = "filter (\<lambda>r. \<not> ruleHasInference r) rules" and ?inf = "filter ruleHasInference rules"
  note from_rules = violation_law.evaluation_from [OF assms(1)]
  consider "v \<in> set (er_violations (fst (evaluateAll env system eventName f rules getenv w)))"
    | "v \<in> set (er_violations (fst (evaluateAll env system eventName f ?det getenv w)))"
    | w1 where "v \<in> set (fst (inference_loop (phase (HookInferencePhaseTimeout cfg) w1) system eventName f getenv ?inf w1))"
    using assms(3)
    by (simp add: evaluateStagedRules_def partitionInferenceRules_def Let_def split: if_splits prod.splits)
       (metis Un_iff fst_conv set_append)+
  then show ?thesis using from_rules inference_loop_from [OF assms(2)] by cases fastforce+
qed

text \<open>The violations of the two stages.\<close>

definition staged_violations ::
    "'w hook_env \<Rightarrow> Payload \<Rightarrow> Config option \<Rightarrow> (bytes \<Rightarrow> bytes) option \<Rightarrow> 'w \<Rightarrow> Violation list" where
  "staged_violations env p cfg getenv w =
     fst (evaluateStagedRules (he_rules env (responseTargetForAction (pl_System p) (EventName p)))
       (he_phase env (responseTargetForAction (pl_System p) (EventName p))) cfg (System_String (pl_System p)) (EventName p)
       (recoverCodexExecWorkdir (he_payload env) (pl_System p) (Fields (pe_order (he_payload env)) p))
       (rulesForConfig cfg) getenv w)"

lemmas staged_has_rule = staged_from [OF origin.violation_law_axioms origin.violation_law_axioms]

section \<open>What the agent is told\<close>

text \<open>What the command hook writes for an evaluation, and the text with which a refusal comes.\<close>

definition answer :: "HotEvaluation \<Rightarrow> Response" where
  "answer ev = \<lparr>rs_Stdout = hv_Stdout ev, rs_Stderr = hv_Stderr ev, rs_ExitCode = hv_ExitCode ev\<rparr>"

definition refusal_text :: "Config option \<Rightarrow> bytes \<Rightarrow> bytes \<Rightarrow> bytes" where
  "refusal_text cfg eventID diagnostic =
     diagnosticWithEventID diagnostic eventID
       @ (if BlockFooter cfg = [] then [] else HookResponse.newline @ BlockFooter cfg)"

lemma answer_response [simp]:
  "answer \<lparr>hv_Stdout = rs_Stdout r, hv_Stderr = rs_Stderr r, hv_ExitCode = rs_ExitCode r, hv_Deferred = d,
     hv_TemporalResponseOutputs = t\<rparr> = r"
  by (simp add: answer_def)

text \<open>The violations that decide: they are enforced at an event that the provider lets be blocked.\<close>

definition enforced :: "Payload \<Rightarrow> Violation list \<Rightarrow> bool" where
  "enforced p vs \<longleftrightarrow> CanBlock (pl_System p) (EventName p) \<and> blockingMatches vs \<noteq> []"

definition block_request :: "Config option \<Rightarrow> Payload \<Rightarrow> bytes \<Rightarrow> bytes \<Rightarrow> ResponseRequest" where
  "block_request cfg p eventID diagnostic =
     \<lparr>rq_System = pl_System p, rq_EventName = EventName p, rq_Decision = ResponseDecisionBlock,
      rq_DiagnosticText = diagnostic, rq_EventID = eventID, rq_Footer = BlockFooter cfg, rq_FailOpenReason = [],
      rq_ContextText = [], rq_MutationText = [], rq_PromptText = payloadPromptText p\<rparr>"

lemma block_request_fields [simp]:
  "rq_System (block_request cfg p eventID d) = pl_System p" "rq_EventName (block_request cfg p eventID d) = EventName p"
  "rq_Decision (block_request cfg p eventID d) = ResponseDecisionBlock"
  "rq_FailOpenReason (block_request cfg p eventID d) = []"
  "block_diagnostic (block_request cfg p eventID d) = refusal_text cfg eventID d"
  by (simp_all add: block_request_def block_diagnostic_def refusal_text_def Let_def)

lemma hot_block:
  assumes "hot_response q cfg p f wire eventID vs effects = Some ev" "enforced p vs"
  shows "\<exists>d. FormatViolations q (blockingMatches vs) = Some d
    \<and> answer ev = RenderResponse (block_request cfg p eventID d)
    \<and> de_Decision (hv_Deferred ev) = ResponseDecisionBlock \<and> de_DiagnosticText (hv_Deferred ev) = d
    \<and> de_BlockingViolations (hv_Deferred ev) = blockingMatches vs
    \<and> de_AuditOnlyViolations (hv_Deferred ev) = auditOnlyMatches vs \<and> de_Valid (hv_Deferred ev)"
  using assms
  by (auto simp: hot_response_def enforced_def Let_def newDeferredAuditEvent_def block_request_def split: prod.splits)

lemma hot_allow:
  assumes "hot_response q cfg p f wire eventID vs effects = Some ev" "\<not> enforced p vs"
  shows "\<exists>request. answer ev = RenderResponse request \<and> rq_System request = pl_System p \<and> rq_EventName request = EventName p
    \<and> rq_Decision request = ResponseDecisionAllow
    \<and> de_Decision (hv_Deferred ev) = ResponseDecisionAllow \<and> de_BlockingViolations (hv_Deferred ev) = []
    \<and> de_AuditOnlyViolations (hv_Deferred ev) = auditOnlyMatches vs @ blockingMatches vs \<and> de_Valid (hv_Deferred ev)"
  using assms
  by (auto simp: hot_response_def enforced_def Let_def newDeferredAuditEvent_def split: prod.splits if_splits)

lemma hot_of_payload:
  assumes "evaluatePayloadHot env p wire cfg getenv eventID w = (Some ev, w')"
  shows "\<exists>f effects. hot_response (he_is_print env) cfg p f wire eventID (staged_violations env p cfg getenv w) effects = Some ev"
  using assms by (auto simp: evaluatePayloadHot_def staged_violations_def Let_def split: prod.splits)

lemma refusal_text_nonempty: "eventID \<noteq> [] \<Longrightarrow> refusal_text cfg eventID diagnostic \<noteq> []"
  by (simp add: refusal_text_def diagnosticWithEventID_def)

lemma hot_refusal:
  assumes "hot_response q cfg p f wire eventID vs effects = Some ev" "eventID \<noteq> []"
  shows "refusal (pl_System p) (EventName p) (answer ev) =
    (if enforced p vs then map_option (\<lambda>d. readable (refusal_text cfg eventID d)) (FormatViolations q (blockingMatches vs))
     else None)"
proof (cases "enforced p vs")
  case True
  then have "CanBlock (rq_System (block_request cfg p eventID d)) (rq_EventName (block_request cfg p eventID d))" for d
    by (simp add: enforced_def)
  then show ?thesis
    using hot_block [OF assms(1) True] True refusal_text_nonempty [OF assms(2)] block_reaches_agent
    by (metis (no_types, lifting) block_request_fields option.map(2))
next
  case False
  obtain request where r: "answer ev = RenderResponse request" "rq_System request = pl_System p"
      "rq_EventName request = EventName p" "rq_Decision request = ResponseDecisionAllow"
    using hot_allow [OF assms(1) False] by blast
  then show ?thesis using allow_never_refuses [OF r(4)] False by simp
qed

text \<open>C1. The agent is refused exactly when a rule is violated that is enforced: at an event that the provider
  lets be blocked and with a violation of a rule that is not audit-only, the refusal that the agent reads
  is the rendered violations with the event id and the configured footer; in every other case it reads
  no refusal, whatever effects the other rules have.\<close>

theorem refused_exactly_when_enforced:
  assumes "evaluatePayloadHot env p wire cfg getenv eventID w = (Some ev, w')" "eventID \<noteq> []"
  shows "refusal (pl_System p) (EventName p) (answer ev) =
    (if CanBlock (pl_System p) (EventName p) \<and> blockingMatches (staged_violations env p cfg getenv w) \<noteq> []
     then map_option (\<lambda>d. readable (refusal_text cfg eventID d))
            (FormatViolations (he_is_print env) (blockingMatches (staged_violations env p cfg getenv w)))
     else None)"
  using hot_of_payload [OF assms(1)] hot_refusal [OF _ assms(2)] by (fastforce simp: enforced_def)

text \<open>C3. No refusal without a cause: whenever the agent reads a refusal, there is a rule in the configuration that
  applies to this event of this provider, is not switched off by its environment variable, is not
  audit-only, shapes no response, and of which a violation was found.\<close>

theorem refused_only_by_enforcing_rule:
  assumes "evaluatePayloadHot env p wire cfg getenv eventID w = (Some ev, w')" "eventID \<noteq> []"
    and "refusal (pl_System p) (EventName p) (answer ev) = Some reason"
  shows "\<exists>rule \<in> set (rulesForConfig cfg). appliesToEvent rule (System_String (pl_System p)) (EventName p)
    \<and> \<not> envGuardFires getenv (r_DisableIfEnv rule) \<and> \<not> r_AuditOnly rule \<and> \<not> IsResponseAction rule
    \<and> r_Name rule \<in> vi_RuleName ` set (de_BlockingViolations (hv_Deferred ev))"
proof -
  let ?vs = "staged_violations env p cfg getenv w"
  obtain f effects where h: "hot_response (he_is_print env) cfg p f wire eventID ?vs effects = Some ev"
    using hot_of_payload [OF assms(1)] by blast
  have enf: "enforced p ?vs" using hot_refusal [OF h assms(2)] assms(3) by (auto split: if_splits)
  then obtain v where v: "v \<in> set ?vs" "\<not> vi_AuditOnly v"
    by (auto simp: enforced_def blockingMatches_def filter_empty_conv)
  obtain rule where "rule \<in> set (rulesForConfig cfg)" "made_by rule v"
      "active (System_String (pl_System p)) (EventName p) getenv rule" "\<not> IsResponseAction rule"
    using staged_has_rule [OF v(1) [unfolded staged_violations_def]] by blast
  moreover have "v \<in> set (de_BlockingViolations (hv_Deferred ev))"
    using hot_block [OF h enf] v by (auto simp: blockingMatches_def)
  ultimately show ?thesis using v(2) by (auto simp: made_by_def active_def intro!: bexI [of _ rule] rev_image_eqI [of v])
qed

lemma matches_partition: "mset (blockingMatches vs) + mset (auditOnlyMatches vs) = mset vs"
  by (induction vs) (auto simp: blockingMatches_def auditOnlyMatches_def)

text \<open>C7. Nothing that was found is lost: the violations of both stages are, each as often as it was found, the
  blocking and the audit-only violations of the recorded event; the blocking ones are never audit-only,
  and when the provider cannot be told to stop, all of them are recorded as findings.\<close>

theorem every_violation_is_recorded:
  assumes "evaluatePayloadHot env p wire cfg getenv eventID w = (Some ev, w')"
  shows "mset (de_BlockingViolations (hv_Deferred ev)) + mset (de_AuditOnlyViolations (hv_Deferred ev))
      = mset (staged_violations env p cfg getenv w)
    \<and> \<not> list_ex vi_AuditOnly (de_BlockingViolations (hv_Deferred ev))
    \<and> (CanBlock (pl_System p) (EventName p) \<or> de_BlockingViolations (hv_Deferred ev) = [])"
proof -
  let ?vs = "staged_violations env p cfg getenv w"
  obtain f effects where h: "hot_response (he_is_print env) cfg p f wire eventID ?vs effects = Some ev"
    using hot_of_payload [OF assms] by blast
  show ?thesis
  proof (cases "enforced p ?vs")
    case True
    then show ?thesis using hot_block [OF h True] matches_partition [of ?vs] by (auto simp: enforced_def blockingMatches_def list_ex_iff)
  next
    case False
    then show ?thesis using hot_allow [OF h False] matches_partition [of ?vs] by (auto simp: add.commute)
  qed
qed

section \<open>What a matching rule achieves\<close>

lemma staged_keeps_deterministic:
  assumes "v \<in> set (er_violations (fst (evaluateAll env system eventName f (filter (\<lambda>r. \<not> ruleHasInference r) rules) getenv w)))"
  shows "v \<in> set (fst (evaluateStagedRules env phase cfg system eventName f rules getenv w))"
  using assms
  by (auto simp: evaluateStagedRules_def partitionInferenceRules_def Let_def split: prod.splits)

lemma condition_block_deterministic: "condition_block rule \<Longrightarrow> \<not> ruleHasInference rule"
  by (auto simp: condition_block_def ruleHasInference_def list_ex_iff list_all_iff static_kind_def conditionKind_def kind_defs
      split: if_splits)

lemma deterministic_rule_fires:
  assumes "calm env" "rule \<in> set rules" "distinct (map r_Name rules)"
    and "active system eventName getenv rule" "condition_block rule" "\<not> IsResponseAction rule" "\<not> r_AuditOnly rule"
    and "rule_matches env f rule"
  shows "blockingMatches (fst (evaluateStagedRules env phase cfg system eventName f rules getenv w)) \<noteq> []"
proof -
  let ?rules = "filter (\<lambda>r. \<not> ruleHasInference r) rules"
  have dist: "distinct (map r_Name ?rules)" using assms(3) by (simp add: distinct_map_filter)
  have mem: "rule \<in> set ?rules" using assms(2,5) condition_block_deterministic by simp
  then obtain i where i: "i < length ?rules" "?rules ! i = rule" by (metis in_set_conv_nth)
  have "r_Name rule \<in> vi_RuleName ` set (er_violations (fst (evaluateAll env system eventName f ?rules getenv w)))"
    using static_rule_fires [OF i(1) dist, of system eventName getenv env f w] assms(1,4-6,8) i(2) by (simp add: decides_def)
  then obtain v where v: "v \<in> set (er_violations (fst (evaluateAll env system eventName f ?rules getenv w)))"
      "vi_RuleName v = r_Name rule" by auto
  obtain r where r: "r \<in> set ?rules" "made_by r v" using origin.evaluation_from [OF v(1)] by blast
  have "r = rule" using distinct_name_rule [OF dist i(1) r(1)] r(2) v(2) i(2) by (simp add: made_by_def)
  then have "\<not> vi_AuditOnly v" using r(2) assms(7) by (simp add: made_by_def)
  then show ?thesis using staged_keeps_deterministic [OF v(1)] by (auto simp: blockingMatches_def filter_empty_conv)
qed

text \<open>C2. A matching rule stops the call.  The premises: the configuration has an enforcing rule (not audit-only)
  that applies to the event and is not disabled by an environment variable, whose conditions are of
  the kinds that look only at the payload and the file system and all hold for the fields decoded
  from the payload; the names of the rules differ (\<^verbatim>\<open>hook.ValidateConfig\<close> refuses
  others); the provider can be told to stop at this event; the evaluation has an event identifier and
  gives a result; and the context of the call does not end while the rules are evaluated (\<open>calm\<close>:
  once the deadline has passed, the loop over the conditions drops the rule).  Then the agent reads a
  refusal, and no verdict of a validator or model and no violation of another rule takes it back.\<close>

theorem matching_rule_stops_the_call:
  assumes "evaluatePayloadHot env p wire cfg getenv eventID w = (Some ev, w')" "eventID \<noteq> []"
    and "CanBlock (pl_System p) (EventName p)"
    and "rule \<in> set (rulesForConfig cfg)" "distinct (map r_Name (rulesForConfig cfg))"
    and "calm (he_rules env (responseTargetForAction (pl_System p) (EventName p)))"
    and "active (System_String (pl_System p)) (EventName p) getenv rule"
    and "condition_block rule" "\<not> IsResponseAction rule" "\<not> r_AuditOnly rule"
    and "rule_matches (he_rules env (responseTargetForAction (pl_System p) (EventName p)))
           (recoverCodexExecWorkdir (he_payload env) (pl_System p) (Fields (pe_order (he_payload env)) p)) rule"
  shows "refusal (pl_System p) (EventName p) (answer ev) \<noteq> None"
proof -
  have "enforced p (staged_violations env p cfg getenv w)"
    using deterministic_rule_fires [OF assms(6,4,5,7,8,9,10,11)] assms(3) by (simp add: enforced_def staged_violations_def)
  then show ?thesis
    using hot_of_payload [OF assms(1)] hot_refusal [OF _ assms(2)] hot_block by fastforce
qed

section \<open>What the audit log says\<close>

definition messages :: "audit_entry list \<Rightarrow> bytes set" where
  "messages es = ae_Message ` set es"

lemma messages_simps [simp]:
  "messages [] = {}" "messages (e # es) = insert (ae_Message e) (messages es)" "messages (es @ fs) = messages es \<union> messages fs"
  by (auto simp: messages_def)

lemma entry_message [simp]: "ae_Message (audit_entry_of event m attrs) = m"
  by (simp add: audit_entry_of_def)

lemma effect_messages: "messages (writeResponseEffectAudit event) \<subseteq> {''hook.response_effect''}"
  by (auto simp: messages_def writeResponseEffectAudit_def)

lemma finding_messages: "writeAuditFindings q shell event = Some es \<Longrightarrow> messages es \<subseteq> {''hook.audit_violation''}"
  by (auto simp: writeAuditFindings_def split: if_splits)

lemma decision_messages:
  assumes "WriteDeferredAudit q shell event = Some es" "de_Valid event"
  shows "''hook.blocked'' \<in> messages es \<longleftrightarrow> de_Decision event = ResponseDecisionBlock"
    and "''hook.allowed'' \<in> messages es \<longleftrightarrow> de_Decision event \<noteq> ResponseDecisionBlock"
  using assms effect_messages [of event]
  by (auto simp: WriteDeferredAudit_def writeDecisionAudit_def auditReceivedFields_def dest!: finding_messages split: if_splits)

text \<open>C6. The audit log tells what the agent was told: the entries that are written for an evaluation contain a
  blocked decision exactly when the agent reads a refusal, and an allowed decision exactly when it
  reads none.\<close>

theorem audit_log_agrees_with_agent:
  assumes "evaluatePayloadHot env p wire cfg getenv eventID w = (Some ev, w')" "eventID \<noteq> []"
    and "WriteDeferredAudit q shell (hv_Deferred ev) = Some es"
  shows "(''hook.blocked'' \<in> messages es) = (refusal (pl_System p) (EventName p) (answer ev) \<noteq> None)
    \<and> (''hook.allowed'' \<in> messages es) = (refusal (pl_System p) (EventName p) (answer ev) = None)"
proof -
  let ?vs = "staged_violations env p cfg getenv w"
  obtain f effects where h: "hot_response (he_is_print env) cfg p f wire eventID ?vs effects = Some ev"
    using hot_of_payload [OF assms(1)] by blast
  have differ: "ResponseDecisionAllow \<noteq> ResponseDecisionBlock"
    by (simp add: ResponseDecisionAllow_def ResponseDecisionBlock_def)
  have "de_Valid (hv_Deferred ev) \<and> (de_Decision (hv_Deferred ev) = ResponseDecisionBlock
      \<longleftrightarrow> refusal (pl_System p) (EventName p) (answer ev) \<noteq> None)"
    using hot_block [OF h] hot_allow [OF h] hot_refusal [OF h assms(2)] differ by (cases "enforced p ?vs") auto
  then show ?thesis using decision_messages [OF assms(3)] by blast
qed

section \<open>Every call is answered\<close>

definition placed :: "Violation \<Rightarrow> bool" where
  "placed v \<longleftrightarrow> vi_Start v \<le> length (vi_Value v)"

definition honest_match :: "MatchResult \<Rightarrow> bool" where
  "honest_match m \<longleftrightarrow> mr_Start m \<le> length (mr_Value m)"

lemma placed_matches: "list_all honest_match ms \<Longrightarrow> v \<in> set (matchesToViolations ms rule) \<Longrightarrow> placed v"
  by (auto simp: matchesToViolations_def match_violation_def placed_def honest_match_def list_all_iff)

lemma field_matches_honest: "list_all honest_match (EvalFieldMatches fa selectors re dg limit)"
  by (fastforce simp: EvalFieldMatches_take field_matches_def Let_def honest_match_def list_all_iff spans_def
      dest!: in_set_takeD spans_bounds split: if_splits option.splits)

lemma diff_matches_honest: "list_all honest_match (EvalDiffMatches fa pair re g limit)"
proof (cases "re \<noteq> None \<and> 0 < limit \<and> fp_NewField pair \<noteq> FieldSelectorInvalid \<and> fa_String fa (fp_NewField pair) \<noteq> []")
  case True
  then have "EvalDiffMatches fa pair re g limit
         = map (\<lambda>ix. \<lparr>mr_FieldPath = fp_NewPath pair, mr_FilePath = fa_FilePathValue fa,
                      mr_Value = fa_String fa (fp_NewField pair), mr_Start = fst ix, mr_End = snd ix\<rparr>)
             (filter (\<lambda>ix. span_text (fa_String fa (fp_NewField pair)) ix \<notin> captured re (fa_String fa (fp_OldField pair)) g)
                (take (nat limit) (spans re (fa_String fa (fp_NewField pair)) g)))"
    by (intro EvalDiffMatches_filter) simp_all
  then show ?thesis
    by (fastforce simp: honest_match_def list_all_iff spans_def dest!: in_set_takeD spans_bounds split: option.splits)
qed (auto simp: EvalDiffMatches_def)

lemma diff_loop_honest: "list_all honest_match ms \<Longrightarrow> list_all honest_match (diff_loop fa re g limit pairs ms)"
proof (induction fa re g limit pairs ms rule: diff_loop.induct)
  case (2 fa re g limit pair pairs ms)
  let ?m1 = "ms @ EvalDiffMatches fa pair re g (limit - int (length ms))"
  let ?m2 = "?m1 @ EvalDiffMatches fa batch_pair re g (limit - int (length ?m1))"
  have m: "list_all honest_match ?m1" "list_all honest_match ?m2" using 2(3) diff_matches_honest by simp_all
  consider "limit - int (length ms) = 0"
    | "limit - int (length ms) \<noteq> 0" "?m1 = [] \<and> fp_NewField pair = FieldToolInputNewString"
    | "limit - int (length ms) \<noteq> 0" "\<not> (?m1 = [] \<and> fp_NewField pair = FieldToolInputNewString)" by blast
  then show ?case
  proof cases
    case 1
    then show ?thesis using 2(3) by simp
  next
    case c: 2
    show ?thesis using "2.IH"(1) [OF c(1) refl c(2) m(2)] c by (auto simp: Let_def)
  next
    case c: 3
    show ?thesis using "2.IH"(2) [OF c(1) refl c(2) m(1)] c by (auto simp: Let_def)
  qed
qed simp

lemma diff_placed: "v \<in> set (evalDiffCondition senv f c rule limit) \<Longrightarrow> placed v"
  using placed_matches diff_loop_honest [of "[]"]
  by (fastforce simp: evalDiffCondition_def Let_def simp del: diff_loop.simps split: option.splits if_splits)

lemma list_all_take: "list_all P xs \<Longrightarrow> list_all P (take n xs)"
  by (auto simp: list_all_iff dest: in_set_takeD)

lemma shell_write_honest: "list_all honest_match (shell_writes env f c)"
  using write_match_place by (force simp: shell_writes_def honest_match_def list_all_iff)

lemma shell_read_honest:
  "list_all honest_match (EvalShellReadSecretMatches senv probe f selector re path n remote specs)"
  using read_match_place by (force simp: honest_match_def list_all_iff)

lemma shell_placed:
  "v \<in> set (evalShellWriteCondition env f c rule) \<Longrightarrow> placed v"
  "v \<in> set (evalShellReadCondition env f c rule limit) \<Longrightarrow> placed v"
  using placed_matches [OF shell_write_honest] placed_matches [OF list_all_take [OF shell_read_honest]]
  by (simp_all add: evalShellWriteCondition_def evalShellReadCondition_def split: if_splits)

lemma condition_placed: "v \<in> set (fst (condition_matches env f c rule limit)) \<Longrightarrow> placed v"
  using shell_placed diff_placed placed_matches [OF field_matches_honest]
  by (auto simp: condition_matches_def Let_def split: if_splits)

lemma fallback_placed: "placed (conditionFallbackViolation senv f rule)"
  by (simp add: conditionFallbackViolation_def placed_def match_violation_def Let_def split: prod.split)

lemma simple_placed: "v \<in> set (evalSimpleRule senv f rule limit) \<Longrightarrow> placed v"
  using placed_matches [OF field_matches_honest] by (simp add: evalSimpleRule_def split: if_splits)

lemma message_placed: "placed v \<Longrightarrow> placed (v\<lparr>vi_Message := msg\<rparr>)"
  by (simp add: placed_def)

lemma placed_law: "violation_law env (\<lambda>rule v. made_by rule v \<and> placed v)"
  by (intro violation_law.intro conjI)
     (erule condition_matches_made_by condition_placed simple_made_by simple_placed
      | rule fallback_made_by fallback_placed
      | erule conjE, erule message_made_by message_placed | simp add: made_by_def)+

lemma staged_placed: "v \<in> set (staged_violations env p cfg getenv w) \<Longrightarrow> placed v"
  using staged_from [where phase = "he_phase env (responseTargetForAction (pl_System p) (EventName p))",
      OF placed_law placed_law]
  unfolding staged_violations_def by blast

lemma hot_response_answers:
  assumes "\<forall>v \<in> set vs. placed v"
  shows "\<exists>ev. hot_response q cfg p f wire eventID vs effects = Some ev \<and> de_Valid (hv_Deferred ev)"
proof -
  have "FormatViolations q (blockingMatches vs) \<noteq> None"
    using assms by (intro format_total) (simp add: placed_def blockingMatches_def)
  then obtain d where "FormatViolations q (blockingMatches vs) = Some d" by auto
  then show ?thesis
    by (simp add: hot_response_def Let_def newDeferredAuditEvent_def split: prod.split)
qed

lemma payload_answers:
  "\<exists>ev w'. evaluatePayloadHot env p wire cfg getenv eventID w = (Some ev, w') \<and> de_Valid (hv_Deferred ev)"
  using hot_response_answers staged_placed [of _ env p cfg getenv w]
  by (auto simp: evaluatePayloadHot_def staged_violations_def Let_def split: prod.split)

text \<open>C5. Rendering never leaves the text that a violation points into, and every payload gets an answer.  Every
  violation that is found, by whatever kind of condition, starts within its value; the renderer, which
  would panic otherwise (it slices the value there) and is the one part of the evaluation that the
  model keeps partial for it, therefore has a result for all of them, and the evaluation of a classified
  payload returns, whatever its bytes, the configuration, the validators and the model do: with a
  valid event exactly when the payload can be decoded, and with exit code 2 when it cannot.  The
  layers in front of this function, which may panic themselves, are not part of the statement.\<close>

theorem evaluation_always_answers:
  "set (staged_violations env p cfg getenv w) \<subseteq> {v. vi_Start v \<le> length (vi_Value v)}
   \<and> (\<exists>ev w'. EvaluateClassifiedHotWithEventID env input cfg getenv eventID parseError w = (Some ev, w')
        \<and> (de_Valid (hv_Deferred ev) \<longleftrightarrow> ParseHookPayload (he_payload env) (vn_System input) (vn_NormalizedJSON input) \<noteq> None)
        \<and> (ParseHookPayload (he_payload env) (vn_System input) (vn_NormalizedJSON input) = None \<longrightarrow> hv_ExitCode ev = 2))"
proof
  show "set (staged_violations env p cfg getenv w) \<subseteq> {v. vi_Start v \<le> length (vi_Value v)}"
    using staged_placed [of _ env p cfg getenv w] by (auto simp: placed_def)
  show "\<exists>ev w'. EvaluateClassifiedHotWithEventID env input cfg getenv eventID parseError w = (Some ev, w')
        \<and> (de_Valid (hv_Deferred ev) \<longleftrightarrow> ParseHookPayload (he_payload env) (vn_System input) (vn_NormalizedJSON input) \<noteq> None)
        \<and> (ParseHookPayload (he_payload env) (vn_System input) (vn_NormalizedJSON input) = None \<longrightarrow> hv_ExitCode ev = 2)"
  proof (cases "ParseHookPayload (he_payload env) (vn_System input) (vn_NormalizedJSON input)")
    case None
    then show ?thesis
      by (simp add: EvaluateClassifiedHotWithEventID_def Let_def emptyDeferredAuditEvent_def)
  next
    case (Some q)
    then show ?thesis
      using payload_answers [of env q "vn_WireBytes input" cfg getenv eventID w]
      by (auto simp only: EvaluateClassifiedHotWithEventID_def Let_def option.case option.simps not_False_eq_True simp_thms)
  qed
qed

section \<open>An example call\<close>

definition demo_call :: "bytes \<Rightarrow> Payload" where
  "demo_call command = \<lparr>pl_System = SystemClaude,
     pl_Type = standard_event ''ClaudePreToolUsePayload'' ClaudePreToolUsePayload ClaudePreToolUsePayload_Fields,
     pl_Event = VStruct [(''hook_event_name'', VString ''PreToolUse''), (''tool_input'', VStruct [(''command'', VString command)])]\<rparr>"

definition demo_payload_env :: payload_env where
  "demo_payload_env = \<lparr>pe_in_range = (\<lambda>_. True), pe_order = (\<lambda>_ _. 0), pe_lines = (\<lambda>_. []), pe_readFile = (\<lambda>_. None),
     pe_execWorkdir = (\<lambda>_ _. None)\<rparr>"

definition demo_hook :: "unit hook_env" where
  "demo_hook = \<lparr>he_payload = demo_payload_env, he_is_print = (\<lambda>_. True), he_rules = (\<lambda>_. demo_env),
     he_phase = (\<lambda>_ _ _. demo_env)\<rparr>"

definition no_rm :: Rule where
  "no_rm = demo_rule ''no-rm'' ActionBlock [regex_condition [''rm '']]"

definition demo_config :: "Config option" where
  "demo_config = Some (zeroConfig\<lparr>cfg_Rules := [no_rm]\<rparr>)"

lemma demo_names [simp]: "pl_System (demo_call x) = SystemClaude" "EventName (demo_call x) = ''PreToolUse''"
  by (simp add: demo_call_def, code_simp)

lemma demo_can_block: "CanBlock SystemClaude ''PreToolUse''"
  by code_simp

lemma demo_violated: "blockingMatches (staged_violations demo_hook (demo_call ''rm x'') demo_config None ()) \<noteq> []"
  by code_simp

lemma demo_run:
  obtains ev where "evaluatePayloadHot demo_hook (demo_call ''rm x'') [] demo_config None ''7'' () = (Some ev, ())"
  using payload_answers [of demo_hook] by (metis old.unit.exhaust)

lemma demo_enforced:
  assumes "evaluatePayloadHot demo_hook (demo_call ''rm x'') [] demo_config None ''7'' () = (Some ev, ())"
  shows "refusal SystemClaude ''PreToolUse'' (answer ev) \<noteq> None"
  using hot_of_payload [OF assms] hot_refusal [of _ _ "demo_call ''rm x''" _ _ "''7''"] hot_block demo_can_block demo_violated
  by (fastforce simp: enforced_def)

theorem refused_exactly_when_enforced_witness:
  "\<exists>ev. evaluatePayloadHot demo_hook (demo_call ''rm x'') [] demo_config None ''7'' () = (Some ev, ())
    \<and> refusal SystemClaude ''PreToolUse'' (answer ev) = map_option (\<lambda>d. readable (refusal_text demo_config ''7'' d))
        (FormatViolations (\<lambda>_. True) (blockingMatches (staged_violations demo_hook (demo_call ''rm x'') demo_config None ())))"
proof (rule demo_run)
  fix ev assume ev: "evaluatePayloadHot demo_hook (demo_call ''rm x'') [] demo_config None ''7'' () = (Some ev, ())"
  have "he_is_print demo_hook = (\<lambda>_. True)" by (simp add: demo_hook_def)
  then show ?thesis
    using refused_exactly_when_enforced [OF ev] demo_violated demo_can_block ev by (intro exI [of _ ev]) simp
qed

theorem refused_only_by_enforcing_rule_witness:
  "\<exists>ev :: HotEvaluation. r_Name no_rm \<in> vi_RuleName ` set (de_BlockingViolations (hv_Deferred ev))"
proof (rule demo_run)
  fix ev assume ev: "evaluatePayloadHot demo_hook (demo_call ''rm x'') [] demo_config None ''7'' () = (Some ev, ())"
  obtain reason where "refusal SystemClaude ''PreToolUse'' (answer ev) = Some reason" using demo_enforced [OF ev] by blast
  then show ?thesis
    using refused_only_by_enforcing_rule [OF ev] by (intro exI [of _ ev]) (simp add: rulesForConfig_def demo_config_def)
qed

theorem every_violation_is_recorded_witness:
  "\<exists>ev :: HotEvaluation. mset (de_BlockingViolations (hv_Deferred ev)) + mset (de_AuditOnlyViolations (hv_Deferred ev))
    = mset (staged_violations demo_hook (demo_call ''rm x'') demo_config None ())"
proof (rule demo_run)
  fix ev assume ev: "evaluatePayloadHot demo_hook (demo_call ''rm x'') [] demo_config None ''7'' () = (Some ev, ())"
  show ?thesis by (rule exI, rule every_violation_is_recorded [OF ev, THEN conjunct1])
qed

theorem matching_rule_stops_the_call_witness:
  "\<exists>ev. evaluatePayloadHot demo_hook (demo_call ''rm x'') [] demo_config None ''7'' () = (Some ev, ())
    \<and> refusal SystemClaude ''PreToolUse'' (answer ev) \<noteq> None"
proof (rule demo_run)
  fix ev assume ev: "evaluatePayloadHot demo_hook (demo_call ''rm x'') [] demo_config None ''7'' () = (Some ev, ())"
  have "refusal (pl_System (demo_call ''rm x'')) (EventName (demo_call ''rm x'')) (answer ev) \<noteq> None"
  proof (rule matching_rule_stops_the_call [OF ev, where rule = no_rm])
    show "calm (he_rules demo_hook (responseTargetForAction (pl_System (demo_call ''rm x'')) (EventName (demo_call ''rm x''))))"
      by (simp add: demo_hook_def calm_def demo_env_def)
    show "no_rm \<in> set (rulesForConfig demo_config)" "distinct (map r_Name (rulesForConfig demo_config))"
      by (simp_all add: rulesForConfig_def demo_config_def)
  qed (simp add: demo_can_block | code_simp)+
  then show ?thesis using ev by auto
qed

theorem audit_log_agrees_with_agent_witness:
  "\<exists>ev :: HotEvaluation. case WriteDeferredAudit (\<lambda>_. True) demo_shell (hv_Deferred ev) of
     None \<Rightarrow> False | Some es \<Rightarrow> ''hook.blocked'' \<in> messages es \<and> ''hook.allowed'' \<notin> messages es"
proof (rule demo_run)
  fix ev assume ev: "evaluatePayloadHot demo_hook (demo_call ''rm x'') [] demo_config None ''7'' () = (Some ev, ())"
  have "de_Decision (hv_Deferred ev) = ResponseDecisionBlock \<and> de_Valid (hv_Deferred ev)"
    using hot_of_payload [OF ev] hot_block demo_can_block demo_violated by (fastforce simp: enforced_def)
  then obtain es where "WriteDeferredAudit (\<lambda>_. True) demo_shell (hv_Deferred ev) = Some es"
    by (auto simp: WriteDeferredAudit_def writeDecisionAudit_def)
  then show ?thesis
    using audit_log_agrees_with_agent [OF ev] demo_enforced [OF ev] by (intro exI [of _ ev]) simp
qed

theorem evaluation_always_answers_witness:
  "\<exists>ev w'. EvaluateClassifiedHotWithEventID demo_hook \<lparr>vn_WireBytes = ''{'', vn_NormalizedJSON = ''{'', vn_System = SystemClaude,
      vn_Result = ''invalid''\<rparr> demo_config None ''7'' [] () = (Some ev, w') \<and> hv_ExitCode ev = 2"
proof -
  let ?input = "\<lparr>vn_WireBytes = ''{'', vn_NormalizedJSON = ''{'', vn_System = SystemClaude, vn_Result = ''invalid''\<rparr>"
  have "ParseHookPayload (he_payload demo_hook) (vn_System ?input) (vn_NormalizedJSON ?input) = None" by code_simp
  then show ?thesis using evaluation_always_answers [of demo_hook _ demo_config None "()" ?input "''7''" "[]"] by blast
qed

end
