(* ===== verification/PayloadProps.thy ===== *)
theory PayloadProps
  imports HookEvaluate HookReplies EngineBounds
begin

text \<open>
  What the rules see of a payload: the texts that an agent encodes are decoded into the fields that rules
  select, and some fields that the event schemas offer are never filled.
\<close>

section \<open>Decoding an encoded object\<close>

definition fold_distinct :: "bytes list \<Rightarrow> bytes list \<Rightarrow> bool" where
  "fold_distinct names tags \<longleftrightarrow> distinct (map json_fold (remdups (names @ tags)))"

lemma fold_distinct_inj: "fold_distinct names tags \<Longrightarrow> inj_on json_fold (set names \<union> set tags)"
  by (simp add: fold_distinct_def distinct_map)

text \<open>The values of a name, when names that fold alike are equal.\<close>

lemma json_values_lookup:
  assumes "inj_on json_fold (insert n (fst ` set ms))" "distinct (map fst ms)"
  shows "json_values n ms = (case map_of ms n of None \<Rightarrow> [] | Some v \<Rightarrow> [v])"
  using assms
proof (induction ms)
  case (Cons m ms)
  have inj: "inj_on json_fold (insert n (fst ` set ms))" using Cons.prems(1) by (rule inj_on_subset) auto
  have eq: "json_fold (fst m) = json_fold n \<longleftrightarrow> fst m = n"
    using Cons.prems(1) by (auto simp: inj_on_def)
  have "n \<notin> fst ` set ms" if "fst m = n" using that Cons.prems(2) by auto
  then have "fst m = n \<Longrightarrow> map_of ms n = None" by (simp add: map_of_eq_None_iff)
  then show ?case
    using Cons.IH [OF inj] Cons.prems(2) eq by (cases "fst m = n") (simp_all add: json_values_def)
qed (simp add: json_values_def)

definition field_value :: "(bytes \<Rightarrow> bool) \<Rightarrow> (bytes \<times> bytes) list \<Rightarrow> bytes \<Rightarrow> field_type \<Rightarrow> go_value \<times> bool" where
  "field_value r ms n t =
     (case map_of ms n of None \<Rightarrow> (zero_value t, True) | Some v \<Rightarrow> field_decoder r t (zero_value t) v)"

lemma map_of_zero: "distinct (map fst tags) \<Longrightarrow> (n, t) \<in> set tags \<Longrightarrow> map_of (map (map_prod id zero_value) tags) n = Some (zero_value t)"
  by (intro map_of_is_SomeI) (auto simp: comp_def fst_map_prod intro!: image_eqI [of _ _ "(n, t)"])

text \<open>A struct decoder on an object whose members are known.\<close>

lemma struct_decoder_object:
  assumes "json_members raw = Some ms" "\<not> json_null raw"
    and "fold_distinct (map fst ms) (map fst tags)" "distinct (map fst ms)" "distinct (map fst tags)"
  shows "struct_decoder (map (map_prod id (field_decoder r)) tags) (VStruct (map (map_prod id zero_value) tags)) raw
    = (VStruct (map (\<lambda>(n, t). (n, fst (field_value r ms n t))) tags), list_all (\<lambda>(n, t). snd (field_value r ms n t)) tags)"
proof -
  have one: "decode_values (field_decoder r t) (get (VStruct (map (map_prod id zero_value) tags)) n) (json_values n ms) = field_value r ms n t"
    if "(n, t) \<in> set tags" for n t
  proof -
    have "json_values n ms = (case map_of ms n of None \<Rightarrow> [] | Some v \<Rightarrow> [v])"
      using that by (intro json_values_lookup inj_on_subset [OF fold_distinct_inj [OF assms(3)]] assms(4)) force
    then show ?thesis
      using map_of_zero [OF assms(5) that]
      by (auto simp: decode_values_def field_value_def split: option.split prod.split)
  qed
  have "map (\<lambda>(n, dec). (n, decode_values dec (get (VStruct (map (map_prod id zero_value) tags)) n) (json_values n ms)))
      (map (map_prod id (field_decoder r)) tags) = map (\<lambda>(n, t). (n, field_value r ms n t)) tags"
    using one by (auto simp: comp_def)
  then show ?thesis
    using assms(1,2) by (simp only: struct_decoder_def if_False option.case Let_def)
      (simp add: comp_def case_prod_unfold list.pred_map)
qed

lemma Unmarshal_object:
  assumes "json_members raw = Some ms" "\<not> json_null raw" "json_Valid raw"
    and "fold_distinct (map fst ms) (map fst tags)" "distinct (map fst ms)" "distinct (map fst tags)"
    and "list_all (\<lambda>(n, t). snd (field_value r ms n t)) tags"
  shows "Unmarshal r tags raw = Some (VStruct (map (\<lambda>(n, t). (n, fst (field_value r ms n t))) tags))"
  using struct_decoder_object [OF assms(1,2,4,5,6), of r] assms(3,7) by (simp add: Unmarshal_def)

lemma field_text [simp]: "field_decoder r TString old (json_quote s) = (VString (readable s), True)"
  by (simp add: literal_decoder_def)

lemma literal_text [simp]: "literal_decoder (\<lambda>raw. map_option VString (json_string raw)) old (json_quote s) = (VString (readable s), True)"
  by (simp add: literal_decoder_def)

text \<open>White space of a text that begins and ends with braces.\<close>

lemma trim_object: "TrimSpace (CHR ''{'' # s @ ''}'') = CHR ''{'' # s @ ''}''"
proof -
  have "trim_front space_encodings (CHR ''{'' # t) = CHR ''{'' # t" for t
    by (subst trim_front.simps) (simp add: space_encodings_def HasPrefix_iff)
  moreover have "trim_front (map rev space_encodings) (CHR ''}'' # t) = CHR ''}'' # t" for t
    by (subst trim_front.simps) (simp add: space_encodings_def HasPrefix_iff)
  ultimately show ?thesis by (simp add: TrimSpace_def)
qed

lemma trim_encoded [simp]: "TrimSpace (json_encode_object ms) = json_encode_object ms"
  using trim_object [of "Join (map (\<lambda>(name, v). json_quote name @ '':'' @ v) ms) '',''"] by (simp add: json_encode_object_def)

lemma object_not_null [simp]: "\<not> json_null (json_encode_object ms)"
  by (simp add: json_null_def) (simp add: json_encode_object_def)

lemma object_head: "json_encode_object ms \<noteq> []" "hd (json_encode_object ms) = CHR ''{''" "json_encode_object ms \<noteq> ''null''"
  by (simp_all add: json_encode_object_def)

section \<open>A call of a tool\<close>

text \<open>What an agent sends before a tool runs: the event, the session, the directory, the tool and the command.\<close>

definition tool_input_object :: "bytes \<Rightarrow> bytes" where
  "tool_input_object command = json_encode_object [(''command'', json_quote command)]"

definition call_members :: "bytes \<Rightarrow> bytes \<Rightarrow> bytes \<Rightarrow> bytes \<Rightarrow> bytes \<Rightarrow> (bytes \<times> bytes) list" where
  "call_members event session directory tool command =
     [(''hook_event_name'', json_quote event), (''session_id'', json_quote session), (''cwd'', json_quote directory),
      (''tool_name'', json_quote tool), (''tool_input'', tool_input_object command)]"

definition tool_call :: "bytes \<Rightarrow> bytes \<Rightarrow> bytes \<Rightarrow> bytes \<Rightarrow> bytes \<Rightarrow> bytes" where
  "tool_call event session directory tool command = json_encode_object (call_members event session directory tool command)"

lemma tool_names [simp]: "plain_name ''command''" "plain_name ''hook_event_name''" "plain_name ''session_id''" "plain_name ''cwd''"
  "plain_name ''tool_name''" "plain_name ''tool_input''"
  by code_simp+

lemma input_sound: "sound_members 0 [(''command'', json_quote command)]"
  by (simp add: sound_members_def)

lemma depth_ok: "0 < maxNestingDepth" "Suc 0 < maxNestingDepth" "Suc (Suc 0) \<le> maxNestingDepth"
  by (simp_all add: maxNestingDepth_def)

lemma input_members: "json_members (tool_input_object command) = Some [(''command'', json_quote command)]"
  unfolding tool_input_object_def by (rule read_members(2) [OF input_sound depth_ok(1)])

lemma input_valid: "json_Valid (tool_input_object command)"
  unfolding tool_input_object_def by (rule value_valid [OF value_object [of _ 0]]) (simp_all add: maxNestingDepth_def)

lemma call_sound: "sound_members 1 (call_members event session directory tool command)"
  using value_object [of "[(''command'', json_quote command)]" 0] object_closed [of "[(''command'', json_quote command)]"]
  by (simp add: sound_members_def call_members_def tool_input_object_def)

lemma call_members_read: "json_members (tool_call event session directory tool command) = Some (call_members event session directory tool command)"
  unfolding tool_call_def by (rule read_members(2) [OF call_sound]) (simp add: maxNestingDepth_def)

lemma call_valid: "json_Valid (tool_call event session directory tool command)"
  unfolding tool_call_def
  by (rule value_valid [OF value_object [of _ 1]])
     (use call_sound [of event session directory tool command] in \<open>fastforce simp: sound_members_def list_all_iff maxNestingDepth_def\<close>)+

lemma call_names: "map fst (call_members event session directory tool command)
    = [''hook_event_name'', ''session_id'', ''cwd'', ''tool_name'', ''tool_input'']"
  by (simp add: call_members_def)

text \<open>Struct types that are told apart by folded names, and the lookup of a decoded struct.\<close>

definition clear_tags :: "bytes list \<Rightarrow> struct_type \<Rightarrow> bool" where
  "clear_tags names tags \<longleftrightarrow> distinct (map fst tags) \<and> fold_distinct names (map fst tags)"

lemma map_of_decoded: "map_of (map (\<lambda>(n, t). (n, f n t)) tags) n = map_option (f n) (map_of tags n)"
  by (induction tags) auto

lemma fields_accepted:
  assumes "distinct (map fst tags)"
    and "\<forall>(n, v) \<in> set ms. case map_of tags n of None \<Rightarrow> True | Some t \<Rightarrow> snd (field_decoder r t (zero_value t) v)"
  shows "list_all (\<lambda>(n, t). snd (field_value r ms n t)) tags"
proof -
  have "snd (field_value r ms n t)" if "(n, t) \<in> set tags" for n t
  proof (cases "map_of ms n")
    case None
    then show ?thesis by (simp add: field_value_def)
  next
    case (Some v)
    then show ?thesis
      using assms(2) map_of_SomeD [OF Some] map_of_is_SomeI [OF assms(1) that] by (force simp: field_value_def)
  qed
  then show ?thesis by (auto simp: list_all_iff)
qed

lemma input_decoded:
  assumes "clear_tags [''command''] tags" "map_of tags ''command'' = Some TString"
  shows "\<exists>input. struct_decoder (map (map_prod id (field_decoder r)) tags) (VStruct (map (map_prod id zero_value) tags))
      (tool_input_object command) = (input, True) \<and> get_text input ''command'' = readable command"
proof -
  let ?ms = "[(''command'', json_quote command)]"
  have tags: "distinct (map fst tags)" "fold_distinct (map fst ?ms) (map fst tags)" using assms(1) by (simp_all add: clear_tags_def)
  have "list_all (\<lambda>(n, t). snd (field_value r ?ms n t)) tags"
    by (rule fields_accepted [OF tags(1)]) (simp add: assms(2))
  moreover have "\<not> json_null (tool_input_object command)" by (simp add: tool_input_object_def)
  ultimately have "struct_decoder (map (map_prod id (field_decoder r)) tags) (VStruct (map (map_prod id zero_value) tags))
      (tool_input_object command) = (VStruct (map (\<lambda>(n, t). (n, fst (field_value r ?ms n t))) tags), True)"
    using struct_decoder_object [OF input_members _ tags(2) _ tags(1)] by simp
  then show ?thesis
    by (intro exI conjI, assumption) (simp add: get_text_def map_of_decoded assms(2) field_value_def)
qed

text \<open>The kinds of tool inputs.\<close>

definition input_type :: "field_type \<Rightarrow> bool" where
  "input_type t \<longleftrightarrow> (\<exists>tags. t \<in> {TStruct tags, TClaudeToolInput tags, TCursorToolInput tags}
     \<and> clear_tags [''command''] tags \<and> map_of tags ''command'' = Some TString)"

lemma input_field:
  assumes "input_type t"
  shows "\<exists>input. field_decoder r t (zero_value t) (tool_input_object command) = (input, True)
    \<and> get_text input ''command'' = readable command"
proof -
  obtain tags where t: "t \<in> {TStruct tags, TClaudeToolInput tags, TCursorToolInput tags}"
      "clear_tags [''command''] tags" "map_of tags ''command'' = Some TString"
    using assms by (auto simp: input_type_def)
  obtain input where input: "struct_decoder (map (map_prod id (field_decoder r)) tags) (VStruct (map (map_prod id zero_value) tags))
      (tool_input_object command) = (input, True)" "get_text input ''command'' = readable command"
    using input_decoded [OF t(2,3)] by blast
  have trim: "TrimSpace (tool_input_object command) = tool_input_object command" "tool_input_object command \<noteq> []"
      "hd (tool_input_object command) = CHR ''{''" "tool_input_object command \<noteq> ''null''"
    using object_head by (simp_all add: tool_input_object_def)
  show ?thesis
    using t(1) input input_valid trim
    by (auto simp: ClaudeToolInput_UnmarshalJSON_def CursorToolInput_UnmarshalJSON_def Let_def)
qed

lemma call_decoded:
  assumes "clear_tags [''hook_event_name'', ''session_id'', ''cwd'', ''tool_name'', ''tool_input''] tags"
    and "map_of tags ''hook_event_name'' = Some TString" "map_of tags ''session_id'' = Some TString"
    and "map_of tags ''cwd'' = Some TString" "map_of tags ''tool_name'' = Some TString"
    and "map_of tags ''tool_input'' = Some t" "input_type t"
  shows "\<exists>v. Unmarshal r tags (tool_call event session directory tool command) = Some v
    \<and> get_text v ''hook_event_name'' = readable event \<and> get_text v ''session_id'' = readable session
    \<and> get_text v ''cwd'' = readable directory \<and> get_text v ''tool_name'' = readable tool
    \<and> get_text (get v ''tool_input'') ''command'' = readable command"
proof -
  let ?ms = "call_members event session directory tool command"
  obtain input where input: "field_decoder r t (zero_value t) (tool_input_object command) = (input, True)"
      "get_text input ''command'' = readable command"
    using input_field [OF assms(7)] by blast
  have tags: "distinct (map fst tags)" "fold_distinct (map fst ?ms) (map fst tags)"
    using assms(1) by (simp_all add: clear_tags_def call_names)
  have "list_all (\<lambda>(n, t). snd (field_value r ?ms n t)) tags"
    by (rule fields_accepted [OF tags(1)]) (simp add: call_members_def assms(2-6) input(1))
  then have "Unmarshal r tags (tool_call event session directory tool command)
      = Some (VStruct (map (\<lambda>(n, t). (n, fst (field_value r ?ms n t))) tags))"
    using tags by (intro Unmarshal_object call_members_read call_valid) (simp_all add: tool_call_def call_names)
  then show ?thesis
    by (intro exI conjI, assumption)
       (simp_all add: get_text_def map_of_decoded assms(2-6) field_value_def call_members_def input(1) input(2) [unfolded get_text_def])
qed

section \<open>The command reaches the rules\<close>

text \<open>The events before a tool runs.\<close>

definition tool_events :: "(System \<times> bytes) list" where
  "tool_events = [(SystemClaude, ''PreToolUse''), (SystemCodex, ''PreToolUse''), (SystemGemini, ''BeforeTool''),
     (SystemCursor, ''preToolUse'')]"

lemma event_name:
  assumes "plain_name event"
  shows "eventNameFromBytes env (tool_call event session directory tool command) = Some event"
proof -
  let ?ms = "call_members event session directory tool command"
  have clear: "fold_distinct (map fst ?ms) (map fst envelopeName)" "distinct (map fst ?ms)" "distinct (map fst envelopeName)"
    unfolding call_names by code_simp+
  have "list_all (\<lambda>(n, t). snd (field_value (pe_in_range env) ?ms n t)) envelopeName"
    by (simp add: envelopeName_def field_value_def call_members_def)
  then have "Unmarshal (pe_in_range env) envelopeName (tool_call event session directory tool command)
      = Some (VStruct (map (\<lambda>(n, t). (n, fst (field_value (pe_in_range env) ?ms n t))) envelopeName))"
    using clear by (intro Unmarshal_object call_members_read call_valid) (simp_all add: tool_call_def)
  moreover have "readable event = event" using assms by (simp add: readable_ascii plain_name_def)
  ultimately show ?thesis
    by (simp add: eventNameFromBytes_def get_text_def map_of_decoded) (simp add: envelopeName_def field_value_def call_members_def)
qed

lemma tool_structs:
  "clear_tags [''hook_event_name'', ''session_id'', ''cwd'', ''tool_name'', ''tool_input''] ClaudePreToolUsePayload"
  "clear_tags [''hook_event_name'', ''session_id'', ''cwd'', ''tool_name'', ''tool_input''] CodexPreToolUsePayload"
  "clear_tags [''hook_event_name'', ''session_id'', ''cwd'', ''tool_name'', ''tool_input''] GeminiBeforeToolPayload"
  "clear_tags [''hook_event_name'', ''session_id'', ''cwd'', ''tool_name'', ''tool_input''] CursorPreToolUsePayload"
  by code_simp+

lemma input_types:
  "input_type (TClaudeToolInput ClaudeToolInput)" "input_type (TStruct CodexToolInput)"
  "input_type (TStruct GeminiToolInput)" "input_type (TCursorToolInput CursorToolInput)"
proof -
  have "clear_tags [''command''] ClaudeToolInput" "clear_tags [''command''] CodexToolInput"
      "clear_tags [''command''] GeminiToolInput" "clear_tags [''command''] CursorToolInput"
    by code_simp+
  moreover have "map_of ClaudeToolInput ''command'' = Some TString" "map_of CodexToolInput ''command'' = Some TString"
      "map_of GeminiToolInput ''command'' = Some TString" "map_of CursorToolInput ''command'' = Some TString"
    by (simp_all add: ClaudeToolInput_def CodexToolInput_def GeminiToolInput_def CursorToolInput_def)
  ultimately show "input_type (TClaudeToolInput ClaudeToolInput)" "input_type (TStruct CodexToolInput)"
      "input_type (TStruct GeminiToolInput)" "input_type (TCursorToolInput CursorToolInput)"
    unfolding input_type_def by blast+
qed

text \<open>A payload of one of the four events and its fields.\<close>

lemma parsed_call:
  assumes "Unmarshal (pe_in_range env) (et_Struct t) raw = Some v" "eventNameFromBytes env raw = Some event"
    and "(system, t) \<in> {(SystemClaude, dispatched claudeDecoders event), (SystemCodex, dispatched codexDecoders event),
      (SystemGemini, dispatched geminiDecoders event), (SystemCursor, dispatched cursorDecoders event)}"
  shows "ParseHookPayload env system raw = Some \<lparr>pl_System = system, pl_Type = t, pl_Event = v\<rparr>"
  using assms by (auto simp: ParseHookPayload_def decoded_def)

lemma tool_dispatch:
  "dispatched claudeDecoders ''PreToolUse'' = standard_event ''ClaudePreToolUsePayload'' ClaudePreToolUsePayload ClaudePreToolUsePayload_Fields"
  "dispatched codexDecoders ''PreToolUse'' = standard_event ''CodexPreToolUsePayload'' CodexPreToolUsePayload CodexPreToolUsePayload_Fields"
  "dispatched geminiDecoders ''BeforeTool'' = standard_event ''GeminiBeforeToolPayload'' GeminiBeforeToolPayload GeminiBeforeToolPayload_Fields"
  "dispatched cursorDecoders ''preToolUse'' = cursor_event ''CursorPreToolUsePayload'' CursorPreToolUsePayload CursorPreToolUsePayload_Fields"
  by (simp_all add: dispatched_def claudeDecoders_def codexDecoders_def geminiDecoders_def cursorDecoders_def)

lemma event_parts [simp]:
  "et_Struct (standard_event n tags f) = tags" "et_Fields (standard_event n tags f) = f"
  "et_Struct (cursor_event n tags f) = tags" "et_Fields (cursor_event n tags f) = f"
  by (simp_all add: standard_event_def cursor_event_def)

lemma tool_fields:
  assumes "get_text v ''hook_event_name'' = event" "get_text v ''session_id'' = session" "get_text v ''cwd'' = directory"
    "get_text v ''tool_name'' = tool" "get_text (get v ''tool_input'') ''command'' = command"
    and "f \<in> {ClaudePreToolUsePayload_Fields, CodexPreToolUsePayload_Fields, GeminiBeforeToolPayload_Fields, CursorPreToolUsePayload_Fields}"
  shows "f_HookEventName (f order v) = event \<and> f_SessionID (f order v) = session \<and> f_CWD (f order v) = directory
    \<and> f_ToolName (f order v) = tool \<and> f_ToolInputCommand (f order v) = command"
  using assms
  by (auto simp: ClaudePreToolUsePayload_Fields_def CodexPreToolUsePayload_Fields_def GeminiBeforeToolPayload_Fields_def
      CursorPreToolUsePayload_Fields_def claudeToolFields_def codexToolFields_def geminiToolFields_def cursorToolFields_def
      ClaudeEnvelope_baseFields_def CodexEnvelope_baseFields_def GeminiEnvelope_baseFields_def CursorEnvelope_baseFields_def)

definition sees :: "FieldSet \<Rightarrow> bytes \<Rightarrow> bytes \<Rightarrow> bytes \<Rightarrow> bytes \<Rightarrow> bytes \<Rightarrow> bool" where
  "sees fs event session directory tool command \<longleftrightarrow>
     f_HookEventName fs = event \<and> f_SessionID fs = session \<and> f_CWD fs = directory \<and> f_ToolName fs = tool
     \<and> f_ToolInputCommand fs = command"

lemma call_seen:
  assumes "(system, dispatched decoders event) \<in> {(SystemClaude, dispatched claudeDecoders event), (SystemCodex, dispatched codexDecoders event),
      (SystemGemini, dispatched geminiDecoders event), (SystemCursor, dispatched cursorDecoders event)}"
    and "et_Struct (dispatched decoders event) = tags" "plain_name event"
    and "et_Fields (dispatched decoders event) \<in> {ClaudePreToolUsePayload_Fields, CodexPreToolUsePayload_Fields, GeminiBeforeToolPayload_Fields, CursorPreToolUsePayload_Fields}"
    and "clear_tags [''hook_event_name'', ''session_id'', ''cwd'', ''tool_name'', ''tool_input''] tags"
    and "map_of tags ''hook_event_name'' = Some TString" "map_of tags ''session_id'' = Some TString"
    and "map_of tags ''cwd'' = Some TString" "map_of tags ''tool_name'' = Some TString"
    and "map_of tags ''tool_input'' = Some t" "input_type t"
  shows "\<exists>p. ParseHookPayload env system (tool_call event session directory tool command) = Some p \<and> pl_System p = system
    \<and> EventName p = event
    \<and> sees (Fields order p) event (readable session) (readable directory) (readable tool) (readable command)"
proof -
  let ?raw = "tool_call event session directory tool command" and ?t = "dispatched decoders event"
  have event: "readable event = event" using assms(3) by (simp add: readable_ascii plain_name_def)
  obtain v where v: "Unmarshal (pe_in_range env) tags ?raw = Some v" "get_text v ''hook_event_name'' = event"
      "get_text v ''session_id'' = readable session" "get_text v ''cwd'' = readable directory"
      "get_text v ''tool_name'' = readable tool" "get_text (get v ''tool_input'') ''command'' = readable command"
    using call_decoded [OF assms(5-11), of "pe_in_range env" event session directory tool command] event by auto
  have "ParseHookPayload env system ?raw = Some \<lparr>pl_System = system, pl_Type = ?t, pl_Event = v\<rparr>"
    by (rule parsed_call [OF _ event_name [OF assms(3)] assms(1)]) (simp add: assms(2) v(1))
  then show ?thesis
    using tool_fields [OF v(2-6) assms(4), of order] v(2) by (simp add: EventName_def Fields_def sees_def)
qed

text \<open>C4. What the agent encodes is what the rules see: for the events that Claude Code, Codex, Gemini and Cursor
  send before a tool runs, the payload with any event session, directory, tool and command, encoded as
  JSON, is decoded, and the rules see exactly these texts, whatever quotes, escapes, line breaks or
  ill-formed bytes they hold (the latter as U+FFFD, as JSON text cannot carry them).\<close>

theorem command_reaches_rules:
  assumes "(system, event) \<in> set tool_events"
  shows "\<exists>p. ParseHookPayload env system (tool_call event session directory tool command) = Some p \<and> pl_System p = system
    \<and> EventName p = event
    \<and> sees (Fields order p) event (readable session) (readable directory) (readable tool) (readable command)"
proof -
  have plain: "plain_name ''PreToolUse''" "plain_name ''BeforeTool''" "plain_name ''preToolUse''" by code_simp+
  consider "system = SystemClaude" "event = ''PreToolUse''" | "system = SystemCodex" "event = ''PreToolUse''"
    | "system = SystemGemini" "event = ''BeforeTool''" | "system = SystemCursor" "event = ''preToolUse''"
    using assms by (auto simp: tool_events_def)
  then show ?thesis
  proof cases
    case 1
    show ?thesis unfolding 1
      by (rule call_seen [where decoders = claudeDecoders, OF _ _ plain(1) _ tool_structs(1) _ _ _ _ _ input_types(1)])
         (simp_all add: tool_dispatch, simp_all add: ClaudePreToolUsePayload_def ClaudeEnvelope_def)
  next
    case 2
    show ?thesis unfolding 2
      by (rule call_seen [where decoders = codexDecoders, OF _ _ plain(1) _ tool_structs(2) _ _ _ _ _ input_types(2)])
         (simp_all add: tool_dispatch, simp_all add: CodexPreToolUsePayload_def CodexEnvelope_def)
  next
    case 3
    show ?thesis unfolding 3
      by (rule call_seen [where decoders = geminiDecoders, OF _ _ plain(2) _ tool_structs(3) _ _ _ _ _ input_types(3)])
         (simp_all add: tool_dispatch, simp_all add: GeminiBeforeToolPayload_def GeminiEnvelope_def)
  next
    case 4
    show ?thesis unfolding 4
      by (rule call_seen [where decoders = cursorDecoders, OF _ _ plain(3) _ tool_structs(4) _ _ _ _ _ input_types(4)])
         (simp_all add: tool_dispatch, simp_all add: CursorPreToolUsePayload_def CursorEnvelope_def)
  qed
qed

definition demo_payload :: payload_env where
  "demo_payload = \<lparr>pe_in_range = (\<lambda>_. True), pe_order = (\<lambda>_ _. 0), pe_lines = (\<lambda>_. []), pe_readFile = (\<lambda>_. None),
     pe_execWorkdir = (\<lambda>_ _. None)\<rparr>"

theorem command_reaches_rules_witness:
  "\<exists>p. ParseHookPayload demo_payload SystemCodex (tool_call ''PreToolUse'' ''s1'' ''/tmp'' ''Bash'' ''echo x'') = Some p
    \<and> f_ToolInputCommand (Fields (\<lambda>_ _. 0) p) = readable ''echo x''"
  using command_reaches_rules [of SystemCodex "''PreToolUse''"] by (force simp: tool_events_def sees_def)

section \<open>Fields that are offered and never filled\<close>

text \<open>Paths of the Copilot schema, their events and their selectors.\<close>

definition copilot_unfilled :: "(bytes \<times> bytes \<times> FieldSelector) list" where
  "copilot_unfilled =
     [(''postToolUse'', ''tool_output'', FieldToolOutput), (''postToolUse'', ''tool_response'', FieldToolResponse),
      (''postToolUseFailure'', ''error'', FieldError), (''notification'', ''message'', FieldMessage),
      (''preToolUse'', ''tool_input.pattern'', FieldToolInputPattern), (''preToolUse'', ''tool_input.path'', FieldToolInputPath),
      (''preToolUse'', ''tool_input.url'', FieldToolInputURL), (''preToolUse'', ''tool_input.query'', FieldToolInputQuery)]"

definition offered :: "bytes \<Rightarrow> bytes \<Rightarrow> bytes \<Rightarrow> bool" where
  "offered system event path = (case ValidPaths system event of None \<Rightarrow> False | Some paths \<Rightarrow> path \<in> set paths)"

lemma copilot_offers: "list_all (\<lambda>(event, path, selector). offered ''copilot'' event path) copilot_unfilled"
  by code_simp

lemma copilot_fields_empty:
  "f_ToolOutput (CopilotPayload_Fields order v) = []" "f_ToolResponse (CopilotPayload_Fields order v) = []"
  "f_Error (CopilotPayload_Fields order v) = []" "f_Message (CopilotPayload_Fields order v) = []"
  "f_ToolInputPattern (CopilotPayload_Fields order v) = []" "f_ToolInputPath (CopilotPayload_Fields order v) = []"
  "f_ToolInputURL (CopilotPayload_Fields order v) = []" "f_ToolInputQuery (CopilotPayload_Fields order v) = []"
  by (simp_all add: CopilotPayload_Fields_def VSCodePayload_Fields_def zero_FieldSet_def Let_def)

lemma copilot_fields:
  assumes "ParseHookPayload env SystemCopilot raw = Some p"
  shows "Fields order p = CopilotPayload_Fields order (pl_Event p)"
  using assms by (auto simp: ParseHookPayload_def decoded_def Fields_def standard_event_def split: option.splits)

lemma unfilled_accessors:
  "map_of (fieldStringAccessors senv) FieldToolOutput = Some f_ToolOutput"
  "map_of (fieldStringAccessors senv) FieldToolResponse = Some f_ToolResponse"
  "map_of (fieldStringAccessors senv) FieldError = Some f_Error"
  "map_of (fieldStringAccessors senv) FieldMessage = Some f_Message"
  "map_of (fieldStringAccessors senv) FieldToolInputPattern = Some f_ToolInputPattern"
  "map_of (fieldStringAccessors senv) FieldToolInputPath = Some f_ToolInputPath"
  "map_of (fieldStringAccessors senv) FieldToolInputURL = Some f_ToolInputURL"
  "map_of (fieldStringAccessors senv) FieldToolInputQuery = Some f_ToolInputQuery"
proof -
  have "distinct (map fst (fieldStringAccessors senv))" unfolding fieldStringAccessors_def list.map fst_conv by code_simp
  note found = map_of_is_SomeI [OF this]
  show "map_of (fieldStringAccessors senv) FieldToolOutput = Some f_ToolOutput"
    "map_of (fieldStringAccessors senv) FieldToolResponse = Some f_ToolResponse"
    "map_of (fieldStringAccessors senv) FieldError = Some f_Error"
    "map_of (fieldStringAccessors senv) FieldMessage = Some f_Message"
    "map_of (fieldStringAccessors senv) FieldToolInputPattern = Some f_ToolInputPattern"
    "map_of (fieldStringAccessors senv) FieldToolInputPath = Some f_ToolInputPath"
    "map_of (fieldStringAccessors senv) FieldToolInputURL = Some f_ToolInputURL"
    "map_of (fieldStringAccessors senv) FieldToolInputQuery = Some f_ToolInputQuery"
    by (rule found, simp only: fieldStringAccessors_def list.set insert_iff simp_thms)+
qed

lemma unfilled_not_count: "list_all (\<lambda>(event, path, selector). selector \<noteq> FieldLoopCount) copilot_unfilled"
  by code_simp

lemma copilot_values:
  "list_all (\<lambda>(event, path, selector). FieldSet_String senv (CopilotPayload_Fields order v) selector = []) copilot_unfilled"
proof -
  have "FieldSet_String senv f selector = a f" if "map_of (fieldStringAccessors senv) selector = Some a" "selector \<noteq> FieldLoopCount"
    for f selector a using that by (simp add: FieldSet_String_def FieldSet_Value_def Let_def)
  then show ?thesis
    using unfilled_not_count unfilled_accessors [of senv] copilot_fields_empty [of order v] by (simp add: copilot_unfilled_def)
qed

text \<open>C10. Rules on some fields of Copilot can never match: the schema, and with it the validation of a configuration,
  offers the tool's output and response, the error, the message and four tool inputs at Copilot's events,
  but no payload of Copilot that can be decoded fills them, so that a rule that selects them sees the
  empty text.\<close>

theorem copilot_offers_fields_it_never_fills:
  assumes "ParseHookPayload env SystemCopilot raw = Some p"
  shows "list_all (\<lambda>(event, path, selector). offered ''copilot'' event path
    \<and> FieldSet_String senv (Fields order p) selector = []) copilot_unfilled"
  using copilot_offers copilot_values [of senv order "pl_Event p"] by (auto simp: list_all_iff copilot_fields [OF assms])

definition copilot_members :: "(bytes \<times> bytes) list" where
  "copilot_members = [(''hook_event_name'', json_quote ''postToolUse''), (''tool_output'', json_quote ''secret'')]"

lemma copilot_unmarshal:
  assumes "clear_tags [''hook_event_name'', ''tool_output''] tags" "map_of tags ''hook_event_name'' = Some TString" "map_of tags ''tool_output'' = None"
  shows "\<exists>v. Unmarshal r tags (json_encode_object copilot_members) = Some v"
proof -
  have ms: "sound_members 0 copilot_members" "map fst copilot_members = [''hook_event_name'', ''tool_output'']"
    by (simp_all add: sound_members_def copilot_members_def) code_simp
  have "json_Valid (json_encode_object copilot_members)"
    by (rule value_valid [OF value_object [of _ 0]]) (simp_all add: copilot_members_def maxNestingDepth_def)
  moreover have "list_all (\<lambda>(n, t). snd (field_value r copilot_members n t)) tags"
    by (rule fields_accepted) (use assms in \<open>simp_all add: copilot_members_def clear_tags_def\<close>)
  ultimately have "Unmarshal r tags (json_encode_object copilot_members)
      = Some (VStruct (map (\<lambda>(n, t). (n, fst (field_value r copilot_members n t))) tags))"
    using ms assms(1) by (intro Unmarshal_object read_members(2) [OF ms(1) depth_ok(1)]) (simp_all add: clear_tags_def)
  then show ?thesis by blast
qed

theorem copilot_offers_fields_it_never_fills_witness:
  "\<exists>p. ParseHookPayload demo_payload SystemCopilot (json_encode_object copilot_members) = Some p
    \<and> FieldSet_String demo_shell (Fields (\<lambda>_ _. 0) p) FieldToolOutput = []"
proof -
  have "clear_tags [''hook_event_name'', ''tool_output''] envelopeName" "clear_tags [''hook_event_name'', ''tool_output''] CopilotPayload"
    by code_simp+
  then have "\<exists>v. Unmarshal (pe_in_range demo_payload) envelopeName (json_encode_object copilot_members) = Some v"
      "\<exists>v. Unmarshal (pe_in_range demo_payload) CopilotPayload (json_encode_object copilot_members) = Some v"
    by (intro copilot_unmarshal; simp add: envelopeName_def CopilotPayload_def VSCodePayload_def)+
  then obtain p where p: "ParseHookPayload demo_payload SystemCopilot (json_encode_object copilot_members) = Some p"
    by (auto simp: ParseHookPayload_def eventNameFromBytes_def decoded_def)
  then show ?thesis
    using copilot_offers_fields_it_never_fills [OF p, of demo_shell "\<lambda>_ _. 0"] by (simp add: copilot_unfilled_def)
qed

end
