(* ===== verification/Spec2Isabelle.thy ===== *)
theory Spec2Isabelle
  imports HotKV_Props DaemonKV ShellProps ConfigLoad FieldProps EvalMatrix CommandCond ShellConcerns ExecProps EngineBounds GitProps HotKV_Refine InferFlight InferBatch HookProps HookSchema DiagnosticsProps HookEvalProps PayloadProps
begin

text \<open>
  agent-gate is a daemon and a set of command line programs that stand between a coding agent and
  its tools.  A hook of the agent sends an event; the daemon decodes it into fields, evaluates the
  rules of its configuration on the fields and answers allow, block or a response effect.  This
  library models the decision core of the program and proves what makes it correct.

  \<^bold>\<open>How the parts interact.\<close>  The configuration (\<^verbatim>\<open>internal/config\<close>) is decoded from TOML, validated
  and compiled into rules; \<^verbatim>\<open>internal/hook/schema.go\<close> checks that they fit the events of the providers.
  A call of a hook is attributed to a provider (\<^verbatim>\<open>classification.go\<close>), its payload is decoded into the
  struct of its event (\<^verbatim>\<open>payload_*.go\<close>) and becomes a field set (\<^verbatim>\<open>internal/rules/fields*.go\<close>).
  The deterministic rules run first and the rules that ask a model only if none of them blocks
  (\<^verbatim>\<open>staged_evaluation.go\<close>); the violations are turned into a text (\<^verbatim>\<open>diagnostics.go\<close>), the decision
  into the response the provider understands (\<^verbatim>\<open>response_boundary.go\<close> and one file per provider) and both
  into audit entries (\<^verbatim>\<open>provider.go\<close>).
  The rule engine (\<^verbatim>\<open>internal/rules/engine.go\<close>, \<^verbatim>\<open>pipeline/orchestrator.go\<close>) selects the rules that
  apply, evaluates the gate of each rule condition by condition and collects violations; a condition
  may match text (\<^verbatim>\<open>concerns/regex\<close>, \<^verbatim>\<open>concerns/diff\<close>), shell commands (\<^verbatim>\<open>engine_command.go\<close>,
  \<^verbatim>\<open>concerns/shellparse\<close>), git repositories (\<^verbatim>\<open>engine_gitbranch*.go\<close>, \<^verbatim>\<open>internal/gitbranch\<close>),
  external validators (\<^verbatim>\<open>exec_gate.go\<close>, \<^verbatim>\<open>concerns/exec\<close>) or inference (\<^verbatim>\<open>infer_gate.go\<close>,
  \<^verbatim>\<open>eval_matrix.go\<close>, \<^verbatim>\<open>batch_infer.go\<close>).
  Validators keep verdicts and prompts in the hot cache (\<^verbatim>\<open>internal/hotkv\<close>), which the daemon also
  serves over RPC (\<^verbatim>\<open>internal/daemon/kv.go\<close>).

  \<^bold>\<open>Theories.\<close>
  \<^item> \<open>AG_Prelude\<close>: byte strings, \<^verbatim>\<open>time.Time\<close>, \<^verbatim>\<open>time.Duration\<close> and 64-bit integers with their
    wrap-around, the functions of \<^verbatim>\<open>strings\<close>, \<^verbatim>\<open>path/filepath\<close>, \<^verbatim>\<open>sort\<close> and \<^verbatim>\<open>maps\<close> that the code
    calls, and the lemmas the components share.
  \<^item> \<open>HotKV\<close>: the store of \<^verbatim>\<open>internal/hotkv\<close>; its state is the record \<open>Store\<close> with the fields of the
    Go struct and every method is a function from state to result and state.  \<open>HotKV_Inv\<close> holds the
    invariant and its preservation by every method, \<open>HotKV_Spec\<close> the locales that state the
    contracts of observations and of keyed storage with their interpretations, \<open>HotKV_Props\<close> the
    properties and \<open>HotKV_Refine\<close> the simulation of the store by a map that may forget.
  \<^item> \<open>DaemonKV\<close>: the RPC handlers of \<^verbatim>\<open>internal/daemon/kv.go\<close> over that store.
  \<^item> \<open>ShellLex\<close>, \<open>ShellExpand\<close>, \<open>LiteralAssign\<close>, \<open>ShellProps\<close>: the byte-level shell scanners (comments,
    redirections, here-documents, chains, variables, literal assignments).
  \<^item> \<open>Selectors\<close>, \<open>FieldSet\<close>, \<open>FieldProps\<close>: the enumeration of payload fields, their accessors and the
    values derived from patches and shell commands.
  \<^item> \<open>Regex\<close>, \<open>Concerns\<close>: the wrapper of the regular expression engine and the text matching concerns.
  \<^item> \<open>CommandCond\<close>: wrappers, working directories, subcommands and project roots.
  \<^item> \<open>ShellConcerns\<close>: which of the files that a command writes or reads make the conditions on shell
    writes and on reads of secrets match (\<^verbatim>\<open>shellwrite/concern.go\<close>, \<^verbatim>\<open>shellread/concern.go\<close>).
  \<^item> \<open>GitState\<close>, \<open>GitConditions\<close>, \<open>GitProps\<close>: worktrees and branches of a repository, the parsers of
    \<^verbatim>\<open>git branch\<close>, \<^verbatim>\<open>update-ref\<close>, \<^verbatim>\<open>checkout\<close>, \<^verbatim>\<open>switch\<close> and \<^verbatim>\<open>push\<close>, and the conditions built on them.
  \<^item> \<open>RuleTypes\<close>, \<open>RuleConfig\<close>, \<open>RuleCompile\<close>, \<open>PerfConfig\<close>, \<open>AuditPolicy\<close>, \<open>ConfigLoad\<close>: the structs of
    the configuration, their validation, compilation, defaults, and the strict and degraded loads.
  \<^item> \<open>ExecConcern\<close>, \<open>ExecGate\<close>, \<open>ExecFlight\<close>, \<open>ExecProps\<close>: one validator run, its cache keys,
    verdicts and observations, and concurrent evaluations as an inductive step relation, in which other
    users of the store may drop any verdict and write any entry of a public namespace; what such an entry
    makes of an evaluation is a property of its own.  The retries of a run are specified apart from the
    loop that makes them.
  \<^item> \<open>EvalMatrix\<close>: roles, combination, fallback and concurrent inference of an evaluator matrix.
  \<^item> \<open>Engine\<close>, \<open>EngineProps\<close>, \<open>EngineBounds\<close>: the evaluation of all rules on one event.
  \<^item> \<open>Json\<close>, \<open>JsonProps\<close>: the part of \<^verbatim>\<open>encoding/json\<close> that the code relies on (validity, members in
    order, case-insensitive names, quoting) and its round trips.
  \<^item> \<open>InferGate\<close>, \<open>InferFlight\<close>: inference conditions and points (\<^verbatim>\<open>infer_gate.go\<close>,
    \<^verbatim>\<open>inference_point.go\<close>, \<^verbatim>\<open>upstream_metadata.go\<close>): request, reply, decision, cached results; and concurrent
    evaluations as an inductive step relation, with requests built as the code builds them, answers given by
    the call to the service, and other users of the store that may drop or write cached answers.
  \<^item> \<open>JudgeInput\<close>, \<open>InferBatch\<close>: the text shown to the judge (\<^verbatim>\<open>judge_input.go\<close>, \<^verbatim>\<open>command_ast.go\<close>,
    \<^verbatim>\<open>judge_context.go\<close>) and one inference call for many rules (\<^verbatim>\<open>batch_infer.go\<close>).
  \<^item> \<open>JsonQuote\<close>: encoded objects are read back, whatever the texts in them.
  \<^item> \<open>HookResponse\<close>, \<open>HookReplies\<close>: the capability tables and the responses of every provider, byte for
    byte, and what an agent reads in them (refusals, allows, fail-open notices).
  \<^item> \<open>HookClassify\<close>, \<open>HookProps\<close>: the evidence for a provider and how it is weighed.
  \<^item> \<open>HookSchema\<close>: the fields that an event offers and the checks of a configuration against them.
  \<^item> \<open>GoStruct\<close>, \<open>HookPayload\<close>, \<open>PayloadProps\<close>: decoding of JSON into structs, the payload types of all
    providers (a struct is the list of its tagged members, with one definition per Go type and per method
    \<^verbatim>\<open>Fields\<close>), the transcripts that complete a payload, and the round trip from what an agent encodes to
    what the rules see.
  \<^item> \<open>Diagnostics\<close>, \<open>DiagnosticsProps\<close>: the text of violations, and that it is complete, unambiguous and
    silent about redacted values.
  \<^item> \<open>HookEvaluate\<close>, \<open>HookEvalProps\<close>: one evaluation from the payload to the response, with the locale
    \<open>violation_law\<close> for what holds of every violation, and the properties that span engine, diagnostics and
    response: a refusal is read exactly when an enforcing rule is violated, a matching rule stops the call
    as long as the context of the call has not ended (the loop over the conditions of a rule drops the rule
    then), the evaluation of every classified payload returns, and the audit log agrees.

  \<^bold>\<open>Correspondence.\<close>  A definition has the name of the Go function or type it models; a loop of a
  function is a recursive definition named after it.  A Go method on a pointer takes the state and
  returns it.  An error is the left side of a sum, a missing map entry is \<open>None\<close>, a byte string is a
  list of characters with codes below 256.  Code that is not in the repository or lies outside the
  process is a parameter: the clock (an argument of every call), the file system (\<open>git_fs\<close>,
  \<open>command_env\<close>), the go-git reference store (\<open>git_storer\<close>), the PCRE2 engine, the shell parser
  \<^verbatim>\<open>shelldecomp\<close> (\<open>Command\<close> trees), the TOML decoder, protobuf sizes, validator processes and the
  inference service.  Maps whose iteration order Go leaves open are traversed in an order that is an
  argument, and the theorems hold for each.

  \<^bold>\<open>Bounds and termination.\<close>  Integers that can overflow are reduced by \<open>to_int64\<close> after each
  operation.  Loops over input are structural or have a measure on the bytes that remain; the climb to
  a root directory and the resolution of a state path terminate on the number of bytes of the path.
  Concurrent evaluations have no fuel: completion within nine steps per evaluation is a theorem.

  \<^bold>\<open>What the lemmas show.\<close>  Invariants of the store under every method and of concurrent evaluations
  under every interleaving; functional behaviour of each decision procedure on all its branches;
  round trips of storage, prompts and quoting; equivalence of strict and degraded loads; refinement
  of the store; bounds on messages, capacities and collected matches; and consequences of the code as
  written that differ from its intention (overflow of a TTL, a panic of the leading evaluation, a
  rule silenced by another of its name, the gate of a diff condition, a match cut out of its own line,
  fields that are offered and never filled, verdicts that any client of the daemon can plant, validators
  that outlive the hook when the table of deadlines was refused).

  \<^bold>\<open>Not modelled.\<close>  Reading and writing of files and databases (the audit catalog and its SQLite
  segments, the intake and evaluation stores, the log writers), process and lock management, telemetry
  spans, command line parsing, the installer, the release tools, and the generated protobuf and query
  packages.  They move data between the decision core and the outside, and their behaviour is that of
  the operating system, the database or the service they call.  The handlers of the daemon around an
  evaluation (admission slots, recovery after a restart, deferred evaluation and its replay) are built
  on those stores.  The functions of \<^verbatim>\<open>shellread\<close>, \<^verbatim>\<open>shellwrite\<close> and \<^verbatim>\<open>shellargs\<close> that find the
  targets of a command, and the readers of credentials, walk the syntax trees of third-party parsers and are
  parameters of the engine; so is the search in \<^verbatim>\<open>codex_exec_input.go\<close>.  Trace records of an evaluation are left out of the results: they do
  not influence a decision.  Cancellation of a Go context appears as a step where it changes an answer,
  elsewhere as the error value of the call it stops.
\<close>

end
